(* ===== verification/Prelude.thy ===== *)
theory Prelude
  imports Main "HOL-Library.Multiset"
begin

text \<open>
  Shared ground of the development: the result type for code that can read out of bounds, and
  the model of \<^verbatim>\<open>std::unordered_map\<close> that the lock table and the Raft node use.

  An \<^verbatim>\<open>unordered_map\<close> is an association list whose order is the order in which the container
  is iterated at that moment. The C++ standard leaves that order open and lets an insertion change
  all of it (rehashing), so every operation that inserts takes a \<open>layout\<close>: for the size of the
  container before the insertion, the arrangement of the elements after it. Every theorem is stated
  for all layouts. Updating an element through an iterator and erasing one keep the order of the
  others, as the standard requires.
\<close>

section \<open>Results of code that may read out of bounds\<close>

text \<open>
  Indexing a \<^verbatim>\<open>std::vector\<close> outside its size is undefined behaviour in C++. The model makes it a
  value, so that its absence is a theorem.
\<close>

datatype ub = OutOfBounds

type_synonym 'a result = "ub + 'a"

definition vec_at :: "'a list \<Rightarrow> int \<Rightarrow> 'a result" where
  "vec_at xs i = (if 0 \<le> i \<and> i < int (length xs) then Inr (xs ! nat i) else Inl OutOfBounds)"

definition rbind :: "'e + 'a \<Rightarrow> ('a \<Rightarrow> 'e + 'b) \<Rightarrow> 'e + 'b" where
  "rbind r f = (case r of Inl e \<Rightarrow> Inl e | Inr x \<Rightarrow> f x)"

lemma rbind_simps [simp]: "rbind (Inl e) f = Inl e" "rbind (Inr x) f = f x"
  by (simp_all add: rbind_def)

lemma rbind_InrD: "rbind r f = Inr y \<Longrightarrow> \<exists>x. r = Inr x \<and> f x = Inr y"
  by (cases r) simp_all

lemma vec_at_Inr [simp]: "0 \<le> i \<Longrightarrow> i < int (length xs) \<Longrightarrow> vec_at xs i = Inr (xs ! nat i)"
  by (simp add: vec_at_def)

lemma vec_at_InrD: "vec_at xs i = Inr x \<Longrightarrow> 0 \<le> i \<and> i < int (length xs) \<and> x = xs ! nat i"
  by (auto simp: vec_at_def split: if_splits)

section \<open>gRPC status\<close>

datatype StatusCode = OK | CANCELLED | UNKNOWN | INVALID_ARGUMENT | DEADLINE_EXCEEDED | NOT_FOUND
  | ALREADY_EXISTS | PERMISSION_DENIED | RESOURCE_EXHAUSTED | FAILED_PRECONDITION | ABORTED
  | OUT_OF_RANGE | UNIMPLEMENTED | INTERNAL | UNAVAILABLE | DATA_LOSS | UNAUTHENTICATED

record Status =
  st_code :: StatusCode
  st_message :: string

definition Status_OK :: Status where
  "Status_OK = \<lparr>st_code = OK, st_message = []\<rparr>"

definition status_ok :: "Status \<Rightarrow> bool" where
  "status_ok s = (st_code s = OK)"

section \<open>Unordered maps\<close>

type_synonym ('k, 'v) umap = "('k \<times> 'v) list"

type_synonym layout = "nat \<Rightarrow> nat list"

named_theorems umap_simps

definition reorder :: "nat list \<Rightarrow> 'a list \<Rightarrow> 'a list" where
  "reorder p xs = (if sort p = [0..<length xs] then map (\<lambda>i. xs ! i) p else xs)"

definition um_emplace :: "layout \<Rightarrow> 'k \<Rightarrow> 'v \<Rightarrow> ('k, 'v) umap \<Rightarrow> ('k, 'v) umap" where
  "um_emplace h k v m =
     (if map_of m k = None then reorder (h (length m)) ((k, v) # m) else m)"

definition um_erase :: "'k \<Rightarrow> ('k, 'v) umap \<Rightarrow> ('k, 'v) umap" where
  "um_erase k m = filter (\<lambda>kv. fst kv \<noteq> k) m"

definition um_modify :: "'k \<Rightarrow> ('v \<Rightarrow> 'v) \<Rightarrow> ('k, 'v) umap \<Rightarrow> ('k, 'v) umap" where
  "um_modify k f m = map (\<lambda>(k', v). if k' = k then (k', f v) else (k', v)) m"

definition um_get :: "'v \<Rightarrow> ('k, 'v) umap \<Rightarrow> 'k \<Rightarrow> 'v" where
  "um_get d m k = (case map_of m k of None \<Rightarrow> d | Some v \<Rightarrow> v)"

definition um_assign :: "'k \<Rightarrow> 'v \<Rightarrow> ('k, 'v) umap \<Rightarrow> ('k, 'v) umap" where
  "um_assign k v m = (if map_of m k = None then (k, v) # m else um_modify k (\<lambda>_. v) m)"

definition um_wf :: "('k, 'v) umap \<Rightarrow> bool" where
  "um_wf m \<longleftrightarrow> distinct (map fst m)"

lemma mset_reorder [simp]: "mset (reorder p xs) = mset xs"
proof (cases "sort p = [0..<length xs]")
  case True
  then have "mset p = mset [0..<length xs]" by (metis mset_sort)
  then have "mset (map (\<lambda>i. xs ! i) p) = mset (map (\<lambda>i. xs ! i) [0..<length xs])" by simp
  with True show ?thesis by (simp add: reorder_def map_nth)
qed (simp add: reorder_def)

lemma set_reorder [simp]: "set (reorder p xs) = set xs"
  by (metis mset_reorder set_mset_mset)

lemma length_reorder [simp]: "length (reorder p xs) = length xs"
  by (metis mset_reorder size_mset)

lemma distinct_map_reorder [simp]: "distinct (map f (reorder p xs)) = distinct (map f xs)"
  by (metis mset_map mset_reorder mset_eq_imp_distinct_iff)

lemma map_of_reorder:
  assumes "distinct (map fst xs)"
  shows "map_of (reorder p xs) = map_of xs"
  using assms by (intro map_of_inject_set[THEN iffD2]) simp_all

lemma um_wf_Nil [simp]: "um_wf []"
  by (simp add: um_wf_def)

lemma um_wf_emplace [simp]: "um_wf m \<Longrightarrow> um_wf (um_emplace h k v m)"
  by (auto simp: um_wf_def um_emplace_def map_of_eq_None_iff)

lemma um_wf_erase [simp]: "um_wf m \<Longrightarrow> um_wf (um_erase k m)"
  unfolding um_wf_def um_erase_def by (induction m) auto

lemma map_fst_modify [simp]: "map fst (um_modify k f m) = map fst m"
  by (induction m) (auto simp: um_modify_def)

lemma um_wf_modify [simp]: "um_wf (um_modify k f m) = um_wf m"
  by (simp add: um_wf_def)

lemma length_modify [simp]: "length (um_modify k f m) = length m"
  by (simp add: um_modify_def)

lemma um_wf_assign [simp]: "um_wf m \<Longrightarrow> um_wf (um_assign k v m)"
  by (auto simp: um_assign_def um_wf_def map_of_eq_None_iff)

lemma map_of_emplace [umap_simps]:
  "um_wf m \<Longrightarrow> map_of (um_emplace h k v m) = (if map_of m k = None then (map_of m)(k \<mapsto> v) else map_of m)"
  by (auto simp: um_emplace_def um_wf_def map_of_eq_None_iff map_of_reorder)

lemma map_of_erase [umap_simps]: "map_of (um_erase k m) = (map_of m)(k := None)"
  by (induction m) (auto simp: um_erase_def)

lemma map_of_modify [umap_simps]:
  "map_of (um_modify k f m) = (\<lambda>x. if x = k then map_option f (map_of m k) else map_of m x)"
  by (induction m) (auto simp: um_modify_def)

lemma map_of_assign [umap_simps]: "map_of (um_assign k v m) = (map_of m)(k \<mapsto> v)"
  by (auto simp: um_assign_def map_of_modify)

lemma um_get_assign [simp]: "um_get d (um_assign k v m) x = (if x = k then v else um_get d m x)"
  by (simp add: um_get_def map_of_assign)

lemma set_emplace_new: "map_of m k = None \<Longrightarrow> set (um_emplace h k v m) = insert (k, v) (set m)"
  by (simp add: um_emplace_def)

lemma in_set_map_of: "um_wf m \<Longrightarrow> (k, v) \<in> set m \<longleftrightarrow> map_of m k = Some v"
  by (simp add: um_wf_def)

lemma length_erase: "um_wf m \<Longrightarrow> map_of m k \<noteq> None \<Longrightarrow> Suc (length (um_erase k m)) = length m"
proof (induction m)
  case (Cons x m)
  then show ?case
  proof (cases "fst x = k")
    case True
    with Cons.prems have "k \<notin> fst ` set m" by (auto simp: um_wf_def)
    then have "um_erase k m = m" unfolding um_erase_def by (intro filter_True) force
    with True show ?thesis by (simp add: um_erase_def)
  qed (auto simp: um_wf_def um_erase_def)
qed simp

lemma length_emplace_new: "map_of m k = None \<Longrightarrow> length (um_emplace h k v m) = Suc (length m)"
  by (simp add: um_emplace_def)


section \<open>Invariants of step relations\<close>

text \<open>
  The contract between a step relation and an invariant; the concurrent models interpret it and take
  the reachability theorem from it.
\<close>

locale inductive_invariant =
  fixes start :: "'s \<Rightarrow> bool" and step :: "'s \<Rightarrow> 's \<Rightarrow> bool" and invar :: "'s \<Rightarrow> bool"
  assumes start_invar: "start s \<Longrightarrow> invar s"
    and step_invar: "invar s \<Longrightarrow> step s s' \<Longrightarrow> invar s'"
begin

lemma reachable_invar: "start s \<Longrightarrow> step\<^sup>*\<^sup>* s s' \<Longrightarrow> invar s'"
  by (rotate_tac, induction rule: rtranclp_induct) (auto intro: start_invar step_invar)

lemma steps_invar: "invar s \<Longrightarrow> step\<^sup>*\<^sup>* s s' \<Longrightarrow> invar s'"
  by (rotate_tac, induction rule: rtranclp_induct) (auto intro: step_invar)

end

end
