(* ===== verification/Floats.thy ===== *)
theory Floats
  imports Complex_Main Prelude
begin

text \<open>
  The floating-point values the lock table computes with (\<^verbatim>\<open>float\<close> embeddings and thresholds,
  \<^verbatim>\<open>double\<close> accumulators). A value is NaN, an infinity or a finite real. C++ leaves the precision
  of the operations to the implementation, so rounding is a parameter: an \<open>fpu\<close> holds the rounding
  to \<^verbatim>\<open>double\<close> that every arithmetic operation ends with, and the rounding to \<^verbatim>\<open>float\<close> of a
  \<^verbatim>\<open>static_cast<float>\<close>. Comparisons are false on NaN, as in IEEE 754, and \<^verbatim>\<open>std::min\<close>/\<^verbatim>\<open>std::max\<close>
  are the comparisons the standard specifies. The two zeros are one value; the code reads a zero's
  sign nowhere.
\<close>

section \<open>Values and comparisons\<close>

datatype fl = NaN | PInf | MInf | Fin real

fun fl_less :: "fl \<Rightarrow> fl \<Rightarrow> bool" where
  "fl_less NaN _ = False"
| "fl_less _ NaN = False"
| "fl_less (Fin x) (Fin y) = (x < y)"
| "fl_less MInf MInf = False"
| "fl_less MInf _ = True"
| "fl_less _ MInf = False"
| "fl_less PInf _ = False"
| "fl_less (Fin _) PInf = True"

definition fl_le :: "fl \<Rightarrow> fl \<Rightarrow> bool" where
  "fl_le x y \<longleftrightarrow> x \<noteq> NaN \<and> y \<noteq> NaN \<and> \<not> fl_less y x"

definition fl_min :: "fl \<Rightarrow> fl \<Rightarrow> fl" where
  "fl_min a b = (if fl_less b a then b else a)"

definition fl_max :: "fl \<Rightarrow> fl \<Rightarrow> fl" where
  "fl_max a b = (if fl_less a b then b else a)"

lemma fl_le_NaN [simp]: "\<not> fl_le NaN x" "\<not> fl_le x NaN"
  by (simp_all add: fl_le_def)

lemma fl_le_Fin [simp]: "fl_le (Fin x) (Fin y) = (x \<le> y)"
  by (auto simp: fl_le_def)

lemma fl_le_refl: "x \<noteq> NaN \<Longrightarrow> fl_le x x"
  by (cases x) (auto simp: fl_le_def)

lemma fl_le_trans: "fl_le x y \<Longrightarrow> fl_le y z \<Longrightarrow> fl_le x z"
  by (cases x; cases y; cases z) (auto simp: fl_le_def)

lemma fl_le_total: "x \<noteq> NaN \<Longrightarrow> y \<noteq> NaN \<Longrightarrow> fl_le x y \<or> fl_le y x"
  by (cases x; cases y) (auto simp: fl_le_def)

lemma fl_le_antisym: "fl_le x y \<Longrightarrow> fl_le y x \<Longrightarrow> x = y"
  by (cases x; cases y) (auto simp: fl_le_def)

section \<open>Arithmetic\<close>

record fpu =
  rnd_double :: "real \<Rightarrow> fl"
  rnd_float :: "real \<Rightarrow> fl"

fun fl_neg :: "fl \<Rightarrow> bool" where
  "fl_neg MInf = True"
| "fl_neg (Fin x) = (x < 0)"
| "fl_neg _ = False"

fun fl_add :: "fpu \<Rightarrow> fl \<Rightarrow> fl \<Rightarrow> fl" where
  "fl_add F (Fin x) (Fin y) = rnd_double F (x + y)"
| "fl_add F NaN _ = NaN"
| "fl_add F _ NaN = NaN"
| "fl_add F PInf MInf = NaN"
| "fl_add F MInf PInf = NaN"
| "fl_add F PInf _ = PInf"
| "fl_add F _ PInf = PInf"
| "fl_add F MInf _ = MInf"
| "fl_add F _ MInf = MInf"

definition fl_inf_product :: "fl \<Rightarrow> fl \<Rightarrow> fl" where
  "fl_inf_product x y = (if fl_neg x = fl_neg y then PInf else MInf)"

definition fl_mul :: "fpu \<Rightarrow> fl \<Rightarrow> fl \<Rightarrow> fl" where
  "fl_mul F x y =
     (case (x, y) of
        (NaN, _) \<Rightarrow> NaN
      | (_, NaN) \<Rightarrow> NaN
      | (Fin a, Fin b) \<Rightarrow> rnd_double F (a * b)
      | _ \<Rightarrow> if x = Fin 0 \<or> y = Fin 0 then NaN else fl_inf_product x y)"

definition fl_div :: "fpu \<Rightarrow> fl \<Rightarrow> fl \<Rightarrow> fl" where
  "fl_div F x y =
     (case (x, y) of
        (NaN, _) \<Rightarrow> NaN
      | (_, NaN) \<Rightarrow> NaN
      | (Fin a, Fin b) \<Rightarrow>
          if b = 0 then (if a = 0 then NaN else if a < 0 then MInf else PInf) else rnd_double F (a / b)
      | (Fin _, _) \<Rightarrow> Fin 0
      | (_, Fin b) \<Rightarrow> fl_inf_product x y
      | _ \<Rightarrow> NaN)"

fun fl_sqrt :: "fpu \<Rightarrow> fl \<Rightarrow> fl" where
  "fl_sqrt F NaN = NaN"
| "fl_sqrt F MInf = NaN"
| "fl_sqrt F PInf = PInf"
| "fl_sqrt F (Fin x) = (if x < 0 then NaN else rnd_double F (sqrt x))"

fun to_float :: "fpu \<Rightarrow> fl \<Rightarrow> fl" where
  "to_float F (Fin x) = rnd_float F x"
| "to_float F y = y"

text \<open>Rounding-free arithmetic, the instance the examples compute with.\<close>

definition exact_fpu :: fpu where
  "exact_fpu = \<lparr>rnd_double = Fin, rnd_float = Fin\<rparr>"

text \<open>
  What IEEE 754 rounding to \<^verbatim>\<open>float\<close> promises and the code relies on: rounding is monotone and
  1 and -1 are representable, so a value of the unit interval stays in it.
\<close>

definition float_rounding :: "fpu \<Rightarrow> bool" where
  "float_rounding F \<longleftrightarrow> (\<forall>x. \<bar>x\<bar> \<le> 1 \<longrightarrow> (\<exists>y. rnd_float F x = Fin y \<and> \<bar>y\<bar> \<le> 1))"

lemma float_rounding_exact: "float_rounding exact_fpu"
  by (simp add: float_rounding_def exact_fpu_def)

lemma fl_mul_commute: "fl_mul F x y = fl_mul F y x"
  by (cases x; cases y) (auto simp: fl_mul_def fl_inf_product_def mult.commute)

lemma fl_min_one_not_NaN: "fl_min (Fin 1) x \<noteq> NaN"
  by (cases x) (auto simp: fl_min_def)

text \<open>
  Clamping with \<^verbatim>\<open>std::max(-1.0, std::min(1.0, x))\<close> gives a finite value of the unit interval
  for every \<open>x\<close>; for NaN it gives 1, because every comparison with NaN is false.
\<close>

lemma clamp_unit: "\<exists>y. fl_max (Fin (-1)) (fl_min (Fin 1) x) = Fin y \<and> \<bar>y\<bar> \<le> 1"
  by (cases x) (auto simp: fl_max_def fl_min_def)

lemma clamp_NaN: "fl_max (Fin (-1)) (fl_min (Fin 1) NaN) = Fin 1"
  by (simp add: fl_max_def fl_min_def)

end
