(* ===== verification/ActiveLockTable.thy ===== *)
theory ActiveLockTable
  imports Floats "HOL-Library.Char_ord" "HOL-Library.List_Lexorder"
begin

text \<open>
  The semantic lock table (\<^verbatim>\<open>src/active_lock_table.{h,cpp}\<close>): its data, the similarity primitive,
  and one definition per member function. The table owns the map \<^verbatim>\<open>active_\<close> and the flag
  \<^verbatim>\<open>sweep_in_progress_\<close>. Wait-queue entries are shared objects (\<^verbatim>\<open>shared_ptr\<close>) that a queue and
  the blocked thread both see, so they live in a store \<open>waiter_heap\<close> and a pointer is a position
  in it; \<^verbatim>\<open>make_shared\<close> appends. A \<^verbatim>\<open>SemanticLock*\<close> into the map is the key of its element.
  Every function that holds the mutex for its whole body is one state transformer; the two blocking
  functions are split at the points where the condition variable releases the mutex.
\<close>

section \<open>Data\<close>

record WaitQueueEntry =
  wq_waiting_agent_id :: string
  wq_embedding :: "fl list"
  wq_theta :: fl
  wq_ready :: bool
  wq_granted :: bool
  wq_queue_hops :: nat

record SemanticLock =
  sl_agent_id :: string
  sl_centroid :: "fl list"
  sl_threshold :: fl
  sl_pending :: bool
  sl_waiters :: "nat list"

record AcquireTrace =
  tr_waited :: bool
  tr_blocking_similarity_score :: fl
  tr_blocking_agent_id :: string
  tr_wait_position :: nat
  tr_wake_count :: nat
  tr_queue_hops :: nat

definition new_AcquireTrace :: AcquireTrace where
  "new_AcquireTrace = \<lparr>tr_waited = False, tr_blocking_similarity_score = Fin 0,
     tr_blocking_agent_id = [], tr_wait_position = 0, tr_wake_count = 0, tr_queue_hops = 0\<rparr>"

record ConflictTrace =
  ct_lock :: "string option"
  ct_similarity :: fl

record ActiveLockTable =
  active :: "(string, SemanticLock) umap"
  sweep_in_progress :: bool
  waiter_heap :: "WaitQueueEntry list"

definition new_ActiveLockTable :: ActiveLockTable where
  "new_ActiveLockTable = \<lparr>active = [], sweep_in_progress = False, waiter_heap = []\<rparr>"

section \<open>Similarity and conflicts\<close>

fun cosine_loop :: "fpu \<Rightarrow> fl list \<Rightarrow> fl list \<Rightarrow> fl \<Rightarrow> fl \<Rightarrow> fl \<Rightarrow> fl \<times> fl \<times> fl" where
  "cosine_loop F (x # xs) (y # ys) dot norm_a norm_b =
     cosine_loop F xs ys (fl_add F dot (fl_mul F x y))
       (fl_add F norm_a (fl_mul F x x)) (fl_add F norm_b (fl_mul F y y))"
| "cosine_loop F _ _ dot norm_a norm_b = (dot, norm_a, norm_b)"

definition cosine_similarity :: "fpu \<Rightarrow> fl list \<Rightarrow> fl list \<Rightarrow> fl" where
  "cosine_similarity F a b =
     (if a = [] \<or> b = [] \<or> length a \<noteq> length b then Fin 0
      else let (dot, norm_a, norm_b) = cosine_loop F a b (Fin 0) (Fin 0) (Fin 0) in
        if fl_le norm_a (Fin 0) \<or> fl_le norm_b (Fin 0) then Fin 0
        else let similarity = fl_div F dot (fl_mul F (fl_sqrt F norm_a) (fl_sqrt F norm_b));
                 clamped = fl_max (Fin (-1)) (fl_min (Fin 1) similarity)
             in to_float F clamped)"

fun find_conflict_loop ::
  "fpu \<Rightarrow> fl list \<Rightarrow> fl \<Rightarrow> (string, SemanticLock) umap \<Rightarrow> ConflictTrace \<Rightarrow> ConflictTrace" where
  "find_conflict_loop F embedding threshold [] best = best"
| "find_conflict_loop F embedding threshold ((agent_id, entry) # rest) best =
     (let similarity = cosine_similarity F embedding (sl_centroid entry) in
      find_conflict_loop F embedding threshold rest
        (if fl_le threshold similarity
            \<and> (ct_lock best = None \<or> fl_le (ct_similarity best) similarity)
         then \<lparr>ct_lock = Some agent_id, ct_similarity = similarity\<rparr> else best))"

definition find_conflict_locked :: "fpu \<Rightarrow> fl list \<Rightarrow> fl \<Rightarrow> ActiveLockTable \<Rightarrow> ConflictTrace" where
  "find_conflict_locked F embedding threshold t =
     find_conflict_loop F embedding threshold (active t) \<lparr>ct_lock = None, ct_similarity = Fin 0\<rparr>"

section \<open>Operations under the mutex\<close>

definition apply_acquire_locked ::
  "layout \<Rightarrow> string \<Rightarrow> fl list \<Rightarrow> fl \<Rightarrow> ActiveLockTable \<Rightarrow> ActiveLockTable" where
  "apply_acquire_locked h agent_id embedding threshold t =
     (case map_of (active t) agent_id of
        Some _ \<Rightarrow> t\<lparr>active := um_modify agent_id
          (\<lambda>l. l\<lparr>sl_centroid := embedding, sl_threshold := threshold, sl_pending := False\<rparr>) (active t)\<rparr>
      | None \<Rightarrow> t\<lparr>active := um_emplace h agent_id
          \<lparr>sl_agent_id = agent_id, sl_centroid = embedding, sl_threshold = threshold,
           sl_pending = False, sl_waiters = []\<rparr> (active t)\<rparr>)"

definition insert_pending_locked ::
  "layout \<Rightarrow> string \<Rightarrow> fl list \<Rightarrow> fl \<Rightarrow> ActiveLockTable \<Rightarrow> ActiveLockTable" where
  "insert_pending_locked h agent_id embedding threshold t =
     (case map_of (active t) agent_id of
        Some _ \<Rightarrow> t\<lparr>active := um_modify agent_id
          (\<lambda>l. l\<lparr>sl_centroid := embedding, sl_threshold := threshold\<rparr>) (active t)\<rparr>
      | None \<Rightarrow> t\<lparr>active := um_emplace h agent_id
          \<lparr>sl_agent_id = agent_id, sl_centroid = embedding, sl_threshold = threshold,
           sl_pending = True, sl_waiters = []\<rparr> (active t)\<rparr>)"

definition remove_lock_locked :: "string \<Rightarrow> ActiveLockTable \<Rightarrow> nat list \<times> bool \<times> ActiveLockTable" where
  "remove_lock_locked agent_id t =
     (case map_of (active t) agent_id of
        None \<Rightarrow> ([], False, t)
      | Some l \<Rightarrow> (sl_waiters l, True, t\<lparr>active := um_erase agent_id (active t)\<rparr>))"

definition push_waiter :: "string \<Rightarrow> nat \<Rightarrow> ActiveLockTable \<Rightarrow> ActiveLockTable" where
  "push_waiter k w t =
     t\<lparr>active := um_modify k (\<lambda>l. l\<lparr>sl_waiters := sl_waiters l @ [w]\<rparr>) (active t)\<rparr>"

definition requeue_waiter :: "string \<Rightarrow> nat \<Rightarrow> ActiveLockTable \<Rightarrow> ActiveLockTable" where
  "requeue_waiter k w t =
     (let waiter = waiter_heap t ! w in
      push_waiter k w (t\<lparr>waiter_heap := (waiter_heap t)[w := waiter\<lparr>wq_ready := False,
        wq_granted := False, wq_queue_hops := Suc (wq_queue_hops waiter)\<rparr>]\<rparr>))"

definition grant_waiter :: "layout \<Rightarrow> nat \<Rightarrow> ActiveLockTable \<Rightarrow> ActiveLockTable" where
  "grant_waiter h w t =
     (let waiter = waiter_heap t ! w;
          t' = insert_pending_locked h (wq_waiting_agent_id waiter) (wq_embedding waiter)
                 (wq_theta waiter) t
      in t'\<lparr>waiter_heap := (waiter_heap t')[w := waiter\<lparr>wq_granted := True, wq_ready := True\<rparr>]\<rparr>)"

fun rebalance_waiters_locked ::
  "fpu \<Rightarrow> layout \<Rightarrow> nat list \<Rightarrow> ActiveLockTable \<Rightarrow> nat list \<Rightarrow> ActiveLockTable \<times> nat list" where
  "rebalance_waiters_locked F h [] t granted_waiters = (t, granted_waiters)"
| "rebalance_waiters_locked F h (w # waiters) t granted_waiters =
     (let waiter = waiter_heap t ! w;
          conflict = find_conflict_locked F (wq_embedding waiter) (wq_theta waiter) t
      in case ct_lock conflict of
           Some k \<Rightarrow> rebalance_waiters_locked F h waiters (requeue_waiter k w t) granted_waiters
         | None \<Rightarrow> rebalance_waiters_locked F h waiters (grant_waiter h w t) (granted_waiters @ [w]))"

section \<open>Public operations that do not block\<close>

text \<open>
  A releasing operation returns the entries it notifies once the mutex is free.
\<close>

definition remove_pending ::
  "fpu \<Rightarrow> layout \<Rightarrow> string \<Rightarrow> ActiveLockTable \<Rightarrow> ActiveLockTable \<times> nat list" where
  "remove_pending F h agent_id t =
     (case map_of (active t) agent_id of
        None \<Rightarrow> (t, [])
      | Some l \<Rightarrow>
          if \<not> sl_pending l then (t, [])
          else rebalance_waiters_locked F h (sl_waiters l)
                 (t\<lparr>active := um_erase agent_id (active t)\<rparr>) [])"

definition release ::
  "fpu \<Rightarrow> layout \<Rightarrow> string \<Rightarrow> ActiveLockTable \<Rightarrow> ActiveLockTable \<times> nat list" where
  "release F h agent_id t =
     (let (waiters, removed, t') = remove_lock_locked agent_id t in
      if \<not> removed then (t, []) else rebalance_waiters_locked F h waiters t' [])"

definition apply_acquire ::
  "layout \<Rightarrow> string \<Rightarrow> fl list \<Rightarrow> fl \<Rightarrow> ActiveLockTable \<Rightarrow> ActiveLockTable" where
  "apply_acquire h agent_id embedding threshold t = apply_acquire_locked h agent_id embedding threshold t"

definition apply_release ::
  "fpu \<Rightarrow> layout \<Rightarrow> string \<Rightarrow> ActiveLockTable \<Rightarrow> ActiveLockTable \<times> nat list" where
  "apply_release F h agent_id t = release F h agent_id t"

definition active_count :: "ActiveLockTable \<Rightarrow> nat" where
  "active_count t = length (active t)"

definition table_size :: "ActiveLockTable \<Rightarrow> nat" where
  "table_size t = active_count t"

definition active_agent_ids :: "ActiveLockTable \<Rightarrow> string list" where
  "active_agent_ids t = sort (map fst (active t))"

definition begin_leader_sweep :: "ActiveLockTable \<Rightarrow> ActiveLockTable \<times> string list" where
  "begin_leader_sweep t = (t\<lparr>sweep_in_progress := True\<rparr>, map fst (active t))"

definition end_leader_sweep :: "ActiveLockTable \<Rightarrow> ActiveLockTable" where
  "end_leader_sweep t = t\<lparr>sweep_in_progress := False\<rparr>"

fun join_ids :: "string list \<Rightarrow> string" where
  "join_ids [] = []"
| "join_ids [x] = x"
| "join_ids (x # xs) = x @ '', '' @ join_ids xs"

definition print_active_locks :: "ActiveLockTable \<Rightarrow> string" where
  "print_active_locks t = ''ActiveLocks: ['' @ join_ids (active_agent_ids t) @ '']''"

section \<open>Blocking operations\<close>

text \<open>
  One pass of the loop in \<^verbatim>\<open>acquire\<close> or \<^verbatim>\<open>wait_for_admission\<close>, from \<^verbatim>\<open>find_conflict_locked\<close>
  to the wait: either the request takes its slot (\<open>Admitted\<close>) or a fresh entry is queued behind the
  most similar conflicting lock and the thread parks on it (\<open>Parked\<close>). The two functions differ in
  how the slot is taken.
\<close>

datatype wait_result = Admitted | Parked nat

definition wait_iteration ::
  "(string \<Rightarrow> fl list \<Rightarrow> fl \<Rightarrow> ActiveLockTable \<Rightarrow> ActiveLockTable) \<Rightarrow> fpu \<Rightarrow> string \<Rightarrow> fl list \<Rightarrow> fl
   \<Rightarrow> ActiveLockTable \<Rightarrow> AcquireTrace \<Rightarrow> ActiveLockTable \<times> AcquireTrace \<times> wait_result" where
  "wait_iteration take_slot F agent_id embedding threshold t trace =
     (let conflict = find_conflict_locked F embedding threshold t in
      case ct_lock conflict of
        None \<Rightarrow> (take_slot agent_id embedding threshold t, trace, Admitted)
      | Some k \<Rightarrow>
          let w = length (waiter_heap t);
              waiter = \<lparr>wq_waiting_agent_id = agent_id, wq_embedding = embedding,
                wq_theta = threshold, wq_ready = False, wq_granted = False, wq_queue_hops = 0\<rparr>;
              t' = push_waiter k w (t\<lparr>waiter_heap := waiter_heap t @ [waiter]\<rparr>);
              lock = the (map_of (active t') k);
              trace1 = trace\<lparr>tr_waited := True\<rparr>;
              trace2 = (if fl_le (tr_blocking_similarity_score trace1) (ct_similarity conflict)
                then trace1\<lparr>tr_blocking_similarity_score := ct_similarity conflict,
                            tr_blocking_agent_id := sl_agent_id lock\<rparr> else trace1);
              trace3 = (if tr_wait_position trace2 = 0
                then trace2\<lparr>tr_wait_position := length (sl_waiters lock)\<rparr> else trace2)
          in (t', trace3, Parked w))"

definition acquire_iteration where
  "acquire_iteration F h = wait_iteration (apply_acquire_locked h) F"

definition admission_iteration where
  "admission_iteration F h = wait_iteration (insert_pending_locked h) F"

text \<open>
  What the parked thread does once its entry's \<^verbatim>\<open>ready\<close> flag lets \<^verbatim>\<open>cv->wait\<close> return: it resets
  the flag, counts the wake-up and learns whether the releaser transferred ownership.
\<close>

definition after_wake ::
  "nat \<Rightarrow> ActiveLockTable \<Rightarrow> AcquireTrace \<Rightarrow> ActiveLockTable \<times> AcquireTrace \<times> bool" where
  "after_wake w t trace =
     (let waiter = waiter_heap t ! w in
      (t\<lparr>waiter_heap := (waiter_heap t)[w := waiter\<lparr>wq_ready := False\<rparr>]\<rparr>,
       trace\<lparr>tr_wake_count := Suc (tr_wake_count trace), tr_queue_hops := wq_queue_hops waiter\<rparr>,
       wq_granted waiter))"

text \<open>
  The whole blocking call, run against an environment: each element of \<open>envs\<close> is what the other
  threads do to the table while this one is parked. \<open>None\<close> means the call is still blocked when
  the environment ends.
\<close>

fun wait_loop ::
  "(ActiveLockTable \<Rightarrow> AcquireTrace \<Rightarrow> ActiveLockTable \<times> AcquireTrace \<times> wait_result)
   \<Rightarrow> (ActiveLockTable \<Rightarrow> ActiveLockTable) list \<Rightarrow> ActiveLockTable \<Rightarrow> AcquireTrace
   \<Rightarrow> (ActiveLockTable \<times> AcquireTrace) option" where
  "wait_loop iter envs t trace =
     (case iter t trace of
        (t', trace', Admitted) \<Rightarrow> Some (t', trace')
      | (t', trace', Parked w) \<Rightarrow>
          (case envs of
             [] \<Rightarrow> None
           | env # envs' \<Rightarrow>
               if \<not> wq_ready (waiter_heap (env t') ! w) then None
               else (case after_wake w (env t') trace' of
                       (t'', trace'', granted) \<Rightarrow>
                         if granted then Some (t'', trace'') else wait_loop iter envs' t'' trace'')))"

definition acquire ::
  "fpu \<Rightarrow> layout \<Rightarrow> (ActiveLockTable \<Rightarrow> ActiveLockTable) list \<Rightarrow> string \<Rightarrow> fl list \<Rightarrow> fl
   \<Rightarrow> ActiveLockTable \<Rightarrow> (ActiveLockTable \<times> AcquireTrace) option" where
  "acquire F h envs agent_id embedding threshold t =
     wait_loop (acquire_iteration F h agent_id embedding threshold) envs t new_AcquireTrace"

definition wait_for_admission ::
  "fpu \<Rightarrow> layout \<Rightarrow> (ActiveLockTable \<Rightarrow> ActiveLockTable) \<Rightarrow> (ActiveLockTable \<Rightarrow> ActiveLockTable) list
   \<Rightarrow> string \<Rightarrow> fl list \<Rightarrow> fl \<Rightarrow> ActiveLockTable \<Rightarrow> (ActiveLockTable \<times> AcquireTrace) option" where
  "wait_for_admission F h sweep_env envs agent_id embedding threshold t =
     (let t0 = (if sweep_in_progress t then sweep_env t else t) in
      if sweep_in_progress t0 then None
      else wait_loop (admission_iteration F h agent_id embedding threshold) envs t0 new_AcquireTrace)"

end
