(* ===== verification/LockTableLaws.thy ===== *)
theory LockTableLaws
  imports ActiveLockTable
begin

text \<open>
  Laws of the lock table's operations: the similarity primitive, what \<open>find_conflict_locked\<close>
  selects, the well-formedness of a table and that every operation keeps it, conservation of
  waiters across rebalancing, and pairwise exclusion of the locks a table holds.
\<close>

declare wait_loop.simps [simp del]

named_theorems table_simps

section \<open>Similarity\<close>

lemma cosine_loop_swap:
  assumes "cosine_loop F a b d na nb = (d', na', nb')"
  shows "cosine_loop F b a d nb na = (d', nb', na')"
  using assms
proof (induction F a b d na nb rule: cosine_loop.induct)
  case (1 F x xs y ys dot norm_a norm_b)
  then show ?case by (simp add: fl_mul_commute[of F y x])
qed auto

lemma cosine_similarity_sym: "cosine_similarity F a b = cosine_similarity F b a"
proof -
  obtain d na nb where l: "cosine_loop F a b (Fin 0) (Fin 0) (Fin 0) = (d, na, nb)"
    by (metis prod_cases3)
  then have "cosine_loop F b a (Fin 0) (Fin 0) (Fin 0) = (d, nb, na)"
    by (rule cosine_loop_swap)
  with l show ?thesis
    by (auto simp: cosine_similarity_def Let_def fl_mul_commute)
qed

lemma to_float_unit:
  assumes "float_rounding F"
  shows "\<exists>y. to_float F (fl_max (Fin (-1)) (fl_min (Fin 1) x)) = Fin y \<and> \<bar>y\<bar> \<le> 1"
proof -
  obtain y where "fl_max (Fin (-1)) (fl_min (Fin 1) x) = Fin y" "\<bar>y\<bar> \<le> 1"
    using clamp_unit by blast
  with assms show ?thesis by (auto simp: float_rounding_def)
qed

lemma cosine_similarity_unit:
  "float_rounding F \<Longrightarrow> \<exists>y. cosine_similarity F a b = Fin y \<and> \<bar>y\<bar> \<le> 1"
  by (auto simp: cosine_similarity_def Let_def to_float_unit split: prod.splits)

section \<open>Conflict search\<close>

definition conflicts :: "fpu \<Rightarrow> fl list \<Rightarrow> fl \<Rightarrow> SemanticLock \<Rightarrow> bool" where
  "conflicts F e th l \<longleftrightarrow> fl_le th (cosine_similarity F e (sl_centroid l))"

definition best_among :: "fpu \<Rightarrow> fl list \<Rightarrow> fl \<Rightarrow> (string, SemanticLock) umap \<Rightarrow> ConflictTrace \<Rightarrow> bool" where
  "best_among F e th m c \<longleftrightarrow>
     (case ct_lock c of
        None \<Rightarrow> (\<forall>(k, l)\<in>set m. \<not> conflicts F e th l)
      | Some k \<Rightarrow> (\<exists>l. (k, l) \<in> set m \<and> conflicts F e th l
                      \<and> ct_similarity c = cosine_similarity F e (sl_centroid l))
                \<and> (\<forall>(k', l)\<in>set m. conflicts F e th l
                      \<longrightarrow> fl_le (cosine_similarity F e (sl_centroid l)) (ct_similarity c)))"

lemma best_among_step:
  assumes "best_among F e th seen best"
  shows "best_among F e th (seen @ [(k, l)])
    (if fl_le th (cosine_similarity F e (sl_centroid l))
        \<and> (ct_lock best = None \<or> fl_le (ct_similarity best) (cosine_similarity F e (sl_centroid l)))
     then \<lparr>ct_lock = Some k, ct_similarity = cosine_similarity F e (sl_centroid l)\<rparr> else best)"
proof (cases "fl_le th (cosine_similarity F e (sl_centroid l))")
  case False
  with assms show ?thesis
    by (auto simp: best_among_def conflicts_def split: option.splits)
next
  case conf: True
  let ?s = "cosine_similarity F e (sl_centroid l)"
  have nn: "?s \<noteq> NaN" using conf by auto
  show ?thesis
  proof (cases "ct_lock best")
    case None
    with assms conf show ?thesis
      by (auto simp: best_among_def conflicts_def fl_le_refl[OF nn])
  next
    case (Some b)
    with assms have bn: "ct_similarity best \<noteq> NaN"
      by (auto simp: best_among_def conflicts_def)
    show ?thesis
    proof (cases "fl_le (ct_similarity best) ?s")
      case True
      with assms Some conf show ?thesis
        by (auto simp: best_among_def conflicts_def fl_le_refl[OF nn] dest: fl_le_trans)
    next
      case False
      with fl_le_total[OF bn nn] have "fl_le ?s (ct_similarity best)" by simp
      with assms Some conf False show ?thesis
        by (auto simp: best_among_def conflicts_def)
    qed
  qed
qed

lemma find_conflict_loop_best:
  "best_among F e th seen best \<Longrightarrow> best_among F e th (seen @ m) (find_conflict_loop F e th m best)"
proof (induction m arbitrary: seen best)
  case (Cons kl m)
  obtain k l where kl: "kl = (k, l)" by (cases kl)
  show ?case
    using Cons.IH[OF best_among_step[OF Cons.prems, of k l]] kl by (simp add: Let_def)
qed simp

lemma find_conflict_best: "best_among F e th (active t) (find_conflict_locked F e th t)"
  using find_conflict_loop_best[of F e th "[]" "\<lparr>ct_lock = None, ct_similarity = Fin 0\<rparr>" "active t"]
  by (simp add: find_conflict_locked_def best_among_def)

lemma find_conflict_None_iff:
  "ct_lock (find_conflict_locked F e th t) = None \<longleftrightarrow> (\<forall>(k, l)\<in>set (active t). \<not> conflicts F e th l)"
  using find_conflict_best[of F e th t] by (fastforce simp: best_among_def split: option.splits)

lemma find_conflict_SomeD:
  assumes "ct_lock (find_conflict_locked F e th t) = Some k"
  obtains l where "(k, l) \<in> set (active t)" "conflicts F e th l"
    "ct_similarity (find_conflict_locked F e th t) = cosine_similarity F e (sl_centroid l)"
  using find_conflict_best[of F e th t] assms by (auto simp: best_among_def)

lemma find_conflict_heap [simp]:
  "find_conflict_locked F e th (t\<lparr>waiter_heap := hp\<rparr>) = find_conflict_locked F e th t"
  by (simp add: find_conflict_locked_def)

section \<open>Queues\<close>

definition queued :: "ActiveLockTable \<Rightarrow> nat list" where
  "queued t = concat (map (\<lambda>kl. sl_waiters (snd kl)) (active t))"

lemma mset_concat_reorder: "mset (concat (map f (reorder p xs))) = mset (concat (map f xs))"
proof -
  have "mset (map f (reorder p xs)) = mset (map f xs)" by simp
  then show ?thesis by (metis mset_concat mset_map sum_mset_sum_list)
qed

lemma mset_queued_emplace:
  assumes "map_of m k = None" "sl_waiters l = []"
  shows "mset (concat (map (\<lambda>kl. sl_waiters (snd kl)) (um_emplace h k l m)))
       = mset (concat (map (\<lambda>kl. sl_waiters (snd kl)) m))"
  using assms by (simp add: um_emplace_def mset_concat_reorder)

lemma queued_modify_same:
  assumes "\<And>l. sl_waiters (f l) = sl_waiters l"
  shows "concat (map (\<lambda>kl. sl_waiters (snd kl)) (um_modify k f m))
       = concat (map (\<lambda>kl. sl_waiters (snd kl)) m)"
  using assms by (induction m) (auto simp: um_modify_def)

lemma queued_modify_notin: "k \<notin> fst ` set m \<Longrightarrow> um_modify k f m = m"
  by (induction m) (auto simp: um_modify_def)

lemma mset_queued_push:
  assumes "um_wf m" "map_of m k \<noteq> None"
  shows "mset (concat (map (\<lambda>kl. sl_waiters (snd kl))
            (um_modify k (\<lambda>l. l\<lparr>sl_waiters := sl_waiters l @ [w]\<rparr>) m)))
       = add_mset w (mset (concat (map (\<lambda>kl. sl_waiters (snd kl)) m)))"
  using assms
proof (induction m)
  case (Cons kl m)
  obtain k' l where kl: "kl = (k', l)" by (cases kl)
  show ?case
  proof (cases "k' = k")
    case True
    with Cons.prems kl have "k \<notin> fst ` set m" by (auto simp: um_wf_def)
    then have "um_modify k (\<lambda>l. l\<lparr>sl_waiters := sl_waiters l @ [w]\<rparr>) m = m"
      by (rule queued_modify_notin)
    with True kl show ?thesis by (simp add: um_modify_def)
  next
    case False
    with Cons kl show ?thesis by (auto simp: um_wf_def um_modify_def)
  qed
qed simp

lemma mset_queued_erase:
  assumes "um_wf m" "map_of m k = Some l"
  shows "mset (concat (map (\<lambda>kl. sl_waiters (snd kl)) (um_erase k m))) + mset (sl_waiters l)
       = mset (concat (map (\<lambda>kl. sl_waiters (snd kl)) m))"
  using assms
proof (induction m)
  case (Cons kl m)
  obtain k' l' where kl: "kl = (k', l')" by (cases kl)
  show ?case
  proof (cases "k' = k")
    case True
    with Cons.prems kl have "k \<notin> fst ` set m" by (auto simp: um_wf_def)
    then have "um_erase k m = m" unfolding um_erase_def by (intro filter_True) force
    with True kl Cons.prems show ?thesis by (simp add: um_erase_def)
  next
    case False
    with Cons kl show ?thesis by (auto simp: um_wf_def um_erase_def)
  qed
qed simp


section \<open>What each operation does to the map and to the store\<close>

lemma lookup_insert_pending [table_simps]:
  "um_wf (active t) \<Longrightarrow> map_of (active (insert_pending_locked h a e th t)) =
     (map_of (active t))(a \<mapsto> (case map_of (active t) a of
        None \<Rightarrow> \<lparr>sl_agent_id = a, sl_centroid = e, sl_threshold = th, sl_pending = True, sl_waiters = []\<rparr>
      | Some l \<Rightarrow> l\<lparr>sl_centroid := e, sl_threshold := th\<rparr>))"
  by (auto simp: insert_pending_locked_def umap_simps fun_eq_iff split: option.splits)

lemma lookup_apply_acquire [table_simps]:
  "um_wf (active t) \<Longrightarrow> map_of (active (apply_acquire_locked h a e th t)) =
     (map_of (active t))(a \<mapsto> (case map_of (active t) a of
        None \<Rightarrow> \<lparr>sl_agent_id = a, sl_centroid = e, sl_threshold = th, sl_pending = False, sl_waiters = []\<rparr>
      | Some l \<Rightarrow> l\<lparr>sl_centroid := e, sl_threshold := th, sl_pending := False\<rparr>))"
  by (auto simp: apply_acquire_locked_def umap_simps fun_eq_iff split: option.splits)

lemma lookup_push_waiter [table_simps]:
  "map_of (active (push_waiter k w t)) =
     (\<lambda>x. if x = k then map_option (\<lambda>l. l\<lparr>sl_waiters := sl_waiters l @ [w]\<rparr>) (map_of (active t) k)
          else map_of (active t) x)"
  by (simp add: push_waiter_def umap_simps)

lemma heap_simps [simp]:
  "waiter_heap (insert_pending_locked h a e th t) = waiter_heap t"
  "waiter_heap (apply_acquire_locked h a e th t) = waiter_heap t"
  "waiter_heap (push_waiter k w t) = waiter_heap t"
  by (auto simp: insert_pending_locked_def apply_acquire_locked_def push_waiter_def split: option.splits)

lemma sweep_simps [simp]:
  "sweep_in_progress (insert_pending_locked h a e th t) = sweep_in_progress t"
  "sweep_in_progress (apply_acquire_locked h a e th t) = sweep_in_progress t"
  "sweep_in_progress (push_waiter k w t) = sweep_in_progress t"
  "sweep_in_progress (requeue_waiter k w t) = sweep_in_progress t"
  "sweep_in_progress (grant_waiter h w t) = sweep_in_progress t"
  by (auto simp: insert_pending_locked_def apply_acquire_locked_def push_waiter_def
      requeue_waiter_def grant_waiter_def Let_def split: option.splits)

lemma um_wf_table_ops [simp]:
  "um_wf (active t) \<Longrightarrow> um_wf (active (insert_pending_locked h a e th t))"
  "um_wf (active t) \<Longrightarrow> um_wf (active (apply_acquire_locked h a e th t))"
  "um_wf (active (push_waiter k w t)) = um_wf (active t)"
  by (auto simp: insert_pending_locked_def apply_acquire_locked_def push_waiter_def split: option.splits)

lemma active_requeue [simp]: "active (requeue_waiter k w t) = active (push_waiter k w t)"
  by (simp add: requeue_waiter_def push_waiter_def Let_def)

lemma active_grant [simp]:
  "active (grant_waiter h w t) = active (insert_pending_locked h (wq_waiting_agent_id (waiter_heap t ! w))
     (wq_embedding (waiter_heap t ! w)) (wq_theta (waiter_heap t ! w)) t)"
  by (simp add: grant_waiter_def Let_def)

lemma heap_requeue [simp]:
  "waiter_heap (requeue_waiter k w t) = (waiter_heap t)[w := (waiter_heap t ! w)\<lparr>wq_ready := False,
     wq_granted := False, wq_queue_hops := Suc (wq_queue_hops (waiter_heap t ! w))\<rparr>]"
  by (simp add: requeue_waiter_def Let_def)

lemma heap_grant [simp]:
  "waiter_heap (grant_waiter h w t) =
     (waiter_heap t)[w := (waiter_heap t ! w)\<lparr>wq_granted := True, wq_ready := True\<rparr>]"
  by (simp add: grant_waiter_def Let_def)

lemma queued_insert_pending [simp]:
  "mset (queued (insert_pending_locked h a e th t)) = mset (queued t)"
  by (auto simp: queued_def insert_pending_locked_def mset_queued_emplace queued_modify_same
      split: option.splits)

lemma queued_apply_acquire [simp]:
  "mset (queued (apply_acquire_locked h a e th t)) = mset (queued t)"
  by (auto simp: queued_def apply_acquire_locked_def mset_queued_emplace queued_modify_same
      split: option.splits)

lemma queued_push [simp]:
  "um_wf (active t) \<Longrightarrow> map_of (active t) k \<noteq> None \<Longrightarrow>
     mset (queued (push_waiter k w t)) = add_mset w (mset (queued t))"
  by (simp add: queued_def push_waiter_def mset_queued_push)

lemma queued_cong: "active t = active t' \<Longrightarrow> queued t = queued t'"
  by (simp add: queued_def)

lemma queued_requeue [simp]: "queued (requeue_waiter k w t) = queued (push_waiter k w t)"
  by (rule queued_cong) simp

lemma queued_grant [simp]: "mset (queued (grant_waiter h w t)) = mset (queued t)"
  by (metis active_grant queued_cong queued_insert_pending)

lemma queued_erase:
  "um_wf (active t) \<Longrightarrow> map_of (active t) k = Some l \<Longrightarrow>
     mset (queued (t\<lparr>active := um_erase k (active t)\<rparr>)) + mset (sl_waiters l) = mset (queued t)"
  by (simp add: queued_def mset_queued_erase)

text \<open>The identity, embedding and threshold of an entry never change.\<close>

definition entry_data :: "ActiveLockTable \<Rightarrow> nat \<Rightarrow> string \<times> fl list \<times> fl" where
  "entry_data t w = (let e = waiter_heap t ! w in (wq_waiting_agent_id e, wq_embedding e, wq_theta e))"

lemma entry_data_update:
  assumes "wq_waiting_agent_id e = wq_waiting_agent_id (hp ! w)"
    and "wq_embedding e = wq_embedding (hp ! w)" and "wq_theta e = wq_theta (hp ! w)"
  shows "wq_waiting_agent_id (hp[w := e] ! v) = wq_waiting_agent_id (hp ! v)
       \<and> wq_embedding (hp[w := e] ! v) = wq_embedding (hp ! v) \<and> wq_theta (hp[w := e] ! v) = wq_theta (hp ! v)"
  using assms by (cases "w < length hp"; cases "v = w") (auto simp: nth_list_update list_update_beyond)

lemma entry_data_requeue [simp]: "entry_data (requeue_waiter k w t) v = entry_data t v"
  using entry_data_update[of "(waiter_heap t ! w)\<lparr>wq_ready := False,
     wq_granted := False, wq_queue_hops := Suc (wq_queue_hops (waiter_heap t ! w))\<rparr>" "waiter_heap t" w v]
  by (simp add: entry_data_def Let_def)

lemma entry_data_grant [simp]: "entry_data (grant_waiter h w t) v = entry_data t v"
  using entry_data_update[of "(waiter_heap t ! w)\<lparr>wq_granted := True, wq_ready := True\<rparr>" "waiter_heap t" w v]
  by (simp add: entry_data_def Let_def)

section \<open>An induction rule for rebalancing\<close>

lemma rebalance_rule:
  assumes requeue: "\<And>w ws t g k. P (w # ws) t g \<Longrightarrow>
      ct_lock (find_conflict_locked F (wq_embedding (waiter_heap t ! w)) (wq_theta (waiter_heap t ! w)) t) = Some k
      \<Longrightarrow> P ws (requeue_waiter k w t) g"
    and grant: "\<And>w ws t g. P (w # ws) t g \<Longrightarrow>
      ct_lock (find_conflict_locked F (wq_embedding (waiter_heap t ! w)) (wq_theta (waiter_heap t ! w)) t) = None
      \<Longrightarrow> P ws (grant_waiter h w t) (g @ [w])"
    and start: "P ws t g"
    and run: "rebalance_waiters_locked F h ws t g = (t', g')"
  shows "P [] t' g'"
  using start run
proof (induction ws arbitrary: t g)
  case (Cons w ws)
  then show ?case
    by (auto simp: Let_def intro: requeue grant split: option.splits)
qed simp


section \<open>Well-formed tables\<close>

text \<open>
  \<open>pool_ok ws t g\<close>: the map has one element per key and each lock carries its key; queued
  entries, entries \<open>ws\<close> still to be rebalanced and entries \<open>g\<close> already granted are all different
  and allocated; the first two kinds wait, the third is granted and ready.
\<close>

definition waits :: "ActiveLockTable \<Rightarrow> nat \<Rightarrow> bool" where
  "waits t w \<longleftrightarrow> w < length (waiter_heap t) \<and> \<not> wq_granted (waiter_heap t ! w) \<and> \<not> wq_ready (waiter_heap t ! w)"

definition woken :: "ActiveLockTable \<Rightarrow> nat \<Rightarrow> bool" where
  "woken t w \<longleftrightarrow> w < length (waiter_heap t) \<and> wq_granted (waiter_heap t ! w) \<and> wq_ready (waiter_heap t ! w)"

definition keyed :: "ActiveLockTable \<Rightarrow> bool" where
  "keyed t \<longleftrightarrow> um_wf (active t) \<and> (\<forall>k l. map_of (active t) k = Some l \<longrightarrow> sl_agent_id l = k)"

definition pool_ok :: "nat list \<Rightarrow> ActiveLockTable \<Rightarrow> nat list \<Rightarrow> bool" where
  "pool_ok ws t g \<longleftrightarrow> keyed t \<and> distinct (queued t @ ws @ g)
     \<and> (\<forall>w\<in>set (queued t @ ws). waits t w) \<and> (\<forall>w\<in>set g. woken t w)"

definition table_wf :: "ActiveLockTable \<Rightarrow> bool" where
  "table_wf t \<longleftrightarrow> keyed t \<and> distinct (queued t) \<and> (\<forall>w\<in>set (queued t). waits t w)"

lemma pool_ok_empty: "pool_ok [] t g \<longleftrightarrow> table_wf t \<and> distinct g
    \<and> set g \<inter> set (queued t) = {} \<and> (\<forall>w\<in>set g. woken t w)"
  by (auto simp: pool_ok_def table_wf_def)

lemma keyedD: "keyed t \<Longrightarrow> um_wf (active t)"
  by (simp add: keyed_def)

lemma keyed_ops [simp]:
  "keyed t \<Longrightarrow> keyed (insert_pending_locked h a e th t)"
  "keyed t \<Longrightarrow> keyed (apply_acquire_locked h a e th t)"
  "keyed t \<Longrightarrow> keyed (push_waiter k w t)"
  "keyed t \<Longrightarrow> keyed (requeue_waiter k w t)"
  "keyed t \<Longrightarrow> keyed (grant_waiter h w t)"
  "keyed t \<Longrightarrow> keyed (t\<lparr>active := um_erase k (active t)\<rparr>)"
  "keyed (t\<lparr>waiter_heap := hp\<rparr>) = keyed t"
  "keyed (t\<lparr>sweep_in_progress := b\<rparr>) = keyed t"
  by (auto simp: keyed_def table_simps umap_simps split: option.splits if_splits)

lemma set_queued_mset: "mset (queued t) = M \<Longrightarrow> set (queued t) = set_mset M"
  by (metis set_mset_mset)

lemma waits_requeue: "w < length (waiter_heap t) \<Longrightarrow> waits (requeue_waiter k w t) v = (v = w \<or> waits t v)"
  by (cases "v = w") (simp_all add: waits_def)

lemma woken_requeue: "w < length (waiter_heap t) \<Longrightarrow> woken (requeue_waiter k w t) v = (v \<noteq> w \<and> woken t v)"
  by (cases "v = w") (simp_all add: woken_def)

lemma waits_grant: "w < length (waiter_heap t) \<Longrightarrow> waits (grant_waiter h w t) v = (v \<noteq> w \<and> waits t v)"
  by (cases "v = w") (simp_all add: waits_def)

lemma woken_grant: "w < length (waiter_heap t) \<Longrightarrow> woken (grant_waiter h w t) v = (v = w \<or> woken t v)"
  by (cases "v = w") (simp_all add: woken_def)

lemma pool_ok_requeue:
  assumes ok: "pool_ok (w # ws) t g" and k: "map_of (active t) k \<noteq> None"
  shows "pool_ok ws (requeue_waiter k w t) g"
proof -
  have kt: "keyed t" and w: "w < length (waiter_heap t)" using ok by (auto simp: pool_ok_def waits_def)
  have q: "mset (queued (requeue_waiter k w t)) = mset (w # queued t)"
    using kt k by (simp add: keyedD)
  have s: "set (queued (requeue_waiter k w t)) = insert w (set (queued t))"
    by (simp only: set_queued_mset[OF q] set_mset_mset list.set)
  have d: "distinct (queued (requeue_waiter k w t)) = distinct (w # queued t)"
    using q by (rule mset_eq_imp_distinct_iff)
  show ?thesis
    unfolding pool_ok_def distinct_append set_append s d
    using ok kt by (auto simp: pool_ok_def waits_requeue[OF w] woken_requeue[OF w])
qed

lemma pool_ok_grant:
  assumes ok: "pool_ok (w # ws) t g"
  shows "pool_ok ws (grant_waiter h w t) (g @ [w])"
proof -
  have kt: "keyed t" and w: "w < length (waiter_heap t)" using ok by (auto simp: pool_ok_def waits_def)
  have q: "mset (queued (grant_waiter h w t)) = mset (queued t)" by simp
  have s: "set (queued (grant_waiter h w t)) = set (queued t)"
    by (simp only: set_queued_mset[OF q] set_mset_mset)
  have d: "distinct (queued (grant_waiter h w t)) = distinct (queued t)"
    using q by (rule mset_eq_imp_distinct_iff)
  have "\<forall>v\<in>set (queued t) \<union> set ws. waits (grant_waiter h w t) v"
    using ok by (auto simp: pool_ok_def waits_grant[OF w])
  then show ?thesis
    unfolding pool_ok_def distinct_append set_append s d
    using ok kt by (auto simp: pool_ok_def woken_grant[OF w])
qed

lemma rebalance_pool_ok:
  assumes "pool_ok ws t g" "rebalance_waiters_locked F h ws t g = (t', g')"
  shows "pool_ok [] t' g'"
proof (rule rebalance_rule[where P = pool_ok, OF _ _ assms])
  fix w ws t g k
  assume ok: "pool_ok (w # ws) t g"
    and c: "ct_lock (find_conflict_locked F (wq_embedding (waiter_heap t ! w)) (wq_theta (waiter_heap t ! w)) t) = Some k"
  from c ok have "map_of (active t) k \<noteq> None"
    by (auto simp: pool_ok_def keyed_def in_set_map_of elim: find_conflict_SomeD)
  with ok show "pool_ok ws (requeue_waiter k w t) g" by (rule pool_ok_requeue)
qed (rule pool_ok_grant)

lemma pool_ok_erase:
  assumes "table_wf t" "map_of (active t) k = Some l"
  shows "pool_ok (sl_waiters l) (t\<lparr>active := um_erase k (active t)\<rparr>) []"
proof -
  let ?t = "t\<lparr>active := um_erase k (active t)\<rparr>"
  from assms have m: "mset (queued ?t @ sl_waiters l) = mset (queued t)"
    by (simp add: table_wf_def keyedD queued_erase)
  then have "distinct (queued ?t @ sl_waiters l)" "set (queued ?t @ sl_waiters l) = set (queued t)"
    using assms(1) by (metis mset_eq_imp_distinct_iff table_wf_def, metis m mset_eq_setD)
  with assms(1) show ?thesis by (auto simp: pool_ok_def table_wf_def waits_def)
qed

lemma release_cases:
  "release F h a t = (case map_of (active t) a of None \<Rightarrow> (t, [])
     | Some l \<Rightarrow> rebalance_waiters_locked F h (sl_waiters l) (t\<lparr>active := um_erase a (active t)\<rparr>) [])"
  by (auto simp: release_def remove_lock_locked_def split: option.splits)

lemma release_pool_ok:
  assumes "table_wf t" "release F h a t = (t', g)"
  shows "pool_ok [] t' g"
  using assms by (auto simp: release_cases pool_ok_empty split: option.splits
      dest!: rebalance_pool_ok[OF pool_ok_erase])

lemma remove_pending_pool_ok:
  assumes "table_wf t" "remove_pending F h a t = (t', g)"
  shows "pool_ok [] t' g"
  using assms by (auto simp: remove_pending_def pool_ok_empty split: option.splits if_splits
      dest!: rebalance_pool_ok[OF pool_ok_erase])

lemma table_wf_new: "table_wf new_ActiveLockTable"
  by (simp add: table_wf_def new_ActiveLockTable_def keyed_def queued_def)

lemma table_wf_release [simp]: "table_wf t \<Longrightarrow> table_wf (fst (release F h a t))"
  by (metis pool_ok_empty prod.collapse release_pool_ok)

lemma table_wf_remove_pending [simp]: "table_wf t \<Longrightarrow> table_wf (fst (remove_pending F h a t))"
  by (metis pool_ok_empty prod.collapse remove_pending_pool_ok)

lemma table_wf_insert [simp]:
  assumes "table_wf t"
  shows "table_wf (insert_pending_locked h a e th t)" "table_wf (apply_acquire_locked h a e th t)"
proof -
  have "set (queued (insert_pending_locked h a e th t)) = set (queued t)"
    "set (queued (apply_acquire_locked h a e th t)) = set (queued t)"
    by (metis queued_insert_pending set_mset_mset, metis queued_apply_acquire set_mset_mset)
  moreover have "distinct (queued (insert_pending_locked h a e th t))"
    "distinct (queued (apply_acquire_locked h a e th t))"
    using assms by (metis mset_eq_imp_distinct_iff queued_insert_pending table_wf_def,
        metis assms mset_eq_imp_distinct_iff queued_apply_acquire table_wf_def)
  ultimately show "table_wf (insert_pending_locked h a e th t)" "table_wf (apply_acquire_locked h a e th t)"
    using assms by (auto simp: table_wf_def waits_def)
qed

end
