(* ===== verification/LockTableSafety.thy ===== *)
theory LockTableSafety
  imports LockTableLaws
begin

text \<open>
  What the lock table guarantees: locks that conflict are never held together, no waiter is lost
  when a lock goes away, a waiter is queued only behind a lock it conflicts with, a herd of
  conflicting requests is served first come first served, and releasing the held locks one after
  another serves every waiter.
\<close>

section \<open>Exclusion of conflicting regions\<close>

definition pairwise_apart :: "('e \<Rightarrow> 'e \<Rightarrow> bool) \<Rightarrow> ('k \<rightharpoonup> 'e) \<Rightarrow> bool" where
  "pairwise_apart conf m \<longleftrightarrow>
     (\<forall>a b x y. m a = Some x \<longrightarrow> m b = Some y \<longrightarrow> a \<noteq> b \<longrightarrow> \<not> conf x y)"

text \<open>
  The interface between the table and the similarity measure: all that exclusion needs of the
  measure is that conflict is symmetric.
\<close>

locale conflict_relation =
  fixes conf :: "'e \<Rightarrow> 'e \<Rightarrow> bool"
  assumes conf_sym: "conf x y \<Longrightarrow> conf y x"
begin

lemma apart_insert:
  assumes "pairwise_apart conf m" and "\<And>b y. m b = Some y \<Longrightarrow> b \<noteq> a \<Longrightarrow> \<not> conf e y"
  shows "pairwise_apart conf (m(a \<mapsto> e))"
  using assms conf_sym unfolding pairwise_apart_def by (metis fun_upd_apply option.inject)

lemma apart_remove: "pairwise_apart conf m \<Longrightarrow> pairwise_apart conf (m(a := None))"
  by (auto simp: pairwise_apart_def)

end

interpretation cosine_conflict: conflict_relation "\<lambda>x y. fl_le th (cosine_similarity F x y)" for F th
  by unfold_locales (simp add: cosine_similarity_sym)

definition regions :: "ActiveLockTable \<Rightarrow> string \<rightharpoonup> fl list" where
  "regions t a = map_option sl_centroid (map_of (active t) a)"

definition exclusive :: "fpu \<Rightarrow> fl \<Rightarrow> ActiveLockTable \<Rightarrow> bool" where
  "exclusive F th t \<longleftrightarrow> pairwise_apart (\<lambda>x y. fl_le th (cosine_similarity F x y)) (regions t)"

lemma regions_insert_pending [table_simps]:
  "um_wf (active t) \<Longrightarrow> regions (insert_pending_locked h a e th t) = (regions t)(a \<mapsto> e)"
  by (auto simp: regions_def table_simps fun_eq_iff split: option.splits)

lemma regions_apply_acquire [table_simps]:
  "um_wf (active t) \<Longrightarrow> regions (apply_acquire_locked h a e th t) = (regions t)(a \<mapsto> e)"
  by (auto simp: regions_def table_simps fun_eq_iff split: option.splits)

lemma regions_push [table_simps]: "regions (push_waiter k w t) = regions t"
  by (auto simp: regions_def table_simps fun_eq_iff option.map_comp comp_def)

lemma regions_erase [table_simps]:
  "regions (t\<lparr>active := um_erase k (active t)\<rparr>) = (regions t)(k := None)"
  by (auto simp: regions_def umap_simps)

lemma regions_cong: "active t = active t' \<Longrightarrow> regions t = regions t'"
  by (rule ext) (simp only: regions_def)

lemma exclusive_cong: "active t = active t' \<Longrightarrow> exclusive F th t = exclusive F th t'"
  unfolding exclusive_def by (simp only: regions_cong[of t t'])

lemma exclusive_new: "exclusive F th new_ActiveLockTable"
  by (simp add: exclusive_def pairwise_apart_def regions_def new_ActiveLockTable_def)

lemma exclusive_insert_pending:
  assumes "exclusive F th t" "um_wf (active t)"
    and "ct_lock (find_conflict_locked F e th t) = None"
  shows "exclusive F th (insert_pending_locked h a e th t)"
proof -
  have "\<not> fl_le th (cosine_similarity F e y)" if "regions t b = Some y" for b y
    using assms(2,3) that by (auto simp: regions_def find_conflict_None_iff conflicts_def in_set_map_of)
  with assms show ?thesis
    unfolding exclusive_def by (auto simp: table_simps intro: cosine_conflict.apart_insert)
qed

lemma exclusive_promote:
  assumes "exclusive F th t" "um_wf (active t)" "regions t a = Some e"
  shows "exclusive F th (apply_acquire_locked h a e th t)"
  using assms by (simp add: exclusive_def table_simps fun_upd_idem)

lemma exclusive_erase: "exclusive F th t \<Longrightarrow> exclusive F th (t\<lparr>active := um_erase k (active t)\<rparr>)"
  by (auto simp: exclusive_def table_simps intro: cosine_conflict.apart_remove)

definition uniform_theta :: "fl \<Rightarrow> nat list \<Rightarrow> ActiveLockTable \<Rightarrow> bool" where
  "uniform_theta th ws t \<longleftrightarrow> (\<forall>w\<in>set ws. snd (snd (entry_data t w)) = th)"

lemma uniform_thetaD: "uniform_theta th ws t \<Longrightarrow> w \<in> set ws \<Longrightarrow> wq_theta (waiter_heap t ! w) = th"
  by (auto simp: uniform_theta_def entry_data_def Let_def)

lemma uniform_theta_ops [simp]:
  "uniform_theta th ws (requeue_waiter k w t) = uniform_theta th ws t"
  "uniform_theta th ws (grant_waiter h w t) = uniform_theta th ws t"
  by (simp_all add: uniform_theta_def)

lemma exclusive_rebalance:
  assumes "um_wf (active t)" "exclusive F th t" "uniform_theta th ws t"
    and run: "rebalance_waiters_locked F h ws t g = (t', g')"
  shows "exclusive F th t'"
proof -
  let ?P = "\<lambda>ws t (g::nat list). um_wf (active t) \<and> exclusive F th t \<and> uniform_theta th ws t"
  have "?P [] t' g'"
  proof (rule rebalance_rule[where P = ?P, OF _ _ _ run])
    fix w ws t g k assume P: "?P (w # ws) t g"
    then show "?P ws (requeue_waiter k w t) g"
      using exclusive_cong[of "requeue_waiter k w t" "push_waiter k w t" F th]
      by (auto simp: exclusive_def table_simps) (auto simp: uniform_theta_def)
  next
    fix w ws t g assume P: "?P (w # ws) t g"
      and c: "ct_lock (find_conflict_locked F (wq_embedding (waiter_heap t ! w)) (wq_theta (waiter_heap t ! w)) t) = None"
    have th: "wq_theta (waiter_heap t ! w) = th" using P by (auto dest: uniform_thetaD)
    have "exclusive F th (insert_pending_locked h (wq_waiting_agent_id (waiter_heap t ! w))
      (wq_embedding (waiter_heap t ! w)) th t)"
      using P c th by (intro exclusive_insert_pending) auto
    then show "?P ws (grant_waiter h w t) (g @ [w])"
      using P th by (auto simp: uniform_theta_def cong: exclusive_cong)
  qed (use assms in auto)
  then show ?thesis by simp
qed

lemma uniform_theta_subset: "uniform_theta th ws t \<Longrightarrow> set vs \<subseteq> set ws \<Longrightarrow> uniform_theta th vs t"
  by (auto simp: uniform_theta_def)

lemma waiters_in_queued: "map_of (active t) a = Some l \<Longrightarrow> set (sl_waiters l) \<subseteq> set (queued t)"
  by (force simp: queued_def dest: map_of_SomeD)

lemma uniform_theta_erase:
  "uniform_theta th ws t \<Longrightarrow> uniform_theta th ws (t\<lparr>active := m\<rparr>)"
  by (simp add: uniform_theta_def entry_data_def)

lemma exclusive_release:
  assumes "table_wf t" "exclusive F th t" "uniform_theta th (queued t) t"
  shows "exclusive F th (fst (release F h a t))"
proof (cases "map_of (active t) a")
  case None
  with assms show ?thesis by (simp add: release_cases)
next
  case (Some l)
  let ?t = "t\<lparr>active := um_erase a (active t)\<rparr>"
  have "uniform_theta th (sl_waiters l) ?t"
    using uniform_theta_subset[OF assms(3) waiters_in_queued[OF Some]] by (rule uniform_theta_erase)
  then show ?thesis
    using assms(1) exclusive_rebalance[OF _ exclusive_erase[OF assms(2)], of a "sl_waiters l" h "[]"]
    by (simp add: Some release_cases table_wf_def keyed_def) (metis prod.collapse)
qed

lemma exclusive_remove_pending:
  assumes "table_wf t" "exclusive F th t" "uniform_theta th (queued t) t"
  shows "exclusive F th (fst (remove_pending F h a t))"
proof -
  have "remove_pending F h a t = (t, []) \<or> remove_pending F h a t = release F h a t"
    by (auto simp: remove_pending_def release_cases split: option.splits)
  then show ?thesis using assms exclusive_release by (metis fst_conv)
qed


section \<open>No waiter is lost\<close>

lemma rebalance_conserves:
  assumes "pool_ok ws t g" and run: "rebalance_waiters_locked F h ws t g = (t', g')"
  shows "mset (queued t') + mset g' = mset (queued t) + mset ws + mset g"
proof -
  let ?P = "\<lambda>ws' t' g'. pool_ok ws' t' g'
    \<and> mset (queued t') + mset ws' + mset g' = mset (queued t) + mset ws + mset g"
  have "?P [] t' g'"
  proof (rule rebalance_rule[where P = ?P, OF _ _ _ run])
    fix w ws1 t1 g1 k assume P: "?P (w # ws1) t1 g1"
      and c: "ct_lock (find_conflict_locked F (wq_embedding (waiter_heap t1 ! w)) (wq_theta (waiter_heap t1 ! w)) t1) = Some k"
    from P c have "um_wf (active t1)" "map_of (active t1) k \<noteq> None"
      by (auto simp: pool_ok_def keyed_def in_set_map_of elim: find_conflict_SomeD)
    with P show "?P ws1 (requeue_waiter k w t1) g1" by (auto intro: pool_ok_requeue)
  qed (use assms in \<open>auto intro: pool_ok_grant\<close>)
  then show ?thesis by simp
qed

lemma rebalance_other_entries:
  assumes run: "rebalance_waiters_locked F h ws t g = (t', g')" and "w \<notin> set ws"
  shows "waiter_heap t' ! w = waiter_heap t ! w"
proof -
  let ?P = "\<lambda>ws' t' (g'::nat list). w \<notin> set ws' \<and> waiter_heap t' ! w = waiter_heap t ! w"
  have "?P [] t' g'"
    by (rule rebalance_rule[where P = ?P, OF _ _ _ run]) (use assms in auto)
  then show ?thesis by simp
qed

lemma rebalance_heap_length:
  assumes run: "rebalance_waiters_locked F h ws t g = (t', g')"
  shows "length (waiter_heap t') = length (waiter_heap t)"
proof -
  let ?P = "\<lambda>ws' t' (g'::nat list). length (waiter_heap t') = length (waiter_heap t)"
  have "?P [] t' g'"
    by (rule rebalance_rule[where P = ?P, OF _ _ _ run]) auto
  then show ?thesis by simp
qed

lemma rebalance_entry_data:
  assumes run: "rebalance_waiters_locked F h ws t g = (t', g')"
  shows "entry_data t' w = entry_data t w"
proof -
  let ?P = "\<lambda>ws' t' (g'::nat list). entry_data t' w = entry_data t w"
  have "?P [] t' g'"
    by (rule rebalance_rule[where P = ?P, OF _ _ _ run]) auto
  then show ?thesis by simp
qed

lemma rebalance_sweep:
  assumes run: "rebalance_waiters_locked F h ws t g = (t', g')"
  shows "sweep_in_progress t' = sweep_in_progress t"
proof -
  let ?P = "\<lambda>ws' t' (g'::nat list). sweep_in_progress t' = sweep_in_progress t"
  have "?P [] t' g'"
    by (rule rebalance_rule[where P = ?P, OF _ _ _ run]) auto
  then show ?thesis by simp
qed

lemma release_conserves:
  assumes "table_wf t" "release F h a t = (t', g)"
  shows "mset (queued t') + mset g = mset (queued t)"
proof (cases "map_of (active t) a")
  case (Some l)
  with assms(2) have run: "rebalance_waiters_locked F h (sl_waiters l)
      (t\<lparr>active := um_erase a (active t)\<rparr>) [] = (t', g)" by (simp add: release_cases)
  show ?thesis
    using rebalance_conserves[OF pool_ok_erase[OF assms(1) Some] run]
      queued_erase[of t a l] assms(1) Some by (simp add: table_wf_def keyedD)
qed (use assms in \<open>simp add: release_cases\<close>)

lemma release_heap:
  assumes "release F h a t = (t', g)"
  shows "length (waiter_heap t') = length (waiter_heap t)"
    and "w \<notin> set (queued t) \<Longrightarrow> waiter_heap t' ! w = waiter_heap t ! w"
    and "entry_data t' w = entry_data t w"
proof -
  have "length (waiter_heap t') = length (waiter_heap t)
    \<and> (w \<notin> set (queued t) \<longrightarrow> waiter_heap t' ! w = waiter_heap t ! w) \<and> entry_data t' w = entry_data t w"
  proof (cases "map_of (active t) a")
    case (Some l)
    with assms have run: "rebalance_waiters_locked F h (sl_waiters l)
        (t\<lparr>active := um_erase a (active t)\<rparr>) [] = (t', g)" by (simp add: release_cases)
    show ?thesis
      using rebalance_heap_length[OF run] rebalance_other_entries[OF run, of w] rebalance_entry_data[OF run, of w]
        waiters_in_queued[OF Some] by (auto simp: entry_data_def)
  qed (use assms in \<open>simp add: release_cases\<close>)
  then show "length (waiter_heap t') = length (waiter_heap t)"
    and "w \<notin> set (queued t) \<Longrightarrow> waiter_heap t' ! w = waiter_heap t ! w"
    and "entry_data t' w = entry_data t w" by blast+
qed

lemma remove_pending_is:
  "remove_pending F h a t =
     (if (\<exists>l. map_of (active t) a = Some l \<and> sl_pending l) then release F h a t else (t, []))"
  by (auto simp: remove_pending_def release_cases split: option.splits)

section \<open>Draining\<close>

text \<open>
  Releasing held locks one by one, in any order, until none is left: \<open>pick\<close> says which active lock
  goes next.
\<close>

fun drain :: "fpu \<Rightarrow> layout \<Rightarrow> (ActiveLockTable \<Rightarrow> nat) \<Rightarrow> nat \<Rightarrow> ActiveLockTable \<Rightarrow> ActiveLockTable" where
  "drain F h pick 0 t = t"
| "drain F h pick (Suc n) t =
     (if active t = [] then t
      else drain F h pick n
        (fst (release F h (fst (active t ! (pick t mod length (active t)))) t)))"

lemma rebalance_active_bound:
  assumes "rebalance_waiters_locked F h ws t g = (t', g')"
  shows "length (active t') + length g \<le> length (active t) + length g'"
proof -
  let ?P = "\<lambda>(ws'::nat list) (t'::ActiveLockTable) (g'::nat list).
    length (active t') + length g \<le> length (active t) + length g'"
  have grow: "length (active (insert_pending_locked h a e th t)) \<le> Suc (length (active t))" for a e th t
    by (auto simp: insert_pending_locked_def um_emplace_def split: option.splits)
  have "?P [] t' g'"
  proof (rule rebalance_rule[where P = ?P, OF _ _ _ assms])
    fix w ws1 t1 g1 assume "?P (w # ws1) t1 g1"
    then show "?P ws1 (grant_waiter h w t1) (g1 @ [w])"
      using grow[of "wq_waiting_agent_id (waiter_heap t1 ! w)" "wq_embedding (waiter_heap t1 ! w)"
          "wq_theta (waiter_heap t1 ! w)" t1] by simp
  qed (auto simp: push_waiter_def)
  then show ?thesis by simp
qed

lemma release_shrinks:
  assumes wf: "table_wf t" and run: "release F h a t = (t', g)" and a: "map_of (active t) a \<noteq> None"
  shows "length (active t') + length (queued t') < length (active t) + length (queued t)"
proof -
  obtain l where l: "map_of (active t) a = Some l" using a by auto
  have "length (active t') \<le> length (um_erase a (active t)) + length g"
    using rebalance_active_bound[of F h "sl_waiters l" "t\<lparr>active := um_erase a (active t)\<rparr>" "[]" t' g] run l
    by (simp add: release_cases)
  moreover have "Suc (length (um_erase a (active t))) = length (active t)"
    using wf a by (simp add: length_erase table_wf_def keyedD)
  moreover have "length (queued t') + length g = length (queued t)"
    using release_conserves[OF wf run] by (metis size_mset size_union)
  ultimately show ?thesis by linarith
qed

definition served :: "ActiveLockTable \<Rightarrow> nat \<Rightarrow> bool" where
  "served t w \<longleftrightarrow> w < length (waiter_heap t) \<and> wq_granted (waiter_heap t ! w)"

lemma release_queued_or_served:
  assumes wf: "table_wf t" and run: "release F h a t = (t', g)"
    and w: "w \<in> set (queued t) \<or> served t w"
  shows "w \<in> set (queued t') \<or> served t' w"
proof (cases "w \<in> set (queued t)")
  case True
  then have "w \<in># mset (queued t') + mset g" using release_conserves[OF wf run] by simp
  then show ?thesis
    using release_pool_ok[OF wf run] by (auto simp: pool_ok_empty woken_def served_def)
next
  case False
  with w show ?thesis using release_heap(1,2)[OF run] by (auto simp: served_def)
qed

lemma queued_empty: "active t = [] \<Longrightarrow> queued t = []"
  by (simp add: queued_def)

lemma drain_correct:
  assumes "table_wf t" and "length (active t) + length (queued t) \<le> n"
    and "\<forall>w\<in>W. w \<in> set (queued t) \<or> served t w"
  shows "active (drain F h pick n t) = [] \<and> (\<forall>w\<in>W. served (drain F h pick n t) w)"
  using assms
proof (induction n arbitrary: t)
  case 0
  then show ?case by (auto simp: queued_empty)
next
  case (Suc n)
  show ?case
  proof (cases "active t = []")
    case True
    with Suc.prems show ?thesis by (auto simp: queued_empty)
  next
    case False
    let ?a = "fst (active t ! (pick t mod length (active t)))"
    obtain t' g where run: "release F h ?a t = (t', g)" by fastforce
    have "active t ! (pick t mod length (active t)) \<in> set (active t)"
      using False by (simp add: nth_mem)
    then have "map_of (active t) ?a \<noteq> None" by (auto simp: map_of_eq_None_iff)
    from release_shrinks[OF Suc.prems(1) run this] Suc.prems(2)
    have "length (active t') + length (queued t') \<le> n" by simp
    moreover have "table_wf t'" using table_wf_release[OF Suc.prems(1), of F h ?a] run by simp
    moreover have "\<forall>w\<in>W. w \<in> set (queued t') \<or> served t' w"
      using release_queued_or_served[OF Suc.prems(1) run] Suc.prems(3) by blast
    ultimately show ?thesis using Suc.IH run False by simp
  qed
qed


section \<open>Waiters wait for a reason\<close>

text \<open>
  \<open>justified\<close>: every queued entry conflicts with the lock whose queue it is in. A request that reuses
  the id of an active agent overwrites that agent's region, so the property is stated for tables in
  which every agent has at most one request (\<open>one_request\<close>).
\<close>

definition entry_agent :: "ActiveLockTable \<Rightarrow> nat \<Rightarrow> string" where
  "entry_agent t w = fst (entry_data t w)"

definition one_request :: "nat list \<Rightarrow> ActiveLockTable \<Rightarrow> bool" where
  "one_request ws t \<longleftrightarrow> distinct (map fst (active t) @ map (entry_agent t) ws)"

definition justified :: "fpu \<Rightarrow> ActiveLockTable \<Rightarrow> bool" where
  "justified F t \<longleftrightarrow> (\<forall>k l. map_of (active t) k = Some l \<longrightarrow>
     (\<forall>w\<in>set (sl_waiters l). conflicts F (fst (snd (entry_data t w))) (snd (snd (entry_data t w))) l))"

lemma entry_data_sel:
  "fst (entry_data t w) = wq_waiting_agent_id (waiter_heap t ! w)"
  "fst (snd (entry_data t w)) = wq_embedding (waiter_heap t ! w)"
  "snd (snd (entry_data t w)) = wq_theta (waiter_heap t ! w)"
  by (simp_all add: entry_data_def Let_def)

lemma conflicts_waiters [simp]: "conflicts F e th (l\<lparr>sl_waiters := ws\<rparr>) = conflicts F e th l"
  by (simp add: conflicts_def)

lemma justified_requeue:
  assumes "justified F t" "um_wf (active t)"
    and c: "ct_lock (find_conflict_locked F (wq_embedding (waiter_heap t ! w)) (wq_theta (waiter_heap t ! w)) t) = Some k"
  shows "justified F (requeue_waiter k w t)"
proof -
  obtain l where "map_of (active t) k = Some l" "conflicts F (wq_embedding (waiter_heap t ! w)) (wq_theta (waiter_heap t ! w)) l"
    using c assms(2) by (elim find_conflict_SomeD) (simp add: in_set_map_of)
  with assms(1) show ?thesis
    by (auto simp: justified_def table_simps entry_data_sel(2,3)[symmetric] split: if_splits)
qed

lemma justified_grant:
  assumes "justified F t" "um_wf (active t)" "map_of (active t) (entry_agent t w) = None"
  shows "justified F (grant_waiter h w t)"
  using assms by (auto simp: justified_def table_simps entry_agent_def entry_data_sel split: if_splits)

lemma entry_agent_ops [simp]:
  "entry_agent (requeue_waiter k w t) = entry_agent t"
  "entry_agent (grant_waiter h w t) = entry_agent t"
  "entry_agent (t\<lparr>active := m\<rparr>) = entry_agent t"
  by (auto simp: entry_agent_def fun_eq_iff) (simp add: entry_data_def)

lemma one_request_requeue:
  "one_request (w # ws) t \<Longrightarrow> one_request ws (requeue_waiter k w t)"
  by (auto simp: one_request_def push_waiter_def)

lemma distinct_fst_emplace:
  "map_of m k = None \<Longrightarrow> mset (map fst (um_emplace h k v m)) = add_mset k (mset (map fst m))"
  by (simp add: um_emplace_def)

lemma mset_keys_grant:
  assumes "map_of (active t) (entry_agent t w) = None"
  shows "mset (map fst (active (grant_waiter h w t))) = add_mset (entry_agent t w) (mset (map fst (active t)))"
  using assms by (simp add: insert_pending_locked_def entry_agent_def entry_data_sel
      distinct_fst_emplace del: mset_map)

lemma distinct_mset_cong: "mset xs = mset ys \<Longrightarrow> distinct xs = distinct ys"
  by (rule mset_eq_imp_distinct_iff)

lemma one_request_grant:
  assumes "one_request (w # ws) t"
  shows "one_request ws (grant_waiter h w t)"
proof -
  have n: "map_of (active t) (entry_agent t w) = None"
    using assms by (auto simp: one_request_def map_of_eq_None_iff)
  have "mset (map fst (active (grant_waiter h w t)) @ map (entry_agent (grant_waiter h w t)) ws)
      = mset (map fst (active t) @ map (entry_agent t) (w # ws))"
    using mset_keys_grant[OF n, of h] by (simp del: active_grant)
  then show ?thesis using assms unfolding one_request_def by (metis distinct_mset_cong)
qed

lemma rebalance_justified:
  assumes "justified F t" "um_wf (active t)" "one_request ws t"
    and run: "rebalance_waiters_locked F h ws t g = (t', g')"
  shows "justified F t'"
proof -
  let ?P = "\<lambda>ws t (g::nat list). justified F t \<and> um_wf (active t) \<and> one_request ws t"
  have "?P [] t' g'"
  proof (rule rebalance_rule[where P = ?P, OF _ _ _ run])
    fix w ws t g assume P: "?P (w # ws) t g"
    then have "map_of (active t) (entry_agent t w) = None"
      by (auto simp: one_request_def map_of_eq_None_iff)
    with P show "?P ws (grant_waiter h w t) (g @ [w])"
      by (auto intro: justified_grant one_request_grant)
  qed (use assms in \<open>auto intro: justified_requeue one_request_requeue\<close>)
  then show ?thesis by simp
qed

lemma justified_erase: "justified F t \<Longrightarrow> justified F (t\<lparr>active := um_erase k (active t)\<rparr>)"
  by (auto simp: justified_def umap_simps entry_data_def split: if_splits)

lemma one_request_erase:
  assumes "one_request (queued t) t" "um_wf (active t)" "map_of (active t) a = Some l"
  shows "one_request (sl_waiters l) (t\<lparr>active := um_erase a (active t)\<rparr>)"
proof -
  have wf: "um_wf (um_erase a (active t))" using assms(2) by simp
  have sub: "fst ` set (um_erase a (active t)) \<subseteq> fst ` set (active t)" by (auto simp: um_erase_def)
  let ?q = "queued (t\<lparr>active := um_erase a (active t)\<rparr>)"
  have "mset (?q @ sl_waiters l) = mset (queued t)" using queued_erase[OF assms(2,3)] by simp
  then have "mset (map (entry_agent t) (?q @ sl_waiters l)) = mset (map (entry_agent t) (queued t))"
    by (metis mset_map)
  then have "distinct (map (entry_agent t) (?q @ sl_waiters l))"
    using assms(1) by (metis distinct_mset_cong one_request_def distinct_append)
  then have "distinct (map (entry_agent t) (sl_waiters l))" by simp
  then show ?thesis
    using assms wf sub waiters_in_queued[OF assms(3)]
    by (fastforce simp: one_request_def um_wf_def)
qed

lemma release_justified:
  assumes wf: "table_wf t" and "justified F t" "one_request (queued t) t"
  shows "justified F (fst (release F h a t))"
proof (cases "map_of (active t) a")
  case (Some l)
  have u: "um_wf (active t)" using wf by (simp add: table_wf_def keyedD)
  show ?thesis
    using rebalance_justified[OF justified_erase[OF assms(2)] _ one_request_erase[OF assms(3) u Some]] u Some
    by (simp add: release_cases) (metis prod.collapse)
qed (use assms in \<open>simp add: release_cases\<close>)


section \<open>First come, first served\<close>

text \<open>The lock \<open>k\<close> is the only one that a request with embedding \<open>e\<close> and threshold \<open>th\<close> conflicts with.\<close>

definition only_conflict :: "fpu \<Rightarrow> ActiveLockTable \<Rightarrow> string \<Rightarrow> fl list \<Rightarrow> fl \<Rightarrow> bool" where
  "only_conflict F t k e th \<longleftrightarrow>
     (\<exists>r. regions t k = Some r \<and> fl_le th (cosine_similarity F e r))
   \<and> (\<forall>k' r. regions t k' = Some r \<longrightarrow> k' \<noteq> k \<longrightarrow> \<not> fl_le th (cosine_similarity F e r))"

definition no_conflict :: "fpu \<Rightarrow> ActiveLockTable \<Rightarrow> fl list \<Rightarrow> fl \<Rightarrow> bool" where
  "no_conflict F t e th \<longleftrightarrow> (\<forall>k r. regions t k = Some r \<longrightarrow> \<not> fl_le th (cosine_similarity F e r))"

lemma find_conflict_no_conflict:
  "um_wf (active t) \<Longrightarrow> no_conflict F t e th \<longleftrightarrow> ct_lock (find_conflict_locked F e th t) = None"
  by (fastforce simp: find_conflict_None_iff no_conflict_def regions_def conflicts_def in_set_map_of)

lemma find_conflict_only:
  assumes "um_wf (active t)" "only_conflict F t k e th"
  shows "ct_lock (find_conflict_locked F e th t) = Some k"
proof (cases "ct_lock (find_conflict_locked F e th t)")
  case None
  with assms show ?thesis
    by (auto simp: find_conflict_no_conflict[symmetric] no_conflict_def only_conflict_def)
next
  case (Some k')
  then obtain l where "(k', l) \<in> set (active t)" "conflicts F e th l" by (rule find_conflict_SomeD)
  then have "regions t k' = Some (sl_centroid l)" "fl_le th (cosine_similarity F e (sl_centroid l))"
    using assms(1) by (simp_all add: in_set_map_of regions_def conflicts_def)
  with assms(2) have "k' = k" unfolding only_conflict_def by blast
  with Some show ?thesis by simp
qed

lemma rebalance_behind_one:
  assumes "um_wf (active t)" and "map_of (active t) k = Some l"
    and "\<forall>w\<in>set ws. only_conflict F t k (fst (snd (entry_data t w))) (snd (snd (entry_data t w)))"
  shows "\<exists>t'. rebalance_waiters_locked F h ws t g = (t', g)
    \<and> map_of (active t') = (map_of (active t))(k \<mapsto> l\<lparr>sl_waiters := sl_waiters l @ ws\<rparr>)"
  using assms
proof (induction ws arbitrary: t l)
  case Nil
  then show ?case by (simp add: fun_upd_idem)
next
  case (Cons w ws)
  let ?t = "requeue_waiter k w t" and ?l = "l\<lparr>sl_waiters := sl_waiters l @ [w]\<rparr>"
  have c: "ct_lock (find_conflict_locked F (wq_embedding (waiter_heap t ! w)) (wq_theta (waiter_heap t ! w)) t) = Some k"
    using Cons.prems by (intro find_conflict_only) (auto simp: entry_data_sel)
  have r: "regions ?t = regions t" using regions_cong[of ?t "push_waiter k w t"] by (simp add: table_simps)
  have m: "map_of (active ?t) = (map_of (active t))(k \<mapsto> ?l)"
    using Cons.prems(2) by (auto simp: table_simps)
  have o: "\<forall>w\<in>set ws. only_conflict F ?t k (fst (snd (entry_data ?t w))) (snd (snd (entry_data ?t w)))"
    using Cons.prems(3) by (simp add: only_conflict_def r)
  have u: "um_wf (active ?t)" and l: "map_of (active ?t) k = Some ?l"
    using Cons.prems(1) by (simp, simp only: m fun_upd_same)
  obtain t' where "rebalance_waiters_locked F h ws ?t g = (t', g)"
    "map_of (active t') = (map_of (active ?t))(k \<mapsto> ?l\<lparr>sl_waiters := sl_waiters ?l @ ws\<rparr>)"
    using Cons.IH[OF u l o] by blast
  with c show ?case unfolding m by (simp add: Let_def fun_eq_iff)
qed

lemma release_herd:
  assumes wf: "table_wf t" and a: "map_of (active t) a = Some l" and ws: "sl_waiters l = w # ws"
    and new: "map_of (active t) (entry_agent t w) = None \<or> entry_agent t w = a"
    and free: "\<forall>v\<in>set (w # ws). no_conflict F (t\<lparr>active := um_erase a (active t)\<rparr>)
        (fst (snd (entry_data t v))) (snd (snd (entry_data t v)))"
    and herd: "\<forall>v\<in>set ws. fl_le (snd (snd (entry_data t v)))
        (cosine_similarity F (fst (snd (entry_data t v))) (fst (snd (entry_data t w))))"
  shows "snd (release F h a t) = [w]
    \<and> (\<exists>l'. map_of (active (fst (release F h a t))) (entry_agent t w) = Some l'
         \<and> sl_centroid l' = fst (snd (entry_data t w)) \<and> sl_waiters l' = ws)"
proof -
  let ?t = "t\<lparr>active := um_erase a (active t)\<rparr>" and ?b = "entry_agent t w"
  let ?t1 = "grant_waiter h w ?t"
  have u: "um_wf (active ?t)" "um_wf (active ?t1)" using wf by (auto simp: table_wf_def keyed_def)
  have ed: "entry_data ?t v = entry_data t v" for v by (simp add: entry_data_def)
  have n: "map_of (active ?t) ?b = None" using new by (auto simp: umap_simps)
  have sel: "wq_waiting_agent_id (waiter_heap ?t ! v) = entry_agent t v"
    "wq_embedding (waiter_heap ?t ! v) = fst (snd (entry_data t v))"
    "wq_theta (waiter_heap ?t ! v) = snd (snd (entry_data t v))" for v
    by (simp_all add: entry_agent_def entry_data_sel)
  have c: "ct_lock (find_conflict_locked F (wq_embedding (waiter_heap ?t ! w)) (wq_theta (waiter_heap ?t ! w)) ?t) = None"
    using free find_conflict_no_conflict[OF u(1)] unfolding sel by simp
  have r1: "regions ?t1 = (regions ?t)(?b \<mapsto> fst (snd (entry_data t w)))"
    using regions_cong[OF active_grant, of h w ?t] u(1) by (simp add: table_simps entry_agent_def entry_data_sel)
  have m1: "map_of (active ?t1) ?b = Some \<lparr>sl_agent_id = ?b, sl_centroid = fst (snd (entry_data t w)),
      sl_threshold = snd (snd (entry_data t w)), sl_pending = True, sl_waiters = []\<rparr>"
    using n u(1) by (simp add: table_simps entry_agent_def entry_data_sel)
  have "\<forall>v\<in>set ws. only_conflict F ?t1 ?b (fst (snd (entry_data ?t1 v))) (snd (snd (entry_data ?t1 v)))"
    using free herd by (auto simp: only_conflict_def no_conflict_def r1 ed)
  from rebalance_behind_one[OF u(2) m1 this, of h "[w]"]
  obtain t' where "rebalance_waiters_locked F h ws ?t1 [w] = (t', [w])"
    "\<exists>l'. map_of (active t') ?b = Some l' \<and> sl_centroid l' = fst (snd (entry_data t w)) \<and> sl_waiters l' = ws"
    by auto
  with a ws c show ?thesis by (simp add: release_cases Let_def)
qed

end
