(* ===== verification/AdmissionProtocol.thy ===== *)
theory AdmissionProtocol
  imports LockTableSafety
begin

text \<open>
  The lock table under concurrent callers. A call of \<^verbatim>\<open>acquire\<close> or \<^verbatim>\<open>wait_for_admission\<close> is a
  thread with a program counter; every step is a stretch of code between taking the table's mutex
  and giving it back, so any interleaving of the steps is a run of the program. Raft's apply thread
  takes part through \<open>promote\<close> (an ACQUIRE entry is applied for a request that holds its slot) and
  \<open>release_lock\<close>; a sweep closes and opens the gate. All requests use one threshold, as the lock
  service does (\<^verbatim>\<open>theta_\<close>).
\<close>

section \<open>Threads and steps\<close>

datatype call_pc = Entering | Waiting nat | Returned

record lock_call =
  lc_agent :: string
  lc_embedding :: "fl list"
  lc_legacy :: bool
  lc_pc :: call_pc
  lc_trace :: AcquireTrace

record lock_system =
  ls_table :: ActiveLockTable
  ls_calls :: "lock_call list"

definition call_iteration ::
  "fpu \<Rightarrow> layout \<Rightarrow> fl \<Rightarrow> lock_call \<Rightarrow> ActiveLockTable \<Rightarrow> AcquireTrace
   \<Rightarrow> ActiveLockTable \<times> AcquireTrace \<times> wait_result" where
  "call_iteration F h th c =
     (if lc_legacy c then acquire_iteration F h (lc_agent c) (lc_embedding c) th
      else admission_iteration F h (lc_agent c) (lc_embedding c) th)"

fun pc_of :: "wait_result \<Rightarrow> call_pc" where
  "pc_of Admitted = Returned"
| "pc_of (Parked w) = Waiting w"

definition update_call :: "nat \<Rightarrow> call_pc \<Rightarrow> AcquireTrace \<Rightarrow> ActiveLockTable \<Rightarrow> lock_system \<Rightarrow> lock_system" where
  "update_call i pc tr t s =
     s\<lparr>ls_table := t, ls_calls := (ls_calls s)[i := (ls_calls s ! i)\<lparr>lc_pc := pc, lc_trace := tr\<rparr>]\<rparr>"

inductive lock_step :: "fpu \<Rightarrow> fl \<Rightarrow> lock_system \<Rightarrow> lock_system \<Rightarrow> bool" for F th where
  new_call: "lock_step F th s (s\<lparr>ls_calls := ls_calls s @
     [\<lparr>lc_agent = a, lc_embedding = e, lc_legacy = b, lc_pc = Entering, lc_trace = new_AcquireTrace\<rparr>]\<rparr>)"
| enter: "i < length (ls_calls s) \<Longrightarrow> lc_pc (ls_calls s ! i) = Entering \<Longrightarrow>
     lc_legacy (ls_calls s ! i) \<or> \<not> sweep_in_progress (ls_table s) \<Longrightarrow>
     call_iteration F h th (ls_calls s ! i) (ls_table s) (lc_trace (ls_calls s ! i)) = (t', tr', r) \<Longrightarrow>
     lock_step F th s (update_call i (pc_of r) tr' t' s)"
| wake_granted: "i < length (ls_calls s) \<Longrightarrow> lc_pc (ls_calls s ! i) = Waiting w \<Longrightarrow>
     wq_ready (waiter_heap (ls_table s) ! w) \<Longrightarrow>
     after_wake w (ls_table s) (lc_trace (ls_calls s ! i)) = (t', tr', True) \<Longrightarrow>
     lock_step F th s (update_call i Returned tr' t' s)"
| wake_retry: "i < length (ls_calls s) \<Longrightarrow> lc_pc (ls_calls s ! i) = Waiting w \<Longrightarrow>
     wq_ready (waiter_heap (ls_table s) ! w) \<Longrightarrow>
     after_wake w (ls_table s) (lc_trace (ls_calls s ! i)) = (t1, tr1, False) \<Longrightarrow>
     call_iteration F h th (ls_calls s ! i) t1 tr1 = (t', tr', r) \<Longrightarrow>
     lock_step F th s (update_call i (pc_of r) tr' t' s)"
| release_lock: "lock_step F th s (s\<lparr>ls_table := fst (release F h a (ls_table s))\<rparr>)"
| cancel: "lock_step F th s (s\<lparr>ls_table := fst (remove_pending F h a (ls_table s))\<rparr>)"
| promote: "regions (ls_table s) a = Some e \<Longrightarrow>
     lock_step F th s (s\<lparr>ls_table := apply_acquire h a e th (ls_table s)\<rparr>)"
| open_sweep: "lock_step F th s (s\<lparr>ls_table := fst (begin_leader_sweep (ls_table s))\<rparr>)"
| close_sweep: "lock_step F th s (s\<lparr>ls_table := end_leader_sweep (ls_table s)\<rparr>)"

inductive_cases lock_stepE: "lock_step F th s s'"

definition initial_system :: "lock_system \<Rightarrow> bool" where
  "initial_system s \<longleftrightarrow> s = \<lparr>ls_table = new_ActiveLockTable, ls_calls = []\<rparr>"

section \<open>The invariant\<close>

definition call_ok :: "fl \<Rightarrow> ActiveLockTable \<Rightarrow> lock_call \<Rightarrow> bool" where
  "call_ok th t c \<longleftrightarrow>
     (case lc_pc c of
        Entering \<Rightarrow> tr_wake_count (lc_trace c) = 0
      | Waiting w \<Rightarrow> tr_wake_count (lc_trace c) = 0 \<and> w < length (waiter_heap t)
          \<and> entry_data t w = (lc_agent c, lc_embedding c, th) \<and> (w \<in> set (queued t) \<or> woken t w)
      | Returned \<Rightarrow> tr_wake_count (lc_trace c) \<le> 1)"

definition separate :: "lock_call list \<Rightarrow> bool" where
  "separate cs \<longleftrightarrow> (\<forall>i j w. i < length cs \<longrightarrow> j < length cs \<longrightarrow>
     lc_pc (cs ! i) = Waiting w \<longrightarrow> lc_pc (cs ! j) = Waiting w \<longrightarrow> i = j)"

definition table_inv :: "fpu \<Rightarrow> fl \<Rightarrow> ActiveLockTable \<Rightarrow> bool" where
  "table_inv F th t \<longleftrightarrow> table_wf t \<and> exclusive F th t \<and> uniform_theta th (queued t) t"

definition system_inv :: "fpu \<Rightarrow> fl \<Rightarrow> lock_system \<Rightarrow> bool" where
  "system_inv F th s \<longleftrightarrow> table_inv F th (ls_table s) \<and> separate (ls_calls s)
     \<and> (\<forall>c\<in>set (ls_calls s). call_ok th (ls_table s) c)"

text \<open>
  What a table step owes the parked calls: entries keep their data, and an entry that was queued is
  still queued or has been granted and made ready.
\<close>

definition keeps_entries :: "ActiveLockTable \<Rightarrow> ActiveLockTable \<Rightarrow> nat \<Rightarrow> bool" where
  "keeps_entries t t' w \<longleftrightarrow> (w < length (waiter_heap t) \<longrightarrow> w < length (waiter_heap t')
     \<and> entry_data t' w = entry_data t w
     \<and> (w \<in> set (queued t) \<or> woken t w \<longrightarrow> w \<in> set (queued t') \<or> woken t' w))"

lemma call_ok_keeps:
  "call_ok th t c \<Longrightarrow> (\<And>w. lc_pc c = Waiting w \<Longrightarrow> keeps_entries t t' w) \<Longrightarrow> call_ok th t' c"
  by (auto simp: call_ok_def keeps_entries_def split: call_pc.splits)

lemma system_inv_table_step:
  assumes "system_inv F th s" "table_inv F th t'" "\<And>w. keeps_entries (ls_table s) t' w"
  shows "system_inv F th (s\<lparr>ls_table := t'\<rparr>)"
  using assms by (auto simp: system_inv_def intro: call_ok_keeps)

lemma set_queued_insert [simp]:
  "set (queued (insert_pending_locked h a e th t)) = set (queued t)"
  "set (queued (apply_acquire_locked h a e th t)) = set (queued t)"
  by (metis queued_insert_pending set_mset_mset, metis queued_apply_acquire set_mset_mset)

lemma entry_data_heap: "waiter_heap t = waiter_heap t' \<Longrightarrow> entry_data t w = entry_data t' w"
  by (simp add: entry_data_def)

lemma keeps_same_heap:
  "waiter_heap t' = waiter_heap t \<Longrightarrow> set (queued t') = set (queued t) \<Longrightarrow> keeps_entries t t' w"
  by (auto simp: keeps_entries_def entry_data_def woken_def)

lemma table_inv_same_heap:
  assumes "table_inv F th t" "waiter_heap t' = waiter_heap t" "set (queued t') = set (queued t)"
    "table_wf t'" "exclusive F th t'"
  shows "table_inv F th t'"
  using assms by (auto simp: table_inv_def uniform_theta_def entry_data_def)

lemma release_keeps:
  assumes "table_wf t"
  shows "keeps_entries t (fst (release F h a t)) w"
proof -
  obtain t' g where run: "release F h a t = (t', g)" by fastforce
  show ?thesis
  proof (cases "w \<in> set (queued t)")
    case True
    then have "w \<in># mset (queued t') + mset g" using release_conserves[OF assms run] by simp
    then show ?thesis
      using release_pool_ok[OF assms run] release_heap[OF run] run
      by (auto simp: keeps_entries_def pool_ok_empty)
  next
    case False
    then show ?thesis using release_heap[OF run] run by (auto simp: keeps_entries_def woken_def)
  qed
qed

lemma release_table_inv:
  assumes inv: "table_inv F th t"
  shows "table_inv F th (fst (release F h a t))"
proof -
  obtain t' g where run: "release F h a t = (t', g)" by fastforce
  have wf: "table_wf t" using inv by (simp add: table_inv_def)
  have "set (queued t') \<subseteq> set (queued t)"
    using release_conserves[OF wf run] by (metis mset_subset_eq_add_left set_mset_mono set_mset_mset)
  then have "uniform_theta th (queued t') t'"
    using inv release_heap(3)[OF run] by (auto simp: table_inv_def uniform_theta_def)
  then show ?thesis
    using inv run exclusive_release[OF wf, of F th h a] table_wf_release[OF wf, of F h a]
    by (simp add: table_inv_def)
qed


section \<open>One pass of a blocking call\<close>

definition park :: "string \<Rightarrow> string \<Rightarrow> fl list \<Rightarrow> fl \<Rightarrow> ActiveLockTable \<Rightarrow> ActiveLockTable" where
  "park k a e th t = push_waiter k (length (waiter_heap t)) (t\<lparr>waiter_heap := waiter_heap t @
     [\<lparr>wq_waiting_agent_id = a, wq_embedding = e, wq_theta = th, wq_ready = False,
       wq_granted = False, wq_queue_hops = 0\<rparr>]\<rparr>)"

lemma wait_iteration_cases:
  assumes "wait_iteration take_slot F a e th t tr = (t', tr', r)"
  shows "ct_lock (find_conflict_locked F e th t) = None \<and> t' = take_slot a e th t \<and> tr' = tr \<and> r = Admitted
    \<or> (\<exists>k. ct_lock (find_conflict_locked F e th t) = Some k \<and> t' = park k a e th t
        \<and> r = Parked (length (waiter_heap t)) \<and> tr_wake_count tr' = tr_wake_count tr)"
  using assms by (auto simp: wait_iteration_def park_def Let_def split: option.splits)

lemma park_entry_data:
  "entry_data (park k a e th t) w =
     (if w = length (waiter_heap t) then (a, e, th)
      else if w < length (waiter_heap t) then entry_data t w else entry_data (park k a e th t) w)"
  by (simp add: park_def entry_data_def nth_append Let_def)

lemma park_queued:
  assumes "table_wf t" "map_of (active t) k \<noteq> None"
  shows "mset (queued (park k a e th t)) = add_mset (length (waiter_heap t)) (mset (queued t))"
  using assms unfolding park_def by (subst queued_push) (simp_all add: table_wf_def keyed_def queued_def)

lemma park_set_queued:
  assumes "table_wf t" "map_of (active t) k \<noteq> None"
  shows "set (queued (park k a e th t)) = insert (length (waiter_heap t)) (set (queued t))"
  using set_queued_mset[OF park_queued[OF assms]] by simp

lemma length_heap_park [simp]: "length (waiter_heap (park k a e th t)) = Suc (length (waiter_heap t))"
  by (simp add: park_def)

lemma park_waits:
  "w < length (waiter_heap t) \<Longrightarrow> waits (park k a e th t) w = waits t w"
  "w < length (waiter_heap t) \<Longrightarrow> woken (park k a e th t) w = woken t w"
  "waits (park k a e th t) (length (waiter_heap t))"
  by (simp_all add: park_def waits_def woken_def nth_append)

lemma park_table_inv:
  assumes inv: "table_inv F th t" and k: "map_of (active t) k \<noteq> None"
  shows "table_inv F th (park k a e th t)"
proof -
  have wf: "table_wf t" using inv by (simp add: table_inv_def)
  have lt: "w < length (waiter_heap t)" if "w \<in> set (queued t)" for w
    using wf that by (auto simp: table_wf_def waits_def)
  have "distinct (length (waiter_heap t) # queued t)" using wf lt by (force simp: table_wf_def)
  then have d: "distinct (queued (park k a e th t))"
    using park_queued[OF wf k, of a e th] by (metis distinct_mset_cong mset.simps(2))
  have "keyed (park k a e th t)" using wf by (simp add: park_def table_wf_def)
  then have "table_wf (park k a e th t)"
    using wf d lt by (auto simp: table_wf_def park_set_queued[OF wf k] park_waits)
  moreover have "regions (park k a e th t) = regions t"
    unfolding park_def by (simp add: table_simps regions_def fun_eq_iff)
  moreover have "uniform_theta th (queued (park k a e th t)) (park k a e th t)"
    using inv lt by (auto simp: table_inv_def uniform_theta_def park_set_queued[OF wf k] park_entry_data)
  ultimately show ?thesis using inv by (simp add: table_inv_def exclusive_def)
qed

lemma park_keeps:
  assumes "table_wf t" "map_of (active t) k \<noteq> None"
  shows "keeps_entries t (park k a e th t) w"
  using park_waits(2)[of w t k a e th] park_entry_data[of k a e th t w]
  by (auto simp: keeps_entries_def park_set_queued[OF assms])

lemma exclusive_acquire:
  assumes "exclusive F th t" "um_wf (active t)"
    and "ct_lock (find_conflict_locked F e th t) = None"
  shows "exclusive F th (apply_acquire_locked h a e th t)"
  using exclusive_insert_pending[OF assms, of undefined a] assms(2)
  by (simp add: exclusive_def table_simps)

lemma call_iteration_inv:
  assumes run: "call_iteration F h th c t tr = (t', tr', r)" and inv: "table_inv F th t"
    and wake: "tr_wake_count tr = 0"
  shows "table_inv F th t' \<and> (\<forall>w. keeps_entries t t' w)
    \<and> call_ok th t' (c\<lparr>lc_pc := pc_of r, lc_trace := tr'\<rparr>)
    \<and> (\<forall>w. r = Parked w \<longrightarrow> w = length (waiter_heap t))"
proof -
  have wf: "table_wf t" and u: "um_wf (active t)" using inv by (auto simp: table_inv_def table_wf_def keyed_def)
  let ?take = "if lc_legacy c then apply_acquire_locked h else insert_pending_locked h"
  from run have it: "wait_iteration ?take F (lc_agent c) (lc_embedding c) th t tr = (t', tr', r)"
    by (simp add: call_iteration_def acquire_iteration_def admission_iteration_def split: if_splits)
  from wait_iteration_cases[OF it] show ?thesis
  proof (elim disjE conjE exE)
    assume free: "ct_lock (find_conflict_locked F (lc_embedding c) th t) = None"
      and t': "t' = ?take (lc_agent c) (lc_embedding c) th t" and "tr' = tr" "r = Admitted"
    have "table_inv F th t'"
      using inv wf u free unfolding t'
      by (intro table_inv_same_heap[OF inv])
        (auto simp: table_inv_def intro: exclusive_acquire exclusive_insert_pending)
    moreover have "keeps_entries t t' w" for w unfolding t' by (rule keeps_same_heap) auto
    ultimately show ?thesis using \<open>tr' = tr\<close> \<open>r = Admitted\<close> wake by (auto simp: call_ok_def)
  next
    fix k assume c: "ct_lock (find_conflict_locked F (lc_embedding c) th t) = Some k"
      and t': "t' = park k (lc_agent c) (lc_embedding c) th t"
      and r: "r = Parked (length (waiter_heap t))" and tr: "tr_wake_count tr' = tr_wake_count tr"
    have k: "map_of (active t) k \<noteq> None" using c u by (auto simp: in_set_map_of elim: find_conflict_SomeD)
    have "call_ok th t' (c\<lparr>lc_pc := pc_of r, lc_trace := tr'\<rparr>)"
      using wake tr unfolding t' r
      by (simp add: call_ok_def park_set_queued[OF wf k] park_entry_data)
    with r show ?thesis
      using park_table_inv[OF inv k] park_keeps[OF wf k] unfolding t' by simp
  qed
qed

section \<open>Every step keeps the invariant\<close>

lemma separate_update:
  assumes "separate cs" "\<And>w j. pc = Waiting w \<Longrightarrow> j < length cs \<Longrightarrow> j \<noteq> i \<Longrightarrow> lc_pc (cs ! j) \<noteq> Waiting w"
  shows "separate (cs[i := c\<lparr>lc_pc := pc, lc_trace := tr\<rparr>])"
proof -
  let ?cs = "cs[i := c\<lparr>lc_pc := pc, lc_trace := tr\<rparr>]"
  have pc: "lc_pc (?cs ! j) = (if j = i then pc else lc_pc (cs ! j))" if "j < length cs" for j
    using that by (simp add: nth_list_update)
  show ?thesis unfolding separate_def
  proof (intro allI impI)
    fix j k w assume "j < length ?cs" "k < length ?cs" "lc_pc (?cs ! j) = Waiting w" "lc_pc (?cs ! k) = Waiting w"
    then show "j = k" using assms pc[of j] pc[of k] unfolding separate_def by (metis length_list_update)
  qed
qed

lemma update_call_inv:
  assumes inv: "system_inv F th s" and i: "i < length (ls_calls s)"
    and t': "table_inv F th t'" and c: "call_ok th t' ((ls_calls s ! i)\<lparr>lc_pc := pc, lc_trace := tr\<rparr>)"
    and others: "\<And>j w. j < length (ls_calls s) \<Longrightarrow> j \<noteq> i \<Longrightarrow> lc_pc (ls_calls s ! j) = Waiting w \<Longrightarrow>
        keeps_entries (ls_table s) t' w \<and> pc \<noteq> Waiting w"
  shows "system_inv F th (update_call i pc tr t' s)"
proof -
  have "separate ((ls_calls s)[i := (ls_calls s ! i)\<lparr>lc_pc := pc, lc_trace := tr\<rparr>])"
    using inv others by (intro separate_update) (auto simp: system_inv_def)
  moreover have "call_ok th t' ((ls_calls s)[i := (ls_calls s ! i)\<lparr>lc_pc := pc, lc_trace := tr\<rparr>] ! j)"
    if "j < length (ls_calls s)" for j
  proof (cases "j = i")
    case False
    have "call_ok th (ls_table s) (ls_calls s ! j)" using inv that by (simp add: system_inv_def)
    moreover have "keeps_entries (ls_table s) t' w" if "lc_pc (ls_calls s ! j) = Waiting w" for w
      using others[OF \<open>j < length (ls_calls s)\<close> False that] by simp
    ultimately have "call_ok th t' (ls_calls s ! j)" by (rule call_ok_keeps)
    with False show ?thesis by simp
  qed (use c i in simp)
  ultimately show ?thesis
    using t' by (auto simp: system_inv_def update_call_def in_set_conv_nth)
qed

lemma after_wake_table:
  assumes "after_wake w t tr = (t', tr', b)"
  shows "active t' = active t" "length (waiter_heap t') = length (waiter_heap t)"
    "entry_data t' v = entry_data t v" "v \<noteq> w \<Longrightarrow> waiter_heap t' ! v = waiter_heap t ! v"
    "b = wq_granted (waiter_heap t ! w)" "tr_wake_count tr' = Suc (tr_wake_count tr)"
proof -
  have t': "t' = t\<lparr>waiter_heap := (waiter_heap t)[w := (waiter_heap t ! w)\<lparr>wq_ready := False\<rparr>]\<rparr>"
    using assms by (simp add: after_wake_def Let_def)
  show "entry_data t' v = entry_data t v"
    using entry_data_update[of "(waiter_heap t ! w)\<lparr>wq_ready := False\<rparr>" "waiter_heap t" w v]
    by (simp add: entry_data_def Let_def t')
qed (use assms in \<open>auto simp: after_wake_def Let_def\<close>)

lemma waiting_call:
  assumes "system_inv F th s" "i < length (ls_calls s)" "lc_pc (ls_calls s ! i) = Waiting w"
  shows "tr_wake_count (lc_trace (ls_calls s ! i)) = 0" "w < length (waiter_heap (ls_table s))"
    "w \<in> set (queued (ls_table s)) \<or> woken (ls_table s) w"
  using assms by (auto simp: system_inv_def call_ok_def dest!: nth_mem)

lemma ready_is_woken:
  assumes "system_inv F th s" "i < length (ls_calls s)" "lc_pc (ls_calls s ! i) = Waiting w"
    and "wq_ready (waiter_heap (ls_table s) ! w)"
  shows "woken (ls_table s) w" "w \<notin> set (queued (ls_table s))"
  using waiting_call[OF assms(1-3)] assms(1,4)
  by (auto simp: system_inv_def table_inv_def table_wf_def waits_def)

lemma wake_table_inv:
  assumes inv: "table_inv F th t" and w: "w \<notin> set (queued t)" and run: "after_wake w t tr = (t', tr', b)"
  shows "table_inv F th t'"
proof -
  note aw = after_wake_table[OF run]
  have q: "queued t' = queued t" and k: "keyed t' = keyed t"
    using aw(1) by (auto intro: queued_cong simp: keyed_def)
  have "waits t' v = waits t v" if "v \<in> set (queued t)" for v
  proof -
    have "v \<noteq> w" using w that by blast
    from aw(4)[OF this] aw(2) show ?thesis by (simp add: waits_def)
  qed
  then have "table_wf t'" using inv k q by (auto simp: table_inv_def table_wf_def)
  then show ?thesis
    using inv aw(3) exclusive_cong[OF aw(1), of F th] by (auto simp: table_inv_def uniform_theta_def q)
qed

lemma wake_keeps:
  assumes run: "after_wake w t tr = (t', tr', b)" and "v \<noteq> w"
  shows "keeps_entries t t' v"
  using after_wake_table(2)[OF run] after_wake_table(3)[OF run, of v] after_wake_table(4)[OF run assms(2)]
    queued_cong[OF after_wake_table(1)[OF run]]
  by (auto simp: keeps_entries_def woken_def)

lemma release_system_inv:
  assumes inv: "system_inv F th s"
  shows "system_inv F th (s\<lparr>ls_table := fst (release F h a (ls_table s))\<rparr>)"
  using inv by (intro system_inv_table_step[OF inv])
    (auto simp: system_inv_def table_inv_def[of F th "ls_table s"] intro: release_keeps release_table_inv)

lemma remove_pending_system_inv:
  assumes inv: "system_inv F th s"
  shows "system_inv F th (s\<lparr>ls_table := fst (remove_pending F h a (ls_table s))\<rparr>)"
  using inv release_system_inv[OF inv, of h a] by (simp add: remove_pending_is)

lemma promote_system_inv:
  assumes inv: "system_inv F th s" and e: "regions (ls_table s) a = Some e"
  shows "system_inv F th (s\<lparr>ls_table := apply_acquire h a e th (ls_table s)\<rparr>)"
proof -
  have t: "table_inv F th (ls_table s)" using inv by (simp add: system_inv_def)
  then have wf: "table_wf (ls_table s)" and ex: "exclusive F th (ls_table s)" by (simp_all add: table_inv_def)
  from wf have u: "um_wf (active (ls_table s))" by (simp add: table_wf_def keyedD)
  have "table_inv F th (apply_acquire h a e th (ls_table s))"
    unfolding apply_acquire_def
    by (rule table_inv_same_heap[OF t]) (use wf exclusive_promote[OF ex u e] in simp_all)
  then show ?thesis
    by (rule system_inv_table_step[OF inv]) (rule keeps_same_heap, simp_all add: apply_acquire_def)
qed

lemma sweep_flag_system_inv:
  assumes inv: "system_inv F th s"
  shows "system_inv F th (s\<lparr>ls_table := ls_table s\<lparr>sweep_in_progress := b\<rparr>\<rparr>)"
proof -
  let ?t = "ls_table s" and ?u = "ls_table s\<lparr>sweep_in_progress := b\<rparr>"
  have q: "queued ?u = queued ?t" by (rule queued_cong) simp
  have t: "table_inv F th ?t" using inv by (simp add: system_inv_def)
  have "table_wf ?u" using t by (simp add: table_inv_def table_wf_def q waits_def)
  moreover have "exclusive F th ?u"
    using t exclusive_cong[of ?u ?t F th] by (simp add: table_inv_def)
  ultimately have "table_inv F th ?u" by (intro table_inv_same_heap[OF t]) (simp_all add: q)
  then show ?thesis by (rule system_inv_table_step[OF inv]) (rule keeps_same_heap, simp_all add: q)
qed

lemma lock_step_inv:
  assumes inv: "system_inv F th s" and step: "lock_step F th s s'"
  shows "system_inv F th s'"
  using step
proof (cases rule: lock_step.cases)
  case (new_call a e b)
  with inv show ?thesis
    by (auto simp: system_inv_def separate_def call_ok_def new_AcquireTrace_def nth_append)
next
  case (enter i h t' tr' r)
  have "tr_wake_count (lc_trace (ls_calls s ! i)) = 0"
    using inv enter(2,3) by (auto simp: system_inv_def call_ok_def dest!: nth_mem)
  note it = call_iteration_inv[OF enter(5) _ this]
  show ?thesis unfolding enter(1)
  proof (rule update_call_inv[OF inv enter(2)])
    fix j w assume "j < length (ls_calls s)" "lc_pc (ls_calls s ! j) = Waiting w"
    then show "keeps_entries (ls_table s) t' w \<and> pc_of r \<noteq> Waiting w"
      using it waiting_call(2)[OF inv] inv by (cases r) (auto simp: system_inv_def)
  qed (use it inv in \<open>auto simp: system_inv_def\<close>)
next
  case (wake_granted i w t' tr')
  note rw = ready_is_woken[OF inv wake_granted(2,3,4)]
  show ?thesis unfolding wake_granted(1)
  proof (rule update_call_inv[OF inv wake_granted(2)])
    show "table_inv F th t'"
      using inv by (intro wake_table_inv[OF _ rw(2) wake_granted(5)]) (simp add: system_inv_def)
    show "call_ok th t' ((ls_calls s ! i)\<lparr>lc_pc := Returned, lc_trace := tr'\<rparr>)"
      using waiting_call(1)[OF inv wake_granted(2,3)] after_wake_table(6)[OF wake_granted(5)]
      by (simp add: call_ok_def)
    fix j v assume "j < length (ls_calls s)" "j \<noteq> i" "lc_pc (ls_calls s ! j) = Waiting v"
    then have "v \<noteq> w" using inv wake_granted(2,3) by (auto simp: system_inv_def separate_def)
    then show "keeps_entries (ls_table s) t' v \<and> Returned \<noteq> Waiting v"
      using wake_keeps[OF wake_granted(5)] by simp
  qed
next
  case (wake_retry i w t1 tr1 h t' tr' r)
  from ready_is_woken(1)[OF inv wake_retry(2,3,4)] after_wake_table(5)[OF wake_retry(5)]
  show ?thesis by (simp add: woken_def)
next
  case (release_lock h a)
  show ?thesis unfolding release_lock by (rule release_system_inv[OF inv])
next
  case (cancel h a)
  show ?thesis unfolding cancel by (rule remove_pending_system_inv[OF inv])
next
  case (promote a e h)
  show ?thesis unfolding promote(1) by (rule promote_system_inv[OF inv promote(2)])
next
  case open_sweep
  show ?thesis unfolding open_sweep begin_leader_sweep_def fst_conv by (rule sweep_flag_system_inv[OF inv])
next
  case close_sweep
  show ?thesis unfolding close_sweep end_leader_sweep_def by (rule sweep_flag_system_inv[OF inv])
qed

interpretation lock_sys: inductive_invariant initial_system "lock_step F th" "system_inv F th" for F th
proof unfold_locales
  fix s assume "initial_system s"
  then show "system_inv F th s"
    by (auto simp: initial_system_def system_inv_def table_inv_def table_wf_new exclusive_new
        separate_def uniform_theta_def) (simp add: queued_def new_ActiveLockTable_def)
qed (rule lock_step_inv)

end
