(* ===== verification/LockTableProps.thy ===== *)
theory LockTableProps
  imports AdmissionProtocol
begin

text \<open>
  The properties of the lock table and of its admission protocol, each with an example run that the
  property is applied to. The examples use two orthogonal unit embeddings, the threshold 1/2 and
  rounding-free arithmetic.
\<close>

section \<open>Example embeddings and runs\<close>

definition vec_x :: "fl list" where "vec_x = [Fin 1, Fin 0]"
definition vec_y :: "fl list" where "vec_y = [Fin 0, Fin 1]"
definition half :: fl where "half = Fin (1 / 2)"
definition newest_first :: layout where "newest_first _ = []"

lemma cosine_examples [simp]:
  "cosine_similarity exact_fpu vec_x vec_x = Fin 1"
  "cosine_similarity exact_fpu vec_y vec_y = Fin 1"
  "cosine_similarity exact_fpu vec_x vec_y = Fin 0"
  "cosine_similarity exact_fpu vec_y vec_x = Fin 0"
  by (simp_all add: cosine_similarity_def vec_x_def vec_y_def exact_fpu_def fl_mul_def fl_div_def
      fl_min_def fl_max_def)

lemma half_examples [simp]: "fl_le half (Fin 1)" "\<not> fl_le half (Fin 0)"
  by (simp_all add: half_def)

definition ex_call :: "string \<Rightarrow> fl list \<Rightarrow> call_pc \<Rightarrow> AcquireTrace \<Rightarrow> lock_call" where
  "ex_call a e pc tr = \<lparr>lc_agent = a, lc_embedding = e, lc_legacy = False, lc_pc = pc, lc_trace = tr\<rparr>"

definition ex_lock :: "string \<Rightarrow> fl list \<Rightarrow> nat list \<Rightarrow> SemanticLock" where
  "ex_lock a e ws = \<lparr>sl_agent_id = a, sl_centroid = e, sl_threshold = half, sl_pending = True, sl_waiters = ws\<rparr>"

definition ex_waiter :: "string \<Rightarrow> fl list \<Rightarrow> WaitQueueEntry" where
  "ex_waiter a e = \<lparr>wq_waiting_agent_id = a, wq_embedding = e, wq_theta = half, wq_ready = False,
     wq_granted = False, wq_queue_hops = 0\<rparr>"

text \<open>\<open>A\<close> holds the x region, \<open>B\<close> the y region, and \<open>C\<close> waits for the x region.\<close>

definition ex_table :: ActiveLockTable where
  "ex_table = \<lparr>active = [(''B'', ex_lock ''B'' vec_y []), (''A'', ex_lock ''A'' vec_x [0])],
     sweep_in_progress = False, waiter_heap = [ex_waiter ''C'' vec_x]\<rparr>"

definition ex_trace :: AcquireTrace where
  "ex_trace = \<lparr>tr_waited = True, tr_blocking_similarity_score = Fin 1, tr_blocking_agent_id = ''A'',
     tr_wait_position = 1, tr_wake_count = 0, tr_queue_hops = 0\<rparr>"

definition ex_sys :: "nat \<Rightarrow> lock_system" where
  "ex_sys n = (
     let t0 = new_ActiveLockTable;
         tA = t0\<lparr>active := [(''A'', ex_lock ''A'' vec_x [])]\<rparr>;
         tB = t0\<lparr>active := [(''B'', ex_lock ''B'' vec_y []), (''A'', ex_lock ''A'' vec_x [])]\<rparr>;
         a = ex_call ''A'' vec_x; b = ex_call ''B'' vec_y; c = ex_call ''C'' vec_x;
         n0 = new_AcquireTrace
     in [\<lparr>ls_table = t0, ls_calls = []\<rparr>,
         \<lparr>ls_table = t0, ls_calls = [a Entering n0]\<rparr>,
         \<lparr>ls_table = tA, ls_calls = [a Returned n0]\<rparr>,
         \<lparr>ls_table = tA, ls_calls = [a Returned n0, b Entering n0]\<rparr>,
         \<lparr>ls_table = tB, ls_calls = [a Returned n0, b Returned n0]\<rparr>,
         \<lparr>ls_table = tB, ls_calls = [a Returned n0, b Returned n0, c Entering n0]\<rparr>,
         \<lparr>ls_table = ex_table, ls_calls = [a Returned n0, b Returned n0, c (Waiting 0) ex_trace]\<rparr>] ! n)"

lemmas ex_defs = ex_sys_def ex_call_def ex_lock_def ex_waiter_def ex_table_def ex_trace_def
  newest_first_def new_ActiveLockTable_def new_AcquireTrace_def Let_def
lemmas iteration_defs = call_iteration_def admission_iteration_def wait_iteration_def
  find_conflict_locked_def insert_pending_locked_def um_emplace_def reorder_def push_waiter_def
  um_modify_def

lemma ex_enter:
  assumes "i < length (ls_calls s)" "lc_pc (ls_calls s ! i) = Entering" "\<not> sweep_in_progress (ls_table s)"
    and "s' = (case call_iteration exact_fpu newest_first half (ls_calls s ! i) (ls_table s) (lc_trace (ls_calls s ! i))
           of (t', tr', r) \<Rightarrow> update_call i (pc_of r) tr' t' s)"
  shows "lock_step exact_fpu half s s'"
  using assms lock_step.enter[of i s exact_fpu newest_first half] by (auto split: prod.splits)

lemma ex_steps:
  "lock_step exact_fpu half (ex_sys 0) (ex_sys 1)"
  "lock_step exact_fpu half (ex_sys 1) (ex_sys 2)"
  "lock_step exact_fpu half (ex_sys 2) (ex_sys 3)"
  "lock_step exact_fpu half (ex_sys 3) (ex_sys 4)"
  "lock_step exact_fpu half (ex_sys 4) (ex_sys 5)"
  "lock_step exact_fpu half (ex_sys 5) (ex_sys 6)"
proof -
  show "lock_step exact_fpu half (ex_sys 0) (ex_sys 1)"
    using lock_step.new_call[of exact_fpu half "ex_sys 0" "''A''" vec_x False] by (simp add: ex_defs)
  show "lock_step exact_fpu half (ex_sys 2) (ex_sys 3)"
    using lock_step.new_call[of exact_fpu half "ex_sys 2" "''B''" vec_y False] by (simp add: ex_defs)
  show "lock_step exact_fpu half (ex_sys 4) (ex_sys 5)"
    using lock_step.new_call[of exact_fpu half "ex_sys 4" "''C''" vec_x False] by (simp add: ex_defs)
  show "lock_step exact_fpu half (ex_sys 1) (ex_sys 2)"
    by (rule ex_enter[where i = 0]) (simp_all add: ex_defs iteration_defs update_call_def)
  show "lock_step exact_fpu half (ex_sys 3) (ex_sys 4)"
    by (rule ex_enter[where i = 1]) (simp_all add: ex_defs iteration_defs update_call_def)
  show "lock_step exact_fpu half (ex_sys 5) (ex_sys 6)"
    by (rule ex_enter[where i = 2]) (simp_all add: ex_defs iteration_defs update_call_def)
qed

lemma ex_start: "initial_system (ex_sys 0)"
  by (simp add: initial_system_def ex_sys_def Let_def)

lemma ex_run: "(lock_step exact_fpu half)\<^sup>*\<^sup>* (ex_sys 0) (ex_sys 6)"
  by (meson ex_steps rtranclp.rtrancl_into_rtrancl rtranclp.rtrancl_refl)

section \<open>Properties\<close>



text \<open>C7: no waiter is lost. In every reachable state a parked call's wait-queue entry still carries
  the call's request, and either it sits in the queue of some active lock, not ready, or a releaser
  has granted it the slot and set its ready flag, so that the thread's wait returns.\<close>

theorem no_lost_waiter:
  assumes "initial_system s" "(lock_step F th)\<^sup>*\<^sup>* s s'"
    and "i < length (ls_calls s')" "lc_pc (ls_calls s' ! i) = Waiting w"
  shows "entry_data (ls_table s') w = (lc_agent (ls_calls s' ! i), lc_embedding (ls_calls s' ! i), th)
    \<and> ((\<exists>k l. map_of (active (ls_table s')) k = Some l \<and> w \<in> set (sl_waiters l))
         \<and> waits (ls_table s') w \<or> woken (ls_table s') w)"
proof -
  have inv: "system_inv F th s'" using lock_sys.reachable_invar[OF assms(1,2)] .
  have wf: "table_wf (ls_table s')" using inv by (simp add: system_inv_def table_inv_def)
  have "call_ok th (ls_table s') (ls_calls s' ! i)" using inv assms(3) by (simp add: system_inv_def)
  moreover have "\<exists>k l. map_of (active (ls_table s')) k = Some l \<and> v \<in> set (sl_waiters l)"
    if "v \<in> set (queued (ls_table s'))" for v
    using that wf by (force simp: queued_def table_wf_def keyed_def in_set_map_of[symmetric])
  ultimately show ?thesis using assms(4) wf by (auto simp: call_ok_def table_wf_def)
qed

theorem no_lost_waiter_witness:
  "lc_pc (ls_calls (ex_sys 6) ! 2) = Waiting 0
   \<and> ((\<exists>k l. map_of (active (ls_table (ex_sys 6))) k = Some l \<and> 0 \<in> set (sl_waiters l))
        \<and> waits (ls_table (ex_sys 6)) 0 \<or> woken (ls_table (ex_sys 6)) 0)"
proof -
  have pc: "2 < length (ls_calls (ex_sys 6))" "lc_pc (ls_calls (ex_sys 6) ! 2) = Waiting 0"
    by (simp_all add: ex_defs)
  show ?thesis using no_lost_waiter[OF ex_start ex_run pc] pc(2) by blast
qed

text \<open>C15: every wake-up is a transfer of ownership. A call that returns has been woken at most once, and
  a call that is entering or parked has never been woken: no thread is woken only to compete again.\<close>

theorem single_wake_up:
  assumes "initial_system s" "(lock_step F th)\<^sup>*\<^sup>* s s'" "c \<in> set (ls_calls s')"
  shows "tr_wake_count (lc_trace c) \<le> (if lc_pc c = Returned then 1 else 0)"
proof -
  have "call_ok th (ls_table s') c"
    using lock_sys.reachable_invar[OF assms(1,2)] assms(3) by (simp add: system_inv_def)
  then show ?thesis by (auto simp: call_ok_def split: call_pc.splits)
qed

theorem single_wake_up_witness:
  "ex_call ''C'' vec_x (Waiting 0) ex_trace \<in> set (ls_calls (ex_sys 6))
   \<and> tr_wake_count (lc_trace (ex_call ''C'' vec_x (Waiting 0) ex_trace)) \<le> 0"
proof -
  have c: "ex_call ''C'' vec_x (Waiting 0) ex_trace \<in> set (ls_calls (ex_sys 6))"
    by (simp add: ex_sys_def Let_def)
  show ?thesis using single_wake_up[OF ex_start ex_run c] c by (simp add: ex_call_def)
qed

section \<open>Releasing\<close>

lemma ex_table_wf: "table_wf ex_table"
  by (simp add: table_wf_def keyed_def um_wf_def queued_def waits_def ex_defs)

text \<open>\<^verbatim>\<open>release\<close> conserves the waiters. The entries queued after it and the entries it notifies are,
  counted with multiplicity, exactly the entries queued before; every notified entry is granted and
  ready, no queued one is, and entries keep their requests.\<close>

theorem release_conserves_waiters:
  assumes "table_wf t" "release F h a t = (t', g)"
  shows "mset (queued t') + mset g = mset (queued t) \<and> table_wf t' \<and> (\<forall>w\<in>set g. woken t' w)
    \<and> (\<forall>w. entry_data t' w = entry_data t w)"
  using assms release_conserves release_pool_ok release_heap(3) by (simp add: pool_ok_empty)

theorem release_conserves_waiters_witness:
  "mset (queued (fst (release exact_fpu newest_first ''A'' ex_table)))
     + mset (snd (release exact_fpu newest_first ''A'' ex_table)) = {#0#}
   \<and> snd (release exact_fpu newest_first ''A'' ex_table) = [0]"
proof -
  obtain t' g where run: "release exact_fpu newest_first ''A'' ex_table = (t', g)" by fastforce
  have q: "queued ex_table = [0]" by (simp add: queued_def ex_defs)
  have "g = [0]"
    using run by (simp add: release_def remove_lock_locked_def ex_defs iteration_defs um_erase_def
        grant_waiter_def)
  with release_conserves_waiters[OF ex_table_wf run] run q show ?thesis by simp
qed

text \<open>C8: waiting ends. If the holders release one after another, in any order and with any map
  layout, then after at most as many releases as there are locks and waiters the table is empty and
  every request that was queued has been granted; so no queued request waits for ever.\<close>

theorem drain_serves_all:
  assumes "table_wf t" "length (active t) + length (queued t) \<le> n" "w \<in> set (queued t)"
  shows "active (drain F h pick n t) = [] \<and> served (drain F h pick n t) w"
  using drain_correct[OF assms(1,2), of "{w}"] assms(3) by simp

theorem drain_serves_all_witness:
  "active (drain exact_fpu newest_first (\<lambda>_. 0) 3 ex_table) = []
   \<and> served (drain exact_fpu newest_first (\<lambda>_. 0) 3 ex_table) 0"
proof -
  have q: "queued ex_table = [0]" by (simp add: queued_def ex_defs)
  show ?thesis by (rule drain_serves_all[OF ex_table_wf]) (simp_all add: q, simp add: ex_defs)
qed


text \<open>The example for it: two requests for the same region queue behind \<open>A\<close>.\<close>

definition ex_herd :: ActiveLockTable where
  "ex_herd = \<lparr>active = [(''B'', ex_lock ''B'' vec_y []), (''A'', ex_lock ''A'' vec_x [0, 1])],
     sweep_in_progress = False, waiter_heap = [ex_waiter ''C'' vec_x, ex_waiter ''D'' vec_x]\<rparr>"

lemma ex_herd_wf: "table_wf ex_herd"
  by (simp add: table_wf_def keyed_def um_wf_def queued_def waits_def ex_herd_def ex_defs less_Suc_eq)





text \<open>One waiter of a herd is woken, in order of arrival. If the waiters of the released lock conflict
  with its first waiter and with no other lock, \<^verbatim>\<open>release\<close> notifies that first waiter only; it
  becomes the holder and the others queue behind it in their order.\<close>

theorem release_wakes_first_of_herd:
  assumes "table_wf t" "map_of (active t) a = Some l" "sl_waiters l = w # ws"
    and "map_of (active t) (entry_agent t w) = None \<or> entry_agent t w = a"
    and "\<forall>v\<in>set (w # ws). no_conflict F (t\<lparr>active := um_erase a (active t)\<rparr>)
        (fst (snd (entry_data t v))) (snd (snd (entry_data t v)))"
    and "\<forall>v\<in>set ws. fl_le (snd (snd (entry_data t v)))
        (cosine_similarity F (fst (snd (entry_data t v))) (fst (snd (entry_data t w))))"
  shows "snd (release F h a t) = [w]
    \<and> (\<exists>l'. map_of (active (fst (release F h a t))) (entry_agent t w) = Some l'
         \<and> sl_centroid l' = fst (snd (entry_data t w)) \<and> sl_waiters l' = ws)"
  using release_herd[OF assms] .

theorem release_wakes_first_of_herd_witness:
  "snd (release exact_fpu newest_first ''A'' ex_herd) = [0]
   \<and> (\<exists>l'. map_of (active (fst (release exact_fpu newest_first ''A'' ex_herd))) (entry_agent ex_herd 0) = Some l'
         \<and> sl_centroid l' = fst (snd (entry_data ex_herd 0)) \<and> sl_waiters l' = [1])"
proof (rule release_wakes_first_of_herd[OF ex_herd_wf])
  show "map_of (active ex_herd) ''A'' = Some (ex_lock ''A'' vec_x [0, 1])"
    "map_of (active ex_herd) (entry_agent ex_herd 0) = None \<or> entry_agent ex_herd 0 = ''A''"
    "\<forall>v\<in>set [1]. fl_le (snd (snd (entry_data ex_herd v)))
        (cosine_similarity exact_fpu (fst (snd (entry_data ex_herd v))) (fst (snd (entry_data ex_herd 0))))"
    by (simp_all add: ex_herd_def ex_defs entry_agent_def entry_data_def)
  show "\<forall>v\<in>set [0, 1]. no_conflict exact_fpu (ex_herd\<lparr>active := um_erase ''A'' (active ex_herd)\<rparr>)
        (fst (snd (entry_data ex_herd v))) (snd (snd (entry_data ex_herd v)))"
    by (auto simp: no_conflict_def regions_def ex_herd_def ex_defs entry_data_def um_erase_def split: if_splits)
qed (simp add: ex_lock_def)

section \<open>Conflict search\<close>

text \<open>C16: the conflict search is exact and maximal. It finds a conflict exactly when some active lock is
  similar to the threshold or more, and the lock it returns is one of those with the greatest
  similarity, whatever order the map is iterated in and however the arithmetic rounds.\<close>

theorem find_conflict_maximal:
  "case ct_lock (find_conflict_locked F e th t) of
     None \<Rightarrow> \<forall>(k, l)\<in>set (active t). \<not> fl_le th (cosine_similarity F e (sl_centroid l))
   | Some k \<Rightarrow> (\<exists>l. (k, l) \<in> set (active t) \<and> fl_le th (cosine_similarity F e (sl_centroid l))
        \<and> ct_similarity (find_conflict_locked F e th t) = cosine_similarity F e (sl_centroid l))
      \<and> (\<forall>(k', l')\<in>set (active t). fl_le th (cosine_similarity F e (sl_centroid l'))
        \<longrightarrow> fl_le (cosine_similarity F e (sl_centroid l')) (ct_similarity (find_conflict_locked F e th t)))"
  using find_conflict_best[of F e th t] unfolding best_among_def conflicts_def .

theorem find_conflict_maximal_witness:
  "ct_lock (find_conflict_locked exact_fpu vec_x half ex_table) = Some ''A''
   \<and> (\<exists>l. (''A'', l) \<in> set (active ex_table) \<and> fl_le half (cosine_similarity exact_fpu vec_x (sl_centroid l)))"
proof -
  have "ct_lock (find_conflict_locked exact_fpu vec_x half ex_table) = Some ''A''"
    by (simp add: ex_defs find_conflict_locked_def)
  then show ?thesis using find_conflict_maximal[where F = exact_fpu and e = vec_x and th = half and t = ex_table] by auto
qed

text \<open>C24: \<^verbatim>\<open>cosine_similarity\<close> is symmetric and stays in the unit range: with any rounding that maps the
  unit interval into itself its value is a finite number of absolute value at most 1, for every pair
  of vectors (infinities and NaN components included), so the threshold comparison is never made
  against NaN.\<close>

theorem cosine_similarity_sound:
  assumes "float_rounding F"
  shows "cosine_similarity F a b = cosine_similarity F b a
    \<and> (\<exists>y. cosine_similarity F a b = Fin y \<and> \<bar>y\<bar> \<le> 1)"
  using cosine_similarity_sym cosine_similarity_unit[OF assms] by blast

theorem cosine_similarity_sound_witness:
  "\<exists>y. cosine_similarity exact_fpu [NaN, PInf] [Fin 1, MInf] = Fin y \<and> \<bar>y\<bar> \<le> 1"
proof -
  have "float_rounding exact_fpu" by (simp add: float_rounding_def exact_fpu_def)
  from cosine_similarity_sound[OF this] show ?thesis by blast
qed

section \<open>Behaviour at the edges\<close>

lemma admission_free:
  assumes "\<not> sweep_in_progress t" "ct_lock (find_conflict_locked F e th t) = None"
  shows "wait_for_admission F h sweep_env envs a e th t
    = Some (insert_pending_locked h a e th t, new_AcquireTrace)"
  using assms unfolding wait_for_admission_def
  by (subst wait_loop.simps) (simp add: admission_iteration_def wait_iteration_def)

text \<open>With a NaN threshold the table excludes nobody: no request ever conflicts, so
  \<^verbatim>\<open>wait_for_admission\<close> admits every request at once.\<close>

theorem nan_threshold_admits_all:
  assumes "\<not> sweep_in_progress t"
  shows "\<exists>t'. wait_for_admission F h sweep_env envs a e NaN t = Some (t', new_AcquireTrace)
    \<and> t' = insert_pending_locked h a e NaN t"
  using admission_free[OF assms, of F e NaN] find_conflict_None_iff[of F e NaN t]
  by (simp add: conflicts_def)

theorem nan_threshold_admits_all_witness:
  "\<exists>t'. wait_for_admission exact_fpu newest_first id [] ''E'' vec_x NaN ex_table = Some (t', new_AcquireTrace)
     \<and> t' = insert_pending_locked newest_first ''E'' vec_x NaN ex_table"
  by (rule nan_threshold_admits_all) (simp add: ex_table_def)

text \<open>An agent's second request replaces the region of its first. When an agent that holds a slot is
  admitted with another embedding, the slot moves to the new region, keeps its waiters and its
  pending flag, and the old region is no longer protected.\<close>

theorem second_request_moves_slot:
  assumes "um_wf (active t)" "map_of (active t) a = Some l" "\<not> sweep_in_progress t"
    and "no_conflict F t e th"
  shows "\<exists>t'. wait_for_admission F h sweep_env envs a e th t = Some (t', new_AcquireTrace)
    \<and> map_of (active t') = (map_of (active t))(a \<mapsto> l\<lparr>sl_centroid := e, sl_threshold := th\<rparr>)"
  using assms find_conflict_no_conflict[OF assms(1), of F e th] admission_free[OF assms(3), of F e th]
  by (auto simp: insert_pending_locked_def umap_simps fun_eq_iff)

theorem second_request_moves_slot_witness:
  "\<exists>t'. wait_for_admission exact_fpu newest_first id [] ''A'' vec_y half
        (new_ActiveLockTable\<lparr>active := [(''A'', ex_lock ''A'' vec_x [])]\<rparr>) = Some (t', new_AcquireTrace)
     \<and> regions t' ''A'' = Some vec_y"
proof -
  let ?t = "new_ActiveLockTable\<lparr>active := [(''A'', ex_lock ''A'' vec_x [])]\<rparr>"
  have "um_wf (active ?t)" "map_of (active ?t) ''A'' = Some (ex_lock ''A'' vec_x [])"
    "\<not> sweep_in_progress ?t" by (simp_all add: um_wf_def new_ActiveLockTable_def)
  moreover have "no_conflict exact_fpu ?t vec_y half"
    by (auto simp: no_conflict_def regions_def ex_lock_def split: if_splits)
  ultimately obtain t' where
    "wait_for_admission exact_fpu newest_first id [] ''A'' vec_y half ?t = Some (t', new_AcquireTrace)"
    "map_of (active t') ''A'' = Some (ex_lock ''A'' vec_x []\<lparr>sl_centroid := vec_y, sl_threshold := half\<rparr>)"
    using second_request_moves_slot[of ?t "''A''"] by (metis fun_upd_same)
  then show ?thesis by (simp add: regions_def)
qed

end
