(* ===== verification/RaftNode.thy ===== *)
theory RaftNode
  imports Floats
begin

text \<open>
  The in-memory Raft node (\<^verbatim>\<open>src/raft_node.{h,cpp}\<close>), the wire messages it exchanges
  (\<^verbatim>\<open>proto/dscc_raft.proto\<close>) and the gRPC adaptor in front of it
  (\<^verbatim>\<open>src/raft_service_impl.cpp\<close>). A member function that holds the mutex for its whole body is one
  state transformer. A function that gives the mutex up in the middle (to make a remote call or to
  wait) is split there: the pieces are definitions of their own, and the whole function runs them
  against a list that says, round by round, what the remote side answered and what the other threads
  did to the node meanwhile. \<^verbatim>\<open>int64_t\<close> values are integers: terms and indices grow by one and never
  come near the bound. Indexing \<^verbatim>\<open>log_\<close> outside its size is \<open>Inl OutOfBounds\<close>.
\<close>

section \<open>Messages\<close>

datatype OpType = ACQUIRE | RELEASE

record LogEntry =
  le_term :: int
  le_op_type :: OpType
  le_agent_id :: string
  le_embedding :: "fl list"
  le_theta :: fl

definition default_LogEntry :: LogEntry where
  "default_LogEntry = \<lparr>le_term = 0, le_op_type = ACQUIRE, le_agent_id = [], le_embedding = [],
     le_theta = Fin 0\<rparr>"

record VoteRequest =
  vq_term :: int
  vq_candidate_id :: string
  vq_last_log_index :: int
  vq_last_log_term :: int

record VoteResponse =
  vr_term :: int
  vr_vote_granted :: bool

record AppendRequest =
  aq_term :: int
  aq_leader_id :: string
  aq_leader_service_address :: string
  aq_prev_log_index :: int
  aq_prev_log_term :: int
  aq_entries :: "LogEntry list"
  aq_leader_commit :: int

record AppendResponse =
  ar_term :: int
  ar_success :: bool
  ar_match_index :: int
  ar_conflict_term :: int
  ar_conflict_index :: int

definition default_AppendResponse :: AppendResponse where
  "default_AppendResponse = \<lparr>ar_term = 0, ar_success = False, ar_match_index = 0,
     ar_conflict_term = 0, ar_conflict_index = 0\<rparr>"

record SnapshotRequest =
  sq_term :: int
  sq_leader_id :: string
  sq_last_included_index :: int
  sq_last_included_term :: int
  sq_data :: string

record SnapshotResponse = sr_term :: int

record LeaderInfo =
  li_leader_id :: string
  li_leader_address :: string
  li_current_term :: int
  li_is_leader :: bool

section \<open>Node state\<close>

datatype RaftState = FOLLOWER | CANDIDATE | LEADER

fun raft_state_name :: "RaftState \<Rightarrow> string" where
  "raft_state_name FOLLOWER = ''FOLLOWER''"
| "raft_state_name CANDIDATE = ''CANDIDATE''"
| "raft_state_name LEADER = ''LEADER''"

record RaftConfig =
  heartbeat_ms :: int
  election_timeout_min_ms :: int
  election_timeout_max_ms :: int
  rpc_timeout_ms :: int

definition default_RaftConfig :: RaftConfig where
  "default_RaftConfig = \<lparr>heartbeat_ms = 75, election_timeout_min_ms = 600,
     election_timeout_max_ms = 1000, rpc_timeout_ms = 150\<rparr>"

record RaftNode =
  rn_node_id :: string
  rn_service_address :: string
  rn_peer_addresses :: "string list"
  rn_has_on_leader :: bool
  rn_config :: RaftConfig
  rn_current_term :: int
  rn_voted_for :: string
  rn_log :: "LogEntry list"
  rn_commit_index :: int
  rn_last_applied :: int
  rn_state :: RaftState
  rn_current_leader_id :: string
  rn_current_leader_address :: string
  rn_next_index :: "(string, int) umap"
  rn_match_index :: "(string, int) umap"
  rn_election_deadline :: int
  rn_running :: bool

text \<open>
  What a critical section reads from outside the node: the steady clock (in milliseconds) and the
  raw value of the random generator, which \<^verbatim>\<open>uniform_int_distribution\<close> maps into its range.
\<close>

record clock =
  clk_now :: int
  clk_draw :: nat

definition new_RaftNode :: "string \<Rightarrow> string \<Rightarrow> string list \<Rightarrow> RaftConfig \<Rightarrow> RaftNode" where
  "new_RaftNode node_id service_address peer_addresses config =
     \<lparr>rn_node_id = node_id, rn_service_address = service_address,
      rn_peer_addresses = peer_addresses, rn_has_on_leader = False, rn_config = config,
      rn_current_term = 0, rn_voted_for = [], rn_log = [default_LogEntry\<lparr>le_term := 0\<rparr>],
      rn_commit_index = 0, rn_last_applied = 0, rn_state = FOLLOWER, rn_current_leader_id = [],
      rn_current_leader_address = [], rn_next_index = [], rn_match_index = [],
      rn_election_deadline = 0, rn_running = False\<rparr>"

section \<open>Helpers under the mutex\<close>

definition uniform_int :: "int \<Rightarrow> int \<Rightarrow> nat \<Rightarrow> int" where
  "uniform_int lo hi draw = lo + int draw mod (hi - lo + 1)"

definition RandomElectionTimeoutMs :: "nat \<Rightarrow> RaftNode \<Rightarrow> int" where
  "RandomElectionTimeoutMs draw n =
     (let min_ms = min (election_timeout_min_ms (rn_config n)) (election_timeout_max_ms (rn_config n));
          max_ms = max (election_timeout_min_ms (rn_config n)) (election_timeout_max_ms (rn_config n))
      in uniform_int min_ms max_ms draw)"

definition LastLogIndexLocked :: "RaftNode \<Rightarrow> int" where
  "LastLogIndexLocked n = int (length (rn_log n)) - 1"

definition LastLogTermLocked :: "RaftNode \<Rightarrow> int" where
  "LastLogTermLocked n = (if rn_log n = [] then 0 else le_term (last (rn_log n)))"

definition QuorumSize :: "RaftNode \<Rightarrow> nat" where
  "QuorumSize n = (length (rn_peer_addresses n) + 1) div 2 + 1"

definition ResetElectionDeadlineLocked :: "clock \<Rightarrow> RaftNode \<Rightarrow> RaftNode" where
  "ResetElectionDeadlineLocked clk n =
     n\<lparr>rn_election_deadline := clk_now clk + RandomElectionTimeoutMs (clk_draw clk) n\<rparr>"

definition BecomeLeaderLocked :: "RaftNode \<Rightarrow> RaftNode" where
  "BecomeLeaderLocked n =
     n\<lparr>rn_state := LEADER, rn_current_leader_id := rn_node_id n,
       rn_current_leader_address := rn_service_address n,
       rn_next_index := fold (\<lambda>p m. um_assign p (int (length (rn_log n))) m) (rn_peer_addresses n) [],
       rn_match_index := fold (\<lambda>p m. um_assign p 0 m) (rn_peer_addresses n) []\<rparr>"

definition BecomeFollowerLocked :: "clock \<Rightarrow> int \<Rightarrow> string \<Rightarrow> string \<Rightarrow> RaftNode \<Rightarrow> RaftNode" where
  "BecomeFollowerLocked clk term leader_id leader_address n =
     ResetElectionDeadlineLocked clk
       (n\<lparr>rn_state := FOLLOWER, rn_current_term := max (rn_current_term n) term, rn_voted_for := [],
          rn_current_leader_id := leader_id, rn_current_leader_address := leader_address\<rparr>)"

definition IsLogUpToDateLocked :: "int \<Rightarrow> int \<Rightarrow> RaftNode \<Rightarrow> bool" where
  "IsLogUpToDateLocked candidate_last_log_index candidate_last_log_term n =
     (let local_last_term = LastLogTermLocked n in
      if candidate_last_log_term \<noteq> local_last_term then candidate_last_log_term > local_last_term
      else candidate_last_log_index \<ge> LastLogIndexLocked n)"

text \<open>
  \<^verbatim>\<open>AdvanceCommitIndexLocked\<close>: the loop runs down from the end of the log and stops at the first
  index of the current term that a quorum is believed to have.
\<close>

definition replicated_count :: "(string, int) umap \<Rightarrow> int \<Rightarrow> nat" where
  "replicated_count match_index index =
     1 + length (filter (\<lambda>(peer_address, m). m \<ge> index) match_index)"

function advance_commit_loop :: "RaftNode \<Rightarrow> int \<Rightarrow> RaftNode result" where
  "advance_commit_loop n index =
     (if index > rn_commit_index n then
        rbind (vec_at (rn_log n) index) (\<lambda>entry.
          if le_term entry \<noteq> rn_current_term n then advance_commit_loop n (index - 1)
          else if replicated_count (rn_match_index n) index \<ge> QuorumSize n
            then Inr (n\<lparr>rn_commit_index := index\<rparr>)
            else advance_commit_loop n (index - 1))
      else Inr n)"
  by auto
termination by (relation "measure (\<lambda>(n, i). nat (i - rn_commit_index n))") auto

declare advance_commit_loop.simps [simp del]

definition AdvanceCommitIndexLocked :: "RaftNode \<Rightarrow> RaftNode result" where
  "AdvanceCommitIndexLocked n =
     (if rn_state n \<noteq> LEADER then Inr n
      else advance_commit_loop n (int (length (rn_log n)) - 1))"

section \<open>Remote procedure handlers\<close>

definition HandleRequestVote :: "clock \<Rightarrow> VoteRequest \<Rightarrow> RaftNode \<Rightarrow> RaftNode \<times> VoteResponse" where
  "HandleRequestVote clk request n =
     (if vq_term request < rn_current_term n
      then (n, \<lparr>vr_term = rn_current_term n, vr_vote_granted = False\<rparr>)
      else
        let n1 = (if vq_term request > rn_current_term n
                  then BecomeFollowerLocked clk (vq_term request) [] [] n else n);
            can_vote = (rn_voted_for n1 = [] \<or> rn_voted_for n1 = vq_candidate_id request);
            up_to_date = IsLogUpToDateLocked (vq_last_log_index request) (vq_last_log_term request) n1;
            n2 = (if can_vote \<and> up_to_date
                  then ResetElectionDeadlineLocked clk (n1\<lparr>rn_voted_for := vq_candidate_id request\<rparr>)
                  else n1)
        in (n2, \<lparr>vr_term = rn_current_term n2, vr_vote_granted = (can_vote \<and> up_to_date)\<rparr>))"

function conflict_index_loop :: "LogEntry list \<Rightarrow> int \<Rightarrow> int \<Rightarrow> int result" where
  "conflict_index_loop lg conflict_term conflict_index =
     (if conflict_index > 1 then
        rbind (vec_at lg (conflict_index - 1)) (\<lambda>entry.
          if le_term entry = conflict_term then conflict_index_loop lg conflict_term (conflict_index - 1)
          else Inr conflict_index)
      else Inr conflict_index)"
  by auto
termination by (relation "measure (\<lambda>(lg, t, i). nat i)") auto

declare conflict_index_loop.simps [simp del]

fun append_entries_loop :: "int \<Rightarrow> LogEntry list \<Rightarrow> LogEntry list \<Rightarrow> LogEntry list result" where
  "append_entries_loop index [] lg = Inr lg"
| "append_entries_loop index (incoming # es) lg =
     (if index < int (length lg) then
        rbind (vec_at lg index) (\<lambda>entry.
          if le_term entry \<noteq> le_term incoming
          then append_entries_loop (index + 1) es (take (nat index) lg @ [incoming])
          else append_entries_loop (index + 1) es lg)
      else append_entries_loop (index + 1) es (lg @ [incoming]))"

definition append_follow :: "clock \<Rightarrow> AppendRequest \<Rightarrow> RaftNode \<Rightarrow> RaftNode" where
  "append_follow clk request n =
     (if aq_term request > rn_current_term n \<or> rn_state n \<noteq> FOLLOWER
      then BecomeFollowerLocked clk (aq_term request) (aq_leader_id request)
             (aq_leader_service_address request) n
      else ResetElectionDeadlineLocked clk
             (n\<lparr>rn_current_leader_id := aq_leader_id request,
                rn_current_leader_address := aq_leader_service_address request\<rparr>))"

definition prev_mismatch :: "AppendRequest \<Rightarrow> LogEntry list \<Rightarrow> bool result" where
  "prev_mismatch request lg =
     (let prev_index = aq_prev_log_index request in
      if prev_index > 0 then
        if prev_index \<ge> int (length lg) then Inr True
        else rbind (vec_at lg prev_index) (\<lambda>entry. Inr (le_term entry \<noteq> aq_prev_log_term request))
      else Inr False)"

definition append_reject :: "AppendRequest \<Rightarrow> RaftNode \<Rightarrow> AppendResponse result" where
  "append_reject request n =
     (let prev_index = aq_prev_log_index request;
          response = default_AppendResponse\<lparr>ar_term := rn_current_term n, ar_success := False\<rparr>
      in if prev_index < int (length (rn_log n)) then
           rbind (vec_at (rn_log n) prev_index) (\<lambda>entry.
             rbind (conflict_index_loop (rn_log n) (le_term entry) prev_index) (\<lambda>conflict_index.
               Inr (response\<lparr>ar_conflict_term := le_term entry, ar_conflict_index := conflict_index\<rparr>)))
         else Inr (response\<lparr>ar_conflict_index := int (length (rn_log n))\<rparr>))"

definition append_commit :: "AppendRequest \<Rightarrow> RaftNode \<Rightarrow> RaftNode" where
  "append_commit request n =
     (if aq_leader_commit request > rn_commit_index n
      then n\<lparr>rn_commit_index := min (aq_leader_commit request) (int (length (rn_log n)) - 1)\<rparr>
      else n)"

definition HandleAppendEntries ::
  "clock \<Rightarrow> AppendRequest \<Rightarrow> RaftNode \<Rightarrow> (RaftNode \<times> AppendResponse) result" where
  "HandleAppendEntries clk request n =
     (if aq_term request < rn_current_term n
      then Inr (n, default_AppendResponse\<lparr>ar_term := rn_current_term n, ar_success := False\<rparr>)
      else
        let n1 = append_follow clk request n in
        rbind (prev_mismatch request (rn_log n1)) (\<lambda>mismatch.
          if mismatch then rbind (append_reject request n1) (\<lambda>response. Inr (n1, response))
          else
            rbind (append_entries_loop (aq_prev_log_index request + 1) (aq_entries request) (rn_log n1)) (\<lambda>lg.
              let n2 = append_commit request (n1\<lparr>rn_log := lg\<rparr>) in
              Inr (n2, default_AppendResponse\<lparr>ar_term := rn_current_term n2, ar_success := True,
                ar_match_index := int (length (rn_log n2)) - 1\<rparr>))))"

definition HandleInstallSnapshot :: "clock \<Rightarrow> SnapshotRequest \<Rightarrow> RaftNode \<Rightarrow> RaftNode \<times> SnapshotResponse" where
  "HandleInstallSnapshot clk request n =
     (let n1 = (if sq_term request > rn_current_term n
                then BecomeFollowerLocked clk (sq_term request) (sq_leader_id request)
                       (rn_current_leader_address n) n else n)
      in (n1, \<lparr>sr_term = rn_current_term n1\<rparr>))"

definition HandleGetLeader :: "RaftNode \<Rightarrow> LeaderInfo" where
  "HandleGetLeader n =
     \<lparr>li_leader_id = (if rn_state n = LEADER then rn_node_id n else rn_current_leader_id n),
      li_leader_address = (if rn_state n = LEADER then rn_service_address n else rn_current_leader_address n),
      li_current_term = rn_current_term n, li_is_leader = (rn_state n = LEADER)\<rparr>"

section \<open>The gRPC adaptor\<close>

definition RequestVote :: "clock \<Rightarrow> VoteRequest \<Rightarrow> RaftNode \<Rightarrow> RaftNode \<times> VoteResponse \<times> Status" where
  "RequestVote clk request n = (case HandleRequestVote clk request n of (n', response) \<Rightarrow> (n', response, Status_OK))"

definition AppendEntries ::
  "clock \<Rightarrow> AppendRequest \<Rightarrow> RaftNode \<Rightarrow> (RaftNode \<times> AppendResponse \<times> Status) result" where
  "AppendEntries clk request n =
     rbind (HandleAppendEntries clk request n) (\<lambda>(n', response). Inr (n', response, Status_OK))"

definition InstallSnapshot ::
  "clock \<Rightarrow> SnapshotRequest \<Rightarrow> RaftNode \<Rightarrow> RaftNode \<times> SnapshotResponse \<times> Status" where
  "InstallSnapshot clk request n = (case HandleInstallSnapshot clk request n of (n', response) \<Rightarrow> (n', response, Status_OK))"

definition GetLeader :: "RaftNode \<Rightarrow> LeaderInfo \<times> Status" where
  "GetLeader n = (HandleGetLeader n, Status_OK)"

section \<open>Accessors\<close>

definition IsLeader :: "RaftNode \<Rightarrow> bool" where "IsLeader n = (rn_state n = LEADER)"
definition State :: "RaftNode \<Rightarrow> RaftState" where "State n = rn_state n"
definition LeaderAddress :: "RaftNode \<Rightarrow> string" where
  "LeaderAddress n = (if rn_state n = LEADER then rn_service_address n else rn_current_leader_address n)"
definition NodeId :: "RaftNode \<Rightarrow> string" where "NodeId n = rn_node_id n"
definition ServiceAddress :: "RaftNode \<Rightarrow> string" where "ServiceAddress n = rn_service_address n"
definition CurrentTerm :: "RaftNode \<Rightarrow> int" where "CurrentTerm n = rn_current_term n"
definition CommitIndex :: "RaftNode \<Rightarrow> int" where "CommitIndex n = rn_commit_index n"
definition LastApplied :: "RaftNode \<Rightarrow> int" where "LastApplied n = rn_last_applied n"
definition LogSize :: "RaftNode \<Rightarrow> int" where "LogSize n = int (length (rn_log n)) - 1"
definition Running :: "RaftNode \<Rightarrow> bool" where "Running n = rn_running n"

section \<open>Life cycle and leader callback\<close>

definition SetLeaderChangeCallback :: "RaftNode \<Rightarrow> RaftNode" where
  "SetLeaderChangeCallback n = n\<lparr>rn_has_on_leader := True\<rparr>"

text \<open>The result is the commit index the callback's thread waits for, if a thread is started.\<close>

definition FireLeaderCallbackIfNeeded :: "RaftNode \<Rightarrow> int option" where
  "FireLeaderCallbackIfNeeded n =
     (if \<not> rn_has_on_leader n then None
      else if rn_state n \<noteq> LEADER then None else Some (rn_commit_index n))"

text \<open>The boolean says whether this call started the three background threads.\<close>

definition Start :: "clock \<Rightarrow> RaftNode \<Rightarrow> RaftNode \<times> bool \<times> int option" where
  "Start clk n =
     (if rn_running n then (n, False, None)
      else
        let n1 = ResetElectionDeadlineLocked clk (n\<lparr>rn_running := True\<rparr>);
            n2 = n1\<lparr>rn_current_leader_id := [], rn_current_leader_address := []\<rparr>;
            n3 = (if rn_peer_addresses n2 = []
                  then BecomeLeaderLocked (n2\<lparr>rn_current_term := max 1 (rn_current_term n2),
                         rn_voted_for := rn_node_id n2\<rparr>)
                  else n2)
        in (n3, True, FireLeaderCallbackIfNeeded n3))"

definition Stop :: "RaftNode \<Rightarrow> RaftNode" where
  "Stop n = (if \<not> rn_running n then n else n\<lparr>rn_running := False\<rparr>)"

text \<open>
  \<^verbatim>\<open>WaitUntilApplied\<close>: each element of the list is what the other threads do before the waiting
  thread looks again; the end of the list is the timeout, at which \<^verbatim>\<open>wait_for\<close> returns the
  predicate's value.
\<close>

definition applied_upto :: "int \<Rightarrow> RaftNode \<Rightarrow> bool" where
  "applied_upto index n = (\<not> rn_running n \<or> rn_last_applied n \<ge> index)"

fun WaitUntilApplied :: "int \<Rightarrow> (RaftNode \<Rightarrow> RaftNode) list \<Rightarrow> RaftNode \<Rightarrow> RaftNode \<times> bool" where
  "WaitUntilApplied index [] n = (n, applied_upto index n)"
| "WaitUntilApplied index (env # envs) n =
     (if applied_upto index n then (n, True) else WaitUntilApplied index envs (env n))"

section \<open>Background threads\<close>

definition election_timer_tick :: "clock \<Rightarrow> RaftNode \<Rightarrow> bool" where
  "election_timer_tick clk n =
     (rn_running n \<and> rn_state n \<noteq> LEADER \<and> clk_now clk \<ge> rn_election_deadline n)"

definition heartbeat_peers :: "RaftNode \<Rightarrow> string list" where
  "heartbeat_peers n = (if rn_running n \<and> rn_state n = LEADER then rn_peer_addresses n else [])"

text \<open>
  One critical section of \<^verbatim>\<open>ApplyLoop\<close>: \<open>None\<close> when the thread blocks (nothing to apply) or leaves
  (the node is stopped), otherwise the entry handed to \<^verbatim>\<open>on_commit_\<close>. The loop runs until it blocks.
\<close>

definition apply_take :: "RaftNode \<Rightarrow> (RaftNode \<times> LogEntry option) result" where
  "apply_take n =
     (if \<not> rn_running n \<or> \<not> rn_last_applied n < rn_commit_index n then Inr (n, None)
      else
        let n1 = n\<lparr>rn_last_applied := rn_last_applied n + 1\<rparr> in
        rbind (vec_at (rn_log n1) (rn_last_applied n1)) (\<lambda>entry. Inr (n1, Some entry)))"

function ApplyLoop :: "(LogEntry \<Rightarrow> 't \<Rightarrow> 't) \<Rightarrow> RaftNode \<Rightarrow> 't \<Rightarrow> (RaftNode \<times> 't) result" where
  "ApplyLoop on_commit n t =
     (case apply_take n of
        Inl e \<Rightarrow> Inl e
      | Inr (n1, None) \<Rightarrow> Inr (n1, t)
      | Inr (n1, Some entry) \<Rightarrow> ApplyLoop on_commit n1 (on_commit entry t))"
  by pat_completeness auto
termination
  by (relation "measure (\<lambda>(f, n, t). nat (rn_commit_index n - rn_last_applied n))")
    (auto simp: apply_take_def Let_def dest!: rbind_InrD split: if_splits)

declare ApplyLoop.simps [simp del]

section \<open>Elections\<close>

definition begin_election :: "clock \<Rightarrow> RaftNode \<Rightarrow> (RaftNode \<times> VoteRequest) option" where
  "begin_election clk n =
     (if \<not> rn_running n \<or> rn_state n = LEADER then None
      else
        let n1 = ResetElectionDeadlineLocked clk
              (n\<lparr>rn_state := CANDIDATE, rn_current_term := rn_current_term n + 1,
                 rn_voted_for := rn_node_id n, rn_current_leader_id := [],
                 rn_current_leader_address := []\<rparr>)
        in Some (n1, \<lparr>vq_term = rn_current_term n1, vq_candidate_id = rn_node_id n1,
             vq_last_log_index = LastLogIndexLocked n1, vq_last_log_term = LastLogTermLocked n1\<rparr>))"

datatype vote_outcome = KeepGoing nat | Elected | Abandoned

definition on_vote_response ::
  "clock \<Rightarrow> int \<Rightarrow> nat \<Rightarrow> VoteResponse \<Rightarrow> RaftNode \<Rightarrow> RaftNode \<times> vote_outcome" where
  "on_vote_response clk election_term votes response n =
     (if \<not> rn_running n then (n, Abandoned)
      else if vr_term response > rn_current_term n
        then (BecomeFollowerLocked clk (vr_term response) [] [] n, Abandoned)
      else if rn_state n \<noteq> CANDIDATE \<or> rn_current_term n \<noteq> election_term then (n, Abandoned)
      else if vr_vote_granted response
        then if votes + 1 \<ge> QuorumSize n then (BecomeLeaderLocked n, Elected) else (n, KeepGoing (votes + 1))
      else (n, KeepGoing votes))"

text \<open>
  The loop over the peers. For each peer the environment gives the answer of \<^verbatim>\<open>SendRequestVote\<close>
  (\<open>None\<close> when the call fails) and what the other threads do to the node during the call.
\<close>

record vote_round =
  vo_clock :: clock
  vo_rpc :: "VoteRequest \<Rightarrow> VoteResponse option"
  vo_env :: "RaftNode \<Rightarrow> RaftNode"

definition SendRequestVote :: "vote_round \<Rightarrow> VoteRequest \<Rightarrow> VoteResponse option" where
  "SendRequestVote r request = vo_rpc r request"

fun election_loop :: "VoteRequest \<Rightarrow> nat \<Rightarrow> vote_round list \<Rightarrow> RaftNode \<Rightarrow> RaftNode \<times> bool" where
  "election_loop request votes [] n = (n, True)"
| "election_loop request votes (r # rs) n =
     (let n1 = vo_env r n in
      case SendRequestVote r request of
        None \<Rightarrow> election_loop request votes rs n1
      | Some response \<Rightarrow>
          (case on_vote_response (vo_clock r) (vq_term request) votes response n1 of
             (n2, Abandoned) \<Rightarrow> (n2, False)
           | (n2, Elected) \<Rightarrow> (n2, True)
           | (n2, KeepGoing votes') \<Rightarrow> election_loop request votes' rs n2))"

definition StartElection ::
  "clock \<Rightarrow> (string \<Rightarrow> vote_round) \<Rightarrow> RaftNode \<Rightarrow> RaftNode \<times> int option" where
  "StartElection clk rounds n =
     (case begin_election clk n of
        None \<Rightarrow> (n, None)
      | Some (n1, request) \<Rightarrow>
          (case election_loop request 1 (map rounds (rn_peer_addresses n1)) n1 of
             (n2, completed) \<Rightarrow> (n2, if completed then FireLeaderCallbackIfNeeded n2 else None)))"

section \<open>Replication\<close>

definition replicate_request :: "string \<Rightarrow> RaftNode \<Rightarrow> (RaftNode \<times> AppendRequest) option result" where
  "replicate_request peer_address n =
     (if rn_state n \<noteq> LEADER then Inr None
      else
        let next_index = max 1 (um_get 0 (rn_next_index n) peer_address);
            n1 = n\<lparr>rn_next_index := um_assign peer_address next_index (rn_next_index n)\<rparr>
        in rbind (vec_at (rn_log n1) (next_index - 1)) (\<lambda>prev.
             Inr (Some (n1, \<lparr>aq_term = rn_current_term n1, aq_leader_id = rn_node_id n1,
               aq_leader_service_address = rn_service_address n1,
               aq_prev_log_index = next_index - 1, aq_prev_log_term = le_term prev,
               aq_entries = drop (nat next_index) (rn_log n1),
               aq_leader_commit = rn_commit_index n1\<rparr>))))"

datatype replicate_outcome = Retry | Finished bool

definition replicate_response ::
  "clock \<Rightarrow> string \<Rightarrow> int \<Rightarrow> AppendResponse \<Rightarrow> RaftNode \<Rightarrow> (RaftNode \<times> replicate_outcome) result" where
  "replicate_response clk peer_address sent_term response n =
     (if \<not> rn_running n then Inr (n, Finished False)
      else if ar_term response > rn_current_term n
        then Inr (BecomeFollowerLocked clk (ar_term response) [] [] n, Finished False)
      else if rn_state n \<noteq> LEADER \<or> rn_current_term n \<noteq> sent_term then Inr (n, Finished False)
      else if ar_success response then
        let m = max (um_get 0 (rn_match_index n) peer_address) (ar_match_index response);
            n1 = n\<lparr>rn_match_index := um_assign peer_address m (rn_match_index n),
                   rn_next_index := um_assign peer_address (m + 1) (rn_next_index n)\<rparr>
        in rbind (AdvanceCommitIndexLocked n1) (\<lambda>n2. Inr (n2, Finished True))
      else
        let retry_index = (if ar_conflict_index response > 0 then ar_conflict_index response
                           else um_get 0 (rn_next_index n) peer_address - 1)
        in Inr (n\<lparr>rn_next_index := um_assign peer_address (max 1 retry_index) (rn_next_index n)\<rparr>, Retry))"

text \<open>
  The whole loop against a list of rounds: the remote peer is a state \<open>'p\<close> with a handler that may
  fail (\<open>None\<close>, a failed call). \<open>None\<close> as the overall result means that the rounds ran out.
\<close>

record 'p append_round =
  ap_clock :: clock
  ap_rpc :: "AppendRequest \<Rightarrow> 'p \<Rightarrow> ('p \<times> AppendResponse) option"
  ap_env :: "RaftNode \<Rightarrow> RaftNode"

fun ReplicateToFollower ::
  "string \<Rightarrow> 'p append_round list \<Rightarrow> RaftNode \<Rightarrow> 'p \<Rightarrow> (RaftNode \<times> 'p \<times> bool) option result" where
  "ReplicateToFollower peer_address [] n p = (if rn_running n then Inr None else Inr (Some (n, p, False)))"
| "ReplicateToFollower peer_address (r # rs) n p =
     (if \<not> rn_running n then Inr (Some (n, p, False))
      else rbind (replicate_request peer_address n) (\<lambda>sent.
        case sent of
          None \<Rightarrow> Inr (Some (n, p, False))
        | Some (n1, request) \<Rightarrow>
            (case ap_rpc r request p of
               None \<Rightarrow> Inr (Some (ap_env r n1, p, False))
             | Some (p', response) \<Rightarrow>
                 rbind (replicate_response (ap_clock r) peer_address (aq_term request) response (ap_env r n1))
                   (\<lambda>(n2, outcome). case outcome of
                      Finished b \<Rightarrow> Inr (Some (n2, p', b))
                    | Retry \<Rightarrow> ReplicateToFollower peer_address rs n2 p'))))"

section \<open>Proposing\<close>

definition propose_append :: "LogEntry \<Rightarrow> RaftNode \<Rightarrow> (RaftNode \<times> int) option" where
  "propose_append entry n =
     (if \<not> rn_running n \<or> rn_state n \<noteq> LEADER then None
      else
        let n1 = n\<lparr>rn_log := rn_log n @ [entry\<lparr>le_term := rn_current_term n\<rparr>]\<rparr>;
            proposed_index = int (length (rn_log n1)) - 1;
            n2 = (if rn_peer_addresses n1 = [] then n1\<lparr>rn_commit_index := proposed_index\<rparr> else n1)
        in Some (n2, proposed_index))"

definition AppendLocalEntry :: "LogEntry \<Rightarrow> RaftNode \<Rightarrow> RaftNode \<times> bool" where
  "AppendLocalEntry entry n =
     (if \<not> rn_running n \<or> rn_state n \<noteq> LEADER then (n, False)
      else
        let n1 = n\<lparr>rn_log := rn_log n @ [entry\<lparr>le_term := rn_current_term n\<rparr>]\<rparr>;
            n2 = (if rn_peer_addresses n1 = []
                  then n1\<lparr>rn_commit_index := int (length (rn_log n1)) - 1\<rparr> else n1)
        in (n2, True))"

text \<open>
  The waiting loop of \<^verbatim>\<open>Propose\<close>. A round says whether the deadline is still ahead at the loop
  test, what happens to the node until the mutex is taken again (its replication threads and
  everything else), whether the deadline has passed then, and what happens during the wait.
\<close>

record propose_round =
  pr_in_time :: bool
  pr_env :: "RaftNode \<Rightarrow> RaftNode"
  pr_expired :: bool
  pr_wait_env :: "RaftNode \<Rightarrow> RaftNode"

definition propose_final :: "int \<Rightarrow> RaftNode \<Rightarrow> RaftNode \<times> int option" where
  "propose_final proposed_index n =
     (n, if rn_commit_index n \<ge> proposed_index then Some proposed_index else None)"

fun propose_loop :: "int \<Rightarrow> propose_round list \<Rightarrow> RaftNode \<Rightarrow> (RaftNode \<times> int option) option" where
  "propose_loop proposed_index [] n = None"
| "propose_loop proposed_index (r # rs) n =
     (if \<not> (rn_running n \<and> pr_in_time r) then Some (propose_final proposed_index n)
      else
        let n1 = pr_env r n in
        if rn_commit_index n1 \<ge> proposed_index then Some (n1, Some proposed_index)
        else if rn_state n1 \<noteq> LEADER then Some (n1, None)
        else if pr_expired r then Some (propose_final proposed_index n1)
        else propose_loop proposed_index rs (pr_wait_env r n1))"

text \<open>\<open>Some (n, Some i)\<close>: returned true with index \<open>i\<close>; \<open>Some (n, None)\<close>: returned false.\<close>

definition Propose :: "LogEntry \<Rightarrow> propose_round list \<Rightarrow> RaftNode \<Rightarrow> (RaftNode \<times> int option) option" where
  "Propose entry rounds n =
     (case propose_append entry n of
        None \<Rightarrow> Some (n, None)
      | Some (n1, proposed_index) \<Rightarrow> propose_loop proposed_index rounds n1)"

end
