(* ===== verification/RaftNodeLaws.thy ===== *)
theory RaftNodeLaws
  imports RaftNode
begin

text \<open>
  Facts about a single Raft node: log positions and their order, the log that an
  \<^verbatim>\<open>AppendEntries\<close> request leaves behind, the reject path and its conflict index, the commit rule,
  the replication loop, the apply loop and the election window.
\<close>

section \<open>Log positions\<close>

text \<open>
  The end of a log, ordered first by term and then by index: the order that decides votes.
\<close>

datatype log_pos = LogPos (pos_term: int) (pos_index: int)

instantiation log_pos :: linorder
begin

fun less_eq_log_pos :: "log_pos \<Rightarrow> log_pos \<Rightarrow> bool" where
  "less_eq_log_pos (LogPos t i) (LogPos t' i') \<longleftrightarrow> t < t' \<or> (t = t' \<and> i \<le> i')"

fun less_log_pos :: "log_pos \<Rightarrow> log_pos \<Rightarrow> bool" where
  "less_log_pos (LogPos t i) (LogPos t' i') \<longleftrightarrow> t < t' \<or> (t = t' \<and> i < i')"

instance
proof
  fix x y z :: log_pos
  show "x < y \<longleftrightarrow> x \<le> y \<and> \<not> y \<le> x" by (cases x; cases y) auto
  show "x \<le> x" by (cases x) simp
  show "x \<le> y \<Longrightarrow> y \<le> z \<Longrightarrow> x \<le> z" by (cases x; cases y; cases z) auto
  show "x \<le> y \<Longrightarrow> y \<le> x \<Longrightarrow> x = y" by (cases x; cases y) auto
  show "x \<le> y \<or> y \<le> x" by (cases x; cases y) auto
qed

end

definition last_pos :: "RaftNode \<Rightarrow> log_pos" where
  "last_pos n = LogPos (LastLogTermLocked n) (LastLogIndexLocked n)"

lemma up_to_date_order: "IsLogUpToDateLocked i t n \<longleftrightarrow> last_pos n \<le> LogPos t i"
  by (auto simp: IsLogUpToDateLocked_def last_pos_def Let_def)

section \<open>Field access\<close>

named_theorems node_simps

lemma reset_simps [simp]:
  "rn_node_id (ResetElectionDeadlineLocked c n) = rn_node_id n"
  "rn_service_address (ResetElectionDeadlineLocked c n) = rn_service_address n"
  "rn_peer_addresses (ResetElectionDeadlineLocked c n) = rn_peer_addresses n"
  "rn_config (ResetElectionDeadlineLocked c n) = rn_config n"
  "rn_current_term (ResetElectionDeadlineLocked c n) = rn_current_term n"
  "rn_voted_for (ResetElectionDeadlineLocked c n) = rn_voted_for n"
  "rn_log (ResetElectionDeadlineLocked c n) = rn_log n"
  "rn_commit_index (ResetElectionDeadlineLocked c n) = rn_commit_index n"
  "rn_last_applied (ResetElectionDeadlineLocked c n) = rn_last_applied n"
  "rn_state (ResetElectionDeadlineLocked c n) = rn_state n"
  "rn_next_index (ResetElectionDeadlineLocked c n) = rn_next_index n"
  "rn_match_index (ResetElectionDeadlineLocked c n) = rn_match_index n"
  "rn_running (ResetElectionDeadlineLocked c n) = rn_running n"
  "rn_current_leader_id (ResetElectionDeadlineLocked c n) = rn_current_leader_id n"
  "rn_current_leader_address (ResetElectionDeadlineLocked c n) = rn_current_leader_address n"
  by (simp_all add: ResetElectionDeadlineLocked_def)

lemma follower_simps [simp]:
  "rn_node_id (BecomeFollowerLocked c t i a n) = rn_node_id n"
  "rn_service_address (BecomeFollowerLocked c t i a n) = rn_service_address n"
  "rn_peer_addresses (BecomeFollowerLocked c t i a n) = rn_peer_addresses n"
  "rn_config (BecomeFollowerLocked c t i a n) = rn_config n"
  "rn_current_term (BecomeFollowerLocked c t i a n) = max (rn_current_term n) t"
  "rn_voted_for (BecomeFollowerLocked c t i a n) = []"
  "rn_log (BecomeFollowerLocked c t i a n) = rn_log n"
  "rn_commit_index (BecomeFollowerLocked c t i a n) = rn_commit_index n"
  "rn_last_applied (BecomeFollowerLocked c t i a n) = rn_last_applied n"
  "rn_state (BecomeFollowerLocked c t i a n) = FOLLOWER"
  "rn_next_index (BecomeFollowerLocked c t i a n) = rn_next_index n"
  "rn_match_index (BecomeFollowerLocked c t i a n) = rn_match_index n"
  "rn_running (BecomeFollowerLocked c t i a n) = rn_running n"
  "rn_current_leader_id (BecomeFollowerLocked c t i a n) = i"
  "rn_current_leader_address (BecomeFollowerLocked c t i a n) = a"
  by (simp_all add: BecomeFollowerLocked_def)

lemma leader_simps [simp]:
  "rn_node_id (BecomeLeaderLocked n) = rn_node_id n"
  "rn_peer_addresses (BecomeLeaderLocked n) = rn_peer_addresses n"
  "rn_current_term (BecomeLeaderLocked n) = rn_current_term n"
  "rn_voted_for (BecomeLeaderLocked n) = rn_voted_for n"
  "rn_log (BecomeLeaderLocked n) = rn_log n"
  "rn_commit_index (BecomeLeaderLocked n) = rn_commit_index n"
  "rn_last_applied (BecomeLeaderLocked n) = rn_last_applied n"
  "rn_state (BecomeLeaderLocked n) = LEADER"
  "rn_running (BecomeLeaderLocked n) = rn_running n"
  by (simp_all add: BecomeLeaderLocked_def)

lemma append_follow_simps [simp]:
  "rn_node_id (append_follow c q n) = rn_node_id n"
  "rn_peer_addresses (append_follow c q n) = rn_peer_addresses n"
  "rn_log (append_follow c q n) = rn_log n"
  "rn_commit_index (append_follow c q n) = rn_commit_index n"
  "rn_last_applied (append_follow c q n) = rn_last_applied n"
  "rn_state (append_follow c q n) = FOLLOWER"
  "rn_running (append_follow c q n) = rn_running n"
  "rn_current_leader_id (append_follow c q n) = aq_leader_id q"
  "rn_current_leader_address (append_follow c q n) = aq_leader_service_address q"
  by (simp_all add: append_follow_def)

lemma append_follow_term [simp]:
  "rn_current_term n \<le> aq_term q \<Longrightarrow> rn_current_term (append_follow c q n) = aq_term q"
  by (auto simp: append_follow_def)

section \<open>The log after an AppendEntries request\<close>

text \<open>
  The reference for the append loop: entries that agree in term with what is already there are kept,
  and from the first disagreement (or the end of the log) on, the log is replaced by the rest of the
  request.
\<close>

definition agreeing :: "LogEntry list \<Rightarrow> LogEntry list \<Rightarrow> nat" where
  "agreeing xs ys = length (takeWhile (\<lambda>(x, y). le_term x = le_term y) (zip xs ys))"

definition splice :: "nat \<Rightarrow> LogEntry list \<Rightarrow> LogEntry list \<Rightarrow> LogEntry list" where
  "splice p es lg =
     (let k = agreeing (drop p lg) es in
      if k = length es then lg else take (p + k) lg @ drop k es)"

lemma agreeing_simps [simp]:
  "agreeing [] ys = 0" "agreeing xs [] = 0"
  "agreeing (x # xs) (y # ys) = (if le_term x = le_term y then Suc (agreeing xs ys) else 0)"
  by (simp_all add: agreeing_def)

lemma agreeing_le: "agreeing xs ys \<le> length xs" "agreeing xs ys \<le> length ys"
  by (induction xs ys rule: list_induct2') auto

lemma agreeing_nth: "i < agreeing xs ys \<Longrightarrow> le_term (xs ! i) = le_term (ys ! i)"
  by (induction xs ys arbitrary: i rule: list_induct2') (auto simp: nth_Cons split: nat.splits if_splits)

lemma append_loop_at_end: "append_entries_loop (int (length lg)) es lg = Inr (lg @ es)"
proof (induction es arbitrary: lg)
  case (Cons e es)
  from Cons.IH[of "lg @ [e]"] show ?case by (simp add: add.commute)
qed simp

lemma append_loop_splice:
  "p \<le> length lg \<Longrightarrow> append_entries_loop (int p) es lg = Inr (splice p es lg)"
proof (induction es arbitrary: p)
  case Nil
  then show ?case by (simp add: splice_def)
next
  case (Cons e es)
  show ?case
  proof (cases "p < length lg")
    case False
    with Cons.prems have "p = length lg" by simp
    then show ?thesis using append_loop_at_end[of lg "e # es"] by (simp add: splice_def)
  next
    case True
    then have d: "drop p lg = lg ! p # drop (Suc p) lg" by (simp add: Cons_nth_drop_Suc)
    show ?thesis
    proof (cases "le_term (lg ! p) = le_term e")
      case eq: True
      have "append_entries_loop (1 + int p) es lg = Inr (splice (Suc p) es lg)"
        using Cons.IH[of "Suc p"] True by simp
      with True eq d show ?thesis by (auto simp: splice_def Let_def add.commute)
    next
      case False
      with True d show ?thesis
        using append_loop_at_end[of "take p lg @ [e]" es] by (simp add: splice_def add.commute min_def)
    qed
  qed
qed

lemma splice_length: "p \<le> length lg \<Longrightarrow> p + length es \<le> length (splice p es lg)"
  using agreeing_le[of "drop p lg" es] by (auto simp: splice_def Let_def)

lemma splice_prefix: "p \<le> length lg \<Longrightarrow> take p (splice p es lg) = take p lg"
  using agreeing_le[of "drop p lg" es] by (auto simp: splice_def Let_def min_def)

lemma splice_terms:
  assumes "p \<le> length lg" "i < length es"
  shows "le_term (splice p es lg ! (p + i)) = le_term (es ! i)"
proof -
  let ?k = "agreeing (drop p lg) es"
  have k: "?k \<le> length lg - p" "?k \<le> length es" using agreeing_le[of "drop p lg" es] by auto
  have old: "le_term (lg ! (p + i)) = le_term (es ! i)" if "i < ?k"
    using agreeing_nth[OF that] that k assms(1) by (simp add: add.commute)
  show ?thesis
  proof (cases "i < ?k")
    case True
    then show ?thesis using old k assms by (simp add: splice_def Let_def nth_append)
  next
    case False
    then have "?k \<noteq> length es" using assms(2) by simp
    then have "splice p es lg = take (p + ?k) lg @ drop ?k es" by (simp add: splice_def Let_def)
    moreover have "length (take (p + ?k) lg) = p + ?k" using k assms(1) by simp
    ultimately have "splice p es lg ! (p + i) = drop ?k es ! (i - ?k)"
      using False by (simp only: nth_append) simp
    also have "\<dots> = es ! i" using False k assms(2) by simp
    finally show ?thesis by simp
  qed
qed

lemma splice_nonempty: "lg \<noteq> [] \<Longrightarrow> 0 < p \<Longrightarrow> p \<le> length lg \<Longrightarrow> splice p es lg \<noteq> []"
  using agreeing_le[of "drop p lg" es] by (auto simp: splice_def Let_def)

section \<open>The reject path\<close>

lemma conflict_index_range:
  assumes "1 \<le> i" "i < int (length lg)"
  shows "\<exists>j. conflict_index_loop lg t i = Inr j \<and> 1 \<le> j \<and> j \<le> i
    \<and> (\<forall>m. j \<le> m \<and> m < i \<longrightarrow> le_term (lg ! nat m) = t)
    \<and> (j = 1 \<or> le_term (lg ! nat (j - 1)) \<noteq> t)"
  using assms
proof (induction lg t i rule: conflict_index_loop.induct)
  case (1 lg t i)
  show ?case
  proof (cases "1 < i \<and> le_term (lg ! nat (i - 1)) = t")
    case True
    then have v: "vec_at lg (i - 1) = Inr (lg ! nat (i - 1))" using 1 by simp
    obtain j where j: "conflict_index_loop lg t (i - 1) = Inr j" "1 \<le> j" "j \<le> i - 1"
      "\<forall>m. j \<le> m \<and> m < i - 1 \<longrightarrow> le_term (lg ! nat m) = t"
      "j = 1 \<or> le_term (lg ! nat (j - 1)) \<noteq> t"
      using 1(1)[of "lg ! nat (i - 1)"] True 1(2,3) by auto
    have "\<forall>m. j \<le> m \<and> m < i \<longrightarrow> le_term (lg ! nat m) = t"
    proof (intro allI impI)
      fix m assume m: "j \<le> m \<and> m < i"
      show "le_term (lg ! nat m) = t" using j(4) m True by (cases "m = i - 1") auto
    qed
    with j True v show ?thesis by (intro exI[of _ j]) (simp add: conflict_index_loop.simps)
  next
    case False
    with 1(2,3) show ?thesis by (auto simp: conflict_index_loop.simps[of lg t i])
  qed
qed

lemma append_reject_range:
  assumes "0 < aq_prev_log_index q" "rn_log n \<noteq> []"
  shows "\<exists>r. append_reject q n = Inr r \<and> \<not> ar_success r \<and> ar_term r = rn_current_term n
    \<and> 1 \<le> ar_conflict_index r \<and> ar_conflict_index r \<le> max (aq_prev_log_index q) 1
    \<and> ar_conflict_index r \<le> int (length (rn_log n))"
proof (cases "aq_prev_log_index q < int (length (rn_log n))")
  case True
  with assms(1) conflict_index_range[of "aq_prev_log_index q" "rn_log n"
      "le_term (rn_log n ! nat (aq_prev_log_index q))"]
  obtain j where "conflict_index_loop (rn_log n) (le_term (rn_log n ! nat (aq_prev_log_index q)))
      (aq_prev_log_index q) = Inr j" "1 \<le> j" "j \<le> aq_prev_log_index q" by auto
  with True assms(1) show ?thesis by (simp add: append_reject_def Let_def)
next
  case False
  have "1 \<le> length (rn_log n)" using assms(2) by (simp add: Suc_leI)
  with False show ?thesis by (simp add: append_reject_def Let_def default_AppendResponse_def)
qed

section \<open>HandleAppendEntries\<close>

text \<open>The request's previous position is in the log, with the request's term.\<close>

definition prev_matches :: "AppendRequest \<Rightarrow> LogEntry list \<Rightarrow> bool" where
  "prev_matches q lg \<longleftrightarrow> aq_prev_log_index q = 0 \<or>
     (aq_prev_log_index q < int (length lg) \<and> le_term (lg ! nat (aq_prev_log_index q)) = aq_prev_log_term q)"

lemma prev_mismatch_iff:
  "0 \<le> aq_prev_log_index q \<Longrightarrow> prev_mismatch q lg = Inr (\<not> prev_matches q lg)"
  by (auto simp: prev_mismatch_def prev_matches_def Let_def)

lemma prev_matches_bound:
  "0 \<le> aq_prev_log_index q \<Longrightarrow> lg \<noteq> [] \<Longrightarrow> prev_matches q lg \<Longrightarrow> Suc (nat (aq_prev_log_index q)) \<le> length lg"
  by (auto simp: prev_matches_def Suc_leI)

definition appended_log :: "AppendRequest \<Rightarrow> LogEntry list \<Rightarrow> LogEntry list" where
  "appended_log q lg = splice (Suc (nat (aq_prev_log_index q))) (aq_entries q) lg"

lemma append_stale:
  "aq_term q < rn_current_term n \<Longrightarrow> HandleAppendEntries c q n
     = Inr (n, default_AppendResponse\<lparr>ar_term := rn_current_term n, ar_success := False\<rparr>)"
  by (simp add: HandleAppendEntries_def)

lemma append_rejects:
  assumes "rn_current_term n \<le> aq_term q" "0 \<le> aq_prev_log_index q" "\<not> prev_matches q (rn_log n)"
  shows "HandleAppendEntries c q n =
    rbind (append_reject q (append_follow c q n)) (\<lambda>r. Inr (append_follow c q n, r))"
  using assms by (simp add: HandleAppendEntries_def prev_mismatch_iff Let_def)

lemma append_accepts:
  assumes "rn_current_term n \<le> aq_term q" "0 \<le> aq_prev_log_index q" "rn_log n \<noteq> []"
    and "prev_matches q (rn_log n)"
  shows "HandleAppendEntries c q n =
    Inr (append_commit q (append_follow c q n\<lparr>rn_log := appended_log q (rn_log n)\<rparr>),
         default_AppendResponse\<lparr>ar_term := aq_term q, ar_success := True,
           ar_match_index := int (length (appended_log q (rn_log n))) - 1\<rparr>)"
proof -
  have "aq_prev_log_index q + 1 = int (Suc (nat (aq_prev_log_index q)))" using assms(2) by simp
  then have "append_entries_loop (aq_prev_log_index q + 1) (aq_entries q) (rn_log n)
      = Inr (appended_log q (rn_log n))"
    using append_loop_splice[OF prev_matches_bound[OF assms(2-4)]] by (simp only: appended_log_def)
  with assms show ?thesis
    by (simp add: HandleAppendEntries_def prev_mismatch_iff Let_def append_commit_def)
qed

lemma appended_log_nonempty:
  assumes "0 \<le> aq_prev_log_index q" "lg \<noteq> []" "prev_matches q lg"
  shows "appended_log q lg \<noteq> []"
  unfolding appended_log_def by (intro splice_nonempty assms(2) prev_matches_bound[OF assms]) simp

text \<open>The handler never reads out of bounds, and every outcome is one of three.\<close>

lemma append_cases:
  assumes "0 \<le> aq_prev_log_index q" "rn_log n \<noteq> []"
  obtains (stale) "aq_term q < rn_current_term n"
      "HandleAppendEntries c q n = Inr (n, default_AppendResponse\<lparr>ar_term := rn_current_term n, ar_success := False\<rparr>)"
  | (reject) r where "rn_current_term n \<le> aq_term q" "\<not> prev_matches q (rn_log n)"
      "HandleAppendEntries c q n = Inr (append_follow c q n, r)" "\<not> ar_success r" "ar_term r = aq_term q"
      "1 \<le> ar_conflict_index r" "ar_conflict_index r \<le> aq_prev_log_index q"
      "ar_conflict_index r \<le> int (length (rn_log n))"
  | (accept) r where "rn_current_term n \<le> aq_term q" "prev_matches q (rn_log n)"
      "HandleAppendEntries c q n =
         Inr (append_commit q (append_follow c q n\<lparr>rn_log := appended_log q (rn_log n)\<rparr>), r)"
      "ar_success r" "ar_term r = aq_term q"
      "ar_match_index r = int (length (appended_log q (rn_log n))) - 1"
proof -
  consider "aq_term q < rn_current_term n"
    | "rn_current_term n \<le> aq_term q" "\<not> prev_matches q (rn_log n)"
    | "rn_current_term n \<le> aq_term q" "prev_matches q (rn_log n)" by fastforce
  then show thesis
  proof cases
    case 1
    then show ?thesis using append_stale stale by blast
  next
    case 2
    then have p: "0 < aq_prev_log_index q" using assms(1) by (auto simp: prev_matches_def)
    from append_reject_range[OF this, of "append_follow c q n"] assms(2) 2(1)
    obtain r where "append_reject q (append_follow c q n) = Inr r" "\<not> ar_success r"
      "ar_term r = aq_term q" "1 \<le> ar_conflict_index r" "ar_conflict_index r \<le> max (aq_prev_log_index q) 1"
      "ar_conflict_index r \<le> int (length (rn_log n))" by auto
    with reject[of r] 2 append_rejects[OF 2(1) assms(1) 2(2)] p show ?thesis by simp
  next
    case 3
    show ?thesis by (rule accept[OF 3 append_accepts[OF 3(1) assms 3(2)]]) simp_all
  qed
qed

section \<open>The commit rule\<close>

lemma replicated_count_mono: "i \<le> j \<Longrightarrow> replicated_count m j \<le> replicated_count m i"
  unfolding replicated_count_def by (induction m) auto

definition committable :: "RaftNode \<Rightarrow> int \<Rightarrow> bool" where
  "committable n i \<longleftrightarrow> rn_commit_index n < i \<and> i < int (length (rn_log n))
     \<and> le_term (rn_log n ! nat i) = rn_current_term n \<and> QuorumSize n \<le> replicated_count (rn_match_index n) i"

lemma advance_loop_spec:
  assumes "0 \<le> rn_commit_index n" "i < int (length (rn_log n))"
    and "\<forall>j. i < j \<longrightarrow> \<not> committable n j"
  shows "\<exists>k. advance_commit_loop n i = Inr (n\<lparr>rn_commit_index := k\<rparr>)
    \<and> (\<forall>j. committable n j \<longrightarrow> j \<le> k) \<and> (k = rn_commit_index n \<or> committable n k)"
  using assms
proof (induction n i rule: advance_commit_loop.induct)
  case (1 n i)
  show ?case
  proof (cases "rn_commit_index n < i")
    case False
    have "\<forall>j. committable n j \<longrightarrow> j \<le> rn_commit_index n"
      using False 1(5) by (metis leI less_le_trans)
    then show ?thesis using False
      by (intro exI[of _ "rn_commit_index n"]) (simp add: advance_commit_loop.simps[of n i])
  next
    case True
    then have v: "vec_at (rn_log n) i = Inr (rn_log n ! nat i)" using 1(3,4) by simp
    show ?thesis
    proof (cases "committable n i")
      case c: True
      then have "advance_commit_loop n i = Inr (n\<lparr>rn_commit_index := i\<rparr>)"
        using True v by (simp add: advance_commit_loop.simps[of n i] committable_def)
      with c 1(5) show ?thesis by (meson leI)
    next
      case c: False
      then have step: "advance_commit_loop n i = advance_commit_loop n (i - 1)"
        using True v 1(4) by (auto simp: advance_commit_loop.simps[of n i] committable_def)
      have none: "\<forall>j. i - 1 < j \<longrightarrow> \<not> committable n j"
        using 1(5) c by (metis linorder_neqE_linordered_idom not_less zle_diff1_eq)
      show ?thesis
      proof (cases "le_term (rn_log n ! nat i) = rn_current_term n")
        case t: True
        have "\<not> QuorumSize n \<le> replicated_count (rn_match_index n) i"
          using c t True 1(4) by (simp add: committable_def)
        with 1(2)[OF True, of "rn_log n ! nat i"] t v 1(3,4) none step show ?thesis by simp
      next
        case False
        with 1(1)[OF True, of "rn_log n ! nat i"] v 1(3,4) none step show ?thesis by simp
      qed
    qed
  qed
qed

lemma advance_commit_spec:
  assumes "0 \<le> rn_commit_index n"
  shows "\<exists>k. AdvanceCommitIndexLocked n = Inr (n\<lparr>rn_commit_index := k\<rparr>)
    \<and> rn_commit_index n \<le> k \<and> (k = rn_commit_index n \<or> committable n k)
    \<and> (rn_state n = LEADER \<longrightarrow> (\<forall>j. committable n j \<longrightarrow> j \<le> k))"
proof (cases "rn_state n = LEADER")
  case True
  have "\<forall>j. int (length (rn_log n)) - 1 < j \<longrightarrow> \<not> committable n j" by (auto simp: committable_def)
  from advance_loop_spec[OF assms _ this] obtain k where
    "advance_commit_loop n (int (length (rn_log n)) - 1) = Inr (n\<lparr>rn_commit_index := k\<rparr>)"
    "\<forall>j. committable n j \<longrightarrow> j \<le> k" "k = rn_commit_index n \<or> committable n k" by auto
  with True show ?thesis by (auto simp: AdvanceCommitIndexLocked_def committable_def)
qed (intro exI[of _ "rn_commit_index n"], simp add: AdvanceCommitIndexLocked_def)

section \<open>The apply loop\<close>

lemma ApplyLoop_fold:
  assumes "rn_running n" "0 \<le> rn_last_applied n" "rn_last_applied n \<le> rn_commit_index n"
    and "rn_commit_index n < int (length (rn_log n))"
  shows "ApplyLoop f n t = Inr (n\<lparr>rn_last_applied := rn_commit_index n\<rparr>,
    fold f (map (\<lambda>i. rn_log n ! nat i) [rn_last_applied n + 1..rn_commit_index n]) t)"
  using assms
proof (induction f n t rule: ApplyLoop.induct)
  case (1 f n t)
  show ?case
  proof (cases "rn_last_applied n < rn_commit_index n")
    case True
    let ?n = "n\<lparr>rn_last_applied := rn_last_applied n + 1\<rparr>"
    let ?e = "rn_log n ! nat (rn_last_applied n + 1)"
    have take: "apply_take n = Inr (?n, Some ?e)" using True 1(2-) by (simp add: apply_take_def Let_def)
    have "ApplyLoop f n t = ApplyLoop f ?n (f ?e t)" by (simp add: ApplyLoop.simps[of f n t] take)
    also have "\<dots> = Inr (?n\<lparr>rn_last_applied := rn_commit_index n\<rparr>,
        fold f (map (\<lambda>i. rn_log n ! nat i) [2 + rn_last_applied n..rn_commit_index n]) (f ?e t))"
      using 1(1)[OF take refl refl] True 1(2-) by simp
    finally show ?thesis using upto_rec1[of "rn_last_applied n + 1" "rn_commit_index n"] True by simp
  next
    case False
    with 1(4) have "rn_last_applied n = rn_commit_index n" by simp
    with False show ?thesis by (simp add: ApplyLoop.simps[of f n t] apply_take_def)
  qed
qed

section \<open>The election window\<close>

lemma uniform_int_range: "lo \<le> hi \<Longrightarrow> lo \<le> uniform_int lo hi d \<and> uniform_int lo hi d \<le> hi"
  using pos_mod_bound[of "hi - lo + 1" "int d"] by (simp add: uniform_int_def)

lemma uniform_int_onto: "lo \<le> x \<Longrightarrow> x \<le> hi \<Longrightarrow> uniform_int lo hi (nat (x - lo)) = x"
  by (simp add: uniform_int_def mod_pos_pos_trivial)

section \<open>The replication loop\<close>

lemma replicate_request_leader:
  assumes "rn_state n = LEADER" "um_get 0 (rn_next_index n) p \<le> int (length (rn_log n))" "rn_log n \<noteq> []"
  shows "\<exists>n1 q. replicate_request p n = Inr (Some (n1, q))
    \<and> n1 = n\<lparr>rn_next_index := um_assign p (max 1 (um_get 0 (rn_next_index n) p)) (rn_next_index n)\<rparr>
    \<and> aq_term q = rn_current_term n \<and> aq_prev_log_index q = max 1 (um_get 0 (rn_next_index n) p) - 1
    \<and> aq_prev_log_term q = le_term (rn_log n ! nat (aq_prev_log_index q))
    \<and> aq_entries q = drop (Suc (nat (aq_prev_log_index q))) (rn_log n)
    \<and> aq_leader_commit q = rn_commit_index n"
proof -
  let ?i = "max 1 (um_get 0 (rn_next_index n) p)"
  have "1 \<le> length (rn_log n)" using assms(3) by (simp add: Suc_leI)
  then have v: "vec_at (rn_log n) (?i - 1) = Inr (rn_log n ! nat (?i - 1))" using assms(2) by simp
  have d: "nat ?i = Suc (nat (?i - 1))" by simp
  show ?thesis
    unfolding replicate_request_def Let_def using assms(1) v d by simp
qed

text \<open>A follower that answers with its handler, and a replication thread that nobody disturbs.\<close>

definition follower_rpc :: "clock \<Rightarrow> AppendRequest \<Rightarrow> RaftNode \<Rightarrow> (RaftNode \<times> AppendResponse) option" where
  "follower_rpc clk q p = (case HandleAppendEntries clk q p of Inl _ \<Rightarrow> None | Inr r \<Rightarrow> Some r)"

definition quiet_round :: "RaftNode append_round \<Rightarrow> bool" where
  "quiet_round r \<longleftrightarrow> (\<exists>clk. ap_rpc r = follower_rpc clk) \<and> ap_env r = (\<lambda>n. n)"

text \<open>The follower's log has the leader's terms from position \<open>k\<close> on.\<close>

definition agrees_from :: "nat \<Rightarrow> LogEntry list \<Rightarrow> LogEntry list \<Rightarrow> bool" where
  "agrees_from k leader follower \<longleftrightarrow> k < length leader \<and> (0 < k \<longrightarrow> k < length follower \<and> le_term (follower ! k) = le_term (leader ! k))
     \<and> (\<forall>i. k < i \<and> i < length leader \<longrightarrow> i < length follower \<and> le_term (follower ! i) = le_term (leader ! i))"

lemma appended_agrees:
  assumes "0 \<le> aq_prev_log_index q" "lg \<noteq> []" "prev_matches q lg"
    and "nat (aq_prev_log_index q) < length leader"
    and "aq_prev_log_term q = le_term (leader ! nat (aq_prev_log_index q))"
    and "aq_entries q = drop (Suc (nat (aq_prev_log_index q))) leader"
  shows "agrees_from (nat (aq_prev_log_index q)) leader (appended_log q lg)"
proof -
  let ?k = "nat (aq_prev_log_index q)"
  have b: "Suc ?k \<le> length lg" using prev_matches_bound[OF assms(1-3)] .
  have len: "Suc ?k + length (aq_entries q) \<le> length (appended_log q lg)"
    unfolding appended_log_def by (rule splice_length[OF b])
  have "take (Suc ?k) (appended_log q lg) = take (Suc ?k) lg"
    unfolding appended_log_def by (rule splice_prefix[OF b])
  then have at: "appended_log q lg ! ?k = lg ! ?k" by (metis lessI nth_take)
  have "le_term (appended_log q lg ! i) = le_term (leader ! i)" if "?k < i" "i < length leader" for i
  proof -
    have "i = Suc ?k + (i - Suc ?k)" "i - Suc ?k < length (aq_entries q)" using that assms(6) by auto
    then show ?thesis
      using splice_terms[OF b, of "i - Suc ?k" "aq_entries q"] that assms(6) by (simp add: appended_log_def)
  qed
  then show ?thesis
    using assms(3-6) len at b by (auto simp: agrees_from_def prev_matches_def)
qed

lemma replicate_accept:
  assumes "rn_running n" "rn_state n = LEADER" "0 \<le> rn_commit_index n"
    and "ar_success r" "ar_term r = rn_current_term n"
  shows "\<exists>n'. replicate_response c p (rn_current_term n) r n = Inr (n', Finished True)"
proof -
  let ?m = "max (um_get 0 (rn_match_index n) p) (ar_match_index r)"
  let ?n = "n\<lparr>rn_match_index := um_assign p ?m (rn_match_index n), rn_next_index := um_assign p (?m + 1) (rn_next_index n)\<rparr>"
  have "0 \<le> rn_commit_index ?n" using assms(3) by simp
  from advance_commit_spec[OF this] obtain n' where "AdvanceCommitIndexLocked ?n = Inr n'" by blast
  with assms show ?thesis by (simp add: replicate_response_def Let_def)
qed

lemma ReplicateToFollower_terminates:
  assumes "\<forall>r\<in>set rs. quiet_round r" "nat (max 1 (um_get 0 (rn_next_index n) peer)) \<le> length rs"
    and "rn_running n" "rn_state n = LEADER" "rn_log n \<noteq> []" "0 \<le> rn_commit_index n"
    and "um_get 0 (rn_next_index n) peer \<le> int (length (rn_log n))"
    and "rn_log p \<noteq> []" "rn_current_term p \<le> rn_current_term n"
  shows "\<exists>n' p' k. ReplicateToFollower peer rs n p = Inr (Some (n', p', True))
    \<and> agrees_from k (rn_log n) (rn_log p')"
  using assms
proof (induction rs arbitrary: n p)
  case Nil
  then show ?case by simp
next
  case (Cons r rs)
  let ?i = "max 1 (um_get 0 (rn_next_index n) peer)"
  obtain c where r: "ap_rpc r = follower_rpc c" "ap_env r = (\<lambda>n. n)"
    using Cons.prems(1) by (auto simp: quiet_round_def)
  from replicate_request_leader[OF Cons.prems(4,7,5)] obtain n1 q where
    q: "replicate_request peer n = Inr (Some (n1, q))" "n1 = n\<lparr>rn_next_index := um_assign peer ?i (rn_next_index n)\<rparr>"
      "aq_term q = rn_current_term n" "aq_prev_log_index q = ?i - 1"
      "aq_prev_log_term q = le_term (rn_log n ! nat (aq_prev_log_index q))"
      "aq_entries q = drop (Suc (nat (aq_prev_log_index q))) (rn_log n)" by blast
  have pos: "0 \<le> aq_prev_log_index q" using q(4) by simp
  have n1: "rn_running n1" "rn_state n1 = LEADER" "rn_log n1 = rn_log n" "rn_commit_index n1 = rn_commit_index n"
    "rn_current_term n1 = rn_current_term n" "0 \<le> rn_commit_index n1" using q(2) Cons.prems by simp_all
  note step = q(1) r Cons.prems(3)
  from pos Cons.prems(8) show ?case
  proof (cases rule: append_cases[where c = c])
    case stale
    with q(3) Cons.prems(9) show ?thesis by simp
  next
    case (reject a)
    let ?n2 = "n1\<lparr>rn_next_index := um_assign peer (ar_conflict_index a) (rn_next_index n1)\<rparr>"
    have "replicate_response (ap_clock r) peer (aq_term q) a n1 = Inr (?n2, Retry)"
      using n1 reject q(3) by (simp add: replicate_response_def Let_def)
    then have "ReplicateToFollower peer (r # rs) n p = ReplicateToFollower peer rs ?n2 (append_follow c q p)"
      using step reject(3) by (simp add: follower_rpc_def)
    moreover have "\<exists>n' p' k. ReplicateToFollower peer rs ?n2 (append_follow c q p) = Inr (Some (n', p', True))
        \<and> agrees_from k (rn_log ?n2) (rn_log p')"
    proof (rule Cons.IH)
      show "nat (max 1 (um_get 0 (rn_next_index ?n2) peer)) \<le> length rs"
        using Cons.prems(2) reject(6,7) q(4) by simp
      show "um_get 0 (rn_next_index ?n2) peer \<le> int (length (rn_log ?n2))"
        using reject(7) q(4) Cons.prems(5,7) n1(3) by (simp add: Suc_leI)
    qed (use Cons.prems n1 reject(1) q(3) in \<open>simp_all add: append_follow_term\<close>)
    ultimately show ?thesis using n1(3) by simp
  next
    case (accept a)
    obtain n' where "replicate_response (ap_clock r) peer (aq_term q) a n1 = Inr (n', Finished True)"
      using replicate_accept[OF n1(1,2,6) accept(4)] accept(5) q(3) n1(5) by metis
    then have "ReplicateToFollower peer (r # rs) n p =
        Inr (Some (n', append_commit q (append_follow c q p\<lparr>rn_log := appended_log q (rn_log p)\<rparr>), True))"
      using step accept(3) by (simp add: follower_rpc_def)
    moreover have "nat (aq_prev_log_index q) < length (rn_log n)"
      using q(4) Cons.prems(5,7) by (cases "um_get 0 (rn_next_index n) peer \<le> 1") auto
    ultimately show ?thesis
      using appended_agrees[OF pos Cons.prems(8) accept(2) _ q(5,6)] by (auto simp: append_commit_def)
  qed
qed

end
