(* ===== verification/Ballots.thy ===== *)
theory Ballots
  imports RaftNode
begin

text \<open>
  The abstract specification of a Raft election: what every member's term, vote and role are, which
  votes were ever cast and who ever led a term. Its step relation says what the code may do to these
  and nothing else; the safety argument is made here once. One point differs from textbook Raft and
  the argument has to cover it: a candidate or leader that yields to an \<^verbatim>\<open>AppendEntries\<close> of its own
  term forgets its vote of that term (\<^verbatim>\<open>BecomeFollowerLocked\<close> clears \<^verbatim>\<open>voted_for_\<close>), so a member can
  cast two votes in one term, one of them for itself.
\<close>

section \<open>Quorums\<close>

locale quorum_system =
  fixes quorum :: "'a set \<Rightarrow> bool"
  assumes quorums_meet: "quorum P \<Longrightarrow> quorum Q \<Longrightarrow> \<exists>x. x \<in> P \<and> x \<in> Q"
begin

text \<open>Two candidates whose supporters are quorums share a supporter.\<close>

lemma common_supporter:
  assumes "\<exists>Q. quorum Q \<and> (\<forall>v\<in>Q. backs v a)" "\<exists>Q. quorum Q \<and> (\<forall>v\<in>Q. backs v b)"
  obtains v where "backs v a" "backs v b"
  using assms quorums_meet by blast

end

definition majority :: "'a set \<Rightarrow> 'a set \<Rightarrow> bool" where
  "majority M Q \<longleftrightarrow> finite M \<and> Q \<subseteq> M \<and> card M div 2 + 1 \<le> card Q"

interpretation majority: quorum_system "majority M" for M
proof
  fix P Q assume "majority M P" "majority M Q"
  then have fin: "finite M" and sub: "P \<subseteq> M" "Q \<subseteq> M" and c: "card M < card P + card Q"
    by (auto simp: majority_def)
  show "\<exists>x. x \<in> P \<and> x \<in> Q"
  proof (rule ccontr)
    assume "\<nexists>x. x \<in> P \<and> x \<in> Q"
    then have "P \<inter> Q = {}" by blast
    then have "card (P \<union> Q) = card P + card Q" using fin sub by (meson card_Un_disjoint finite_subset)
    moreover have "card (P \<union> Q) \<le> card M" using fin sub by (simp add: card_mono)
    ultimately show False using c by simp
  qed
qed

section \<open>The specification\<close>

record ballots =
  b_term :: "string \<Rightarrow> int"
  b_vote :: "string \<Rightarrow> string"
  b_role :: "string \<Rightarrow> RaftState"
  b_hist :: "(int \<times> string \<times> string) set"
  b_led :: "(int \<times> string) set"

inductive ballot_step :: "string set \<Rightarrow> ballots \<Rightarrow> ballots \<Rightarrow> bool" for M where
  step_down: "v \<in> M \<Longrightarrow> b_term b v < T \<Longrightarrow>
     ballot_step M b (b\<lparr>b_term := (b_term b)(v := T), b_vote := (b_vote b)(v := []),
       b_role := (b_role b)(v := FOLLOWER)\<rparr>)"
| yield: "v \<in> M \<Longrightarrow> (b_term b v, l) \<in> b_led b \<Longrightarrow> l \<noteq> v \<Longrightarrow> b_role b v \<noteq> FOLLOWER \<Longrightarrow>
     ballot_step M b (b\<lparr>b_vote := (b_vote b)(v := []), b_role := (b_role b)(v := FOLLOWER)\<rparr>)"
| grant: "v \<in> M \<Longrightarrow> c \<in> M \<Longrightarrow> c \<noteq> v \<Longrightarrow> b_vote b v = [] \<or> b_vote b v = c \<Longrightarrow>
     ballot_step M b (b\<lparr>b_vote := (b_vote b)(v := c), b_hist := insert (b_term b v, v, c) (b_hist b)\<rparr>)"
| stand: "v \<in> M \<Longrightarrow> b_role b v \<noteq> LEADER \<Longrightarrow>
     ballot_step M b (b\<lparr>b_term := (b_term b)(v := b_term b v + 1), b_vote := (b_vote b)(v := v),
       b_role := (b_role b)(v := CANDIDATE), b_hist := insert (b_term b v + 1, v, v) (b_hist b)\<rparr>)"
| win: "v \<in> M \<Longrightarrow> b_role b v = CANDIDATE \<Longrightarrow> majority M Q \<Longrightarrow> \<forall>u\<in>Q. (b_term b v, u, v) \<in> b_hist b \<Longrightarrow>
     ballot_step M b (b\<lparr>b_role := (b_role b)(v := LEADER), b_led := insert (b_term b v, v) (b_led b)\<rparr>)"
| solo: "M = {v} \<Longrightarrow> b_term b v \<le> T \<Longrightarrow>
     ballot_step M b (b\<lparr>b_term := (b_term b)(v := T), b_vote := (b_vote b)(v := v),
       b_role := (b_role b)(v := LEADER), b_hist := insert (T, v, v) (b_hist b),
       b_led := insert (T, v) (b_led b)\<rparr>)"

inductive_cases ballot_stepE: "ballot_step M b b'"

definition fresh_ballots :: "ballots \<Rightarrow> bool" where
  "fresh_ballots b \<longleftrightarrow> (\<forall>v. b_role b v = FOLLOWER) \<and> b_hist b = {} \<and> b_led b = {}"

section \<open>Election safety\<close>

definition hist_ok :: "string set \<Rightarrow> ballots \<Rightarrow> bool" where
  "hist_ok M b \<longleftrightarrow> (\<forall>T v c. (T, v, c) \<in> b_hist b \<longrightarrow> v \<in> M \<and> c \<in> M \<and> T \<le> b_term b v
     \<and> (c \<noteq> v \<and> T = b_term b v \<longrightarrow> b_vote b v = c \<and> b_role b v = FOLLOWER))"

definition one_foreign_vote :: "ballots \<Rightarrow> bool" where
  "one_foreign_vote b \<longleftrightarrow> (\<forall>T v c d. (T, v, c) \<in> b_hist b \<longrightarrow> (T, v, d) \<in> b_hist b \<longrightarrow>
     c \<noteq> v \<longrightarrow> d \<noteq> v \<longrightarrow> c = d)"

definition roles_ok :: "string set \<Rightarrow> ballots \<Rightarrow> bool" where
  "roles_ok M b \<longleftrightarrow> (\<forall>v\<in>M. (b_role b v \<noteq> FOLLOWER \<longrightarrow> b_vote b v = v)
     \<and> (b_role b v = LEADER \<longrightarrow> (b_term b v, v) \<in> b_led b)
     \<and> ((b_term b v, v) \<in> b_led b \<longrightarrow> b_role b v = LEADER))"

definition led_ok :: "string set \<Rightarrow> ballots \<Rightarrow> bool" where
  "led_ok M b \<longleftrightarrow> (\<forall>T v. (T, v) \<in> b_led b \<longrightarrow> v \<in> M \<and> T \<le> b_term b v
     \<and> (\<exists>Q. majority M Q \<and> (\<forall>u\<in>Q. (T, u, v) \<in> b_hist b)) \<and> (\<forall>c. (T, v, c) \<in> b_hist b \<longrightarrow> c = v))"

definition ballots_inv :: "string set \<Rightarrow> ballots \<Rightarrow> bool" where
  "ballots_inv M b \<longleftrightarrow> [] \<notin> M \<and> hist_ok M b \<and> one_foreign_vote b \<and> roles_ok M b \<and> led_ok M b"

lemma hist_okD:
  assumes "hist_ok M b" "(T, v, c) \<in> b_hist b"
  shows "v \<in> M" "c \<in> M" "T \<le> b_term b v"
    "c \<noteq> v \<Longrightarrow> T = b_term b v \<Longrightarrow> b_vote b v = c \<and> b_role b v = FOLLOWER"
  using assms unfolding hist_ok_def by blast+

lemma led_okD:
  assumes "led_ok M b" "(T, v) \<in> b_led b"
  shows "v \<in> M" "T \<le> b_term b v" "\<exists>Q. majority M Q \<and> (\<forall>u\<in>Q. (T, u, v) \<in> b_hist b)"
    "(T, v, c) \<in> b_hist b \<Longrightarrow> c = v"
  using assms unfolding led_ok_def by blast+

lemma roles_okD:
  assumes "roles_ok M b" "v \<in> M"
  shows "b_role b v \<noteq> FOLLOWER \<Longrightarrow> b_vote b v = v" "b_role b v = LEADER \<Longrightarrow> (b_term b v, v) \<in> b_led b"
    "(b_term b v, v) \<in> b_led b \<Longrightarrow> b_role b v = LEADER"
  using assms unfolding roles_ok_def by blast+

lemma ballots_invD:
  assumes "ballots_inv M b"
  shows "hist_ok M b" "one_foreign_vote b" "roles_ok M b" "led_ok M b" "[] \<notin> M"
  using assms by (simp_all add: ballots_inv_def)

lemma led_ok_mono:
  assumes "led_ok M b" "b_led b' = b_led b" "\<And>v. b_term b v \<le> b_term b' v" "b_hist b \<subseteq> b_hist b'"
    and "\<And>T v c. (T, v) \<in> b_led b \<Longrightarrow> (T, v, c) \<in> b_hist b' - b_hist b \<Longrightarrow> c = v"
  shows "led_ok M b'"
  unfolding led_ok_def
proof (intro allI impI conjI)
  fix T v assume "(T, v) \<in> b_led b'"
  then have h: "(T, v) \<in> b_led b" using assms(2) by simp
  note d = led_okD[OF assms(1) h]
  show "v \<in> M" by (rule d(1))
  show "T \<le> b_term b' v" using d(2) assms(3) order_trans by blast
  show "\<exists>Q. majority M Q \<and> (\<forall>u\<in>Q. (T, u, v) \<in> b_hist b')" using d(3) assms(4) by blast
  fix c assume "(T, v, c) \<in> b_hist b'"
  then show "c = v" using d(4) assms(5)[OF h] by blast
qed

lemma one_leader_per_term:
  assumes inv: "ballots_inv M b" and "(T, a) \<in> b_led b" "(T, c) \<in> b_led b"
  shows "a = c"
proof (rule ccontr)
  assume ne: "a \<noteq> c"
  have led: "led_ok M b" and one: "one_foreign_vote b" using inv by (simp_all add: ballots_inv_def)
  note a = led_okD[OF led assms(2)] and c = led_okD[OF led assms(3)]
  obtain v where v: "(T, v, a) \<in> b_hist b" "(T, v, c) \<in> b_hist b"
    using majority.common_supporter[where backs = "\<lambda>v x. (T, v, x) \<in> b_hist b", OF a(3) c(3)] by blast
  consider "v = a" | "v = c" | "v \<noteq> a" "v \<noteq> c" by blast
  then show False
    using v a(4) c(4) ne one unfolding one_foreign_vote_def by cases blast+
qed

text \<open>Each step keeps the invariant.\<close>

lemma step_down_inv:
  assumes inv: "ballots_inv M b" and v: "v \<in> M" and T: "b_term b v < T"
  shows "ballots_inv M (b\<lparr>b_term := (b_term b)(v := T), b_vote := (b_vote b)(v := []),
       b_role := (b_role b)(v := FOLLOWER)\<rparr>)" (is "ballots_inv M ?b")
proof -
  note i = ballots_invD[OF inv]
  have "hist_ok M ?b" unfolding hist_ok_def
  proof (intro allI impI)
    fix T' u c assume "(T', u, c) \<in> b_hist ?b"
    then have h: "(T', u, c) \<in> b_hist b" by simp
    show "u \<in> M \<and> c \<in> M \<and> T' \<le> b_term ?b u \<and> (c \<noteq> u \<and> T' = b_term ?b u \<longrightarrow> b_vote ?b u = c \<and> b_role ?b u = FOLLOWER)"
      using hist_okD[OF i(1) h] T by (cases "u = v") auto
  qed
  moreover have "one_foreign_vote ?b" using i by (simp add: one_foreign_vote_def)
  moreover have "led_ok M ?b" using T by (intro led_ok_mono[OF i(4)]) auto
  moreover have "roles_ok M ?b"
  proof -
    have "(T, v) \<notin> b_led b" using led_okD(2)[OF i(4), of T v] T by auto
    then show ?thesis using i by (auto simp: roles_ok_def)
  qed
  ultimately show ?thesis using i by (simp add: ballots_inv_def)
qed

lemma yield_inv:
  assumes inv: "ballots_inv M b" and v: "v \<in> M" and l: "(b_term b v, l) \<in> b_led b" "l \<noteq> v" and r: "b_role b v \<noteq> FOLLOWER"
  shows "ballots_inv M (b\<lparr>b_vote := (b_vote b)(v := []), b_role := (b_role b)(v := FOLLOWER)\<rparr>)" (is "ballots_inv M ?b")
proof -
  note i = ballots_invD[OF inv]
  have nl: "(b_term b v, v) \<notin> b_led b" using one_leader_per_term[OF inv l(1)] l(2) by blast
  have "hist_ok M ?b" unfolding hist_ok_def
  proof (intro allI impI)
    fix T u c assume "(T, u, c) \<in> b_hist ?b"
    then have h: "(T, u, c) \<in> b_hist b" by simp
    show "u \<in> M \<and> c \<in> M \<and> T \<le> b_term ?b u \<and> (c \<noteq> u \<and> T = b_term ?b u \<longrightarrow> b_vote ?b u = c \<and> b_role ?b u = FOLLOWER)"
      using hist_okD[OF i(1) h] r by (cases "u = v") auto
  qed
  moreover have "roles_ok M ?b" using i nl by (auto simp: roles_ok_def)
  ultimately show ?thesis using i by (simp add: ballots_inv_def one_foreign_vote_def led_ok_def)
qed

lemma grant_inv:
  assumes inv: "ballots_inv M b" and v: "v \<in> M" and c: "c \<in> M" "c \<noteq> v" and free: "b_vote b v = [] \<or> b_vote b v = c"
  shows "ballots_inv M (b\<lparr>b_vote := (b_vote b)(v := c), b_hist := insert (b_term b v, v, c) (b_hist b)\<rparr>)" (is "ballots_inv M ?b")
proof -
  note i = ballots_invD[OF inv]
  have ne: "v \<noteq> []" using i v by blast
  have role: "b_role b v = FOLLOWER" using roles_okD(1)[OF i(3) v] free c(2) ne by metis
  have old: "d = c" if "(b_term b v, v, d) \<in> b_hist b" "d \<noteq> v" for d
    using hist_okD(2,4)[OF i(1) that(1)] that(2) i(5) free by auto
  have nl: "(b_term b v, v) \<notin> b_led b" using roles_okD(3)[OF i(3) v] role by auto
  have "hist_ok M ?b" unfolding hist_ok_def
  proof (intro allI impI)
    fix T u d assume "(T, u, d) \<in> b_hist ?b"
    then consider "(T, u, d) = (b_term b v, v, c)" | "(T, u, d) \<in> b_hist b" by auto
    then show "u \<in> M \<and> d \<in> M \<and> T \<le> b_term ?b u \<and> (d \<noteq> u \<and> T = b_term ?b u \<longrightarrow> b_vote ?b u = d \<and> b_role ?b u = FOLLOWER)"
    proof cases
      case 2
      show ?thesis using hist_okD[OF i(1) 2] role old 2 by (cases "u = v") auto
    qed (use v c role in auto)
  qed
  moreover have "one_foreign_vote ?b"
    using i old by (auto simp: one_foreign_vote_def)
  moreover have "led_ok M ?b" using nl by (intro led_ok_mono[OF i(4)]) auto
  moreover have "roles_ok M ?b" using i role nl by (auto simp: roles_ok_def)
  ultimately show ?thesis using i by (simp add: ballots_inv_def)
qed

lemma stand_inv:
  assumes inv: "ballots_inv M b" and v: "v \<in> M" and r: "b_role b v \<noteq> LEADER"
  shows "ballots_inv M (b\<lparr>b_term := (b_term b)(v := b_term b v + 1), b_vote := (b_vote b)(v := v),
       b_role := (b_role b)(v := CANDIDATE), b_hist := insert (b_term b v + 1, v, v) (b_hist b)\<rparr>)" (is "ballots_inv M ?b")
proof -
  note i = ballots_invD[OF inv]
  have "hist_ok M ?b" unfolding hist_ok_def
  proof (intro allI impI)
    fix T u c assume "(T, u, c) \<in> b_hist ?b"
    then consider "(T, u, c) = (b_term b v + 1, v, v)" | "(T, u, c) \<in> b_hist b" by auto
    then show "u \<in> M \<and> c \<in> M \<and> T \<le> b_term ?b u \<and> (c \<noteq> u \<and> T = b_term ?b u \<longrightarrow> b_vote ?b u = c \<and> b_role ?b u = FOLLOWER)"
    proof cases
      case 2
      show ?thesis using hist_okD[OF i(1) 2] by (cases "u = v") auto
    qed (use v in auto)
  qed
  moreover have "one_foreign_vote ?b" using i by (auto simp: one_foreign_vote_def)
  moreover have "led_ok M ?b" by (intro led_ok_mono[OF i(4)]) auto
  moreover have "roles_ok M ?b"
  proof -
    have "(b_term b v + 1, v) \<notin> b_led b" using led_okD(2)[OF i(4), of "b_term b v + 1" v] by auto
    then show ?thesis using i by (auto simp: roles_ok_def)
  qed
  ultimately show ?thesis using i by (simp add: ballots_inv_def)
qed

lemma win_inv:
  assumes inv: "ballots_inv M b" and v: "v \<in> M" and r: "b_role b v = CANDIDATE" and q: "majority M Q" "\<forall>u\<in>Q. (b_term b v, u, v) \<in> b_hist b"
  shows "ballots_inv M (b\<lparr>b_role := (b_role b)(v := LEADER), b_led := insert (b_term b v, v) (b_led b)\<rparr>)" (is "ballots_inv M ?b")
proof -
  note i = ballots_invD[OF inv]
  have own: "c = v" if "(b_term b v, v, c) \<in> b_hist b" for c
    using hist_okD(4)[OF i(1) that] r by auto
  have "hist_ok M ?b" unfolding hist_ok_def
  proof (intro allI impI)
    fix T u c assume "(T, u, c) \<in> b_hist ?b"
    then have h: "(T, u, c) \<in> b_hist b" by simp
    show "u \<in> M \<and> c \<in> M \<and> T \<le> b_term ?b u \<and> (c \<noteq> u \<and> T = b_term ?b u \<longrightarrow> b_vote ?b u = c \<and> b_role ?b u = FOLLOWER)"
      using hist_okD[OF i(1) h] r by (cases "u = v") auto
  qed
  moreover have "led_ok M ?b" unfolding led_ok_def
  proof (intro allI impI)
    fix T u assume "(T, u) \<in> b_led ?b"
    then consider "(T, u) = (b_term b v, v)" | "(T, u) \<in> b_led b" by auto
    then show "u \<in> M \<and> T \<le> b_term ?b u \<and> (\<exists>Q. majority M Q \<and> (\<forall>w\<in>Q. (T, w, u) \<in> b_hist ?b)) \<and>
       (\<forall>c. (T, u, c) \<in> b_hist ?b \<longrightarrow> c = u)"
    proof cases
      case 1
      then show ?thesis using v q own by auto
    next
      case 2
      then show ?thesis using led_okD[OF i(4) 2] by auto
    qed
  qed
  moreover have "roles_ok M ?b" using i r v by (auto simp: roles_ok_def)
  ultimately show ?thesis using i by (simp add: ballots_inv_def one_foreign_vote_def)
qed

lemma solo_inv:
  assumes inv: "ballots_inv {v} b" and T: "b_term b v \<le> T"
  shows "ballots_inv {v} (b\<lparr>b_term := (b_term b)(v := T), b_vote := (b_vote b)(v := v),
       b_role := (b_role b)(v := LEADER), b_hist := insert (T, v, v) (b_hist b),
       b_led := insert (T, v) (b_led b)\<rparr>)" (is "ballots_inv _ ?b")
proof -
  note i = ballots_invD[OF inv]
  have h: "u = v \<and> c = v \<and> T' \<le> T" if "(T', u, c) \<in> b_hist b" for T' u c
    using hist_okD[OF i(1) that] T by force
  have q: "majority {v} {v}" by (simp add: majority_def)
  have l: "u = v \<and> T' \<le> T \<and> (\<exists>Q. majority {v} Q \<and> (\<forall>w\<in>Q. (T', w, u) \<in> b_hist b))" if "(T', u) \<in> b_led b" for T' u
    using led_okD[OF i(4) that] T by force
  have "hist_ok {v} ?b" using h by (auto simp: hist_ok_def)
  moreover have "one_foreign_vote ?b" unfolding one_foreign_vote_def
  proof (intro allI impI)
    fix T' u c d assume "(T', u, c) \<in> b_hist ?b" "c \<noteq> u"
    then show "c = d" using h[of T' u c] by auto
  qed
  moreover have "led_ok {v} ?b" unfolding led_ok_def
  proof (intro allI impI conjI)
    fix T' u assume "(T', u) \<in> b_led ?b"
    then consider "T' = T" "u = v" | "(T', u) \<in> b_led b" by auto
    note cs = this
    show "u \<in> {v}" "T' \<le> b_term ?b u" using l by (cases rule: cs; force)+
    show "\<exists>Q. majority {v} Q \<and> (\<forall>w\<in>Q. (T', w, u) \<in> b_hist ?b)"
    proof (cases rule: cs)
      case 1
      then show ?thesis by (intro exI[of _ "{v}"]) (simp add: q)
    next
      case 2
      then obtain Q where "majority {v} Q" "\<forall>w\<in>Q. (T', w, u) \<in> b_hist b" using l by blast
      then show ?thesis by (intro exI[of _ Q]) simp
    qed
    fix c assume "(T', u, c) \<in> b_hist ?b"
    then show "c = u" using h[of T' u c] by auto
  qed
  moreover have "roles_ok {v} ?b" by (simp add: roles_ok_def)
  ultimately show ?thesis using i by (simp add: ballots_inv_def)
qed

lemma ballot_step_inv: "ballots_inv M b \<Longrightarrow> ballot_step M b b' \<Longrightarrow> ballots_inv M b'"
  by (erule ballot_stepE)
    (auto intro: step_down_inv yield_inv grant_inv stand_inv win_inv solo_inv)

lemma fresh_ballots_inv: "fresh_ballots b \<Longrightarrow> [] \<notin> M \<Longrightarrow> ballots_inv M b"
  by (simp add: fresh_ballots_def ballots_inv_def hist_ok_def one_foreign_vote_def roles_ok_def led_ok_def)

interpretation ballot: inductive_invariant "\<lambda>b. fresh_ballots b \<and> [] \<notin> M" "ballot_step M" "ballots_inv M" for M
  by unfold_locales (auto intro: fresh_ballots_inv ballot_step_inv)

text \<open>History only grows, terms never fall.\<close>

lemma ballot_step_mono:
  "ballot_step M b b' \<Longrightarrow> b_hist b \<subseteq> b_hist b' \<and> b_led b \<subseteq> b_led b' \<and> b_term b v \<le> b_term b' v"
  by (erule ballot_stepE) auto

lemma ballot_steps_mono:
  assumes "(ballot_step M)\<^sup>*\<^sup>* b b'"
  shows "b_hist b \<subseteq> b_hist b' \<and> b_led b \<subseteq> b_led b' \<and> b_term b v \<le> b_term b' v"
  using assms
proof induction
  case (step y z)
  then show ?case using ballot_step_mono[OF step(2), of v] by fastforce
qed simp

end
