(* ===== verification/RaftCluster.thy ===== *)
theory RaftCluster
  imports RaftNodeLaws Ballots
begin

text \<open>
  A cluster of Raft nodes over a network that may lose, delay, reorder and duplicate messages. A
  step is one critical section of one thread of one node: the RPC handlers, the two halves of a
  replication round, the election thread's start and its handling of one answer, the client
  operations and the apply thread. The network is the set of messages sent so far; a message may be
  delivered at any time and any number of times. \<open>host\<close> resolves a peer address to a node.
  The last two fields record history: every vote ever granted and every (term, leader) pair. They
  are written, never read.
\<close>

section \<open>State and steps\<close>

record election =
  el_request :: VoteRequest
  el_votes :: nat
  el_todo :: "string list"

record cluster =
  cl_nodes :: "string \<Rightarrow> RaftNode"
  cl_elections :: "string \<Rightarrow> election option"
  cl_requests :: "VoteRequest set"
  cl_replies :: "(string \<times> VoteRequest \<times> VoteResponse) set"
  cl_appends :: "AppendRequest set"
  cl_acks :: "(string \<times> AppendRequest \<times> AppendResponse) set"
  cl_hist :: "(int \<times> string \<times> string) set"
  cl_led :: "(int \<times> string) set"

definition put :: "string \<Rightarrow> RaftNode \<Rightarrow> cluster \<Rightarrow> cluster" where
  "put i n s = s\<lparr>cl_nodes := (cl_nodes s)(i := n)\<rparr>"

definition set_election :: "string \<Rightarrow> election option \<Rightarrow> cluster \<Rightarrow> cluster" where
  "set_election i e s = s\<lparr>cl_elections := (cl_elections s)(i := e)\<rparr>"

inductive raft_step :: "string set \<Rightarrow> (string \<Rightarrow> string) \<Rightarrow> cluster \<Rightarrow> cluster \<Rightarrow> bool" for M host where
  start: "i \<in> M \<Longrightarrow> rn_running (cl_nodes s i) \<or> rn_peer_addresses (cl_nodes s i) \<noteq> [] \<Longrightarrow>
     raft_step M host s (put i (fst (Start clk (cl_nodes s i))) s)"
| start_alone: "i \<in> M \<Longrightarrow> \<not> rn_running (cl_nodes s i) \<Longrightarrow> rn_peer_addresses (cl_nodes s i) = [] \<Longrightarrow>
     n' = fst (Start clk (cl_nodes s i)) \<Longrightarrow>
     raft_step M host s ((put i n' s)\<lparr>cl_hist := insert (rn_current_term n', i, i) (cl_hist s),
       cl_led := insert (rn_current_term n', i) (cl_led s)\<rparr>)"
| stop: "i \<in> M \<Longrightarrow> raft_step M host s (put i (Stop (cl_nodes s i)) s)"
| election_begin: "i \<in> M \<Longrightarrow> cl_elections s i = None \<Longrightarrow> begin_election clk (cl_nodes s i) = Some (n', q) \<Longrightarrow>
     raft_step M host s ((set_election i (Some \<lparr>el_request = q, el_votes = 1, el_todo = rn_peer_addresses n'\<rparr>)
       (put i n' s))\<lparr>cl_requests := insert q (cl_requests s), cl_hist := insert (vq_term q, i, i) (cl_hist s)\<rparr>)"
| vote_handle: "q \<in> cl_requests s \<Longrightarrow> p \<in> set (rn_peer_addresses (cl_nodes s (vq_candidate_id q))) \<Longrightarrow> j = host p \<Longrightarrow>
     HandleRequestVote clk q (cl_nodes s j) = (n', r) \<Longrightarrow>
     raft_step M host s ((put j n' s)\<lparr>cl_replies := insert (j, q, r) (cl_replies s),
       cl_hist := (if vr_vote_granted r then insert (vq_term q, j, vq_candidate_id q) (cl_hist s) else cl_hist s)\<rparr>)"
| vote_lost: "i \<in> M \<Longrightarrow> cl_elections s i = Some el \<Longrightarrow> el_todo el = p # ps \<Longrightarrow>
     raft_step M host s (set_election i (Some (el\<lparr>el_todo := ps\<rparr>)) s)"
| vote_reply: "i \<in> M \<Longrightarrow> cl_elections s i = Some el \<Longrightarrow> el_todo el = p # ps \<Longrightarrow>
     (host p, el_request el, r) \<in> cl_replies s \<Longrightarrow>
     on_vote_response clk (vq_term (el_request el)) (el_votes el) r (cl_nodes s i) = (n', KeepGoing v) \<Longrightarrow>
     raft_step M host s (set_election i (Some (el\<lparr>el_votes := v, el_todo := ps\<rparr>)) (put i n' s))"
| vote_abandon: "i \<in> M \<Longrightarrow> cl_elections s i = Some el \<Longrightarrow> el_todo el = p # ps \<Longrightarrow>
     (host p, el_request el, r) \<in> cl_replies s \<Longrightarrow>
     on_vote_response clk (vq_term (el_request el)) (el_votes el) r (cl_nodes s i) = (n', Abandoned) \<Longrightarrow>
     raft_step M host s (set_election i None (put i n' s))"
| vote_won: "i \<in> M \<Longrightarrow> cl_elections s i = Some el \<Longrightarrow> el_todo el = p # ps \<Longrightarrow>
     (host p, el_request el, r) \<in> cl_replies s \<Longrightarrow>
     on_vote_response clk (vq_term (el_request el)) (el_votes el) r (cl_nodes s i) = (n', Elected) \<Longrightarrow>
     raft_step M host s ((set_election i None (put i n' s))\<lparr>cl_led := insert (rn_current_term n', i) (cl_led s)\<rparr>)"
| election_end: "i \<in> M \<Longrightarrow> cl_elections s i = Some el \<Longrightarrow> el_todo el = [] \<Longrightarrow>
     raft_step M host s (set_election i None s)"
| append_send: "i \<in> M \<Longrightarrow> rn_running (cl_nodes s i) \<Longrightarrow> p \<in> set (rn_peer_addresses (cl_nodes s i)) \<Longrightarrow>
     replicate_request p (cl_nodes s i) = Inr (Some (n', q)) \<Longrightarrow>
     raft_step M host s ((put i n' s)\<lparr>cl_appends := insert q (cl_appends s)\<rparr>)"
| append_handle: "q \<in> cl_appends s \<Longrightarrow> p \<in> set (rn_peer_addresses (cl_nodes s (aq_leader_id q))) \<Longrightarrow> j = host p \<Longrightarrow>
     HandleAppendEntries clk q (cl_nodes s j) = Inr (n', r) \<Longrightarrow>
     raft_step M host s ((put j n' s)\<lparr>cl_acks := insert (j, q, r) (cl_acks s)\<rparr>)"
| append_reply: "i \<in> M \<Longrightarrow> (host p, q, r) \<in> cl_acks s \<Longrightarrow> aq_leader_id q = i \<Longrightarrow>
     replicate_response clk p (aq_term q) r (cl_nodes s i) = Inr (n', out) \<Longrightarrow>
     raft_step M host s (put i n' s)"
| propose: "i \<in> M \<Longrightarrow> propose_append e (cl_nodes s i) = Some (n', idx) \<Longrightarrow> raft_step M host s (put i n' s)"
| append_local: "i \<in> M \<Longrightarrow> AppendLocalEntry e (cl_nodes s i) = (n', b) \<Longrightarrow> raft_step M host s (put i n' s)"
| apply_entry: "i \<in> M \<Longrightarrow> apply_take (cl_nodes s i) = Inr (n', e) \<Longrightarrow> raft_step M host s (put i n' s)"
| snapshot: "i \<in> M \<Longrightarrow> raft_step M host s (put i (fst (HandleInstallSnapshot clk q (cl_nodes s i))) s)"

text \<open>A well-configured cluster: every member's peer list names every other member once.\<close>

definition configured :: "string set \<Rightarrow> (string \<Rightarrow> string) \<Rightarrow> (string \<Rightarrow> RaftNode) \<Rightarrow> bool" where
  "configured M host nodes \<longleftrightarrow> finite M \<and> [] \<notin> M \<and> (\<forall>i\<in>M. rn_node_id (nodes i) = i
     \<and> distinct (map host (rn_peer_addresses (nodes i))) \<and> host ` set (rn_peer_addresses (nodes i)) = M - {i})"

definition initial_cluster :: "string set \<Rightarrow> (string \<Rightarrow> string) \<Rightarrow> cluster \<Rightarrow> bool" where
  "initial_cluster M host s \<longleftrightarrow> configured M host (cl_nodes s)
     \<and> (\<forall>i. \<exists>sa ps cfg. cl_nodes s i = new_RaftNode i sa ps cfg)
     \<and> cl_elections s = (\<lambda>_. None) \<and> cl_requests s = {} \<and> cl_replies s = {} \<and> cl_appends s = {}
     \<and> cl_acks s = {} \<and> cl_hist s = {} \<and> cl_led s = {}"

section \<open>What the operations do to a node's vote\<close>

definition vote_same :: "RaftNode \<Rightarrow> RaftNode \<Rightarrow> bool" where
  "vote_same n n' \<longleftrightarrow> rn_node_id n' = rn_node_id n \<and> rn_peer_addresses n' = rn_peer_addresses n
     \<and> rn_current_term n' = rn_current_term n \<and> rn_voted_for n' = rn_voted_for n \<and> rn_state n' = rn_state n"

definition vote_cleared :: "int \<Rightarrow> RaftNode \<Rightarrow> RaftNode \<Rightarrow> bool" where
  "vote_cleared T n n' \<longleftrightarrow> rn_node_id n' = rn_node_id n \<and> rn_peer_addresses n' = rn_peer_addresses n
     \<and> rn_current_term n' = T \<and> rn_voted_for n' = [] \<and> rn_state n' = FOLLOWER"

lemma vote_same_refl [simp]: "vote_same n n"
  by (simp add: vote_same_def)

lemma step_down_cleared:
  "rn_current_term n < T \<Longrightarrow> vote_cleared T n (BecomeFollowerLocked c T i a n)"
  by (simp add: vote_cleared_def)

lemma advance_loop_commit_only: "advance_commit_loop n i = Inr n' \<Longrightarrow> \<exists>k. n' = n\<lparr>rn_commit_index := k\<rparr>"
proof (induction n i rule: advance_commit_loop.induct)
  case (1 n i)
  show ?case
  proof (cases "rn_commit_index n < i")
    case True
    then obtain e where e: "vec_at (rn_log n) i = Inr e"
      using 1(3) by (auto simp: advance_commit_loop.simps[of n i] dest!: rbind_InrD)
    with True 1 show ?thesis
      by (auto simp: advance_commit_loop.simps[of n i] split: if_splits)
  next
    case False
    with 1(3) have "n' = n\<lparr>rn_commit_index := rn_commit_index n\<rparr>" by (simp add: advance_commit_loop.simps[of n i])
    then show ?thesis by blast
  qed
qed

lemma advance_commit_same: "AdvanceCommitIndexLocked n = Inr n' \<Longrightarrow> vote_same n n'"
  by (auto simp: AdvanceCommitIndexLocked_def vote_same_def dest!: advance_loop_commit_only split: if_splits)

lemma replicate_request_view:
  assumes "replicate_request p n = Inr (Some (n', q))"
  shows "vote_same n n' \<and> rn_state n = LEADER \<and> aq_term q = rn_current_term n \<and> aq_leader_id q = rn_node_id n"
  using assms by (auto simp: replicate_request_def vote_same_def Let_def dest!: rbind_InrD split: if_splits)

lemma replicate_response_view:
  assumes "replicate_response c p T r n = Inr (n', out)"
  shows "vote_same n n' \<or> (rn_current_term n < ar_term r \<and> vote_cleared (ar_term r) n n')"
  using assms
  by (auto simp: replicate_response_def vote_same_def vote_cleared_def Let_def
      dest!: rbind_InrD advance_commit_same split: if_splits)

lemma client_view:
  "propose_append e n = Some (n', i) \<Longrightarrow> vote_same n n'"
  "AppendLocalEntry e n = (n', b) \<Longrightarrow> vote_same n n'"
  "apply_take n = Inr (n', en) \<Longrightarrow> vote_same n n'"
  "vote_same n (Stop n)"
  "rn_running n \<or> rn_peer_addresses n \<noteq> [] \<Longrightarrow> vote_same n (fst (Start c n))"
  by (auto simp: propose_append_def AppendLocalEntry_def apply_take_def Stop_def Start_def vote_same_def Let_def
      dest!: rbind_InrD split: if_splits)

lemma snapshot_view:
  "vote_same n (fst (HandleInstallSnapshot c q n))
   \<or> (rn_current_term n < sq_term q \<and> vote_cleared (sq_term q) n (fst (HandleInstallSnapshot c q n)))"
  by (auto simp: HandleInstallSnapshot_def Let_def vote_cleared_def)

lemma append_view:
  assumes "HandleAppendEntries c q n = Inr (n', r)"
  shows "vote_same n n' \<or> (rn_current_term n < aq_term q \<and> vote_cleared (aq_term q) n n')
    \<or> (rn_current_term n = aq_term q \<and> rn_state n \<noteq> FOLLOWER \<and> vote_cleared (aq_term q) n n')"
proof (cases "aq_term q < rn_current_term n")
  case False
  then have t: "rn_current_term n \<le> aq_term q" by simp
  have "vote_same (append_follow c q n) n'"
    using assms t by (auto simp: HandleAppendEntries_def vote_same_def Let_def append_commit_def
        dest!: rbind_InrD split: if_splits)
  then show ?thesis using t
    by (auto simp: vote_same_def vote_cleared_def append_follow_def split: if_splits)
qed (use assms in \<open>simp add: append_stale\<close>)

lemma request_vote_view:
  assumes "HandleRequestVote c q n = (n', r)"
  shows "\<exists>n1. (vote_same n n1 \<or> rn_current_term n < vq_term q \<and> vote_cleared (vq_term q) n n1)
    \<and> (\<not> vr_vote_granted r \<and> vote_same n1 n' \<or>
       vr_vote_granted r \<and> rn_current_term n1 = vq_term q
         \<and> (rn_voted_for n1 = [] \<or> rn_voted_for n1 = vq_candidate_id q)
         \<and> vote_same (n1\<lparr>rn_voted_for := vq_candidate_id q\<rparr>) n')"
proof (cases "vq_term q < rn_current_term n")
  case True
  with assms show ?thesis by (intro exI[of _ n]) (auto simp: HandleRequestVote_def)
next
  case False
  let ?n1 = "if vq_term q > rn_current_term n then BecomeFollowerLocked c (vq_term q) [] [] n else n"
  have "vote_same n ?n1 \<or> rn_current_term n < vq_term q \<and> vote_cleared (vq_term q) n ?n1"
    using step_down_cleared by auto
  with False assms show ?thesis
    by (intro exI[of _ ?n1]) (auto simp: HandleRequestVote_def Let_def vote_same_def split: if_splits)
qed

lemma begin_election_view:
  assumes "begin_election c n = Some (n', q)"
  shows "rn_state n \<noteq> LEADER \<and> rn_node_id n' = rn_node_id n \<and> rn_peer_addresses n' = rn_peer_addresses n
    \<and> rn_current_term n' = rn_current_term n + 1 \<and> rn_voted_for n' = rn_node_id n \<and> rn_state n' = CANDIDATE
    \<and> vq_term q = rn_current_term n' \<and> vq_candidate_id q = rn_node_id n"
  using assms by (auto simp: begin_election_def Let_def split: if_splits)

lemma on_vote_view:
  assumes "on_vote_response c T v r n = (n', out)"
  shows "case out of
      KeepGoing w \<Rightarrow> n' = n \<and> (w = v \<or> w = v + 1 \<and> vr_vote_granted r)
    | Abandoned \<Rightarrow> vote_same n n' \<or> rn_current_term n < vr_term r \<and> vote_cleared (vr_term r) n n'
    | Elected \<Rightarrow> n' = BecomeLeaderLocked n \<and> rn_state n = CANDIDATE \<and> rn_current_term n = T
        \<and> vr_vote_granted r \<and> QuorumSize n \<le> v + 1"
  using assms by (auto simp: on_vote_response_def step_down_cleared split: if_splits)

section \<open>The cluster implements the ballot specification\<close>

definition ballots_of :: "cluster \<Rightarrow> ballots" where
  "ballots_of s = \<lparr>b_term = (\<lambda>i. rn_current_term (cl_nodes s i)), b_vote = (\<lambda>i. rn_voted_for (cl_nodes s i)),
     b_role = (\<lambda>i. rn_state (cl_nodes s i)), b_hist = cl_hist s, b_led = cl_led s\<rparr>"

lemma ballots_of_sel [simp]:
  "b_term (ballots_of s) i = rn_current_term (cl_nodes s i)" "b_vote (ballots_of s) i = rn_voted_for (cl_nodes s i)"
  "b_role (ballots_of s) i = rn_state (cl_nodes s i)" "b_hist (ballots_of s) = cl_hist s" "b_led (ballots_of s) = cl_led s"
  by (simp_all add: ballots_of_def)

lemma put_simps [simp]:
  "cl_nodes (put i n s) = (cl_nodes s)(i := n)" "cl_elections (put i n s) = cl_elections s"
  "cl_requests (put i n s) = cl_requests s" "cl_replies (put i n s) = cl_replies s"
  "cl_appends (put i n s) = cl_appends s" "cl_acks (put i n s) = cl_acks s"
  "cl_hist (put i n s) = cl_hist s" "cl_led (put i n s) = cl_led s"
  by (simp_all add: put_def)

lemma set_election_simps [simp]:
  "cl_nodes (set_election i e s) = cl_nodes s" "cl_elections (set_election i e s) = (cl_elections s)(i := e)"
  "cl_requests (set_election i e s) = cl_requests s" "cl_replies (set_election i e s) = cl_replies s"
  "cl_appends (set_election i e s) = cl_appends s" "cl_acks (set_election i e s) = cl_acks s"
  "cl_hist (set_election i e s) = cl_hist s" "cl_led (set_election i e s) = cl_led s"
  by (simp_all add: set_election_def)

text \<open>Two clusters with the same node views and history have the same ballots.\<close>

lemma ballots_of_cong:
  assumes "\<And>j. vote_same (cl_nodes s j) (cl_nodes s' j)" "cl_hist s' = cl_hist s" "cl_led s' = cl_led s"
  shows "ballots_of s' = ballots_of s"
  using assms by (simp add: ballots_of_def vote_same_def)

lemma sim_cleared:
  assumes "i \<in> M" "rn_current_term (cl_nodes s i) < T" "vote_cleared T (cl_nodes s i) n'"
    and "cl_nodes s' = (cl_nodes s)(i := n')" "cl_hist s' = cl_hist s" "cl_led s' = cl_led s"
  shows "ballot_step M (ballots_of s) (ballots_of s')"
proof -
  let ?b = "ballots_of s"
  have "ballots_of s' = ?b\<lparr>b_term := (b_term ?b)(i := T), b_vote := (b_vote ?b)(i := []), b_role := (b_role ?b)(i := FOLLOWER)\<rparr>"
    using assms(3-6) by (simp add: ballots_of_def vote_cleared_def fun_eq_iff)
  with ballot_step.step_down[of i M ?b T] assms(1,2) show ?thesis by simp
qed

lemma sim_yield:
  assumes "i \<in> M" "(T, l) \<in> cl_led s" "l \<noteq> i" "rn_current_term (cl_nodes s i) = T" "rn_state (cl_nodes s i) \<noteq> FOLLOWER"
    and "vote_cleared T (cl_nodes s i) n'" "cl_nodes s' = (cl_nodes s)(i := n')" "cl_hist s' = cl_hist s" "cl_led s' = cl_led s"
  shows "ballot_step M (ballots_of s) (ballots_of s')"
proof -
  let ?b = "ballots_of s"
  have "ballots_of s' = ?b\<lparr>b_vote := (b_vote ?b)(i := []), b_role := (b_role ?b)(i := FOLLOWER)\<rparr>"
    using assms(4,6-9) by (auto simp: ballots_of_def vote_cleared_def fun_eq_iff)
  with ballot_step.yield[of i M ?b l] assms(1-5) show ?thesis by simp
qed

lemma sim_grant:
  assumes "i \<in> M" "c \<in> M" "c \<noteq> i" "rn_voted_for (cl_nodes s i) = [] \<or> rn_voted_for (cl_nodes s i) = c"
    and "vote_same (cl_nodes s i\<lparr>rn_voted_for := c\<rparr>) n'" "cl_nodes s' = (cl_nodes s)(i := n')"
    and "cl_hist s' = insert (rn_current_term (cl_nodes s i), i, c) (cl_hist s)" "cl_led s' = cl_led s"
  shows "ballot_step M (ballots_of s) (ballots_of s')"
proof -
  let ?b = "ballots_of s"
  have "ballots_of s' = ?b\<lparr>b_vote := (b_vote ?b)(i := c), b_hist := insert (b_term ?b i, i, c) (b_hist ?b)\<rparr>"
    using assms(5-8) by (auto simp: ballots_of_def vote_same_def fun_eq_iff)
  with ballot_step.grant[of i M c ?b] assms(1-4) show ?thesis by simp
qed

lemma sim_stand:
  assumes "i \<in> M" "rn_node_id (cl_nodes s i) = i" "begin_election clk (cl_nodes s i) = Some (n', q)"
    and "cl_nodes s' = (cl_nodes s)(i := n')" "cl_hist s' = insert (vq_term q, i, i) (cl_hist s)" "cl_led s' = cl_led s"
  shows "ballot_step M (ballots_of s) (ballots_of s')"
proof -
  let ?b = "ballots_of s"
  note v = begin_election_view[OF assms(3)]
  have "ballots_of s' = ?b\<lparr>b_term := (b_term ?b)(i := b_term ?b i + 1), b_vote := (b_vote ?b)(i := i),
      b_role := (b_role ?b)(i := CANDIDATE), b_hist := insert (b_term ?b i + 1, i, i) (b_hist ?b)\<rparr>"
    using v assms(2,4-6) by (auto simp: ballots_of_def fun_eq_iff)
  with ballot_step.stand[of i M ?b] assms(1) v show ?thesis by simp
qed

lemma sim_win:
  assumes "i \<in> M" "rn_state (cl_nodes s i) = CANDIDATE" "majority M Q"
    and "\<forall>u\<in>Q. (rn_current_term (cl_nodes s i), u, i) \<in> cl_hist s"
    and "cl_nodes s' = (cl_nodes s)(i := BecomeLeaderLocked (cl_nodes s i))" "cl_hist s' = cl_hist s"
    and "cl_led s' = insert (rn_current_term (cl_nodes s i), i) (cl_led s)"
  shows "ballot_step M (ballots_of s) (ballots_of s')"
proof -
  let ?b = "ballots_of s"
  have "ballots_of s' = ?b\<lparr>b_role := (b_role ?b)(i := LEADER), b_led := insert (b_term ?b i, i) (b_led ?b)\<rparr>"
    using assms(5-7) by (auto simp: ballots_of_def fun_eq_iff)
  with ballot_step.win[of i M ?b Q] assms(1-4) show ?thesis by simp
qed

lemma sim_solo:
  assumes "M = {i}" "rn_node_id (cl_nodes s i) = i" "\<not> rn_running (cl_nodes s i)" "rn_peer_addresses (cl_nodes s i) = []"
    and "n' = fst (Start clk (cl_nodes s i))" "cl_nodes s' = (cl_nodes s)(i := n')"
    and "cl_hist s' = insert (rn_current_term n', i, i) (cl_hist s)" "cl_led s' = insert (rn_current_term n', i) (cl_led s)"
  shows "ballot_step M (ballots_of s) (ballots_of s')"
proof -
  let ?b = "ballots_of s"
  have n': "rn_current_term n' = max 1 (rn_current_term (cl_nodes s i))" "rn_voted_for n' = i" "rn_state n' = LEADER"
    using assms(2-5) by (simp_all add: Start_def Let_def)
  have "ballots_of s' = ?b\<lparr>b_term := (b_term ?b)(i := rn_current_term n'), b_vote := (b_vote ?b)(i := i),
      b_role := (b_role ?b)(i := LEADER), b_hist := insert (rn_current_term n', i, i) (b_hist ?b),
      b_led := insert (rn_current_term n', i) (b_led ?b)\<rparr>"
    using n' assms(6-8) by (auto simp: ballots_of_def fun_eq_iff)
  with ballot_step.solo[of M i ?b "rn_current_term n'"] assms(1) n'(1) show ?thesis by simp
qed

section \<open>The invariant of the cluster\<close>

definition election_ok :: "string set \<Rightarrow> (string \<Rightarrow> string) \<Rightarrow> cluster \<Rightarrow> string \<Rightarrow> election \<Rightarrow> bool" where
  "election_ok M host s i el \<longleftrightarrow> vq_candidate_id (el_request el) = i
     \<and> distinct (map host (el_todo el)) \<and> set (el_todo el) \<subseteq> set (rn_peer_addresses (cl_nodes s i))
     \<and> (\<exists>F\<subseteq>M. finite F \<and> F \<inter> host ` set (el_todo el) = {} \<and> el_votes el = card F
          \<and> (\<forall>v\<in>F. (vq_term (el_request el), v, i) \<in> cl_hist s))"

definition messages_ok :: "string set \<Rightarrow> cluster \<Rightarrow> bool" where
  "messages_ok M s \<longleftrightarrow> (\<forall>q\<in>cl_requests s. vq_candidate_id q \<in> M)
     \<and> (\<forall>(j, q, r)\<in>cl_replies s. j \<in> M \<and> (vr_vote_granted r \<longrightarrow> (vq_term q, j, vq_candidate_id q) \<in> cl_hist s))
     \<and> (\<forall>q\<in>cl_appends s. aq_leader_id q \<in> M \<and> (aq_term q, aq_leader_id q) \<in> cl_led s)"

definition cluster_inv :: "string set \<Rightarrow> (string \<Rightarrow> string) \<Rightarrow> cluster \<Rightarrow> bool" where
  "cluster_inv M host s \<longleftrightarrow> configured M host (cl_nodes s) \<and> ballots_inv M (ballots_of s) \<and> messages_ok M s
     \<and> (\<forall>i el. i \<in> M \<longrightarrow> cl_elections s i = Some el \<longrightarrow> election_ok M host s i el)"

lemma configuredD:
  assumes "configured M host nodes" "i \<in> M"
  shows "rn_node_id (nodes i) = i" "distinct (map host (rn_peer_addresses (nodes i)))"
    "host ` set (rn_peer_addresses (nodes i)) = M - {i}" "finite M"
  using assms by (auto simp: configured_def)

lemma configured_quorum:
  assumes "configured M host nodes" "i \<in> M"
  shows "QuorumSize (nodes i) = card M div 2 + 1"
proof -
  note c = configuredD[OF assms]
  have "length (rn_peer_addresses (nodes i)) = card (M - {i})"
    using distinct_card[OF c(2)] by (simp add: c(3))
  then have "length (rn_peer_addresses (nodes i)) + 1 = card M"
    using card.remove[OF c(4) assms(2)] by linarith
  then show ?thesis by (simp only: QuorumSize_def)
qed

lemma configured_put:
  assumes "configured M host nodes" "rn_node_id n' = rn_node_id (nodes i)" "rn_peer_addresses n' = rn_peer_addresses (nodes i)"
  shows "configured M host (nodes(i := n'))"
  using assms by (auto simp: configured_def)

lemma peer_is_member:
  assumes "configured M host nodes" "i \<in> M" "p \<in> set (rn_peer_addresses (nodes i))"
  shows "host p \<in> M" "host p \<noteq> i"
  using configuredD(3)[OF assms(1,2)] assms(3) by auto

text \<open>Elections and messages stay sound when history grows and peer lists stay.\<close>

lemma election_ok_mono:
  assumes "election_ok M host s i el" "cl_hist s \<subseteq> cl_hist s'"
    and "rn_peer_addresses (cl_nodes s' i) = rn_peer_addresses (cl_nodes s i)"
  shows "election_ok M host s' i el"
  using assms unfolding election_ok_def by (metis subsetD)

lemma messages_ok_mono:
  assumes "messages_ok M s" "cl_hist s \<subseteq> cl_hist s'" "cl_led s \<subseteq> cl_led s'" "cl_requests s' = cl_requests s"
    and "cl_replies s' = cl_replies s" "cl_appends s' = cl_appends s"
  shows "messages_ok M s'"
  using assms unfolding messages_ok_def by fastforce

text \<open>
  What is shown of every step: it keeps the invariant, and the ballots move by specification steps.
  Most steps replace one node.
\<close>

definition sound_step :: "string set \<Rightarrow> (string \<Rightarrow> string) \<Rightarrow> cluster \<Rightarrow> cluster \<Rightarrow> bool" where
  "sound_step M host s s' \<longleftrightarrow> cluster_inv M host s' \<and> (ballot_step M)\<^sup>*\<^sup>* (ballots_of s) (ballots_of s')"

lemma sound_step_trans:
  "sound_step M host s t \<Longrightarrow> (cluster_inv M host t \<Longrightarrow> sound_step M host t u) \<Longrightarrow> sound_step M host s u"
  by (auto simp: sound_step_def)

lemma cluster_inv_put:
  assumes inv: "cluster_inv M host s" and sim: "(ballot_step M)\<^sup>*\<^sup>* (ballots_of s) (ballots_of s')"
    and n': "cl_nodes s' = (cl_nodes s)(i := n')" "rn_node_id n' = rn_node_id (cl_nodes s i)"
      "rn_peer_addresses n' = rn_peer_addresses (cl_nodes s i)"
    and msgs: "messages_ok M s'"
    and els: "\<And>j el. j \<in> M \<Longrightarrow> cl_elections s' j = Some el \<Longrightarrow> cl_elections s j = Some el \<or> election_ok M host s' j el"
  shows "sound_step M host s s'"
proof -
  have c: "configured M host (cl_nodes s')" using inv n' by (simp add: cluster_inv_def configured_put)
  have b: "ballots_inv M (ballots_of s')" using inv ballot.steps_invar[OF _ sim] by (simp add: cluster_inv_def)
  have h: "cl_hist s \<subseteq> cl_hist s'" using ballot_steps_mono[OF sim] by simp
  have "election_ok M host s' j el" if "j \<in> M" "cl_elections s' j = Some el" for j el
    using els[OF that] inv that(1) election_ok_mono[OF _ h, of M host j el] n'
    by (auto simp: cluster_inv_def)
  with c b msgs sim show ?thesis by (simp add: sound_step_def cluster_inv_def)
qed

lemma messages_ok_put:
  assumes "cluster_inv M host s" "cl_hist s \<subseteq> cl_hist s'" "cl_led s \<subseteq> cl_led s'" "cl_requests s' = cl_requests s"
    and "cl_replies s' = cl_replies s" "cl_appends s' = cl_appends s"
  shows "messages_ok M s'"
  using messages_ok_mono[OF _ assms(2-)] assms(1) by (simp add: cluster_inv_def)

lemma cluster_inv_same:
  assumes "cluster_inv M host s" "i \<in> M" "vote_same (cl_nodes s i) n'"
  shows "sound_step M host s (put i n' s)"
proof -
  have "ballots_of (put i n' s) = ballots_of s"
    using assms(3) by (intro ballots_of_cong) (auto simp: vote_same_def)
  then show ?thesis
    by (intro cluster_inv_put[OF assms(1), where i = i and n' = n'] messages_ok_put[OF assms(1)])
      (use assms(3) in \<open>auto simp: vote_same_def\<close>)
qed

lemma cluster_inv_cleared:
  assumes "cluster_inv M host s" "i \<in> M" "rn_current_term (cl_nodes s i) < T" "vote_cleared T (cl_nodes s i) n'"
  shows "sound_step M host s (put i n' s)"
  using sim_cleared[OF assms(2-4), of "put i n' s"]
  by (intro cluster_inv_put[OF assms(1), where i = i and n' = n'] messages_ok_put[OF assms(1)])
    (use assms(4) in \<open>auto simp: vote_cleared_def\<close>)

text \<open>Ending or shortening an election, and recording an acknowledgement, leave the rest alone.\<close>

lemma cluster_inv_election:
  assumes "cluster_inv M host s" "\<And>el. i \<in> M \<Longrightarrow> e = Some el \<Longrightarrow> election_ok M host s i el"
  shows "sound_step M host s (set_election i e s)"
proof -
  have "ballots_of (set_election i e s) = ballots_of s" by (rule ballots_of_cong) simp_all
  moreover have "election_ok M host (set_election i e s) = election_ok M host s"
    by (simp add: election_ok_def fun_eq_iff)
  ultimately show ?thesis
    using assms by (auto simp: sound_step_def cluster_inv_def messages_ok_def)
qed

lemma cluster_inv_acks: "cluster_inv M host s \<Longrightarrow> sound_step M host s (s\<lparr>cl_acks := A\<rparr>)"
proof -
  have "ballots_of (s\<lparr>cl_acks := A\<rparr>) = ballots_of s" by (rule ballots_of_cong) simp_all
  moreover have "election_ok M host (s\<lparr>cl_acks := A\<rparr>) = election_ok M host s"
    by (simp add: election_ok_def fun_eq_iff)
  ultimately show "cluster_inv M host s \<Longrightarrow> sound_step M host s (s\<lparr>cl_acks := A\<rparr>)"
    by (simp add: sound_step_def cluster_inv_def messages_ok_def)
qed

section \<open>Every step keeps the invariant\<close>

lemma election_begin_inv:
  assumes inv: "cluster_inv M host s" and i: "i \<in> M" and run: "begin_election clk (cl_nodes s i) = Some (n', q)"
  shows "sound_step M host s ((set_election i (Some \<lparr>el_request = q, el_votes = 1, el_todo = rn_peer_addresses n'\<rparr>)
       (put i n' s))\<lparr>cl_requests := insert q (cl_requests s), cl_hist := insert (vq_term q, i, i) (cl_hist s)\<rparr>)"
    (is "sound_step M host s ?s")
proof -
  have c: "configured M host (cl_nodes s)" using inv by (simp add: cluster_inv_def)
  note v = begin_election_view[OF run] and d = configuredD[OF c i]
  have sim: "(ballot_step M)\<^sup>*\<^sup>* (ballots_of s) (ballots_of ?s)"
    by (rule r_into_rtranclp, rule sim_stand[OF i d(1) run]) simp_all
  have el: "election_ok M host ?s i \<lparr>el_request = q, el_votes = 1, el_todo = rn_peer_addresses n'\<rparr>"
    using v d i unfolding election_ok_def by (intro conjI exI[of _ "{i}"]) auto
  show ?thesis
  proof (rule cluster_inv_put[OF inv sim, where i = i and n' = n'])
    show "messages_ok M ?s" using inv v d(1) i by (auto simp: cluster_inv_def messages_ok_def)
    show "cl_elections s j = Some e \<or> election_ok M host ?s j e" if "cl_elections ?s j = Some e" for j e
      using that el by (cases "j = i") auto
  qed (use v in auto)
qed

lemma vote_handle_inv:
  assumes inv: "cluster_inv M host s" and q: "q \<in> cl_requests s"
    and p: "p \<in> set (rn_peer_addresses (cl_nodes s (vq_candidate_id q)))"
    and run: "HandleRequestVote clk q (cl_nodes s (host p)) = (n', r)"
  shows "sound_step M host s ((put (host p) n' s)\<lparr>cl_replies := insert (host p, q, r) (cl_replies s),
       cl_hist := (if vr_vote_granted r then insert (vq_term q, host p, vq_candidate_id q) (cl_hist s) else cl_hist s)\<rparr>)"
    (is "sound_step M host s ?s")
proof -
  let ?j = "host p" and ?c = "vq_candidate_id q"
  have c: "configured M host (cl_nodes s)" and cm: "?c \<in> M" and mo: "messages_ok M s"
    using inv q by (auto simp: cluster_inv_def messages_ok_def)
  note j = peer_is_member[OF c cm p]
  obtain n1 where n1: "vote_same (cl_nodes s ?j) n1 \<or> rn_current_term (cl_nodes s ?j) < vq_term q \<and> vote_cleared (vq_term q) (cl_nodes s ?j) n1"
    and n2: "\<not> vr_vote_granted r \<and> vote_same n1 n' \<or> vr_vote_granted r \<and> rn_current_term n1 = vq_term q
       \<and> (rn_voted_for n1 = [] \<or> rn_voted_for n1 = ?c) \<and> vote_same (n1\<lparr>rn_voted_for := ?c\<rparr>) n'"
    using request_vote_view[OF run] by blast
  let ?s1 = "put ?j n1 s"
  have s1: "(ballot_step M)\<^sup>*\<^sup>* (ballots_of s) (ballots_of ?s1)"
    using n1
  proof
    assume "vote_same (cl_nodes s ?j) n1"
    then have "ballots_of ?s1 = ballots_of s" by (intro ballots_of_cong) (auto simp: vote_same_def)
    then show ?thesis by simp
  next
    assume "rn_current_term (cl_nodes s ?j) < vq_term q \<and> vote_cleared (vq_term q) (cl_nodes s ?j) n1"
    then show ?thesis using sim_cleared[OF j(1), of s "vq_term q" n1 ?s1] by auto
  qed
  have s2: "(ballot_step M)\<^sup>*\<^sup>* (ballots_of ?s1) (ballots_of ?s)"
    using n2
  proof
    assume a: "\<not> vr_vote_granted r \<and> vote_same n1 n'"
    then have "ballots_of ?s = ballots_of ?s1" by (intro ballots_of_cong) (auto simp: vote_same_def)
    then show ?thesis by simp
  next
    assume a: "vr_vote_granted r \<and> rn_current_term n1 = vq_term q
       \<and> (rn_voted_for n1 = [] \<or> rn_voted_for n1 = ?c) \<and> vote_same (n1\<lparr>rn_voted_for := ?c\<rparr>) n'"
    have "ballot_step M (ballots_of ?s1) (ballots_of ?s)"
      by (rule sim_grant[OF j(1) cm j(2)[symmetric], where n' = n']) (use a in auto)
    then show ?thesis by blast
  qed
  have same: "rn_node_id n' = rn_node_id (cl_nodes s ?j)" "rn_peer_addresses n' = rn_peer_addresses (cl_nodes s ?j)"
    using n1 n2 by (auto simp: vote_same_def vote_cleared_def)
  show ?thesis
  proof (rule cluster_inv_put[OF inv rtranclp_trans[OF s1 s2], where i = ?j and n' = n'])
    show "messages_ok M ?s" using mo j by (auto simp: messages_ok_def)
  qed (use same in auto)
qed

lemma append_handle_inv:
  assumes inv: "cluster_inv M host s" and q: "q \<in> cl_appends s"
    and p: "p \<in> set (rn_peer_addresses (cl_nodes s (aq_leader_id q)))"
    and run: "HandleAppendEntries clk q (cl_nodes s (host p)) = Inr (n', r)"
  shows "sound_step M host s (put (host p) n' s)"
proof -
  let ?j = "host p"
  have c: "configured M host (cl_nodes s)" and lm: "aq_leader_id q \<in> M" and led: "(aq_term q, aq_leader_id q) \<in> cl_led s"
    using inv q by (auto simp: cluster_inv_def messages_ok_def)
  note j = peer_is_member[OF c lm p]
  from append_view[OF run] show ?thesis
  proof (elim disjE conjE)
    assume a: "rn_current_term (cl_nodes s ?j) = aq_term q" "rn_state (cl_nodes s ?j) \<noteq> FOLLOWER"
      "vote_cleared (aq_term q) (cl_nodes s ?j) n'"
    have "ballot_step M (ballots_of s) (ballots_of (put ?j n' s))"
      by (rule sim_yield[OF j(1) led j(2)[symmetric] a]) simp_all
    then show ?thesis
      by (intro cluster_inv_put[OF inv, where i = ?j and n' = n'] messages_ok_put[OF inv])
        (use a(3) in \<open>auto simp: vote_cleared_def\<close>)
  qed (auto intro: cluster_inv_same[OF inv j(1)] cluster_inv_cleared[OF inv j(1)])
qed

lemma election_okD:
  assumes "cluster_inv M host s" "i \<in> M" "cl_elections s i = Some el" "el_todo el = p # ps"
  obtains F where "vq_candidate_id (el_request el) = i" "distinct (map host ps)" "set ps \<subseteq> set (rn_peer_addresses (cl_nodes s i))"
    "F \<subseteq> M" "finite F" "F \<inter> host ` set ps = {}" "host p \<notin> F" "host p \<notin> host ` set ps" "el_votes el = card F"
    "\<forall>v\<in>F. (vq_term (el_request el), v, i) \<in> cl_hist s" "host p \<in> M"
proof -
  have e: "election_ok M host s i el" and c: "configured M host (cl_nodes s)"
    using assms(1-3) by (auto simp: cluster_inv_def)
  then obtain F where "F \<subseteq> M" "finite F" "F \<inter> host ` set (p # ps) = {}" "el_votes el = card F"
    "\<forall>v\<in>F. (vq_term (el_request el), v, i) \<in> cl_hist s" using assms(4) by (auto simp: election_ok_def)
  moreover have "host p \<in> M"
    using e assms(4) peer_is_member[OF c assms(2), of p] by (auto simp: election_ok_def)
  ultimately show thesis using e assms(4) that[of F] by (auto simp: election_ok_def)
qed

lemma reply_hist:
  assumes "cluster_inv M host s" "(j, q, r) \<in> cl_replies s" "vr_vote_granted r"
  shows "(vq_term q, j, vq_candidate_id q) \<in> cl_hist s"
  using assms by (auto simp: cluster_inv_def messages_ok_def)

lemma vote_reply_inv:
  assumes inv: "cluster_inv M host s" and i: "i \<in> M" and el: "cl_elections s i = Some el" "el_todo el = p # ps"
    and r: "(host p, el_request el, r) \<in> cl_replies s"
    and run: "on_vote_response clk (vq_term (el_request el)) (el_votes el) r (cl_nodes s i) = (n', KeepGoing v)"
  shows "sound_step M host s (set_election i (Some (el\<lparr>el_votes := v, el_todo := ps\<rparr>)) (put i n' s))"
proof -
  obtain F where F: "vq_candidate_id (el_request el) = i" "distinct (map host ps)" "set ps \<subseteq> set (rn_peer_addresses (cl_nodes s i))"
    "F \<subseteq> M" "finite F" "F \<inter> host ` set ps = {}" "host p \<notin> F" "host p \<notin> host ` set ps" "el_votes el = card F"
    "\<forall>v\<in>F. (vq_term (el_request el), v, i) \<in> cl_hist s" "host p \<in> M"
    using election_okD[OF inv i el] .
  have n': "n' = cl_nodes s i" and v: "v = el_votes el \<or> v = el_votes el + 1 \<and> vr_vote_granted r"
    using on_vote_view[OF run] by auto
  have "election_ok M host s i (el\<lparr>el_votes := v, el_todo := ps\<rparr>)"
  proof (cases "v = el_votes el")
    case True
    with F show ?thesis unfolding election_ok_def by (intro conjI exI[of _ F]) auto
  next
    case False
    with v have "vr_vote_granted r" "v = el_votes el + 1" by auto
    with F reply_hist[OF inv r] show ?thesis
      unfolding election_ok_def by (intro conjI exI[of _ "insert (host p) F"]) auto
  qed
  moreover have "put i n' s = s" by (simp add: put_def n')
  ultimately show ?thesis by (simp only:) (rule cluster_inv_election[OF inv], simp)
qed

lemma vote_won_inv:
  assumes inv: "cluster_inv M host s" and i: "i \<in> M" and el: "cl_elections s i = Some el" "el_todo el = p # ps"
    and r: "(host p, el_request el, r) \<in> cl_replies s"
    and run: "on_vote_response clk (vq_term (el_request el)) (el_votes el) r (cl_nodes s i) = (n', Elected)"
  shows "sound_step M host s ((set_election i None (put i n' s))\<lparr>cl_led := insert (rn_current_term n', i) (cl_led s)\<rparr>)"
    (is "sound_step M host s ?s")
proof -
  obtain F where F: "vq_candidate_id (el_request el) = i" "F \<subseteq> M" "finite F" "host p \<notin> F" "el_votes el = card F"
    "\<forall>v\<in>F. (vq_term (el_request el), v, i) \<in> cl_hist s" "host p \<in> M"
    using election_okD[OF inv i el] .
  have c: "configured M host (cl_nodes s)" using inv by (simp add: cluster_inv_def)
  have w: "n' = BecomeLeaderLocked (cl_nodes s i)" "rn_state (cl_nodes s i) = CANDIDATE"
    "rn_current_term (cl_nodes s i) = vq_term (el_request el)" "vr_vote_granted r" "QuorumSize (cl_nodes s i) \<le> el_votes el + 1"
    using on_vote_view[OF run] by auto
  have q: "majority M (insert (host p) F)"
    using F w(5) configured_quorum[OF c i] configuredD(4)[OF c i] by (simp add: majority_def)
  have h: "\<forall>u\<in>insert (host p) F. (rn_current_term (cl_nodes s i), u, i) \<in> cl_hist s"
    using F(1,6) w(3) reply_hist[OF inv r w(4)] by auto
  have "ballot_step M (ballots_of s) (ballots_of ?s)" by (rule sim_win[OF i w(2) q h]) (simp_all add: w(1))
  then show ?thesis
    by (intro cluster_inv_put[OF inv, where i = i and n' = n'] messages_ok_put[OF inv])
      (auto simp: w(1) split: if_splits)
qed

lemma start_alone_inv:
  assumes inv: "cluster_inv M host s" and i: "i \<in> M" and off: "\<not> rn_running (cl_nodes s i)" "rn_peer_addresses (cl_nodes s i) = []"
    and n': "n' = fst (Start clk (cl_nodes s i))"
  shows "sound_step M host s ((put i n' s)\<lparr>cl_hist := insert (rn_current_term n', i, i) (cl_hist s),
       cl_led := insert (rn_current_term n', i) (cl_led s)\<rparr>)" (is "sound_step M host s ?s")
proof -
  have c: "configured M host (cl_nodes s)" using inv by (simp add: cluster_inv_def)
  note d = configuredD[OF c i]
  have "M = {i}" using d(3) off(2) i by auto
  then have "ballot_step M (ballots_of s) (ballots_of ?s)"
    by (rule sim_solo[OF _ d(1) off n']) simp_all
  then show ?thesis
    by (intro cluster_inv_put[OF inv, where i = i and n' = n'] messages_ok_put[OF inv])
      (use off n' in \<open>auto simp: Start_def Let_def\<close>)
qed

lemma append_send_inv:
  assumes inv: "cluster_inv M host s" and i: "i \<in> M" and run: "replicate_request p (cl_nodes s i) = Inr (Some (n', q))"
  shows "sound_step M host s ((put i n' s)\<lparr>cl_appends := insert q (cl_appends s)\<rparr>)" (is "sound_step M host s ?s")
proof -
  have c: "configured M host (cl_nodes s)" and b: "roles_ok M (ballots_of s)" and mo: "messages_ok M s"
    using inv by (auto simp: cluster_inv_def dest: ballots_invD(3))
  note v = replicate_request_view[OF run]
  have led: "(aq_term q, aq_leader_id q) \<in> cl_led s"
    using roles_okD(2)[OF b i] v configuredD(1)[OF c i] by simp
  have "ballots_of ?s = ballots_of s" using v by (intro ballots_of_cong) (auto simp: vote_same_def)
  then show ?thesis
  proof (intro cluster_inv_put[OF inv, where i = i and n' = n'])
    show "messages_ok M ?s" using mo led v i configuredD(1)[OF c i] by (auto simp: messages_ok_def)
  qed (use v in \<open>auto simp: vote_same_def\<close>)
qed

lemma raft_step_sound:
  assumes inv: "cluster_inv M host s" and step: "raft_step M host s s'"
  shows "sound_step M host s s'"
  using step
proof (cases rule: raft_step.cases)
  case (vote_lost i el p ps)
  have "election_ok M host s i el" using inv vote_lost(2,3) by (auto simp: cluster_inv_def)
  then have "election_ok M host s i (el\<lparr>el_todo := ps\<rparr>)" using vote_lost(4) by (fastforce simp: election_ok_def)
  then show ?thesis unfolding vote_lost(1) by (intro cluster_inv_election[OF inv]) auto
next
  case (vote_abandon i el p ps r clk n')
  have "sound_step M host s (put i n' s)"
    using on_vote_view[OF vote_abandon(6)] cluster_inv_same[OF inv vote_abandon(2)]
      cluster_inv_cleared[OF inv vote_abandon(2)] by auto
  then show ?thesis unfolding vote_abandon(1) by (rule sound_step_trans) (rule cluster_inv_election, simp_all)
next
  case (election_end i el)
  show ?thesis unfolding election_end(1) by (rule cluster_inv_election[OF inv]) simp
next
  case (append_handle q p j clk n' r)
  have "sound_step M host s (put j n' s)"
    using append_handle_inv[OF inv append_handle(2,3)] append_handle(4,5) by blast
  then show ?thesis unfolding append_handle(1) by (rule sound_step_trans) (rule cluster_inv_acks)
next
  case (append_reply i p q r clk n' out)
  from replicate_response_view[OF append_reply(5)] show ?thesis
    unfolding append_reply(1)
    using cluster_inv_same[OF inv append_reply(2)] cluster_inv_cleared[OF inv append_reply(2)] by blast
next
  case (snapshot i clk q)
  from snapshot_view[of "cl_nodes s i" clk q] show ?thesis
    unfolding snapshot(1)
    using cluster_inv_same[OF inv snapshot(2)] cluster_inv_cleared[OF inv snapshot(2)] by blast
next
  case (election_begin i clk n' q)
  show ?thesis unfolding election_begin(1) by (rule election_begin_inv[OF inv election_begin(2,4)])
next
  case (vote_handle q p j clk n' r)
  show ?thesis using vote_handle_inv[OF inv vote_handle(2,3)] vote_handle(4,5) unfolding vote_handle(1) by blast
qed (use inv in \<open>auto intro: cluster_inv_same client_view vote_reply_inv vote_won_inv start_alone_inv append_send_inv\<close>)

lemma initial_cluster_inv: "initial_cluster M host s \<Longrightarrow> cluster_inv M host s"
proof -
  assume init: "initial_cluster M host s"
  have "rn_state (cl_nodes s i) = FOLLOWER" for i
  proof -
    obtain sa ps cfg where "cl_nodes s i = new_RaftNode i sa ps cfg" using init unfolding initial_cluster_def by blast
    then show ?thesis by (simp add: new_RaftNode_def)
  qed
  then have "fresh_ballots (ballots_of s)" using init by (simp add: fresh_ballots_def initial_cluster_def)
  then show ?thesis
    using init fresh_ballots_inv[of "ballots_of s" M]
    by (auto simp: initial_cluster_def cluster_inv_def messages_ok_def configured_def)
qed

lemma raft_step_inv: "cluster_inv M host s \<Longrightarrow> raft_step M host s s' \<Longrightarrow> cluster_inv M host s'"
  using raft_step_sound by (auto simp: sound_step_def)

interpretation raft: inductive_invariant "initial_cluster M host" "raft_step M host" "cluster_inv M host" for M host
  by unfold_locales (auto intro: initial_cluster_inv raft_step_inv)

end
