(* ===== verification/RaftRuns.thy ===== *)
theory RaftRuns
  imports RaftCluster
begin

text \<open>
  Concrete runs of a cluster of three nodes \<open>A\<close>, \<open>B\<close>, \<open>C\<close>, built step by step from the initial
  state. \<open>A\<close> is elected in term 1 and appends an entry that it never replicates; \<open>C\<close> is
  elected in term 2 with the vote of \<open>B\<close> and sends \<open>A\<close> a heartbeat. The runs are the examples of
  the cluster's properties and the evidence for what goes wrong after that heartbeat.
\<close>

definition clk0 :: clock where "clk0 = \<lparr>clk_now = 0, clk_draw = 0\<rparr>"

definition sentinel :: LogEntry where "sentinel = default_LogEntry\<lparr>le_term := 0\<rparr>"

definition entry_x :: LogEntry where
  "entry_x = default_LogEntry\<lparr>le_term := 1, le_agent_id := ''x''\<rparr>"

definition entry_y :: LogEntry where
  "entry_y = default_LogEntry\<lparr>le_term := 2, le_agent_id := ''y''\<rparr>"

definition ex_node ::
  "string \<Rightarrow> string list \<Rightarrow> bool \<Rightarrow> int \<Rightarrow> string \<Rightarrow> RaftState \<Rightarrow> LogEntry list \<Rightarrow> int \<Rightarrow> string
   \<Rightarrow> (string, int) umap \<Rightarrow> (string, int) umap \<Rightarrow> int \<Rightarrow> RaftNode" where
  "ex_node i ps run T vote st lg ci lead nxt mtch dl =
     \<lparr>rn_node_id = i, rn_service_address = i, rn_peer_addresses = ps, rn_has_on_leader = False,
      rn_config = default_RaftConfig, rn_current_term = T, rn_voted_for = vote, rn_log = lg,
      rn_commit_index = ci, rn_last_applied = 0, rn_state = st, rn_current_leader_id = lead,
      rn_current_leader_address = lead, rn_next_index = nxt, rn_match_index = mtch,
      rn_election_deadline = dl, rn_running = run\<rparr>"

definition peers_A :: "string list" where "peers_A = [''B'', ''C'']"
definition peers_B :: "string list" where "peers_B = [''A'', ''C'']"
definition peers_C :: "string list" where "peers_C = [''B'', ''A'']"

definition node_A :: "nat \<Rightarrow> RaftNode" where
  "node_A k = [
     ex_node ''A'' peers_A False 0 [] FOLLOWER [sentinel] 0 [] [] [] 0,
     ex_node ''A'' peers_A True 0 [] FOLLOWER [sentinel] 0 [] [] [] 600,
     ex_node ''A'' peers_A True 1 ''A'' CANDIDATE [sentinel] 0 [] [] [] 600,
     ex_node ''A'' peers_A True 1 ''A'' LEADER [sentinel] 0 ''A'' [(''C'', 1), (''B'', 1)] [(''C'', 0), (''B'', 0)] 600,
     ex_node ''A'' peers_A True 1 ''A'' LEADER [sentinel, entry_x] 0 ''A'' [(''C'', 1), (''B'', 1)] [(''C'', 0), (''B'', 0)] 600,
     ex_node ''A'' peers_A True 2 [] FOLLOWER [sentinel, entry_x] 0 ''C'' [(''C'', 1), (''B'', 1)] [(''C'', 0), (''B'', 0)] 600] ! k"

definition node_B :: "nat \<Rightarrow> RaftNode" where
  "node_B k = [
     ex_node ''B'' peers_B False 0 [] FOLLOWER [sentinel] 0 [] [] [] 0,
     ex_node ''B'' peers_B False 1 ''A'' FOLLOWER [sentinel] 0 [] [] [] 600,
     ex_node ''B'' peers_B False 2 ''C'' FOLLOWER [sentinel] 0 [] [] [] 600,
     ex_node ''B'' peers_B False 1 ''A'' FOLLOWER [sentinel, entry_x] 0 ''A'' [] [] 600] ! k"

definition node_C :: "nat \<Rightarrow> RaftNode" where
  "node_C k = [
     ex_node ''C'' peers_C False 0 [] FOLLOWER [sentinel] 0 [] [] [] 0,
     ex_node ''C'' peers_C False 1 ''A'' FOLLOWER [sentinel] 0 [] [] [] 600,
     ex_node ''C'' peers_C True 1 ''A'' FOLLOWER [sentinel] 0 [] [] [] 600,
     ex_node ''C'' peers_C True 2 ''C'' CANDIDATE [sentinel] 0 [] [] [] 600,
     ex_node ''C'' peers_C True 2 ''C'' LEADER [sentinel] 0 ''C'' [(''A'', 1), (''B'', 1)] [(''A'', 0), (''B'', 0)] 600,
     ex_node ''C'' peers_C True 2 ''C'' LEADER [sentinel] 0 ''C'' [(''A'', 2), (''B'', 1)] [(''A'', 1), (''B'', 0)] 600,
     ex_node ''C'' peers_C True 2 ''C'' LEADER [sentinel, entry_y] 0 ''C'' [(''A'', 1), (''B'', 1)] [(''A'', 0), (''B'', 0)] 600,
     ex_node ''C'' peers_C True 2 ''C'' LEADER [sentinel, entry_y] 1 ''C'' [(''A'', 2), (''B'', 1)] [(''A'', 1), (''B'', 0)] 600] ! k"

definition vote_A :: VoteRequest where
  "vote_A = \<lparr>vq_term = 1, vq_candidate_id = ''A'', vq_last_log_index = 0, vq_last_log_term = 0\<rparr>"

definition vote_C :: VoteRequest where
  "vote_C = \<lparr>vq_term = 2, vq_candidate_id = ''C'', vq_last_log_index = 0, vq_last_log_term = 0\<rparr>"

definition beat_C :: AppendRequest where
  "beat_C = \<lparr>aq_term = 2, aq_leader_id = ''C'', aq_leader_service_address = ''C'', aq_prev_log_index = 0,
     aq_prev_log_term = 0, aq_entries = [], aq_leader_commit = 0\<rparr>"

definition send_A :: AppendRequest where
  "send_A = \<lparr>aq_term = 1, aq_leader_id = ''A'', aq_leader_service_address = ''A'', aq_prev_log_index = 0,
     aq_prev_log_term = 0, aq_entries = [entry_x], aq_leader_commit = 0\<rparr>"

definition ack_B :: AppendResponse where
  "ack_B = \<lparr>ar_term = 1, ar_success = True, ar_match_index = 1, ar_conflict_term = 0, ar_conflict_index = 0\<rparr>"

definition ack_A :: AppendResponse where
  "ack_A = \<lparr>ar_term = 2, ar_success = True, ar_match_index = 1, ar_conflict_term = 0, ar_conflict_index = 0\<rparr>"

lemmas run_defs = node_A_def node_B_def node_C_def ex_node_def peers_A_def peers_B_def peers_C_def clk0_def
  sentinel_def entry_x_def entry_y_def vote_A_def vote_C_def beat_C_def ack_A_def send_A_def ack_B_def default_RaftConfig_def
  default_LogEntry_def default_AppendResponse_def

lemmas op_defs = Start_def ResetElectionDeadlineLocked_def RandomElectionTimeoutMs_def uniform_int_def
  begin_election_def LastLogIndexLocked_def LastLogTermLocked_def HandleRequestVote_def IsLogUpToDateLocked_def
  BecomeFollowerLocked_def on_vote_response_def QuorumSize_def BecomeLeaderLocked_def um_assign_def um_modify_def
  propose_append_def replicate_request_def um_get_def HandleAppendEntries_def append_follow_def prev_mismatch_def
  append_commit_def replicate_response_def AdvanceCommitIndexLocked_def replicated_count_def Let_def

text \<open>The operations on the example nodes.\<close>

lemma ex_ops:
  "fst (Start clk0 (node_A 0)) = node_A 1"
  "begin_election clk0 (node_A 1) = Some (node_A 2, vote_A)"
  "HandleRequestVote clk0 vote_A (node_B 0) = (node_B 1, \<lparr>vr_term = 1, vr_vote_granted = True\<rparr>)"
  "HandleRequestVote clk0 vote_A (node_C 0) = (node_C 1, \<lparr>vr_term = 1, vr_vote_granted = True\<rparr>)"
  "on_vote_response clk0 1 1 \<lparr>vr_term = 1, vr_vote_granted = True\<rparr> (node_A 2) = (node_A 3, Elected)"
  "propose_append entry_x (node_A 3) = Some (node_A 4, 1)"
  "fst (Start clk0 (node_C 1)) = node_C 2"
  "begin_election clk0 (node_C 2) = Some (node_C 3, vote_C)"
  "HandleRequestVote clk0 vote_C (node_B 1) = (node_B 2, \<lparr>vr_term = 2, vr_vote_granted = True\<rparr>)"
  "on_vote_response clk0 2 1 \<lparr>vr_term = 2, vr_vote_granted = True\<rparr> (node_C 3) = (node_C 4, Elected)"
  "replicate_request ''A'' (node_C 4) = Inr (Some (node_C 4, beat_C))"
  "HandleAppendEntries clk0 beat_C (node_A 4) = Inr (node_A 5, ack_A)"
  "replicate_response clk0 ''A'' 2 ack_A (node_C 4) = Inr (node_C 5, Finished True)"
  "propose_append entry_y (node_C 4) = Some (node_C 6, 1)"
  "replicate_request ''B'' (node_A 4) = Inr (Some (node_A 4, send_A))"
  "HandleAppendEntries clk0 send_A (node_B 1) = Inr (node_B 3, ack_B)"
  "replicate_response clk0 ''A'' 2 ack_A (node_C 6) = Inr (node_C 7, Finished True)"
  by (simp_all add: run_defs op_defs advance_commit_loop.simps)

section \<open>The common part of the runs\<close>

definition ex_cluster ::
  "RaftNode \<Rightarrow> RaftNode \<Rightarrow> RaftNode \<Rightarrow> (string \<Rightarrow> election option) \<Rightarrow> VoteRequest set
   \<Rightarrow> (string \<times> VoteRequest \<times> VoteResponse) set \<Rightarrow> AppendRequest set
   \<Rightarrow> (string \<times> AppendRequest \<times> AppendResponse) set \<Rightarrow> (int \<times> string \<times> string) set \<Rightarrow> (int \<times> string) set \<Rightarrow> cluster" where
  "ex_cluster a b c el rq rp ap ak hs ld =
     \<lparr>cl_nodes = (\<lambda>i. new_RaftNode i [] [] default_RaftConfig)(''A'' := a, ''B'' := b, ''C'' := c),
      cl_elections = el, cl_requests = rq, cl_replies = rp, cl_appends = ap, cl_acks = ak, cl_hist = hs, cl_led = ld\<rparr>"

lemma ex_cluster_sel [simp]:
  "cl_nodes (ex_cluster a b c el rq rp ap ak hs ld) ''A'' = a"
  "cl_nodes (ex_cluster a b c el rq rp ap ak hs ld) ''B'' = b"
  "cl_nodes (ex_cluster a b c el rq rp ap ak hs ld) ''C'' = c"
  "cl_elections (ex_cluster a b c el rq rp ap ak hs ld) = el"
  "cl_requests (ex_cluster a b c el rq rp ap ak hs ld) = rq"
  "cl_replies (ex_cluster a b c el rq rp ap ak hs ld) = rp"
  "cl_appends (ex_cluster a b c el rq rp ap ak hs ld) = ap"
  "cl_acks (ex_cluster a b c el rq rp ap ak hs ld) = ak"
  "cl_hist (ex_cluster a b c el rq rp ap ak hs ld) = hs"
  "cl_led (ex_cluster a b c el rq rp ap ak hs ld) = ld"
  by (simp_all add: ex_cluster_def)

lemma ex_cluster_upd [simp]:
  "put ''A'' a' (ex_cluster a b c el rq rp ap ak hs ld) = ex_cluster a' b c el rq rp ap ak hs ld"
  "put ''B'' b' (ex_cluster a b c el rq rp ap ak hs ld) = ex_cluster a b' c el rq rp ap ak hs ld"
  "put ''C'' c' (ex_cluster a b c el rq rp ap ak hs ld) = ex_cluster a b c' el rq rp ap ak hs ld"
  "set_election i e (ex_cluster a b c el rq rp ap ak hs ld) = ex_cluster a b c (el(i := e)) rq rp ap ak hs ld"
  "ex_cluster a b c el rq rp ap ak hs ld\<lparr>cl_requests := rq'\<rparr> = ex_cluster a b c el rq' rp ap ak hs ld"
  "ex_cluster a b c el rq rp ap ak hs ld\<lparr>cl_replies := rp'\<rparr> = ex_cluster a b c el rq rp' ap ak hs ld"
  "ex_cluster a b c el rq rp ap ak hs ld\<lparr>cl_appends := ap'\<rparr> = ex_cluster a b c el rq rp ap' ak hs ld"
  "ex_cluster a b c el rq rp ap ak hs ld\<lparr>cl_acks := ak'\<rparr> = ex_cluster a b c el rq rp ap ak' hs ld"
  "ex_cluster a b c el rq rp ap ak hs ld\<lparr>cl_hist := hs'\<rparr> = ex_cluster a b c el rq rp ap ak hs' ld"
  "ex_cluster a b c el rq rp ap ak hs ld\<lparr>cl_led := ld'\<rparr> = ex_cluster a b c el rq rp ap ak hs ld'"
  by (auto simp: ex_cluster_def put_def set_election_def fun_eq_iff)

definition abc :: "string set" where "abc = {''A'', ''B'', ''C''}"

definition cluster0 :: cluster where
  "cluster0 = ex_cluster (node_A 0) (node_B 0) (node_C 0) (\<lambda>_. None) {} {} {} {} {} {}"

definition grant1 :: VoteResponse where "grant1 = \<lparr>vr_term = 1, vr_vote_granted = True\<rparr>"
definition grant2 :: VoteResponse where "grant2 = \<lparr>vr_term = 2, vr_vote_granted = True\<rparr>"

definition hist1 :: "(int \<times> string \<times> string) set" where
  "hist1 = {(1, ''C'', ''A''), (1, ''B'', ''A''), (1, ''A'', ''A'')}"

definition replies1 :: "(string \<times> VoteRequest \<times> VoteResponse) set" where
  "replies1 = {(''C'', vote_A, grant1), (''B'', vote_A, grant1)}"

definition cluster_A :: cluster where
  "cluster_A = ex_cluster (node_A 3) (node_B 1) (node_C 1) (\<lambda>_. None) {vote_A} replies1 {} {} hist1 {(1, ''A'')}"

definition cluster_C :: cluster where
  "cluster_C = ex_cluster (node_A 4) (node_B 2) (node_C 4) (\<lambda>_. None) {vote_C, vote_A}
     (insert (''B'', vote_C, grant2) replies1) {beat_C} {}
     (insert (2, ''B'', ''C'') (insert (2, ''C'', ''C'') hist1)) {(2, ''C''), (1, ''A'')}"

lemma abc_mem [simp]: "''A'' \<in> abc" "''B'' \<in> abc" "''C'' \<in> abc"
  by (simp_all add: abc_def)

lemma node_fields [simp]:
  "rn_peer_addresses (node_A 0) = peers_A" "rn_peer_addresses (node_A 2) = peers_A"
  "rn_peer_addresses (node_C (Suc 0)) = peers_C" "rn_peer_addresses (node_C 3) = peers_C" "rn_peer_addresses (node_C 4) = peers_C"
  "rn_peer_addresses (node_C 6) = peers_C"
  "rn_running (node_C 4)" "rn_current_term (node_A 3) = 1" "rn_current_term (node_C 4) = 2"
  by (simp_all add: run_defs)

lemma msg_fields [simp]:
  "vq_candidate_id vote_A = ''A''" "vq_candidate_id vote_C = ''C''" "vq_term vote_A = 1" "vq_term vote_C = 2"
  "aq_leader_id beat_C = ''C''" "aq_term beat_C = 2" "vr_vote_granted grant1" "vr_vote_granted grant2"
  by (simp_all add: run_defs grant1_def grant2_def)

lemmas ex_ops_grant = ex_ops[folded grant1_def grant2_def, unfolded One_nat_def]

lemma initial0: "initial_cluster abc id cluster0"
proof -
  have "\<exists>sa ps cfg. cl_nodes cluster0 i = new_RaftNode i sa ps cfg" for i
  proof -
    have "node_A 0 = new_RaftNode ''A'' ''A'' peers_A default_RaftConfig"
      "node_B 0 = new_RaftNode ''B'' ''B'' peers_B default_RaftConfig"
      "node_C 0 = new_RaftNode ''C'' ''C'' peers_C default_RaftConfig"
      by (simp_all add: run_defs new_RaftNode_def)
    then show ?thesis unfolding cluster0_def ex_cluster_def by auto
  qed
  moreover have "configured abc id (cl_nodes cluster0)"
    by (simp add: configured_def abc_def cluster0_def) (auto simp: run_defs)
  ultimately show ?thesis by (simp add: initial_cluster_def) (simp add: cluster0_def)
qed

lemma run_to_A: "(raft_step abc id)\<^sup>*\<^sup>* cluster0 cluster_A"
proof -
  let ?S = "\<lambda>a b c el rp hs ld. ex_cluster a b c el {vote_A} rp {} {} hs ld"
  let ?el = "(\<lambda>_. None)(''A'' := Some \<lparr>el_request = vote_A, el_votes = 1, el_todo = peers_A\<rparr>)"
  have s1: "raft_step abc id cluster0 (ex_cluster (node_A 1) (node_B 0) (node_C 0) (\<lambda>_. None) {} {} {} {} {} {})" (is "raft_step _ _ _ ?s1")
    using raft_step.start[of "''A''" abc cluster0 id clk0] by (simp add: cluster0_def ex_ops_grant peers_A_def)
  have s2: "raft_step abc id ?s1 (?S (node_A 2) (node_B 0) (node_C 0) ?el {} {(1, ''A'', ''A'')} {})" (is "raft_step _ _ _ ?s2")
    using raft_step.election_begin[of "''A''" abc ?s1 clk0 "node_A 2" vote_A id] by (simp add: ex_ops_grant)
  have s3: "raft_step abc id ?s2 (?S (node_A 2) (node_B 1) (node_C 0) ?el {(''B'', vote_A, grant1)} {(1, ''B'', ''A''), (1, ''A'', ''A'')} {})" (is "raft_step _ _ _ ?s3")
    using raft_step.vote_handle[of vote_A ?s2 "''B''" "''B''" id clk0 "node_B 1" grant1 abc] by (simp add: ex_ops_grant peers_A_def)
  have s4: "raft_step abc id ?s3 (?S (node_A 2) (node_B 1) (node_C 1) ?el replies1 hist1 {})" (is "raft_step _ _ _ ?s4")
    using raft_step.vote_handle[of vote_A ?s3 "''C''" "''C''" id clk0 "node_C 1" grant1 abc]
    by (simp add: ex_ops_grant peers_A_def replies1_def hist1_def)
  have "raft_step abc id ?s4 cluster_A"
    using raft_step.vote_won[of "''A''" abc ?s4 "\<lparr>el_request = vote_A, el_votes = 1, el_todo = peers_A\<rparr>" "''B''" "[''C'']" id grant1 clk0 "node_A 3"]
    by (simp add: ex_ops_grant peers_A_def replies1_def cluster_A_def)
  with s1 s2 s3 s4 show ?thesis by (meson rtranclp.rtrancl_into_rtrancl rtranclp.rtrancl_refl)
qed

lemma run_A_to_C: "(raft_step abc id)\<^sup>*\<^sup>* cluster_A cluster_C"
proof -
  let ?el = "(\<lambda>_. None)(''C'' := Some \<lparr>el_request = vote_C, el_votes = 1, el_todo = peers_C\<rparr>)"
  have s1: "raft_step abc id cluster_A (ex_cluster (node_A 4) (node_B 1) (node_C 1) (\<lambda>_. None) {vote_A} replies1 {} {} hist1 {(1, ''A'')})" (is "raft_step _ _ _ ?s1")
    using raft_step.propose[of "''A''" abc entry_x cluster_A "node_A 4" 1 id] by (simp add: cluster_A_def ex_ops_grant)
  have s2: "raft_step abc id ?s1 (ex_cluster (node_A 4) (node_B 1) (node_C 2) (\<lambda>_. None) {vote_A} replies1 {} {} hist1 {(1, ''A'')})" (is "raft_step _ _ _ ?s2")
    using raft_step.start[of "''C''" abc ?s1 id clk0] by (simp add: ex_ops_grant peers_C_def)
  have s3: "raft_step abc id ?s2 (ex_cluster (node_A 4) (node_B 1) (node_C 3) ?el {vote_C, vote_A} replies1 {} {} (insert (2, ''C'', ''C'') hist1) {(1, ''A'')})" (is "raft_step _ _ _ ?s3")
    using raft_step.election_begin[of "''C''" abc ?s2 clk0 "node_C 3" vote_C id] by (simp add: ex_ops_grant)
  have s4: "raft_step abc id ?s3 (ex_cluster (node_A 4) (node_B 2) (node_C 3) ?el {vote_C, vote_A}
      (insert (''B'', vote_C, grant2) replies1) {} {} (insert (2, ''B'', ''C'') (insert (2, ''C'', ''C'') hist1)) {(1, ''A'')})" (is "raft_step _ _ _ ?s4")
    using raft_step.vote_handle[of vote_C ?s3 "''B''" "''B''" id clk0 "node_B 2" grant2 abc] by (simp add: ex_ops_grant peers_C_def)
  have s5: "raft_step abc id ?s4 (ex_cluster (node_A 4) (node_B 2) (node_C 4) (\<lambda>_. None) {vote_C, vote_A}
      (insert (''B'', vote_C, grant2) replies1) {} {} (insert (2, ''B'', ''C'') (insert (2, ''C'', ''C'') hist1)) {(2, ''C''), (1, ''A'')})" (is "raft_step _ _ _ ?s5")
    using raft_step.vote_won[of "''C''" abc ?s4 "\<lparr>el_request = vote_C, el_votes = 1, el_todo = peers_C\<rparr>" "''B''" "[''A'']" id grant2 clk0 "node_C 4"]
    by (simp add: ex_ops_grant peers_C_def)
  have "raft_step abc id ?s5 cluster_C"
    using raft_step.append_send[of "''C''" abc ?s5 "''A''" "node_C 4" beat_C id] by (simp add: ex_ops_grant peers_C_def cluster_C_def)
  with s1 s2 s3 s4 s5 show ?thesis by (meson rtranclp.rtrancl_into_rtrancl rtranclp.rtrancl_refl)
qed

lemma run_to_C: "(raft_step abc id)\<^sup>*\<^sup>* cluster0 cluster_C"
  using run_to_A run_A_to_C by (rule rtranclp_trans)

section \<open>After the heartbeat\<close>

text \<open>\<open>A\<close> answers, \<open>C\<close> takes the answer in: \<open>C\<close> now believes \<open>A\<close> has its entry at index 1.\<close>

definition cluster_beat :: cluster where
  "cluster_beat = ex_cluster (node_A 5) (node_B 2) (node_C 5) (\<lambda>_. None) {vote_C, vote_A}
     (insert (''B'', vote_C, grant2) replies1) {beat_C} {(''A'', beat_C, ack_A)}
     (insert (2, ''B'', ''C'') (insert (2, ''C'', ''C'') hist1)) {(2, ''C''), (1, ''A'')}"

text \<open>The same answer, taken in after \<open>C\<close> appended an entry of its own.\<close>

definition cluster_commit :: cluster where
  "cluster_commit = ex_cluster (node_A 5) (node_B 2) (node_C 7) (\<lambda>_. None) {vote_C, vote_A}
     (insert (''B'', vote_C, grant2) replies1) {beat_C} {(''A'', beat_C, ack_A)}
     (insert (2, ''B'', ''C'') (insert (2, ''C'', ''C'') hist1)) {(2, ''C''), (1, ''A'')}"

lemma run_to_beat: "(raft_step abc id)\<^sup>*\<^sup>* cluster0 cluster_beat"
proof -
  let ?s1 = "cluster_beat\<lparr>cl_nodes := (cl_nodes cluster_beat)(''C'' := node_C 4)\<rparr>"
  have s: "?s1 = ex_cluster (node_A 5) (node_B 2) (node_C 4) (\<lambda>_. None) {vote_C, vote_A}
     (insert (''B'', vote_C, grant2) replies1) {beat_C} {(''A'', beat_C, ack_A)}
     (insert (2, ''B'', ''C'') (insert (2, ''C'', ''C'') hist1)) {(2, ''C''), (1, ''A'')}"
    unfolding put_def[symmetric] by (simp add: cluster_beat_def)
  have "raft_step abc id cluster_C ?s1"
    using raft_step.append_handle[of beat_C cluster_C "''A''" "''A''" id clk0 "node_A 5" ack_A abc] s
    by (simp add: cluster_C_def ex_ops_grant peers_C_def)
  moreover have "raft_step abc id ?s1 cluster_beat"
    using raft_step.append_reply[of "''C''" abc id "''A''" beat_C ack_A ?s1 clk0 "node_C 5" "Finished True"] s
    by (simp add: ex_ops_grant cluster_beat_def)
  ultimately show ?thesis using run_to_C by (meson rtranclp.rtrancl_into_rtrancl)
qed

lemma run_to_commit: "(raft_step abc id)\<^sup>*\<^sup>* cluster0 cluster_commit"
proof -
  let ?s1 = "put ''C'' (node_C 6) cluster_C"
  let ?s2 = "put ''C'' (node_C 6) cluster_commit"
  have "raft_step abc id cluster_C ?s1"
    using raft_step.propose[of "''C''" abc entry_y cluster_C "node_C 6" 1 id] by (simp add: cluster_C_def ex_ops_grant)
  moreover have "raft_step abc id ?s1 ?s2"
    using raft_step.append_handle[of beat_C ?s1 "''A''" "''A''" id clk0 "node_A 5" ack_A abc]
    by (simp add: cluster_C_def cluster_commit_def ex_ops_grant peers_C_def)
  moreover have "raft_step abc id ?s2 cluster_commit"
    using raft_step.append_reply[of "''C''" abc id "''A''" beat_C ack_A ?s2 clk0 "node_C 7" "Finished True"]
    by (simp add: ex_ops_grant cluster_commit_def)
  ultimately show ?thesis using run_to_C by (meson rtranclp.rtrancl_into_rtrancl)
qed

section \<open>An entry that is replicated\<close>

text \<open>\<open>A\<close>, still the leader of term 1, sends its entry to \<open>B\<close>, which stores it.\<close>

definition cluster_shared :: cluster where
  "cluster_shared = ex_cluster (node_A 4) (node_B 3) (node_C 1) (\<lambda>_. None) {vote_A} replies1 {send_A}
     {(''B'', send_A, ack_B)} hist1 {(1, ''A'')}"

lemma run_A_to_shared: "(raft_step abc id)\<^sup>*\<^sup>* cluster_A cluster_shared"
proof -
  let ?s1 = "put ''A'' (node_A 4) cluster_A"
  let ?s2 = "put ''B'' (node_B 1) (cluster_shared\<lparr>cl_acks := {}\<rparr>)"
  have "raft_step abc id cluster_A ?s1"
    using raft_step.propose[of "''A''" abc entry_x cluster_A "node_A 4" 1 id] by (simp add: cluster_A_def ex_ops_grant)
  moreover have "raft_step abc id ?s1 ?s2"
    using raft_step.append_send[of "''A''" abc ?s1 "''B''" "node_A 4" send_A id]
    by (simp add: ex_ops_grant cluster_A_def cluster_shared_def) (simp add: run_defs)
  moreover have "raft_step abc id ?s2 cluster_shared"
    using raft_step.append_handle[of send_A ?s2 "''B''" "''B''" id clk0 "node_B 3" ack_B abc]
    by (simp add: ex_ops_grant cluster_shared_def) (simp add: run_defs)
  ultimately show ?thesis by (meson rtranclp.rtrancl_into_rtrancl rtranclp.rtrancl_refl)
qed

end
