(* ===== verification/LogMatching.thy ===== *)
theory LogMatching
  imports RaftCluster "HOL-Library.Sublist"
begin

text \<open>
  Log Matching for the cluster of \<open>RaftCluster\<close>. A log and the entries of an \<^verbatim>\<open>AppendEntries\<close> request
  are seen as sets of links (position, term of the previous entry, entry). Only a leader's append
  makes a link that was not there before; every other step keeps, drops or copies links. So it is
  enough that the links of the whole cluster, requests in flight included, are determined by their
  position and term.
\<close>

section \<open>Links\<close>

fun links :: "nat \<Rightarrow> int \<Rightarrow> LogEntry list \<Rightarrow> (nat \<times> int \<times> LogEntry) set" where
  "links p t [] = {}"
| "links p t (e # es) = insert (p, t, e) (links (Suc p) (le_term e) es)"

definition end_term :: "int \<Rightarrow> LogEntry list \<Rightarrow> int" where
  "end_term t es = (if es = [] then t else le_term (last es))"

lemma end_term_simps [simp]:
  "end_term t [] = t" "end_term t (e # es) = end_term (le_term e) es"
  by (simp_all add: end_term_def)

lemma links_append: "links p t (xs @ ys) = links p t xs \<union> links (p + length xs) (end_term t xs) ys"
  by (induction xs arbitrary: p t) auto

lemma last_take: "k < length xs \<Longrightarrow> last (take (Suc k) xs) = xs ! k"
  by (simp add: take_Suc_conv_app_nth)

lemma links_take: "links p t (take k es) \<subseteq> links p t es"
  by (metis append_take_drop_id links_append sup_ge1)

lemma links_drop: "k \<le> length es \<Longrightarrow> links (p + k) (end_term t (take k es)) (drop k es) \<subseteq> links p t es"
  by (metis append_take_drop_id length_take links_append min.absorb2 sup_ge2)

lemma link_iff:
  "(k, t', e) \<in> links p t es \<longleftrightarrow>
     (\<exists>i<length es. k = p + i \<and> e = es ! i \<and> t' = (if i = 0 then t else le_term (es ! (i - 1))))"
proof (induction es arbitrary: p t)
  case (Cons x es)
  have "(\<exists>i<length (x # es). k = p + i \<and> e = (x # es) ! i \<and> t' = (if i = 0 then t else le_term ((x # es) ! (i - 1))))
    \<longleftrightarrow> k = p \<and> e = x \<and> t' = t \<or> (\<exists>i<length es. k = Suc p + i \<and> e = es ! i \<and> t' = le_term ((x # es) ! i))"
    by (simp add: Ex_less_Suc2)
  also have "(\<exists>i<length es. k = Suc p + i \<and> e = es ! i \<and> t' = le_term ((x # es) ! i))
    \<longleftrightarrow> (k, t', e) \<in> links (Suc p) (le_term x) es"
    unfolding Cons.IH by (intro ex_cong1 conj_cong) (simp_all add: nth_Cons')
  finally show ?case by auto
qed simp

definition log_links :: "LogEntry list \<Rightarrow> (nat \<times> int \<times> LogEntry) set" where
  "log_links lg = links 1 (le_term (hd lg)) (tl lg)"

definition request_links :: "AppendRequest \<Rightarrow> (nat \<times> int \<times> LogEntry) set" where
  "request_links q = links (Suc (nat (aq_prev_log_index q))) (aq_prev_log_term q) (aq_entries q)"

lemma log_link_iff:
  assumes "lg \<noteq> []"
  shows "(k, t, e) \<in> log_links lg \<longleftrightarrow> 0 < k \<and> k < length lg \<and> e = lg ! k \<and> t = le_term (lg ! (k - 1))"
proof -
  obtain x es where lg: "lg = x # es" using assms by (cases lg) auto
  show ?thesis
  proof (cases k)
    case 0
    then show ?thesis by (simp add: log_links_def link_iff)
  next
    case (Suc j)
    then show ?thesis by (auto simp: log_links_def link_iff lg nth_Cons')
  qed
qed

lemma log_links_split:
  "0 < k \<Longrightarrow> k \<le> length lg \<Longrightarrow>
     log_links (take k lg @ ys) = log_links (take k lg) \<union> links k (le_term (lg ! (k - 1))) ys"
proof -
  assume k: "0 < k" "k \<le> length lg"
  obtain x es j where lg: "lg = x # es" "k = Suc j" using k by (cases lg; cases k) auto
  then have "end_term (le_term x) (take j es) = le_term (lg ! (k - 1))"
    using k by (cases j) (auto simp: end_term_def last_take)
  then show ?thesis using lg k by (simp add: log_links_def links_append min_def)
qed

lemma log_links_take: "0 < k \<Longrightarrow> k \<le> length lg \<Longrightarrow> log_links (take k lg) \<subseteq> log_links lg"
  using log_links_split[of k lg "drop k lg"] by auto

lemma log_links_snoc:
  "lg \<noteq> [] \<Longrightarrow> log_links (lg @ [e]) = insert (length lg, le_term (last lg), e) (log_links lg)"
  using log_links_split[of "length lg" lg "[e]"] by (auto simp: last_conv_nth)

text \<open>An accepted request leaves links of the old log and of the request.\<close>

lemma appended_links:
  assumes "0 \<le> aq_prev_log_index q" "lg \<noteq> []" "prev_matches q lg"
    and "aq_prev_log_index q = 0 \<Longrightarrow> aq_prev_log_term q = le_term (hd lg)"
  shows "log_links (appended_log q lg) \<subseteq> log_links lg \<union> request_links q"
proof -
  let ?p = "nat (aq_prev_log_index q)" and ?es = "aq_entries q"
  let ?k = "agreeing (drop (Suc ?p) lg) ?es"
  have k: "?k \<le> length lg - Suc ?p" "?k \<le> length ?es" using agreeing_le[of "drop (Suc ?p) lg" ?es] by auto
  have b: "Suc ?p \<le> length lg" by (rule prev_matches_bound[OF assms(1-3)])
  have len: "Suc ?p + ?k \<le> length lg" using k(1) b by linarith
  have at_prev: "le_term (lg ! ?p) = aq_prev_log_term q"
    using assms by (auto simp: prev_matches_def hd_conv_nth)
  have "le_term (lg ! (?p + ?k)) = end_term (aq_prev_log_term q) (take ?k ?es)"
  proof (cases ?k)
    case 0
    then show ?thesis by (simp add: at_prev)
  next
    case (Suc j)
    then have "le_term (drop (Suc ?p) lg ! j) = le_term (?es ! j)" by (intro agreeing_nth) simp
    moreover have "take ?k ?es \<noteq> []" "last (take ?k ?es) = ?es ! j"
      using Suc k by (auto simp: last_take)
    ultimately show ?thesis using Suc b by (simp add: end_term_def)
  qed
  then have "log_links (take (Suc ?p + ?k) lg @ drop ?k ?es) = log_links (take (Suc ?p + ?k) lg)
      \<union> links (Suc ?p + ?k) (end_term (aq_prev_log_term q) (take ?k ?es)) (drop ?k ?es)"
    using log_links_split[OF _ len, of "drop ?k ?es"] by simp
  moreover have "log_links (take (Suc ?p + ?k) lg) \<subseteq> log_links lg" using len by (intro log_links_take) auto
  moreover have "links (Suc ?p + ?k) (end_term (aq_prev_log_term q) (take ?k ?es)) (drop ?k ?es) \<subseteq> request_links q"
    unfolding request_links_def by (rule links_drop[OF k(2)])
  ultimately show ?thesis by (auto simp: appended_log_def splice_def Let_def)
qed

text \<open>A request that a leader sends carries links of its log.\<close>

lemma replicate_request_links:
  assumes "replicate_request p n = Inr (Some (n', q))"
  shows "rn_log n' = rn_log n" "request_links q \<subseteq> log_links (rn_log n)" "0 \<le> aq_prev_log_index q"
    "aq_prev_log_index q = 0 \<Longrightarrow> aq_prev_log_term q = le_term (hd (rn_log n))"
    "set (aq_entries q) \<subseteq> set (rn_log n)"
proof -
  let ?x = "max 1 (um_get 0 (rn_next_index n) p)"
  have x: "1 \<le> ?x" "?x - 1 < int (length (rn_log n))" and n': "rn_log n' = rn_log n"
    and q: "aq_prev_log_index q = ?x - 1" "aq_prev_log_term q = le_term (rn_log n ! nat (?x - 1))"
      "aq_entries q = drop (nat ?x) (rn_log n)"
    using assms by (auto simp: replicate_request_def Let_def vec_at_def dest!: rbind_InrD split: if_splits)
  show "rn_log n' = rn_log n" by (rule n')
  show "0 \<le> aq_prev_log_index q" using x q by simp
  show "aq_prev_log_index q = 0 \<Longrightarrow> aq_prev_log_term q = le_term (hd (rn_log n))"
    using q x by (auto simp: hd_conv_nth)
  show "set (aq_entries q) \<subseteq> set (rn_log n)" by (simp add: q(3) set_drop_subset)
  have "nat (?x - 1) = nat ?x - 1" using x by simp
  then have "log_links (rn_log n) = log_links (take (nat ?x) (rn_log n)) \<union> request_links q"
    using log_links_split[of "nat ?x" "rn_log n" "drop (nat ?x) (rn_log n)"] x
    by (simp add: request_links_def q)
  then show "request_links q \<subseteq> log_links (rn_log n)" by blast
qed

section \<open>The invariant\<close>

definition all_links :: "cluster \<Rightarrow> (nat \<times> int \<times> LogEntry) set" where
  "all_links s = (\<Union>i. log_links (rn_log (cl_nodes s i))) \<union> (\<Union>q\<in>cl_appends s. request_links q)"

definition links_ok :: "(int \<times> string) set \<Rightarrow> (nat \<times> int \<times> LogEntry) set \<Rightarrow> bool" where
  "links_ok led L \<longleftrightarrow> (\<forall>k t e t' e'. (k, t, e) \<in> L \<longrightarrow> (k, t', e') \<in> L \<longrightarrow> le_term e = le_term e' \<longrightarrow> t = t' \<and> e = e')
     \<and> (\<forall>k t e. (k, t, e) \<in> L \<longrightarrow> t \<le> le_term e \<and> (\<exists>l. (le_term e, l) \<in> led))"

text \<open>The leader of a term has every position at which an entry of that term occurs.\<close>

definition leader_has_links :: "cluster \<Rightarrow> bool" where
  "leader_has_links s \<longleftrightarrow> (\<forall>l k t e. (rn_current_term (cl_nodes s l), l) \<in> cl_led s \<longrightarrow> (k, t, e) \<in> all_links s \<longrightarrow>
     le_term e = rn_current_term (cl_nodes s l) \<longrightarrow> k < length (rn_log (cl_nodes s l)))"

definition node_log_ok :: "RaftNode \<Rightarrow> bool" where
  "node_log_ok n \<longleftrightarrow> rn_log n \<noteq> [] \<and> hd (rn_log n) = default_LogEntry \<and> 0 \<le> rn_current_term n
     \<and> (\<forall>e\<in>set (rn_log n). le_term e \<le> rn_current_term n)"

definition request_ok :: "AppendRequest \<Rightarrow> bool" where
  "request_ok q \<longleftrightarrow> 0 \<le> aq_prev_log_index q \<and> (aq_prev_log_index q = 0 \<longrightarrow> aq_prev_log_term q = 0)
     \<and> (\<forall>e\<in>set (aq_entries q). le_term e \<le> aq_term q)"

definition log_inv :: "string set \<Rightarrow> (string \<Rightarrow> string) \<Rightarrow> cluster \<Rightarrow> bool" where
  "log_inv M host s \<longleftrightarrow> cluster_inv M host s \<and> links_ok (cl_led s) (all_links s) \<and> leader_has_links s
     \<and> (\<forall>i. node_log_ok (cl_nodes s i)) \<and> (\<forall>q\<in>cl_appends s. request_ok q)"

lemma log_invD:
  assumes "log_inv M host s"
  shows "cluster_inv M host s" "links_ok (cl_led s) (all_links s)" "leader_has_links s"
    "node_log_ok (cl_nodes s i)" "q \<in> cl_appends s \<Longrightarrow> request_ok q"
  using assms by (auto simp: log_inv_def)

lemma node_links: "log_links (rn_log (cl_nodes s i)) \<subseteq> all_links s"
  by (auto simp: all_links_def)

lemma one_leader:
  assumes "cluster_inv M host s" "(T, a) \<in> cl_led s" "(T, b) \<in> cl_led s"
  shows "a = b"
  using one_leader_per_term[of M "ballots_of s" T a b] assms by (simp add: cluster_inv_def)

lemma links_ok_mono: "links_ok led L \<Longrightarrow> L' \<subseteq> L \<Longrightarrow> led \<subseteq> led' \<Longrightarrow> links_ok led' L'"
  unfolding links_ok_def by (meson subsetD)

lemma links_ok_insert:
  assumes "links_ok led L" "\<And>t' e'. (k, t', e') \<in> L \<Longrightarrow> le_term e' \<noteq> le_term e" "t \<le> le_term e" "(le_term e, l) \<in> led"
  shows "links_ok led (insert (k, t, e) L)"
  using assms unfolding links_ok_def by (auto dest: assms(2))

text \<open>
  What a step may do to the links: it brings in at most one, the next position of the node that leads
  the entry's term, and no leader's log gets shorter while its term lasts.
\<close>

definition new_link :: "cluster \<Rightarrow> cluster \<Rightarrow> (nat \<times> int \<times> LogEntry) set \<Rightarrow> bool" where
  "new_link s s' N \<longleftrightarrow> N = {} \<or> (\<exists>i t e. N = {(length (rn_log (cl_nodes s i)), t, e)} \<and> (le_term e, i) \<in> cl_led s
     \<and> le_term e = rn_current_term (cl_nodes s i) \<and> t \<le> le_term e
     \<and> length (rn_log (cl_nodes s' i)) = Suc (length (rn_log (cl_nodes s i))))"

lemma links_ok_step:
  assumes "links_ok (cl_led s) (all_links s)" "leader_has_links s" "new_link s s' N"
  shows "links_ok (cl_led s) (all_links s \<union> N)"
  using assms(3) unfolding new_link_def
proof (elim disjE exE conjE)
  fix i t e
  assume N: "N = {(length (rn_log (cl_nodes s i)), t, e)}" and e: "(le_term e, i) \<in> cl_led s"
    "le_term e = rn_current_term (cl_nodes s i)" "t \<le> le_term e"
  have "le_term e' \<noteq> le_term e" if "(length (rn_log (cl_nodes s i)), t', e') \<in> all_links s" for t' e'
    using assms(2) that e(1,2) unfolding leader_has_links_def by (metis less_irrefl)
  from links_ok_insert[OF assms(1) this e(3,1)] show ?thesis by (simp add: N)
qed (use assms in simp)

definition log_effect :: "cluster \<Rightarrow> cluster \<Rightarrow> bool" where
  "log_effect s s' \<longleftrightarrow> (\<exists>N. all_links s' \<subseteq> all_links s \<union> N \<and> new_link s s' N)
     \<and> (\<forall>l. (rn_current_term (cl_nodes s l), l) \<in> cl_led s \<longrightarrow> rn_current_term (cl_nodes s' l) = rn_current_term (cl_nodes s l) \<longrightarrow>
          prefix (rn_log (cl_nodes s l)) (rn_log (cl_nodes s' l)))
     \<and> (\<forall>i. node_log_ok (cl_nodes s' i)) \<and> (\<forall>q\<in>cl_appends s'. request_ok q)"

lemma sound_step_terms:
  assumes "sound_step M host s s'"
  shows "rn_current_term (cl_nodes s i) \<le> rn_current_term (cl_nodes s' i)" "cl_led s \<subseteq> cl_led s'" "cluster_inv M host s'"
  using assms ballot_steps_mono[of M "ballots_of s" "ballots_of s'"] by (auto simp: sound_step_def)

lemma log_inv_step:
  assumes inv: "log_inv M host s" and sound: "sound_step M host s s'"
    and eff: "log_effect s s'"
  shows "log_inv M host s'"
proof -
  note d = log_invD[OF inv] and up = sound_step_terms(1)[OF sound] and led = sound_step_terms(2)[OF sound]
    and c' = sound_step_terms(3)[OF sound]
  from eff obtain N where sub: "all_links s' \<subseteq> all_links s \<union> N" and N: "new_link s s' N"
    and keep: "\<And>l. (rn_current_term (cl_nodes s l), l) \<in> cl_led s \<Longrightarrow> rn_current_term (cl_nodes s' l) = rn_current_term (cl_nodes s l)
      \<Longrightarrow> prefix (rn_log (cl_nodes s l)) (rn_log (cl_nodes s' l))"
    and ok: "\<And>i. node_log_ok (cl_nodes s' i)" "\<And>q. q \<in> cl_appends s' \<Longrightarrow> request_ok q"
    unfolding log_effect_def by blast
  have lk: "links_ok (cl_led s) (all_links s \<union> N)" by (rule links_ok_step[OF d(2,3) N])
  have "leader_has_links s'" unfolding leader_has_links_def
  proof (intro allI impI)
    fix l k t e
    assume l: "(rn_current_term (cl_nodes s' l), l) \<in> cl_led s'" and e: "(k, t, e) \<in> all_links s'"
      "le_term e = rn_current_term (cl_nodes s' l)"
    have "(k, t, e) \<in> all_links s \<union> N" using e(1) sub by blast
    then obtain m where m: "(le_term e, m) \<in> cl_led s" using lk unfolding links_ok_def by blast
    have "(rn_current_term (cl_nodes s' l), m) \<in> cl_led s'" using m led e(2) by auto
    then have ml: "m = l" by (rule one_leader[OF c' _ l])
    have "rn_current_term (cl_nodes s' l) \<le> rn_current_term (cl_nodes s l)"
      using led_okD(2)[OF ballots_invD(4), of M "ballots_of s" "le_term e" l] d(1) m e(2) ml by (simp add: cluster_inv_def)
    then have same: "rn_current_term (cl_nodes s' l) = rn_current_term (cl_nodes s l)" using up[of l] by simp
    have had: "(rn_current_term (cl_nodes s l), l) \<in> cl_led s" using m ml e(2) same by simp
    show "k < length (rn_log (cl_nodes s' l))"
    proof (cases "(k, t, e) \<in> all_links s")
      case True
      then have "k < length (rn_log (cl_nodes s l))"
        using d(3) had e(2) same unfolding leader_has_links_def by metis
      then show ?thesis using prefix_length_le[OF keep[OF had same]] by simp
    next
      case False
      with \<open>(k, t, e) \<in> all_links s \<union> N\<close> N obtain i where i: "k = length (rn_log (cl_nodes s i))" "(le_term e, i) \<in> cl_led s"
        "length (rn_log (cl_nodes s' i)) = Suc (length (rn_log (cl_nodes s i)))" unfolding new_link_def by auto
      then show ?thesis using one_leader[OF d(1) m] ml by auto
    qed
  qed
  then show ?thesis using c' links_ok_mono[OF lk sub led] ok by (simp add: log_inv_def)
qed

section \<open>Every step keeps the invariant\<close>

lemma node_log_ok_later:
  assumes "node_log_ok n" "rn_log n' = rn_log n" "rn_current_term n \<le> rn_current_term n'"
  shows "node_log_ok n'"
  using assms unfolding node_log_ok_def by (metis order_trans)

lemma log_effect_quiet:
  assumes "log_inv M host s" "sound_step M host s s'" "\<And>j. rn_log (cl_nodes s' j) = rn_log (cl_nodes s j)"
    and "cl_appends s' = cl_appends s"
  shows "log_effect s s'"
proof -
  have "all_links s' = all_links s" using assms(3,4) by (simp add: all_links_def)
  moreover have "node_log_ok (cl_nodes s' i)" for i
    using node_log_ok_later[OF log_invD(4)[OF assms(1)] assms(3) sound_step_terms(1)[OF assms(2)]] .
  ultimately show ?thesis
    using assms log_invD(5)[OF assms(1)] unfolding log_effect_def new_link_def by auto
qed

lemma same_log:
  "rn_log (fst (Start c n)) = rn_log n" "rn_log (Stop n) = rn_log n"
  "begin_election c n = Some (n', vq) \<Longrightarrow> rn_log n' = rn_log n"
  "HandleRequestVote c vq n = (n', vr) \<Longrightarrow> rn_log n' = rn_log n"
  "on_vote_response c T v vr n = (n', vo) \<Longrightarrow> rn_log n' = rn_log n"
  "apply_take n = Inr (n', en) \<Longrightarrow> rn_log n' = rn_log n"
  "rn_log (fst (HandleInstallSnapshot c sq n)) = rn_log n"
  by (auto simp: Start_def Stop_def begin_election_def HandleRequestVote_def on_vote_response_def apply_take_def
      HandleInstallSnapshot_def Let_def dest!: rbind_InrD split: if_splits)

lemma advance_commit_log: "AdvanceCommitIndexLocked n = Inr n' \<Longrightarrow> rn_log n' = rn_log n"
  by (auto simp: AdvanceCommitIndexLocked_def dest!: advance_loop_commit_only split: if_splits)

lemma replicate_response_log: "replicate_response c p T r n = Inr (n', out) \<Longrightarrow> rn_log n' = rn_log n"
  by (auto simp: replicate_response_def Let_def dest!: rbind_InrD advance_commit_log split: if_splits)

text \<open>A leader that appends an entry of its own term.\<close>

definition leader_append :: "RaftNode \<Rightarrow> RaftNode \<Rightarrow> bool" where
  "leader_append n n' \<longleftrightarrow> n' = n \<or> (rn_state n = LEADER \<and> rn_current_term n' = rn_current_term n
     \<and> (\<exists>e. rn_log n' = rn_log n @ [e] \<and> le_term e = rn_current_term n))"

lemma client_append:
  "propose_append e n = Some (n', i) \<Longrightarrow> leader_append n n'"
  "AppendLocalEntry e n = (n', b) \<Longrightarrow> leader_append n n'"
  by (auto simp: propose_append_def AppendLocalEntry_def leader_append_def Let_def split: if_splits)

lemma all_links_put:
  "all_links (put i n' s) \<subseteq> all_links s \<union> log_links (rn_log n')"
  by (auto simp: all_links_def split: if_splits)

lemma log_effect_append:
  assumes inv: "log_inv M host s" and i: "i \<in> M" and app: "leader_append (cl_nodes s i) n'"
  shows "log_effect s (put i n' s)"
  using app unfolding leader_append_def
proof (elim disjE conjE exE)
  assume n': "n' = cl_nodes s i"
  then have "put i n' s = s" by (simp add: put_def)
  moreover have "log_effect s s"
    using log_invD[OF inv] unfolding log_effect_def new_link_def by auto
  ultimately show ?thesis by simp
next
  fix e
  let ?n = "cl_nodes s i"
  assume a: "rn_state ?n = LEADER" "rn_current_term n' = rn_current_term ?n" "rn_log n' = rn_log ?n @ [e]"
    "le_term e = rn_current_term ?n"
  note d = log_invD[OF inv]
  have led: "(le_term e, i) \<in> cl_led s"
    using roles_okD(2)[OF ballots_invD(3), of M "ballots_of s" i] d(1) i a(1,4) by (simp add: cluster_inv_def)
  have ok: "node_log_ok ?n" by (rule d(4))
  then have lt: "le_term (last (rn_log ?n)) \<le> le_term e" using a(4) by (auto simp: node_log_ok_def)
  have "all_links (put i n' s) \<subseteq> all_links s \<union> {(length (rn_log ?n), le_term (last (rn_log ?n)), e)}"
    using all_links_put[of i n' s] log_links_snoc[of "rn_log ?n" e] ok node_links[of s i] a(3)
    by (auto simp: node_log_ok_def)
  moreover have "new_link s (put i n' s) {(length (rn_log ?n), le_term (last (rn_log ?n)), e)}"
    unfolding new_link_def using led lt a(3,4) by (intro disjI2 exI[of _ i]) auto
  moreover have "node_log_ok n'" using ok a by (auto simp: node_log_ok_def)
  ultimately show ?thesis using d(4,5) a(3) unfolding log_effect_def by auto
qed

lemma log_effect_send:
  assumes inv: "log_inv M host s" and run: "replicate_request p (cl_nodes s i) = Inr (Some (n', q))"
    and s': "s' = (put i n' s)\<lparr>cl_appends := insert q (cl_appends s)\<rparr>"
  shows "log_effect s s'"
proof -
  note d = log_invD[OF inv] and r = replicate_request_links[OF run] and v = replicate_request_view[OF run]
  have same: "rn_log (cl_nodes s' j) = rn_log (cl_nodes s j)" "rn_current_term (cl_nodes s' j) = rn_current_term (cl_nodes s j)" for j
    using r(1) v by (simp_all add: s' vote_same_def)
  have ok: "node_log_ok (cl_nodes s i)" by (rule d(4))
  have "all_links s' \<subseteq> all_links s \<union> {}"
    using r(2) node_links[of s i] same(1) by (auto simp: all_links_def s')
  moreover have "request_ok q" using ok r v by (auto simp: request_ok_def node_log_ok_def default_LogEntry_def)
  moreover have "node_log_ok (cl_nodes s' j)" for j using node_log_ok_later[OF d(4)[of j] same(1)] same(2) by simp
  ultimately show ?thesis
    using d(5) same(1) unfolding log_effect_def new_link_def by (auto simp: s')
qed

lemma appended_log_set: "set (appended_log q lg) \<subseteq> set lg \<union> set (aq_entries q)"
  by (auto simp: appended_log_def splice_def Let_def dest: in_set_takeD in_set_dropD)

lemma appended_log_hd:
  assumes "0 \<le> aq_prev_log_index q" "lg \<noteq> []" "prev_matches q lg"
  shows "hd (appended_log q lg) = hd lg"
proof -
  let ?p = "Suc (nat (aq_prev_log_index q))"
  have "take ?p (appended_log q lg) = take ?p lg"
    unfolding appended_log_def by (rule splice_prefix[OF prev_matches_bound[OF assms]])
  then have "hd (take ?p (appended_log q lg)) = hd (take ?p lg)" by simp
  then show ?thesis by (simp add: hd_take)
qed

lemma log_effect_receive:
  assumes inv: "log_inv M host s" and sound: "sound_step M host s s'" and q: "q \<in> cl_appends s"
    and p: "p \<in> set (rn_peer_addresses (cl_nodes s (aq_leader_id q)))"
    and run: "HandleAppendEntries clk q (cl_nodes s (host p)) = Inr (n', r)"
    and s': "cl_nodes s' = (cl_nodes s)(host p := n')" "cl_appends s' = cl_appends s"
  shows "log_effect s s'"
proof -
  let ?j = "host p" and ?n = "cl_nodes s (host p)"
  note d = log_invD[OF inv]
  have ok: "node_log_ok ?n" and rq: "request_ok q" using d(4,5) q by auto
  have c: "configured M host (cl_nodes s)" and led: "aq_leader_id q \<in> M" "(aq_term q, aq_leader_id q) \<in> cl_led s"
    using d(1) q by (auto simp: cluster_inv_def messages_ok_def)
  have quiet: "log_effect s s'" if "rn_log n' = rn_log ?n"
    using that s' by (intro log_effect_quiet[OF inv sound]) simp_all
  have "0 \<le> aq_prev_log_index q" "rn_log ?n \<noteq> []" using rq ok by (auto simp: request_ok_def node_log_ok_def)
  then show ?thesis
  proof (cases rule: append_cases[of q ?n clk])
    case (accept r')
    let ?lg = "appended_log q (rn_log ?n)"
    have n': "rn_log n' = ?lg" "rn_current_term n' = aq_term q"
      using accept(1,3) run by (auto simp: append_commit_def)
    have base: "0 \<le> aq_prev_log_index q" "rn_log ?n \<noteq> []" "aq_prev_log_index q = 0 \<Longrightarrow> aq_prev_log_term q = le_term (hd (rn_log ?n))"
      using rq ok by (auto simp: request_ok_def node_log_ok_def default_LogEntry_def)
    have "log_links ?lg \<subseteq> all_links s"
      using appended_links[OF base(1,2) accept(2) base(3)] node_links[of s ?j] q by (auto simp: all_links_def)
    moreover have "all_links s' = all_links (put ?j n' s)" using s' by (simp add: all_links_def)
    ultimately have "all_links s' \<subseteq> all_links s \<union> {}" using all_links_put[of ?j n' s] n'(1) by auto
    moreover have "(rn_current_term ?n, ?j) \<notin> cl_led s" if "rn_current_term n' = rn_current_term ?n"
      using one_leader[OF d(1) led(2), of ?j] peer_is_member(2)[OF c led(1) p] that n'(2) by auto
    moreover have "node_log_ok n'"
      unfolding node_log_ok_def n'
    proof (intro conjI ballI)
      show "?lg \<noteq> []" by (rule appended_log_nonempty[OF base(1,2) accept(2)])
      show "hd ?lg = default_LogEntry" using appended_log_hd[OF base(1,2) accept(2)] ok by (simp add: node_log_ok_def)
      show "0 \<le> aq_term q" using ok accept(1) by (simp add: node_log_ok_def)
      show "le_term e \<le> aq_term q" if "e \<in> set ?lg" for e
        using that appended_log_set[of q "rn_log ?n"] ok rq accept(1) by (fastforce simp: node_log_ok_def request_ok_def)
    qed
    ultimately show ?thesis
      using d(4,5) s' unfolding log_effect_def new_link_def by (auto split: if_splits)
  qed (use run in \<open>auto intro: quiet\<close>)
qed

lemma raft_step_effect:
  assumes inv: "log_inv M host s" and step: "raft_step M host s s'"
  shows "log_effect s s'"
proof -
  have sound: "sound_step M host s s'" by (rule raft_step_sound[OF log_invD(1)[OF inv] step])
  note quiet = log_effect_quiet[OF inv sound]
  from step show ?thesis
  proof (cases rule: raft_step.cases)
    case (append_send i p n' q)
    then show ?thesis by (blast intro: log_effect_send[OF inv])
  next
    case (append_handle q p j clk n' r)
    show ?thesis
      by (rule log_effect_receive[OF inv sound append_handle(2,3)]) (use append_handle in auto)
  next
    case (append_reply i p q r clk n' out)
    then show ?thesis by (intro quiet) (auto dest: replicate_response_log)
  next
    case (propose i e n' idx)
    then show ?thesis using log_effect_append[OF inv propose(2) client_append(1)] by blast
  next
    case (append_local i e n' b)
    then show ?thesis using log_effect_append[OF inv append_local(2) client_append(2)] by blast
  qed (rule quiet; auto simp: same_log(1,2,7) dest: same_log(3-6))+
qed

lemma log_inv_initial: "initial_cluster M host s \<Longrightarrow> log_inv M host s"
proof -
  assume init: "initial_cluster M host s"
  have nodes: "rn_log (cl_nodes s i) = [default_LogEntry]" "rn_current_term (cl_nodes s i) = 0" for i
  proof -
    obtain sa ps cfg where "cl_nodes s i = new_RaftNode i sa ps cfg" using init unfolding initial_cluster_def by blast
    then show "rn_log (cl_nodes s i) = [default_LogEntry]" "rn_current_term (cl_nodes s i) = 0"
      by (simp_all add: new_RaftNode_def default_LogEntry_def)
  qed
  have "all_links s = {}" using init by (simp add: all_links_def nodes log_links_def initial_cluster_def)
  moreover have "node_log_ok (cl_nodes s i)" for i by (simp add: node_log_ok_def nodes default_LogEntry_def)
  ultimately show ?thesis
    using initial_cluster_inv[OF init] init
    by (simp add: log_inv_def links_ok_def leader_has_links_def initial_cluster_def)
qed

lemma raft_step_log_inv: "log_inv M host s \<Longrightarrow> raft_step M host s s' \<Longrightarrow> log_inv M host s'"
  using log_inv_step raft_step_sound raft_step_effect log_invD(1) by blast

interpretation raft_log: inductive_invariant "initial_cluster M host" "raft_step M host" "log_inv M host" for M host
  by unfold_locales (auto intro: log_inv_initial raft_step_log_inv)

section \<open>Consequences\<close>

lemma links_determine_prefix:
  assumes "links_ok led L" "log_links xs \<subseteq> L" "log_links ys \<subseteq> L" "xs \<noteq> []" "ys \<noteq> []" "hd xs = hd ys"
    and "k < length xs" "k < length ys" "le_term (xs ! k) = le_term (ys ! k)"
  shows "take (Suc k) xs = take (Suc k) ys"
  using assms(7-9)
proof (induction k)
  case 0
  then show ?case using assms(4-6) by (cases xs; cases ys) auto
next
  case (Suc k)
  have "(Suc k, le_term (xs ! k), xs ! Suc k) \<in> L" "(Suc k, le_term (ys ! k), ys ! Suc k) \<in> L"
    using Suc.prems assms(2-5) by (auto simp: log_link_iff subset_iff)
  then have "le_term (xs ! k) = le_term (ys ! k)" "xs ! Suc k = ys ! Suc k"
    using assms(1) Suc.prems(3) unfolding links_ok_def by blast+
  then show ?case using Suc by (simp add: take_Suc_conv_app_nth)
qed

lemma links_sorted:
  assumes "links_ok led (log_links lg)" "lg \<noteq> []"
  shows "sorted (map le_term lg)"
proof (rule sorted_iff_nth_Suc[THEN iffD2], intro allI impI)
  fix k assume "Suc k < length (map le_term lg)"
  then have "(Suc k, le_term (lg ! k), lg ! Suc k) \<in> log_links lg" using assms(2) by (simp add: log_link_iff)
  then show "map le_term lg ! k \<le> map le_term lg ! Suc k"
    using assms(1) \<open>Suc k < _\<close> unfolding links_ok_def by auto
qed

lemma leader_keeps_log:
  assumes "log_inv M host s" "(raft_step M host)\<^sup>*\<^sup>* s s'" "i \<in> M" "rn_state (cl_nodes s i) = LEADER"
    and "rn_current_term (cl_nodes s' i) = rn_current_term (cl_nodes s i)"
  shows "rn_state (cl_nodes s' i) = LEADER \<and> prefix (rn_log (cl_nodes s i)) (rn_log (cl_nodes s' i))"
  using assms(2,5)
proof (induction rule: rtranclp_induct)
  case (step y z)
  have inv: "log_inv M host y" by (rule raft_log.steps_invar[OF assms(1) step(1)])
  have sound: "sound_step M host y z" by (rule raft_step_sound[OF log_invD(1)[OF inv] step(2)])
  have "rn_current_term (cl_nodes s i) \<le> rn_current_term (cl_nodes y i)"
    using step(1) by (induction rule: rtranclp_induct)
      (use assms(1) in \<open>auto dest: raft_log.steps_invar intro: order_trans sound_step_terms(1)[OF raft_step_sound[OF log_invD(1)]]\<close>)
  then have y: "rn_current_term (cl_nodes y i) = rn_current_term (cl_nodes s i)"
    using sound_step_terms(1)[OF sound, of i] step(4) by simp
  note r = roles_okD[OF ballots_invD(3), of M _ i, OF _ assms(3)]
  have l: "(rn_current_term (cl_nodes y i), i) \<in> cl_led y"
    using r(2)[of "ballots_of y"] step(3)[OF y] log_invD(1)[OF inv] by (simp add: cluster_inv_def)
  then have "(rn_current_term (cl_nodes z i), i) \<in> cl_led z"
    using sound_step_terms(2)[OF sound] y step(4) by auto
  then have "rn_state (cl_nodes z i) = LEADER"
    using r(3)[of "ballots_of z"] sound_step_terms(3)[OF sound] by (simp add: cluster_inv_def)
  moreover have "prefix (rn_log (cl_nodes y i)) (rn_log (cl_nodes z i))"
    using raft_step_effect[OF inv step(2)] l y step(4) unfolding log_effect_def by simp
  ultimately show ?case using step(3)[OF y] prefix_order.trans by blast
qed (use assms(4) in simp)

end
