(* ===== verification/RaftProps.thy ===== *)
theory RaftProps
  imports RaftRuns LogMatching
begin

text \<open>
  The properties of the Raft node and of the cluster, with their witnesses: election safety, log
  matching, the append, commit, apply and replication code of one node, and the runs that show where the
  implementation departs from Raft.
\<close>

section \<open>The cluster\<close>



text \<open>C4: the cluster refines the ballot specification. Every step of the cluster model is a (possibly
  empty) sequence of steps of the abstract election: step down to a higher term, yield to the leader
  of the own term, grant a vote, stand, win with a majority.\<close>

theorem cluster_refines_ballots:
  assumes "initial_cluster M host s" "(raft_step M host)\<^sup>*\<^sup>* s s'" "raft_step M host s' s''"
  shows "(ballot_step M)\<^sup>*\<^sup>* (ballots_of s') (ballots_of s'')"
  using raft_step_sound[OF raft.reachable_invar[OF assms(1,2)] assms(3)] by (simp add: sound_step_def)

theorem cluster_refines_ballots_witness:
  "(ballot_step abc)\<^sup>*\<^sup>* (ballots_of cluster_A) (ballots_of (put ''A'' (node_A 4) cluster_A))"
proof -
  have "raft_step abc id cluster_A (put ''A'' (node_A 4) cluster_A)"
    using raft_step.propose[of "''A''" abc entry_x cluster_A "node_A 4" 1 id] by (simp add: cluster_A_def ex_ops_grant)
  then show ?thesis by (rule cluster_refines_ballots[OF initial0 run_to_A])
qed





section \<open>Receiving entries\<close>

text \<open>C12: \<^verbatim>\<open>HandleAppendEntries\<close> never reads the log out of bounds for a request with a non-negative
  previous index, and has exactly three outcomes. A stale term changes nothing. A request whose
  previous position the log does not match is rejected with a conflict index between 1 and the
  previous index. Otherwise the request is accepted and the log becomes the old log with the request's
  entries spliced in: entries that agree in term are kept, the first disagreement truncates.\<close>

theorem append_entries_outcome:
  assumes "0 \<le> aq_prev_log_index q" "rn_log n \<noteq> []"
  shows "\<exists>n' r. HandleAppendEntries c q n = Inr (n', r) \<and> rn_log n' \<noteq> []
    \<and> ar_term r = rn_current_term n' \<and> rn_current_term n' = max (rn_current_term n) (aq_term q)
    \<and> (if aq_term q < rn_current_term n then n' = n \<and> \<not> ar_success r
       else if \<not> prev_matches q (rn_log n) then \<not> ar_success r \<and> rn_log n' = rn_log n
         \<and> rn_commit_index n' = rn_commit_index n \<and> 1 \<le> ar_conflict_index r \<and> ar_conflict_index r \<le> aq_prev_log_index q
       else ar_success r \<and> rn_log n' = splice (Suc (nat (aq_prev_log_index q))) (aq_entries q) (rn_log n)
         \<and> rn_commit_index n' = (if rn_commit_index n < aq_leader_commit q
              then min (aq_leader_commit q) (int (length (rn_log n')) - 1) else rn_commit_index n))"
  using assms
proof (cases rule: append_cases[where c = c])
  case (accept r)
  then show ?thesis
    using appended_log_nonempty[OF assms] by (simp add: append_commit_def appended_log_def)
qed (use assms in simp_all)

definition ex_append :: AppendRequest where
  "ex_append = \<lparr>aq_term = 2, aq_leader_id = ''C'', aq_leader_service_address = ''C'', aq_prev_log_index = 0,
     aq_prev_log_term = 0, aq_entries = [entry_y], aq_leader_commit = 1\<rparr>"

theorem append_entries_outcome_witness:
  "\<exists>n' r. HandleAppendEntries clk0 ex_append (node_A 4) = Inr (n', r) \<and> rn_log n' = [sentinel, entry_y]"
proof -
  have "0 \<le> aq_prev_log_index ex_append" "rn_log (node_A 4) \<noteq> []" by (simp_all add: ex_append_def run_defs)
  from append_entries_outcome[OF this, of clk0] obtain n' r where
    "HandleAppendEntries clk0 ex_append (node_A 4) = Inr (n', r)"
    "rn_log n' = splice (Suc (nat (aq_prev_log_index ex_append))) (aq_entries ex_append) (rn_log (node_A 4))"
    by (auto simp: ex_append_def prev_matches_def run_defs split: if_splits)
  then show ?thesis by (auto simp: ex_append_def splice_def run_defs)
qed

text \<open>C11: an accepted request leaves the follower with the request's entries: the log keeps everything
  up to the previous index, reaches at least to the last entry sent, and has the sent term at every
  sent position.\<close>

theorem append_entries_stores:
  assumes "0 \<le> aq_prev_log_index q" "rn_log n \<noteq> []" "HandleAppendEntries c q n = Inr (n', r)" "ar_success r"
  shows "take (Suc (nat (aq_prev_log_index q))) (rn_log n') = take (Suc (nat (aq_prev_log_index q))) (rn_log n)
    \<and> (\<forall>i < length (aq_entries q). Suc (nat (aq_prev_log_index q)) + i < length (rn_log n')
         \<and> le_term (rn_log n' ! (Suc (nat (aq_prev_log_index q)) + i)) = le_term (aq_entries q ! i))"
  using assms(1,2)
proof (cases rule: append_cases[where c = c])
  case stale
  with assms(3,4) show ?thesis by auto
next
  case (reject r)
  with assms(3,4) show ?thesis by simp
next
  case (accept r')
  note b = prev_matches_bound[OF assms(1,2) accept(2)]
  have "rn_log n' = splice (Suc (nat (aq_prev_log_index q))) (aq_entries q) (rn_log n)"
    using accept(3) assms(3) by (auto simp: append_commit_def appended_log_def)
  then show ?thesis
    using splice_prefix[OF b] splice_length[OF b, of "aq_entries q"] splice_terms[OF b] by simp
qed

theorem append_entries_stores_witness:
  "\<exists>n' r. HandleAppendEntries clk0 ex_append (node_A 4) = Inr (n', r) \<and> le_term (rn_log n' ! 1) = 2"
proof -
  have q: "0 \<le> aq_prev_log_index ex_append" "rn_log (node_A 4) \<noteq> []" by (simp_all add: ex_append_def run_defs)
  obtain n' r where r: "HandleAppendEntries clk0 ex_append (node_A 4) = Inr (n', r)" "ar_success r"
    by (simp add: ex_append_def run_defs op_defs)
  from append_entries_stores[OF q r] have "le_term (rn_log n' ! 1) = le_term entry_y" by (simp add: ex_append_def)
  then show ?thesis using r(1) by (simp add: entry_y_def)
qed

section \<open>Replicating, committing, applying\<close>



text \<open>C13: the commit rule. \<^verbatim>\<open>AdvanceCommitIndexLocked\<close> changes nothing but the commit index, never
  lowers it, and on a leader moves it to the largest index that carries the current term and that a
  quorum has according to the match indices, or leaves it where it is when there is none.\<close>

theorem commit_rule:
  assumes "0 \<le> rn_commit_index n"
  shows "\<exists>k. AdvanceCommitIndexLocked n = Inr (n\<lparr>rn_commit_index := k\<rparr>)
    \<and> rn_commit_index n \<le> k \<and> (k = rn_commit_index n \<or> committable n k)
    \<and> (rn_state n = LEADER \<longrightarrow> (\<forall>j. committable n j \<longrightarrow> j \<le> k))"
  by (rule advance_commit_spec[OF assms])

theorem commit_rule_witness:
  "\<exists>k. AdvanceCommitIndexLocked (node_C 5) = Inr (node_C 5\<lparr>rn_commit_index := k\<rparr>) \<and> 0 \<le> k"
proof -
  have "rn_commit_index (node_C 5) = 0" by (simp add: run_defs)
  with commit_rule[of "node_C 5"] show ?thesis by auto
qed

text \<open>Entries are applied once, in log order. The apply thread, run until it blocks, hands
  \<^verbatim>\<open>on_commit_\<close> exactly the entries after the last applied one up to the commit index, in order, and
  ends with the last applied index equal to the commit index.\<close>

theorem apply_in_log_order:
  assumes "rn_running n" "0 \<le> rn_last_applied n" "rn_last_applied n \<le> rn_commit_index n"
    and "rn_commit_index n < int (length (rn_log n))"
  shows "ApplyLoop f n t = Inr (n\<lparr>rn_last_applied := rn_commit_index n\<rparr>,
    fold f (map (\<lambda>i. rn_log n ! nat i) [rn_last_applied n + 1..rn_commit_index n]) t)"
  by (rule ApplyLoop_fold[OF assms])

theorem apply_in_log_order_witness:
  "ApplyLoop (\<lambda>e t. t @ [le_agent_id e]) (node_C 7) [] = Inr (node_C 7\<lparr>rn_last_applied := 1\<rparr>, [''y''])"
proof -
  have f: "rn_running (node_C 7)" "rn_last_applied (node_C 7) = 0" "rn_commit_index (node_C 7) = 1"
    "rn_log (node_C 7) = [sentinel, entry_y]" by (simp_all add: run_defs)
  then have "ApplyLoop (\<lambda>e t. t @ [le_agent_id e]) (node_C 7) []
      = Inr (node_C 7\<lparr>rn_last_applied := rn_commit_index (node_C 7)\<rparr>,
        fold (\<lambda>e t. t @ [le_agent_id e])
          (map (\<lambda>i. rn_log (node_C 7) ! nat i) [rn_last_applied (node_C 7) + 1..rn_commit_index (node_C 7)]) [])"
    by (intro apply_in_log_order) simp_all
  then show ?thesis by (simp add: f entry_y_def)
qed

section \<open>Voting and timing\<close>

text \<open>C18: a vote goes only to a candidate whose log is at least as up to date, in the order by last term
  and then last index, and only in the request's term; granting it is recorded and never lowers the
  term.\<close>

theorem vote_restriction:
  assumes "HandleRequestVote c q n = (n', r)" "vr_vote_granted r"
  shows "last_pos n \<le> LogPos (vq_last_log_term q) (vq_last_log_index q)
    \<and> rn_current_term n \<le> vq_term q \<and> rn_current_term n' = vq_term q \<and> vr_term r = vq_term q
    \<and> rn_voted_for n' = vq_candidate_id q \<and> rn_log n' = rn_log n"
proof -
  have "last_pos (BecomeFollowerLocked c (vq_term q) [] [] n) = last_pos n"
    by (simp add: last_pos_def LastLogTermLocked_def LastLogIndexLocked_def)
  with assms show ?thesis
    by (auto simp: HandleRequestVote_def Let_def up_to_date_order split: if_splits)
qed

theorem vote_restriction_witness:
  "last_pos (node_B 1) \<le> LogPos 0 0 \<and> rn_voted_for (node_B 2) = ''C''"
  using vote_restriction[OF ex_ops(9)] by (simp add: vote_C_def)

text \<open>The election window. Whatever the random draw and whichever way round the two bounds are
  configured, a reset puts the deadline at least the smaller and at most the larger bound after now,
  and every such value is possible.\<close>

theorem election_window:
  "clk_now c + min (election_timeout_min_ms (rn_config n)) (election_timeout_max_ms (rn_config n))
     \<le> rn_election_deadline (ResetElectionDeadlineLocked c n)
   \<and> rn_election_deadline (ResetElectionDeadlineLocked c n)
     \<le> clk_now c + max (election_timeout_min_ms (rn_config n)) (election_timeout_max_ms (rn_config n))
   \<and> (\<forall>x. min (election_timeout_min_ms (rn_config n)) (election_timeout_max_ms (rn_config n)) \<le> x
        \<and> x \<le> max (election_timeout_min_ms (rn_config n)) (election_timeout_max_ms (rn_config n))
        \<longrightarrow> (\<exists>d. RandomElectionTimeoutMs d n = x))"
proof -
  let ?lo = "min (election_timeout_min_ms (rn_config n)) (election_timeout_max_ms (rn_config n))"
  let ?hi = "max (election_timeout_min_ms (rn_config n)) (election_timeout_max_ms (rn_config n))"
  have "?lo \<le> ?hi" by simp
  from uniform_int_range[OF this] uniform_int_onto[of ?lo _ ?hi] show ?thesis
    unfolding ResetElectionDeadlineLocked_def RandomElectionTimeoutMs_def Let_def by auto
qed

theorem election_window_witness: "\<exists>d. RandomElectionTimeoutMs d (node_A 0) = 777"
  using election_window[of clk0 "node_A 0"] by (simp add: run_defs)

section \<open>Proposing and waiting\<close>

lemma propose_loop_returns:
  assumes "r \<in> set rs" "\<not> pr_in_time r"
  shows "\<exists>n' res. propose_loop i rs n = Some (n', res) \<and> (\<forall>k. res = Some k \<longrightarrow> k = i \<and> i \<le> rn_commit_index n')"
  using assms
proof (induction rs arbitrary: n)
  case (Cons a rs)
  show ?case
  proof (cases "r = a")
    case False
    with Cons show ?thesis by (auto simp: propose_final_def Let_def)
  qed (use Cons.prems in \<open>auto simp: propose_final_def\<close>)
qed simp

text \<open>C20: \<^verbatim>\<open>Propose\<close> returns. If the deadline passes in some round the call returns; when it returns true
  the index it reports is the position its entry was appended at, and the node's commit index has
  reached it.\<close>

theorem propose_returns:
  assumes "r \<in> set rs" "\<not> pr_in_time r"
  shows "\<exists>n' res. Propose e rs n = Some (n', res)
    \<and> (\<forall>i. res = Some i \<longrightarrow> i = int (length (rn_log n)) \<and> i \<le> rn_commit_index n')"
proof (cases "propose_append e n")
  case None
  then show ?thesis by (simp add: Propose_def)
next
  case (Some m)
  then have "snd m = int (length (rn_log n))" by (auto simp: propose_append_def Let_def split: if_splits)
  with Some propose_loop_returns[OF assms, of "snd m" "fst m"] show ?thesis
    by (cases m) (auto simp: Propose_def)
qed

definition late_round :: propose_round where
  "late_round = \<lparr>pr_in_time = False, pr_env = (\<lambda>n. n), pr_expired = True, pr_wait_env = (\<lambda>n. n)\<rparr>"

theorem propose_returns_witness: "\<exists>n' res. Propose entry_x [late_round] (node_A 3) = Some (n', res)"
  using propose_returns[of late_round "[late_round]" entry_x "node_A 3"] by (auto simp: late_round_def)

section \<open>Departures from Raft\<close>

text \<open>C21: an entry is committed that only its leader has. From the initial state of a three-node cluster a
  run leads to a state in which the leader \<open>C\<close> of term 2 has committed index 1, while \<open>A\<close> has a
  different entry there and the log of \<open>B\<close> ends before it. The cause is the match index of a successful
  answer, the end of the follower's log instead of the last position the request covered.\<close>

theorem commit_without_quorum:
  "\<exists>s. initial_cluster abc id cluster0 \<and> (raft_step abc id)\<^sup>*\<^sup>* cluster0 s
     \<and> rn_state (cl_nodes s ''C'') = LEADER \<and> rn_commit_index (cl_nodes s ''C'') = 1
     \<and> rn_log (cl_nodes s ''C'') ! 1 = entry_y
     \<and> rn_log (cl_nodes s ''A'') = [sentinel, entry_x] \<and> entry_x \<noteq> entry_y
     \<and> rn_log (cl_nodes s ''B'') = [sentinel]"
proof (intro exI[of _ cluster_commit] conjI initial0 run_to_commit)
  show "entry_x \<noteq> entry_y" by (simp add: run_defs)
qed (simp_all add: cluster_commit_def run_defs)

text \<open>C22: a leader reads its log out of bounds. From the same initial state a run leads to a running leader
  whose next replication to \<open>A\<close> indexes the log behind its end: the next index was set from a match
  index beyond the leader's own log.\<close>

theorem leader_reads_out_of_bounds:
  "\<exists>s. initial_cluster abc id cluster0 \<and> (raft_step abc id)\<^sup>*\<^sup>* cluster0 s
     \<and> rn_running (cl_nodes s ''C'') \<and> rn_state (cl_nodes s ''C'') = LEADER
     \<and> ''A'' \<in> set (heartbeat_peers (cl_nodes s ''C''))
     \<and> replicate_request ''A'' (cl_nodes s ''C'') = Inl OutOfBounds"
  by (intro exI[of _ cluster_beat] conjI initial0 run_to_beat)
    (simp_all add: cluster_beat_def heartbeat_peers_def replicate_request_def run_defs um_get_def vec_at_def Let_def)

definition overtaken_round :: propose_round where
  "overtaken_round = \<lparr>pr_in_time = True,
     pr_env = (\<lambda>n. case HandleAppendEntries clk0 ex_append n of Inl _ \<Rightarrow> n | Inr (n', _) \<Rightarrow> n'),
     pr_expired = False, pr_wait_env = (\<lambda>n. n)\<rparr>"

text \<open>\<^verbatim>\<open>Propose\<close> can report success for an entry that was overwritten. The leader \<open>A\<close> proposes an
  entry; while it replicates, a request of the leader of term 2 replaces that entry and commits the
  replacement; the call returns true with the entry's index, where the log now has the other entry.\<close>

theorem propose_reports_overwritten:
  "\<exists>n'. Propose entry_x [overtaken_round] (node_A 3) = Some (n', Some 1)
     \<and> rn_state n' = FOLLOWER \<and> rn_log n' = [sentinel, entry_y]"
  by (simp add: Propose_def ex_ops overtaken_round_def ex_append_def Let_def)
    (simp add: run_defs op_defs)

end
