(* ===== verification/Text.thy ===== *)
theory Text
  imports Floats "HOL-Library.Sublist"
begin

text \<open>
  The text primitives of the C and C++ libraries that the programs use: character classes, number
  parsing with \<^verbatim>\<open>strtol\<close> and \<^verbatim>\<open>strtof\<close>, number printing, \<^verbatim>\<open>getline\<close> on a delimiter, substring search
  and the comma-separated list reader that \<^verbatim>\<open>main.cpp\<close> and \<^verbatim>\<open>proxy_main.cpp\<close> share. Strings are
  byte strings in the C locale.
\<close>

section \<open>Characters\<close>

definition isspace :: "char \<Rightarrow> bool" where
  "isspace c = (of_char c \<in> {32, 9, 10, 11, 12, 13 :: nat})"

definition tolower :: "char \<Rightarrow> char" where
  "tolower c = (let n = (of_char c :: nat) in if 65 \<le> n \<and> n \<le> 90 then char_of (n + 32) else c)"

definition toupper :: "char \<Rightarrow> char" where
  "toupper c = (let n = (of_char c :: nat) in if 97 \<le> n \<and> n \<le> 122 then char_of (n - 32) else c)"

definition lower :: "string \<Rightarrow> string" where
  "lower s = map tolower s"

definition digit_of :: "char \<Rightarrow> nat option" where
  "digit_of c = (let n = (of_char c :: nat) in if 48 \<le> n \<and> n \<le> 57 then Some (n - 48) else None)"

definition hex_digit_of :: "char \<Rightarrow> nat option" where
  "hex_digit_of c = (let n = (of_char (tolower c) :: nat) in
     if 48 \<le> n \<and> n \<le> 57 then Some (n - 48)
     else if 97 \<le> n \<and> n \<le> 102 then Some (n - 87) else None)"

definition digit_char :: "nat \<Rightarrow> char" where
  "digit_char d = char_of (48 + d)"

lemma digit_of_char [simp]: "d < 10 \<Longrightarrow> digit_of (digit_char d) = Some d"
  by (simp add: digit_of_def digit_char_def Let_def)

lemma digit_char_not_space: "d < 10 \<Longrightarrow> \<not> isspace (digit_char d)"
  by (auto simp: isspace_def digit_char_def)

section \<open>Printing integers\<close>

fun nat_to_string :: "nat \<Rightarrow> string" where
  "nat_to_string n = (if n < 10 then [digit_char n] else nat_to_string (n div 10) @ [digit_char (n mod 10)])"

declare nat_to_string.simps [simp del]

definition to_string :: "int \<Rightarrow> string" where
  "to_string i = (if i < 0 then ''-'' @ nat_to_string (nat (- i)) else nat_to_string (nat i))"

section \<open>Parsing integers\<close>

fun read_digits :: "nat \<Rightarrow> string \<Rightarrow> nat \<times> nat \<times> string" where
  "read_digits acc [] = (acc, 0, [])"
| "read_digits acc (c # s) =
     (case digit_of c of
        None \<Rightarrow> (acc, 0, c # s)
      | Some d \<Rightarrow> (case read_digits (10 * acc + d) s of (v, k, rest) \<Rightarrow> (v, Suc k, rest)))"

definition read_sign :: "string \<Rightarrow> bool \<times> string" where
  "read_sign s = (case s of [] \<Rightarrow> (False, [])
     | c # r \<Rightarrow> if c = CHR ''-'' then (True, r) else if c = CHR ''+'' then (False, r) else (False, c # r))"

definition saturate :: "int \<Rightarrow> int \<Rightarrow> int \<Rightarrow> int" where
  "saturate lo hi v = max lo (min hi v)"

text \<open>
  \<^verbatim>\<open>strtol(s, \&end, 10)\<close> on a 64-bit \<^verbatim>\<open>long\<close>: the value, clamped to the range, and what follows the
  number; \<open>None\<close> when no digit was read (\<^verbatim>\<open>end == s\<close>).
\<close>

definition strtol :: "string \<Rightarrow> (int \<times> string) option" where
  "strtol s =
     (let (neg, t) = read_sign (dropWhile isspace s); (v, k, rest) = read_digits 0 t
      in if k = 0 then None
         else Some (saturate (- (2 ^ 63)) (2 ^ 63 - 1) (if neg then - int v else int v), rest))"

section \<open>Parsing floating-point numbers\<close>

fun read_hex_digits :: "nat \<Rightarrow> string \<Rightarrow> nat \<times> nat \<times> string" where
  "read_hex_digits acc [] = (acc, 0, [])"
| "read_hex_digits acc (c # s) =
     (case hex_digit_of c of
        None \<Rightarrow> (acc, 0, c # s)
      | Some d \<Rightarrow> (case read_hex_digits (16 * acc + d) s of (v, k, rest) \<Rightarrow> (v, Suc k, rest)))"

text \<open>
  The part after an exponent mark, if it is complete; otherwise the mark is not part of the number.
\<close>

definition read_exponent :: "char \<Rightarrow> string \<Rightarrow> int \<times> string" where
  "read_exponent mark s =
     (case s of [] \<Rightarrow> (0, [])
      | c # r \<Rightarrow>
          if tolower c \<noteq> mark then (0, c # r)
          else let (neg, t) = read_sign r; (v, k, rest) = read_digits 0 t
               in if k = 0 then (0, c # r) else (if neg then - int v else int v, rest))"

definition power_int_real :: "real \<Rightarrow> int \<Rightarrow> real" where
  "power_int_real b e = (if e \<ge> 0 then b ^ nat e else 1 / b ^ nat (- e))"

text \<open>
  A mantissa in base 10 or 16 with an optional fraction, then an optional exponent. \<open>None\<close> when
  there is no digit at all.
\<close>

definition read_mantissa ::
  "(nat \<Rightarrow> string \<Rightarrow> nat \<times> nat \<times> string) \<Rightarrow> string \<Rightarrow> (nat \<times> nat \<times> string) option" where
  "read_mantissa rd s =
     (let (v, k, rest) = rd 0 s in
      case rest of
        [] \<Rightarrow> (if k = 0 then None else Some (v, 0, []))
      | c # r \<Rightarrow>
          if c = CHR ''.'' then
            let (w, j, rest') = rd v r in if k + j = 0 then None else Some (w, j, rest')
          else if k = 0 then None else Some (v, 0, c # r))"

definition read_decimal :: "string \<Rightarrow> (real \<times> string) option" where
  "read_decimal s =
     (case read_mantissa read_digits s of
        None \<Rightarrow> None
      | Some (v, j, rest) \<Rightarrow>
          let (e, rest') = read_exponent (CHR ''e'') rest
          in Some (real v * power_int_real 10 (e - int j), rest'))"

definition read_hexadecimal :: "string \<Rightarrow> (real \<times> string) option" where
  "read_hexadecimal s =
     (case read_mantissa read_hex_digits s of
        None \<Rightarrow> None
      | Some (v, j, rest) \<Rightarrow>
          let (e, rest') = read_exponent (CHR ''p'') rest
          in Some (real v * power_int_real 2 (e - 4 * int j), rest'))"

definition has_prefix_ci :: "string \<Rightarrow> string \<Rightarrow> bool" where
  "has_prefix_ci p s = prefix p (lower (take (length p) s))"

definition nan_tail :: "string \<Rightarrow> string" where
  "nan_tail s =
     (case s of [] \<Rightarrow> []
      | c # r \<Rightarrow>
          if c \<noteq> CHR ''('' then s
          else let body = takeWhile (\<lambda>x. digit_of x \<noteq> None \<or> x = CHR ''_'' \<or>
                     (97 \<le> (of_char (tolower x) :: nat) \<and> (of_char (tolower x) :: nat) \<le> 122)) r;
                   rest = drop (length body) r
               in case rest of [] \<Rightarrow> s | d # r' \<Rightarrow> if d = CHR '')'' then r' else s)"

text \<open>\<^verbatim>\<open>strtof\<close>: infinities, NaN, hexadecimal and decimal numbers, rounded to \<^verbatim>\<open>float\<close>.\<close>

definition negate :: "fl \<Rightarrow> fl" where
  "negate x = (case x of NaN \<Rightarrow> NaN | PInf \<Rightarrow> MInf | MInf \<Rightarrow> PInf | Fin r \<Rightarrow> Fin (- r))"

definition strtof :: "fpu \<Rightarrow> string \<Rightarrow> (fl \<times> string) option" where
  "strtof F s =
     (let (neg, t) = read_sign (dropWhile isspace s);
          sgn_of = (\<lambda>(x, rest). (if neg then negate x else x, rest));
          finite_of = (\<lambda>(r, rest). (rnd_float F r, rest))
      in map_option sgn_of
           (if has_prefix_ci ''infinity'' t then Some (PInf, drop 8 t)
            else if has_prefix_ci ''inf'' t then Some (PInf, drop 3 t)
            else if has_prefix_ci ''nan'' t then Some (NaN, nan_tail (drop 3 t))
            else if has_prefix_ci ''0x'' t then
              (case read_hexadecimal (drop 2 t) of
                 None \<Rightarrow> Some (Fin 0, drop 1 t)
               | Some p \<Rightarrow> Some (finite_of p))
            else map_option finite_of (read_decimal t)))"

section \<open>Lists separated by a delimiter\<close>

text \<open>
  The items that repeated \<^verbatim>\<open>getline(stream, item, d)\<close> yields: an input that ends in the delimiter
  has no empty last item.
\<close>

function getline_items :: "char \<Rightarrow> string \<Rightarrow> string list" where
  "getline_items d s =
     (if s = [] then []
      else takeWhile (\<lambda>c. c \<noteq> d) s # getline_items d (drop (Suc (length (takeWhile (\<lambda>c. c \<noteq> d) s))) s))"
  by auto
termination by (relation "measure (\<lambda>(d, s). length s)") auto

declare getline_items.simps [simp del]

definition remove_spaces :: "string \<Rightarrow> string" where
  "remove_spaces s = filter (\<lambda>c. \<not> isspace c) s"

fun keep_items :: "string list \<Rightarrow> string list" where
  "keep_items [] = []"
| "keep_items (item # items) =
     (if item \<noteq> [] then
        let item' = remove_spaces item in
        if item' \<noteq> [] then item' # keep_items items else keep_items items
      else keep_items items)"

definition split_csv :: "string \<Rightarrow> string list" where
  "split_csv input = keep_items (getline_items (CHR '','') input)"

section \<open>Substring search\<close>

fun str_find_from :: "nat \<Rightarrow> string \<Rightarrow> string \<Rightarrow> nat option" where
  "str_find_from k p [] = (if p = [] then Some k else None)"
| "str_find_from k p (c # s) = (if prefix p (c # s) then Some k else str_find_from (Suc k) p s)"

definition str_find :: "string \<Rightarrow> string \<Rightarrow> nat option" where
  "str_find s p = str_find_from 0 p s"

definition contains :: "string \<Rightarrow> string \<Rightarrow> bool" where
  "contains s p = (str_find s p \<noteq> None)"

section \<open>Laws\<close>

lemma read_digits_run:
  assumes "\<forall>d\<in>set ds. d < 10" "rest = [] \<or> digit_of (hd rest) = None"
  shows "read_digits acc (map digit_char ds @ rest) = (foldl (\<lambda>a d. 10 * a + d) acc ds, length ds, rest)"
  using assms
proof (induction ds arbitrary: acc)
  case Nil
  then show ?case by (cases rest) auto
next
  case (Cons d ds)
  then show ?case using Cons.IH[of "10 * acc + d"] by simp
qed

lemma nat_to_string_digits:
  "\<exists>ds. nat_to_string n = map digit_char ds \<and> (\<forall>d\<in>set ds. d < 10) \<and> foldl (\<lambda>a d. 10 * a + d) 0 ds = n \<and> ds \<noteq> []"
proof (induction n rule: nat_to_string.induct)
  case (1 n)
  show ?case
  proof (cases "n < 10")
    case True
    then show ?thesis by (intro exI[of _ "[n]"]) (simp add: nat_to_string.simps[of n])
  next
    case False
    from 1[OF this] obtain ds where ds: "nat_to_string (n div 10) = map digit_char ds" "\<forall>d\<in>set ds. d < 10"
      "foldl (\<lambda>a d. 10 * a + d) 0 ds = n div 10" by blast
    have "10 * (n div 10) + n mod 10 = n" by simp
    with False ds show ?thesis
      by (intro exI[of _ "ds @ [n mod 10]"]) (simp add: nat_to_string.simps[of n])
  qed
qed

lemma read_nat_to_string:
  assumes "rest = [] \<or> digit_of (hd rest) = None"
  obtains k where "read_digits 0 (nat_to_string n @ rest) = (n, Suc k, rest)"
proof -
  obtain ds where ds: "nat_to_string n = map digit_char ds" "\<forall>d\<in>set ds. d < 10"
    "foldl (\<lambda>a d. 10 * a + d) 0 ds = n" "ds \<noteq> []" using nat_to_string_digits by blast
  then show thesis using that[of "length ds - 1"] read_digits_run[OF ds(2) assms, of 0] by simp
qed

lemma nat_to_string_head:
  "read_sign (nat_to_string n @ r) = (False, nat_to_string n @ r)"
  "dropWhile isspace (nat_to_string n @ r) = nat_to_string n @ r"
proof -
  obtain ds where "nat_to_string n = map digit_char ds" "\<forall>d\<in>set ds. d < 10" "ds \<noteq> []"
    using nat_to_string_digits by blast
  then obtain d cs where d: "d < 10" "nat_to_string n = digit_char d # cs" by (cases ds) auto
  then have "digit_char d \<noteq> CHR ''-''" "digit_char d \<noteq> CHR ''+''"
    using digit_of_char[of d] by (auto simp: digit_of_def simp del: digit_of_char)
  with d digit_char_not_space show "read_sign (nat_to_string n @ r) = (False, nat_to_string n @ r)"
    "dropWhile isspace (nat_to_string n @ r) = nat_to_string n @ r" by (simp_all add: read_sign_def)
qed

lemma strtol_to_string:
  assumes "- (2 ^ 63) \<le> i" "i < 2 ^ 63"
  shows "strtol (to_string i) = Some (i, [])"
proof -
  obtain k where k: "read_digits 0 (nat_to_string (nat \<bar>i\<bar>)) = (nat \<bar>i\<bar>, Suc k, [])"
    using read_nat_to_string[of "[]" "nat \<bar>i\<bar>"] by auto
  have "\<not> isspace (CHR ''-'')" by (simp add: isspace_def)
  with k assms nat_to_string_head[of "nat i" "[]"] show ?thesis
    by (cases "i < 0") (simp_all add: strtol_def to_string_def read_sign_def saturate_def)
qed

lemma split_csv_item: "x \<in> set (split_csv s) \<Longrightarrow> x \<noteq> [] \<and> (\<forall>c\<in>set x. \<not> isspace c \<and> c \<noteq> CHR '','')"
proof -
  have k: "x \<noteq> [] \<and> (\<exists>y\<in>set ys. x = remove_spaces y)" if "x \<in> set (keep_items ys)" for x ys
    using that by (induction ys) (auto simp: Let_def split: if_splits)
  have g: "CHR '','' \<notin> set y" if "y \<in> set (getline_items (CHR '','') s)" for y s
    using that
  proof (induction "CHR '',''" s rule: getline_items.induct)
    case (1 s)
    then show ?case by (auto simp: getline_items.simps[of _ s] split: if_splits dest: set_takeWhileD)
  qed
  show "x \<in> set (split_csv s) \<Longrightarrow> ?thesis"
    unfolding split_csv_def using k[of x] g by (fastforce simp: remove_spaces_def)
qed

lemma str_find_from_sound:
  "str_find_from k p s = Some i \<Longrightarrow> k \<le> i \<and> i - k \<le> length s \<and> prefix p (drop (i - k) s)"
proof (induction s arbitrary: k)
  case (Cons c s)
  show ?case
  proof (cases "prefix p (c # s)")
    case False
    with Cons.prems Cons.IH[of "Suc k"] have "Suc k \<le> i" "i - Suc k \<le> length s" "prefix p (drop (i - Suc k) s)" by auto
    moreover from this have "i - k = Suc (i - Suc k)" by simp
    ultimately show ?thesis by simp
  qed (use Cons.prems in simp)
qed (auto split: if_splits)

lemma contains_iff: "contains s p \<longleftrightarrow> (\<exists>a b. s = a @ p @ b)"
proof
  assume "contains s p"
  then obtain i where "str_find_from 0 p s = Some i" by (auto simp: contains_def str_find_def)
  from str_find_from_sound[OF this] have "prefix p (drop i s)" by simp
  then show "\<exists>a b. s = a @ p @ b" by (metis append_take_drop_id prefixE)
next
  have "str_find_from k p (a @ p @ b) \<noteq> None" for k a b
  proof (induction a arbitrary: k)
    case Nil
    have "prefix p (p @ b)" by simp
    then show ?case by (cases "p @ b") auto
  qed simp
  then show "\<exists>a b. s = a @ p @ b \<Longrightarrow> contains s p" by (auto simp: contains_def str_find_def)
qed

end
