(* ===== verification/LockService.thy ===== *)
theory LockService
  imports ActiveLockTable RaftNode Text "HOL-Library.Word" "HOL-Library.Monad_Syntax"
begin

unbundle bit_operations_syntax

text \<open>
  The lock service (\<^verbatim>\<open>src/lock_service_impl.{h,cpp}\<close>): point identifiers, JSON escaping, the HTTP
  exchange with Qdrant, and the three RPCs. An RPC calls into the lock table, the Raft node, the
  clock and the network while other threads run, so it is written over a record \<open>service_ops\<close> of
  the operations it calls, each of which may change the world; \<open>None\<close> is a call that has not
  returned. Console output is left out.
\<close>

section \<open>Messages\<close>

datatype OperationType = OPERATION_TYPE_UNSPECIFIED | OPERATION_TYPE_WRITE | OPERATION_TYPE_READ

record AcquireRequest =
  rq_agent_id :: string
  rq_embedding :: "fl list"
  rq_payload_text :: string
  rq_source_file :: string
  rq_timestamp_unix_ms :: int
  rq_operation_type :: OperationType

record AcquireResponse =
  rs_granted :: bool
  rs_message :: string
  rs_server_received_unix_ms :: int
  rs_lock_acquired_unix_ms :: int
  rs_qdrant_write_complete_unix_ms :: int
  rs_lock_released_unix_ms :: int
  rs_lock_wait_ms :: int
  rs_blocking_similarity_score :: fl
  rs_blocking_agent_id :: string
  rs_leader_redirect :: string
  rs_serving_node_id :: string
  rs_wait_position :: nat
  rs_wake_count :: nat
  rs_queue_hops :: nat
  rs_active_lock_count :: nat

definition default_AcquireResponse :: AcquireResponse where
  "default_AcquireResponse = \<lparr>rs_granted = False, rs_message = [], rs_server_received_unix_ms = 0,
     rs_lock_acquired_unix_ms = 0, rs_qdrant_write_complete_unix_ms = 0, rs_lock_released_unix_ms = 0,
     rs_lock_wait_ms = 0, rs_blocking_similarity_score = Fin 0, rs_blocking_agent_id = [],
     rs_leader_redirect = [], rs_serving_node_id = [], rs_wait_position = 0, rs_wake_count = 0,
     rs_queue_hops = 0, rs_active_lock_count = 0\<rparr>"

record LockServiceImpl =
  svc_node_id :: string
  svc_theta :: fl
  svc_lock_hold_ms :: int
  svc_raft_propose_timeout_ms :: int
  svc_qdrant_host :: string
  svc_qdrant_port :: string
  svc_qdrant_collection :: string

section \<open>Point identifiers\<close>

definition fnv_offset :: "64 word" where "fnv_offset = 1469598103934665603"
definition fnv_prime :: "64 word" where "fnv_prime = 1099511628211"

fun fnv_loop :: "64 word \<Rightarrow> string \<Rightarrow> 64 word" where
  "fnv_loop hash [] = hash"
| "fnv_loop hash (c # s) = fnv_loop ((hash XOR of_char c) * fnv_prime) s"

definition make_numeric_point_id :: "string \<Rightarrow> int \<Rightarrow> int" where
  "make_numeric_point_id agent_id timestamp_unix_ms =
     (let hash = fnv_loop fnv_offset agent_id;
          mixed = push_bit 22 (word_of_int timestamp_unix_ms :: 64 word) XOR (hash AND (push_bit 22 1 - 1))
      in sint (mixed AND 9223372036854775807))"

section \<open>JSON text\<close>

fun escape_char :: "char \<Rightarrow> string" where
  "escape_char c =
     (if c = CHR 0x22 then [CHR 0x5C, CHR 0x22]
      else if c = CHR 0x5C then [CHR 0x5C, CHR 0x5C]
      else if c = CHR 0x08 then [CHR 0x5C, CHR ''b'']
      else if c = CHR 0x0C then [CHR 0x5C, CHR ''f'']
      else if c = CHR 0x0A then [CHR 0x5C, CHR ''n'']
      else if c = CHR 0x0D then [CHR 0x5C, CHR ''r'']
      else if c = CHR 0x09 then [CHR 0x5C, CHR ''t'']
      else [c])"

fun escape_json :: "string \<Rightarrow> string" where
  "escape_json [] = []"
| "escape_json (c # s) = escape_char c @ escape_json s"

definition dq :: string where "dq = [CHR 0x22]"

definition quoted :: "string \<Rightarrow> string" where
  "quoted s = dq @ s @ dq"

fun vector_text :: "(fl \<Rightarrow> string) \<Rightarrow> fl list \<Rightarrow> string" where
  "vector_text fmt [] = []"
| "vector_text fmt [x] = fmt x"
| "vector_text fmt (x # xs) = fmt x @ '','' @ vector_text fmt xs"

section \<open>The HTTP exchange\<close>

text \<open>
  What the operating system answers, call by call: the outcome of resolving the host and of each
  connection attempt, the byte counts of \<^verbatim>\<open>send\<close> and the results of \<^verbatim>\<open>recv\<close> (the empty chunk is the end
  of the stream).
\<close>

datatype addr_outcome = SocketFails | ConnectFails | Connects
datatype recv_outcome = RecvError | RecvChunk string

record http_script =
  hs_addresses :: "addr_outcome list option"
  hs_sends :: "int list"
  hs_recvs :: "recv_outcome list"

text \<open>\<^verbatim>\<open>send_all\<close>: the result and the bytes the socket took; \<open>None\<close> when the script ends first.\<close>

fun send_all_loop :: "string \<Rightarrow> nat \<Rightarrow> int list \<Rightarrow> string \<Rightarrow> (bool \<times> string) option" where
  "send_all_loop payload total_sent sends wire =
     (if total_sent < length payload then
        (case sends of
           [] \<Rightarrow> None
         | sent # sends' \<Rightarrow>
             if sent \<le> 0 then Some (False, wire)
             else send_all_loop payload (total_sent + nat sent) sends'
                    (wire @ take (nat sent) (drop total_sent payload)))
      else Some (True, wire))"

declare send_all_loop.simps [simp del]

definition send_all :: "string \<Rightarrow> int list \<Rightarrow> (bool \<times> string) option" where
  "send_all payload sends = send_all_loop payload 0 sends []"

fun recv_loop :: "recv_outcome list \<Rightarrow> string \<Rightarrow> (bool \<times> string) option" where
  "recv_loop [] response_body = None"
| "recv_loop (RecvError # rs) response_body = Some (False, response_body)"
| "recv_loop (RecvChunk chunk # rs) response_body =
     (if chunk = [] then Some (True, response_body) else recv_loop rs (response_body @ chunk))"

text \<open>The boolean says whether a connected socket came out; the number counts sockets left open.\<close>

fun connect_loop :: "addr_outcome list \<Rightarrow> nat \<Rightarrow> bool \<times> nat" where
  "connect_loop [] open_sockets = (False, open_sockets)"
| "connect_loop (SocketFails # rest) open_sockets = connect_loop rest open_sockets"
| "connect_loop (Connects # rest) open_sockets = (True, open_sockets + 1)"
| "connect_loop (ConnectFails # rest) open_sockets = connect_loop rest (open_sockets + 1 - 1)"

definition crlf :: string where "crlf = [CHR 0x0D, CHR 0x0A]"

definition http_request_text :: "LockServiceImpl \<Rightarrow> string \<Rightarrow> string \<Rightarrow> string \<Rightarrow> string" where
  "http_request_text svc method target body =
     method @ '' '' @ target @ '' HTTP/1.1'' @ crlf
     @ ''Host: '' @ svc_qdrant_host svc @ '':'' @ svc_qdrant_port svc @ crlf
     @ ''Content-Type: application/json'' @ crlf
     @ ''Connection: close'' @ crlf
     @ ''Content-Length: '' @ nat_to_string (length body) @ crlf @ crlf
     @ body"

text \<open>The two extractions \<^verbatim>\<open>response_stream >> http_version >> status_code\<close>.\<close>

definition read_int_token :: "string \<Rightarrow> int" where
  "read_int_token s =
     (let (neg, t) = read_sign (dropWhile isspace s); (v, k, rest) = read_digits 0 t
      in if k = 0 then 0 else saturate (- (2 ^ 31)) (2 ^ 31 - 1) (if neg then - int v else int v))"

definition parse_status_line :: "string \<Rightarrow> string \<times> int" where
  "parse_status_line s =
     (let t = dropWhile isspace s; http_version = takeWhile (\<lambda>c. \<not> isspace c) t
      in (http_version, if http_version = [] then 0 else read_int_token (drop (length http_version) t)))"

record http_result =
  hr_ok :: bool
  hr_status_code :: int
  hr_response_body :: string
  hr_wire :: string
  hr_open_sockets :: nat

definition send_http_json ::
  "LockServiceImpl \<Rightarrow> http_script \<Rightarrow> string \<Rightarrow> string \<Rightarrow> string \<Rightarrow> http_result option" where
  "send_http_json svc script method target body =
     (case hs_addresses script of
        None \<Rightarrow> Some \<lparr>hr_ok = False, hr_status_code = 0, hr_response_body = [], hr_wire = [], hr_open_sockets = 0\<rparr>
      | Some addresses \<Rightarrow>
          (case connect_loop addresses 0 of
             (False, n) \<Rightarrow> Some \<lparr>hr_ok = False, hr_status_code = 0, hr_response_body = [], hr_wire = [], hr_open_sockets = n\<rparr>
           | (True, n) \<Rightarrow> do {
               (sent, wire) \<leftarrow> send_all (http_request_text svc method target body) (hs_sends script);
               if \<not> sent
               then Some \<lparr>hr_ok = False, hr_status_code = 0, hr_response_body = [], hr_wire = wire, hr_open_sockets = n - 1\<rparr>
               else do {
                 (received, response_body) \<leftarrow> recv_loop (hs_recvs script) [];
                 if \<not> received
                 then Some \<lparr>hr_ok = False, hr_status_code = 0, hr_response_body = response_body, hr_wire = wire, hr_open_sockets = n - 1\<rparr>
                 else
                   let (http_version, status_code) = parse_status_line response_body in
                   Some \<lparr>hr_ok = (http_version \<noteq> [] \<and> status_code > 0), hr_status_code = status_code,
                     hr_response_body = response_body, hr_wire = wire, hr_open_sockets = n - 1\<rparr> } }))"

section \<open>The operations the service calls\<close>

record 'w service_ops =
  op_has_raft :: "'w \<Rightarrow> bool"
  op_is_leader :: "'w \<Rightarrow> 'w \<times> bool"
  op_leader_address :: "'w \<Rightarrow> 'w \<times> string"
  op_wait_for_admission :: "string \<Rightarrow> fl list \<Rightarrow> fl \<Rightarrow> 'w \<Rightarrow> ('w \<times> AcquireTrace) option"
  op_remove_pending :: "string \<Rightarrow> 'w \<Rightarrow> 'w"
  op_apply_acquire :: "string \<Rightarrow> fl list \<Rightarrow> fl \<Rightarrow> 'w \<Rightarrow> 'w"
  op_release :: "string \<Rightarrow> 'w \<Rightarrow> 'w"
  op_table_size :: "'w \<Rightarrow> 'w \<times> nat"
  op_propose :: "LogEntry \<Rightarrow> 'w \<Rightarrow> ('w \<times> int option) option"
  op_wait_applied :: "int \<Rightarrow> 'w \<Rightarrow> ('w \<times> bool) option"
  op_append_local :: "LogEntry \<Rightarrow> 'w \<Rightarrow> 'w \<times> bool"
  op_now_ms :: "'w \<Rightarrow> 'w \<times> int"
  op_sleep :: "int \<Rightarrow> 'w \<Rightarrow> 'w"
  op_http :: "string \<Rightarrow> string \<Rightarrow> string \<Rightarrow> 'w \<Rightarrow> ('w \<times> bool \<times> int \<times> string) option"
  op_fmt :: "fl \<Rightarrow> string"

section \<open>Qdrant\<close>

definition ensure_qdrant_collection :: "'w service_ops \<Rightarrow> LockServiceImpl \<Rightarrow> nat \<Rightarrow> 'w \<Rightarrow> ('w \<times> bool) option" where
  "ensure_qdrant_collection ops svc vector_size w =
     (if vector_size = 0 then Some (w, False)
      else do {
        let body = ''{'' @ quoted ''vectors'' @ '':{'' @ quoted ''size'' @ '':'' @ nat_to_string vector_size
              @ '','' @ quoted ''distance'' @ '':'' @ quoted ''Cosine'' @ ''}}'';
        let target = ''/collections/'' @ svc_qdrant_collection svc;
        (w1, ok, status_code, response_body) \<leftarrow> op_http ops ''PUT'' target body w;
        if \<not> ok then Some (w1, False)
        else
          let normalized = lower response_body in
          Some (w1, status_code = 200 \<or> status_code = 201 \<or> status_code = 409
            \<or> (status_code = 400 \<and> contains normalized ''already exists'')) })"

definition upsert_body :: "(fl \<Rightarrow> string) \<Rightarrow> int \<Rightarrow> string \<Rightarrow> string \<Rightarrow> string \<Rightarrow> int \<Rightarrow> fl list \<Rightarrow> string" where
  "upsert_body fmt point_id agent_id payload_text source_file timestamp_unix_ms embedding =
     ''{'' @ quoted ''points'' @ '':[{'' @ quoted ''id'' @ '':'' @ to_string point_id @ '',''
     @ quoted ''vector'' @ '':['' @ vector_text fmt embedding @ ''],'' @ quoted ''payload'' @ '':{''
     @ quoted ''agent_id'' @ '':'' @ quoted (escape_json agent_id) @ '',''
     @ quoted ''source_file'' @ '':'' @ quoted (escape_json source_file) @ '',''
     @ quoted ''timestamp_unix_ms'' @ '':'' @ to_string timestamp_unix_ms @ '',''
     @ quoted ''raw_text'' @ '':'' @ quoted (escape_json payload_text)
     @ ''}}]}''"

function upsert_attempts ::
  "'w service_ops \<Rightarrow> string \<Rightarrow> string \<Rightarrow> nat \<Rightarrow> 'w \<Rightarrow> ('w \<times> bool) option" where
  "upsert_attempts ops target body attempt w =
     (if attempt \<le> 3 then
        (case op_http ops ''PUT'' target body w of
           None \<Rightarrow> None
         | Some (w1, ok, status_code, response_body) \<Rightarrow>
             if \<not> ok then
               if attempt < 3 then upsert_attempts ops target body (attempt + 1) (op_sleep ops (75 * int attempt) w1)
               else Some (w1, False)
             else if status_code = 200 \<or> status_code = 201 then Some (w1, True)
             else if status_code = 500 \<and> contains response_body ''Please retry'' \<and> attempt < 3
               then upsert_attempts ops target body (attempt + 1) (op_sleep ops (75 * int attempt) w1)
             else Some (w1, False))
      else Some (w, False))"
  by auto
termination by (relation "measure (\<lambda>(ops, t, b, attempt, w). 4 - attempt)") auto

declare upsert_attempts.simps [simp del]

definition upsert_embedding_to_qdrant ::
  "'w service_ops \<Rightarrow> LockServiceImpl \<Rightarrow> int \<Rightarrow> string \<Rightarrow> string \<Rightarrow> string \<Rightarrow> int \<Rightarrow> fl list \<Rightarrow> 'w \<Rightarrow> ('w \<times> bool) option" where
  "upsert_embedding_to_qdrant ops svc point_id agent_id payload_text source_file timestamp_unix_ms embedding w =
     (if embedding = [] then Some (w, False)
      else do {
        (w1, ensured) \<leftarrow> ensure_qdrant_collection ops svc (length embedding) w;
        if \<not> ensured then Some (w1, False)
        else upsert_attempts ops (''/collections/'' @ svc_qdrant_collection svc @ ''/points?wait=true'')
               (upsert_body (op_fmt ops) point_id agent_id payload_text source_file timestamp_unix_ms embedding) 1 w1 })"

definition query_embedding_from_qdrant ::
  "'w service_ops \<Rightarrow> LockServiceImpl \<Rightarrow> string \<Rightarrow> string \<Rightarrow> fl list \<Rightarrow> 'w \<Rightarrow> ('w \<times> bool) option" where
  "query_embedding_from_qdrant ops svc agent_id payload_text embedding w =
     (if embedding = [] then Some (w, False)
      else do {
        let body = ''{'' @ quoted ''vector'' @ '':['' @ vector_text (op_fmt ops) embedding @ ''],''
              @ quoted ''limit'' @ '':3,'' @ quoted ''with_payload'' @ '':false,'' @ quoted ''with_vector'' @ '':false}'';
        (w1, ok, status_code, response_body) \<leftarrow>
          op_http ops ''POST'' (''/collections/'' @ svc_qdrant_collection svc @ ''/points/search'') body w;
        Some (w1, ok \<and> status_code = 200) })"

section \<open>The remote procedures\<close>

fun normalize_operation_type :: "OperationType \<Rightarrow> OperationType" where
  "normalize_operation_type OPERATION_TYPE_WRITE = OPERATION_TYPE_WRITE"
| "normalize_operation_type OPERATION_TYPE_READ = OPERATION_TYPE_READ"
| "normalize_operation_type OPERATION_TYPE_UNSPECIFIED = OPERATION_TYPE_WRITE"

fun operation_type_label :: "OperationType \<Rightarrow> string" where
  "operation_type_label OPERATION_TYPE_READ = ''read''"
| "operation_type_label OPERATION_TYPE_WRITE = ''write''"
| "operation_type_label OPERATION_TYPE_UNSPECIFIED = ''write''"

type_synonym metadata = "(string \<times> string) list"

type_synonym 'r reply = "'r \<times> Status \<times> metadata"

definition Ping :: "LockServiceImpl \<Rightarrow> string \<Rightarrow> string \<times> Status" where
  "Ping svc from_node = (''pong from '' @ svc_node_id svc @ '' to '' @ from_node, Status_OK)"

definition acquire_entry_for :: "LockServiceImpl \<Rightarrow> string \<Rightarrow> fl list \<Rightarrow> LogEntry" where
  "acquire_entry_for svc agent_id embedding =
     default_LogEntry\<lparr>le_op_type := ACQUIRE, le_agent_id := agent_id, le_theta := svc_theta svc, le_embedding := embedding\<rparr>"

definition release_entry_for :: "string \<Rightarrow> LogEntry" where
  "release_entry_for agent_id = default_LogEntry\<lparr>le_op_type := RELEASE, le_agent_id := agent_id\<rparr>"

text \<open>Phase 2 of \<^verbatim>\<open>AcquireGuard\<close>: \<open>None\<close> on success, otherwise the message of the failure.\<close>

definition replicate_acquire ::
  "'w service_ops \<Rightarrow> LockServiceImpl \<Rightarrow> string \<Rightarrow> fl list \<Rightarrow> 'w \<Rightarrow> ('w \<times> string option) option" where
  "replicate_acquire ops svc agent_id embedding w =
     (if op_has_raft ops w then do {
        (w1, acquire_log_index) \<leftarrow> op_propose ops (acquire_entry_for svc agent_id embedding) w;
        case acquire_log_index of
          None \<Rightarrow>
            let w2 = op_remove_pending ops agent_id w1;
                (w3, appended) = op_append_local ops (release_entry_for agent_id) w2
            in Some (w3, Some ''Raft quorum not reached for ACQUIRE'')
        | Some i \<Rightarrow> do {
            (w2, applied) \<leftarrow> op_wait_applied ops i w1;
            if \<not> applied then
              let (w3, appended) = op_append_local ops (release_entry_for agent_id) w2
              in Some (w3, Some ''Raft apply timed out for ACQUIRE'')
            else Some (w2, None) } }
      else Some (op_apply_acquire ops agent_id embedding (svc_theta svc) w, None))"

text \<open>
  The lambda \<^verbatim>\<open>commit_release_once\<close> over its captured flag and response; the boolean is its result.
\<close>

definition commit_release_once ::
  "'w service_ops \<Rightarrow> string \<Rightarrow> bool \<times> AcquireResponse \<Rightarrow> 'w \<Rightarrow> ('w \<times> (bool \<times> AcquireResponse) \<times> bool) option" where
  "commit_release_once ops agent_id captured w =
     (case captured of (release_committed, response) \<Rightarrow>
        let finish = (\<lambda>w'. let (w2, t) = op_now_ms ops w'
              in Some (w2, (True, response\<lparr>rs_lock_released_unix_ms := t\<rparr>), True))
        in if release_committed then Some (w, captured, True)
           else if op_has_raft ops w then do {
             (w1, release_log_index) \<leftarrow> op_propose ops (release_entry_for agent_id) w;
             case release_log_index of
               None \<Rightarrow> Some (w1, captured, False)
             | Some i \<Rightarrow> do {
                 (w2, applied) \<leftarrow> op_wait_applied ops i w1;
                 if \<not> applied then Some (w2, captured, False) else finish w2 } }
           else finish (op_release ops agent_id w))"

text \<open>The destructor of \<^verbatim>\<open>release_guard\<close>, which runs on every way out of phase 3.\<close>

definition release_guard ::
  "'w service_ops \<Rightarrow> string \<Rightarrow> bool \<times> AcquireResponse \<Rightarrow> 'w \<Rightarrow> ('w \<times> AcquireResponse) option" where
  "release_guard ops agent_id captured w =
     (if fst captured then Some (w, snd captured)
      else do { (w1, captured1, ok) \<leftarrow> commit_release_once ops agent_id captured w; Some (w1, snd captured1) })"

definition guarded_qdrant ::
  "'w service_ops \<Rightarrow> LockServiceImpl \<Rightarrow> OperationType \<Rightarrow> int \<Rightarrow> AcquireRequest \<Rightarrow> 'w \<Rightarrow> ('w \<times> bool) option" where
  "guarded_qdrant ops svc operation_type timestamp_unix_ms request w =
     (if operation_type = OPERATION_TYPE_READ
      then query_embedding_from_qdrant ops svc (rq_agent_id request) (rq_payload_text request) (rq_embedding request) w
      else upsert_embedding_to_qdrant ops svc (make_numeric_point_id (rq_agent_id request) timestamp_unix_ms)
             (rq_agent_id request) (rq_payload_text request) (rq_source_file request) timestamp_unix_ms
             (rq_embedding request) w)"

definition serve_and_release ::
  "'w service_ops \<Rightarrow> LockServiceImpl \<Rightarrow> OperationType \<Rightarrow> int \<Rightarrow> AcquireRequest \<Rightarrow> AcquireResponse \<Rightarrow> 'w
   \<Rightarrow> ('w \<times> AcquireResponse reply) option" where
  "serve_and_release ops svc operation_type timestamp_unix_ms request response w = do {
     let agent_id = rq_agent_id request;
     let is_read = (operation_type = OPERATION_TYPE_READ);
     (w1, qdrant_ok) \<leftarrow> guarded_qdrant ops svc operation_type timestamp_unix_ms request w;
     if \<not> qdrant_ok then do {
       (w2, response') \<leftarrow> release_guard ops agent_id (False, response\<lparr>rs_granted := False,
           rs_message := if is_read then ''qdrant read failed'' else ''qdrant write failed''\<rparr>) w1;
       Some (w2, response', Status_OK, []) }
     else do {
       let (w2, t) = op_now_ms ops w1;
       let response2 = response\<lparr>rs_qdrant_write_complete_unix_ms := t\<rparr>;
       let w3 = (if operation_type = OPERATION_TYPE_WRITE \<and> svc_lock_hold_ms svc > 0
                 then op_sleep ops (svc_lock_hold_ms svc) w2 else w2);
       (w4, captured, released) \<leftarrow> commit_release_once ops agent_id (False, response2) w3;
       if \<not> released then do {
         (w5, response') \<leftarrow> release_guard ops agent_id (fst captured, (snd captured)\<lparr>rs_granted := False,
             rs_message := ''Raft quorum not reached for RELEASE''\<rparr>) w4;
         Some (w5, response', \<lparr>st_code = UNAVAILABLE, st_message = ''Raft quorum not reached for RELEASE''\<rparr>, []) }
       else do {
         (w5, response') \<leftarrow> release_guard ops agent_id (fst captured, (snd captured)\<lparr>rs_granted := True,
             rs_message := if is_read then ''read granted and committed'' else ''write granted and committed''\<rparr>) w4;
         Some (w5, response', Status_OK, []) } } }"

definition admitted_response :: "AcquireTrace \<Rightarrow> int \<Rightarrow> int \<Rightarrow> nat \<Rightarrow> AcquireResponse \<Rightarrow> AcquireResponse" where
  "admitted_response acquire_trace server_received_unix_ms lock_acquired_unix_ms held_locks response =
     (let r = response\<lparr>rs_lock_acquired_unix_ms := lock_acquired_unix_ms,
            rs_lock_wait_ms := lock_acquired_unix_ms - server_received_unix_ms,
            rs_blocking_similarity_score := tr_blocking_similarity_score acquire_trace,
            rs_wait_position := tr_wait_position acquire_trace, rs_wake_count := tr_wake_count acquire_trace,
            rs_queue_hops := tr_queue_hops acquire_trace, rs_active_lock_count := held_locks\<rparr>
      in if tr_blocking_agent_id acquire_trace \<noteq> []
         then r\<lparr>rs_blocking_agent_id := tr_blocking_agent_id acquire_trace\<rparr> else r)"

definition not_leader_reply :: "string \<Rightarrow> AcquireResponse \<Rightarrow> AcquireResponse reply" where
  "not_leader_reply leader_redirect response =
     (let r = response\<lparr>rs_granted := False, rs_message := ''NOT_LEADER''\<rparr>;
          status = \<lparr>st_code = FAILED_PRECONDITION, st_message = ''NOT_LEADER''\<rparr>
      in if leader_redirect \<noteq> []
         then (r\<lparr>rs_leader_redirect := leader_redirect\<rparr>, status, [(''leader-address'', leader_redirect)])
         else (r, status, []))"

definition AcquireGuard ::
  "'w service_ops \<Rightarrow> LockServiceImpl \<Rightarrow> AcquireRequest \<Rightarrow> 'w \<Rightarrow> ('w \<times> AcquireResponse reply) option" where
  "AcquireGuard ops svc request w =
     (let agent_id = rq_agent_id request;
          embedding = rq_embedding request;
          operation_type = normalize_operation_type (rq_operation_type request);
          (w0, timestamp_unix_ms) = (if rq_timestamp_unix_ms request > 0
            then (w, rq_timestamp_unix_ms request) else op_now_ms ops w);
          (w1, server_received_unix_ms) = op_now_ms ops w0;
          response = default_AcquireResponse\<lparr>rs_serving_node_id := svc_node_id svc\<rparr>
      in if agent_id = [] then
           Some (w1, response\<lparr>rs_granted := False, rs_message := ''agent_id is required''\<rparr>, Status_OK, [])
         else if embedding = [] then
           Some (w1, response\<lparr>rs_granted := False, rs_message := ''embedding is required''\<rparr>, Status_OK, [])
         else
           let (w2, leads) = (if op_has_raft ops w1 then op_is_leader ops w1 else (w1, True)) in
           if \<not> leads then
             let (w3, leader_redirect) = op_leader_address ops w2
             in Some (w3, not_leader_reply leader_redirect response)
           else do {
             let response1 = response\<lparr>rs_server_received_unix_ms := server_received_unix_ms\<rparr>;
             (w3, acquire_trace) \<leftarrow> op_wait_for_admission ops agent_id embedding (svc_theta svc) w2;
             let (w4, lock_acquired_unix_ms) = op_now_ms ops w3;
             let (w5, held_locks) = op_table_size ops w4;
             let response2 = admitted_response acquire_trace server_received_unix_ms lock_acquired_unix_ms
                   held_locks response1;
             (w6, failure) \<leftarrow> replicate_acquire ops svc agent_id embedding w5;
             case failure of
               Some msg \<Rightarrow> Some (w6, response2\<lparr>rs_granted := False, rs_message := msg\<rparr>,
                 \<lparr>st_code = UNAVAILABLE, st_message = msg\<rparr>, [])
             | None \<Rightarrow> serve_and_release ops svc operation_type timestamp_unix_ms request response2 w6 })"

definition ReleaseGuard ::
  "'w service_ops \<Rightarrow> LockServiceImpl \<Rightarrow> string \<Rightarrow> 'w \<Rightarrow> ('w \<times> bool reply) option" where
  "ReleaseGuard ops svc agent_id w =
     (if agent_id = [] then Some (w, False, Status_OK, [])
      else
        let (w1, leads) = (if op_has_raft ops w then op_is_leader ops w else (w, True)) in
        if \<not> leads then
          let (w2, leader_redirect) = op_leader_address ops w1
          in Some (w2, False, \<lparr>st_code = FAILED_PRECONDITION, st_message = ''NOT_LEADER''\<rparr>,
               if leader_redirect \<noteq> [] then [(''leader-address'', leader_redirect)] else [])
        else if op_has_raft ops w1 then do {
          (w2, release_log_index) \<leftarrow> op_propose ops (release_entry_for agent_id) w1;
          case release_log_index of
            None \<Rightarrow> Some (w2, False, \<lparr>st_code = UNAVAILABLE, st_message = ''Raft quorum not reached for RELEASE''\<rparr>, [])
          | Some i \<Rightarrow> do {
              (w3, applied) \<leftarrow> op_wait_applied ops i w2;
              Some (w3, True, Status_OK, []) } }
        else Some (op_release ops agent_id w1, True, Status_OK, []))"

end
