(* ===== verification/LockServiceLaws.thy ===== *)
theory LockServiceLaws
  imports LockService
begin

text \<open>
  Laws of the lock service: the JSON escaping round trip, point identifiers, the HTTP exchange, and
  the interface \<open>lock_backend\<close> between the service and the Raft node, over which the hand-over
  discipline of \<^verbatim>\<open>AcquireGuard\<close> is proved once. The interface is interpreted on \<open>model_ops\<close>, the
  operations of the modelled lock table and Raft node under an arbitrary environment.
\<close>

section \<open>JSON\<close>

text \<open>A reader of a JSON string body: it stops at the closing quote and undoes the escapes.\<close>

fun unescape :: "char \<Rightarrow> char option" where
  "unescape c =
     (if c = CHR 0x22 then Some (CHR 0x22) else if c = CHR 0x5C then Some (CHR 0x5C)
      else if c = CHR ''b'' then Some (CHR 0x08) else if c = CHR ''f'' then Some (CHR 0x0C)
      else if c = CHR ''n'' then Some (CHR 0x0A) else if c = CHR ''r'' then Some (CHR 0x0D)
      else if c = CHR ''t'' then Some (CHR 0x09) else None)"

fun read_json_string :: "string \<Rightarrow> (string \<times> string) option" where
  "read_json_string [] = None"
| "read_json_string (c # s) =
     (if c = CHR 0x22 then Some ([], s)
      else if c = CHR 0x5C then
        (case s of [] \<Rightarrow> None
         | d # s' \<Rightarrow> (case unescape d of None \<Rightarrow> None
                     | Some x \<Rightarrow> map_option (\<lambda>(t, rest). (x # t, rest)) (read_json_string s')))
      else map_option (\<lambda>(t, rest). (c # t, rest)) (read_json_string s))"

lemma read_escape_char:
  "read_json_string (escape_char c @ s) = map_option (\<lambda>(t, rest). (c # t, rest)) (read_json_string s)"
  by (cases "c = CHR 0x22"; cases "c = CHR 0x5C") auto

lemma read_escape: "read_json_string (escape_json s @ CHR 0x22 # rest) = Some (s, rest)"
proof (induction s)
  case (Cons c s)
  then show ?case using read_escape_char[of c "escape_json s @ CHR 0x22 # rest"]
    by (simp del: escape_char.simps read_json_string.simps)
qed simp

section \<open>Point identifiers\<close>

lemma sint_nonneg:
  fixes m :: "64 word"
  assumes "unat m < 2 ^ 63"
  shows "sint m = int (unat m)"
proof -
  have lo: "- (2 ^ 63) \<le> uint m" by (rule order_trans[of _ 0]) simp_all
  have "int (unat m) < int (2 ^ 63)" using assms by (simp only: of_nat_less_iff)
  then have hi: "uint m < 2 ^ 63" by simp
  from signed_take_bit_int_eq_self[OF lo hi] show ?thesis by (simp add: sint_uint)
qed

lemma point_id_word:
  fixes h t :: "64 word"
  shows "sint ((push_bit 22 t XOR (h AND (push_bit 22 1 - 1))) AND 9223372036854775807)
    = int (unat (take_bit 41 t) * 2 ^ 22 + unat (take_bit 22 h))"
proof -
  let ?m = "(push_bit 22 t XOR (h AND (push_bit 22 1 - 1))) AND 9223372036854775807"
  have mask: "(push_bit 22 1 - 1 :: 64 word) = mask 22" "(9223372036854775807 :: 64 word) = mask 63"
    by (simp_all add: mask_eq_exp_minus_1)
  have m: "?m = take_bit 63 (push_bit 22 t OR take_bit 22 h)"
    unfolding mask
    by (rule bit_eqI) (auto simp: bit_take_bit_iff bit_and_iff bit_xor_iff bit_or_iff bit_mask_iff bit_push_bit_iff)
  have m2: "?m = push_bit 22 (take_bit 41 t) OR take_bit 22 h"
    unfolding m by (rule bit_eqI) (auto simp: bit_take_bit_iff bit_or_iff bit_push_bit_iff)
  have m3: "?m = push_bit 22 (take_bit 41 t) + take_bit 22 h"
    unfolding m2 by (rule disjunctive_add[symmetric]) (auto simp: bit_take_bit_iff bit_push_bit_iff)
  have t41: "unat (take_bit 41 t) < 2 ^ 41" and h22: "unat (take_bit 22 h) < 2 ^ 22"
    by (simp_all add: unsigned_take_bit_eq take_bit_nat_less_exp[of 41, simplified] take_bit_nat_less_exp[of 22, simplified])
  have u: "unat ?m = unat (take_bit 41 t) * 2 ^ 22 + unat (take_bit 22 h)"
  proof -
    have "push_bit 22 (take_bit 41 t) + take_bit 22 h
        = (of_nat (unat (take_bit 41 t) * 2 ^ 22 + unat (take_bit 22 h)) :: 64 word)"
      by (simp add: push_bit_eq_mult)
    moreover have "unat (take_bit 41 t) * 2 ^ 22 + unat (take_bit 22 h) < 2 ^ 64" using t41 h22 by simp
    ultimately show ?thesis unfolding m3 by (simp only: unsigned_of_nat) (simp add: take_bit_nat_eq_self_iff)
  qed
  have "unat ?m < 2 ^ 63" unfolding u using t41 h22 by simp
  from sint_nonneg[OF this] show ?thesis unfolding u .
qed

lemma take_bit_of_timestamp:
  "0 \<le> ts \<Longrightarrow> ts < 2 ^ 41 \<Longrightarrow> int (unat (take_bit 41 (word_of_int ts :: 64 word))) = ts"
  by (simp add: unsigned_take_bit_eq unsigned_of_int take_bit_int_eq_self_iff take_bit_nat_eq nat_take_bit_eq[symmetric])

lemma point_id_split:
  assumes "0 \<le> ts" "ts < 2 ^ 41"
  shows "make_numeric_point_id a ts = ts * 2 ^ 22 + int (unat (take_bit 22 (fnv_loop fnv_offset a)))"
  using take_bit_of_timestamp[OF assms]
  unfolding make_numeric_point_id_def Let_def point_id_word by simp

section \<open>HTTP\<close>

lemma send_all_loop_wire:
  assumes "send_all_loop payload k sends wire = Some (ok, w)" "wire = take k payload"
  shows "\<exists>j. w = take j payload \<and> (ok \<longrightarrow> w = payload)"
  using assms
proof (induction payload k sends wire rule: send_all_loop.induct)
  case (1 payload k sends wire)
  show ?case
  proof (cases "k < length payload")
    case False
    with 1(2,3) show ?thesis by (auto simp: send_all_loop.simps[of payload k] intro: exI[of _ k])
  next
    case True
    then obtain sent rest where sends: "sends = sent # rest"
      using 1(2) by (cases sends) (auto simp: send_all_loop.simps[of payload k])
    show ?thesis
    proof (cases "sent \<le> 0")
      case le: True
      with True sends 1(2,3) show ?thesis by (auto simp: send_all_loop.simps[of payload k])
    next
      case False
      with True sends 1(2) have
        "send_all_loop payload (k + nat sent) rest (wire @ take (nat sent) (drop k payload)) = Some (ok, w)"
        by (simp add: send_all_loop.simps[of payload k])
      with 1(1)[OF True sends False] show ?thesis by (simp add: 1(3) take_add)
    qed
  qed
qed

lemma connect_loop_open: "connect_loop as n = (ok, m) \<Longrightarrow> m = n + (if ok then 1 else 0)"
  by (induction as n rule: connect_loop.induct) auto

section \<open>The interface to the Raft node\<close>

text \<open>One or two hand-overs, all of them the agent's RELEASE.\<close>

definition releases_only :: "string \<Rightarrow> (LogEntry \<times> bool) list \<Rightarrow> bool" where
  "releases_only a rels \<longleftrightarrow> rels \<noteq> [] \<and> length rels \<le> 2 \<and> fst ` set rels = {release_entry_for a}"

text \<open>
  All that the service's protocol needs: proposing and appending locally are recorded with the entry
  and the reported outcome, and no other operation hands an entry over.
\<close>

locale lock_backend =
  fixes ops :: "'w service_ops" and handed :: "'w \<Rightarrow> (LogEntry \<times> bool) list"
  assumes has_raft: "op_has_raft ops w"
    and propose_handed: "op_propose ops e w = Some (w', r) \<Longrightarrow> handed w' = handed w @ [(e, r \<noteq> None)]"
    and append_local_handed: "op_append_local ops e w = (w', b) \<Longrightarrow> handed w' = handed w @ [(e, b)]"
    and wait_applied_handed: "op_wait_applied ops i w = Some (w', b) \<Longrightarrow> handed w' = handed w"
    and admission_handed: "op_wait_for_admission ops a em th w = Some (w', tr) \<Longrightarrow> handed w' = handed w"
    and http_handed: "op_http ops m t body w = Some (w', r') \<Longrightarrow> handed w' = handed w"
    and quiet_handed: "handed (fst (op_is_leader ops w)) = handed w" "handed (fst (op_leader_address ops w)) = handed w"
      "handed (op_remove_pending ops a w) = handed w" "handed (fst (op_table_size ops w)) = handed w"
      "handed (fst (op_now_ms ops w)) = handed w" "handed (op_sleep ops d w) = handed w"
begin

lemma quiet_eq:
  "op_is_leader ops w = (w', b) \<Longrightarrow> handed w' = handed w" "op_leader_address ops w = (w', l) \<Longrightarrow> handed w' = handed w"
  "op_table_size ops w = (w', k) \<Longrightarrow> handed w' = handed w" "op_now_ms ops w = (w', t) \<Longrightarrow> handed w' = handed w"
  using quiet_handed by (metis fst_conv)+

lemma ensure_handed: "ensure_qdrant_collection ops svc k w = Some (w', b) \<Longrightarrow> handed w' = handed w"
  by (auto simp: ensure_qdrant_collection_def Let_def dest: http_handed split: if_splits Option.bind_splits)

lemma attempts_handed: "upsert_attempts ops t b k w = Some (w', ok) \<Longrightarrow> handed w' = handed w"
proof (induction "4 - k" arbitrary: k w rule: less_induct)
  case less
  show ?case
  proof (cases "k \<le> 3")
    case True
    then obtain w1 ok' st body where h: "op_http ops ''PUT'' t b w = Some (w1, ok', st, body)"
      using less.prems by (auto simp: upsert_attempts.simps[of ops t b k w] split: option.splits)
    have rec: "handed w' = handed w"
      if "upsert_attempts ops t b (k + 1) (op_sleep ops d w1) = Some (w', ok)" for d
      using less.hyps[OF _ that] True http_handed[OF h] quiet_handed(6)[of d w1] by simp
    show ?thesis using less.prems True h http_handed[OF h] rec
      by (auto simp: upsert_attempts.simps[of ops t b k w] split: if_splits)
  qed (use less.prems in \<open>simp add: upsert_attempts.simps[of ops t b k w]\<close>)
qed

lemma upsert_handed:
  assumes "upsert_embedding_to_qdrant ops svc p a pt sf ts em w = Some (w', ok)"
  shows "handed w' = handed w"
proof (cases "em = []")
  case False
  then obtain w1 e where e: "ensure_qdrant_collection ops svc (length em) w = Some (w1, e)"
    using assms by (auto simp: upsert_embedding_to_qdrant_def split: Option.bind_splits)
  with False assms ensure_handed[OF e] show ?thesis
    by (auto simp: upsert_embedding_to_qdrant_def dest: attempts_handed split: if_splits)
qed (use assms in \<open>simp add: upsert_embedding_to_qdrant_def\<close>)

lemma query_handed: "query_embedding_from_qdrant ops svc a pt em w = Some (w', ok) \<Longrightarrow> handed w' = handed w"
  by (auto simp: query_embedding_from_qdrant_def Let_def dest: http_handed split: if_splits Option.bind_splits)

lemma qdrant_handed: "guarded_qdrant ops svc ot ts rq w = Some (w', ok) \<Longrightarrow> handed w' = handed w"
  by (auto simp: guarded_qdrant_def dest: query_handed upsert_handed split: if_splits)

lemma commit_release_handed:
  assumes "commit_release_once ops a (False, r) w = Some (w', (c, r'), ok)"
  shows "c = ok \<and> rs_granted r' = rs_granted r
    \<and> (\<exists>b. handed w' = handed w @ [(release_entry_for a, b)] \<and> (ok \<longrightarrow> b))"
proof -
  obtain w1 i where p: "op_propose ops (release_entry_for a) w = Some (w1, i)"
    using assms has_raft by (auto simp: commit_release_once_def Let_def split: Option.bind_splits)
  note hp = propose_handed[OF p]
  show ?thesis
  proof (cases i)
    case None
    with assms p hp has_raft show ?thesis by (auto simp: commit_release_once_def Let_def)
  next
    case (Some k)
    then obtain w2 ap where a: "op_wait_applied ops k w1 = Some (w2, ap)"
      using assms p has_raft by (auto simp: commit_release_once_def Let_def split: Option.bind_splits)
    show ?thesis
    proof (cases ap)
      case True
      obtain w3 t where n: "op_now_ms ops w2 = (w3, t)" by fastforce
      with assms p a Some True has_raft have "w' = w3" "c" "ok" "r' = r\<lparr>rs_lock_released_unix_ms := t\<rparr>"
        by (auto simp: commit_release_once_def Let_def)
      then show ?thesis using quiet_eq(4)[OF n] wait_applied_handed[OF a] hp Some by auto
    next
      case False
      with assms p a Some has_raft have "w' = w2" "\<not> c" "\<not> ok" "r' = r"
        by (auto simp: commit_release_once_def Let_def)
      then show ?thesis using wait_applied_handed[OF a] hp Some by auto
    qed
  qed
qed

lemma release_guard_handed:
  assumes "release_guard ops a (c, r) w = Some (w', r')"
  shows "rs_granted r' = rs_granted r
    \<and> (if c then handed w' = handed w else \<exists>b. handed w' = handed w @ [(release_entry_for a, b)])"
proof (cases c)
  case False
  then obtain w1 c1 r1 ok where k: "commit_release_once ops a (False, r) w = Some (w1, (c1, r1), ok)" "w' = w1" "r' = r1"
    using assms by (auto simp: release_guard_def split: Option.bind_splits)
  from commit_release_handed[OF k(1)] k(2,3) False show ?thesis by auto
qed (use assms in \<open>simp add: release_guard_def\<close>)

lemma serve_handed:
  assumes "serve_and_release ops svc ot ts rq r w = Some (w', r', st, md)"
  shows "\<exists>rels. handed w' = handed w @ rels \<and> releases_only (rq_agent_id rq) rels
    \<and> (rs_granted r' \<longrightarrow> rels = [(release_entry_for (rq_agent_id rq), True)] \<and> status_ok st)"
proof -
  let ?a = "rq_agent_id rq"
  obtain w1 q where q: "guarded_qdrant ops svc ot ts rq w = Some (w1, q)"
    using assms by (auto simp: serve_and_release_def Let_def split: Option.bind_splits)
  obtain w2 t where n: "op_now_ms ops w1 = (w2, t)" by fastforce
  show ?thesis
  proof (cases q)
    case False
    then obtain c r0 where g: "release_guard ops ?a (False, r0) w1 = Some (w', r')" "\<not> rs_granted r0"
      using assms q by (auto simp: serve_and_release_def Let_def split: Option.bind_splits)
    with release_guard_handed[OF g(1)] qdrant_handed[OF q] show ?thesis by (auto simp: releases_only_def)
  next
    case True
    let ?w3 = "if ot = OPERATION_TYPE_WRITE \<and> 0 < svc_lock_hold_ms svc then op_sleep ops (svc_lock_hold_ms svc) w2 else w2"
    let ?r2 = "r\<lparr>rs_qdrant_write_complete_unix_ms := t\<rparr>"
    have h3: "handed ?w3 = handed w" using quiet_eq(4)[OF n] quiet_handed(6) qdrant_handed[OF q] by simp
    obtain w4 c r4 rel where k: "commit_release_once ops ?a (False, ?r2) ?w3 = Some (w4, (c, r4), rel)"
      using assms q n True by (auto simp: serve_and_release_def Let_def split: Option.bind_splits)
    note hk = commit_release_handed[OF k]
    show ?thesis
    proof (cases rel)
      case rel: True
      then obtain r5 where g: "release_guard ops ?a (c, r5) w4 = Some (w', r')" "st = Status_OK"
        using assms q n True k by (auto simp: serve_and_release_def Let_def split: Option.bind_splits)
      with release_guard_handed[OF g(1)] hk rel h3 show ?thesis by (auto simp: releases_only_def status_ok_def Status_OK_def)
    next
      case rel: False
      then obtain r5 where g: "release_guard ops ?a (c, r5) w4 = Some (w', r')" "\<not> rs_granted r5"
        using assms q n True k by (auto simp: serve_and_release_def Let_def split: Option.bind_splits)
      with release_guard_handed[OF g(1)] hk rel h3 show ?thesis by (auto simp: releases_only_def)
    qed
  qed
qed

lemma replicate_handed:
  assumes "replicate_acquire ops svc a em w = Some (w', f)"
  shows "\<exists>b rels. handed w' = handed w @ (acquire_entry_for svc a em, b) # rels
    \<and> (if f = None then b \<and> rels = [] else releases_only a rels)"
proof -
  obtain w1 i where p: "op_propose ops (acquire_entry_for svc a em) w = Some (w1, i)"
    using assms has_raft by (auto simp: replicate_acquire_def split: Option.bind_splits)
  note hp = propose_handed[OF p]
  show ?thesis
  proof (cases i)
    case None
    obtain w3 b where al: "op_append_local ops (release_entry_for a) (op_remove_pending ops a w1) = (w3, b)" by fastforce
    with assms p None has_raft have "w' = w3" "f \<noteq> None" by (auto simp: replicate_acquire_def Let_def)
    then show ?thesis using append_local_handed[OF al] quiet_handed(3)[of a w1] hp by (auto simp: releases_only_def)
  next
    case (Some k)
    then obtain w2 ap where wa: "op_wait_applied ops k w1 = Some (w2, ap)"
      using assms p has_raft by (auto simp: replicate_acquire_def split: Option.bind_splits)
    obtain w3 b where al: "op_append_local ops (release_entry_for a) w2 = (w3, b)" by fastforce
    show ?thesis
    proof (cases ap)
      case True
      with assms p Some wa has_raft have "w' = w2" "f = None" by (auto simp: replicate_acquire_def)
      then show ?thesis using wait_applied_handed[OF wa] hp Some by auto
    next
      case False
      with assms p Some wa al has_raft have "w' = w3" "f \<noteq> None" by (auto simp: replicate_acquire_def)
      then show ?thesis using append_local_handed[OF al] wait_applied_handed[OF wa] hp by (auto simp: releases_only_def)
    qed
  qed
qed

lemma acquire_guard_handed:
  assumes "AcquireGuard ops svc rq w = Some (w', r', st, md)"
  shows "\<exists>hs. handed w' = handed w @ hs \<and>
    (hs = [] \<and> \<not> rs_granted r' \<or>
     (\<exists>b rels. hs = (acquire_entry_for svc (rq_agent_id rq) (rq_embedding rq), b) # rels
        \<and> releases_only (rq_agent_id rq) rels
        \<and> (rs_granted r' \<longrightarrow> b \<and> rels = [(release_entry_for (rq_agent_id rq), True)] \<and> status_ok st)))"
proof -
  let ?a = "rq_agent_id rq" and ?em = "rq_embedding rq"
  let ?ot = "normalize_operation_type (rq_operation_type rq)"
  obtain w0 ts where w0: "(if rq_timestamp_unix_ms rq > 0 then (w, rq_timestamp_unix_ms rq) else op_now_ms ops w) = (w0, ts)" by fastforce
  obtain w1 t1 where w1: "op_now_ms ops w0 = (w1, t1)" by fastforce
  obtain w2 lead where w2: "op_is_leader ops w1 = (w2, lead)" by fastforce
  obtain w3 l where w3: "op_leader_address ops w2 = (w3, l)" by fastforce
  have h0: "handed w0 = handed w" using w0 quiet_eq(4) by (auto split: if_splits)
  have h2: "handed w2 = handed w" using h0 quiet_eq(1)[OF w2] quiet_eq(4)[OF w1] by simp
  note run = assms[unfolded AcquireGuard_def, simplified w0 w1 w2 w3 Let_def prod.case has_raft if_True]
  consider "?a = [] \<or> ?em = []" | "?a \<noteq> []" "?em \<noteq> []" "\<not> lead" | "?a \<noteq> []" "?em \<noteq> []" lead by blast
  then show ?thesis
  proof cases
    case 1
    then have "w' = w1" "\<not> rs_granted r'"
      using run by (auto simp: default_AcquireResponse_def split: if_splits)
    then show ?thesis using h0 quiet_eq(4)[OF w1] by auto
  next
    case 2
    then have "w' = w3" "\<not> rs_granted r'"
      using run by (auto simp: not_leader_reply_def default_AcquireResponse_def Let_def split: if_splits)
    then show ?thesis using h2 quiet_eq(2)[OF w3] by auto
  next
    case 3
    then obtain w4 tr where w4: "op_wait_for_admission ops ?a ?em (svc_theta svc) w2 = Some (w4, tr)"
      using run by (auto split: Option.bind_splits)
    obtain w5 t5 where w5: "op_now_ms ops w4 = (w5, t5)" by fastforce
    obtain w6 k where w6: "op_table_size ops w5 = (w6, k)" by fastforce
    have h6: "handed w6 = handed w" using h2 admission_handed[OF w4] quiet_eq(4)[OF w5] quiet_eq(3)[OF w6] by simp
    obtain w7 f where w7: "replicate_acquire ops svc ?a ?em w6 = Some (w7, f)"
      using run 3 w4 w5 w6 by (auto split: Option.bind_splits)
    note h7 = replicate_handed[OF w7]
    show ?thesis
    proof (cases f)
      case (Some msg)
      with run 3 w4 w5 w6 w7 have "w' = w7" "\<not> rs_granted r'" by auto
      then show ?thesis using h6 h7 Some by auto
    next
      case None
      with run 3 w4 w5 w6 w7 obtain r2 where "serve_and_release ops svc ?ot ts rq r2 w7 = Some (w', r', st, md)" by auto
      from serve_handed[OF this] h6 h7 None show ?thesis by auto
    qed
  qed
qed

end

section \<open>The operations of the modelled components\<close>

text \<open>
  The world of one RPC: the node, the table, and how far the environment's script has been used. The
  script says, for the \<open>k\<close>-th call that can block, what the other threads do to the node and to the
  table meanwhile, what the clock shows and how the network behaves.
\<close>

record service_world =
  sw_node :: RaftNode
  sw_table :: ActiveLockTable
  sw_calls :: nat
  sw_handed :: "(LogEntry \<times> bool) list"

record service_env =
  se_has_raft :: bool
  se_fpu :: fpu
  se_layout :: layout
  se_clock :: "nat \<Rightarrow> int"
  se_node :: "nat \<Rightarrow> RaftNode \<Rightarrow> RaftNode"
  se_table :: "nat \<Rightarrow> ActiveLockTable \<Rightarrow> ActiveLockTable"
  se_rounds :: "nat \<Rightarrow> propose_round list"
  se_applied :: "nat \<Rightarrow> (RaftNode \<Rightarrow> RaftNode) list"
  se_sweep :: "nat \<Rightarrow> ActiveLockTable \<Rightarrow> ActiveLockTable"
  se_waits :: "nat \<Rightarrow> (ActiveLockTable \<Rightarrow> ActiveLockTable) list"
  se_http :: "nat \<Rightarrow> http_script"
  se_fmt :: "fl \<Rightarrow> string"

text \<open>Before each call the environment moves.\<close>

definition env_move :: "service_env \<Rightarrow> service_world \<Rightarrow> service_world" where
  "env_move E w = w\<lparr>sw_node := se_node E (sw_calls w) (sw_node w), sw_table := se_table E (sw_calls w) (sw_table w),
     sw_calls := sw_calls w + 1\<rparr>"

definition model_ops :: "service_env \<Rightarrow> LockServiceImpl \<Rightarrow> service_world service_ops" where
  "model_ops E svc = \<lparr>
     op_has_raft = (\<lambda>w. se_has_raft E),
     op_is_leader = (\<lambda>w. (env_move E w, IsLeader (sw_node (env_move E w)))),
     op_leader_address = (\<lambda>w. (env_move E w, LeaderAddress (sw_node (env_move E w)))),
     op_wait_for_admission = (\<lambda>a e th w. let w = env_move E w in
       map_option (\<lambda>(t, tr). (w\<lparr>sw_table := t\<rparr>, tr))
         (wait_for_admission (se_fpu E) (se_layout E) (se_sweep E (sw_calls w)) (se_waits E (sw_calls w)) a e th (sw_table w))),
     op_remove_pending = (\<lambda>a w. let w = env_move E w in
       w\<lparr>sw_table := fst (remove_pending (se_fpu E) (se_layout E) a (sw_table w))\<rparr>),
     op_apply_acquire = (\<lambda>a e th w. let w = env_move E w in w\<lparr>sw_table := apply_acquire (se_layout E) a e th (sw_table w)\<rparr>),
     op_release = (\<lambda>a w. let w = env_move E w in
       w\<lparr>sw_table := fst (release (se_fpu E) (se_layout E) a (sw_table w))\<rparr>),
     op_table_size = (\<lambda>w. (env_move E w, table_size (sw_table (env_move E w)))),
     op_propose = (\<lambda>e w. let w = env_move E w in
       map_option (\<lambda>(n, r). (w\<lparr>sw_node := n, sw_handed := sw_handed w @ [(e, r \<noteq> None)]\<rparr>, r))
         (Propose e (se_rounds E (sw_calls w)) (sw_node w))),
     op_wait_applied = (\<lambda>i w. let w = env_move E w in
       (case WaitUntilApplied i (se_applied E (sw_calls w)) (sw_node w) of (n, b) \<Rightarrow> Some (w\<lparr>sw_node := n\<rparr>, b))),
     op_append_local = (\<lambda>e w. let w = env_move E w in
       (case AppendLocalEntry e (sw_node w) of (n, b) \<Rightarrow> (w\<lparr>sw_node := n, sw_handed := sw_handed w @ [(e, b)]\<rparr>, b))),
     op_now_ms = (\<lambda>w. (env_move E w, se_clock E (sw_calls w))),
     op_sleep = (\<lambda>d w. env_move E w),
     op_http = (\<lambda>m t b w. let w = env_move E w in
       map_option (\<lambda>r. (w, hr_ok r, hr_status_code r, hr_response_body r)) (send_http_json svc (se_http E (sw_calls w)) m t b)),
     op_fmt = se_fmt E\<rparr>"

lemma env_move_handed [simp]: "sw_handed (env_move E w) = sw_handed w"
  by (simp add: env_move_def)

text \<open>A service in front of a Raft node (\<^verbatim>\<open>raft_ != nullptr\<close>).\<close>

definition with_raft :: "service_env \<Rightarrow> service_env" where
  "with_raft E = E\<lparr>se_has_raft := True\<rparr>"

interpretation model: lock_backend "model_ops (with_raft E) svc" sw_handed for E svc
  by unfold_locales
    (auto simp: model_ops_def with_raft_def Let_def split: prod.splits option.splits)

end
