(* ===== verification/ProxyService.thy ===== *)
theory ProxyService
  imports LockService
begin

text \<open>
  The leader-aware proxy (\<^verbatim>\<open>src/proxy_service_impl.{h,cpp}\<close>). Its state is the list of backends, the
  leader it last heard of and the cache of channels; the remote calls are the operations of a record
  \<open>proxy_ops\<close> over the world outside. Forwarding also returns the calls it made, target and status, in
  order.
\<close>

section \<open>State\<close>

record ProxyServiceImpl =
  px_backend_nodes :: "string list"
  px_leader_poll_ms :: int
  px_request_timeout_ms :: int
  px_leader_rpc_timeout_ms :: int
  px_channels :: "(string, nat) umap"
  px_channels_created :: nat
  px_current_leader :: string
  px_running :: bool

definition new_ProxyServiceImpl :: "string list \<Rightarrow> int \<Rightarrow> int \<Rightarrow> int \<Rightarrow> ProxyServiceImpl" where
  "new_ProxyServiceImpl backend_nodes leader_poll_ms request_timeout_ms leader_rpc_timeout_ms =
     \<lparr>px_backend_nodes = backend_nodes, px_leader_poll_ms = leader_poll_ms,
      px_request_timeout_ms = request_timeout_ms, px_leader_rpc_timeout_ms = leader_rpc_timeout_ms,
      px_channels = [], px_channels_created = 0, px_current_leader = [], px_running = False\<rparr>"

text \<open>The remote sides, reached over a channel: the leader query, ping, and a forwarded call.\<close>

record ('w, 'q, 'r) proxy_ops =
  po_get_leader :: "nat \<Rightarrow> int \<Rightarrow> 'w \<Rightarrow> 'w \<times> Status \<times> LeaderInfo"
  po_ping :: "nat \<Rightarrow> int \<Rightarrow> string \<Rightarrow> 'w \<Rightarrow> 'w \<times> Status \<times> string"
  po_call :: "nat \<Rightarrow> int \<Rightarrow> 'q \<Rightarrow> 'w \<Rightarrow> 'w \<times> 'r reply"

section \<open>Life cycle, leader and channels\<close>

definition proxy_Start :: "ProxyServiceImpl \<Rightarrow> ProxyServiceImpl \<times> bool" where
  "proxy_Start p = (if px_running p then (p, False) else (p\<lparr>px_running := True\<rparr>, True))"

definition proxy_Stop :: "ProxyServiceImpl \<Rightarrow> ProxyServiceImpl" where
  "proxy_Stop p = (if \<not> px_running p then p else p\<lparr>px_running := False\<rparr>)"

definition CurrentLeader :: "ProxyServiceImpl \<Rightarrow> string" where
  "CurrentLeader p = px_current_leader p"

definition SetCurrentLeader :: "string \<Rightarrow> ProxyServiceImpl \<Rightarrow> ProxyServiceImpl" where
  "SetCurrentLeader leader p = p\<lparr>px_current_leader := leader\<rparr>"

definition ChannelFor :: "string \<Rightarrow> ProxyServiceImpl \<Rightarrow> ProxyServiceImpl \<times> nat" where
  "ChannelFor target p =
     (case map_of (px_channels p) target of
        Some channel \<Rightarrow> (p, channel)
      | None \<Rightarrow>
          let channel = px_channels_created p
          in (p\<lparr>px_channels := (target, channel) # px_channels p, px_channels_created := channel + 1\<rparr>, channel))"

definition LockStubFor :: "string \<Rightarrow> ProxyServiceImpl \<Rightarrow> ProxyServiceImpl \<times> nat" where
  "LockStubFor target p = ChannelFor target p"

definition RaftStubFor :: "string \<Rightarrow> ProxyServiceImpl \<Rightarrow> ProxyServiceImpl \<times> nat" where
  "RaftStubFor target p = ChannelFor target p"

fun refresh_loop ::
  "('w, 'q, 'r) proxy_ops \<Rightarrow> string list \<Rightarrow> ProxyServiceImpl \<Rightarrow> 'w \<Rightarrow> ProxyServiceImpl \<times> 'w \<times> string" where
  "refresh_loop ops [] p w = (SetCurrentLeader [] p, w, [])"
| "refresh_loop ops (backend # rest) p w =
     (let (p1, stub) = RaftStubFor backend p;
          (w1, status, response) = po_get_leader ops stub (px_leader_rpc_timeout_ms p1) w
      in if \<not> status_ok status then refresh_loop ops rest p1 w1
         else if li_is_leader response \<and> li_leader_address response \<noteq> []
           then (SetCurrentLeader (li_leader_address response) p1, w1, li_leader_address response)
         else if li_leader_address response \<noteq> []
           then (SetCurrentLeader (li_leader_address response) p1, w1, li_leader_address response)
         else refresh_loop ops rest p1 w1)"

definition RefreshLeader :: "('w, 'q, 'r) proxy_ops \<Rightarrow> ProxyServiceImpl \<Rightarrow> 'w \<Rightarrow> ProxyServiceImpl \<times> 'w \<times> string" where
  "RefreshLeader ops p w = refresh_loop ops (px_backend_nodes p) p w"

text \<open>One pass of \<^verbatim>\<open>LeaderPollLoop\<close>; it ends when the proxy is stopped.\<close>

definition leader_poll_tick :: "('w, 'q, 'r) proxy_ops \<Rightarrow> ProxyServiceImpl \<Rightarrow> 'w \<Rightarrow> ProxyServiceImpl \<times> 'w" where
  "leader_poll_tick ops p w =
     (if px_running p then case RefreshLeader ops p w of (p', w', l) \<Rightarrow> (p', w') else (p, w))"

definition ExtractLeaderRedirect :: "metadata \<Rightarrow> string" where
  "ExtractLeaderRedirect md =
     (case map_of md ''leader-address'' of None \<Rightarrow> [] | Some v \<Rightarrow> v)"

section \<open>Forwarding\<close>

fun ping_loop ::
  "('w, 'q, 'r) proxy_ops \<Rightarrow> string \<Rightarrow> string list \<Rightarrow> ProxyServiceImpl \<Rightarrow> 'w \<Rightarrow> ProxyServiceImpl \<times> 'w \<times> string option \<times> Status" where
  "ping_loop ops from_node [] p w =
     (p, w, None, \<lparr>st_code = UNAVAILABLE, st_message = ''No backend nodes responded to Ping''\<rparr>)"
| "ping_loop ops from_node (backend # rest) p w =
     (let (p1, stub) = LockStubFor backend p;
          (w1, status, response) = po_ping ops stub (px_leader_rpc_timeout_ms p1) from_node w
      in if status_ok status then (p1, w1, Some response, status) else ping_loop ops from_node rest p1 w1)"

definition proxy_Ping where
  "proxy_Ping ops from_node p w = ping_loop ops from_node (px_backend_nodes p) p w"

type_synonym call_log = "(string \<times> Status) list"

fun forward_loop ::
  "('w, 'q, 'r) proxy_ops \<Rightarrow> 'q \<Rightarrow> nat \<Rightarrow> string \<Rightarrow> ProxyServiceImpl \<Rightarrow> 'w
   \<Rightarrow> ProxyServiceImpl \<times> 'w \<times> 'r option \<times> Status \<times> call_log" where
  "forward_loop ops request 0 target p w =
     (p, w, None, \<lparr>st_code = UNAVAILABLE, st_message = ''Leader changed during request forwarding''\<rparr>, [])"
| "forward_loop ops request (Suc attempts_left) target p w =
     (let (p1, stub) = LockStubFor target p;
          (w1, response, status, md) = po_call ops stub (px_request_timeout_ms p1) request w;
          again = (\<lambda>target' p' w'. case forward_loop ops request attempts_left target' p' w' of
            (p'', w'', r, st, calls) \<Rightarrow> (p'', w'', r, st, (target, status) # calls))
      in if status_ok status then (SetCurrentLeader target p1, w1, Some response, status, [(target, status)])
         else
           let redirected = ExtractLeaderRedirect md;
               not_leader = (st_code status = FAILED_PRECONDITION \<and> st_message status = ''NOT_LEADER'');
               (p2, w2, target2) = (if not_leader then
                  if redirected = [] then RefreshLeader ops p1 w1 else (p1, w1, redirected)
                else (p1, w1, target))
           in if not_leader \<and> target2 \<noteq> [] then again target2 (SetCurrentLeader target2 p2) w2
              else if st_code status = UNAVAILABLE \<or> st_code status = DEADLINE_EXCEEDED then
                let (p3, w3, target3) = RefreshLeader ops p2 w2
                in if target3 \<noteq> [] then again target3 p3 w3
                   else (p3, w3, Some response, status, [(target, status)])
              else (p2, w2, Some response, status, [(target, status)]))"

definition ForwardWithLeaderRetry ::
  "('w, 'q, 'r) proxy_ops \<Rightarrow> 'q \<Rightarrow> ProxyServiceImpl \<Rightarrow> 'w \<Rightarrow> ProxyServiceImpl \<times> 'w \<times> 'r option \<times> Status \<times> call_log" where
  "ForwardWithLeaderRetry ops request p w =
     (let (p1, w1, refreshed) = RefreshLeader ops p w;
          target = (if refreshed = [] then CurrentLeader p1 else refreshed)
      in if target = [] then (p1, w1, None, \<lparr>st_code = UNAVAILABLE, st_message = ''No leader available''\<rparr>, [])
         else forward_loop ops request 3 target p1 w1)"

definition proxy_AcquireGuard ::
  "('w, AcquireRequest, AcquireResponse) proxy_ops \<Rightarrow> AcquireRequest \<Rightarrow> ProxyServiceImpl \<Rightarrow> 'w
   \<Rightarrow> ProxyServiceImpl \<times> 'w \<times> AcquireResponse option \<times> Status \<times> call_log" where
  "proxy_AcquireGuard ops request p w = ForwardWithLeaderRetry ops request p w"

definition proxy_ReleaseGuard ::
  "('w, string, bool) proxy_ops \<Rightarrow> string \<Rightarrow> ProxyServiceImpl \<Rightarrow> 'w
   \<Rightarrow> ProxyServiceImpl \<times> 'w \<times> bool option \<times> Status \<times> call_log" where
  "proxy_ReleaseGuard ops agent_id p w = ForwardWithLeaderRetry ops agent_id p w"

section \<open>Laws\<close>

definition retryable :: "Status \<Rightarrow> bool" where
  "retryable st \<longleftrightarrow> (st_code st = FAILED_PRECONDITION \<and> st_message st = ''NOT_LEADER'')
     \<or> st_code st = UNAVAILABLE \<or> st_code st = DEADLINE_EXCEEDED"

definition exhausted :: Status where
  "exhausted = \<lparr>st_code = UNAVAILABLE, st_message = ''Leader changed during request forwarding''\<rparr>"

lemma forward_loop_calls:
  assumes "forward_loop ops q k t p w = (p', w', r, st, calls)"
  shows "length calls \<le> k \<and> (\<forall>c\<in>set (butlast calls). retryable (snd c))
    \<and> (if r = None then st = exhausted \<and> length calls = k \<and> (\<forall>c\<in>set calls. retryable (snd c))
       else calls \<noteq> [] \<and> st = snd (last calls))
    \<and> (status_ok st \<longrightarrow> calls \<noteq> [] \<and> px_current_leader p' = fst (last calls))
    \<and> (0 < k \<longrightarrow> calls \<noteq> [] \<and> fst (hd calls) = t)"
  using assms
proof (induction k arbitrary: t p w p' w' r st calls)
  case 0
  then show ?case by (auto simp: exhausted_def status_ok_def)
next
  case (Suc k)
  obtain p1 stub where c: "LockStubFor t p = (p1, stub)" by fastforce
  obtain w1 resp s md where call: "po_call ops stub (px_request_timeout_ms p1) q w = (w1, resp, s, md)"
    by (metis prod_cases4)
  note run = Suc.prems[simplified c call Let_def prod.case forward_loop.simps(2)]
  have rec: ?case if "retryable s" "\<not> status_ok s"
    and "forward_loop ops q k t2 p2 w2 = (p', w', r, st, calls')" "calls = (t, s) # calls'" for t2 p2 w2 calls'
    using Suc.IH[OF that(3)] that(1,2,4) by (cases calls') (auto split: if_splits)
  have stop: ?case if "calls = [(t, s)]" "r = Some resp" "st = s" "status_ok s \<longrightarrow> px_current_leader p' = t"
    using that by simp
  show ?case
  proof (cases "status_ok s")
    case True
    then show ?thesis using run by (intro stop) (auto simp: SetCurrentLeader_def)
  next
    case False
    let ?nl = "st_code s = FAILED_PRECONDITION \<and> st_message s = ''NOT_LEADER''"
    obtain p2 w2 t2 where s2: "(if ?nl then if ExtractLeaderRedirect md = [] then RefreshLeader ops p1 w1
        else (p1, w1, ExtractLeaderRedirect md) else (p1, w1, t)) = (p2, w2, t2)" by (metis prod_cases3)
    obtain p3 w3 t3 where s3: "RefreshLeader ops p2 w2 = (p3, w3, t3)" by (metis prod_cases3)
    note run2 = run[simplified False s2 prod.case s3]
    consider "?nl" "t2 \<noteq> []" | "\<not> (?nl \<and> t2 \<noteq> [])" "st_code s = UNAVAILABLE \<or> st_code s = DEADLINE_EXCEEDED" "t3 \<noteq> []"
      | "\<not> (?nl \<and> t2 \<noteq> [])" "\<not> ((st_code s = UNAVAILABLE \<or> st_code s = DEADLINE_EXCEEDED) \<and> t3 \<noteq> [])" by blast
    then show ?thesis
    proof cases
      case 1
      obtain pp ww rr ss cc where f: "forward_loop ops q k t2 (SetCurrentLeader t2 p2) w2 = (pp, ww, rr, ss, cc)" by (metis prod_cases5)
      with run2 1 have "pp = p'" "ww = w'" "rr = r" "ss = st" "calls = (t, s) # cc" by auto
      with f 1 show ?thesis by (intro rec[of t2 _ w2 cc]) (auto simp: retryable_def False)
    next
      case 2
      obtain pp ww rr ss cc where f: "forward_loop ops q k t3 p3 w3 = (pp, ww, rr, ss, cc)" by (metis prod_cases5)
      with run2 2 have "pp = p'" "ww = w'" "rr = r" "ss = st" "calls = (t, s) # cc" by auto
      with f 2 show ?thesis by (intro rec[of t3 p3 w3 cc]) (auto simp: retryable_def False)
    next
      case 3
      with run2 show ?thesis by (intro stop) (auto simp: False split: if_splits)
    qed
  qed
qed

lemma channel_cached:
  "ChannelFor t p = (p', c) \<Longrightarrow> map_of (px_channels p') t = Some c \<and> ChannelFor t p' = (p', c)"
  by (auto simp: ChannelFor_def Let_def split: option.splits)

end
