(* ===== verification/NodeMain.thy ===== *)
theory NodeMain
  imports LockServiceLaws LockTableSafety RaftNodeLaws ProxyService
begin

text \<open>
  The two programs (\<^verbatim>\<open>src/main.cpp\<close>, \<^verbatim>\<open>src/proxy_main.cpp\<close>): configuration from the environment, the
  callback that applies a committed entry to the lock table, and the sweep a new leader runs. The
  callback is shown to implement an abstract map from agents to regions, so that replicas that apply
  the same entries agree.
\<close>

section \<open>Configuration\<close>

type_synonym environ = "string \<Rightarrow> string option"

definition getenv_or_default :: "environ \<Rightarrow> string \<Rightarrow> string \<Rightarrow> string" where
  "getenv_or_default env key fallback = (case env key of None \<Rightarrow> fallback | Some value \<Rightarrow> value)"

definition read_int_from_env :: "environ \<Rightarrow> string \<Rightarrow> int \<Rightarrow> int \<Rightarrow> int \<Rightarrow> int" where
  "read_int_from_env env key fallback min_value max_value =
     (case env key of
        None \<Rightarrow> fallback
      | Some value \<Rightarrow>
          (case strtol value of
             None \<Rightarrow> fallback
           | Some (parsed, rest) \<Rightarrow> if parsed < min_value \<or> parsed > max_value then fallback else parsed))"

definition read_float_from_env :: "fpu \<Rightarrow> environ \<Rightarrow> string \<Rightarrow> fl \<Rightarrow> fl \<Rightarrow> fl \<Rightarrow> fl" where
  "read_float_from_env F env key fallback min_value max_value =
     (case env key of
        None \<Rightarrow> fallback
      | Some value \<Rightarrow>
          (case strtof F value of
             None \<Rightarrow> fallback
           | Some (parsed, rest) \<Rightarrow> if fl_less parsed min_value \<or> fl_less max_value parsed then fallback else parsed))"

record node_config =
  nc_raft_config :: RaftConfig
  nc_peer_addresses :: "string list"
  nc_service_address :: string
  nc_raft_address :: string
  nc_advertised_service_address :: string
  nc_service :: LockServiceImpl

definition main_config :: "fpu \<Rightarrow> environ \<Rightarrow> node_config" where
  "main_config F env =
     (let node_id = getenv_or_default env ''NODE_ID'' ''node-1'';
          port = getenv_or_default env ''PORT'' ''50051'';
          raft_port = getenv_or_default env ''RAFT_PORT'' ''50061'';
          advertise_host = getenv_or_default env ''ADVERTISE_HOST'' ''127.0.0.1'';
          peers_env = getenv_or_default env ''PEERS'' [];
          theta = read_float_from_env F env ''THETA'' (rnd_float F (85 / 100)) (Fin 0) (Fin 1);
          lock_hold_ms = read_int_from_env env ''LOCK_HOLD_MS'' 0 0 600000;
          propose_timeout_ms = read_int_from_env env ''RAFT_PROPOSE_TIMEOUT_MS'' 5000 50 600000;
          raft_config = \<lparr>heartbeat_ms = read_int_from_env env ''HEARTBEAT_MS'' 75 10 5000,
            election_timeout_min_ms = read_int_from_env env ''ELECTION_TIMEOUT_MIN_MS'' 600 20 30000,
            election_timeout_max_ms = read_int_from_env env ''ELECTION_TIMEOUT_MAX_MS'' 1000 20 30000,
            rpc_timeout_ms = read_int_from_env env ''RAFT_RPC_TIMEOUT_MS'' 150 20 30000\<rparr>
      in \<lparr>nc_raft_config = raft_config, nc_peer_addresses = split_csv peers_env,
          nc_service_address = ''0.0.0.0:'' @ port, nc_raft_address = ''0.0.0.0:'' @ raft_port,
          nc_advertised_service_address = advertise_host @ '':'' @ port,
          nc_service = \<lparr>svc_node_id = node_id, svc_theta = theta, svc_lock_hold_ms = lock_hold_ms,
            svc_raft_propose_timeout_ms = propose_timeout_ms,
            svc_qdrant_host = getenv_or_default env ''QDRANT_HOST'' ''qdrant'',
            svc_qdrant_port = getenv_or_default env ''QDRANT_PORT'' ''6333'',
            svc_qdrant_collection = getenv_or_default env ''QDRANT_COLLECTION'' ''dscc_memory''\<rparr>\<rparr>)"

definition main_node :: "fpu \<Rightarrow> environ \<Rightarrow> RaftNode" where
  "main_node F env =
     (let c = main_config F env in
      SetLeaderChangeCallback (new_RaftNode (svc_node_id (nc_service c)) (nc_advertised_service_address c)
        (nc_peer_addresses c) (nc_raft_config c)))"

text \<open>\<^verbatim>\<open>proxy_main.cpp\<close>: \<open>None\<close> is the exit with status 1 when no backend is configured.\<close>

definition proxy_config :: "environ \<Rightarrow> (ProxyServiceImpl \<times> string) option" where
  "proxy_config env =
     (let port = getenv_or_default env ''PROXY_PORT'' ''50050'';
          backend_nodes = split_csv (getenv_or_default env ''BACKEND_NODES'' []);
          leader_poll_ms = read_int_from_env env ''LEADER_POLL_MS'' 100 20 60000;
          request_timeout_ms = read_int_from_env env ''REQUEST_TIMEOUT_MS'' 35000 50 600000;
          leader_rpc_timeout_ms = read_int_from_env env ''LEADER_RPC_TIMEOUT_MS'' 750 50 60000
      in if backend_nodes = [] then None
         else Some (fst (proxy_Start (new_ProxyServiceImpl backend_nodes leader_poll_ms request_timeout_ms leader_rpc_timeout_ms)),
                ''0.0.0.0:'' @ port))"

section \<open>Applying committed entries\<close>

definition on_commit :: "fpu \<Rightarrow> layout \<Rightarrow> LogEntry \<Rightarrow> ActiveLockTable \<Rightarrow> ActiveLockTable" where
  "on_commit F h entry lock_table =
     (if le_op_type entry = ACQUIRE
      then apply_acquire h (le_agent_id entry) (le_embedding entry) (le_theta entry) lock_table
      else fst (apply_release F h (le_agent_id entry) lock_table))"

section \<open>The sweep after a leader change\<close>

text \<open>
  The callback of \<^verbatim>\<open>SetLeaderChangeCallback\<close>, over the world of the service model. \<open>None\<close> means that a
  proposal has not returned.
\<close>

fun sweep_loop :: "service_env \<Rightarrow> LockServiceImpl \<Rightarrow> string list \<Rightarrow> service_world \<Rightarrow> service_world option" where
  "sweep_loop E svc [] w = Some w"
| "sweep_loop E svc (agent_id # orphans) w =
     (let (w1, leads) = op_is_leader (model_ops E svc) w in
      if \<not> leads then Some w1
      else do {
        (w2, log_index) \<leftarrow> op_propose (model_ops E svc) (release_entry_for agent_id) w1;
        case log_index of
          None \<Rightarrow> sweep_loop E svc orphans w2
        | Some i \<Rightarrow> do {
            (w3, applied) \<leftarrow> op_wait_applied (model_ops E svc) i w2;
            sweep_loop E svc orphans w3 } })"

definition leader_sweep :: "service_env \<Rightarrow> LockServiceImpl \<Rightarrow> service_world \<Rightarrow> service_world option" where
  "leader_sweep E svc w =
     (let (t, orphans) = begin_leader_sweep (sw_table w);
          w1 = w\<lparr>sw_table := t\<rparr>
      in if orphans = [] then Some (w1\<lparr>sw_table := end_leader_sweep t\<rparr>)
         else do {
           w2 \<leftarrow> sweep_loop E svc orphans w1;
           Some (w2\<lparr>sw_table := end_leader_sweep (sw_table w2)\<rparr>) })"

section \<open>Replicas agree\<close>

text \<open>
  The contract of a replicated state machine: an abstract state that every applied entry changes in a
  way that depends on the entry only, while a side condition is kept.
\<close>

locale replicated_state =
  fixes apply_entry :: "'e \<Rightarrow> 's \<Rightarrow> 's" and view :: "'s \<Rightarrow> 'a" and spec :: "'e \<Rightarrow> 'a \<Rightarrow> 'a" and fit :: "'s \<Rightarrow> bool"
  assumes view_apply: "fit s \<Longrightarrow> view (apply_entry e s) = spec e (view s)"
    and fit_apply: "fit s \<Longrightarrow> fit (apply_entry e s)"
begin

lemma fold_view: "fit s \<Longrightarrow> view (fold apply_entry es s) = fold spec es (view s) \<and> fit (fold apply_entry es s)"
  by (induction es arbitrary: s) (simp_all add: view_apply fit_apply)

end

definition held_regions :: "ActiveLockTable \<Rightarrow> string \<rightharpoonup> fl list \<times> fl" where
  "held_regions t a = map_option (\<lambda>l. (sl_centroid l, sl_threshold l)) (map_of (active t) a)"

definition apply_spec :: "LogEntry \<Rightarrow> (string \<rightharpoonup> fl list \<times> fl) \<Rightarrow> (string \<rightharpoonup> fl list \<times> fl)" where
  "apply_spec e m = (if le_op_type e = ACQUIRE then m(le_agent_id e \<mapsto> (le_embedding e, le_theta e)) else m(le_agent_id e := None))"

text \<open>A replica that no request waits on: its table has no queued entry.\<close>

definition replica_ok :: "ActiveLockTable \<Rightarrow> bool" where
  "replica_ok t \<longleftrightarrow> um_wf (active t) \<and> queued t = []"

lemma replica_release:
  assumes "replica_ok t"
  shows "fst (release F h a t) = t\<lparr>active := um_erase a (active t)\<rparr>"
proof (cases "map_of (active t) a")
  case None
  then have "um_erase a (active t) = active t"
    unfolding um_erase_def by (intro filter_True) (auto simp: map_of_eq_None_iff)
  with None show ?thesis by (simp add: release_cases)
next
  case (Some l)
  then have "sl_waiters l = []" using assms waiters_in_queued[OF Some] by (simp add: replica_ok_def)
  with Some show ?thesis by (simp add: release_cases)
qed

lemma held_regions_apply:
  "um_wf (active t) \<Longrightarrow> held_regions (apply_acquire_locked h a e th t) = (held_regions t)(a \<mapsto> (e, th))"
  by (auto simp: held_regions_def lookup_apply_acquire fun_eq_iff split: option.splits)

lemma held_regions_erase: "held_regions (t\<lparr>active := um_erase a (active t)\<rparr>) = (held_regions t)(a := None)"
  by (auto simp: held_regions_def map_of_erase fun_eq_iff)

interpretation replica: replicated_state "on_commit F h" held_regions apply_spec replica_ok for F h
proof
  fix t e assume ok: "replica_ok t"
  show "held_regions (on_commit F h e t) = apply_spec e (held_regions t)"
    using ok by (simp add: on_commit_def apply_spec_def apply_acquire_def apply_release_def replica_release
        held_regions_apply held_regions_erase) (simp add: replica_ok_def held_regions_apply)
  show "replica_ok (on_commit F h e t)"
  proof (cases "le_op_type e = ACQUIRE")
    case True
    have "mset (queued (apply_acquire_locked h (le_agent_id e) (le_embedding e) (le_theta e) t)) = mset (queued t)"
      by (rule queued_apply_acquire)
    then have "queued (apply_acquire_locked h (le_agent_id e) (le_embedding e) (le_theta e) t) = []"
      using ok by (metis mset_zero_iff_right replica_ok_def mset.simps(1))
    with True show ?thesis using ok by (simp add: on_commit_def apply_acquire_def replica_ok_def)
  next
    case False
    have "queued (t\<lparr>active := um_erase (le_agent_id e) (active t)\<rparr>) = []"
      using ok by (auto simp: replica_ok_def queued_def um_erase_def)
    with False show ?thesis
      using ok by (simp add: on_commit_def apply_release_def replica_release) (simp add: replica_ok_def)
  qed
qed

section \<open>Laws of the configuration and the sweep\<close>

lemma read_int_range:
  "min_value \<le> fallback \<Longrightarrow> fallback \<le> max_value \<Longrightarrow>
   min_value \<le> read_int_from_env env key fallback min_value max_value
   \<and> read_int_from_env env key fallback min_value max_value \<le> max_value"
  by (auto simp: read_int_from_env_def split: option.splits)

lemma sweep_loop_handed:
  assumes "sweep_loop (with_raft E) svc ids w = Some w'"
  shows "\<exists>k bs. k \<le> length ids \<and> length bs = k
    \<and> sw_handed w' = sw_handed w @ zip (map release_entry_for (take k ids)) bs"
  using assms
proof (induction ids arbitrary: w)
  case (Cons a ids)
  let ?ops = "model_ops (with_raft E) svc"
  obtain w1 leads where w1: "op_is_leader ?ops w = (w1, leads)" by fastforce
  show ?case
  proof (cases leads)
    case False
    with Cons.prems w1 model.quiet_eq(1)[OF w1] show ?thesis by (intro exI[of _ 0]) simp
  next
    case True
    then obtain w2 i where w2: "op_propose ?ops (release_entry_for a) w1 = Some (w2, i)"
      using Cons.prems w1 by (auto split: Option.bind_splits)
    obtain w3 where w3: "sweep_loop (with_raft E) svc ids w3 = Some w'" "sw_handed w3 = sw_handed w2"
    proof (cases i)
      case None
      with Cons.prems w1 True w2 that show ?thesis by simp
    next
      case (Some k)
      then obtain w3 b where "op_wait_applied ?ops k w2 = Some (w3, b)" "sweep_loop (with_raft E) svc ids w3 = Some w'"
        using Cons.prems w1 True w2 by (auto split: Option.bind_splits)
      with that model.wait_applied_handed show ?thesis by blast
    qed
    from Cons.IH[OF w3(1)] obtain k bs where "k \<le> length ids" "length bs = k"
      "sw_handed w' = sw_handed w3 @ zip (map release_entry_for (take k ids)) bs" by blast
    with w3(2) model.propose_handed[OF w2] model.quiet_eq(1)[OF w1] show ?thesis
      by (intro exI[of _ "Suc k"] exI[of _ "(i \<noteq> None) # bs"]) simp
  qed
qed simp

end
