(* ===== verification/ServiceProps.thy ===== *)
theory ServiceProps
  imports NodeMain RaftRuns
begin

text \<open>
  The properties of the lock service, of the proxy and of the programs that start them.
\<close>

section \<open>The lock service\<close>


text \<open>
  The example: the node is leader but no longer running, so that the proposal fails at once.
\<close>

definition ex_service :: LockServiceImpl where
  "ex_service = \<lparr>svc_node_id = ''A'', svc_theta = Fin 1, svc_lock_hold_ms = 0, svc_raft_propose_timeout_ms = 5000,
     svc_qdrant_host = ''q'', svc_qdrant_port = ''6333'', svc_qdrant_collection = ''c''\<rparr>"

definition ex_env :: service_env where
  "ex_env = \<lparr>se_has_raft = True, se_fpu = exact_fpu, se_layout = (\<lambda>_. []), se_clock = int, se_node = (\<lambda>k n. n),
     se_table = (\<lambda>k t. t), se_rounds = (\<lambda>k. []), se_applied = (\<lambda>k. []), se_sweep = (\<lambda>k t. t), se_waits = (\<lambda>k. []),
     se_http = (\<lambda>k. \<lparr>hs_addresses = None, hs_sends = [], hs_recvs = []\<rparr>), se_fmt = (\<lambda>x. [])\<rparr>"

definition ex_world :: service_world where
  "ex_world = \<lparr>sw_node = (node_A 3)\<lparr>rn_running := False\<rparr>, sw_table = new_ActiveLockTable, sw_calls = 0, sw_handed = []\<rparr>"





text \<open>JSON escaping round trip. A JSON string reader that starts after the opening quote reads the
  escaped text back to the original, stops at the quote the service wrote and leaves the rest of the
  document untouched: no agent id, file name or payload can break out of its field.\<close>

theorem escape_json_roundtrip: "read_json_string (escape_json s @ CHR 0x22 # rest) = Some (s, rest)"
  by (rule read_escape)

text \<open>
  Point identifiers. For a timestamp below 2 to the 41 milliseconds the identifier is a
  non-negative 63-bit number whose upper part is the timestamp and whose low 22 bits are the low bits of
  the agent's hash; so two requests of different milliseconds never share an identifier.\<close>

theorem point_id_layout:
  assumes "0 \<le> ts" "ts < 2 ^ 41"
  shows "make_numeric_point_id a ts div 2 ^ 22 = ts
    \<and> make_numeric_point_id a ts mod 2 ^ 22 = int (unat (take_bit 22 (fnv_loop fnv_offset a)))
    \<and> 0 \<le> make_numeric_point_id a ts \<and> make_numeric_point_id a ts < 2 ^ 63"
proof -
  define h where "h = unat (take_bit 22 (fnv_loop fnv_offset a))"
  have "h < 2 ^ 22" unfolding h_def unsigned_take_bit_eq by (rule take_bit_nat_less_exp)
  then show ?thesis
    using assms unfolding point_id_split[OF assms] h_def[symmetric] by (simp add: mod_pos_pos_trivial)
qed

theorem point_id_layout_witness: "make_numeric_point_id ''agent'' 1700000000000 div 2 ^ 22 = 1700000000000"
  using point_id_layout[of 1700000000000 "''agent''"] by simp

text \<open>C23: the HTTP exchange. A call that returns has closed every socket it opened and has sent a prefix of
  the request; when it reports success it has sent the whole request and read a positive status code.\<close>

theorem http_exchange_clean:
  assumes "send_http_json svc script method target body = Some r"
  shows "hr_open_sockets r = 0 \<and> prefix (hr_wire r) (http_request_text svc method target body)
    \<and> (hr_ok r \<longrightarrow> hr_wire r = http_request_text svc method target body \<and> 0 < hr_status_code r)"
proof (cases "hs_addresses script")
  case None
  with assms show ?thesis by (auto simp: send_http_json_def)
next
  case (Some as)
  obtain ok n where c: "connect_loop as 0 = (ok, n)" by fastforce
  note n = connect_loop_open[OF c]
  show ?thesis
  proof (cases ok)
    case False
    with assms Some c n show ?thesis by (auto simp: send_http_json_def)
  next
    case True
    then obtain sent wire where s: "send_all (http_request_text svc method target body) (hs_sends script) = Some (sent, wire)"
      using assms Some c by (auto simp: send_http_json_def split: Option.bind_splits)
    have "prefix wire (http_request_text svc method target body)" "sent \<longrightarrow> wire = http_request_text svc method target body"
      using send_all_loop_wire[OF s[unfolded send_all_def]] by (auto simp: take_is_prefix)
    with assms Some c n True s show ?thesis
      by (auto simp: send_http_json_def Let_def split: Option.bind_splits if_splits prod.splits)
  qed
qed

theorem http_exchange_clean_witness:
  "\<exists>r. send_http_json ex_service \<lparr>hs_addresses = Some [SocketFails, ConnectFails, Connects], hs_sends = [10, 0], hs_recvs = []\<rparr>
       ''PUT'' ''/t'' [] = Some r \<and> hr_open_sockets r = 0"
proof -
  obtain r where "send_http_json ex_service \<lparr>hs_addresses = Some [SocketFails, ConnectFails, Connects], hs_sends = [10, 0], hs_recvs = []\<rparr>
       ''PUT'' ''/t'' [] = Some r"
    by (simp add: send_http_json_def send_all_def send_all_loop.simps http_request_text_def ex_service_def crlf_def)
  with http_exchange_clean[OF this] show ?thesis by blast
qed

section \<open>The proxy\<close>

text \<open>Forwarding. \<^verbatim>\<open>ForwardWithLeaderRetry\<close> sends the request at most three times, to a non-empty
  first target; it sends it again only after NOT_LEADER, UNAVAILABLE or DEADLINE_EXCEEDED. What it
  returns is the status of the last call, or UNAVAILABLE when there was no leader or three retryable
  answers; after success the remembered leader is the node that answered.\<close>

theorem forwarding_bounded:
  assumes "ForwardWithLeaderRetry ops q p w = (p', w', r, st, calls)"
  shows "length calls \<le> 3 \<and> (\<forall>c\<in>set (butlast calls). retryable (snd c))
    \<and> (if r = None then st_code st = UNAVAILABLE \<and> (calls = [] \<or> length calls = 3)
       else calls \<noteq> [] \<and> st = snd (last calls) \<and> fst (hd calls) \<noteq> [])
    \<and> (status_ok st \<longrightarrow> calls \<noteq> [] \<and> px_current_leader p' = fst (last calls))"
proof -
  obtain p1 w1 l where f: "RefreshLeader ops p w = (p1, w1, l)" by (metis prod_cases3)
  let ?t = "if l = [] then CurrentLeader p1 else l"
  show ?thesis
  proof (cases "?t = []")
    case True
    then show ?thesis using assms f by (auto simp: ForwardWithLeaderRetry_def Let_def status_ok_def split: if_splits)
  next
    case False
    then have "forward_loop ops q 3 ?t p1 w1 = (p', w', r, st, calls)"
      using assms f by (auto simp: ForwardWithLeaderRetry_def Let_def simp del: forward_loop.simps split: if_splits)
    from forward_loop_calls[OF this] False show ?thesis by (auto simp: exhausted_def split: if_splits)
  qed
qed

text \<open>The example: the first backend is no longer leader and redirects to the second.\<close>

definition ex_proxy_ops :: "(nat, string, bool) proxy_ops" where
  "ex_proxy_ops = \<lparr>
     po_get_leader = (\<lambda>c d w. (w + 1, Status_OK, \<lparr>li_leader_id = ''A'', li_leader_address = ''a:1'', li_current_term = 1, li_is_leader = True\<rparr>)),
     po_ping = (\<lambda>c d f w. (w, Status_OK, [])),
     po_call = (\<lambda>c d q w. if c = 0 then (w + 1, False, \<lparr>st_code = FAILED_PRECONDITION, st_message = ''NOT_LEADER''\<rparr>, [(''leader-address'', ''b:1'')])
                          else (w + 1, True, Status_OK, []))\<rparr>"

theorem forwarding_bounded_witness:
  "\<exists>p' w' calls. ForwardWithLeaderRetry ex_proxy_ops ''x'' (new_ProxyServiceImpl [''a:1''] 100 35000 750) 0
       = (p', w', Some True, Status_OK, calls) \<and> length calls \<le> 3 \<and> px_current_leader p' = fst (last calls)"
proof -
  obtain p' w' calls where run: "ForwardWithLeaderRetry ex_proxy_ops ''x'' (new_ProxyServiceImpl [''a:1''] 100 35000 750) 0
       = (p', w', Some True, Status_OK, calls)"
    by (simp add: ForwardWithLeaderRetry_def RefreshLeader_def RaftStubFor_def LockStubFor_def ChannelFor_def ex_proxy_ops_def
        new_ProxyServiceImpl_def SetCurrentLeader_def ExtractLeaderRedirect_def Status_OK_def status_ok_def eval_nat_numeral Let_def)
  from forwarding_bounded[OF run] run show ?thesis by (auto simp: status_ok_def Status_OK_def)
qed

section \<open>The programs\<close>

text \<open>
  Numeric settings stay in range. Whatever the environment holds, every integer setting of the node
  and of the proxy lies in its documented range, no peer or backend address is empty or contains white
  space or a comma.\<close>

theorem settings_in_range:
  "let c = main_config F env; rc = nc_raft_config c in
     10 \<le> heartbeat_ms rc \<and> heartbeat_ms rc \<le> 5000
   \<and> 20 \<le> election_timeout_min_ms rc \<and> election_timeout_min_ms rc \<le> 30000
   \<and> 20 \<le> election_timeout_max_ms rc \<and> election_timeout_max_ms rc \<le> 30000
   \<and> 20 \<le> rpc_timeout_ms rc \<and> rpc_timeout_ms rc \<le> 30000
   \<and> 0 \<le> svc_lock_hold_ms (nc_service c) \<and> svc_lock_hold_ms (nc_service c) \<le> 600000
   \<and> 50 \<le> svc_raft_propose_timeout_ms (nc_service c) \<and> svc_raft_propose_timeout_ms (nc_service c) \<le> 600000
   \<and> list_all (\<lambda>a. a \<noteq> [] \<and> list_all (\<lambda>ch. \<not> isspace ch \<and> ch \<noteq> CHR '','') a) (nc_peer_addresses c)"
  using read_int_range[of 10 75 5000 env "''HEARTBEAT_MS''"] read_int_range[of 20 600 30000 env "''ELECTION_TIMEOUT_MIN_MS''"]
    read_int_range[of 20 1000 30000 env "''ELECTION_TIMEOUT_MAX_MS''"] read_int_range[of 20 150 30000 env "''RAFT_RPC_TIMEOUT_MS''"]
    read_int_range[of 0 0 600000 env "''LOCK_HOLD_MS''"] read_int_range[of 50 5000 600000 env "''RAFT_PROPOSE_TIMEOUT_MS''"]
  by (auto simp: main_config_def Let_def list_all_iff dest: split_csv_item)

text \<open>A threshold of NaN is accepted and switches exclusion off. \<^verbatim>\<open>THETA=nan\<close> passes the range test of
  \<^verbatim>\<open>read_float_from_env\<close>, because both comparisons are false on NaN, and becomes the node's
  threshold; with it the conflict search finds no conflict, whatever locks are held.\<close>

theorem nan_theta_accepted:
  "svc_theta (nc_service (main_config F (\<lambda>k. if k = ''THETA'' then Some ''nan'' else None))) = NaN
   \<and> ct_lock (find_conflict_locked F e
        (svc_theta (nc_service (main_config F (\<lambda>k. if k = ''THETA'' then Some ''nan'' else None)))) t) = None"
proof -
  have "strtof F ''nan'' = Some (NaN, [])"
    by (simp add: strtof_def isspace_def read_sign_def has_prefix_ci_def lower_def tolower_def nan_tail_def negate_def Let_def)
  then show ?thesis
    using find_conflict_None_iff[of F e NaN t]
    by (simp add: main_config_def read_float_from_env_def Let_def conflicts_def)
qed

text \<open>C14: replicas agree. A replica that no request waits on, run through the apply thread, ends with the
  regions that the abstract map from agents to regions gives for the applied entries in log order,
  whatever the layout of its hash map; so replicas with the same applied prefix hold the same locks.\<close>

theorem replica_applies_log:
  assumes "replica_ok t" "rn_running n" "0 \<le> rn_last_applied n" "rn_last_applied n \<le> rn_commit_index n"
    and "rn_commit_index n < int (length (rn_log n))"
  shows "\<exists>n' t'. ApplyLoop (on_commit F h) n t = Inr (n', t') \<and> rn_last_applied n' = rn_commit_index n \<and> replica_ok t'
    \<and> held_regions t' = fold apply_spec (map (\<lambda>i. rn_log n ! nat i) [rn_last_applied n + 1..rn_commit_index n]) (held_regions t)"
  using ApplyLoop_fold[OF assms(2-5), of "on_commit F h" t] replica.fold_view[OF assms(1)] by simp

theorem replica_applies_log_witness:
  "\<exists>n' t'. ApplyLoop (on_commit exact_fpu (\<lambda>_. [])) (node_C 7) new_ActiveLockTable = Inr (n', t')
     \<and> held_regions t' ''y'' = Some ([], Fin 0)"
proof -
  have f: "rn_running (node_C 7)" "rn_last_applied (node_C 7) = 0" "rn_commit_index (node_C 7) = 1"
    "rn_log (node_C 7) = [sentinel, entry_y]" by (simp_all add: run_defs)
  have ok: "replica_ok new_ActiveLockTable" by (simp add: replica_ok_def new_ActiveLockTable_def queued_def)
  have "\<exists>n' t'. ApplyLoop (on_commit exact_fpu (\<lambda>_. [])) (node_C 7) new_ActiveLockTable = Inr (n', t')
      \<and> rn_last_applied n' = rn_commit_index (node_C 7) \<and> replica_ok t'
      \<and> held_regions t' = fold apply_spec (map (\<lambda>i. rn_log (node_C 7) ! nat i)
          [rn_last_applied (node_C 7) + 1..rn_commit_index (node_C 7)]) (held_regions new_ActiveLockTable)"
    by (rule replica_applies_log[OF ok]) (simp_all add: f)
  then show ?thesis by (auto simp: f apply_spec_def entry_y_def default_LogEntry_def)
qed

text \<open>The sweep reopens the gate. When the leader-change callback returns, the admission gate is open
  again, and what it handed to Raft is RELEASE entries only, for a prefix of the agents that held slots
  when it began, in the map's order.\<close>

theorem sweep_reopens_gate:
  assumes "leader_sweep (with_raft E) svc w = Some w'"
  shows "\<not> sweep_in_progress (sw_table w')
    \<and> (\<exists>k bs. length bs = k \<and> k \<le> length (active (sw_table w))
        \<and> sw_handed w' = sw_handed w @ zip (map release_entry_for (take k (map fst (active (sw_table w))))) bs)"
proof (cases "active (sw_table w) = []")
  case True
  with assms show ?thesis by (auto simp: leader_sweep_def begin_leader_sweep_def end_leader_sweep_def)
next
  case False
  let ?w1 = "w\<lparr>sw_table := (sw_table w)\<lparr>sweep_in_progress := True\<rparr>\<rparr>"
  obtain w2 where w2: "sweep_loop (with_raft E) svc (map fst (active (sw_table w))) ?w1 = Some w2"
    "w' = w2\<lparr>sw_table := end_leader_sweep (sw_table w2)\<rparr>"
    using assms False by (auto simp: leader_sweep_def begin_leader_sweep_def split: Option.bind_splits)
  from sweep_loop_handed[OF w2(1)] w2(2) show ?thesis by (auto simp: end_leader_sweep_def)
qed

theorem sweep_reopens_gate_witness:
  "\<exists>w'. leader_sweep (with_raft ex_env) ex_service ex_world = Some w' \<and> \<not> sweep_in_progress (sw_table w')"
proof -
  obtain w' where "leader_sweep (with_raft ex_env) ex_service ex_world = Some w'"
    by (simp add: leader_sweep_def begin_leader_sweep_def ex_world_def new_ActiveLockTable_def)
  with sweep_reopens_gate[OF this] show ?thesis by blast
qed

end
