(* ===== verification/BenchText.thy ===== *)
theory BenchText
  imports NodeMain
begin

text \<open>
  The benchmark runner's text layer (\<^verbatim>\<open>src/benchmark_runner.cpp\<close>, up to \<^verbatim>\<open>compose_command\<close>): string
  helpers, its configuration, the HTTP client that throws instead of returning a flag, and the
  hand-written JSON readers. A \<^verbatim>\<open>throw\<close> is a left value of a sum; \<open>Undefined\<close> is a read outside a
  \<^verbatim>\<open>std::vector\<close>, \<open>NullDereference\<close> the use of a null pointer, \<open>Uncaught\<close> an exception that leaves the
  function of a thread, which calls \<^verbatim>\<open>std::terminate\<close>.
\<close>

section \<open>Exceptions\<close>

datatype exn = RuntimeError string | InvalidArgument | OutOfRange | Undefined ub | NullDereference | Uncaught

type_synonym 'a outcome = "exn + 'a"

definition fail :: "string \<Rightarrow> 'a outcome" where
  "fail message = Inl (RuntimeError message)"

text \<open>
  \<^verbatim>\<open>std::stoi\<close> and \<^verbatim>\<open>std::stof\<close>. Whether \<^verbatim>\<open>strtof\<close> reports \<^verbatim>\<open>ERANGE\<close> on an underflow is up to the
  implementation, so the report is a parameter.
\<close>

definition stoi :: "string \<Rightarrow> int outcome" where
  "stoi s = (case strtol s of
      None \<Rightarrow> Inl InvalidArgument
    | Some (v, rest) \<Rightarrow> if v < - (2 ^ 31) \<or> v > 2 ^ 31 - 1 then Inl OutOfRange else Inr v)"

definition stof :: "fpu \<Rightarrow> (string \<Rightarrow> bool) \<Rightarrow> string \<Rightarrow> fl outcome" where
  "stof F erange s = (case strtof F s of
      None \<Rightarrow> Inl InvalidArgument
    | Some (v, rest) \<Rightarrow> if erange s then Inl OutOfRange else Inr v)"

section \<open>String helpers\<close>

definition lowercase_copy :: "string \<Rightarrow> string" where
  "lowercase_copy text = map tolower text"

definition trim_copy :: "string \<Rightarrow> string" where
  "trim_copy input = rev (dropWhile isspace (rev (dropWhile isspace input)))"

definition squote :: char where "squote = CHR 0x27"

fun shell_quote_body :: "string \<Rightarrow> string" where
  "shell_quote_body [] = []"
| "shell_quote_body (c # s) =
     (if c = squote then [squote, CHR 0x5C, squote, squote] else [c]) @ shell_quote_body s"

definition shell_quote :: "string \<Rightarrow> string" where
  "shell_quote input = squote # shell_quote_body input @ [squote]"

definition isalpha :: "char \<Rightarrow> bool" where
  "isalpha c = (let n = (of_char (tolower c) :: nat) in 97 \<le> n \<and> n \<le> 122)"

definition isdigit :: "char \<Rightarrow> bool" where
  "isdigit c = (digit_of c \<noteq> None)"

definition isalnum :: "char \<Rightarrow> bool" where
  "isalnum c = (isalpha c \<or> isdigit c)"

definition slug_step :: "string \<Rightarrow> char \<Rightarrow> string" where
  "slug_step output c =
     (if isalnum c then output @ [tolower c]
      else if c = CHR '' '' \<or> c = CHR ''-'' \<or> c = CHR ''_'' then
        (if output = [] \<or> last output = CHR ''_'' then output else output @ [CHR ''_''])
      else output)"

definition slugify :: "string \<Rightarrow> string" where
  "slugify text = rev (dropWhile (\<lambda>c. c = CHR ''_'') (rev (foldl slug_step [] text)))"

definition role_prefix_for_source_file :: "string \<Rightarrow> string" where
  "role_prefix_for_source_file source_file =
     (if source_file = ''A.json'' then ''sustainability_agent''
      else if source_file = ''B.json'' then ''safety_agent''
      else if source_file = ''C.json'' then ''cost_agent''
      else if source_file = ''D.json'' then ''construction_agent''
      else if source_file = ''E.json'' then ''client_agent''
      else ''agent'')"

section \<open>Configuration\<close>

record Config =
  cfg_project_root :: string
  cfg_input_dir :: string
  cfg_embedding_image :: string
  cfg_model_id :: string
  cfg_collection_prefix :: string
  cfg_embedding_host :: string
  cfg_embedding_port :: string
  cfg_qdrant_host :: string
  cfg_qdrant_port :: string
  cfg_dscc_target :: string
  cfg_node_targets :: "string list"
  cfg_node_service_names :: "string list"
  cfg_teardown_on_exit :: bool
  cfg_output_path :: string
  cfg_run_mode :: string
  cfg_embedding_profile :: string
  cfg_matrix_output_path :: string
  cfg_matrix_profile_filter :: string
  cfg_matrix_theta_filter :: fl
  cfg_soak_duration_min :: int
  cfg_soak_snapshot_sec :: int
  cfg_soak_theta :: fl
  cfg_soak_lock_hold_ms :: int
  cfg_soak_output_path :: string

text \<open>The argument is the build-time constant \<^verbatim>\<open>DSLM_PROJECT_ROOT\<close>.\<close>

definition default_Config :: "string \<Rightarrow> Config" where
  "default_Config project_root = \<lparr>cfg_project_root = project_root, cfg_input_dir = project_root @ ''/demo_inputs'',
     cfg_embedding_image = ''ollama/ollama:latest'', cfg_model_id = ''all-minilm:latest'',
     cfg_collection_prefix = ''dscc_curated'', cfg_embedding_host = ''127.0.0.1'', cfg_embedding_port = ''7997'',
     cfg_qdrant_host = ''127.0.0.1'', cfg_qdrant_port = ''6333'', cfg_dscc_target = ''127.0.0.1:50050'',
     cfg_node_targets = [''127.0.0.1:50051'', ''127.0.0.1:50052'', ''127.0.0.1:50053'', ''127.0.0.1:50054'', ''127.0.0.1:50055''],
     cfg_node_service_names = [''dscc-node-1'', ''dscc-node-2'', ''dscc-node-3'', ''dscc-node-4'', ''dscc-node-5''],
     cfg_teardown_on_exit = True, cfg_output_path = [], cfg_run_mode = ''single'', cfg_embedding_profile = ''ollama'',
     cfg_matrix_output_path = [], cfg_matrix_profile_filter = [], cfg_matrix_theta_filter = Fin (- 1),
     cfg_soak_duration_min = 120, cfg_soak_snapshot_sec = 60, cfg_soak_theta = Fin (3 / 4),
     cfg_soak_lock_hold_ms = 500, cfg_soak_output_path = []\<rparr>"

record EmbeddingProfile =
  ep_name :: string
  ep_model_id :: string
  ep_image :: string

definition kProfiles :: "EmbeddingProfile list" where
  "kProfiles =
     [\<lparr>ep_name = ''ollama'', ep_model_id = ''all-minilm:latest'', ep_image = ''ollama/ollama:latest''\<rparr>,
      \<lparr>ep_name = ''bge'', ep_model_id = ''bge-m3:latest'', ep_image = ''ollama/ollama:latest''\<rparr>,
      \<lparr>ep_name = ''qwen'', ep_model_id = ''qwen3-embedding:0.6b'', ep_image = ''ollama/ollama:latest''\<rparr>]"

definition kMatrixThetas :: "fpu \<Rightarrow> fl list" where
  "kMatrixThetas F = [rnd_float F (55 / 100), rnd_float F (75 / 100), rnd_float F (95 / 100)]"

definition getenv_flag :: "environ \<Rightarrow> string \<Rightarrow> bool \<Rightarrow> bool" where
  "getenv_flag env key fallback =
     (case env key of
        None \<Rightarrow> fallback
      | Some value \<Rightarrow>
          let normalized = lowercase_copy value
          in normalized = ''1'' \<or> normalized = ''true'' \<or> normalized = ''yes'')"

definition override_by :: "(string \<Rightarrow> 'a outcome) \<Rightarrow> environ \<Rightarrow> string \<Rightarrow> 'a \<Rightarrow> 'a outcome" where
  "override_by parse env key dflt =
     (let v = getenv_or_default env key [] in if v \<noteq> [] then parse v else Inr dflt)"

fun select_profile :: "EmbeddingProfile list \<Rightarrow> string \<Rightarrow> Config \<Rightarrow> Config" where
  "select_profile [] profile_name config = config"
| "select_profile (profile # profiles) profile_name config =
     (if ep_name profile = profile_name then
        config\<lparr>cfg_embedding_profile := ep_name profile, cfg_model_id := ep_model_id profile,
          cfg_embedding_image := ep_image profile\<rparr>
      else select_profile profiles profile_name config)"

definition load_config :: "fpu \<Rightarrow> (string \<Rightarrow> bool) \<Rightarrow> string \<Rightarrow> environ \<Rightarrow> Config outcome" where
  "load_config F erange project_root env =
     (let c0 = default_Config project_root;
          c1 = c0\<lparr>
            cfg_embedding_image := getenv_or_default env ''EMBEDDING_IMAGE'' (cfg_embedding_image c0),
            cfg_model_id := getenv_or_default env ''EMBEDDING_MODEL_ID'' (cfg_model_id c0),
            cfg_collection_prefix := getenv_or_default env ''DSLM_BENCH_COLLECTION_PREFIX'' (cfg_collection_prefix c0),
            cfg_teardown_on_exit := getenv_flag env ''E2E_TEARDOWN'' True,
            cfg_output_path := getenv_or_default env ''DSLM_BENCH_OUTPUT'' [],
            cfg_run_mode := getenv_or_default env ''DSLM_RUN_MODE'' ''single'',
            cfg_matrix_output_path := getenv_or_default env ''DSLM_MATRIX_OUTPUT'' []\<rparr>
      in rbind (override_by stoi env ''DSLM_SOAK_DURATION_MIN'' (cfg_soak_duration_min c1)) (\<lambda>duration.
         rbind (override_by stoi env ''DSLM_SOAK_SNAPSHOT_SEC'' (cfg_soak_snapshot_sec c1)) (\<lambda>snapshot.
         rbind (override_by (stof F erange) env ''DSLM_SOAK_THETA'' (cfg_soak_theta c1)) (\<lambda>theta.
         rbind (override_by stoi env ''DSLM_SOAK_LOCK_HOLD_MS'' (cfg_soak_lock_hold_ms c1)) (\<lambda>hold.
         rbind (override_by (stof F erange) env ''DSLM_MATRIX_THETA'' (cfg_matrix_theta_filter c1)) (\<lambda>theta_filter.
           let c2 = c1\<lparr>cfg_soak_duration_min := duration, cfg_soak_snapshot_sec := snapshot, cfg_soak_theta := theta,
                 cfg_soak_lock_hold_ms := hold, cfg_soak_output_path := getenv_or_default env ''DSLM_SOAK_OUTPUT'' [],
                 cfg_matrix_profile_filter := getenv_or_default env ''DSLM_MATRIX_PROFILE'' [],
                 cfg_matrix_theta_filter := theta_filter\<rparr>;
               profile_name = getenv_or_default env ''EMBEDDING_PROFILE'' []
           in Inr (if profile_name \<noteq> [] then select_profile kProfiles profile_name c2 else c2)))))))"

definition compose_command :: "Config \<Rightarrow> string \<Rightarrow> string" where
  "compose_command config args = ''cd '' @ shell_quote (cfg_project_root config) @ '' && docker compose '' @ args"

section \<open>HTTP\<close>

record HttpResponse =
  http_status_code :: int
  http_body :: string

definition bench_request_text :: "string \<Rightarrow> string \<Rightarrow> string \<Rightarrow> string \<Rightarrow> string \<Rightarrow> string \<Rightarrow> string" where
  "bench_request_text host port method target body content_type =
     method @ '' '' @ target @ '' HTTP/1.1'' @ crlf
     @ ''Host: '' @ host @ '':'' @ port @ crlf
     @ ''Connection: close'' @ crlf
     @ (if body \<noteq> [] then ''Content-Type: '' @ content_type @ crlf
          @ ''Content-Length: '' @ nat_to_string (length body) @ crlf else [])
     @ crlf @ body"

definition parse_http_response :: "string \<Rightarrow> string \<Rightarrow> string \<Rightarrow> HttpResponse outcome" where
  "parse_http_response host port raw =
     (case str_find raw (crlf @ crlf) of
        None \<Rightarrow> fail (''malformed HTTP response from '' @ host @ '':'' @ port)
      | Some header_end \<Rightarrow>
          let (http_version, status_code) = parse_status_line (take header_end raw)
          in if http_version = [] \<or> status_code \<le> 0
             then fail (''could not parse HTTP status from '' @ host @ '':'' @ port)
             else Inr \<lparr>http_status_code = status_code, http_body = drop (header_end + 4) raw\<rparr>)"

text \<open>The number is that of the sockets left open; the second component the bytes on the wire.\<close>

definition send_http_request ::
  "http_script \<Rightarrow> string \<Rightarrow> string \<Rightarrow> string \<Rightarrow> string \<Rightarrow> string \<Rightarrow> string
    \<Rightarrow> (HttpResponse outcome \<times> string \<times> nat) option" where
  "send_http_request script host port method target body content_type =
     (case hs_addresses script of
        None \<Rightarrow> Some (fail (''DNS resolution failed for '' @ host @ '':'' @ port), [], 0)
      | Some addresses \<Rightarrow>
          (case connect_loop addresses 0 of
             (False, n) \<Rightarrow> Some (fail (''connect failed for '' @ host @ '':'' @ port), [], n)
           | (True, n) \<Rightarrow> do {
               (sent, wire) \<leftarrow> send_all (bench_request_text host port method target body content_type) (hs_sends script);
               if \<not> sent then Some (fail (''send failed for '' @ host @ '':'' @ port), wire, n - 1)
               else do {
                 (received, raw) \<leftarrow> recv_loop (hs_recvs script) [];
                 if \<not> received then Some (fail (''recv failed for '' @ host @ '':'' @ port), wire, n - 1)
                 else Some (parse_http_response host port raw, wire, n - 1) } }))"

section \<open>JSON readers\<close>

text \<open>\<^verbatim>\<open>s.find(p, pos)\<close>.\<close>

definition find_at :: "string \<Rightarrow> string \<Rightarrow> nat \<Rightarrow> nat option" where
  "find_at s p pos = (if pos \<le> length s then map_option (\<lambda>i. pos + i) (str_find (drop pos s) p) else None)"

definition parse_float_token :: "fpu \<Rightarrow> string \<Rightarrow> fl outcome" where
  "parse_float_token F token =
     (case strtof F token of
        None \<Rightarrow> fail (''could not parse float token: '' @ token)
      | Some (v, rest) \<Rightarrow> Inr v)"

fun array_end_loop :: "nat \<Rightarrow> int \<Rightarrow> string \<Rightarrow> nat option" where
  "array_end_loop pos depth [] = None"
| "array_end_loop pos depth (c # s) =
     (if c = CHR ''['' then array_end_loop (Suc pos) (depth + 1) s
      else if c = CHR '']'' then
        (if depth - 1 = 0 then Some pos else array_end_loop (Suc pos) (depth - 1) s)
      else array_end_loop (Suc pos) depth s)"

fun token_loop :: "fpu \<Rightarrow> string \<Rightarrow> fl list \<Rightarrow> string \<Rightarrow> fl list outcome" where
  "token_loop F token values [] =
     (if token \<noteq> [] then rbind (parse_float_token F token) (\<lambda>v. Inr (values @ [v])) else Inr values)"
| "token_loop F token values (c # s) =
     (if c = CHR '','' \<or> isspace c then
        (if token \<noteq> [] then rbind (parse_float_token F token) (\<lambda>v. token_loop F [] (values @ [v]) s)
         else token_loop F token values s)
      else token_loop F (token @ [c]) values s)"

definition parse_embedding_array :: "fpu \<Rightarrow> string \<Rightarrow> fl list outcome" where
  "parse_embedding_array F body =
     (case str_find body (quoted ''embedding'') of
        None \<Rightarrow> fail ''embedding response missing embedding field''
      | Some key_pos \<Rightarrow>
          (case find_at body ''['' key_pos of
             None \<Rightarrow> fail ''embedding field malformed''
           | Some array_start \<Rightarrow>
               (case array_end_loop (array_start + 1) 1 (drop (array_start + 1) body) of
                  None \<Rightarrow> fail ''embedding array did not terminate''
                | Some array_end \<Rightarrow>
                    rbind (token_loop F [] [] (take (array_end - (array_start + 1)) (drop (array_start + 1) body)))
                      (\<lambda>values. if values = [] then fail ''embedding response returned empty vector''
                                else Inr values))))"

text \<open>The file's content is an argument; \<open>None\<close> is a file that cannot be opened.\<close>

definition read_text_file :: "string \<Rightarrow> string option \<Rightarrow> string outcome" where
  "read_text_file path contents =
     (case contents of
        None \<Rightarrow> fail (''could not open file '' @ path)
      | Some raw \<Rightarrow>
          let text = rev (dropWhile (\<lambda>c. c = CHR 0x0A \<or> c = CHR 0x0D \<or> c = CHR '' '') (rev raw))
          in if text = [] then fail (''file was empty: '' @ path) else Inr text)"

fun json_string_loop :: "bool \<Rightarrow> string \<Rightarrow> string \<Rightarrow> string option" where
  "json_string_loop escaping value [] = None"
| "json_string_loop escaping value (ch # s) =
     (if escaping then json_string_loop False (value @ [if ch = CHR ''n'' then CHR 0x0A else ch]) s
      else if ch = CHR 0x5C then json_string_loop True value s
      else if ch = CHR 0x22 then Some value
      else json_string_loop False (value @ [ch]) s)"

definition parse_json_string_field :: "string \<Rightarrow> string \<Rightarrow> string outcome" where
  "parse_json_string_field body key =
     (let quoted_key = quoted key in
      case str_find body quoted_key of
        None \<Rightarrow> fail (''missing JSON string field: '' @ key)
      | Some key_pos \<Rightarrow>
          (case find_at body '':'' (key_pos + length quoted_key) of
             None \<Rightarrow> fail (''malformed JSON string field: '' @ key)
           | Some colon \<Rightarrow>
               (case find_at body dq (colon + 1) of
                  None \<Rightarrow> fail (''malformed JSON string field: '' @ key)
                | Some quote_pos \<Rightarrow>
                    (case json_string_loop False [] (drop (quote_pos + 1) body) of
                       None \<Rightarrow> fail (''unterminated JSON string field: '' @ key)
                     | Some value \<Rightarrow> Inr value))))"

record schedule_scan =
  ss_in_string :: bool
  ss_escaping :: bool
  ss_object_depth :: int
  ss_object_start :: "nat option"
  ss_entries :: "string list"

text \<open>One character of the scan; \<open>None\<close> is the \<^verbatim>\<open>break\<close>.\<close>

definition schedule_char :: "string \<Rightarrow> nat \<Rightarrow> char \<Rightarrow> schedule_scan \<Rightarrow> schedule_scan option" where
  "schedule_char body i ch st =
     (if ss_escaping st then Some (st\<lparr>ss_escaping := False\<rparr>)
      else if ch = CHR 0x5C then Some (st\<lparr>ss_escaping := True\<rparr>)
      else if ch = CHR 0x22 then Some (st\<lparr>ss_in_string := \<not> ss_in_string st\<rparr>)
      else if ss_in_string st then Some st
      else if ch = CHR 0x7B then
        Some (st\<lparr>ss_object_start := if ss_object_depth st = 0 then Some i else ss_object_start st,
                 ss_object_depth := ss_object_depth st + 1\<rparr>)
      else if ch = CHR 0x7D then
        (if ss_object_depth st > 0 then
           let depth = ss_object_depth st - 1; st' = st\<lparr>ss_object_depth := depth\<rparr> in
           (case ss_object_start st of
              Some object_start \<Rightarrow>
                if depth = 0
                then Some (st'\<lparr>ss_entries := ss_entries st @ [take (i - object_start + 1) (drop object_start body)]\<rparr>)
                else Some st'
            | None \<Rightarrow> Some st')
         else Some st)
      else if ch = CHR '']'' \<and> ss_object_depth st = 0 then None
      else Some st)"

fun schedule_loop :: "string \<Rightarrow> nat \<Rightarrow> string \<Rightarrow> schedule_scan \<Rightarrow> schedule_scan" where
  "schedule_loop body i [] st = st"
| "schedule_loop body i (ch # s) st =
     (case schedule_char body i ch st of
        None \<Rightarrow> st
      | Some st' \<Rightarrow> schedule_loop body (Suc i) s st')"

definition parse_payload_schedule_entries :: "string \<Rightarrow> string list outcome" where
  "parse_payload_schedule_entries body =
     (let quoted_key = quoted ''payload_schedule'' in
      case str_find body quoted_key of
        None \<Rightarrow> Inr []
      | Some key_pos \<Rightarrow>
          (case find_at body ''['' (key_pos + length quoted_key) of
             None \<Rightarrow> fail ''malformed payload_schedule array''
           | Some array_start \<Rightarrow>
               Inr (ss_entries (schedule_loop body (array_start + 1) (drop (array_start + 1) body)
                 \<lparr>ss_in_string = False, ss_escaping = False, ss_object_depth = 0, ss_object_start = None,
                  ss_entries = []\<rparr>))))"

end
