(* ===== verification/BenchWorkload.thy ===== *)
theory BenchWorkload
  imports BenchText
begin

text \<open>
  The benchmark runner's scenarios (\<^verbatim>\<open>src/benchmark_runner.cpp\<close>, \<^verbatim>\<open>wait_for_http_service\<close> to
  \<^verbatim>\<open>build_workload\<close>): the services it waits for, the payload templates, the curated cases and the
  operations each case submits. Calls to the network, the clock and the file system go through a
  record of operations on the world; \<open>None\<close> is a call that has not returned.
\<close>

section \<open>Data\<close>

record LeaderObservation =
  lo_node_target :: string
  lo_service_name :: string
  lo_leader_address :: string
  lo_leader_id :: string
  lo_current_term :: int

record TemplateDocument =
  td_template_id :: string
  td_source_file :: string
  td_text :: string
  td_embedding :: "fl list"
  td_embedding_ms :: int

datatype BenchOperationType = kWrite | kRead

datatype ArrivalMode = kBurst | kStaggered

datatype ScenarioKind = kThunderingHerd | kSemanticInterleaving | kReadStarvationTrap | kPermissiveSieve
  | kStrictSieve | kGhostClient | kAlmostCollision | kQueueHopping | kMixedStagger | kReadStampede
  | kParaphraseGauntlet | kCrossDomainFlood | kWritePressureRatchet

record BenchmarkCase =
  bc_case_index :: int
  bc_kind :: ScenarioKind
  bc_name :: string
  bc_target :: string
  bc_node_count :: int
  bc_agent_count :: int
  bc_write_count :: int
  bc_read_count :: int
  bc_theta :: fl
  bc_lock_hold_ms :: int
  bc_arrival_mode :: ArrivalMode
  bc_arrival_gap_ms :: int
  bc_collection_name :: string

record BenchmarkOperation =
  bo_agent_id :: string
  bo_role_prefix :: string
  bo_template_id :: string
  bo_text :: string
  bo_embedding :: "fl list"
  bo_operation :: BenchOperationType
  bo_scheduled_offset_ms :: int

text \<open>A pointer to a template is \<open>None\<close> when it is null.\<close>

type_synonym doc_ptr = "TemplateDocument option"

record TemplateCatalog =
  tc_concept_a :: doc_ptr
  tc_concept_b :: doc_ptr
  tc_all :: "doc_ptr list"
  tc_concept_a_all :: "doc_ptr list"

fun operation_name :: "BenchOperationType \<Rightarrow> string" where
  "operation_name kRead = ''read''"
| "operation_name kWrite = ''write''"

fun operation_title :: "BenchOperationType \<Rightarrow> string" where
  "operation_title kRead = ''Read''"
| "operation_title kWrite = ''Write''"

fun to_proto_operation :: "BenchOperationType \<Rightarrow> OperationType" where
  "to_proto_operation kRead = OPERATION_TYPE_READ"
| "to_proto_operation kWrite = OPERATION_TYPE_WRITE"

definition arrival_mode_label :: "BenchmarkCase \<Rightarrow> string" where
  "arrival_mode_label spec =
     (if bc_arrival_mode spec = kBurst then ''Burst''
      else ''Staggered ('' @ to_string (bc_arrival_gap_ms spec) @ ''ms)'')"

section \<open>Services\<close>

record 'w bench_ops =
  bw_http :: "string \<Rightarrow> string \<Rightarrow> string \<Rightarrow> string \<Rightarrow> string \<Rightarrow> 'w \<Rightarrow> ('w \<times> HttpResponse outcome) option"
  bw_ping :: "string \<Rightarrow> string \<Rightarrow> 'w \<Rightarrow> ('w \<times> Status) option"
  bw_get_leader :: "string \<Rightarrow> 'w \<Rightarrow> ('w \<times> Status \<times> LeaderInfo) option"
  bw_now :: "'w \<Rightarrow> 'w \<times> int"
  bw_sleep :: "int \<Rightarrow> 'w \<Rightarrow> 'w"
  bw_exists :: "string \<Rightarrow> 'w \<Rightarrow> 'w \<times> bool"
  bw_read :: "string \<Rightarrow> 'w \<Rightarrow> 'w \<times> string option"

fun try_targets :: "'w bench_ops \<Rightarrow> string \<Rightarrow> string \<Rightarrow> string list \<Rightarrow> 'w \<Rightarrow> ('w \<times> bool) option" where
  "try_targets ops host port [] w = Some (w, False)"
| "try_targets ops host port (target # targets) w = do {
     (w1, response) \<leftarrow> bw_http ops host port ''GET'' target [] w;
     (case response of
        Inr r \<Rightarrow> if http_status_code r \<ge> 200 \<and> http_status_code r < 300 then Some (w1, True)
                 else try_targets ops host port targets w1
      | Inl e \<Rightarrow> try_targets ops host port targets w1) }"

fun wait_http_loop ::
  "'w bench_ops \<Rightarrow> string \<Rightarrow> string \<Rightarrow> string \<Rightarrow> string list \<Rightarrow> nat \<Rightarrow> int \<Rightarrow> 'w \<Rightarrow> ('w \<times> unit outcome) option" where
  "wait_http_loop ops name host port targets 0 sleep_ms w = Some (w, fail (''timed out waiting for '' @ name))"
| "wait_http_loop ops name host port targets (Suc attempts) sleep_ms w = do {
     (w1, up) \<leftarrow> try_targets ops host port targets w;
     if up then Some (w1, Inr ())
     else wait_http_loop ops name host port targets attempts sleep_ms (bw_sleep ops sleep_ms w1) }"

definition wait_for_http_service ::
  "'w bench_ops \<Rightarrow> string \<Rightarrow> string \<Rightarrow> string \<Rightarrow> string list \<Rightarrow> int \<Rightarrow> int \<Rightarrow> 'w \<Rightarrow> ('w \<times> unit outcome) option" where
  "wait_for_http_service ops name host port targets max_attempts sleep_ms w =
     wait_http_loop ops name host port targets (nat max_attempts) sleep_ms w"

definition wait_for_embedding_service :: "'w bench_ops \<Rightarrow> Config \<Rightarrow> 'w \<Rightarrow> ('w \<times> unit outcome) option" where
  "wait_for_embedding_service ops config w =
     wait_for_http_service ops ''embedding service'' (cfg_embedding_host config) (cfg_embedding_port config)
       [''/api/tags'', ''/v1/models'', ''/''] 120 1000 w"

definition ensure_ollama_model_available :: "'w bench_ops \<Rightarrow> Config \<Rightarrow> 'w \<Rightarrow> ('w \<times> unit outcome) option" where
  "ensure_ollama_model_available ops config w = do {
     (w1, response) \<leftarrow> bw_http ops (cfg_embedding_host config) (cfg_embedding_port config) ''POST'' ''/api/pull''
       (CHR 0x7B # quoted ''model'' @ '':'' @ quoted (escape_json (cfg_model_id config)) @ '',''
          @ quoted ''stream'' @ '':false'' @ [CHR 0x7D]) w;
     Some (w1, rbind response (\<lambda>r.
       if http_status_code r \<noteq> 200 then fail (''embedding model pull failed with status '' @ to_string (http_status_code r))
       else Inr ())) }"

fun wait_ping_loop :: "'w bench_ops \<Rightarrow> Config \<Rightarrow> nat \<Rightarrow> int \<Rightarrow> 'w \<Rightarrow> ('w \<times> unit outcome) option" where
  "wait_ping_loop ops config 0 sleep_ms w = Some (w, fail ''timed out waiting for DSCC proxy'')"
| "wait_ping_loop ops config (Suc attempts) sleep_ms w = do {
     (w1, status) \<leftarrow> bw_ping ops (cfg_dscc_target config) ''benchmark-runner'' w;
     if status_ok status then Some (w1, Inr ())
     else wait_ping_loop ops config attempts sleep_ms (bw_sleep ops sleep_ms w1) }"

definition wait_for_dscc_service :: "'w bench_ops \<Rightarrow> Config \<Rightarrow> int \<Rightarrow> int \<Rightarrow> 'w \<Rightarrow> ('w \<times> unit outcome) option" where
  "wait_for_dscc_service ops config max_attempts sleep_ms w = wait_ping_loop ops config (nat max_attempts) sleep_ms w"

definition elem_at :: "'a list \<Rightarrow> nat \<Rightarrow> 'a outcome" where
  "elem_at xs i = (case vec_at xs (int i) of Inl u \<Rightarrow> Inl (Undefined u) | Inr x \<Rightarrow> Inr x)"

fun service_name_loop :: "string list \<Rightarrow> string \<Rightarrow> nat \<Rightarrow> string list \<Rightarrow> string outcome" where
  "service_name_loop names target j [] = Inr []"
| "service_name_loop names target j (t # ts) =
     (if t = target then elem_at names j else service_name_loop names target (Suc j) ts)"

fun discover_leader ::
  "'w bench_ops \<Rightarrow> string list \<Rightarrow> Config \<Rightarrow> 'w \<Rightarrow> ('w \<times> LeaderObservation option outcome) option" where
  "discover_leader ops [] config w = Some (w, Inr None)"
| "discover_leader ops (target # targets) config w = do {
     (w1, status, response) \<leftarrow> bw_get_leader ops target w;
     if \<not> status_ok status then discover_leader ops targets config w1
     else if li_leader_address response \<noteq> [] then
       Some (w1, rbind (service_name_loop (cfg_node_service_names config) target 0 (cfg_node_targets config)) (\<lambda>name.
         Inr (Some \<lparr>lo_node_target = target, lo_service_name = name, lo_leader_address = li_leader_address response,
           lo_leader_id = li_leader_id response, lo_current_term = li_current_term response\<rparr>)))
     else discover_leader ops targets config w1 }"

partial_function (option) wait_leader_loop ::
  "'w bench_ops \<Rightarrow> string list \<Rightarrow> Config \<Rightarrow> int \<Rightarrow> 'w \<Rightarrow> ('w \<times> LeaderObservation outcome) option" where
  "wait_leader_loop ops targets config deadline w =
     (let (w1, now) = bw_now ops w in
      if now < deadline then do {
        (w2, leader) \<leftarrow> discover_leader ops targets config w1;
        (case leader of
           Inl e \<Rightarrow> Some (w2, Inl e)
         | Inr (Some observation) \<Rightarrow> Some (w2, Inr observation)
         | Inr None \<Rightarrow> wait_leader_loop ops targets config deadline (bw_sleep ops 100 w2)) }
      else Some (w1, fail ''timed out waiting for a leader''))"

definition wait_for_leader ::
  "'w bench_ops \<Rightarrow> string list \<Rightarrow> Config \<Rightarrow> int \<Rightarrow> 'w \<Rightarrow> ('w \<times> LeaderObservation outcome) option" where
  "wait_for_leader ops targets config timeout w =
     (let (w1, now) = bw_now ops w in wait_leader_loop ops targets config (now + timeout) w1)"

definition reset_qdrant_collection :: "'w bench_ops \<Rightarrow> Config \<Rightarrow> string \<Rightarrow> 'w \<Rightarrow> ('w \<times> unit outcome) option" where
  "reset_qdrant_collection ops config collection_name w = do {
     (w1, response) \<leftarrow> bw_http ops (cfg_qdrant_host config) (cfg_qdrant_port config) ''DELETE''
       (''/collections/'' @ collection_name) [] w;
     Some (w1, rbind response (\<lambda>r.
       if http_status_code r \<noteq> 200 \<and> http_status_code r \<noteq> 202 \<and> http_status_code r \<noteq> 404
       then fail ''failed to reset Qdrant collection'' else Inr ())) }"

definition create_qdrant_collection :: "'w bench_ops \<Rightarrow> Config \<Rightarrow> string \<Rightarrow> nat \<Rightarrow> 'w \<Rightarrow> ('w \<times> unit outcome) option" where
  "create_qdrant_collection ops config collection_name vector_size w = do {
     (w1, response) \<leftarrow> bw_http ops (cfg_qdrant_host config) (cfg_qdrant_port config) ''PUT''
       (''/collections/'' @ collection_name)
       (CHR 0x7B # quoted ''vectors'' @ '':'' @ [CHR 0x7B] @ quoted ''size'' @ '':'' @ nat_to_string vector_size @ '',''
          @ quoted ''distance'' @ '':'' @ quoted ''Cosine'' @ [CHR 0x7D, CHR 0x7D]) w;
     Some (w1, rbind response (\<lambda>r.
       if http_status_code r \<noteq> 200 \<and> http_status_code r \<noteq> 201 \<and> http_status_code r \<noteq> 409
       then fail (''failed to create Qdrant collection: '' @ http_body r) else Inr ())) }"

text \<open>
  A missing \<^verbatim>\<open>count\<close> or colon makes \<^verbatim>\<open>find\<close> return \<^verbatim>\<open>npos\<close>, and \<^verbatim>\<open>npos + 1\<close> is 0.
\<close>

definition parse_count :: "string \<Rightarrow> int outcome" where
  "parse_count body =
     (let colon = Option.bind (str_find body (quoted ''count'')) (find_at body '':'');
          start = (case colon of None \<Rightarrow> 0 | Some c \<Rightarrow> c + 1);
          rest = dropWhile isspace (drop start body)
      in stoi (takeWhile isdigit rest))"

definition qdrant_point_count :: "'w bench_ops \<Rightarrow> Config \<Rightarrow> string \<Rightarrow> 'w \<Rightarrow> ('w \<times> int outcome) option" where
  "qdrant_point_count ops config collection_name w = do {
     (w1, response) \<leftarrow> bw_http ops (cfg_qdrant_host config) (cfg_qdrant_port config) ''POST''
       (''/collections/'' @ collection_name @ ''/points/count'')
       (CHR 0x7B # quoted ''exact'' @ '':true'' @ [CHR 0x7D]) w;
     Some (w1, rbind response (\<lambda>r.
       if http_status_code r \<noteq> 200 then fail ''Qdrant count request failed'' else parse_count (http_body r))) }"

definition request_embedding :: "fpu \<Rightarrow> 'w bench_ops \<Rightarrow> Config \<Rightarrow> string \<Rightarrow> 'w \<Rightarrow> ('w \<times> fl list outcome) option" where
  "request_embedding F ops config text w = do {
     (w1, response) \<leftarrow> bw_http ops (cfg_embedding_host config) (cfg_embedding_port config) ''POST'' ''/v1/embeddings''
       (CHR 0x7B # quoted ''model'' @ '':'' @ quoted (escape_json (cfg_model_id config)) @ '',''
          @ quoted ''input'' @ '':'' @ quoted (escape_json text) @ [CHR 0x7D]) w;
     Some (w1, rbind response (\<lambda>r.
       if http_status_code r \<noteq> 200 then fail (''embedding request failed with status '' @ to_string (http_status_code r))
       else parse_embedding_array F (http_body r))) }"

section \<open>Templates\<close>

record template_load =
  tl_unique_texts :: "string set"
  tl_templates :: "TemplateDocument list"
  tl_counter :: int

fun load_entries ::
  "fpu \<Rightarrow> 'w bench_ops \<Rightarrow> Config \<Rightarrow> string \<Rightarrow> string list \<Rightarrow> template_load \<Rightarrow> 'w \<Rightarrow> ('w \<times> template_load outcome) option" where
  "load_entries F ops config file [] st w = Some (w, Inr st)"
| "load_entries F ops config file (entry # entries) st w =
     (case parse_json_string_field entry ''payload'' of
        Inl e \<Rightarrow> Some (w, Inl e)
      | Inr payload \<Rightarrow>
          if payload \<in> tl_unique_texts st then load_entries F ops config file entries st w
          else do {
            let counter = tl_counter st + 1;
            let (w1, emb_start) = bw_now ops w;
            (w2, embedding) \<leftarrow> request_embedding F ops config payload w1;
            (case embedding of
               Inl e \<Rightarrow> Some (w2, Inl e)
             | Inr values \<Rightarrow>
                 let (w3, emb_end) = bw_now ops w2;
                     document = \<lparr>td_template_id = ''tpl-'' @ to_string counter, td_source_file = file, td_text = payload,
                       td_embedding = values, td_embedding_ms = emb_end - emb_start\<rparr>
                 in load_entries F ops config file entries
                      \<lparr>tl_unique_texts = insert payload (tl_unique_texts st),
                       tl_templates = tl_templates st @ [document], tl_counter = counter\<rparr> w3) })"

definition path_append :: "string \<Rightarrow> string \<Rightarrow> string" where
  "path_append dir name = (if dir = [] \<or> last dir = CHR ''/'' then dir @ name else dir @ ''/'' @ name)"

fun load_labels ::
  "fpu \<Rightarrow> 'w bench_ops \<Rightarrow> Config \<Rightarrow> string \<Rightarrow> template_load \<Rightarrow> 'w \<Rightarrow> ('w \<times> template_load outcome) option" where
  "load_labels F ops config [] st w = Some (w, Inr st)"
| "load_labels F ops config (label # labels) st w =
     (let file = label # ''.json''; json_path = path_append (cfg_input_dir config) file;
          (w1, present) = bw_exists ops json_path w
      in if \<not> present then load_labels F ops config labels st w1
         else let (w2, contents) = bw_read ops json_path w1 in
           (case read_text_file json_path contents of
              Inl e \<Rightarrow> Some (w2, Inl e)
            | Inr json \<Rightarrow>
                (case parse_payload_schedule_entries json of
                   Inl e \<Rightarrow> Some (w2, Inl e)
                 | Inr entries \<Rightarrow> do {
                     (w3, loaded) \<leftarrow> load_entries F ops config file (if entries = [] then [json] else entries) st w2;
                     (case loaded of
                        Inl e \<Rightarrow> Some (w3, Inl e)
                      | Inr st' \<Rightarrow> load_labels F ops config labels st' w3) })))"

definition load_templates ::
  "fpu \<Rightarrow> 'w bench_ops \<Rightarrow> Config \<Rightarrow> 'w \<Rightarrow> ('w \<times> TemplateDocument list outcome) option" where
  "load_templates F ops config w = do {
     (w1, loaded) \<leftarrow> load_labels F ops config ''ABCDE'' \<lparr>tl_unique_texts = {}, tl_templates = [], tl_counter = 0\<rparr> w;
     Some (w1, rbind loaded (\<lambda>st.
       if length (tl_templates st) < 10
       then fail ''need at least ten unique template texts for curated benchmarking''
       else Inr (tl_templates st))) }"

fun find_first_template_from_source :: "TemplateDocument list \<Rightarrow> string \<Rightarrow> doc_ptr" where
  "find_first_template_from_source [] source_file = None"
| "find_first_template_from_source (document # templates) source_file =
     (if td_source_file document = source_file then Some document
      else find_first_template_from_source templates source_file)"

text \<open>The first phase of \<^verbatim>\<open>pick_unique_templates\<close>; the flag says that the requested count was reached.\<close>

fun pick_loop :: "int \<Rightarrow> string set \<Rightarrow> TemplateDocument list \<Rightarrow> doc_ptr list \<Rightarrow> TemplateDocument list \<times> bool" where
  "pick_loop cnt excluded_ids chosen [] = (chosen, False)"
| "pick_loop cnt excluded_ids chosen (p # ps) =
     (case p of
        None \<Rightarrow> pick_loop cnt excluded_ids chosen ps
      | Some document \<Rightarrow>
          if td_template_id document \<in> excluded_ids then pick_loop cnt excluded_ids chosen ps
          else if int (length (chosen @ [document])) = cnt then (chosen @ [document], True)
          else pick_loop cnt excluded_ids (chosen @ [document]) ps)"

function pad_loop :: "int \<Rightarrow> nat \<Rightarrow> 'a list \<Rightarrow> 'a list" where
  "pad_loop cnt unique_count chosen =
     (if int (length chosen) < cnt
      then pad_loop cnt unique_count (chosen @ [chosen ! ((length chosen - unique_count) mod unique_count)])
      else chosen)"
  by auto
termination by (relation "measure (\<lambda>(cnt, unique_count, chosen). nat (cnt - int (length chosen)))") auto

declare pad_loop.simps [simp del]

definition pick_unique_templates :: "doc_ptr list \<Rightarrow> int \<Rightarrow> string set \<Rightarrow> TemplateDocument list outcome" where
  "pick_unique_templates templates cnt excluded_ids =
     (case pick_loop cnt excluded_ids [] templates of
        (chosen, True) \<Rightarrow> Inr chosen
      | (chosen, False) \<Rightarrow>
          if chosen = [] then fail ''could not select enough unique templates''
          else Inr (pad_loop cnt (length chosen) chosen))"

definition build_template_catalog :: "TemplateDocument list \<Rightarrow> TemplateCatalog outcome" where
  "build_template_catalog templates =
     (let catalog = \<lparr>tc_concept_a = find_first_template_from_source templates ''A.json'',
            tc_concept_b = find_first_template_from_source templates ''D.json'',
            tc_all = map Some templates,
            tc_concept_a_all = map Some (filter (\<lambda>document. td_source_file document = ''A.json'') templates)\<rparr>
      in if tc_concept_a catalog = None then fail ''could not locate concept A template from demo_inputs/A.json''
         else if tc_concept_b catalog = None then fail ''could not locate concept B template from demo_inputs/D.json''
         else Inr catalog)"

section \<open>Curated cases\<close>

definition make_case ::
  "int \<Rightarrow> ScenarioKind \<Rightarrow> string \<Rightarrow> string \<Rightarrow> int \<Rightarrow> int \<Rightarrow> int \<Rightarrow> fl \<Rightarrow> int \<Rightarrow> ArrivalMode \<Rightarrow> int \<Rightarrow> Config \<Rightarrow> BenchmarkCase" where
  "make_case index kind name target agent_count write_count read_count theta lock_hold_ms arrival_mode arrival_gap_ms config =
     \<lparr>bc_case_index = index, bc_kind = kind, bc_name = name, bc_target = target, bc_node_count = 5,
      bc_agent_count = agent_count, bc_write_count = write_count, bc_read_count = read_count, bc_theta = theta,
      bc_lock_hold_ms = lock_hold_ms, bc_arrival_mode = arrival_mode, bc_arrival_gap_ms = arrival_gap_ms,
      bc_collection_name = cfg_collection_prefix config @ ''_case_'' @ to_string index @ ''_'' @ slugify name\<rparr>"

definition build_curated_cases :: "fpu \<Rightarrow> Config \<Rightarrow> BenchmarkCase list" where
  "build_curated_cases F config =
     [make_case 1 kThunderingHerd
        ''The Thundering Herd''
        ''Verify strict serialization under massive semantic overlap.''
        10 10 0 (rnd_float F (55 / 100)) 750 kBurst 0 config,
      make_case 2 kSemanticInterleaving
        ''The Semantic Interleaving''
        ''Verify two independent semantic hot spots can stay active in parallel.''
        10 10 0 (rnd_float F (55 / 100)) 750 kBurst 0 config,
      make_case 3 kReadStarvationTrap
        ''The Read-Starvation Trap''
        ''Verify read-heavy traffic still queues correctly behind conflicting writers.''
        10 2 8 (rnd_float F (55 / 100)) 750 kStaggered 40 config,
      make_case 4 kPermissiveSieve
        ''The Permissive Sieve''
        ''Verify a permissive theta collapses mixed semantics into a deep queue.''
        5 5 0 (rnd_float F (20 / 100)) 750 kBurst 0 config,
      make_case 5 kStrictSieve
        ''The Strict Sieve''
        ''Verify a strict theta preserves concurrency across mixed operations.''
        10 5 5 (rnd_float F (90 / 100)) 0 kBurst 0 config,
      make_case 6 kGhostClient
        ''The Ghost Client''
        ''Verify one long-held writer amplifies waiter depth without breaking ordering.''
        5 5 0 (rnd_float F (55 / 100)) 750 kBurst 0 config,
      make_case 7 kAlmostCollision
        ''The Almost Collision''
        ''Verify a near-threshold pair below theta stays concurrent.''
        2 2 0 (rnd_float F (55 / 100)) 0 kBurst 0 config,
      make_case 8 kQueueHopping
        ''Queue Hopping''
        ''Verify bursty contention produces queue hops without losing progress.''
        20 20 0 (rnd_float F (55 / 100)) 0 kBurst 0 config,
      make_case 9 kMixedStagger
        ''The Mixed Stagger''
        ''Verify mixed semantic pressure remains stable under long staggered arrivals.''
        10 10 0 (rnd_float F (55 / 100)) 750 kStaggered 100 config,
      make_case 10 kReadStampede
        ''The 100% Read Stampede''
        ''Verify fully read-only hot traffic still respects semantic exclusion.''
        10 0 10 (rnd_float F (55 / 100)) 0 kBurst 0 config,
      make_case 11 kParaphraseGauntlet
        ''The Paraphrase Gauntlet''
        ''Test whether each model reliably detects paraphrase overlap; weak models risk violations.''
        10 10 0 (rnd_float F (75 / 100)) 750 kBurst 0 config,
      make_case 12 kCrossDomainFlood
        ''The Cross-Domain Flood''
        ''Verify distinct domains run in parallel; weak models cause unnecessary cross-domain blocking.''
        12 12 0 (rnd_float F (75 / 100)) 500 kBurst 0 config,
      make_case 13 kWritePressureRatchet
        ''The Write Pressure Ratchet''
        ''Measure read fairness under sustained write load; consistent models produce predictable read latency.''
        16 4 12 (rnd_float F (75 / 100)) 800 kStaggered 30 config]"

section \<open>Workloads\<close>

definition make_operation_from_template ::
  "TemplateDocument \<Rightarrow> string \<Rightarrow> BenchOperationType \<Rightarrow> int \<Rightarrow> BenchmarkOperation" where
  "make_operation_from_template document agent_id operation scheduled_offset_ms =
     \<lparr>bo_agent_id = agent_id, bo_role_prefix = role_prefix_for_source_file (td_source_file document),
      bo_template_id = td_template_id document, bo_text = td_text document, bo_embedding = td_embedding document,
      bo_operation = operation, bo_scheduled_offset_ms = scheduled_offset_ms\<rparr>"

definition make_synthetic_operation ::
  "string \<Rightarrow> string \<Rightarrow> fl list \<Rightarrow> string \<Rightarrow> BenchOperationType \<Rightarrow> int \<Rightarrow> BenchmarkOperation" where
  "make_synthetic_operation template_id text embedding agent_id operation scheduled_offset_ms =
     \<lparr>bo_agent_id = agent_id, bo_role_prefix = ''edge_agent'', bo_template_id = template_id, bo_text = text,
      bo_embedding = embedding, bo_operation = operation, bo_scheduled_offset_ms = scheduled_offset_ms\<rparr>"

definition offset_for :: "BenchmarkCase \<Rightarrow> nat \<Rightarrow> int" where
  "offset_for spec ordinal =
     (if bc_arrival_mode spec = kBurst then 0 else int ordinal * bc_arrival_gap_ms spec)"

type_synonym role_counters = "(string, int) umap"

definition next_agent_id :: "role_counters \<Rightarrow> string \<Rightarrow> role_counters \<times> string" where
  "next_agent_id counters role_prefix =
     (let ordinal = um_get 0 counters role_prefix + 1
      in (um_assign role_prefix ordinal counters, role_prefix @ ''_'' @ to_string ordinal))"

text \<open>
  What a scenario's loop body chooses for position \<open>i\<close>: the template, the role that numbers the
  agent, and the operation.
\<close>

type_synonym pick = "nat \<Rightarrow> (TemplateDocument \<times> string \<times> BenchOperationType) outcome"

definition by_source :: "TemplateDocument \<Rightarrow> BenchOperationType \<Rightarrow> TemplateDocument \<times> string \<times> BenchOperationType" where
  "by_source document operation = (document, role_prefix_for_source_file (td_source_file document), operation)"

definition from_selected :: "TemplateDocument list \<Rightarrow> (nat \<Rightarrow> BenchOperationType) \<Rightarrow> pick" where
  "from_selected selected operation i = rbind (elem_at selected i) (\<lambda>document. Inr (by_source document (operation i)))"

fun agents_loop :: "BenchmarkCase \<Rightarrow> pick \<Rightarrow> nat \<Rightarrow> nat \<Rightarrow> role_counters \<Rightarrow> BenchmarkOperation list outcome" where
  "agents_loop spec body i 0 counters = Inr []"
| "agents_loop spec body i (Suc n) counters =
     rbind (body i) (\<lambda>(document, role_prefix, operation).
       let (counters', agent_id) = next_agent_id counters role_prefix in
       rbind (agents_loop spec body (Suc i) n counters') (\<lambda>workload.
         Inr (make_operation_from_template document agent_id operation (offset_for spec i) # workload)))"

definition for_agents :: "BenchmarkCase \<Rightarrow> pick \<Rightarrow> BenchmarkOperation list outcome" where
  "for_agents spec body = agents_loop spec body 0 (nat (bc_agent_count spec)) []"

definition pick_thundering_herd :: "TemplateDocument \<Rightarrow> pick" where
  "pick_thundering_herd concept_a i = Inr (concept_a, ''sustainability_agent'', kWrite)"

definition pick_semantic_interleaving :: "TemplateDocument \<Rightarrow> TemplateDocument \<Rightarrow> pick" where
  "pick_semantic_interleaving concept_a concept_b i =
     Inr (by_source (if i mod 2 = 0 then concept_a else concept_b) kWrite)"

definition pick_read_starvation :: "TemplateDocument \<Rightarrow> pick" where
  "pick_read_starvation concept_a i =
     Inr (concept_a, ''sustainability_agent'', if i = 0 \<or> i = 5 then kWrite else kRead)"

definition permissive_sieve ::
  "BenchmarkCase \<Rightarrow> TemplateDocument \<Rightarrow> TemplateDocument \<Rightarrow> TemplateDocument list \<Rightarrow> BenchmarkOperation list outcome" where
  "permissive_sieve spec concept_a concept_b background =
     rbind (elem_at background 0) (\<lambda>b0. rbind (elem_at background 1) (\<lambda>b1. rbind (elem_at background 2) (\<lambda>b2.
       for_agents spec (from_selected [concept_a, b0, concept_b, b1, b2] (\<lambda>i. kWrite)))))"

definition strict_sieve :: "BenchmarkCase \<Rightarrow> TemplateCatalog \<Rightarrow> BenchmarkOperation list outcome" where
  "strict_sieve spec catalog =
     rbind (pick_unique_templates (tc_all catalog) (bc_agent_count spec) {}) (\<lambda>selected.
       for_agents spec (from_selected selected (\<lambda>i. if i mod 2 = 0 then kWrite else kRead)))"

definition almost_collision :: "fpu \<Rightarrow> BenchmarkOperation list" where
  "almost_collision F =
     (let FF = F\<lparr>rnd_double := rnd_float F\<rparr>; target_similarity = rnd_float F (54 / 100);
          orthogonal_component = fl_sqrt FF (fl_add FF (Fin 1) (negate (fl_mul FF target_similarity target_similarity)))
      in [make_synthetic_operation ''synthetic-almost-left''
            ''Synthetic benchmark payload for the near-threshold left vector.''
            [Fin 1, Fin 0] ''edge_agent_1'' kWrite 0,
          make_synthetic_operation ''synthetic-almost-right''
            ''Synthetic benchmark payload for the near-threshold right vector.''
            [target_similarity, orthogonal_component] ''edge_agent_2'' kWrite 0])"

definition mixed_stagger ::
  "BenchmarkCase \<Rightarrow> TemplateDocument \<Rightarrow> TemplateDocument \<Rightarrow> TemplateDocument list \<Rightarrow> BenchmarkOperation list outcome" where
  "mixed_stagger spec concept_a concept_b background =
     rbind (elem_at background 0) (\<lambda>b0. rbind (elem_at background 1) (\<lambda>b1. rbind (elem_at background 2) (\<lambda>b2.
     rbind (elem_at background 3) (\<lambda>b3. rbind (elem_at background 4) (\<lambda>b4. rbind (elem_at background 5) (\<lambda>b5.
       for_agents spec (from_selected [concept_a, b0, concept_b, b1, concept_a, b2, concept_b, b3, b4, b5]
         (\<lambda>i. kWrite))))))))"

definition pick_read_stampede :: "TemplateDocument \<Rightarrow> pick" where
  "pick_read_stampede concept_a i = Inr (concept_a, ''sustainability_agent'', kRead)"

definition pick_paraphrase :: "TemplateCatalog \<Rightarrow> TemplateDocument \<Rightarrow> pick" where
  "pick_paraphrase catalog concept_a i =
     (if tc_concept_a_all catalog = [] then Inr (concept_a, ''paraphrase_agent'', kWrite)
      else rbind (elem_at (tc_concept_a_all catalog) (i mod length (tc_concept_a_all catalog))) (\<lambda>p.
        case p of None \<Rightarrow> Inl NullDereference | Some document \<Rightarrow> Inr (document, ''paraphrase_agent'', kWrite)))"

definition pick_cross_domain :: "BenchmarkCase \<Rightarrow> TemplateDocument \<Rightarrow> TemplateDocument \<Rightarrow> pick" where
  "pick_cross_domain spec concept_a concept_b i =
     Inr (by_source (if int i < bc_agent_count spec div 2 then concept_a else concept_b) kWrite)"

definition pick_write_pressure :: "TemplateDocument \<Rightarrow> pick" where
  "pick_write_pressure concept_a i = Inr (concept_a, ''pressure_agent'', if i mod 4 = 0 then kWrite else kRead)"

definition scenario_workload ::
  "fpu \<Rightarrow> BenchmarkCase \<Rightarrow> TemplateCatalog \<Rightarrow> TemplateDocument \<Rightarrow> TemplateDocument \<Rightarrow> TemplateDocument list
    \<Rightarrow> BenchmarkOperation list outcome" where
  "scenario_workload F spec catalog concept_a concept_b background =
     (case bc_kind spec of
        kThunderingHerd \<Rightarrow> for_agents spec (pick_thundering_herd concept_a)
      | kSemanticInterleaving \<Rightarrow> for_agents spec (pick_semantic_interleaving concept_a concept_b)
      | kReadStarvationTrap \<Rightarrow> for_agents spec (pick_read_starvation concept_a)
      | kPermissiveSieve \<Rightarrow> permissive_sieve spec concept_a concept_b background
      | kStrictSieve \<Rightarrow> strict_sieve spec catalog
      | kGhostClient \<Rightarrow> for_agents spec (pick_thundering_herd concept_a)
      | kAlmostCollision \<Rightarrow> Inr (almost_collision F)
      | kQueueHopping \<Rightarrow> for_agents spec (pick_thundering_herd concept_a)
      | kMixedStagger \<Rightarrow> mixed_stagger spec concept_a concept_b background
      | kReadStampede \<Rightarrow> for_agents spec (pick_read_stampede concept_a)
      | kParaphraseGauntlet \<Rightarrow> for_agents spec (pick_paraphrase catalog concept_a)
      | kCrossDomainFlood \<Rightarrow> for_agents spec (pick_cross_domain spec concept_a concept_b)
      | kWritePressureRatchet \<Rightarrow> for_agents spec (pick_write_pressure concept_a))"

definition count_ops :: "BenchOperationType \<Rightarrow> BenchmarkOperation list \<Rightarrow> int" where
  "count_ops t workload = int (length (filter (\<lambda>operation. bo_operation operation = t) workload))"

definition check_workload :: "BenchmarkCase \<Rightarrow> BenchmarkOperation list \<Rightarrow> BenchmarkOperation list outcome" where
  "check_workload spec workload =
     (if int (length workload) \<noteq> bc_agent_count spec
      then fail (''scenario '' @ bc_name spec @ '' built the wrong number of operations'')
      else let actual_writes = count_ops kWrite workload; actual_reads = count_ops kRead workload in
        if actual_writes \<noteq> bc_write_count spec \<or> actual_reads \<noteq> bc_read_count spec
        then fail (''scenario '' @ bc_name spec @ '' built operation mix write/read='' @ to_string actual_writes
          @ ''/'' @ to_string actual_reads @ '' but expected '' @ to_string (bc_write_count spec) @ ''/''
          @ to_string (bc_read_count spec))
        else Inr workload)"

definition build_workload :: "fpu \<Rightarrow> BenchmarkCase \<Rightarrow> TemplateCatalog \<Rightarrow> BenchmarkOperation list outcome" where
  "build_workload F spec catalog =
     (case (tc_concept_a catalog, tc_concept_b catalog) of
        (Some concept_a, Some concept_b) \<Rightarrow>
          rbind (pick_unique_templates (tc_all catalog) (max 8 (bc_agent_count spec))
              {td_template_id concept_a, td_template_id concept_b}) (\<lambda>background.
            rbind (scenario_workload F spec catalog concept_a concept_b background) (check_workload spec))
      | _ \<Rightarrow> Inl NullDereference)"

end
