(* ===== verification/BenchTextLaws.thy ===== *)
theory BenchTextLaws
  imports BenchText
begin

text \<open>
  Laws of the benchmark runner's text layer: what a POSIX shell reads from a quoted word, the shape
  of slugs, and what the JSON readers return on text the JSON printer wrote.
\<close>

section \<open>Shell words\<close>

text \<open>
  The POSIX rules for one word: a single quote starts literal text up to the next single quote, a
  backslash makes the next character literal, a blank or an operator ends the word. \<open>None\<close> is text
  that the shell expands or reads on for (a dollar, a backquote, a double quote, a pattern, a quote
  that is never closed).
\<close>

definition sh_end :: "char \<Rightarrow> bool" where
  "sh_end c = (c \<in> set '' ;&|<>()'' \<or> of_char c \<in> {9, 10 :: nat})"

definition sh_special :: "char \<Rightarrow> bool" where
  "sh_special c = (c \<in> set ''$*?[#~=%!{}'' \<or> of_char c \<in> {0x22, 0x60 :: nat})"

fun sh_word :: "bool \<Rightarrow> string \<Rightarrow> string \<Rightarrow> (string \<times> string) option" where
  "sh_word in_quotes acc [] = (if in_quotes then None else Some (acc, []))"
| "sh_word True acc (c # s) = (if c = squote then sh_word False acc s else sh_word True (acc @ [c]) s)"
| "sh_word False acc (c # s) =
     (if c = squote then sh_word True acc s
      else if c = CHR 0x5C then (case s of [] \<Rightarrow> None | d # s' \<Rightarrow> sh_word False (acc @ [d]) s')
      else if sh_end c then Some (acc, c # s)
      else if sh_special c then None
      else sh_word False (acc @ [c]) s)"

lemma sh_word_quote_body:
  "sh_word True acc (shell_quote_body s @ squote # rest) = sh_word False (acc @ s) rest"
  by (induction s arbitrary: acc) (auto simp: squote_def)

lemma sh_word_shell_quote:
  assumes "rest = [] \<or> sh_end (hd rest)"
  shows "sh_word False [] (shell_quote s @ rest) = Some (s, rest)"
proof -
  have "sh_word False s rest = Some (s, rest)"
    using assms by (cases rest) (auto simp: sh_end_def squote_def)
  then show ?thesis by (simp add: shell_quote_def sh_word_quote_body)
qed

section \<open>Slugs\<close>

definition slug_char :: "char \<Rightarrow> bool" where
  "slug_char c = (c = CHR ''_'' \<or> (isalnum c \<and> tolower c = c))"

definition slug_text :: "string \<Rightarrow> bool" where
  "slug_text s \<longleftrightarrow> (\<forall>c\<in>set s. slug_char c) \<and> (s \<noteq> [] \<longrightarrow> hd s \<noteq> CHR ''_'')
     \<and> (\<forall>i. Suc i < length s \<longrightarrow> \<not> (s ! i = CHR ''_'' \<and> s ! Suc i = CHR ''_''))"

lemma tolower_idem [simp]: "tolower (tolower c) = tolower c"
proof -
  have "(of_char c :: nat) < 256" by (metis of_char_mod_256 mod_less_divisor zero_less_numeral)
  then show ?thesis by (auto simp: tolower_def Let_def)
qed

lemma isdigit_tolower [simp]: "isdigit c \<Longrightarrow> tolower c = c"
  by (auto simp: isdigit_def digit_of_def tolower_def Let_def split: if_splits)

lemma isalnum_tolower: "isalnum c \<Longrightarrow> isalnum (tolower c)"
  by (auto simp: isalnum_def isalpha_def)

lemma not_isalnum_underscore [simp]: "\<not> isalnum (CHR ''_'')"
  by (simp add: isalnum_def isalpha_def isdigit_def digit_of_def tolower_def)

lemma slug_text_snoc:
  assumes "slug_text s" "slug_char c" "c = CHR ''_'' \<Longrightarrow> s \<noteq> [] \<and> last s \<noteq> CHR ''_''"
  shows "slug_text (s @ [c])"
  unfolding slug_text_def
proof (intro conjI allI impI)
  show "\<forall>x\<in>set (s @ [c]). slug_char x" using assms by (auto simp: slug_text_def)
  show "hd (s @ [c]) \<noteq> CHR ''_''" using assms by (cases s) (auto simp: slug_text_def)
  fix i assume i: "Suc i < length (s @ [c])"
  show "\<not> ((s @ [c]) ! i = CHR ''_'' \<and> (s @ [c]) ! Suc i = CHR ''_'')"
  proof (cases "Suc i < length s")
    case True
    with assms(1) show ?thesis by (auto simp: slug_text_def nth_append)
  next
    case False
    with i have "length s = Suc i" by simp
    moreover from this have "last s = s ! i" by (metis diff_Suc_1 last_conv_nth length_0_conv nat.simps(3))
    ultimately show ?thesis using assms(3) by (auto simp: nth_append)
  qed
qed

lemma slug_text_step: "slug_text s \<Longrightarrow> slug_text (slug_step s c)"
proof -
  assume s: "slug_text s"
  have "isalnum c \<Longrightarrow> tolower c \<noteq> CHR ''_''" using isalnum_tolower not_isalnum_underscore by metis
  then have "isalnum c \<Longrightarrow> slug_text (s @ [tolower c])"
    by (intro slug_text_snoc s) (auto simp: slug_char_def isalnum_tolower)
  moreover have "s \<noteq> [] \<Longrightarrow> last s \<noteq> CHR ''_'' \<Longrightarrow> slug_text (s @ [CHR ''_''])"
    by (intro slug_text_snoc s) (auto simp: slug_char_def)
  ultimately show ?thesis using s by (simp add: slug_step_def)
qed

lemma slug_text_fold: "slug_text s \<Longrightarrow> slug_text (foldl slug_step s input)"
  by (induction input arbitrary: s) (auto simp: slug_text_step)

lemma slug_text_prefix: "slug_text (a @ b) \<Longrightarrow> slug_text a"
proof -
  assume s: "slug_text (a @ b)"
  have "\<not> (a ! i = CHR ''_'' \<and> a ! Suc i = CHR ''_'')" if "Suc i < length a" for i
  proof -
    have "Suc i < length (a @ b)" using that by simp
    with s have "\<not> ((a @ b) ! i = CHR ''_'' \<and> (a @ b) ! Suc i = CHR ''_'')" unfolding slug_text_def by blast
    with that show ?thesis by (simp add: nth_append)
  qed
  moreover have "\<forall>c\<in>set a. slug_char c" "a \<noteq> [] \<longrightarrow> hd a \<noteq> CHR ''_''" using s by (auto simp: slug_text_def)
  ultimately show ?thesis unfolding slug_text_def by blast
qed

lemma slugify_prefix: "\<exists>b. foldl slug_step [] input = slugify input @ b"
proof -
  let ?t = "rev (foldl slug_step [] input)" and ?u = "\<lambda>c. c = CHR ''_''"
  have "rev (takeWhile ?u ?t @ dropWhile ?u ?t) = foldl slug_step [] input"
    unfolding takeWhile_dropWhile_id by simp
  then have "foldl slug_step [] input = slugify input @ rev (takeWhile ?u ?t)"
    by (simp only: rev_append slugify_def)
  then show ?thesis by blast
qed

lemma slug_text_slugify: "slug_text (slugify input)"
proof -
  have "slug_text (foldl slug_step [] input)" by (rule slug_text_fold) (simp add: slug_text_def)
  then show ?thesis using slugify_prefix slug_text_prefix by metis
qed

lemma slugify_last: "slugify input \<noteq> [] \<Longrightarrow> last (slugify input) \<noteq> CHR ''_''"
  using hd_dropWhile[of "\<lambda>c. c = CHR ''_''" "rev (foldl slug_step [] input)"] by (simp add: slugify_def last_rev)

lemma slug_step_fixes:
  "slug_text (s @ [c]) \<Longrightarrow> slug_step s c = s @ [c]"
proof -
  assume st: "slug_text (s @ [c])"
  then have c: "slug_char c" by (simp add: slug_text_def)
  show ?thesis
  proof (cases "c = CHR ''_''")
    case True
    with st have "s \<noteq> []" by (auto simp: slug_text_def)
    moreover have "last s \<noteq> CHR ''_''"
    proof
      assume "last s = CHR ''_''"
      with \<open>s \<noteq> []\<close> have "(s @ [c]) ! (length s - 1) = CHR ''_''" "Suc (length s - 1) < length (s @ [c])"
        "(s @ [c]) ! Suc (length s - 1) = CHR ''_''" using True by (auto simp: last_conv_nth nth_append)
      with st show False unfolding slug_text_def by blast
    qed
    ultimately show ?thesis using True by (simp add: slug_step_def)
  qed (use c in \<open>auto simp: slug_step_def slug_char_def\<close>)
qed

lemma fold_slug_fixes: "slug_text s \<Longrightarrow> foldl slug_step [] s = s"
proof (induction s rule: rev_induct)
  case (snoc c s)
  then show ?case using slug_text_prefix[of s "[c]"] slug_step_fixes[of s c] by simp
qed simp

lemma slugify_fixes:
  assumes "slug_text s" "s \<noteq> [] \<Longrightarrow> last s \<noteq> CHR ''_''"
  shows "slugify s = s"
proof (cases s rule: rev_cases)
  case (snoc t c)
  with assms show ?thesis using fold_slug_fixes[OF assms(1)] by (simp add: slugify_def)
qed (simp add: slugify_def)

section \<open>JSON\<close>

text \<open>
  What the string reader makes of an escaped character: it knows the escapes for the quote, the
  backslash and the newline, and turns the four others into letters.
\<close>

definition reread :: "char \<Rightarrow> char" where
  "reread c = (if c = CHR 0x08 then CHR ''b'' else if c = CHR 0x0C then CHR ''f''
     else if c = CHR 0x0D then CHR ''r'' else if c = CHR 0x09 then CHR ''t'' else c)"

lemma json_string_loop_char:
  "json_string_loop False acc (escape_char c @ s) = json_string_loop False (acc @ [reread c]) s"
  by (auto simp: reread_def)

lemma json_string_loop_escaped:
  "json_string_loop False acc (escape_json s @ CHR 0x22 # rest) = Some (acc @ map reread s)"
  by (induction s arbitrary: acc) (simp_all add: json_string_loop_char del: escape_char.simps)

lemma reread_fixes: "map reread s = s \<longleftrightarrow> set s \<inter> {CHR 0x08, CHR 0x0C, CHR 0x0D, CHR 0x09} = {}"
  by (induction s) (auto simp: reread_def)

lemma str_find_head: "str_find (p @ s) p = Some 0"
proof -
  have "prefix p (p @ s)" by simp
  then show ?thesis unfolding str_find_def by (cases "p @ s") auto
qed

lemma str_find_skip: "\<not> prefix p (c # s) \<Longrightarrow> str_find (c # s) p = map_option Suc (str_find s p)"
proof -
  have "str_find_from (Suc k) p s = map_option Suc (str_find_from k p s)" for k
    by (induction s arbitrary: k) auto
  then show "\<not> prefix p (c # s) \<Longrightarrow> ?thesis" by (simp add: str_find_def)
qed

lemma find_at_here: "length a = n \<Longrightarrow> find_at (a @ p @ s) p n = Some n"
  by (auto simp: find_at_def str_find_head)

lemma quoted_prefix_brace: "\<not> prefix (quoted key) (CHR 0x7B # s)"
  by (simp add: quoted_def dq_def)

text \<open>An object with one string member, as the JSON printer writes it.\<close>

definition object_text :: "string \<Rightarrow> string \<Rightarrow> string" where
  "object_text key value = CHR 0x7B # quoted key @ '':'' @ quoted (escape_json value) @ [CHR 0x7D]"

lemma parse_object_text:
  "parse_json_string_field (object_text key s @ rest) key = Inr (map reread s)"
proof -
  let ?k = "quoted key" and ?v = "escape_json s @ CHR 0x22 # CHR 0x7D # rest"
  let ?a = "CHR 0x7B # ?k"
  have body: "object_text key s @ rest = ?a @ '':'' @ dq @ ?v"
    by (simp add: object_text_def quoted_def dq_def)
  have key: "str_find (object_text key s @ rest) ?k = Some 1"
    using str_find_head[of ?k] by (simp add: object_text_def str_find_skip[OF quoted_prefix_brace])
  have colon: "find_at (object_text key s @ rest) '':'' (1 + length ?k) = Some (1 + length ?k)"
    unfolding body by (rule find_at_here) simp
  have "find_at ((?a @ '':'') @ dq @ ?v) dq (1 + length ?k + 1) = Some (1 + length ?k + 1)"
    by (rule find_at_here) simp
  then have quote: "find_at (object_text key s @ rest) dq (1 + length ?k + 1) = Some (1 + length ?k + 1)"
    unfolding body by simp
  have "drop (1 + length ?k + 1 + 1) (object_text key s @ rest) = ?v"
    unfolding body by (simp add: dq_def)
  then show ?thesis unfolding parse_json_string_field_def Let_def key option.case colon quote
    by (simp add: json_string_loop_escaped)
qed

section \<open>Payload schedules\<close>

definition scan_idle :: "schedule_scan \<Rightarrow> bool" where
  "scan_idle st \<longleftrightarrow> \<not> ss_in_string st \<and> \<not> ss_escaping st \<and> ss_object_depth st = 0"

lemma scan_same [simp]:
  "\<not> ss_in_string st \<Longrightarrow> st\<lparr>ss_in_string := False\<rparr> = st"
  "\<not> ss_escaping st \<Longrightarrow> st\<lparr>ss_escaping := False\<rparr> = st"
  "ss_object_depth st = 0 \<Longrightarrow> st\<lparr>ss_object_depth := 0\<rparr> = st"
  "ss_object_depth st = 0 \<Longrightarrow> st\<lparr>ss_object_start := p, ss_object_depth := 0, ss_entries := es\<rparr>
    = st\<lparr>ss_object_start := p, ss_entries := es\<rparr>"
  by (cases st; simp)+

lemma schedule_skip_char:
  assumes "ss_in_string st" "\<not> ss_escaping st"
  shows "schedule_loop body i (escape_char c @ s) st = schedule_loop body (i + length (escape_char c)) s st"
  using assms by (simp add: schedule_char_def)

lemma schedule_skip_string:
  assumes "ss_in_string st" "\<not> ss_escaping st"
  shows "schedule_loop body i (escape_json s @ CHR 0x22 # rest) st
    = schedule_loop body (i + length (escape_json s) + 1) rest (st\<lparr>ss_in_string := False\<rparr>)"
proof (induction s arbitrary: i)
  case Nil
  from assms show ?case by (simp add: schedule_char_def)
next
  case (Cons c s)
  show ?case
    using Cons.IH[of "i + length (escape_char c)"] schedule_skip_char[OF assms, of body i c "escape_json s @ CHR 0x22 # rest"]
    by (simp add: algebra_simps del: escape_char.simps)
qed

lemma schedule_skip_quoted:
  assumes "\<not> ss_in_string st" "\<not> ss_escaping st"
  shows "schedule_loop body i (quoted (escape_json s) @ rest) st
    = schedule_loop body (i + length (quoted (escape_json s))) rest st"
proof -
  have "schedule_loop body i (quoted (escape_json s) @ rest) st
      = schedule_loop body (Suc i) (escape_json s @ CHR 0x22 # rest) (st\<lparr>ss_in_string := True\<rparr>)"
    using assms by (simp add: quoted_def dq_def schedule_char_def)
  also have "\<dots> = schedule_loop body (Suc i + length (escape_json s) + 1) rest (st\<lparr>ss_in_string := True, ss_in_string := False\<rparr>)"
    using assms by (subst schedule_skip_string) simp_all
  finally show ?thesis using assms by (simp add: quoted_def dq_def)
qed

lemma schedule_skip_object:
  assumes st: "scan_idle st" and body: "body = pre @ object_text key s @ rest" and key: "escape_json key = key"
  shows "schedule_loop body (length pre) (object_text key s @ rest) st
    = schedule_loop body (length pre + length (object_text key s)) rest
        (st\<lparr>ss_object_start := Some (length pre), ss_entries := ss_entries st @ [object_text key s]\<rparr>)"
proof -
  let ?p = "length pre" and ?k = "quoted key" and ?v = "quoted (escape_json s)"
  let ?st1 = "st\<lparr>ss_object_start := Some ?p, ss_object_depth := 1\<rparr>"
  have "schedule_loop body ?p (object_text key s @ rest) st
      = schedule_loop body (Suc ?p) (?k @ '':'' @ ?v @ CHR 0x7D # rest) ?st1"
    using st by (simp add: object_text_def schedule_char_def scan_idle_def)
  also have "\<dots> = schedule_loop body (Suc ?p + length ?k) (CHR '':'' # ?v @ CHR 0x7D # rest) ?st1"
    using st schedule_skip_quoted[of ?st1 body "Suc ?p" key] by (simp add: scan_idle_def key)
  also have "\<dots> = schedule_loop body (Suc (Suc ?p + length ?k)) (?v @ CHR 0x7D # rest) ?st1"
    using st by (simp add: schedule_char_def scan_idle_def)
  also have "\<dots> = schedule_loop body (Suc (Suc ?p + length ?k) + length ?v) (CHR 0x7D # rest) ?st1"
    using st schedule_skip_quoted[of ?st1] by (simp add: scan_idle_def)
  also have "\<dots> = schedule_loop body (?p + length (object_text key s)) rest
      (st\<lparr>ss_object_start := Some ?p, ss_entries := ss_entries st @ [object_text key s]\<rparr>)"
    using st by (simp add: schedule_char_def scan_idle_def body object_text_def add.assoc)
  finally show ?thesis .
qed

fun objects_text :: "string list \<Rightarrow> string" where
  "objects_text [] = []"
| "objects_text [s] = object_text ''payload'' s"
| "objects_text (s # ss) = object_text ''payload'' s @ '','' @ objects_text ss"

definition schedule_text :: "string list \<Rightarrow> string" where
  "schedule_text payloads = CHR 0x7B # quoted ''payload_schedule'' @ '':['' @ objects_text payloads @ '']'' @ [CHR 0x7D]"

lemma escape_payload: "escape_json ''payload'' = ''payload''"
  by simp

lemma schedule_skip_objects:
  assumes "scan_idle st" "body = pre @ objects_text ss @ CHR '']'' # rest"
  shows "ss_entries (schedule_loop body (length pre) (objects_text ss @ CHR '']'' # rest) st)
    = ss_entries st @ map (object_text ''payload'') ss"
  using assms
proof (induction ss arbitrary: st pre rule: objects_text.induct)
  case 1
  then show ?case by (simp add: schedule_char_def scan_idle_def)
next
  case (2 s)
  from schedule_skip_object[OF 2(1) _ escape_payload, of body pre s "CHR '']'' # rest"] 2(2)
  show ?case using 2(1) by (simp add: schedule_char_def scan_idle_def)
next
  case (3 s t ss)
  let ?o = "object_text ''payload'' s" and ?r = "objects_text (t # ss) @ CHR '']'' # rest"
  let ?st = "st\<lparr>ss_object_start := Some (length pre), ss_entries := ss_entries st @ [?o]\<rparr>"
  have idle: "scan_idle ?st" using 3(2) by (simp add: scan_idle_def)
  have "schedule_loop body (length pre) (?o @ CHR '','' # ?r) st = schedule_loop body (length pre + length ?o) (CHR '','' # ?r) ?st"
    by (rule schedule_skip_object[OF 3(2) _ escape_payload]) (use 3(3) in simp)
  also have "\<dots> = schedule_loop body (length (pre @ ?o @ '','')) ?r ?st"
    using idle by (simp add: schedule_char_def scan_idle_def)
  finally show ?case using 3(1)[OF idle, of "pre @ ?o @ '',''"] 3(3) by simp
qed

lemma parse_schedule_text:
  "parse_payload_schedule_entries (schedule_text payloads) = Inr (map (object_text ''payload'') payloads)"
proof -
  let ?k = "quoted ''payload_schedule''" and ?body = "schedule_text payloads"
  have body: "?body = (CHR 0x7B # ?k @ '':'') @ ''['' @ objects_text payloads @ CHR '']'' # [CHR 0x7D]"
    by (simp add: schedule_text_def)
  have body': "?body = (CHR 0x7B # ?k @ '':['') @ objects_text payloads @ CHR '']'' # [CHR 0x7D]"
    by (simp add: schedule_text_def)
  have key: "str_find ?body ?k = Some 1"
    using str_find_head[of ?k] by (simp add: schedule_text_def str_find_skip[OF quoted_prefix_brace])
  have open_at: "find_at ?body ''['' (1 + length ?k) = Some (1 + length ?k + 1)"
    unfolding body by (simp add: find_at_def str_find_def)
  have "drop (1 + length ?k + 1 + 1) ?body = objects_text payloads @ CHR '']'' # [CHR 0x7D]"
    unfolding body by simp
  then show ?thesis
    unfolding parse_payload_schedule_entries_def Let_def key option.case open_at
    using schedule_skip_objects[OF _ body', of "\<lparr>ss_in_string = False, ss_escaping = False, ss_object_depth = 0, ss_object_start = None, ss_entries = []\<rparr>"]
    by (simp add: scan_idle_def)
qed

end
