(* ===== verification/BenchWorkloadLaws.thy ===== *)
theory BenchWorkloadLaws
  imports BenchWorkload BenchTextLaws
begin

text \<open>
  Laws of the scenarios: agent identifiers are unique, template selection fills its request without
  reading out of bounds, loaded templates are numbered, and the loop every scenario shares.
\<close>

section \<open>Agent identifiers\<close>

lemma nat_to_string_no_underscore: "CHR ''_'' \<notin> set (nat_to_string n)"
proof -
  have "digit_char d \<noteq> CHR ''_''" if "d < 10" for d
    using digit_of_char[OF that] by (auto simp: digit_of_def simp del: digit_of_char)
  then show ?thesis using nat_to_string_digits[of n] by fastforce
qed

lemma nat_to_string_inj [simp]: "nat_to_string m = nat_to_string n \<longleftrightarrow> m = n"
proof
  assume eq: "nat_to_string m = nat_to_string n"
  obtain j k where "read_digits 0 (nat_to_string m @ []) = (m, Suc j, [])" "read_digits 0 (nat_to_string n @ []) = (n, Suc k, [])"
    using read_nat_to_string[of "[]"] by metis
  with eq show "m = n" by simp
qed simp

lemma to_string_pos_inj: "0 \<le> i \<Longrightarrow> 0 \<le> j \<Longrightarrow> to_string i = to_string j \<longleftrightarrow> i = j"
  by (auto simp: to_string_def)

definition agent_name :: "string \<Rightarrow> int \<Rightarrow> string" where
  "agent_name role_prefix ordinal = role_prefix @ ''_'' @ to_string ordinal"

lemma underscore_split:
  assumes "CHR ''_'' \<notin> set s" "CHR ''_'' \<notin> set t" "p @ CHR ''_'' # s = q @ CHR ''_'' # t"
  shows "p = q \<and> s = t"
proof -
  have "rev s @ CHR ''_'' # rev p = rev t @ CHR ''_'' # rev q" using arg_cong[OF assms(3), of rev] by simp
  moreover have "takeWhile (\<lambda>c. c \<noteq> CHR ''_'') (rev s @ CHR ''_'' # x) = rev s"
    "takeWhile (\<lambda>c. c \<noteq> CHR ''_'') (rev t @ CHR ''_'' # x) = rev t" for x
    using assms(1,2) by (subst takeWhile_append2; auto)+
  ultimately have "rev s = rev t" by metis
  with assms(3) show ?thesis by simp
qed

lemma agent_name_inj:
  assumes "0 \<le> i" "0 \<le> j" "agent_name p i = agent_name q j"
  shows "p = q \<and> i = j"
proof -
  have "to_string i = nat_to_string (nat i)" "to_string j = nat_to_string (nat j)"
    using assms by (auto simp: to_string_def)
  with assms(3) have "p = q \<and> nat_to_string (nat i) = nat_to_string (nat j)"
    by (intro underscore_split nat_to_string_no_underscore) (simp add: agent_name_def)
  with assms(1,2) show ?thesis by (simp add: eq_nat_nat_iff)
qed

definition counters_ok :: "role_counters \<Rightarrow> bool" where
  "counters_ok counters \<longleftrightarrow> (\<forall>r. 0 \<le> um_get 0 counters r)"

lemma counters_ok_next: "counters_ok counters \<Longrightarrow> counters_ok (fst (next_agent_id counters r))"
  by (auto simp: counters_ok_def next_agent_id_def Let_def)

section \<open>The loop over agents\<close>

lemma agents_loop_ok:
  assumes "\<forall>j<n. body (i + j) = Inr (d (i + j), r (i + j), t (i + j))" "counters_ok counters"
  shows "\<exists>ws. agents_loop spec body i n counters = Inr ws \<and> map bo_operation ws = map t [i..<i + n]
    \<and> map bo_scheduled_offset_ms ws = map (offset_for spec) [i..<i + n] \<and> distinct (map bo_agent_id ws)
    \<and> map bo_text ws = map (\<lambda>j. td_text (d j)) [i..<i + n]
    \<and> (\<forall>x\<in>set ws. \<exists>p k. bo_agent_id x = agent_name p k \<and> um_get 0 counters p < k)"
  using assms
proof (induction n arbitrary: i counters)
  case (Suc n)
  obtain c' a where nx: "next_agent_id counters (r i) = (c', a)" by fastforce
  have c': "c' = um_assign (r i) (um_get 0 counters (r i) + 1) counters"
    and a: "a = agent_name (r i) (um_get 0 counters (r i) + 1)"
    using nx by (auto simp: next_agent_id_def Let_def agent_name_def)
  have "\<forall>j<n. body (Suc i + j) = Inr (d (Suc i + j), r (Suc i + j), t (Suc i + j))"
    using Suc.prems(1) by (metis add_Suc_shift Suc_mono)
  moreover have "counters_ok c'" using counters_ok_next[OF Suc.prems(2), of "r i"] nx by simp
  ultimately obtain ws where ws: "agents_loop spec body (Suc i) n c' = Inr ws" "map bo_operation ws = map t [Suc i..<Suc i + n]"
    "map bo_scheduled_offset_ms ws = map (offset_for spec) [Suc i..<Suc i + n]" "distinct (map bo_agent_id ws)"
    "map bo_text ws = map (\<lambda>j. td_text (d j)) [Suc i..<Suc i + n]"
    "\<forall>x\<in>set ws. \<exists>p k. bo_agent_id x = agent_name p k \<and> um_get 0 c' p < k"
    using Suc.IH[of "Suc i" c'] by blast
  let ?w = "make_operation_from_template (d i) a (t i) (offset_for spec i)"
  have "body i = Inr (d i, r i, t i)" using Suc.prems(1) by (metis add_0_right zero_less_Suc)
  with ws(1) nx have run: "agents_loop spec body i (Suc n) counters = Inr (?w # ws)" by simp
  have up: "[i..<i + Suc n] = i # [Suc i..<Suc i + n]" by (simp add: upt_conv_Cons)
  have fresh: "bo_agent_id x \<noteq> a" if "x \<in> set ws" for x
  proof
    assume "bo_agent_id x = a"
    with ws(6) that obtain p k where pk: "agent_name p k = a" "um_get 0 c' p < k" by fastforce
    have "0 \<le> k" "0 \<le> um_get 0 counters (r i) + 1"
      using pk(2) \<open>counters_ok c'\<close> Suc.prems(2) by (auto simp: counters_ok_def intro: order_trans less_imp_le add_nonneg_nonneg)
    then have "p = r i \<and> k = um_get 0 counters (r i) + 1" using agent_name_inj pk(1) a by metis
    with pk(2) c' show False by simp
  qed
  have "\<exists>p k. bo_agent_id x = agent_name p k \<and> um_get 0 counters p < k" if "x \<in> set (?w # ws)" for x
  proof (cases "x \<in> set ws")
    case True
    with ws(6) obtain p k where "bo_agent_id x = agent_name p k" "um_get 0 c' p < k" by blast
    moreover have "um_get 0 counters p \<le> um_get 0 c' p" using c' by simp
    ultimately show ?thesis by (meson le_less_trans)
  next
    case False
    with that have "bo_agent_id x = a" by (simp add: make_operation_from_template_def)
    with a show ?thesis by (metis less_add_one)
  qed
  moreover have "distinct (map bo_agent_id (?w # ws))"
    using ws(4) fresh by (auto simp: make_operation_from_template_def)
  ultimately show ?case using run ws(2,3,5) up by (auto simp: make_operation_from_template_def)
qed simp

lemma for_agents_ok:
  assumes "\<forall>i<nat (bc_agent_count spec). body i = Inr (d i, r i, t i)"
  shows "\<exists>ws. for_agents spec body = Inr ws \<and> map bo_operation ws = map t [0..<nat (bc_agent_count spec)]
    \<and> distinct (map bo_agent_id ws)"
proof -
  have "counters_ok []" by (simp add: counters_ok_def um_get_def)
  with agents_loop_ok[of "nat (bc_agent_count spec)" body 0 d r t "[]" spec] assms show ?thesis
    by (fastforce simp: for_agents_def)
qed

lemma count_ops_map: "count_ops k ws = int (length (filter (\<lambda>x. x = k) (map bo_operation ws)))"
  by (simp add: count_ops_def filter_map o_def)

section \<open>Template selection\<close>

definition eligible :: "string set \<Rightarrow> doc_ptr list \<Rightarrow> TemplateDocument list" where
  "eligible excluded_ids ps = filter (\<lambda>d. td_template_id d \<notin> excluded_ids) (List.map_filter id ps)"

lemma pick_loop_spec:
  assumes "int (length chosen) < cnt"
  shows "pick_loop cnt ex chosen ps =
    (take (nat cnt) (chosen @ eligible ex ps), cnt \<le> int (length (chosen @ eligible ex ps)))"
  using assms
proof (induction ps arbitrary: chosen)
  case Nil
  then show ?case by (simp add: eligible_def)
next
  case (Cons p ps)
  show ?case
  proof (cases p)
    case None
    with Cons show ?thesis by (simp add: eligible_def)
  next
    case (Some d)
    show ?thesis
    proof (cases "td_template_id d \<in> ex")
      case True
      with Cons Some show ?thesis by (simp add: eligible_def)
    next
      case False
      have el: "eligible ex (p # ps) = d # eligible ex ps"
        using Some False by (simp add: eligible_def)
      show ?thesis
      proof (cases "int (length (chosen @ [d])) = cnt")
        case True
        then have "nat cnt = length (chosen @ [d])" by simp
        then have "take (nat cnt) (chosen @ d # eligible ex ps) = chosen @ [d]" by simp
        with True Some False el show ?thesis by simp
      next
        case neq: False
        with Cons.prems have "int (length (chosen @ [d])) < cnt" by simp
        from Cons.IH[OF this] neq Some False el show ?thesis by simp
      qed
    qed
  qed
qed

lemma pad_loop_spec:
  assumes "0 < u" "u \<le> length chosen" "int (length chosen) \<le> cnt"
  shows "int (length (pad_loop cnt u chosen)) = cnt \<and> set (pad_loop cnt u chosen) = set chosen"
  using assms
proof (induction cnt u chosen rule: pad_loop.induct)
  case (1 cnt u chosen)
  have "(length chosen - u) mod u < u" using 1(2) by simp
  with 1(3) have "chosen ! ((length chosen - u) mod u) \<in> set chosen" by (meson less_le_trans nth_mem)
  then show ?case using 1 by (subst (1 2) pad_loop.simps) auto
qed

lemma pick_unique_spec:
  assumes "0 < cnt" "eligible ex ps \<noteq> []"
  shows "\<exists>xs. pick_unique_templates ps cnt ex = Inr xs \<and> int (length xs) = cnt \<and> set xs \<subseteq> set (eligible ex ps)"
proof -
  let ?e = "eligible ex ps"
  have loop: "pick_loop cnt ex [] ps = (take (nat cnt) ?e, cnt \<le> int (length ?e))"
    using pick_loop_spec[of "[]" cnt ex ps] assms(1) by simp
  show ?thesis
  proof (cases "cnt \<le> int (length ?e)")
    case True
    then show ?thesis using assms(1) by (auto simp: pick_unique_templates_def loop dest: in_set_takeD)
  next
    case False
    then have "take (nat cnt) ?e = ?e" by simp
    with False assms(2) pad_loop_spec[of "length ?e" ?e cnt] show ?thesis
      by (simp add: pick_unique_templates_def loop)
  qed
qed

lemma elem_at_ok [simp]: "i < length xs \<Longrightarrow> elem_at xs i = Inr (xs ! i)"
  by (simp add: elem_at_def)

section \<open>Loaded templates\<close>

definition template_id :: "int \<Rightarrow> string" where
  "template_id k = ''tpl-'' @ to_string k"

definition load_ok :: "template_load \<Rightarrow> bool" where
  "load_ok st \<longleftrightarrow> tl_counter st = int (length (tl_templates st))
     \<and> map td_template_id (tl_templates st) = map (\<lambda>k. template_id (int k + 1)) [0..<length (tl_templates st)]
     \<and> distinct (map td_text (tl_templates st)) \<and> tl_unique_texts st = set (map td_text (tl_templates st))"

lemma load_ok_snoc:
  assumes "load_ok st" "payload \<notin> tl_unique_texts st"
  shows "load_ok \<lparr>tl_unique_texts = insert payload (tl_unique_texts st), tl_templates = tl_templates st @
    [\<lparr>td_template_id = ''tpl-'' @ to_string (tl_counter st + 1), td_source_file = file, td_text = payload,
      td_embedding = values, td_embedding_ms = ms\<rparr>], tl_counter = tl_counter st + 1\<rparr>"
  using assms by (auto simp: load_ok_def template_id_def)

lemma load_entries_ok:
  "load_ok st \<Longrightarrow> load_entries F ops config file es st w = Some (w', Inr st') \<Longrightarrow> load_ok st'"
proof (induction es arbitrary: st w)
  case (Cons e es)
  show ?case
  proof (cases "parse_json_string_field e ''payload''")
    case (Inr payload)
    show ?thesis
    proof (cases "payload \<in> tl_unique_texts st")
      case False
      obtain w1 s1 where now1: "bw_now ops w = (w1, s1)" by fastforce
      from Cons.prems(2) Inr False now1 obtain w2 r where r: "request_embedding F ops config payload w1 = Some (w2, r)"
        by (auto simp: Let_def split: Option.bind_splits)
      obtain w3 s3 where now3: "bw_now ops w2 = (w3, s3)" by fastforce
      from Cons.prems(2) Inr False now1 r show ?thesis
        using Cons.IH[OF load_ok_snoc[OF Cons.prems(1) False]] now3 by (cases r) (auto simp: Let_def)
    qed (use Cons Inr in auto)
  qed (use Cons.prems in simp)
qed simp

lemma load_labels_ok:
  "load_ok st \<Longrightarrow> load_labels F ops config labels st w = Some (w', Inr st') \<Longrightarrow> load_ok st'"
proof (induction labels arbitrary: st w)
  case (Cons l labels)
  let ?path = "path_append (cfg_input_dir config) (l # ''.json'')"
  obtain w1 present where ex: "bw_exists ops ?path w = (w1, present)" by fastforce
  obtain w2 contents where rd: "bw_read ops ?path w1 = (w2, contents)" by fastforce
  show ?case
  proof (cases present)
    case True
    with Cons.prems(2) ex rd obtain entries w3 r where
      step: "load_entries F ops config (l # ''.json'') entries st w2 = Some (w3, r)"
      "(case r of Inl e \<Rightarrow> Some (w3, Inl e) | Inr st1 \<Rightarrow> load_labels F ops config labels st1 w3) = Some (w', Inr st')"
      by (auto simp: Let_def split: Option.bind_splits sum.splits)
    then obtain st1 where st1: "r = Inr st1" by (cases r) auto
    have "load_ok st1" by (rule load_entries_ok[OF Cons.prems(1) step(1)[unfolded st1]])
    with step(2) st1 Cons.IH[of st1 w3] show ?thesis by auto
  qed (use Cons ex in auto)
qed simp

lemma load_templates_ok:
  assumes "load_templates F ops config w = Some (w', Inr templates)"
  shows "10 \<le> length templates \<and> distinct (map td_text templates)
    \<and> map td_template_id templates = map (\<lambda>k. template_id (int k + 1)) [0..<length templates]"
proof -
  let ?st = "\<lparr>tl_unique_texts = {}, tl_templates = [], tl_counter = 0\<rparr>"
  have start: "load_ok ?st" by (simp add: load_ok_def)
  from assms obtain w1 r where r: "load_labels F ops config ''ABCDE'' ?st w = Some (w1, r)"
    "rbind r (\<lambda>st. if length (tl_templates st) < 10 then fail ''need at least ten unique template texts for curated benchmarking''
       else Inr (tl_templates st)) = Inr templates"
    by (auto simp: load_templates_def split: Option.bind_splits)
  then obtain st where st: "r = Inr st" "10 \<le> length (tl_templates st)" "templates = tl_templates st"
    by (cases r) (auto simp: fail_def split: if_splits)
  have "load_ok st" by (rule load_labels_ok[OF start r(1)[unfolded st(1)]])
  with st show ?thesis by (simp add: load_ok_def)
qed

lemma template_id_inj: "inj_on (\<lambda>k. template_id (int k + 1)) S"
  by (auto simp: inj_on_def template_id_def to_string_pos_inj)

lemma numbered_eligible:
  assumes "10 \<le> length templates"
    and "map td_template_id templates = map (\<lambda>k. template_id (int k + 1)) [0..<length templates]"
  shows "eligible {x, y} (map Some templates) \<noteq> []"
proof
  assume "eligible {x, y} (map Some templates) = []"
  then have "td_template_id ` set templates \<subseteq> {x, y}"
    by (auto simp: eligible_def filter_empty_conv map_filter_def o_def)
  moreover have "card (td_template_id ` set templates) = length templates"
    using assms(2) template_id_inj by (metis atLeast0LessThan card_image card_lessThan list.set_map set_upt)
  ultimately have "length templates \<le> card {x, y}" by (metis card_mono finite.emptyI finite.insertI)
  also have "\<dots> \<le> 2" by (cases "x = y") auto
  finally show False using assms(1) by simp
qed

lemma catalog_facts:
  assumes "build_template_catalog templates = Inr catalog"
  obtains a b where "tc_concept_a catalog = Some a" "tc_concept_b catalog = Some b"
    "tc_all catalog = map Some templates"
    "tc_concept_a_all catalog = map Some (filter (\<lambda>d. td_source_file d = ''A.json'') templates)"
  using assms by (auto simp: build_template_catalog_def fail_def Let_def split: if_splits)

section \<open>Scenarios\<close>

text \<open>What a workload must be for its case: the mix of operations and unique agents.\<close>

definition fits_case :: "BenchmarkCase \<Rightarrow> BenchmarkOperation list \<Rightarrow> bool" where
  "fits_case spec ws \<longleftrightarrow> int (length ws) = bc_agent_count spec \<and> count_ops kWrite ws = bc_write_count spec
     \<and> count_ops kRead ws = bc_read_count spec \<and> distinct (map bo_agent_id ws)"

lemma check_workload_fits: "fits_case spec ws \<Longrightarrow> check_workload spec ws = Inr ws"
  by (simp add: fits_case_def check_workload_def)

definition mix_ok :: "ScenarioKind \<times> int \<times> int \<times> int \<Rightarrow> (nat \<Rightarrow> BenchOperationType) \<Rightarrow> bool" where
  "mix_ok numbers t = (case numbers of (kind, agents, writes, reads) \<Rightarrow>
     let mix = map t [0..<nat agents] in 0 < agents
     \<and> int (length (filter (\<lambda>x. x = kWrite) mix)) = writes \<and> int (length (filter (\<lambda>x. x = kRead) mix)) = reads
     \<and> (kind = kPermissiveSieve \<longrightarrow> agents \<le> 5) \<and> (kind = kMixedStagger \<longrightarrow> agents \<le> 10)
     \<and> (kind = kAlmostCollision \<longrightarrow> agents = 2 \<and> writes = 2 \<and> reads = 0))"

definition case_numbers :: "BenchmarkCase \<Rightarrow> ScenarioKind \<times> int \<times> int \<times> int" where
  "case_numbers spec = (bc_kind spec, bc_agent_count spec, bc_write_count spec, bc_read_count spec)"

lemma for_agents_fits:
  assumes "mix_ok (case_numbers spec) t" "\<And>i. i < nat (bc_agent_count spec) \<Longrightarrow> \<exists>d r. body i = Inr (d, r, t i)"
  shows "\<exists>ws. for_agents spec body = Inr ws \<and> fits_case spec ws"
proof -
  from assms(2) obtain d r where "\<forall>i<nat (bc_agent_count spec). body i = Inr (d i, r i, t i)" by metis
  from for_agents_ok[OF this] obtain ws where ws: "for_agents spec body = Inr ws"
    "map bo_operation ws = map t [0..<nat (bc_agent_count spec)]" "distinct (map bo_agent_id ws)" by blast
  from arg_cong[OF ws(2), of length] have "length ws = nat (bc_agent_count spec)" by simp
  with ws(1,3) assms(1) show ?thesis
    unfolding fits_case_def mix_ok_def count_ops_map case_numbers_def Let_def prod.case
    by (intro exI[of _ ws]) (simp only: ws(2), simp)
qed

lemma from_selected_ok:
  "i < length selected \<Longrightarrow> \<exists>d r. from_selected selected t i = Inr (d, r, t i)"
  by (simp add: from_selected_def by_source_def)

lemma permissive_sieve_fits:
  assumes "mix_ok (case_numbers spec) (\<lambda>i. kWrite)" "bc_agent_count spec \<le> 5" "6 \<le> length background"
  shows "\<exists>ws. permissive_sieve spec a b background = Inr ws \<and> fits_case spec ws"
proof -
  have "\<exists>ws. for_agents spec (from_selected [a, x, b, y, z] (\<lambda>i. kWrite)) = Inr ws \<and> fits_case spec ws" for x y z
    by (rule for_agents_fits[OF assms(1)]) (rule from_selected_ok, use assms(2) in simp)
  moreover have "elem_at background 0 = Inr (background ! 0)" using assms(3) by (intro elem_at_ok) linarith
  ultimately show ?thesis using assms(3) by (simp add: permissive_sieve_def)
qed

lemma mixed_stagger_fits:
  assumes "mix_ok (case_numbers spec) (\<lambda>i. kWrite)" "bc_agent_count spec \<le> 10" "6 \<le> length background"
  shows "\<exists>ws. mixed_stagger spec a b background = Inr ws \<and> fits_case spec ws"
proof -
  have "\<exists>ws. for_agents spec (from_selected [a, u, b, v, a, x, b, y, z, z'] (\<lambda>i. kWrite)) = Inr ws \<and> fits_case spec ws"
    for u v x y z z'
    by (rule for_agents_fits[OF assms(1)]) (rule from_selected_ok, use assms(2) in simp)
  moreover have "elem_at background 0 = Inr (background ! 0)" using assms(3) by (intro elem_at_ok) linarith
  ultimately show ?thesis using assms(3) by (simp add: mixed_stagger_def)
qed

lemma strict_sieve_fits:
  assumes "mix_ok (case_numbers spec) (\<lambda>i. if i mod 2 = 0 then kWrite else kRead)" "0 < bc_agent_count spec"
    "eligible {} (tc_all catalog) \<noteq> []"
  shows "\<exists>ws. strict_sieve spec catalog = Inr ws \<and> fits_case spec ws"
proof -
  from pick_unique_spec[OF assms(2,3)] obtain xs where xs:
    "pick_unique_templates (tc_all catalog) (bc_agent_count spec) {} = Inr xs" "int (length xs) = bc_agent_count spec" by blast
  have "\<exists>ws. for_agents spec (from_selected xs (\<lambda>i. if i mod 2 = 0 then kWrite else kRead)) = Inr ws \<and> fits_case spec ws"
    by (rule for_agents_fits[OF assms(1)]) (rule from_selected_ok, use xs(2) in linarith)
  with xs(1) show ?thesis by (simp add: strict_sieve_def)
qed

lemma pick_paraphrase_ok:
  assumes "tc_concept_a_all catalog = map Some ds"
  shows "\<exists>d r. pick_paraphrase catalog a i = Inr (d, r, kWrite)"
  using assms by (cases "ds = []") (simp_all add: pick_paraphrase_def)

lemmas scenario_picks = pick_thundering_herd_def pick_semantic_interleaving_def pick_read_starvation_def
  pick_read_stampede_def pick_cross_domain_def pick_write_pressure_def by_source_def

lemma almost_collision_fits:
  "bc_agent_count spec = 2 \<Longrightarrow> bc_write_count spec = 2 \<Longrightarrow> bc_read_count spec = 0 \<Longrightarrow> fits_case spec (almost_collision F)"
  by (simp add: fits_case_def almost_collision_def count_ops_def make_synthetic_operation_def Let_def)

text \<open>The mix every curated case announces is the one its loop produces.\<close>

fun scenario_mix :: "ScenarioKind \<Rightarrow> nat \<Rightarrow> BenchOperationType" where
  "scenario_mix kReadStarvationTrap i = (if i = 0 \<or> i = 5 then kWrite else kRead)"
| "scenario_mix kStrictSieve i = (if i mod 2 = 0 then kWrite else kRead)"
| "scenario_mix kReadStampede i = kRead"
| "scenario_mix kWritePressureRatchet i = (if i mod 4 = 0 then kWrite else kRead)"
| "scenario_mix _ i = kWrite"

lemma scenario_mix_fun:
  "scenario_mix kPermissiveSieve = (\<lambda>i. kWrite)" "scenario_mix kMixedStagger = (\<lambda>i. kWrite)"
  "scenario_mix kStrictSieve = (\<lambda>i. if i mod 2 = 0 then kWrite else kRead)"
  by auto

definition curated_numbers :: "(ScenarioKind \<times> int \<times> int \<times> int) list" where
  "curated_numbers = [(kThunderingHerd, 10, 10, 0), (kSemanticInterleaving, 10, 10, 0), (kReadStarvationTrap, 10, 2, 8),
     (kPermissiveSieve, 5, 5, 0), (kStrictSieve, 10, 5, 5), (kGhostClient, 5, 5, 0), (kAlmostCollision, 2, 2, 0),
     (kQueueHopping, 20, 20, 0), (kMixedStagger, 10, 10, 0), (kReadStampede, 10, 0, 10), (kParaphraseGauntlet, 10, 10, 0),
     (kCrossDomainFlood, 12, 12, 0), (kWritePressureRatchet, 16, 4, 12)]"

lemma curated_case_numbers: "map case_numbers (build_curated_cases F config) = curated_numbers"
  by (simp add: build_curated_cases_def make_case_def case_numbers_def curated_numbers_def)

lemma curated_mix:
  assumes "spec \<in> set (build_curated_cases F config)"
  shows "mix_ok (case_numbers spec) (scenario_mix (bc_kind spec))"
proof -
  have "list_all (\<lambda>n. mix_ok n (scenario_mix (fst n))) curated_numbers" by code_simp
  moreover have "case_numbers spec \<in> set curated_numbers"
    using assms curated_case_numbers by (metis image_eqI list.set_map)
  ultimately have "mix_ok (case_numbers spec) (scenario_mix (fst (case_numbers spec)))" by (simp add: list_all_iff)
  then show ?thesis by (simp add: case_numbers_def)
qed

lemma scenario_workload_fits:
  assumes mix: "mix_ok (case_numbers spec) (scenario_mix (bc_kind spec))"
    and catalog: "eligible {} (tc_all catalog) \<noteq> []" "tc_concept_a_all catalog = map Some ds" "6 \<le> length background"
  shows "\<exists>ws. scenario_workload F spec catalog a b background = Inr ws \<and> fits_case spec ws"
proof -
  have size: "0 < bc_agent_count spec" "bc_kind spec = kPermissiveSieve \<longrightarrow> bc_agent_count spec \<le> 5"
    "bc_kind spec = kMixedStagger \<longrightarrow> bc_agent_count spec \<le> 10"
    "bc_kind spec = kAlmostCollision \<longrightarrow> bc_agent_count spec = 2 \<and> bc_write_count spec = 2 \<and> bc_read_count spec = 0"
    using mix by (simp_all add: mix_ok_def case_numbers_def Let_def)
  note spec = mix size
  show ?thesis
  proof (cases "bc_kind spec")
    case kPermissiveSieve
    with spec catalog permissive_sieve_fits[of spec background a b] show ?thesis by (simp add: scenario_workload_def scenario_mix_fun)
  next
    case kStrictSieve
    with spec catalog strict_sieve_fits[of spec catalog] show ?thesis by (simp add: scenario_workload_def scenario_mix_fun)
  next
    case kAlmostCollision
    with spec almost_collision_fits show ?thesis by (simp add: scenario_workload_def)
  next
    case kMixedStagger
    with spec catalog mixed_stagger_fits[of spec background a b] show ?thesis by (simp add: scenario_workload_def scenario_mix_fun)
  next
    case kParaphraseGauntlet
    with spec for_agents_fits[OF spec(1), of "pick_paraphrase catalog a"] pick_paraphrase_ok[OF catalog(2)] show ?thesis
      by (simp add: scenario_workload_def)
  qed (simp_all add: scenario_workload_def, (rule for_agents_fits[OF spec(1)], simp add: scenario_picks)+)
qed

end
