(* ===== verification/BenchMetrics.thy ===== *)
theory BenchMetrics
  imports BenchWorkload "HOL-Library.Product_Lexorder"
begin

text \<open>
  What the benchmark runner measures (\<^verbatim>\<open>src/benchmark_runner.cpp\<close>, \<^verbatim>\<open>cosine_similarity\<close>,
  \<^verbatim>\<open>intervals_overlap\<close> to \<^verbatim>\<open>compute_metrics\<close>, and the violation records and timeline of the report):
  percentiles, container statistics, the tally over all operations and the comparison of every pair
  of them. The text of a floating-point number in the report is a parameter.
\<close>

section \<open>Data\<close>

record OperationResult =
  or_operation :: BenchmarkOperation
  or_status :: Status
  or_response :: AcquireResponse
  or_submit_ms :: int
  or_dslm_enter_ms :: int
  or_dslm_exit_ms :: int
  or_finish_ms :: int
  or_elapsed_ms :: int

record ContainerStats =
  cs_name :: string
  cs_cpu_percent :: fl
  cs_memory_used_mib :: fl
  cs_net_input_mib :: fl
  cs_net_output_mib :: fl

record BenchmarkMetrics =
  m_total_ops :: int
  m_write_ops :: int
  m_read_ops :: int
  m_grpc_failures :: int
  m_granted_ops :: int
  m_blocked_ops :: int
  m_blocked_writes :: int
  m_blocked_reads :: int
  m_blocked_reads_on_write :: int
  m_expected_conflict_pairs :: int
  m_expected_distinct_pairs :: int
  m_conflicting_overlap_violations :: int
  m_distinct_parallel_pairs :: int
  m_distinct_nonparallel_pairs :: int
  m_active_lock_count_max :: int
  m_wait_position_max :: int
  m_wake_count_max :: int
  m_queue_hops_max :: int
  m_success_rate :: fl
  m_throughput_ops_per_sec :: fl
  m_utilization_factor :: fl
  m_serialization_score :: fl
  m_distinct_parallelism_rate :: fl
  m_makespan_ms :: int
  m_latency_p50_ms :: int
  m_latency_p95_ms :: int
  m_latency_p99_ms :: int
  m_write_latency_p95_ms :: int
  m_read_latency_p95_ms :: int
  m_lock_wait_p50_ms :: int
  m_lock_wait_p95_ms :: int
  m_lock_wait_p99_ms :: int
  m_qdrant_window_p95_ms :: int
  m_queue_position_p95 :: int
  m_wake_count_p95 :: int
  m_queue_hops_p95 :: int

definition new_BenchmarkMetrics :: BenchmarkMetrics where
  "new_BenchmarkMetrics = \<lparr>m_total_ops = 0, m_write_ops = 0, m_read_ops = 0, m_grpc_failures = 0, m_granted_ops = 0,
     m_blocked_ops = 0, m_blocked_writes = 0, m_blocked_reads = 0, m_blocked_reads_on_write = 0,
     m_expected_conflict_pairs = 0, m_expected_distinct_pairs = 0, m_conflicting_overlap_violations = 0,
     m_distinct_parallel_pairs = 0, m_distinct_nonparallel_pairs = 0, m_active_lock_count_max = 0,
     m_wait_position_max = 0, m_wake_count_max = 0, m_queue_hops_max = 0, m_success_rate = Fin 0,
     m_throughput_ops_per_sec = Fin 0, m_utilization_factor = Fin 0, m_serialization_score = Fin 1,
     m_distinct_parallelism_rate = Fin 0, m_makespan_ms = 0, m_latency_p50_ms = 0, m_latency_p95_ms = 0,
     m_latency_p99_ms = 0, m_write_latency_p95_ms = 0, m_read_latency_p95_ms = 0, m_lock_wait_p50_ms = 0,
     m_lock_wait_p95_ms = 0, m_lock_wait_p99_ms = 0, m_qdrant_window_p95_ms = 0, m_queue_position_p95 = 0,
     m_wake_count_p95 = 0, m_queue_hops_p95 = 0\<rparr>"

record ViolationRecord =
  vr_active_agent_id :: string
  vr_violating_agent_id :: string
  vr_active_operation :: BenchOperationType
  vr_violating_operation :: BenchOperationType
  vr_similarity :: fl
  vr_detected_unix_ms :: int
  vr_overlap_start_unix_ms :: int
  vr_overlap_end_unix_ms :: int

record TimelineLine =
  tn_absolute_ms :: int
  tn_sequence :: nat
  tn_color :: string
  tn_text :: string

section \<open>Similarity, intervals and percentiles\<close>

fun bench_cosine_loop :: "fpu \<Rightarrow> fl list \<Rightarrow> fl list \<Rightarrow> fl \<times> fl \<times> fl \<Rightarrow> fl \<times> fl \<times> fl" where
  "bench_cosine_loop F (x # a) (y # b) (dot, norm_a, norm_b) =
     bench_cosine_loop F a b
       (fl_add F dot (fl_mul F x y), fl_add F norm_a (fl_mul F x x), fl_add F norm_b (fl_mul F y y))"
| "bench_cosine_loop F _ _ acc = acc"

definition bench_cosine_similarity :: "fpu \<Rightarrow> fl list \<Rightarrow> fl list \<Rightarrow> fl" where
  "bench_cosine_similarity F a b =
     (if a = [] \<or> b = [] \<or> length a \<noteq> length b then Fin 0
      else case bench_cosine_loop F a b (Fin 0, Fin 0, Fin 0) of (dot, norm_a, norm_b) \<Rightarrow>
        if fl_le norm_a (Fin 0) \<or> fl_le norm_b (Fin 0) then Fin 0
        else let v = fl_div F dot (fl_mul F (fl_sqrt F norm_a) (fl_sqrt F norm_b))
             in to_float F (fl_max (Fin (-1)) (fl_min (Fin 1) v)))"

definition intervals_overlap :: "int \<Rightarrow> int \<Rightarrow> int \<Rightarrow> int \<Rightarrow> bool" where
  "intervals_overlap start_a end_a start_b end_b =
     (if start_a \<le> 0 \<or> end_a \<le> 0 \<or> start_b \<le> 0 \<or> end_b \<le> 0 then False
      else max start_a start_b < min end_a end_b)"

text \<open>
  \<^verbatim>\<open>static_cast<size_t>(std::round(x))\<close>: round halves away from zero; converting a value that has no
  \<^verbatim>\<open>size_t\<close> is undefined.
\<close>

definition round_size :: "fl \<Rightarrow> nat outcome" where
  "round_size x =
     (case x of
        Fin r \<Rightarrow> let i = (if r \<ge> 0 then \<lfloor>r + 1 / 2\<rfloor> else - \<lfloor>1 / 2 - r\<rfloor>) in
          if 0 \<le> i \<and> i < 2 ^ 64 then Inr (nat i) else Inl (Undefined OutOfBounds)
      | _ \<Rightarrow> Inl (Undefined OutOfBounds))"

definition percentile_ms :: "fpu \<Rightarrow> int list \<Rightarrow> fl \<Rightarrow> int outcome" where
  "percentile_ms F values percentile =
     (if values = [] then Inr 0
      else let sorted_values = sort values;
               rank = fl_mul F percentile (rnd_double F (real (length values - 1)))
           in rbind (round_size rank) (\<lambda>index. elem_at sorted_values (min index (length values - 1))))"

section \<open>Container statistics\<close>

definition stod :: "fpu \<Rightarrow> (string \<Rightarrow> bool) \<Rightarrow> string \<Rightarrow> fl outcome" where
  "stod F erange s = stof (F\<lparr>rnd_float := rnd_double F\<rparr>) erange s"

definition parse_size_mib :: "fpu \<Rightarrow> (string \<Rightarrow> bool) \<Rightarrow> string \<Rightarrow> fl outcome" where
  "parse_size_mib F erange raw =
     (let text = trim_copy raw; number = takeWhile (\<lambda>c. isdigit c \<or> c = CHR ''.'') text in
      if text = [] then Inr (Fin 0)
      else if number = [] then Inr (Fin 0)
      else rbind (stod F erange number) (\<lambda>v.
        let unit_name = lowercase_copy (trim_copy (drop (length number) text)) in
        Inr (if unit_name = ''b'' then fl_div F v (fl_mul F (Fin 1024) (Fin 1024))
             else if unit_name = ''kb'' \<or> unit_name = ''kib'' then
               (if unit_name = ''kb'' then fl_div F v (Fin 1000) else fl_div F v (Fin 1024))
             else if unit_name = ''mb'' \<or> unit_name = ''mib'' then
               (if unit_name = ''mb'' then fl_div F (fl_mul F v (Fin 1000)) (Fin 1024) else v)
             else if unit_name = ''gb'' \<or> unit_name = ''gib'' then
               (if unit_name = ''gb'' then fl_mul F v (Fin 1000) else fl_mul F v (Fin 1024))
             else v)))"

definition json_string_field :: "string \<Rightarrow> string \<Rightarrow> string" where
  "json_string_field line key =
     (let quoted_key = quoted key @ '':'' in
      case str_find line quoted_key of
        None \<Rightarrow> []
      | Some key_pos \<Rightarrow>
          (case find_at line dq (key_pos + length quoted_key) of
             None \<Rightarrow> []
           | Some first_quote \<Rightarrow>
               (case find_at line dq (first_quote + 1) of
                  None \<Rightarrow> []
                | Some second_quote \<Rightarrow> take (second_quote - first_quote - 1) (drop (first_quote + 1) line))))"

definition upto :: "char \<Rightarrow> string \<Rightarrow> string" where
  "upto c s = takeWhile (\<lambda>x. x \<noteq> c) s"

definition parse_container_line :: "fpu \<Rightarrow> (string \<Rightarrow> bool) \<Rightarrow> string \<Rightarrow> ContainerStats outcome" where
  "parse_container_line F erange line =
     (let cpu = json_string_field line ''CPUPerc''; mem = json_string_field line ''MemUsage'';
          net = json_string_field line ''NetIO''
      in rbind (if cpu \<noteq> [] then stod F erange (upto (CHR 0x25) cpu) else Inr (Fin 0)) (\<lambda>cpu_percent.
         rbind (if mem \<noteq> [] then parse_size_mib F erange (upto (CHR ''/'') mem) else Inr (Fin 0)) (\<lambda>memory.
         rbind (if net \<noteq> [] then parse_size_mib F erange (upto (CHR ''/'') net) else Inr (Fin 0)) (\<lambda>net_in.
         rbind (if net \<noteq> [] then
                  parse_size_mib F erange (if CHR ''/'' \<in> set net then drop (Suc (length (upto (CHR ''/'') net))) net else [])
                else Inr (Fin 0)) (\<lambda>net_out.
           Inr \<lparr>cs_name = json_string_field line ''Name'', cs_cpu_percent = cpu_percent, cs_memory_used_mib = memory,
             cs_net_input_mib = net_in, cs_net_output_mib = net_out\<rparr>)))))"

fun container_lines :: "fpu \<Rightarrow> (string \<Rightarrow> bool) \<Rightarrow> string list \<Rightarrow> ContainerStats list outcome" where
  "container_lines F erange [] = Inr []"
| "container_lines F erange (l # lines) =
     (let line = trim_copy l in
      if line = [] then container_lines F erange lines
      else rbind (parse_container_line F erange line) (\<lambda>item.
        rbind (container_lines F erange lines) (\<lambda>items. Inr (item # items))))"

definition container_stats_command :: "string list \<Rightarrow> Config \<Rightarrow> string" where
  "container_stats_command services config =
     ''cd '' @ shell_quote (cfg_project_root config) @ '' && ids=$(docker compose ps -q''
     @ concat (map (\<lambda>service. '' '' @ service) services)
     @ ''); if [ -n '' @ quoted ''$ids'' @ '' ]; then docker stats --no-stream --format ''
     @ [squote] @ [CHR 0x7B, CHR 0x7B] @ ''json .'' @ [CHR 0x7D, CHR 0x7D] @ [squote] @ '' $ids; fi''"

text \<open>\<^verbatim>\<open>run_shell_capture\<close> is a parameter: the exit code and the output of a command line.\<close>

definition collect_container_stats ::
  "fpu \<Rightarrow> (string \<Rightarrow> bool) \<Rightarrow> (string \<Rightarrow> int \<times> string) \<Rightarrow> string list \<Rightarrow> Config \<Rightarrow> ContainerStats list outcome" where
  "collect_container_stats F erange run_shell_capture services config =
     (if services = [] then Inr []
      else case run_shell_capture (container_stats_command services config) of (exit_code, output) \<Rightarrow>
        if exit_code \<noteq> 0 then Inr []
        else container_lines F erange (getline_items (CHR 0x0A) output))"

section \<open>Metrics\<close>

record metrics_scan =
  sc_metrics :: BenchmarkMetrics
  sc_latencies :: "int list"
  sc_write_latencies :: "int list"
  sc_read_latencies :: "int list"
  sc_waits :: "int list"
  sc_qdrant_windows :: "int list"
  sc_wait_positions :: "int list"
  sc_wake_counts :: "int list"
  sc_queue_hops :: "int list"
  sc_first_submit :: int
  sc_last_finish :: int

definition is_write :: "OperationResult \<Rightarrow> bool" where
  "is_write result = (bo_operation (or_operation result) = kWrite)"

definition result_agent :: "OperationResult \<Rightarrow> string" where
  "result_agent result = bo_agent_id (or_operation result)"

fun type_by_agent :: "OperationResult list \<Rightarrow> (string, BenchOperationType) umap \<Rightarrow> (string, BenchOperationType) umap" where
  "type_by_agent [] m = m"
| "type_by_agent (result # operations) m =
     type_by_agent operations (um_assign (result_agent result) (bo_operation (or_operation result)) m)"

definition count_operation :: "OperationResult \<Rightarrow> BenchmarkMetrics \<Rightarrow> BenchmarkMetrics" where
  "count_operation result m =
     (if is_write result then m\<lparr>m_write_ops := m_write_ops m + 1\<rparr> else m\<lparr>m_read_ops := m_read_ops m + 1\<rparr>)"

definition count_granted :: "OperationResult \<Rightarrow> BenchmarkMetrics \<Rightarrow> BenchmarkMetrics" where
  "count_granted result m =
     (if rs_granted (or_response result) then m\<lparr>m_granted_ops := m_granted_ops m + 1\<rparr> else m)"

definition count_blocked :: "OperationResult \<Rightarrow> BenchmarkMetrics \<Rightarrow> BenchmarkMetrics" where
  "count_blocked result m =
     (if rs_lock_wait_ms (or_response result) > 0 then
        (if is_write result
         then m\<lparr>m_blocked_ops := m_blocked_ops m + 1, m_blocked_writes := m_blocked_writes m + 1\<rparr>
         else m\<lparr>m_blocked_ops := m_blocked_ops m + 1, m_blocked_reads := m_blocked_reads m + 1\<rparr>)
      else m)"

definition count_maxima :: "OperationResult \<Rightarrow> BenchmarkMetrics \<Rightarrow> BenchmarkMetrics" where
  "count_maxima result m = m\<lparr>
     m_active_lock_count_max := max (m_active_lock_count_max m) (int (rs_active_lock_count (or_response result))),
     m_wait_position_max := max (m_wait_position_max m) (int (rs_wait_position (or_response result))),
     m_wake_count_max := max (m_wake_count_max m) (int (rs_wake_count (or_response result))),
     m_queue_hops_max := max (m_queue_hops_max m) (int (rs_queue_hops (or_response result)))\<rparr>"

definition count_read_on_write ::
  "(string, BenchOperationType) umap \<Rightarrow> OperationResult \<Rightarrow> BenchmarkMetrics \<Rightarrow> BenchmarkMetrics" where
  "count_read_on_write types result m =
     (if \<not> is_write result \<and> rs_lock_wait_ms (or_response result) > 0
        \<and> map_of types (rs_blocking_agent_id (or_response result)) = Some kWrite
      then m\<lparr>m_blocked_reads_on_write := m_blocked_reads_on_write m + 1\<rparr> else m)"

definition scan_result ::
  "(string, BenchOperationType) umap \<Rightarrow> metrics_scan \<Rightarrow> OperationResult \<Rightarrow> metrics_scan" where
  "scan_result types st result =
     (let m0 = count_operation result (sc_metrics st); response = or_response result in
      if \<not> status_ok (or_status result) then st\<lparr>sc_metrics := m0\<lparr>m_grpc_failures := m_grpc_failures m0 + 1\<rparr>\<rparr>
      else \<lparr>sc_metrics = count_read_on_write types result
              (count_maxima result (count_blocked result (count_granted result m0))),
            sc_latencies = sc_latencies st @ [or_elapsed_ms result],
            sc_write_latencies = (if is_write result then sc_write_latencies st @ [or_elapsed_ms result] else sc_write_latencies st),
            sc_read_latencies = (if is_write result then sc_read_latencies st else sc_read_latencies st @ [or_elapsed_ms result]),
            sc_waits = sc_waits st @ [rs_lock_wait_ms response],
            sc_qdrant_windows = sc_qdrant_windows st @
              [max 0 (rs_qdrant_write_complete_unix_ms response - rs_lock_acquired_unix_ms response)],
            sc_wait_positions = sc_wait_positions st @ [int (rs_wait_position response)],
            sc_wake_counts = sc_wake_counts st @ [int (rs_wake_count response)],
            sc_queue_hops = sc_queue_hops st @ [int (rs_queue_hops response)],
            sc_first_submit = (if or_submit_ms result < sc_first_submit st then or_submit_ms result else sc_first_submit st),
            sc_last_finish = (if or_finish_ms result > sc_last_finish st then or_finish_ms result else sc_last_finish st)\<rparr>)"

definition results_overlap :: "OperationResult \<Rightarrow> OperationResult \<Rightarrow> bool" where
  "results_overlap left right =
     intervals_overlap (rs_lock_acquired_unix_ms (or_response left)) (rs_lock_released_unix_ms (or_response left))
       (rs_lock_acquired_unix_ms (or_response right)) (rs_lock_released_unix_ms (or_response right))"

definition pair_similarity :: "fpu \<Rightarrow> OperationResult \<Rightarrow> OperationResult \<Rightarrow> fl" where
  "pair_similarity F left right =
     bench_cosine_similarity F (bo_embedding (or_operation left)) (bo_embedding (or_operation right))"

definition count_pair :: "fpu \<Rightarrow> BenchmarkCase \<Rightarrow> OperationResult \<Rightarrow> BenchmarkMetrics \<Rightarrow> OperationResult \<Rightarrow> BenchmarkMetrics" where
  "count_pair F spec left m right =
     (let overlap = results_overlap left right in
      if fl_le (bc_theta spec) (pair_similarity F left right) then
        m\<lparr>m_expected_conflict_pairs := m_expected_conflict_pairs m + 1,
          m_conflicting_overlap_violations := m_conflicting_overlap_violations m + (if overlap then 1 else 0)\<rparr>
      else
        m\<lparr>m_expected_distinct_pairs := m_expected_distinct_pairs m + 1,
          m_distinct_parallel_pairs := m_distinct_parallel_pairs m + (if overlap then 1 else 0),
          m_distinct_nonparallel_pairs := m_distinct_nonparallel_pairs m + (if overlap then 0 else 1)\<rparr>)"

fun pairs_loop :: "fpu \<Rightarrow> BenchmarkCase \<Rightarrow> OperationResult list \<Rightarrow> BenchmarkMetrics \<Rightarrow> BenchmarkMetrics" where
  "pairs_loop F spec [] m = m"
| "pairs_loop F spec (left # operations) m =
     pairs_loop F spec operations (foldl (count_pair F spec left) m operations)"

definition int64_max :: int where "int64_max = 2 ^ 63 - 1"

definition dbl :: "fpu \<Rightarrow> int \<Rightarrow> fl" where
  "dbl F i = rnd_double F (real_of_int i)"

definition rate_metrics :: "fpu \<Rightarrow> metrics_scan \<Rightarrow> BenchmarkMetrics \<Rightarrow> BenchmarkMetrics" where
  "rate_metrics F st m =
     (let makespan = (if sc_first_submit st = int64_max then 0 else sc_last_finish st - sc_first_submit st);
          sum_elapsed = foldl (\<lambda>s v. fl_add F s (dbl F v)) (Fin 0) (sc_latencies st);
          mean_elapsed = (if sc_latencies st = [] then Fin 0 else fl_div F sum_elapsed (dbl F (int (length (sc_latencies st)))))
      in m\<lparr>
        m_success_rate := if m_total_ops m = 0 then Fin 0 else fl_div F (dbl F (m_granted_ops m)) (dbl F (m_total_ops m)),
        m_makespan_ms := makespan,
        m_throughput_ops_per_sec := if makespan \<le> 0 then Fin 0
          else fl_div F (fl_mul F (dbl F (m_total_ops m)) (Fin 1000)) (dbl F makespan),
        m_utilization_factor := if makespan > 0 then fl_div F mean_elapsed (dbl F makespan) else Fin 0,
        m_serialization_score := if m_expected_conflict_pairs m = 0 then Fin 1
          else fl_add F (Fin 1) (negate (fl_div F (dbl F (m_conflicting_overlap_violations m)) (dbl F (m_expected_conflict_pairs m)))),
        m_distinct_parallelism_rate := if m_expected_distinct_pairs m = 0 then Fin 0
          else fl_div F (dbl F (m_distinct_parallel_pairs m)) (dbl F (m_expected_distinct_pairs m))\<rparr>)"

definition percentile_metrics :: "fpu \<Rightarrow> metrics_scan \<Rightarrow> BenchmarkMetrics \<Rightarrow> BenchmarkMetrics outcome" where
  "percentile_metrics F st m =
     (let p50 = Fin (1 / 2); p95 = rnd_double F (95 / 100); p99 = rnd_double F (99 / 100) in
      rbind (percentile_ms F (sc_latencies st) p50) (\<lambda>latency_p50.
      rbind (percentile_ms F (sc_latencies st) p95) (\<lambda>latency_p95.
      rbind (percentile_ms F (sc_latencies st) p99) (\<lambda>latency_p99.
      rbind (percentile_ms F (sc_write_latencies st) p95) (\<lambda>write_p95.
      rbind (percentile_ms F (sc_read_latencies st) p95) (\<lambda>read_p95.
      rbind (percentile_ms F (sc_waits st) p50) (\<lambda>wait_p50.
      rbind (percentile_ms F (sc_waits st) p95) (\<lambda>wait_p95.
      rbind (percentile_ms F (sc_waits st) p99) (\<lambda>wait_p99.
      rbind (percentile_ms F (sc_qdrant_windows st) p95) (\<lambda>qdrant_p95.
      rbind (percentile_ms F (sc_wait_positions st) p95) (\<lambda>position_p95.
      rbind (percentile_ms F (sc_wake_counts st) p95) (\<lambda>wake_p95.
      rbind (percentile_ms F (sc_queue_hops st) p95) (\<lambda>hops_p95.
        Inr (m\<lparr>m_latency_p50_ms := latency_p50, m_latency_p95_ms := latency_p95, m_latency_p99_ms := latency_p99,
          m_write_latency_p95_ms := write_p95, m_read_latency_p95_ms := read_p95, m_lock_wait_p50_ms := wait_p50,
          m_lock_wait_p95_ms := wait_p95, m_lock_wait_p99_ms := wait_p99, m_qdrant_window_p95_ms := qdrant_p95,
          m_queue_position_p95 := position_p95, m_wake_count_p95 := wake_p95, m_queue_hops_p95 := hops_p95\<rparr>))))))))))))))"

definition initial_scan :: "OperationResult list \<Rightarrow> metrics_scan" where
  "initial_scan operations = \<lparr>sc_metrics = new_BenchmarkMetrics\<lparr>m_total_ops := int (length operations)\<rparr>,
     sc_latencies = [], sc_write_latencies = [], sc_read_latencies = [], sc_waits = [], sc_qdrant_windows = [],
     sc_wait_positions = [], sc_wake_counts = [], sc_queue_hops = [], sc_first_submit = int64_max, sc_last_finish = 0\<rparr>"

definition compute_metrics :: "fpu \<Rightarrow> BenchmarkCase \<Rightarrow> OperationResult list \<Rightarrow> BenchmarkMetrics outcome" where
  "compute_metrics F spec operations =
     (let st = foldl (scan_result (type_by_agent operations [])) (initial_scan operations) operations;
          m = pairs_loop F spec operations (sc_metrics st)
      in percentile_metrics F st (rate_metrics F st m))"

section \<open>Violations\<close>

definition violation_of :: "fpu \<Rightarrow> BenchmarkCase \<Rightarrow> OperationResult \<Rightarrow> OperationResult \<Rightarrow> ViolationRecord option" where
  "violation_of F spec left right =
     (if \<not> status_ok (or_status left) \<or> \<not> status_ok (or_status right)
        \<or> \<not> rs_granted (or_response left) \<or> \<not> rs_granted (or_response right) then None
      else let similarity = pair_similarity F left right in
      if fl_less similarity (bc_theta spec) then None
      else if \<not> results_overlap left right then None
      else
        let left_start = rs_lock_acquired_unix_ms (or_response left);
            right_start = rs_lock_acquired_unix_ms (or_response right);
            (active, violating) = (if right_start < left_start then (right, left) else (left, right))
        in Some \<lparr>vr_active_agent_id = result_agent active, vr_violating_agent_id = result_agent violating,
          vr_active_operation = bo_operation (or_operation active),
          vr_violating_operation = bo_operation (or_operation violating), vr_similarity = similarity,
          vr_detected_unix_ms = max (rs_lock_acquired_unix_ms (or_response active)) (rs_lock_acquired_unix_ms (or_response violating)),
          vr_overlap_start_unix_ms = max left_start right_start,
          vr_overlap_end_unix_ms = min (rs_lock_released_unix_ms (or_response left)) (rs_lock_released_unix_ms (or_response right))\<rparr>)"

fun compute_violation_records :: "fpu \<Rightarrow> BenchmarkCase \<Rightarrow> OperationResult list \<Rightarrow> ViolationRecord list" where
  "compute_violation_records F spec [] = []"
| "compute_violation_records F spec (left # operations) =
     List.map_filter (violation_of F spec left) operations @ compute_violation_records F spec operations"

section \<open>Timeline\<close>

fun grpc_status_code_name :: "StatusCode \<Rightarrow> string" where
  "grpc_status_code_name OK = ''OK''"
| "grpc_status_code_name CANCELLED = ''CANCELLED''"
| "grpc_status_code_name UNKNOWN = ''UNKNOWN''"
| "grpc_status_code_name INVALID_ARGUMENT = ''INVALID_ARGUMENT''"
| "grpc_status_code_name DEADLINE_EXCEEDED = ''DEADLINE_EXCEEDED''"
| "grpc_status_code_name NOT_FOUND = ''NOT_FOUND''"
| "grpc_status_code_name ALREADY_EXISTS = ''ALREADY_EXISTS''"
| "grpc_status_code_name PERMISSION_DENIED = ''PERMISSION_DENIED''"
| "grpc_status_code_name RESOURCE_EXHAUSTED = ''RESOURCE_EXHAUSTED''"
| "grpc_status_code_name FAILED_PRECONDITION = ''FAILED_PRECONDITION''"
| "grpc_status_code_name ABORTED = ''ABORTED''"
| "grpc_status_code_name OUT_OF_RANGE = ''OUT_OF_RANGE''"
| "grpc_status_code_name UNIMPLEMENTED = ''UNIMPLEMENTED''"
| "grpc_status_code_name INTERNAL = ''INTERNAL''"
| "grpc_status_code_name UNAVAILABLE = ''UNAVAILABLE''"
| "grpc_status_code_name DATA_LOSS = ''DATA_LOSS''"
| "grpc_status_code_name UNAUTHENTICATED = ''UNAUTHENTICATED''"

definition ansi :: "string \<Rightarrow> string" where
  "ansi code = CHR 0x1B # ''['' @ code @ ''m''"

definition arrow :: string where
  "arrow = '' '' @ [CHR 0xE2, CHR 0x9E, CHR 0x94] @ '' ''"

definition line_head :: "string \<Rightarrow> OperationResult \<Rightarrow> string" where
  "line_head sign result =
     sign @ '' ['' @ operation_title (bo_operation (or_operation result)) @ ''] '' @ result_agent result @ arrow"

definition failed_line :: "OperationResult \<Rightarrow> int \<times> string \<times> string" where
  "failed_line result =
     (let response = or_response result in
      (if rs_server_received_unix_ms response > 0 then rs_server_received_unix_ms response else max 1 (or_submit_ms result),
       ansi ''31'',
       line_head [CHR 0xF0, CHR 0x9F, CHR 0x94, CHR 0xB4] result @ ''FAILED''
       @ (if \<not> status_ok (or_status result) then '' ('' @ grpc_status_code_name (st_code (or_status result)) @ '')''
          else if rs_message response \<noteq> [] then '' ('' @ rs_message response @ '')'' else [])))"

definition granted_lines :: "(fl \<Rightarrow> string) \<Rightarrow> OperationResult \<Rightarrow> (int \<times> string \<times> string) list" where
  "granted_lines fmt2 result =
     (let response = or_response result in
      (if rs_lock_wait_ms response > 0 then
         [(rs_server_received_unix_ms response, ansi ''33'',
           line_head [CHR 0xF0, CHR 0x9F, CHR 0x9F, CHR 0xA1] result @ ''BLOCKED (Sim: ''
           @ fmt2 (rs_blocking_similarity_score response) @ arrow @ ''Waiting on '' @ rs_blocking_agent_id response @ '')'')]
       else [])
      @ [(rs_lock_acquired_unix_ms response, ansi ''32'',
          line_head [CHR 0xF0, CHR 0x9F, CHR 0x9F, CHR 0xA2] result @ ''GRANTED''
          @ (if rs_lock_wait_ms response > 0
             then '' (Wait: '' @ to_string (rs_lock_wait_ms response) @ ''ms, Hops: '' @ nat_to_string (rs_queue_hops response) @ '')''
             else '' (Active Locks: '' @ nat_to_string (rs_active_lock_count response) @ '')'')),
         (rs_lock_released_unix_ms response, ansi ''90'',
          line_head [CHR 0xE2, CHR 0x9A, CHR 0xAA] result @ ''RELEASED'')])"

definition operation_lines :: "(fl \<Rightarrow> string) \<Rightarrow> OperationResult \<Rightarrow> (int \<times> string \<times> string) list" where
  "operation_lines fmt2 result =
     (if \<not> status_ok (or_status result) \<or> \<not> rs_granted (or_response result) then [failed_line result]
      else granted_lines fmt2 result)"

definition violation_line :: "(fl \<Rightarrow> string) \<Rightarrow> BenchmarkCase \<Rightarrow> ViolationRecord \<Rightarrow> int \<times> string \<times> string" where
  "violation_line fmt2 spec violation =
     (vr_detected_unix_ms violation, ansi ''31'',
      [CHR 0xE2, CHR 0x9D, CHR 0x8C] @ '' [Violation] '' @ vr_violating_agent_id violation @ '' was granted while ''
      @ vr_active_agent_id violation @ '' was still active (Sim: '' @ fmt2 (vr_similarity violation)
      @ '' >= Theta: '' @ fmt2 (bc_theta spec) @ '')'')"

fun push_lines :: "nat \<Rightarrow> (int \<times> string \<times> string) list \<Rightarrow> TimelineLine list" where
  "push_lines sequence [] = []"
| "push_lines sequence ((absolute_ms, color, text) # rest) =
     (if absolute_ms \<le> 0 then push_lines sequence rest
      else \<lparr>tn_absolute_ms = absolute_ms, tn_sequence = sequence, tn_color = color, tn_text = text\<rparr>
           # push_lines (Suc sequence) rest)"

definition build_timeline_lines ::
  "fpu \<Rightarrow> (fl \<Rightarrow> string) \<Rightarrow> BenchmarkCase \<Rightarrow> OperationResult list \<Rightarrow> TimelineLine list" where
  "build_timeline_lines F fmt2 spec operations =
     sort_key (\<lambda>line. (tn_absolute_ms line, tn_sequence line))
       (push_lines 0 (concat (map (operation_lines fmt2) operations)
         @ map (violation_line fmt2 spec) (compute_violation_records F spec operations)))"

end
