(* ===== verification/BenchMetricsLaws.thy ===== *)
theory BenchMetricsLaws
  imports BenchMetrics
begin

text \<open>
  Laws of the measurements: the benchmark's similarity is the lock table's, the pair loop counts
  filters of the list of pairs, the tally partitions the operations, and percentiles are values of
  the sample, ordered as their ranks.
\<close>

section \<open>Similarity\<close>

lemma bench_cosine_loop_eq: "bench_cosine_loop F a b (d, x, y) = cosine_loop F a b d x y"
  by (induction F a b d x y rule: cosine_loop.induct) auto

lemma bench_cosine_eq: "bench_cosine_similarity F a b = cosine_similarity F a b"
  by (simp add: bench_cosine_similarity_def cosine_similarity_def bench_cosine_loop_eq Let_def split: prod.split)

section \<open>Pairs\<close>

fun all_pairs :: "'a list \<Rightarrow> ('a \<times> 'a) list" where
  "all_pairs [] = []"
| "all_pairs (x # xs) = map (Pair x) xs @ all_pairs xs"

lemma length_all_pairs: "2 * length (all_pairs xs) = length xs * (length xs - 1)"
proof (induction xs)
  case (Cons x xs)
  then show ?case by (cases xs) (simp_all add: algebra_simps)
qed simp

lemma all_pairs_set: "(x, y) \<in> set (all_pairs xs) \<Longrightarrow> x \<in> set xs \<and> y \<in> set xs"
  by (induction xs) auto

lemma pairs_loop_fold:
  "pairs_loop F spec ops m = foldl (\<lambda>m (l, r). count_pair F spec l m r) m (all_pairs ops)"
proof (induction ops arbitrary: m)
  case (Cons x ops)
  have "foldl (count_pair F spec x) m ops = foldl (\<lambda>m (l, r). count_pair F spec l m r) m (map (Pair x) ops)" for m
    by (induction ops arbitrary: m) auto
  with Cons show ?case by simp
qed simp

definition conflicting :: "fpu \<Rightarrow> BenchmarkCase \<Rightarrow> OperationResult \<times> OperationResult \<Rightarrow> bool" where
  "conflicting F spec p = fl_le (bc_theta spec) (pair_similarity F (fst p) (snd p))"

definition overlapping :: "OperationResult \<times> OperationResult \<Rightarrow> bool" where
  "overlapping p = results_overlap (fst p) (snd p)"

definition tally :: "('a \<Rightarrow> bool) \<Rightarrow> 'a list \<Rightarrow> int" where
  "tally P xs = int (length (filter P xs))"

lemma tally_simps [simp]: "tally P [] = 0" "tally P (x # xs) = (if P x then 1 else 0) + tally P xs"
  "tally P (xs @ ys) = tally P xs + tally P ys"
  by (simp_all add: tally_def)

lemma tally_mono: "(\<And>x. x \<in> set xs \<Longrightarrow> P x \<Longrightarrow> Q x) \<Longrightarrow> tally P xs \<le> tally Q xs"
proof (induction xs)
  case (Cons x xs)
  then have "tally P xs \<le> tally Q xs" "P x \<Longrightarrow> Q x" by simp_all
  then show ?case by auto
qed simp

lemma tally_nonneg: "0 \<le> tally P xs"
  by (simp add: tally_def)

lemma tally_split: "tally P xs + tally (\<lambda>x. \<not> P x) xs = int (length xs)"
  by (induction xs) auto

definition count_pairs :: "fpu \<Rightarrow> BenchmarkCase \<Rightarrow> BenchmarkMetrics \<Rightarrow> (OperationResult \<times> OperationResult) list \<Rightarrow> BenchmarkMetrics" where
  "count_pairs F spec m ps = foldl (\<lambda>m (l, r). count_pair F spec l m r) m ps"

lemma count_pairs_Cons: "count_pairs F spec m (p # ps) = count_pairs F spec (count_pair F spec (fst p) m (snd p)) ps"
  by (simp add: count_pairs_def split: prod.split)

lemma count_pairs_Nil: "count_pairs F spec m [] = m"
  by (simp add: count_pairs_def)

lemma count_pair_fields:
  "m_expected_conflict_pairs (count_pair F spec l m r) = m_expected_conflict_pairs m + (if conflicting F spec (l, r) then 1 else 0)"
  "m_conflicting_overlap_violations (count_pair F spec l m r) =
     m_conflicting_overlap_violations m + (if conflicting F spec (l, r) \<and> overlapping (l, r) then 1 else 0)"
  "m_expected_distinct_pairs (count_pair F spec l m r) = m_expected_distinct_pairs m + (if conflicting F spec (l, r) then 0 else 1)"
  "m_distinct_parallel_pairs (count_pair F spec l m r) =
     m_distinct_parallel_pairs m + (if \<not> conflicting F spec (l, r) \<and> overlapping (l, r) then 1 else 0)"
  "m_distinct_nonparallel_pairs (count_pair F spec l m r) =
     m_distinct_nonparallel_pairs m + (if \<not> conflicting F spec (l, r) \<and> \<not> overlapping (l, r) then 1 else 0)"
  by (auto simp: count_pair_def conflicting_def overlapping_def Let_def)

lemma count_pair_keeps:
  "m_total_ops (count_pair F spec l m r) = m_total_ops m" "m_granted_ops (count_pair F spec l m r) = m_granted_ops m"
  "m_write_ops (count_pair F spec l m r) = m_write_ops m" "m_read_ops (count_pair F spec l m r) = m_read_ops m"
  "m_grpc_failures (count_pair F spec l m r) = m_grpc_failures m"
  "m_blocked_ops (count_pair F spec l m r) = m_blocked_ops m"
  "m_blocked_writes (count_pair F spec l m r) = m_blocked_writes m"
  "m_blocked_reads (count_pair F spec l m r) = m_blocked_reads m"
  "m_blocked_reads_on_write (count_pair F spec l m r) = m_blocked_reads_on_write m"
  by (simp_all add: count_pair_def Let_def)

lemma count_pairs_fields:
  "m_expected_conflict_pairs (count_pairs F spec m ps) = m_expected_conflict_pairs m + tally (conflicting F spec) ps
    \<and> m_conflicting_overlap_violations (count_pairs F spec m ps) =
     m_conflicting_overlap_violations m + tally (\<lambda>p. conflicting F spec p \<and> overlapping p) ps
    \<and> m_expected_distinct_pairs (count_pairs F spec m ps) = m_expected_distinct_pairs m + tally (\<lambda>p. \<not> conflicting F spec p) ps
    \<and> m_distinct_parallel_pairs (count_pairs F spec m ps) =
     m_distinct_parallel_pairs m + tally (\<lambda>p. \<not> conflicting F spec p \<and> overlapping p) ps
    \<and> m_distinct_nonparallel_pairs (count_pairs F spec m ps) =
     m_distinct_nonparallel_pairs m + tally (\<lambda>p. \<not> conflicting F spec p \<and> \<not> overlapping p) ps"
  by (induction ps arbitrary: m) (simp_all add: count_pairs_Nil count_pairs_Cons count_pair_fields)

lemma count_pairs_keeps:
  "m_total_ops (count_pairs F spec m ps) = m_total_ops m
    \<and> m_granted_ops (count_pairs F spec m ps) = m_granted_ops m
    \<and> m_write_ops (count_pairs F spec m ps) = m_write_ops m
    \<and> m_read_ops (count_pairs F spec m ps) = m_read_ops m
    \<and> m_grpc_failures (count_pairs F spec m ps) = m_grpc_failures m
    \<and> m_blocked_ops (count_pairs F spec m ps) = m_blocked_ops m
    \<and> m_blocked_writes (count_pairs F spec m ps) = m_blocked_writes m
    \<and> m_blocked_reads (count_pairs F spec m ps) = m_blocked_reads m
    \<and> m_blocked_reads_on_write (count_pairs F spec m ps) = m_blocked_reads_on_write m"
  by (induction ps arbitrary: m) (simp_all add: count_pairs_Nil count_pairs_Cons count_pair_keeps)

lemma pairs_loop_count: "pairs_loop F spec ops m = count_pairs F spec m (all_pairs ops)"
  by (simp add: pairs_loop_fold count_pairs_def)

section \<open>Violation records\<close>

lemma map_filter_app: "List.map_filter f (xs @ ys) = List.map_filter f xs @ List.map_filter f ys"
  by (simp add: map_filter_def)

lemma violation_records_pairs:
  "compute_violation_records F spec ops = List.map_filter (\<lambda>(l, r). violation_of F spec l r) (all_pairs ops)"
proof (induction ops)
  case (Cons x ops)
  have "List.map_filter (violation_of F spec x) ys = List.map_filter (\<lambda>(l, r). violation_of F spec l r) (map (Pair x) ys)" for ys
    by (induction ys) (auto split: option.split)
  with Cons show ?case by (simp add: map_filter_app)
qed simp

lemma length_map_filter: "int (length (List.map_filter f xs)) = tally (\<lambda>x. f x \<noteq> None) xs"
  by (induction xs) (auto split: option.split)

definition was_served :: "OperationResult \<Rightarrow> bool" where
  "was_served r \<longleftrightarrow> status_ok (or_status r) \<and> rs_granted (or_response r)"

lemma violation_of_some:
  "violation_of F spec l r \<noteq> None \<longleftrightarrow>
     was_served l \<and> was_served r \<and> \<not> fl_less (pair_similarity F l r) (bc_theta spec) \<and> overlapping (l, r)"
  by (auto simp: violation_of_def was_served_def overlapping_def Let_def split: prod.split)

lemma pair_similarity_fin: "float_rounding F \<Longrightarrow> \<exists>y. pair_similarity F l r = Fin y \<and> \<bar>y\<bar> \<le> 1"
  unfolding pair_similarity_def bench_cosine_eq by (rule cosine_similarity_unit)

lemma length_violation_records:
  "int (length (compute_violation_records F spec ops)) = tally (\<lambda>p. was_served (fst p) \<and> was_served (snd p)
     \<and> \<not> fl_less (pair_similarity F (fst p) (snd p)) (bc_theta spec) \<and> overlapping p) (all_pairs ops)"
proof -
  have "(\<lambda>p. (case p of (l, r) \<Rightarrow> violation_of F spec l r) \<noteq> None) = (\<lambda>p. was_served (fst p) \<and> was_served (snd p)
     \<and> \<not> fl_less (pair_similarity F (fst p) (snd p)) (bc_theta spec) \<and> overlapping p)"
    by (auto simp only: fun_eq_iff violation_of_some fst_conv snd_conv split: prod.split)
  then show ?thesis unfolding violation_records_pairs length_map_filter by simp
qed

section \<open>Percentiles\<close>

text \<open>
  What IEEE 754 promises of rounding to \<^verbatim>\<open>double\<close> and the percentiles rely on: it is monotone on the
  non-negative numbers in question, and halves of small integers are representable.
\<close>

definition double_rounding :: "fpu \<Rightarrow> bool" where
  "double_rounding F \<longleftrightarrow>
     (\<forall>x y. 0 \<le> x \<and> x \<le> y \<and> y \<le> 2 ^ 52 \<longrightarrow> (\<exists>a b. rnd_double F x = Fin a \<and> rnd_double F y = Fin b \<and> a \<le> b))
     \<and> (\<forall>k::nat. k \<le> 2 ^ 53 \<longrightarrow> rnd_double F (real k / 2) = Fin (real k / 2))"

lemma double_rounding_exact: "double_rounding exact_fpu"
  by (simp add: double_rounding_def exact_fpu_def)

lemma double_mono:
  assumes "double_rounding F" "0 \<le> x" "x \<le> y" "y \<le> 2 ^ 52" "rnd_double F x = Fin a" "rnd_double F y = Fin b"
  shows "a \<le> b"
  using assms unfolding double_rounding_def by fastforce

lemma double_fin:
  assumes "double_rounding F" "0 \<le> x" "x \<le> 2 ^ 52"
  obtains a where "rnd_double F x = Fin a"
  using assms unfolding double_rounding_def by blast

lemma double_half: "double_rounding F \<Longrightarrow> k \<le> 2 ^ 53 \<Longrightarrow> rnd_double F (real k / 2) = Fin (real k / 2)"
  unfolding double_rounding_def by blast

lemma double_nat:
  assumes "double_rounding F" "n \<le> 2 ^ 52"
  shows "rnd_double F (real n) = Fin (real n)"
proof -
  have "2 * n \<le> (2::nat) ^ 53" using assms(2) by simp
  from double_half[OF assms(1) this] show ?thesis by simp
qed

definition rank_index :: "fpu \<Rightarrow> nat \<Rightarrow> real \<Rightarrow> nat" where
  "rank_index F n p = (case rnd_double F (p * real (n - 1)) of Fin r \<Rightarrow> nat \<lfloor>r + 1 / 2\<rfloor> | _ \<Rightarrow> 0)"

lemma rank_real:
  assumes "double_rounding F" "n \<le> 2 ^ 52" "0 \<le> p" "p \<le> 1"
  obtains r where "rnd_double F (p * real (n - 1)) = Fin r" "0 \<le> r" "r \<le> real (n - 1)"
proof -
  have n: "real (n - 1) \<le> 2 ^ 52"
  proof -
    have "real n \<le> real (2 ^ 52)" using assms(2) by (rule of_nat_mono)
    then show ?thesis by simp
  qed
  have x: "0 \<le> p * real (n - 1)" "p * real (n - 1) \<le> real (n - 1)"
    using assms(3,4) by (simp_all add: mult_left_le_one_le)
  obtain r where r: "rnd_double F (p * real (n - 1)) = Fin r"
    using double_fin[OF assms(1) x(1)] x(2) n by (meson order_trans)
  have "rnd_double F 0 = Fin 0" using double_nat[OF assms(1), of 0] by simp
  then have "0 \<le> r" using double_mono[OF assms(1) _ x(1) _ _ r] x(2) n by (meson order.refl order_trans)
  moreover have "rnd_double F (real (n - 1)) = Fin (real (n - 1))" by (rule double_nat[OF assms(1)]) (use assms(2) in simp)
  then have "r \<le> real (n - 1)" using double_mono[OF assms(1) x(1,2) n r] by blast
  ultimately show thesis using that r by blast
qed

lemma rank_index_less:
  assumes "double_rounding F" "n \<le> 2 ^ 52" "0 < n" "0 \<le> p" "p \<le> 1"
  shows "rank_index F n p \<le> n - 1"
proof -
  obtain r where r: "rnd_double F (p * real (n - 1)) = Fin r" "0 \<le> r" "r \<le> real (n - 1)"
    using rank_real[OF assms(1,2,4,5)] by blast
  then have "\<lfloor>r + 1 / 2\<rfloor> \<le> \<lfloor>real (n - 1) + 1 / 2\<rfloor>" by (intro floor_mono) simp
  also have "\<dots> = int (n - 1)" by linarith
  finally show ?thesis using r by (simp add: rank_index_def)
qed

lemma rank_index_mono:
  assumes "double_rounding F" "n \<le> 2 ^ 52" "0 \<le> p" "p \<le> q" "q \<le> 1"
  shows "rank_index F n p \<le> rank_index F n q"
proof -
  obtain r where r: "rnd_double F (p * real (n - 1)) = Fin r" using rank_real[OF assms(1,2,3)] assms(4,5) by (metis order_trans)
  obtain s where s: "rnd_double F (q * real (n - 1)) = Fin s" using rank_real[OF assms(1,2)] assms(3-5) by (metis order_trans)
  have n: "real (n - 1) \<le> 2 ^ 52"
  proof -
    have "real n \<le> real (2 ^ 52)" using assms(2) by (rule of_nat_mono)
    then show ?thesis by simp
  qed
  have "q * real (n - 1) \<le> real (n - 1)" using assms(3-5) by (simp add: mult_left_le_one_le)
  with n have "r \<le> s"
    using double_mono[OF assms(1) _ _ _ r s] assms(3,4) by (meson mult_nonneg_nonneg mult_right_mono of_nat_0_le_iff order_trans)
  then show ?thesis using r s by (simp add: rank_index_def floor_mono nat_mono)
qed

lemma percentile_value:
  assumes "double_rounding F" "length values \<le> 2 ^ 52" "values \<noteq> []" "0 \<le> p" "p \<le> 1"
  shows "percentile_ms F values (Fin p) = Inr (sort values ! rank_index F (length values) p)"
proof -
  let ?n = "length values"
  obtain r where r: "rnd_double F (p * real (?n - 1)) = Fin r" "0 \<le> r" "r \<le> real (?n - 1)"
    using rank_real[OF assms(1,2,4,5)] by blast
  have size: "rnd_double F (real (?n - 1)) = Fin (real (?n - 1))" by (rule double_nat[OF assms(1)]) (use assms(2) in simp)
  have idx: "nat \<lfloor>r + 1 / 2\<rfloor> \<le> ?n - 1"
    using rank_index_less[OF assms(1,2) _ assms(4,5)] assms(3) r by (simp add: rank_index_def)
  have "int (?n - 1) < 2 ^ 64" using assms(2) by simp
  with idx r(2) have "0 \<le> \<lfloor>r + 1 / 2\<rfloor>" "\<lfloor>r + 1 / 2\<rfloor> < 2 ^ 64" by linarith+
  then have "round_size (Fin r) = Inr (nat \<lfloor>r + 1 / 2\<rfloor>)" using r(2) by (simp add: round_size_def)
  moreover have "nat \<lfloor>r + 1 / 2\<rfloor> < ?n"
  proof -
    have "0 < ?n" using assms(3) by simp
    with idx show ?thesis by linarith
  qed
  ultimately show ?thesis
    using assms(3) size r idx by (simp add: percentile_ms_def fl_mul_def rank_index_def elem_at_def min_def)
qed

lemma rank_in_sample:
  assumes "double_rounding F" "length values \<le> 2 ^ 52" "values \<noteq> []" "0 \<le> p" "p \<le> 1"
  shows "rank_index F (length values) p < length (sort values)"
proof -
  have n: "0 < length values" using assms(3) by simp
  from rank_index_less[OF assms(1,2) n assms(4,5)] n show ?thesis unfolding length_sort by linarith
qed

lemma percentile_in_sample:
  assumes "double_rounding F" "length values \<le> 2 ^ 52" "values \<noteq> []" "0 \<le> p" "p \<le> 1"
  obtains v where "percentile_ms F values (Fin p) = Inr v" "v \<in> set values"
proof -
  have "sort values ! rank_index F (length values) p \<in> set values"
    using nth_mem[OF rank_in_sample[OF assms]] by (simp only: set_sort)
  with percentile_value[OF assms] that show thesis by blast
qed

lemma percentile_mono:
  assumes "double_rounding F" "length values \<le> 2 ^ 52" "values \<noteq> []" "0 \<le> p" "p \<le> q" "q \<le> 1"
    and "percentile_ms F values (Fin p) = Inr v" "percentile_ms F values (Fin q) = Inr w"
  shows "v \<le> w"
proof -
  have pq: "p \<le> 1" "0 \<le> q" using assms(4-6) by simp_all
  have "rank_index F (length values) q < length (sort values)" by (rule rank_in_sample[OF assms(1-3) pq(2) assms(6)])
  moreover have "rank_index F (length values) p \<le> rank_index F (length values) q"
    by (rule rank_index_mono[OF assms(1,2,4,5,6)])
  ultimately have "sort values ! rank_index F (length values) p \<le> sort values ! rank_index F (length values) q"
    by (intro sorted_nth_mono) simp_all
  with assms(7,8) percentile_value[OF assms(1-4) pq(1)] percentile_value[OF assms(1-3) pq(2) assms(6)] show ?thesis by simp
qed

lemma percentile_returns:
  assumes "double_rounding F" "length values \<le> 2 ^ 52" "0 \<le> p" "p \<le> 1"
  obtains v where "percentile_ms F values (Fin p) = Inr v"
proof (cases "values = []")
  case True
  then show thesis using that by (simp add: percentile_ms_def)
next
  case False
  then show thesis using that percentile_value[OF assms(1,2) _ assms(3,4)] by blast
qed

lemma percentile_ordered:
  assumes "double_rounding F" "length values \<le> 2 ^ 52" "0 \<le> p" "p \<le> q" "q \<le> 1"
    and "percentile_ms F values (Fin p) = Inr v" "percentile_ms F values (Fin q) = Inr w"
  shows "v \<le> w"
proof (cases "values = []")
  case True
  then show ?thesis using assms(6,7) by (simp add: percentile_ms_def)
next
  case False
  then show ?thesis using percentile_mono[OF assms(1,2) _ assms(3-7)] by blast
qed

text \<open>The rounded constants 0.95 and 0.99.\<close>

lemma percentile_constants:
  assumes "double_rounding F"
  obtains a b where "rnd_double F (95 / 100) = Fin a" "rnd_double F (99 / 100) = Fin b" "1 / 2 \<le> a" "a \<le> b" "b \<le> 1"
proof -
  obtain a where a: "rnd_double F (95 / 100) = Fin a" using double_fin[OF assms, of "95 / 100"] by auto
  obtain b where b: "rnd_double F (99 / 100) = Fin b" using double_fin[OF assms, of "99 / 100"] by auto
  have half: "rnd_double F (1 / 2) = Fin (1 / 2)" using double_half[OF assms, of 1] by simp
  have one: "rnd_double F 1 = Fin 1" using double_nat[OF assms, of 1] by simp
  have "1 / 2 \<le> a" by (rule double_mono[OF assms _ _ _ half a]) simp_all
  moreover have "a \<le> b" by (rule double_mono[OF assms _ _ _ a b]) simp_all
  moreover have "b \<le> 1" by (rule double_mono[OF assms _ _ _ b one]) simp_all
  ultimately show thesis using that a b by blast
qed

section \<open>The tally over the operations\<close>

definition ok_results :: "OperationResult list \<Rightarrow> OperationResult list" where
  "ok_results ops = filter (\<lambda>r. status_ok (or_status r)) ops"

definition was_blocked :: "OperationResult \<Rightarrow> bool" where
  "was_blocked r \<longleftrightarrow> status_ok (or_status r) \<and> rs_lock_wait_ms (or_response r) > 0"

lemmas count_defs = count_operation_def count_granted_def count_blocked_def count_maxima_def count_read_on_write_def

lemma scan_result_counts:
  fixes types st r
  defines "m \<equiv> sc_metrics st" and "m' \<equiv> sc_metrics (scan_result types st r)"
  shows "m_total_ops m' = m_total_ops m"
    and "m_write_ops m' = m_write_ops m + (if is_write r then 1 else 0)"
    and "m_read_ops m' = m_read_ops m + (if is_write r then 0 else 1)"
    and "m_grpc_failures m' = m_grpc_failures m + (if status_ok (or_status r) then 0 else 1)"
    and "m_granted_ops m' = m_granted_ops m + (if was_served r then 1 else 0)"
    and "m_blocked_ops m' = m_blocked_ops m + (if was_blocked r then 1 else 0)"
    and "m_blocked_writes m' = m_blocked_writes m + (if was_blocked r \<and> is_write r then 1 else 0)"
    and "m_blocked_reads m' = m_blocked_reads m + (if was_blocked r \<and> \<not> is_write r then 1 else 0)"
  unfolding m_def m'_def
  by (simp_all add: scan_result_def count_defs was_served_def was_blocked_def Let_def)

lemma scan_result_pairs:
  "m_expected_conflict_pairs (sc_metrics (scan_result types st r)) = m_expected_conflict_pairs (sc_metrics st)"
  "m_conflicting_overlap_violations (sc_metrics (scan_result types st r)) = m_conflicting_overlap_violations (sc_metrics st)"
  "m_expected_distinct_pairs (sc_metrics (scan_result types st r)) = m_expected_distinct_pairs (sc_metrics st)"
  "m_distinct_parallel_pairs (sc_metrics (scan_result types st r)) = m_distinct_parallel_pairs (sc_metrics st)"
  "m_distinct_nonparallel_pairs (sc_metrics (scan_result types st r)) = m_distinct_nonparallel_pairs (sc_metrics st)"
  by (simp_all add: scan_result_def count_defs Let_def)

lemma scan_result_samples:
  fixes types st r
  defines "st' \<equiv> scan_result types st r" and "ok \<equiv> status_ok (or_status r)"
  shows "sc_latencies st' = sc_latencies st @ (if ok then [or_elapsed_ms r] else [])"
    and "sc_write_latencies st' = sc_write_latencies st @ (if ok \<and> is_write r then [or_elapsed_ms r] else [])"
    and "sc_read_latencies st' = sc_read_latencies st @ (if ok \<and> \<not> is_write r then [or_elapsed_ms r] else [])"
    and "sc_waits st' = sc_waits st @ (if ok then [rs_lock_wait_ms (or_response r)] else [])"
  unfolding st'_def ok_def by (simp_all add: scan_result_def Let_def)

lemma scan_result_lengths:
  fixes types st r
  defines "st' \<equiv> scan_result types st r"
  shows "length (sc_qdrant_windows st') \<le> Suc (length (sc_qdrant_windows st))"
    and "length (sc_wait_positions st') \<le> Suc (length (sc_wait_positions st))"
    and "length (sc_wake_counts st') \<le> Suc (length (sc_wake_counts st))"
    and "length (sc_queue_hops st') \<le> Suc (length (sc_queue_hops st))"
  unfolding st'_def by (simp_all add: scan_result_def Let_def)

lemma scan_counts:
  "m_total_ops (sc_metrics (foldl (scan_result types) st ops)) = m_total_ops (sc_metrics st)
   \<and> m_write_ops (sc_metrics (foldl (scan_result types) st ops)) = m_write_ops (sc_metrics st) + tally is_write ops
   \<and> m_read_ops (sc_metrics (foldl (scan_result types) st ops)) = m_read_ops (sc_metrics st) + tally (\<lambda>r. \<not> is_write r) ops
   \<and> m_grpc_failures (sc_metrics (foldl (scan_result types) st ops))
       = m_grpc_failures (sc_metrics st) + tally (\<lambda>r. \<not> status_ok (or_status r)) ops
   \<and> m_granted_ops (sc_metrics (foldl (scan_result types) st ops)) = m_granted_ops (sc_metrics st) + tally was_served ops
   \<and> m_blocked_ops (sc_metrics (foldl (scan_result types) st ops)) = m_blocked_ops (sc_metrics st) + tally was_blocked ops
   \<and> m_blocked_writes (sc_metrics (foldl (scan_result types) st ops))
       = m_blocked_writes (sc_metrics st) + tally (\<lambda>r. was_blocked r \<and> is_write r) ops
   \<and> m_blocked_reads (sc_metrics (foldl (scan_result types) st ops))
       = m_blocked_reads (sc_metrics st) + tally (\<lambda>r. was_blocked r \<and> \<not> is_write r) ops"
  by (induction ops arbitrary: st) (simp_all add: scan_result_counts)

lemma scan_pairs:
  "m_expected_conflict_pairs (sc_metrics (foldl (scan_result types) st ops)) = m_expected_conflict_pairs (sc_metrics st)
   \<and> m_conflicting_overlap_violations (sc_metrics (foldl (scan_result types) st ops)) = m_conflicting_overlap_violations (sc_metrics st)
   \<and> m_expected_distinct_pairs (sc_metrics (foldl (scan_result types) st ops)) = m_expected_distinct_pairs (sc_metrics st)
   \<and> m_distinct_parallel_pairs (sc_metrics (foldl (scan_result types) st ops)) = m_distinct_parallel_pairs (sc_metrics st)
   \<and> m_distinct_nonparallel_pairs (sc_metrics (foldl (scan_result types) st ops)) = m_distinct_nonparallel_pairs (sc_metrics st)"
  by (induction ops arbitrary: st) (simp_all add: scan_result_pairs)

lemma scan_samples:
  "sc_latencies (foldl (scan_result types) st ops) = sc_latencies st @ map or_elapsed_ms (ok_results ops)
   \<and> sc_write_latencies (foldl (scan_result types) st ops)
       = sc_write_latencies st @ map or_elapsed_ms (filter is_write (ok_results ops))
   \<and> sc_read_latencies (foldl (scan_result types) st ops)
       = sc_read_latencies st @ map or_elapsed_ms (filter (\<lambda>r. \<not> is_write r) (ok_results ops))
   \<and> sc_waits (foldl (scan_result types) st ops) = sc_waits st @ map (\<lambda>r. rs_lock_wait_ms (or_response r)) (ok_results ops)"
  by (induction ops arbitrary: st) (simp_all add: scan_result_samples ok_results_def)

lemma scan_lengths:
  "length (sc_qdrant_windows (foldl (scan_result types) st ops)) \<le> length (sc_qdrant_windows st) + length ops
   \<and> length (sc_wait_positions (foldl (scan_result types) st ops)) \<le> length (sc_wait_positions st) + length ops
   \<and> length (sc_wake_counts (foldl (scan_result types) st ops)) \<le> length (sc_wake_counts st) + length ops
   \<and> length (sc_queue_hops (foldl (scan_result types) st ops)) \<le> length (sc_queue_hops st) + length ops"
proof (induction ops arbitrary: st)
  case (Cons r ops)
  from Cons[of "scan_result types st r"] scan_result_lengths[of types st r] show ?case by simp
qed simp

section \<open>The whole computation\<close>

text \<open>The counters of the metrics, which the rates and the percentiles leave alone.\<close>

definition counters :: "BenchmarkMetrics \<Rightarrow> int list" where
  "counters m = [m_total_ops m, m_write_ops m, m_read_ops m, m_grpc_failures m, m_granted_ops m, m_blocked_ops m,
     m_blocked_writes m, m_blocked_reads m, m_expected_conflict_pairs m, m_expected_distinct_pairs m,
     m_conflicting_overlap_violations m, m_distinct_parallel_pairs m, m_distinct_nonparallel_pairs m]"

lemma rate_counters: "counters (rate_metrics F st m) = counters m"
  by (simp add: counters_def rate_metrics_def Let_def)

definition ordered_percentiles :: "BenchmarkMetrics \<Rightarrow> bool" where
  "ordered_percentiles m \<longleftrightarrow> m_latency_p50_ms m \<le> m_latency_p95_ms m \<and> m_latency_p95_ms m \<le> m_latency_p99_ms m
     \<and> m_lock_wait_p50_ms m \<le> m_lock_wait_p95_ms m \<and> m_lock_wait_p95_ms m \<le> m_lock_wait_p99_ms m"

lemma percentile_metrics_returns:
  assumes F: "double_rounding F"
    and small: "\<forall>xs\<in>{sc_latencies st, sc_write_latencies st, sc_read_latencies st, sc_waits st, sc_qdrant_windows st,
      sc_wait_positions st, sc_wake_counts st, sc_queue_hops st}. length xs \<le> 2 ^ 52"
  shows "\<exists>m'. percentile_metrics F st m = Inr m' \<and> counters m' = counters m \<and> ordered_percentiles m'
    \<and> m_serialization_score m' = m_serialization_score m"
proof -
  obtain a b where ab: "rnd_double F (95 / 100) = Fin a" "rnd_double F (99 / 100) = Fin b" "1 / 2 \<le> a" "a \<le> b" "b \<le> 1"
    by (rule percentile_constants[OF F])
  have r: "\<exists>v. percentile_ms F xs (Fin p) = Inr v" if "length xs \<le> 2 ^ 52" "1 / 2 \<le> p" "p \<le> 1" for xs p
    using percentile_returns[OF F that(1) _ that(3)] that(2) by (metis order_trans zero_le_divide_1_iff zero_le_numeral)
  obtain l50 where l50: "percentile_ms F (sc_latencies st) (Fin (1 / 2)) = Inr l50" using r small by force
  obtain l95 where l95: "percentile_ms F (sc_latencies st) (Fin a) = Inr l95" using r[of _ a] small ab by force
  obtain l99 where l99: "percentile_ms F (sc_latencies st) (Fin b) = Inr l99" using r[of _ b] small ab by force
  obtain w95 where w95: "percentile_ms F (sc_write_latencies st) (Fin a) = Inr w95" using r[of _ a] small ab by force
  obtain r95 where r95: "percentile_ms F (sc_read_latencies st) (Fin a) = Inr r95" using r[of _ a] small ab by force
  obtain t50 where t50: "percentile_ms F (sc_waits st) (Fin (1 / 2)) = Inr t50" using r small by force
  obtain t95 where t95: "percentile_ms F (sc_waits st) (Fin a) = Inr t95" using r[of _ a] small ab by force
  obtain t99 where t99: "percentile_ms F (sc_waits st) (Fin b) = Inr t99" using r[of _ b] small ab by force
  obtain q95 where q95: "percentile_ms F (sc_qdrant_windows st) (Fin a) = Inr q95" using r[of _ a] small ab by force
  obtain p95 where p95: "percentile_ms F (sc_wait_positions st) (Fin a) = Inr p95" using r[of _ a] small ab by force
  obtain k95 where k95: "percentile_ms F (sc_wake_counts st) (Fin a) = Inr k95" using r[of _ a] small ab by force
  obtain h95 where h95: "percentile_ms F (sc_queue_hops st) (Fin a) = Inr h95" using r[of _ a] small ab by force
  have "l50 \<le> l95" by (rule percentile_ordered[OF F _ _ _ _ l50 l95]) (use small ab in auto)
  moreover have "l95 \<le> l99" by (rule percentile_ordered[OF F _ _ _ _ l95 l99]) (use small ab in auto)
  moreover have "t50 \<le> t95" by (rule percentile_ordered[OF F _ _ _ _ t50 t95]) (use small ab in auto)
  moreover have "t95 \<le> t99" by (rule percentile_ordered[OF F _ _ _ _ t95 t99]) (use small ab in auto)
  ultimately show ?thesis
    unfolding percentile_metrics_def Let_def ab(1,2)
    using l50 l95 l99 w95 r95 t50 t95 t99 q95 p95 k95 h95 by (simp add: ordered_percentiles_def counters_def)
qed

lemma initial_scan_zero:
  "counters (sc_metrics (initial_scan ops)) = [int (length ops), 0, 0, 0, 0, 0, 0, 0, 0, 0, 0, 0, 0]"
  by (simp add: counters_def initial_scan_def new_BenchmarkMetrics_def)

lemma compute_metrics_counters:
  assumes F: "double_rounding F" and small: "length ops \<le> 2 ^ 52"
  shows "\<exists>m. compute_metrics F spec ops = Inr m \<and> ordered_percentiles m \<and> counters m = [int (length ops),
      tally is_write ops, tally (\<lambda>r. \<not> is_write r) ops, tally (\<lambda>r. \<not> status_ok (or_status r)) ops, tally was_served ops,
      tally was_blocked ops, tally (\<lambda>r. was_blocked r \<and> is_write r) ops, tally (\<lambda>r. was_blocked r \<and> \<not> is_write r) ops,
      tally (conflicting F spec) (all_pairs ops), tally (\<lambda>p. \<not> conflicting F spec p) (all_pairs ops),
      tally (\<lambda>p. conflicting F spec p \<and> overlapping p) (all_pairs ops),
      tally (\<lambda>p. \<not> conflicting F spec p \<and> overlapping p) (all_pairs ops),
      tally (\<lambda>p. \<not> conflicting F spec p \<and> \<not> overlapping p) (all_pairs ops)]"
proof -
  let ?types = "type_by_agent ops []"
  let ?st = "foldl (scan_result ?types) (initial_scan ops) ops"
  let ?m = "rate_metrics F ?st (pairs_loop F spec ops (sc_metrics ?st))"
  have ok: "length (ok_results ops) \<le> length ops" by (simp add: ok_results_def)
  have f: "length (filter P (ok_results ops)) \<le> length ops" for P using ok length_filter_le order_trans by blast
  have "\<forall>xs\<in>{sc_latencies ?st, sc_write_latencies ?st, sc_read_latencies ?st, sc_waits ?st, sc_qdrant_windows ?st,
      sc_wait_positions ?st, sc_wake_counts ?st, sc_queue_hops ?st}. length xs \<le> length ops"
    using scan_samples[of ?types "initial_scan ops" ops] scan_lengths[of ?types "initial_scan ops" ops] ok f
    by (simp add: initial_scan_def)
  then obtain m where m: "percentile_metrics F ?st ?m = Inr m" "counters m = counters ?m" "ordered_percentiles m"
    using percentile_metrics_returns[OF F, of ?st ?m] small by (meson order_trans)
  have "counters ?m = counters (pairs_loop F spec ops (sc_metrics ?st))" by (rule rate_counters)
  with m show ?thesis
    using scan_counts[of ?types "initial_scan ops" ops] scan_pairs[of ?types "initial_scan ops" ops]
      count_pairs_fields[of F spec "sc_metrics ?st" "all_pairs ops"] count_pairs_keeps[of F spec "sc_metrics ?st" "all_pairs ops"]
      initial_scan_zero[of ops]
    by (simp add: compute_metrics_def Let_def pairs_loop_count counters_def)
qed

section \<open>The timeline\<close>

lemma violation_record_times:
  assumes "v \<in> set (compute_violation_records F spec ops)"
  shows "0 < vr_detected_unix_ms v \<and> vr_detected_unix_ms v = vr_overlap_start_unix_ms v
    \<and> vr_overlap_start_unix_ms v < vr_overlap_end_unix_ms v"
proof -
  have "\<exists>l r. violation_of F spec l r = Some v"
    using assms by (induction ops) (force simp: map_filter_def)+
  then show ?thesis
    by (auto simp: violation_of_def results_overlap_def intervals_overlap_def Let_def split: if_splits)
qed

lemma push_lines_positive: "l \<in> set (push_lines n xs) \<Longrightarrow> 0 < tn_absolute_ms l"
  by (induction n xs rule: push_lines.induct) (auto split: if_splits)

lemma push_lines_texts: "map (\<lambda>l. (tn_absolute_ms l, tn_color l, tn_text l)) (push_lines n xs) = filter (\<lambda>(t, _). 0 < t) xs"
  by (induction n xs rule: push_lines.induct) auto

end
