(* ===== verification/BenchProps.thy ===== *)
theory BenchProps
  imports BenchWorkloadLaws BenchMetricsLaws
begin

text \<open>
  The properties of the benchmark runner: its shell commands and payload files, the workloads it
  builds, and the figures it reports.
\<close>

section \<open>Commands and files\<close>

text \<open>
  The project root reaches the shell as one literal word. Whatever characters the path has (quotes,
  blanks, dollars, semicolons), a POSIX shell that reads the command composed for \<^verbatim>\<open>docker compose\<close> gives
  \<^verbatim>\<open>cd\<close> exactly that path as its argument, and goes on with the rest of the command.\<close>

theorem compose_command_quotes:
  "compose_command config args = ''cd '' @ drop 3 (compose_command config args)
   \<and> sh_word False [] (drop 3 (compose_command config args))
       = Some (cfg_project_root config, '' && docker compose '' @ args)"
proof -
  have "drop 3 (compose_command config args) = shell_quote (cfg_project_root config) @ '' && docker compose '' @ args"
    by (simp add: compose_command_def)
  moreover have "sh_end (hd ('' && docker compose '' @ args))" by (simp add: sh_end_def)
  ultimately show ?thesis using sh_word_shell_quote by (simp add: compose_command_def)
qed

text \<open>C40: what the runner reads from a payload file. Of a file with any list of payloads, written with the
  JSON escapes of \<^verbatim>\<open>escape_json\<close>, the schedule reader returns one entry per payload in order, and the field
  reader gives back each payload, except that it reads the escapes of backspace, form feed, carriage
  return and tab as the letters b, f, r and t.\<close>

theorem payload_file_read:
  "\<exists>entries. parse_payload_schedule_entries (schedule_text payloads) = Inr entries
     \<and> map (\<lambda>e. parse_json_string_field e ''payload'') entries = map (\<lambda>p. Inr (map reread p)) payloads"
proof -
  have "parse_json_string_field (object_text ''payload'' p) ''payload'' = Inr (map reread p)" for p
    using parse_object_text[of "''payload''" p "[]"] by simp
  then show ?thesis using parse_schedule_text[of payloads] by simp
qed

section \<open>Workloads\<close>

text \<open>C25: every curated case can be built. When the templates were loaded and the catalog found its two
  concepts, \<^verbatim>\<open>build_workload\<close> succeeds on each of the thirteen curated cases: no exception, no read
  outside a vector, as many operations as the case announces, with its mix of reads and writes, and no
  agent identifier twice (the lock table is keyed by it).\<close>

theorem curated_workloads:
  assumes "load_templates F ops config w = Some (w', Inr templates)"
    and "build_template_catalog templates = Inr catalog"
    and "spec \<in> set (build_curated_cases F config)"
  shows "\<exists>workload. build_workload F spec catalog = Inr workload \<and> fits_case spec workload"
proof -
  note loaded = load_templates_ok[OF assms(1)]
  obtain a b where cat: "tc_concept_a catalog = Some a" "tc_concept_b catalog = Some b" "tc_all catalog = map Some templates"
    "tc_concept_a_all catalog = map Some (filter (\<lambda>d. td_source_file d = ''A.json'') templates)"
    by (rule catalog_facts[OF assms(2)])
  have "eligible {td_template_id a, td_template_id b} (tc_all catalog) \<noteq> []"
    unfolding cat(3) using loaded by (intro numbered_eligible) simp_all
  then obtain bg where bg: "pick_unique_templates (tc_all catalog) (max 8 (bc_agent_count spec)) {td_template_id a, td_template_id b} = Inr bg"
    "int (length bg) = max 8 (bc_agent_count spec)" using pick_unique_spec[of "max 8 (bc_agent_count spec)"] by force
  have all: "eligible {} (tc_all catalog) \<noteq> []"
    using loaded by (cases templates) (simp_all add: cat(3) eligible_def)
  have "6 \<le> length bg" using bg(2) by linarith
  from scenario_workload_fits[OF curated_mix[OF assms(3)] all cat(4) this]
  obtain ws where "scenario_workload F spec catalog a b bg = Inr ws" "fits_case spec ws" by blast
  then show ?thesis using bg(1) cat(1,2) by (simp add: build_workload_def check_workload_fits)
qed

text \<open>The example: two payload files and an embedding service that always answers with the same vector.\<close>

definition ex_payloads :: "string \<Rightarrow> string list" where
  "ex_payloads path = (if path = ''/in/A.json'' then [''a1'', ''a2'', ''a3'', ''a4'', ''a5''] else [''d1'', ''d2'', ''d3'', ''d4'', ''d5''])"

definition ex_body :: string where
  "ex_body = quoted ''embedding'' @ '':[1]''"

definition ex_bench_ops :: "unit bench_ops" where
  "ex_bench_ops = \<lparr>bw_http = (\<lambda>host port method target body w. Some (w, Inr \<lparr>http_status_code = 200, http_body = ex_body\<rparr>)),
     bw_ping = (\<lambda>target from w. Some (w, Status_OK)), bw_get_leader = (\<lambda>target w. None), bw_now = (\<lambda>w. (w, 0)),
     bw_sleep = (\<lambda>ms w. w), bw_exists = (\<lambda>path w. (w, path = ''/in/A.json'' \<or> path = ''/in/D.json'')),
     bw_read = (\<lambda>path w. (w, Some (schedule_text (ex_payloads path))))\<rparr>"

definition ex_config :: Config where
  "ex_config = (default_Config [])\<lparr>cfg_input_dir := ''/in''\<rparr>"

definition ex_doc :: "string \<Rightarrow> string \<Rightarrow> int \<Rightarrow> TemplateDocument" where
  "ex_doc file payload k = \<lparr>td_template_id = ''tpl-'' @ to_string k, td_source_file = file, td_text = payload,
     td_embedding = [Fin 1], td_embedding_ms = 0\<rparr>"

definition ex_templates :: "TemplateDocument list" where
  "ex_templates = map2 (ex_doc ''A.json'') (ex_payloads ''/in/A.json'') [1..5] @ map2 (ex_doc ''D.json'') (ex_payloads ''/in/D.json'') [6..10]"

lemma ex_embedding: "parse_embedding_array exact_fpu ex_body = Inr [Fin 1]"
  by (simp add: parse_embedding_array_def ex_body_def quoted_def dq_def str_find_def find_at_def parse_float_token_def
      strtof_def isspace_def read_sign_def has_prefix_ci_def lower_def tolower_def read_decimal_def read_mantissa_def
      digit_of_def read_exponent_def power_int_real_def exact_fpu_def Let_def)

lemma ex_request: "request_embedding exact_fpu ex_bench_ops ex_config payload w = Some (w, Inr [Fin 1])"
  by (simp add: request_embedding_def ex_bench_ops_def ex_embedding)

lemma ex_file: "read_text_file path (Some (schedule_text ps)) = Inr (schedule_text ps)"
  by (simp add: read_text_file_def schedule_text_def)

lemma ex_entry: "parse_json_string_field (object_text ''payload'' p) ''payload'' = Inr (map reread p)"
  using parse_object_text[of "''payload''" p "[]"] by simp

lemma ex_load: "load_templates exact_fpu ex_bench_ops ex_config () = Some ((), Inr ex_templates)"
  by (simp add: load_templates_def path_append_def ex_config_def ex_file parse_schedule_text ex_entry
      ex_request[unfolded ex_config_def] ex_bench_ops_def[THEN arg_cong[where f = bw_exists]]
      ex_bench_ops_def[THEN arg_cong[where f = bw_read]] ex_bench_ops_def[THEN arg_cong[where f = bw_now]]
      ex_payloads_def reread_def ex_templates_def ex_doc_def upto_rec1 Let_def)

lemma ex_catalog: "\<exists>catalog. build_template_catalog ex_templates = Inr catalog"
  by (simp add: build_template_catalog_def ex_templates_def ex_payloads_def ex_doc_def upto_rec1 Let_def)

theorem curated_workloads_witness:
  "\<exists>catalog workload. build_template_catalog ex_templates = Inr catalog
     \<and> build_workload exact_fpu (build_curated_cases exact_fpu ex_config ! 4) catalog = Inr workload
     \<and> fits_case (build_curated_cases exact_fpu ex_config ! 4) workload"
proof -
  obtain catalog where c: "build_template_catalog ex_templates = Inr catalog" using ex_catalog by blast
  have "build_curated_cases exact_fpu ex_config ! 4 \<in> set (build_curated_cases exact_fpu ex_config)"
    by (rule nth_mem) (simp add: build_curated_cases_def)
  from curated_workloads[OF ex_load c this] c show ?thesis by blast
qed

section \<open>Figures\<close>


text \<open>The example: two writes of the same region whose lock intervals overlap, one of them not granted.\<close>

definition ex_result :: "string \<Rightarrow> bool \<Rightarrow> int \<Rightarrow> int \<Rightarrow> OperationResult" where
  "ex_result agent granted start finish = \<lparr>or_operation = make_synthetic_operation ''t'' ''x'' [Fin 1] agent kWrite 0,
     or_status = Status_OK,
     or_response = default_AcquireResponse\<lparr>rs_granted := granted, rs_lock_acquired_unix_ms := start, rs_lock_released_unix_ms := finish\<rparr>,
     or_submit_ms = 0, or_dslm_enter_ms = 0, or_dslm_exit_ms = 5, or_finish_ms = 5, or_elapsed_ms = 5\<rparr>"

definition ex_case :: BenchmarkCase where
  "ex_case = make_case 1 kThunderingHerd ''n'' ''t'' 2 2 0 (Fin (1 / 2)) 0 kBurst 0 ex_config"

definition ex_results :: "bool \<Rightarrow> OperationResult list" where
  "ex_results granted = [ex_result ''p'' True 10 20, ex_result ''q'' granted 15 30]"


text \<open>The report's two counts of violations. If the threshold is not NaN, every violation the report
  lists is among the overlapping conflicts the metrics count; the two numbers are equal when every call
  succeeded and was granted. Both compare with the similarity of the lock table.\<close>

theorem violation_counts_agree:
  assumes "double_rounding F" "float_rounding F" "length operations \<le> 2 ^ 52" "bc_theta spec \<noteq> NaN"
  shows "\<exists>m. compute_metrics F spec operations = Inr m
    \<and> int (length (compute_violation_records F spec operations)) \<le> m_conflicting_overlap_violations m
    \<and> ((\<forall>r\<in>set operations. was_served r)
         \<longrightarrow> int (length (compute_violation_records F spec operations)) = m_conflicting_overlap_violations m)
    \<and> (\<forall>l r. pair_similarity F l r = cosine_similarity F (bo_embedding (or_operation l)) (bo_embedding (or_operation r)))"
proof -
  have sim: "\<not> fl_less (pair_similarity F l r) (bc_theta spec) \<longleftrightarrow> fl_le (bc_theta spec) (pair_similarity F l r)" for l r
    using pair_similarity_fin[OF assms(2), of l r] assms(4) by (auto simp: fl_le_def)
  let ?c = "\<lambda>p. conflicting F spec p \<and> overlapping p"
  let ?v = "\<lambda>p. was_served (fst p) \<and> was_served (snd p) \<and> ?c p"
  have len: "int (length (compute_violation_records F spec operations)) = tally ?v (all_pairs operations)"
    unfolding length_violation_records by (simp add: sim conflicting_def)
  have eq: "tally ?v (all_pairs operations) = tally ?c (all_pairs operations)" if "\<forall>r\<in>set operations. was_served r"
  proof -
    have "?v p = ?c p" if "p \<in> set (all_pairs operations)" for p
      using that \<open>\<forall>r\<in>set operations. was_served r\<close> all_pairs_set[of "fst p" "snd p" operations] by auto
    then show ?thesis unfolding tally_def by (metis (mono_tags, lifting) filter_cong)
  qed
  have le: "tally ?v (all_pairs operations) \<le> tally ?c (all_pairs operations)" by (rule tally_mono) simp
  obtain m where "compute_metrics F spec operations = Inr m"
    "m_conflicting_overlap_violations m = tally ?c (all_pairs operations)"
    using compute_metrics_counters[OF assms(1,3), of spec] by (auto simp: counters_def)
  with le eq len show ?thesis by (auto simp: pair_similarity_def bench_cosine_eq)
qed

theorem violation_counts_agree_witness:
  "\<exists>m. compute_metrics exact_fpu ex_case (ex_results True) = Inr m
     \<and> int (length (compute_violation_records exact_fpu ex_case (ex_results True))) = m_conflicting_overlap_violations m"
proof -
  have served: "\<forall>r\<in>set (ex_results True). was_served r"
    by (simp add: ex_results_def ex_result_def was_served_def Status_OK_def status_ok_def)
  have "length (ex_results True) \<le> 2 ^ 52" "bc_theta ex_case \<noteq> NaN" by (simp_all add: ex_results_def ex_case_def make_case_def)
  from violation_counts_agree[OF double_rounding_exact float_rounding_exact this] served show ?thesis by blast
qed

text \<open>Without that condition the counts differ. A call whose Qdrant write failed answers with status OK,
  not granted, and with the times at which it held the lock; such an overlap is counted in the metrics and
  missing from the report's list of violations.\<close>

theorem violation_counts_differ:
  "\<exists>m. compute_metrics exact_fpu ex_case (ex_results False) = Inr m
     \<and> m_conflicting_overlap_violations m = 1 \<and> compute_violation_records exact_fpu ex_case (ex_results False) = []"
proof -
  have sim: "bench_cosine_similarity exact_fpu [Fin 1] [Fin 1] = Fin 1"
    by (simp add: bench_cosine_similarity_def exact_fpu_def fl_mul_def fl_div_def fl_min_def fl_max_def)
  have records: "compute_violation_records exact_fpu ex_case (ex_results False) = []"
    by (simp add: ex_results_def ex_result_def violation_of_def default_AcquireResponse_def)
  have "tally (\<lambda>p. conflicting exact_fpu ex_case p \<and> overlapping p) (all_pairs (ex_results False)) = 1"
    by (simp add: ex_results_def ex_result_def conflicting_def overlapping_def pair_similarity_def results_overlap_def
        intervals_overlap_def make_synthetic_operation_def sim ex_case_def make_case_def default_AcquireResponse_def)
  moreover have "length (ex_results False) \<le> 2 ^ 52" by (simp add: ex_results_def)
  ultimately show ?thesis
    using compute_metrics_counters[OF double_rounding_exact, of "ex_results False" ex_case] records by (auto simp: counters_def)
qed

text \<open>The timeline. Its lines are ordered by time, lines of the same millisecond in the order they were
  produced; they are exactly the lines with a positive time, and every violation has its line.\<close>

theorem timeline_complete:
  "let T = build_timeline_lines F fmt2 spec operations; content = (\<lambda>l. (tn_absolute_ms l, tn_color l, tn_text l));
       produced = concat (map (operation_lines fmt2) operations) @ map (violation_line fmt2 spec) (compute_violation_records F spec operations)
   in sorted (map (\<lambda>l. (tn_absolute_ms l, tn_sequence l)) T)
    \<and> mset (map content T) = mset (filter (\<lambda>x. 0 < fst x) produced)
    \<and> violation_line fmt2 spec ` set (compute_violation_records F spec operations) \<subseteq> content ` set T"
proof -
  let ?c = "\<lambda>l. (tn_absolute_ms l, tn_color l, tn_text l)" and ?T = "build_timeline_lines F fmt2 spec operations"
  let ?v = "compute_violation_records F spec operations"
  let ?p = "concat (map (operation_lines fmt2) operations) @ map (violation_line fmt2 spec) ?v"
  have "mset ?T = mset (push_lines 0 ?p)" by (simp add: build_timeline_lines_def)
  then have "mset (map ?c ?T) = mset (map ?c (push_lines 0 ?p))" by (metis mset_map)
  then have content: "mset (map ?c ?T) = mset (filter (\<lambda>x. 0 < fst x) ?p)"
    unfolding push_lines_texts by (simp add: case_prod_beta)
  have "0 < vr_detected_unix_ms v" if "v \<in> set ?v" for v
    using that violation_record_times[of v F spec operations] by simp
  then have "violation_line fmt2 spec ` set ?v \<subseteq> set (filter (\<lambda>x. 0 < fst x) ?p)"
    by (auto simp: violation_line_def)
  also have "\<dots> = ?c ` set ?T" using arg_cong[OF content, of set_mset] by simp
  finally show ?thesis using content by (simp add: build_timeline_lines_def Let_def)
qed

end
