(* ===== verification/BenchReport.thy ===== *)
theory BenchReport
  imports BenchMetrics
begin

text \<open>
  The files the benchmark runner writes (\<^verbatim>\<open>src/benchmark_runner.cpp\<close>, \<^verbatim>\<open>write_template_catalog_json\<close>,
  \<^verbatim>\<open>write_case_json\<close>, \<^verbatim>\<open>BenchmarkRunLogger\<close>, \<^verbatim>\<open>MatrixCsvAppender\<close>, \<^verbatim>\<open>SoakCsvWriter\<close> and the path
  defaults). A writer is the text it sends to its stream; the lines of the source, one field each, are
  lists of fields here, with the separators the source writes between them. A stream keeps its
  precision, so every number carries the one in force where it is written.
\<close>

section \<open>Data\<close>

record EmbeddingLatencyStats =
  es_sample_count :: int
  es_p50 :: int
  es_p95 :: int
  es_p99 :: int

record BenchmarkCaseResult =
  cr_spec :: BenchmarkCase
  cr_metrics :: BenchmarkMetrics
  cr_operations :: "OperationResult list"
  cr_container_stats :: "ContainerStats list"
  cr_embedding_latency :: EmbeddingLatencyStats

record SoakSnapshot =
  ss_elapsed_sec :: int
  ss_window_ops :: int
  ss_total_ops :: int
  ss_qdrant_size :: int
  ss_lock_wait_p50_ms :: int
  ss_lock_wait_p95_ms :: int
  ss_lock_wait_p99_ms :: int
  ss_op_latency_p50_ms :: int
  ss_op_latency_p95_ms :: int
  ss_op_latency_p99_ms :: int
  ss_qdrant_window_p95_ms :: int
  ss_blocked_rate :: fl
  ss_throughput_ops_per_sec :: fl

section \<open>Numbers\<close>

text \<open>
  \<^verbatim>\<open>std::fixed << std::setprecision(p)\<close>: the value rounded to \<open>p\<close> decimals, ties to even.
\<close>

definition round_even :: "real \<Rightarrow> int" where
  "round_even x = (let f = \<lfloor>x\<rfloor>; d = x - of_int f in
     if d < 1 / 2 then f else if d > 1 / 2 then f + 1 else if even f then f else f + 1)"

definition pad_zero :: "nat \<Rightarrow> string \<Rightarrow> string" where
  "pad_zero n s = replicate (n - length s) (CHR ''0'') @ s"

fun fixed_text :: "nat \<Rightarrow> fl \<Rightarrow> string" where
  "fixed_text p NaN = ''nan''"
| "fixed_text p PInf = ''inf''"
| "fixed_text p MInf = ''-inf''"
| "fixed_text p (Fin r) =
     (let n = nat (round_even (\<bar>r\<bar> * 10 ^ p)) in
      (if r < 0 then ''-'' else []) @ nat_to_string (n div 10 ^ p)
      @ (if p = 0 then [] else CHR ''.'' # pad_zero p (nat_to_string (n mod 10 ^ p))))"

definition format_float :: "fl \<Rightarrow> nat \<Rightarrow> string" where
  "format_float v precision = fixed_text precision v"

definition format_zero_padded_ms :: "int \<Rightarrow> string" where
  "format_zero_padded_ms v = pad_zero 4 (to_string v)"

section \<open>Layout\<close>

definition nl :: string where "nl = [CHR 0x0A]"

definition indent :: "nat \<Rightarrow> string" where "indent n = replicate n (CHR '' '')"

definition jstr :: "string \<Rightarrow> string" where "jstr s = quoted (escape_json s)"

definition jbool :: "bool \<Rightarrow> string" where "jbool b = (if b then ''true'' else ''false'')"

type_synonym fields = "(string \<times> string) list"

text \<open>One field per line, a comma after all but the last; and several fields on one line.\<close>

fun field_lines :: "nat \<Rightarrow> fields \<Rightarrow> string" where
  "field_lines n [] = []"
| "field_lines n [(key, v)] = indent n @ quoted key @ '': '' @ v @ nl"
| "field_lines n ((key, v) # fs) = indent n @ quoted key @ '': '' @ v @ '','' @ nl @ field_lines n fs"

fun inline_fields :: "fields \<Rightarrow> string" where
  "inline_fields [] = []"
| "inline_fields [(key, v)] = quoted key @ '':'' @ v"
| "inline_fields ((key, v) # fs) = quoted key @ '':'' @ v @ '','' @ inline_fields fs"

definition lines_object :: "nat \<Rightarrow> fields \<Rightarrow> string" where
  "lines_object n fs = [CHR 0x7B] @ nl @ field_lines (n + 2) fs @ indent n @ [CHR 0x7D]"

definition inline_object :: "fields \<Rightarrow> string" where
  "inline_object fs = [CHR 0x7B] @ inline_fields fs @ [CHR 0x7D]"

fun item_lines :: "nat \<Rightarrow> string list \<Rightarrow> string" where
  "item_lines n [] = []"
| "item_lines n [x] = indent n @ x @ nl"
| "item_lines n (x # xs) = indent n @ x @ '','' @ nl @ item_lines n xs"

definition lines_array :: "nat \<Rightarrow> string list \<Rightarrow> string" where
  "lines_array n xs = ''['' @ nl @ item_lines (n + 2) xs @ indent n @ '']''"

section \<open>The case report\<close>

definition template_fields :: "TemplateDocument \<Rightarrow> fields" where
  "template_fields item =
     [(''template_id'', jstr (td_template_id item)), (''source_file'', jstr (td_source_file item)),
      (''payload_text'', jstr (td_text item))]"

definition write_template_catalog_json :: "TemplateDocument list \<Rightarrow> string" where
  "write_template_catalog_json templates =
     indent 2 @ quoted ''templates'' @ '': '' @ lines_array 2 (map (inline_object \<circ> template_fields) templates) @ '','' @ nl"

definition metrics_fields :: "BenchmarkMetrics \<Rightarrow> fields" where
  "metrics_fields m =
     [(''total_ops'', to_string (m_total_ops m)),
      (''write_ops'', to_string (m_write_ops m)),
      (''read_ops'', to_string (m_read_ops m)),
      (''grpc_failures'', to_string (m_grpc_failures m)),
      (''granted_ops'', to_string (m_granted_ops m)),
      (''blocked_ops'', to_string (m_blocked_ops m)),
      (''blocked_writes'', to_string (m_blocked_writes m)),
      (''blocked_reads'', to_string (m_blocked_reads m)),
      (''blocked_reads_on_write'', to_string (m_blocked_reads_on_write m)),
      (''expected_conflict_pairs'', to_string (m_expected_conflict_pairs m)),
      (''expected_distinct_pairs'', to_string (m_expected_distinct_pairs m)),
      (''conflicting_overlap_violations'', to_string (m_conflicting_overlap_violations m)),
      (''distinct_parallel_pairs'', to_string (m_distinct_parallel_pairs m)),
      (''distinct_nonparallel_pairs'', to_string (m_distinct_nonparallel_pairs m)),
      (''active_lock_count_max'', to_string (m_active_lock_count_max m)),
      (''wait_position_max'', to_string (m_wait_position_max m)),
      (''wake_count_max'', to_string (m_wake_count_max m)),
      (''queue_hops_max'', to_string (m_queue_hops_max m)),
      (''success_rate'', fixed_text 6 (m_success_rate m)),
      (''throughput_ops_per_sec'', fixed_text 6 (m_throughput_ops_per_sec m)),
      (''utilization_factor'', fixed_text 6 (m_utilization_factor m)),
      (''serialization_score'', fixed_text 6 (m_serialization_score m)),
      (''distinct_parallelism_rate'', fixed_text 6 (m_distinct_parallelism_rate m)),
      (''makespan_ms'', to_string (m_makespan_ms m)),
      (''latency_p50_ms'', to_string (m_latency_p50_ms m)),
      (''latency_p95_ms'', to_string (m_latency_p95_ms m)),
      (''latency_p99_ms'', to_string (m_latency_p99_ms m)),
      (''write_latency_p95_ms'', to_string (m_write_latency_p95_ms m)),
      (''read_latency_p95_ms'', to_string (m_read_latency_p95_ms m)),
      (''lock_wait_p50_ms'', to_string (m_lock_wait_p50_ms m)),
      (''lock_wait_p95_ms'', to_string (m_lock_wait_p95_ms m)),
      (''lock_wait_p99_ms'', to_string (m_lock_wait_p99_ms m)),
      (''qdrant_window_p95_ms'', to_string (m_qdrant_window_p95_ms m)),
      (''queue_position_p95'', to_string (m_queue_position_p95 m)),
      (''wake_count_p95'', to_string (m_wake_count_p95 m)),
      (''queue_hops_p95'', to_string (m_queue_hops_p95 m))]"

definition container_fields :: "ContainerStats \<Rightarrow> fields" where
  "container_fields stats =
     [(''name'', jstr (cs_name stats)),
      (''cpu_percent'', fixed_text 3 (cs_cpu_percent stats)),
      (''memory_used_mib'', fixed_text 3 (cs_memory_used_mib stats)),
      (''net_input_mib'', fixed_text 3 (cs_net_input_mib stats)),
      (''net_output_mib'', fixed_text 3 (cs_net_output_mib stats))]"

definition violation_fields :: "ViolationRecord \<Rightarrow> fields" where
  "violation_fields violation =
     [(''active_agent_id'', jstr (vr_active_agent_id violation)),
      (''violating_agent_id'', jstr (vr_violating_agent_id violation)),
      (''active_operation'', quoted (operation_name (vr_active_operation violation))),
      (''violating_operation'', quoted (operation_name (vr_violating_operation violation))),
      (''similarity'', fixed_text 6 (vr_similarity violation)),
      (''detected_unix_ms'', to_string (vr_detected_unix_ms violation)),
      (''overlap_start_unix_ms'', to_string (vr_overlap_start_unix_ms violation)),
      (''overlap_end_unix_ms'', to_string (vr_overlap_end_unix_ms violation))]"

definition operation_fields :: "OperationResult \<Rightarrow> fields" where
  "operation_fields op =
     (let response = or_response op in
     [(''agent_id'', jstr (bo_agent_id (or_operation op))),
      (''template_id'', jstr (bo_template_id (or_operation op))),
      (''payload_text'', jstr (bo_text (or_operation op))),
      (''operation'', quoted (operation_name (bo_operation (or_operation op)))),
      (''scheduled_offset_ms'', to_string (bo_scheduled_offset_ms (or_operation op))),
      (''submit_ms'', to_string (or_submit_ms op)),
      (''dslm_enter_ms'', to_string (or_dslm_enter_ms op)),
      (''dslm_exit_ms'', to_string (or_dslm_exit_ms op)),
      (''finish_ms'', to_string (or_finish_ms op)),
      (''elapsed_ms'', to_string (or_elapsed_ms op)),
      (''status_ok'', jbool (status_ok (or_status op))),
      (''status_code'', quoted (grpc_status_code_name (st_code (or_status op)))),
      (''status_message'', jstr (st_message (or_status op))),
      (''response_message'', jstr (rs_message response)),
      (''granted'', jbool (rs_granted response)),
      (''server_received_unix_ms'', to_string (rs_server_received_unix_ms response)),
      (''lock_acquired_unix_ms'', to_string (rs_lock_acquired_unix_ms response)),
      (''qdrant_write_complete_unix_ms'', to_string (rs_qdrant_write_complete_unix_ms response)),
      (''lock_released_unix_ms'', to_string (rs_lock_released_unix_ms response)),
      (''lock_wait_ms'', to_string (rs_lock_wait_ms response)),
      (''wait_position'', nat_to_string (rs_wait_position response)),
      (''wake_count'', nat_to_string (rs_wake_count response)),
      (''queue_hops'', nat_to_string (rs_queue_hops response)),
      (''active_lock_count'', nat_to_string (rs_active_lock_count response)),
      (''blocking_agent_id'', jstr (rs_blocking_agent_id response)),
      (''blocking_similarity_score'', fixed_text 6 (rs_blocking_similarity_score response))])"

record run_labels =
  rl_run_mode :: string
  rl_embedding_profile :: string
  rl_model_id :: string
  rl_embedding_image :: string

definition case_fields :: "fpu \<Rightarrow> run_labels \<Rightarrow> BenchmarkCaseResult \<Rightarrow> fields" where
  "case_fields F labels result =
     (let spec = cr_spec result; violations = compute_violation_records F spec (cr_operations result);
          latency = cr_embedding_latency result in
     [(''case_index'', to_string (bc_case_index spec)),
      (''name'', jstr (bc_name spec)),
      (''target'', jstr (bc_target spec))]
     @ (if rl_run_mode labels \<noteq> [] \<and> rl_run_mode labels \<noteq> ''single'' then
          [(''run_mode'', jstr (rl_run_mode labels)),
           (''embedding_profile'', jstr (rl_embedding_profile labels)),
           (''embedding_provider'', quoted ''ollama''),
           (''embedding_image'', jstr (rl_embedding_image labels)),
           (''model_id'', jstr (rl_model_id labels))]
        else [])
     @ [(''node_count'', to_string (bc_node_count spec)),
        (''agent_count'', to_string (bc_agent_count spec)),
        (''write_count'', to_string (bc_write_count spec)),
        (''read_count'', to_string (bc_read_count spec)),
        (''theta'', fixed_text 3 (bc_theta spec)),
        (''lock_hold_ms'', to_string (bc_lock_hold_ms spec)),
        (''arrival_mode'', quoted (if bc_arrival_mode spec = kBurst then ''burst'' else ''staggered'')),
        (''arrival_gap_ms'', to_string (bc_arrival_gap_ms spec)),
        (''collection_name'', jstr (bc_collection_name spec))]
     @ (if es_sample_count latency > 0 then
          [(''embedding_latency_ms'', inline_object
             [(''sample_count'', to_string (es_sample_count latency)), (''p50'', to_string (es_p50 latency)),
              (''p95'', to_string (es_p95 latency)), (''p99'', to_string (es_p99 latency))])]
        else [])
     @ [(''metrics'', lines_object 6 (metrics_fields (cr_metrics result))),
        (''container_stats'', lines_array 6 (map (inline_object \<circ> container_fields) (cr_container_stats result))),
        (''violations'', lines_array 6 (map (inline_object \<circ> violation_fields) violations)),
        (''operations'', lines_array 6 (map (lines_object 8 \<circ> operation_fields) (cr_operations result)))])"

definition write_case_json :: "fpu \<Rightarrow> run_labels \<Rightarrow> BenchmarkCaseResult \<Rightarrow> string" where
  "write_case_json F labels result = indent 4 @ lines_object 4 (case_fields F labels result)"

section \<open>The run log\<close>

text \<open>\<open>lg_out\<close> is what has been written to the file since it was opened.\<close>

record BenchmarkRunLogger =
  lg_path :: string
  lg_out :: string
  lg_labels :: run_labels
  lg_first_case :: bool
  lg_finalized :: bool

definition run_header :: "run_labels \<Rightarrow> Config \<Rightarrow> TemplateDocument list \<Rightarrow> nat \<Rightarrow> int \<Rightarrow> string" where
  "run_header labels config templates planned_cases unix_seconds =
     [CHR 0x7B] @ nl
     @ indent 2 @ quoted ''run_started_unix_s'' @ '': '' @ to_string unix_seconds @ '','' @ nl
     @ indent 2 @ quoted ''project_root'' @ '': '' @ jstr (cfg_project_root config) @ '','' @ nl
     @ (if rl_run_mode labels \<noteq> ''single'' then
          indent 2 @ quoted ''run_mode'' @ '': '' @ jstr (rl_run_mode labels) @ '','' @ nl
          @ indent 2 @ quoted ''embedding_profile'' @ '': '' @ jstr (rl_embedding_profile labels) @ '','' @ nl
        else [])
     @ indent 2 @ quoted ''model_id'' @ '': '' @ jstr (rl_model_id labels) @ '','' @ nl
     @ indent 2 @ quoted ''planned_case_count'' @ '': '' @ nat_to_string planned_cases @ '','' @ nl
     @ indent 2 @ quoted ''template_count'' @ '': '' @ nat_to_string (length templates) @ '','' @ nl
     @ write_template_catalog_json templates
     @ indent 2 @ quoted ''cases'' @ '': '' @ ''['' @ nl"

text \<open>\<open>opened\<close> says whether the stream is good after \<^verbatim>\<open>open\<close>.\<close>

definition new_BenchmarkRunLogger ::
  "bool \<Rightarrow> string \<Rightarrow> Config \<Rightarrow> TemplateDocument list \<Rightarrow> nat \<Rightarrow> int \<Rightarrow> BenchmarkRunLogger outcome" where
  "new_BenchmarkRunLogger opened path config templates planned_cases unix_seconds =
     (if \<not> opened then fail (''could not open benchmark output path '' @ path)
      else
        let labels = \<lparr>rl_run_mode = cfg_run_mode config, rl_embedding_profile = cfg_embedding_profile config,
              rl_model_id = cfg_model_id config, rl_embedding_image = cfg_embedding_image config\<rparr>
        in Inr \<lparr>lg_path = path, lg_out = run_header labels config templates planned_cases unix_seconds, lg_labels = labels,
             lg_first_case = True, lg_finalized = False\<rparr>)"

definition append_case :: "fpu \<Rightarrow> BenchmarkCaseResult \<Rightarrow> BenchmarkRunLogger \<Rightarrow> BenchmarkRunLogger outcome" where
  "append_case F result logger =
     (if lg_finalized logger then fail ''attempted to append to finalized benchmark log''
      else Inr (logger\<lparr>lg_out := lg_out logger @ (if lg_first_case logger then [] else '','' @ nl)
             @ write_case_json F (lg_labels logger) result, lg_first_case := False\<rparr>))"

text \<open>\<^verbatim>\<open>finalize\<close> is called at the end of a run and again by the destructor.\<close>

definition finalize :: "BenchmarkRunLogger \<Rightarrow> BenchmarkRunLogger" where
  "finalize logger =
     (if lg_finalized logger then logger
      else logger\<lparr>lg_out := lg_out logger @ nl @ indent 2 @ '']'' @ nl @ [CHR 0x7D] @ nl, lg_finalized := True\<rparr>)"

definition compute_embedding_stats :: "fpu \<Rightarrow> TemplateDocument list \<Rightarrow> EmbeddingLatencyStats outcome" where
  "compute_embedding_stats F templates =
     (let times = filter (\<lambda>t. t > 0) (map td_embedding_ms templates) in
      rbind (percentile_ms F times (Fin (1 / 2))) (\<lambda>p50.
      rbind (percentile_ms F times (rnd_double F (95 / 100))) (\<lambda>p95.
      rbind (percentile_ms F times (rnd_double F (99 / 100))) (\<lambda>p99.
        Inr \<lparr>es_sample_count = int (length times), es_p50 = p50, es_p95 = p95, es_p99 = p99\<rparr>))))"

section \<open>File names\<close>

definition logs_path :: "Config \<Rightarrow> string \<Rightarrow> string" where
  "logs_path config name = path_append (path_append (cfg_project_root config) ''logs'') name"

definition default_output_path :: "Config \<Rightarrow> int \<Rightarrow> string" where
  "default_output_path config unix_seconds = logs_path config (''benchmark_run_'' @ to_string unix_seconds @ ''.json'')"

definition default_matrix_run_path :: "Config \<Rightarrow> string \<Rightarrow> fl \<Rightarrow> int \<Rightarrow> string" where
  "default_matrix_run_path config profile theta unix_seconds =
     logs_path config (''benchmark_run_'' @ to_string unix_seconds @ ''_'' @ profile @ ''_'' @ fixed_text 2 theta @ ''.json'')"

definition default_matrix_csv_path :: "Config \<Rightarrow> int \<Rightarrow> string" where
  "default_matrix_csv_path config unix_seconds = logs_path config (''benchmark_run_'' @ to_string unix_seconds @ ''_matrix.csv'')"

definition default_soak_csv_path :: "Config \<Rightarrow> int \<Rightarrow> string" where
  "default_soak_csv_path config unix_seconds = logs_path config (''soak_run_'' @ to_string unix_seconds @ ''.csv'')"

section \<open>CSV files\<close>

fun csv_line :: "string list \<Rightarrow> string" where
  "csv_line [] = nl"
| "csv_line [x] = x @ nl"
| "csv_line (x # xs) = x @ '','' @ csv_line xs"

definition matrix_header :: "string list" where
  "matrix_header = [''profile'', ''model_id'', ''theta'', ''scenario'', ''total_ops'', ''write_ops'', ''read_ops'',
     ''throughput_ops_per_sec'', ''utilization_factor'', ''latency_p50_ms'', ''latency_p95_ms'',
     ''latency_p99_ms'', ''write_latency_p95_ms'', ''read_latency_p95_ms'', ''lock_wait_p50_ms'',
     ''lock_wait_p95_ms'', ''lock_wait_p99_ms'', ''qdrant_window_p95_ms'', ''blocked_rate'',
     ''blocked_ops'', ''conflicting_overlap_violations'', ''serialization_score'',
     ''distinct_parallelism_rate'', ''embedding_p50_ms'', ''embedding_p95_ms'', ''embedding_p99_ms'']"

definition matrix_row :: "fpu \<Rightarrow> BenchmarkCaseResult \<Rightarrow> Config \<Rightarrow> EmbeddingLatencyStats \<Rightarrow> string list" where
  "matrix_row F result config emb =
     (let m = cr_metrics result;
          blocked_rate = (if m_total_ops m > 0 then fl_div F (dbl F (m_blocked_ops m)) (dbl F (m_total_ops m)) else Fin 0) in
      [cfg_embedding_profile config, cfg_model_id config, fixed_text 3 (bc_theta (cr_spec result)), bc_name (cr_spec result),
       to_string (m_total_ops m), to_string (m_write_ops m), to_string (m_read_ops m),
       fixed_text 6 (m_throughput_ops_per_sec m), fixed_text 6 (m_utilization_factor m), to_string (m_latency_p50_ms m),
       to_string (m_latency_p95_ms m), to_string (m_latency_p99_ms m), to_string (m_write_latency_p95_ms m),
       to_string (m_read_latency_p95_ms m), to_string (m_lock_wait_p50_ms m), to_string (m_lock_wait_p95_ms m),
       to_string (m_lock_wait_p99_ms m), to_string (m_qdrant_window_p95_ms m), fixed_text 6 blocked_rate,
       to_string (m_blocked_ops m), to_string (m_conflicting_overlap_violations m), fixed_text 6 (m_serialization_score m),
       fixed_text 6 (m_distinct_parallelism_rate m), to_string (es_p50 emb), to_string (es_p95 emb), to_string (es_p99 emb)])"

text \<open>The file's contents after the constructor and after an \<^verbatim>\<open>append\<close>; \<open>None\<close> is a missing file.\<close>

definition new_MatrixCsvAppender :: "bool \<Rightarrow> string \<Rightarrow> string option \<Rightarrow> string outcome" where
  "new_MatrixCsvAppender opened path file =
     (if \<not> opened then fail (''could not open matrix CSV path '' @ path)
      else Inr (case file of None \<Rightarrow> csv_line matrix_header | Some contents \<Rightarrow> contents))"

definition matrix_append :: "fpu \<Rightarrow> BenchmarkCaseResult \<Rightarrow> Config \<Rightarrow> EmbeddingLatencyStats \<Rightarrow> string \<Rightarrow> string" where
  "matrix_append F result config emb out = out @ csv_line (matrix_row F result config emb)"

definition soak_header :: "string list" where
  "soak_header = [''elapsed_sec'', ''window_ops'', ''total_ops'', ''qdrant_size'',
     ''lock_wait_p50_ms'', ''lock_wait_p95_ms'', ''lock_wait_p99_ms'',
     ''op_latency_p50_ms'', ''op_latency_p95_ms'', ''op_latency_p99_ms'',
     ''qdrant_window_p95_ms'', ''blocked_rate'', ''throughput_ops_per_sec'']"

definition soak_row :: "SoakSnapshot \<Rightarrow> string list" where
  "soak_row s =
     [to_string (ss_elapsed_sec s), to_string (ss_window_ops s), to_string (ss_total_ops s), to_string (ss_qdrant_size s),
      to_string (ss_lock_wait_p50_ms s), to_string (ss_lock_wait_p95_ms s), to_string (ss_lock_wait_p99_ms s),
      to_string (ss_op_latency_p50_ms s), to_string (ss_op_latency_p95_ms s), to_string (ss_op_latency_p99_ms s),
      to_string (ss_qdrant_window_p95_ms s), fixed_text 4 (ss_blocked_rate s), fixed_text 4 (ss_throughput_ops_per_sec s)]"

definition new_SoakCsvWriter :: "bool \<Rightarrow> string \<Rightarrow> string outcome" where
  "new_SoakCsvWriter opened path =
     (if \<not> opened then fail (''could not open soak CSV path '' @ path) else Inr (csv_line soak_header))"

definition soak_append :: "SoakSnapshot \<Rightarrow> string \<Rightarrow> string" where
  "soak_append s out = out @ csv_line (soak_row s)"

end
