(* ===== verification/BenchRun.thy ===== *)
theory BenchRun
  imports BenchReport
begin

text \<open>
  How the benchmark runner runs (\<^verbatim>\<open>src/benchmark_runner.cpp\<close>, \<^verbatim>\<open>run_shell_capture\<close>, \<^verbatim>\<open>run_case_traffic\<close> to
  \<^verbatim>\<open>stop_stack\<close>, \<^verbatim>\<open>run_pass\<close> to \<^verbatim>\<open>main\<close>): the container stack, the traffic of a case, the passes over the
  cases, the soak mode and \<^verbatim>\<open>main\<close> with its handler. A step changes a state and returns a value or an
  exception; \<open>None\<close> is a step that has not returned. The shell, the file system, the clocks and the
  client threads are operations on the world.
\<close>

section \<open>Steps\<close>

type_synonym ('s, 'a) io = "'s \<Rightarrow> ('s \<times> 'a outcome) option"

definition io_lift :: "'a outcome \<Rightarrow> ('s, 'a) io" where
  "io_lift r s = Some (s, r)"

definition io_bind :: "('s, 'a) io \<Rightarrow> ('a \<Rightarrow> ('s, 'b) io) \<Rightarrow> ('s, 'b) io" where
  "io_bind m f s = (case m s of
      None \<Rightarrow> None
    | Some (s1, Inl e) \<Rightarrow> Some (s1, Inl e)
    | Some (s1, Inr x) \<Rightarrow> f x s1)"

definition io_modify :: "('s \<Rightarrow> 's) \<Rightarrow> ('s, unit) io" where
  "io_modify f s = Some (f s, Inr ())"

text \<open>What a client thread records of its call, in milliseconds since the start of the round.\<close>

record client_call =
  cc_submit_ms :: int
  cc_enter_ms :: int
  cc_exit_ms :: int
  cc_status :: Status
  cc_response :: AcquireResponse

text \<open>
  \<open>ro_popen\<close> gives the raw status and the output, or \<open>None\<close> when \<^verbatim>\<open>popen\<close> fails. \<open>ro_clients\<close> runs one
  thread per element, which sleeps until its offset and sends its request, and joins them all.
  \<open>ro_open\<close> creates the directories of a path and opens it; its left values are what
  \<^verbatim>\<open>create_directories\<close> throws.
\<close>

record 'w run_ops =
  ro_bench :: "'w bench_ops"
  ro_popen :: "string \<Rightarrow> 'w \<Rightarrow> ('w \<times> (int \<times> string) option) option"
  ro_setenv :: "string \<Rightarrow> string \<Rightarrow> 'w \<Rightarrow> 'w"
  ro_unix_ms :: "'w \<Rightarrow> 'w \<times> int"
  ro_clients :: "(int \<times> AcquireRequest) list \<Rightarrow> 'w \<Rightarrow> ('w \<times> (nat \<Rightarrow> client_call)) option"
  ro_open :: "string \<Rightarrow> 'w \<Rightarrow> 'w \<times> bool outcome"
  ro_csv_contents :: "string \<Rightarrow> 'w \<Rightarrow> 'w \<times> string option"

section \<open>The stack\<close>

definition exit_status :: "int \<Rightarrow> int" where
  "exit_status raw_status = (if raw_status \<ge> 0 \<and> raw_status mod 128 = 0 then raw_status div 256 mod 256 else raw_status)"

definition run_shell_capture :: "'w run_ops \<Rightarrow> string \<Rightarrow> ('w, int \<times> string) io" where
  "run_shell_capture ops command w = do {
     (w1, pipe) \<leftarrow> ro_popen ops (command @ '' 2>&1'') w;
     Some (w1, case pipe of
        None \<Rightarrow> fail (''failed to spawn shell command: '' @ command)
      | Some (raw_status, output) \<Rightarrow> Inr (exit_status raw_status, output)) }"

definition run_shell_or_throw :: "'w run_ops \<Rightarrow> string \<Rightarrow> string \<Rightarrow> ('w, unit) io" where
  "run_shell_or_throw ops command failure_message =
     io_bind (run_shell_capture ops command) (\<lambda>(exit_code, output).
       io_lift (if exit_code \<noteq> 0 then fail (failure_message @ nl @ output) else Inr ()))"

definition set_case_environment :: "'w run_ops \<Rightarrow> Config \<Rightarrow> BenchmarkCase \<Rightarrow> 'w \<Rightarrow> 'w" where
  "set_case_environment ops config spec w =
     fold (\<lambda>(key, v). ro_setenv ops key v)
       [(''EMBEDDING_IMAGE'', cfg_embedding_image config), (''EMBEDDING_MODEL_ID'', cfg_model_id config),
        (''INFINITY_IMAGE'', cfg_embedding_image config), (''INFINITY_MODEL_ID'', cfg_model_id config),
        (''QDRANT_COLLECTION'', bc_collection_name spec), (''DSCC_THETA'', fixed_text 2 (bc_theta spec)),
        (''DSCC_LOCK_HOLD_MS'', to_string (bc_lock_hold_ms spec))] w"

definition up_args :: string where
  "up_args = ''up -d --build --force-recreate qdrant embedding-service ''
     @ ''dscc-node-1 dscc-node-2 dscc-node-3 dscc-node-4 dscc-node-5 dscc-proxy''"

definition start_stack_for_case :: "'w run_ops \<Rightarrow> Config \<Rightarrow> BenchmarkCase \<Rightarrow> ('w, unit) io" where
  "start_stack_for_case ops config spec =
     io_bind (io_modify (set_case_environment ops config spec)) (\<lambda>_.
     io_bind (run_shell_or_throw ops (compose_command config up_args) ''docker compose up failed'') (\<lambda>_.
     io_bind (wait_for_http_service (ro_bench ops) ''Qdrant'' (cfg_qdrant_host config) (cfg_qdrant_port config)
               [''/collections'', ''/''] 120 1000) (\<lambda>_.
     io_bind (wait_for_embedding_service (ro_bench ops) config) (\<lambda>_.
     io_bind (ensure_ollama_model_available (ro_bench ops) config) (\<lambda>_.
     io_bind (wait_for_leader (ro_bench ops) (cfg_node_targets config) config 15000) (\<lambda>_.
     wait_for_dscc_service (ro_bench ops) config 90 1000))))))"

text \<open>A non-zero exit code is only reported.\<close>

definition stop_stack :: "'w run_ops \<Rightarrow> Config \<Rightarrow> ('w, unit) io" where
  "stop_stack ops config =
     io_bind (run_shell_capture ops (compose_command config ''down'')) (\<lambda>(exit_code, output). io_lift (Inr ()))"

section \<open>The traffic of a case\<close>

definition request_of :: "int \<Rightarrow> BenchmarkOperation \<Rightarrow> AcquireRequest" where
  "request_of unix_base_ms op =
     \<lparr>rq_agent_id = bo_agent_id op, rq_embedding = bo_embedding op, rq_payload_text = bo_text op,
      rq_source_file = bo_template_id op, rq_timestamp_unix_ms = unix_base_ms + bo_scheduled_offset_ms op,
      rq_operation_type = to_proto_operation (bo_operation op)\<rparr>"

definition client_result :: "BenchmarkOperation \<Rightarrow> client_call \<Rightarrow> OperationResult" where
  "client_result op call =
     \<lparr>or_operation = op, or_status = cc_status call, or_response = cc_response call, or_submit_ms = cc_submit_ms call,
      or_dslm_enter_ms = cc_enter_ms call, or_dslm_exit_ms = cc_exit_ms call, or_finish_ms = cc_exit_ms call,
      or_elapsed_ms = cc_exit_ms call - cc_submit_ms call\<rparr>"

definition run_clients :: "'w run_ops \<Rightarrow> BenchmarkOperation list \<Rightarrow> ('w, OperationResult list) io" where
  "run_clients ops workload w =
     (let (w1, unix_base_ms) = ro_unix_ms ops w in do {
        (w2, calls) \<leftarrow> ro_clients ops (map (\<lambda>op. (bo_scheduled_offset_ms op, request_of unix_base_ms op)) workload) w1;
        Some (w2, Inr (map (\<lambda>i. client_result (workload ! i) (calls i)) [0..<length workload])) })"

definition run_case_traffic ::
  "'w run_ops \<Rightarrow> Config \<Rightarrow> BenchmarkCase \<Rightarrow> BenchmarkOperation list \<Rightarrow> ('w, OperationResult list) io" where
  "run_case_traffic ops config spec workload =
     io_bind (reset_qdrant_collection (ro_bench ops) config (bc_collection_name spec)) (\<lambda>_.
     io_bind (io_lift (elem_at workload 0)) (\<lambda>front.
     io_bind (create_qdrant_collection (ro_bench ops) config (bc_collection_name spec) (length (bo_embedding front))) (\<lambda>_.
     io_bind (run_clients ops workload) (\<lambda>results.
     io_bind (qdrant_point_count (ro_bench ops) config (bc_collection_name spec)) (\<lambda>actual_points.
       let expected_writes = int (length (filter (\<lambda>op. bo_operation op = kWrite) workload)) in
       io_lift (if actual_points \<noteq> expected_writes
         then fail (''Qdrant point count mismatch for case '' @ to_string (bc_case_index spec) @ '': expected=''
                @ to_string expected_writes @ '' actual='' @ to_string actual_points)
         else Inr results))))))"

section \<open>A pass over the cases\<close>

text \<open>
  \<open>bs_logger\<close> and \<open>bs_csv\<close> are the run log and the matrix file in scope; \<open>bs_files\<close> are the logs that
  have gone out of scope, with their contents.
\<close>

record 'w bench_state =
  bs_world :: 'w
  bs_stack_started :: bool
  bs_logger :: "BenchmarkRunLogger option"
  bs_csv :: "string option"
  bs_files :: "(string \<times> string) list"

definition on_world :: "('w, 'a) io \<Rightarrow> ('w bench_state, 'a) io" where
  "on_world m s = map_option (\<lambda>(w, r). (s\<lparr>bs_world := w\<rparr>, r)) (m (bs_world s))"

definition mark_started :: "bool \<Rightarrow> ('w bench_state, unit) io" where
  "mark_started b = io_modify (\<lambda>s. s\<lparr>bs_stack_started := b\<rparr>)"

definition log_case :: "fpu \<Rightarrow> BenchmarkCaseResult \<Rightarrow> ('w bench_state, unit) io" where
  "log_case F result s =
     (case bs_logger s of
        None \<Rightarrow> Some (s, Inl NullDereference)
      | Some logger \<Rightarrow>
          (case append_case F result logger of
             Inl e \<Rightarrow> Some (s, Inl e)
           | Inr logger' \<Rightarrow> Some (s\<lparr>bs_logger := Some logger'\<rparr>, Inr ())))"

definition log_csv :: "fpu \<Rightarrow> BenchmarkCaseResult \<Rightarrow> Config \<Rightarrow> EmbeddingLatencyStats \<Rightarrow> ('w bench_state, unit) io" where
  "log_csv F result config emb =
     io_modify (\<lambda>s. s\<lparr>bs_csv := map_option (matrix_append F result config emb) (bs_csv s)\<rparr>)"

fun node_services :: "string list \<Rightarrow> nat list \<Rightarrow> string list outcome" where
  "node_services names [] = Inr []"
| "node_services names (i # is) = rbind (elem_at names i) (\<lambda>name. rbind (node_services names is) (\<lambda>rest. Inr (name # rest)))"

definition case_stats ::
  "fpu \<Rightarrow> (string \<Rightarrow> bool) \<Rightarrow> 'w run_ops \<Rightarrow> Config \<Rightarrow> BenchmarkCase \<Rightarrow> OperationResult list \<Rightarrow> EmbeddingLatencyStats
   \<Rightarrow> ('w, BenchmarkCaseResult) io" where
  "case_stats F erange ops config spec operations emb_stats =
     io_bind (io_lift (node_services (cfg_node_service_names config) [0..<nat (bc_node_count spec)])) (\<lambda>nodes.
     io_bind (io_lift (compute_metrics F spec operations)) (\<lambda>metrics.
       let active_services = [''qdrant'', ''embedding-service'', ''dscc-proxy''] @ nodes in
       io_bind (run_shell_capture ops (container_stats_command active_services config)) (\<lambda>captured.
       io_bind (io_lift (collect_container_stats F erange (\<lambda>_. captured) active_services config)) (\<lambda>stats.
         io_lift (Inr \<lparr>cr_spec = spec, cr_metrics = metrics, cr_operations = operations, cr_container_stats = stats,
           cr_embedding_latency = emb_stats\<rparr>)))))"

definition run_case ::
  "fpu \<Rightarrow> (string \<Rightarrow> bool) \<Rightarrow> 'w run_ops \<Rightarrow> Config \<Rightarrow> TemplateCatalog \<Rightarrow> EmbeddingLatencyStats \<Rightarrow> BenchmarkCase
   \<Rightarrow> ('w bench_state, unit) io" where
  "run_case F erange ops config catalog emb_stats spec =
     io_bind (on_world (start_stack_for_case ops config spec)) (\<lambda>_.
     io_bind (mark_started True) (\<lambda>_.
     io_bind (io_lift (build_workload F spec catalog)) (\<lambda>workload.
     io_bind (on_world (run_case_traffic ops config spec workload)) (\<lambda>operations.
     io_bind (on_world (case_stats F erange ops config spec operations emb_stats)) (\<lambda>result.
     io_bind (log_case F result) (\<lambda>_.
     io_bind (log_csv F result config emb_stats) (\<lambda>_.
       if cfg_teardown_on_exit config
       then io_bind (on_world (stop_stack ops config)) (\<lambda>_. mark_started False)
       else io_lift (Inr ()))))))))"

fun run_cases ::
  "fpu \<Rightarrow> (string \<Rightarrow> bool) \<Rightarrow> 'w run_ops \<Rightarrow> Config \<Rightarrow> TemplateCatalog \<Rightarrow> EmbeddingLatencyStats \<Rightarrow> BenchmarkCase list
   \<Rightarrow> ('w bench_state, unit) io" where
  "run_cases F erange ops config catalog emb_stats [] = io_lift (Inr ())"
| "run_cases F erange ops config catalog emb_stats (spec # specs) =
     io_bind (run_case F erange ops config catalog emb_stats spec) (\<lambda>_.
       run_cases F erange ops config catalog emb_stats specs)"

definition run_pass ::
  "fpu \<Rightarrow> (string \<Rightarrow> bool) \<Rightarrow> 'w run_ops \<Rightarrow> Config \<Rightarrow> BenchmarkCase list \<Rightarrow> fl \<Rightarrow> ('w bench_state, unit) io" where
  "run_pass F erange ops config base_cases theta_override =
     (let cases = (if fl_le (Fin 0) theta_override then map (\<lambda>spec. spec\<lparr>bc_theta := theta_override\<rparr>) base_cases else base_cases) in
      io_bind (io_lift (elem_at cases 0)) (\<lambda>front.
      io_bind (on_world (start_stack_for_case ops config front)) (\<lambda>_.
      io_bind (mark_started True) (\<lambda>_.
      io_bind (on_world (load_templates F (ro_bench ops) config)) (\<lambda>templates.
      io_bind (io_lift (build_template_catalog templates)) (\<lambda>catalog.
      io_bind (on_world (stop_stack ops config)) (\<lambda>_.
      io_bind (mark_started False) (\<lambda>_.
      io_bind (io_lift (compute_embedding_stats F templates)) (\<lambda>emb_stats.
        run_cases F erange ops config catalog emb_stats cases)))))))))"

section \<open>The live view of the queues\<close>

text \<open>
  One poll of \<^verbatim>\<open>LiveQueueMonitor\<close>: the events of the log output that were not seen before, in order, and
  the set of events seen. The monitor's thread polls while a case runs and only prints.
\<close>

definition logs_command :: "Config \<Rightarrow> string" where
  "logs_command config =
     ''cd '' @ shell_quote (cfg_project_root config) @ '' && docker compose logs --no-color --tail=400''
     @ concat (map (\<lambda>service. '' '' @ service) (cfg_node_service_names config))"

fun new_events :: "string set \<Rightarrow> string list \<Rightarrow> string list \<times> string set" where
  "new_events seen [] = ([], seen)"
| "new_events seen (line # rest) =
     (case str_find line ''[LOCK_'' of
        None \<Rightarrow> new_events seen rest
      | Some tag_pos \<Rightarrow>
          let event = trim_copy (drop tag_pos line) in
          if event \<in> seen then new_events seen rest
          else let (events, seen') = new_events (insert event seen) rest in (event # events, seen'))"

definition poll_once :: "string set \<Rightarrow> int \<times> string \<Rightarrow> string list \<times> string set" where
  "poll_once seen captured =
     (if fst captured \<noteq> 0 then ([], seen) else new_events seen (getline_items (CHR 0x0A) (snd captured)))"

definition event_color :: "string \<Rightarrow> string" where
  "event_color event =
     (if prefix ''[LOCK_GRANT]'' event then ansi ''32'' else if prefix ''[LOCK_REQUEUE]'' event then ansi ''35'' else ansi ''33'')"

section \<open>The soak mode\<close>

definition soak_workload :: "TemplateCatalog \<Rightarrow> int \<Rightarrow> BenchmarkOperation list outcome" where
  "soak_workload catalog round_no =
     (case (tc_concept_a catalog, tc_concept_b catalog) of
        (Some a, Some b) \<Rightarrow>
          let soak_op = (\<lambda>name role document operation.
                \<lparr>bo_agent_id = name @ to_string round_no, bo_role_prefix = role, bo_template_id = td_template_id document,
                 bo_text = td_text document, bo_embedding = td_embedding document, bo_operation = operation,
                 bo_scheduled_offset_ms = 0\<rparr>)
          in Inr [soak_op ''soak_a_w1_'' ''sustainability_agent'' a kWrite, soak_op ''soak_a_w2_'' ''sustainability_agent'' a kWrite,
                  soak_op ''soak_a_r1_'' ''sustainability_agent'' a kRead, soak_op ''soak_b_w1_'' ''construction_agent'' b kWrite,
                  soak_op ''soak_b_r1_'' ''construction_agent'' b kRead]
      | _ \<Rightarrow> Inl NullDereference)"

definition fire_soak_round :: "'w run_ops \<Rightarrow> TemplateCatalog \<Rightarrow> int \<Rightarrow> ('w, OperationResult list) io" where
  "fire_soak_round ops catalog round_no = io_bind (io_lift (soak_workload catalog round_no)) (run_clients ops)"

record soak_state =
  so_waits :: "int list"
  so_latencies :: "int list"
  so_qdrant :: "int list"
  so_blocked :: int
  so_total_ops :: int
  so_round :: int
  so_next_snapshot_at :: int
  so_window_start :: int
  so_csv :: string

definition make_soak_snapshot :: "fpu \<Rightarrow> int \<Rightarrow> int \<Rightarrow> int \<Rightarrow> soak_state \<Rightarrow> SoakSnapshot outcome" where
  "make_soak_snapshot F elapsed_sec qdrant_sz window_ms st =
     (let p50 = Fin (1 / 2); p95 = rnd_double F (95 / 100); p99 = rnd_double F (99 / 100);
          window_ops = int (length (so_latencies st)) in
      rbind (percentile_ms F (so_waits st) p50) (\<lambda>w50.
      rbind (percentile_ms F (so_waits st) p95) (\<lambda>w95.
      rbind (percentile_ms F (so_waits st) p99) (\<lambda>w99.
      rbind (percentile_ms F (so_latencies st) p50) (\<lambda>l50.
      rbind (percentile_ms F (so_latencies st) p95) (\<lambda>l95.
      rbind (percentile_ms F (so_latencies st) p99) (\<lambda>l99.
      rbind (percentile_ms F (so_qdrant st) p95) (\<lambda>q95.
        Inr \<lparr>ss_elapsed_sec = elapsed_sec, ss_window_ops = window_ops, ss_total_ops = so_total_ops st, ss_qdrant_size = qdrant_sz,
          ss_lock_wait_p50_ms = w50, ss_lock_wait_p95_ms = w95, ss_lock_wait_p99_ms = w99,
          ss_op_latency_p50_ms = l50, ss_op_latency_p95_ms = l95, ss_op_latency_p99_ms = l99, ss_qdrant_window_p95_ms = q95,
          ss_blocked_rate = (if window_ops > 0 then fl_div F (dbl F (so_blocked st)) (dbl F window_ops) else Fin 0),
          ss_throughput_ops_per_sec = (if window_ms > 0
            then fl_div F (fl_mul F (dbl F window_ops) (Fin 1000)) (dbl F window_ms) else Fin 0)\<rparr>))))))))"

definition now_ms :: "'w run_ops \<Rightarrow> ('w, int) io" where
  "now_ms ops w = (let (w1, now) = bw_now (ro_bench ops) w in Some (w1, Inr now))"

definition flush_snapshot :: "fpu \<Rightarrow> 'w run_ops \<Rightarrow> Config \<Rightarrow> string \<Rightarrow> int \<Rightarrow> soak_state \<Rightarrow> ('w, soak_state) io" where
  "flush_snapshot F ops config collection run_start st =
     io_bind (now_ms ops) (\<lambda>now.
     io_bind (qdrant_point_count (ro_bench ops) config collection) (\<lambda>qdrant_sz.
     io_bind (now_ms ops) (\<lambda>window_end.
     io_bind (io_lift (make_soak_snapshot F ((now - run_start) div 1000) qdrant_sz (window_end - so_window_start st) st)) (\<lambda>snap.
     io_bind (now_ms ops) (\<lambda>window_start.
       io_lift (Inr (st\<lparr>so_csv := soak_append snap (so_csv st), so_waits := [], so_latencies := [], so_qdrant := [], so_blocked := 0,
         so_window_start := window_start\<rparr>)))))))"

definition count_soak :: "soak_state \<Rightarrow> OperationResult \<Rightarrow> soak_state" where
  "count_soak st r =
     (if \<not> status_ok (or_status r) then st
      else st\<lparr>so_total_ops := so_total_ops st + 1, so_latencies := so_latencies st @ [or_elapsed_ms r],
        so_waits := so_waits st @ [rs_lock_wait_ms (or_response r)],
        so_qdrant := so_qdrant st @ [max 0 (rs_qdrant_write_complete_unix_ms (or_response r) - rs_lock_acquired_unix_ms (or_response r))],
        so_blocked := so_blocked st + (if rs_lock_wait_ms (or_response r) > 0 then 1 else 0)\<rparr>)"

text \<open>One round: the burst, the tally, a snapshot when it is due, and the pause.\<close>

definition soak_round ::
  "fpu \<Rightarrow> 'w run_ops \<Rightarrow> Config \<Rightarrow> string \<Rightarrow> TemplateCatalog \<Rightarrow> int \<Rightarrow> soak_state \<Rightarrow> ('w, soak_state) io" where
  "soak_round F ops config collection catalog run_start st =
     (let st1 = st\<lparr>so_round := so_round st + 1\<rparr> in
      io_bind (fire_soak_round ops catalog (so_round st1)) (\<lambda>round_results.
        let st2 = foldl count_soak st1 round_results in
        io_bind (now_ms ops) (\<lambda>now.
        io_bind (if now \<ge> so_next_snapshot_at st2
                 then io_bind (flush_snapshot F ops config collection run_start st2) (\<lambda>st3.
                   io_lift (Inr (st3\<lparr>so_next_snapshot_at := so_next_snapshot_at st3 + cfg_soak_snapshot_sec config * 1000\<rparr>)))
                 else io_lift (Inr st2)) (\<lambda>st4.
        io_bind (io_modify (bw_sleep (ro_bench ops) 200)) (\<lambda>_. io_lift (Inr st4))))))"

partial_function (option) soak_loop ::
  "fpu \<Rightarrow> 'w run_ops \<Rightarrow> Config \<Rightarrow> string \<Rightarrow> TemplateCatalog \<Rightarrow> int \<Rightarrow> int \<Rightarrow> soak_state \<Rightarrow> 'w \<Rightarrow> ('w \<times> soak_state outcome) option" where
  "soak_loop F ops config collection catalog run_start deadline st w =
     (let (w1, now) = bw_now (ro_bench ops) w in
      if now < deadline then do {
        (w2, next) \<leftarrow> soak_round F ops config collection catalog run_start st w1;
        (case next of
           Inl e \<Rightarrow> Some (w2, Inl e)
         | Inr st' \<Rightarrow> soak_loop F ops config collection catalog run_start deadline st' w2) }
      else Some (w1, Inr st))"

definition soak_case :: "Config \<Rightarrow> BenchmarkCase" where
  "soak_case config = \<lparr>bc_case_index = 0, bc_kind = kThunderingHerd, bc_name = ''soak'', bc_target = [], bc_node_count = 5,
     bc_agent_count = 5, bc_write_count = 3, bc_read_count = 2, bc_theta = cfg_soak_theta config,
     bc_lock_hold_ms = cfg_soak_lock_hold_ms config, bc_arrival_mode = kBurst, bc_arrival_gap_ms = 0,
     bc_collection_name = cfg_collection_prefix config @ ''_soak''\<rparr>"

definition open_file :: "'w run_ops \<Rightarrow> string \<Rightarrow> ('w, bool) io" where
  "open_file ops path w = (let (w1, opened) = ro_open ops path w in Some (w1, opened))"

definition unix_seconds :: "'w run_ops \<Rightarrow> ('w, int) io" where
  "unix_seconds ops w = (let (w1, ms) = ro_unix_ms ops w in Some (w1, Inr (ms div 1000)))"

text \<open>The rounds of a soak run, from the opened file to the last snapshot.\<close>

definition soak_rounds ::
  "fpu \<Rightarrow> 'w run_ops \<Rightarrow> Config \<Rightarrow> string \<Rightarrow> TemplateCatalog \<Rightarrow> string \<Rightarrow> ('w, soak_state) io" where
  "soak_rounds F ops config collection catalog csv =
     io_bind (now_ms ops) (\<lambda>run_start.
     io_bind (soak_loop F ops config collection catalog run_start (run_start + cfg_soak_duration_min config * 60000)
       \<lparr>so_waits = [], so_latencies = [], so_qdrant = [], so_blocked = 0, so_total_ops = 0, so_round = 0,
        so_next_snapshot_at = run_start + cfg_soak_snapshot_sec config * 1000, so_window_start = run_start, so_csv = csv\<rparr>) (\<lambda>st.
       if so_latencies st \<noteq> [] then flush_snapshot F ops config collection run_start st else io_lift (Inr st)))"

definition run_soak :: "fpu \<Rightarrow> 'w run_ops \<Rightarrow> Config \<Rightarrow> ('w bench_state, soak_state) io" where
  "run_soak F ops config =
     (let soak_spec = soak_case config; collection = bc_collection_name soak_spec in
      io_bind (on_world (start_stack_for_case ops config soak_spec)) (\<lambda>_.
      io_bind (mark_started True) (\<lambda>_.
      io_bind (on_world (load_templates F (ro_bench ops) config)) (\<lambda>templates.
      io_bind (io_lift (build_template_catalog templates)) (\<lambda>catalog.
      io_bind (io_lift (elem_at templates 0)) (\<lambda>front.
      io_bind (on_world (create_qdrant_collection (ro_bench ops) config collection (length (td_embedding front)))) (\<lambda>_.
      io_bind (on_world (unix_seconds ops)) (\<lambda>secs.
        let csv_path = (if cfg_soak_output_path config = [] then default_soak_csv_path config secs else cfg_soak_output_path config) in
        io_bind (on_world (open_file ops csv_path)) (\<lambda>opened.
        io_bind (io_lift (new_SoakCsvWriter opened csv_path)) (\<lambda>csv.
          on_world (soak_rounds F ops config collection catalog csv)))))))))))"

section \<open>The program\<close>

text \<open>A log that goes out of scope is completed by its destructor.\<close>

definition close_logger :: "'w bench_state \<Rightarrow> 'w bench_state" where
  "close_logger s =
     (case bs_logger s of
        None \<Rightarrow> s
      | Some logger \<Rightarrow> s\<lparr>bs_logger := None, bs_files := bs_files s @ [(lg_path logger, lg_out (finalize logger))]\<rparr>)"

definition logged_pass ::
  "fpu \<Rightarrow> (string \<Rightarrow> bool) \<Rightarrow> 'w run_ops \<Rightarrow> Config \<Rightarrow> BenchmarkCase list \<Rightarrow> fl \<Rightarrow> string \<Rightarrow> ('w bench_state, unit) io" where
  "logged_pass F erange ops config base_cases theta_override path =
     io_bind (on_world (open_file ops path)) (\<lambda>opened.
     io_bind (on_world (unix_seconds ops)) (\<lambda>secs.
     io_bind (io_lift (new_BenchmarkRunLogger opened path config [] (length base_cases) secs)) (\<lambda>logger.
     io_bind (io_modify (\<lambda>s. s\<lparr>bs_logger := Some logger\<rparr>)) (\<lambda>_.
     io_bind (run_pass F erange ops config base_cases theta_override) (\<lambda>_.
       io_modify close_logger)))))"

definition fl_abs :: "fl \<Rightarrow> fl" where
  "fl_abs x = (case x of NaN \<Rightarrow> NaN | PInf \<Rightarrow> PInf | MInf \<Rightarrow> PInf | Fin r \<Rightarrow> Fin \<bar>r\<bar>)"

definition theta_selected :: "fpu \<Rightarrow> Config \<Rightarrow> fl \<Rightarrow> bool" where
  "theta_selected F config theta =
     (\<not> (fl_le (Fin 0) (cfg_matrix_theta_filter config)
         \<and> fl_less (rnd_float F (1 / 1000)) 
             (fl_abs (fl_add (F\<lparr>rnd_double := rnd_float F\<rparr>) theta (negate (cfg_matrix_theta_filter config))))))"

fun matrix_thetas ::
  "fpu \<Rightarrow> (string \<Rightarrow> bool) \<Rightarrow> 'w run_ops \<Rightarrow> Config \<Rightarrow> BenchmarkCase list \<Rightarrow> string \<Rightarrow> fl list \<Rightarrow> ('w bench_state, unit) io" where
  "matrix_thetas F erange ops config base_cases profile [] = io_lift (Inr ())"
| "matrix_thetas F erange ops config base_cases profile (theta # thetas) =
     (if \<not> theta_selected F config theta then matrix_thetas F erange ops config base_cases profile thetas
      else io_bind (on_world (unix_seconds ops)) (\<lambda>secs.
           io_bind (logged_pass F erange ops config base_cases theta (default_matrix_run_path config profile theta secs)) (\<lambda>_.
             matrix_thetas F erange ops config base_cases profile thetas)))"

fun matrix_profiles ::
  "fpu \<Rightarrow> (string \<Rightarrow> bool) \<Rightarrow> 'w run_ops \<Rightarrow> Config \<Rightarrow> BenchmarkCase list \<Rightarrow> EmbeddingProfile list \<Rightarrow> ('w bench_state, unit) io" where
  "matrix_profiles F erange ops config base_cases [] = io_lift (Inr ())"
| "matrix_profiles F erange ops config base_cases (profile # profiles) =
     (if cfg_matrix_profile_filter config \<noteq> [] \<and> ep_name profile \<noteq> cfg_matrix_profile_filter config
      then matrix_profiles F erange ops config base_cases profiles
      else
        let config' = config\<lparr>cfg_embedding_profile := ep_name profile, cfg_model_id := ep_model_id profile,
              cfg_embedding_image := ep_image profile\<rparr>
        in io_bind (matrix_thetas F erange ops config' base_cases (ep_name profile) (kMatrixThetas F)) (\<lambda>_.
             matrix_profiles F erange ops config' base_cases profiles))"

definition run_matrix :: "fpu \<Rightarrow> (string \<Rightarrow> bool) \<Rightarrow> 'w run_ops \<Rightarrow> Config \<Rightarrow> BenchmarkCase list \<Rightarrow> ('w bench_state, unit) io" where
  "run_matrix F erange ops config base_cases =
     io_bind (on_world (unix_seconds ops)) (\<lambda>secs.
       let csv_path = (if cfg_matrix_output_path config = [] then default_matrix_csv_path config secs else cfg_matrix_output_path config) in
       io_bind (on_world (\<lambda>w. let (w1, file) = ro_csv_contents ops csv_path w in Some (w1, Inr file))) (\<lambda>file.
       io_bind (on_world (open_file ops csv_path)) (\<lambda>opened.
       io_bind (io_lift (new_MatrixCsvAppender opened csv_path file)) (\<lambda>csv.
       io_bind (io_modify (\<lambda>s. s\<lparr>bs_csv := Some csv\<rparr>)) (\<lambda>_.
         matrix_profiles F erange ops config base_cases kProfiles)))))"

definition run_single :: "fpu \<Rightarrow> (string \<Rightarrow> bool) \<Rightarrow> 'w run_ops \<Rightarrow> Config \<Rightarrow> BenchmarkCase list \<Rightarrow> ('w bench_state, unit) io" where
  "run_single F erange ops config base_cases =
     io_bind (on_world (unix_seconds ops)) (\<lambda>secs.
     io_bind (logged_pass F erange ops config base_cases (Fin (- 1))
               (if cfg_output_path config = [] then default_output_path config secs else cfg_output_path config)) (\<lambda>_.
       if cfg_teardown_on_exit config then on_world (stop_stack ops config) else io_lift (Inr ())))"

text \<open>The body of the \<^verbatim>\<open>try\<close> block after \<^verbatim>\<open>load_config\<close>.\<close>

definition run_modes :: "fpu \<Rightarrow> (string \<Rightarrow> bool) \<Rightarrow> 'w run_ops \<Rightarrow> Config \<Rightarrow> ('w bench_state, unit) io" where
  "run_modes F erange ops config =
     (if cfg_run_mode config = ''soak'' then
        io_bind (run_soak F ops config) (\<lambda>_.
          if cfg_teardown_on_exit config then on_world (stop_stack ops config) else io_lift (Inr ()))
      else
        let base_cases = build_curated_cases F config in
        if base_cases = [] then io_lift (fail ''curated benchmark list was empty'')
        else if cfg_run_mode config = ''matrix'' then run_matrix F erange ops config base_cases
        else run_single F erange ops config base_cases)"

text \<open>
  \<^verbatim>\<open>ex.what()\<close>: the message of a \<^verbatim>\<open>runtime_error\<close>; of the exceptions the C++ library throws, the text is
  the library's and a parameter.
\<close>

definition what_text :: "(exn \<Rightarrow> string) \<Rightarrow> exn \<Rightarrow> string" where
  "what_text lib_what e = (case e of RuntimeError message \<Rightarrow> message | _ \<Rightarrow> lib_what e)"

text \<open>
  How the process ends: \<open>Exit\<close> with a code, \<open>Terminated\<close> by an exception that leaves the handler, or
  \<open>Crashed\<close> by undefined behaviour, which no handler sees.
\<close>

datatype process_end = Exit int | Terminated | Crashed

fun is_exception :: "exn \<Rightarrow> bool" where
  "is_exception (Undefined u) = False"
| "is_exception NullDereference = False"
| "is_exception Uncaught = False"
| "is_exception _ = True"

definition main_handler :: "'w run_ops \<Rightarrow> Config \<Rightarrow> 'w bench_state \<Rightarrow> ('w bench_state \<times> process_end) option" where
  "main_handler ops config s =
     (let s1 = close_logger s in
      if bs_stack_started s1 \<and> cfg_teardown_on_exit config
      then do { (s2, r) \<leftarrow> on_world (stop_stack ops config) s1; Some (s2, case r of Inl e \<Rightarrow> Terminated | Inr u \<Rightarrow> Exit 1) }
      else Some (s1, Exit 1))"

definition bench_main ::
  "fpu \<Rightarrow> (string \<Rightarrow> bool) \<Rightarrow> 'w run_ops \<Rightarrow> string \<Rightarrow> environ \<Rightarrow> 'w \<Rightarrow> ('w bench_state \<times> process_end) option" where
  "bench_main F erange ops project_root env w =
     (let s0 = \<lparr>bs_world = w, bs_stack_started = False, bs_logger = None, bs_csv = None,
                bs_files = []\<rparr> in
      case load_config F erange project_root env of
        Inl e \<Rightarrow> main_handler ops (default_Config project_root) s0
      | Inr config \<Rightarrow> do {
          (s1, r) \<leftarrow> run_modes F erange ops config s0;
          (case r of
             Inr u \<Rightarrow> Some (s1, Exit 0)
           | Inl e \<Rightarrow> if is_exception e then main_handler ops config s1 else Some (s1, Crashed)) })"

end
