(* ===== verification/Json.thy ===== *)
theory Json
  imports LockServiceLaws
begin

text \<open>
  A reader for JSON documents, the reference that the report writers are measured against. It accepts
  more than RFC 8259 in one point: control characters may stand unescaped in a string. \<open>denotes t j\<close>
  says that a text is read as the value \<open>j\<close> wherever it stands in a document; its laws follow the
  grammar. The fuel is the length of the document, which always suffices.
\<close>

section \<open>The reader\<close>

datatype json = JString string | JNumber string | JBool bool | JArray "json list" | JObject "(string \<times> json) list"

definition json_space :: "char \<Rightarrow> bool" where
  "json_space c \<longleftrightarrow> c \<in> {CHR 0x20, CHR 0x09, CHR 0x0A, CHR 0x0D}"

definition skip_space :: "string \<Rightarrow> string" where
  "skip_space s = dropWhile json_space s"

definition number_char :: "char \<Rightarrow> bool" where
  "number_char c \<longleftrightarrow> digit_of c \<noteq> None \<or> c \<in> {CHR ''-'', CHR ''+'', CHR ''.'', CHR ''e'', CHR ''E''}"

definition all_digits :: "string \<Rightarrow> bool" where
  "all_digits s \<longleftrightarrow> s \<noteq> [] \<and> list_all (\<lambda>c. digit_of c \<noteq> None) s"

text \<open>Numbers without an exponent: an integer part without leading zeros and an optional fraction.\<close>

definition json_number :: "string \<Rightarrow> bool" where
  "json_number t =
     (let s = (if t \<noteq> [] \<and> hd t = CHR ''-'' then tl t else t);
          ip = takeWhile (\<lambda>c. c \<noteq> CHR ''.'') s; rest = drop (length ip) s
      in all_digits ip \<and> (length ip = 1 \<or> hd ip \<noteq> CHR ''0'') \<and> (rest = [] \<or> all_digits (tl rest)))"

fun json_value :: "nat \<Rightarrow> string \<Rightarrow> (json \<times> string) option"
  and json_elements :: "nat \<Rightarrow> string \<Rightarrow> (json list \<times> string) option"
  and json_members :: "nat \<Rightarrow> string \<Rightarrow> ((string \<times> json) list \<times> string) option" where
  "json_value 0 s = None"
| "json_value (Suc n) s =
     (case skip_space s of
        [] \<Rightarrow> None
      | c # r \<Rightarrow>
          if c = CHR 0x22 then map_option (\<lambda>(v, rest). (JString v, rest)) (read_json_string r)
          else if c = CHR 0x5B then
            (if skip_space r \<noteq> [] \<and> hd (skip_space r) = CHR 0x5D then Some (JArray [], tl (skip_space r))
             else map_option (\<lambda>(js, rest). (JArray js, rest)) (json_elements n r))
          else if c = CHR 0x7B then
            (if skip_space r \<noteq> [] \<and> hd (skip_space r) = CHR 0x7D then Some (JObject [], tl (skip_space r))
             else map_option (\<lambda>(ms, rest). (JObject ms, rest)) (json_members n r))
          else if prefix ''true'' (c # r) then Some (JBool True, drop 4 (c # r))
          else if prefix ''false'' (c # r) then Some (JBool False, drop 5 (c # r))
          else let t = takeWhile number_char (c # r) in
            if json_number t then Some (JNumber t, drop (length t) (c # r)) else None)"
| "json_elements 0 s = None"
| "json_elements (Suc n) s =
     Option.bind (json_value n s) (\<lambda>(j, r).
       case skip_space r of
         [] \<Rightarrow> None
       | c # r' \<Rightarrow>
           if c = CHR '','' then map_option (\<lambda>(js, rest). (j # js, rest)) (json_elements n r')
           else if c = CHR 0x5D then Some ([j], r') else None)"
| "json_members 0 s = None"
| "json_members (Suc n) s =
     (case skip_space s of
        [] \<Rightarrow> None
      | q # r \<Rightarrow>
          if q \<noteq> CHR 0x22 then None
          else Option.bind (read_json_string r) (\<lambda>(k, r1).
            case skip_space r1 of
              [] \<Rightarrow> None
            | d # r2 \<Rightarrow>
                if d \<noteq> CHR '':'' then None
                else Option.bind (json_value n r2) (\<lambda>(j, r3).
                  case skip_space r3 of
                    [] \<Rightarrow> None
                  | c # r4 \<Rightarrow>
                      if c = CHR '','' then map_option (\<lambda>(ms, rest). ((k, j) # ms, rest)) (json_members n r4)
                      else if c = CHR 0x7D then Some ([(k, j)], r4) else None)))"

declare json_value.simps(2) [simp del] json_elements.simps(2) [simp del] json_members.simps(2) [simp del]

definition json_text :: "string \<Rightarrow> json option" where
  "json_text s = (case json_value (length s) s of
      None \<Rightarrow> None
    | Some (j, rest) \<Rightarrow> if skip_space rest = [] then Some j else None)"

section \<open>What a text denotes\<close>

definition space :: "string \<Rightarrow> bool" where
  "space s \<longleftrightarrow> list_all json_space s"

definition delimited :: "string \<Rightarrow> bool" where
  "delimited rest \<longleftrightarrow> rest = [] \<or> \<not> number_char (hd rest)"

definition denotes :: "string \<Rightarrow> json \<Rightarrow> bool" where
  "denotes t j \<longleftrightarrow> (\<forall>n rest. length t \<le> n \<longrightarrow> delimited rest \<longrightarrow> json_value n (t @ rest) = Some (j, rest))"

definition denotes_elements :: "string \<Rightarrow> json list \<Rightarrow> bool" where
  "denotes_elements t js \<longleftrightarrow> (\<forall>n rest. length t < n \<longrightarrow> json_elements n (t @ CHR 0x5D # rest) = Some (js, rest))"

definition denotes_members :: "string \<Rightarrow> (string \<times> json) list \<Rightarrow> bool" where
  "denotes_members t ms \<longleftrightarrow> (\<forall>n rest. length t < n \<longrightarrow> json_members n (t @ CHR 0x7D # rest) = Some (ms, rest))"

lemma denotesD: "denotes t j \<Longrightarrow> length t \<le> n \<Longrightarrow> delimited rest \<Longrightarrow> json_value n (t @ rest) = Some (j, rest)"
  by (simp add: denotes_def)

lemma denotes_nonempty: "denotes t j \<Longrightarrow> t \<noteq> []"
  unfolding denotes_def by (metis delimited_def json_value.simps(1) le0 list.size(3) option.distinct(1))

lemma denotes_length: "denotes t j \<Longrightarrow> 0 < length t"
  using denotes_nonempty by simp

lemma skip_space_append [simp]: "space a \<Longrightarrow> skip_space (a @ s) = skip_space s"
  by (induction a) (auto simp: space_def skip_space_def)

lemma skip_space_stop [simp]: "\<not> json_space c \<Longrightarrow> skip_space (c # s) = c # s"
  by (simp add: skip_space_def)

lemma skip_space_nil [simp]: "skip_space [] = []"
  by (simp add: skip_space_def)

lemma space_append [simp]: "space (a @ b) \<longleftrightarrow> space a \<and> space b"
  by (simp add: space_def)

lemma json_space_simps [simp]:
  "\<not> json_space (CHR 0x22)" "\<not> json_space (CHR 0x5B)" "\<not> json_space (CHR 0x5D)" "\<not> json_space (CHR 0x7B)"
  "\<not> json_space (CHR 0x7D)" "\<not> json_space (CHR '','')" "\<not> json_space (CHR '':'')" "\<not> json_space (CHR ''t'')" "\<not> json_space (CHR ''f'')"
  by (simp_all add: json_space_def)

lemma delimited_simps [simp]:
  "delimited (CHR 0x5D # s)" "delimited (CHR 0x7D # s)" "delimited (CHR '','' # s)" "delimited []"
  by (simp_all add: delimited_def number_char_def digit_of_def)

lemma space_not_number: "json_space c \<Longrightarrow> \<not> number_char c"
  by (auto simp: json_space_def number_char_def digit_of_def)

lemma delimited_space: "space b \<Longrightarrow> delimited s \<Longrightarrow> delimited (b @ s)"
  by (cases b) (auto simp: delimited_def space_def space_not_number)

section \<open>Laws of the grammar\<close>

lemma json_value_space [simp]: "space a \<Longrightarrow> json_value n (a @ s) = json_value n s"
  by (cases n) (simp_all add: json_value.simps(2))

lemma json_members_space [simp]: "space a \<Longrightarrow> json_members n (a @ s) = json_members n s"
  by (cases n) (simp_all add: json_members.simps(2))

lemma json_elements_space [simp]: "space a \<Longrightarrow> json_elements n (a @ s) = json_elements n s"
  by (cases n) (simp_all add: json_elements.simps(2))

lemma denotes_string: "denotes (quoted (escape_json v)) (JString v)"
  unfolding denotes_def
proof (intro allI impI)
  fix n :: nat and rest :: string
  assume "length (quoted (escape_json v)) \<le> n"
  then obtain m where "n = Suc m" by (cases n) (auto simp: quoted_def dq_def)
  then show "json_value n (quoted (escape_json v) @ rest) = Some (JString v, rest)"
    by (simp add: json_value.simps(2) quoted_def dq_def read_escape)
qed

lemma denotes_bool: "denotes ''true'' (JBool True)" "denotes ''false'' (JBool False)"
proof -
  have "json_value n (''true'' @ rest) = Some (JBool True, rest)" if "4 \<le> n" for n rest
    using that by (cases n) (auto simp: json_value.simps(2))
  then show "denotes ''true'' (JBool True)" by (auto simp: denotes_def)
  have "json_value n (''false'' @ rest) = Some (JBool False, rest)" if "5 \<le> n" for n rest
    using that by (cases n) (auto simp: json_value.simps(2))
  then show "denotes ''false'' (JBool False)" by (auto simp: denotes_def)
qed

lemma number_char_head:
  assumes "number_char c"
  shows "\<not> json_space c" "c \<noteq> CHR 0x22" "c \<noteq> CHR 0x5B" "c \<noteq> CHR 0x7B" "c \<noteq> CHR ''t''" "c \<noteq> CHR ''f''"
  using assms space_not_number by (auto simp: number_char_def digit_of_def)

lemma denotes_number:
  assumes "json_number t" "list_all number_char t"
  shows "denotes t (JNumber t)"
  unfolding denotes_def
proof (intro allI impI)
  fix n :: nat and rest :: string
  assume n: "length t \<le> n" and rest: "delimited rest"
  have "t \<noteq> []" using assms(1) by (auto simp: json_number_def all_digits_def Let_def)
  then obtain c r where t: "t = c # r" by (cases t) auto
  then obtain m where m: "n = Suc m" using n by (cases n) auto
  have "takeWhile number_char (t @ rest) = t"
    using assms(2) rest by (cases rest) (auto simp: delimited_def list_all_iff takeWhile_append)
  moreover note number_char_head[of c]
  ultimately show "json_value n (t @ rest) = Some (JNumber t, rest)"
    using assms t m by (auto simp: json_value.simps(2) Let_def)
qed

lemma elements_one: "denotes t j \<Longrightarrow> space b \<Longrightarrow> denotes_elements (t @ b) [j]"
  unfolding denotes_elements_def
proof (intro allI impI)
  fix n :: nat and rest :: string
  assume d: "denotes t j" and b: "space b" and "length (t @ b) < n"
  then obtain m where m: "n = Suc m" "length t \<le> m" by (cases n) auto
  have "json_value m (t @ b @ CHR 0x5D # rest) = Some (j, b @ CHR 0x5D # rest)"
    using b by (intro denotesD[OF d m(2)] delimited_space) simp_all
  then show "json_elements n ((t @ b) @ CHR 0x5D # rest) = Some ([j], rest)"
    using m b by (simp add: json_elements.simps(2))
qed

lemma elements_more:
  "denotes t j \<Longrightarrow> space b \<Longrightarrow> denotes_elements r js \<Longrightarrow> denotes_elements (t @ b @ CHR '','' # r) (j # js)"
  unfolding denotes_elements_def[of "t @ _"]
proof (intro allI impI)
  fix n :: nat and rest :: string
  assume d: "denotes t j" and b: "space b" and r: "denotes_elements r js" and "length (t @ b @ CHR '','' # r) < n"
  then obtain m where m: "n = Suc m" "length t \<le> m" "length r < m" by (cases n) auto
  have "json_value m (t @ b @ CHR '','' # r @ CHR 0x5D # rest) = Some (j, b @ CHR '','' # r @ CHR 0x5D # rest)"
    using b by (intro denotesD[OF d m(2)] delimited_space) simp_all
  then show "json_elements n ((t @ b @ CHR '','' # r) @ CHR 0x5D # rest) = Some (j # js, rest)"
    using m b r by (simp add: json_elements.simps(2) denotes_elements_def)
qed

lemma elements_space: "space a \<Longrightarrow> denotes_elements t js \<Longrightarrow> denotes_elements (a @ t) js"
  by (simp add: denotes_elements_def)

lemma json_value_not_close:
  assumes "skip_space s = c # r" "c = CHR 0x5D \<or> c = CHR 0x7D"
  shows "json_value n s = None"
proof (cases n)
  case (Suc m)
  have "takeWhile number_char (c # r) = []" "\<not> json_number []"
    using assms(2) by (auto simp: number_char_def digit_of_def json_number_def all_digits_def)
  then show ?thesis using assms Suc by (auto simp: json_value.simps(2) Let_def)
qed simp

lemma elements_not_close:
  assumes "json_elements n s = Some x"
  shows "\<not> (skip_space s \<noteq> [] \<and> hd (skip_space s) = CHR 0x5D)"
proof
  assume a: "skip_space s \<noteq> [] \<and> hd (skip_space s) = CHR 0x5D"
  then obtain r where r: "skip_space s = CHR 0x5D # r" by (cases "skip_space s") auto
  then show False using assms json_value_not_close[of s "CHR 0x5D" r] by (cases n) (auto simp: json_elements.simps(2))
qed

lemma members_not_close:
  assumes "json_members n s = Some x"
  shows "\<not> (skip_space s \<noteq> [] \<and> hd (skip_space s) = CHR 0x7D)"
  using assms by (cases n) (auto simp: json_members.simps(2) split: list.splits if_splits)

lemma denotes_array: "denotes_elements t js \<Longrightarrow> denotes (CHR 0x5B # t @ [CHR 0x5D]) (JArray js)"
  unfolding denotes_def
proof (intro allI impI)
  fix n :: nat and rest :: string
  assume t: "denotes_elements t js" and "length (CHR 0x5B # t @ [CHR 0x5D]) \<le> n"
  then obtain m where m: "n = Suc m" "length t < m" by (cases n) auto
  then have e: "json_elements m (t @ CHR 0x5D # rest) = Some (js, rest)" using t by (simp add: denotes_elements_def)
  then show "json_value n ((CHR 0x5B # t @ [CHR 0x5D]) @ rest) = Some (JArray js, rest)"
    using m elements_not_close[OF e] by (auto simp: json_value.simps(2))
qed

lemma denotes_empty_array: "space a \<Longrightarrow> denotes (CHR 0x5B # a @ [CHR 0x5D]) (JArray [])"
  unfolding denotes_def
proof (intro allI impI)
  fix n :: nat and rest :: string
  assume "space a" "length (CHR 0x5B # a @ [CHR 0x5D]) \<le> n"
  then show "json_value n ((CHR 0x5B # a @ [CHR 0x5D]) @ rest) = Some (JArray [], rest)"
    by (cases n) (auto simp: json_value.simps(2))
qed

text \<open>A member: white space, a key, the colon, white space, a value, white space.\<close>

definition member_text :: "string \<Rightarrow> string \<Rightarrow> string \<Rightarrow> string \<Rightarrow> string" where
  "member_text a k b t = a @ quoted (escape_json k) @ CHR '':'' # b @ t"

lemma member_read:
  assumes "denotes t j" "space a" "space b" "space c" "length t \<le> m" "delimited rest" "\<not> json_space (hd rest)" "rest \<noteq> []"
  shows "json_members (Suc m) (member_text a k b t @ c @ rest) =
    (if hd rest = CHR '','' then map_option (\<lambda>(ms, r). ((k, j) # ms, r)) (json_members m (tl rest))
     else if hd rest = CHR 0x7D then Some ([(k, j)], tl rest) else None)"
proof -
  have v: "json_value m (t @ c @ rest) = Some (j, c @ rest)"
    by (rule denotesD[OF assms(1,5) delimited_space[OF assms(4,6)]])
  obtain d ds where "rest = d # ds" using assms(8) by (cases rest) auto
  then show ?thesis
    using assms v by (simp add: member_text_def json_members.simps(2) quoted_def dq_def read_escape)
qed

lemma members_one:
  assumes "denotes t j" "space a" "space b" "space c"
  shows "denotes_members (member_text a k b t @ c) [(k, j)]"
  unfolding denotes_members_def
proof (intro allI impI)
  fix n :: nat and rest :: string
  assume "length (member_text a k b t @ c) < n"
  then obtain m where m: "n = Suc m" "length t \<le> m" by (cases n) (auto simp: member_text_def)
  then show "json_members n ((member_text a k b t @ c) @ CHR 0x7D # rest) = Some ([(k, j)], rest)"
    using member_read[OF assms m(2), of "CHR 0x7D # rest" k] by simp
qed

lemma members_more:
  assumes "denotes t j" "space a" "space b" "space c" "denotes_members r ms"
  shows "denotes_members (member_text a k b t @ c @ CHR '','' # r) ((k, j) # ms)"
  unfolding denotes_members_def
proof (intro allI impI)
  fix n :: nat and rest :: string
  assume "length (member_text a k b t @ c @ CHR '','' # r) < n"
  then obtain m where m: "n = Suc m" "length t \<le> m" "length r < m" by (cases n) (auto simp: member_text_def)
  then show "json_members n ((member_text a k b t @ c @ CHR '','' # r) @ CHR 0x7D # rest) = Some ((k, j) # ms, rest)"
    using member_read[OF assms(1-4) m(2), of "CHR '','' # r @ CHR 0x7D # rest" k] assms(5)
    by (simp add: denotes_members_def)
qed

lemma denotes_object: "denotes_members t ms \<Longrightarrow> denotes (CHR 0x7B # t @ [CHR 0x7D]) (JObject ms)"
  unfolding denotes_def
proof (intro allI impI)
  fix n :: nat and rest :: string
  assume t: "denotes_members t ms" and "length (CHR 0x7B # t @ [CHR 0x7D]) \<le> n"
  then obtain m where m: "n = Suc m" "length t < m" by (cases n) auto
  then have e: "json_members m (t @ CHR 0x7D # rest) = Some (ms, rest)" using t by (simp add: denotes_members_def)
  then show "json_value n ((CHR 0x7B # t @ [CHR 0x7D]) @ rest) = Some (JObject ms, rest)"
    using m members_not_close[OF e] by (auto simp: json_value.simps(2))
qed

lemma members_space: "space a \<Longrightarrow> denotes_members t ms \<Longrightarrow> denotes_members (a @ t) ms"
  by (simp add: denotes_members_def)

lemma denotes_space: "space a \<Longrightarrow> denotes t j \<Longrightarrow> denotes (a @ t) j"
  by (simp add: denotes_def)

lemma json_text_denotes: "denotes t j \<Longrightarrow> space b \<Longrightarrow> json_text (t @ b) = Some j"
proof -
  assume d: "denotes t j" and b: "space b"
  have "json_value (length (t @ b)) (t @ b) = Some (j, b)"
    using b delimited_space[OF b, of "[]"] by (intro denotesD[OF d]) auto
  then show ?thesis using skip_space_append[OF b, of "[]"] by (simp add: json_text_def)
qed

lemma denotes_unique: "denotes t j \<Longrightarrow> denotes t k \<Longrightarrow> j = k"
  using json_text_denotes[of t j "[]"] json_text_denotes[of t k "[]"] by (simp add: space_def)

section \<open>Integers\<close>

lemma nat_to_string_shape:
  "all_digits (nat_to_string n) \<and> (length (nat_to_string n) = 1 \<or> hd (nat_to_string n) \<noteq> CHR ''0'')"
proof (induction n rule: nat_to_string.induct)
  case (1 n)
  have zero: "digit_char d = CHR ''0'' \<Longrightarrow> d = 0" if "d < 10" for d
    using that digit_of_char[of d] by (auto simp: digit_of_def simp del: digit_of_char)
  show ?case
  proof (cases "n < 10")
    case True
    then show ?thesis by (simp add: nat_to_string.simps[of n] all_digits_def)
  next
    case False
    have h: "hd (nat_to_string (n div 10)) \<noteq> CHR ''0''"
    proof (cases "n div 10 < 10")
      case True
      then show ?thesis using False zero[of "n div 10"] by (auto simp: nat_to_string.simps[of "n div 10"])
    next
      case big: False
      then have "length (nat_to_string (n div 10)) \<noteq> 1"
        using nat_to_string_digits[of "n div 10 div 10"] by (auto simp: nat_to_string.simps[of "n div 10"])
      then show ?thesis using 1[OF False] by simp
    qed
    then show ?thesis using 1[OF False] False by (auto simp: nat_to_string.simps[of n] all_digits_def)
  qed
qed

lemma digits_no_point: "all_digits s \<Longrightarrow> takeWhile (\<lambda>c. c \<noteq> CHR ''.'') (s @ CHR ''.'' # r) = s"
  "all_digits s \<Longrightarrow> takeWhile (\<lambda>c. c \<noteq> CHR ''.'') s = s" "all_digits s \<Longrightarrow> hd s \<noteq> CHR ''-''"
  by (auto simp: all_digits_def list_all_iff digit_of_def takeWhile_append neq_Nil_conv)

lemma json_number_int: "all_digits ip \<Longrightarrow> length ip = 1 \<or> hd ip \<noteq> CHR ''0'' \<Longrightarrow> json_number ip \<and> json_number (CHR ''-'' # ip)"
proof -
  assume a: "all_digits ip" "length ip = 1 \<or> hd ip \<noteq> CHR ''0''"
  show ?thesis unfolding json_number_def Let_def
    using a digits_no_point(3)[OF a(1)] by (simp add: digits_no_point(2)[OF a(1)])
qed

lemma json_number_frac:
  "all_digits ip \<Longrightarrow> length ip = 1 \<or> hd ip \<noteq> CHR ''0'' \<Longrightarrow> all_digits fr \<Longrightarrow>
     json_number (ip @ CHR ''.'' # fr) \<and> json_number (CHR ''-'' # ip @ CHR ''.'' # fr)"
proof -
  assume a: "all_digits ip" "length ip = 1 \<or> hd ip \<noteq> CHR ''0''" "all_digits fr"
  note p = digits_no_point(1)[OF a(1), of fr] digits_no_point(3)[OF a(1)]
  have ne: "ip \<noteq> []" using a(1) by (simp add: all_digits_def)
  then have h: "hd (ip @ CHR ''.'' # fr) \<noteq> CHR ''-''" using p(2) by simp
  show ?thesis unfolding json_number_def Let_def using a h by (simp add: p(1))
qed

lemma digits_number_chars: "all_digits s \<Longrightarrow> list_all number_char s"
  by (auto simp: all_digits_def number_char_def list_all_iff)

lemma number_char_sign [simp]: "number_char (CHR ''-'')" "number_char (CHR ''.'')"
  by (simp_all add: number_char_def)

lemma denotes_nat: "denotes (nat_to_string n) (JNumber (nat_to_string n))"
  using nat_to_string_shape[of n] by (intro denotes_number) (auto simp: json_number_int digits_number_chars)

lemma denotes_int: "denotes (to_string i) (JNumber (to_string i))"
  using nat_to_string_shape[of "nat i"] nat_to_string_shape[of "nat (- i)"]
  by (intro denotes_number) (auto simp: to_string_def json_number_int digits_number_chars)

end
