(* ===== verification/BenchReportLaws.thy ===== *)
theory BenchReportLaws
  imports BenchReport BenchMetricsLaws Json
begin

text \<open>
  The benchmark runner's run log, read back by the JSON reader: the layout combinators denote objects
  and arrays, the numbers are JSON numbers, and the log is a document after every sequence of
  \<^verbatim>\<open>append_case\<close> calls that ends in \<^verbatim>\<open>finalize\<close>.
\<close>

section \<open>Layout\<close>

text \<open>The value a text denotes, if it denotes one.\<close>

definition value_of :: "string \<Rightarrow> json" where
  "value_of t = the (json_text t)"

definition is_json :: "string \<Rightarrow> bool" where
  "is_json t \<longleftrightarrow> denotes t (value_of t)"

lemma value_of_eq: "denotes t j \<Longrightarrow> value_of t = j"
  using json_text_denotes[of t j "[]"] by (simp add: value_of_def space_def)

lemma is_jsonI: "denotes t j \<Longrightarrow> is_json t"
  by (simp add: is_json_def value_of_eq)

lemma space_layout [simp]: "space (indent n)" "space nl" "space []" "space '' ''"
  by (simp_all add: space_def indent_def nl_def json_space_def list_all_iff)

definition fields_ok :: "fields \<Rightarrow> bool" where
  "fields_ok fs \<longleftrightarrow> list_all (\<lambda>(k, t). escape_json k = k \<and> is_json t) fs"

lemma fields_ok_simps [simp]:
  "fields_ok []" "fields_ok ((k, t) # fs) \<longleftrightarrow> escape_json k = k \<and> is_json t \<and> fields_ok fs"
  "fields_ok (fs @ gs) \<longleftrightarrow> fields_ok fs \<and> fields_ok gs"
  by (simp_all add: fields_ok_def)

definition read_fields :: "fields \<Rightarrow> (string \<times> json) list" where
  "read_fields fs = map (\<lambda>(k, t). (k, value_of t)) fs"

lemma read_fields_append [simp]: "read_fields (fs @ gs) = read_fields fs @ read_fields gs"
  by (simp add: read_fields_def)

lemma read_fields_single [simp]: "read_fields [(k, t)] = [(k, value_of t)]"
  by (simp add: read_fields_def)

lemma read_fields_lookup: "map_of (read_fields fs) k = map_option value_of (map_of fs k)"
  unfolding read_fields_def by (induction fs) auto

lemma field_lines_members:
  "fs \<noteq> [] \<Longrightarrow> fields_ok fs \<Longrightarrow> denotes_members (field_lines n fs @ indent m) (read_fields fs)"
proof (induction n fs rule: field_lines.induct)
  case (2 n k v)
  then have "denotes_members (member_text (indent n) k '' '' v @ nl @ indent m) [(k, value_of v)]"
    by (intro members_one) (simp_all add: is_json_def)
  then show ?case using 2 by (simp add: read_fields_def member_text_def)
next
  case (3 n k v f fs)
  then have "denotes_members (nl @ field_lines n (f # fs) @ indent m) (read_fields (f # fs))"
    by (intro members_space[OF space_layout(2)]) simp
  from members_more[OF _ _ _ _ this, of v "value_of v" "indent n" "'' ''" "[]" k]
  show ?case using 3 by (simp add: read_fields_def member_text_def is_json_def)
qed simp

lemma inline_fields_members: "fs \<noteq> [] \<Longrightarrow> fields_ok fs \<Longrightarrow> denotes_members (inline_fields fs) (read_fields fs)"
proof (induction fs rule: inline_fields.induct)
  case (2 k v)
  then have "denotes_members (member_text [] k [] v @ []) [(k, value_of v)]"
    by (intro members_one) (simp_all add: is_json_def)
  then show ?case using 2 by (simp add: read_fields_def member_text_def)
next
  case (3 k v f fs)
  then have "denotes_members (member_text [] k [] v @ [] @ CHR '','' # inline_fields (f # fs)) ((k, value_of v) # read_fields (f # fs))"
    by (intro members_more) (simp_all add: is_json_def)
  then show ?case using 3 by (simp add: read_fields_def member_text_def)
qed simp

lemma lines_object_denotes: "fs \<noteq> [] \<Longrightarrow> fields_ok fs \<Longrightarrow> denotes (lines_object n fs) (JObject (read_fields fs))"
  using denotes_object[OF members_space[OF space_layout(2) field_lines_members[of fs "n + 2" n]]]
  by (simp add: lines_object_def)

lemma inline_object_denotes: "fs \<noteq> [] \<Longrightarrow> fields_ok fs \<Longrightarrow> denotes (inline_object fs) (JObject (read_fields fs))"
  using denotes_object[OF inline_fields_members] by (simp add: inline_object_def)

lemma item_lines_elements:
  "xs \<noteq> [] \<Longrightarrow> list_all is_json xs \<Longrightarrow> denotes_elements (item_lines n xs @ indent m) (map value_of xs)"
proof (induction n xs rule: item_lines.induct)
  case (2 n x)
  then have "denotes_elements (indent n @ x @ nl @ indent m) [value_of x]"
    by (intro elements_space elements_one) (simp_all add: is_json_def)
  then show ?case by simp
next
  case (3 n x y xs)
  then have "denotes_elements (nl @ item_lines n (y # xs) @ indent m) (map value_of (y # xs))"
    by (intro elements_space[OF space_layout(2)]) simp
  from elements_space[OF space_layout(1) elements_more[OF _ _ this], of x "value_of x" "[]" n]
  show ?case using 3 by (simp add: is_json_def)
qed simp

lemma lines_array_denotes: "list_all is_json xs \<Longrightarrow> denotes (lines_array n xs) (JArray (map value_of xs))"
proof (cases "xs = []")
  case True
  then show ?thesis using denotes_empty_array[of "nl @ indent n"] by (simp add: lines_array_def)
next
  case False
  assume "list_all is_json xs"
  then have "denotes (CHR 0x5B # (nl @ item_lines (n + 2) xs @ indent n) @ [CHR 0x5D]) (JArray (map value_of xs))"
    using False by (intro denotes_array elements_space item_lines_elements) simp_all
  then show ?thesis by (simp add: lines_array_def)
qed

section \<open>Scalars\<close>

lemma denotes_jstr: "denotes (jstr s) (JString s)"
  unfolding jstr_def by (rule denotes_string)

lemma denotes_jbool: "denotes (jbool b) (JBool b)"
  by (simp add: jbool_def denotes_bool)

lemma denotes_quoted: "escape_json s = s \<Longrightarrow> denotes (quoted s) (JString s)"
  using denotes_string[of s] by simp

lemma value_of_scalar [simp]:
  "value_of (jstr s) = JString s" "value_of (to_string i) = JNumber (to_string i)"
  "value_of (nat_to_string m) = JNumber (nat_to_string m)" "value_of (jbool b) = JBool b"
  by (simp_all add: value_of_eq denotes_jstr denotes_int denotes_nat denotes_jbool)

lemma is_json_scalar [simp]: "is_json (jstr s)" "is_json (to_string i)" "is_json (nat_to_string m)" "is_json (jbool b)"
  by (simp_all add: is_json_def denotes_jstr denotes_int denotes_nat denotes_jbool)

lemma is_json_quoted: "escape_json s = s \<Longrightarrow> is_json (quoted s)"
  by (rule is_jsonI[OF denotes_quoted])

lemma nat_to_string_length: "0 < p \<Longrightarrow> n < 10 ^ p \<Longrightarrow> length (nat_to_string n) \<le> p"
proof (induction p arbitrary: n)
  case (Suc p)
  show ?case
  proof (cases "n < 10")
    case False
    then have "0 < p" using Suc.prems(2) by (cases p) auto
    moreover have "n div 10 < 10 ^ p" using Suc.prems(2) by (simp add: less_mult_imp_div_less mult.commute)
    ultimately show ?thesis using Suc.IH[of "n div 10"] False by (simp add: nat_to_string.simps[of n])
  qed (simp add: nat_to_string.simps[of n])
qed simp

lemma pad_zero_digits: "all_digits s \<Longrightarrow> all_digits (pad_zero p s)"
  by (auto simp: all_digits_def pad_zero_def digit_of_def list_all_iff)

lemma fixed_text_number:
  assumes "0 < p"
  shows "json_number (fixed_text p (Fin r)) \<and> list_all number_char (fixed_text p (Fin r))"
proof -
  let ?n = "nat (round_even (\<bar>r\<bar> * 10 ^ p))"
  let ?ip = "nat_to_string (?n div 10 ^ p)" and ?fr = "pad_zero p (nat_to_string (?n mod 10 ^ p))"
  have ip: "all_digits ?ip" "length ?ip = 1 \<or> hd ?ip \<noteq> CHR ''0''" and fr: "all_digits ?fr"
    using nat_to_string_shape pad_zero_digits by auto
  then show ?thesis
    using json_number_frac[OF ip fr] assms digits_number_chars[of ?ip] digits_number_chars[of ?fr] by (auto simp: Let_def)
qed

definition finite_fl :: "fl \<Rightarrow> bool" where
  "finite_fl x = (case x of Fin r \<Rightarrow> True | _ \<Rightarrow> False)"

lemma is_json_fixed: "0 < p \<Longrightarrow> finite_fl x \<Longrightarrow> is_json (fixed_text p x)"
  using fixed_text_number by (cases x) (auto simp: finite_fl_def intro!: is_jsonI[OF denotes_number] simp del: fixed_text.simps)

lemma value_of_fixed: "0 < p \<Longrightarrow> finite_fl x \<Longrightarrow> value_of (fixed_text p x) = JNumber (fixed_text p x)"
  using fixed_text_number by (cases x) (auto simp: finite_fl_def intro!: value_of_eq denotes_number simp del: fixed_text.simps)

section \<open>The case report\<close>

text \<open>The floating-point numbers of a report that are taken over as they are.\<close>

definition finite_result :: "BenchmarkCaseResult \<Rightarrow> bool" where
  "finite_result r \<longleftrightarrow> finite_fl (bc_theta (cr_spec r))
     \<and> list_all finite_fl [m_success_rate (cr_metrics r), m_throughput_ops_per_sec (cr_metrics r), m_utilization_factor (cr_metrics r),
          m_serialization_score (cr_metrics r), m_distinct_parallelism_rate (cr_metrics r)]
     \<and> list_all (\<lambda>c. list_all finite_fl [cs_cpu_percent c, cs_memory_used_mib c, cs_net_input_mib c, cs_net_output_mib c]) (cr_container_stats r)
     \<and> list_all (\<lambda>op. finite_fl (rs_blocking_similarity_score (or_response op))) (cr_operations r)"

lemma operation_name_plain [simp]: "escape_json (operation_name op) = operation_name op"
  by (cases op) simp_all

lemma status_name_plain [simp]: "escape_json (grpc_status_code_name c) = grpc_status_code_name c"
  by (cases c) simp_all

lemmas field_rules = is_json_fixed is_json_quoted

lemma metrics_fields_ok:
  "list_all finite_fl [m_success_rate m, m_throughput_ops_per_sec m, m_utilization_factor m, m_serialization_score m,
     m_distinct_parallelism_rate m] \<Longrightarrow> fields_ok (metrics_fields m)"
  by (simp add: metrics_fields_def field_rules del: fixed_text.simps)

lemma container_fields_ok:
  "list_all finite_fl [cs_cpu_percent c, cs_memory_used_mib c, cs_net_input_mib c, cs_net_output_mib c] \<Longrightarrow> fields_ok (container_fields c)"
  by (simp add: container_fields_def field_rules del: fixed_text.simps)

lemma violation_fields_ok: "finite_fl (vr_similarity v) \<Longrightarrow> fields_ok (violation_fields v)"
  by (simp add: violation_fields_def field_rules del: fixed_text.simps)

lemma operation_fields_ok: "finite_fl (rs_blocking_similarity_score (or_response op)) \<Longrightarrow> fields_ok (operation_fields op)"
  by (simp add: operation_fields_def field_rules Let_def del: fixed_text.simps)

lemma violation_similarity_finite:
  assumes "float_rounding F" "v \<in> set (compute_violation_records F spec ops)"
  shows "finite_fl (vr_similarity v)"
proof -
  have one: "finite_fl (vr_similarity v)" if "violation_of F spec l r = Some v" for l r v
  proof -
    have "vr_similarity v = pair_similarity F l r" using that by (auto simp: violation_of_def Let_def split: if_splits)
    moreover obtain y where "pair_similarity F l r = Fin y" using pair_similarity_fin[OF assms(1), of l r] by blast
    ultimately show ?thesis by (simp add: finite_fl_def)
  qed
  show ?thesis using assms(2) by (induction ops) (auto simp: List.map_filter_def intro: one)
qed

lemma layout_json:
  "fs \<noteq> [] \<Longrightarrow> fields_ok fs \<Longrightarrow> is_json (lines_object n fs)" "fs \<noteq> [] \<Longrightarrow> fields_ok fs \<Longrightarrow> is_json (inline_object fs)"
  "list_all is_json xs \<Longrightarrow> is_json (lines_array n xs)"
  using lines_object_denotes inline_object_denotes lines_array_denotes by (blast intro: is_jsonI)+

lemma fields_nonempty [simp]:
  "metrics_fields m \<noteq> []" "container_fields c \<noteq> []" "violation_fields v \<noteq> []" "operation_fields op \<noteq> []" "template_fields t \<noteq> []"
  "case_fields F labels r \<noteq> []"
  by (simp_all add: metrics_fields_def container_fields_def violation_fields_def operation_fields_def template_fields_def
      case_fields_def Let_def)

lemma objects_json:
  "\<forall>x\<in>set xs. g x \<noteq> [] \<and> fields_ok (g x) \<Longrightarrow> list_all is_json (map (inline_object \<circ> g) xs)"
  "\<forall>x\<in>set xs. g x \<noteq> [] \<and> fields_ok (g x) \<Longrightarrow> list_all is_json (map (lines_object n \<circ> g) xs)"
  by (auto simp: list_all_iff layout_json)

lemma case_parts_json:
  assumes "float_rounding F" "finite_result r"
  shows "is_json (lines_object 6 (metrics_fields (cr_metrics r)))"
    "list_all is_json (map (inline_object \<circ> container_fields) (cr_container_stats r))"
    "list_all is_json (map (inline_object \<circ> violation_fields) (compute_violation_records F (cr_spec r) (cr_operations r)))"
    "list_all is_json (map (lines_object 8 \<circ> operation_fields) (cr_operations r))"
proof -
  have "fields_ok (metrics_fields (cr_metrics r))"
    using assms(2) by (intro metrics_fields_ok) (simp add: finite_result_def)
  then show "is_json (lines_object 6 (metrics_fields (cr_metrics r)))" by (intro layout_json(1)) simp_all
  have "fields_ok (container_fields c)" if "c \<in> set (cr_container_stats r)" for c
    using that assms(2) by (intro container_fields_ok) (simp add: finite_result_def list_all_iff)
  then show "list_all is_json (map (inline_object \<circ> container_fields) (cr_container_stats r))" by (intro objects_json) simp
  show "list_all is_json (map (inline_object \<circ> violation_fields) (compute_violation_records F (cr_spec r) (cr_operations r)))"
    using violation_similarity_finite[OF assms(1)] violation_fields_ok by (intro objects_json) simp
  have "fields_ok (operation_fields op)" if "op \<in> set (cr_operations r)" for op
    using that assms(2) by (intro operation_fields_ok) (simp add: finite_result_def list_all_iff)
  then show "list_all is_json (map (lines_object 8 \<circ> operation_fields) (cr_operations r))" by (intro objects_json) simp
qed

lemma case_fields_ok:
  assumes "float_rounding F" "finite_result r"
  shows "fields_ok (case_fields F labels r)"
proof -
  have e: "is_json (inline_object [(''sample_count'', to_string a), (''p50'', to_string b), (''p95'', to_string c), (''p99'', to_string d)])" for a b c d
    by (intro layout_json) simp_all
  have q: "is_json (quoted (if b then ''burst'' else ''staggered''))" "is_json (quoted ''ollama'')" for b
    by (simp_all add: is_json_quoted)
  have th: "is_json (fixed_text 3 (bc_theta (cr_spec r)))" using assms(2) by (intro is_json_fixed) (simp_all add: finite_result_def)
  note p = case_parts_json[OF assms] and pa = case_parts_json(2-4)[OF assms, THEN layout_json(3)]
  show ?thesis unfolding case_fields_def Let_def by (simp add: e q th p(1) pa del: fixed_text.simps)
qed

section \<open>What a case report says\<close>

definition describes_operation :: "json \<Rightarrow> OperationResult \<Rightarrow> bool" where
  "describes_operation j op \<longleftrightarrow> (\<exists>fs. j = JObject fs
     \<and> map_of fs ''agent_id'' = Some (JString (bo_agent_id (or_operation op)))
     \<and> map_of fs ''payload_text'' = Some (JString (bo_text (or_operation op)))
     \<and> map_of fs ''operation'' = Some (JString (operation_name (bo_operation (or_operation op))))
     \<and> map_of fs ''status_ok'' = Some (JBool (status_ok (or_status op)))
     \<and> map_of fs ''status_message'' = Some (JString (st_message (or_status op)))
     \<and> map_of fs ''response_message'' = Some (JString (rs_message (or_response op)))
     \<and> map_of fs ''granted'' = Some (JBool (rs_granted (or_response op)))
     \<and> map_of fs ''lock_acquired_unix_ms'' = Some (JNumber (to_string (rs_lock_acquired_unix_ms (or_response op))))
     \<and> map_of fs ''lock_released_unix_ms'' = Some (JNumber (to_string (rs_lock_released_unix_ms (or_response op))))
     \<and> map_of fs ''blocking_agent_id'' = Some (JString (rs_blocking_agent_id (or_response op))))"

definition describes_case :: "fpu \<Rightarrow> json \<Rightarrow> BenchmarkCaseResult \<Rightarrow> bool" where
  "describes_case F j r \<longleftrightarrow> (\<exists>fs vs ops. j = JObject fs
     \<and> map_of fs ''case_index'' = Some (JNumber (to_string (bc_case_index (cr_spec r))))
     \<and> map_of fs ''name'' = Some (JString (bc_name (cr_spec r)))
     \<and> map_of fs ''collection_name'' = Some (JString (bc_collection_name (cr_spec r)))
     \<and> map_of fs ''metrics'' = Some (JObject (read_fields (metrics_fields (cr_metrics r))))
     \<and> map_of fs ''violations'' = Some (JArray vs)
     \<and> length vs = length (compute_violation_records F (cr_spec r) (cr_operations r))
     \<and> map_of fs ''operations'' = Some (JArray ops) \<and> list_all2 describes_operation ops (cr_operations r))"

lemma operation_described: "describes_operation (JObject (read_fields (operation_fields op))) op"
  unfolding describes_operation_def
  by (rule exI[of _ "read_fields (operation_fields op)"])
    (simp add: read_fields_lookup operation_fields_def Let_def value_of_eq[OF denotes_quoted])

lemma case_described:
  assumes "float_rounding F" "finite_result r"
  shows "denotes (lines_object 4 (case_fields F labels r)) (JObject (read_fields (case_fields F labels r)))"
    "describes_case F (JObject (read_fields (case_fields F labels r))) r"
proof -
  show "denotes (lines_object 4 (case_fields F labels r)) (JObject (read_fields (case_fields F labels r)))"
    by (intro lines_object_denotes case_fields_ok assms) simp
  note p = case_parts_json[OF assms]
  have m: "value_of (lines_object 6 (metrics_fields (cr_metrics r))) = JObject (read_fields (metrics_fields (cr_metrics r)))"
    using assms(2) by (intro value_of_eq lines_object_denotes metrics_fields_ok) (simp_all add: finite_result_def)
  have ops: "list_all2 describes_operation (map value_of (map (lines_object 8 \<circ> operation_fields) (cr_operations r))) (cr_operations r)"
  proof (simp add: list_all2_map1 list_all2_same, intro ballI)
    fix op assume "op \<in> set (cr_operations r)"
    then have "value_of (lines_object 8 (operation_fields op)) = JObject (read_fields (operation_fields op))"
      using assms(2) by (intro value_of_eq lines_object_denotes operation_fields_ok) (simp_all add: finite_result_def list_all_iff)
    then show "describes_operation (value_of (lines_object 8 (operation_fields op))) op" by (simp add: operation_described)
  qed
  have a: "value_of (lines_array n (map (inline_object \<circ> violation_fields) (compute_violation_records F (cr_spec r) (cr_operations r))))
      = JArray (map value_of (map (inline_object \<circ> violation_fields) (compute_violation_records F (cr_spec r) (cr_operations r))))"
    "value_of (lines_array n (map (lines_object 8 \<circ> operation_fields) (cr_operations r)))
      = JArray (map value_of (map (lines_object 8 \<circ> operation_fields) (cr_operations r)))" for n
    by (rule value_of_eq[OF lines_array_denotes[OF p(3)]], rule value_of_eq[OF lines_array_denotes[OF p(4)]])
  let ?fs = "read_fields (case_fields F labels r)"
  have f: "map_of ?fs ''case_index'' = Some (JNumber (to_string (bc_case_index (cr_spec r))))"
    "map_of ?fs ''name'' = Some (JString (bc_name (cr_spec r)))"
    "map_of ?fs ''collection_name'' = Some (JString (bc_collection_name (cr_spec r)))"
    "map_of ?fs ''metrics'' = Some (JObject (read_fields (metrics_fields (cr_metrics r))))"
    by (simp_all add: read_fields_lookup case_fields_def Let_def m)
  have v: "map_of ?fs ''violations'' = Some (JArray (map value_of (map (inline_object \<circ> violation_fields)
      (compute_violation_records F (cr_spec r) (cr_operations r)))))"
    unfolding read_fields_lookup a(1)[of 6, symmetric] by (simp add: case_fields_def Let_def)
  have o: "map_of ?fs ''operations'' = Some (JArray (map value_of (map (lines_object 8 \<circ> operation_fields) (cr_operations r))))"
    unfolding read_fields_lookup a(2)[of 6, symmetric] by (simp add: case_fields_def Let_def)
  show "describes_case F (JObject ?fs) r"
    unfolding describes_case_def
    by (rule exI, rule exI, rule exI, intro conjI, rule refl, rule f(1), rule f(2), rule f(3), rule f(4), rule v, simp, rule o, rule ops)
qed

section \<open>The run log\<close>

fun append_cases :: "fpu \<Rightarrow> BenchmarkCaseResult list \<Rightarrow> BenchmarkRunLogger \<Rightarrow> BenchmarkRunLogger outcome" where
  "append_cases F [] logger = Inr logger"
| "append_cases F (r # rs) logger = rbind (append_case F r logger) (append_cases F rs)"

fun joined_cases :: "fpu \<Rightarrow> run_labels \<Rightarrow> BenchmarkCaseResult list \<Rightarrow> string" where
  "joined_cases F labels [] = []"
| "joined_cases F labels [r] = write_case_json F labels r"
| "joined_cases F labels (r # rs) = write_case_json F labels r @ '','' @ nl @ joined_cases F labels rs"

lemma append_cases_text:
  assumes "\<not> lg_finalized logger"
  shows "\<exists>logger'. append_cases F rs logger = Inr logger' \<and> \<not> lg_finalized logger' \<and> lg_labels logger' = lg_labels logger
    \<and> lg_out logger' = lg_out logger @ (if lg_first_case logger \<or> rs = [] then [] else '','' @ nl) @ joined_cases F (lg_labels logger) rs"
  using assms
proof (induction rs arbitrary: logger)
  case (Cons r rs)
  let ?l = "logger\<lparr>lg_out := lg_out logger @ (if lg_first_case logger then [] else '','' @ nl) @ write_case_json F (lg_labels logger) r,
    lg_first_case := False\<rparr>"
  have "append_cases F (r # rs) logger = append_cases F rs ?l" using Cons.prems by (simp add: append_case_def)
  with Cons.IH[of ?l] Cons.prems show ?case by (cases rs) auto
qed simp

lemma joined_cases_array:
  assumes "float_rounding F" "list_all finite_result rs"
  shows "denotes (''['' @ nl @ joined_cases F labels rs @ nl @ indent 2 @ '']'')
    (JArray (map (\<lambda>r. JObject (read_fields (case_fields F labels r))) rs))"
proof (cases "rs = []")
  case True
  then show ?thesis using denotes_empty_array[of "nl @ nl @ indent 2"] by simp
next
  case False
  have "denotes_elements (joined_cases F labels rs @ nl @ indent 2) (map (\<lambda>r. JObject (read_fields (case_fields F labels r))) rs)"
    using False assms(2)
  proof (induction rs)
    case (Cons r rs)
    have d: "denotes (indent 4 @ lines_object 4 (case_fields F labels r)) (JObject (read_fields (case_fields F labels r)))"
      using Cons.prems by (intro denotes_space case_described(1) assms(1)) simp_all
    show ?case
    proof (cases rs)
      case Nil
      with elements_one[OF d, of "nl @ indent 2"] show ?thesis by (simp add: write_case_json_def)
    next
      case (Cons y ys)
      with Cons.IH Cons.prems have "denotes_elements (nl @ joined_cases F labels rs @ nl @ indent 2)
          (map (\<lambda>r. JObject (read_fields (case_fields F labels r))) rs)" by (intro elements_space[OF space_layout(2)]) simp
      from elements_more[OF d space_layout(3) this] Cons show ?thesis by (simp add: write_case_json_def)
    qed
  qed simp
  from denotes_array[OF elements_space[OF space_layout(2) this]] show ?thesis by simp
qed

definition header_fields :: "run_labels \<Rightarrow> Config \<Rightarrow> TemplateDocument list \<Rightarrow> nat \<Rightarrow> int \<Rightarrow> fields" where
  "header_fields labels config templates planned_cases unix_seconds =
     [(''run_started_unix_s'', to_string unix_seconds), (''project_root'', jstr (cfg_project_root config))]
     @ (if rl_run_mode labels \<noteq> ''single''
        then [(''run_mode'', jstr (rl_run_mode labels)), (''embedding_profile'', jstr (rl_embedding_profile labels))] else [])
     @ [(''model_id'', jstr (rl_model_id labels)), (''planned_case_count'', nat_to_string planned_cases),
        (''template_count'', nat_to_string (length templates)),
        (''templates'', lines_array 2 (map (inline_object \<circ> template_fields) templates))]"

lemma field_lines_snoc:
  "field_lines n (fs @ [(k, v)]) =
     concat (map (\<lambda>(k, v). indent n @ quoted k @ '': '' @ v @ '','' @ nl) fs) @ indent n @ quoted k @ '': '' @ v @ nl"
proof (induction fs)
  case (Cons f fs)
  then show ?case by (cases f; cases fs) auto
qed simp

lemma run_log_text:
  "run_header labels config templates planned secs @ X @ nl @ indent 2 @ '']'' @ nl @ [CHR 0x7D] @ nl
   = lines_object 0 (header_fields labels config templates planned secs @ [(''cases'', ''['' @ nl @ X @ nl @ indent 2 @ '']'')]) @ nl"
  unfolding lines_object_def add_0 field_lines_snoc
  by (simp add: run_header_def header_fields_def write_template_catalog_json_def indent_def[of 0])

lemma header_fields_ok: "fields_ok (header_fields labels config templates planned secs)"
proof -
  have "is_json (lines_array 2 (map (inline_object \<circ> template_fields) templates))"
    by (intro layout_json objects_json) (simp add: template_fields_def)
  then show ?thesis by (simp add: header_fields_def)
qed

lemma run_log_document:
  assumes "float_rounding F" "list_all finite_result rs"
  shows "json_text (run_header labels config templates planned secs @ joined_cases F labels rs @ nl @ indent 2 @ '']'' @ nl @ [CHR 0x7D] @ nl)
    = Some (JObject (read_fields (header_fields labels config templates planned secs)
        @ [(''cases'', JArray (map (\<lambda>r. JObject (read_fields (case_fields F labels r))) rs))]))"
proof -
  let ?c = "''['' @ nl @ joined_cases F labels rs @ nl @ indent 2 @ '']''"
  note c = joined_cases_array[OF assms, of labels]
  have "denotes (lines_object 0 (header_fields labels config templates planned secs @ [(''cases'', ?c)]))
      (JObject (read_fields (header_fields labels config templates planned secs @ [(''cases'', ?c)])))"
    using header_fields_ok is_jsonI[OF c] by (intro lines_object_denotes) simp_all
  then have "json_text (lines_object 0 (header_fields labels config templates planned secs @ [(''cases'', ?c)]) @ nl)
      = Some (JObject (read_fields (header_fields labels config templates planned secs @ [(''cases'', ?c)])))"
    by (rule json_text_denotes) simp
  then show ?thesis unfolding run_log_text by (simp only: read_fields_append read_fields_single value_of_eq[OF c])
qed

end
