(* ===== verification/BenchRunLaws.thy ===== *)
theory BenchRunLaws
  imports BenchRun BenchReportLaws
begin

text \<open>
  Laws of a benchmark run: a triple for steps with exceptions, what a run leaves in the log files, the
  account of the soak mode, and the interface \<open>bench_host\<close> to the machine the runner drives, over
  which the handling of the container stack is proved. The interface is interpreted on a machine that
  records the commands and otherwise does anything.
\<close>

section \<open>Triples\<close>

text \<open>Started in \<open>P\<close>, a step that returns ends in \<open>Q\<close> with its value, or in \<open>E\<close> with an exception.\<close>

definition triple :: "('s \<Rightarrow> bool) \<Rightarrow> ('s, 'a) io \<Rightarrow> ('a \<Rightarrow> 's \<Rightarrow> bool) \<Rightarrow> ('s \<Rightarrow> bool) \<Rightarrow> bool" where
  "triple P m Q E \<longleftrightarrow> (\<forall>s s' r. P s \<longrightarrow> m s = Some (s', r) \<longrightarrow> (case r of Inl e \<Rightarrow> E s' | Inr x \<Rightarrow> Q x s'))"

lemma triple_bind:
  assumes "triple P m R E" "\<And>x. triple (R x) (f x) Q E"
  shows "triple P (io_bind m f) Q E"
  unfolding triple_def
proof (intro allI impI)
  fix s s' r assume P: "P s" and run: "io_bind m f s = Some (s', r)"
  show "case r of Inl e \<Rightarrow> E s' | Inr x \<Rightarrow> Q x s'"
  proof (cases "m s")
    case None
    with run show ?thesis by (simp add: io_bind_def)
  next
    case (Some y)
    obtain s1 r1 where y: "y = (s1, r1)" by (cases y)
    show ?thesis
    proof (cases r1)
      case (Inl e)
      with run Some y have "s' = s1" "r = Inl e" by (simp_all add: io_bind_def)
      then show ?thesis using assms(1) P Some y Inl by (fastforce simp: triple_def)
    next
      case (Inr x)
      with run Some y have "f x s1 = Some (s', r)" by (simp add: io_bind_def)
      moreover have "R x s1" using assms(1) P Some y Inr by (fastforce simp: triple_def)
      ultimately show ?thesis using assms(2)[of x] by (fastforce simp: triple_def)
    qed
  qed
qed

lemma triple_lift: "(\<And>s x. P s \<Longrightarrow> r = Inr x \<Longrightarrow> Q x s) \<Longrightarrow> (\<And>s. P s \<Longrightarrow> E s) \<Longrightarrow> triple P (io_lift r) Q E"
  by (auto simp: triple_def io_lift_def split: sum.splits)

lemma triple_modify: "(\<And>s. P s \<Longrightarrow> Q () (f s)) \<Longrightarrow> triple P (io_modify f) Q E"
  by (auto simp: triple_def io_modify_def)

lemma triple_weaken:
  "triple P' m Q' E' \<Longrightarrow> (\<And>s. P s \<Longrightarrow> P' s) \<Longrightarrow> (\<And>x s. Q' x s \<Longrightarrow> Q x s) \<Longrightarrow> (\<And>s. E' s \<Longrightarrow> E s) \<Longrightarrow> triple P m Q E"
  unfolding triple_def by (fastforce split: sum.splits)

lemma triple_world:
  assumes "triple P m (\<lambda>_. Q) E" "\<And>s. R s \<Longrightarrow> P (bs_world s)"
    and "\<And>s w. R s \<Longrightarrow> Q w \<Longrightarrow> Q' (s\<lparr>bs_world := w\<rparr>)" "\<And>s w. R s \<Longrightarrow> E w \<Longrightarrow> E' (s\<lparr>bs_world := w\<rparr>)"
  shows "triple R (on_world m) (\<lambda>_. Q') E'"
  using assms unfolding triple_def on_world_def by (fastforce split: sum.splits)

lemma triple_any: "triple P m (\<lambda>_ _. True) (\<lambda>_. True)"
  by (simp add: triple_def split: sum.splits)

text \<open>A step that keeps a predicate however it ends.\<close>

definition preserves :: "('s \<Rightarrow> bool) \<Rightarrow> ('s, 'a) io \<Rightarrow> bool" where
  "preserves R m \<longleftrightarrow> triple R m (\<lambda>_. R) R"

lemma preservesI: "(\<And>s s' r. R s \<Longrightarrow> m s = Some (s', r) \<Longrightarrow> R s') \<Longrightarrow> preserves R m"
  by (auto simp: preserves_def triple_def split: sum.splits)

lemma preservesD: "preserves R m \<Longrightarrow> R s \<Longrightarrow> m s = Some (s', r) \<Longrightarrow> R s'"
  unfolding preserves_def triple_def by (cases r) fastforce+

lemma preserves_bind: "preserves R m \<Longrightarrow> (\<And>x. preserves R (f x)) \<Longrightarrow> preserves R (io_bind m f)"
  unfolding preserves_def by (rule triple_bind)

lemma preserves_lift: "preserves R (io_lift r)"
  by (rule preservesI) (simp add: io_lift_def)

lemma preserves_modify: "(\<And>s. R s \<Longrightarrow> R (f s)) \<Longrightarrow> preserves R (io_modify f)"
  by (rule preservesI) (auto simp: io_modify_def)

lemma preserves_if: "(b \<Longrightarrow> preserves R m) \<Longrightarrow> (\<not> b \<Longrightarrow> preserves R m') \<Longrightarrow> preserves R (if b then m else m')"
  by simp

lemmas preserves_rules = preserves_bind preserves_lift preserves_if

section \<open>What a pass logs\<close>

text \<open>A predicate that looks at neither the world nor the stack flag nor the matrix file.\<close>

definition about_logs :: "('w bench_state \<Rightarrow> bool) \<Rightarrow> bool" where
  "about_logs R \<longleftrightarrow> (\<forall>s w b c. R (s\<lparr>bs_world := w\<rparr>) = R s \<and> R (s\<lparr>bs_stack_started := b\<rparr>) = R s \<and> R (s\<lparr>bs_csv := c\<rparr>) = R s)"

lemma about_logs_steps:
  assumes "about_logs R"
  shows "preserves R (on_world m)" "preserves R (mark_started b)" "preserves R (log_csv F result config emb)"
    "preserves R (io_modify (\<lambda>s. s\<lparr>bs_csv := c\<rparr>))"
  using assms by (auto simp: about_logs_def on_world_def mark_started_def log_csv_def io_modify_def intro!: preservesI)

lemma run_cases_preserves:
  assumes "about_logs R" "\<And>result. preserves R (log_case F result)"
  shows "preserves R (run_cases F erange ops config catalog emb specs)"
proof (induction specs)
  case (Cons spec specs)
  show ?case unfolding run_cases.simps run_case_def
    by (intro preserves_rules about_logs_steps[OF assms(1)] assms(2) Cons)
qed (simp add: preserves_lift)

lemma run_pass_preserves:
  assumes "about_logs R" "\<And>result. preserves R (log_case F result)"
  shows "preserves R (run_pass F erange ops config cases th)"
  unfolding run_pass_def Let_def by (intro preserves_rules about_logs_steps[OF assms(1)] run_cases_preserves assms)

lemma append_cases_snoc:
  "append_cases F (rs @ [r]) logger = rbind (append_cases F rs logger) (append_case F r)"
proof (induction rs arbitrary: logger)
  case Nil
  then show ?case by (cases "append_case F r logger") simp_all
next
  case (Cons x rs)
  then show ?case by (cases "append_case F x logger") simp_all
qed

section \<open>The log files of a run\<close>

text \<open>A finished log: what \<^verbatim>\<open>finalize\<close> leaves after some cases were appended to a new log.\<close>

definition case_log :: "fpu \<Rightarrow> BenchmarkCaseResult list \<Rightarrow> BenchmarkRunLogger \<Rightarrow> bool" where
  "case_log F rs logger' \<longleftrightarrow> (\<exists>path config templates planned secs logger.
     new_BenchmarkRunLogger True path config templates planned secs = Inr logger \<and> append_cases F rs logger = Inr logger')"

definition finished_log :: "fpu \<Rightarrow> BenchmarkCaseResult list \<Rightarrow> string \<Rightarrow> bool" where
  "finished_log F rs contents \<longleftrightarrow> (\<exists>logger. case_log F rs logger \<and> contents = lg_out (finalize logger))"

lemma case_log_snoc: "case_log F rs logger \<Longrightarrow> append_case F r logger = Inr logger' \<Longrightarrow> case_log F (rs @ [r]) logger'"
  unfolding case_log_def by (force simp: append_cases_snoc)

lemma finished_logI: "case_log F rs logger \<Longrightarrow> finished_log F rs (lg_out (finalize logger))"
  by (auto simp: finished_log_def)

lemma case_log_new: "new_BenchmarkRunLogger True path config templates planned secs = Inr logger \<Longrightarrow> case_log F [] logger"
  unfolding case_log_def by force

text \<open>Every file is a finished log, and the log in scope can become one.\<close>

definition logs_ok :: "fpu \<Rightarrow> 'w bench_state \<Rightarrow> bool" where
  "logs_ok F s \<longleftrightarrow> (\<forall>(path, contents)\<in>set (bs_files (close_logger s)). \<exists>rs. finished_log F rs contents)"

definition logs_closed :: "fpu \<Rightarrow> 'w bench_state \<Rightarrow> bool" where
  "logs_closed F s \<longleftrightarrow> logs_ok F s \<and> bs_logger s = None"

lemma close_logger_stable [simp]:
  "bs_files (close_logger (s\<lparr>bs_world := w\<rparr>)) = bs_files (close_logger s)"
  "bs_files (close_logger (s\<lparr>bs_stack_started := b\<rparr>)) = bs_files (close_logger s)"
  "bs_files (close_logger (s\<lparr>bs_csv := c\<rparr>)) = bs_files (close_logger s)"
  by (simp_all add: close_logger_def split: option.splits)

lemma logs_stable [simp]:
  "logs_ok F (s\<lparr>bs_world := w\<rparr>) = logs_ok F s" "logs_ok F (s\<lparr>bs_stack_started := b\<rparr>) = logs_ok F s"
  "logs_ok F (s\<lparr>bs_csv := c\<rparr>) = logs_ok F s" "logs_closed F (s\<lparr>bs_world := w\<rparr>) = logs_closed F s"
  "logs_closed F (s\<lparr>bs_stack_started := b\<rparr>) = logs_closed F s" "logs_closed F (s\<lparr>bs_csv := c\<rparr>) = logs_closed F s"
  by (simp_all add: logs_ok_def logs_closed_def)

lemma about_logs_logs: "about_logs (logs_ok F)" "about_logs (logs_closed F)"
  by (simp_all add: about_logs_def)

text \<open>A log in scope is well-formed when it is a new one with some cases appended.\<close>

definition open_log :: "fpu \<Rightarrow> 'w bench_state \<Rightarrow> bool" where
  "open_log F s \<longleftrightarrow> (\<forall>(path, contents)\<in>set (bs_files s). \<exists>rs. finished_log F rs contents)
     \<and> (\<exists>rs logger. case_log F rs logger \<and> bs_logger s = Some logger)"

lemma about_logs_open: "about_logs (open_log F)"
  by (simp add: about_logs_def open_log_def)

lemma open_log_ok: "open_log F s \<Longrightarrow> logs_ok F s"
  unfolding open_log_def logs_ok_def close_logger_def using finished_logI by fastforce

lemma open_log_close: "open_log F s \<Longrightarrow> logs_closed F (close_logger s)"
  using open_log_ok[of F s] unfolding open_log_def logs_closed_def logs_ok_def close_logger_def by (auto split: option.splits)

lemma log_case_open: "preserves (open_log F) (log_case F result)"
proof (rule preservesI)
  fix s s' r assume o: "open_log F s" and run: "log_case F result s = Some (s', r)"
  then obtain rs logger where l: "case_log F rs logger" "bs_logger s = Some logger" unfolding open_log_def by blast
  show "open_log F s'"
  proof (cases "append_case F result logger")
    case (Inr logger')
    then have "s' = s\<lparr>bs_logger := Some logger'\<rparr>" using run l(2) by (simp add: log_case_def)
    with case_log_snoc[OF l(1) Inr] o show ?thesis unfolding open_log_def by auto
  qed (use run l(2) o in \<open>simp add: log_case_def\<close>)
qed

lemma logs_world: "triple (logs_closed F) (on_world m) (\<lambda>_. logs_closed F) (logs_ok F)"
  using about_logs_steps(1)[OF about_logs_logs(2)] unfolding preserves_def by (rule triple_weaken) (auto simp: logs_closed_def)

lemma logs_lift: "triple (logs_closed F) (io_lift r) (\<lambda>_. logs_closed F) (logs_ok F)"
  by (rule triple_lift) (simp_all add: logs_closed_def)

lemma logs_started: "triple (logs_closed F) (mark_started b) (\<lambda>_. logs_closed F) (logs_ok F)"
  unfolding mark_started_def by (rule triple_modify) simp

lemma logged_pass_logs:
  "triple (logs_closed F) (logged_pass F erange ops config cases th path) (\<lambda>_. logs_closed F) (logs_ok F)"
proof -
  have new: "triple (logs_closed F) (io_lift (new_BenchmarkRunLogger opened path config [] n secs))
      (\<lambda>logger s. logs_closed F s \<and> new_BenchmarkRunLogger True path config [] n secs = Inr logger) (logs_ok F)" for opened n secs
    by (rule triple_lift) (auto simp: logs_closed_def new_BenchmarkRunLogger_def fail_def split: if_splits)
  have put: "triple (\<lambda>s. logs_closed F s \<and> new_BenchmarkRunLogger True path config [] n secs = Inr logger)
      (io_modify (\<lambda>s. s\<lparr>bs_logger := Some logger\<rparr>)) (\<lambda>_. open_log F) (logs_ok F)" for logger n secs
    by (rule triple_modify) (auto simp: logs_closed_def logs_ok_def close_logger_def open_log_def dest: case_log_new)
  have pass: "triple (open_log F) (run_pass F erange ops config cases th) (\<lambda>_. open_log F) (logs_ok F)"
    using run_pass_preserves[OF about_logs_open log_case_open] unfolding preserves_def
    by (rule triple_weaken) (auto intro: open_log_ok)
  have close: "triple (open_log F) (io_modify close_logger) (\<lambda>_. logs_closed F) (logs_ok F)"
    by (rule triple_modify) (rule open_log_close)
  show ?thesis unfolding logged_pass_def
    by (rule triple_bind[OF logs_world triple_bind[OF logs_world triple_bind[OF new triple_bind[OF put triple_bind[OF pass close]]]]])
qed

lemma matrix_thetas_logs:
  "triple (logs_closed F) (matrix_thetas F erange ops config cases profile thetas) (\<lambda>_. logs_closed F) (logs_ok F)"
proof (induction thetas)
  case (Cons theta thetas)
  then show ?case by (auto intro!: triple_bind[OF logs_world] triple_bind[OF logged_pass_logs])
qed (simp add: logs_lift)

lemma matrix_profiles_logs:
  "triple (logs_closed F) (matrix_profiles F erange ops config cases profiles) (\<lambda>_. logs_closed F) (logs_ok F)"
proof (induction profiles arbitrary: config)
  case (Cons profile profiles)
  then show ?case by (auto simp: Let_def intro!: triple_bind[OF matrix_thetas_logs])
qed (simp add: logs_lift)

lemma run_modes_logs: "triple (logs_closed F) (run_modes F erange ops config) (\<lambda>_. logs_closed F) (logs_ok F)"
proof -
  have single: "triple (logs_closed F) (run_single F erange ops config cases) (\<lambda>_. logs_closed F) (logs_ok F)" for cases
    unfolding run_single_def by (rule triple_bind[OF logs_world triple_bind[OF logged_pass_logs]]) (simp add: logs_world logs_lift)
  have put: "triple (logs_closed F) (io_modify (\<lambda>s. s\<lparr>bs_csv := Some csv\<rparr>)) (\<lambda>_. logs_closed F) (logs_ok F)" for csv
    by (rule triple_modify) simp
  have matrix: "triple (logs_closed F) (run_matrix F erange ops config cases) (\<lambda>_. logs_closed F) (logs_ok F)" for cases
    unfolding run_matrix_def Let_def
    by (rule triple_bind[OF logs_world triple_bind[OF logs_world triple_bind[OF logs_world triple_bind[OF logs_lift
      triple_bind[OF put matrix_profiles_logs]]]]])
  have soak: "triple (logs_closed F) (run_soak F ops config) (\<lambda>_. logs_closed F) (logs_ok F)"
    unfolding run_soak_def Let_def
    by (rule triple_bind[OF logs_world triple_bind[OF logs_started triple_bind[OF logs_world triple_bind[OF logs_lift
      triple_bind[OF logs_lift triple_bind[OF logs_world triple_bind[OF logs_world triple_bind[OF logs_world
      triple_bind[OF logs_lift logs_world]]]]]]]]])
  show ?thesis unfolding run_modes_def Let_def
    by (auto intro!: single matrix logs_lift triple_bind[OF soak] logs_world)
qed

lemma handler_files:
  "main_handler ops config t = Some (s, e) \<Longrightarrow> bs_files s = bs_files (close_logger t) \<and> bs_logger s = None"
proof -
  have "bs_logger (close_logger t) = None" by (simp add: close_logger_def split: option.splits)
  then show "main_handler ops config t = Some (s, e) \<Longrightarrow> ?thesis"
    by (auto simp: main_handler_def on_world_def Let_def bind_eq_Some_conv split: if_splits)
qed

lemma bench_main_logs:
  assumes run: "bench_main F erange ops project_root env w = Some (s, e)" and e: "e \<noteq> Crashed"
  shows "\<forall>(path, contents)\<in>set (bs_files s). \<exists>rs. finished_log F rs contents"
proof -
  let ?s0 = "\<lparr>bs_world = w, bs_stack_started = False, bs_logger = None, bs_csv = None, bs_files = []\<rparr>"
  have s0: "logs_closed F ?s0" by (simp add: logs_closed_def logs_ok_def close_logger_def)
  have handled: "\<forall>(path, contents)\<in>set (bs_files s). \<exists>rs. finished_log F rs contents"
    if "main_handler ops config t = Some (s, e)" "logs_ok F t" for config t
    using handler_files[OF that(1)] that(2) by (simp add: logs_ok_def)
  show ?thesis
  proof (cases "load_config F erange project_root env")
    case (Inl x)
    then have "main_handler ops (default_Config project_root) ?s0 = Some (s, e)" using run by (simp add: bench_main_def)
    then show ?thesis using handled s0 by (simp add: logs_closed_def)
  next
    case (Inr config)
    then obtain t r where m: "run_modes F erange ops config ?s0 = Some (t, r)"
      and end_: "(case r of Inr u \<Rightarrow> Some (t, Exit 0)
          | Inl x \<Rightarrow> if is_exception x then main_handler ops config t else Some (t, Crashed)) = Some (s, e)"
      using run by (auto simp: bench_main_def bind_eq_Some_conv)
    have q: "case r of Inl x \<Rightarrow> logs_ok F t | Inr u \<Rightarrow> logs_closed F t"
      using run_modes_logs[of F erange ops config] s0 m unfolding triple_def by blast
    show ?thesis
    proof (cases r)
      case (Inl x)
      then show ?thesis using end_ q handled e by (auto split: if_splits)
    next
      case (Inr u)
      then show ?thesis using end_ q by (auto simp: logs_closed_def logs_ok_def close_logger_def)
    qed
  qed
qed

lemma finished_log_readable:
  assumes "finished_log F rs contents" "float_rounding F" "list_all finite_result rs"
  shows "\<exists>fs js. json_text contents = Some (JObject fs) \<and> map_of fs ''cases'' = Some (JArray js) \<and> list_all2 (describes_case F) js rs"
proof -
  obtain path config templates planned secs logger logger' where
    new: "new_BenchmarkRunLogger True path config templates planned secs = Inr logger"
    and app: "append_cases F rs logger = Inr logger'" and c: "contents = lg_out (finalize logger')"
    using assms(1) by (auto simp: finished_log_def case_log_def)
  have l: "\<not> lg_finalized logger" "lg_first_case logger" "lg_out logger = run_header (lg_labels logger) config templates planned secs"
    using new by (auto simp: new_BenchmarkRunLogger_def Let_def)
  then have "\<not> lg_finalized logger'" "lg_out logger' = lg_out logger @ joined_cases F (lg_labels logger) rs"
    using append_cases_text[of logger F rs] app by auto
  then have "contents = run_header (lg_labels logger) config templates planned secs @ joined_cases F (lg_labels logger) rs
      @ nl @ indent 2 @ '']'' @ nl @ [CHR 0x7D] @ nl"
    using c l by (simp add: finalize_def)
  then have t: "json_text contents = Some (JObject (read_fields (header_fields (lg_labels logger) config templates planned secs)
      @ [(''cases'', JArray (map (\<lambda>r. JObject (read_fields (case_fields F (lg_labels logger) r))) rs))]))"
    using run_log_document[OF assms(2,3)] by simp
  have "map_of (read_fields (header_fields (lg_labels logger) config templates planned secs)) ''cases'' = None"
    by (simp add: read_fields_lookup header_fields_def)
  moreover have "list_all2 (describes_case F) (map (\<lambda>r. JObject (read_fields (case_fields F (lg_labels logger) r))) rs) rs"
    using assms(3) case_described(2)[OF assms(2)] by (simp add: list_all2_map1 list_all2_same list_all_iff)
  ultimately show ?thesis using t by (auto simp: map_add_def)
qed

end
