(* ===== verification/SoakLaws.thy ===== *)
theory SoakLaws
  imports BenchRunLaws
begin

text \<open>
  Laws of the soak mode: every operation counted is in exactly one row of the CSV file, the totals of the
  rows run up to the total of the run, and the percentiles of a row are in order.
\<close>

section \<open>Rows\<close>

text \<open>The totals of consecutive rows, from a starting total.\<close>

fun running_totals :: "int \<Rightarrow> SoakSnapshot list \<Rightarrow> bool" where
  "running_totals t [] = True"
| "running_totals t (snap # snaps) = (ss_total_ops snap = t + ss_window_ops snap \<and> running_totals (ss_total_ops snap) snaps)"

definition counted_ops :: "SoakSnapshot list \<Rightarrow> int" where
  "counted_ops snaps = sum_list (map ss_window_ops snaps)"

lemma counted_ops_simps [simp]:
  "counted_ops [] = 0" "counted_ops (snaps @ [snap]) = counted_ops snaps + ss_window_ops snap"
  by (simp_all add: counted_ops_def)

lemma running_totals_snoc:
  "running_totals t (snaps @ [snap]) \<longleftrightarrow> running_totals t snaps \<and> ss_total_ops snap = t + counted_ops snaps + ss_window_ops snap"
proof (induction snaps arbitrary: t)
  case (Cons s snaps)
  have "counted_ops (s # snaps) = ss_window_ops s + counted_ops snaps" by (simp add: counted_ops_def)
  then show ?case using Cons[of "ss_total_ops s"] by (cases "ss_total_ops s = t + ss_window_ops s") (simp_all add: add.assoc)
qed simp

definition rows_text :: "SoakSnapshot list \<Rightarrow> string" where
  "rows_text snaps = concat (map (csv_line \<circ> soak_row) snaps)"

text \<open>The figures of one row.\<close>

definition ordered_row :: "SoakSnapshot \<Rightarrow> bool" where
  "ordered_row snap \<longleftrightarrow> ss_lock_wait_p50_ms snap \<le> ss_lock_wait_p95_ms snap \<and> ss_lock_wait_p95_ms snap \<le> ss_lock_wait_p99_ms snap
     \<and> ss_op_latency_p50_ms snap \<le> ss_op_latency_p95_ms snap \<and> ss_op_latency_p95_ms snap \<le> ss_op_latency_p99_ms snap"

lemma snapshot_ordered:
  assumes F: "double_rounding F" and "length (so_latencies st) \<le> 2 ^ 52" "length (so_waits st) \<le> 2 ^ 52"
    and snap: "make_soak_snapshot F elapsed q ms st = Inr snap"
  shows "ordered_row snap"
proof -
  obtain a b where ab: "rnd_double F (95 / 100) = Fin a" "rnd_double F (99 / 100) = Fin b" "1 / 2 \<le> a" "a \<le> b" "b \<le> 1"
    by (rule percentile_constants[OF F])
  obtain w50 w95 w99 l50 l95 l99
    where w: "percentile_ms F (so_waits st) (Fin (1 / 2)) = Inr w50" "percentile_ms F (so_waits st) (Fin a) = Inr w95"
        "percentile_ms F (so_waits st) (Fin b) = Inr w99"
      and l: "percentile_ms F (so_latencies st) (Fin (1 / 2)) = Inr l50" "percentile_ms F (so_latencies st) (Fin a) = Inr l95"
        "percentile_ms F (so_latencies st) (Fin b) = Inr l99"
      and s: "ss_lock_wait_p50_ms snap = w50" "ss_lock_wait_p95_ms snap = w95" "ss_lock_wait_p99_ms snap = w99"
        "ss_op_latency_p50_ms snap = l50" "ss_op_latency_p95_ms snap = l95" "ss_op_latency_p99_ms snap = l99"
    using snap unfolding make_soak_snapshot_def Let_def ab(1,2) by (auto dest!: rbind_InrD)
  have "v \<le> v'" if "xs \<in> {so_waits st, so_latencies st}" "percentile_ms F xs (Fin (1 / 2)) = Inr v" "percentile_ms F xs (Fin a) = Inr v'"
    for xs v v' by (rule percentile_ordered[OF F _ _ _ _ that(2,3)]) (use that(1) assms(2,3) ab(3-5) in auto)
  moreover have "v \<le> v'" if "xs \<in> {so_waits st, so_latencies st}" "percentile_ms F xs (Fin a) = Inr v" "percentile_ms F xs (Fin b) = Inr v'"
    for xs v v' by (rule percentile_ordered[OF F _ _ _ _ that(2,3)]) (use that(1) assms(2,3) ab(3-5) in auto)
  ultimately show ?thesis unfolding ordered_row_def s using w l by blast
qed

lemma snapshot_counts:
  "make_soak_snapshot F elapsed q ms st = Inr snap \<Longrightarrow>
     ss_window_ops snap = int (length (so_latencies st)) \<and> ss_total_ops snap = so_total_ops st"
  unfolding make_soak_snapshot_def Let_def by (auto dest!: rbind_InrD)

section \<open>The account of a run\<close>

definition soak_account :: "fpu \<Rightarrow> string \<Rightarrow> SoakSnapshot list \<Rightarrow> soak_state \<Rightarrow> bool" where
  "soak_account F csv snaps st \<longleftrightarrow>
     so_csv st = csv @ rows_text snaps \<and> running_totals 0 snaps
     \<and> so_total_ops st = counted_ops snaps + int (length (so_latencies st))
     \<and> length (so_waits st) = length (so_latencies st) \<and> so_total_ops st \<le> 5 * so_round st
     \<and> (\<forall>snap\<in>set snaps. double_rounding F \<and> ss_window_ops snap \<le> 2 ^ 52 \<longrightarrow> ordered_row snap)"

lemma soak_account_schedule [simp]: "soak_account F csv snaps (st\<lparr>so_next_snapshot_at := t\<rparr>) = soak_account F csv snaps st"
  by (simp add: soak_account_def)

lemma io_bind_Some: "io_bind m f w = Some (w', Inr y) \<longleftrightarrow> (\<exists>w1 x. m w = Some (w1, Inr x) \<and> f x w1 = Some (w', Inr y))"
  by (auto simp: io_bind_def split: option.splits sum.splits prod.splits)

lemma flush_account:
  assumes "soak_account F csv snaps st" and "flush_snapshot F ops config coll start st w = Some (w', Inr st')"
  shows "\<exists>snap. soak_account F csv (snaps @ [snap]) st'" "so_latencies st' = []" "so_total_ops st' = so_total_ops st"
proof -
  obtain e q ms snap t where snap: "make_soak_snapshot F e q ms st = Inr snap"
    and st': "st' = st\<lparr>so_csv := soak_append snap (so_csv st), so_waits := [], so_latencies := [], so_qdrant := [],
      so_blocked := 0, so_window_start := t\<rparr>"
    using assms(2) unfolding flush_snapshot_def by (auto simp: io_bind_Some io_lift_def)
  note c = snapshot_counts[OF snap]
  have "ordered_row snap" if "double_rounding F" "ss_window_ops snap \<le> 2 ^ 52"
    by (rule snapshot_ordered[OF that(1) _ _ snap]) (use that(2) c assms(1) in \<open>simp_all add: soak_account_def\<close>)
  then show "\<exists>snap. soak_account F csv (snaps @ [snap]) st'"
    using assms(1) c st' by (intro exI[of _ snap]) (auto simp: soak_account_def running_totals_snoc soak_append_def rows_text_def)
  show "so_latencies st' = []" "so_total_ops st' = so_total_ops st" using st' by simp_all
qed

lemma fire_length: "fire_soak_round ops catalog n w = Some (w', Inr rs) \<Longrightarrow> length rs = 5"
  unfolding fire_soak_round_def soak_workload_def
  by (auto simp: io_bind_Some io_lift_def run_clients_def Let_def bind_eq_Some_conv split: option.splits prod.splits)

lemma tally_rounds:
  "so_round (foldl count_soak st rs) = so_round st \<and> so_csv (foldl count_soak st rs) = so_csv st
   \<and> (\<exists>k\<le>length rs. so_total_ops (foldl count_soak st rs) = so_total_ops st + int k
        \<and> length (so_latencies (foldl count_soak st rs)) = length (so_latencies st) + k
        \<and> length (so_waits (foldl count_soak st rs)) = length (so_waits st) + k)"
proof (induction rs rule: rev_induct)
  case (snoc r rs)
  then obtain k where k: "k \<le> length rs" "so_total_ops (foldl count_soak st rs) = so_total_ops st + int k"
    "length (so_latencies (foldl count_soak st rs)) = length (so_latencies st) + k"
    "length (so_waits (foldl count_soak st rs)) = length (so_waits st) + k" by blast
  have "\<exists>k'\<in>{k, Suc k}. so_total_ops (foldl count_soak st (rs @ [r])) = so_total_ops st + int k'
        \<and> length (so_latencies (foldl count_soak st (rs @ [r]))) = length (so_latencies st) + k'
        \<and> length (so_waits (foldl count_soak st (rs @ [r]))) = length (so_waits st) + k'"
    using k by (simp add: count_soak_def)
  then show ?case using snoc k(1) by (fastforce simp: count_soak_def)
qed simp

lemma round_account:
  assumes a: "soak_account F csv snaps st" and r: "soak_round F ops config coll catalog start st w = Some (w', Inr st')"
  shows "\<exists>snaps'. soak_account F csv snaps' st'"
proof -
  let ?st1 = "st\<lparr>so_round := so_round st + 1\<rparr>"
  obtain w1 rs where fire: "fire_soak_round ops catalog (so_round ?st1) w = Some (w1, Inr rs)"
    and rest: "st' = foldl count_soak ?st1 rs \<or> (\<exists>w2 w3 st3 t. flush_snapshot F ops config coll start (foldl count_soak ?st1 rs) w2
        = Some (w3, Inr st3) \<and> st' = st3\<lparr>so_next_snapshot_at := t\<rparr>)"
    using r unfolding soak_round_def Let_def by (auto simp: io_bind_Some io_lift_def split: if_splits)
  have c: "soak_account F csv snaps (foldl count_soak ?st1 rs)"
    using a tally_rounds[of ?st1 rs] fire_length[OF fire] by (auto simp: soak_account_def)
  from rest show ?thesis
  proof
    assume "\<exists>w2 w3 st3 t. flush_snapshot F ops config coll start (foldl count_soak ?st1 rs) w2 = Some (w3, Inr st3)
      \<and> st' = st3\<lparr>so_next_snapshot_at := t\<rparr>"
    then obtain w2 w3 st3 t where f: "flush_snapshot F ops config coll start (foldl count_soak ?st1 rs) w2 = Some (w3, Inr st3)"
      and st': "st' = st3\<lparr>so_next_snapshot_at := t\<rparr>" by blast
    from flush_account(1)[OF c f] st' show ?thesis by auto
  qed (use c in blast)
qed

lemma loop_account:
  assumes "soak_loop F ops config coll catalog start deadline st w = Some out"
  shows "soak_account G csv snaps st \<Longrightarrow> F = G \<Longrightarrow> (\<forall>st'. snd out = Inr st' \<longrightarrow> (\<exists>snaps'. soak_account F csv snaps' st'))"
proof (induction arbitrary: snaps rule: soak_loop.raw_induct[OF _ assms, consumes 0, case_names step])
  case (step loop F ops config coll catalog start deadline st w out)
  obtain w1 now where n: "bw_now (ro_bench ops) w = (w1, now)" by (cases "bw_now (ro_bench ops) w")
  show ?case
  proof (cases "now < deadline")
    case False
    then show ?thesis using step.hyps step.prems n by auto
  next
    case True
    then obtain w2 r where r: "soak_round F ops config coll catalog start st w1 = Some (w2, r)"
      and rest: "(case r of Inl e \<Rightarrow> Some (w2, Inl e) | Inr st' \<Rightarrow> loop F ops config coll catalog start deadline st' w2) = Some out"
      using step.hyps n by (auto simp: bind_eq_Some_conv)
    show ?thesis
    proof (cases r)
      case (Inr st')
      with rest have "loop F ops config coll catalog start deadline st' w2 = Some out" by simp
      moreover have next_st: "soak_round G ops config coll catalog start st w1 = Some (w2, Inr st')" using r Inr step.prems(2) by simp
      then obtain snaps' where "soak_account G csv snaps' st'" using round_account[OF step.prems(1) next_st] by blast
      ultimately show ?thesis using step.IH step.prems(2) by blast
    qed (use rest in auto)
  qed
qed

lemma soak_rounds_account:
  assumes "soak_rounds F ops config coll catalog csv w = Some (w', Inr st)"
  shows "\<exists>snaps. soak_account F csv snaps st \<and> so_latencies st = []"
proof -
  obtain start w1 w2 st1 where loop: "soak_loop F ops config coll catalog start (start + cfg_soak_duration_min config * 60000)
       \<lparr>so_waits = [], so_latencies = [], so_qdrant = [], so_blocked = 0, so_total_ops = 0, so_round = 0,
        so_next_snapshot_at = start + cfg_soak_snapshot_sec config * 1000, so_window_start = start, so_csv = csv\<rparr> w1 = Some (w2, Inr st1)"
    and rest: "(if so_latencies st1 \<noteq> [] then flush_snapshot F ops config coll start st1 else io_lift (Inr st1)) w2 = Some (w', Inr st)"
    using assms unfolding soak_rounds_def by (auto simp: io_bind_Some)
  have "soak_account F csv [] \<lparr>so_waits = [], so_latencies = [], so_qdrant = [], so_blocked = 0, so_total_ops = 0, so_round = 0,
      so_next_snapshot_at = start + cfg_soak_snapshot_sec config * 1000, so_window_start = start, so_csv = csv\<rparr>"
    by (simp add: soak_account_def rows_text_def)
  from loop_account[OF loop this] obtain snaps where s: "soak_account F csv snaps st1" by auto
  show ?thesis
  proof (cases "so_latencies st1 = []")
    case True
    then show ?thesis using rest s by (auto simp: io_lift_def)
  next
    case False
    with rest have "flush_snapshot F ops config coll start st1 w2 = Some (w', Inr st)" by simp
    from flush_account[OF s this] show ?thesis by blast
  qed
qed

end
