(* ===== verification/BenchHost.thy ===== *)
theory BenchHost
  imports BenchRunLaws
begin

text \<open>
  The machine the benchmark runner drives, as two interfaces. \<open>bench_host\<close> knows the commands given to the
  shell; over it, the life of the container stack is proved. \<open>bench_clock\<close> is a machine whose calls return
  and whose clock goes on; over it, the runner is proved to end. The first is interpreted on any machine
  whose commands are recorded, the second on any machine whose calls get a deadline.
\<close>

section \<open>The shell\<close>

locale bench_host =
  fixes ops :: "'w run_ops" and issued :: "'w \<Rightarrow> string list"
  assumes popen: "ro_popen ops command w = Some (w', pipe) \<Longrightarrow> issued w' = issued w @ [command]"
    and http: "bw_http (ro_bench ops) host port verb target body w = Some (w', response) \<Longrightarrow> issued w' = issued w"
    and ping: "bw_ping (ro_bench ops) target from_node w = Some (w', status) \<Longrightarrow> issued w' = issued w"
    and get_leader: "bw_get_leader (ro_bench ops) target w = Some (w', status, leader) \<Longrightarrow> issued w' = issued w"
    and clients: "ro_clients ops calls w = Some (w', results) \<Longrightarrow> issued w' = issued w"
    and clock: "issued (fst (bw_now (ro_bench ops) w)) = issued w" "issued (bw_sleep (ro_bench ops) ms w) = issued w"
      "issued (fst (ro_unix_ms ops w)) = issued w"
    and files: "issued (fst (bw_exists (ro_bench ops) path w)) = issued w" "issued (fst (bw_read (ro_bench ops) path w)) = issued w"
      "issued (fst (ro_open ops path w)) = issued w" "issued (fst (ro_csv_contents ops path w)) = issued w"
    and setenv: "issued (ro_setenv ops key v w) = issued w"

text \<open>A step that gives the shell nothing to do.\<close>

definition quiet :: "('w \<Rightarrow> 'c) \<Rightarrow> ('w \<Rightarrow> ('w \<times> 'a) option) \<Rightarrow> bool" where
  "quiet f m \<longleftrightarrow> (\<forall>w w' r. m w = Some (w', r) \<longrightarrow> f w' = f w)"

lemma quietD: "quiet f m \<Longrightarrow> m w = Some (w', r) \<Longrightarrow> f w' = f w"
  unfolding quiet_def by blast

lemma keeps_bind:
  assumes "m \<bind> g = Some (w', r)" "\<And>w1 x. m = Some (w1, x) \<Longrightarrow> f w1 = f w" "\<And>w1 x. g (w1, x) = Some (w', r) \<Longrightarrow> f w' = f w1"
  shows "f w' = f w"
proof -
  obtain w1 x where "m = Some (w1, x)" "g (w1, x) = Some (w', r)" using assms(1) by (auto simp: bind_eq_Some_conv)
  with assms(2,3) show ?thesis by metis
qed

lemma quiet_bind: "quiet f m \<Longrightarrow> (\<And>x. quiet f (g x)) \<Longrightarrow> quiet f (io_bind m g)"
  unfolding quiet_def io_bind_def by (fastforce split: option.splits sum.splits prod.splits)

lemma quiet_lift: "quiet f (io_lift r)"
  by (simp add: quiet_def io_lift_def)

lemma quiet_modify: "(\<And>w. f (g w) = f w) \<Longrightarrow> quiet f (io_modify g)"
  by (auto simp: quiet_def io_modify_def)

lemmas quiet_rules = quiet_bind quiet_lift quiet_modify

text \<open>Whether the last command for the stack brought it up.\<close>

fun stack_up :: "Config \<Rightarrow> bool \<Rightarrow> string list \<Rightarrow> bool" where
  "stack_up config up [] = up"
| "stack_up config up (command # commands) =
     stack_up config
       (if command = compose_command config up_args @ '' 2>&1'' then True
        else if command = compose_command config ''down'' @ '' 2>&1'' then False else up) commands"

lemma stack_up_append [simp]: "stack_up config up (commands @ commands') = stack_up config (stack_up config up commands) commands'"
  by (induction commands arbitrary: up) simp_all

lemma stack_up_root: "cfg_project_root config = cfg_project_root config' \<Longrightarrow> stack_up config up commands = stack_up config' up commands"
  by (induction commands arbitrary: up) (simp_all add: compose_command_def)

lemma down_not_up: "compose_command config ''down'' \<noteq> compose_command config up_args"
  by (simp add: compose_command_def up_args_def)

definition idle :: "('w \<Rightarrow> string list) \<Rightarrow> Config \<Rightarrow> 'w bench_state \<Rightarrow> bool" where
  "idle issued config s \<longleftrightarrow> \<not> stack_up config False (issued (bs_world s))"

lemma idle_stable [simp]:
  "idle issued config (s\<lparr>bs_stack_started := b\<rparr>) = idle issued config s" "idle issued config (s\<lparr>bs_logger := l\<rparr>) = idle issued config s"
  "idle issued config (s\<lparr>bs_csv := c\<rparr>) = idle issued config s"
  by (simp_all add: idle_def)

lemma idle_close [simp]: "idle issued config (close_logger s) = idle issued config s"
  by (simp add: close_logger_def idle_def split: option.splits)

context bench_host
begin

lemma try_targets_quiet: "try_targets (ro_bench ops) host port targets w = Some (w', up) \<Longrightarrow> issued w' = issued w"
proof (induction targets arbitrary: w)
  case (Cons target targets)
  show ?case by (rule keeps_bind[OF Cons.prems[unfolded try_targets.simps]]) (auto dest: http Cons.IH split: sum.splits if_splits)
qed simp

lemma wait_http_quiet: "quiet issued (wait_http_loop (ro_bench ops) name host port targets n ms)"
proof (induction n)
  case (Suc n)
  then show ?case unfolding quiet_def
    by (fastforce simp: bind_eq_Some_conv clock dest: try_targets_quiet split: if_splits)
qed (simp add: quiet_def)

lemma wait_ping_quiet: "quiet issued (wait_ping_loop (ro_bench ops) config n ms)"
proof (induction n)
  case (Suc n)
  then show ?case unfolding quiet_def by (fastforce simp: bind_eq_Some_conv clock dest: ping split: if_splits)
qed (simp add: quiet_def)

lemma discover_quiet: "quiet issued (discover_leader (ro_bench ops) targets config)"
proof (induction targets)
  case (Cons target targets)
  then show ?case unfolding quiet_def by (fastforce simp: bind_eq_Some_conv dest: get_leader split: if_splits)
qed (simp add: quiet_def)

lemma wait_leader_step:
  assumes "wait_leader_loop bops targets config deadline w = Some out"
  shows "bops = ro_bench ops \<Longrightarrow> issued (fst out) = issued w"
proof (induction rule: wait_leader_loop.raw_induct[OF _ assms, consumes 0, case_names step])
  case (step loop bops targets config deadline w out)
  obtain w1 now where n: "bw_now bops w = (w1, now)" by (cases "bw_now bops w")
  have w1: "issued w1 = issued w" using clock(1)[of w] n step.prems by simp
  show ?case
  proof (cases "now < deadline")
    case False
    then show ?thesis using step.hyps n w1 by auto
  next
    case True
    then obtain w2 r where d: "discover_leader bops targets config w1 = Some (w2, r)"
      and rest: "(case r of Inl e \<Rightarrow> Some (w2, Inl e) | Inr (Some l) \<Rightarrow> Some (w2, Inr l)
        | Inr None \<Rightarrow> loop bops targets config deadline (bw_sleep bops 100 w2)) = Some out"
      using step.hyps n by (auto simp: bind_eq_Some_conv)
    have "issued w2 = issued w" using quietD[OF discover_quiet d[unfolded step.prems]] w1 by simp
    then show ?thesis using rest step.IH[of bops targets config deadline "bw_sleep bops 100 w2" out] step.prems clock(2)[of 100 w2]
      by (auto split: sum.splits option.splits)
  qed
qed

lemma wait_leader_quiet: "quiet issued (wait_for_leader (ro_bench ops) targets config timeout)"
  unfolding quiet_def wait_for_leader_def
proof (intro allI impI)
  fix w w' r assume run: "(let (w1, now) = bw_now (ro_bench ops) w
    in wait_leader_loop (ro_bench ops) targets config (now + timeout) w1) = Some (w', r)"
  obtain w1 now where n: "bw_now (ro_bench ops) w = (w1, now)" by (cases "bw_now (ro_bench ops) w")
  from run n have "wait_leader_loop (ro_bench ops) targets config (now + timeout) w1 = Some (w', r)" by simp
  from wait_leader_step[OF this] n clock(1)[of w] show "issued w' = issued w" by simp
qed

lemma http_quiet:
  "quiet issued (ensure_ollama_model_available (ro_bench ops) config)"
  "quiet issued (reset_qdrant_collection (ro_bench ops) config collection)"
  "quiet issued (create_qdrant_collection (ro_bench ops) config collection n)"
  "quiet issued (qdrant_point_count (ro_bench ops) config collection)"
  "quiet issued (request_embedding F (ro_bench ops) config text)"
  unfolding quiet_def ensure_ollama_model_available_def reset_qdrant_collection_def create_qdrant_collection_def
    qdrant_point_count_def request_embedding_def
  by (auto simp: bind_eq_Some_conv dest: http)

lemma load_entries_quiet: "load_entries F (ro_bench ops) config file entries st w = Some (w', r) \<Longrightarrow> issued w' = issued w"
proof (induction entries arbitrary: st w)
  case (Cons entry entries)
  obtain w1 t where n1: "bw_now (ro_bench ops) w = (w1, t)" by (cases "bw_now (ro_bench ops) w")
  have w1: "issued w1 = issued w" using clock(1)[of w] n1 by simp
  show ?case
  proof (cases "parse_json_string_field entry ''payload''")
    case (Inr payload)
    show ?thesis
    proof (cases "payload \<in> tl_unique_texts st")
      case False
      obtain w2 e where r: "request_embedding F (ro_bench ops) config payload w1 = Some (w2, e)"
        using Cons.prems Inr False n1 by (auto simp: Let_def bind_eq_Some_conv)
      obtain w3 t3 where n3: "bw_now (ro_bench ops) w2 = (w3, t3)" by (cases "bw_now (ro_bench ops) w2")
      have w23: "issued w2 = issued w" "issued w3 = issued w" using clock(1)[of w2] n3 quietD[OF http_quiet(5) r] w1 by simp_all
      then show ?thesis using Cons Inr False n1 r n3 by (auto simp: Let_def split: sum.splits)
    qed (use Cons Inr in simp)
  qed (use Cons.prems in simp)
qed simp

lemma load_labels_quiet: "load_labels F (ro_bench ops) config labels st w = Some (w', r) \<Longrightarrow> issued w' = issued w"
proof (induction labels arbitrary: st w)
  case (Cons label labels)
  let ?path = "path_append (cfg_input_dir config) (label # ''.json'')"
  obtain w1 present where e: "bw_exists (ro_bench ops) ?path w = (w1, present)" by (cases "bw_exists (ro_bench ops) ?path w")
  obtain w2 contents where c: "bw_read (ro_bench ops) ?path w1 = (w2, contents)" by (cases "bw_read (ro_bench ops) ?path w1")
  have w: "issued w1 = issued w" "issued w2 = issued w" using files(1)[of ?path w] files(2)[of ?path w1] e c by simp_all
  have rest: "issued w' = issued w"
    if "load_entries F (ro_bench ops) config fname entries st w2 \<bind> (\<lambda>(w3, loaded).
      case loaded of Inl e \<Rightarrow> Some (w3, Inl e) | Inr st' \<Rightarrow> load_labels F (ro_bench ops) config labels st' w3) = Some (w', r)"
    for fname entries
  proof -
    have "issued w' = issued w2" by (rule keeps_bind[OF that]) (auto dest: load_entries_quiet Cons.IH split: sum.splits)
    with w(2) show ?thesis by simp
  qed
  show ?case using Cons.prems w
    by (auto simp: e c Let_def simp del: load_entries.simps dest: Cons.IH rest split: if_splits sum.splits)
qed simp

lemma load_templates_quiet: "quiet issued (load_templates F (ro_bench ops) config)"
  unfolding quiet_def load_templates_def by (auto simp: bind_eq_Some_conv simp del: load_labels.simps dest: load_labels_quiet)

lemma stop_stack_idle: "triple (\<lambda>_. True) (on_world (stop_stack ops config)) (\<lambda>_. idle issued config) (\<lambda>_. True)"
  unfolding triple_def on_world_def stop_stack_def io_bind_def run_shell_capture_def io_lift_def idle_def
  by (auto simp: bind_eq_Some_conv down_not_up dest!: popen split: option.splits sum.splits prod.splits)

lemma world_idle: "quiet issued m \<Longrightarrow> triple (idle issued config) (on_world m) (\<lambda>_. idle issued config) (\<lambda>_. True)"
  unfolding triple_def on_world_def idle_def by (auto dest: quietD split: sum.splits)

lemma open_quiet: "quiet issued (open_file ops path)" "quiet issued (unix_seconds ops)"
  "quiet issued (\<lambda>w. let (w1, file) = ro_csv_contents ops path w in Some (w1, Inr file))"
  unfolding quiet_def open_file_def unix_seconds_def using files(3,4) clock(3) by (auto simp: Let_def split: prod.splits) (metis fst_conv)+

lemma idle_lift: "triple (idle issued config) (io_lift r) (\<lambda>_. idle issued config) (\<lambda>_. True)"
  by (rule triple_lift) simp_all

lemma run_case_idle:
  assumes "cfg_teardown_on_exit config"
  shows "triple P (run_case F erange ops config catalog emb spec) (\<lambda>_. idle issued config) (\<lambda>_. True)"
proof -
  have mark: "triple (idle issued config) (mark_started b) (\<lambda>_. idle issued config) (\<lambda>_. True)" for b
    unfolding mark_started_def by (rule triple_modify) simp
  show ?thesis unfolding run_case_def using assms
    by simp (rule triple_bind[OF stop_stack_idle mark] triple_bind[OF triple_any])+
qed

lemma run_cases_idle:
  assumes "cfg_teardown_on_exit config"
  shows "triple (idle issued config) (run_cases F erange ops config catalog emb specs) (\<lambda>_. idle issued config) (\<lambda>_. True)"
proof (induction specs)
  case (Cons spec specs)
  then show ?case unfolding run_cases.simps by (rule triple_bind[OF run_case_idle[OF assms]])
qed (simp add: idle_lift)

lemma run_pass_idle:
  assumes "cfg_teardown_on_exit config"
  shows "triple P (run_pass F erange ops config cases th) (\<lambda>_. idle issued config) (\<lambda>_. True)"
proof -
  have mark: "triple (idle issued config) (mark_started b) (\<lambda>_. idle issued config) (\<lambda>_. True)" for b
    unfolding mark_started_def by (rule triple_modify) simp
  show ?thesis unfolding run_pass_def Let_def
    by (rule triple_bind[OF stop_stack_idle triple_bind[OF mark triple_bind[OF idle_lift run_cases_idle[OF assms]]]]
        triple_bind[OF triple_any])+
qed

lemma logged_pass_idle:
  assumes "cfg_teardown_on_exit config"
  shows "triple (idle issued config) (logged_pass F erange ops config cases th path) (\<lambda>_. idle issued config) (\<lambda>_. True)"
proof -
  have close: "triple (idle issued config) (io_modify close_logger) (\<lambda>_. idle issued config) (\<lambda>_. True)"
    by (rule triple_modify) simp
  show ?thesis unfolding logged_pass_def
    by (rule triple_bind[OF run_pass_idle[OF assms] close] triple_bind[OF triple_any])+
qed

lemma matrix_thetas_idle:
  assumes "cfg_teardown_on_exit config"
  shows "triple (idle issued config) (matrix_thetas F erange ops config cases profile thetas) (\<lambda>_. idle issued config) (\<lambda>_. True)"
proof (induction thetas)
  case (Cons theta thetas)
  then show ?case
    by (auto intro!: triple_bind[OF world_idle[OF open_quiet(2)]] triple_bind[OF logged_pass_idle[OF assms]])
qed (simp add: idle_lift)

lemma idle_root: "cfg_project_root config = cfg_project_root config' \<Longrightarrow> idle issued config = idle issued config'"
  unfolding idle_def using stack_up_root by blast

lemma matrix_profiles_idle:
  assumes "cfg_teardown_on_exit config"
  shows "triple (idle issued config) (matrix_profiles F erange ops config cases profiles) (\<lambda>_. idle issued config) (\<lambda>_. True)"
  using assms
proof (induction profiles arbitrary: config)
  case (Cons profile profiles)
  let ?config = "config\<lparr>cfg_embedding_profile := ep_name profile, cfg_model_id := ep_model_id profile, cfg_embedding_image := ep_image profile\<rparr>"
  have i: "idle issued ?config = idle issued config" by (rule idle_root) simp
  have t: "cfg_teardown_on_exit ?config" using Cons.prems by simp
  show ?case using Cons.IH[OF Cons.prems] triple_bind[OF matrix_thetas_idle[OF t, unfolded i] Cons.IH[OF t, unfolded i]]
    by (simp add: Let_def)
qed (simp add: idle_lift)

lemma run_modes_idle:
  assumes "cfg_teardown_on_exit config"
  shows "triple (idle issued config) (run_modes F erange ops config) (\<lambda>_. idle issued config) (\<lambda>_. True)"
proof -
  have stop: "triple P (on_world (stop_stack ops config)) (\<lambda>_. idle issued config) (\<lambda>_. True)" for P
    by (rule triple_weaken[OF stop_stack_idle]) simp_all
  have put: "triple (idle issued config) (io_modify (\<lambda>s. s\<lparr>bs_csv := Some csv\<rparr>)) (\<lambda>_. idle issued config) (\<lambda>_. True)" for csv
    by (rule triple_modify) simp
  have "triple (idle issued config) (run_single F erange ops config cases) (\<lambda>_. idle issued config) (\<lambda>_. True)" for cases
    unfolding run_single_def using assms by simp (rule stop triple_bind[OF triple_any])+
  moreover have "triple (idle issued config) (io_bind (run_soak F ops config) (\<lambda>_. on_world (stop_stack ops config))) (\<lambda>_. idle issued config) (\<lambda>_. True)"
    by (rule triple_bind[OF triple_any stop])
  moreover have "triple (idle issued config) (run_matrix F erange ops config cases) (\<lambda>_. idle issued config) (\<lambda>_. True)" for cases
    unfolding run_matrix_def Let_def
    by (rule triple_bind[OF world_idle[OF open_quiet(2)] triple_bind[OF world_idle[OF open_quiet(3)[unfolded Let_def]] triple_bind[OF world_idle[OF open_quiet(1)]
      triple_bind[OF idle_lift triple_bind[OF put matrix_profiles_idle[OF assms]]]]]])
  ultimately show ?thesis unfolding run_modes_def Let_def using assms by (simp add: idle_lift)
qed

lemma handler_code: "main_handler ops config t = Some (s, Exit code) \<Longrightarrow> code = 1"
  unfolding main_handler_def Let_def
  by (cases "on_world (stop_stack ops config) (close_logger t)") (auto split: if_splits sum.splits)

lemma handler_idle:
  assumes "main_handler ops config t = Some (s, Exit code)" "cfg_teardown_on_exit config" "bs_stack_started s"
  shows "idle issued config s"
proof -
  have b: "bs_stack_started t" using assms by (auto simp: main_handler_def Let_def on_world_def bind_eq_Some_conv split: if_splits)
      (auto simp: close_logger_def split: option.splits)
  have "bs_stack_started (close_logger t) = bs_stack_started t" by (simp add: close_logger_def split: option.splits)
  then obtain r where r: "on_world (stop_stack ops config) (close_logger t) = Some (s, r)" "Exit code = (case r of Inl e \<Rightarrow> Terminated | Inr u \<Rightarrow> Exit 1)"
    using assms(1,2) b by (auto simp: main_handler_def Let_def bind_eq_Some_conv)
  then obtain u where "r = Inr u" by (cases r) simp_all
  with r(1) stop_stack_idle[of config] show ?thesis unfolding triple_def by fastforce
qed

lemma main_stops_stack:
  assumes "load_config F erange proot env = Inr config" "cfg_teardown_on_exit config"
    and "\<not> stack_up config False (issued w)"
    and "bench_main F erange ops proot env w = Some (s, Exit code)" "code = 0 \<or> bs_stack_started s"
  shows "\<not> stack_up config False (issued (bs_world s))"
proof -
  let ?s0 = "\<lparr>bs_world = w, bs_stack_started = False, bs_logger = None, bs_csv = None, bs_files = []\<rparr>"
  obtain t r where m: "run_modes F erange ops config ?s0 = Some (t, r)"
    and e: "(case r of Inr u \<Rightarrow> Some (t, Exit 0)
        | Inl x \<Rightarrow> if is_exception x then main_handler ops config t else Some (t, Crashed)) = Some (s, Exit code)"
    using assms(1,4) by (auto simp: bench_main_def bind_eq_Some_conv)
  have "idle issued config s"
  proof (cases r)
    case (Inl x)
    then have h: "main_handler ops config t = Some (s, Exit code)" using e by (auto split: if_splits)
    then have "code \<noteq> 0" using handler_code by fastforce
    with handler_idle[OF h assms(2)] assms(5) show ?thesis by simp
  next
    case (Inr u)
    moreover have "idle issued config ?s0" using assms(3) by (simp add: idle_def)
    ultimately have "idle issued config t" using run_modes_idle[OF assms(2), of F erange] m unfolding triple_def by fastforce
    with Inr e show ?thesis by simp
  qed
  then show ?thesis by (simp add: idle_def)
qed

end

section \<open>A machine whose commands are recorded\<close>

definition rec_step :: "('w \<Rightarrow> ('w \<times> 'a) option) \<Rightarrow> 'w \<times> 'c \<Rightarrow> (('w \<times> 'c) \<times> 'a) option" where
  "rec_step m w = map_option (\<lambda>(w', r). ((w', snd w), r)) (m (fst w))"

definition rec_read :: "('w \<Rightarrow> 'w \<times> 'a) \<Rightarrow> 'w \<times> 'c \<Rightarrow> ('w \<times> 'c) \<times> 'a" where
  "rec_read m w = (let (w', r) = m (fst w) in ((w', snd w), r))"

definition recording :: "'w run_ops \<Rightarrow> ('w \<times> string list) run_ops" where
  "recording ops =
     \<lparr>ro_bench = \<lparr>bw_http = (\<lambda>host port verb target body. rec_step (bw_http (ro_bench ops) host port verb target body)),
        bw_ping = (\<lambda>target from_node. rec_step (bw_ping (ro_bench ops) target from_node)),
        bw_get_leader = (\<lambda>target. rec_step (bw_get_leader (ro_bench ops) target)),
        bw_now = rec_read (bw_now (ro_bench ops)), bw_sleep = (\<lambda>ms (w, commands). (bw_sleep (ro_bench ops) ms w, commands)),
        bw_exists = (\<lambda>path. rec_read (bw_exists (ro_bench ops) path)), bw_read = (\<lambda>path. rec_read (bw_read (ro_bench ops) path))\<rparr>,
      ro_popen = (\<lambda>command (w, commands). rec_step (ro_popen ops command) (w, commands @ [command])),
      ro_setenv = (\<lambda>key v (w, commands). (ro_setenv ops key v w, commands)),
      ro_unix_ms = rec_read (ro_unix_ms ops), ro_clients = (\<lambda>calls. rec_step (ro_clients ops calls)),
      ro_open = (\<lambda>path. rec_read (ro_open ops path)), ro_csv_contents = (\<lambda>path. rec_read (ro_csv_contents ops path))\<rparr>"

lemma rec_laws: "rec_step m w = Some (w', r) \<Longrightarrow> snd w' = snd w" "snd (fst (rec_read m' w)) = snd w"
  by (auto simp: rec_step_def rec_read_def split: prod.splits)

interpretation recorded: bench_host "recording ops" snd
  by unfold_locales (auto simp: recording_def rec_laws(2) dest: rec_laws(1))

end
