(* ===== verification/BenchClock.thy ===== *)
theory BenchClock
  imports BenchRunLaws
begin

text \<open>
  The benchmark runner ends. Over a machine whose calls return and whose clock never goes back
  (\<open>bench_clock\<close>), no loop of the runner runs forever: the waits for a service count their attempts, and
  the wait for a leader and the soak rounds sleep, so that their deadline comes. The interface is
  interpreted on any machine whose calls get a deadline.
\<close>

section \<open>Steps that end\<close>

text \<open>A call that ended, at a time not before it started.\<close>

definition ends :: "('w \<Rightarrow> int) \<Rightarrow> 'w \<Rightarrow> ('w \<times> 'a) option \<Rightarrow> bool" where
  "ends clock w call \<longleftrightarrow> (\<exists>w' r. call = Some (w', r) \<and> clock w \<le> clock w')"

lemma ends_Some [simp]: "ends clock w (Some (w', r)) \<longleftrightarrow> clock w \<le> clock w'"
  by (simp add: ends_def)

lemma ends_fst: "ends clock w (Some p) \<longleftrightarrow> clock w \<le> clock (fst p)"
  by (cases p) simp

lemma ends_later: "ends clock w1 call \<Longrightarrow> clock w \<le> clock w1 \<Longrightarrow> ends clock w call"
  by (force simp: ends_def)

lemma ends_bind:
  "ends clock w call \<Longrightarrow> (\<And>w1 x. clock w \<le> clock w1 \<Longrightarrow> ends clock w1 (g (w1, x))) \<Longrightarrow> ends clock w (call \<bind> g)"
  unfolding ends_def by (force simp: bind_eq_Some_conv)

definition onward :: "('w \<Rightarrow> int) \<Rightarrow> ('w \<Rightarrow> ('w \<times> 'a) option) \<Rightarrow> bool" where
  "onward clock m \<longleftrightarrow> (\<forall>w. ends clock w (m w))"

lemma onwardD: "onward clock m \<Longrightarrow> ends clock w (m w)"
  by (simp add: onward_def)

lemma onward_bind: "onward clock m \<Longrightarrow> (\<And>x. onward clock (f x)) \<Longrightarrow> onward clock (io_bind m f)"
  unfolding onward_def
proof
  fix w assume m: "\<forall>w. ends clock w (m w)" and f: "\<And>x. \<forall>w. ends clock w (f x w)"
  from m obtain w1 r where "m w = Some (w1, r)" "clock w \<le> clock w1" unfolding ends_def by blast
  with f show "ends clock w (io_bind m f w)" by (cases r) (auto simp: io_bind_def intro: ends_later)
qed

lemma onward_lift: "onward clock (io_lift r)"
  by (simp add: onward_def io_lift_def)

lemma onward_modify: "(\<And>w. clock w \<le> clock (f w)) \<Longrightarrow> onward clock (io_modify f)"
  by (simp add: onward_def io_modify_def)

lemma onward_if: "(b \<Longrightarrow> onward clock m) \<Longrightarrow> (\<not> b \<Longrightarrow> onward clock m') \<Longrightarrow> onward clock (if b then m else m')"
  by simp

lemmas onward_rules = onward_bind onward_lift onward_if

text \<open>A step that takes some time when it returns a value.\<close>

definition takes :: "int \<Rightarrow> ('w \<Rightarrow> int) \<Rightarrow> ('w, 'a) io \<Rightarrow> bool" where
  "takes d clock m \<longleftrightarrow> (\<forall>w. \<exists>w' r. m w = Some (w', r) \<and> clock w \<le> clock w' \<and> (\<forall>x. r = Inr x \<longrightarrow> clock w + d \<le> clock w'))"

lemma takes_after: "onward clock m \<Longrightarrow> (\<And>x. takes d clock (f x)) \<Longrightarrow> takes d clock (io_bind m f)"
  unfolding takes_def
proof
  fix w assume m: "onward clock m"
    and f: "\<And>x. \<forall>w. \<exists>w' r. f x w = Some (w', r) \<and> clock w \<le> clock w' \<and> (\<forall>x. r = Inr x \<longrightarrow> clock w + d \<le> clock w')"
  from onwardD[OF m] obtain w1 r where m: "m w = Some (w1, r)" "clock w \<le> clock w1" unfolding ends_def by blast
  show "\<exists>w' r. io_bind m f w = Some (w', r) \<and> clock w \<le> clock w' \<and> (\<forall>x. r = Inr x \<longrightarrow> clock w + d \<le> clock w')"
  proof (cases r)
    case (Inr x)
    obtain w2 r2 where "f x w1 = Some (w2, r2)" "clock w1 \<le> clock w2" "\<forall>x. r2 = Inr x \<longrightarrow> clock w1 + d \<le> clock w2" using f by blast
    with m Inr show ?thesis by (auto simp: io_bind_def)
  qed (use m in \<open>simp add: io_bind_def\<close>)
qed

lemma takes_modify: "0 \<le> d \<Longrightarrow> (\<And>w. clock w + d \<le> clock (g w)) \<Longrightarrow> takes d clock (io_bind (io_modify g) (\<lambda>_. io_lift r))"
  unfolding takes_def io_bind_def io_modify_def io_lift_def by simp (meson add_increasing2 order_refl order_trans)

section \<open>The clock of the machine\<close>

locale bench_clock =
  fixes ops :: "'w run_ops" and clock :: "'w \<Rightarrow> int"
  assumes calls: "ends clock w (ro_popen ops command w)" "ends clock w (bw_http (ro_bench ops) host port verb target body w)"
      "ends clock w (bw_ping (ro_bench ops) target from_node w)" "ends clock w (bw_get_leader (ro_bench ops) target w)"
      "ends clock w (ro_clients ops requests w)"
    and now: "snd (bw_now (ro_bench ops) w) = clock w" "clock w \<le> clock (fst (bw_now (ro_bench ops) w))"
    and sleep: "0 \<le> ms \<Longrightarrow> clock w + ms \<le> clock (bw_sleep (ro_bench ops) ms w)"
    and others: "clock w \<le> clock (fst (ro_unix_ms ops w))" "clock w \<le> clock (fst (bw_exists (ro_bench ops) path w))"
      "clock w \<le> clock (fst (bw_read (ro_bench ops) path w))" "clock w \<le> clock (fst (ro_open ops path w))"
      "clock w \<le> clock (fst (ro_csv_contents ops path w))" "clock w \<le> clock (ro_setenv ops key v w)"
begin

lemma try_targets_ends: "ends clock w (try_targets (ro_bench ops) host port targets w)"
proof (induction targets arbitrary: w)
  case (Cons target targets)
  show ?case unfolding try_targets.simps by (rule ends_bind[OF calls(2)]) (simp add: Cons split: sum.splits)
qed simp

lemma sleep_onward: "0 \<le> ms \<Longrightarrow> clock w \<le> clock (bw_sleep (ro_bench ops) ms w)"
  using sleep[of ms w] by simp

lemma wait_http_ends: "0 \<le> ms \<Longrightarrow> ends clock w (wait_http_loop (ro_bench ops) name host port targets n ms w)"
proof (induction n arbitrary: w)
  case (Suc n)
  show ?case unfolding wait_http_loop.simps
    by (rule ends_bind[OF try_targets_ends]) (auto intro: ends_later[OF Suc.IH[OF Suc.prems]] sleep_onward[OF Suc.prems])
qed simp

lemma wait_ping_ends: "0 \<le> ms \<Longrightarrow> ends clock w (wait_ping_loop (ro_bench ops) config n ms w)"
proof (induction n arbitrary: w)
  case (Suc n)
  show ?case unfolding wait_ping_loop.simps
    by (rule ends_bind[OF calls(3)]) (auto intro: ends_later[OF Suc.IH[OF Suc.prems]] sleep_onward[OF Suc.prems])
qed simp

lemma discover_ends: "ends clock w (discover_leader (ro_bench ops) targets config w)"
proof (induction targets arbitrary: w)
  case (Cons target targets)
  show ?case unfolding discover_leader.simps by (rule ends_bind[OF calls(4)]) (simp add: Cons split: prod.splits)
qed simp

lemma wait_leader_ends: "ends clock w (wait_leader_loop (ro_bench ops) targets config deadline w)"
proof (induction "nat (deadline - clock w)" arbitrary: w rule: less_induct)
  case less
  obtain w1 t where n: "bw_now (ro_bench ops) w = (w1, t)" by (cases "bw_now (ro_bench ops) w")
  have t: "t = clock w" "clock w \<le> clock w1" using now[of w] n by simp_all
  show ?case
  proof (cases "t < deadline")
    case True
    have again: "ends clock w2 (wait_leader_loop (ro_bench ops) targets config deadline (bw_sleep (ro_bench ops) 100 w2))"
      if "clock w1 \<le> clock w2" for w2
    proof (rule ends_later[OF less])
      show "nat (deadline - clock (bw_sleep (ro_bench ops) 100 w2)) < nat (deadline - clock w)"
        using sleep[of 100 w2] that t True by simp
    qed (simp add: sleep_onward)
    show ?thesis unfolding wait_leader_loop.simps[of _ _ _ _ w]
      by (simp add: n True, rule ends_later[OF ends_bind[OF discover_ends] t(2)]) (auto simp: again split: sum.splits option.splits)
  qed (simp add: wait_leader_loop.simps n t)
qed

lemma services_onward:
  "onward clock (wait_for_http_service (ro_bench ops) name host port targets n 1000)"
  "onward clock (wait_for_embedding_service (ro_bench ops) config)" "onward clock (wait_for_dscc_service (ro_bench ops) config n 1000)"
  "onward clock (wait_for_leader (ro_bench ops) targets config timeout)"
  unfolding onward_def wait_for_embedding_service_def wait_for_http_service_def wait_for_dscc_service_def wait_for_leader_def Let_def
  using wait_leader_ends now(2) by (auto simp: wait_http_ends wait_ping_ends split: prod.splits) (metis ends_later fst_conv)

lemma http_onward:
  "onward clock (ensure_ollama_model_available (ro_bench ops) config)"
  "onward clock (reset_qdrant_collection (ro_bench ops) config collection)"
  "onward clock (create_qdrant_collection (ro_bench ops) config collection n)"
  "onward clock (qdrant_point_count (ro_bench ops) config collection)"
  "onward clock (request_embedding F (ro_bench ops) config text)"
  unfolding onward_def ensure_ollama_model_available_def reset_qdrant_collection_def create_qdrant_collection_def
    qdrant_point_count_def request_embedding_def
  by (auto intro!: ends_bind[OF calls(2)])

lemma load_entries_ends: "ends clock w (load_entries F (ro_bench ops) config fname entries st w)"
proof (induction entries arbitrary: st w)
  case (Cons entry entries)
  obtain w1 t where n1: "bw_now (ro_bench ops) w = (w1, t)" by (cases "bw_now (ro_bench ops) w")
  have w1: "clock w \<le> clock w1" using now(2)[of w] n1 by simp
  have "ends clock w2 (case bw_now (ro_bench ops) w2 of (w3, t3) \<Rightarrow> load_entries F (ro_bench ops) config fname entries (g t3) w3)" for w2 g
    using Cons now(2)[of w2] by (cases "bw_now (ro_bench ops) w2") (auto intro: ends_later)
  then show ?case
    by (auto simp: n1 Let_def Cons intro!: ends_later[OF ends_bind[OF onwardD[OF http_onward(5)]] w1] split: sum.splits)
qed simp

lemma load_labels_ends: "ends clock w (load_labels F (ro_bench ops) config labels st w)"
proof (induction labels arbitrary: st w)
  case (Cons label labels)
  let ?path = "path_append (cfg_input_dir config) (label # ''.json'')"
  obtain w1 present where e: "bw_exists (ro_bench ops) ?path w = (w1, present)" by (cases "bw_exists (ro_bench ops) ?path w")
  obtain w2 contents where c: "bw_read (ro_bench ops) ?path w1 = (w2, contents)" by (cases "bw_read (ro_bench ops) ?path w1")
  have w: "clock w \<le> clock w1" "clock w \<le> clock w2" using others(2)[of w ?path] others(3)[of w1 ?path] e c by simp_all
  have "ends clock w (load_entries F (ro_bench ops) config fname entries st w2 \<bind> (\<lambda>(w3, loaded).
      case loaded of Inl e \<Rightarrow> Some (w3, Inl e) | Inr st' \<Rightarrow> load_labels F (ro_bench ops) config labels st' w3))" for fname entries
    by (rule ends_later[OF ends_bind[OF load_entries_ends] w(2)]) (simp add: Cons split: sum.splits)
  then show ?case using w by (auto simp: e c Let_def simp del: load_entries.simps intro: ends_later[OF Cons] split: sum.splits)
qed simp

lemma load_templates_onward: "onward clock (load_templates F (ro_bench ops) config)"
  unfolding onward_def load_templates_def by (auto intro!: ends_bind[OF load_labels_ends] simp del: load_labels.simps)

lemma shell_onward: "onward clock (run_shell_capture ops command)"
  unfolding onward_def run_shell_capture_def by (auto intro!: ends_bind[OF calls(1)])

lemma stack_onward: "onward clock (start_stack_for_case ops config spec)" "onward clock (stop_stack ops config)"
proof -
  have env: "clock w \<le> clock (fold (\<lambda>(key, v). ro_setenv ops key v) settings w)" for settings w
    by (induction settings arbitrary: w) (auto intro: order_trans[OF others(6)])
  show "onward clock (start_stack_for_case ops config spec)"
    unfolding start_stack_for_case_def run_shell_or_throw_def case_prod_beta
    by (intro onward_rules onward_modify services_onward http_onward shell_onward) (unfold set_case_environment_def, rule env)
  show "onward clock (stop_stack ops config)" unfolding stop_stack_def case_prod_beta by (intro onward_rules shell_onward)
qed

lemma read_onward: "onward clock (open_file ops path)" "onward clock (unix_seconds ops)" "onward clock (now_ms ops)"
  "onward clock (\<lambda>w. let (w1, file) = ro_csv_contents ops path w in Some (w1, Inr file))"
  unfolding onward_def open_file_def unix_seconds_def now_ms_def Let_def by (simp_all add: case_prod_beta ends_fst others now)

lemma clients_onward: "onward clock (run_clients ops workload)"
  unfolding onward_def run_clients_def Let_def case_prod_beta
  using others(1) by (auto intro!: ends_later[OF ends_bind[OF calls(5)]])

lemma case_onward:
  "onward clock (run_case_traffic ops config spec workload)" "onward clock (case_stats F erange ops config spec operations emb)"
  unfolding run_case_traffic_def case_stats_def Let_def
  by (intro onward_rules http_onward clients_onward shell_onward)+

lemma soak_round_takes: "takes 200 clock (soak_round F ops config collection catalog start st)"
proof -
  have fire: "onward clock (fire_soak_round ops catalog n)" for n
    unfolding fire_soak_round_def by (intro onward_rules clients_onward)
  have flush: "onward clock (flush_snapshot F ops config collection start st')" for st'
    unfolding flush_snapshot_def by (intro onward_rules read_onward http_onward)
  have last: "takes 200 clock (io_bind (io_modify (bw_sleep (ro_bench ops) 200)) (\<lambda>_. io_lift r))" for r :: "soak_state outcome"
    by (rule takes_modify) (simp_all add: sleep)
  show ?thesis unfolding soak_round_def Let_def
    by (rule takes_after[OF fire takes_after[OF read_onward(3) takes_after[OF _ last]]]) (intro onward_rules flush)
qed

lemma soak_loop_ends: "ends clock w (soak_loop F ops config collection catalog start deadline st w)"
proof (induction "nat (deadline - clock w)" arbitrary: w st rule: less_induct)
  case less
  obtain w1 t where n: "bw_now (ro_bench ops) w = (w1, t)" by (cases "bw_now (ro_bench ops) w")
  have t: "t = clock w" "clock w \<le> clock w1" using now[of w] n by simp_all
  show ?case
  proof (cases "t < deadline")
    case True
    obtain w2 r where r: "soak_round F ops config collection catalog start st w1 = Some (w2, r)" "clock w1 \<le> clock w2"
      "\<forall>st'. r = Inr st' \<longrightarrow> clock w1 + 200 \<le> clock w2"
      using soak_round_takes[of F config collection catalog start st] unfolding takes_def by blast
    have "ends clock w (soak_loop F ops config collection catalog start deadline st' w2)" if "r = Inr st'" for st'
    proof (rule ends_later[OF less])
      show "nat (deadline - clock w2) < nat (deadline - clock w)" using r(3) that t True by simp
    qed (use r(2) t in simp)
    then show ?thesis unfolding soak_loop.simps[of _ _ _ _ _ _ _ _ w] using r(1,2) t n True by (simp split: sum.splits)
  qed (simp add: soak_loop.simps n t)
qed

lemma soak_rounds_onward: "onward clock (soak_rounds F ops config collection catalog csv)"
proof -
  have flush: "onward clock (flush_snapshot F ops config collection start st')" for start st'
    unfolding flush_snapshot_def by (intro onward_rules read_onward http_onward)
  have loop: "onward clock (soak_loop F ops config collection catalog start deadline st)" for start deadline st
    by (simp add: onward_def soak_loop_ends)
  show ?thesis unfolding soak_rounds_def by (intro onward_rules read_onward loop flush)
qed

lemma on_world_onward: "onward clock m \<Longrightarrow> onward (clock \<circ> bs_world) (on_world m)"
  unfolding onward_def ends_def on_world_def by fastforce

lemma state_onward:
  "onward (clock \<circ> bs_world) (mark_started b)" "onward (clock \<circ> bs_world) (log_case F result)"
  "onward (clock \<circ> bs_world) (log_csv F result config emb)" "onward (clock \<circ> bs_world) (io_modify close_logger)"
  "onward (clock \<circ> bs_world) (io_modify (\<lambda>s. s\<lparr>bs_csv := c\<rparr>))" "onward (clock \<circ> bs_world) (io_modify (\<lambda>s. s\<lparr>bs_logger := l\<rparr>))"
  by (auto simp: onward_def mark_started_def log_case_def log_csv_def io_modify_def close_logger_def split: option.splits sum.splits)

lemmas world_onward = on_world_onward[OF stack_onward(1)] on_world_onward[OF stack_onward(2)] on_world_onward[OF case_onward(1)]
  on_world_onward[OF case_onward(2)] on_world_onward[OF load_templates_onward] on_world_onward[OF read_onward(1)]
  on_world_onward[OF read_onward(2)] on_world_onward[OF read_onward(4)] on_world_onward[OF http_onward(3)]
  on_world_onward[OF soak_rounds_onward]

lemma run_pass_onward: "onward (clock \<circ> bs_world) (run_pass F erange ops config cases th)"
proof -
  have "onward (clock \<circ> bs_world) (run_cases F erange ops config catalog emb specs)" for catalog emb specs
  proof (induction specs)
    case (Cons spec specs)
    then show ?case unfolding run_cases.simps run_case_def by (intro onward_rules world_onward state_onward)
  qed (simp add: onward_lift)
  then show ?thesis unfolding run_pass_def Let_def by (intro onward_rules world_onward state_onward)
qed

lemma logged_pass_onward: "onward (clock \<circ> bs_world) (logged_pass F erange ops config cases th path)"
  unfolding logged_pass_def by (intro onward_rules world_onward state_onward run_pass_onward)

lemma matrix_onward: "onward (clock \<circ> bs_world) (matrix_profiles F erange ops config cases profiles)"
proof (induction profiles arbitrary: config)
  case (Cons profile profiles)
  have thetas: "onward (clock \<circ> bs_world) (matrix_thetas F erange ops config' cases name thetas)" for config' name thetas
  proof (induction thetas)
    case (Cons theta thetas)
    then show ?case unfolding matrix_thetas.simps by (intro onward_rules world_onward logged_pass_onward)
  qed (simp add: onward_lift)
  show ?case unfolding matrix_profiles.simps Let_def by (intro onward_rules thetas Cons)
qed (simp add: onward_lift)

lemma run_modes_onward: "onward (clock \<circ> bs_world) (run_modes F erange ops config)"
  unfolding run_modes_def run_soak_def run_matrix_def run_single_def Let_def
  by (intro onward_rules world_onward[unfolded Let_def] state_onward logged_pass_onward matrix_onward)

lemma main_ends: "\<exists>s e. bench_main F erange ops proot env w = Some (s, e) \<and> clock w \<le> clock (bs_world s)"
proof -
  let ?s0 = "\<lparr>bs_world = w, bs_stack_started = False, bs_logger = None, bs_csv = None, bs_files = []\<rparr>"
  have handler: "ends (clock \<circ> bs_world) t (main_handler ops config t)" for config t
  proof -
    have c: "(clock \<circ> bs_world) (close_logger t) = (clock \<circ> bs_world) t" by (simp add: close_logger_def split: option.splits)
    have "ends (clock \<circ> bs_world) (close_logger t) (main_handler ops config t)" unfolding main_handler_def Let_def
      by (auto intro!: ends_bind[OF onwardD[OF world_onward(2)]])
    then show ?thesis by (rule ends_later) (unfold c, rule order_refl)
  qed
  have "ends (clock \<circ> bs_world) ?s0 (bench_main F erange ops proot env w)" unfolding bench_main_def Let_def
    by (auto intro!: handler ends_bind[OF onwardD[OF run_modes_onward]] split: sum.splits)
  then show ?thesis by (auto simp: ends_def)
qed

end

section \<open>A machine whose calls get a deadline\<close>

text \<open>The clock runs on by one for each call; a call that would not return gives \<open>late\<close>.\<close>

definition timed :: "'a \<Rightarrow> ('w \<Rightarrow> ('w \<times> 'a) option) \<Rightarrow> 'w \<times> int \<Rightarrow> (('w \<times> int) \<times> 'a) option" where
  "timed late m w = Some (case m (fst w) of None \<Rightarrow> ((fst w, snd w + 1), late) | Some (w', r) \<Rightarrow> ((w', snd w + 1), r))"

definition timed_read :: "('w \<Rightarrow> 'w \<times> 'a) \<Rightarrow> 'w \<times> int \<Rightarrow> ('w \<times> int) \<times> 'a" where
  "timed_read m w = (let (w', r) = m (fst w) in ((w', snd w + 1), r))"

definition deadline_status :: Status where
  "deadline_status = \<lparr>st_code = DEADLINE_EXCEEDED, st_message = ''deadline''\<rparr>"

definition with_deadlines :: "'w run_ops \<Rightarrow> ('w \<times> int) run_ops" where
  "with_deadlines ops =
     \<lparr>ro_bench = \<lparr>bw_http = (\<lambda>host port verb target body. timed (fail ''deadline'') (bw_http (ro_bench ops) host port verb target body)),
        bw_ping = (\<lambda>target from_node. timed deadline_status (bw_ping (ro_bench ops) target from_node)),
        bw_get_leader = (\<lambda>target. timed (deadline_status,
          \<lparr>li_leader_id = [], li_leader_address = [], li_current_term = 0, li_is_leader = False\<rparr>) (bw_get_leader (ro_bench ops) target)),
        bw_now = (\<lambda>(w, t). ((w, t), t)), bw_sleep = (\<lambda>ms (w, t). (bw_sleep (ro_bench ops) ms w, t + max 0 ms)),
        bw_exists = (\<lambda>path. timed_read (bw_exists (ro_bench ops) path)), bw_read = (\<lambda>path. timed_read (bw_read (ro_bench ops) path))\<rparr>,
      ro_popen = (\<lambda>command. timed None (ro_popen ops command)),
      ro_setenv = (\<lambda>key v (w, t). (ro_setenv ops key v w, t)),
      ro_unix_ms = timed_read (ro_unix_ms ops),
      ro_clients = (\<lambda>calls. timed (\<lambda>_. \<lparr>cc_submit_ms = 0, cc_enter_ms = 0, cc_exit_ms = 0, cc_status = deadline_status,
        cc_response = default_AcquireResponse\<rparr>) (ro_clients ops calls)),
      ro_open = (\<lambda>path. timed_read (ro_open ops path)), ro_csv_contents = (\<lambda>path. timed_read (ro_csv_contents ops path))\<rparr>"

lemma timed_ends: "ends snd w (timed late m w)" "snd w \<le> snd (fst (timed_read m' w))"
  by (auto simp: timed_def timed_read_def split: option.splits prod.splits)

interpretation timed_host: bench_clock "with_deadlines ops" snd
  by unfold_locales (auto simp: with_deadlines_def timed_ends split: prod.splits)

end
