(* ===== verification/BenchRunProps.thy ===== *)
theory BenchRunProps
  imports BenchProps SoakLaws BenchHost BenchClock
begin

text \<open>
  The properties of whole runs of the benchmark runner: the log files it leaves, the account of the soak
  mode, the life of the container stack, and that it ends.
\<close>

section \<open>Runs for the examples\<close>

text \<open>
  A machine on which every service answers but the input directory is empty, and one on which no HTTP
  request is answered.
\<close>

definition ex_run_ops :: "bool \<Rightarrow> unit run_ops" where
  "ex_run_ops alive =
     \<lparr>ro_bench = \<lparr>bw_http = (\<lambda>host port verb target body w. Some (w, if alive then Inr \<lparr>http_status_code = 200, http_body = ''{}''\<rparr>
          else fail ''connection refused'')),
        bw_ping = (\<lambda>target from_node w. Some (w, Status_OK)),
        bw_get_leader = (\<lambda>target w. Some (w, Status_OK,
          \<lparr>li_leader_id = ''node-1'', li_leader_address = ''dscc-node-1:50051'', li_current_term = 1, li_is_leader = True\<rparr>)),
        bw_now = (\<lambda>w. (w, 0)), bw_sleep = (\<lambda>ms w. w), bw_exists = (\<lambda>path w. (w, False)), bw_read = (\<lambda>path w. (w, None))\<rparr>,
      ro_popen = (\<lambda>command w. Some (w, Some (0, []))), ro_setenv = (\<lambda>key v w. w), ro_unix_ms = (\<lambda>w. (w, 0)),
      ro_clients = (\<lambda>calls w. None), ro_open = (\<lambda>path w. (w, Inr True)), ro_csv_contents = (\<lambda>path w. (w, None))\<rparr>"

lemma ex_run_config: "load_config F erange ''/dslm'' (\<lambda>_. None) = Inr (default_Config ''/dslm'')"
  by (simp add: load_config_def default_Config_def getenv_or_default_def getenv_flag_def override_by_def Let_def)

lemma ex_no_templates:
  "load_templates F (ro_bench (recording (ex_run_ops True))) config w
   = Some (w, fail ''need at least ten unique template texts for curated benchmarking'')"
  by (cases w) (simp add: load_templates_def recording_def ex_run_ops_def rec_read_def Let_def)

lemma ex_stack_ops:
  "wait_for_http_service (ro_bench (recording (ex_run_ops True))) name host port (target # targets) 120 1000 w = Some (w, Inr ())"
  "wait_for_dscc_service (ro_bench (recording (ex_run_ops True))) config 90 1000 w = Some (w, Inr ())"
  "ensure_ollama_model_available (ro_bench (recording (ex_run_ops True))) config w = Some (w, Inr ())"
  by (cases w; simp add: wait_for_http_service_def wait_for_dscc_service_def ensure_ollama_model_available_def numeral_eq_Suc
      recording_def ex_run_ops_def rec_step_def Status_OK_def status_ok_def)+

lemma ex_leader:
  "\<exists>leader. wait_for_leader (ro_bench (recording (ex_run_ops True))) (cfg_node_targets (default_Config r)) (default_Config r) 15000 w
     = Some (w, Inr leader)"
  unfolding wait_for_leader_def
  by (cases w, subst wait_leader_loop.simps) (simp add: default_Config_def recording_def ex_run_ops_def rec_step_def rec_read_def
      Status_OK_def status_ok_def elem_at_def Let_def)

lemma live_start:
  "start_stack_for_case (recording (ex_run_ops True)) (default_Config r) spec ((), commands)
   = Some (((), commands @ [compose_command (default_Config r) up_args @ '' 2>&1'']), Inr ())"
proof -
  let ?w = "((), commands @ [compose_command (default_Config r) up_args @ '' 2>&1''])"
  have env: "ro_setenv (recording (ex_run_ops True)) key v w' = w'" for key v w'
    by (cases w') (simp add: recording_def ex_run_ops_def)
  have up: "run_shell_or_throw (recording (ex_run_ops True)) (compose_command (default_Config r) up_args) m ((), commands) = Some (?w, Inr ())" for m
    by (simp add: run_shell_or_throw_def run_shell_capture_def io_bind_def io_lift_def recording_def ex_run_ops_def rec_step_def exit_status_def)
  obtain leader where "wait_for_leader (ro_bench (recording (ex_run_ops True))) (cfg_node_targets (default_Config r)) (default_Config r) 15000 ?w
    = Some (?w, Inr leader)" using ex_leader by blast
  then show ?thesis
    by (simp add: start_stack_for_case_def io_bind_def io_modify_def set_case_environment_def env up ex_stack_ops wait_for_embedding_service_def)
qed

text \<open>Steps of a run that end a pass before its first case.\<close>

lemma curated_front: "\<exists>front. elem_at (build_curated_cases F config) 0 = Inr front" "build_curated_cases F config \<noteq> []"
  by (simp_all add: build_curated_cases_def elem_at_def)

lemma run_single_raises:
  assumes unix: "\<And>w. fst (ro_unix_ms ops w) = w" and opens: "\<And>path w. ro_open ops path w = (w, Inr True)"
    and pass: "\<And>logger. run_pass F erange ops config cases (Fin (- 1)) \<lparr>bs_world = w, bs_stack_started = False, bs_logger = Some logger, bs_csv = None, bs_files = []\<rparr>
       = Some (\<lparr>bs_world = w', bs_stack_started = b, bs_logger = Some logger, bs_csv = None, bs_files = []\<rparr>, Inl e)"
  shows "\<exists>logger. run_single F erange ops config cases \<lparr>bs_world = w, bs_stack_started = False, bs_logger = None, bs_csv = None, bs_files = []\<rparr>
    = Some (\<lparr>bs_world = w', bs_stack_started = b, bs_logger = Some logger, bs_csv = None, bs_files = []\<rparr>, Inl e)"
proof -
  have u: "unix_seconds ops w = Some (w, Inr (snd (ro_unix_ms ops w) div 1000))" for w
    using unix[of w] by (simp add: unix_seconds_def case_prod_beta)
  have o: "open_file ops path w = Some (w, Inr True)" for path w by (simp add: open_file_def opens)
  show ?thesis
    by (simp add: run_single_def logged_pass_def io_bind_def on_world_def u o io_lift_def io_modify_def pass new_BenchmarkRunLogger_def Let_def)
qed

lemma ex_unix: "fst (ro_unix_ms (recording (ex_run_ops alive)) w) = w" "ro_open (recording (ex_run_ops alive)) path w = (w, Inr True)"
  by (cases w; simp add: recording_def ex_run_ops_def rec_read_def)+

definition ex_start_state :: "(unit \<times> string list) bench_state" where
  "ex_start_state = \<lparr>bs_world = ((), []), bs_stack_started = False, bs_logger = None, bs_csv = None, bs_files = []\<rparr>"

lemma ex_main:
  assumes pass: "\<And>logger. run_pass F erange (recording (ex_run_ops alive)) (default_Config ''/dslm'')
      (build_curated_cases F (default_Config ''/dslm'')) (Fin (- 1)) (ex_start_state\<lparr>bs_logger := Some logger\<rparr>)
    = Some (ex_start_state\<lparr>bs_logger := Some logger, bs_world := w', bs_stack_started := b\<rparr>, Inl e)" and e: "is_exception e"
  shows "\<exists>logger. bench_main F erange (recording (ex_run_ops alive)) ''/dslm'' (\<lambda>_. None) ((), [])
    = main_handler (recording (ex_run_ops alive)) (default_Config ''/dslm'')
        (ex_start_state\<lparr>bs_logger := Some logger, bs_world := w', bs_stack_started := b\<rparr>)"
proof -
  let ?cases = "build_curated_cases F (default_Config ''/dslm'')"
  have "\<exists>logger. run_single F erange (recording (ex_run_ops alive)) (default_Config ''/dslm'') ?cases
      \<lparr>bs_world = ((), []), bs_stack_started = False, bs_logger = None, bs_csv = None, bs_files = []\<rparr>
    = Some (\<lparr>bs_world = w', bs_stack_started = b, bs_logger = Some logger, bs_csv = None, bs_files = []\<rparr>, Inl e)"
    by (rule run_single_raises[OF ex_unix]) (use pass in \<open>simp add: ex_start_state_def\<close>)
  moreover have "run_modes F erange (recording (ex_run_ops alive)) (default_Config ''/dslm'')
      = run_single F erange (recording (ex_run_ops alive)) (default_Config ''/dslm'') ?cases"
    using curated_front(2)[of F "default_Config ''/dslm''"] by (simp add: run_modes_def Let_def default_Config_def)
  ultimately show ?thesis using e by (auto simp: bench_main_def ex_run_config ex_start_state_def)
qed

lemma ex_single_run:
  "\<exists>s. bench_main F erange (recording (ex_run_ops True)) ''/dslm'' (\<lambda>_. None) ((), []) = Some (s, Exit 1)
     \<and> bs_stack_started s \<and> bs_files s \<noteq> []"
proof -
  obtain front where front: "elem_at (build_curated_cases F (default_Config ''/dslm'')) 0 = Inr front"
    using curated_front by blast
  have "run_pass F erange (recording (ex_run_ops True)) (default_Config ''/dslm'') (build_curated_cases F (default_Config ''/dslm''))
      (Fin (- 1)) (ex_start_state\<lparr>bs_logger := Some logger\<rparr>)
    = Some (ex_start_state\<lparr>bs_logger := Some logger, bs_world := ((), [compose_command (default_Config ''/dslm'') up_args @ '' 2>&1'']),
        bs_stack_started := True\<rparr>, Inl (RuntimeError ''need at least ten unique template texts for curated benchmarking''))" for logger
    by (simp add: run_pass_def io_bind_def on_world_def io_lift_def io_modify_def mark_started_def front live_start ex_no_templates
        ex_start_state_def fail_def)
  then obtain logger where "bench_main F erange (recording (ex_run_ops True)) ''/dslm'' (\<lambda>_. None) ((), [])
    = main_handler (recording (ex_run_ops True)) (default_Config ''/dslm'') (ex_start_state\<lparr>bs_logger := Some logger,
        bs_world := ((), [compose_command (default_Config ''/dslm'') up_args @ '' 2>&1'']), bs_stack_started := True\<rparr>)"
    using ex_main[of F erange True] by fastforce
  moreover have "cfg_teardown_on_exit (default_Config ''/dslm'')" by (simp add: default_Config_def)
  ultimately show ?thesis
    by (simp add: main_handler_def close_logger_def ex_start_state_def on_world_def stop_stack_def run_shell_capture_def io_bind_def io_lift_def
        recording_def ex_run_ops_def rec_step_def)
qed

lemma dead_start:
  "start_stack_for_case (recording (ex_run_ops False)) config spec ((), commands)
   = Some (((), commands @ [compose_command config up_args @ '' 2>&1'']), fail ''timed out waiting for Qdrant'')"
proof -
  have env: "ro_setenv (recording (ex_run_ops False)) key v w' = w'" for key v w'
    by (cases w') (simp add: recording_def ex_run_ops_def)
  have up: "run_shell_or_throw (recording (ex_run_ops False)) command m ((), commands) = Some (((), commands @ [command @ '' 2>&1'']), Inr ())"
    for command m
    by (simp add: run_shell_or_throw_def run_shell_capture_def io_bind_def io_lift_def recording_def ex_run_ops_def rec_step_def exit_status_def)
  have dead: "wait_http_loop (ro_bench (recording (ex_run_ops False))) name host port targets n ms w
      = Some (w, fail (''timed out waiting for '' @ name))" for name host port targets n ms w
  proof (induction n arbitrary: w)
    case (Suc n)
    have "try_targets (ro_bench (recording (ex_run_ops False))) host port targets w = Some (w, False)"
      by (cases w, induction targets) (simp_all add: recording_def ex_run_ops_def rec_step_def fail_def)
    moreover have "bw_sleep (ro_bench (recording (ex_run_ops False))) ms w = w" by (cases w) (simp add: recording_def ex_run_ops_def)
    ultimately show ?case using Suc by simp
  qed simp
  show ?thesis
    by (simp add: start_stack_for_case_def io_bind_def io_modify_def set_case_environment_def env up wait_for_http_service_def dead fail_def)
qed

section \<open>Logs\<close>



section \<open>The soak mode\<close>










section \<open>The container stack\<close>

text \<open>C28: the stack is stopped. On any machine whose shell commands are recorded, a run that ends with exit
  code 0 and is to tear down at its end leaves the stack stopped: the last command for the stack is
  \<^verbatim>\<open>docker compose down\<close>, in each of the three modes. The same holds of exit code 1 when the stack had
  been marked as started.\<close>

theorem stack_torn_down:
  assumes "load_config F erange proot env = Inr config" "cfg_teardown_on_exit config"
    and "bench_main F erange (recording ops) proot env (w, []) = Some (s, Exit code)" "code = 0 \<or> bs_stack_started s"
  shows "\<not> stack_up config False (snd (bs_world s))"
  by (rule recorded.main_stops_stack[OF assms(1,2) _ assms(3,4)]) simp

theorem stack_torn_down_witness:
  "\<exists>s. bench_main exact_fpu (\<lambda>_. False) (recording (ex_run_ops True)) ''/dslm'' (\<lambda>_. None) ((), []) = Some (s, Exit 1)
     \<and> \<not> stack_up (default_Config ''/dslm'') False (snd (bs_world s))"
proof -
  obtain s where s: "bench_main exact_fpu (\<lambda>_. False) (recording (ex_run_ops True)) ''/dslm'' (\<lambda>_. None) ((), []) = Some (s, Exit 1)"
    "bs_stack_started s" using ex_single_run by blast
  have "cfg_teardown_on_exit (default_Config ''/dslm'')" by (simp add: default_Config_def)
  from stack_torn_down[OF ex_run_config this s(1)] s show ?thesis by blast
qed

text \<open>The stack can be left running. \<^verbatim>\<open>stack_started\<close> is set only after \<^verbatim>\<open>start_stack_for_case\<close> has returned.
  On a machine where \<^verbatim>\<open>docker compose up\<close> succeeds and Qdrant never answers, the wait after it throws, so
  the handler of \<^verbatim>\<open>main\<close> skips the teardown although it is asked for: the run ends with exit code 1 and
  the stack is up.\<close>

theorem stack_left_running:
  "\<exists>s. bench_main F erange (recording (ex_run_ops False)) ''/dslm'' (\<lambda>_. None) ((), []) = Some (s, Exit 1)
     \<and> load_config F erange ''/dslm'' (\<lambda>_. None) = Inr (default_Config ''/dslm'') \<and> cfg_teardown_on_exit (default_Config ''/dslm'')
     \<and> stack_up (default_Config ''/dslm'') False (snd (bs_world s))"
proof -
  let ?up = "compose_command (default_Config ''/dslm'') up_args @ '' 2>&1''"
  obtain front where front: "elem_at (build_curated_cases F (default_Config ''/dslm'')) 0 = Inr front" using curated_front by blast
  have "run_pass F erange (recording (ex_run_ops False)) (default_Config ''/dslm'') (build_curated_cases F (default_Config ''/dslm''))
      (Fin (- 1)) (ex_start_state\<lparr>bs_logger := Some logger\<rparr>)
    = Some (ex_start_state\<lparr>bs_logger := Some logger, bs_world := ((), [?up]), bs_stack_started := False\<rparr>,
        Inl (RuntimeError ''timed out waiting for Qdrant''))" for logger
    by (simp add: run_pass_def io_bind_def on_world_def io_lift_def front dead_start ex_start_state_def fail_def)
  then obtain logger where "bench_main F erange (recording (ex_run_ops False)) ''/dslm'' (\<lambda>_. None) ((), [])
    = main_handler (recording (ex_run_ops False)) (default_Config ''/dslm'')
        (ex_start_state\<lparr>bs_logger := Some logger, bs_world := ((), [?up]), bs_stack_started := False\<rparr>)"
    using ex_main[of F erange False] by fastforce
  moreover have "cfg_teardown_on_exit (default_Config ''/dslm'')" by (simp add: default_Config_def)
  ultimately show ?thesis by (simp add: main_handler_def close_logger_def ex_start_state_def ex_run_config)
qed

section \<open>Termination\<close>

text \<open>C29: the benchmark program ends. On a machine whose calls return and whose clock never goes back and
  advances over a sleep, the program returns from \<^verbatim>\<open>main\<close> in each of its modes: the wait for a leader and the
  soak rounds, which are bounded by the clock alone, come to their deadlines.\<close>

theorem bench_main_ends:
  assumes "bench_clock ops clock"
  shows "\<exists>s e. bench_main F erange ops proot env w = Some (s, e) \<and> clock w \<le> clock (bs_world s)"
  by (rule bench_clock.main_ends[OF assms])

theorem bench_main_ends_witness:
  "\<exists>s e. bench_main exact_fpu (\<lambda>_. False) (with_deadlines (ex_run_ops True)) ''/dslm''
     (\<lambda>key. if key = ''DSLM_RUN_MODE'' then Some ''soak'' else None) ((), 0) = Some (s, e)"
  using bench_main_ends[OF timed_host.bench_clock_axioms] by blast

end
