(* ===== verification/Gauntlet.thy ===== *)
theory Gauntlet
  imports BenchRun
begin

text \<open>
  The paraphrase gauntlet (\<^verbatim>\<open>src/paraphrase_gauntlet_demo.cpp\<close>): it asks the lock service, for each of three
  embedding models, to run ten paraphrases of one text and twelve requests of two unrelated texts, reads
  from the lock times which pairs were serialised, and reports the confusion matrix of the conflict test.
  Helpers that repeat the benchmark runner's word for word are taken from there: \<^verbatim>\<open>fail\<close>, \<^verbatim>\<open>shell_quote\<close>,
  \<^verbatim>\<open>getenv_flag\<close>, \<^verbatim>\<open>format_float\<close>, \<^verbatim>\<open>cosine_similarity\<close>, \<^verbatim>\<open>intervals_overlap\<close>, \<^verbatim>\<open>wait_for_http_service\<close> and the scans
  inside the JSON readers. The machine is the one of \<open>BenchRun\<close>; an HTTP exchange is one operation of it.
\<close>

section \<open>Data\<close>

definition kDefaultTheta :: fl where "kDefaultTheta = Fin (3 / 4)"

definition kGauntletCollection :: string where "kGauntletCollection = ''dscc_gauntlet_e2e''"

record GauntletConfig =
  gc_project_root :: string
  gc_input_dir :: string
  gc_embedding_image :: string
  gc_model_id :: string
  gc_embedding_profile :: string
  gc_embedding_host :: string
  gc_embedding_port :: string
  gc_qdrant_host :: string
  gc_qdrant_port :: string
  gc_dscc_target :: string
  gc_node_targets :: "string list"
  gc_node_service_names :: "string list"
  gc_theta :: fl
  gc_lock_hold_ms :: int
  gc_teardown_on_exit :: bool
  gc_output_path :: string

definition default_GauntletConfig :: "string \<Rightarrow> GauntletConfig" where
  "default_GauntletConfig project_root =
     \<lparr>gc_project_root = project_root, gc_input_dir = project_root @ ''/demo_inputs'', gc_embedding_image = ''ollama/ollama:latest'',
      gc_model_id = ''all-minilm:latest'', gc_embedding_profile = ''ollama'', gc_embedding_host = ''127.0.0.1'',
      gc_embedding_port = ''7997'', gc_qdrant_host = ''127.0.0.1'', gc_qdrant_port = ''6333'', gc_dscc_target = ''127.0.0.1:50050'',
      gc_node_targets = [''127.0.0.1:50051'', ''127.0.0.1:50052'', ''127.0.0.1:50053'', ''127.0.0.1:50054'', ''127.0.0.1:50055''],
      gc_node_service_names = [''dscc-node-1'', ''dscc-node-2'', ''dscc-node-3'', ''dscc-node-4'', ''dscc-node-5''],
      gc_theta = kDefaultTheta, gc_lock_hold_ms = 750, gc_teardown_on_exit = True, gc_output_path = []\<rparr>"

record GauntletDocument =
  gd_template_id :: string
  gd_source_file :: string
  gd_text :: string
  gd_embedding :: "fl list"

record GauntletOperation =
  go_agent_id :: string
  go_template_id :: string
  go_text :: string
  go_embedding :: "fl list"
  go_operation :: BenchOperationType
  go_scheduled_offset_ms :: int

record GauntletResult =
  gr_operation :: GauntletOperation
  gr_status :: Status
  gr_response :: AcquireResponse
  gr_submit_ms :: int
  gr_finish_ms :: int
  gr_elapsed_ms :: int

record ConfusionMatrix =
  cm_tp :: int
  cm_fn :: int
  cm_fp :: int
  cm_tn :: int

definition new_ConfusionMatrix :: ConfusionMatrix where
  "new_ConfusionMatrix = \<lparr>cm_tp = 0, cm_fn = 0, cm_fp = 0, cm_tn = 0\<rparr>"

record ClassificationMetrics =
  cl_accuracy :: fl
  cl_precision :: fl
  cl_recall :: fl
  cl_f1 :: fl
  cl_serialization_score :: fl
  cl_distinct_parallelism_rate :: fl
  cl_false_positive_rate :: fl

definition new_ClassificationMetrics :: ClassificationMetrics where
  "new_ClassificationMetrics = \<lparr>cl_accuracy = Fin 0, cl_precision = Fin 0, cl_recall = Fin 0, cl_f1 = Fin 0,
     cl_serialization_score = Fin 0, cl_distinct_parallelism_rate = Fin 0, cl_false_positive_rate = Fin 0\<rparr>"

record PairOutcome =
  po_scenario :: string
  po_text_a :: string
  po_text_b :: string
  po_agent_a :: string
  po_agent_b :: string
  po_cosine_similarity :: fl
  po_expected_conflict :: bool
  po_observed_serialized :: bool
  po_pass :: bool

record ModelRunResult =
  mr_profile_name :: string
  mr_model_id :: string
  mr_success :: bool
  mr_error_message :: string
  mr_matrix :: ConfusionMatrix
  mr_metrics :: ClassificationMetrics
  mr_pair_details :: "PairOutcome list"
  mr_paraphrase_ops :: int
  mr_cross_domain_ops :: int
  mr_embedding_dim :: nat

definition new_ModelRunResult :: ModelRunResult where
  "new_ModelRunResult = \<lparr>mr_profile_name = [], mr_model_id = [], mr_success = False, mr_error_message = [],
     mr_matrix = new_ConfusionMatrix, mr_metrics = new_ClassificationMetrics, mr_pair_details = [], mr_paraphrase_ops = 0,
     mr_cross_domain_ops = 0, mr_embedding_dim = 0\<rparr>"

section \<open>Text and configuration\<close>

definition gauntlet_escape_char :: "char \<Rightarrow> string" where
  "gauntlet_escape_char c =
     (if c = CHR 0x22 then [CHR 0x5C, CHR 0x22]
      else if c = CHR 0x5C then [CHR 0x5C, CHR 0x5C]
      else if c = CHR 0x0A then [CHR 0x5C, CHR ''n'']
      else if c = CHR 0x0D then [CHR 0x5C, CHR ''r'']
      else if c = CHR 0x09 then [CHR 0x5C, CHR ''t'']
      else [c])"

definition gauntlet_escape_json :: "string \<Rightarrow> string" where
  "gauntlet_escape_json s = concat (map gauntlet_escape_char s)"

definition gauntlet_load_config :: "fpu \<Rightarrow> (string \<Rightarrow> bool) \<Rightarrow> string \<Rightarrow> environ \<Rightarrow> GauntletConfig outcome" where
  "gauntlet_load_config F erange project_root env =
     (let c = default_GauntletConfig project_root;
          c1 = c\<lparr>gc_embedding_host := getenv_or_default env ''EMBEDDING_HOST'' (gc_embedding_host c),
                 gc_embedding_port := getenv_or_default env ''EMBEDDING_PORT'' (gc_embedding_port c),
                 gc_teardown_on_exit := getenv_flag env ''E2E_TEARDOWN'' True,
                 gc_output_path := getenv_or_default env ''DSLM_GAUNTLET_OUTPUT'' []\<rparr>
      in rbind (override_by (stof F erange) env ''DSLM_GAUNTLET_THETA'' (gc_theta c1)) (\<lambda>theta. Inr (c1\<lparr>gc_theta := theta\<rparr>)))"

definition gauntlet_float_token :: "fpu \<Rightarrow> string \<Rightarrow> fl outcome" where
  "gauntlet_float_token F tok =
     (case strtof F tok of
        None \<Rightarrow> fail (''bad float: '' @ tok)
      | Some (v, rest) \<Rightarrow> Inr v)"

fun gauntlet_token_loop :: "fpu \<Rightarrow> string \<Rightarrow> fl list \<Rightarrow> string \<Rightarrow> fl list outcome" where
  "gauntlet_token_loop F tok vals [] =
     (if tok \<noteq> [] then rbind (gauntlet_float_token F tok) (\<lambda>v. Inr (vals @ [v])) else Inr vals)"
| "gauntlet_token_loop F tok vals (ch # s) =
     (if ch = CHR '','' \<or> isspace ch then
        (if tok \<noteq> [] then rbind (gauntlet_float_token F tok) (\<lambda>v. gauntlet_token_loop F [] (vals @ [v]) s)
         else gauntlet_token_loop F tok vals s)
      else gauntlet_token_loop F (tok @ [ch]) vals s)"

definition gauntlet_embedding_array :: "fpu \<Rightarrow> string \<Rightarrow> fl list outcome" where
  "gauntlet_embedding_array F body =
     (case str_find body (quoted ''embedding'') of
        None \<Rightarrow> fail ''missing embedding field''
      | Some kp \<Rightarrow>
          (case find_at body ''['' kp of
             None \<Rightarrow> fail ''malformed embedding''
           | Some as \<Rightarrow>
               (case array_end_loop (as + 1) 1 (drop (as + 1) body) of
                  None \<Rightarrow> fail ''unterminated embedding array''
                | Some ae \<Rightarrow>
                    rbind (gauntlet_token_loop F [] [] (take (ae - (as + 1)) (drop (as + 1) body)))
                      (\<lambda>vals. if vals = [] then fail ''empty embedding vector'' else Inr vals))))"

definition gauntlet_read_file :: "string \<Rightarrow> string option \<Rightarrow> string outcome" where
  "gauntlet_read_file path contents =
     (case contents of
        None \<Rightarrow> fail (''could not open '' @ path)
      | Some raw \<Rightarrow>
          let t = rev (dropWhile (\<lambda>c. c = CHR 0x0A \<or> c = CHR 0x0D \<or> c = CHR '' '') (rev raw))
          in if t = [] then fail (''file empty: '' @ path) else Inr t)"

definition gauntlet_string_field :: "string \<Rightarrow> string \<Rightarrow> string outcome" where
  "gauntlet_string_field body key =
     (let qk = quoted key in
      case str_find body qk of
        None \<Rightarrow> fail (''missing field: '' @ key)
      | Some kp \<Rightarrow>
          (case find_at body '':'' (kp + length qk) of
             None \<Rightarrow> fail (''bad field: '' @ key)
           | Some col \<Rightarrow>
               (case find_at body dq (col + 1) of
                  None \<Rightarrow> fail (''bad field: '' @ key)
                | Some qt \<Rightarrow>
                    (case json_string_loop False [] (drop (qt + 1) body) of
                       None \<Rightarrow> fail (''unterminated string field: '' @ key)
                     | Some val \<Rightarrow> Inr val))))"

text \<open>The scan of the array is the benchmark runner's; only the search for its start differs.\<close>

definition gauntlet_schedule_entries :: "string \<Rightarrow> string list outcome" where
  "gauntlet_schedule_entries body =
     (case str_find body (quoted ''payload_schedule'') of
        None \<Rightarrow> Inr []
      | Some kp \<Rightarrow>
          (case find_at body ''['' kp of
             None \<Rightarrow> fail ''bad payload_schedule''
           | Some as \<Rightarrow>
               Inr (ss_entries (schedule_loop body (as + 1) (drop (as + 1) body)
                 \<lparr>ss_in_string = False, ss_escaping = False, ss_object_depth = 0, ss_object_start = None, ss_entries = []\<rparr>))))"

section \<open>Services and stack\<close>

definition gauntlet_shell_capture :: "'w run_ops \<Rightarrow> string \<Rightarrow> ('w, int \<times> string) io" where
  "gauntlet_shell_capture ops cmd w = do {
     (w1, pipe) \<leftarrow> ro_popen ops (cmd @ '' 2>&1'') w;
     Some (w1, case pipe of
        None \<Rightarrow> fail (''popen failed: '' @ cmd)
      | Some (raw, out) \<Rightarrow> Inr (exit_status raw, out)) }"

definition gauntlet_shell_or_throw :: "'w run_ops \<Rightarrow> string \<Rightarrow> string \<Rightarrow> ('w, unit) io" where
  "gauntlet_shell_or_throw ops cmd err =
     io_bind (gauntlet_shell_capture ops cmd) (\<lambda>(exit_code, out).
       io_lift (if exit_code \<noteq> 0 then fail (err @ nl @ out) else Inr ()))"

definition gauntlet_compose_command :: "GauntletConfig \<Rightarrow> string \<Rightarrow> string" where
  "gauntlet_compose_command c args = ''cd '' @ shell_quote (gc_project_root c) @ '' && docker compose '' @ args"

fun gauntlet_ping_loop :: "'w bench_ops \<Rightarrow> GauntletConfig \<Rightarrow> nat \<Rightarrow> int \<Rightarrow> 'w \<Rightarrow> ('w \<times> unit outcome) option" where
  "gauntlet_ping_loop ops c 0 ms w = Some (w, fail ''timed out waiting for DSCC proxy'')"
| "gauntlet_ping_loop ops c (Suc attempts) ms w = do {
     (w1, status) \<leftarrow> bw_ping ops (gc_dscc_target c) ''gauntlet-demo'' w;
     if status_ok status then Some (w1, Inr ()) else gauntlet_ping_loop ops c attempts ms (bw_sleep ops ms w1) }"

fun gauntlet_poll_targets :: "'w bench_ops \<Rightarrow> string list \<Rightarrow> 'w \<Rightarrow> ('w \<times> bool) option" where
  "gauntlet_poll_targets ops [] w = Some (w, False)"
| "gauntlet_poll_targets ops (t # ts) w = do {
     (w1, status, resp) \<leftarrow> bw_get_leader ops t w;
     if status_ok status \<and> li_leader_address resp \<noteq> [] then Some (w1, True) else gauntlet_poll_targets ops ts w1 }"

partial_function (option) gauntlet_leader_loop ::
  "'w bench_ops \<Rightarrow> string list \<Rightarrow> int \<Rightarrow> 'w \<Rightarrow> ('w \<times> unit outcome) option" where
  "gauntlet_leader_loop ops targets deadline w =
     (let (w1, now) = bw_now ops w in
      if now < deadline then do {
        (w2, found) \<leftarrow> gauntlet_poll_targets ops targets w1;
        if found then Some (w2, Inr ()) else gauntlet_leader_loop ops targets deadline (bw_sleep ops 100 w2) }
      else Some (w1, fail ''timed out waiting for leader''))"

definition gauntlet_wait_for_leader :: "'w bench_ops \<Rightarrow> GauntletConfig \<Rightarrow> int \<Rightarrow> 'w \<Rightarrow> ('w \<times> unit outcome) option" where
  "gauntlet_wait_for_leader ops c timeout w =
     (let (w1, now) = bw_now ops w in gauntlet_leader_loop ops (gc_node_targets c) (now + timeout) w1)"

definition gauntlet_http ::
  "'w bench_ops \<Rightarrow> string \<Rightarrow> string \<Rightarrow> string \<Rightarrow> string \<Rightarrow> string \<Rightarrow> (HttpResponse \<Rightarrow> 'a outcome) \<Rightarrow> ('w, 'a) io" where
  "gauntlet_http ops host port verb target body check w = do {
     (w1, response) \<leftarrow> bw_http ops host port verb target body w;
     Some (w1, rbind response check) }"

definition gauntlet_reset_collection :: "'w bench_ops \<Rightarrow> GauntletConfig \<Rightarrow> string \<Rightarrow> ('w, unit) io" where
  "gauntlet_reset_collection ops c col =
     gauntlet_http ops (gc_qdrant_host c) (gc_qdrant_port c) ''DELETE'' (''/collections/'' @ col) [] (\<lambda>r.
       if http_status_code r \<noteq> 200 \<and> http_status_code r \<noteq> 202 \<and> http_status_code r \<noteq> 404
       then fail ''failed to reset Qdrant collection'' else Inr ())"

definition gauntlet_create_collection :: "'w bench_ops \<Rightarrow> GauntletConfig \<Rightarrow> string \<Rightarrow> nat \<Rightarrow> ('w, unit) io" where
  "gauntlet_create_collection ops c col vector_size =
     gauntlet_http ops (gc_qdrant_host c) (gc_qdrant_port c) ''PUT'' (''/collections/'' @ col)
       (CHR 0x7B # quoted ''vectors'' @ '':'' @ [CHR 0x7B] @ quoted ''size'' @ '':'' @ nat_to_string vector_size @ '',''
          @ quoted ''distance'' @ '':'' @ quoted ''Cosine'' @ [CHR 0x7D, CHR 0x7D]) (\<lambda>r.
       if http_status_code r \<noteq> 200 \<and> http_status_code r \<noteq> 201 \<and> http_status_code r \<noteq> 409
       then fail (''failed to create Qdrant collection: '' @ http_body r) else Inr ())"

definition gauntlet_point_count :: "'w bench_ops \<Rightarrow> GauntletConfig \<Rightarrow> string \<Rightarrow> ('w, int) io" where
  "gauntlet_point_count ops c col =
     gauntlet_http ops (gc_qdrant_host c) (gc_qdrant_port c) ''POST'' (''/collections/'' @ col @ ''/points/count'')
       (CHR 0x7B # quoted ''exact'' @ '':true'' @ [CHR 0x7D]) (\<lambda>r.
       if http_status_code r \<noteq> 200 then fail ''Qdrant count failed'' else parse_count (http_body r))"

definition model_request :: "string \<Rightarrow> string \<Rightarrow> string" where
  "model_request model input =
     CHR 0x7B # quoted ''model'' @ '':'' @ quoted (gauntlet_escape_json model) @ '','' @ quoted ''input'' @ '':''
       @ quoted (gauntlet_escape_json input) @ [CHR 0x7D]"

definition gauntlet_request_embedding :: "fpu \<Rightarrow> 'w bench_ops \<Rightarrow> GauntletConfig \<Rightarrow> string \<Rightarrow> ('w, fl list) io" where
  "gauntlet_request_embedding F ops c input =
     gauntlet_http ops (gc_embedding_host c) (gc_embedding_port c) ''POST'' ''/v1/embeddings'' (model_request (gc_model_id c) input) (\<lambda>r.
       if http_status_code r \<noteq> 200 then fail (''embedding request failed (status '' @ to_string (http_status_code r) @ '')'')
       else gauntlet_embedding_array F (http_body r))"

definition set_stack_environment :: "'w run_ops \<Rightarrow> GauntletConfig \<Rightarrow> 'w \<Rightarrow> 'w" where
  "set_stack_environment ops c w =
     fold (\<lambda>(key, v). ro_setenv ops key v)
       [(''EMBEDDING_IMAGE'', gc_embedding_image c), (''EMBEDDING_MODEL_ID'', gc_model_id c),
        (''INFINITY_IMAGE'', gc_embedding_image c), (''INFINITY_MODEL_ID'', gc_model_id c),
        (''QDRANT_COLLECTION'', kGauntletCollection), (''DSCC_THETA'', fixed_text 2 (gc_theta c)),
        (''DSCC_LOCK_HOLD_MS'', to_string (gc_lock_hold_ms c))] w"

fun pull_all_models :: "'w bench_ops \<Rightarrow> GauntletConfig \<Rightarrow> EmbeddingProfile list \<Rightarrow> ('w, unit) io" where
  "pull_all_models ops c [] = io_lift (Inr ())"
| "pull_all_models ops c (profile # profiles) =
     io_bind (gauntlet_http ops (gc_embedding_host c) (gc_embedding_port c) ''POST'' ''/api/pull''
       (CHR 0x7B # quoted ''model'' @ '':'' @ quoted (gauntlet_escape_json (ep_model_id profile)) @ '',''
          @ quoted ''stream'' @ '':false'' @ [CHR 0x7D]) (\<lambda>r.
       if http_status_code r \<noteq> 200
       then fail (''model pull failed for '' @ ep_model_id profile @ '' (status '' @ to_string (http_status_code r) @ '')'')
       else Inr ())) (\<lambda>_. pull_all_models ops c profiles)"

definition gauntlet_up_args :: string where
  "gauntlet_up_args = ''up -d --build qdrant embedding-service ''
     @ ''dscc-node-1 dscc-node-2 dscc-node-3 dscc-node-4 dscc-node-5 dscc-proxy''"

definition start_full_stack :: "'w run_ops \<Rightarrow> GauntletConfig \<Rightarrow> ('w, unit) io" where
  "start_full_stack ops c =
     io_bind (io_modify (set_stack_environment ops c)) (\<lambda>_.
     io_bind (gauntlet_shell_or_throw ops (gauntlet_compose_command c gauntlet_up_args) ''docker compose up failed'') (\<lambda>_.
     io_bind (wait_for_http_service (ro_bench ops) ''Qdrant'' (gc_qdrant_host c) (gc_qdrant_port c) [''/collections'', ''/''] 120 1000) (\<lambda>_.
     io_bind (wait_for_http_service (ro_bench ops) ''embedding service'' (gc_embedding_host c) (gc_embedding_port c)
       [''/api/tags'', ''/v1/models'', ''/''] 120 1000) (\<lambda>_.
     io_bind (pull_all_models (ro_bench ops) c kProfiles) (\<lambda>_.
     io_bind (gauntlet_wait_for_leader (ro_bench ops) c 15000) (\<lambda>_.
       gauntlet_ping_loop (ro_bench ops) c 90 1000))))))"

definition verify_model_active :: "fpu \<Rightarrow> 'w bench_ops \<Rightarrow> GauntletConfig \<Rightarrow> ('w, nat) io" where
  "verify_model_active F ops c =
     gauntlet_http ops (gc_embedding_host c) (gc_embedding_port c) ''POST'' ''/v1/embeddings''
       (model_request (gc_model_id c) ''embedding model verification probe'') (\<lambda>r.
       if http_status_code r \<noteq> 200
       then fail (''model probe failed for '' @ gc_model_id c @ '' (status '' @ to_string (http_status_code r) @ '')'')
       else rbind (gauntlet_embedding_array F (http_body r)) (\<lambda>vec. Inr (length vec)))"

definition stop_full_stack :: "'w run_ops \<Rightarrow> GauntletConfig \<Rightarrow> ('w, unit) io" where
  "stop_full_stack ops c =
     io_bind (gauntlet_shell_capture ops (gauntlet_compose_command c ''down'')) (\<lambda>(exit_code, out). io_lift (Inr ()))"

section \<open>Templates and workloads\<close>

record GauntletTemplates =
  gt_all :: "GauntletDocument list"
  gt_concept_a_all :: "GauntletDocument list"
  gt_concept_a :: "GauntletDocument option"
  gt_concept_b :: "GauntletDocument option"
  gt_embedding_dim :: nat

record gauntlet_load =
  gl_seen :: "string set"
  gl_all :: "GauntletDocument list"
  gl_counter :: int

fun gauntlet_entries ::
  "fpu \<Rightarrow> 'w bench_ops \<Rightarrow> GauntletConfig \<Rightarrow> string \<Rightarrow> string list \<Rightarrow> gauntlet_load \<Rightarrow> ('w, gauntlet_load) io" where
  "gauntlet_entries F ops c file [] st = io_lift (Inr st)"
| "gauntlet_entries F ops c file (entry # entries) st =
     io_bind (io_lift (gauntlet_string_field entry ''payload'')) (\<lambda>payload.
       if payload \<in> gl_seen st then gauntlet_entries F ops c file entries st
       else io_bind (gauntlet_request_embedding F ops c payload) (\<lambda>embedding.
         gauntlet_entries F ops c file entries
           \<lparr>gl_seen = insert payload (gl_seen st),
            gl_all = gl_all st @ [\<lparr>gd_template_id = ''tpl-'' @ to_string (gl_counter st + 1), gd_source_file = file, gd_text = payload,
              gd_embedding = embedding\<rparr>],
            gl_counter = gl_counter st + 1\<rparr>))"

fun gauntlet_labels ::
  "fpu \<Rightarrow> 'w bench_ops \<Rightarrow> GauntletConfig \<Rightarrow> string \<Rightarrow> gauntlet_load \<Rightarrow> ('w, gauntlet_load) io" where
  "gauntlet_labels F ops c [] st = io_lift (Inr st)"
| "gauntlet_labels F ops c (label # labels) st =
     (let file = label # ''.json''; jp = path_append (gc_input_dir c) file in
      io_bind (\<lambda>w. let (w1, present) = bw_exists ops jp w in Some (w1, Inr present)) (\<lambda>present.
      io_bind (io_lift (if present then Inr () else fail (''missing '' @ jp))) (\<lambda>_.
      io_bind (\<lambda>w. let (w1, contents) = bw_read ops jp w in Some (w1, gauntlet_read_file jp contents)) (\<lambda>json.
      io_bind (io_lift (gauntlet_schedule_entries json)) (\<lambda>entries.
      io_bind (gauntlet_entries F ops c file (if entries = [] then [json] else entries) st) (\<lambda>st'.
        gauntlet_labels F ops c labels st'))))))"

text \<open>Pointers into \<^verbatim>\<open>gt.all\<close> are the documents they point to: the vector is not changed once they are taken.\<close>

definition load_gauntlet_templates :: "fpu \<Rightarrow> 'w bench_ops \<Rightarrow> GauntletConfig \<Rightarrow> ('w, GauntletTemplates) io" where
  "load_gauntlet_templates F ops c =
     io_bind (gauntlet_labels F ops c ''AD'' \<lparr>gl_seen = {}, gl_all = [], gl_counter = 0\<rparr>) (\<lambda>st.
       let docs = gl_all st; concept_a_all = filter (\<lambda>d. gd_source_file d = ''A.json'') docs;
           concept_b_all = filter (\<lambda>d. gd_source_file d = ''D.json'') docs
       in io_lift (if concept_a_all = [] then fail ''no A.json templates found''
         else if concept_b_all = [] then fail ''no D.json templates found''
         else rbind (elem_at docs 0) (\<lambda>front.
           Inr \<lparr>gt_all = docs, gt_concept_a_all = concept_a_all, gt_concept_a = Some (hd concept_a_all),
             gt_concept_b = Some (hd concept_b_all), gt_embedding_dim = length (gd_embedding front)\<rparr>)))"

definition gauntlet_op :: "string \<Rightarrow> GauntletDocument \<Rightarrow> GauntletOperation" where
  "gauntlet_op agent_id tmpl =
     \<lparr>go_agent_id = agent_id, go_template_id = gd_template_id tmpl, go_text = gd_text tmpl, go_embedding = gd_embedding tmpl,
      go_operation = kWrite, go_scheduled_offset_ms = 0\<rparr>"

fun paraphrase_loop :: "GauntletDocument list \<Rightarrow> nat list \<Rightarrow> GauntletOperation list outcome" where
  "paraphrase_loop docs [] = Inr []"
| "paraphrase_loop docs (i # is) =
     (if docs = [] then Inl (Undefined OutOfBounds)
      else rbind (elem_at docs (i mod length docs)) (\<lambda>tmpl. rbind (paraphrase_loop docs is) (\<lambda>rest.
        Inr (gauntlet_op (''paraphrase_agent_'' @ nat_to_string (i + 1)) tmpl # rest))))"

definition build_paraphrase_workload :: "GauntletTemplates \<Rightarrow> GauntletOperation list outcome" where
  "build_paraphrase_workload gt = paraphrase_loop (gt_concept_a_all gt) [0..<10]"

definition build_cross_domain_workload :: "GauntletTemplates \<Rightarrow> GauntletOperation list outcome" where
  "build_cross_domain_workload gt =
     (case (gt_concept_a gt, gt_concept_b gt) of
        (Some a, Some b) \<Rightarrow>
          Inr (map (\<lambda>i. if i < 6 then gauntlet_op (''sustainability_agent_'' @ nat_to_string (i + 1)) a
                       else gauntlet_op (''construction_agent_'' @ nat_to_string (i - 5)) b) [0..<12])
      | _ \<Rightarrow> Inl NullDereference)"

definition gauntlet_request :: "int \<Rightarrow> GauntletOperation \<Rightarrow> AcquireRequest" where
  "gauntlet_request unix_base op =
     \<lparr>rq_agent_id = go_agent_id op, rq_embedding = go_embedding op, rq_payload_text = go_text op, rq_source_file = go_template_id op,
      rq_timestamp_unix_ms = unix_base + go_scheduled_offset_ms op, rq_operation_type = to_proto_operation (go_operation op)\<rparr>"

definition gauntlet_result :: "GauntletOperation \<Rightarrow> client_call \<Rightarrow> GauntletResult" where
  "gauntlet_result op call =
     \<lparr>gr_operation = op, gr_status = cc_status call, gr_response = cc_response call, gr_submit_ms = cc_submit_ms call,
      gr_finish_ms = cc_exit_ms call, gr_elapsed_ms = cc_exit_ms call - cc_submit_ms call\<rparr>"

definition gauntlet_clients :: "'w run_ops \<Rightarrow> GauntletOperation list \<Rightarrow> ('w, GauntletResult list) io" where
  "gauntlet_clients ops workload w =
     (let (w1, unix_base) = ro_unix_ms ops w in do {
        (w2, calls) \<leftarrow> ro_clients ops (map (\<lambda>op. (go_scheduled_offset_ms op, gauntlet_request unix_base op)) workload) w1;
        Some (w2, Inr (map (\<lambda>i. gauntlet_result (workload ! i) (calls i)) [0..<length workload])) })"

definition run_scenario_traffic ::
  "'w run_ops \<Rightarrow> GauntletConfig \<Rightarrow> string \<Rightarrow> GauntletOperation list \<Rightarrow> ('w, GauntletResult list) io" where
  "run_scenario_traffic ops c collection workload =
     io_bind (gauntlet_reset_collection (ro_bench ops) c collection) (\<lambda>_.
     io_bind (io_lift (elem_at workload 0)) (\<lambda>front.
     io_bind (gauntlet_create_collection (ro_bench ops) c collection (length (go_embedding front))) (\<lambda>_.
     io_bind (gauntlet_clients ops workload) (\<lambda>results.
     io_bind (gauntlet_point_count (ro_bench ops) c collection) (\<lambda>actual.
       let expected_writes = int (length (filter (\<lambda>op. go_operation op = kWrite) workload)) in
       io_lift (if actual \<noteq> expected_writes
         then fail (''Qdrant count mismatch: expected='' @ to_string expected_writes @ '' actual='' @ to_string actual)
         else Inr results))))))"

section \<open>The confusion matrix\<close>

definition pair_outcome :: "fpu \<Rightarrow> string \<Rightarrow> fl \<Rightarrow> GauntletResult \<Rightarrow> GauntletResult \<Rightarrow> PairOutcome" where
  "pair_outcome F scenario_label theta a b =
     (let sim = bench_cosine_similarity F (go_embedding (gr_operation a)) (go_embedding (gr_operation b));
          expected_conflict = fl_le theta sim;
          overlap = intervals_overlap (rs_lock_acquired_unix_ms (gr_response a)) (rs_lock_released_unix_ms (gr_response a))
            (rs_lock_acquired_unix_ms (gr_response b)) (rs_lock_released_unix_ms (gr_response b));
          observed_serialized = (\<not> overlap)
      in \<lparr>po_scenario = scenario_label, po_text_a = go_text (gr_operation a), po_text_b = go_text (gr_operation b),
          po_agent_a = go_agent_id (gr_operation a), po_agent_b = go_agent_id (gr_operation b), po_cosine_similarity = sim,
          po_expected_conflict = expected_conflict, po_observed_serialized = observed_serialized,
          po_pass = (expected_conflict = observed_serialized)\<rparr>)"

definition count_outcome :: "PairOutcome \<Rightarrow> ConfusionMatrix \<Rightarrow> ConfusionMatrix" where
  "count_outcome po cm =
     (if po_expected_conflict po \<and> po_observed_serialized po then cm\<lparr>cm_tp := cm_tp cm + 1\<rparr>
      else if po_expected_conflict po \<and> \<not> po_observed_serialized po then cm\<lparr>cm_fn := cm_fn cm + 1\<rparr>
      else if \<not> po_expected_conflict po \<and> po_observed_serialized po then cm\<lparr>cm_fp := cm_fp cm + 1\<rparr>
      else cm\<lparr>cm_tn := cm_tn cm + 1\<rparr>)"

definition was_granted :: "GauntletResult \<Rightarrow> bool" where
  "was_granted r = (status_ok (gr_status r) \<and> rs_granted (gr_response r))"

fun analyze_with ::
  "fpu \<Rightarrow> string \<Rightarrow> fl \<Rightarrow> GauntletResult \<Rightarrow> GauntletResult list \<Rightarrow> ConfusionMatrix \<times> PairOutcome list
   \<Rightarrow> ConfusionMatrix \<times> PairOutcome list" where
  "analyze_with F scenario_label theta a [] acc = acc"
| "analyze_with F scenario_label theta a (b # bs) (cm, pairs) =
     (if \<not> was_granted a \<or> \<not> was_granted b then analyze_with F scenario_label theta a bs (cm, pairs)
      else let po = pair_outcome F scenario_label theta a b
           in analyze_with F scenario_label theta a bs (count_outcome po cm, pairs @ [po]))"

fun analyze_pairs ::
  "fpu \<Rightarrow> string \<Rightarrow> GauntletResult list \<Rightarrow> fl \<Rightarrow> ConfusionMatrix \<times> PairOutcome list \<Rightarrow> ConfusionMatrix \<times> PairOutcome list" where
  "analyze_pairs F scenario_label [] theta acc = acc"
| "analyze_pairs F scenario_label (a # ops) theta acc =
     analyze_pairs F scenario_label ops theta (analyze_with F scenario_label theta a ops acc)"

definition ratio :: "fpu \<Rightarrow> int \<Rightarrow> int \<Rightarrow> fl" where
  "ratio F n d = (if d > 0 then fl_div F (dbl F n) (dbl F d) else Fin 0)"

definition compute_classification_metrics :: "fpu \<Rightarrow> ConfusionMatrix \<Rightarrow> ClassificationMetrics" where
  "compute_classification_metrics F cm =
     (let total = cm_tp cm + cm_tn cm + cm_fp cm + cm_fn cm;
          precision = ratio F (cm_tp cm) (cm_tp cm + cm_fp cm); recall = ratio F (cm_tp cm) (cm_tp cm + cm_fn cm)
      in \<lparr>cl_accuracy = ratio F (cm_tp cm + cm_tn cm) total, cl_precision = precision, cl_recall = recall,
          cl_f1 = (if fl_less (Fin 0) (fl_add F precision recall)
             then fl_div F (fl_mul F (fl_mul F (Fin 2) precision) recall) (fl_add F precision recall) else Fin 0),
          cl_serialization_score = recall, cl_distinct_parallelism_rate = ratio F (cm_tn cm) (cm_tn cm + cm_fp cm),
          cl_false_positive_rate = ratio F (cm_fp cm) (cm_fp cm + cm_tn cm)\<rparr>)"

section \<open>The results file\<close>

fun best_run :: "ModelRunResult option \<Rightarrow> ModelRunResult list \<Rightarrow> ModelRunResult option" where
  "best_run best [] = best"
| "best_run best (r # runs) =
     (if \<not> mr_success r then best_run best runs
      else case best of
          None \<Rightarrow> best_run (Some r) runs
        | Some b \<Rightarrow> best_run (if fl_less (cl_f1 (mr_metrics b)) (cl_f1 (mr_metrics r)) then Some r else Some b) runs)"

definition generate_conclusion :: "fpu \<Rightarrow> ModelRunResult list \<Rightarrow> fl \<Rightarrow> string" where
  "generate_conclusion F runs theta =
     (case best_run None runs of
        None \<Rightarrow> ''All model runs failed; no comparative conclusion can be drawn.''
      | Some best \<Rightarrow>
          mr_model_id best @ '' achieved the highest F1 of '' @ format_float (cl_f1 (mr_metrics best)) 3
          @ '' at theta='' @ format_float theta 2 @ '', correctly serializing ''
          @ format_float (fl_mul F (cl_recall (mr_metrics best)) (Fin 100)) 1
          @ ''% of paraphrase pairs while allowing ''
          @ format_float (fl_mul F (cl_distinct_parallelism_rate (mr_metrics best)) (Fin 100)) 1
          @ ''% of cross-domain pairs to run in parallel.'')"

definition gjstr :: "string \<Rightarrow> string" where "gjstr s = quoted (gauntlet_escape_json s)"

definition pair_fields :: "PairOutcome \<Rightarrow> fields" where
  "pair_fields p =
     [(''scenario'', gjstr (po_scenario p)), (''text_a'', gjstr (po_text_a p)), (''text_b'', gjstr (po_text_b p)),
      (''agent_a'', gjstr (po_agent_a p)), (''agent_b'', gjstr (po_agent_b p)),
      (''cosine_similarity'', fixed_text 6 (po_cosine_similarity p)),
      (''expected_outcome'', quoted (if po_expected_conflict p then ''conflict'' else ''no_conflict'')),
      (''observed_outcome'', quoted (if po_observed_serialized p then ''serialized'' else ''parallel'')),
      (''pass'', jbool (po_pass p))]"

definition write_pair_json :: "PairOutcome \<Rightarrow> string" where
  "write_pair_json p = lines_object 12 (pair_fields p)"

definition matrix_fields :: "ConfusionMatrix \<Rightarrow> fields" where
  "matrix_fields cm = [(''TP'', to_string (cm_tp cm)), (''FN'', to_string (cm_fn cm)), (''FP'', to_string (cm_fp cm)), (''TN'', to_string (cm_tn cm))]"

definition classification_fields :: "ClassificationMetrics \<Rightarrow> fields" where
  "classification_fields m =
     [(''accuracy'', format_float (cl_accuracy m) 3), (''precision'', format_float (cl_precision m) 3),
      (''recall'', format_float (cl_recall m) 3), (''f1_score'', format_float (cl_f1 m) 3),
      (''serialization_score'', format_float (cl_serialization_score m) 3),
      (''distinct_parallelism_rate'', format_float (cl_distinct_parallelism_rate m) 3),
      (''false_positive_rate'', format_float (cl_false_positive_rate m) 3)]"

definition model_fields :: "ModelRunResult \<Rightarrow> fields" where
  "model_fields r =
     [(''profile'', gjstr (mr_profile_name r)), (''model_id'', gjstr (mr_model_id r)), (''success'', jbool (mr_success r))]
     @ (if \<not> mr_success r then [(''error'', gjstr (mr_error_message r))]
        else [(''embedding_dim'', nat_to_string (mr_embedding_dim r)), (''paraphrase_ops'', to_string (mr_paraphrase_ops r)),
              (''cross_domain_ops'', to_string (mr_cross_domain_ops r)),
              (''total_pairs_analyzed'', nat_to_string (length (mr_pair_details r))),
              (''confusion_matrix'', lines_object 6 (matrix_fields (mr_matrix r))),
              (''classification_metrics'', lines_object 6 (classification_fields (mr_metrics r))),
              (''pair_details'', ''['' @ nl @ item_lines 12 (map write_pair_json (mr_pair_details r)) @ indent 6 @ '']'')])"

definition write_model_section :: "ModelRunResult \<Rightarrow> string" where
  "write_model_section r = lines_object 4 (model_fields r)"

fun spaced_fields :: "fields \<Rightarrow> string" where
  "spaced_fields [] = []"
| "spaced_fields [(key, v)] = quoted key @ '': '' @ v"
| "spaced_fields ((key, v) # fs) = quoted key @ '': '' @ v @ '', '' @ spaced_fields fs"

definition summary_fields :: "ModelRunResult \<Rightarrow> fields" where
  "summary_fields r =
     (''model'', gjstr (mr_model_id r)) #
     (if mr_success r
      then (''embedding_dim'', nat_to_string (mr_embedding_dim r)) # matrix_fields (mr_matrix r) @ classification_fields (mr_metrics r)
      else [(''error'', gjstr (mr_error_message r))])"

definition summary_row :: "ModelRunResult \<Rightarrow> string" where
  "summary_row r = [CHR 0x7B] @ spaced_fields (summary_fields r) @ [CHR 0x7D]"

definition write_summary_table :: "ModelRunResult list \<Rightarrow> string" where
  "write_summary_table runs = ''['' @ nl @ item_lines 4 (map summary_row runs) @ indent 2 @ '']''"

definition results_fields :: "fpu \<Rightarrow> ModelRunResult list \<Rightarrow> GauntletConfig \<Rightarrow> int \<Rightarrow> fields" where
  "results_fields F runs c ts =
     [(''demo'', quoted ''paraphrase_gauntlet_matrix''), (''timestamp_unix_s'', to_string ts), (''theta'', format_float (gc_theta c) 2),
      (''models_tested'', nat_to_string (length runs)), (''paraphrase_ops_per_model'', ''10''), (''cross_domain_ops_per_model'', ''12''),
      (''docker_compose'', quoted ''docker-compose.yml''), (''project_root'', gjstr (gc_project_root c)),
      (''summary_comparison'', write_summary_table runs), (''conclusion'', gjstr (generate_conclusion F runs (gc_theta c))),
      (''model_runs'', ''['' @ nl @ item_lines 4 (map write_model_section runs) @ indent 2 @ '']'')]"

definition results_text :: "fpu \<Rightarrow> ModelRunResult list \<Rightarrow> GauntletConfig \<Rightarrow> int \<Rightarrow> string" where
  "results_text F runs c ts = lines_object 0 (results_fields F runs c ts) @ nl"

section \<open>The program\<close>

definition gauntlet_default_path :: "GauntletConfig \<Rightarrow> int \<Rightarrow> string" where
  "gauntlet_default_path c ts =
     path_append (path_append (gc_project_root c) ''logs'') (''paraphrase_gauntlet_results_'' @ to_string ts @ ''.json'')"

definition gauntlet_output_path :: "'w run_ops \<Rightarrow> GauntletConfig \<Rightarrow> ('w, string) io" where
  "gauntlet_output_path ops c =
     (if gc_output_path c = [] then io_bind (unix_seconds ops) (\<lambda>ts. io_lift (Inr (gauntlet_default_path c ts)))
      else io_lift (Inr (gc_output_path c)))"

definition with_profile :: "EmbeddingProfile \<Rightarrow> GauntletConfig \<Rightarrow> GauntletConfig" where
  "with_profile profile c =
     c\<lparr>gc_embedding_profile := ep_name profile, gc_model_id := ep_model_id profile, gc_embedding_image := ep_image profile\<rparr>"

text \<open>The body of the inner \<^verbatim>\<open>try\<close>: it changes the run it fills in, which keeps what was set when an exception leaves it.\<close>

definition run_world :: "('w, 'a) io \<Rightarrow> ('w \<times> ModelRunResult, 'a) io" where
  "run_world m s = map_option (\<lambda>(w, r). ((w, snd s), r)) (m (fst s))"

definition update_run :: "(ModelRunResult \<Rightarrow> ModelRunResult) \<Rightarrow> ('w \<times> ModelRunResult, unit) io" where
  "update_run f = io_modify (\<lambda>(w, run). (w, f run))"

definition analyze_run :: "fpu \<Rightarrow> fl \<Rightarrow> GauntletResult list \<Rightarrow> GauntletResult list \<Rightarrow> ModelRunResult \<Rightarrow> ModelRunResult" where
  "analyze_run F theta para_results xdom_results run =
     (let acc = analyze_pairs F ''paraphrase_gauntlet'' para_results theta (mr_matrix run, mr_pair_details run);
          (matrix, pair_details) = analyze_pairs F ''cross_domain_flood'' xdom_results theta acc
      in run\<lparr>mr_matrix := matrix, mr_pair_details := pair_details, mr_metrics := compute_classification_metrics F matrix,
             mr_success := True\<rparr>)"

definition model_body :: "fpu \<Rightarrow> 'w run_ops \<Rightarrow> GauntletConfig \<Rightarrow> ('w \<times> ModelRunResult, unit) io" where
  "model_body F ops c =
     io_bind (run_world (verify_model_active F (ro_bench ops) c)) (\<lambda>probe_dim.
     io_bind (run_world (load_gauntlet_templates F (ro_bench ops) c)) (\<lambda>gt.
     io_bind (update_run (\<lambda>run. run\<lparr>mr_embedding_dim := gt_embedding_dim gt\<rparr>)) (\<lambda>_.
     io_bind (io_lift (if gt_embedding_dim gt \<noteq> probe_dim
       then fail (''embedding dimension mismatch: probe='' @ nat_to_string probe_dim @ '' templates='' @ nat_to_string (gt_embedding_dim gt))
       else Inr ())) (\<lambda>_.
     io_bind (io_lift (build_paraphrase_workload gt)) (\<lambda>para_workload.
     io_bind (run_world (run_scenario_traffic ops c kGauntletCollection para_workload)) (\<lambda>para_results.
     io_bind (update_run (\<lambda>run. run\<lparr>mr_paraphrase_ops := int (length para_results)\<rparr>)) (\<lambda>_.
     io_bind (io_lift (build_cross_domain_workload gt)) (\<lambda>xdom_workload.
     io_bind (run_world (run_scenario_traffic ops c kGauntletCollection xdom_workload)) (\<lambda>xdom_results.
     io_bind (update_run (\<lambda>run. run\<lparr>mr_cross_domain_ops := int (length xdom_results)\<rparr>)) (\<lambda>_.
       update_run (analyze_run F (gc_theta c) para_results xdom_results)))))))))))"

definition run_model ::
  "fpu \<Rightarrow> (exn \<Rightarrow> string) \<Rightarrow> 'w run_ops \<Rightarrow> GauntletConfig \<Rightarrow> EmbeddingProfile \<Rightarrow> ('w, ModelRunResult) io" where
  "run_model F lib_what ops c profile w = do {
     ((w1, run), r) \<leftarrow> model_body F ops c (w, new_ModelRunResult\<lparr>mr_profile_name := ep_name profile, mr_model_id := ep_model_id profile\<rparr>);
     Some (w1, case r of
        Inr u \<Rightarrow> Inr run
      | Inl e \<Rightarrow> if is_exception e then Inr (run\<lparr>mr_success := False, mr_error_message := what_text lib_what e\<rparr>) else Inl e) }"

fun run_models ::
  "fpu \<Rightarrow> (exn \<Rightarrow> string) \<Rightarrow> 'w run_ops \<Rightarrow> GauntletConfig \<Rightarrow> EmbeddingProfile list \<Rightarrow> ('w, ModelRunResult list) io" where
  "run_models F lib_what ops c [] = io_lift (Inr [])"
| "run_models F lib_what ops c (profile # profiles) =
     io_bind (run_model F lib_what ops (with_profile profile c) profile) (\<lambda>run.
     io_bind (run_models F lib_what ops c profiles) (\<lambda>runs. io_lift (Inr (run # runs))))"

record 'w gauntlet_state =
  ga_world :: 'w
  ga_stack_started :: bool
  ga_files :: "(string \<times> string) list"

definition gauntlet_world :: "('w, 'a) io \<Rightarrow> ('w gauntlet_state, 'a) io" where
  "gauntlet_world m s = map_option (\<lambda>(w, r). (s\<lparr>ga_world := w\<rparr>, r)) (m (ga_world s))"

definition write_results_json :: "fpu \<Rightarrow> 'w run_ops \<Rightarrow> string \<Rightarrow> ModelRunResult list \<Rightarrow> GauntletConfig \<Rightarrow> ('w gauntlet_state, unit) io" where
  "write_results_json F ops path runs c =
     io_bind (gauntlet_world (unix_seconds ops)) (\<lambda>ts.
     io_bind (gauntlet_world (open_file ops path)) (\<lambda>opened.
     io_bind (io_lift (if opened then Inr () else fail (''could not write results to '' @ path))) (\<lambda>_.
       io_modify (\<lambda>s. s\<lparr>ga_files := ga_files s @ [(path, results_text F runs c ts)]\<rparr>))))"

text \<open>The body of the outer \<^verbatim>\<open>try\<close> after \<^verbatim>\<open>load_config\<close>; \<^verbatim>\<open>kProfiles\<close> are those of the benchmark runner.\<close>

definition gauntlet_body :: "fpu \<Rightarrow> (exn \<Rightarrow> string) \<Rightarrow> 'w run_ops \<Rightarrow> GauntletConfig \<Rightarrow> ('w gauntlet_state, unit) io" where
  "gauntlet_body F lib_what ops config =
     io_bind (gauntlet_world (gauntlet_output_path ops config)) (\<lambda>output_path.
       io_bind (io_lift (elem_at kProfiles 0)) (\<lambda>first.
       io_bind (gauntlet_world (start_full_stack ops (with_profile first config))) (\<lambda>_.
       io_bind (io_modify (\<lambda>s. s\<lparr>ga_stack_started := True\<rparr>)) (\<lambda>_.
       io_bind (gauntlet_world (run_models F lib_what ops config kProfiles)) (\<lambda>all_runs.
       io_bind (if gc_teardown_on_exit config
                then io_bind (gauntlet_world (stop_full_stack ops config)) (\<lambda>_. io_modify (\<lambda>s. s\<lparr>ga_stack_started := False\<rparr>))
                else io_lift (Inr ())) (\<lambda>_.
         write_results_json F ops output_path all_runs config))))))"

definition gauntlet_main ::
  "fpu \<Rightarrow> (string \<Rightarrow> bool) \<Rightarrow> (exn \<Rightarrow> string) \<Rightarrow> 'w run_ops \<Rightarrow> string \<Rightarrow> environ \<Rightarrow> 'w \<Rightarrow> ('w gauntlet_state \<times> process_end) option" where
  "gauntlet_main F erange lib_what ops project_root env w =
     (let s0 = \<lparr>ga_world = w, ga_stack_started = False, ga_files = []\<rparr> in
      case gauntlet_load_config F erange project_root env of
        Inl e \<Rightarrow> Some (s0, Exit 1)
      | Inr config \<Rightarrow> do {
          (s1, r) \<leftarrow> gauntlet_body F lib_what ops config s0;
          (case r of
             Inr u \<Rightarrow> Some (s1, Exit 0)
           | Inl e \<Rightarrow>
               if \<not> is_exception e then Some (s1, Crashed)
               else if ga_stack_started s1 \<and> gc_teardown_on_exit config
               then do { (s2, r2) \<leftarrow> gauntlet_world (stop_full_stack ops config) s1;
                         Some (s2, case r2 of Inl e2 \<Rightarrow> Terminated | Inr u \<Rightarrow> Exit 1) }
               else Some (s1, Exit 1)) })"

end
