(* ===== verification/GauntletMetricsLaws.thy ===== *)
theory GauntletMetricsLaws
  imports Gauntlet BenchMetricsLaws
begin

text \<open>
  The figures of the paraphrase gauntlet: the confusion matrix is the tally of the granted pairs, and the
  floating-point metrics are within a few units in the last place of the exact ratios.
\<close>

section \<open>Pairs\<close>

definition granted_pairs :: "GauntletResult list \<Rightarrow> (GauntletResult \<times> GauntletResult) list" where
  "granted_pairs ops = filter (\<lambda>(a, b). was_granted a \<and> was_granted b) (all_pairs ops)"

definition pair_outcomes :: "fpu \<Rightarrow> string \<Rightarrow> fl \<Rightarrow> GauntletResult list \<Rightarrow> PairOutcome list" where
  "pair_outcomes F scenario_label theta ops = map (\<lambda>(a, b). pair_outcome F scenario_label theta a b) (granted_pairs ops)"

lemma analyze_with_pairs:
  "analyze_with F scenario_label theta a bs (cm, pairs) =
     (let pos = map (\<lambda>(a, b). pair_outcome F scenario_label theta a b)
        (filter (\<lambda>(a, b). was_granted a \<and> was_granted b) (map (Pair a) bs))
      in (fold count_outcome pos cm, pairs @ pos))"
  by (induction bs arbitrary: cm pairs) (simp_all add: Let_def)

lemma analyze_pairs_outcomes:
  "analyze_pairs F scenario_label ops theta (cm, pairs) =
     (fold count_outcome (pair_outcomes F scenario_label theta ops) cm, pairs @ pair_outcomes F scenario_label theta ops)"
  by (induction ops arbitrary: cm pairs)
    (simp_all add: analyze_with_pairs Let_def pair_outcomes_def granted_pairs_def del: analyze_with.simps)

lemma length_pair_outcomes: "2 * length (pair_outcomes F scenario_label theta ops) \<le> length ops * (length ops - 1)"
proof -
  have "length (pair_outcomes F scenario_label theta ops) \<le> length (all_pairs ops)"
    by (simp add: pair_outcomes_def granted_pairs_def)
  then show ?thesis using length_all_pairs[of ops] by linarith
qed

text \<open>The four cells as tallies.\<close>

definition matrix_of :: "PairOutcome list \<Rightarrow> ConfusionMatrix" where
  "matrix_of pos =
     \<lparr>cm_tp = tally (\<lambda>p. po_expected_conflict p \<and> po_observed_serialized p) pos,
      cm_fn = tally (\<lambda>p. po_expected_conflict p \<and> \<not> po_observed_serialized p) pos,
      cm_fp = tally (\<lambda>p. \<not> po_expected_conflict p \<and> po_observed_serialized p) pos,
      cm_tn = tally (\<lambda>p. \<not> po_expected_conflict p \<and> \<not> po_observed_serialized p) pos\<rparr>"

lemma fold_count_outcome:
  "fold count_outcome pos cm =
     \<lparr>cm_tp = cm_tp cm + cm_tp (matrix_of pos), cm_fn = cm_fn cm + cm_fn (matrix_of pos),
      cm_fp = cm_fp cm + cm_fp (matrix_of pos), cm_tn = cm_tn cm + cm_tn (matrix_of pos)\<rparr>"
  by (induction pos arbitrary: cm) (simp_all add: matrix_of_def count_outcome_def)

lemma matrix_counted: "fold count_outcome pos new_ConfusionMatrix = matrix_of pos"
  by (simp add: fold_count_outcome new_ConfusionMatrix_def)

lemma matrix_total:
  "cm_tp (matrix_of pos) + cm_fn (matrix_of pos) + cm_fp (matrix_of pos) + cm_tn (matrix_of pos) = int (length pos)"
  by (induction pos) (auto simp: matrix_of_def)

lemma matrix_nonneg:
  "0 \<le> cm_tp (matrix_of pos)" "0 \<le> cm_fn (matrix_of pos)" "0 \<le> cm_fp (matrix_of pos)" "0 \<le> cm_tn (matrix_of pos)"
  by (simp_all add: matrix_of_def tally_nonneg)

lemma matrix_passes:
  "list_all (\<lambda>p. po_pass p = (po_expected_conflict p = po_observed_serialized p)) pos \<Longrightarrow>
     cm_tp (matrix_of pos) + cm_tn (matrix_of pos) = tally po_pass pos"
  by (induction pos) (auto simp: matrix_of_def)

lemma pair_outcome_pass: "po_pass (pair_outcome F l theta a b) =
    (po_expected_conflict (pair_outcome F l theta a b) = po_observed_serialized (pair_outcome F l theta a b))"
  by (simp add: pair_outcome_def Let_def)

section \<open>Rounding\<close>

text \<open>
  IEEE 754: rounding to \<^verbatim>\<open>double\<close> errs by at most half a unit in the last place, a relative error of
  2^-53, on the normal range.
\<close>

definition relative_rounding :: "fpu \<Rightarrow> bool" where
  "relative_rounding F \<longleftrightarrow>
     (\<forall>x. 1 / 2 ^ 1022 \<le> x \<and> x \<le> 2 ^ 1000 \<longrightarrow> (\<exists>y. rnd_double F x = Fin y \<and> \<bar>y - x\<bar> \<le> x / 2 ^ 53))"

lemma relative_rounding_exact: "relative_rounding exact_fpu"
proof -
  have "0 \<le> x / 2 ^ 53" if "1 / 2 ^ 1022 \<le> x" for x :: real
  proof -
    have "(0::real) \<le> 1 / 2 ^ 1022" by simp
    with that have "0 \<le> x" by linarith
    then show ?thesis by simp
  qed
  then show ?thesis by (simp add: relative_rounding_def exact_fpu_def)
qed

text \<open>\<open>near k x y\<close>: \<open>y\<close> is \<open>x\<close> after \<open>k\<close> roundings.\<close>

definition ulp_factor :: real where "ulp_factor = 1 / (1 - 1 / 2 ^ 53)"

definition near :: "nat \<Rightarrow> real \<Rightarrow> real \<Rightarrow> bool" where
  "near k x y \<longleftrightarrow> 0 < x \<and> x \<le> y * ulp_factor ^ k \<and> y \<le> x * ulp_factor ^ k"

lemma ulp_factor_ge: "1 \<le> ulp_factor" "0 < ulp_factor"
  by (simp_all add: ulp_factor_def)

lemma ulp_power [simp]: "1 \<le> ulp_factor ^ k" "0 < ulp_factor ^ k"
  by (simp_all add: ulp_factor_ge one_le_power)

lemma near_pos: "near k x y \<Longrightarrow> 0 < y"
  unfolding near_def by (metis mult_le_0_iff not_le order_le_less_trans order_less_imp_le ulp_power(2))

lemma near_refl: "0 < x \<Longrightarrow> near 0 x x"
  by (simp add: near_def)

lemma near_round:
  assumes "relative_rounding F" "near k x y" "1 / 2 ^ 1022 \<le> y" "y \<le> 2 ^ 1000"
  obtains z where "rnd_double F y = Fin z" "near (Suc k) x z"
proof -
  obtain z where z: "rnd_double F y = Fin z" "\<bar>z - y\<bar> \<le> y / 2 ^ 53"
    using assms(1,3,4) unfolding relative_rounding_def by blast
  have y: "0 < y" by (rule near_pos[OF assms(2)])
  have "y * (1 - 1 / 2 ^ 53) \<le> z" "z \<le> y * (1 + 1 / 2 ^ 53)"
    using abs_le_D1[OF z(2)] abs_le_D2[OF z(2)] by (simp_all add: field_simps)
  moreover have "(1 + 1 / 2 ^ 53) \<le> ulp_factor" by (simp add: ulp_factor_def field_simps)
  ultimately have lo: "y \<le> z * ulp_factor" and hi: "z \<le> y * ulp_factor"
    using y by (simp add: ulp_factor_def field_simps, meson less_imp_le mult_left_mono order_trans)
  have n: "x \<le> y * ulp_factor ^ k" "y \<le> x * ulp_factor ^ k" "0 < x" using assms(2) by (simp_all add: near_def)
  have "y * ulp_factor ^ k \<le> (z * ulp_factor) * ulp_factor ^ k" "y * ulp_factor \<le> (x * ulp_factor ^ k) * ulp_factor"
    by (rule mult_right_mono[OF lo], simp add: less_imp_le, rule mult_right_mono[OF n(2)], use ulp_factor_ge in simp)
  with n(1) hi have "x \<le> (z * ulp_factor) * ulp_factor ^ k" "z \<le> (x * ulp_factor ^ k) * ulp_factor" by (meson order_trans)+
  then show ?thesis using that z(1) n(3) by (simp add: near_def ac_simps)
qed

lemma near_mult: "near j a x \<Longrightarrow> near k b y \<Longrightarrow> near (j + k) (a * b) (x * y)"
proof -
  assume n: "near j a x" "near k b y"
  note p = near_pos[OF n(1)] near_pos[OF n(2)]
  have "a * b \<le> (x * ulp_factor ^ j) * (y * ulp_factor ^ k)" "x * y \<le> (a * ulp_factor ^ j) * (b * ulp_factor ^ k)"
    using n p by (auto simp: near_def intro!: mult_mono)
  then show ?thesis using n by (simp add: near_def power_add ac_simps)
qed

lemma near_div: "near j a x \<Longrightarrow> near k b y \<Longrightarrow> near (j + k) (a / b) (x / y)"
proof -
  assume n: "near j a x" "near k b y"
  have p: "0 < x" "0 < y" "0 < a" "0 < b" using n near_pos by (auto simp: near_def)
  have "a * y \<le> (x * ulp_factor ^ j) * (b * ulp_factor ^ k)" "x * b \<le> (a * ulp_factor ^ j) * (y * ulp_factor ^ k)"
    using n p by (auto simp: near_def intro!: mult_mono)
  then show ?thesis using p by (simp add: near_def power_add field_simps)
qed

lemma near_add: "near k a x \<Longrightarrow> near k b y \<Longrightarrow> near k (a + b) (x + y)"
  by (auto simp: near_def distrib_right)

lemma ulp_seven: "ulp_factor ^ 7 \<le> 1 + 1 / 2 ^ 50"
  by (simp add: ulp_factor_def power_divide field_simps)

lemma near_error: "near 7 x y \<Longrightarrow> \<bar>y - x\<bar> \<le> x / 2 ^ 50"
proof -
  assume n: "near 7 x y"
  then have x: "0 < x" "x \<le> y * ulp_factor ^ 7" "y \<le> x * ulp_factor ^ 7" by (simp_all add: near_def)
  have "x * ulp_factor ^ 7 \<le> x * (1 + 1 / 2 ^ 50)" "y * ulp_factor ^ 7 \<le> y * (1 + 1 / 2 ^ 50)"
    by (rule mult_left_mono[OF ulp_seven], use x(1) near_pos[OF n] in simp)+
  with x have u: "y \<le> x * (1 + 1 / 2 ^ 50)" and l: "x \<le> y * (1 + 1 / 2 ^ 50)" by linarith+
  from u have "y - x \<le> x / 2 ^ 50" by (simp add: field_simps)
  moreover from l have "x - y \<le> x / 2 ^ 50" using x(1) by (cases "y \<le> x") (auto simp: field_simps)
  ultimately show ?thesis by linarith
qed

text \<open>\<open>accurate k x e\<close>: the floating-point number \<open>x\<close> is finite and within a relative error of 2^-k of \<open>e\<close>.\<close>

definition accurate :: "nat \<Rightarrow> fl \<Rightarrow> real \<Rightarrow> bool" where
  "accurate k x e \<longleftrightarrow> (\<exists>y. x = Fin y \<and> \<bar>y - e\<bar> \<le> e / 2 ^ k)"

definition unit_fl :: "fl \<Rightarrow> bool" where
  "unit_fl x \<longleftrightarrow> (\<exists>y. x = Fin y \<and> 0 \<le> y \<and> y \<le> 1)"

lemma near_round_small:
  assumes "relative_rounding F" "near k x y" "k \<le> 7" "1 / 2 ^ 200 \<le> x" "x \<le> 2 ^ 200"
  obtains z where "rnd_double F y = Fin z" "near (Suc k) x z"
proof -
  have "ulp_factor ^ k \<le> ulp_factor ^ 7" using assms(3) ulp_factor_ge(1) by (rule power_increasing)
  then have u: "ulp_factor ^ k \<le> 2" using ulp_seven by simp
  have p: "0 \<le> x" "0 \<le> y" "x \<le> y * ulp_factor ^ k" "y \<le> x * ulp_factor ^ k"
    using assms(2) near_pos[OF assms(2)] by (simp_all add: near_def)
  have "x \<le> y * 2" "y \<le> x * 2"
    using order_trans[OF p(3) mult_left_mono[OF u p(2)]] order_trans[OF p(4) mult_left_mono[OF u p(1)]] by simp_all
  then have "1 / 2 ^ 1022 \<le> y" "y \<le> 2 ^ 1000" using assms(4,5) by (simp_all add: field_simps)
  from near_round[OF assms(1,2) this] that show ?thesis by blast
qed

lemma dbl_exact: "double_rounding F \<Longrightarrow> 0 \<le> n \<Longrightarrow> n \<le> 2 ^ 52 \<Longrightarrow> dbl F n = Fin (real_of_int n)"
  using double_nat[of F "nat n"] by (simp add: dbl_def nat_le_iff)

lemma ratio_unit:
  assumes "double_rounding F" "0 \<le> n" "n \<le> d" "d \<le> 2 ^ 52"
  shows "unit_fl (ratio F n d)"
proof (cases "d > 0")
  case True
  let ?q = "real_of_int n / real_of_int d"
  have q: "0 \<le> ?q" "?q \<le> 1" using assms True by (simp_all add: divide_simps)
  obtain y where y: "rnd_double F ?q = Fin y" using double_fin[OF assms(1) q(1)] q(2) by (meson one_le_numeral one_le_power order_trans)
  have "rnd_double F 0 = Fin 0" "rnd_double F 1 = Fin 1" using double_nat[OF assms(1), of 0] double_nat[OF assms(1), of 1] by simp_all
  then have "0 \<le> y" "y \<le> 1"
    using double_mono[OF assms(1) order_refl q(1) _ _ y] double_mono[OF assms(1) q _ y] q(2) by simp_all
  then show ?thesis using assms True y by (simp add: unit_fl_def ratio_def dbl_exact fl_div_def)
qed (simp add: unit_fl_def ratio_def)

lemma ratio_near:
  assumes "double_rounding F" "relative_rounding F" "0 < n" "n \<le> d" "d \<le> 2 ^ 52"
  obtains y where "ratio F n d = Fin y" "near 1 (real_of_int n / real_of_int d) y"
proof -
  let ?q = "real_of_int n / real_of_int d"
  have "0 < ?q" "?q \<le> 2 ^ 200" "1 / 2 ^ 200 \<le> ?q"
    using assms by (simp_all add: divide_simps) 
  from near_round_small[OF assms(2) near_refl[OF this(1)] _ this(3,2)]
  obtain y where "rnd_double F ?q = Fin y" "near 1 ?q y" by auto
  then show ?thesis using that assms by (simp add: ratio_def dbl_exact fl_div_def)
qed

lemma ratio_zero: "double_rounding F \<Longrightarrow> 0 \<le> d \<Longrightarrow> d \<le> 2 ^ 52 \<Longrightarrow> ratio F 0 d = Fin 0"
  using double_nat[of F 0] by (simp add: ratio_def dbl_exact fl_div_def)

lemma near_one_error: "near 1 x y \<Longrightarrow> \<bar>y - x\<bar> \<le> x / 2 ^ 52"
proof -
  assume n: "near 1 x y"
  then have "0 < x" "x * (1 - 1 / 2 ^ 53) \<le> y" "y * (1 - 1 / 2 ^ 53) \<le> x"
    by (simp_all add: near_def ulp_factor_def field_simps)
  then have "y - x \<le> x / 2 ^ 52" "x - y \<le> x / 2 ^ 52" by (simp_all add: field_simps)
  then show ?thesis by linarith
qed

lemma ratio_accurate:
  assumes "double_rounding F" "relative_rounding F" "0 \<le> n" "n \<le> d" "d \<le> 2 ^ 52"
  shows "accurate 52 (ratio F n d) (real_of_int n / real_of_int d)"
proof (cases "n = 0")
  case True
  then show ?thesis using assms ratio_zero[of F d] by (simp add: accurate_def)
next
  case False
  then obtain y where "ratio F n d = Fin y" "near 1 (real_of_int n / real_of_int d) y"
    using ratio_near[of F n d] assms by auto
  then show ?thesis unfolding accurate_def using near_one_error by blast
qed

section \<open>The F1 score\<close>

lemma harmonic_exact:
  fixes t a b :: real
  assumes "0 < t" "0 \<le> a" "0 \<le> b"
  shows "2 * (t / (t + a)) * (t / (t + b)) / (t / (t + a) + t / (t + b)) = 2 * t / (2 * t + a + b)"
proof -
  have p: "0 < t + a" "0 < t + b" "0 < 2 * t + a + b" using assms by simp_all
  have "t / (t + a) + t / (t + b) = t * (2 * t + a + b) / ((t + a) * (t + b))" using p by (simp add: field_simps)
  then show ?thesis using p assms(1) by simp
qed

lemma share_range:
  fixes n d :: int
  assumes "0 < n" "n \<le> d" "d \<le> 2 ^ 52"
  shows "1 / 2 ^ 52 \<le> real_of_int n / real_of_int d" "real_of_int n / real_of_int d \<le> 1"
proof -
  have "real_of_int d \<le> real_of_int (2 ^ 52)" using assms(3) by (simp only: of_int_le_iff)
  moreover have "1 \<le> real_of_int n" "real_of_int n \<le> real_of_int d" using assms by linarith+
  ultimately show "1 / 2 ^ 52 \<le> real_of_int n / real_of_int d" "real_of_int n / real_of_int d \<le> 1"
    using assms by (auto simp: field_simps intro: order_trans)
qed

lemma harmonic_rounded:
  assumes rr: "relative_rounding F" and p: "near 1 P p" "1 / 2 ^ 52 \<le> P" "P \<le> 1" and r: "near 1 R r" "1 / 2 ^ 52 \<le> R" "R \<le> 1"
  shows "fl_less (Fin 0) (fl_add F (Fin p) (Fin r))"
    "accurate 50 (fl_div F (fl_mul F (fl_mul F (Fin 2) (Fin p)) (Fin r)) (fl_add F (Fin p) (Fin r))) (2 * P * R / (P + R))"
proof -
  have PR: "1 / 2 ^ 104 \<le> P * R" "P * R \<le> 1"
    using mult_mono[OF p(2) r(2)] mult_mono[OF p(3) r(3)] p(2) r(2) by (simp_all add: mult_le_one)
  obtain s where s: "rnd_double F (p + r) = Fin s" "near 2 (P + R) s"
    by (rule near_round_small[OF rr near_add[OF p(1) r(1)]]) (use p r in \<open>simp_all add: numeral_2_eq_2\<close>)
  obtain a where a: "rnd_double F (2 * p) = Fin a" "near 2 (2 * P) a"
    by (rule near_round_small[OF rr near_mult[OF near_refl[of 2] p(1)]]) (use p in \<open>simp_all add: numeral_2_eq_2\<close>)
  obtain b where b: "rnd_double F (a * r) = Fin b" "near 4 (2 * P * R) b"
    by (rule near_round_small[OF rr near_mult[OF a(2) r(1)]]) (use PR in \<open>simp_all add: eval_nat_numeral\<close>)
  have q: "1 / 2 ^ 200 \<le> 2 * P * R / (P + R)" "2 * P * R / (P + R) \<le> 2 ^ 200"
  proof -
    have d: "0 < P + R" "P + R \<le> 2" using p r by (auto intro: add_pos_pos simp: near_def)
    have "P * R \<le> P" "P * R \<le> R" using p(2,3) r(2,3) by (simp_all add: mult_left_le mult_left_le_one_le)
    then have "2 * P * R \<le> 1 * (P + R)" by simp
    then have "2 * P * R / (P + R) \<le> 1" using d(1) by (simp only: pos_divide_le_eq)
    then show "2 * P * R / (P + R) \<le> 2 ^ 200" by simp
    have "1 / 2 ^ 200 * (P + R) \<le> 2 * P * R" using d PR(1) by simp
    then show "1 / 2 ^ 200 \<le> 2 * P * R / (P + R)" using d(1) by (simp only: pos_le_divide_eq)
  qed
  obtain f where f: "rnd_double F (b / s) = Fin f" "near 7 (2 * P * R / (P + R)) f"
    by (rule near_round_small[OF rr near_div[OF b(2) s(2)] _ q]) simp_all
  note pos = near_pos[OF s(2)]
  show "fl_less (Fin 0) (fl_add F (Fin p) (Fin r))" using s pos by simp
  show "accurate 50 (fl_div F (fl_mul F (fl_mul F (Fin 2) (Fin p)) (Fin r)) (fl_add F (Fin p) (Fin r))) (2 * P * R / (P + R))"
    using s(1) a(1) b(1) f(1) pos near_error[OF f(2)] by (simp add: fl_div_def fl_mul_def accurate_def)
qed

definition matrix_ok :: "ConfusionMatrix \<Rightarrow> bool" where
  "matrix_ok cm \<longleftrightarrow> 0 \<le> cm_tp cm \<and> 0 \<le> cm_fn cm \<and> 0 \<le> cm_fp cm \<and> 0 \<le> cm_tn cm
     \<and> cm_tp cm + cm_fn cm + cm_fp cm + cm_tn cm \<le> 2 ^ 52"

lemma f1_accurate:
  assumes F: "double_rounding F" "relative_rounding F" and cm: "matrix_ok cm"
  shows "accurate 50 (cl_f1 (compute_classification_metrics F cm))
    (2 * real_of_int (cm_tp cm) / (2 * real_of_int (cm_tp cm) + real_of_int (cm_fp cm) + real_of_int (cm_fn cm)))"
proof (cases "cm_tp cm = 0")
  case True
  then have "ratio F (cm_tp cm) (cm_tp cm + cm_fp cm) = Fin 0" "ratio F (cm_tp cm) (cm_tp cm + cm_fn cm) = Fin 0"
    using cm ratio_zero[OF F(1)] by (simp_all add: matrix_ok_def)
  then show ?thesis
    using True double_nat[OF F(1), of 0] by (simp add: compute_classification_metrics_def Let_def accurate_def)
next
  case False
  let ?t = "real_of_int (cm_tp cm)"
  have b: "0 < cm_tp cm" "cm_tp cm \<le> cm_tp cm + cm_fp cm" "cm_tp cm + cm_fp cm \<le> 2 ^ 52"
    "cm_tp cm \<le> cm_tp cm + cm_fn cm" "cm_tp cm + cm_fn cm \<le> 2 ^ 52" "0 \<le> cm_fp cm" "0 \<le> cm_fn cm"
    using False cm by (simp_all add: matrix_ok_def)
  obtain p where p: "ratio F (cm_tp cm) (cm_tp cm + cm_fp cm) = Fin p" "near 1 (?t / real_of_int (cm_tp cm + cm_fp cm)) p"
    using ratio_near[OF F b(1-3)] by blast
  obtain r where r: "ratio F (cm_tp cm) (cm_tp cm + cm_fn cm) = Fin r" "near 1 (?t / real_of_int (cm_tp cm + cm_fn cm)) r"
    using ratio_near[OF F b(1,4,5)] by blast
  note h = harmonic_rounded[OF F(2) p(2) share_range[OF b(1-3)] r(2) share_range[OF b(1,4,5)]]
  show ?thesis
    using h p(1) r(1) b harmonic_exact[of ?t "real_of_int (cm_fp cm)" "real_of_int (cm_fn cm)"]
    by (simp add: compute_classification_metrics_def Let_def)
qed

lemma metrics_unit:
  assumes "double_rounding F" "matrix_ok cm"
  shows "list_all (\<lambda>g. unit_fl (g (compute_classification_metrics F cm)))
    [cl_accuracy, cl_precision, cl_recall, cl_serialization_score, cl_distinct_parallelism_rate, cl_false_positive_rate]"
  using assms by (auto simp: compute_classification_metrics_def Let_def matrix_ok_def intro!: ratio_unit)

lemma metrics_accurate:
  assumes "double_rounding F" "relative_rounding F" "matrix_ok cm"
  defines "m \<equiv> compute_classification_metrics F cm" and "tp \<equiv> real_of_int (cm_tp cm)" and "fn \<equiv> real_of_int (cm_fn cm)"
    and "fp \<equiv> real_of_int (cm_fp cm)" and "tn \<equiv> real_of_int (cm_tn cm)"
  shows "accurate 52 (cl_accuracy m) ((tp + tn) / (tp + tn + fp + fn))" "accurate 52 (cl_precision m) (tp / (tp + fp))"
    "accurate 52 (cl_recall m) (tp / (tp + fn))" "accurate 52 (cl_distinct_parallelism_rate m) (tn / (tn + fp))"
    "accurate 52 (cl_false_positive_rate m) (fp / (fp + tn))"
  using assms(3) ratio_accurate[OF assms(1,2), of "cm_tp cm + cm_tn cm" "cm_tp cm + cm_tn cm + cm_fp cm + cm_fn cm"]
    ratio_accurate[OF assms(1,2), of "cm_tp cm" "cm_tp cm + cm_fp cm"] ratio_accurate[OF assms(1,2), of "cm_tp cm" "cm_tp cm + cm_fn cm"]
    ratio_accurate[OF assms(1,2), of "cm_tn cm" "cm_tn cm + cm_fp cm"] ratio_accurate[OF assms(1,2), of "cm_fp cm" "cm_fp cm + cm_tn cm"]
  by (simp_all add: m_def tp_def fn_def fp_def tn_def compute_classification_metrics_def Let_def matrix_ok_def)

section \<open>The best run\<close>

definition f1_of :: "ModelRunResult \<Rightarrow> fl" where
  "f1_of r = cl_f1 (mr_metrics r)"

lemma not_less_le: "x \<noteq> NaN \<Longrightarrow> y \<noteq> NaN \<Longrightarrow> \<not> fl_less x y \<Longrightarrow> fl_le y x"
  by (cases x; cases y) (auto simp: fl_le_def)

lemma less_le: "fl_less x y \<Longrightarrow> fl_le x y"
  by (cases x; cases y) (auto simp: fl_le_def)

lemma best_run_from:
  assumes "\<forall>r\<in>set runs. mr_success r \<longrightarrow> f1_of r \<noteq> NaN" "mr_success b" "f1_of b \<noteq> NaN"
  shows "\<exists>m. best_run (Some b) runs = Some m \<and> m \<in> set (b # runs) \<and> mr_success m
    \<and> (\<forall>r\<in>set (b # runs). mr_success r \<longrightarrow> fl_le (f1_of r) (f1_of m))"
  using assms
proof (induction runs arbitrary: b)
  case Nil
  then show ?case by (simp add: fl_le_refl)
next
  case (Cons r runs)
  show ?case
  proof (cases "mr_success r")
    case False
    with Cons show ?thesis by fastforce
  next
    case s: True
    let ?n = "if fl_less (f1_of b) (f1_of r) then r else b"
    have n: "f1_of r \<noteq> NaN" "f1_of b \<noteq> NaN" using Cons.prems s by auto
    have le: "fl_le (f1_of r) (f1_of ?n)" "fl_le (f1_of b) (f1_of ?n)"
      using not_less_le[OF n(2,1)] fl_le_refl[OF n(1)] fl_le_refl[OF n(2)] less_le by auto
    obtain m where m: "best_run (Some ?n) runs = Some m" "m \<in> set (?n # runs)" "mr_success m"
      "\<forall>r\<in>set (?n # runs). mr_success r \<longrightarrow> fl_le (f1_of r) (f1_of m)"
    proof -
      have "\<forall>r\<in>set runs. mr_success r \<longrightarrow> f1_of r \<noteq> NaN" "mr_success ?n" "f1_of ?n \<noteq> NaN"
        using Cons.prems s n by auto
      from Cons.IH[OF this] that show ?thesis by blast
    qed
    have t: "fl_le (f1_of ?n) (f1_of m)" using m(4) s Cons.prems(2) by auto
    have "best_run (Some b) (r # runs) = Some m" using s m(1) by (simp add: f1_of_def split: if_splits)
    moreover have "m \<in> set (b # r # runs)" using m(2) by (auto split: if_splits)
    moreover have "fl_le (f1_of x) (f1_of m)" if "x \<in> set (b # r # runs)" "mr_success x" for x
      using that m(4) fl_le_trans[OF le(1) t] fl_le_trans[OF le(2) t] by auto
    ultimately show ?thesis using m(3) by blast
  qed
qed

lemma best_run_maximal:
  assumes "\<forall>r\<in>set runs. mr_success r \<longrightarrow> f1_of r \<noteq> NaN"
  shows "case best_run None runs of
      None \<Rightarrow> \<forall>r\<in>set runs. \<not> mr_success r
    | Some b \<Rightarrow> b \<in> set runs \<and> mr_success b \<and> (\<forall>r\<in>set runs. mr_success r \<longrightarrow> fl_le (f1_of r) (f1_of b))"
  using assms
proof (induction runs)
  case (Cons r runs)
  show ?case
  proof (cases "mr_success r")
    case True
    then obtain m where "best_run (Some r) runs = Some m" "m \<in> set (r # runs)" "mr_success m"
      "\<forall>x\<in>set (r # runs). mr_success x \<longrightarrow> fl_le (f1_of x) (f1_of m)"
      using best_run_from[of runs r] Cons.prems by auto
    with True show ?thesis by simp
  next
    case False
    with Cons show ?thesis by (auto split: option.splits)
  qed
qed simp

end
