(* ===== verification/GauntletLaws.thy ===== *)
theory GauntletLaws
  imports GauntletMetricsLaws BenchRunLaws
begin

text \<open>
  The results file of the paraphrase gauntlet, read back by the JSON reader, and what a run of the program
  leaves behind: one file after a run that succeeds, none otherwise, with one entry per model.
\<close>

section \<open>Layout\<close>

lemma read_gauntlet_char:
  "read_json_string (gauntlet_escape_char c @ s) = map_option (\<lambda>(t, rest). (c # t, rest)) (read_json_string s)"
  by (auto simp: gauntlet_escape_char_def)

lemma read_gauntlet_escape: "read_json_string (gauntlet_escape_json s @ CHR 0x22 # rest) = Some (s, rest)"
proof (induction s)
  case (Cons c s)
  then show ?case using read_gauntlet_char[of c "gauntlet_escape_json s @ CHR 0x22 # rest"]
    by (simp add: gauntlet_escape_json_def del: read_json_string.simps)
qed (simp add: gauntlet_escape_json_def)

lemma denotes_gjstr: "denotes (gjstr s) (JString s)"
  unfolding denotes_def
proof (intro allI impI)
  fix n :: nat and rest :: string
  assume "length (gjstr s) \<le> n"
  then obtain m where "n = Suc m" by (cases n) (auto simp: gjstr_def quoted_def dq_def)
  then show "json_value n (gjstr s @ rest) = Some (JString s, rest)"
    by (simp add: json_value.simps(2) gjstr_def quoted_def dq_def read_gauntlet_escape)
qed

lemma gjstr_json [simp]: "is_json (gjstr s)" "value_of (gjstr s) = JString s"
  using denotes_gjstr by (auto intro: is_jsonI value_of_eq)

lemma format_json: "0 < p \<Longrightarrow> finite_fl x \<Longrightarrow> is_json (format_float x p)"
  "0 < p \<Longrightarrow> finite_fl x \<Longrightarrow> value_of (format_float x p) = JNumber (format_float x p)"
  by (simp_all add: format_float_def is_json_fixed value_of_fixed)

lemma item_array_denotes:
  "list_all is_json xs \<Longrightarrow> denotes (''['' @ nl @ item_lines n xs @ indent m @ '']'') (JArray (map value_of xs))"
proof (cases "xs = []")
  case True
  then show ?thesis using denotes_empty_array[of "nl @ indent m"] by simp
next
  case False
  assume "list_all is_json xs"
  then have "denotes (CHR 0x5B # (nl @ item_lines n xs @ indent m) @ [CHR 0x5D]) (JArray (map value_of xs))"
    using False by (intro denotes_array elements_space item_lines_elements) simp_all
  then show ?thesis by simp
qed

lemma spaced_fields_members: "fs \<noteq> [] \<Longrightarrow> fields_ok fs \<Longrightarrow> denotes_members (spaced_fields fs) (read_fields fs)"
proof (induction fs rule: spaced_fields.induct)
  case (2 k v)
  then have "denotes_members (member_text [] k '' '' v @ []) [(k, value_of v)]"
    by (intro members_one) (simp_all add: is_json_def)
  then show ?case using 2 by (simp add: read_fields_def member_text_def)
next
  case (3 k v f fs)
  then have "denotes_members (member_text [] k '' '' v @ [] @ CHR '','' # '' '' @ spaced_fields (f # fs)) ((k, value_of v) # read_fields (f # fs))"
    by (intro members_more members_space[of "'' ''"]) (simp_all add: is_json_def)
  then show ?case using 3 by (simp add: read_fields_def member_text_def)
qed simp

lemma spaced_object_denotes:
  "fs \<noteq> [] \<Longrightarrow> fields_ok fs \<Longrightarrow> denotes ([CHR 0x7B] @ spaced_fields fs @ [CHR 0x7D]) (JObject (read_fields fs))"
  using denotes_object[OF spaced_fields_members] by simp

section \<open>The results file\<close>

definition finite_metrics :: "ClassificationMetrics \<Rightarrow> bool" where
  "finite_metrics m \<longleftrightarrow> list_all (\<lambda>g. finite_fl (g m))
     [cl_accuracy, cl_precision, cl_recall, cl_f1, cl_serialization_score, cl_distinct_parallelism_rate, cl_false_positive_rate]"

definition finite_run :: "ModelRunResult \<Rightarrow> bool" where
  "finite_run r \<longleftrightarrow> finite_metrics (mr_metrics r) \<and> list_all (\<lambda>p. finite_fl (po_cosine_similarity p)) (mr_pair_details r)"

lemma pair_json:
  assumes "finite_fl (po_cosine_similarity p)"
  shows "fields_ok (pair_fields p)" "denotes (write_pair_json p) (JObject (read_fields (pair_fields p)))"
proof -
  have "is_json (quoted (if b then ''conflict'' else ''no_conflict''))" "is_json (quoted (if b then ''serialized'' else ''parallel''))" for b
    by (simp_all add: is_json_quoted)
  then show *: "fields_ok (pair_fields p)"
    using assms by (simp add: pair_fields_def is_json_fixed del: fixed_text.simps)
  show "denotes (write_pair_json p) (JObject (read_fields (pair_fields p)))"
    unfolding write_pair_json_def by (rule lines_object_denotes[OF _ *]) (simp add: pair_fields_def)
qed

lemma matrix_json: "fields_ok (matrix_fields cm)" "denotes (lines_object n (matrix_fields cm)) (JObject (read_fields (matrix_fields cm)))"
proof -
  show *: "fields_ok (matrix_fields cm)" by (simp add: matrix_fields_def)
  show "denotes (lines_object n (matrix_fields cm)) (JObject (read_fields (matrix_fields cm)))"
    by (rule lines_object_denotes[OF _ *]) (simp add: matrix_fields_def)
qed

lemma classification_json:
  assumes "finite_metrics m"
  shows "fields_ok (classification_fields m)"
    "denotes (lines_object n (classification_fields m)) (JObject (read_fields (classification_fields m)))"
proof -
  show *: "fields_ok (classification_fields m)"
    using assms by (simp add: classification_fields_def finite_metrics_def format_json)
  show "denotes (lines_object n (classification_fields m)) (JObject (read_fields (classification_fields m)))"
    by (rule lines_object_denotes[OF _ *]) (simp add: classification_fields_def)
qed

lemma pairs_json:
  "list_all (\<lambda>p. finite_fl (po_cosine_similarity p)) ps \<Longrightarrow> list_all is_json (map write_pair_json ps)"
  using pair_json(2) by (auto simp: list_all_iff intro: is_jsonI)

lemma model_json:
  assumes "finite_run r"
  shows "fields_ok (model_fields r)" "denotes (write_model_section r) (JObject (read_fields (model_fields r)))"
proof -
  have ps: "is_json (''['' @ nl @ item_lines 12 (map write_pair_json (mr_pair_details r)) @ indent 6 @ '']'')"
    using assms by (intro is_jsonI[OF item_array_denotes] pairs_json) (simp add: finite_run_def)
  have m: "is_json (lines_object 6 (matrix_fields (mr_matrix r)))" "is_json (lines_object 6 (classification_fields (mr_metrics r)))"
    using assms by (auto simp: finite_run_def intro: is_jsonI[OF matrix_json(2)] is_jsonI[OF classification_json(2)])
  show *: "fields_ok (model_fields r)" using m ps by (simp add: model_fields_def)
  show "denotes (write_model_section r) (JObject (read_fields (model_fields r)))"
    unfolding write_model_section_def by (rule lines_object_denotes[OF _ *]) (simp add: model_fields_def)
qed

lemma summary_json: "finite_run r \<Longrightarrow> is_json (summary_row r)"
  unfolding summary_row_def
  by (rule is_jsonI[OF spaced_object_denotes])
    (simp_all add: summary_fields_def matrix_json classification_json finite_run_def)

lemma results_json:
  assumes "finite_fl (gc_theta c)" "list_all finite_run runs"
  shows "fields_ok (results_fields F runs c ts)"
    "json_text (results_text F runs c ts) = Some (JObject (read_fields (results_fields F runs c ts)))"
proof -
  have s: "is_json (write_summary_table runs)"
    unfolding write_summary_table_def using assms(2) by (intro is_jsonI[OF item_array_denotes]) (auto simp: list_all_iff summary_json)
  have m: "is_json (''['' @ nl @ item_lines 4 (map write_model_section runs) @ indent 2 @ '']'')"
    using assms(2) by (intro is_jsonI[OF item_array_denotes]) (auto simp: list_all_iff intro: is_jsonI[OF model_json(2)])
  have q: "is_json (quoted ''paraphrase_gauntlet_matrix'')" "is_json (quoted ''docker-compose.yml'')" by (simp_all add: is_json_quoted)
  have n: "is_json ''10''" "is_json ''12''" 
    by (auto simp: json_number_def all_digits_def digit_of_def number_char_def intro!: is_jsonI[OF denotes_number])
  show *: "fields_ok (results_fields F runs c ts)"
    using s m q n format_json(1)[OF _ assms(1), of 2] by (simp add: results_fields_def)
  show "json_text (results_text F runs c ts) = Some (JObject (read_fields (results_fields F runs c ts)))"
    unfolding results_text_def
    by (rule json_text_denotes[OF lines_object_denotes[OF _ *] space_layout(2)]) (simp add: results_fields_def)
qed

section \<open>What the file says\<close>

definition describes_pair :: "json \<Rightarrow> PairOutcome \<Rightarrow> bool" where
  "describes_pair j p \<longleftrightarrow> (\<exists>fs. j = JObject fs
     \<and> map_of fs ''scenario'' = Some (JString (po_scenario p))
     \<and> map_of fs ''agent_a'' = Some (JString (po_agent_a p)) \<and> map_of fs ''agent_b'' = Some (JString (po_agent_b p))
     \<and> map_of fs ''text_a'' = Some (JString (po_text_a p)) \<and> map_of fs ''text_b'' = Some (JString (po_text_b p))
     \<and> map_of fs ''cosine_similarity'' = Some (JNumber (fixed_text 6 (po_cosine_similarity p)))
     \<and> map_of fs ''pass'' = Some (JBool (po_pass p)))"

definition rates_of :: "ClassificationMetrics \<Rightarrow> (string \<times> fl) list" where
  "rates_of m = [(''accuracy'', cl_accuracy m), (''precision'', cl_precision m), (''recall'', cl_recall m), (''f1_score'', cl_f1 m),
     (''serialization_score'', cl_serialization_score m), (''distinct_parallelism_rate'', cl_distinct_parallelism_rate m),
     (''false_positive_rate'', cl_false_positive_rate m)]"

definition describes_model :: "json \<Rightarrow> ModelRunResult \<Rightarrow> bool" where
  "describes_model j r \<longleftrightarrow> (\<exists>fs. j = JObject fs
     \<and> map_of fs ''profile'' = Some (JString (mr_profile_name r)) \<and> map_of fs ''model_id'' = Some (JString (mr_model_id r))
     \<and> map_of fs ''success'' = Some (JBool (mr_success r))
     \<and> (if mr_success r
        then map_of fs ''confusion_matrix'' = Some (JObject (map (\<lambda>(k, v). (k, JNumber (to_string v)))
               [(''TP'', cm_tp (mr_matrix r)), (''FN'', cm_fn (mr_matrix r)), (''FP'', cm_fp (mr_matrix r)), (''TN'', cm_tn (mr_matrix r))]))
          \<and> map_of fs ''classification_metrics'' = Some (JObject (map (\<lambda>(k, v). (k, JNumber (format_float v 3))) (rates_of (mr_metrics r))))
          \<and> (\<exists>ps. map_of fs ''pair_details'' = Some (JArray ps) \<and> list_all2 describes_pair ps (mr_pair_details r))
        else map_of fs ''error'' = Some (JString (mr_error_message r))))"

text \<open>The conclusion names a tested model that no other surpasses in F1.\<close>

definition concludes :: "string \<Rightarrow> ModelRunResult list \<Rightarrow> bool" where
  "concludes s runs \<longleftrightarrow>
     (if \<forall>r\<in>set runs. \<not> mr_success r then s = ''All model runs failed; no comparative conclusion can be drawn.''
      else \<exists>b\<in>set runs. mr_success b \<and> prefix (mr_model_id b @ '' achieved the highest F1 of '' @ format_float (f1_of b) 3) s
        \<and> (\<forall>r\<in>set runs. mr_success r \<longrightarrow> fl_le (f1_of r) (f1_of b)))"

definition describes_results :: "json \<Rightarrow> ModelRunResult list \<Rightarrow> bool" where
  "describes_results j runs \<longleftrightarrow> (\<exists>fs js s. j = JObject fs \<and> map_of fs ''conclusion'' = Some (JString s) \<and> concludes s runs
     \<and> map_of fs ''models_tested'' = Some (JNumber (nat_to_string (length runs)))
     \<and> map_of fs ''model_runs'' = Some (JArray js) \<and> list_all2 describes_model js runs)"

lemma pair_described:
  assumes "finite_fl (po_cosine_similarity p)"
  shows "describes_pair (value_of (write_pair_json p)) p"
proof -
  have "value_of (write_pair_json p) = JObject (read_fields (pair_fields p))" by (rule value_of_eq[OF pair_json(2)[OF assms]])
  then show ?thesis
    using assms by (simp add: describes_pair_def read_fields_lookup pair_fields_def value_of_fixed del: fixed_text.simps)
qed

lemma matrix_read:
  "value_of (lines_object n (matrix_fields cm)) = JObject (map (\<lambda>(k, v). (k, JNumber (to_string v)))
     [(''TP'', cm_tp cm), (''FN'', cm_fn cm), (''FP'', cm_fp cm), (''TN'', cm_tn cm)])"
proof -
  have "value_of (lines_object n (matrix_fields cm)) = JObject (read_fields (matrix_fields cm))"
    by (rule value_of_eq[OF matrix_json(2)])
  then show ?thesis by (simp add: matrix_fields_def read_fields_def)
qed

lemma rates_read:
  assumes "finite_metrics m"
  shows "value_of (lines_object n (classification_fields m)) = JObject (map (\<lambda>(k, v). (k, JNumber (format_float v 3))) (rates_of m))"
proof -
  have "value_of (lines_object n (classification_fields m)) = JObject (read_fields (classification_fields m))"
    by (rule value_of_eq[OF classification_json(2)[OF assms]])
  then show ?thesis
    using assms by (simp add: classification_fields_def read_fields_def rates_of_def finite_metrics_def format_json(2))
qed

lemma conclusion_sound:
  assumes "list_all finite_run runs"
  shows "concludes (generate_conclusion F runs theta) runs"
proof -
  have "\<forall>r\<in>set runs. mr_success r \<longrightarrow> f1_of r \<noteq> NaN"
    using assms by (auto simp: list_all_iff finite_run_def finite_metrics_def finite_fl_def f1_of_def)
  from best_run_maximal[OF this] show ?thesis
    by (cases "best_run None runs") (auto simp: generate_conclusion_def concludes_def f1_of_def)
qed

lemma pair_list_described:
  assumes "list_all (\<lambda>p. finite_fl (po_cosine_similarity p)) ps"
  shows "value_of (''['' @ nl @ item_lines n (map write_pair_json ps) @ indent m @ '']'') = JArray (map value_of (map write_pair_json ps))"
    "list_all2 describes_pair (map value_of (map write_pair_json ps)) ps"
  by (rule value_of_eq[OF item_array_denotes[OF pairs_json[OF assms]]])
    (use assms in \<open>simp add: list_all2_map1 list_all2_same list_all_iff pair_described\<close>)

lemma model_described:
  assumes "finite_run r"
  shows "describes_model (value_of (write_model_section r)) r"
proof -
  have ps: "list_all (\<lambda>p. finite_fl (po_cosine_similarity p)) (mr_pair_details r)" using assms by (simp add: finite_run_def)
  have v: "value_of (write_model_section r) = JObject (read_fields (model_fields r))" by (rule value_of_eq[OF model_json(2)[OF assms]])
  let ?fs = "read_fields (model_fields r)"
  have pd: "map_of ?fs ''pair_details'' = Some (JArray (map value_of (map write_pair_json (mr_pair_details r))))" if "mr_success r"
    unfolding read_fields_lookup pair_list_described(1)[OF ps, of 12 6, symmetric] using that by (simp add: model_fields_def)
  show ?thesis
    unfolding v describes_model_def
    using pd pair_list_described(2)[OF ps] rates_read[of "mr_metrics r"] assms[unfolded finite_run_def] by (auto simp: read_fields_lookup model_fields_def matrix_read simp del: map_map)
qed

lemma results_described:
  assumes "finite_fl (gc_theta c)" "list_all finite_run runs"
  shows "\<exists>j. json_text (results_text F runs c ts) = Some j \<and> describes_results j runs"
proof (intro exI conjI)
  let ?fs = "read_fields (results_fields F runs c ts)" and ?ms = "map write_model_section runs"
  show "json_text (results_text F runs c ts) = Some (JObject ?fs)" by (rule results_json(2)[OF assms])
  have "value_of (''['' @ nl @ item_lines 4 ?ms @ indent 2 @ '']'') = JArray (map value_of ?ms)"
    using assms(2) by (intro value_of_eq[OF item_array_denotes]) (auto simp: list_all_iff intro: is_jsonI[OF model_json(2)])
  then have "map_of ?fs ''model_runs'' = Some (JArray (map value_of ?ms))"
    by (simp add: read_fields_lookup results_fields_def del: map_map)
  moreover have "list_all2 describes_model (map value_of ?ms) runs"
    using assms(2) by (auto simp: list_all2_map1 list_all2_same list_all_iff model_described)
  moreover have "map_of ?fs ''models_tested'' = Some (JNumber (nat_to_string (length runs)))"
    by (simp add: read_fields_lookup results_fields_def)
  moreover have "map_of ?fs ''conclusion'' = Some (JString (generate_conclusion F runs (gc_theta c)))"
    by (simp add: read_fields_lookup results_fields_def)
  ultimately show "describes_results (JObject ?fs) runs" using conclusion_sound[OF assms(2)] unfolding describes_results_def by blast
qed

section \<open>A run of the program\<close>

definition agent_of :: "GauntletResult \<Rightarrow> string" where
  "agent_of r = go_agent_id (gr_operation r)"

definition paraphrase_agents :: "string list" where
  "paraphrase_agents = map (\<lambda>i. ''paraphrase_agent_'' @ nat_to_string (i + 1)) [0..<10]"

definition cross_domain_agents :: "string list" where
  "cross_domain_agents =
     map (\<lambda>i. ''sustainability_agent_'' @ nat_to_string (i + 1)) [0..<6] @ map (\<lambda>i. ''construction_agent_'' @ nat_to_string (i + 1)) [0..<6]"

text \<open>What holds of the entry of one model when the program goes on to the next.\<close>

definition analyzed_run :: "fpu \<Rightarrow> fl \<Rightarrow> ModelRunResult \<Rightarrow> bool" where
  "analyzed_run F theta r \<longleftrightarrow> (\<exists>para xdom. map agent_of para = paraphrase_agents \<and> map agent_of xdom = cross_domain_agents
     \<and> mr_paraphrase_ops r = 10 \<and> mr_cross_domain_ops r = 12
     \<and> mr_pair_details r = pair_outcomes F ''paraphrase_gauntlet'' theta para @ pair_outcomes F ''cross_domain_flood'' theta xdom
     \<and> mr_matrix r = matrix_of (mr_pair_details r) \<and> mr_metrics r = compute_classification_metrics F (mr_matrix r))"

definition unanalyzed_run :: "ModelRunResult \<Rightarrow> bool" where
  "unanalyzed_run r \<longleftrightarrow> mr_matrix r = new_ConfusionMatrix \<and> mr_metrics r = new_ClassificationMetrics \<and> mr_pair_details r = []"

definition profile_run :: "EmbeddingProfile \<Rightarrow> ModelRunResult \<Rightarrow> bool" where
  "profile_run profile r \<longleftrightarrow> mr_profile_name r = ep_name profile \<and> mr_model_id r = ep_model_id profile"

definition sound_run :: "fpu \<Rightarrow> fl \<Rightarrow> EmbeddingProfile \<Rightarrow> ModelRunResult \<Rightarrow> bool" where
  "sound_run F theta profile r \<longleftrightarrow> profile_run profile r
     \<and> (if mr_success r then mr_error_message r = [] \<and> analyzed_run F theta r else unanalyzed_run r)"

lemma paraphrase_agents_of:
  "paraphrase_loop docs is = Inr ops \<Longrightarrow> map go_agent_id ops = map (\<lambda>i. ''paraphrase_agent_'' @ nat_to_string (i + 1)) is"
  by (induction "is" arbitrary: ops) (auto simp: gauntlet_op_def rbind_def split: sum.splits if_splits)

lemma cross_domain_agents_of: "build_cross_domain_workload gt = Inr ops \<Longrightarrow> map go_agent_id ops = cross_domain_agents"
  by (auto simp: build_cross_domain_workload_def cross_domain_agents_def gauntlet_op_def upt_rec split: option.splits)

lemma triple_value: "(\<And>s s' x. m s = Some (s', Inr x) \<Longrightarrow> Q x) \<Longrightarrow> triple (\<lambda>_. True) m (\<lambda>x _. Q x) (\<lambda>_. True)"
  by (auto simp: triple_def split: sum.splits)

lemma clients_operations: "gauntlet_clients ops workload w = Some (w', Inr results) \<Longrightarrow> map gr_operation results = workload"
  by (auto simp: gauntlet_clients_def Let_def gauntlet_result_def o_def map_nth split: prod.splits Option.bind_splits)

lemma traffic_operations:
  "triple (\<lambda>_. True) (run_scenario_traffic ops c collection workload) (\<lambda>results _. map gr_operation results = workload) (\<lambda>_. True)"
proof -
  have c: "triple P (gauntlet_clients ops workload) (\<lambda>results _. map gr_operation results = workload) (\<lambda>_. True)" for P
    by (rule triple_weaken[OF triple_value[OF clients_operations]]) simp_all
  have k: "triple (\<lambda>_. map gr_operation results = workload) m (\<lambda>_ _. map gr_operation results = workload) (\<lambda>_. True)"
    for m :: "('a, int) io" and results
    by (auto simp: triple_def split: sum.splits)
  show ?thesis unfolding run_scenario_traffic_def Let_def
    by (rule triple_bind[OF c] triple_bind[OF k] triple_bind[OF triple_any] triple_lift | simp add: fail_def split: if_splits)+
qed

lemma bind_run_world:
  assumes "triple (\<lambda>_. True) m (\<lambda>x _. V x) (\<lambda>_. True)" "\<And>s. R (snd s) \<Longrightarrow> E s"
    and "\<And>x. V x \<Longrightarrow> triple (\<lambda>s. R (snd s)) (f x) Q E"
  shows "triple (\<lambda>s. R (snd s)) (io_bind (run_world m) f) Q E"
proof (rule triple_bind)
  show "triple (\<lambda>s. R (snd s)) (run_world m) (\<lambda>x s. V x \<and> R (snd s)) E"
    using assms(1,2) unfolding triple_def run_world_def by (fastforce split: sum.splits)
  show "triple (\<lambda>s. V x \<and> R (snd s)) (f x) Q E" for x using assms(3)[of x] by (auto simp: triple_def)
qed

lemma bind_update_run:
  assumes "\<And>r. R r \<Longrightarrow> R' (g r)" "triple (\<lambda>s. R' (snd s)) m Q E"
  shows "triple (\<lambda>s. R (snd s)) (io_bind (update_run g) (\<lambda>_. m)) Q E"
  by (rule triple_bind[OF _ assms(2)]) (use assms(1) in \<open>auto simp: update_run_def intro: triple_modify\<close>)

lemma bind_lift:
  "(\<And>s. R s \<Longrightarrow> E s) \<Longrightarrow> (\<And>x. r = Inr x \<Longrightarrow> triple R (f x) Q E) \<Longrightarrow> triple R (io_bind (io_lift r) f) Q E"
  by (cases r) (auto simp: triple_def io_bind_def io_lift_def)

text \<open>The entry while the model's scenarios run.\<close>

definition open_run :: "EmbeddingProfile \<Rightarrow> ModelRunResult \<Rightarrow> bool" where
  "open_run profile r \<longleftrightarrow> profile_run profile r \<and> unanalyzed_run r \<and> \<not> mr_success r \<and> mr_error_message r = []"

lemma analyze_run_sound:
  assumes "open_run profile r" "mr_paraphrase_ops r = 10" "mr_cross_domain_ops r = 12"
    and "map agent_of para = paraphrase_agents" "map agent_of xdom = cross_domain_agents"
  shows "sound_run F theta profile (analyze_run F theta para xdom r)" "mr_success (analyze_run F theta para xdom r)"
proof -
  have m: "mr_matrix r = new_ConfusionMatrix" "mr_pair_details r = []" using assms(1) by (simp_all add: open_run_def unanalyzed_run_def)
  have f: "fold count_outcome (xs @ ys) new_ConfusionMatrix = matrix_of (xs @ ys)" for xs ys by (rule matrix_counted)
  show "sound_run F theta profile (analyze_run F theta para xdom r)" "mr_success (analyze_run F theta para xdom r)"
    using assms f by (auto simp: sound_run_def profile_run_def open_run_def analyzed_run_def analyze_run_def Let_def m analyze_pairs_outcomes)
qed

lemma scenario_agents:
  assumes "map gr_operation rs = ws"
  shows "build_paraphrase_workload gt = Inr ws \<Longrightarrow> map agent_of rs = paraphrase_agents \<and> length rs = 10"
    "build_cross_domain_workload gt = Inr ws \<Longrightarrow> map agent_of rs = cross_domain_agents \<and> length rs = 12"
proof -
  have m: "map agent_of rs = map go_agent_id ws" and l: "length (map agent_of rs) = length rs"
    using assms by (auto simp: agent_of_def)
  {
    assume "build_paraphrase_workload gt = Inr ws"
    then have e: "map agent_of rs = paraphrase_agents"
      using m paraphrase_agents_of by (simp add: build_paraphrase_workload_def paraphrase_agents_def)
    with l show "map agent_of rs = paraphrase_agents \<and> length rs = 10" unfolding e by (simp add: paraphrase_agents_def)
  }
  assume "build_cross_domain_workload gt = Inr ws"
  then have e: "map agent_of rs = cross_domain_agents" using m cross_domain_agents_of by simp
  with l show "map agent_of rs = cross_domain_agents \<and> length rs = 12" unfolding e by (simp add: cross_domain_agents_def)
qed

definition stage :: "EmbeddingProfile \<Rightarrow> bool \<Rightarrow> bool \<Rightarrow> ModelRunResult \<Rightarrow> bool" where
  "stage profile p x r \<longleftrightarrow> open_run profile r \<and> (p \<longrightarrow> mr_paraphrase_ops r = 10) \<and> (x \<longrightarrow> mr_cross_domain_ops r = 12)"

lemma stage_open: "stage profile p x r \<Longrightarrow> open_run profile r"
  by (simp add: stage_def)

lemma stage_update:
  "stage profile False False r \<Longrightarrow> stage profile False False (r\<lparr>mr_embedding_dim := d\<rparr>)"
  "n = 10 \<Longrightarrow> stage profile False False r \<Longrightarrow> stage profile True False (r\<lparr>mr_paraphrase_ops := int n\<rparr>)"
  "n = 12 \<Longrightarrow> stage profile True False r \<Longrightarrow> stage profile True True (r\<lparr>mr_cross_domain_ops := int n\<rparr>)"
  by (simp_all add: stage_def open_run_def profile_run_def unanalyzed_run_def)

lemma stage_analyze:
  assumes "map agent_of para = paraphrase_agents" "map agent_of xdom = cross_domain_agents"
  shows "triple (\<lambda>s. stage profile True True (snd s)) (update_run (analyze_run F theta para xdom))
    (\<lambda>_ s. sound_run F theta profile (snd s) \<and> mr_success (snd s)) E"
  unfolding update_run_def by (rule triple_modify) (use assms analyze_run_sound in \<open>auto simp: stage_def\<close>)

lemma model_body_sound:
  "triple (\<lambda>s. open_run profile (snd s)) (model_body F ops c)
     (\<lambda>_ s. sound_run F (gc_theta c) profile (snd s) \<and> mr_success (snd s)) (\<lambda>s. open_run profile (snd s))"
proof -
  have o: "open_run profile = stage profile False False" by (simp add: stage_def fun_eq_iff)
  show ?thesis
    unfolding model_body_def
    apply (subst (1) o)
    apply (rule bind_run_world[OF triple_any], erule stage_open)+
    apply (rule bind_update_run, erule stage_update(1))
    apply (rule bind_lift, erule stage_open)+
    apply (rule bind_run_world[OF traffic_operations], erule stage_open)
    apply (drule (1) scenario_agents(1))
    apply (rule bind_update_run, rule stage_update(2), simp, assumption)
    apply (rule bind_lift, erule stage_open)
    apply (rule bind_run_world[OF traffic_operations], erule stage_open)
    apply (drule (1) scenario_agents(2))
    apply (rule bind_update_run, rule stage_update(3), simp, assumption)
    apply (rule stage_analyze, simp, simp)
    done
qed

lemma run_model_sound:
  "triple (\<lambda>_. True) (run_model F lib_what ops c profile) (\<lambda>r _. sound_run F (gc_theta c) profile r) (\<lambda>_. True)"
proof (rule triple_value)
  fix w w' run
  assume run: "run_model F lib_what ops c profile w = Some (w', Inr run)"
  let ?r0 = "new_ModelRunResult\<lparr>mr_profile_name := ep_name profile, mr_model_id := ep_model_id profile\<rparr>"
  have start: "open_run profile ?r0" by (simp add: open_run_def profile_run_def unanalyzed_run_def new_ModelRunResult_def)
  from run obtain w1 r1 res where m: "model_body F ops c (w, ?r0) = Some ((w1, r1), res)"
    by (auto simp: run_model_def split: Option.bind_splits)
  note t = model_body_sound[of profile F ops c, unfolded triple_def, rule_format, OF _ m]
  show "sound_run F (gc_theta c) profile run"
  proof (cases res)
    case (Inl e)
    then have "open_run profile r1" "run = r1\<lparr>mr_success := False, mr_error_message := what_text lib_what e\<rparr>"
      using t start m run by (auto simp: run_model_def split: if_splits)
    then show ?thesis by (simp add: sound_run_def open_run_def profile_run_def unanalyzed_run_def)
  next
    case (Inr u)
    then show ?thesis using t start m run by (auto simp: run_model_def)
  qed
qed

lemma run_models_sound:
  "triple (\<lambda>_. True) (run_models F lib_what ops c profiles) (\<lambda>rs _. list_all2 (sound_run F (gc_theta c)) profiles rs) (\<lambda>_. True)"
proof (induction profiles)
  case Nil
  then show ?case by (auto intro: triple_lift)
next
  case (Cons profile profiles)
  have one: "triple (\<lambda>_. True) (run_model F lib_what ops (with_profile profile c) profile)
      (\<lambda>r _. sound_run F (gc_theta c) profile r) (\<lambda>_. True)"
    using run_model_sound[of F lib_what ops "with_profile profile c" profile] by (simp add: with_profile_def)
  have rest: "triple (\<lambda>_. sound_run F (gc_theta c) profile r) (io_bind (run_models F lib_what ops c profiles) (\<lambda>rs. io_lift (Inr (r # rs))))
      (\<lambda>rs _. list_all2 (sound_run F (gc_theta c)) (profile # profiles) rs) (\<lambda>_. True)" for r
  proof (cases "sound_run F (gc_theta c) profile r")
    case True
    then show ?thesis by (auto intro!: triple_bind[OF Cons] triple_lift)
  qed (simp add: triple_def)
  show ?case unfolding run_models.simps by (rule triple_bind[OF one rest])
qed

text \<open>Steps of the program that do not write files.\<close>

lemma bind_gauntlet_world:
  assumes "triple (\<lambda>_. True) m (\<lambda>x _. V x) (\<lambda>_. True)" "\<And>x. V x \<Longrightarrow> triple (\<lambda>s. ga_files s = fs) (f x) Q (\<lambda>s. ga_files s = fs)"
  shows "triple (\<lambda>s. ga_files s = fs) (io_bind (gauntlet_world m) f) Q (\<lambda>s. ga_files s = fs)"
proof (rule triple_bind)
  show "triple (\<lambda>s. ga_files s = fs) (gauntlet_world m) (\<lambda>x s. V x \<and> ga_files s = fs) (\<lambda>s. ga_files s = fs)"
    using assms(1) unfolding triple_def gauntlet_world_def by (fastforce split: sum.splits)
  show "triple (\<lambda>s. V x \<and> ga_files s = fs) (f x) Q (\<lambda>s. ga_files s = fs)" for x using assms(2)[of x] by (auto simp: triple_def)
qed

lemma write_results_triple:
  "triple (\<lambda>s. ga_files s = fs) (write_results_json F ops path runs c)
     (\<lambda>_ s. \<exists>ts. ga_files s = fs @ [(path, results_text F runs c ts)]) (\<lambda>s. ga_files s = fs)"
  unfolding write_results_json_def
  by (rule bind_gauntlet_world[OF triple_any] bind_lift triple_modify | (simp; fail) | (rule exI, simp; fail))+

text \<open>The outcome of a run that succeeds: one file, at the configured path if there is one.\<close>

definition reported :: "fpu \<Rightarrow> GauntletConfig \<Rightarrow> 'w gauntlet_state \<Rightarrow> bool" where
  "reported F c s \<longleftrightarrow> (\<exists>path ts runs. ga_files s = [(path, results_text F runs c ts)]
     \<and> (gc_output_path c \<noteq> [] \<longrightarrow> path = gc_output_path c) \<and> list_all2 (sound_run F (gc_theta c)) kProfiles runs)"

lemma gauntlet_body_triple:
  "triple (\<lambda>s. ga_files s = []) (gauntlet_body F lib_what ops c) (\<lambda>_. reported F c) (\<lambda>s. ga_files s = [])"
proof -
  have written: "triple (\<lambda>s. ga_files s = []) (write_results_json F ops path runs c) (\<lambda>_. reported F c) (\<lambda>s. ga_files s = [])"
    if "gc_output_path c \<noteq> [] \<longrightarrow> path = gc_output_path c" "list_all2 (sound_run F (gc_theta c)) kProfiles runs" for path runs
    by (rule triple_weaken[OF write_results_triple]) (use that in \<open>auto simp: reported_def\<close>)
  have stop: "triple (\<lambda>s. ga_files s = [])
      (if gc_teardown_on_exit c then io_bind (gauntlet_world (stop_full_stack ops c)) (\<lambda>_. io_modify (ga_stack_started_update (\<lambda>_. False)))
       else io_lift (Inr ())) (\<lambda>_ s. ga_files s = []) (\<lambda>s. ga_files s = [])"
    by (auto intro!: bind_gauntlet_world[OF triple_any] triple_modify triple_lift)
  have path: "triple (\<lambda>_. True) (gauntlet_output_path ops c)
      (\<lambda>path _. gc_output_path c \<noteq> [] \<longrightarrow> path = gc_output_path c) (\<lambda>_. True)"
    by (auto simp: gauntlet_output_path_def intro!: triple_bind[OF triple_any] triple_lift)
  show ?thesis
    unfolding gauntlet_body_def
    apply (rule bind_gauntlet_world[OF path])
    apply (rule bind_lift, assumption)
    apply (rule bind_gauntlet_world[OF triple_any])
    apply (rule triple_bind[OF triple_modify[where Q = "\<lambda>_ s. ga_files s = []"]], simp)
    apply (rule bind_gauntlet_world[OF run_models_sound])
    apply (rule triple_bind[OF stop], rule written)
    apply simp_all
    done
qed

lemma gauntlet_main_files:
  assumes "gauntlet_main F erange lib_what ops root_dir env w = Some (s, e)"
  shows "if e = Exit 0 then \<exists>c. gauntlet_load_config F erange root_dir env = Inr c \<and> reported F c s else ga_files s = []"
proof (cases "gauntlet_load_config F erange root_dir env")
  case (Inl x)
  then show ?thesis using assms by (auto simp: gauntlet_main_def)
next
  case (Inr c)
  let ?s0 = "\<lparr>ga_world = w, ga_stack_started = False, ga_files = []\<rparr>"
  obtain s1 r where b: "gauntlet_body F lib_what ops c ?s0 = Some (s1, r)"
    using assms Inr by (auto simp: gauntlet_main_def split: Option.bind_splits)
  note t = gauntlet_body_triple[of F lib_what ops c, unfolded triple_def, rule_format, OF _ b]
  show ?thesis
  proof (cases r)
    case (Inr u)
    then show ?thesis using t b assms \<open>gauntlet_load_config F erange root_dir env = Inr c\<close> by (auto simp: gauntlet_main_def)
  next
    case (Inl x)
    have keep: "ga_files s2 = ga_files s1" if "gauntlet_world m s1 = Some (s2, y)" for m :: "('a, unit) io" and s2 y
      using that by (auto simp: gauntlet_world_def)
    show ?thesis using t b assms \<open>gauntlet_load_config F erange root_dir env = Inr c\<close> Inl
      by (auto simp: gauntlet_main_def split: if_splits sum.splits Option.bind_splits dest: keep)
  qed
qed

section \<open>The figures of a sound run are numbers\<close>

lemma pair_outcomes_sound:
  assumes "float_rounding F" "p \<in> set (pair_outcomes F l theta ops)"
  shows "\<exists>y. po_cosine_similarity p = Fin y \<and> \<bar>y\<bar> \<le> 1"
  using assms(2) cosine_similarity_unit[OF assms(1)]
  by (auto simp: pair_outcomes_def pair_outcome_def Let_def bench_cosine_eq)

lemma pair_outcomes_bound: "length ops = n \<Longrightarrow> length (pair_outcomes F l theta ops) \<le> n * (n - 1) div 2"
  using length_pair_outcomes[of F l theta ops] by (simp add: less_eq_div_iff_mult_less_eq mult.commute)

lemma analyzed_matrix_ok: "analyzed_run F theta r \<Longrightarrow> length (mr_pair_details r) \<le> 111 \<and> matrix_ok (mr_matrix r)"
proof -
  assume "analyzed_run F theta r"
  then obtain para xdom where ag: "map agent_of para = paraphrase_agents" "map agent_of xdom = cross_domain_agents"
    and p: "mr_pair_details r = pair_outcomes F ''paraphrase_gauntlet'' theta para @ pair_outcomes F ''cross_domain_flood'' theta xdom"
    and m: "mr_matrix r = matrix_of (mr_pair_details r)"
    by (auto simp: analyzed_run_def)
  have "length para = 10" "length xdom = 12"
    using arg_cong[OF ag(1), of length] arg_cong[OF ag(2), of length] by (simp_all add: paraphrase_agents_def cross_domain_agents_def)
  from pair_outcomes_bound[OF this(1), of F _ theta] pair_outcomes_bound[OF this(2), of F _ theta]
  have l: "length (mr_pair_details r) \<le> 111" unfolding p by (simp add: add_mono[of _ 45 _ 66, simplified])
  then show ?thesis
    using matrix_total[of "mr_pair_details r"] matrix_nonneg[of "mr_pair_details r"] by (simp add: matrix_ok_def m)
qed

lemma unit_finite: "unit_fl x \<Longrightarrow> finite_fl x" "accurate k x e \<Longrightarrow> finite_fl x"
  by (auto simp: unit_fl_def accurate_def finite_fl_def)

lemma sound_run_finite:
  assumes F: "float_rounding F" "double_rounding F" "relative_rounding F" and r: "sound_run F theta profile r"
  shows "finite_run r"
proof (cases "mr_success r")
  case False
  then show ?thesis using r
    by (simp add: sound_run_def unanalyzed_run_def finite_run_def finite_metrics_def new_ClassificationMetrics_def finite_fl_def)
next
  case True
  then have a: "analyzed_run F theta r" using r by (simp add: sound_run_def)
  then have m: "mr_metrics r = compute_classification_metrics F (mr_matrix r)" by (auto simp: analyzed_run_def)
  note ok = analyzed_matrix_ok[OF a, THEN conjunct2]
  have "finite_metrics (mr_metrics r)"
    using metrics_unit[OF F(2) ok] unit_finite(2)[OF f1_accurate[OF F(2,3) ok]] by (simp add: finite_metrics_def m unit_finite(1))
  moreover have "list_all (\<lambda>p. finite_fl (po_cosine_similarity p)) (mr_pair_details r)"
    using a pair_outcomes_sound[OF F(1)] by (fastforce simp: analyzed_run_def list_all_iff finite_fl_def)
  ultimately show ?thesis by (simp add: finite_run_def)
qed

end
