(* ===== verification/GauntletProps.thy ===== *)
theory GauntletProps
  imports BenchRunProps GauntletLaws
begin

text \<open>
  The properties of the paraphrase gauntlet: its confusion matrix, its metrics, and the results file.
\<close>

text \<open>C32: the confusion matrix is exact. After both scenarios of a model the four cells are the numbers of
  granted pairs in the four classes (similar or not by the threshold, serialised or not by the lock
  times), whatever order the lists have; the cells add up to the number of pair reports, and the
  diagonal counts the pairs reported as passed.
\<close>

theorem confusion_matrix_exact:
  fixes F :: fpu and theta :: fl and para xdom :: "GauntletResult list"
  defines "pairs \<equiv> map (Pair ''paraphrase_gauntlet'') (granted_pairs para) @ map (Pair ''cross_domain_flood'') (granted_pairs xdom)"
    and "similar \<equiv> (\<lambda>(l, a, b). fl_le theta (bench_cosine_similarity F (go_embedding (gr_operation a)) (go_embedding (gr_operation b))))"
    and "serialized \<equiv> (\<lambda>(l :: string, a, b). \<not> intervals_overlap
      (rs_lock_acquired_unix_ms (gr_response a)) (rs_lock_released_unix_ms (gr_response a))
      (rs_lock_acquired_unix_ms (gr_response b)) (rs_lock_released_unix_ms (gr_response b)))"
    and "run \<equiv> analyze_run F theta para xdom new_ModelRunResult"
  shows "cm_tp (mr_matrix run) = tally (\<lambda>p. similar p \<and> serialized p) pairs
    \<and> cm_fn (mr_matrix run) = tally (\<lambda>p. similar p \<and> \<not> serialized p) pairs
    \<and> cm_fp (mr_matrix run) = tally (\<lambda>p. \<not> similar p \<and> serialized p) pairs
    \<and> cm_tn (mr_matrix run) = tally (\<lambda>p. \<not> similar p \<and> \<not> serialized p) pairs
    \<and> mr_pair_details run = map (\<lambda>(l, a, b). pair_outcome F l theta a b) pairs
    \<and> cm_tp (mr_matrix run) + cm_fn (mr_matrix run) + cm_fp (mr_matrix run) + cm_tn (mr_matrix run) = int (length (mr_pair_details run))
    \<and> cm_tp (mr_matrix run) + cm_tn (mr_matrix run) = tally po_pass (mr_pair_details run)"
proof -
  have d: "mr_pair_details run = map (\<lambda>(l, a, b). pair_outcome F l theta a b) pairs"
    by (simp add: run_def pairs_def analyze_run_def analyze_pairs_outcomes pair_outcomes_def new_ModelRunResult_def)
  have m: "mr_matrix run = matrix_of (mr_pair_details run)"
    by (simp add: run_def analyze_run_def analyze_pairs_outcomes new_ModelRunResult_def flip: matrix_counted)
  have t: "tally P (map f ps) = tally (\<lambda>p. P (f p)) ps" for P and f :: "string \<times> GauntletResult \<times> GauntletResult \<Rightarrow> PairOutcome" and ps
    by (simp add: tally_def filter_map o_def)
  have c: "po_expected_conflict (case p of (l, a, b) \<Rightarrow> pair_outcome F l theta a b) = similar p"
    "po_observed_serialized (case p of (l, a, b) \<Rightarrow> pair_outcome F l theta a b) = serialized p" for p
    by (auto simp: pair_outcome_def Let_def similar_def serialized_def split: prod.splits)
  have "list_all (\<lambda>p. po_pass p = (po_expected_conflict p = po_observed_serialized p)) (mr_pair_details run)"
    unfolding d by (auto simp: list_all_iff pair_outcome_pass)
  from matrix_passes[OF this] show ?thesis
    using matrix_total[of "mr_pair_details run"] by (simp add: m) (simp add: d matrix_of_def t c)
qed



section \<open>A run for the example\<close>

text \<open>
  A machine on which everything works: two texts of one payload each, embeddings of one number, every
  client granted, and a point count that is the number of clients of the last round.
\<close>

definition ex_gauntlet_body :: "string \<Rightarrow> nat \<Rightarrow> string" where
  "ex_gauntlet_body target n =
     (if target = ''/v1/embeddings'' then quoted ''embedding'' @ '':[1]''
      else if target = ''/collections/'' @ kGauntletCollection @ ''/points/count'' then quoted ''count'' @ '':'' @ nat_to_string n
      else [])"

definition ex_gauntlet_file :: "string \<Rightarrow> string" where
  "ex_gauntlet_file path = quoted ''payload'' @ '':'' @ quoted (if path = ''/dslm/demo_inputs/A.json'' then ''green'' else ''steel'')"

definition ex_gauntlet_ops :: "nat run_ops" where
  "ex_gauntlet_ops =
     \<lparr>ro_bench = \<lparr>bw_http = (\<lambda>host port verb target body n. Some (n, Inr \<lparr>http_status_code = 200, http_body = ex_gauntlet_body target n\<rparr>)),
        bw_ping = (\<lambda>target from_node n. Some (n, Status_OK)),
        bw_get_leader = (\<lambda>target n. Some (n, Status_OK,
          \<lparr>li_leader_id = ''node-1'', li_leader_address = ''dscc-node-1:50051'', li_current_term = 1, li_is_leader = True\<rparr>)),
        bw_now = (\<lambda>n. (n, 0)), bw_sleep = (\<lambda>ms n. n), bw_exists = (\<lambda>path n. (n, True)),
        bw_read = (\<lambda>path n. (n, Some (ex_gauntlet_file path)))\<rparr>,
      ro_popen = (\<lambda>command n. Some (n, Some (0, []))), ro_setenv = (\<lambda>key v n. n), ro_unix_ms = (\<lambda>n. (n, 0)),
      ro_clients = (\<lambda>calls n. Some (length calls, \<lambda>i. \<lparr>cc_submit_ms = 0, cc_enter_ms = 0, cc_exit_ms = 1, cc_status = Status_OK,
        cc_response = default_AcquireResponse\<lparr>rs_granted := True\<rparr>\<rparr>)),
      ro_open = (\<lambda>path n. (n, Inr True)), ro_csv_contents = (\<lambda>path n. (n, None))\<rparr>"

lemma ex_gauntlet_fields [simp]:
  "bw_http (ro_bench ex_gauntlet_ops) host port verb target body n = Some (n, Inr \<lparr>http_status_code = 200, http_body = ex_gauntlet_body target n\<rparr>)"
  "bw_ping (ro_bench ex_gauntlet_ops) target' from_node n = Some (n, Status_OK)"
  "bw_now (ro_bench ex_gauntlet_ops) n = (n, 0)" "bw_exists (ro_bench ex_gauntlet_ops) path n = (n, True)"
  "bw_read (ro_bench ex_gauntlet_ops) path n = (n, Some (ex_gauntlet_file path))" "ro_popen ex_gauntlet_ops command n = Some (n, Some (0, []))"
  "ro_setenv ex_gauntlet_ops key v n = n" "ro_unix_ms ex_gauntlet_ops n = (n, 0)" "ro_open ex_gauntlet_ops path n = (n, Inr True)"
  by (simp_all add: ex_gauntlet_ops_def)



















end
