(* ===== verification/E2eText.thy ===== *)
theory E2eText
  imports BenchRun
begin

text \<open>
  The text layer of the end-to-end bench (\<^verbatim>\<open>src/e2e_bench.cpp\<close>, up to \<^verbatim>\<open>load_config\<close>): operation types,
  agent names, the JSON readers, the demo inputs and the configuration. The helpers that repeat the
  benchmark runner's or the lock service's (\<^verbatim>\<open>trim_copy\<close>, \<^verbatim>\<open>lowercase_copy\<close>, \<^verbatim>\<open>shell_quote\<close>, \<^verbatim>\<open>escape_json\<close>,
  \<^verbatim>\<open>send_http_request\<close>, \<^verbatim>\<open>parse_float_token\<close>, \<^verbatim>\<open>cosine_similarity\<close>) are taken from there.
\<close>

section \<open>Data\<close>

record E2eConfig =
  ec_project_root :: string
  ec_input_dir :: string
  ec_embedding_image :: string
  ec_model_id :: string
  ec_collection :: string
  ec_embedding_host :: string
  ec_embedding_port :: string
  ec_qdrant_host :: string
  ec_qdrant_port :: string
  ec_dscc_target :: string
  ec_node_targets :: "string list"
  ec_node_service_names :: "string list"
  ec_theta :: fl
  ec_lock_hold_ms :: int
  ec_teardown_on_exit :: bool
  ec_skip_docker :: bool

definition default_E2eConfig :: "fpu \<Rightarrow> string \<Rightarrow> E2eConfig" where
  "default_E2eConfig F project_root =
     \<lparr>ec_project_root = project_root, ec_input_dir = project_root @ ''/demo_inputs'', ec_embedding_image = ''ollama/ollama:latest'',
      ec_model_id = ''all-minilm:latest'', ec_collection = ''dscc_memory_e2e'', ec_embedding_host = ''127.0.0.1'',
      ec_embedding_port = ''7997'', ec_qdrant_host = ''127.0.0.1'', ec_qdrant_port = ''6333'', ec_dscc_target = ''127.0.0.1:50050'',
      ec_node_targets = [''127.0.0.1:50051'', ''127.0.0.1:50052'', ''127.0.0.1:50053'', ''127.0.0.1:50054'', ''127.0.0.1:50055''],
      ec_node_service_names = [''dscc-node-1'', ''dscc-node-2'', ''dscc-node-3'', ''dscc-node-4'', ''dscc-node-5''],
      ec_theta = rnd_float F (78 / 100), ec_lock_hold_ms = 750, ec_teardown_on_exit = False, ec_skip_docker = False\<rparr>"

record AgentDocument =
  ad_label :: char
  ad_source_file :: string
  ad_text :: string
  ad_embedding :: "fl list"
  ad_scheduled_offset_ms :: int
  ad_operation :: BenchOperationType

definition new_AgentDocument :: AgentDocument where
  "new_AgentDocument = \<lparr>ad_label = CHR ''?'', ad_source_file = [], ad_text = [], ad_embedding = [], ad_scheduled_offset_ms = 0,
     ad_operation = kWrite\<rparr>"

record AgentOutcome =
  ao_label :: char
  ao_agent_id :: string
  ao_display_name :: string
  ao_status :: Status
  ao_response :: AcquireResponse
  ao_operation :: BenchOperationType
  ao_embedding :: "fl list"
  ao_submit_ms :: int
  ao_embedding_start_ms :: int
  ao_embedding_finish_ms :: int
  ao_dslm_enter_ms :: int
  ao_dslm_exit_ms :: int
  ao_finish_ms :: int
  ao_elapsed_ms :: int

record Scenario =
  sn_name :: string
  sn_labels :: "char list"
  sn_expected_conflicts :: "(char \<times> char) list"
  sn_expect_distinct_completion :: bool

section \<open>Names\<close>

definition parse_operation_type :: "string \<Rightarrow> string \<Rightarrow> BenchOperationType outcome" where
  "parse_operation_type raw_operation source_file =
     (let normalized = lowercase_copy (trim_copy raw_operation) in
      if normalized = [] \<or> normalized = ''write'' then Inr kWrite
      else if normalized = ''read'' then Inr kRead
      else fail (''invalid operation '' @ [squote] @ raw_operation @ [squote] @ '' in '' @ source_file
        @ ''; expected '' @ [squote] @ ''write'' @ [squote] @ '' or '' @ [squote] @ ''read'' @ [squote]))"

definition agent_name :: "char \<Rightarrow> string" where
  "agent_name label = ''Agent '' @ [label]"

text \<open>\<^verbatim>\<open>s.rfind(p)\<close>.\<close>

definition str_rfind :: "string \<Rightarrow> string \<Rightarrow> nat option" where
  "str_rfind s p = (let ks = filter (\<lambda>k. prefix p (drop k s)) [0..<length s + 1] in if ks = [] then None else Some (last ks))"

definition display_agent_id :: "string \<Rightarrow> string outcome" where
  "display_agent_id agent_id =
     (case str_rfind agent_id ''-agent-'' of
        Some pos \<Rightarrow> if pos + 7 < length agent_id then rbind (elem_at agent_id (pos + 7)) (\<lambda>c. Inr (agent_name c)) else Inr agent_id
      | None \<Rightarrow> Inr agent_id)"

definition scenario_slug :: "string \<Rightarrow> string" where
  "scenario_slug name = map (\<lambda>c. if isalnum c then tolower c else CHR ''-'') name"

definition scenario_agent_id :: "string \<Rightarrow> char \<Rightarrow> string" where
  "scenario_agent_id name label = ''scenario-'' @ scenario_slug name @ ''-agent-'' @ [label]"

section \<open>JSON readers\<close>

definition e2e_embedding_array :: "fpu \<Rightarrow> string \<Rightarrow> fl list outcome" where
  "e2e_embedding_array F body =
     (case str_find body (quoted ''embedding'') of
        None \<Rightarrow> fail ''embedding service response did not contain embedding field''
      | Some key_pos \<Rightarrow>
          (case find_at body ''['' key_pos of
             None \<Rightarrow> fail ''embedding field was malformed''
           | Some array_start \<Rightarrow>
               (case array_end_loop (array_start + 1) 1 (drop (array_start + 1) body) of
                  None \<Rightarrow> fail ''embedding array did not terminate''
                | Some array_end \<Rightarrow>
                    rbind (token_loop F [] [] (take (array_end - (array_start + 1)) (drop (array_start + 1) body)))
                      (\<lambda>values. if values = [] then fail ''embedding service returned an empty embedding vector'' else Inr values))))"

definition parse_qdrant_count :: "string \<Rightarrow> int outcome" where
  "parse_qdrant_count body =
     (case str_find body (quoted ''count'') of
        None \<Rightarrow> fail ''Qdrant count response missing count field''
      | Some count_pos \<Rightarrow>
          (case find_at body '':'' count_pos of
             None \<Rightarrow> fail ''Qdrant count response malformed''
           | Some colon \<Rightarrow> stoi (takeWhile isdigit (dropWhile isspace (drop (colon + 1) body)))))"

definition e2e_read_file :: "string \<Rightarrow> string option \<Rightarrow> string outcome" where
  "e2e_read_file path contents =
     (case contents of
        None \<Rightarrow> fail (''could not open input file '' @ path)
      | Some raw \<Rightarrow>
          let text = rev (dropWhile (\<lambda>c. c = CHR 0x0A \<or> c = CHR 0x0D \<or> c = CHR '' '') (rev raw))
          in if text = [] then fail (''input file was empty: '' @ path) else Inr text)"

definition e2e_unescape :: "char \<Rightarrow> char" where
  "e2e_unescape ch =
     (if ch = CHR ''b'' then CHR 0x08 else if ch = CHR ''f'' then CHR 0x0C else if ch = CHR ''n'' then CHR 0x0A
      else if ch = CHR ''r'' then CHR 0x0D else if ch = CHR ''t'' then CHR 0x09 else ch)"

fun e2e_string_loop :: "bool \<Rightarrow> string \<Rightarrow> string \<Rightarrow> string option" where
  "e2e_string_loop escaping value [] = None"
| "e2e_string_loop escaping value (ch # s) =
     (if escaping then e2e_string_loop False (value @ [e2e_unescape ch]) s
      else if ch = CHR 0x5C then e2e_string_loop True value s
      else if ch = CHR 0x22 then Some value
      else e2e_string_loop False (value @ [ch]) s)"

definition e2e_string_field :: "string \<Rightarrow> string \<Rightarrow> string outcome" where
  "e2e_string_field body key =
     (let quoted_key = quoted key in
      case str_find body quoted_key of
        None \<Rightarrow> fail (''missing JSON string field: '' @ key)
      | Some key_pos \<Rightarrow>
          (case find_at body '':'' (key_pos + length quoted_key) of
             None \<Rightarrow> fail (''malformed JSON field: '' @ key)
           | Some colon \<Rightarrow>
               (case find_at body dq (colon + 1) of
                  None \<Rightarrow> fail (''missing opening quote for JSON field: '' @ key)
                | Some value_start \<Rightarrow>
                    (case e2e_string_loop False [] (drop (value_start + 1) body) of
                       None \<Rightarrow> fail (''unterminated JSON string field: '' @ key)
                     | Some value \<Rightarrow> Inr value))))"

definition string_field_or_default :: "string \<Rightarrow> string \<Rightarrow> string \<Rightarrow> string outcome" where
  "string_field_or_default body key default_value =
     (if str_find body (quoted key) = None then Inr default_value else e2e_string_field body key)"

text \<open>\<^verbatim>\<open>std::stoll\<close>; \<open>strtol\<close> saturates at the bounds of 64 bits, where it reports \<^verbatim>\<open>ERANGE\<close>.\<close>

definition stoll :: "string \<Rightarrow> int outcome" where
  "stoll s = (let (neg, t) = read_sign (dropWhile isspace s); (v, k, rest) = read_digits 0 t; i = (if neg then - int v else int v)
     in if k = 0 then Inl InvalidArgument else if i < - (2 ^ 63) \<or> i > 2 ^ 63 - 1 then Inl OutOfRange else Inr i)"

definition json_int_field :: "string \<Rightarrow> string \<Rightarrow> int \<Rightarrow> int outcome" where
  "json_int_field body key default_value =
     (let quoted_key = quoted key in
      case str_find body quoted_key of
        None \<Rightarrow> Inr default_value
      | Some key_pos \<Rightarrow>
          (case find_at body '':'' (key_pos + length quoted_key) of
             None \<Rightarrow> fail (''malformed JSON integer field: '' @ key)
           | Some colon \<Rightarrow>
               let rest = dropWhile isspace (drop (colon + 1) body);
                   sign = (if rest \<noteq> [] \<and> (hd rest = CHR ''-'' \<or> hd rest = CHR ''+'') then [hd rest] else []);
                   digits = takeWhile isdigit (drop (length sign) rest)
               in if sign @ digits = [] then fail (''missing JSON integer value for field: '' @ key) else stoll (sign @ digits)))"

text \<open>The scan of \<^verbatim>\<open>parse_first_payload_schedule_entry\<close>; the position of the open object is \<open>start\<close>.\<close>

fun first_entry_loop :: "string \<Rightarrow> nat \<Rightarrow> bool \<Rightarrow> bool \<Rightarrow> int \<Rightarrow> nat option \<Rightarrow> string \<Rightarrow> string option" where
  "first_entry_loop body i in_string escaping depth start [] = None"
| "first_entry_loop body i in_string escaping depth start (ch # s) =
     (if escaping then first_entry_loop body (Suc i) in_string False depth start s
      else if ch = CHR 0x5C then first_entry_loop body (Suc i) in_string True depth start s
      else if ch = CHR 0x22 then first_entry_loop body (Suc i) (\<not> in_string) False depth start s
      else if in_string then first_entry_loop body (Suc i) in_string False depth start s
      else if ch = CHR 0x7B then first_entry_loop body (Suc i) in_string False (depth + 1) (if depth = 0 then Some i else start) s
      else if ch = CHR 0x7D then
        (if depth > 0 then
           (case start of
              Some object_start \<Rightarrow>
                if depth - 1 = 0 then Some (take (i - object_start + 1) (drop object_start body))
                else first_entry_loop body (Suc i) in_string False (depth - 1) start s
            | None \<Rightarrow> first_entry_loop body (Suc i) in_string False (depth - 1) start s)
         else first_entry_loop body (Suc i) in_string False depth start s)
      else if ch = CHR '']'' \<and> depth = 0 then None
      else first_entry_loop body (Suc i) in_string False depth start s)"

definition first_schedule_entry :: "string \<Rightarrow> string option outcome" where
  "first_schedule_entry body =
     (let quoted_key = quoted ''payload_schedule'' in
      case str_find body quoted_key of
        None \<Rightarrow> Inr None
      | Some key_pos \<Rightarrow>
          (case find_at body ''['' (key_pos + length quoted_key) of
             None \<Rightarrow> fail ''malformed payload_schedule array''
           | Some array_start \<Rightarrow> Inr (first_entry_loop body (array_start + 1) False False 0 None (drop (array_start + 1) body))))"

section \<open>Demo inputs and configuration\<close>

definition document_fields :: "string \<Rightarrow> AgentDocument \<Rightarrow> AgentDocument outcome" where
  "document_fields source doc =
     rbind (e2e_string_field source ''payload'') (\<lambda>text.
     rbind (json_int_field source ''scheduled_offset_ms'' 0) (\<lambda>offset.
     rbind (string_field_or_default source ''operation'' ''write'') (\<lambda>raw.
     rbind (parse_operation_type raw (ad_source_file doc)) (\<lambda>operation.
       Inr (doc\<lparr>ad_text := text, ad_scheduled_offset_ms := offset, ad_operation := operation\<rparr>)))))"

text \<open>\<open>contents\<close> is what the input file holds, \<open>None\<close> when it cannot be opened.\<close>

definition parse_agent_document :: "char \<Rightarrow> string \<Rightarrow> string option \<Rightarrow> AgentDocument outcome" where
  "parse_agent_document label path contents =
     rbind (e2e_read_file path contents) (\<lambda>json.
     rbind (first_schedule_entry json) (\<lambda>entry.
       document_fields (case entry of Some e \<Rightarrow> e | None \<Rightarrow> json)
         (new_AgentDocument\<lparr>ad_label := label, ad_source_file := label # ''.json''\<rparr>)))"

definition getenv_either :: "environ \<Rightarrow> string \<Rightarrow> string \<Rightarrow> string \<Rightarrow> string" where
  "getenv_either env key other dflt =
     (case env key of Some v \<Rightarrow> v | None \<Rightarrow> (case env other of Some v \<Rightarrow> v | None \<Rightarrow> dflt))"

definition getenv_value :: "environ \<Rightarrow> string \<Rightarrow> 'a \<Rightarrow> (string \<Rightarrow> 'a) \<Rightarrow> 'a" where
  "getenv_value env key dflt parse = (case env key of Some v \<Rightarrow> parse v | None \<Rightarrow> dflt)"

text \<open>\<^verbatim>\<open>strtof\<close> without an end pointer, and \<^verbatim>\<open>atoi\<close>, which converts the 64-bit result of \<^verbatim>\<open>strtol\<close> to \<^verbatim>\<open>int\<close>.\<close>

definition strtof_value :: "fpu \<Rightarrow> string \<Rightarrow> fl" where
  "strtof_value F s = (case strtof F s of Some (v, rest) \<Rightarrow> v | None \<Rightarrow> Fin 0)"

definition atoi :: "string \<Rightarrow> int" where
  "atoi s = (case strtol s of Some (v, rest) \<Rightarrow> sint (word_of_int v :: 32 word) | None \<Rightarrow> 0)"

definition host_targets :: "string \<Rightarrow> string list" where
  "host_targets h = map (\<lambda>port. h @ '':'' @ port) [''50051'', ''50052'', ''50053'', ''50054'', ''50055'']"

definition e2e_load_config :: "fpu \<Rightarrow> string \<Rightarrow> environ \<Rightarrow> E2eConfig" where
  "e2e_load_config F project_root env =
     (let c = default_E2eConfig F project_root in
      c\<lparr>ec_embedding_image := getenv_either env ''EMBEDDING_IMAGE'' ''INFINITY_IMAGE'' (ec_embedding_image c),
        ec_model_id := getenv_either env ''EMBEDDING_MODEL_ID'' ''INFINITY_MODEL_ID'' (ec_model_id c),
        ec_collection := getenv_value env ''QDRANT_COLLECTION'' (ec_collection c) id,
        ec_theta := getenv_value env ''DSCC_THETA'' (ec_theta c) (strtof_value F),
        ec_lock_hold_ms := getenv_value env ''DSCC_LOCK_HOLD_MS'' (ec_lock_hold_ms c) atoi,
        ec_teardown_on_exit := getenv_value env ''E2E_TEARDOWN'' (ec_teardown_on_exit c) (\<lambda>v. v = ''1''),
        ec_skip_docker := getenv_value env ''E2E_SKIP_DOCKER'' (ec_skip_docker c) (\<lambda>v. v = ''1''),
        ec_dscc_target := getenv_value env ''DSCC_SERVER_HOST'' (ec_dscc_target c) (\<lambda>h. h @ '':50050''),
        ec_node_targets := getenv_value env ''DSCC_SERVER_HOST'' (ec_node_targets c) host_targets,
        ec_qdrant_host := getenv_value env ''QDRANT_HOST'' (ec_qdrant_host c) id,
        ec_qdrant_port := getenv_value env ''QDRANT_PORT'' (ec_qdrant_port c) id\<rparr>)"

end
