(* ===== verification/E2eBench.thy ===== *)
theory E2eBench
  imports E2eText
begin

text \<open>
  The end-to-end bench (\<^verbatim>\<open>src/e2e_bench.cpp\<close>, \<^verbatim>\<open>run_shell_command\<close> to \<^verbatim>\<open>main\<close>): it starts the container
  stack, embeds five documents, runs scenarios in which agents ask for locks at the same time, two of
  them while nodes are stopped and started, and judges what the agents were told. Steps are those of
  \<open>BenchRun\<close>; the state has the world, the flag \<^verbatim>\<open>stack_started\<close> and the lines written so far.
\<close>

section \<open>The machine\<close>

text \<open>What an agent's thread records: times, the answer of the embedding service, the answer to its call.\<close>

record agent_call =
  ac_submit_ms :: int
  ac_embedding_start_ms :: int
  ac_embedding :: "HttpResponse outcome"
  ac_embedding_finish_ms :: int
  ac_dslm_enter_ms :: int
  ac_dslm_exit_ms :: int
  ac_status :: Status
  ac_response :: AcquireResponse

text \<open>
  \<open>eo_fork\<close> starts one thread per agent: it waits at the barrier, sleeps until its offset, posts the body
  to the embedding service and sends the request made from the vector. What the program does next
  runs beside the threads, whose progress is part of the world; \<open>eo_join\<close> waits for all of them.
\<close>

record 'w e2e_ops =
  eo_run :: "'w run_ops"
  eo_system :: "string \<Rightarrow> 'w \<Rightarrow> ('w \<times> int) option"
  eo_fork :: "(int \<times> string \<times> (fl list \<Rightarrow> AcquireRequest)) list \<Rightarrow> 'w \<Rightarrow> 'w"
  eo_join :: "'w \<Rightarrow> ('w \<times> (nat \<Rightarrow> agent_call)) option"

abbreviation eo_bench :: "'w e2e_ops \<Rightarrow> 'w bench_ops" where
  "eo_bench ops \<equiv> ro_bench (eo_run ops)"

record 'w e2e_state =
  es_world :: 'w
  es_stack_started :: bool
  es_log :: "string list"

definition e2e_world :: "('w, 'a) io \<Rightarrow> ('w e2e_state, 'a) io" where
  "e2e_world m s = map_option (\<lambda>(w, r). (s\<lparr>es_world := w\<rparr>, r)) (m (es_world s))"

text \<open>A call of the machine that cannot throw.\<close>

definition e2e_get :: "('w \<Rightarrow> 'w \<times> 'a) \<Rightarrow> ('w e2e_state, 'a) io" where
  "e2e_get f = e2e_world (\<lambda>w. let (w1, x) = f w in Some (w1, Inr x))"

definition e2e_call :: "('w \<Rightarrow> ('w \<times> 'a) option) \<Rightarrow> ('w e2e_state, 'a) io" where
  "e2e_call f = e2e_world (\<lambda>w. map_option (\<lambda>(w1, x). (w1, Inr x)) (f w))"

section \<open>Output\<close>

definition log_line :: "string \<Rightarrow> ('w e2e_state, unit) io" where
  "log_line line = io_modify (\<lambda>s. s\<lparr>es_log := es_log s @ [line]\<rparr>)"

definition log_lines :: "string list \<Rightarrow> ('w e2e_state, unit) io" where
  "log_lines lines = io_modify (\<lambda>s. s\<lparr>es_log := es_log s @ lines\<rparr>)"

definition tagged_line :: "string \<Rightarrow> string \<Rightarrow> string \<Rightarrow> string" where
  "tagged_line color tag message = ansi color @ ''['' @ tag @ '']'' @ ansi ''0'' @ '' '' @ message"

definition log_tagged :: "string \<Rightarrow> string \<Rightarrow> string \<Rightarrow> ('w e2e_state, unit) io" where
  "log_tagged color tag message = log_line (tagged_line color tag message)"

definition log_info :: "string \<Rightarrow> ('w e2e_state, unit) io" where "log_info = log_tagged ''34'' ''INFO''"

definition log_success :: "string \<Rightarrow> ('w e2e_state, unit) io" where "log_success = log_tagged ''32'' ''SUCCESS''"

definition log_warn :: "string \<Rightarrow> ('w e2e_state, unit) io" where "log_warn = log_tagged ''33'' ''WARN''"

definition log_error :: "string \<Rightarrow> ('w e2e_state, unit) io" where "log_error = log_tagged ''31'' ''ERROR''"

definition section_lines :: "string \<Rightarrow> string list" where
  "section_lines title = (let bar = ansi ''35'' @ replicate 60 (CHR ''='') @ ansi ''0'' in [[], bar, ansi ''35'' @ title @ ansi ''0'', bar])"

definition setw :: "nat \<Rightarrow> string \<Rightarrow> string" where
  "setw n s = replicate (n - length s) (CHR '' '') @ s"

section \<open>Commands and services\<close>

definition run_shell_command :: "'w e2e_ops \<Rightarrow> string \<Rightarrow> ('w e2e_state, int) io" where
  "run_shell_command ops command =
     io_bind (log_info (''Executing: '' @ command)) (\<lambda>_. e2e_call (eo_system ops command))"

definition e2e_compose_command :: "E2eConfig \<Rightarrow> string \<Rightarrow> string" where
  "e2e_compose_command config args = ''cd '' @ shell_quote (ec_project_root config) @ '' && docker compose '' @ args"

definition run_compose_capture :: "'w e2e_ops \<Rightarrow> E2eConfig \<Rightarrow> string \<Rightarrow> ('w e2e_state, int \<times> string) io" where
  "run_compose_capture ops config compose_args = e2e_world (run_shell_capture (eo_run ops) (e2e_compose_command config compose_args))"

definition run_compose_or_throw :: "'w e2e_ops \<Rightarrow> E2eConfig \<Rightarrow> string \<Rightarrow> string \<Rightarrow> ('w e2e_state, unit) io" where
  "run_compose_or_throw ops config compose_args failure_message =
     io_bind (run_shell_command ops (e2e_compose_command config compose_args)) (\<lambda>code.
       io_lift (if code \<noteq> 0 then fail (failure_message @ '' ('' @ compose_args @ '')'') else Inr ()))"

fun target_service_loop :: "E2eConfig \<Rightarrow> string \<Rightarrow> nat \<Rightarrow> string list \<Rightarrow> string outcome" where
  "target_service_loop config target i [] = Inr []"
| "target_service_loop config target i (node_target # targets) =
     rbind (elem_at (ec_node_service_names config) i) (\<lambda>name.
       if node_target = target \<or> name @ '':50051'' = target \<or> name = target then Inr name
       else target_service_loop config target (Suc i) targets)"

definition service_name_for_target :: "E2eConfig \<Rightarrow> string \<Rightarrow> string outcome" where
  "service_name_for_target config target = target_service_loop config target 0 (ec_node_targets config)"

definition service_name_for_node_id :: "string \<Rightarrow> string" where
  "service_name_for_node_id node_id = (if \<not> prefix ''node-'' node_id then [] else ''dscc-'' @ node_id)"

fun host_target_loop :: "E2eConfig \<Rightarrow> string \<Rightarrow> nat \<Rightarrow> string list \<Rightarrow> string outcome" where
  "host_target_loop config service_name i [] = Inr []"
| "host_target_loop config service_name i (name # names) =
     (if name = service_name then elem_at (ec_node_targets config) i else host_target_loop config service_name (Suc i) names)"

definition host_target_for_service_name :: "E2eConfig \<Rightarrow> string \<Rightarrow> string outcome" where
  "host_target_for_service_name config service_name = host_target_loop config service_name 0 (ec_node_service_names config)"

definition host_target_for_target :: "E2eConfig \<Rightarrow> string \<Rightarrow> string outcome" where
  "host_target_for_target config target =
     rbind (service_name_for_target config target) (\<lambda>service_name.
       if service_name = [] then Inr [] else host_target_for_service_name config service_name)"

definition observe_leader :: "E2eConfig \<Rightarrow> string \<Rightarrow> LeaderInfo \<Rightarrow> LeaderObservation outcome" where
  "observe_leader config node_target response =
     rbind (if li_leader_id response \<noteq> [] then Inr (service_name_for_node_id (li_leader_id response))
            else service_name_for_target config (if li_leader_address response = [] then node_target else li_leader_address response))
       (\<lambda>service_name. Inr \<lparr>lo_node_target = node_target, lo_service_name = service_name, lo_leader_address = li_leader_address response,
          lo_leader_id = li_leader_id response, lo_current_term = li_current_term response\<rparr>)"

fun discover_loop :: "'w e2e_ops \<Rightarrow> E2eConfig \<Rightarrow> string list \<Rightarrow> ('w e2e_state, LeaderObservation option) io" where
  "discover_loop ops config [] = io_lift (Inr None)"
| "discover_loop ops config (target # targets) =
     io_bind (e2e_call (bw_get_leader (eo_bench ops) target)) (\<lambda>(status, response).
       if status_ok status \<and> (li_is_leader response \<or> li_leader_address response \<noteq> [])
       then io_lift (rbind (observe_leader config target response) (\<lambda>observation. Inr (Some observation)))
       else discover_loop ops config targets)"

definition e2e_discover_leader :: "'w e2e_ops \<Rightarrow> E2eConfig \<Rightarrow> ('w e2e_state, LeaderObservation option) io" where
  "e2e_discover_leader ops config = discover_loop ops config (ec_node_targets config)"

definition acceptable_leader :: "string \<Rightarrow> LeaderObservation option \<Rightarrow> bool" where
  "acceptable_leader expected_different_from observation =
     (case observation of
        None \<Rightarrow> False
      | Some ob \<Rightarrow> lo_leader_address ob \<noteq> [] \<and> (expected_different_from = [] \<or> lo_leader_address ob \<noteq> expected_different_from))"

definition e2e_sleep :: "'w e2e_ops \<Rightarrow> int \<Rightarrow> 'w e2e_state \<Rightarrow> 'w e2e_state" where
  "e2e_sleep ops ms s = s\<lparr>es_world := bw_sleep (eo_bench ops) ms (es_world s)\<rparr>"

text \<open>The loop of \<^verbatim>\<open>wait_for_leader\<close> and \<^verbatim>\<open>wait_for_node_control_plane\<close>: try until the deadline, every 100 ms.\<close>

partial_function (option) until_deadline ::
  "'w e2e_ops \<Rightarrow> int \<Rightarrow> exn \<Rightarrow> ('w e2e_state \<Rightarrow> ('w e2e_state \<times> 'a option outcome) option) \<Rightarrow> 'w e2e_state
   \<Rightarrow> ('w e2e_state \<times> 'a outcome) option" where
  "until_deadline ops deadline timeout_error attempt s =
     (let (w1, now) = bw_now (eo_bench ops) (es_world s); s1 = s\<lparr>es_world := w1\<rparr> in
      if now < deadline then
        (case attempt s1 of
           None \<Rightarrow> None
         | Some (s2, Inl e) \<Rightarrow> Some (s2, Inl e)
         | Some (s2, Inr (Some x)) \<Rightarrow> Some (s2, Inr x)
         | Some (s2, Inr None) \<Rightarrow> until_deadline ops deadline timeout_error attempt (e2e_sleep ops 100 s2))
      else Some (s1, Inl timeout_error))"

definition e2e_wait_for_leader :: "'w e2e_ops \<Rightarrow> E2eConfig \<Rightarrow> int \<Rightarrow> string \<Rightarrow> ('w e2e_state, LeaderObservation) io" where
  "e2e_wait_for_leader ops config timeout expected_different_from =
     io_bind (e2e_get (bw_now (eo_bench ops))) (\<lambda>now.
       until_deadline ops (now + timeout) (RuntimeError ''timed out waiting for a cluster leader'')
         (io_bind (e2e_discover_leader ops config) (\<lambda>observation.
            io_lift (Inr (if acceptable_leader expected_different_from observation then observation else None)))))"

definition wait_for_node_control_plane :: "'w e2e_ops \<Rightarrow> string \<Rightarrow> int \<Rightarrow> ('w e2e_state, unit) io" where
  "wait_for_node_control_plane ops target timeout =
     io_bind (e2e_get (bw_now (eo_bench ops))) (\<lambda>now.
       until_deadline ops (now + timeout) (RuntimeError (''timed out waiting for node control plane at '' @ target))
         (io_bind (e2e_call (bw_get_leader (eo_bench ops) target)) (\<lambda>(status, response).
            io_lift (Inr (if status_ok status then Some () else None)))))"

definition embedding_service_failed :: "'w e2e_ops \<Rightarrow> E2eConfig \<Rightarrow> ('w e2e_state, bool \<times> string \<times> string) io" where
  "embedding_service_failed ops config =
     io_bind (run_compose_capture ops config ''ps -a embedding-service'') (\<lambda>(status_code, status_output).
     io_bind (run_compose_capture ops config ''logs --tail=80 embedding-service'') (\<lambda>(logs_code, logs_output).
       let combined = lowercase_copy (status_output @ nl @ logs_output) in
       io_lift (Inr (contains combined ''exited'' \<or> contains combined ''dead'' \<or> contains combined ''restart''
         \<or> contains combined ''exec format error'', status_output, logs_output))))"

definition e2e_up_args :: string where
  "e2e_up_args = ''up -d --build qdrant embedding-service dscc-node-1 dscc-node-2 dscc-node-3 dscc-node-4 dscc-node-5 dscc-proxy''"

definition e2e_environment :: "'w e2e_ops \<Rightarrow> E2eConfig \<Rightarrow> 'w \<Rightarrow> 'w" where
  "e2e_environment ops config w =
     fold (\<lambda>(key, v). ro_setenv (eo_run ops) key v)
       [(''EMBEDDING_IMAGE'', ec_embedding_image config), (''EMBEDDING_MODEL_ID'', ec_model_id config),
        (''INFINITY_IMAGE'', ec_embedding_image config), (''INFINITY_MODEL_ID'', ec_model_id config),
        (''QDRANT_COLLECTION'', ec_collection config), (''DSCC_THETA'', fixed_text 2 (ec_theta config)),
        (''DSCC_LOCK_HOLD_MS'', to_string (ec_lock_hold_ms config))] w"

definition start_compose_stack :: "'w e2e_ops \<Rightarrow> E2eConfig \<Rightarrow> ('w e2e_state, unit) io" where
  "start_compose_stack ops config =
     (if length (ec_node_targets config) \<noteq> length (ec_node_service_names config)
      then io_lift (fail ''node_targets and node_service_names must have the same length'')
      else io_bind (io_modify (\<lambda>s. s\<lparr>es_world := e2e_environment ops config (es_world s)\<rparr>)) (\<lambda>_.
           io_bind (run_shell_command ops (e2e_compose_command config e2e_up_args)) (\<lambda>code.
             io_lift (if code \<noteq> 0 then fail ''docker compose up failed'' else Inr ()))))"

definition stop_compose_stack :: "'w e2e_ops \<Rightarrow> E2eConfig \<Rightarrow> ('w e2e_state, unit) io" where
  "stop_compose_stack ops config =
     io_bind (run_shell_command ops (e2e_compose_command config ''down'')) (\<lambda>code.
       if code \<noteq> 0 then log_warn ''docker compose down returned non-zero exit code'' else io_lift (Inr ()))"

definition e2e_http :: "'w e2e_ops \<Rightarrow> string \<Rightarrow> string \<Rightarrow> string \<Rightarrow> string \<Rightarrow> string \<Rightarrow> ('w e2e_state, HttpResponse) io" where
  "e2e_http ops host port verb target body = e2e_world (bw_http (eo_bench ops) host port verb target body)"

text \<open>The \<^verbatim>\<open>try\<close> blocks of the waits: an exception counts as no answer.\<close>

definition attempt_of :: "('s, 'a) io \<Rightarrow> ('s, 'a option) io" where
  "attempt_of m s = (case m s of
      None \<Rightarrow> None
    | Some (s1, Inr x) \<Rightarrow> Some (s1, Inr (Some x))
    | Some (s1, Inl e) \<Rightarrow> if is_exception e then Some (s1, Inr None) else Some (s1, Inl e))"

fun reach_targets :: "'w e2e_ops \<Rightarrow> string \<Rightarrow> string \<Rightarrow> string \<Rightarrow> string list \<Rightarrow> ('w e2e_state, bool) io" where
  "reach_targets ops name host port [] = io_lift (Inr False)"
| "reach_targets ops name host port (target # targets) =
     io_bind (attempt_of (e2e_http ops host port ''GET'' target [])) (\<lambda>answer.
       case answer of
         Some response \<Rightarrow>
           if http_status_code response \<ge> 200 \<and> http_status_code response < 300
           then io_bind (log_info (name @ '' is reachable on '' @ host @ '':'' @ port @ '' via '' @ target)) (\<lambda>_. io_lift (Inr True))
           else reach_targets ops name host port targets
       | None \<Rightarrow> reach_targets ops name host port targets)"

definition waiting_line :: "string \<Rightarrow> nat \<Rightarrow> nat \<Rightarrow> string" where
  "waiting_line name n max_attempts = ''Waiting for '' @ name @ '' ('' @ nat_to_string n @ ''/'' @ nat_to_string max_attempts @ '')...''"

text \<open>The argument counts the attempts that are left.\<close>

fun e2e_http_loop ::
  "'w e2e_ops \<Rightarrow> string \<Rightarrow> string \<Rightarrow> string \<Rightarrow> string list \<Rightarrow> nat \<Rightarrow> int \<Rightarrow> nat \<Rightarrow> ('w e2e_state, unit) io" where
  "e2e_http_loop ops name host port targets max_attempts sleep_ms 0 = io_lift (fail (''timed out waiting for '' @ name))"
| "e2e_http_loop ops name host port targets max_attempts sleep_ms (Suc left) =
     io_bind (reach_targets ops name host port targets) (\<lambda>reached.
       if reached then io_lift (Inr ())
       else io_bind (log_info (waiting_line name (max_attempts - left) max_attempts)) (\<lambda>_.
            io_bind (io_modify (e2e_sleep ops sleep_ms)) (\<lambda>_.
              e2e_http_loop ops name host port targets max_attempts sleep_ms left)))"

definition e2e_wait_for_http ::
  "'w e2e_ops \<Rightarrow> string \<Rightarrow> string \<Rightarrow> string \<Rightarrow> string list \<Rightarrow> nat \<Rightarrow> int \<Rightarrow> ('w e2e_state, unit) io" where
  "e2e_wait_for_http ops name host port targets max_attempts sleep_ms =
     e2e_http_loop ops name host port targets max_attempts sleep_ms max_attempts"

definition container_report :: "string \<Rightarrow> string \<Rightarrow> string \<Rightarrow> string" where
  "container_report message status_output logs_output =
     message @ nl @ ''Container status:'' @ nl @ status_output @ nl @ ''Container logs:'' @ nl @ logs_output"

fun embedding_wait_loop :: "'w e2e_ops \<Rightarrow> E2eConfig \<Rightarrow> nat \<Rightarrow> nat \<Rightarrow> ('w e2e_state, unit) io" where
  "embedding_wait_loop ops config max_attempts 0 =
     io_bind (embedding_service_failed ops config) (\<lambda>(failed, status_output, logs_output).
       io_lift (fail (container_report ''timed out waiting for embedding service.'' status_output logs_output)))"
| "embedding_wait_loop ops config max_attempts (Suc left) =
     (let attempt = max_attempts - left in
      io_bind (reach_targets ops ''Embedding service'' (ec_embedding_host config) (ec_embedding_port config)
        [''/api/tags'', ''/v1/models'', ''/'']) (\<lambda>reached.
       if reached then io_lift (Inr ())
       else io_bind
         (if attempt = 1 \<or> attempt mod 3 = 0
          then io_bind (embedding_service_failed ops config) (\<lambda>(failed, status_output, logs_output).
            io_lift (if failed then fail (container_report ''embedding service container failed before readiness.'' status_output logs_output)
              else Inr ()))
          else io_lift (Inr ())) (\<lambda>_.
         io_bind (log_info (waiting_line ''embedding service'' attempt max_attempts)) (\<lambda>_.
         io_bind (io_modify (e2e_sleep ops 2000)) (\<lambda>_. embedding_wait_loop ops config max_attempts left)))))"

definition e2e_wait_for_embedding :: "'w e2e_ops \<Rightarrow> E2eConfig \<Rightarrow> ('w e2e_state, unit) io" where
  "e2e_wait_for_embedding ops config = embedding_wait_loop ops config 180 180"

definition e2e_ensure_model :: "'w e2e_ops \<Rightarrow> E2eConfig \<Rightarrow> ('w e2e_state, unit) io" where
  "e2e_ensure_model ops config =
     io_bind (log_info (''Ensuring embedding model is available: '' @ ec_model_id config)) (\<lambda>_.
     io_bind (e2e_http ops (ec_embedding_host config) (ec_embedding_port config) ''POST'' ''/api/pull''
       (CHR 0x7B # quoted ''model'' @ '':'' @ quoted (escape_json (ec_model_id config)) @ '','' @ quoted ''stream'' @ '':false'' @ [CHR 0x7D])) (\<lambda>r.
       io_lift (if http_status_code r \<noteq> 200
         then fail (''embedding model pull failed with status '' @ to_string (http_status_code r)) else Inr ())))"

fun e2e_ping_loop :: "'w e2e_ops \<Rightarrow> E2eConfig \<Rightarrow> nat \<Rightarrow> nat \<Rightarrow> ('w e2e_state, unit) io" where
  "e2e_ping_loop ops config max_attempts 0 = io_lift (fail ''timed out waiting for DSCC gRPC service'')"
| "e2e_ping_loop ops config max_attempts (Suc left) =
     io_bind (e2e_call (bw_ping (eo_bench ops) (ec_dscc_target config) ''e2e-bench'')) (\<lambda>status.
       if status_ok status then log_info (''DSCC gRPC service is reachable at '' @ ec_dscc_target config)
       else io_bind (log_info (waiting_line ''DSCC gRPC service'' (max_attempts - left) max_attempts)) (\<lambda>_.
            io_bind (io_modify (e2e_sleep ops 1000)) (\<lambda>_. e2e_ping_loop ops config max_attempts left)))"

definition e2e_wait_for_dscc :: "'w e2e_ops \<Rightarrow> E2eConfig \<Rightarrow> ('w e2e_state, unit) io" where
  "e2e_wait_for_dscc ops config = e2e_ping_loop ops config 90 90"

section \<open>Qdrant and the documents\<close>

definition qdrant_request ::
  "'w e2e_ops \<Rightarrow> E2eConfig \<Rightarrow> string \<Rightarrow> string \<Rightarrow> string \<Rightarrow> int set \<Rightarrow> (HttpResponse \<Rightarrow> string) \<Rightarrow> ('w e2e_state, HttpResponse) io" where
  "qdrant_request ops config verb path body accepted message =
     io_bind (e2e_http ops (ec_qdrant_host config) (ec_qdrant_port config) verb (''/collections/'' @ ec_collection config @ path) body) (\<lambda>r.
       io_lift (if http_status_code r \<in> accepted then Inr r else fail (message r)))"

definition e2e_reset_collection :: "'w e2e_ops \<Rightarrow> E2eConfig \<Rightarrow> ('w e2e_state, unit) io" where
  "e2e_reset_collection ops config =
     io_bind (qdrant_request ops config ''DELETE'' [] [] {200, 202, 404}
       (\<lambda>r. ''failed to reset Qdrant collection; status='' @ to_string (http_status_code r))) (\<lambda>_. io_lift (Inr ()))"

definition e2e_create_collection :: "'w e2e_ops \<Rightarrow> E2eConfig \<Rightarrow> nat \<Rightarrow> ('w e2e_state, unit) io" where
  "e2e_create_collection ops config vector_size =
     io_bind (qdrant_request ops config ''PUT'' []
       (CHR 0x7B # quoted ''vectors'' @ '':'' @ [CHR 0x7B] @ quoted ''size'' @ '':'' @ nat_to_string vector_size @ '',''
          @ quoted ''distance'' @ '':'' @ quoted ''Cosine'' @ [CHR 0x7D, CHR 0x7D]) {200, 201, 409}
       (\<lambda>r. ''failed to create Qdrant collection; status='' @ to_string (http_status_code r) @ '' body='' @ http_body r)) (\<lambda>_. io_lift (Inr ()))"

definition e2e_point_count :: "'w e2e_ops \<Rightarrow> E2eConfig \<Rightarrow> ('w e2e_state, int) io" where
  "e2e_point_count ops config =
     io_bind (qdrant_request ops config ''POST'' ''/points/count'' (CHR 0x7B # quoted ''exact'' @ '':true'' @ [CHR 0x7D]) {200}
       (\<lambda>r. ''Qdrant count request failed with status '' @ to_string (http_status_code r))) (\<lambda>r. io_lift (parse_qdrant_count (http_body r)))"

definition qdrant_scroll_payloads :: "'w e2e_ops \<Rightarrow> E2eConfig \<Rightarrow> ('w e2e_state, string) io" where
  "qdrant_scroll_payloads ops config =
     io_bind (qdrant_request ops config ''POST'' ''/points/scroll''
       (CHR 0x7B # quoted ''limit'' @ '':100,'' @ quoted ''with_payload'' @ '':true,'' @ quoted ''with_vector'' @ '':false'' @ [CHR 0x7D]) {200}
       (\<lambda>r. ''Qdrant scroll request failed with status '' @ to_string (http_status_code r))) (\<lambda>r. io_lift (Inr (http_body r)))"

definition embedding_body :: "E2eConfig \<Rightarrow> string \<Rightarrow> string" where
  "embedding_body config text =
     CHR 0x7B # quoted ''model'' @ '':'' @ quoted (escape_json (ec_model_id config)) @ '','' @ quoted ''input'' @ '':''
       @ quoted (escape_json text) @ [CHR 0x7D]"

definition embedding_of_response :: "fpu \<Rightarrow> HttpResponse \<Rightarrow> fl list outcome" where
  "embedding_of_response F r =
     (if http_status_code r \<noteq> 200 then fail (''embedding request failed with status '' @ to_string (http_status_code r))
      else e2e_embedding_array F (http_body r))"

definition e2e_request_embedding :: "fpu \<Rightarrow> 'w e2e_ops \<Rightarrow> E2eConfig \<Rightarrow> string \<Rightarrow> ('w e2e_state, fl list) io" where
  "e2e_request_embedding F ops config text =
     io_bind (e2e_http ops (ec_embedding_host config) (ec_embedding_port config) ''POST'' ''/v1/embeddings'' (embedding_body config text))
       (\<lambda>r. io_lift (embedding_of_response F r))"

definition load_agent_document :: "'w e2e_ops \<Rightarrow> E2eConfig \<Rightarrow> char \<Rightarrow> ('w e2e_state, AgentDocument) io" where
  "load_agent_document ops config label =
     (let json_path = path_append (ec_input_dir config) (label # ''.json'') in
      io_bind (e2e_get (bw_exists (eo_bench ops) json_path)) (\<lambda>present.
      io_bind (io_lift (if present then Inr () else fail (''missing demo input '' @ json_path))) (\<lambda>_.
      io_bind (e2e_get (bw_read (eo_bench ops) json_path)) (\<lambda>contents.
        io_lift (parse_agent_document label json_path contents)))))"

fun load_agent_documents :: "fpu \<Rightarrow> 'w e2e_ops \<Rightarrow> E2eConfig \<Rightarrow> char list \<Rightarrow> ('w e2e_state, AgentDocument list) io" where
  "load_agent_documents F ops config [] = io_lift (Inr [])"
| "load_agent_documents F ops config (label # labels) =
     io_bind (load_agent_document ops config label) (\<lambda>doc.
     io_bind (log_info (''Embedding '' @ ad_source_file doc @ '' via embedding service...'')) (\<lambda>_.
     io_bind (e2e_request_embedding F ops config (ad_text doc)) (\<lambda>embedding.
     io_bind (log_info (ad_source_file doc @ '' embedding dimension = '' @ nat_to_string (length embedding) @ '', scheduled_offset_ms = ''
       @ to_string (ad_scheduled_offset_ms doc) @ '', operation = '' @ operation_name (ad_operation doc))) (\<lambda>_.
     io_bind (load_agent_documents F ops config labels) (\<lambda>documents.
       io_lift (Inr (doc\<lparr>ad_embedding := embedding\<rparr> # documents)))))))"

text \<open>A \<^verbatim>\<open>std::map\<close> by label: an association list in the order of the labels; \<^verbatim>\<open>emplace\<close> keeps what is there.\<close>

type_synonym documents = "(char \<times> AgentDocument) list"

fun emplace_document :: "AgentDocument \<Rightarrow> documents \<Rightarrow> documents" where
  "emplace_document doc [] = [(ad_label doc, doc)]"
| "emplace_document doc ((label, d) # rest) =
     (if ad_label doc = label then (label, d) # rest
      else if (of_char (ad_label doc) :: nat) < of_char label then (ad_label doc, doc) # (label, d) # rest
      else (label, d) # emplace_document doc rest)"

definition index_documents :: "AgentDocument list \<Rightarrow> documents" where
  "index_documents docs = foldl (\<lambda>indexed doc. emplace_document doc indexed) [] docs"

definition doc_at :: "documents \<Rightarrow> char \<Rightarrow> AgentDocument outcome" where
  "doc_at docs label = (case map_of docs label of Some d \<Rightarrow> Inr d | None \<Rightarrow> Inl OutOfRange)"

definition similarity_lines :: "fpu \<Rightarrow> documents \<Rightarrow> string list" where
  "similarity_lines F docs =
     section_lines ''Pairwise Similarity Matrix''
     @ [setw 8 [] @ concat (map (\<lambda>(label, d). setw 8 [label]) docs)]
     @ map (\<lambda>(label_a, doc_a). setw 8 [label_a]
         @ concat (map (\<lambda>(label_b, doc_b). setw 8 (format_float (bench_cosine_similarity F (ad_embedding doc_a) (ad_embedding doc_b)) 3)) docs)) docs"

end
