(* ===== verification/E2eScenario.thy ===== *)
theory E2eScenario
  imports E2eBench "HOL-Library.Signed_Division"
begin

text \<open>
  The scenarios of the end-to-end bench (\<^verbatim>\<open>src/e2e_bench.cpp\<close>, \<^verbatim>\<open>validate_qdrant_payloads\<close> and
  \<^verbatim>\<open>relative_unix_ms\<close> to \<^verbatim>\<open>main\<close>): the report of a run, the checks of its outcome, the scenarios that stop and
  start nodes, and \<^verbatim>\<open>main\<close> with its handlers.
\<close>

section \<open>Reports\<close>

definition relative_unix_ms :: "int \<Rightarrow> int \<Rightarrow> int" where
  "relative_unix_ms unix_ms unix_base_ms = (if unix_ms \<le> 0 then - 1 else unix_ms - unix_base_ms)"

definition format_optional_ms :: "int \<Rightarrow> string" where
  "format_optional_ms v = (if v < 0 then ''n/a'' else to_string v @ ''ms'')"

record TimelineEvent =
  te_time_ms :: int
  te_sequence :: nat
  te_color :: string
  te_text :: string

definition acquired_text :: "AgentOutcome \<Rightarrow> fl \<Rightarrow> string outcome" where
  "acquired_text oc theta =
     (let response = ao_response oc;
          head_text = ao_display_name oc @ '' acquired semantic lock for '' @ operation_name (ao_operation oc) in
      if rs_lock_wait_ms response > 0
      then let waited = head_text @ '' after waiting '' @ to_string (rs_lock_wait_ms response) @ ''ms'' in
        if rs_blocking_agent_id response \<noteq> []
        then rbind (display_agent_id (rs_blocking_agent_id response)) (\<lambda>blocker.
          Inr (waited @ '' because '' @ blocker @ '' matched at similarity '' @ format_float (rs_blocking_similarity_score response) 3
            @ '' >= theta '' @ format_float theta 3))
        else Inr waited
      else Inr head_text)"

text \<open>The calls of \<^verbatim>\<open>push_event\<close> for one outcome: time, color, text.\<close>

definition outcome_events :: "int \<Rightarrow> fl \<Rightarrow> AgentOutcome \<Rightarrow> (int \<times> string \<times> string) list outcome" where
  "outcome_events unix_base_ms theta oc =
     (let response = ao_response oc; name = ao_display_name oc in
      rbind (acquired_text oc theta) (\<lambda>acquired. Inr
        [(ao_submit_ms oc, ansi ''34'', name @ '' submitted '' @ operation_name (ao_operation oc) @ '' payload''),
         (ao_embedding_start_ms oc, ansi ''36'', name @ '' entered embedding model''),
         (ao_embedding_finish_ms oc, ansi ''36'', name @ '' left embedding model''),
         (ao_dslm_enter_ms oc, ansi ''33'', name @ '' entered DSLM''),
         (relative_unix_ms (rs_server_received_unix_ms response) unix_base_ms, ansi ''33'', name @ '' reached DSLM server''),
         (relative_unix_ms (rs_lock_acquired_unix_ms response) unix_base_ms,
            if rs_lock_wait_ms response > 0 then ansi ''33'' else ansi ''32'', acquired),
         (relative_unix_ms (rs_qdrant_write_complete_unix_ms response) unix_base_ms, ansi ''32'',
            name @ '' finished Qdrant '' @ operation_name (ao_operation oc)),
         (relative_unix_ms (rs_lock_released_unix_ms response) unix_base_ms, ansi ''32'', name @ '' released semantic lock'')]))"

fun all_outcome_events :: "int \<Rightarrow> fl \<Rightarrow> AgentOutcome list \<Rightarrow> (int \<times> string \<times> string) list outcome" where
  "all_outcome_events unix_base_ms theta [] = Inr []"
| "all_outcome_events unix_base_ms theta (oc # ocs) =
     rbind (outcome_events unix_base_ms theta oc) (\<lambda>events.
     rbind (all_outcome_events unix_base_ms theta ocs) (\<lambda>rest. Inr (events @ rest)))"

fun number_events :: "nat \<Rightarrow> (int \<times> string \<times> string) list \<Rightarrow> TimelineEvent list" where
  "number_events n [] = []"
| "number_events n ((time_ms, color, text) # events) =
     (if time_ms < 0 then number_events n events
      else \<lparr>te_time_ms = time_ms, te_sequence = n, te_color = color, te_text = text\<rparr> # number_events (Suc n) events)"

text \<open>\<^verbatim>\<open>std::sort\<close> by time and then by sequence number: no two events compare equal.\<close>

definition sorted_events :: "TimelineEvent list \<Rightarrow> TimelineEvent list" where
  "sorted_events events = sort_key (\<lambda>e. te_time_ms e) (sort_key (\<lambda>e. te_sequence e) events)"

definition event_line :: "TimelineEvent \<Rightarrow> string" where
  "event_line e = te_color e @ ''  t+'' @ setw 4 (to_string (te_time_ms e)) @ ''ms  '' @ te_text e @ ansi ''0''"

definition timeline_lines :: "AgentOutcome list \<Rightarrow> int \<Rightarrow> fl \<Rightarrow> string list outcome" where
  "timeline_lines outcomes unix_base_ms theta =
     rbind (all_outcome_events unix_base_ms theta outcomes) (\<lambda>events.
       Inr (''Timeline:'' # map event_line (sorted_events (number_events 0 events))))"

definition recap_of :: "int \<Rightarrow> AgentOutcome \<Rightarrow> string list outcome" where
  "recap_of unix_base_ms oc =
     (let response = ao_response oc in
      rbind (if rs_blocking_agent_id response \<noteq> []
             then rbind (display_agent_id (rs_blocking_agent_id response)) (\<lambda>blocker.
               Inr ('' due to '' @ blocker @ '' (similarity '' @ format_float (rs_blocking_similarity_score response) 3 @ '')''))
             else Inr []) (\<lambda>due. Inr
        [ansi ''35'' @ ''  '' @ ao_display_name oc @ ansi ''0'',
         ''    embedding: '' @ to_string (ao_embedding_finish_ms oc - ao_embedding_start_ms oc) @ ''ms'',
         ''    DSLM wait: '' @ to_string (rs_lock_wait_ms response) @ ''ms'' @ due,
         ''    '' @ operation_name (ao_operation oc) @ '' complete: ''
           @ format_optional_ms (relative_unix_ms (rs_qdrant_write_complete_unix_ms response) unix_base_ms),
         ''    result: '' @ (if rs_granted response then ''granted'' else ''failed'') @ '' ('' @ operation_name (ao_operation oc) @ '') in ''
           @ to_string (ao_elapsed_ms oc) @ ''ms'',
         []]))"

fun recap_loop :: "int \<Rightarrow> AgentOutcome list \<Rightarrow> string list outcome" where
  "recap_loop unix_base_ms [] = Inr []"
| "recap_loop unix_base_ms (oc # ocs) =
     rbind (recap_of unix_base_ms oc) (\<lambda>lines. rbind (recap_loop unix_base_ms ocs) (\<lambda>rest. Inr (lines @ rest)))"

definition recap_lines :: "AgentOutcome list \<Rightarrow> int \<Rightarrow> string list outcome" where
  "recap_lines outcomes unix_base_ms = rbind (recap_loop unix_base_ms outcomes) (\<lambda>lines. Inr ([] # ''Agent Recap:'' # lines))"

record scenario_stats =
  st_total_wait :: int
  st_total_embedding :: int
  st_total_rpc :: int
  st_total_qdrant :: int
  st_max_wait :: int
  st_waited_agents :: int

definition count_outcome_stats :: "scenario_stats \<Rightarrow> AgentOutcome \<Rightarrow> scenario_stats" where
  "count_outcome_stats st oc =
     (let response = ao_response oc;
          qdrant_ms = (if rs_qdrant_write_complete_unix_ms response > 0 \<and> rs_lock_acquired_unix_ms response > 0
            then rs_qdrant_write_complete_unix_ms response - rs_lock_acquired_unix_ms response else 0)
      in \<lparr>st_total_wait = st_total_wait st + rs_lock_wait_ms response,
          st_total_embedding = st_total_embedding st + (ao_embedding_finish_ms oc - ao_embedding_start_ms oc),
          st_total_rpc = st_total_rpc st + (ao_dslm_exit_ms oc - ao_dslm_enter_ms oc),
          st_total_qdrant = st_total_qdrant st + qdrant_ms,
          st_max_wait = max (st_max_wait st) (rs_lock_wait_ms response),
          st_waited_agents = st_waited_agents st + (if rs_blocking_agent_id response \<noteq> [] then 1 else 0)\<rparr>)"

text \<open>\<^verbatim>\<open>static_cast<int64_t>(total / agent_count)\<close>: division in \<^verbatim>\<open>double\<close>, then towards zero.\<close>

definition average_ms :: "fpu \<Rightarrow> int \<Rightarrow> nat \<Rightarrow> int" where
  "average_ms F sum_ms n =
     (case fl_div F (dbl F sum_ms) (dbl F (int n)) of Fin r \<Rightarrow> (if r < 0 then \<lceil>r\<rceil> else \<lfloor>r\<rfloor>) | _ \<Rightarrow> - (2 ^ 63))"

definition stats_lines :: "fpu \<Rightarrow> AgentOutcome list \<Rightarrow> string list" where
  "stats_lines F outcomes =
     (if outcomes = [] then []
      else let st = foldl count_outcome_stats \<lparr>st_total_wait = 0, st_total_embedding = 0, st_total_rpc = 0, st_total_qdrant = 0,
                 st_max_wait = 0, st_waited_agents = 0\<rparr> outcomes; n = length outcomes
           in [''Scenario Stats:'', ''  agents: '' @ nat_to_string n, ''  waited agents: '' @ to_string (st_waited_agents st),
               ''  avg lock wait: '' @ to_string (average_ms F (st_total_wait st) n) @ ''ms'',
               ''  max lock wait: '' @ to_string (st_max_wait st) @ ''ms'',
               ''  avg embedding latency: '' @ to_string (average_ms F (st_total_embedding st) n) @ ''ms'',
               ''  avg DSLM RPC latency: '' @ to_string (average_ms F (st_total_rpc st) n) @ ''ms'',
               ''  avg Qdrant operation window: '' @ to_string (average_ms F (st_total_qdrant st) n) @ ''ms'', []])"

section \<open>Checks\<close>

text \<open>A check gives the message of the first failure, or \<open>None\<close>; \<^verbatim>\<open>docs.at\<close> may throw.\<close>

type_synonym verdict = "string option outcome"

definition verdict_fail :: "string \<Rightarrow> verdict" where "verdict_fail message = Inr (Some message)"

definition verdict_ok :: verdict where "verdict_ok = Inr None"

fun validate_qdrant_payloads :: "string \<Rightarrow> AgentOutcome list \<Rightarrow> documents \<Rightarrow> verdict" where
  "validate_qdrant_payloads scroll_body [] docs = verdict_ok"
| "validate_qdrant_payloads scroll_body (oc # ocs) docs =
     (if ao_operation oc \<noteq> kWrite then validate_qdrant_payloads scroll_body ocs docs
      else if \<not> contains scroll_body (ao_agent_id oc)
      then verdict_fail (''Qdrant payload check failed: missing agent_id '' @ ao_agent_id oc)
      else rbind (doc_at docs (ao_label oc)) (\<lambda>doc.
        if \<not> contains scroll_body (ad_source_file doc)
        then verdict_fail (''Qdrant payload check failed: missing source_file '' @ ad_source_file doc)
        else if \<not> contains scroll_body (ad_text doc)
        then verdict_fail (''Qdrant payload check failed: missing raw text from '' @ ad_source_file doc)
        else validate_qdrant_payloads scroll_body ocs docs))"

definition outcome_at :: "AgentOutcome list \<Rightarrow> char \<Rightarrow> AgentOutcome outcome" where
  "outcome_at outcomes label = (case map_of (rev (map (\<lambda>oc. (ao_label oc, oc)) outcomes)) label of Some oc \<Rightarrow> Inr oc | None \<Rightarrow> Inl OutOfRange)"

definition operation_of_agent :: "AgentOutcome list \<Rightarrow> string \<Rightarrow> BenchOperationType option" where
  "operation_of_agent outcomes = map_of (rev (map (\<lambda>oc. (ao_agent_id oc, ao_operation oc)) outcomes))"

definition pair_text :: "char \<Rightarrow> char \<Rightarrow> string" where
  "pair_text left right = [left] @ ''/'' @ [right]"

definition validate_read :: "char \<Rightarrow> AgentOutcome list \<Rightarrow> AgentOutcome \<Rightarrow> string option" where
  "validate_read read_label outcomes read_outcome =
     (let response = ao_response read_outcome; blocker = rs_blocking_agent_id response in
      if rs_lock_wait_ms response \<le> 0
      then Some (''Read operation '' @ [read_label] @ '' should have waited on conflicting write but lock_wait_ms was ''
        @ to_string (rs_lock_wait_ms response))
      else if blocker = [] then Some (''Read operation '' @ [read_label] @ '' waited but blocking_agent_id was empty'')
      else if operation_of_agent outcomes blocker \<noteq> Some kWrite
      then Some (''Read operation '' @ [read_label] @ '' was blocked by non-write operation '' @ blocker)
      else None)"

definition minimum_gap :: "E2eConfig \<Rightarrow> int" where
  "minimum_gap config = max 250 (ec_lock_hold_ms config sdiv 2)"

definition validate_pair :: "fpu \<Rightarrow> E2eConfig \<Rightarrow> documents \<Rightarrow> AgentOutcome list \<Rightarrow> char \<times> char \<Rightarrow> verdict" where
  "validate_pair F config docs outcomes p =
     (case p of (left, right) \<Rightarrow>
       rbind (doc_at docs left) (\<lambda>left_doc. rbind (doc_at docs right) (\<lambda>right_doc.
       let similarity = bench_cosine_similarity F (ad_embedding left_doc) (ad_embedding right_doc) in
       if fl_less similarity (ec_theta config)
       then verdict_fail (''Expected conflict pair '' @ pair_text left right @ '' did not exceed theta; score='' @ format_float similarity 3
         @ '' theta='' @ format_float (ec_theta config) 3)
       else rbind (outcome_at outcomes left) (\<lambda>left_outcome. rbind (outcome_at outcomes right) (\<lambda>right_outcome.
         let finish_gap = \<bar>rs_qdrant_write_complete_unix_ms (ao_response left_outcome)
               - rs_qdrant_write_complete_unix_ms (ao_response right_outcome)\<bar> in
         if finish_gap < minimum_gap config
         then verdict_fail (''Conflict pair '' @ pair_text left right @ '' completed too close together to prove serialization; finish_gap=''
           @ to_string finish_gap @ ''ms expected_at_least='' @ to_string (minimum_gap config) @ ''ms'')
         else if ad_operation left_doc \<noteq> ad_operation right_doc
         then let read_label = (if ad_operation left_doc = kRead then left else right) in
           rbind (outcome_at outcomes read_label) (\<lambda>read_outcome. Inr (validate_read read_label outcomes read_outcome))
         else verdict_ok)))))"

fun validate_pairs :: "fpu \<Rightarrow> E2eConfig \<Rightarrow> documents \<Rightarrow> AgentOutcome list \<Rightarrow> (char \<times> char) list \<Rightarrow> verdict" where
  "validate_pairs F config docs outcomes [] = verdict_ok"
| "validate_pairs F config docs outcomes (p # ps) =
     rbind (validate_pair F config docs outcomes p) (\<lambda>r.
       case r of Some message \<Rightarrow> verdict_fail message | None \<Rightarrow> validate_pairs F config docs outcomes ps)"

definition validate_conflict_pairs :: "fpu \<Rightarrow> Scenario \<Rightarrow> AgentOutcome list \<Rightarrow> documents \<Rightarrow> E2eConfig \<Rightarrow> verdict" where
  "validate_conflict_pairs F scenario outcomes docs config = validate_pairs F config docs outcomes (sn_expected_conflicts scenario)"

fun spread_loop :: "AgentOutcome list \<Rightarrow> AgentDocument list \<Rightarrow> nat \<Rightarrow> nat \<Rightarrow> int \<Rightarrow> int \<Rightarrow> (int \<times> int) outcome" where
  "spread_loop outcomes docs i 0 earliest latest = Inr (earliest, latest)"
| "spread_loop outcomes docs i (Suc n) earliest latest =
     rbind (elem_at outcomes i) (\<lambda>oc. rbind (elem_at docs i) (\<lambda>doc.
       let f = ao_finish_ms oc - ad_scheduled_offset_ms doc in
       spread_loop outcomes docs (Suc i) n (min earliest f) (max latest f)))"

definition validate_distinct_completion :: "AgentOutcome list \<Rightarrow> AgentDocument list \<Rightarrow> E2eConfig \<Rightarrow> verdict" where
  "validate_distinct_completion outcomes docs config =
     rbind (elem_at outcomes 0) (\<lambda>oc. rbind (elem_at docs 0) (\<lambda>doc.
     let first = ao_finish_ms oc - ad_scheduled_offset_ms doc in
     rbind (spread_loop outcomes docs 0 (length outcomes) first first) (\<lambda>(earliest, latest).
       let spread = latest - earliest; max_spread = max 300 (ec_lock_hold_ms config sdiv 2) in
       if spread > max_spread
       then verdict_fail (''Distinct-task scenario spread was too large; finish spread='' @ to_string spread @ ''ms expected_at_most=''
         @ to_string max_spread @ ''ms'')
       else verdict_ok)))"

fun conflict_with :: "fpu \<Rightarrow> E2eConfig \<Rightarrow> documents \<Rightarrow> char \<Rightarrow> char list \<Rightarrow> bool outcome" where
  "conflict_with F config docs l [] = Inr False"
| "conflict_with F config docs l (r # rs) =
     rbind (doc_at docs l) (\<lambda>left_doc. rbind (doc_at docs r) (\<lambda>right_doc.
       if fl_le (ec_theta config) (bench_cosine_similarity F (ad_embedding left_doc) (ad_embedding right_doc)) then Inr True
       else conflict_with F config docs l rs))"

fun labels_conflict :: "fpu \<Rightarrow> E2eConfig \<Rightarrow> documents \<Rightarrow> char list \<Rightarrow> bool outcome" where
  "labels_conflict F config docs [] = Inr False"
| "labels_conflict F config docs (l # ls) =
     rbind (conflict_with F config docs l ls) (\<lambda>c. if c then Inr True else labels_conflict F config docs ls)"

definition scenario_has_threshold_conflict :: "fpu \<Rightarrow> Scenario \<Rightarrow> documents \<Rightarrow> E2eConfig \<Rightarrow> bool outcome" where
  "scenario_has_threshold_conflict F scenario docs config = labels_conflict F config docs (sn_labels scenario)"

text \<open>The first outcome whose call failed or was refused.\<close>

fun failed_outcome :: "AgentOutcome list \<Rightarrow> string option" where
  "failed_outcome [] = None"
| "failed_outcome (oc # ocs) =
     (if \<not> status_ok (ao_status oc) then Some (ao_agent_id oc @ '' gRPC failed: '' @ st_message (ao_status oc))
      else if \<not> rs_granted (ao_response oc)
      then Some (ao_agent_id oc @ '' was not granted by DSCC: '' @ rs_message (ao_response oc))
      else failed_outcome ocs)"

section \<open>Running a scenario\<close>

definition e2e_acquire_request :: "string \<Rightarrow> AgentDocument \<Rightarrow> int \<Rightarrow> fl list \<Rightarrow> AcquireRequest" where
  "e2e_acquire_request agent_id doc unix_base_ms embedding =
     \<lparr>rq_agent_id = agent_id, rq_embedding = embedding, rq_payload_text = ad_text doc, rq_source_file = ad_source_file doc,
      rq_timestamp_unix_ms = unix_base_ms + ad_scheduled_offset_ms doc, rq_operation_type = to_proto_operation (ad_operation doc)\<rparr>"

definition agent_thread :: "E2eConfig \<Rightarrow> Scenario \<Rightarrow> int \<Rightarrow> AgentDocument \<Rightarrow> int \<times> string \<times> (fl list \<Rightarrow> AcquireRequest)" where
  "agent_thread config scenario unix_base_ms doc =
     (ad_scheduled_offset_ms doc, embedding_body config (ad_text doc),
      e2e_acquire_request (scenario_agent_id (sn_name scenario) (ad_label doc)) doc unix_base_ms)"

text \<open>What a thread leaves in its slot. An exception of the embedding request leaves the thread's function.\<close>

definition agent_outcome :: "fpu \<Rightarrow> Scenario \<Rightarrow> AgentDocument \<Rightarrow> agent_call \<Rightarrow> AgentOutcome outcome" where
  "agent_outcome F scenario doc call =
     (case rbind (ac_embedding call) (embedding_of_response F) of
        Inl e \<Rightarrow> Inl Uncaught
      | Inr embedding \<Rightarrow> Inr
          \<lparr>ao_label = ad_label doc, ao_agent_id = scenario_agent_id (sn_name scenario) (ad_label doc),
           ao_display_name = agent_name (ad_label doc), ao_status = ac_status call, ao_response = ac_response call,
           ao_operation = ad_operation doc, ao_embedding = embedding, ao_submit_ms = ac_submit_ms call,
           ao_embedding_start_ms = ac_embedding_start_ms call, ao_embedding_finish_ms = ac_embedding_finish_ms call,
           ao_dslm_enter_ms = ac_dslm_enter_ms call, ao_dslm_exit_ms = ac_dslm_exit_ms call, ao_finish_ms = ac_dslm_exit_ms call,
           ao_elapsed_ms = ac_dslm_exit_ms call - ac_submit_ms call\<rparr>)"

fun agent_outcomes :: "fpu \<Rightarrow> Scenario \<Rightarrow> (nat \<Rightarrow> agent_call) \<Rightarrow> nat \<Rightarrow> AgentDocument list \<Rightarrow> AgentOutcome list outcome" where
  "agent_outcomes F scenario calls i [] = Inr []"
| "agent_outcomes F scenario calls i (doc # docs) =
     rbind (agent_outcome F scenario doc (calls i)) (\<lambda>oc.
     rbind (agent_outcomes F scenario calls (Suc i) docs) (\<lambda>ocs. Inr (oc # ocs)))"

fun select_documents :: "documents \<Rightarrow> char list \<Rightarrow> AgentDocument list outcome" where
  "select_documents docs [] = Inr []"
| "select_documents docs (label # labels) =
     rbind (doc_at docs label) (\<lambda>doc. rbind (select_documents docs labels) (\<lambda>rest. Inr (doc # rest)))"

text \<open>A verdict is logged and becomes the value \<^verbatim>\<open>false\<close>; otherwise the check goes on.\<close>

definition judged :: "verdict \<Rightarrow> ('w e2e_state, bool) io \<Rightarrow> ('w e2e_state, bool) io" where
  "judged v continue =
     io_bind (io_lift v) (\<lambda>r. case r of
        Some message \<Rightarrow> io_bind (log_error message) (\<lambda>_. io_lift (Inr False))
      | None \<Rightarrow> continue)"

text \<open>The thread of the action: \<^verbatim>\<open>catch (...)\<close> keeps an exception as a value.\<close>

definition attempt_error :: "('s, 'a) io \<Rightarrow> ('s, 'a outcome) io" where
  "attempt_error m s = (case m s of
      None \<Rightarrow> None
    | Some (s1, Inr x) \<Rightarrow> Some (s1, Inr (Inr x))
    | Some (s1, Inl e) \<Rightarrow> if is_exception e then Some (s1, Inr (Inl e)) else Some (s1, Inl e))"

text \<open>
  The part of \<^verbatim>\<open>run_scenario\<close> up to the joins: prepare the collection, start the threads, run the action
  beside them, join. An exception of the action is kept until the threads have been joined; what it is
  counts only when no thread has terminated the process.
\<close>

definition scenario_traffic ::
  "fpu \<Rightarrow> 'w e2e_ops \<Rightarrow> E2eConfig \<Rightarrow> Scenario \<Rightarrow> documents \<Rightarrow> ('w e2e_state, unit) io option
   \<Rightarrow> ('w e2e_state, AgentDocument list \<times> AgentOutcome list \<times> int) io" where
  "scenario_traffic F ops config scenario docs mid_run_action =
     io_bind (log_lines (section_lines (sn_name scenario))) (\<lambda>_.
     io_bind (log_info ''Preparing fresh Qdrant collection.'') (\<lambda>_.
     io_bind (e2e_reset_collection ops config) (\<lambda>_.
     io_bind (io_lift (select_documents docs (sn_labels scenario))) (\<lambda>selected_docs.
     io_bind (io_lift (elem_at selected_docs 0)) (\<lambda>front.
     io_bind (e2e_create_collection ops config (length (ad_embedding front))) (\<lambda>_.
     io_bind (e2e_wait_for_http ops ''Qdrant collection'' (ec_qdrant_host config) (ec_qdrant_port config)
       [''/collections/'' @ ec_collection config] 30 200) (\<lambda>_.
     io_bind (e2e_get (ro_unix_ms (eo_run ops))) (\<lambda>unix_base_ms.
     io_bind (io_modify (\<lambda>s. s\<lparr>es_world := eo_fork ops (map (agent_thread config scenario unix_base_ms) selected_docs) (es_world s)\<rparr>)) (\<lambda>_.
     io_bind (case mid_run_action of None \<Rightarrow> io_lift (Inr (Inr ())) | Some action \<Rightarrow> attempt_error action) (\<lambda>mid_run_error.
     io_bind (e2e_call (eo_join ops)) (\<lambda>calls.
     io_bind (io_lift (agent_outcomes F scenario calls 0 selected_docs)) (\<lambda>outcomes.
       io_lift (case mid_run_error of Inl e \<Rightarrow> Inl e | Inr u \<Rightarrow> Inr (selected_docs, outcomes, unix_base_ms))))))))))))))"

definition expected_write_count :: "AgentDocument list \<Rightarrow> int" where
  "expected_write_count docs = int (length (filter (\<lambda>doc. ad_operation doc = kWrite) docs))"

text \<open>The rest of \<^verbatim>\<open>run_scenario\<close>: from the report to the result.\<close>

definition distinct_check ::
  "fpu \<Rightarrow> E2eConfig \<Rightarrow> Scenario \<Rightarrow> documents \<Rightarrow> AgentDocument list \<Rightarrow> AgentOutcome list
   \<Rightarrow> ('w e2e_state, bool) io \<Rightarrow> ('w e2e_state, bool) io" where
  "distinct_check F config scenario docs selected_docs outcomes continue =
     (if sn_expect_distinct_completion scenario
      then io_bind (io_lift (scenario_has_threshold_conflict F scenario docs config)) (\<lambda>conflicting.
        if conflicting
        then io_bind (log_warn ''This scenario is no longer distinct at the current theta, so the distinct-timing check was skipped.'')
          (\<lambda>_. continue)
        else judged (validate_distinct_completion outcomes selected_docs config) continue)
      else continue)"

definition judge_run ::
  "fpu \<Rightarrow> 'w e2e_ops \<Rightarrow> E2eConfig \<Rightarrow> Scenario \<Rightarrow> documents \<Rightarrow> AgentDocument list \<Rightarrow> AgentOutcome list \<Rightarrow> ('w e2e_state, bool) io" where
  "judge_run F ops config scenario docs selected_docs outcomes =
     judged (Inr (failed_outcome outcomes))
     (io_bind (e2e_point_count ops config) (\<lambda>n.
      judged (if n \<noteq> expected_write_count selected_docs
              then verdict_fail (''Qdrant count mismatch; expected '' @ to_string (expected_write_count selected_docs)
                @ '' points, got '' @ to_string n)
              else verdict_ok)
     (io_bind (log_success (''Qdrant point count matched expected value '' @ to_string n)) (\<lambda>_.
      io_bind (qdrant_scroll_payloads ops config) (\<lambda>scroll_body.
      judged (validate_qdrant_payloads scroll_body outcomes docs)
     (io_bind (log_success ''Qdrant payload metadata check passed.'') (\<lambda>_.
      judged (validate_conflict_pairs F scenario outcomes docs config)
     (distinct_check F config scenario docs selected_docs outcomes
     (io_bind (log_success ''Scenario passed.'') (\<lambda>_. io_lift (Inr True)))))))))))"

definition run_scenario ::
  "fpu \<Rightarrow> 'w e2e_ops \<Rightarrow> E2eConfig \<Rightarrow> Scenario \<Rightarrow> documents \<Rightarrow> ('w e2e_state, unit) io option \<Rightarrow> ('w e2e_state, bool) io" where
  "run_scenario F ops config scenario docs mid_run_action =
     io_bind (scenario_traffic F ops config scenario docs mid_run_action) (\<lambda>(selected_docs, outcomes, unix_base_ms).
     io_bind (io_lift (timeline_lines outcomes unix_base_ms (ec_theta config))) (\<lambda>timeline.
     io_bind (log_lines timeline) (\<lambda>_.
     io_bind (io_lift (recap_lines outcomes unix_base_ms)) (\<lambda>recap.
     io_bind (log_lines recap) (\<lambda>_.
     io_bind (log_lines (stats_lines F outcomes)) (\<lambda>_.
       judge_run F ops config scenario docs selected_docs outcomes))))))"

section \<open>Scenarios with stopped nodes\<close>

definition leader_line :: "string \<Rightarrow> LeaderObservation \<Rightarrow> string" where
  "leader_line what leader = what @ lo_service_name leader @ '' at '' @ lo_leader_address leader
     @ '' term='' @ to_string (lo_current_term leader)"

definition failover_scenario :: Scenario where
  "failover_scenario = \<lparr>sn_name = ''Scenario Five: Kill the current leader during full fan-in'', sn_labels = ''ABCDE'',
     sn_expected_conflicts = [(CHR ''A'', CHR ''B''), (CHR ''D'', CHR ''E'')], sn_expect_distinct_completion = False\<rparr>"

text \<open>What the thread beside the agents does.\<close>

definition kill_leader :: "'w e2e_ops \<Rightarrow> E2eConfig \<Rightarrow> LeaderObservation \<Rightarrow> ('w e2e_state, unit) io" where
  "kill_leader ops config leader_before =
     io_bind (io_modify (e2e_sleep ops 300)) (\<lambda>_.
     io_bind (log_info (''Stopping leader '' @ lo_service_name leader_before @ '' mid-scenario'')) (\<lambda>_.
     io_bind (run_compose_or_throw ops config (''stop '' @ lo_service_name leader_before) ''failed to stop leader'') (\<lambda>_.
     io_bind (e2e_wait_for_leader ops config 12000 (lo_leader_address leader_before)) (\<lambda>new_leader.
       log_success (leader_line ''New leader elected: '' new_leader)))))"

definition run_leader_failover_scenario :: "fpu \<Rightarrow> 'w e2e_ops \<Rightarrow> E2eConfig \<Rightarrow> documents \<Rightarrow> ('w e2e_state, bool) io" where
  "run_leader_failover_scenario F ops config docs =
     io_bind (e2e_wait_for_leader ops config 8000 []) (\<lambda>leader_before.
     io_bind (log_info (leader_line ''Current leader before failover scenario: '' leader_before)) (\<lambda>_.
     io_bind (run_scenario F ops config failover_scenario docs (Some (kill_leader ops config leader_before))) (\<lambda>pass.
     io_bind (log_info (''Restarting previous leader '' @ lo_service_name leader_before)) (\<lambda>_.
     io_bind (run_compose_or_throw ops config (''start '' @ lo_service_name leader_before) ''failed to restart leader'') (\<lambda>_.
     io_bind (io_lift (host_target_for_service_name config (lo_service_name leader_before))) (\<lambda>restarted_target.
     io_bind (io_lift (if restarted_target = [] then fail ''could not map restarted leader to a host target'' else Inr ())) (\<lambda>_.
     io_bind (wait_for_node_control_plane ops restarted_target 12000) (\<lambda>_.
     io_bind (e2e_wait_for_leader ops config 8000 []) (\<lambda>_.
       io_lift (Inr pass))))))))))"

text \<open>The first node that is not the leader is restarted; the last one is the healthy follower.\<close>

record followers =
  fo_restarting_target :: string
  fo_restarting_service :: string
  fo_healthy_target :: string
  fo_healthy_service :: string

fun followers_loop :: "E2eConfig \<Rightarrow> string \<Rightarrow> nat \<Rightarrow> string list \<Rightarrow> followers \<Rightarrow> followers outcome" where
  "followers_loop config leader_service i [] fo = Inr fo"
| "followers_loop config leader_service i (target # targets) fo =
     rbind (elem_at (ec_node_service_names config) i) (\<lambda>name.
       followers_loop config leader_service (Suc i) targets
         (if name = leader_service then fo
          else if fo_restarting_target fo = [] then fo\<lparr>fo_restarting_target := target, fo_restarting_service := name\<rparr>
          else fo\<lparr>fo_healthy_target := target, fo_healthy_service := name\<rparr>))"

definition pick_followers :: "E2eConfig \<Rightarrow> LeaderObservation \<Rightarrow> followers outcome" where
  "pick_followers config leader_before =
     rbind (if lo_service_name leader_before \<noteq> [] then Inr (lo_service_name leader_before)
            else service_name_for_target config (lo_leader_address leader_before)) (\<lambda>leader_service.
     rbind (followers_loop config leader_service 0 (ec_node_targets config)
       \<lparr>fo_restarting_target = [], fo_restarting_service = [], fo_healthy_target = [], fo_healthy_service = []\<rparr>) (\<lambda>fo.
       if fo_restarting_service fo = [] \<or> fo_healthy_service fo = []
       then fail ''could not identify follower services for restart scenario'' else Inr fo))"

definition quorum_two_scenario :: Scenario where
  "quorum_two_scenario = \<lparr>sn_name = ''Scenario Six: Operate with one follower down'', sn_labels = ''ABDE'',
     sn_expected_conflicts = [(CHR ''A'', CHR ''B''), (CHR ''D'', CHR ''E'')], sn_expect_distinct_completion = False\<rparr>"

definition restarted_quorum_scenario :: Scenario where
  "restarted_quorum_scenario = \<lparr>sn_name = ''Scenario Seven: Rejoined follower participates in quorum'', sn_labels = ''AB'',
     sn_expected_conflicts = [(CHR ''A'', CHR ''B'')], sn_expect_distinct_completion = False\<rparr>"

text \<open>Stop a node, run a scenario without it, start it again and wait until it and a leader answer.\<close>

definition scenario_without ::
  "fpu \<Rightarrow> 'w e2e_ops \<Rightarrow> E2eConfig \<Rightarrow> documents \<Rightarrow> string \<Rightarrow> string \<Rightarrow> string \<Rightarrow> string \<Rightarrow> Scenario \<Rightarrow> ('w e2e_state, bool) io" where
  "scenario_without F ops config docs stopping stop_failure restart_failure service scenario =
     io_bind (log_info stopping) (\<lambda>_.
     io_bind (run_compose_or_throw ops config (''stop '' @ service) stop_failure) (\<lambda>_.
     io_bind (run_scenario F ops config scenario docs None) (\<lambda>pass.
     io_bind (log_info (''Restarting follower '' @ service)) (\<lambda>_.
     io_bind (run_compose_or_throw ops config (''start '' @ service) restart_failure) (\<lambda>_.
       io_lift (Inr pass))))))"

definition run_follower_restart_scenario :: "fpu \<Rightarrow> 'w e2e_ops \<Rightarrow> E2eConfig \<Rightarrow> documents \<Rightarrow> ('w e2e_state, bool) io" where
  "run_follower_restart_scenario F ops config docs =
     io_bind (e2e_wait_for_leader ops config 8000 []) (\<lambda>leader_before.
     io_bind (io_lift (pick_followers config leader_before)) (\<lambda>fo.
     io_bind (scenario_without F ops config docs (''Stopping follower '' @ fo_restarting_service fo @ '' before quorum test'')
       ''failed to stop follower'' ''failed to restart follower'' (fo_restarting_service fo) quorum_two_scenario) (\<lambda>first_pass.
     io_bind (wait_for_node_control_plane ops (fo_restarting_target fo) 12000) (\<lambda>_.
     io_bind (e2e_wait_for_leader ops config 8000 []) (\<lambda>_.
     io_bind (scenario_without F ops config docs
       (''Stopping the other follower '' @ fo_healthy_service fo @ '' to force quorum onto the restarted node'')
       ''failed to stop healthy follower'' ''failed to restart healthy follower'' (fo_healthy_service fo) restarted_quorum_scenario) (\<lambda>second_pass.
     io_bind (wait_for_node_control_plane ops (fo_healthy_target fo) 12000) (\<lambda>_.
     io_bind (e2e_wait_for_leader ops config 8000 []) (\<lambda>_.
       io_lift (Inr (second_pass \<and> first_pass))))))))))"

section \<open>The program\<close>

definition runtime_summary :: "E2eConfig \<Rightarrow> string list" where
  "runtime_summary config = section_lines ''Runtime Configuration'' @ map (tagged_line (''34'') ''INFO'')
     [''Project root: '' @ ec_project_root config, ''Input directory: '' @ ec_input_dir config,
      ''Embedding image: '' @ ec_embedding_image config, ''Embedding model: '' @ ec_model_id config,
      ''DSCC theta: '' @ format_float (ec_theta config) 3, ''DSCC lock hold: '' @ to_string (ec_lock_hold_ms config) @ ''ms'',
      ''Qdrant collection: '' @ ec_collection config, ''Proxy target: '' @ ec_dscc_target config]"

definition plain_scenarios :: "Scenario list" where
  "plain_scenarios =
     [\<lparr>sn_name = ''Scenario One: Write A conflicts with Read B on the same stream text'', sn_labels = ''AB'',
        sn_expected_conflicts = [(CHR ''A'', CHR ''B'')], sn_expect_distinct_completion = False\<rparr>,
      \<lparr>sn_name = ''Scenario Two: Mixed write/read stream without forced conflicts'', sn_labels = ''ACD'',
        sn_expected_conflicts = [], sn_expect_distinct_completion = True\<rparr>,
      \<lparr>sn_name = ''Scenario Three: Write D conflicts with Read E on the same stream text'', sn_labels = ''DE'',
        sn_expected_conflicts = [(CHR ''D'', CHR ''E'')], sn_expect_distinct_completion = False\<rparr>,
      \<lparr>sn_name = ''Scenario Four: Full fan-in with Agents A through E'', sn_labels = ''ABCDE'',
        sn_expected_conflicts = [(CHR ''A'', CHR ''B''), (CHR ''D'', CHR ''E'')], sn_expect_distinct_completion = False\<rparr>]"

fun run_scenarios :: "fpu \<Rightarrow> 'w e2e_ops \<Rightarrow> E2eConfig \<Rightarrow> documents \<Rightarrow> bool \<Rightarrow> Scenario list \<Rightarrow> ('w e2e_state, bool) io" where
  "run_scenarios F ops config docs overall_pass [] = io_lift (Inr overall_pass)"
| "run_scenarios F ops config docs overall_pass (scenario # scenarios) =
     io_bind (run_scenario F ops config scenario docs None) (\<lambda>pass.
       run_scenarios F ops config docs (overall_pass \<and> pass) scenarios)"

text \<open>The body of the \<^verbatim>\<open>try\<close> block up to the verdict, and its end.\<close>

definition e2e_start :: "'w e2e_ops \<Rightarrow> E2eConfig \<Rightarrow> ('w e2e_state, unit) io" where
  "e2e_start ops config =
     io_bind (log_lines (runtime_summary config)) (\<lambda>_.
     io_bind (if ec_skip_docker config then io_lift (Inr ())
              else io_bind (start_compose_stack ops config) (\<lambda>_. io_modify (\<lambda>s. s\<lparr>es_stack_started := True\<rparr>))) (\<lambda>_.
     io_bind (e2e_wait_for_http ops ''Qdrant'' (ec_qdrant_host config) (ec_qdrant_port config) [''/collections'', ''/''] 180 2000) (\<lambda>_.
     io_bind (e2e_wait_for_embedding ops config) (\<lambda>_.
     io_bind (e2e_ensure_model ops config) (\<lambda>_.
     io_bind (e2e_wait_for_dscc ops config) (\<lambda>_.
     io_bind (e2e_wait_for_leader ops config 12000 []) (\<lambda>leader.
       log_info (leader_line ''Cluster leader: '' leader))))))))"

definition e2e_scenarios :: "fpu \<Rightarrow> 'w e2e_ops \<Rightarrow> E2eConfig \<Rightarrow> ('w e2e_state, bool) io" where
  "e2e_scenarios F ops config =
     io_bind (load_agent_documents F ops config ''ABCDE'') (\<lambda>documents.
     let indexed_docs = index_documents documents in
     io_bind (log_lines (similarity_lines F indexed_docs)) (\<lambda>_.
     io_bind (run_scenarios F ops config indexed_docs True plain_scenarios) (\<lambda>plain.
     io_bind (run_leader_failover_scenario F ops config indexed_docs) (\<lambda>failover.
     io_bind (run_follower_restart_scenario F ops config indexed_docs) (\<lambda>restart.
       io_lift (Inr (restart \<and> failover \<and> plain)))))))"

definition e2e_finish :: "'w e2e_ops \<Rightarrow> E2eConfig \<Rightarrow> bool \<Rightarrow> ('w e2e_state, int) io" where
  "e2e_finish ops config overall_pass =
     (let teardown = (if \<not> ec_skip_docker config \<and> ec_teardown_on_exit config then stop_compose_stack ops config else io_lift (Inr ())) in
      io_bind (log_lines (section_lines ''End-to-End Summary'')) (\<lambda>_.
      if overall_pass
      then io_bind (log_success ''All real end-to-end scenarios passed.'') (\<lambda>_.
           io_bind teardown (\<lambda>_.
           io_bind (if \<not> ec_skip_docker config \<and> \<not> ec_teardown_on_exit config
                    then log_info (''Docker stack was left running for inspection. Use `docker compose down` when finished.'')
                    else io_lift (Inr ())) (\<lambda>_. io_lift (Inr 0))))
      else io_bind teardown (\<lambda>_.
           io_bind (log_error ''One or more end-to-end scenarios failed.'') (\<lambda>_. io_lift (Inr 1)))))"

definition e2e_body :: "fpu \<Rightarrow> 'w e2e_ops \<Rightarrow> E2eConfig \<Rightarrow> ('w e2e_state, int) io" where
  "e2e_body F ops config =
     io_bind (e2e_start ops config) (\<lambda>_. io_bind (e2e_scenarios F ops config) (e2e_finish ops config))"

text \<open>
  What the program throws derives from \<^verbatim>\<open>std::exception\<close>. An exception of a handler, or one that
  leaves a thread, ends the process by \<^verbatim>\<open>std::terminate\<close>.
\<close>

definition e2e_handler :: "(exn \<Rightarrow> string) \<Rightarrow> 'w e2e_ops \<Rightarrow> E2eConfig \<Rightarrow> exn \<Rightarrow> ('w e2e_state, unit) io" where
  "e2e_handler lib_what ops config e = (\<lambda>s.
     io_bind (if es_stack_started s \<and> \<not> ec_skip_docker config \<and> ec_teardown_on_exit config
              then stop_compose_stack ops config else io_lift (Inr ()))
       (\<lambda>_. log_error (''Fatal error: '' @ what_text lib_what e)) s)"

definition e2e_main :: "fpu \<Rightarrow> (exn \<Rightarrow> string) \<Rightarrow> 'w e2e_ops \<Rightarrow> string \<Rightarrow> environ \<Rightarrow> 'w \<Rightarrow> ('w e2e_state \<times> process_end) option" where
  "e2e_main F lib_what ops project_root env w =
     (let config = e2e_load_config F project_root env in
      case e2e_body F ops config \<lparr>es_world = w, es_stack_started = False, es_log = []\<rparr> of
        None \<Rightarrow> None
      | Some (s, Inr code) \<Rightarrow> Some (s, Exit code)
      | Some (s, Inl e) \<Rightarrow>
          if e = Uncaught then Some (s, Terminated)
          else if \<not> is_exception e then Some (s, Crashed)
          else map_option (\<lambda>(s1, r). (s1, case r of Inl e2 \<Rightarrow> Terminated | Inr u \<Rightarrow> Exit 1)) (e2e_handler lib_what ops config e s))"

end
