(* ===== verification/E2eLaws.thy ===== *)
theory E2eLaws
  imports E2eScenario SoakLaws BenchHost
begin

text \<open>
  Laws of the end-to-end bench: an agent's id shows the agent's name, each check accepts exactly what it is
  meant to accept, a scenario passes only when its outcome shows what the scenario expects, and the
  machine that records the commands, over which the life of the nodes is proved.
\<close>

section \<open>Names\<close>

lemma str_rfindI:
  assumes "prefix p (drop k s)" "k \<le> length s" "\<And>j. k < j \<Longrightarrow> j \<le> length s \<Longrightarrow> \<not> prefix p (drop j s)"
  shows "str_rfind s p = Some k"
proof -
  let ?P = "\<lambda>j. prefix p (drop j s)"
  have "[0..<length s + 1] = [0..<Suc k] @ [Suc k..<length s + 1]"
    using assms(2) upt_add_eq_append[of 0 "Suc k" "length s - k"] by simp
  moreover have "filter ?P [Suc k..<length s + 1] = []" 
  proof -
    have "\<not> ?P j" if "j \<in> set [Suc k..<length s + 1]" for j using that assms(3)[of j] by auto
    then show ?thesis by (simp only: filter_empty_conv) blast
  qed
  moreover have "filter ?P [0..<Suc k] = filter ?P [0..<k] @ [k]" using assms(1) by simp
  ultimately have "filter ?P [0..<length s + 1] = filter ?P [0..<k] @ [k]" by (simp only: filter_append append_Nil2)
  then show ?thesis by (simp add: str_rfind_def Let_def)
qed

lemma rfind_agent: "str_rfind (name @ ''-agent-'' @ [label]) ''-agent-'' = Some (length name)"
proof (rule str_rfindI)
  fix j assume j: "length name < j" "j \<le> length (name @ ''-agent-'' @ [label])"
  show "\<not> prefix ''-agent-'' (drop j (name @ ''-agent-'' @ [label]))"
  proof (cases "j = length name + 1")
    case False
    then have "length (drop j (name @ ''-agent-'' @ [label])) < length ''-agent-''" using j by simp
    then show ?thesis using prefix_length_le by (metis not_less)
  qed simp
qed simp_all

lemma elem_at_end: "elem_at (xs @ [c]) (length xs) = Inr c"
  by (simp add: elem_at_def vec_at_def)

lemma agent_displayed: "display_agent_id (name @ ''-agent-'' @ [label]) = Inr (agent_name label)"
  using rfind_agent[of name label] elem_at_end[of "name @ ''-agent-''" label] by (simp add: display_agent_id_def add.commute numeral_eq_Suc)

lemma agent_shown: "display_agent_id (scenario_agent_id name label) = Inr (agent_name label)"
  using agent_displayed[of "''scenario-'' @ scenario_slug name" label] by (simp add: scenario_agent_id_def)

lemma display_returns: "\<exists>name. display_agent_id agent_id = Inr name"
  by (auto simp: display_agent_id_def elem_at_def split: option.splits)

section \<open>Checks\<close>

lemma verdicts [simp]: "verdict_fail message \<noteq> Inr None" "verdict_ok = Inr None"
  by (simp_all add: verdict_fail_def verdict_ok_def)

lemma rbind_Inr: "rbind m f = Inr y \<longleftrightarrow> (\<exists>x. m = Inr x \<and> f x = Inr y)"
  by (cases m) (simp_all add: rbind_def)

lemma outcomes_accepted:
  "failed_outcome outcomes = None \<longleftrightarrow> (\<forall>oc\<in>set outcomes. status_ok (ao_status oc) \<and> rs_granted (ao_response oc))"
  by (induction outcomes) auto

text \<open>The payload of a write is in what Qdrant returned.\<close>

definition payload_shown :: "string \<Rightarrow> documents \<Rightarrow> AgentOutcome \<Rightarrow> bool" where
  "payload_shown scroll_body docs oc \<longleftrightarrow> contains scroll_body (ao_agent_id oc)
     \<and> (\<exists>doc. doc_at docs (ao_label oc) = Inr doc \<and> contains scroll_body (ad_source_file doc) \<and> contains scroll_body (ad_text doc))"

lemma payloads_accepted:
  "validate_qdrant_payloads scroll_body outcomes docs = Inr None
   \<longleftrightarrow> (\<forall>oc\<in>set outcomes. ao_operation oc = kWrite \<longrightarrow> payload_shown scroll_body docs oc)"
  by (induction outcomes) (auto simp: payload_shown_def rbind_Inr)

lemma gap_accepted:
  assumes "0 \<le> g"
  shows "minimum_gap config \<le> g \<longleftrightarrow> 250 \<le> g \<and> ec_lock_hold_ms config \<le> 2 * g + 1"
  using assms by (auto simp: minimum_gap_def signed_divide_int_def sgn_if abs_if)

lemma outcome_atD: "outcome_at outcomes label = Inr oc \<Longrightarrow> oc \<in> set outcomes \<and> ao_label oc = label"
  by (auto simp: outcome_at_def split: option.splits dest!: map_of_SomeD)

lemma operation_ofD: "operation_of_agent outcomes agent_id = Some op \<Longrightarrow> \<exists>oc\<in>set outcomes. ao_agent_id oc = agent_id \<and> ao_operation oc = op"
  by (auto simp: operation_of_agent_def dest!: map_of_SomeD)

text \<open>An agent that waited, and the one it waited for was a writer of the same scenario.\<close>

definition waited_for_writer :: "AgentOutcome list \<Rightarrow> AgentOutcome \<Rightarrow> bool" where
  "waited_for_writer outcomes oc \<longleftrightarrow> rs_lock_wait_ms (ao_response oc) > 0
     \<and> (\<exists>writer\<in>set outcomes. ao_agent_id writer = rs_blocking_agent_id (ao_response oc) \<and> ao_operation writer = kWrite)"

lemma read_accepted: "validate_read label outcomes oc = None \<Longrightarrow> waited_for_writer outcomes oc"
  by (auto simp: validate_read_def waited_for_writer_def Let_def split: if_splits dest: operation_ofD)

text \<open>
  What an expected conflict of two agents has to show: their texts are similar at the threshold, their
  operations ended at least a quarter of a second and half the lock's hold time apart, and if only one
  of them wrote, the other waited for a writer.
\<close>

definition conflict_shown :: "fpu \<Rightarrow> E2eConfig \<Rightarrow> documents \<Rightarrow> AgentOutcome list \<Rightarrow> char \<Rightarrow> char \<Rightarrow> bool" where
  "conflict_shown F config docs outcomes left right \<longleftrightarrow>
     (\<exists>left_doc right_doc. doc_at docs left = Inr left_doc \<and> doc_at docs right = Inr right_doc
        \<and> \<not> fl_less (bench_cosine_similarity F (ad_embedding left_doc) (ad_embedding right_doc)) (ec_theta config)
        \<and> (\<exists>l\<in>set outcomes. \<exists>r\<in>set outcomes. ao_label l = left \<and> ao_label r = right
              \<and> (let gap = \<bar>rs_qdrant_write_complete_unix_ms (ao_response l) - rs_qdrant_write_complete_unix_ms (ao_response r)\<bar>
                  in 250 \<le> gap \<and> ec_lock_hold_ms config \<le> 2 * gap + 1))
        \<and> (ad_operation left_doc \<noteq> ad_operation right_doc \<longrightarrow>
             (\<exists>oc\<in>set outcomes. ao_label oc = (if ad_operation left_doc = kRead then left else right) \<and> waited_for_writer outcomes oc)))"

lemma pair_accepted:
  assumes "validate_pair F config docs outcomes (left, right) = Inr None"
  shows "conflict_shown F config docs outcomes left right"
proof -
  obtain ld rd where docs: "doc_at docs left = Inr ld" "doc_at docs right = Inr rd"
    using assms by (auto simp: validate_pair_def rbind_Inr)
  have score: "\<not> fl_less (bench_cosine_similarity F (ad_embedding ld) (ad_embedding rd)) (ec_theta config)"
    using assms by (auto simp: validate_pair_def docs Let_def)
  then obtain l r where ends: "outcome_at outcomes left = Inr l" "outcome_at outcomes right = Inr r"
    using assms by (auto simp: validate_pair_def docs Let_def rbind_Inr)
  have gap: "minimum_gap config \<le> \<bar>rs_qdrant_write_complete_unix_ms (ao_response l) - rs_qdrant_write_complete_unix_ms (ao_response r)\<bar>"
    using assms score by (auto simp: validate_pair_def docs ends Let_def not_less split: if_split_asm)
  have read: "\<exists>oc. outcome_at outcomes (if ad_operation ld = kRead then left else right) = Inr oc
      \<and> validate_read (if ad_operation ld = kRead then left else right) outcomes oc = None" if "ad_operation ld \<noteq> ad_operation rd"
    using assms score gap that by (auto simp: validate_pair_def docs ends Let_def)
  have oc: "l \<in> set outcomes" "ao_label l = left" "r \<in> set outcomes" "ao_label r = right" using ends by (auto dest: outcome_atD)
  have g: "let gap = \<bar>rs_qdrant_write_complete_unix_ms (ao_response l) - rs_qdrant_write_complete_unix_ms (ao_response r)\<bar>
      in 250 \<le> gap \<and> ec_lock_hold_ms config \<le> 2 * gap + 1"
    using gap by (simp add: gap_accepted Let_def)
  have w: "\<exists>oc\<in>set outcomes. ao_label oc = (if ad_operation ld = kRead then left else right) \<and> waited_for_writer outcomes oc"
    if "ad_operation ld \<noteq> ad_operation rd"
    using read[OF that] outcome_atD read_accepted by blast
  have e: "\<exists>l\<in>set outcomes. \<exists>r\<in>set outcomes. ao_label l = left \<and> ao_label r = right
      \<and> (let gap = \<bar>rs_qdrant_write_complete_unix_ms (ao_response l) - rs_qdrant_write_complete_unix_ms (ao_response r)\<bar>
         in 250 \<le> gap \<and> ec_lock_hold_ms config \<le> 2 * gap + 1)"
    using oc g by blast
  show ?thesis unfolding conflict_shown_def using docs score e w by (intro exI[of _ ld] exI[of _ rd]) simp
qed

lemma pairs_accepted:
  "validate_pairs F config docs outcomes pairs = Inr None \<Longrightarrow> (left, right) \<in> set pairs \<Longrightarrow> conflict_shown F config docs outcomes left right"
  by (induction pairs) (auto simp: rbind_Inr split: option.splits dest: pair_accepted)

text \<open>Two of the labels have texts that are similar at the threshold.\<close>

definition similar_labels :: "fpu \<Rightarrow> E2eConfig \<Rightarrow> documents \<Rightarrow> char \<Rightarrow> char \<Rightarrow> bool" where
  "similar_labels F config docs l r \<longleftrightarrow> (\<exists>left_doc right_doc. doc_at docs l = Inr left_doc \<and> doc_at docs r = Inr right_doc
     \<and> fl_le (ec_theta config) (bench_cosine_similarity F (ad_embedding left_doc) (ad_embedding right_doc)))"

lemma conflict_with_iff: "conflict_with F config docs l rs = Inr b \<Longrightarrow> b \<longleftrightarrow> (\<exists>r\<in>set rs. similar_labels F config docs l r)"
  by (induction rs) (auto simp: rbind_Inr similar_labels_def split: if_splits)

lemma labels_conflict_iff: "labels_conflict F config docs ls = Inr b \<Longrightarrow> b \<longleftrightarrow> \<not> sorted_wrt (\<lambda>l r. \<not> similar_labels F config docs l r) ls"
proof (induction ls)
  case (Cons l ls)
  then obtain c where c: "conflict_with F config docs l ls = Inr c" by (auto simp: rbind_Inr)
  then show ?case using Cons conflict_with_iff[OF c] by (cases c) auto
qed simp

lemma spread_bounds:
  assumes "spread_loop outcomes docs i n earliest latest = Inr (earliest', latest')"
  shows "earliest' \<le> earliest" "latest \<le> latest'"
    "\<forall>j. i \<le> j \<and> j < i + n \<longrightarrow> earliest' \<le> ao_finish_ms (outcomes ! j) - ad_scheduled_offset_ms (docs ! j)
       \<and> ao_finish_ms (outcomes ! j) - ad_scheduled_offset_ms (docs ! j) \<le> latest'"
  using assms
proof (induction n arbitrary: i earliest latest)
  case (Suc n)
  {
    case 1
    then show ?case using Suc.IH(1) by (fastforce simp: rbind_Inr Let_def)
  next
    case 2
    then show ?case using Suc.IH(2) by (fastforce simp: rbind_Inr Let_def)
  next
    case 3
    then obtain oc doc where e: "elem_at outcomes i = Inr oc" "elem_at docs i = Inr doc"
      and rest: "spread_loop outcomes docs (Suc i) n (min earliest (ao_finish_ms oc - ad_scheduled_offset_ms doc))
        (max latest (ao_finish_ms oc - ad_scheduled_offset_ms doc)) = Inr (earliest', latest')"
      by (auto simp: rbind_Inr Let_def)
    have d: "oc = outcomes ! i" "doc = docs ! i" using e by (auto simp: elem_at_def split: sum.splits dest: vec_at_InrD)
    note ih = Suc.IH(1)[OF rest] Suc.IH(2)[OF rest] Suc.IH(3)[OF rest]
    show ?case
    proof (intro allI impI)
      fix j assume j: "i \<le> j \<and> j < i + Suc n"
      show "earliest' \<le> ao_finish_ms (outcomes ! j) - ad_scheduled_offset_ms (docs ! j)
          \<and> ao_finish_ms (outcomes ! j) - ad_scheduled_offset_ms (docs ! j) \<le> latest'"
      proof (cases "j = i")
        case False
        with j have "Suc i \<le> j \<and> j < Suc i + n" by simp
        with ih(3) show ?thesis by blast
      qed (use ih(1,2) d in auto)
    qed
  }
qed simp_all

definition finished_at :: "AgentOutcome list \<Rightarrow> AgentDocument list \<Rightarrow> nat \<Rightarrow> int" where
  "finished_at outcomes docs i = ao_finish_ms (outcomes ! i) - ad_scheduled_offset_ms (docs ! i)"

lemma distinct_accepted:
  assumes "validate_distinct_completion outcomes docs config = Inr None" "i < length outcomes" "j < length outcomes"
  shows "finished_at outcomes docs i - finished_at outcomes docs j \<le> max 300 (ec_lock_hold_ms config sdiv 2)"
proof -
  obtain e0 earliest latest where l: "spread_loop outcomes docs 0 (length outcomes) e0 e0 = Inr (earliest, latest)"
    and m: "latest - earliest \<le> max 300 (ec_lock_hold_ms config sdiv 2)"
    using assms(1) by (auto simp: validate_distinct_completion_def rbind_Inr Let_def split: if_splits)
  have "earliest \<le> finished_at outcomes docs j" "finished_at outcomes docs i \<le> latest"
    using spread_bounds(3)[OF l] assms(2,3) by (auto simp: finished_at_def)
  with m show ?thesis by linarith
qed

section \<open>A scenario that passes\<close>

lemma bindE:
  assumes "io_bind m f s = Some (s', Inr y)"
  obtains s1 x where "m s = Some (s1, Inr x)" "f x s1 = Some (s', Inr y)"
  using assms unfolding io_bind_Some by blast

lemma io_lift_Some: "io_lift r s = Some (s', r') \<longleftrightarrow> s' = s \<and> r' = r"
  by (auto simp: io_lift_def)

lemma io_lift_True: "io_lift (Inr b) s = Some (s', Inr True) \<longleftrightarrow> s' = s \<and> b"
  by (auto simp: io_lift_def)

lemma judged_pass: "judged v m s = Some (s', Inr True) \<longleftrightarrow> v = Inr None \<and> m s = Some (s', Inr True)"
  by (auto simp: judged_def io_bind_Some io_lift_Some log_error_def log_tagged_def log_line_def split: option.splits)

lemma distinct_check_pass:
  assumes "distinct_check F config scenario docs selected_docs outcomes m s = Some (s', Inr True)" "sn_expect_distinct_completion scenario"
  shows "\<not> sorted_wrt (\<lambda>l r. \<not> similar_labels F config docs l r) (sn_labels scenario)
    \<or> validate_distinct_completion outcomes selected_docs config = Inr None"
proof -
  obtain c where c: "labels_conflict F config docs (sn_labels scenario) = Inr c"
    using assms by (cases "labels_conflict F config docs (sn_labels scenario)")
      (auto simp: distinct_check_def io_bind_Some io_lift_Some scenario_has_threshold_conflict_def)
  show ?thesis
  proof (cases c)
    case False
    then show ?thesis using assms c
      by (auto simp: distinct_check_def io_bind_Some io_lift_Some scenario_has_threshold_conflict_def judged_pass)
  qed (use labels_conflict_iff[OF c] in simp)
qed

text \<open>The outcomes are those of the scenario's agents: one per label, with the label's document and the agent's own call.\<close>

lemma agent_outcomes_of:
  assumes "agent_outcomes F scenario calls i docs = Inr outcomes"
  shows "length outcomes = length docs"
    "\<forall>j<length docs. agent_outcome F scenario (docs ! j) (calls (i + j)) = Inr (outcomes ! j)"
  using assms
proof (induction docs arbitrary: i outcomes)
  case (Cons doc docs)
  {
    case 1
    then show ?case using Cons.IH(1) by (auto simp: rbind_Inr)
  next
    case 2
    then obtain oc ocs where d: "agent_outcome F scenario doc (calls i) = Inr oc" "agent_outcomes F scenario calls (Suc i) docs = Inr ocs"
      and o: "outcomes = oc # ocs"
      by (auto simp: rbind_Inr)
    show ?case using d(1) Cons.IH(2)[OF d(2)] by (auto simp: o nth_Cons split: nat.splits)
  }
qed simp_all

lemma selected_of:
  assumes "select_documents docs labels = Inr selected"
  shows "list_all2 (\<lambda>label doc. doc_at docs label = Inr doc) labels selected"
  using assms by (induction labels arbitrary: selected) (auto simp: rbind_Inr)

text \<open>Each document is indexed by its label.\<close>

definition labelled :: "documents \<Rightarrow> bool" where
  "labelled docs \<longleftrightarrow> (\<forall>(label, doc)\<in>set docs. ad_label doc = label)"

lemma doc_at_label: "labelled docs \<Longrightarrow> doc_at docs label = Inr doc \<Longrightarrow> ad_label doc = label"
  by (auto simp: labelled_def doc_at_def split: option.splits dest!: map_of_SomeD)

text \<open>What the outcomes of a scenario, one per label in its order, have to show for it to pass.\<close>

definition scenario_shown :: "fpu \<Rightarrow> E2eConfig \<Rightarrow> Scenario \<Rightarrow> documents \<Rightarrow> AgentOutcome list \<Rightarrow> string \<Rightarrow> bool" where
  "scenario_shown F config scenario docs outcomes scroll_body \<longleftrightarrow>
     map ao_label outcomes = sn_labels scenario
     \<and> (\<forall>oc\<in>set outcomes. status_ok (ao_status oc) \<and> rs_granted (ao_response oc)
          \<and> (ao_operation oc = kWrite \<longrightarrow> payload_shown scroll_body docs oc))
     \<and> (\<forall>(left, right)\<in>set (sn_expected_conflicts scenario). conflict_shown F config docs outcomes left right)
     \<and> (sn_expect_distinct_completion scenario \<longrightarrow>
          (\<exists>selected_docs. list_all2 (\<lambda>label doc. doc_at docs label = Inr doc) (sn_labels scenario) selected_docs
             \<and> (\<not> sorted_wrt (\<lambda>l r. \<not> similar_labels F config docs l r) (sn_labels scenario)
                  \<or> (\<forall>i<length outcomes. \<forall>j<length outcomes. finished_at outcomes selected_docs i - finished_at outcomes selected_docs j
                        \<le> max 300 (ec_lock_hold_ms config sdiv 2)))))"

text \<open>The outcomes are what the scenario's threads were answered, and Qdrant has as many points as there were writers.\<close>

definition scenario_ran :: "'w e2e_ops \<Rightarrow> E2eConfig \<Rightarrow> Scenario \<Rightarrow> AgentOutcome list \<Rightarrow> string \<Rightarrow> bool" where
  "scenario_ran ops config scenario outcomes scroll_body \<longleftrightarrow>
     (\<exists>w w' calls. eo_join ops w = Some (w', calls)
        \<and> (\<forall>i<length outcomes. ao_agent_id (outcomes ! i) = scenario_agent_id (sn_name scenario) (ao_label (outcomes ! i))
             \<and> ao_status (outcomes ! i) = ac_status (calls i) \<and> ao_response (outcomes ! i) = ac_response (calls i)))
     \<and> (\<exists>s s'. e2e_point_count ops config s = Some (s', Inr (int (length (filter (\<lambda>oc. ao_operation oc = kWrite) outcomes)))))
     \<and> (\<exists>s s'. qdrant_scroll_payloads ops config s = Some (s', Inr scroll_body))"

lemma traffic_outcomes:
  assumes "scenario_traffic F ops config scenario docs action s = Some (s', Inr (selected_docs, outcomes, base))"
  shows "select_documents docs (sn_labels scenario) = Inr selected_docs"
    "\<exists>w w' calls. eo_join ops w = Some (w', calls) \<and> agent_outcomes F scenario calls 0 selected_docs = Inr outcomes"
proof -
  have "select_documents docs (sn_labels scenario) = Inr selected_docs
      \<and> (\<exists>s1 s2 calls. e2e_call (eo_join ops) s1 = Some (s2, Inr calls) \<and> agent_outcomes F scenario calls 0 selected_docs = Inr outcomes)"
    using assms unfolding scenario_traffic_def
    by (elim io_bind_Some[THEN iffD1, elim_format] exE conjE) (auto simp: io_bind_Some io_lift_Some split: sum.splits)
  then show "select_documents docs (sn_labels scenario) = Inr selected_docs"
    "\<exists>w w' calls. eo_join ops w = Some (w', calls) \<and> agent_outcomes F scenario calls 0 selected_docs = Inr outcomes"
    by (auto simp: e2e_call_def e2e_world_def)
qed

lemma outcome_of:
  assumes "agent_outcome F scenario doc call = Inr oc"
  shows "ao_label oc = ad_label doc" "ao_agent_id oc = scenario_agent_id (sn_name scenario) (ad_label doc)"
    "ao_operation oc = ad_operation doc" "ao_status oc = ac_status call" "ao_response oc = ac_response call"
  using assms by (auto simp: agent_outcome_def split: sum.splits)

lemma judged_passE:
  assumes "judged v m s = Some (s', Inr True)"
  obtains "v = Inr None" "m s = Some (s', Inr True)"
  using assms unfolding judged_pass by blast

lemma count_accepted: "(if n \<noteq> k then verdict_fail message else verdict_ok) = Inr None \<longleftrightarrow> n = k"
  by simp

lemma judge_pass:
  fixes ops :: "'w e2e_ops"
  assumes "judge_run F ops config scenario docs selected_docs outcomes s = Some (s', Inr True)"
  obtains body where "\<forall>oc\<in>set outcomes. status_ok (ao_status oc) \<and> rs_granted (ao_response oc)"
    "\<exists>s1 s2. e2e_point_count ops config s1 = Some (s2, Inr (expected_write_count selected_docs))"
    "\<exists>s1 s2. qdrant_scroll_payloads ops config s1 = Some (s2, Inr body)" "validate_qdrant_payloads body outcomes docs = Inr None"
    "validate_conflict_pairs F scenario outcomes docs config = Inr None"
    "\<exists>m (s1 :: 'w e2e_state) s2. distinct_check F config scenario docs selected_docs outcomes m s1 = Some (s2, Inr True)"
proof -
  note r = assms[unfolded judge_run_def]
  from r have f: "failed_outcome outcomes = None" by (elim judged_passE) simp
  from r obtain n s1 s2 where n: "e2e_point_count ops config s1 = Some (s2, Inr n)" "n = expected_write_count selected_docs"
    by (elim judged_passE bindE) (simp only: count_accepted)
  from r obtain body s3 s4 where b: "qdrant_scroll_payloads ops config s3 = Some (s4, Inr body)" "validate_qdrant_payloads body outcomes docs = Inr None"
    by (elim judged_passE bindE) blast
  from r have p: "validate_conflict_pairs F scenario outcomes docs config = Inr None" by (elim judged_passE bindE)
  from r have d: "\<exists>m (s1 :: 'w e2e_state) s2. distinct_check F config scenario docs selected_docs outcomes m s1 = Some (s2, Inr True)"
    by (elim judged_passE bindE) (intro exI, assumption)
  show thesis by (rule that[OF f[unfolded outcomes_accepted] _ _ b(2) p d]) (use n b(1) in blast)+
qed

lemma passing_scenario:
  fixes ops :: "'w e2e_ops"
  assumes run: "run_scenario F ops config scenario docs action s = Some (s', Inr True)" and labelled: "labelled docs"
  shows "\<exists>outcomes body. scenario_ran ops config scenario outcomes body \<and> scenario_shown F config scenario docs outcomes body"
proof -
  obtain selected_docs outcomes base s1 s2 s3 where
    t: "scenario_traffic F ops config scenario docs action s = Some (s1, Inr (selected_docs, outcomes, base))"
    and j: "judge_run F ops config scenario docs selected_docs outcomes s2 = Some (s3, Inr True)"
    using run by (auto simp: run_scenario_def io_bind_Some)
  obtain w w' calls where calls: "eo_join ops w = Some (w', calls)" "agent_outcomes F scenario calls 0 selected_docs = Inr outcomes"
    using traffic_outcomes(2)[OF t] by blast
  note sel = selected_of[OF traffic_outcomes(1)[OF t]]
  have len: "length outcomes = length selected_docs" by (rule agent_outcomes_of(1)[OF calls(2)])
  have oc: "agent_outcome F scenario (selected_docs ! i) (calls i) = Inr (outcomes ! i)" if "i < length selected_docs" for i
    using agent_outcomes_of(2)[OF calls(2)] that by simp
  have labels: "map ao_label outcomes = sn_labels scenario"
  proof (rule nth_equalityI)
    fix i assume "i < length (map ao_label outcomes)"
    then have i: "i < length selected_docs" using len by simp
    have "doc_at docs (sn_labels scenario ! i) = Inr (selected_docs ! i)" using list_all2_nthD2[OF sel i] .
    then show "map ao_label outcomes ! i = sn_labels scenario ! i"
      using doc_at_label[OF labelled] outcome_of(1)[OF oc[OF i]] i len by simp
  qed (use sel len in \<open>simp add: list_all2_lengthD\<close>)
  have ops_eq: "map ao_operation outcomes = map ad_operation selected_docs"
    using len outcome_of(3)[OF oc] by (auto intro!: nth_equalityI)
  have writes: "expected_write_count selected_docs = int (length (filter (\<lambda>oc. ao_operation oc = kWrite) outcomes))"
    using arg_cong[OF ops_eq, of "\<lambda>os. length (filter (\<lambda>op. op = kWrite) os)"]
    by (simp add: expected_write_count_def filter_map o_def)
  obtain body where j: "\<forall>oc\<in>set outcomes. status_ok (ao_status oc) \<and> rs_granted (ao_response oc)"
    "\<exists>s1 s2. e2e_point_count ops config s1 = Some (s2, Inr (expected_write_count selected_docs))"
    and body: "\<exists>s1 s2. qdrant_scroll_payloads ops config s1 = Some (s2, Inr body)" "validate_qdrant_payloads body outcomes docs = Inr None"
    and p: "validate_conflict_pairs F scenario outcomes docs config = Inr None"
    and d: "\<exists>m (s1 :: 'w e2e_state) s2. distinct_check F config scenario docs selected_docs outcomes m s1 = Some (s2, Inr True)"
    by (rule judge_pass[OF j])
  have ran: "scenario_ran ops config scenario outcomes body"
    unfolding scenario_ran_def using calls(1) outcome_of[OF oc] len body(1) j(2)[unfolded writes] by metis
  have "scenario_shown F config scenario docs outcomes body"
    unfolding scenario_shown_def
  proof (intro conjI ballI impI)
    show "\<exists>selected_docs. list_all2 (\<lambda>label doc. doc_at docs label = Inr doc) (sn_labels scenario) selected_docs
       \<and> (\<not> sorted_wrt (\<lambda>l r. \<not> similar_labels F config docs l r) (sn_labels scenario)
          \<or> (\<forall>i<length outcomes. \<forall>j<length outcomes. finished_at outcomes selected_docs i - finished_at outcomes selected_docs j
               \<le> max 300 (ec_lock_hold_ms config sdiv 2)))"
      if e: "sn_expect_distinct_completion scenario"
      using sel d distinct_check_pass[OF _ e] distinct_accepted by blast
  qed (use labels j(1) p body(2) pairs_accepted in
      \<open>auto simp: payloads_accepted validate_conflict_pairs_def\<close>)
  with ran show ?thesis by blast
qed

section \<open>The documents\<close>

lemma emplace_labelled: "labelled docs \<Longrightarrow> labelled (emplace_document doc docs)"
  unfolding labelled_def by (induction doc docs rule: emplace_document.induct) auto

lemma index_labelled: "labelled (index_documents docs)"
proof -
  have "labelled indexed \<Longrightarrow> labelled (foldl (\<lambda>indexed doc. emplace_document doc indexed) indexed docs)" for indexed
    by (induction docs arbitrary: indexed) (simp_all add: emplace_labelled)
  moreover have "labelled []" by (simp add: labelled_def)
  ultimately show ?thesis unfolding index_documents_def by blast
qed

text \<open>All the scenarios of a run, in order.\<close>

definition all_scenarios :: "Scenario list" where
  "all_scenarios = plain_scenarios @ [failover_scenario, quorum_two_scenario, restarted_quorum_scenario]"

definition scenario_passed :: "fpu \<Rightarrow> 'w e2e_ops \<Rightarrow> E2eConfig \<Rightarrow> documents \<Rightarrow> Scenario \<Rightarrow> bool" where
  "scenario_passed F ops config docs scenario \<longleftrightarrow>
     (\<exists>outcomes body. scenario_ran ops config scenario outcomes body \<and> scenario_shown F config scenario docs outcomes body)"

lemma run_scenarios_passed:
  assumes "run_scenarios F ops config docs overall scenarios s = Some (s', Inr True)" "labelled docs"
  shows "overall \<and> (\<forall>scenario\<in>set scenarios. scenario_passed F ops config docs scenario)"
  using assms(1)
proof (induction scenarios arbitrary: overall s)
  case (Cons scenario scenarios)
  then obtain s1 pass where r: "run_scenario F ops config scenario docs None s = Some (s1, Inr pass)"
    and "run_scenarios F ops config docs (overall \<and> pass) scenarios s1 = Some (s', Inr True)"
    by (auto elim: bindE)
  from Cons.IH[OF this(2)] r passing_scenario[OF _ assms(2)] show ?case by (auto simp: scenario_passed_def)
qed (simp add: io_lift_Some)

lemma without_passed:
  assumes "scenario_without F ops config docs a b c service scenario s = Some (s', Inr pass)" "pass" "labelled docs"
  shows "scenario_passed F ops config docs scenario"
  using assms passing_scenario[OF _ assms(3)] unfolding scenario_without_def scenario_passed_def
  by (elim bindE) (simp add: io_lift_Some, blast)

lemma failover_passed:
  assumes "run_leader_failover_scenario F ops config docs s = Some (s', Inr True)" "labelled docs"
  shows "scenario_passed F ops config docs failover_scenario"
  using assms(1) passing_scenario[OF _ assms(2)] unfolding run_leader_failover_scenario_def scenario_passed_def
  by (elim bindE) (simp only: io_lift_True, blast)

lemma follower_passed:
  assumes "run_follower_restart_scenario F ops config docs s = Some (s', Inr True)" "labelled docs"
  shows "scenario_passed F ops config docs quorum_two_scenario \<and> scenario_passed F ops config docs restarted_quorum_scenario"
  using assms(1) without_passed[OF _ _ assms(2)] unfolding run_follower_restart_scenario_def
  by (elim bindE) (simp only: io_lift_True, blast)

lemma e2e_scenarios_passed:
  assumes "e2e_scenarios F ops config s = Some (s', Inr True)"
  shows "\<exists>docs. labelled docs \<and> (\<forall>scenario\<in>set all_scenarios. scenario_passed F ops config docs scenario)"
proof -
  obtain documents s1 s2 s3 s4 where
    p: "run_scenarios F ops config (index_documents documents) True plain_scenarios s1 = Some (s2, Inr True)"
    and f: "run_leader_failover_scenario F ops config (index_documents documents) s2 = Some (s3, Inr True)"
    and r: "run_follower_restart_scenario F ops config (index_documents documents) s3 = Some (s4, Inr True)"
    using assms unfolding e2e_scenarios_def Let_def by (elim bindE) (simp add: io_lift_True)
  note l = index_labelled[of documents]
  show ?thesis unfolding all_scenarios_def
    using run_scenarios_passed[OF p l] failover_passed[OF f l] follower_passed[OF r l] l
    by (intro exI[of _ "index_documents documents"]) auto
qed

lemma handler_end: "(case r of Inl e \<Rightarrow> Terminated | Inr u \<Rightarrow> Exit 1) \<noteq> Exit 0"
  by (cases r) simp_all

lemma exit_0_passed:
  assumes "e2e_main F lib_what ops proot env w = Some (s, Exit 0)"
  shows "\<exists>docs. labelled docs \<and> (\<forall>scenario\<in>set all_scenarios. scenario_passed F ops (e2e_load_config F proot env) docs scenario)"
proof -
  let ?config = "e2e_load_config F proot env"
  let ?s0 = "\<lparr>es_world = w, es_stack_started = False, es_log = []\<rparr>"
  obtain s1 r where b: "e2e_body F ops ?config ?s0 = Some (s1, r)"
    using assms by (cases "e2e_body F ops ?config ?s0") (auto simp: e2e_main_def)
  have "s1 = s \<and> r = Inr 0" using assms b by (cases r) (auto simp: e2e_main_def handler_end split: if_splits)
  with b have "e2e_body F ops ?config ?s0 = Some (s, Inr 0)" by simp
  then obtain s1 s2 pass where sc: "e2e_scenarios F ops ?config s1 = Some (s2, Inr pass)" and f: "e2e_finish ops ?config pass s2 = Some (s, Inr 0)"
    unfolding e2e_body_def by (elim bindE) blast
  from f have pass unfolding e2e_finish_def Let_def by (cases pass) (auto elim!: bindE simp: io_lift_Some)
  with sc show ?thesis using e2e_scenarios_passed by auto
qed

section \<open>Reports\<close>

lemma number_events_filter:
  "map (\<lambda>e. (te_time_ms e, te_color e, te_text e)) (number_events n events) = filter (\<lambda>e. 0 \<le> fst e) events"
  "sorted (map (\<lambda>e. te_sequence e) (number_events n events))" "\<forall>e\<in>set (number_events n events). n \<le> te_sequence e"
  by (induction n events rule: number_events.induct) (auto simp: not_le Suc_le_eq order.strict_implies_order)

lemma sort_key_sorted: "sorted (map f xs) \<Longrightarrow> sort_key f xs = xs"
  by (induction xs) (simp_all add: insort_is_Cons)

lemma map_sort_key: "map f (sort_key (\<lambda>x. g (f x)) xs) = sort_key g (map f xs)"
proof -
  have "map f (insort_key (\<lambda>x. g (f x)) x ys) = insort_key g (f x) (map f ys)" for x ys
    by (induction ys) simp_all
  then show ?thesis by (induction xs) simp_all
qed

text \<open>Sorting by time and then by number is the stable sort by time of what was kept.\<close>

lemma sorted_events_stable:
  "map (\<lambda>e. (te_time_ms e, te_color e, te_text e)) (sorted_events (number_events 0 events)) = sort_key fst (filter (\<lambda>e. 0 \<le> fst e) events)"
  using map_sort_key[of "\<lambda>e. (te_time_ms e, te_color e, te_text e)" fst "number_events 0 events"]
  by (simp add: sorted_events_def sort_key_sorted number_events_filter)

text \<open>An exception of an agent's thread ends the process.\<close>

lemma agent_exception:
  assumes "i < length docs" "\<forall>v. rbind (ac_embedding (calls (k + i))) (embedding_of_response F) \<noteq> Inr v"
  shows "agent_outcomes F scenario calls k docs = Inl Uncaught"
  using assms
proof (induction docs arbitrary: i k)
  case (Cons doc docs)
  show ?case
  proof (cases "agent_outcome F scenario doc (calls k)")
    case (Inl e)
    then show ?thesis by (auto simp: agent_outcome_def split: sum.splits)
  next
    case (Inr oc)
    then obtain j where j: "i = Suc j" using Cons.prems(2) by (cases i) (auto simp: agent_outcome_def split: sum.splits)
    then show ?thesis using Inr Cons.IH[of j "Suc k"] Cons.prems by simp
  qed
qed simp

lemma uncaught_terminates:
  "e2e_body F ops (e2e_load_config F proot env) \<lparr>es_world = w, es_stack_started = False, es_log = []\<rparr> = Some (s, Inl Uncaught)
   \<Longrightarrow> e2e_main F lib_what ops proot env w = Some (s, Terminated)"
  by (simp add: e2e_main_def)

end
