(* ===== verification/E2eHost.thy ===== *)
theory E2eHost
  imports E2eLaws
begin

text \<open>
  The life of the nodes during an end-to-end run. \<open>e2e_host\<close> extends the machine of \<open>BenchHost\<close> by what the
  end-to-end bench adds: the commands given to \<^verbatim>\<open>std::system\<close>, and the agents' threads, which give none.
  Over it, at most one node is stopped at a time, and a run that is over has started every node again.
\<close>

section \<open>Commands that stop and start a node\<close>

definition node_command :: "E2eConfig \<Rightarrow> string \<Rightarrow> string \<Rightarrow> string option" where
  "node_command config verb command =
     (let p = e2e_compose_command config (verb @ '' '') in if prefix p command then Some (drop (length p) command) else None)"

text \<open>The nodes that are down after a command.\<close>

definition after_command :: "E2eConfig \<Rightarrow> string list \<Rightarrow> string \<Rightarrow> string list" where
  "after_command config down command =
     (case node_command config ''stop'' command of
        Some node \<Rightarrow> List.insert node down
      | None \<Rightarrow> (case node_command config ''start'' command of Some node \<Rightarrow> removeAll node down | None \<Rightarrow> down))"

definition down_after :: "E2eConfig \<Rightarrow> string list \<Rightarrow> string list" where
  "down_after config commands = foldl (after_command config) [] commands"

lemma down_after_snoc: "down_after config (commands @ [command]) = after_command config (down_after config commands) command"
  by (simp add: down_after_def)

lemma compose_base: obtains base where "\<And>args. e2e_compose_command config args = base @ args"
  by (rule that[of "''cd '' @ shell_quote (ec_project_root config) @ '' && docker compose ''"]) (simp add: e2e_compose_command_def)

lemma node_command_compose:
  "node_command config verb (e2e_compose_command config args @ rest)
   = (if prefix (verb @ '' '') (args @ rest) then Some (drop (length verb + 1) (args @ rest)) else None)"
proof -
  obtain base where b: "\<And>args. e2e_compose_command config args = base @ args" using compose_base[of config] by metis
  show ?thesis by (simp add: node_command_def Let_def b)
qed

definition names_no_node :: "string \<Rightarrow> bool" where
  "names_no_node args \<longleftrightarrow> \<not> prefix ''stop '' args \<and> \<not> prefix ''start '' args"

lemma after_other: "names_no_node (args @ rest) \<Longrightarrow> after_command config down (e2e_compose_command config args @ rest) = down"
  by (simp add: after_command_def node_command_compose names_no_node_def)

lemma after_stop: "after_command config down (e2e_compose_command config (''stop '' @ node)) = List.insert node down"
  using node_command_compose[of config "''stop''" "''stop '' @ node" "[]"] by (simp add: after_command_def)

lemma after_start: "after_command config down (e2e_compose_command config (''start '' @ node)) = removeAll node down"
  using node_command_compose[of config "''stop''" "''start '' @ node" "[]"] node_command_compose[of config "''start''" "''start '' @ node" "[]"]
  by (simp add: after_command_def)

section \<open>The machine\<close>

locale e2e_host = bench_host "eo_run ops" issued for ops :: "'w e2e_ops" and issued :: "'w \<Rightarrow> string list" +
  assumes system: "eo_system ops command w = Some (w', code) \<Longrightarrow> issued w' = issued w @ [command]"
    and threads: "issued (eo_fork ops calls w) = issued w" "eo_join ops w = Some (w', answers) \<Longrightarrow> issued w' = issued w"

text \<open>The nodes that are down, and at no time before were there two.\<close>

definition nodes :: "('w \<Rightarrow> string list) \<Rightarrow> E2eConfig \<Rightarrow> string list \<Rightarrow> 'w e2e_state \<Rightarrow> bool" where
  "nodes issued config down s \<longleftrightarrow> down_after config (issued (es_world s)) = down
     \<and> (\<forall>k. length (down_after config (take k (issued (es_world s)))) \<le> 1)"

lemma nodes_stable [simp]:
  "nodes issued config down (s\<lparr>es_log := l\<rparr>) = nodes issued config down s"
  "nodes issued config down (s\<lparr>es_stack_started := b\<rparr>) = nodes issued config down s"
  by (simp_all add: nodes_def)

lemma nodes_world: "issued w = issued (es_world s) \<Longrightarrow> nodes issued config down (s\<lparr>es_world := w\<rparr>) = nodes issued config down s"
  by (simp add: nodes_def)

lemma nodes_command:
  assumes "nodes issued config down s" "issued w = issued (es_world s) @ [command]" "length (after_command config down command) \<le> 1"
  shows "nodes issued config (after_command config down command) (s\<lparr>es_world := w\<rparr>)"
  using assms by (auto simp: nodes_def down_after_snoc take_Cons' not_le split: if_splits)

lemma nodes_one: "nodes issued config down s \<Longrightarrow> length down \<le> 1"
  unfolding nodes_def by (metis take_all order_refl)

lemma log_nodes:
  "preserves (nodes issued config down) (log_line line)" "preserves (nodes issued config down) (log_lines lines)"
  "preserves (nodes issued config down) (log_info line)" "preserves (nodes issued config down) (log_success line)"
  "preserves (nodes issued config down) (log_warn line)" "preserves (nodes issued config down) (log_error line)"
  unfolding log_line_def log_lines_def log_info_def log_success_def log_warn_def log_error_def log_tagged_def
  by (rule preserves_modify, simp)+

lemma world_nodes: "quiet issued m \<Longrightarrow> preserves (nodes issued config down) (e2e_world m)"
  by (rule preservesI) (auto simp: e2e_world_def nodes_world dest: quietD)

lemmas nodes_rules = preserves_rules log_nodes world_nodes

definition one_down :: "('w \<Rightarrow> string list) \<Rightarrow> E2eConfig \<Rightarrow> 'w e2e_state \<Rightarrow> bool" where
  "one_down issued config s \<longleftrightarrow> (\<exists>down. nodes issued config down s)"

lemma one_downI: "nodes issued config down s \<Longrightarrow> one_down issued config s"
  by (auto simp: one_down_def)

lemma triple_step:
  assumes "preserves (nodes issued config down) m" "\<And>x. triple (nodes issued config down) (f x) Q (one_down issued config)"
  shows "triple (nodes issued config down) (io_bind m f) Q (one_down issued config)"
  by (rule triple_bind[OF triple_weaken[OF assms(1)[unfolded preserves_def]] assms(2)]) (auto intro: one_downI)

lemma preserves_one: "(\<And>down. preserves (nodes issued config down) m) \<Longrightarrow> preserves (one_down issued config) m"
  by (rule preservesI) (auto simp: one_down_def dest: preservesD)

lemma triple_one: "preserves (nodes issued config down) m \<Longrightarrow> triple (nodes issued config down) m (\<lambda>_. nodes issued config down) (one_down issued config)"
  unfolding preserves_def by (erule triple_weaken) (auto intro: one_downI)

text \<open>A scenario does to the nodes what the action beside it does.\<close>

definition acts :: "('w \<Rightarrow> string list) \<Rightarrow> E2eConfig \<Rightarrow> string list \<Rightarrow> ('w e2e_state, unit) io option \<Rightarrow> string list \<Rightarrow> bool" where
  "acts issued config ns action ns' \<longleftrightarrow> (case action of
     None \<Rightarrow> ns' = ns
   | Some m \<Rightarrow> triple (nodes issued config ns) m (\<lambda>_. nodes issued config ns') (one_down issued config))"

section \<open>Waits\<close>

lemma until_deadline_step:
  assumes "until_deadline ops deadline timeout_error attempt s = Some out"
  shows "preserves R attempt \<Longrightarrow> (\<And>s. R (s\<lparr>es_world := fst (bw_now (eo_bench ops) (es_world s))\<rparr>) = R s)
    \<Longrightarrow> (\<And>s. R (e2e_sleep ops 100 s) = R s) \<Longrightarrow> R s \<Longrightarrow> R (fst out)"
proof (induction rule: until_deadline.raw_induct[OF _ assms, consumes 0, case_names step])
  case (step loop ops deadline timeout_error attempt s out)
  obtain w1 now where n: "bw_now (eo_bench ops) (es_world s) = (w1, now)" by (cases "bw_now (eo_bench ops) (es_world s)")
  let ?s1 = "s\<lparr>es_world := w1\<rparr>"
  have r1: "R ?s1" using step.prems(2)[of s] step.prems(4) n by simp
  show ?case
  proof (cases "now < deadline")
    case True
    then obtain s2 r where a: "attempt ?s1 = Some (s2, r)"
      and rest: "(case r of Inl e \<Rightarrow> Some (s2, Inl e) | Inr (Some x) \<Rightarrow> Some (s2, Inr x)
        | Inr None \<Rightarrow> loop ops deadline timeout_error attempt (e2e_sleep ops 100 s2)) = Some out"
      using step.hyps n by (cases "attempt ?s1") (auto simp: Let_def split: sum.splits option.splits)
    have r2: "R s2" using preservesD[OF step.prems(1) r1 a] .
    then have "R (e2e_sleep ops 100 s2)" using step.prems(3) by simp
    with rest r2 step.IH[OF _ step.prems(1-3), of deadline timeout_error "e2e_sleep ops 100 s2" out] show ?thesis
      by (auto split: sum.splits option.splits)
  qed (use step.hyps n r1 in auto)
qed

context e2e_host
begin

lemma get_nodes: "(\<And>w. issued (fst (f w)) = issued w) \<Longrightarrow> preserves (nodes issued config ns) (e2e_get f)"
  unfolding e2e_get_def by (rule world_nodes) (auto simp: quiet_def split: prod.splits, metis fst_conv)

lemma call_nodes: "(\<And>w w' x. f w = Some (w', x) \<Longrightarrow> issued w' = issued w) \<Longrightarrow> preserves (nodes issued config ns) (e2e_call f)"
  unfolding e2e_call_def by (rule world_nodes) (auto simp: quiet_def)

lemma modify_nodes: "(\<And>w. issued (f w) = issued w) \<Longrightarrow> preserves (nodes issued config ns) (io_modify (\<lambda>s. s\<lparr>es_world := f (es_world s)\<rparr>))"
  by (rule preserves_modify) (simp add: nodes_world)

lemma sleep_nodes: "nodes issued config ns (e2e_sleep ops ms s) = nodes issued config ns s" "preserves (nodes issued config ns) (io_modify (e2e_sleep ops ms))"
  by (auto simp: e2e_sleep_def nodes_world clock intro: preserves_modify)

lemma now_nodes: "nodes issued config ns (s\<lparr>es_world := fst (bw_now (eo_bench ops) (es_world s))\<rparr>) = nodes issued config ns s"
  by (simp add: nodes_world clock)

lemma deadline_nodes: "preserves (nodes issued config ns) attempt \<Longrightarrow> preserves (nodes issued config ns) (until_deadline ops deadline e attempt)"
  by (rule preservesI) (use until_deadline_step[where R = "nodes issued config ns"] in \<open>force simp: now_nodes sleep_nodes(1)\<close>)

lemmas step_nodes = nodes_rules get_nodes call_nodes sleep_nodes(2) deadline_nodes

text \<open>A command that names no node, given to the shell or captured.\<close>

lemma shell_nodes:
  assumes "names_no_node args"
  shows "preserves (nodes issued config ns) (run_shell_command ops (e2e_compose_command config args))"
proof -
  have "preserves (nodes issued config ns) (e2e_call (eo_system ops (e2e_compose_command config args)))"
  proof (rule preservesI)
    fix s s' r assume n: "nodes issued config ns s" and run: "e2e_call (eo_system ops (e2e_compose_command config args)) s = Some (s', r)"
    then obtain w where w: "s' = s\<lparr>es_world := w\<rparr>" "issued w = issued (es_world s) @ [e2e_compose_command config args]"
      by (auto simp: e2e_call_def e2e_world_def dest: system)
    have "after_command config ns (e2e_compose_command config args) = ns" using after_other[of args "[]"] assms by simp
    then show "nodes issued config ns s'" using nodes_command[OF n w(2)] nodes_one[OF n] w(1) by simp
  qed
  then show ?thesis unfolding run_shell_command_def by (rule preserves_bind[OF log_nodes(3)])
qed

lemma capture_nodes:
  assumes "names_no_node (args @ '' 2>&1'')"
  shows "preserves (nodes issued config ns) (run_compose_capture ops config args)"
proof (rule preservesI)
  fix s s' r assume n: "nodes issued config ns s" and run: "run_compose_capture ops config args s = Some (s', r)"
  let ?command = "e2e_compose_command config args @ '' 2>&1''"
  from run obtain w where w: "s' = s\<lparr>es_world := w\<rparr>" "issued w = issued (es_world s) @ [?command]"
    by (auto simp: run_compose_capture_def e2e_world_def run_shell_capture_def bind_eq_Some_conv split: option.splits dest!: popen)
  have "after_command config ns ?command = ns" by (rule after_other[OF assms])
  then show "nodes issued config ns s'" using nodes_command[OF n w(2)] nodes_one[OF n] w(1) by simp
qed

text \<open>A command for one node: it has been given whether or not it succeeds.\<close>

lemma node_step:
  assumes "length (after_command config ns (e2e_compose_command config args)) \<le> 1"
  shows "triple (nodes issued config ns) (run_compose_or_throw ops config args message)
    (\<lambda>_. nodes issued config (after_command config ns (e2e_compose_command config args)))
    (nodes issued config (after_command config ns (e2e_compose_command config args)))"
proof -
  let ?command = "e2e_compose_command config args"
  have call: "triple (nodes issued config ns) (e2e_call (eo_system ops ?command))
      (\<lambda>_. nodes issued config (after_command config ns ?command)) (nodes issued config (after_command config ns ?command))"
    unfolding triple_def by (auto simp: e2e_call_def e2e_world_def dest!: system intro!: nodes_command assms)
  have log: "triple (nodes issued config ns) (log_info line) (\<lambda>_. nodes issued config ns) E" for line E
    unfolding log_info_def log_tagged_def log_line_def by (rule triple_modify) simp
  show ?thesis unfolding run_compose_or_throw_def run_shell_command_def
    by (rule triple_bind[OF triple_bind[OF log call]]) (rule triple_lift, simp_all)
qed

lemma stop_node: "triple (nodes issued config []) (run_compose_or_throw ops config (''stop '' @ node) message)
    (\<lambda>_. nodes issued config [node]) (nodes issued config [node])"
  using node_step[of config "[]" "''stop '' @ node" message] by (simp only: after_stop) simp

lemma start_node: "triple (nodes issued config [node]) (run_compose_or_throw ops config (''start '' @ node) message)
    (\<lambda>_. nodes issued config []) (nodes issued config [])"
  using node_step[of config "[node]" "''start '' @ node" message] by (simp only: after_start) simp

section \<open>The steps of a run\<close>

lemma http_nodes: "preserves (nodes issued config ns) (e2e_http ops host port verb target body)"
  unfolding e2e_http_def by (rule world_nodes) (auto simp: quiet_def dest: http)

lemma attempt_nodes: "preserves R m \<Longrightarrow> preserves R (attempt_of m)"
  by (rule preservesI) (auto simp: attempt_of_def split: option.splits sum.splits if_splits dest: preservesD)

lemma attempt_error_nodes: "triple P m Q E \<Longrightarrow> triple P (attempt_error m) (\<lambda>r. case r of Inl e \<Rightarrow> E | Inr x \<Rightarrow> Q x) E"
  unfolding triple_def attempt_error_def by (auto split: option.splits sum.splits if_splits) fastforce+

lemma reach_nodes: "preserves (nodes issued config ns) (reach_targets ops name host port targets)"
proof (induction targets)
  case (Cons target targets)
  then show ?case unfolding reach_targets.simps
    by (auto intro!: preserves_bind attempt_nodes http_nodes log_nodes preserves_lift split: option.splits)
qed (simp add: preserves_lift)

lemma http_wait_nodes: "preserves (nodes issued config ns) (e2e_wait_for_http ops name host port targets n ms)"
proof -
  have "preserves (nodes issued config ns) (e2e_http_loop ops name host port targets n ms left)" for left
  proof (induction left)
    case (Suc left)
    then show ?case unfolding e2e_http_loop.simps by (auto intro!: preserves_bind reach_nodes log_nodes preserves_lift sleep_nodes(2))
  qed (simp add: preserves_lift)
  then show ?thesis by (simp add: e2e_wait_for_http_def)
qed

lemma ping_wait_nodes: "preserves (nodes issued config ns) (e2e_wait_for_dscc ops config')"
proof -
  have "preserves (nodes issued config ns) (e2e_ping_loop ops config' n left)" for n left
  proof (induction left)
    case (Suc left)
    then show ?case unfolding e2e_ping_loop.simps
      by (auto intro!: preserves_bind call_nodes log_nodes preserves_lift sleep_nodes(2) dest: ping)
  qed (simp add: preserves_lift)
  then show ?thesis by (simp add: e2e_wait_for_dscc_def)
qed

lemma failed_nodes: "preserves (nodes issued config ns) (embedding_service_failed ops config)"
  unfolding embedding_service_failed_def Let_def
  by (auto intro!: preserves_bind capture_nodes preserves_lift simp: names_no_node_def split: prod.splits)

lemma embedding_wait_nodes: "preserves (nodes issued config ns) (e2e_wait_for_embedding ops config)"
proof -
  have "preserves (nodes issued config ns) (embedding_wait_loop ops config n left)" for n left
  proof (induction left)
    case 0
    then show ?case unfolding embedding_wait_loop.simps by (auto intro!: preserves_bind failed_nodes preserves_lift split: prod.splits)
  next
    case (Suc left)
    then show ?case unfolding embedding_wait_loop.simps Let_def
      by (auto intro!: preserves_bind reach_nodes failed_nodes log_nodes preserves_lift sleep_nodes(2) simp del: reach_targets.simps split: prod.splits)
  qed
  then show ?thesis by (simp add: e2e_wait_for_embedding_def)
qed

lemma leader_wait_nodes:
  "preserves (nodes issued config ns) (e2e_wait_for_leader ops config' timeout other)"
  "preserves (nodes issued config ns) (wait_for_node_control_plane ops target timeout)"
proof -
  have d: "preserves (nodes issued config ns) (discover_loop ops config' targets)" for targets
  proof (induction targets)
    case (Cons target targets)
    then show ?case unfolding discover_loop.simps
      by (auto intro!: preserves_bind call_nodes preserves_lift split: prod.splits dest: get_leader)
  qed (simp add: preserves_lift)
  show "preserves (nodes issued config ns) (e2e_wait_for_leader ops config' timeout other)"
    unfolding e2e_wait_for_leader_def e2e_discover_leader_def
    by (auto intro!: preserves_bind get_nodes deadline_nodes d preserves_lift simp: clock)
  show "preserves (nodes issued config ns) (wait_for_node_control_plane ops target timeout)"
    unfolding wait_for_node_control_plane_def
    by (auto intro!: preserves_bind get_nodes deadline_nodes call_nodes preserves_lift simp: clock split: prod.splits dest: get_leader)
qed

lemma qdrant_nodes:
  "preserves (nodes issued config ns) (e2e_reset_collection ops config')"
  "preserves (nodes issued config ns) (e2e_create_collection ops config' n)"
  "preserves (nodes issued config ns) (e2e_point_count ops config')"
  "preserves (nodes issued config ns) (qdrant_scroll_payloads ops config')"
  "preserves (nodes issued config ns) (e2e_ensure_model ops config')"
  "preserves (nodes issued config ns) (e2e_request_embedding F ops config' text)"
  unfolding e2e_reset_collection_def e2e_create_collection_def e2e_point_count_def qdrant_scroll_payloads_def e2e_ensure_model_def
    e2e_request_embedding_def qdrant_request_def
  by (intro preserves_bind http_nodes log_nodes preserves_lift)+

lemma documents_nodes: "preserves (nodes issued config ns) (load_agent_documents F ops config' labels)"
proof (induction labels)
  case (Cons label labels)
  then show ?case unfolding load_agent_documents.simps load_agent_document_def Let_def
    by (intro preserves_bind get_nodes preserves_lift log_nodes qdrant_nodes) (simp_all add: files)
qed (simp add: preserves_lift)

lemma judge_nodes: "preserves (nodes issued config ns) (judge_run F ops config' scenario docs selected_docs outcomes)"
proof -
  have j: "preserves (nodes issued config ns) (judged v m)" if "preserves (nodes issued config ns) m" for v m
    unfolding judged_def using that by (auto intro!: preserves_bind log_nodes preserves_lift split: option.splits)
  have d: "preserves (nodes issued config ns) (distinct_check F config' scenario docs selected_docs outcomes m)"
    if "preserves (nodes issued config ns) m" for m
    unfolding distinct_check_def using that by (auto intro!: preserves_bind log_nodes preserves_lift j)
  show ?thesis unfolding judge_run_def by (intro j d preserves_bind qdrant_nodes log_nodes preserves_lift)
qed

lemma action_nodes:
  assumes "acts issued config ns action ns'"
  shows "triple (nodes issued config ns) (case action of None \<Rightarrow> io_lift (Inr (Inr ())) | Some m \<Rightarrow> attempt_error m)
    (\<lambda>r. case r of Inl e \<Rightarrow> one_down issued config | Inr x \<Rightarrow> nodes issued config ns') (one_down issued config)"
proof (cases action)
  case None
  then show ?thesis using assms by (auto simp: acts_def intro!: triple_lift one_downI)
next
  case (Some m)
  then show ?thesis using assms attempt_error_nodes[of "nodes issued config ns" m "\<lambda>_. nodes issued config ns'" "one_down issued config"]
    by (simp add: acts_def)
qed

lemma joined_nodes:
  "triple (case r of Inl e \<Rightarrow> one_down issued config | Inr x \<Rightarrow> nodes issued config ns)
     (io_bind (e2e_call (eo_join ops)) (\<lambda>calls. io_bind (io_lift (outcomes_of calls)) (\<lambda>outcomes.
        io_lift (case r of Inl e \<Rightarrow> Inl e | Inr u \<Rightarrow> Inr (selected_docs, outcomes, base)))))
     (\<lambda>_. nodes issued config ns) (one_down issued config)"
proof (cases r)
  case (Inl e)
  have j: "preserves (one_down issued config) (e2e_call (eo_join ops))" by (intro preserves_one call_nodes) (rule threads(2))
  show ?thesis unfolding Inl sum.case
    by (rule triple_bind[OF j[unfolded preserves_def] triple_bind[OF preserves_lift[unfolded preserves_def]]]) (rule triple_lift, simp_all)
next
  case (Inr x)
  show ?thesis unfolding Inr sum.case
    by (intro triple_step call_nodes preserves_lift triple_lift one_downI) (simp_all, rule threads(2))
qed

lemma traffic_nodes:
  assumes "acts issued config ns action ns'"
  shows "triple (nodes issued config ns) (scenario_traffic F ops config' scenario docs action) (\<lambda>_. nodes issued config ns') (one_down issued config)"
  unfolding scenario_traffic_def
  by (rule triple_bind[OF action_nodes[OF assms] joined_nodes] triple_step log_nodes qdrant_nodes preserves_lift http_wait_nodes
      get_nodes modify_nodes threads clock)+

lemma run_scenario_nodes:
  assumes "acts issued config ns action ns'"
  shows "triple (nodes issued config ns) (run_scenario F ops config' scenario docs action) (\<lambda>_. nodes issued config ns') (one_down issued config)"
  unfolding run_scenario_def
  by (rule triple_bind[OF traffic_nodes[OF assms]]) (auto intro!: triple_one preserves_bind preserves_lift log_nodes judge_nodes split: prod.splits)

lemma weak_one: "triple P m Q (nodes issued config ns) \<Longrightarrow> triple P m Q (one_down issued config)"
  by (erule triple_weaken) (auto intro: one_downI)

lemma kill_acts: "acts issued config [] (Some (kill_leader ops config leader)) [lo_service_name leader]"
  unfolding acts_def option.case kill_leader_def
  by (rule triple_step[OF sleep_nodes(2)] triple_step[OF log_nodes(3)] triple_bind[OF weak_one[OF stop_node]]
      triple_step[OF leader_wait_nodes(1)] triple_one[OF log_nodes(4)])+

lemma failover_nodes:
  "triple (nodes issued config []) (run_leader_failover_scenario F ops config docs) (\<lambda>_. nodes issued config []) (one_down issued config)"
  unfolding run_leader_failover_scenario_def
  by (rule triple_bind[OF run_scenario_nodes[OF kill_acts]] triple_bind[OF weak_one[OF start_node]] triple_step leader_wait_nodes log_nodes
      triple_one preserves_lift)+

lemma without_nodes:
  "triple (nodes issued config []) (scenario_without F ops config docs a b c service scenario) (\<lambda>_. nodes issued config []) (one_down issued config)"
proof -
  have n: "acts issued config [service] None [service]" by (simp add: acts_def)
  show ?thesis unfolding scenario_without_def
    by (rule triple_step[OF log_nodes(3)] triple_bind[OF weak_one[OF stop_node]] triple_bind[OF run_scenario_nodes[OF n]]
        triple_bind[OF weak_one[OF start_node]] triple_one[OF preserves_lift])+
qed

lemma follower_nodes:
  "triple (nodes issued config []) (run_follower_restart_scenario F ops config docs) (\<lambda>_. nodes issued config []) (one_down issued config)"
  unfolding run_follower_restart_scenario_def
  by (rule triple_bind[OF without_nodes] triple_step leader_wait_nodes log_nodes triple_one preserves_lift)+

lemma run_scenarios_nodes: "triple (nodes issued config []) (run_scenarios F ops config docs overall scenarios)
    (\<lambda>_. nodes issued config []) (one_down issued config)"
proof (induction scenarios arbitrary: overall)
  case (Cons scenario scenarios)
  have "acts issued config [] None []" by (simp add: acts_def)
  from triple_bind[OF run_scenario_nodes[OF this] Cons] show ?case by simp
qed (simp add: triple_one preserves_lift)

lemma scenarios_nodes:
  "triple (nodes issued config []) (e2e_scenarios F ops config) (\<lambda>_. nodes issued config []) (one_down issued config)"
  unfolding e2e_scenarios_def Let_def
  by (rule triple_bind[OF run_scenarios_nodes] triple_bind[OF failover_nodes] triple_bind[OF follower_nodes] triple_step documents_nodes
      log_nodes triple_one preserves_lift)+

lemma up_down_nodes:
  "preserves (nodes issued config ns) (start_compose_stack ops config)" "preserves (nodes issued config ns) (stop_compose_stack ops config)"
proof -
  have e: "issued (e2e_environment ops config w) = issued w" for w by (simp add: e2e_environment_def setenv)
  show "preserves (nodes issued config ns) (start_compose_stack ops config)"
    unfolding start_compose_stack_def
    by (auto intro!: preserves_bind modify_nodes e shell_nodes preserves_lift simp: names_no_node_def e2e_up_args_def)
  show "preserves (nodes issued config ns) (stop_compose_stack ops config)"
    unfolding stop_compose_stack_def by (auto intro!: preserves_bind shell_nodes preserves_lift log_nodes simp: names_no_node_def)
qed

lemma start_nodes: "preserves (nodes issued config ns) (e2e_start ops config)"
proof -
  have m: "preserves (nodes issued config ns) (io_modify (\<lambda>s. s\<lparr>es_stack_started := True\<rparr>))" by (rule preserves_modify) simp
  show ?thesis unfolding e2e_start_def
    by (intro preserves_bind preserves_if log_nodes preserves_lift up_down_nodes m http_wait_nodes embedding_wait_nodes qdrant_nodes
        ping_wait_nodes leader_wait_nodes)
qed

lemma finish_nodes: "preserves (nodes issued config ns) (e2e_finish ops config pass)"
  unfolding e2e_finish_def Let_def by (intro preserves_bind preserves_if log_nodes preserves_lift up_down_nodes)

lemma body_nodes: "triple (nodes issued config []) (e2e_body F ops config) (\<lambda>_. nodes issued config []) (one_down issued config)"
  unfolding e2e_body_def by (rule triple_bind[OF scenarios_nodes] triple_step[OF start_nodes] triple_one[OF finish_nodes])+

lemma handler_nodes: "preserves (one_down issued config) (e2e_handler lib_what ops config e)"
proof (intro preserves_one preservesI)
  fix ns s s' r assume n: "nodes issued config ns s" and run: "e2e_handler lib_what ops config e s = Some (s', r)"
  have "preserves (nodes issued config ns) (io_bind (if es_stack_started s \<and> \<not> ec_skip_docker config \<and> ec_teardown_on_exit config
      then stop_compose_stack ops config else io_lift (Inr ())) (\<lambda>_. log_error (''Fatal error: '' @ what_text lib_what e)))"
    by (intro preserves_bind preserves_if log_nodes preserves_lift up_down_nodes)
  from preservesD[OF this n run[unfolded e2e_handler_def]] show "nodes issued config ns s'" .
qed

lemma main_nodes:
  assumes "e2e_main F lib_what ops proot env w = Some (s, ending)" "issued w = []"
  defines "config \<equiv> e2e_load_config F proot env"
  shows "one_down issued config s" "ending = Exit 0 \<Longrightarrow> nodes issued config [] s"
proof -
  let ?s0 = "\<lparr>es_world = w, es_stack_started = False, es_log = []\<rparr>"
  have n: "nodes issued config [] ?s0" using assms(2) by (simp add: nodes_def down_after_def)
  obtain t r where b: "e2e_body F ops config ?s0 = Some (t, r)"
    using assms(1) by (cases "e2e_body F ops config ?s0") (auto simp: e2e_main_def config_def)
  note t = body_nodes[unfolded triple_def, rule_format, OF n b]
  have "one_down issued config s \<and> (ending = Exit 0 \<longrightarrow> nodes issued config [] s)"
  proof (cases r)
    case (Inl e)
    then have o: "one_down issued config t" using t by simp
    then show ?thesis using assms(1) b Inl preservesD[OF handler_nodes o]
      by (auto simp: e2e_main_def config_def handler_end split: if_splits)
  next
    case (Inr code)
    then show ?thesis using assms(1) b t by (auto simp: e2e_main_def config_def intro: one_downI)
  qed
  then show "one_down issued config s" "ending = Exit 0 \<Longrightarrow> nodes issued config [] s" by blast+
qed

end

section \<open>A machine whose commands are recorded\<close>

definition e2e_recording :: "'w e2e_ops \<Rightarrow> ('w \<times> string list) e2e_ops" where
  "e2e_recording ops =
     \<lparr>eo_run = recording (eo_run ops),
      eo_system = (\<lambda>command (w, commands). rec_step (eo_system ops command) (w, commands @ [command])),
      eo_fork = (\<lambda>calls (w, commands). (eo_fork ops calls w, commands)),
      eo_join = rec_step (eo_join ops)\<rparr>"

interpretation e2e_recorded: e2e_host "e2e_recording ops" snd
  by unfold_locales (auto simp: e2e_recording_def recording_def rec_laws(2) dest: rec_laws(1))

end
