(* ===== verification/E2eExample.thy ===== *)
theory E2eExample
  imports E2eHost
begin

text \<open>
  A run of the end-to-end bench that passes: a machine on which every service works, the agents' texts have
  one embedding, every second passes between two agents, and Qdrant returns what the last agents wrote.
\<close>

section \<open>The machine\<close>

text \<open>Which of two nodes leads, and the requests of the last agents.\<close>

type_synonym ex_cluster = "bool \<times> AcquireRequest list"

definition ex_e2e_body :: "string \<Rightarrow> AcquireRequest list \<Rightarrow> string" where
  "ex_e2e_body target requests =
     (if target = ''/v1/embeddings'' then quoted ''embedding'' @ '':[1]''
      else if target = ''/collections/dscc_memory_e2e/points/count''
      then quoted ''count'' @ '':'' @ nat_to_string (length (filter (\<lambda>rq. rq_operation_type rq = OPERATION_TYPE_WRITE) requests))
      else if target = ''/collections/dscc_memory_e2e/points/scroll''
      then concat (map (\<lambda>rq. rq_agent_id rq @ rq_source_file rq @ rq_payload_text rq) requests)
      else [])"

definition ex_e2e_operation :: "char \<Rightarrow> string" where
  "ex_e2e_operation label = (if label = CHR ''B'' \<or> label = CHR ''E'' then ''read'' else ''write'')"

definition ex_e2e_file :: "char \<Rightarrow> string" where
  "ex_e2e_file label = quoted ''payload'' @ '':'' @ quoted ''green'' @ '','' @ quoted ''operation'' @ '':'' @ quoted (ex_e2e_operation label)"

definition ex_e2e_call :: "AcquireRequest list \<Rightarrow> nat \<Rightarrow> agent_call" where
  "ex_e2e_call requests i =
     \<lparr>ac_submit_ms = 0, ac_embedding_start_ms = 0,
      ac_embedding = Inr \<lparr>http_status_code = 200, http_body = quoted ''embedding'' @ '':[1]''\<rparr>, ac_embedding_finish_ms = 5,
      ac_dslm_enter_ms = 5, ac_dslm_exit_ms = 1000 * int i + 500, ac_status = Status_OK,
      ac_response = default_AcquireResponse\<lparr>rs_granted := True, rs_qdrant_write_complete_unix_ms := 1000 * int i + 2000,
        rs_lock_wait_ms := 10, rs_blocking_agent_id := (if i = 0 then [] else rq_agent_id (requests ! (i - 1)))\<rparr>\<rparr>"

definition ex_e2e_leader :: "bool \<Rightarrow> LeaderInfo" where
  "ex_e2e_leader second =
     (if second then \<lparr>li_leader_id = ''node-2'', li_leader_address = ''dscc-node-2:50051'', li_current_term = 2, li_is_leader = True\<rparr>
      else \<lparr>li_leader_id = ''node-1'', li_leader_address = ''dscc-node-1:50051'', li_current_term = 1, li_is_leader = True\<rparr>)"

text \<open>The leader changes with every command.\<close>

definition ex_e2e_base :: "ex_cluster e2e_ops" where
  "ex_e2e_base =
     \<lparr>eo_run = \<lparr>ro_bench = \<lparr>bw_http = (\<lambda>host port verb target body w. Some (w, Inr \<lparr>http_status_code = 200, http_body = ex_e2e_body target (snd w)\<rparr>)),
          bw_ping = (\<lambda>target from_node w. Some (w, Status_OK)), bw_get_leader = (\<lambda>target w. Some (w, Status_OK, ex_e2e_leader (fst w))),
          bw_now = (\<lambda>w. (w, 0)), bw_sleep = (\<lambda>ms w. w), bw_exists = (\<lambda>path w. (w, True)),
          bw_read = (\<lambda>path w. (w, Some (ex_e2e_file (path ! (length path - 6)))))\<rparr>,
        ro_popen = (\<lambda>command w. Some (w, Some (0, []))), ro_setenv = (\<lambda>key v w. w), ro_unix_ms = (\<lambda>w. (w, 1000)),
        ro_clients = (\<lambda>calls w. None), ro_open = (\<lambda>path w. (w, Inr True)), ro_csv_contents = (\<lambda>path w. (w, None))\<rparr>,
      eo_system = (\<lambda>command (second, requests). Some ((\<not> second, requests), 0)),
      eo_fork = (\<lambda>agents (second, requests). (second, map (\<lambda>(offset, body, request). request [Fin 1]) agents)),
      eo_join = (\<lambda>w. Some (w, ex_e2e_call (snd w)))\<rparr>"

definition ex_e2e_ops :: "(ex_cluster \<times> string list) e2e_ops" where
  "ex_e2e_ops = e2e_recording ex_e2e_base"

lemma ex_e2e_fields [simp]:
  "bw_http (eo_bench ex_e2e_ops) host port verb target body w
   = Some (w, Inr \<lparr>http_status_code = 200, http_body = ex_e2e_body target (snd (fst w))\<rparr>)"
  "bw_ping (eo_bench ex_e2e_ops) target' from_node w = Some (w, Status_OK)"
  "bw_get_leader (eo_bench ex_e2e_ops) target' w = Some (w, Status_OK, ex_e2e_leader (fst (fst w)))"
  "bw_now (eo_bench ex_e2e_ops) w = (w, 0)" "bw_sleep (eo_bench ex_e2e_ops) ms w = w" "bw_exists (eo_bench ex_e2e_ops) path w = (w, True)"
  "bw_read (eo_bench ex_e2e_ops) path w = (w, Some (ex_e2e_file (path ! (length path - 6))))"
  "ro_setenv (eo_run ex_e2e_ops) key v w = w" "ro_unix_ms (eo_run ex_e2e_ops) w = (w, 1000)"
  "eo_system ex_e2e_ops command w = Some (((\<not> fst (fst w), snd (fst w)), snd w @ [command]), 0)"
  "eo_fork ex_e2e_ops agents w = ((fst (fst w), map (\<lambda>(offset, body, request). request [Fin 1]) agents), snd w)"
  "eo_join ex_e2e_ops w = Some (w, ex_e2e_call (snd (fst w)))"
  by (cases w; simp add: ex_e2e_ops_def e2e_recording_def ex_e2e_base_def recording_def rec_step_def rec_read_def split: prod.splits)+

text \<open>A step that, started in one world, gives a value and ends in another, whatever it logs.\<close>

definition gives :: "('w e2e_state, 'a) io \<Rightarrow> ('w \<Rightarrow> 'c) \<Rightarrow> 'c \<Rightarrow> 'c \<Rightarrow> 'a \<Rightarrow> bool" where
  "gives m look c c' x \<longleftrightarrow> (\<forall>s. look (es_world s) = c \<longrightarrow> (\<exists>s'. m s = Some (s', Inr x) \<and> look (es_world s') = c'))"

lemma gives_bind: "gives m look c c1 x \<Longrightarrow> gives (f x) look c1 c' y \<Longrightarrow> gives (io_bind m f) look c c' y"
  unfolding gives_def io_bind_def by fastforce

lemma gives_lift: "gives (io_lift (Inr x)) look c c x"
  by (simp add: gives_def io_lift_def)

lemma gives_log:
  "gives (log_line line) look c c ()" "gives (log_lines lines) look c c ()" "gives (log_info line) look c c ()"
  "gives (log_success line) look c c ()" "gives (log_warn line) look c c ()" "gives (log_error line) look c c ()"
  unfolding log_line_def log_lines_def log_info_def log_success_def log_warn_def log_error_def log_tagged_def gives_def io_modify_def by simp_all

lemma gives_log_of: "r = Inr l \<Longrightarrow> gives (f l) look c c' y \<Longrightarrow> gives (io_bind (io_lift r) f) look c c' y"
  by (simp add: gives_bind[OF gives_lift])

lemma gives_judged: "v = Inr None \<Longrightarrow> gives m look c c' b \<Longrightarrow> gives (judged v m) look c c' b"
  unfolding judged_def by (simp only:) (rule gives_bind[OF gives_lift], simp)

text \<open>What the services answer.\<close>

lemma ex_e2e_vector: "embedding_of_response exact_fpu \<lparr>http_status_code = 200, http_body = quoted ''embedding'' @ '':[1]''\<rparr> = Inr [Fin 1]"
  by (simp add: embedding_of_response_def e2e_embedding_array_def quoted_def dq_def str_find_def find_at_def parse_float_token_def
      strtof_def isspace_def read_sign_def has_prefix_ci_def lower_def tolower_def read_decimal_def read_mantissa_def
      digit_of_def read_exponent_def power_int_real_def exact_fpu_def Let_def)

lemma ex_e2e_doc: "parse_agent_document label path (Some (ex_e2e_file label))
  = Inr \<lparr>ad_label = label, ad_source_file = label # ''.json'', ad_text = ''green'', ad_embedding = [], ad_scheduled_offset_ms = 0,
      ad_operation = (if label = CHR ''B'' \<or> label = CHR ''E'' then kRead else kWrite)\<rparr>"
  by (simp add: parse_agent_document_def e2e_read_file_def ex_e2e_file_def ex_e2e_operation_def quoted_def dq_def first_schedule_entry_def
      str_find_def document_fields_def e2e_string_field_def find_at_def json_int_field_def string_field_or_default_def new_AgentDocument_def
      parse_operation_type_def lowercase_copy_def trim_copy_def isspace_def tolower_def Let_def)

lemma ex_e2e_http: "gives (e2e_http ex_e2e_ops host port verb target body) fst c c \<lparr>http_status_code = 200, http_body = ex_e2e_body target (snd c)\<rparr>"
  by (auto simp: gives_def e2e_http_def e2e_world_def)

lemma ex_e2e_qdrant:
  "200 \<in> accepted \<Longrightarrow> gives (qdrant_request ex_e2e_ops config verb path body accepted message) fst c c
     \<lparr>http_status_code = 200, http_body = ex_e2e_body (''/collections/'' @ ec_collection config @ path) (snd c)\<rparr>"
  unfolding qdrant_request_def by (rule gives_bind[OF ex_e2e_http]) (simp add: gives_lift)

lemma ex_e2e_numerals: "nat_to_string 1 = ''1''" "nat_to_string 2 = ''2''" "nat_to_string 3 = ''3''"
  by code_simp+

lemma ex_e2e_count_text: "n \<in> {1, 2, 3} \<Longrightarrow> parse_qdrant_count (quoted ''count'' @ '':'' @ nat_to_string n) = Inr (int n)"
  by (auto simp: ex_e2e_numerals[unfolded One_nat_def] ex_e2e_numerals parse_qdrant_count_def quoted_def dq_def str_find_def find_at_def isspace_def isdigit_def stoi_def strtol_def
      read_sign_def digit_of_def saturate_def Let_def)

lemma ex_e2e_collection:
  assumes "ec_collection config = ''dscc_memory_e2e''"
  shows "gives (e2e_reset_collection ex_e2e_ops config) fst c c ()" "gives (e2e_create_collection ex_e2e_ops config n) fst c c ()"
    "length (filter (\<lambda>rq. rq_operation_type rq = OPERATION_TYPE_WRITE) (snd c)) = k \<Longrightarrow> k \<in> {1, 2, 3} \<Longrightarrow> gives (e2e_point_count ex_e2e_ops config) fst c c (int k)"
    "gives (qdrant_scroll_payloads ex_e2e_ops config) fst c c (concat (map (\<lambda>rq. rq_agent_id rq @ rq_source_file rq @ rq_payload_text rq) (snd c)))"
proof -
  show "gives (e2e_reset_collection ex_e2e_ops config) fst c c ()"
    unfolding e2e_reset_collection_def by (rule gives_bind[OF ex_e2e_qdrant]) (simp_all add: gives_lift)
  show "gives (e2e_create_collection ex_e2e_ops config n) fst c c ()"
    unfolding e2e_create_collection_def by (rule gives_bind[OF ex_e2e_qdrant]) (simp_all add: gives_lift)
  show "gives (qdrant_scroll_payloads ex_e2e_ops config) fst c c (concat (map (\<lambda>rq. rq_agent_id rq @ rq_source_file rq @ rq_payload_text rq) (snd c)))"
    unfolding qdrant_scroll_payloads_def
    by (rule gives_bind[OF ex_e2e_qdrant], simp) (simp add: assms ex_e2e_body_def gives_lift)
  assume k: "length (filter (\<lambda>rq. rq_operation_type rq = OPERATION_TYPE_WRITE) (snd c)) = k" "k \<in> {1, 2, 3}"
  have "parse_qdrant_count (ex_e2e_body (''/collections/'' @ ec_collection config @ ''/points/count'') (snd c)) = Inr (int k)"
    using ex_e2e_count_text[OF k(2)] by (simp add: assms ex_e2e_body_def k(1))
  then show "gives (e2e_point_count ex_e2e_ops config) fst c c (int k)"
    unfolding e2e_point_count_def by (intro gives_bind[OF ex_e2e_qdrant]) (simp, simp only: HttpResponse.simps gives_lift)
qed

lemma ex_e2e_reach: "gives (reach_targets ex_e2e_ops name host port (target # targets)) fst c c True"
proof -
  have "gives (attempt_of (e2e_http ex_e2e_ops host port ''GET'' target [])) fst c c (Some \<lparr>http_status_code = 200, http_body = ex_e2e_body target (snd c)\<rparr>)"
    using ex_e2e_http[of host port "''GET''" target "[]" c] unfolding gives_def attempt_of_def by fastforce
  then show ?thesis unfolding reach_targets.simps by (rule gives_bind) (simp, rule gives_bind[OF gives_log(3) gives_lift])
qed

lemma ex_e2e_waits:
  "gives (e2e_wait_for_http ex_e2e_ops name host port (target # targets) (Suc n) ms) fst c c ()"
  "gives (e2e_wait_for_embedding ex_e2e_ops config) fst c c ()" "gives (e2e_wait_for_dscc ex_e2e_ops config) fst c c ()"
  "gives (e2e_ensure_model ex_e2e_ops config) fst c c ()"
proof -
  show "gives (e2e_wait_for_http ex_e2e_ops name host port (target # targets) (Suc n) ms) fst c c ()"
    unfolding e2e_wait_for_http_def e2e_http_loop.simps by (rule gives_bind[OF ex_e2e_reach]) (simp add: gives_lift)
  have "(180::nat) = Suc 179" by simp
  then show "gives (e2e_wait_for_embedding ex_e2e_ops config) fst c c ()"
    unfolding e2e_wait_for_embedding_def by (simp only: embedding_wait_loop.simps Let_def) (rule gives_bind[OF ex_e2e_reach], simp add: gives_lift)
  have "gives (e2e_call (bw_ping (eo_bench ex_e2e_ops) (ec_dscc_target config) ''e2e-bench'')) fst c c Status_OK"
    by (simp add: gives_def e2e_call_def e2e_world_def)
  moreover have "(90::nat) = Suc 89" by simp
  ultimately show "gives (e2e_wait_for_dscc ex_e2e_ops config) fst c c ()"
    unfolding e2e_wait_for_dscc_def by (simp only: e2e_ping_loop.simps) (erule gives_bind, simp add: Status_OK_def status_ok_def gives_log)
  show "gives (e2e_ensure_model ex_e2e_ops config) fst c c ()"
    unfolding e2e_ensure_model_def by (rule gives_bind[OF gives_log(3) gives_bind[OF ex_e2e_http]]) (simp add: gives_lift)
qed

definition ex_e2e_observation :: "string \<Rightarrow> bool \<Rightarrow> LeaderObservation" where
  "ex_e2e_observation target second =
     \<lparr>lo_node_target = target, lo_service_name = (if second then ''dscc-node-2'' else ''dscc-node-1''),
      lo_leader_address = (if second then ''dscc-node-2:50051'' else ''dscc-node-1:50051''),
      lo_leader_id = (if second then ''node-2'' else ''node-1''), lo_current_term = (if second then 2 else 1)\<rparr>"

lemma ex_e2e_until:
  assumes "gives attempt fst c c (Some x)" "0 < deadline"
  shows "gives (until_deadline ex_e2e_ops deadline e attempt) fst c c x"
  unfolding gives_def
proof (intro allI impI)
  fix s :: "(ex_cluster \<times> string list) e2e_state" assume "fst (es_world s) = c"
  then obtain s' where "attempt s = Some (s', Inr (Some x))" "fst (es_world s') = c" using assms(1) unfolding gives_def by blast
  then show "\<exists>s'. until_deadline ex_e2e_ops deadline e attempt s = Some (s', Inr x) \<and> fst (es_world s') = c"
    using assms(2) by (subst until_deadline.simps) simp
qed

lemma ex_e2e_leaders:
  assumes "ec_node_targets config = target # targets" "0 < timeout"
  shows "other = [] \<or> other = lo_leader_address (ex_e2e_observation target (\<not> fst c))
    \<Longrightarrow> gives (e2e_wait_for_leader ex_e2e_ops config timeout other) fst c c (ex_e2e_observation target (fst c))"
    "gives (wait_for_node_control_plane ex_e2e_ops target' timeout) fst c c ()"
proof -
  have now: "gives (e2e_get (bw_now (eo_bench ex_e2e_ops))) fst c c 0" by (simp add: gives_def e2e_get_def e2e_world_def)
  have ask: "gives (e2e_call (bw_get_leader (eo_bench ex_e2e_ops) t)) fst c c (Status_OK, ex_e2e_leader (fst c))" for t
    by (simp add: gives_def e2e_call_def e2e_world_def)
  have d: "gives (e2e_discover_leader ex_e2e_ops config) fst c c (Some (ex_e2e_observation target (fst c)))"
    unfolding e2e_discover_leader_def assms(1) discover_loop.simps
    by (rule gives_bind[OF ask]) (simp add: Status_OK_def status_ok_def ex_e2e_leader_def observe_leader_def service_name_for_node_id_def
        ex_e2e_observation_def gives_lift)
  show "gives (wait_for_node_control_plane ex_e2e_ops target' timeout) fst c c ()"
    unfolding wait_for_node_control_plane_def using assms(2)
    by (intro gives_bind[OF now] ex_e2e_until gives_bind[OF ask]) (simp_all add: Status_OK_def status_ok_def gives_lift)
  assume "other = [] \<or> other = lo_leader_address (ex_e2e_observation target (\<not> fst c))"
  then have a: "acceptable_leader other (Some (ex_e2e_observation target (fst c)))"
    by (auto simp: acceptable_leader_def ex_e2e_observation_def)
  show "gives (e2e_wait_for_leader ex_e2e_ops config timeout other) fst c c (ex_e2e_observation target (fst c))"
    unfolding e2e_wait_for_leader_def using assms(2)
    by (intro gives_bind[OF now] ex_e2e_until gives_bind[OF d]) (simp_all add: a gives_lift)
qed

lemma ex_e2e_command: "gives (run_compose_or_throw ex_e2e_ops config args message) fst (second, requests) (\<not> second, requests) ()"
proof -
  have "gives (e2e_call (eo_system ex_e2e_ops command)) fst (second, requests) (\<not> second, requests) 0" for command
    by (simp add: gives_def e2e_call_def e2e_world_def)
  then show ?thesis unfolding run_compose_or_throw_def run_shell_command_def
    by (rule gives_bind[OF gives_bind[OF gives_log(3)], of _ _ _ _ 0]) (simp_all add: gives_lift)
qed

section \<open>A scenario\<close>

definition ex_doc :: "char \<Rightarrow> AgentDocument" where
  "ex_doc label = \<lparr>ad_label = label, ad_source_file = label # ''.json'', ad_text = ''green'', ad_embedding = [Fin 1], ad_scheduled_offset_ms = 0,
     ad_operation = (if label = CHR ''B'' \<or> label = CHR ''E'' then kRead else kWrite)\<rparr>"

lemma ex_e2e_documents:
  assumes "ec_input_dir config = ''/dslm/demo_inputs''"
  shows "gives (load_agent_documents exact_fpu ex_e2e_ops config labels) fst c c (map ex_doc labels)"
proof (induction labels)
  case (Cons label labels)
  have parsed: "gives (load_agent_document ex_e2e_ops config label) fst c c ((ex_doc label)\<lparr>ad_embedding := []\<rparr>)"
    by (simp add: gives_def load_agent_document_def io_bind_def io_lift_def e2e_get_def e2e_world_def Let_def path_append_def assms
        ex_e2e_doc ex_doc_def numeral_eq_Suc)
  have embedded: "gives (e2e_request_embedding exact_fpu ex_e2e_ops config input) fst c c [Fin 1]" for input
    unfolding e2e_request_embedding_def
    by (rule gives_bind[OF ex_e2e_http]) (simp add: ex_e2e_body_def ex_e2e_vector[simplified] gives_lift)
  have d: "(ex_doc label)\<lparr>ad_embedding := [], ad_embedding := [Fin 1]\<rparr> = ex_doc label" by (simp add: ex_doc_def)
  show ?case unfolding load_agent_documents.simps
    by (intro gives_bind[OF parsed] gives_bind[OF gives_log(3)] gives_bind[OF embedded] gives_bind[OF Cons]) (simp add: d gives_lift)
qed (simp add: gives_lift)

definition ex_docs :: documents where
  "ex_docs = map (\<lambda>label. (label, ex_doc label)) ''ABCDE''"

lemma ex_docs_index: "index_documents (map ex_doc ''ABCDE'') = ex_docs"
  by (simp add: index_documents_def ex_docs_def ex_doc_def)

lemma ex_doc_at: "label \<in> set ''ABCDE'' \<Longrightarrow> doc_at ex_docs label = Inr (ex_doc label)"
  by (auto simp: ex_docs_def doc_at_def)

lemma ex_select: "set labels \<subseteq> set ''ABCDE'' \<Longrightarrow> select_documents ex_docs labels = Inr (map ex_doc labels)"
  by (induction labels) (simp_all add: ex_doc_at)

definition ex_requests :: "string \<Rightarrow> char list \<Rightarrow> AcquireRequest list" where
  "ex_requests name labels = map (\<lambda>l. e2e_acquire_request (scenario_agent_id name l) (ex_doc l) 1000 [Fin 1]) labels"

definition ex_outcome :: "string \<Rightarrow> AcquireRequest list \<Rightarrow> nat \<times> char \<Rightarrow> AgentOutcome" where
  "ex_outcome name requests p = (case p of (i, l) \<Rightarrow>
     \<lparr>ao_label = l, ao_agent_id = scenario_agent_id name l, ao_display_name = agent_name l, ao_status = Status_OK,
      ao_response = ac_response (ex_e2e_call requests i), ao_operation = ad_operation (ex_doc l), ao_embedding = [Fin 1], ao_submit_ms = 0,
      ao_embedding_start_ms = 0, ao_embedding_finish_ms = 5, ao_dslm_enter_ms = 5, ao_dslm_exit_ms = 1000 * int i + 500,
      ao_finish_ms = 1000 * int i + 500, ao_elapsed_ms = 1000 * int i + 500\<rparr>)"

definition ex_outcomes :: "string \<Rightarrow> AcquireRequest list \<Rightarrow> nat \<Rightarrow> char list \<Rightarrow> AgentOutcome list" where
  "ex_outcomes name requests i ls = map (ex_outcome name requests) (enumerate i ls)"

lemma ex_outcome_fields [simp]:
  "ao_label (ex_outcome name requests p) = snd p" "ao_agent_id (ex_outcome name requests p) = scenario_agent_id name (snd p)"
  "ao_status (ex_outcome name requests p) = Status_OK" "ao_operation (ex_outcome name requests p) = ad_operation (ex_doc (snd p))"
  "ao_response (ex_outcome name requests p) = ac_response (ex_e2e_call requests (fst p))"
  by (simp_all add: ex_outcome_def split: prod.split)

lemma ex_agent_outcomes: "agent_outcomes exact_fpu scenario (ex_e2e_call requests) i (map ex_doc ls) = Inr (ex_outcomes (sn_name scenario) requests i ls)"
proof (induction ls arbitrary: i)
  case (Cons l ls)
  then show ?case
    by (simp add: ex_outcomes_def ex_outcome_def agent_outcome_def ex_e2e_call_def ex_e2e_vector[simplified] ex_doc_def Let_def)
qed (simp add: ex_outcomes_def)

lemma ex_outcomes_served: "\<forall>oc\<in>set (ex_outcomes name requests i ls). status_ok (ao_status oc) \<and> rs_granted (ao_response oc)
    \<and> ao_label oc \<in> set ls \<and> ao_agent_id oc = scenario_agent_id name (ao_label oc)"
  by (auto simp: ex_outcomes_def in_set_enumerate_eq Status_OK_def status_ok_def ex_e2e_call_def)

lemma contains_part: "contains (a @ p @ b) p"
  unfolding contains_iff by blast

lemma ex_payloads:
  assumes "set ls \<subseteq> set ''ABCDE''"
  shows "validate_qdrant_payloads (concat (map (\<lambda>rq. rq_agent_id rq @ rq_source_file rq @ rq_payload_text rq) (ex_requests name ls)))
    (ex_outcomes name requests 0 ls) ex_docs = Inr None"
  unfolding payloads_accepted
proof (intro ballI impI)
  fix oc assume "oc \<in> set (ex_outcomes name requests 0 ls)"
  then have l: "ao_label oc \<in> set ls" "ao_agent_id oc = scenario_agent_id name (ao_label oc)" using ex_outcomes_served by blast+
  obtain xs ys where ls: "ls = xs @ ao_label oc # ys" using l(1) by (meson split_list)
  define f where "f = (\<lambda>rq :: AcquireRequest. rq_agent_id rq @ rq_source_file rq @ rq_payload_text rq)"
  let ?id = "ao_agent_id oc" and ?d = "ex_doc (ao_label oc)"
  obtain a b where body: "concat (map f (ex_requests name ls)) = a @ ?id @ ad_source_file ?d @ ad_text ?d @ b"
    using l(2) by (simp add: ls ex_requests_def f_def e2e_acquire_request_def)
  have "contains (a @ ?id @ ad_source_file ?d @ ad_text ?d @ b) ?id"
    "contains (a @ ?id @ ad_source_file ?d @ ad_text ?d @ b) (ad_source_file ?d)"
    "contains (a @ ?id @ ad_source_file ?d @ ad_text ?d @ b) (ad_text ?d)"
    using contains_part[of a] contains_part[of "a @ ?id"] contains_part[of "a @ ?id @ ad_source_file ?d"] by simp_all
  then show "payload_shown (concat (map (\<lambda>rq. rq_agent_id rq @ rq_source_file rq @ rq_payload_text rq) (ex_requests name ls))) ex_docs oc"
    using assms l(1) unfolding payload_shown_def f_def[symmetric] body by (auto simp: ex_doc_at subset_iff)
qed

lemma timeline_returns: "\<exists>lines. timeline_lines outcomes base theta = Inr lines" "\<exists>lines. recap_lines outcomes base = Inr lines"
proof -
  have a: "\<exists>t. acquired_text oc theta = Inr t" for oc
    using display_returns[of "rs_blocking_agent_id (ao_response oc)"] by (auto simp: acquired_text_def Let_def)
  have "\<exists>es. all_outcome_events base theta outcomes = Inr es"
  proof (induction outcomes)
    case (Cons oc ocs)
    then show ?case using a[of oc] by (auto simp: outcome_events_def Let_def)
  qed simp
  then show "\<exists>lines. timeline_lines outcomes base theta = Inr lines" by (auto simp: timeline_lines_def)
  have r: "\<exists>t. recap_of base oc = Inr t" for oc
    using display_returns[of "rs_blocking_agent_id (ao_response oc)"] by (auto simp: recap_of_def Let_def)
  have "\<exists>ls. recap_loop base outcomes = Inr ls"
  proof (induction outcomes)
    case (Cons oc ocs)
    then show ?case using r[of oc] by auto
  qed simp
  then show "\<exists>lines. recap_lines outcomes base = Inr lines" by (auto simp: recap_lines_def)
qed

text \<open>The action beside the agents, if there is one, changes the leader.\<close>

definition ex_action :: "((ex_cluster \<times> string list) e2e_state, unit) io option \<Rightarrow> bool \<Rightarrow> AcquireRequest list \<Rightarrow> bool \<Rightarrow> bool" where
  "ex_action action second requests second' \<longleftrightarrow> (case action of
     None \<Rightarrow> second' = second | Some m \<Rightarrow> gives m fst (second, requests) (second', requests) ())"

lemma ex_traffic:
  assumes "set (sn_labels scenario) \<subseteq> set ''ABCDE''" "sn_labels scenario \<noteq> []" "ec_collection config = ''dscc_memory_e2e''"
    and "ex_action action second (ex_requests (sn_name scenario) (sn_labels scenario)) second'"
  shows "gives (scenario_traffic exact_fpu ex_e2e_ops config scenario ex_docs action) fst (second, requests)
    (second', ex_requests (sn_name scenario) (sn_labels scenario))
    (map ex_doc (sn_labels scenario), ex_outcomes (sn_name scenario) (ex_requests (sn_name scenario) (sn_labels scenario)) 0 (sn_labels scenario), 1000)"
proof -
  let ?rs = "ex_requests (sn_name scenario) (sn_labels scenario)"
  have front: "elem_at (map ex_doc (sn_labels scenario)) 0 = Inr (ex_doc (hd (sn_labels scenario)))"
    using assms(2) by (cases "sn_labels scenario") (simp_all add: elem_at_def)
  have ms: "gives (e2e_get (ro_unix_ms (eo_run ex_e2e_ops))) fst c c 1000" for c
    by (simp add: gives_def e2e_get_def e2e_world_def)
  have fork: "gives (io_modify (\<lambda>s. s\<lparr>es_world := eo_fork ex_e2e_ops (map (agent_thread config scenario 1000) (map ex_doc (sn_labels scenario))) (es_world s)\<rparr>))
      fst (second, requests) (second, ?rs) ()"
    by (auto simp: gives_def io_modify_def ex_requests_def agent_thread_def e2e_acquire_request_def ex_doc_def)
  have join: "gives (e2e_call (eo_join ex_e2e_ops)) fst (second', ?rs) (second', ?rs) (ex_e2e_call ?rs)"
    by (simp add: gives_def e2e_call_def e2e_world_def)
  have act: "gives (case action of None \<Rightarrow> io_lift (Inr (Inr ())) | Some m \<Rightarrow> attempt_error m) fst (second, ?rs) (second', ?rs) (Inr ())"
  proof (cases action)
    case (Some m)
    then show ?thesis using assms(4) unfolding ex_action_def gives_def attempt_error_def by fastforce
  qed (use assms(4) in \<open>simp add: ex_action_def gives_lift\<close>)
  have "(30::nat) = Suc 29" by simp
  note wait = ex_e2e_waits(1)[of _ _ _ _ _ 29, folded this]
  show ?thesis unfolding scenario_traffic_def
    by (intro gives_bind[OF gives_log(2)] gives_bind[OF gives_log(3)] gives_bind[OF ex_e2e_collection(1)] gives_log_of[OF ex_select[OF assms(1)]]
        gives_log_of[OF front] gives_bind[OF ex_e2e_collection(2)] gives_bind[OF wait] gives_bind[OF ms] gives_bind[OF fork] gives_bind[OF act]
        gives_bind[OF join] gives_log_of[OF ex_agent_outcomes] assms(3)) (simp add: gives_lift)
qed

lemma ex_judge:
  assumes ls: "set (sn_labels scenario) \<subseteq> set ''ABCDE''" and col: "ec_collection config = ''dscc_memory_e2e''"
    and count: "expected_write_count (map ex_doc (sn_labels scenario)) = int k" "k \<in> {1, 2, 3}"
    and pairs: "validate_pairs exact_fpu config ex_docs
      (ex_outcomes (sn_name scenario) (ex_requests (sn_name scenario) (sn_labels scenario)) 0 (sn_labels scenario)) (sn_expected_conflicts scenario) = Inr None"
    and distinct: "sn_expect_distinct_completion scenario \<Longrightarrow> labels_conflict exact_fpu config ex_docs (sn_labels scenario) = Inr True"
  defines "rs \<equiv> ex_requests (sn_name scenario) (sn_labels scenario)"
  shows "gives (judge_run exact_fpu ex_e2e_ops config scenario ex_docs (map ex_doc (sn_labels scenario)) (ex_outcomes (sn_name scenario) rs 0 (sn_labels scenario)))
    fst (second, rs) (second, rs) True"
proof -
  have ok: "failed_outcome (ex_outcomes (sn_name scenario) rs 0 (sn_labels scenario)) = None"
    using ex_outcomes_served unfolding outcomes_accepted by blast
  have n: "length (filter (\<lambda>rq. rq_operation_type rq = OPERATION_TYPE_WRITE) rs) = k"
  proof -
    have w: "(rq_operation_type (e2e_acquire_request a (ex_doc l) b e) = OPERATION_TYPE_WRITE) = (ad_operation (ex_doc l) = kWrite)" for a l b e
      by (simp add: e2e_acquire_request_def ex_doc_def)
    show ?thesis using count(1) by (simp add: rs_def ex_requests_def expected_write_count_def filter_map o_def w)
  qed
  note c = ex_e2e_collection(3)[OF col, of "(second, rs)" k] ex_e2e_collection(4)[OF col, of "(second, rs)"]
  have check: "gives (distinct_check exact_fpu config scenario ex_docs selected_docs outcomes m) fst (second, rs) (second, rs) True"
    if "gives m fst (second, rs) (second, rs) True" for m selected_docs outcomes
    using that distinct unfolding distinct_check_def scenario_has_threshold_conflict_def
    by (auto intro!: gives_bind[OF gives_lift] gives_bind[OF gives_log(5)])
  have v: "(if int k \<noteq> expected_write_count (map ex_doc (sn_labels scenario)) then verdict_fail message else verdict_ok) = Inr None" for message
    by (simp add: count)
  have f: "Inr (failed_outcome (ex_outcomes (sn_name scenario) rs 0 (sn_labels scenario))) = (Inr None :: verdict)" by (simp add: ok)
  have p: "validate_qdrant_payloads (concat (map (\<lambda>rq. rq_agent_id rq @ rq_source_file rq @ rq_payload_text rq) (snd (second, rs))))
      (ex_outcomes (sn_name scenario) rs 0 (sn_labels scenario)) ex_docs = Inr None"
    using ex_payloads[OF ls, of "sn_name scenario" rs] by (simp add: rs_def)
  have n': "length (filter (\<lambda>rq. rq_operation_type rq = OPERATION_TYPE_WRITE) (snd (second, rs))) = k" using n by simp
  show ?thesis
    unfolding judge_run_def validate_conflict_pairs_def
    by (rule gives_judged[OF f] gives_bind[OF c(1)[OF n' count(2)]] gives_judged[OF v] gives_bind[OF gives_log(4)] gives_bind[OF c(2)]
        gives_judged[OF p] gives_judged[OF pairs[folded rs_def]] check gives_lift)+
qed

definition ex_scenario_ok :: "E2eConfig \<Rightarrow> Scenario \<Rightarrow> bool" where
  "ex_scenario_ok config scenario \<longleftrightarrow> set (sn_labels scenario) \<subseteq> set ''ABCDE'' \<and> sn_labels scenario \<noteq> []
     \<and> (\<exists>k\<in>{1, 2, 3}. expected_write_count (map ex_doc (sn_labels scenario)) = int k)
     \<and> validate_pairs exact_fpu config ex_docs
         (ex_outcomes (sn_name scenario) (ex_requests (sn_name scenario) (sn_labels scenario)) 0 (sn_labels scenario)) (sn_expected_conflicts scenario) = Inr None
     \<and> (sn_expect_distinct_completion scenario \<longrightarrow> labels_conflict exact_fpu config ex_docs (sn_labels scenario) = Inr True)"

lemma ex_run_scenario:
  assumes ok: "ex_scenario_ok config scenario" and col: "ec_collection config = ''dscc_memory_e2e''"
    and act: "ex_action action second (ex_requests (sn_name scenario) (sn_labels scenario)) second'"
  shows "gives (run_scenario exact_fpu ex_e2e_ops config scenario ex_docs action) fst (second, requests)
    (second', ex_requests (sn_name scenario) (sn_labels scenario)) True"
proof -
  let ?rs = "ex_requests (sn_name scenario) (sn_labels scenario)"
  let ?os = "ex_outcomes (sn_name scenario) ?rs 0 (sn_labels scenario)"
  obtain k where k: "expected_write_count (map ex_doc (sn_labels scenario)) = int k" "k \<in> {1, 2, 3}" using ok unfolding ex_scenario_ok_def by blast
  obtain timeline where t: "timeline_lines ?os 1000 (ec_theta config) = Inr timeline" using timeline_returns(1) by blast
  obtain recap where r: "recap_lines ?os 1000 = Inr recap" using timeline_returns(2) by blast
  have judge: "gives (judge_run exact_fpu ex_e2e_ops config scenario ex_docs (map ex_doc (sn_labels scenario)) ?os) fst (second', ?rs) (second', ?rs) True"
    by (rule ex_judge[OF _ col k]) (use ok in \<open>simp_all add: ex_scenario_ok_def\<close>)
  have traffic: "gives (scenario_traffic exact_fpu ex_e2e_ops config scenario ex_docs action) fst (second, requests) (second', ?rs)
      (map ex_doc (sn_labels scenario), ?os, 1000)"
    by (rule ex_traffic[OF _ _ col act]) (use ok in \<open>simp_all add: ex_scenario_ok_def\<close>)
  show ?thesis unfolding run_scenario_def
    by (rule gives_bind[OF traffic]) (simp add: t r, intro gives_log_of[OF refl] gives_bind[OF gives_log(2)] judge)
qed

lemma ex_similarity: "bench_cosine_similarity exact_fpu [Fin 1] [Fin 1] = Fin 1"
  by (simp add: bench_cosine_similarity_def exact_fpu_def fl_mul_def fl_div_def fl_min_def fl_max_def)

definition ex_config :: E2eConfig where
  "ex_config = default_E2eConfig exact_fpu ''/dslm''"

lemma ex_config_fields [simp]:
  "ec_collection ex_config = ''dscc_memory_e2e''" "ec_theta ex_config = Fin (78 / 100)" "ec_lock_hold_ms ex_config = 750"
  "ec_input_dir ex_config = ''/dslm/demo_inputs''" "\<not> ec_skip_docker ex_config" "\<not> ec_teardown_on_exit ex_config"
  "ec_node_targets ex_config = [''127.0.0.1:50051'', ''127.0.0.1:50052'', ''127.0.0.1:50053'', ''127.0.0.1:50054'', ''127.0.0.1:50055'']"
  "ec_node_service_names ex_config = [''dscc-node-1'', ''dscc-node-2'', ''dscc-node-3'', ''dscc-node-4'', ''dscc-node-5'']"
  by (simp_all add: ex_config_def default_E2eConfig_def exact_fpu_def)

lemma ex_minimum_gap: "minimum_gap ex_config = 375"
  by (simp add: minimum_gap_def signed_divide_int_def)

lemma agent_id_inj: "scenario_agent_id name l = scenario_agent_id name l' \<longleftrightarrow> l = l'"
  by (simp add: scenario_agent_id_def)

lemma ex_outcome_at:
  assumes "distinct ls" "i < length ls"
  shows "outcome_at (ex_outcomes name requests 0 ls) (ls ! i) = Inr (ex_outcome name requests (i, ls ! i))"
    "operation_of_agent (ex_outcomes name requests 0 ls) (scenario_agent_id name (ls ! i)) = Some (ad_operation (ex_doc (ls ! i)))"
proof -
  let ?os = "ex_outcomes name requests 0 ls"
  have in_os: "ex_outcome name requests (i, ls ! i) \<in> set ?os" using assms(2) by (force simp: ex_outcomes_def in_set_enumerate_eq)
  have labels: "map ao_label ?os = ls" by (simp add: ex_outcomes_def o_def)
  then have "distinct (map fst (rev (map (\<lambda>oc. (ao_label oc, oc)) ?os)))" using assms(1) by (simp add: o_def flip: rev_map)
  then have "map_of (rev (map (\<lambda>oc. (ao_label oc, oc)) ?os)) (ls ! i) = Some (ex_outcome name requests (i, ls ! i))"
    using in_os by (subst map_of_eq_Some_iff) force+
  then show "outcome_at ?os (ls ! i) = Inr (ex_outcome name requests (i, ls ! i))" by (simp add: outcome_at_def)
  have "map ao_agent_id ?os = map (scenario_agent_id name) (map snd (enumerate 0 ls))"
    by (simp add: ex_outcomes_def del: map_snd_enumerate)
  then have "map ao_agent_id ?os = map (scenario_agent_id name) ls" by simp
  then have "distinct (map fst (rev (map (\<lambda>oc. (ao_agent_id oc, ao_operation oc)) ?os)))"
    using assms(1) by (simp add: o_def distinct_map inj_on_def agent_id_inj flip: rev_map)
  then show "operation_of_agent ?os (scenario_agent_id name (ls ! i)) = Some (ad_operation (ex_doc (ls ! i)))"
    unfolding operation_of_agent_def using in_os by (subst map_of_eq_Some_iff) force+
qed

text \<open>A writer and the reader after it pass the check of an expected conflict.\<close>

lemma ex_pair_ok:
  assumes "distinct ls" "Suc i < length ls" "set ls \<subseteq> set ''ABCDE''" "ad_operation (ex_doc (ls ! i)) = kWrite" "ad_operation (ex_doc (ls ! Suc i)) = kRead"
  shows "validate_pair exact_fpu ex_config ex_docs (ex_outcomes name (ex_requests name ls) 0 ls) (ls ! i, ls ! Suc i) = Inr None"
proof -
  let ?os = "ex_outcomes name (ex_requests name ls) 0 ls"
  have i: "i < length ls" using assms(2) by simp
  have d: "doc_at ex_docs (ls ! i) = Inr (ex_doc (ls ! i))" "doc_at ex_docs (ls ! Suc i) = Inr (ex_doc (ls ! Suc i))"
    using assms(2,3) i by (meson ex_doc_at nth_mem subset_iff)+
  have sim: "bench_cosine_similarity exact_fpu (ad_embedding (ex_doc a)) (ad_embedding (ex_doc b)) = Fin 1" for a b
    by (simp add: ex_doc_def ex_similarity)
  have blocker: "rq_agent_id (ex_requests name ls ! i) = scenario_agent_id name (ls ! i)"
    using i by (simp add: ex_requests_def e2e_acquire_request_def)
  have "scenario_agent_id name (ls ! i) \<noteq> []" by (simp add: scenario_agent_id_def)
  then have read: "validate_read (ls ! Suc i) ?os (ex_outcome name (ex_requests name ls) (Suc i, ls ! Suc i)) = None"
    using ex_outcome_at(2)[OF assms(1) i, of name "ex_requests name ls"] assms(4) by (simp add: validate_read_def ex_e2e_call_def blocker)
  show ?thesis
    by (simp add: validate_pair_def d sim ex_outcome_at(1)[OF assms(1) i] ex_outcome_at(1)[OF assms(1,2)] assms(4,5) read ex_minimum_gap)
      (simp add: ex_e2e_call_def Let_def ex_outcome_at(1)[OF assms(1,2)] read)
qed

definition read_after_write :: "char list \<Rightarrow> char \<times> char \<Rightarrow> bool" where
  "read_after_write ls p \<longleftrightarrow> (\<exists>i. Suc i < length ls \<and> p = (ls ! i, ls ! Suc i)
     \<and> ad_operation (ex_doc (ls ! i)) = kWrite \<and> ad_operation (ex_doc (ls ! Suc i)) = kRead)"

lemma ex_scenario_ok_pairs:
  assumes "distinct ls" "set ls \<subseteq> set ''ABCDE''" "ls \<noteq> []" "expected_write_count (map ex_doc ls) \<in> {1, 2, 3}"
    and "list_all (read_after_write ls) pairs" "expects \<Longrightarrow> labels_conflict exact_fpu ex_config ex_docs ls = Inr True"
  shows "ex_scenario_ok ex_config \<lparr>sn_name = name, sn_labels = ls, sn_expected_conflicts = pairs, sn_expect_distinct_completion = expects\<rparr>"
proof -
  have "validate_pairs exact_fpu ex_config ex_docs (ex_outcomes name (ex_requests name ls) 0 ls) pairs = Inr None"
    using assms(5) by (induction pairs) (auto simp: read_after_write_def ex_pair_ok[OF assms(1) _ assms(2)])
  then show ?thesis using assms unfolding ex_scenario_ok_def by auto
qed

lemma ex_label_lists:
  "expected_write_count (map ex_doc ''AB'') \<in> {1, 2, 3}" "expected_write_count (map ex_doc ''ACD'') \<in> {1, 2, 3}"
  "expected_write_count (map ex_doc ''DE'') \<in> {1, 2, 3}" "expected_write_count (map ex_doc ''ABCDE'') \<in> {1, 2, 3}"
  "expected_write_count (map ex_doc ''ABDE'') \<in> {1, 2, 3}"
  by (simp_all add: expected_write_count_def ex_doc_def)

lemma ex_label_pairs:
  "read_after_write ''AB'' (CHR ''A'', CHR ''B'')" "read_after_write ''DE'' (CHR ''D'', CHR ''E'')"
  "read_after_write ''ABCDE'' (CHR ''A'', CHR ''B'')" "read_after_write ''ABCDE'' (CHR ''D'', CHR ''E'')"
  "read_after_write ''ABDE'' (CHR ''A'', CHR ''B'')" "read_after_write ''ABDE'' (CHR ''D'', CHR ''E'')"
proof -
  have r: "read_after_write ls (ls ! i, ls ! Suc i)"
    if "Suc i < length ls" "ad_operation (ex_doc (ls ! i)) = kWrite" "ad_operation (ex_doc (ls ! Suc i)) = kRead" for ls i
    using that unfolding read_after_write_def by blast
  show "read_after_write ''AB'' (CHR ''A'', CHR ''B'')" "read_after_write ''DE'' (CHR ''D'', CHR ''E'')"
    "read_after_write ''ABCDE'' (CHR ''A'', CHR ''B'')" "read_after_write ''ABCDE'' (CHR ''D'', CHR ''E'')"
    "read_after_write ''ABDE'' (CHR ''A'', CHR ''B'')" "read_after_write ''ABDE'' (CHR ''D'', CHR ''E'')"
    using r[of 0 "''AB''"] r[of 0 "''DE''"] r[of 0 "''ABCDE''"] r[of 3 "''ABCDE''"] r[of 0 "''ABDE''"] r[of 2 "''ABDE''"]
    by (simp_all add: ex_doc_def)
qed

lemma ex_all_conflict: "labels_conflict exact_fpu ex_config ex_docs ''ACD'' = Inr True"
  by (simp add: ex_doc_at) (simp add: ex_doc_def ex_similarity fl_le_def)

lemma ex_scenarios_ok:
  assumes "scenario \<in> set all_scenarios"
  shows "ex_scenario_ok ex_config scenario"
proof -
  have "list_all (ex_scenario_ok ex_config) all_scenarios"
    unfolding all_scenarios_def plain_scenarios_def failover_scenario_def quorum_two_scenario_def restarted_quorum_scenario_def
      append_Cons append_Nil list.pred_inject
    by (intro conjI TrueI ex_scenario_ok_pairs ex_label_lists ex_label_pairs ex_all_conflict) (simp_all add: ex_label_pairs)
  then show ?thesis using assms by (simp only: list_all_iff)
qed

lemma ex_plain: "set scenarios \<subseteq> set all_scenarios \<Longrightarrow> \<exists>requests'.
    gives (run_scenarios exact_fpu ex_e2e_ops ex_config ex_docs True scenarios) fst (second, requests) (second, requests') True"
proof (induction scenarios arbitrary: requests)
  case (Cons scenario scenarios)
  have "gives (run_scenario exact_fpu ex_e2e_ops ex_config scenario ex_docs None) fst (second, requests)
      (second, ex_requests (sn_name scenario) (sn_labels scenario)) True"
    using Cons.prems by (intro ex_run_scenario ex_scenarios_ok) (auto simp: ex_action_def)
  moreover obtain requests' where "gives (run_scenarios exact_fpu ex_e2e_ops ex_config ex_docs True scenarios) fst
      (second, ex_requests (sn_name scenario) (sn_labels scenario)) (second, requests') True"
    using Cons.IH Cons.prems by auto
  ultimately show ?case by (auto intro: gives_bind)
qed (auto intro: gives_lift)

lemma ex_without:
  assumes "scenario \<in> set all_scenarios"
  shows "gives (scenario_without exact_fpu ex_e2e_ops ex_config ex_docs a b c service scenario) fst (second, requests)
    (second, ex_requests (sn_name scenario) (sn_labels scenario)) True"
proof -
  have run: "gives (run_scenario exact_fpu ex_e2e_ops ex_config scenario ex_docs None) fst (\<not> second, requests)
      (\<not> second, ex_requests (sn_name scenario) (sn_labels scenario)) True"
    by (rule ex_run_scenario[OF ex_scenarios_ok[OF assms]]) (simp_all add: ex_action_def)
  have start: "gives (run_compose_or_throw ex_e2e_ops ex_config args message) fst (\<not> second, requests') (second, requests') ()" for args message requests'
    using ex_e2e_command[of ex_config args message "\<not> second" requests'] by simp
  show ?thesis unfolding scenario_without_def
    by (intro gives_bind[OF gives_log(3)] gives_bind[OF ex_e2e_command] gives_bind[OF run] gives_bind[OF start] gives_lift)
qed

lemmas ex_leader_waits = ex_e2e_leaders[OF ex_config_fields(7)]

lemma ex_failover: "\<exists>requests'. gives (run_leader_failover_scenario exact_fpu ex_e2e_ops ex_config ex_docs) fst (second, requests) (second, requests') True"
proof -
  let ?ob = "ex_e2e_observation ''127.0.0.1:50051''" and ?rs = "ex_requests (sn_name failover_scenario) (sn_labels failover_scenario)"
  have "gives (kill_leader ex_e2e_ops ex_config (?ob second)) fst (second, ?rs) (\<not> second, ?rs) ()"
  proof -
    have sleep: "gives (io_modify (e2e_sleep ex_e2e_ops ms)) fst d d ()" for ms d by (simp add: gives_def io_modify_def e2e_sleep_def)
    have w: "gives (e2e_wait_for_leader ex_e2e_ops ex_config 12000 (lo_leader_address (?ob second))) fst (\<not> second, ?rs) (\<not> second, ?rs) (?ob (\<not> second))"
      using ex_leader_waits(1)[of 12000 "lo_leader_address (?ob second)" "(\<not> second, ?rs)"] by simp
    show ?thesis unfolding kill_leader_def
      by (intro gives_bind[OF sleep] gives_bind[OF gives_log(3)] gives_bind[OF ex_e2e_command] gives_bind[OF w] gives_log)
  qed
  then have act: "ex_action (Some (kill_leader ex_e2e_ops ex_config (?ob second))) second ?rs (\<not> second)" by (simp add: ex_action_def)
  have in_all: "failover_scenario \<in> set all_scenarios" unfolding all_scenarios_def set_append list.set by blast
  note run = ex_run_scenario[OF ex_scenarios_ok[OF in_all] ex_config_fields(1) act, of requests]
  have start: "gives (run_compose_or_throw ex_e2e_ops ex_config args message) fst (\<not> second, requests') (second, requests') ()" for args message requests'
    using ex_e2e_command[of ex_config args message "\<not> second" requests'] by simp
  have w: "gives (e2e_wait_for_leader ex_e2e_ops ex_config 8000 []) fst (second, r) (second, r) (?ob second)" for r
    using ex_leader_waits(1)[of 8000 "[]" "(second, r)"] by simp
  have t: "host_target_for_service_name ex_config (lo_service_name (?ob second))
      = Inr (if second then ''127.0.0.1:50052'' else ''127.0.0.1:50051'')"
    by (simp add: host_target_for_service_name_def ex_e2e_observation_def elem_at_def)
  have t2: "(if (if second then ''127.0.0.1:50052'' else ''127.0.0.1:50051'') = [] then fail message else Inr ()) = Inr ()" for message
    by simp
  have n: "gives (wait_for_node_control_plane ex_e2e_ops target 12000) fst d d ()" for target d by (rule ex_leader_waits(2)) simp
  have "gives (run_leader_failover_scenario exact_fpu ex_e2e_ops ex_config ex_docs) fst (second, requests) (second, ?rs) True"
    unfolding run_leader_failover_scenario_def
    by (intro gives_bind[OF w] gives_bind[OF gives_log(3)] gives_bind[OF run] gives_bind[OF start] gives_log_of[OF t]
        gives_log_of[OF t2] gives_bind[OF n] gives_bind[OF w] gives_lift)
  then show ?thesis by blast
qed

lemma rbind_weak_cong: "m = m' \<Longrightarrow> rbind m f = rbind m' f"
  by simp

lemma ex_followers: "\<exists>fo. pick_followers ex_config (ex_e2e_observation target second) = Inr fo"
  by (cases second) (simp_all add: pick_followers_def ex_e2e_observation_def elem_at_def cong: rbind_weak_cong)

lemma ex_follower: "\<exists>requests'. gives (run_follower_restart_scenario exact_fpu ex_e2e_ops ex_config ex_docs) fst (second, requests) (second, requests') True"
proof -
  have w: "gives (e2e_wait_for_leader ex_e2e_ops ex_config 8000 []) fst (second, r) (second, r) (ex_e2e_observation ''127.0.0.1:50051'' second)" for r
    using ex_leader_waits(1)[of 8000 "[]" "(second, r)"] by simp
  obtain fo where f: "pick_followers ex_config (ex_e2e_observation ''127.0.0.1:50051'' second) = Inr fo"
    using ex_followers by blast
  have in_all: "quorum_two_scenario \<in> set all_scenarios" "restarted_quorum_scenario \<in> set all_scenarios" unfolding all_scenarios_def set_append list.set by blast+
  have n: "gives (wait_for_node_control_plane ex_e2e_ops target 12000) fst d d ()" for target d by (rule ex_leader_waits(2)) simp
  have "gives (run_follower_restart_scenario exact_fpu ex_e2e_ops ex_config ex_docs) fst (second, requests)
      (second, ex_requests (sn_name restarted_quorum_scenario) (sn_labels restarted_quorum_scenario)) (True \<and> True)"
    unfolding run_follower_restart_scenario_def
    by (intro gives_bind[OF w] gives_log_of[OF f] gives_bind[OF ex_without[OF in_all(1)]] gives_bind[OF n] gives_bind[OF ex_without[OF in_all(2)]] gives_lift)
  then show ?thesis by auto
qed

section \<open>The run\<close>

lemma ex_e2e_start: "gives (e2e_start ex_e2e_ops ex_config) fst (second, requests) (\<not> second, requests) ()"
proof -
  have env: "e2e_environment ex_e2e_ops ex_config w = w" for w by (simp add: e2e_environment_def)
  have modify: "gives (io_modify f) fst d d ()" if "\<And>s. es_world (f s) = es_world s" for f :: "(ex_cluster \<times> string list) e2e_state \<Rightarrow> _" and d
    using that by (simp add: gives_def io_modify_def)
  have up: "gives (run_shell_command ex_e2e_ops command) fst (second, requests) (\<not> second, requests) 0" for command
    unfolding run_shell_command_def by (rule gives_bind[OF gives_log(3)]) (simp add: gives_def e2e_call_def e2e_world_def)
  have stack: "gives (start_compose_stack ex_e2e_ops ex_config) fst (second, requests) (\<not> second, requests) ()"
    unfolding start_compose_stack_def
    by (simp, rule gives_bind[OF modify], simp add: env, rule gives_bind[OF up], simp add: gives_lift)
  have w: "gives (e2e_wait_for_leader ex_e2e_ops ex_config 12000 []) fst d d (ex_e2e_observation ''127.0.0.1:50051'' (fst d))" for d
    using ex_leader_waits(1)[of 12000 "[]" d] by simp
  have m: "(180::nat) = Suc 179" by simp
  show ?thesis unfolding e2e_start_def m using ex_config_fields(5)
    by (simp only: if_False) (intro gives_bind[OF gives_log(2)] gives_bind[OF gives_bind[OF stack modify]] gives_bind[OF ex_e2e_waits(1)]
      gives_bind[OF ex_e2e_waits(2)] gives_bind[OF ex_e2e_waits(4)] gives_bind[OF ex_e2e_waits(3)] gives_bind[OF w] gives_log, simp)
qed

lemma ex_e2e_scenarios: "\<exists>requests'. gives (e2e_scenarios exact_fpu ex_e2e_ops ex_config) fst (second, requests) (second, requests') True"
proof -
  have plain: "set plain_scenarios \<subseteq> set all_scenarios" unfolding all_scenarios_def set_append by blast
  obtain r1 where r1: "gives (run_scenarios exact_fpu ex_e2e_ops ex_config ex_docs True plain_scenarios) fst (second, requests) (second, r1) True"
    using ex_plain[OF plain] by blast
  obtain r2 where r2: "gives (run_leader_failover_scenario exact_fpu ex_e2e_ops ex_config ex_docs) fst (second, r1) (second, r2) True"
    using ex_failover by blast
  obtain r3 where r3: "gives (run_follower_restart_scenario exact_fpu ex_e2e_ops ex_config ex_docs) fst (second, r2) (second, r3) True"
    using ex_follower by blast
  have "gives (e2e_scenarios exact_fpu ex_e2e_ops ex_config) fst (second, requests) (second, r3) (True \<and> True \<and> True)"
    unfolding e2e_scenarios_def Let_def
    by (rule gives_bind[OF ex_e2e_documents[OF ex_config_fields(4)]], unfold ex_docs_index)
      (intro gives_bind[OF gives_log(2)] gives_bind[OF r1] gives_bind[OF r2] gives_bind[OF r3] gives_lift)
  then show ?thesis by auto
qed

lemma ex_e2e_finish: "gives (e2e_finish ex_e2e_ops ex_config True) fst c c 0"
  using ex_config_fields(5,6) unfolding e2e_finish_def Let_def
  by simp (intro gives_bind[OF gives_log(2)] gives_bind[OF gives_log(4)] gives_bind[OF gives_lift] gives_bind[OF gives_log(3)] gives_lift)

lemma ex_e2e_main: "\<exists>s. e2e_main exact_fpu lib_what ex_e2e_ops ''/dslm'' (\<lambda>_. None) ((False, []), []) = Some (s, Exit 0)"
proof -
  have config: "e2e_load_config exact_fpu ''/dslm'' (\<lambda>_. None) = ex_config"
    by (simp add: e2e_load_config_def ex_config_def default_E2eConfig_def getenv_either_def getenv_value_def Let_def)
  obtain r where sc: "gives (e2e_scenarios exact_fpu ex_e2e_ops ex_config) fst (\<not> False, []) (\<not> False, r) True"
    using ex_e2e_scenarios by blast
  have "gives (e2e_body exact_fpu ex_e2e_ops ex_config) fst (False, []) (\<not> False, r) 0"
    unfolding e2e_body_def by (rule gives_bind[OF ex_e2e_start], rule gives_bind[OF sc], rule ex_e2e_finish)
  from this[unfolded gives_def, rule_format, of "\<lparr>es_world = ((False, []), []), es_stack_started = False, es_log = []\<rparr>"]
  obtain s where "e2e_body exact_fpu ex_e2e_ops ex_config \<lparr>es_world = ((False, []), []), es_stack_started = False, es_log = []\<rparr> = Some (s, Inr 0)"
    by auto
  then show ?thesis by (simp add: e2e_main_def config Let_def)
qed

end
