(* ===== verification/E2eClock.thy ===== *)
theory E2eClock
  imports E2eScenario BenchClock
begin

text \<open>
  The end-to-end bench ends. \<open>e2e_clock\<close> extends the machine of \<open>BenchClock\<close> by the calls the end-to-end
  bench adds; over it no wait runs forever, whatever the services answer and whatever fails. The
  interface is interpreted on any machine whose calls get a deadline.
\<close>

locale e2e_clock = bench_clock "eo_run ops" clock for ops :: "'w e2e_ops" and clock :: "'w \<Rightarrow> int" +
  assumes system: "ends clock w (eo_system ops command w)"
    and threads: "clock w \<le> clock (eo_fork ops agents w)" "ends clock w (eo_join ops w)"

definition e2e_time :: "('w \<Rightarrow> int) \<Rightarrow> 'w e2e_state \<Rightarrow> int" where
  "e2e_time clock s = clock (es_world s)"

lemma e2e_time_simps [simp]:
  "e2e_time clock (s\<lparr>es_world := w\<rparr>) = clock w" "e2e_time clock (s\<lparr>es_log := l\<rparr>) = e2e_time clock s"
  "e2e_time clock (s\<lparr>es_stack_started := b\<rparr>) = e2e_time clock s"
  by (simp_all add: e2e_time_def)

lemma log_onward:
  "onward (e2e_time clock) (log_line line)" "onward (e2e_time clock) (log_lines lines)" "onward (e2e_time clock) (log_info line)"
  "onward (e2e_time clock) (log_success line)" "onward (e2e_time clock) (log_warn line)" "onward (e2e_time clock) (log_error line)"
  unfolding log_line_def log_lines_def log_info_def log_success_def log_warn_def log_error_def log_tagged_def
  by (rule onward_modify, simp)+

lemma e2e_world_onward: "onward clock m \<Longrightarrow> onward (e2e_time clock) (e2e_world m)"
  unfolding onward_def ends_def e2e_world_def e2e_time_def by fastforce

lemma attempt_onward: "onward clock m \<Longrightarrow> onward clock (attempt_of m)" "onward clock m \<Longrightarrow> onward clock (attempt_error m)"
  unfolding onward_def ends_def attempt_of_def attempt_error_def by (fastforce split: option.splits sum.splits)+

context e2e_clock
begin

lemma get_onward: "(\<And>w. clock w \<le> clock (fst (f w))) \<Longrightarrow> onward (e2e_time clock) (e2e_get f)"
  unfolding e2e_get_def by (rule e2e_world_onward) (auto simp: onward_def case_prod_beta Let_def ends_fst)

lemma call_onward: "(\<And>w. ends clock w (f w)) \<Longrightarrow> onward (e2e_time clock) (e2e_call f)"
  unfolding e2e_call_def by (rule e2e_world_onward) (fastforce simp: onward_def ends_def)

lemma pause_onward: "0 \<le> ms \<Longrightarrow> onward (e2e_time clock) (io_modify (e2e_sleep ops ms))"
  by (rule onward_modify) (simp add: e2e_sleep_def sleep_onward, simp add: e2e_time_def sleep_onward)

lemma fork_onward: "onward (e2e_time clock) (io_modify (\<lambda>s. s\<lparr>es_world := eo_fork ops agents (es_world s)\<rparr>))"
  by (rule onward_modify) (simp add: e2e_time_def threads(1))

text \<open>A wait with a deadline ends when each attempt does: between attempts the clock moves on.\<close>

lemma deadline_ends:
  assumes "onward (e2e_time clock) attempt"
  shows "ends (e2e_time clock) s (until_deadline ops deadline e attempt s)"
proof (induction "nat (deadline - e2e_time clock s)" arbitrary: s rule: less_induct)
  case less
  obtain w1 t where n: "bw_now (eo_bench ops) (es_world s) = (w1, t)" by (cases "bw_now (eo_bench ops) (es_world s)")
  have t: "t = e2e_time clock s" "e2e_time clock s \<le> clock w1" using now[of "es_world s"] n by (simp_all add: e2e_time_def)
  show ?case
  proof (cases "t < deadline")
    case True
    obtain s2 r where a: "attempt (s\<lparr>es_world := w1\<rparr>) = Some (s2, r)" and s2: "clock w1 \<le> e2e_time clock s2"
      using onwardD[OF assms, of "s\<lparr>es_world := w1\<rparr>"] by (auto simp: ends_def)
    have later: "e2e_time clock s2 + 100 \<le> e2e_time clock (e2e_sleep ops 100 s2)"
      using sleep[of 100 "es_world s2"] by (simp add: e2e_sleep_def e2e_time_def)
    have "ends (e2e_time clock) s (until_deadline ops deadline e attempt (e2e_sleep ops 100 s2))"
      by (rule ends_later[OF less]) (use later s2 t True in auto)
    then show ?thesis unfolding until_deadline.simps[of _ _ _ _ s] using n True a s2 t
      by (auto simp: Let_def split: sum.splits option.splits)
  qed (simp add: until_deadline.simps n t)
qed

lemma deadline_onward: "onward (e2e_time clock) attempt \<Longrightarrow> onward (e2e_time clock) (until_deadline ops deadline e attempt)"
  by (simp add: onward_def deadline_ends)

lemma e2e_http_onward: "onward (e2e_time clock) (e2e_http ops host port verb target body)"
  unfolding e2e_http_def by (rule e2e_world_onward) (simp add: onward_def calls)

lemma command_onward: "onward (e2e_time clock) (run_shell_command ops command)" "onward (e2e_time clock) (run_compose_capture ops config args)"
  "onward (e2e_time clock) (run_compose_or_throw ops config args message)"
  unfolding run_compose_or_throw_def run_shell_command_def run_compose_capture_def
  by (intro onward_rules log_onward call_onward system e2e_world_onward shell_onward)+

lemma reach_onward: "onward (e2e_time clock) (reach_targets ops name host port targets)"
proof (induction targets)
  case (Cons target targets)
  then show ?case unfolding reach_targets.simps
    by (auto intro!: onward_rules attempt_onward e2e_http_onward log_onward split: option.splits)
qed (simp add: onward_lift)

lemma failed_onward: "onward (e2e_time clock) (embedding_service_failed ops config)"
  unfolding embedding_service_failed_def Let_def case_prod_beta by (intro onward_rules command_onward)

lemma waits_onward:
  "0 \<le> ms \<Longrightarrow> onward (e2e_time clock) (e2e_wait_for_http ops name host port targets n ms)"
  "onward (e2e_time clock) (e2e_wait_for_dscc ops config)" "onward (e2e_time clock) (e2e_wait_for_embedding ops config)"
proof -
  have h: "onward (e2e_time clock) (e2e_http_loop ops name host port targets n ms left)" if "0 \<le> ms" for left
    using that by (induction left) (auto simp del: reach_targets.simps intro!: onward_rules reach_onward log_onward pause_onward)
  then show "0 \<le> ms \<Longrightarrow> onward (e2e_time clock) (e2e_wait_for_http ops name host port targets n ms)"
    by (simp add: e2e_wait_for_http_def)
  have p: "onward (e2e_time clock) (e2e_ping_loop ops config n left)" for n left
    by (induction left) (auto intro!: onward_rules call_onward calls log_onward pause_onward)
  then show "onward (e2e_time clock) (e2e_wait_for_dscc ops config)" by (simp add: e2e_wait_for_dscc_def)
  have e: "onward (e2e_time clock) (embedding_wait_loop ops config n left)" for n left
    by (induction left) (auto simp del: reach_targets.simps simp: Let_def case_prod_beta intro!: onward_rules reach_onward failed_onward log_onward pause_onward)
  then show "onward (e2e_time clock) (e2e_wait_for_embedding ops config)" by (simp add: e2e_wait_for_embedding_def)
qed

lemma leader_onward: "onward (e2e_time clock) (e2e_wait_for_leader ops config timeout other)"
  "onward (e2e_time clock) (wait_for_node_control_plane ops target timeout)"
proof -
  have d: "onward (e2e_time clock) (discover_loop ops config targets)" for targets
    by (induction targets) (auto simp: case_prod_beta intro!: onward_rules call_onward calls)
  show "onward (e2e_time clock) (e2e_wait_for_leader ops config timeout other)"
    unfolding e2e_wait_for_leader_def e2e_discover_leader_def by (intro onward_rules get_onward deadline_onward d now)
  show "onward (e2e_time clock) (wait_for_node_control_plane ops target timeout)"
    unfolding wait_for_node_control_plane_def case_prod_beta by (intro onward_rules get_onward deadline_onward call_onward calls now)
qed

lemma qdrant_onward:
  "onward (e2e_time clock) (e2e_reset_collection ops config)" "onward (e2e_time clock) (e2e_create_collection ops config n)"
  "onward (e2e_time clock) (e2e_point_count ops config)" "onward (e2e_time clock) (qdrant_scroll_payloads ops config)"
  "onward (e2e_time clock) (e2e_ensure_model ops config)" "onward (e2e_time clock) (e2e_request_embedding F ops config text)"
  unfolding e2e_reset_collection_def e2e_create_collection_def e2e_point_count_def qdrant_scroll_payloads_def e2e_ensure_model_def
    e2e_request_embedding_def qdrant_request_def
  by (intro onward_rules e2e_http_onward log_onward)+

lemma documents_onward: "onward (e2e_time clock) (load_agent_documents F ops config labels)"
  by (induction labels)
    (auto simp: load_agent_document_def Let_def intro!: onward_rules get_onward log_onward qdrant_onward others)

lemma judge_onward: "onward (e2e_time clock) (judge_run F ops config scenario docs selected_docs outcomes)"
proof -
  have j: "onward (e2e_time clock) (judged v m)" if "onward (e2e_time clock) m" for v m
    unfolding judged_def using that by (auto intro!: onward_rules log_onward split: option.splits)
  have d: "onward (e2e_time clock) (distinct_check F config scenario docs selected_docs outcomes m)" if "onward (e2e_time clock) m" for m
    unfolding distinct_check_def using that by (auto intro!: onward_rules log_onward j)
  show ?thesis unfolding judge_run_def by (intro j d onward_rules qdrant_onward log_onward)
qed

lemma run_scenario_onward:
  assumes "\<And>m. action = Some m \<Longrightarrow> onward (e2e_time clock) m"
  shows "onward (e2e_time clock) (run_scenario F ops config scenario docs action)"
proof -
  have a: "onward (e2e_time clock) (case action of None \<Rightarrow> io_lift (Inr (Inr ())) | Some m \<Rightarrow> attempt_error m)"
    using assms by (auto intro!: onward_lift attempt_onward split: option.splits)
  have "onward (e2e_time clock) (scenario_traffic F ops config scenario docs action)"
    unfolding scenario_traffic_def
    by (intro onward_rules log_onward qdrant_onward waits_onward get_onward fork_onward a call_onward threads others) simp
  then show ?thesis unfolding run_scenario_def case_prod_beta by (intro onward_rules log_onward judge_onward)
qed

lemma without_onward: "onward (e2e_time clock) (scenario_without F ops config docs a b c service scenario)"
  unfolding scenario_without_def by (intro onward_rules log_onward command_onward run_scenario_onward) simp

lemma scenarios_onward: "onward (e2e_time clock) (e2e_scenarios F ops config)"
proof -
  have kill: "onward (e2e_time clock) (kill_leader ops config leader)" for leader
    unfolding kill_leader_def by (intro onward_rules pause_onward log_onward command_onward leader_onward) simp
  have plain: "onward (e2e_time clock) (run_scenarios F ops config docs overall scenarios)" for docs overall scenarios
    by (induction scenarios arbitrary: overall) (auto intro!: onward_rules run_scenario_onward)
  have failover: "onward (e2e_time clock) (run_leader_failover_scenario F ops config docs)" for docs
    unfolding run_leader_failover_scenario_def
    by (intro onward_rules leader_onward log_onward run_scenario_onward command_onward) (auto intro: kill)
  have follower: "onward (e2e_time clock) (run_follower_restart_scenario F ops config docs)" for docs
    unfolding run_follower_restart_scenario_def by (intro onward_rules leader_onward without_onward)
  show ?thesis unfolding e2e_scenarios_def Let_def
    by (intro onward_rules documents_onward log_onward plain failover follower)
qed

lemma stack_up_down_onward:
  "onward (e2e_time clock) (start_compose_stack ops config)" "onward (e2e_time clock) (stop_compose_stack ops config)"
proof -
  have env: "clock w \<le> clock (fold (\<lambda>(key, v). ro_setenv (eo_run ops) key v) settings w)" for settings w
    by (induction settings arbitrary: w) (auto intro: order_trans[OF others(6)])
  have "onward (e2e_time clock) (io_modify (\<lambda>s. s\<lparr>es_world := e2e_environment ops config (es_world s)\<rparr>))"
    by (rule onward_modify) (simp add: e2e_environment_def env e2e_time_def del: fold.simps fold_simps)
  then show "onward (e2e_time clock) (start_compose_stack ops config)"
    unfolding start_compose_stack_def by (intro onward_rules command_onward)
  show "onward (e2e_time clock) (stop_compose_stack ops config)"
    unfolding stop_compose_stack_def by (intro onward_rules command_onward log_onward)
qed

lemma body_onward: "onward (e2e_time clock) (e2e_body F ops config)"
proof -
  have m: "onward (e2e_time clock) (io_modify (\<lambda>s. s\<lparr>es_stack_started := True\<rparr>))" by (rule onward_modify) simp
  have start: "onward (e2e_time clock) (e2e_start ops config)"
    unfolding e2e_start_def
    by (intro onward_rules log_onward stack_up_down_onward m waits_onward qdrant_onward leader_onward) simp
  have "onward (e2e_time clock) (e2e_finish ops config pass)" for pass
    unfolding e2e_finish_def Let_def by (intro onward_rules log_onward stack_up_down_onward)
  then show ?thesis unfolding e2e_body_def by (intro onward_rules start scenarios_onward)
qed

lemma e2e_ends: "\<exists>s ending. e2e_main F lib_what ops proot env w = Some (s, ending)"
proof -
  let ?config = "e2e_load_config F proot env"
  obtain s r where b: "e2e_body F ops ?config \<lparr>es_world = w, es_stack_started = False, es_log = []\<rparr> = Some (s, r)"
    using onwardD[OF body_onward] unfolding ends_def by blast
  have "onward (e2e_time clock) (io_bind (if es_stack_started s \<and> \<not> ec_skip_docker ?config \<and> ec_teardown_on_exit ?config
      then stop_compose_stack ops ?config else io_lift (Inr ())) (\<lambda>_. log_error line))" for line
    by (intro onward_rules log_onward stack_up_down_onward)
  from onwardD[OF this, of s] have "\<exists>s' r'. e2e_handler lib_what ops ?config e s = Some (s', r')" for e
    unfolding e2e_handler_def ends_def by blast
  with b show ?thesis by (fastforce simp: e2e_main_def split: sum.splits)
qed

end

section \<open>A machine whose calls get a deadline\<close>

definition e2e_with_deadlines :: "'w e2e_ops \<Rightarrow> ('w \<times> int) e2e_ops" where
  "e2e_with_deadlines ops =
     \<lparr>eo_run = with_deadlines (eo_run ops), eo_system = (\<lambda>command. timed (- 1) (eo_system ops command)),
      eo_fork = (\<lambda>agents (w, t). (eo_fork ops agents w, t)),
      eo_join = timed (\<lambda>_. \<lparr>ac_submit_ms = 0, ac_embedding_start_ms = 0, ac_embedding = fail ''deadline'', ac_embedding_finish_ms = 0,
        ac_dslm_enter_ms = 0, ac_dslm_exit_ms = 0, ac_status = deadline_status, ac_response = default_AcquireResponse\<rparr>) (eo_join ops)\<rparr>"

interpretation timed_e2e: e2e_clock "e2e_with_deadlines ops" snd
  by unfold_locales (auto simp: e2e_with_deadlines_def with_deadlines_def timed_ends split: prod.splits)

end
