(* ===== verification/DemoText.thy ===== *)
theory DemoText
  imports E2eScenario
begin

text \<open>
  The text layer of the choreographed demo (\<^verbatim>\<open>src/e2e_demo.cpp\<close>): its configuration, its own HTTP answer
  reader, its JSON readers, the agent templates and what it prints. The scans that are the same as in the
  other programs (\<^verbatim>\<open>shell_quote\<close>, the end of an array, the first entry of a schedule, the socket loops)
  are taken from there.
\<close>

section \<open>Configuration\<close>

record DemoConfig =
  dc_project_root :: string
  dc_input_dir :: string
  dc_embedding_image :: string
  dc_model_id :: string
  dc_collection :: string
  dc_embedding_host :: string
  dc_embedding_port :: string
  dc_qdrant_host :: string
  dc_qdrant_port :: string
  dc_dscc_target :: string
  dc_node_targets :: "string list"
  dc_node_service_names :: "string list"
  dc_theta :: fl
  dc_lock_hold_ms :: int
  dc_teardown_on_exit :: bool
  dc_op_interval_ms :: int
  dc_duration_sec :: int

definition demo_node_targets :: "string list" where
  "demo_node_targets = [''127.0.0.1:50051'', ''127.0.0.1:50052'', ''127.0.0.1:50053'', ''127.0.0.1:50054'', ''127.0.0.1:50055'']"

definition demo_node_services :: "string list" where
  "demo_node_services = [''dscc-node-1'', ''dscc-node-2'', ''dscc-node-3'', ''dscc-node-4'', ''dscc-node-5'']"

definition default_DemoConfig :: "fpu \<Rightarrow> string \<Rightarrow> DemoConfig" where
  "default_DemoConfig F project_root =
     \<lparr>dc_project_root = project_root, dc_input_dir = project_root @ ''/demo_inputs'', dc_embedding_image = ''ollama/ollama:latest'',
      dc_model_id = ''all-minilm:latest'', dc_collection = ''dscc_memory_demo'', dc_embedding_host = ''127.0.0.1'',
      dc_embedding_port = ''7997'', dc_qdrant_host = ''127.0.0.1'', dc_qdrant_port = ''6333'', dc_dscc_target = ''127.0.0.1:50050'',
      dc_node_targets = demo_node_targets, dc_node_service_names = demo_node_services,
      dc_theta = rnd_float F (78 / 100), dc_lock_hold_ms = 500, dc_teardown_on_exit = False, dc_op_interval_ms = 1000, dc_duration_sec = 300\<rparr>"

definition demo_load_config :: "fpu \<Rightarrow> string \<Rightarrow> environ \<Rightarrow> DemoConfig" where
  "demo_load_config F project_root env =
     (let c = default_DemoConfig F project_root in
      c\<lparr>dc_embedding_image := getenv_either env ''EMBEDDING_IMAGE'' ''INFINITY_IMAGE'' (dc_embedding_image c),
        dc_model_id := getenv_either env ''EMBEDDING_MODEL_ID'' ''INFINITY_MODEL_ID'' (dc_model_id c),
        dc_collection := getenv_value env ''QDRANT_COLLECTION'' (dc_collection c) id,
        dc_theta := getenv_value env ''DSCC_THETA'' (dc_theta c) (strtof_value F),
        dc_lock_hold_ms := getenv_value env ''DSCC_LOCK_HOLD_MS'' (dc_lock_hold_ms c) atoi,
        dc_teardown_on_exit := getenv_value env ''E2E_TEARDOWN'' (dc_teardown_on_exit c) (\<lambda>v. v = ''1''),
        dc_op_interval_ms := getenv_value env ''DEMO_OP_INTERVAL_MS'' (dc_op_interval_ms c) atoi,
        dc_duration_sec := getenv_value env ''DEMO_DURATION_SEC'' (dc_duration_sec c) atoi\<rparr>)"

section \<open>HTTP\<close>

text \<open>A status line that cannot be read gives the status 0.\<close>

definition demo_http_response :: "string \<Rightarrow> HttpResponse outcome" where
  "demo_http_response raw =
     (case str_find raw (crlf @ crlf) of
        None \<Rightarrow> fail ''malformed HTTP response''
      | Some hdr_end \<Rightarrow>
          let (version, code) = parse_status_line (take hdr_end raw)
          in Inr \<lparr>http_status_code = code, http_body = drop (hdr_end + 4) raw\<rparr>)"

text \<open>As in \<open>send_http_request\<close>: the outcome, the bytes sent and the sockets left open.\<close>

definition demo_http_request ::
  "http_script \<Rightarrow> string \<Rightarrow> string \<Rightarrow> string \<Rightarrow> string \<Rightarrow> string \<Rightarrow> string
    \<Rightarrow> (HttpResponse outcome \<times> string \<times> nat) option" where
  "demo_http_request script host port verb target body content_type =
     (case hs_addresses script of
        None \<Rightarrow> Some (fail (''DNS resolution failed for '' @ host @ '':'' @ port), [], 0)
      | Some addresses \<Rightarrow>
          (case connect_loop addresses 0 of
             (False, n) \<Rightarrow> Some (fail (''connect failed for '' @ host @ '':'' @ port), [], n)
           | (True, n) \<Rightarrow> do {
               (sent, wire) \<leftarrow> send_all (bench_request_text host port verb target body content_type) (hs_sends script);
               if \<not> sent then Some (fail ''send failed'', wire, n - 1)
               else do {
                 (received, raw) \<leftarrow> recv_loop (hs_recvs script) [];
                 if \<not> received then Some (fail ''recv failed'', wire, n - 1)
                 else Some (demo_http_response raw, wire, n - 1) } }))"

section \<open>JSON\<close>

definition demo_escape_char :: "char \<Rightarrow> string" where
  "demo_escape_char c =
     (if c = CHR 0x22 then [CHR 0x5C, CHR 0x22]
      else if c = CHR 0x5C then [CHR 0x5C, CHR 0x5C]
      else if c = CHR 0x0A then [CHR 0x5C, CHR ''n'']
      else if c = CHR 0x0D then [CHR 0x5C, CHR ''r'']
      else if c = CHR 0x09 then [CHR 0x5C, CHR ''t'']
      else [c])"

definition demo_escape_json :: "string \<Rightarrow> string" where
  "demo_escape_json s = concat (map demo_escape_char s)"

text \<open>A character behind a backslash is taken as it is.\<close>

fun demo_string_loop :: "bool \<Rightarrow> string \<Rightarrow> string \<Rightarrow> string option" where
  "demo_string_loop esc val [] = None"
| "demo_string_loop esc val (ch # s) =
     (if esc then demo_string_loop False (val @ [ch]) s
      else if ch = CHR 0x5C then demo_string_loop True val s
      else if ch = CHR 0x22 then Some val
      else demo_string_loop False (val @ [ch]) s)"

text \<open>\<^verbatim>\<open>npos + 1\<close> is 0: without a colon the value is looked for from the start of the body.\<close>

definition after_colon :: "string \<Rightarrow> nat \<Rightarrow> nat" where
  "after_colon body pos = (case find_at body '':'' pos of Some colon \<Rightarrow> colon + 1 | None \<Rightarrow> 0)"

definition demo_json_string :: "string \<Rightarrow> string \<Rightarrow> string outcome" where
  "demo_json_string body key =
     (case str_find body (quoted key) of
        None \<Rightarrow> fail (''missing field: '' @ key)
      | Some kp \<Rightarrow>
          (case find_at body dq (after_colon body kp) of
             None \<Rightarrow> fail (''bad field: '' @ key)
           | Some vs \<Rightarrow>
               (case demo_string_loop False [] (drop (vs + 1) body) of
                  None \<Rightarrow> fail (''unterminated string: '' @ key)
                | Some val \<Rightarrow> Inr val)))"

definition demo_json_string_opt :: "string \<Rightarrow> string \<Rightarrow> string \<Rightarrow> string outcome" where
  "demo_json_string_opt body key def = (if str_find body (quoted key) = None then Inr def else demo_json_string body key)"

definition demo_json_int :: "string \<Rightarrow> string \<Rightarrow> int \<Rightarrow> int outcome" where
  "demo_json_int body key def =
     (case str_find body (quoted key) of
        None \<Rightarrow> Inr def
      | Some kp \<Rightarrow>
          (case find_at body '':'' kp of
             None \<Rightarrow> Inr def
           | Some colon \<Rightarrow>
               let rest = dropWhile isspace (drop (colon + 1) body);
                   sign = (if rest \<noteq> [] \<and> (hd rest = CHR ''-'' \<or> hd rest = CHR ''+'') then [hd rest] else [])
               in stoll (sign @ takeWhile isdigit (drop (length sign) rest))))"

definition demo_schedule_entry :: "string \<Rightarrow> string option" where
  "demo_schedule_entry body =
     (case str_find body (quoted ''payload_schedule'') of
        None \<Rightarrow> None
      | Some kp \<Rightarrow>
          (case find_at body ''['' kp of
             None \<Rightarrow> None
           | Some arr \<Rightarrow> first_entry_loop body (arr + 1) False False 0 None (drop (arr + 1) body)))"

definition demo_float_token :: "fpu \<Rightarrow> string \<Rightarrow> fl outcome" where
  "demo_float_token F tok = (case strtof F tok of None \<Rightarrow> fail (''bad float: '' @ tok) | Some (v, rest) \<Rightarrow> Inr v)"

fun demo_token_loop :: "fpu \<Rightarrow> string \<Rightarrow> fl list \<Rightarrow> string \<Rightarrow> fl list outcome" where
  "demo_token_loop F tok emb [] =
     (if tok \<noteq> [] then rbind (demo_float_token F tok) (\<lambda>v. Inr (emb @ [v])) else Inr emb)"
| "demo_token_loop F tok emb (ch # s) =
     (if ch = CHR '','' \<or> isspace ch then
        (if tok \<noteq> [] then rbind (demo_float_token F tok) (\<lambda>v. demo_token_loop F [] (emb @ [v]) s) else demo_token_loop F tok emb s)
      else demo_token_loop F (tok @ [ch]) emb s)"

definition demo_embedding_array :: "fpu \<Rightarrow> string \<Rightarrow> fl list outcome" where
  "demo_embedding_array F body =
     (case str_find body (quoted ''embedding'') of
        None \<Rightarrow> fail ''no embedding field in response''
      | Some kp \<Rightarrow>
          (case find_at body ''['' kp of
             None \<Rightarrow> fail ''malformed embedding''
           | Some a \<Rightarrow>
               (case array_end_loop (a + 1) 1 (drop (a + 1) body) of
                  None \<Rightarrow> fail ''unterminated embedding''
                | Some ae \<Rightarrow>
                    rbind (demo_token_loop F [] [] (take (ae - (a + 1)) (drop (a + 1) body)))
                      (\<lambda>emb. if emb = [] then fail ''empty embedding vector'' else Inr emb))))"

definition demo_qdrant_count :: "string \<Rightarrow> int outcome" where
  "demo_qdrant_count body =
     (case str_find body (quoted ''count'') of
        None \<Rightarrow> fail ''missing count''
      | Some cp \<Rightarrow> stoi (takeWhile isdigit (dropWhile isspace (drop (after_colon body cp) body))))"

section \<open>Agent templates\<close>

record AgentTemplate =
  at_label :: char
  at_source_file :: string
  at_text :: string
  at_embedding :: "fl list"
  at_is_write :: bool

definition demo_cosine_similarity :: "fpu \<Rightarrow> fl list \<Rightarrow> fl list \<Rightarrow> fl" where
  "demo_cosine_similarity F a b =
     (if a = [] \<or> b = [] \<or> length a \<noteq> length b then Fin 0
      else case bench_cosine_loop F a b (Fin 0, Fin 0, Fin 0) of (dot, na, nb) \<Rightarrow>
        if fl_le na (Fin 0) \<or> fl_le nb (Fin 0) then Fin 0
        else to_float F (fl_div F dot (fl_mul F (fl_sqrt F na) (fl_sqrt F nb))))"

definition demo_read_file :: "string \<Rightarrow> string option \<Rightarrow> string outcome" where
  "demo_read_file path contents =
     (case contents of
        None \<Rightarrow> fail (''cannot open '' @ path)
      | Some raw \<Rightarrow> Inr (rev (dropWhile (\<lambda>c. c = CHR 0x0A \<or> c = CHR 0x0D \<or> c = CHR '' '') (rev raw))))"

definition demo_template_fields :: "string \<Rightarrow> AgentTemplate \<Rightarrow> AgentTemplate outcome" where
  "demo_template_fields source t =
     rbind (demo_json_string source ''payload'') (\<lambda>text.
     rbind (demo_json_string_opt source ''operation'' ''write'') (\<lambda>op.
       Inr (t\<lparr>at_text := text, at_is_write := (op \<noteq> ''read'')\<rparr>)))"

definition demo_parse_template :: "char \<Rightarrow> string \<Rightarrow> string option \<Rightarrow> AgentTemplate outcome" where
  "demo_parse_template label path contents =
     rbind (demo_read_file path contents) (\<lambda>json.
       demo_template_fields (case demo_schedule_entry json of Some entry \<Rightarrow> entry | None \<Rightarrow> json)
         \<lparr>at_label = label, at_source_file = label # ''.json'', at_text = [], at_embedding = [], at_is_write = True\<rparr>)"

section \<open>Output\<close>

definition demo_format_float :: "fl \<Rightarrow> string" where
  "demo_format_float v = fixed_text 3 v"

definition format_elapsed :: "int \<Rightarrow> string" where
  "format_elapsed seconds = pad_zero 2 (to_string (seconds sdiv 60)) @ '':'' @ pad_zero 2 (to_string (seconds smod 60))"

definition demo_line :: "string \<Rightarrow> int \<Rightarrow> string \<Rightarrow> string \<Rightarrow> string" where
  "demo_line color seconds tag message =
     ansi ''2'' @ ''[T+'' @ format_elapsed seconds @ '']'' @ ansi ''0'' @ '' '' @ color @ ''['' @ tag @ '']'' @ ansi ''0'' @ '' '' @ message"

definition banner_lines :: "string \<Rightarrow> string list" where
  "banner_lines title =
     (let bar = ansi ''1'' @ ansi ''35'' @ replicate 72 (CHR ''='') @ ansi ''0''
      in [[], bar, ansi ''1'' @ ansi ''35'' @ ''  '' @ title @ ansi ''0'', bar, []])"

definition em_dash :: string where "em_dash = [CHR 0xE2, CHR 0x80, CHR 0x94]"

definition similarity_cell :: "fpu \<Rightarrow> fl \<Rightarrow> nat \<Rightarrow> AgentTemplate \<Rightarrow> nat \<times> AgentTemplate \<Rightarrow> string" where
  "similarity_cell F theta i a = (\<lambda>(j, b).
     let sim = demo_cosine_similarity F (at_embedding a) (at_embedding b) in
     if i \<noteq> j \<and> fl_le theta sim then ansi ''31'' @ setw 8 (demo_format_float sim) @ ansi ''0'' else setw 8 (demo_format_float sim))"

definition matrix_lines :: "fpu \<Rightarrow> fl \<Rightarrow> AgentTemplate list \<Rightarrow> string list" where
  "matrix_lines F theta templates =
     [[], ansi ''36'' @ ''  Pairwise Cosine Similarity (theta='' @ demo_format_float theta @ ''):'' @ ansi ''0'',
      replicate 9 (CHR '' '') @ concat (map (\<lambda>t. setw 8 [at_label t]) templates)]
     @ map (\<lambda>(i, a). ''    '' @ [at_label a] @ ''    '' @ concat (map (similarity_cell F theta i a) (enumerate 0 templates))) (enumerate 0 templates)
     @ [ansi ''2'' @ ''  (red = above theta, will conflict)'' @ ansi ''0'', []]"

end
