(* ===== verification/Demo.thy ===== *)
theory Demo
  imports DemoText
begin

text \<open>
  The choreographed demo (\<^verbatim>\<open>src/e2e_demo.cpp\<close>): five agent threads ask for locks again and again while the
  main thread stops and starts nodes in four phases. The threads share the log, the statistics and the
  flag that stops them. Between any two steps of the main thread the agents' threads take turns, in an
  order the machine chooses; a thread's turn is one step of \<open>worker_step\<close>. What the threads do while the
  main thread waits in a call counts as before or after the call.
\<close>

section \<open>The machine and the shared state\<close>

text \<open>
  \<open>mo_call\<close> starts the \<^verbatim>\<open>AcquireGuard\<close> call of a thread. \<open>mo_turns\<close> lets time pass and says which threads go
  next, and what the lock service has answered to one that is in a call.
\<close>

record 'w demo_ops =
  mo_run :: "'w run_ops"
  mo_system :: "string \<Rightarrow> 'w \<Rightarrow> ('w \<times> int) option"
  mo_call :: "nat \<Rightarrow> AcquireRequest \<Rightarrow> 'w \<Rightarrow> 'w"
  mo_turns :: "'w \<Rightarrow> 'w \<times> (nat \<times> Status \<times> AcquireResponse) list"

abbreviation mo_bench :: "'w demo_ops \<Rightarrow> 'w bench_ops" where
  "mo_bench ops \<equiv> ro_bench (mo_run ops)"

record WorkloadStats =
  ws_total_ops :: int
  ws_successful_ops :: int
  ws_failed_ops :: int
  ws_blocked_ops :: int
  ws_total_wait_ms :: int
  ws_max_wait_ms :: int
  ws_total_rpc_ms :: int

definition new_WorkloadStats :: WorkloadStats where
  "new_WorkloadStats = \<lparr>ws_total_ops = 0, ws_successful_ops = 0, ws_failed_ops = 0, ws_blocked_ops = 0, ws_total_wait_ms = 0,
     ws_max_wait_ms = 0, ws_total_rpc_ms = 0\<rparr>"

definition record_op :: "bool \<Rightarrow> int \<Rightarrow> int \<Rightarrow> bool \<Rightarrow> WorkloadStats \<Rightarrow> WorkloadStats" where
  "record_op success wait_ms rpc_ms was_blocked st =
     st\<lparr>ws_total_ops := ws_total_ops st + 1,
        ws_successful_ops := (if success then ws_successful_ops st + 1 else ws_successful_ops st),
        ws_failed_ops := (if success then ws_failed_ops st else ws_failed_ops st + 1),
        ws_blocked_ops := (if was_blocked then ws_blocked_ops st + 1 else ws_blocked_ops st),
        ws_total_wait_ms := ws_total_wait_ms st + wait_ms,
        ws_max_wait_ms := max (ws_max_wait_ms st) wait_ms,
        ws_total_rpc_ms := ws_total_rpc_ms st + rpc_ms\<rparr>"

definition summary_lines :: "string \<Rightarrow> WorkloadStats \<Rightarrow> string list" where
  "summary_lines label st =
     [[], ansi ''36'' @ ''  --- '' @ label @ '' Stats ---'' @ ansi ''0'',
      ''  Total ops:      '' @ to_string (ws_total_ops st), ''  Successful:     '' @ to_string (ws_successful_ops st),
      ''  Failed:         '' @ to_string (ws_failed_ops st), ''  Blocked (wait): '' @ to_string (ws_blocked_ops st)]
     @ (if ws_total_ops st > 0
        then [''  Avg wait:       '' @ to_string (ws_total_wait_ms st sdiv ws_total_ops st) @ ''ms'',
              ''  Max wait:       '' @ to_string (ws_max_wait_ms st) @ ''ms'',
              ''  Avg RPC:        '' @ to_string (ws_total_rpc_ms st sdiv ws_total_ops st) @ ''ms'']
        else [])
     @ [[]]"

text \<open>Where a thread stands in the loop of \<^verbatim>\<open>workload_thread\<close>.\<close>

datatype worker_at =
    AtLoop | AtRequest | InCall int | AtRecord Status AcquireResponse int | AtLog Status AcquireResponse int
  | AtWrite string | Asleep int | Returned

record worker =
  wk_template :: AgentTemplate
  wk_interval_ms :: int
  wk_seq :: int
  wk_at :: worker_at

text \<open>\<open>dm_held\<close>: the main thread holds the mutex of the statistics.\<close>

record 'w demo_state =
  dm_world :: 'w
  dm_stack_started :: bool
  dm_start :: int
  dm_log :: "string list"
  dm_stop :: bool
  dm_held :: bool
  dm_stats :: WorkloadStats
  dm_workers :: "worker list"

section \<open>An agent's thread\<close>

definition worker_request :: "AgentTemplate \<Rightarrow> int \<Rightarrow> int \<Rightarrow> AcquireRequest" where
  "worker_request tmpl seq unix_ms =
     \<lparr>rq_agent_id = ''demo-agent-'' @ [at_label tmpl] @ ''-'' @ to_string seq, rq_embedding = at_embedding tmpl,
      rq_payload_text = at_text tmpl, rq_source_file = at_source_file tmpl, rq_timestamp_unix_ms = unix_ms,
      rq_operation_type = (if at_is_write tmpl then OPERATION_TYPE_WRITE else OPERATION_TYPE_READ)\<rparr>"

definition call_succeeded :: "Status \<Rightarrow> AcquireResponse \<Rightarrow> bool" where
  "call_succeeded status resp \<longleftrightarrow> status_ok status \<and> rs_granted resp"

definition worker_line :: "AgentTemplate \<Rightarrow> int \<Rightarrow> Status \<Rightarrow> AcquireResponse \<Rightarrow> int \<Rightarrow> int \<Rightarrow> string" where
  "worker_line tmpl seq status resp rpc_ms seconds =
     (let head = ''Agent '' @ [at_label tmpl] @ '' '' @ (if at_is_write tmpl then ''write'' else ''read'') @ '' #'' @ to_string seq in
      if call_succeeded status resp then
        let msg = head @ '' granted on '' @ rs_serving_node_id resp @ '' | wait='' @ to_string (rs_lock_wait_ms resp) @ ''ms rpc=''
              @ to_string rpc_ms @ ''ms'' in
        if rs_lock_wait_ms resp > 0
        then demo_line (ansi ''33'') seconds ''LOCK'' (msg @ '' blocked_by='' @ rs_blocking_agent_id resp @ '' sim=''
          @ demo_format_float (rs_blocking_similarity_score resp))
        else demo_line (ansi ''32'') seconds ''OK'' msg
      else demo_line (ansi ''31'') seconds ''FAIL'' (head @ '' FAILED''
        @ (if \<not> status_ok status then '' gRPC='' @ st_message status else '' denied: '' @ rs_message resp)))"

definition elapsed_seconds :: "int \<Rightarrow> int \<Rightarrow> int" where
  "elapsed_seconds start now = (now - start) sdiv 1000"

definition set_worker :: "nat \<Rightarrow> worker \<Rightarrow> 'w demo_state \<Rightarrow> 'w demo_state" where
  "set_worker i wk s = s\<lparr>dm_workers := (dm_workers s)[i := wk]\<rparr>"

text \<open>
  One step of thread \<open>i\<close>: it looks at the flag, starts a call, is answered, records the call (when the
  mutex is free), makes its line, writes it, or sleeps.
\<close>

definition worker_step :: "'w demo_ops \<Rightarrow> nat \<Rightarrow> Status \<Rightarrow> AcquireResponse \<Rightarrow> 'w demo_state \<Rightarrow> 'w demo_state" where
  "worker_step ops i status resp s =
     (let wk = dm_workers s ! i; (w1, now) = bw_now (mo_bench ops) (dm_world s); s1 = s\<lparr>dm_world := w1\<rparr> in
      case wk_at wk of
        AtLoop \<Rightarrow> set_worker i (wk\<lparr>wk_at := (if dm_stop s then Returned else AtRequest)\<rparr>) s
      | AtRequest \<Rightarrow>
          let (w2, unix_ms) = ro_unix_ms (mo_run ops) (dm_world s); (w3, t0) = bw_now (mo_bench ops) w2 in
          set_worker i (wk\<lparr>wk_seq := wk_seq wk + 1, wk_at := InCall t0\<rparr>)
            (s\<lparr>dm_world := mo_call ops i (worker_request (wk_template wk) (wk_seq wk) unix_ms) w3\<rparr>)
      | InCall t0 \<Rightarrow> set_worker i (wk\<lparr>wk_at := AtRecord status resp (now - t0)\<rparr>) s1
      | AtRecord st r rpc_ms \<Rightarrow>
          if dm_held s then s
          else set_worker i (wk\<lparr>wk_at := AtLog st r rpc_ms\<rparr>)
            (s\<lparr>dm_stats := record_op (call_succeeded st r) (rs_lock_wait_ms r) rpc_ms (rs_lock_wait_ms r > 0) (dm_stats s)\<rparr>)
      | AtLog st r rpc_ms \<Rightarrow>
          set_worker i (wk\<lparr>wk_at := AtWrite (worker_line (wk_template wk) (wk_seq wk) st r rpc_ms (elapsed_seconds (dm_start s) now))\<rparr>) s1
      | AtWrite line \<Rightarrow> set_worker i (wk\<lparr>wk_at := Asleep (now + wk_interval_ms wk)\<rparr>) (s1\<lparr>dm_log := dm_log s @ [line]\<rparr>)
      | Asleep wake \<Rightarrow> if wake \<le> now then set_worker i (wk\<lparr>wk_at := AtLoop\<rparr>) s1 else s1
      | Returned \<Rightarrow> s)"

definition worker_turn :: "'w demo_ops \<Rightarrow> nat \<times> Status \<times> AcquireResponse \<Rightarrow> 'w demo_state \<Rightarrow> 'w demo_state" where
  "worker_turn ops = (\<lambda>(i, status, resp) s. if i < length (dm_workers s) then worker_step ops i status resp s else s)"

definition other_threads :: "'w demo_ops \<Rightarrow> 'w demo_state \<Rightarrow> 'w demo_state" where
  "other_threads ops s = (let (w1, turns) = mo_turns ops (dm_world s) in fold (worker_turn ops) turns (s\<lparr>dm_world := w1\<rparr>))"

section \<open>Steps of the main thread\<close>

definition demo_update :: "'w demo_ops \<Rightarrow> ('w demo_state \<Rightarrow> 'w demo_state) \<Rightarrow> ('w demo_state, unit) io" where
  "demo_update ops f = io_modify (\<lambda>s. f (other_threads ops s))"

definition demo_world :: "'w demo_ops \<Rightarrow> ('w, 'a) io \<Rightarrow> ('w demo_state, 'a) io" where
  "demo_world ops m s =
     (let s1 = other_threads ops s in map_option (\<lambda>(w, r). (s1\<lparr>dm_world := w\<rparr>, r)) (m (dm_world s1)))"

definition demo_get :: "'w demo_ops \<Rightarrow> ('w \<Rightarrow> 'w \<times> 'a) \<Rightarrow> ('w demo_state, 'a) io" where
  "demo_get ops f = demo_world ops (\<lambda>w. let (w1, x) = f w in Some (w1, Inr x))"

definition demo_call :: "'w demo_ops \<Rightarrow> ('w \<Rightarrow> ('w \<times> 'a) option) \<Rightarrow> ('w demo_state, 'a) io" where
  "demo_call ops f = demo_world ops (\<lambda>w. map_option (\<lambda>(w1, x). (w1, Inr x)) (f w))"

definition demo_now :: "'w demo_ops \<Rightarrow> ('w demo_state, int) io" where
  "demo_now ops = demo_get ops (bw_now (mo_bench ops))"

definition demo_sleep :: "'w demo_ops \<Rightarrow> int \<Rightarrow> ('w demo_state, unit) io" where
  "demo_sleep ops ms = demo_get ops (\<lambda>w. (bw_sleep (mo_bench ops) ms w, ()))"

definition demo_put :: "'w demo_ops \<Rightarrow> string \<Rightarrow> ('w demo_state, unit) io" where
  "demo_put ops line = demo_update ops (\<lambda>s. s\<lparr>dm_log := dm_log s @ [line]\<rparr>)"

fun demo_puts :: "'w demo_ops \<Rightarrow> string list \<Rightarrow> ('w demo_state, unit) io" where
  "demo_puts ops [] = io_lift (Inr ())"
| "demo_puts ops (line # lines) = io_bind (demo_put ops line) (\<lambda>_. demo_puts ops lines)"

text \<open>The line carries the time at which it was made, which may be before that of the line above it.\<close>

definition demo_log :: "'w demo_ops \<Rightarrow> string \<Rightarrow> string \<Rightarrow> string \<Rightarrow> ('w demo_state, unit) io" where
  "demo_log ops color tag message =
     io_bind (demo_now ops) (\<lambda>now s. demo_put ops (demo_line (ansi color) (elapsed_seconds (dm_start s) now) tag message) s)"

definition demo_info :: "'w demo_ops \<Rightarrow> string \<Rightarrow> ('w demo_state, unit) io" where "demo_info ops = demo_log ops ''34'' ''INFO''"

definition demo_ok :: "'w demo_ops \<Rightarrow> string \<Rightarrow> ('w demo_state, unit) io" where "demo_ok ops = demo_log ops ''32'' ''OK''"

definition demo_fail :: "'w demo_ops \<Rightarrow> string \<Rightarrow> ('w demo_state, unit) io" where "demo_fail ops = demo_log ops ''31'' ''FAIL''"

definition phase_log :: "'w demo_ops \<Rightarrow> string \<Rightarrow> ('w demo_state, unit) io" where "phase_log ops = demo_log ops ''35'' ''PHASE''"

definition chaos :: "'w demo_ops \<Rightarrow> string \<Rightarrow> ('w demo_state, unit) io" where "chaos ops = demo_log ops ''31'' ''CHAOS''"

definition recover :: "'w demo_ops \<Rightarrow> string \<Rightarrow> ('w demo_state, unit) io" where "recover ops = demo_log ops ''32'' ''RECOVER''"

definition raft_log :: "'w demo_ops \<Rightarrow> string \<Rightarrow> ('w demo_state, unit) io" where "raft_log ops = demo_log ops ''36'' ''RAFT''"

definition banner :: "'w demo_ops \<Rightarrow> string \<Rightarrow> ('w demo_state, unit) io" where
  "banner ops title = demo_puts ops (banner_lines title)"

definition print_summary :: "'w demo_ops \<Rightarrow> string \<Rightarrow> ('w demo_state, unit) io" where
  "print_summary ops label =
     io_bind (demo_update ops (\<lambda>s. s\<lparr>dm_held := True\<rparr>)) (\<lambda>_.
     io_bind (\<lambda>s. demo_puts ops (summary_lines label (dm_stats s)) s) (\<lambda>_.
       demo_update ops (\<lambda>s. s\<lparr>dm_held := False\<rparr>)))"

section \<open>Commands and services\<close>

definition demo_compose_command :: "DemoConfig \<Rightarrow> string \<Rightarrow> string" where
  "demo_compose_command cfg args = ''cd '' @ shell_quote (dc_project_root cfg) @ '' && docker compose '' @ args"

definition demo_run_shell :: "'w demo_ops \<Rightarrow> string \<Rightarrow> ('w demo_state, int) io" where
  "demo_run_shell ops cmd = demo_call ops (mo_system ops cmd)"

definition compose_cmd :: "'w demo_ops \<Rightarrow> DemoConfig \<Rightarrow> string \<Rightarrow> ('w demo_state, unit) io" where
  "compose_cmd ops cfg args =
     io_bind (demo_run_shell ops (demo_compose_command cfg args)) (\<lambda>code.
       io_lift (if code \<noteq> 0 then fail (''docker compose failed: '' @ args) else Inr ()))"

definition demo_http :: "'w demo_ops \<Rightarrow> string \<Rightarrow> string \<Rightarrow> string \<Rightarrow> string \<Rightarrow> string \<Rightarrow> ('w demo_state, HttpResponse) io" where
  "demo_http ops host port verb target body = demo_world ops (bw_http (mo_bench ops) host port verb target body)"

definition demo_get_leader :: "'w demo_ops \<Rightarrow> string \<Rightarrow> ('w demo_state, Status \<times> LeaderInfo) io" where
  "demo_get_leader ops target = demo_call ops (bw_get_leader (mo_bench ops) target)"

record DemoLeader =
  dl_address :: string
  dl_node_id :: string
  dl_service_name :: string
  dl_term :: int

definition service_for_node_id :: "string \<Rightarrow> string" where
  "service_for_node_id nid = (if \<not> prefix ''node-'' nid then [] else ''dscc-'' @ nid)"

definition demo_leader :: "LeaderInfo \<Rightarrow> DemoLeader" where
  "demo_leader resp = \<lparr>dl_address = li_leader_address resp, dl_node_id = li_leader_id resp,
     dl_service_name = service_for_node_id (li_leader_id resp), dl_term = li_current_term resp\<rparr>"

fun demo_discover :: "'w demo_ops \<Rightarrow> string list \<Rightarrow> ('w demo_state, DemoLeader option) io" where
  "demo_discover ops [] = io_lift (Inr None)"
| "demo_discover ops (target # targets) =
     io_bind (demo_get_leader ops target) (\<lambda>(st, resp).
       if status_ok st \<and> (li_is_leader resp \<or> li_leader_address resp \<noteq> []) then io_lift (Inr (Some (demo_leader resp)))
       else demo_discover ops targets)"

text \<open>One round of a wait with a deadline: the result, or a pause of 200 ms.\<close>

definition demo_attempt ::
  "'w demo_ops \<Rightarrow> int \<Rightarrow> exn \<Rightarrow> ('w demo_state, 'a option) io \<Rightarrow> ('w demo_state, 'a option) io" where
  "demo_attempt ops deadline timeout_error attempt =
     io_bind (demo_now ops) (\<lambda>now.
       if now < deadline
       then io_bind attempt (\<lambda>found. case found of
              Some x \<Rightarrow> io_lift (Inr (Some x))
            | None \<Rightarrow> io_bind (demo_sleep ops 200) (\<lambda>_. io_lift (Inr None)))
       else io_lift (Inl timeout_error))"

partial_function (option) demo_until ::
  "'w demo_ops \<Rightarrow> int \<Rightarrow> exn \<Rightarrow> ('w demo_state, 'a option) io \<Rightarrow> 'w demo_state \<Rightarrow> ('w demo_state \<times> 'a outcome) option" where
  "demo_until ops deadline timeout_error attempt s =
     (case demo_attempt ops deadline timeout_error attempt s of
        None \<Rightarrow> None
      | Some (s1, Inl e) \<Rightarrow> Some (s1, Inl e)
      | Some (s1, Inr (Some x)) \<Rightarrow> Some (s1, Inr x)
      | Some (s1, Inr None) \<Rightarrow> demo_until ops deadline timeout_error attempt s1)"

definition leader_accepted :: "string \<Rightarrow> DemoLeader option \<Rightarrow> DemoLeader option" where
  "leader_accepted different_from obs =
     (case obs of
        None \<Rightarrow> None
      | Some l \<Rightarrow> if dl_address l \<noteq> [] \<and> (different_from = [] \<or> dl_address l \<noteq> different_from) then Some l else None)"

definition demo_wait_for_leader :: "'w demo_ops \<Rightarrow> DemoConfig \<Rightarrow> int \<Rightarrow> string \<Rightarrow> ('w demo_state, DemoLeader) io" where
  "demo_wait_for_leader ops cfg timeout_sec different_from =
     io_bind (demo_now ops) (\<lambda>now.
       demo_until ops (now + timeout_sec * 1000) (RuntimeError ''timed out waiting for leader'')
         (io_bind (demo_discover ops (dc_node_targets cfg)) (\<lambda>obs. io_lift (Inr (leader_accepted different_from obs)))))"

definition wait_for_node_ready :: "'w demo_ops \<Rightarrow> string \<Rightarrow> int \<Rightarrow> ('w demo_state, unit) io" where
  "wait_for_node_ready ops target timeout_sec =
     io_bind (demo_now ops) (\<lambda>now.
       demo_until ops (now + timeout_sec * 1000) (RuntimeError (''node '' @ target @ '' not ready''))
         (io_bind (demo_get_leader ops target) (\<lambda>(st, resp). io_lift (Inr (if status_ok st then Some () else None)))))"

section \<open>The cluster and Qdrant\<close>

record NodeHealth =
  nh_service_name :: string
  nh_target :: string
  nh_reachable :: bool
  nh_is_leader :: bool
  nh_term :: int

definition node_health :: "string \<Rightarrow> string \<Rightarrow> Status \<times> LeaderInfo \<Rightarrow> NodeHealth" where
  "node_health target service = (\<lambda>(st, resp).
     \<lparr>nh_service_name = service, nh_target = target, nh_reachable = status_ok st,
      nh_is_leader = (status_ok st \<and> li_is_leader resp), nh_term = (if status_ok st then li_current_term resp else 0)\<rparr>)"

fun poll_nodes :: "'w demo_ops \<Rightarrow> (string \<times> string) list \<Rightarrow> ('w demo_state, NodeHealth list) io" where
  "poll_nodes ops [] = io_lift (Inr [])"
| "poll_nodes ops ((target, service) # nodes) =
     io_bind (demo_get_leader ops target) (\<lambda>answer.
     io_bind (poll_nodes ops nodes) (\<lambda>healths. io_lift (Inr (node_health target service answer # healths))))"

definition poll_cluster :: "'w demo_ops \<Rightarrow> DemoConfig \<Rightarrow> ('w demo_state, NodeHealth list) io" where
  "poll_cluster ops cfg = poll_nodes ops (zip (dc_node_targets cfg) (dc_node_service_names cfg))"

definition health_text :: "NodeHealth \<Rightarrow> string" where
  "health_text n =
     (if nh_is_leader n
      then ansi ''42'' @ ansi ''1'' @ '' '' @ nh_service_name n @ '' [LEADER t'' @ to_string (nh_term n) @ ''] '' @ ansi ''0'' @ '' ''
      else if nh_reachable n
      then ansi ''32'' @ nh_service_name n @ '' [ok t'' @ to_string (nh_term n) @ '']'' @ ansi ''0'' @ '' ''
      else ansi ''31'' @ nh_service_name n @ '' [DOWN]'' @ ansi ''0'' @ '' '')"

definition print_cluster_status :: "'w demo_ops \<Rightarrow> DemoConfig \<Rightarrow> ('w demo_state, unit) io" where
  "print_cluster_status ops cfg =
     io_bind (poll_cluster ops cfg) (\<lambda>nodes. demo_log ops ''36'' ''CLUSTER'' (''Cluster: '' @ concat (map health_text nodes)))"

definition demo_point_count :: "'w demo_ops \<Rightarrow> DemoConfig \<Rightarrow> ('w demo_state, int) io" where
  "demo_point_count ops cfg =
     io_bind (demo_http ops (dc_qdrant_host cfg) (dc_qdrant_port cfg) ''POST'' (''/collections/'' @ dc_collection cfg @ ''/points/count'')
       (CHR 0x7B # quoted ''exact'' @ '':true'' @ [CHR 0x7D])) (\<lambda>resp.
       io_lift (if http_status_code resp \<noteq> 200 then Inr (- 1) else demo_qdrant_count (http_body resp)))"

definition demo_reset_collection :: "'w demo_ops \<Rightarrow> DemoConfig \<Rightarrow> nat \<Rightarrow> ('w demo_state, unit) io" where
  "demo_reset_collection ops cfg vector_size =
     io_bind (demo_http ops (dc_qdrant_host cfg) (dc_qdrant_port cfg) ''DELETE'' (''/collections/'' @ dc_collection cfg) []) (\<lambda>_.
     io_bind (demo_http ops (dc_qdrant_host cfg) (dc_qdrant_port cfg) ''PUT'' (''/collections/'' @ dc_collection cfg)
       (CHR 0x7B # quoted ''vectors'' @ '':'' @ [CHR 0x7B] @ quoted ''size'' @ '':'' @ nat_to_string vector_size @ '',''
          @ quoted ''distance'' @ '':'' @ quoted ''Cosine'' @ [CHR 0x7D, CHR 0x7D])) (\<lambda>resp.
       io_lift (if http_status_code resp \<notin> {200, 201, 409}
         then fail (''failed to create collection: '' @ to_string (http_status_code resp)) else Inr ())))"

end
