(* ===== verification/DemoRun.thy ===== *)
theory DemoRun
  imports Demo
begin

text \<open>
  How the demo runs (\<^verbatim>\<open>src/e2e_demo.cpp\<close>, \<^verbatim>\<open>load_template\<close>, \<^verbatim>\<open>set_compose_env\<close> to \<^verbatim>\<open>ensure_model\<close>, the phases and
  \<^verbatim>\<open>main\<close>): the stack, the four phases, the loop that starts them when their time has come, and the joins.
\<close>

section \<open>The stack\<close>

definition demo_environment :: "'w demo_ops \<Rightarrow> DemoConfig \<Rightarrow> 'w \<Rightarrow> 'w" where
  "demo_environment ops cfg w =
     fold (\<lambda>(key, v). ro_setenv (mo_run ops) key v)
       [(''EMBEDDING_IMAGE'', dc_embedding_image cfg), (''EMBEDDING_MODEL_ID'', dc_model_id cfg),
        (''INFINITY_IMAGE'', dc_embedding_image cfg), (''INFINITY_MODEL_ID'', dc_model_id cfg),
        (''QDRANT_COLLECTION'', dc_collection cfg), (''DSCC_THETA'', fixed_text 2 (dc_theta cfg)),
        (''DSCC_LOCK_HOLD_MS'', to_string (dc_lock_hold_ms cfg))] w"

definition demo_up_args :: string where
  "demo_up_args = ''up -d --build qdrant embedding-service dscc-node-1 dscc-node-2 dscc-node-3 dscc-node-4 dscc-node-5 dscc-proxy''"

definition start_stack :: "'w demo_ops \<Rightarrow> DemoConfig \<Rightarrow> ('w demo_state, unit) io" where
  "start_stack ops cfg =
     io_bind (demo_get ops (\<lambda>w. (demo_environment ops cfg w, ()))) (\<lambda>_. compose_cmd ops cfg demo_up_args)"

definition demo_stop_stack :: "'w demo_ops \<Rightarrow> DemoConfig \<Rightarrow> ('w demo_state, unit) io" where
  "demo_stop_stack ops cfg = io_bind (demo_run_shell ops (demo_compose_command cfg ''down'')) (\<lambda>code. io_lift (Inr ()))"

text \<open>The arguments count the attempts that are left.\<close>

fun wait_for_qdrant :: "'w demo_ops \<Rightarrow> DemoConfig \<Rightarrow> nat \<Rightarrow> ('w demo_state, unit) io" where
  "wait_for_qdrant ops cfg 0 = io_lift (fail ''Qdrant not ready'')"
| "wait_for_qdrant ops cfg (Suc left) =
     io_bind (attempt_of (demo_http ops (dc_qdrant_host cfg) (dc_qdrant_port cfg) ''GET'' ''/collections'' [])) (\<lambda>r.
       if (case r of Some resp \<Rightarrow> http_status_code resp \<ge> 200 \<and> http_status_code resp < 300 | None \<Rightarrow> False)
       then demo_info ops ''Qdrant ready''
       else io_bind (demo_sleep ops 2000) (\<lambda>_. wait_for_qdrant ops cfg left))"

fun try_endpoints :: "'w demo_ops \<Rightarrow> DemoConfig \<Rightarrow> string list \<Rightarrow> ('w demo_state, bool) io" where
  "try_endpoints ops cfg [] = io_lift (Inr False)"
| "try_endpoints ops cfg (ep # endpoints) =
     io_bind (attempt_of (demo_http ops (dc_embedding_host cfg) (dc_embedding_port cfg) ''GET'' ep [])) (\<lambda>r.
       if (case r of Some resp \<Rightarrow> http_status_code resp \<ge> 200 \<and> http_status_code resp < 300 | None \<Rightarrow> False)
       then io_bind (demo_info ops ''Embedding service ready'') (\<lambda>_. io_lift (Inr True))
       else try_endpoints ops cfg endpoints)"

fun wait_for_embedding :: "'w demo_ops \<Rightarrow> DemoConfig \<Rightarrow> nat \<Rightarrow> ('w demo_state, unit) io" where
  "wait_for_embedding ops cfg 0 = io_lift (fail ''embedding service not ready'')"
| "wait_for_embedding ops cfg (Suc left) =
     io_bind (try_endpoints ops cfg [''/api/tags'', ''/v1/models'', ''/'']) (\<lambda>ready.
       if ready then io_lift (Inr ())
       else io_bind (if (180 - Suc left) mod 10 = 0 then demo_info ops ''Waiting for embedding service...'' else io_lift (Inr ())) (\<lambda>_.
            io_bind (demo_sleep ops 2000) (\<lambda>_. wait_for_embedding ops cfg left)))"

definition ensure_model :: "'w demo_ops \<Rightarrow> DemoConfig \<Rightarrow> ('w demo_state, unit) io" where
  "ensure_model ops cfg =
     io_bind (demo_info ops (''Pulling model '' @ dc_model_id cfg @ ''...'')) (\<lambda>_.
     io_bind (demo_http ops (dc_embedding_host cfg) (dc_embedding_port cfg) ''POST'' ''/api/pull''
       (CHR 0x7B # quoted ''model'' @ '':'' @ quoted (demo_escape_json (dc_model_id cfg)) @ '','' @ quoted ''stream'' @ '':false'' @ [CHR 0x7D])) (\<lambda>r.
       if http_status_code r \<noteq> 200 then io_lift (fail (''model pull failed: '' @ to_string (http_status_code r)))
       else demo_ok ops ''Model ready''))"

fun wait_for_proxy :: "'w demo_ops \<Rightarrow> DemoConfig \<Rightarrow> nat \<Rightarrow> ('w demo_state, unit) io" where
  "wait_for_proxy ops cfg 0 = io_lift (fail ''proxy not ready'')"
| "wait_for_proxy ops cfg (Suc left) =
     io_bind (demo_call ops (bw_ping (mo_bench ops) (dc_dscc_target cfg) ''e2e-demo'')) (\<lambda>status.
       if status_ok status then demo_info ops ''Proxy reachable''
       else io_bind (demo_sleep ops 1000) (\<lambda>_. wait_for_proxy ops cfg left))"

section \<open>Templates\<close>

definition demo_load_template :: "'w demo_ops \<Rightarrow> DemoConfig \<Rightarrow> char \<Rightarrow> ('w demo_state, AgentTemplate) io" where
  "demo_load_template ops cfg label =
     (let path = path_append (dc_input_dir cfg) (label # ''.json'') in
      io_bind (demo_get ops (bw_exists (mo_bench ops) path)) (\<lambda>present.
      io_bind (io_lift (if present then Inr () else fail (''missing '' @ path))) (\<lambda>_.
      io_bind (demo_get ops (bw_read (mo_bench ops) path)) (\<lambda>contents. io_lift (demo_parse_template label path contents)))))"

definition demo_request_embedding :: "fpu \<Rightarrow> 'w demo_ops \<Rightarrow> DemoConfig \<Rightarrow> string \<Rightarrow> ('w demo_state, fl list) io" where
  "demo_request_embedding F ops cfg text =
     io_bind (demo_http ops (dc_embedding_host cfg) (dc_embedding_port cfg) ''POST'' ''/v1/embeddings''
       (CHR 0x7B # quoted ''model'' @ '':'' @ quoted (demo_escape_json (dc_model_id cfg)) @ '','' @ quoted ''input'' @ '':''
          @ quoted (demo_escape_json text) @ [CHR 0x7D])) (\<lambda>resp.
       io_lift (if http_status_code resp \<noteq> 200 then fail (''embedding failed: status '' @ to_string (http_status_code resp))
                else demo_embedding_array F (http_body resp)))"

fun load_templates_of :: "fpu \<Rightarrow> 'w demo_ops \<Rightarrow> DemoConfig \<Rightarrow> char list \<Rightarrow> ('w demo_state, AgentTemplate list) io" where
  "load_templates_of F ops cfg [] = io_lift (Inr [])"
| "load_templates_of F ops cfg (l # labels) =
     io_bind (demo_load_template ops cfg l) (\<lambda>t.
     io_bind (demo_info ops (''Embedding '' @ at_source_file t @ ''...'')) (\<lambda>_.
     io_bind (demo_request_embedding F ops cfg (at_text t)) (\<lambda>embedding.
     io_bind (demo_info ops (''  '' @ at_source_file t @ '': dim='' @ nat_to_string (length embedding) @ '' op=''
       @ (if at_is_write t then ''write'' else ''read''))) (\<lambda>_.
     io_bind (load_templates_of F ops cfg labels) (\<lambda>templates. io_lift (Inr (t\<lparr>at_embedding := embedding\<rparr> # templates)))))))"

section \<open>The phases\<close>

definition phase_steady_state :: "'w demo_ops \<Rightarrow> DemoConfig \<Rightarrow> ('w demo_state, unit) io" where
  "phase_steady_state ops cfg =
     io_bind (banner ops ''PHASE 1: STEADY-STATE OPERATION'') (\<lambda>_.
     io_bind (phase_log ops ''All 5 nodes healthy. Continuous workload running.'') (\<lambda>_.
     io_bind (phase_log ops ''Observe: semantic conflicts cause serialization, distinct requests run in parallel.'') (\<lambda>_.
       print_cluster_status ops cfg)))"

definition leader_text :: "string \<Rightarrow> DemoLeader \<Rightarrow> string" where
  "leader_text intro l = intro @ dl_service_name l @ '' (term '' @ to_string (dl_term l) @ '')''"

definition phase_leader_kill :: "'w demo_ops \<Rightarrow> DemoConfig \<Rightarrow> ('w demo_state, unit) io" where
  "phase_leader_kill ops cfg =
     io_bind (banner ops ''PHASE 2: LEADER FAILOVER'') (\<lambda>_.
     io_bind (demo_wait_for_leader ops cfg 8 []) (\<lambda>leader.
     io_bind (chaos ops (leader_text ''Killing current leader: '' leader)) (\<lambda>_.
     io_bind (print_cluster_status ops cfg) (\<lambda>_.
     io_bind (compose_cmd ops cfg (''stop '' @ dl_service_name leader)) (\<lambda>_.
     io_bind (chaos ops (dl_service_name leader @ '' stopped. Workload continues against proxy...'')) (\<lambda>_.
     io_bind (print_cluster_status ops cfg) (\<lambda>_.
     io_bind (phase_log ops ''Waiting for new leader election...'') (\<lambda>_.
     io_bind (demo_wait_for_leader ops cfg 15 (dl_address leader)) (\<lambda>new_leader.
     io_bind (recover ops (leader_text ''New leader elected: '' new_leader)) (\<lambda>_.
     io_bind (print_cluster_status ops cfg) (\<lambda>_.
       print_summary ops ''Post-Failover'')))))))))))"

text \<open>The first node that did not answer; if all did, node 5, which is stopped.\<close>

definition choose_down :: "'w demo_ops \<Rightarrow> DemoConfig \<Rightarrow> NodeHealth list \<Rightarrow> ('w demo_state, string \<times> string) io" where
  "choose_down ops cfg nodes =
     (let (down_service, down_target) = (case List.find (\<lambda>n. \<not> nh_reachable n) nodes of
            Some n \<Rightarrow> (nh_service_name n, nh_target n) | None \<Rightarrow> ([], [])) in
      if down_service = [] then
        io_bind (phase_log ops ''All nodes already up; restarting node-5 for demonstration.'') (\<lambda>_.
        io_bind (compose_cmd ops cfg (''stop '' @ ''dscc-node-5'')) (\<lambda>_.
        io_bind (demo_sleep ops 2000) (\<lambda>_. io_lift (Inr (''dscc-node-5'', ''127.0.0.1:50055'')))))
      else io_lift (Inr (down_service, down_target)))"

definition phase_old_leader_rejoin :: "'w demo_ops \<Rightarrow> DemoConfig \<Rightarrow> ('w demo_state, unit) io" where
  "phase_old_leader_rejoin ops cfg =
     io_bind (banner ops ''PHASE 3: NODE RECOVERY & LOG CATCH-UP'') (\<lambda>_.
     io_bind (poll_cluster ops cfg) (\<lambda>nodes.
     io_bind (choose_down ops cfg nodes) (\<lambda>(down_service, down_target).
     io_bind (recover ops (''Restarting '' @ down_service @ ''...'')) (\<lambda>_.
     io_bind (compose_cmd ops cfg (''start '' @ down_service)) (\<lambda>_.
     io_bind (wait_for_node_ready ops down_target 15) (\<lambda>_.
     io_bind (recover ops (down_service @ '' rejoined the cluster and is catching up on Raft log.'')) (\<lambda>_.
     io_bind (print_cluster_status ops cfg) (\<lambda>_.
     io_bind (demo_sleep ops 3000) (\<lambda>_.
     io_bind (print_cluster_status ops cfg) (\<lambda>_.
       print_summary ops ''Post-Recovery''))))))))))"

definition reachable_followers :: "NodeHealth list \<Rightarrow> string list" where
  "reachable_followers nodes = map nh_service_name (filter (\<lambda>n. nh_reachable n \<and> \<not> nh_is_leader n) nodes)"

definition stop_follower :: "'w demo_ops \<Rightarrow> DemoConfig \<Rightarrow> string \<Rightarrow> string \<Rightarrow> string \<Rightarrow> ('w demo_state, unit) io" where
  "stop_follower ops cfg number left service =
     io_bind (chaos ops (''Stopping follower #'' @ number @ '': '' @ service @ ''  ->  '' @ left)) (\<lambda>_.
       compose_cmd ops cfg (''stop '' @ service))"

fun watch_halted :: "'w demo_ops \<Rightarrow> DemoConfig \<Rightarrow> nat \<Rightarrow> ('w demo_state, unit) io" where
  "watch_halted ops cfg 0 = io_lift (Inr ())"
| "watch_halted ops cfg (Suc n) =
     io_bind (demo_sleep ops 5000) (\<lambda>_. io_bind (print_cluster_status ops cfg) (\<lambda>_. watch_halted ops cfg n))"

definition collapse_quorum :: "'w demo_ops \<Rightarrow> DemoConfig \<Rightarrow> DemoLeader \<Rightarrow> string \<Rightarrow> string \<Rightarrow> string \<Rightarrow> ('w demo_state, unit) io" where
  "collapse_quorum ops cfg leader first second third =
     io_bind (phase_log ops (leader_text ''Leader: '' leader)) (\<lambda>_.
     io_bind (phase_log ops (''Raft quorum for a 5-node cluster = 3. Killing 3 followers will leave 2/5 nodes '' @ em_dash @ '' below quorum.'')) (\<lambda>_.
     io_bind (print_cluster_status ops cfg) (\<lambda>_.
     io_bind (stop_follower ops cfg ''1'' ''4/5 nodes (still above quorum)'' first) (\<lambda>_.
     io_bind (demo_sleep ops 3000) (\<lambda>_.
     io_bind (print_cluster_status ops cfg) (\<lambda>_.
     io_bind (stop_follower ops cfg ''2'' ''3/5 nodes (bare quorum)'' second) (\<lambda>_.
     io_bind (demo_sleep ops 3000) (\<lambda>_.
     io_bind (print_cluster_status ops cfg) (\<lambda>_.
     io_bind (stop_follower ops cfg ''3'' ''2/5 nodes (QUORUM LOST)'' third) (\<lambda>_.
     io_bind (print_cluster_status ops cfg) (\<lambda>_.
     io_bind (phase_log ops ''Cluster is BELOW QUORUM. Raft cannot replicate log entries; all writes will block and eventually fail.'') (\<lambda>_.
     io_bind (phase_log ops (''Observing halted state for 30 seconds '' @ em_dash @ '' expect timeouts and zero successful writes...'')) (\<lambda>_.
     io_bind (watch_halted ops cfg 6) (\<lambda>_.
     io_bind (print_summary ops ''Post-Quorum-Loss (system halted)'') (\<lambda>_.
       phase_log ops (''Scenario complete '' @ em_dash @ '' system remains halted as expected. Ending demo.''))))))))))))))))"

definition phase_quorum_degradation :: "'w demo_ops \<Rightarrow> DemoConfig \<Rightarrow> ('w demo_state, unit) io" where
  "phase_quorum_degradation ops cfg =
     io_bind (banner ops (''PHASE 4: QUORUM COLLAPSE '' @ em_dash @ '' SYSTEM HALT'')) (\<lambda>_.
     io_bind (demo_wait_for_leader ops cfg 10 []) (\<lambda>leader.
     io_bind (poll_cluster ops cfg) (\<lambda>nodes.
       case reachable_followers nodes of
         first # second # third # others \<Rightarrow> collapse_quorum ops cfg leader first second third
       | followers \<Rightarrow> demo_fail ops (''Need at least 3 reachable followers for this scenario; have '' @ nat_to_string (length followers)
           @ ''. Aborting phase.''))))"

datatype phase_action = SteadyState | LeaderKill | OldLeaderRejoin | QuorumDegradation

fun run_action :: "'w demo_ops \<Rightarrow> DemoConfig \<Rightarrow> phase_action \<Rightarrow> ('w demo_state, unit) io" where
  "run_action ops cfg SteadyState = phase_steady_state ops cfg"
| "run_action ops cfg LeaderKill = phase_leader_kill ops cfg"
| "run_action ops cfg OldLeaderRejoin = phase_old_leader_rejoin ops cfg"
| "run_action ops cfg QuorumDegradation = phase_quorum_degradation ops cfg"

record Phase =
  ph_start_sec :: int
  ph_name :: string
  ph_description :: string
  ph_action :: phase_action

definition demo_phases :: "Phase list" where
  "demo_phases =
     [\<lparr>ph_start_sec = 0, ph_name = ''Steady State'',
       ph_description = ''Brief baseline: all 5 nodes healthy. Observe semantic conflict detection.'', ph_action = SteadyState\<rparr>,
      \<lparr>ph_start_sec = 20, ph_name = ''Leader Failover'',
       ph_description = ''Kill the Raft leader mid-operation. Watch election and automatic recovery.'', ph_action = LeaderKill\<rparr>,
      \<lparr>ph_start_sec = 90, ph_name = ''Node Recovery'',
       ph_description = ''Restart the killed node. Watch it rejoin and catch up on Raft log entries.'', ph_action = OldLeaderRejoin\<rparr>,
      \<lparr>ph_start_sec = 180, ph_name = ''Quorum Collapse'',
       ph_description = ''Kill 3 followers to breach quorum. System halts because Raft cannot commit.'', ph_action = QuorumDegradation\<rparr>]"

section \<open>Before the workload\<close>

definition config_lines :: "DemoConfig \<Rightarrow> string list" where
  "config_lines cfg =
     [''Project root:     '' @ dc_project_root cfg, ''Embedding model:  '' @ dc_model_id cfg,
      ''Theta:            '' @ demo_format_float (dc_theta cfg), ''Lock hold:        '' @ to_string (dc_lock_hold_ms cfg) @ ''ms'',
      ''Op interval:      '' @ to_string (dc_op_interval_ms cfg) @ ''ms'',
      ''Demo duration:    '' @ to_string (dc_duration_sec cfg) @ ''s ('' @ format_elapsed (dc_duration_sec cfg) @ '')'',
      ''Collection:       '' @ dc_collection cfg]"

fun demo_infos :: "'w demo_ops \<Rightarrow> string list \<Rightarrow> ('w demo_state, unit) io" where
  "demo_infos ops [] = io_lift (Inr ())"
| "demo_infos ops (line # lines) = io_bind (demo_info ops line) (\<lambda>_. demo_infos ops lines)"

definition demo_startup :: "'w demo_ops \<Rightarrow> DemoConfig \<Rightarrow> ('w demo_state, unit) io" where
  "demo_startup ops cfg =
     io_bind (banner ops (''DISTRIBUTED SEMANTIC LOCK MANAGER '' @ em_dash @ '' LIVE DEMO'')) (\<lambda>_.
     io_bind (demo_infos ops (config_lines cfg)) (\<lambda>_.
     io_bind (demo_put ops []) (\<lambda>_.
     io_bind (banner ops ''STACK STARTUP'') (\<lambda>_.
     io_bind (demo_info ops ''Starting Docker Compose stack (5 nodes, proxy, Qdrant, embedding)...'') (\<lambda>_.
     io_bind (start_stack ops cfg) (\<lambda>_.
     io_bind (demo_update ops (\<lambda>s. s\<lparr>dm_stack_started := True\<rparr>)) (\<lambda>_.
     io_bind (wait_for_qdrant ops cfg 120) (\<lambda>_.
     io_bind (wait_for_embedding ops cfg 180) (\<lambda>_.
     io_bind (ensure_model ops cfg) (\<lambda>_.
     io_bind (wait_for_proxy ops cfg 60) (\<lambda>_.
     io_bind (demo_wait_for_leader ops cfg 15 []) (\<lambda>leader.
     io_bind (raft_log ops (''Initial leader: '' @ dl_service_name leader @ '' at '' @ dl_address leader @ '' (term ''
       @ to_string (dl_term leader) @ '')'')) (\<lambda>_.
       print_cluster_status ops cfg)))))))))))))"

definition roadmap_lines :: "DemoConfig \<Rightarrow> string list" where
  "roadmap_lines cfg =
     concat (map (\<lambda>p. [ansi ''1'' @ ''  '' @ format_elapsed (ph_start_sec p) @ ''  '' @ ph_name p @ ansi ''0'',
       ansi ''2'' @ ''         '' @ ph_description p @ ansi ''0'']) demo_phases)
     @ [ansi ''1'' @ ''  Demo ends immediately after '' @ [squote] @ ''Quorum Collapse'' @ [squote] @ '' completes (''
          @ [CHR 0xE2, CHR 0x89, CHR 0x88] @ '' '' @ format_elapsed (dc_duration_sec cfg) @ '' total)'' @ ansi ''0'', []]"

definition demo_prepare :: "fpu \<Rightarrow> 'w demo_ops \<Rightarrow> DemoConfig \<Rightarrow> ('w demo_state, AgentTemplate list) io" where
  "demo_prepare F ops cfg =
     io_bind (demo_startup ops cfg) (\<lambda>_.
     io_bind (banner ops ''AGENT PREPARATION'') (\<lambda>_.
     io_bind (load_templates_of F ops cfg ''ABCDE'') (\<lambda>templates.
     io_bind (demo_puts ops (matrix_lines F (dc_theta cfg) templates)) (\<lambda>_.
     io_bind (io_lift (elem_at templates 0)) (\<lambda>front.
     io_bind (demo_reset_collection ops cfg (length (at_embedding front))) (\<lambda>_.
     io_bind (demo_ok ops ''Qdrant collection reset.'') (\<lambda>_.
     io_bind (banner ops ''DEMO ROADMAP'') (\<lambda>_.
     io_bind (demo_puts ops (roadmap_lines cfg)) (\<lambda>_.
     io_bind (banner ops ''WORKLOAD START'') (\<lambda>_.
     io_bind (demo_info ops (''Launching '' @ nat_to_string (length templates) @ '' agent threads, interval=''
       @ to_string (dc_op_interval_ms cfg) @ ''ms'')) (\<lambda>_. io_lift (Inr templates))))))))))))"

section \<open>The workload and the phase loop\<close>

fun launch_workers :: "'w demo_ops \<Rightarrow> DemoConfig \<Rightarrow> AgentTemplate list \<Rightarrow> ('w demo_state, unit) io" where
  "launch_workers ops cfg [] = io_lift (Inr ())"
| "launch_workers ops cfg (t # templates) =
     io_bind (demo_update ops (\<lambda>s. s\<lparr>dm_workers := dm_workers s
       @ [\<lparr>wk_template = t, wk_interval_ms = dc_op_interval_ms cfg, wk_seq = 0, wk_at = AtLoop\<rparr>]\<rparr>)) (\<lambda>_.
     io_bind (demo_sleep ops 200) (\<lambda>_. launch_workers ops cfg templates))"

text \<open>The \<^verbatim>\<open>try\<close> around a phase.\<close>

definition run_phase :: "(exn \<Rightarrow> string) \<Rightarrow> 'w demo_ops \<Rightarrow> DemoConfig \<Rightarrow> Phase \<Rightarrow> ('w demo_state, unit) io" where
  "run_phase lib_what ops cfg p =
     io_bind (attempt_error (run_action ops cfg (ph_action p))) (\<lambda>r.
       case r of
         Inr u \<Rightarrow> io_lift (Inr ())
       | Inl e \<Rightarrow> demo_fail ops (''Phase '' @ [squote] @ ph_name p @ [squote] @ '' error: '' @ what_text lib_what e))"

definition health_check :: "'w demo_ops \<Rightarrow> DemoConfig \<Rightarrow> ('w demo_state, unit) io" where
  "health_check ops cfg =
     io_bind (print_cluster_status ops cfg) (\<lambda>_.
     io_bind (demo_point_count ops cfg) (\<lambda>count.
       if count \<ge> 0 then demo_info ops (''Qdrant points: '' @ to_string count) else io_lift (Inr ())))"

text \<open>
  One round of the loop: \<open>None\<close> is a \<^verbatim>\<open>break\<close>, otherwise the phases to come and the time of the next health
  check. \<open>round_idle\<close> is the end of a round in which no phase ran.
\<close>

definition round_idle :: "'w demo_ops \<Rightarrow> DemoConfig \<Rightarrow> int \<Rightarrow> Phase list \<Rightarrow> int \<Rightarrow> ('w demo_state, (Phase list \<times> int) option) io" where
  "round_idle ops cfg elapsed phases next_health_sec =
     io_bind (if elapsed \<ge> next_health_sec
              then io_bind (health_check ops cfg) (\<lambda>_. io_lift (Inr (next_health_sec + 30)))
              else io_lift (Inr next_health_sec)) (\<lambda>next_health.
     io_bind (demo_sleep ops 1000) (\<lambda>_. io_lift (Inr (Some (phases, next_health)))))"

definition demo_round ::
  "(exn \<Rightarrow> string) \<Rightarrow> 'w demo_ops \<Rightarrow> DemoConfig \<Rightarrow> int \<Rightarrow> Phase list \<Rightarrow> int \<Rightarrow> ('w demo_state, (Phase list \<times> int) option) io" where
  "demo_round lib_what ops cfg demo_start phases next_health_sec =
     io_bind (demo_now ops) (\<lambda>now.
       let elapsed = elapsed_seconds demo_start now in
       if elapsed \<ge> dc_duration_sec cfg then io_lift (Inr None)
       else case phases of
         [] \<Rightarrow> round_idle ops cfg elapsed [] next_health_sec
       | p # rest \<Rightarrow>
           if elapsed \<ge> ph_start_sec p
           then io_bind (run_phase lib_what ops cfg p) (\<lambda>_. io_lift (Inr (if rest = [] then None else Some (rest, elapsed + 15))))
           else round_idle ops cfg elapsed phases next_health_sec)"

partial_function (option) phase_loop ::
  "(exn \<Rightarrow> string) \<Rightarrow> 'w demo_ops \<Rightarrow> DemoConfig \<Rightarrow> int \<Rightarrow> Phase list \<Rightarrow> int \<Rightarrow> 'w demo_state
   \<Rightarrow> ('w demo_state \<times> unit outcome) option" where
  "phase_loop lib_what ops cfg demo_start phases next_health_sec s =
     (case demo_round lib_what ops cfg demo_start phases next_health_sec s of
        None \<Rightarrow> None
      | Some (s1, Inl e) \<Rightarrow> Some (s1, Inl e)
      | Some (s1, Inr None) \<Rightarrow> Some (s1, Inr ())
      | Some (s1, Inr (Some (phases', next_health'))) \<Rightarrow> phase_loop lib_what ops cfg demo_start phases' next_health' s1)"

text \<open>\<^verbatim>\<open>join\<close> of a thread: the others go on until this one has returned.\<close>

partial_function (option) join_worker :: "'w demo_ops \<Rightarrow> nat \<Rightarrow> 'w demo_state \<Rightarrow> ('w demo_state \<times> unit outcome) option" where
  "join_worker ops i s =
     (if map_option wk_at (if i < length (dm_workers s) then Some (dm_workers s ! i) else None) = Some Returned
      then Some (s, Inr ()) else join_worker ops i (other_threads ops s))"

fun join_workers :: "'w demo_ops \<Rightarrow> nat list \<Rightarrow> ('w demo_state, unit) io" where
  "join_workers ops [] = io_lift (Inr ())"
| "join_workers ops (i # is) = io_bind (join_worker ops i) (\<lambda>_. join_workers ops is)"

text \<open>From the start of the clocks to the last \<^verbatim>\<open>join\<close>.\<close>

definition demo_traffic ::
  "(exn \<Rightarrow> string) \<Rightarrow> 'w demo_ops \<Rightarrow> DemoConfig \<Rightarrow> AgentTemplate list \<Rightarrow> ('w demo_state, unit) io" where
  "demo_traffic lib_what ops cfg templates =
     io_bind (demo_now ops) (\<lambda>start.
     io_bind (demo_update ops (\<lambda>s. s\<lparr>dm_start := start\<rparr>)) (\<lambda>_.
     io_bind (demo_now ops) (\<lambda>demo_start.
     io_bind (launch_workers ops cfg templates) (\<lambda>_.
     io_bind (phase_loop lib_what ops cfg demo_start demo_phases 15) (\<lambda>_.
     io_bind (banner ops ''DEMO COMPLETE'') (\<lambda>_.
     io_bind (demo_info ops ''Stopping workload threads...'') (\<lambda>_.
     io_bind (demo_update ops (\<lambda>s. s\<lparr>dm_stop := True\<rparr>)) (\<lambda>_.
       join_workers ops [0..<length templates]))))))))"

section \<open>The end\<close>

definition demo_finish :: "'w demo_ops \<Rightarrow> DemoConfig \<Rightarrow> ('w demo_state, unit) io" where
  "demo_finish ops cfg =
     io_bind (print_summary ops ''Overall Demo'') (\<lambda>_.
     io_bind (print_cluster_status ops cfg) (\<lambda>_.
     io_bind (demo_point_count ops cfg) (\<lambda>final_count.
     io_bind (if final_count \<ge> 0 then demo_ok ops (''Final Qdrant point count: '' @ to_string final_count) else io_lift (Inr ())) (\<lambda>_.
     io_bind (if dc_teardown_on_exit cfg
              then io_bind (demo_info ops ''Tearing down stack...'') (\<lambda>_. demo_stop_stack ops cfg)
              else demo_info ops (''Stack left running. Use '' @ [squote] @ ''docker compose down'' @ [squote] @ '' to clean up.'')) (\<lambda>_.
       demo_ok ops ''Demo finished successfully.'')))))"

definition demo_handler :: "(exn \<Rightarrow> string) \<Rightarrow> 'w demo_ops \<Rightarrow> DemoConfig \<Rightarrow> exn \<Rightarrow> ('w demo_state, unit) io" where
  "demo_handler lib_what ops cfg e =
     io_bind (demo_fail ops (''Fatal: '' @ what_text lib_what e)) (\<lambda>_ s.
       (if dm_stack_started s \<and> dc_teardown_on_exit cfg then demo_stop_stack ops cfg else io_lift (Inr ())) s)"

text \<open>How the handler of \<^verbatim>\<open>main\<close> ends a run that an exception left.\<close>

definition demo_caught ::
  "(exn \<Rightarrow> string) \<Rightarrow> 'w demo_ops \<Rightarrow> DemoConfig \<Rightarrow> exn \<Rightarrow> 'w demo_state \<Rightarrow> ('w demo_state \<times> process_end) option" where
  "demo_caught lib_what ops cfg e s =
     (if \<not> is_exception e then Some (s, Crashed)
      else map_option (\<lambda>(s1, r). (s1, case r of Inl e2 \<Rightarrow> Terminated | Inr u \<Rightarrow> Exit 1)) (demo_handler lib_what ops cfg e s))"

definition new_demo_state :: "'w \<Rightarrow> int \<Rightarrow> 'w demo_state" where
  "new_demo_state w start =
     \<lparr>dm_world = w, dm_stack_started = False, dm_start = start, dm_log = [], dm_stop = False, dm_held = False,
      dm_stats = new_WorkloadStats, dm_workers = []\<rparr>"

text \<open>
  An exception that leaves the loop unwinds the vector of threads before they have been joined: the
  destructor of a thread that can be joined calls \<^verbatim>\<open>std::terminate\<close>, and no handler runs.
\<close>

definition demo_main :: "fpu \<Rightarrow> (exn \<Rightarrow> string) \<Rightarrow> 'w demo_ops \<Rightarrow> string \<Rightarrow> environ \<Rightarrow> 'w \<Rightarrow> ('w demo_state \<times> process_end) option" where
  "demo_main F lib_what ops project_root env w =
     (let cfg = demo_load_config F project_root env; (w0, start) = bw_now (mo_bench ops) w in
      case demo_prepare F ops cfg (new_demo_state w0 start) of
        None \<Rightarrow> None
      | Some (s1, Inl e) \<Rightarrow> demo_caught lib_what ops cfg e s1
      | Some (s1, Inr templates) \<Rightarrow>
          (case demo_traffic lib_what ops cfg templates s1 of
             None \<Rightarrow> None
           | Some (s2, Inl e) \<Rightarrow> Some (s2, if is_exception e then Terminated else Crashed)
           | Some (s2, Inr u) \<Rightarrow>
               (case demo_finish ops cfg s2 of
                  None \<Rightarrow> None
                | Some (s3, Inl e) \<Rightarrow> demo_caught lib_what ops cfg e s3
                | Some (s3, Inr u) \<Rightarrow> Some (s3, Exit 0))))"

end
