(* ===== verification/DemoLaws.thy ===== *)
theory DemoLaws
  imports DemoRun BenchRunLaws
begin

text \<open>
  What the demo's steps keep. \<open>demo_steps\<close> and \<open>demo_keeps\<close> are the contract of a predicate that survives the turns of the
  other threads and every call that gives the shell nothing to do; over it, every routine of the main
  thread that issues no command keeps the predicate. \<open>demo_keeps_commands\<close> adds the commands, and with
  them the phases and their loop; \<open>demo_keeps_all\<close> adds the launch of a thread, and with it the program.
\<close>

section \<open>Turns\<close>

lemma others_keep:
  assumes "R (s\<lparr>dm_world := fst (mo_turns ops (dm_world s))\<rparr>)"
    and step: "\<And>s i status resp. R s \<Longrightarrow> i < length (dm_workers s) \<Longrightarrow> R (worker_step ops i status resp s)"
  shows "R (other_threads ops s)"
proof -
  have "R s \<Longrightarrow> R (fold (worker_turn ops) turns s)" for turns s
    by (induction turns arbitrary: s) (auto simp: worker_turn_def step)
  with assms(1) show ?thesis by (simp add: other_threads_def case_prod_beta)
qed

section \<open>Routines without a command\<close>

locale demo_steps =
  fixes ops :: "'w demo_ops" and R :: "'w demo_state \<Rightarrow> bool"
  assumes turns: "R s \<Longrightarrow> R (other_threads ops s)"
    and written: "R s \<Longrightarrow> R (s\<lparr>dm_log := l\<rparr>)"
    and http: "R s \<Longrightarrow> bw_http (mo_bench ops) host port verb target body (dm_world s) = Some (w, response) \<Longrightarrow> R (s\<lparr>dm_world := w\<rparr>)"
    and ping: "R s \<Longrightarrow> bw_ping (mo_bench ops) target from_node (dm_world s) = Some (w, status) \<Longrightarrow> R (s\<lparr>dm_world := w\<rparr>)"
    and get_leader: "R s \<Longrightarrow> bw_get_leader (mo_bench ops) target (dm_world s) = Some (w, answer) \<Longrightarrow> R (s\<lparr>dm_world := w\<rparr>)"
    and clock: "R s \<Longrightarrow> R (s\<lparr>dm_world := fst (bw_now (mo_bench ops) (dm_world s))\<rparr>)"
      "R s \<Longrightarrow> R (s\<lparr>dm_world := bw_sleep (mo_bench ops) ms (dm_world s)\<rparr>)"
    and files: "R s \<Longrightarrow> R (s\<lparr>dm_world := fst (bw_exists (mo_bench ops) path (dm_world s))\<rparr>)"
      "R s \<Longrightarrow> R (s\<lparr>dm_world := fst (bw_read (mo_bench ops) path (dm_world s))\<rparr>)"
    and setenv: "R s \<Longrightarrow> R (s\<lparr>dm_world := ro_setenv (mo_run ops) key v (dm_world s)\<rparr>)"
begin

lemma update_keeps: "(\<And>s. R s \<Longrightarrow> R (f s)) \<Longrightarrow> preserves R (demo_update ops f)"
  unfolding demo_update_def by (rule preserves_modify) (simp add: turns)

lemma world_keeps: "(\<And>s w r. R s \<Longrightarrow> m (dm_world s) = Some (w, r) \<Longrightarrow> R (s\<lparr>dm_world := w\<rparr>)) \<Longrightarrow> preserves R (demo_world ops m)"
  by (rule preservesI) (auto simp: demo_world_def Let_def intro: turns)

lemma get_keeps: "(\<And>s. R s \<Longrightarrow> R (s\<lparr>dm_world := fst (f (dm_world s))\<rparr>)) \<Longrightarrow> preserves R (demo_get ops f)"
  unfolding demo_get_def by (rule world_keeps) (auto simp: Let_def split: prod.splits, metis fst_conv)

lemma call_keeps: "(\<And>s w x. R s \<Longrightarrow> f (dm_world s) = Some (w, x) \<Longrightarrow> R (s\<lparr>dm_world := w\<rparr>)) \<Longrightarrow> preserves R (demo_call ops f)"
  unfolding demo_call_def by (rule world_keeps) auto

lemma now_keeps: "preserves R (demo_now ops)"
  unfolding demo_now_def by (rule get_keeps) (rule clock)

lemma sleep_keeps: "preserves R (demo_sleep ops ms)"
  unfolding demo_sleep_def by (rule get_keeps) (simp add: clock)

lemma put_keeps: "preserves R (demo_put ops line)"
  unfolding demo_put_def by (rule update_keeps) (rule written)

lemma puts_keeps: "preserves R (demo_puts ops lines)"
  by (induction lines) (auto intro!: preserves_rules put_keeps)

text \<open>Lines made from the state in which they are written.\<close>

lemma put_of_keeps: "preserves R (\<lambda>s. demo_put ops (f s) s)" "preserves R (\<lambda>s. demo_puts ops (g s) s)"
  by (rule preservesI, blast dest: preservesD[OF put_keeps] preservesD[OF puts_keeps])+

lemma tagged_keeps: "preserves R (demo_log ops color tag message)"
  unfolding demo_log_def by (rule preserves_bind[OF now_keeps put_of_keeps(1)])

lemma log_keeps:
  "preserves R (demo_info ops message)" "preserves R (demo_ok ops message)" "preserves R (demo_fail ops message)"
  "preserves R (phase_log ops message)" "preserves R (chaos ops message)" "preserves R (recover ops message)"
  "preserves R (raft_log ops message)" "preserves R (banner ops message)"
  by (simp_all add: demo_info_def demo_ok_def demo_fail_def phase_log_def chaos_def recover_def raft_log_def banner_def tagged_keeps puts_keeps)

end

text \<open>\<open>print_summary\<close> takes the mutex and gives it back; a predicate that does not look at the mutex is kept.\<close>

locale demo_keeps = demo_steps +
  assumes summary_keeps: "preserves R (print_summary ops label)"

locale demo_marks = demo_steps +
  assumes held: "R s \<Longrightarrow> R (s\<lparr>dm_held := b\<rparr>)"

sublocale demo_marks < demo_keeps ops R
  by unfold_locales (unfold print_summary_def, intro preserves_bind update_keeps held put_of_keeps(2))

context demo_keeps
begin

lemma http_keeps: "preserves R (demo_http ops host port verb target body)"
  unfolding demo_http_def by (rule world_keeps) (rule http)

lemma get_leader_keeps: "preserves R (demo_get_leader ops target)"
  unfolding demo_get_leader_def by (rule call_keeps) (erule get_leader, assumption)

lemma attempt_keeps: "preserves R m \<Longrightarrow> preserves R (attempt_of m)" "preserves R m' \<Longrightarrow> preserves R (attempt_error m')"
  by (rule preservesI, auto simp: attempt_of_def attempt_error_def split: option.splits sum.splits if_splits dest: preservesD)+

lemmas keeps_rules = preserves_rules now_keeps sleep_keeps put_keeps puts_keeps log_keeps summary_keeps http_keeps get_leader_keeps attempt_keeps

lemma until_step:
  assumes "demo_until ops deadline timeout_error attempt s = Some out"
  shows "preserves R (demo_attempt ops deadline timeout_error attempt) \<Longrightarrow> R s \<Longrightarrow> R (fst out)"
proof (induction rule: demo_until.raw_induct[OF _ assms, consumes 0, case_names step])
  case (step loop ops deadline timeout_error attempt s out)
  show ?case
  proof (cases "demo_attempt ops deadline timeout_error attempt s")
    case (Some p)
    obtain s1 r where p: "p = (s1, r)" by (cases p)
    have "R s1" using preservesD[OF step.prems(1,2)] Some p by blast
    then show ?thesis using step.hyps step.IH[OF _ step.prems(1), of s1] Some p by (auto split: sum.splits option.splits)
  qed (use step.hyps in simp)
qed

lemma until_keeps: "preserves R attempt \<Longrightarrow> preserves R (demo_until ops deadline timeout_error attempt)"
proof -
  assume a: "preserves R attempt"
  have "preserves R (demo_attempt ops deadline timeout_error attempt)"
    unfolding demo_attempt_def by (intro keeps_rules a preserves_if) (auto intro!: keeps_rules split: option.splits)
  then show ?thesis by (intro preservesI) (force dest: until_step)
qed

lemma discover_keeps: "preserves R (demo_discover ops targets)"
  by (induction targets) (auto intro!: keeps_rules)

lemma leader_wait_keeps: "preserves R (demo_wait_for_leader ops cfg timeout other)" "preserves R (wait_for_node_ready ops target timeout)"
  unfolding demo_wait_for_leader_def wait_for_node_ready_def case_prod_beta
  by (intro keeps_rules until_keeps discover_keeps)+

lemma poll_keeps: "preserves R (poll_cluster ops cfg)"
proof -
  have "preserves R (poll_nodes ops nodes)" for nodes
    by (induction nodes) (auto intro!: keeps_rules)
  then show ?thesis by (simp add: poll_cluster_def)
qed

lemma status_keeps: "preserves R (print_cluster_status ops cfg)"
  unfolding print_cluster_status_def by (intro keeps_rules poll_keeps tagged_keeps)

lemma qdrant_keeps: "preserves R (demo_point_count ops cfg)" "preserves R (demo_reset_collection ops cfg n)"
  unfolding demo_point_count_def demo_reset_collection_def by (intro keeps_rules)+

lemma waits_keep:
  "preserves R (wait_for_qdrant ops cfg n)" "preserves R (wait_for_embedding ops cfg n)" "preserves R (ensure_model ops cfg)"
  "preserves R (wait_for_proxy ops cfg n)"
proof -
  have e: "preserves R (try_endpoints ops cfg endpoints)" for endpoints
    by (induction endpoints) (auto intro!: keeps_rules)
  show "preserves R (wait_for_qdrant ops cfg n)"
    by (induction n) (auto intro!: keeps_rules)
  show "preserves R (wait_for_embedding ops cfg n)"
    by (induction n) (auto intro!: keeps_rules e simp del: try_endpoints.simps)
  show "preserves R (ensure_model ops cfg)"
    unfolding ensure_model_def by (intro keeps_rules)
  show "preserves R (wait_for_proxy ops cfg n)"
    by (induction n) (auto intro!: keeps_rules call_keeps ping)
qed

lemma templates_keep: "preserves R (load_templates_of F ops cfg labels)"
  by (induction labels)
    (auto simp: demo_load_template_def demo_request_embedding_def Let_def intro!: keeps_rules get_keeps files)

lemma environment_keeps: "R s \<Longrightarrow> R (s\<lparr>dm_world := demo_environment ops cfg (dm_world s)\<rparr>)"
proof -
  have "R (s\<lparr>dm_world := w\<rparr>) \<Longrightarrow> R (s\<lparr>dm_world := fold (\<lambda>(key, v). ro_setenv (mo_run ops) key v) settings w\<rparr>)" for settings w
  proof (induction settings arbitrary: w)
    case (Cons setting settings)
    have "R (s\<lparr>dm_world := ro_setenv (mo_run ops) (fst setting) (snd setting) w\<rparr>)" using setenv[OF Cons.prems] by simp
    from Cons.IH[OF this] show ?case by (simp add: split_beta)
  qed simp
  from this[of "dm_world s"] show "R s \<Longrightarrow> R (s\<lparr>dm_world := demo_environment ops cfg (dm_world s)\<rparr>)"
    by (simp add: demo_environment_def del: fold.simps fold_simps)
qed

lemma infos_keep: "preserves R (demo_infos ops lines)"
  by (induction lines) (auto intro!: keeps_rules)

lemma watch_keeps: "preserves R (watch_halted ops cfg n)"
  by (induction n) (auto intro!: keeps_rules status_keeps)

lemma idle_keeps: "preserves R (round_idle ops cfg elapsed phases next_health)"
  unfolding round_idle_def health_check_def by (intro keeps_rules status_keeps qdrant_keeps preserves_if)

lemma steady_keeps: "preserves R (phase_steady_state ops cfg)"
  unfolding phase_steady_state_def by (intro keeps_rules status_keeps)

lemma join_step:
  assumes "join_worker ops i s = Some out"
  shows "(\<And>s. R s \<Longrightarrow> R (other_threads ops s)) \<Longrightarrow> R s \<Longrightarrow> R (fst out)"
proof (induction rule: join_worker.raw_induct[OF _ assms, consumes 0, case_names step])
  case (step loop ops i s out)
  then show ?case by (auto split: if_splits)
qed

lemma joins_keep: "preserves R (join_workers ops is)"
proof (induction "is")
  case (Cons i "is")
  have "preserves R (join_worker ops i)" by (rule preservesI) (use join_step turns in force)
  then show ?case using Cons by (auto intro: preserves_bind)
qed (simp add: preserves_lift)

end

section \<open>The whole run\<close>

locale demo_keeps_commands = demo_keeps +
  assumes system: "R s \<Longrightarrow> mo_system ops cmd (dm_world s) = Some (w, code) \<Longrightarrow> R (s\<lparr>dm_world := w\<rparr>)"
    and flags: "R s \<Longrightarrow> R (s\<lparr>dm_start := t\<rparr>)" "R s \<Longrightarrow> R (s\<lparr>dm_stop := b\<rparr>)" "R s \<Longrightarrow> R (s\<lparr>dm_stack_started := b\<rparr>)"
begin

lemma shell_keeps: "preserves R (demo_run_shell ops cmd)"
  unfolding demo_run_shell_def by (rule call_keeps) (rule system)

lemma compose_keeps: "preserves R (compose_cmd ops cfg args)"
  unfolding compose_cmd_def by (intro keeps_rules shell_keeps)

lemma stack_keeps: "preserves R (start_stack ops cfg)" "preserves R (demo_stop_stack ops cfg)"
  unfolding start_stack_def demo_stop_stack_def
  by (intro keeps_rules compose_keeps shell_keeps get_keeps, simp add: environment_keeps) (intro keeps_rules shell_keeps)

lemma action_keeps: "preserves R (run_action ops cfg action)"
proof -
  have kill: "preserves R (phase_leader_kill ops cfg)"
    unfolding phase_leader_kill_def by (intro keeps_rules leader_wait_keeps status_keeps compose_keeps)
  have choose: "preserves R (choose_down ops cfg nodes)" for nodes
    unfolding choose_down_def Let_def case_prod_beta by (intro keeps_rules compose_keeps)
  have rejoin: "preserves R (phase_old_leader_rejoin ops cfg)"
    unfolding phase_old_leader_rejoin_def case_prod_beta
    by (intro keeps_rules poll_keeps choose compose_keeps leader_wait_keeps status_keeps)
  have collapse: "preserves R (collapse_quorum ops cfg leader first second third)" for leader first second third
    unfolding collapse_quorum_def stop_follower_def by (intro keeps_rules status_keeps compose_keeps watch_keeps)
  have "preserves R (phase_quorum_degradation ops cfg)"
    unfolding phase_quorum_degradation_def
    by (intro keeps_rules leader_wait_keeps poll_keeps) (auto intro!: collapse keeps_rules split: list.splits)
  with kill rejoin steady_keeps show ?thesis by (cases action) simp_all
qed

lemma phase_keeps: "preserves R (run_phase lib_what ops cfg p)"
  unfolding run_phase_def by (intro keeps_rules action_keeps) (auto intro: keeps_rules split: sum.splits)

lemma round_keeps: "preserves R (demo_round lib_what ops cfg demo_start phases next_health)"
  unfolding demo_round_def Let_def
  by (intro keeps_rules) (auto intro!: keeps_rules phase_keeps idle_keeps split: list.splits)

lemma loop_step:
  assumes "phase_loop lib_what ops cfg demo_start phases next_health s = Some out"
  shows "(\<And>phases next_health. preserves R (demo_round lib_what ops cfg demo_start phases next_health)) \<Longrightarrow> R s \<Longrightarrow> R (fst out)"
proof (induction rule: phase_loop.raw_induct[OF _ assms, consumes 0, case_names step])
  case (step loop lib_what ops cfg demo_start phases next_health s out)
  show ?case
  proof (cases "demo_round lib_what ops cfg demo_start phases next_health s")
    case (Some p)
    obtain s1 r where p: "p = (s1, r)" by (cases p)
    have "R s1" using preservesD[OF step.prems(1,2)] Some p by blast
    then have again: "loop lib_what ops cfg demo_start ph nh s1 = Some out' \<Longrightarrow> R (fst out')" for ph nh out'
      using step.IH[OF _ step.prems(1)] by blast
    then show ?thesis using step.hyps \<open>R s1\<close> Some p by (auto split: sum.splits option.splits intro: again)
  qed (use step.hyps in simp)
qed

lemma loop_keeps: "preserves R (phase_loop lib_what ops cfg demo_start phases next_health)"
  by (rule preservesI) (use loop_step round_keeps in force)

lemma prepare_keeps: "preserves R (demo_prepare F ops cfg)"
proof -
  have "preserves R (demo_startup ops cfg)"
    unfolding demo_startup_def by (intro keeps_rules infos_keep stack_keeps update_keeps flags waits_keep leader_wait_keeps status_keeps)
  then show ?thesis unfolding demo_prepare_def by (intro keeps_rules templates_keep qdrant_keeps)
qed

lemma shutdown_keeps: "preserves R (demo_update ops (\<lambda>s. s\<lparr>dm_stop := True\<rparr>))" "preserves R (demo_update ops (\<lambda>s. s\<lparr>dm_start := t\<rparr>))"
  by (rule update_keeps, erule flags)+

lemma finish_keeps: "preserves R (demo_finish ops cfg)"
  unfolding demo_finish_def by (intro keeps_rules status_keeps qdrant_keeps stack_keeps)

lemma handler_keeps: "preserves R (demo_handler lib_what ops cfg e)"
proof (unfold demo_handler_def, rule preserves_bind[OF log_keeps(3)], rule preservesI)
  fix s s' r assume "R s" "(if dm_stack_started s \<and> dc_teardown_on_exit cfg then demo_stop_stack ops cfg else io_lift (Inr ())) s = Some (s', r)"
  then show "R s'" using preservesD[OF stack_keeps(2)] by (auto simp: io_lift_def split: if_splits)
qed

lemma caught_keeps: "demo_caught lib_what ops cfg e s = Some (s', ending) \<Longrightarrow> R s \<Longrightarrow> R s'"
  using preservesD[OF handler_keeps] by (fastforce simp: demo_caught_def split: if_splits)

end

locale demo_keeps_all = demo_keeps_commands +
  assumes launch: "R s \<Longrightarrow> R (s\<lparr>dm_workers := dm_workers s
      @ [\<lparr>wk_template = tmpl, wk_interval_ms = interval, wk_seq = 0, wk_at = AtLoop\<rparr>]\<rparr>)"
begin

lemma launch_keeps: "preserves R (launch_workers ops cfg templates)"
  by (induction templates) (auto intro!: keeps_rules update_keeps launch)

lemma traffic_keeps: "preserves R (demo_traffic lib_what ops cfg templates)"
  unfolding demo_traffic_def by (intro keeps_rules shutdown_keeps launch_keeps loop_keeps joins_keep)

lemma main_keeps:
  assumes "demo_main F lib_what ops proot env w = Some (s, ending)"
    and "R (new_demo_state (fst (bw_now (mo_bench ops) w)) (snd (bw_now (mo_bench ops) w)))"
  shows "R s"
proof -
  let ?cfg = "demo_load_config F proot env" and ?s0 = "new_demo_state (fst (bw_now (mo_bench ops) w)) (snd (bw_now (mo_bench ops) w))"
  obtain s1 r1 where p: "demo_prepare F ops ?cfg ?s0 = Some (s1, r1)"
    using assms(1) by (cases "demo_prepare F ops ?cfg ?s0") (auto simp: demo_main_def case_prod_beta Let_def)
  note R1 = preservesD[OF prepare_keeps assms(2) p]
  show ?thesis
  proof (cases r1)
    case (Inl e)
    then show ?thesis using assms(1) p caught_keeps[OF _ R1] by (simp add: demo_main_def case_prod_beta Let_def)
  next
    case (Inr templates)
    obtain s2 r2 where t: "demo_traffic lib_what ops ?cfg templates s1 = Some (s2, r2)"
      using assms(1) p Inr by (cases "demo_traffic lib_what ops ?cfg templates s1") (auto simp: demo_main_def case_prod_beta Let_def)
    note R2 = preservesD[OF traffic_keeps R1 t]
    show ?thesis
    proof (cases r2)
      case (Inr u)
      obtain s3 r3 where f: "demo_finish ops ?cfg s2 = Some (s3, r3)"
        using assms(1) p t \<open>r1 = Inr templates\<close> Inr by (cases "demo_finish ops ?cfg s2") (auto simp: demo_main_def case_prod_beta Let_def)
      show ?thesis using assms(1) p t \<open>r1 = Inr templates\<close> Inr f caught_keeps[OF _ preservesD[OF finish_keeps R2 f]] preservesD[OF finish_keeps R2 f]
        by (auto simp: demo_main_def case_prod_beta Let_def split: sum.splits)
    qed (use assms(1) p t Inr R2 in \<open>simp add: demo_main_def case_prod_beta Let_def\<close>)
  qed
qed

end

end
