(* ===== verification/DemoWorkload.thy ===== *)
theory DemoWorkload
  imports DemoLaws BenchHost BenchWorkloadLaws
begin

text \<open>
  The workload of the demo. However the threads take turns, the statistics account for every call that has
  been answered, and the calls of a thread carry the ids 0, 1, 2, ... of its label. The machine is one
  that records the commands given to the shell and the calls started.
\<close>

section \<open>Accounts\<close>

text \<open>1 if the thread has started a call it has not recorded yet.\<close>

definition in_flight :: "worker \<Rightarrow> int" where
  "in_flight wk = (case wk_at wk of InCall t0 \<Rightarrow> 1 | AtRecord st r rpc_ms \<Rightarrow> 1 | _ \<Rightarrow> 0)"

definition calls_started :: "worker list \<Rightarrow> int" where
  "calls_started workers = sum_list (map wk_seq workers)"

definition calls_open :: "worker list \<Rightarrow> int" where
  "calls_open workers = sum_list (map in_flight workers)"

definition stats_sound :: "WorkloadStats \<Rightarrow> bool" where
  "stats_sound st \<longleftrightarrow> ws_successful_ops st + ws_failed_ops st = ws_total_ops st \<and> 0 \<le> ws_successful_ops st \<and> 0 \<le> ws_failed_ops st
     \<and> 0 \<le> ws_blocked_ops st \<and> ws_blocked_ops st \<le> ws_total_ops st
     \<and> 0 \<le> ws_max_wait_ms st \<and> ws_total_wait_ms st \<le> ws_total_ops st * ws_max_wait_ms st"

lemma stats_sound_new: "stats_sound new_WorkloadStats"
  by (simp add: stats_sound_def new_WorkloadStats_def)

lemma stats_sound_record: "stats_sound st \<Longrightarrow> stats_sound (record_op success wait_ms rpc_ms blocked st)"
proof -
  assume st: "stats_sound st"
  let ?m = "max (ws_max_wait_ms st) wait_ms"
  have "ws_total_wait_ms st \<le> ws_total_ops st * ws_max_wait_ms st" using st by (simp add: stats_sound_def)
  also have "\<dots> \<le> ws_total_ops st * ?m"
    using st by (intro mult_left_mono) (auto simp: stats_sound_def)
  finally have "ws_total_wait_ms st + wait_ms \<le> (ws_total_ops st + 1) * ?m"
    by (simp add: distrib_right add_mono)
  then show ?thesis using st by (auto simp: stats_sound_def record_op_def)
qed

definition accounts :: "'w demo_state \<Rightarrow> bool" where
  "accounts s \<longleftrightarrow> stats_sound (dm_stats s) \<and> ws_total_ops (dm_stats s) + calls_open (dm_workers s) = calls_started (dm_workers s)
     \<and> (\<forall>wk\<in>set (dm_workers s). 0 \<le> wk_seq wk)"

lemma sum_list_set_elem: "i < length xs \<Longrightarrow> sum_list (map f (xs[i := x])) = sum_list (map f xs) + f x - (f (xs ! i) :: int)"
  by (induction xs arbitrary: i) (auto split: nat.splits)

lemma accounts_stable [simp]:
  "accounts (s\<lparr>dm_world := w\<rparr>) = accounts s" "accounts (s\<lparr>dm_log := l\<rparr>) = accounts s" "accounts (s\<lparr>dm_held := b\<rparr>) = accounts s"
  "accounts (s\<lparr>dm_start := t\<rparr>) = accounts s" "accounts (s\<lparr>dm_stop := b\<rparr>) = accounts s" "accounts (s\<lparr>dm_stack_started := b\<rparr>) = accounts s"
  by (simp_all add: accounts_def)

lemma accounts_move:
  assumes "accounts s" "i < length (dm_workers s)" "dm_workers s' = (dm_workers s)[i := wk]" "stats_sound (dm_stats s')" "0 \<le> wk_seq wk"
    and "ws_total_ops (dm_stats s') - ws_total_ops (dm_stats s) + in_flight wk - in_flight (dm_workers s ! i) = wk_seq wk - wk_seq (dm_workers s ! i)"
  shows "accounts s'"
proof -
  have "\<forall>wk'\<in>set (dm_workers s'). 0 \<le> wk_seq wk'"
    using assms(1,3,5) set_update_subset_insert[of "dm_workers s" i wk] by (auto simp: accounts_def)
  then show ?thesis using assms by (simp add: accounts_def calls_open_def calls_started_def sum_list_set_elem)
qed

lemma record_op_total [simp]: "ws_total_ops (record_op success wait_ms rpc_ms blocked st) = ws_total_ops st + 1"
  by (simp add: record_op_def)

lemma accounts_step:
  assumes "accounts s" "i < length (dm_workers s)"
  shows "accounts (worker_step ops i status resp s)"
proof -
  let ?wk = "dm_workers s ! i"
  have seq: "0 \<le> wk_seq ?wk" and st: "stats_sound (dm_stats s)" using assms by (auto simp: accounts_def)
  have move: "accounts s'" if "dm_workers s' = (dm_workers s)[i := wk]" "dm_stats s' = dm_stats s" "0 \<le> wk_seq wk"
    "in_flight wk - in_flight ?wk = wk_seq wk - wk_seq ?wk" for s' :: "'w demo_state" and wk
    using accounts_move[OF assms that(1)] that(2-4) st by simp
  show ?thesis
  proof (cases "wk_at ?wk")
    case (AtRecord st r rpc_ms)
    then show ?thesis using assms seq st
      by (auto simp: worker_step_def set_worker_def in_flight_def stats_sound_record Let_def split: prod.splits intro!: accounts_move[OF assms])
  qed (use assms seq in \<open>auto simp: worker_step_def set_worker_def in_flight_def Let_def split: prod.splits intro!: move\<close>)
qed

interpretation accounted: demo_marks ops accounts
proof unfold_locales
  fix s :: "'a demo_state" assume "accounts s"
  then show "accounts (other_threads ops s)" by (intro others_keep[of accounts]) (simp_all add: accounts_step)
qed simp_all

interpretation accounted: demo_keeps_all ops accounts
proof unfold_locales
  fix s :: "'a demo_state" and tmpl interval assume "accounts s"
  then show "accounts (s\<lparr>dm_workers := dm_workers s @ [\<lparr>wk_template = tmpl, wk_interval_ms = interval, wk_seq = 0, wk_at = AtLoop\<rparr>]\<rparr>)"
    by (auto simp: accounts_def calls_open_def calls_started_def in_flight_def)
qed simp_all

section \<open>A machine that records commands and calls\<close>

type_synonym demo_record = "string list \<times> (nat \<times> AcquireRequest) list"

definition demo_recording :: "'w demo_ops \<Rightarrow> ('w \<times> demo_record) demo_ops" where
  "demo_recording ops =
     (let run = mo_run ops; bench = ro_bench run in
      \<lparr>mo_run = \<lparr>ro_bench = \<lparr>bw_http = (\<lambda>host port verb target body. rec_step (bw_http bench host port verb target body)),
           bw_ping = (\<lambda>target from_node. rec_step (bw_ping bench target from_node)),
           bw_get_leader = (\<lambda>target. rec_step (bw_get_leader bench target)), bw_now = rec_read (bw_now bench),
           bw_sleep = (\<lambda>ms (w, r). (bw_sleep bench ms w, r)), bw_exists = (\<lambda>path. rec_read (bw_exists bench path)),
           bw_read = (\<lambda>path. rec_read (bw_read bench path))\<rparr>,
         ro_popen = (\<lambda>command. rec_step (ro_popen run command)), ro_setenv = (\<lambda>key v (w, r). (ro_setenv run key v w, r)),
         ro_unix_ms = rec_read (ro_unix_ms run), ro_clients = (\<lambda>calls. rec_step (ro_clients run calls)),
         ro_open = (\<lambda>path. rec_read (ro_open run path)), ro_csv_contents = (\<lambda>path. rec_read (ro_csv_contents run path))\<rparr>,
       mo_system = (\<lambda>cmd (w, commands, calls). rec_step (mo_system ops cmd) (w, commands @ [cmd], calls)),
       mo_call = (\<lambda>i rq (w, commands, calls). (mo_call ops i rq w, commands, calls @ [(i, rq)])),
       mo_turns = rec_read (mo_turns ops)\<rparr>)"

lemma recording_keeps:
  "bw_http (mo_bench (demo_recording ops)) host port verb target body w = Some (w', response) \<Longrightarrow> snd w' = snd w"
  "bw_ping (mo_bench (demo_recording ops)) target' from_node w = Some (w', status) \<Longrightarrow> snd w' = snd w"
  "bw_get_leader (mo_bench (demo_recording ops)) target'' w = Some (w', answer) \<Longrightarrow> snd w' = snd w"
  "snd (fst (bw_now (mo_bench (demo_recording ops)) w)) = snd w" "snd (bw_sleep (mo_bench (demo_recording ops)) ms w) = snd w"
  "snd (fst (bw_exists (mo_bench (demo_recording ops)) path w)) = snd w" "snd (fst (bw_read (mo_bench (demo_recording ops)) path w)) = snd w"
  "snd (ro_setenv (mo_run (demo_recording ops)) key v w) = snd w" "snd (fst (ro_unix_ms (mo_run (demo_recording ops)) w)) = snd w"
  "snd (fst (mo_turns (demo_recording ops) w)) = snd w"
  "mo_system (demo_recording ops) cmd w = Some (w', code) \<Longrightarrow> snd w' = (fst (snd w) @ [cmd], snd (snd w))"
  "snd (mo_call (demo_recording ops) i rq w) = (fst (snd w), snd (snd w) @ [(i, rq)])"
  by (auto simp: demo_recording_def Let_def rec_laws(2) case_prod_beta dest: rec_laws(1))

section \<open>The ids of the calls\<close>

definition worker_id :: "char \<Rightarrow> int \<Rightarrow> string" where
  "worker_id label k = ''demo-agent-'' @ [label] @ ''-'' @ to_string k"

lemma worker_id_inj: "0 \<le> j \<Longrightarrow> 0 \<le> k \<Longrightarrow> worker_id a j = worker_id b k \<longleftrightarrow> a = b \<and> j = k"
  by (simp add: worker_id_def to_string_pos_inj)

definition call_ids :: "(nat \<times> AcquireRequest) list \<Rightarrow> (nat \<times> string) list" where
  "call_ids calls = map (\<lambda>c. (fst c, rq_agent_id (snd c))) calls"

text \<open>As many calls as the threads have counted, no id twice in a thread, each one that the thread has given out.\<close>

definition numbered :: "worker list \<Rightarrow> (nat \<times> AcquireRequest) list \<Rightarrow> bool" where
  "numbered workers calls \<longleftrightarrow> int (length calls) = calls_started workers \<and> distinct (call_ids calls)
     \<and> (\<forall>(i, id)\<in>set (call_ids calls). i < length workers
          \<and> (\<exists>k. 0 \<le> k \<and> k < wk_seq (workers ! i) \<and> id = worker_id (at_label (wk_template (workers ! i))) k))"

lemma numbered_same:
  assumes "numbered workers calls" "i < length workers" "wk_seq wk = wk_seq (workers ! i)" "wk_template wk = wk_template (workers ! i)"
  shows "numbered (workers[i := wk]) calls"
  using assms by (fastforce simp: numbered_def calls_started_def sum_list_set_elem nth_list_update)

lemma numbered_next:
  assumes "numbered workers calls" "i < length workers" "wk_seq wk = wk_seq (workers ! i) + 1" "wk_template wk = wk_template (workers ! i)"
    and "0 \<le> wk_seq (workers ! i)" "rq_agent_id rq = worker_id (at_label (wk_template (workers ! i))) (wk_seq (workers ! i))"
  shows "numbered (workers[i := wk]) (calls @ [(i, rq)])"
proof -
  have old: "\<exists>k. 0 \<le> k \<and> k < wk_seq (workers ! j) \<and> id = worker_id (at_label (wk_template (workers ! j))) k" "j < length workers"
    if "(j, id) \<in> set (call_ids calls)" for j id
    using assms(1) that unfolding numbered_def by auto
  have "(i, rq_agent_id rq) \<notin> set (call_ids calls)"
    using old(1)[of i "rq_agent_id rq"] assms(5) by (auto simp: assms(6) worker_id_inj)
  moreover have "\<exists>k. 0 \<le> k \<and> k < wk_seq (workers[i := wk] ! j) \<and> id = worker_id (at_label (wk_template (workers[i := wk] ! j))) k"
    if "(j, id) \<in> set (call_ids (calls @ [(i, rq)]))" for j id
    using that old[of j id] assms by (fastforce simp: call_ids_def nth_list_update)
  moreover have "j < length workers" if "(j, id) \<in> set (call_ids (calls @ [(i, rq)]))" for j id
    using that old(2)[of j id] assms(2) by (auto simp: call_ids_def)
  moreover have "int (length (calls @ [(i, rq)])) = calls_started (workers[i := wk])" "distinct (call_ids calls)"
    using assms(1-3) by (simp_all add: numbered_def calls_started_def sum_list_set_elem)
  moreover have "call_ids (calls @ [(i, rq)]) = call_ids calls @ [(i, rq_agent_id rq)]" by (simp add: call_ids_def)
  ultimately show ?thesis unfolding numbered_def by (fastforce simp del: length_append)
qed

lemma numbered_launch: "numbered workers calls \<Longrightarrow> wk_seq wk = 0 \<Longrightarrow> numbered (workers @ [wk]) calls"
  by (fastforce simp: numbered_def calls_started_def nth_append)

definition ids_kept :: "('w \<times> demo_record) demo_state \<Rightarrow> bool" where
  "ids_kept s \<longleftrightarrow> accounts s \<and> numbered (dm_workers s) (snd (snd (dm_world s)))"

lemma ids_stable:
  "snd w = snd (dm_world s) \<Longrightarrow> ids_kept (s\<lparr>dm_world := w\<rparr>) = ids_kept s" "ids_kept (s\<lparr>dm_log := l\<rparr>) = ids_kept s"
  "ids_kept (s\<lparr>dm_held := b\<rparr>) = ids_kept s" "ids_kept (s\<lparr>dm_start := t\<rparr>) = ids_kept s" "ids_kept (s\<lparr>dm_stop := b\<rparr>) = ids_kept s"
  "ids_kept (s\<lparr>dm_stack_started := b\<rparr>) = ids_kept s"
  by (simp_all add: ids_kept_def)

lemma step_commands: "fst (snd (dm_world (worker_step (demo_recording ops) i status resp s))) = fst (snd (dm_world s))"
proof -
  obtain w1 now where t1: "bw_now (mo_bench (demo_recording ops)) (dm_world s) = (w1, now)" by fastforce
  obtain w2 ms where t2: "ro_unix_ms (mo_run (demo_recording ops)) (dm_world s) = (w2, ms)" by fastforce
  obtain w3 t0 where t3: "bw_now (mo_bench (demo_recording ops)) w2 = (w3, t0)" by fastforce
  have "snd w1 = snd (dm_world s)" "snd w3 = snd (dm_world s)"
    using recording_keeps(4)[of ops "dm_world s"] recording_keeps(4)[of ops w2] recording_keeps(9)[of ops "dm_world s"] t1 t2 t3 by simp_all
  then show ?thesis by (simp add: worker_step_def set_worker_def Let_def t1 t2 t3 recording_keeps(12) split: worker_at.split)
qed

lemma ids_step:
  assumes "ids_kept s" "i < length (dm_workers s)"
  shows "ids_kept (worker_step (demo_recording ops) i status resp s)"
proof -
  let ?wk = "dm_workers s ! i"
  have n: "numbered (dm_workers s) (snd (snd (dm_world s)))" and seq: "0 \<le> wk_seq ?wk"
    using assms by (auto simp: ids_kept_def accounts_def)
  obtain w1 now where t1: "bw_now (mo_bench (demo_recording ops)) (dm_world s) = (w1, now)" by fastforce
  obtain w2 ms where t2: "ro_unix_ms (mo_run (demo_recording ops)) (dm_world s) = (w2, ms)" by fastforce
  obtain w3 t0 where t3: "bw_now (mo_bench (demo_recording ops)) w2 = (w3, t0)" by fastforce
  have w: "snd w1 = snd (dm_world s)" "snd w3 = snd (dm_world s)"
    using recording_keeps(4)[of ops "dm_world s"] recording_keeps(4)[of ops w2] recording_keeps(9)[of ops "dm_world s"] t1 t2 t3 by simp_all
  have "numbered (dm_workers (worker_step (demo_recording ops) i status resp s)) (snd (snd (dm_world (worker_step (demo_recording ops) i status resp s))))"
  proof (cases "wk_at ?wk")
    case AtRequest
    show ?thesis
      by (simp add: worker_step_def set_worker_def AtRequest t2 t3 case_prod_beta Let_def w recording_keeps(12))
        (rule numbered_next[OF n assms(2)], simp_all add: seq worker_request_def worker_id_def)
  qed (use n assms(2) in \<open>auto simp: worker_step_def set_worker_def Let_def t1 t2 t3 w intro!: numbered_same\<close>)
  then show ?thesis using assms by (simp add: ids_kept_def accounts_step)
qed

interpretation ids_recorded: demo_marks "demo_recording ops" ids_kept
proof unfold_locales
  fix s :: "('a \<times> demo_record) demo_state" assume "ids_kept s"
  then show "ids_kept (other_threads (demo_recording ops) s)"
    by (intro others_keep[of ids_kept]) (simp_all add: ids_step ids_stable recording_keeps(10))
qed (auto simp: ids_stable recording_keeps(4-8) dest: recording_keeps(1-3))

interpretation ids_recorded: demo_keeps_all "demo_recording ops" ids_kept
  by unfold_locales (auto simp: ids_stable ids_kept_def numbered_launch accounted.launch dest: recording_keeps(11))

section \<open>The threads at the end\<close>

definition templates_are :: "AgentTemplate list \<Rightarrow> 'w demo_state \<Rightarrow> bool" where
  "templates_are ts s \<longleftrightarrow> map wk_template (dm_workers s) = ts"

definition has_returned :: "nat \<Rightarrow> 'w demo_state \<Rightarrow> bool" where
  "has_returned i s \<longleftrightarrow> i < length (dm_workers s) \<and> wk_at (dm_workers s ! i) = Returned"

lemma threads_step:
  "templates_are ts s \<Longrightarrow> i < length (dm_workers s) \<Longrightarrow> templates_are ts (worker_step ops i status resp s)"
  "has_returned j s \<Longrightarrow> i < length (dm_workers s) \<Longrightarrow> has_returned j (worker_step ops i status resp s)"
proof -
  have u: "map wk_template ((dm_workers s)[i := wk]) = map wk_template (dm_workers s)"
    if "wk_template wk = wk_template (dm_workers s ! i)" "i < length (dm_workers s)" for wk
    using that by (simp add: map_update list_update_same_conv)
  show "templates_are ts s \<Longrightarrow> i < length (dm_workers s) \<Longrightarrow> templates_are ts (worker_step ops i status resp s)"
    by (auto simp: templates_are_def worker_step_def set_worker_def Let_def u split: worker_at.splits prod.splits)
  show "has_returned j s \<Longrightarrow> i < length (dm_workers s) \<Longrightarrow> has_returned j (worker_step ops i status resp s)"
    by (cases "j = i") (auto simp: has_returned_def worker_step_def set_worker_def Let_def split: worker_at.splits prod.splits)
qed

interpretation templates_kept: demo_marks ops "templates_are ts"
proof unfold_locales
  fix s :: "'a demo_state" assume "templates_are ts s"
  then show "templates_are ts (other_threads ops s)"
    by (intro others_keep[of "templates_are ts"] threads_step(1)) (simp_all add: templates_are_def)
qed (simp_all add: templates_are_def)

interpretation templates_kept: demo_keeps_commands ops "templates_are ts"
  by unfold_locales (simp_all add: templates_are_def)

interpretation returned_kept: demo_marks ops "has_returned i"
proof unfold_locales
  fix s :: "'a demo_state" assume "has_returned i s"
  then show "has_returned i (other_threads ops s)"
    by (intro others_keep[of "has_returned i"] threads_step(2)) (simp_all add: has_returned_def)
qed (simp_all add: has_returned_def)

interpretation returned_kept: demo_keeps_commands ops "has_returned i"
  by unfold_locales (simp_all add: has_returned_def)

lemma load_labels: "load_templates_of F ops cfg labels s = Some (s', Inr ts) \<Longrightarrow> map at_label ts = labels"
proof (induction labels arbitrary: s s' ts)
  case (Cons l labels)
  have "at_label t = l" if "demo_load_template ops cfg l s = Some (s1, Inr t)" for s s1 t
    using that by (auto simp: demo_load_template_def demo_parse_template_def demo_template_fields_def io_bind_def io_lift_def Let_def
        split: option.splits sum.splits if_splits dest!: rbind_InrD)
  with Cons show ?case
    by (auto simp: io_bind_def io_lift_def split: option.splits sum.splits prod.splits)
qed (simp add: io_lift_def)

lemma prepare_labels: "triple (\<lambda>_. True) (demo_prepare F ops cfg) (\<lambda>ts _. map at_label ts = ''ABCDE'') (\<lambda>_. True)"
proof -
  have load: "triple (\<lambda>_. True) (load_templates_of F ops cfg ''ABCDE'') (\<lambda>ts _. map at_label ts = ''ABCDE'') (\<lambda>_. True)"
    unfolding triple_def by (auto simp del: load_templates_of.simps split: sum.splits dest: load_labels)
  have const: "triple (\<lambda>_. c) m (\<lambda>_ _. c) (\<lambda>_. True)" for c m
    by (auto simp: triple_def split: sum.splits)
  show ?thesis unfolding demo_prepare_def
    by (rule triple_bind[OF triple_any triple_bind[OF triple_any triple_bind[OF load]]])
      (rule triple_bind[OF const] triple_lift | simp)+
qed

text \<open>Launching cannot fail; what comes before it in the traffic cannot either.\<close>

definition sure :: "('s, 'a) io \<Rightarrow> bool" where
  "sure m \<longleftrightarrow> (\<forall>s s' e. m s \<noteq> Some (s', Inl e))"

lemma sure_update: "sure (demo_update ops f)"
  by (simp add: sure_def demo_update_def io_modify_def)

lemma sure_bind: "sure m \<Longrightarrow> (\<And>x. sure (f x)) \<Longrightarrow> sure (io_bind m f)"
  unfolding sure_def io_bind_def by (fastforce split: option.splits sum.splits)

lemma sure_get: "sure (demo_get ops f)" "sure (demo_now ops)" "sure (demo_sleep ops ms)"
  by (auto simp: sure_def demo_now_def demo_sleep_def demo_get_def demo_world_def Let_def split: prod.splits)

lemma triple_sure: "sure m \<Longrightarrow> preserves P m \<Longrightarrow> triple P m (\<lambda>_. P) E"
  unfolding sure_def preserves_def triple_def by (fastforce split: sum.splits)

lemma launch_templates: "triple (templates_are xs) (launch_workers ops cfg ts) (\<lambda>_. templates_are (xs @ ts)) E"
proof (induction ts arbitrary: xs)
  case (Cons t ts)
  let ?wk = "\<lparr>wk_template = t, wk_interval_ms = dc_op_interval_ms cfg, wk_seq = 0, wk_at = AtLoop\<rparr>"
  have "triple (templates_are xs) (demo_update ops (\<lambda>s. s\<lparr>dm_workers := dm_workers s @ [?wk]\<rparr>)) (\<lambda>_. templates_are (xs @ [t])) E"
    unfolding demo_update_def by (rule triple_modify) (use templates_kept.turns in \<open>auto simp: templates_are_def\<close>)
  from triple_bind[OF this triple_bind[OF triple_sure[OF sure_get(3) templates_kept.sleep_keeps] Cons.IH]]
  show ?case by simp
qed (simp add: triple_def io_lift_def)

lemma join_returned:
  assumes "join_worker ops i s = Some out"
  shows "has_returned i (fst out)"
proof (induction rule: join_worker.raw_induct[OF _ assms, consumes 0, case_names step])
  case (step loop ops i s out)
  then show ?case by (auto simp: has_returned_def split: if_splits)
qed

lemma joins_returned: "join_workers ops is s = Some (s', Inr u) \<Longrightarrow> i \<in> set is \<Longrightarrow> has_returned i s'"
proof (induction "is" arbitrary: s)
  case (Cons j "is")
  obtain s1 r where j: "join_worker ops j s = Some (s1, r)" and rest: "join_workers ops is s1 = Some (s', Inr u)"
    using Cons.prems(1) by (auto simp: io_bind_def split: option.splits sum.splits prod.splits)
  show ?case
  proof (cases "i = j")
    case True
    then show ?thesis using preservesD[OF returned_kept.joins_keep _ rest] join_returned[OF j] by simp
  qed (use Cons rest in simp)
qed simp

lemma traffic_threads:
  "triple (templates_are []) (demo_traffic lib_what ops cfg ts)
     (\<lambda>_ s. templates_are ts s \<and> (\<forall>i<length ts. has_returned i s)) (templates_are ts)"
proof -
  have joins: "triple (templates_are ts) (join_workers ops [0..<length ts])
      (\<lambda>_ s. templates_are ts s \<and> (\<forall>i<length ts. has_returned i s)) (templates_are ts)"
    using preservesD[OF templates_kept.joins_keep] joins_returned unfolding triple_def by (fastforce split: sum.splits)
  note keep = preserves_def[symmetric]
  show ?thesis unfolding demo_traffic_def
    by (rule triple_bind[OF triple_sure[OF sure_get(2) templates_kept.now_keeps]]
          triple_bind[OF triple_sure[OF sure_update templates_kept.shutdown_keeps(2)]]
          triple_bind[OF launch_templates[of "[]", simplified]]
          triple_bind[OF templates_kept.loop_keeps[unfolded preserves_def]]
          triple_bind[OF templates_kept.log_keeps(8)[unfolded preserves_def]]
          triple_bind[OF templates_kept.log_keeps(1)[unfolded preserves_def]]
          triple_bind[OF templates_kept.shutdown_keeps(1)[unfolded preserves_def]] joins)+
qed

text \<open>All five threads or none, and after a regular end they have returned.\<close>

definition agents_are :: "string \<Rightarrow> 'w demo_state \<Rightarrow> bool" where
  "agents_are labels s \<longleftrightarrow> map (\<lambda>wk. at_label (wk_template wk)) (dm_workers s) = labels"

lemma agents_of_templates: "templates_are ts s \<Longrightarrow> agents_are (map at_label ts) s"
  by (auto simp: agents_are_def templates_are_def)

lemma caught_code: "demo_caught lib_what ops cfg e s = Some (s', ending) \<Longrightarrow> ending \<noteq> Exit 0"
proof (cases "demo_handler lib_what ops cfg e s")
  case (Some p)
  then show "demo_caught lib_what ops cfg e s = Some (s', ending) \<Longrightarrow> ending \<noteq> Exit 0"
    by (cases p; cases "snd p") (auto simp: demo_caught_def split: if_splits)
qed (auto simp: demo_caught_def split: if_splits)

lemma main_threads:
  assumes "demo_main F lib_what ops proot env w = Some (s, ending)"
  shows "agents_are [] s \<or> agents_are ''ABCDE'' s"
    and "ending = Exit 0 \<Longrightarrow> agents_are ''ABCDE'' s \<and> (\<forall>wk\<in>set (dm_workers s). wk_at wk = Returned)"
proof -
  let ?cfg = "demo_load_config F proot env" and ?s0 = "new_demo_state (fst (bw_now (mo_bench ops) w)) (snd (bw_now (mo_bench ops) w))"
  obtain s1 r1 where p: "demo_prepare F ops ?cfg ?s0 = Some (s1, r1)"
    using assms by (cases "demo_prepare F ops ?cfg ?s0") (auto simp: demo_main_def case_prod_beta Let_def)
  have "templates_are [] ?s0" by (simp add: templates_are_def new_demo_state_def)
  from preservesD[OF templates_kept.prepare_keeps this p] have t1: "templates_are [] s1" .
  have main: "(agents_are [] s \<or> agents_are ''ABCDE'' s) \<and> (ending = Exit 0 \<longrightarrow> agents_are ''ABCDE'' s \<and> (\<forall>wk\<in>set (dm_workers s). wk_at wk = Returned))"
  proof (cases r1)
    case (Inl e)
    then have c: "demo_caught lib_what ops ?cfg e s1 = Some (s, ending)" using assms p by (simp add: demo_main_def case_prod_beta Let_def)
    then show ?thesis using caught_code[OF c] agents_of_templates[OF templates_kept.caught_keeps[OF c t1]] by simp
  next
    case (Inr ts)
    have labels: "map at_label ts = ''ABCDE''"
      using prepare_labels[unfolded triple_def, rule_format, OF TrueI p] Inr by simp
    obtain s2 r2 where t: "demo_traffic lib_what ops ?cfg ts s1 = Some (s2, r2)"
      using assms p Inr by (cases "demo_traffic lib_what ops ?cfg ts s1") (auto simp: demo_main_def case_prod_beta Let_def)
    have t2: "templates_are ts s2" using traffic_threads[unfolded triple_def, rule_format, OF t1 t] by (auto split: sum.splits)
    show ?thesis
    proof (cases r2)
      case (Inl e)
      then show ?thesis using assms p t \<open>r1 = Inr ts\<close> agents_of_templates[OF t2] labels
        by (auto simp: demo_main_def case_prod_beta Let_def split: if_splits)
    next
      case (Inr u)
      have ret: "has_returned i s2" if "i < length ts" for i
        using traffic_threads[unfolded triple_def, rule_format, OF t1 t] Inr that by simp
      obtain s3 r3 where f: "demo_finish ops ?cfg s2 = Some (s3, r3)"
        using assms p t \<open>r1 = Inr ts\<close> Inr by (cases "demo_finish ops ?cfg s2") (auto simp: demo_main_def case_prod_beta Let_def)
      note t3 = preservesD[OF templates_kept.finish_keeps t2 f]
      have "has_returned i s3" if "i < length ts" for i using preservesD[OF returned_kept.finish_keeps ret[OF that] f] .
      moreover have "length (dm_workers s3) = length ts" using t3 by (auto simp: templates_are_def)
      ultimately have "\<forall>wk\<in>set (dm_workers s3). wk_at wk = Returned" by (metis has_returned_def in_set_conv_nth)
      moreover have ended: "(case r3 of Inl e \<Rightarrow> demo_caught lib_what ops ?cfg e s3 | Inr u \<Rightarrow> Some (s3, Exit 0)) = Some (s, ending)"
        using assms p t f \<open>r1 = Inr ts\<close> Inr by (simp add: demo_main_def case_prod_beta Let_def)
      ultimately show ?thesis
      proof (cases r3)
        case (Inl e)
        then have c: "demo_caught lib_what ops ?cfg e s3 = Some (s, ending)" using ended by simp
        show ?thesis using caught_code[OF c] agents_of_templates[OF templates_kept.caught_keeps[OF c t3]] labels by simp
      qed (use agents_of_templates[OF t3] labels in simp)
    qed
  qed
  show "agents_are [] s \<or> agents_are ''ABCDE'' s" "ending = Exit 0 \<Longrightarrow> agents_are ''ABCDE'' s \<and> (\<forall>wk\<in>set (dm_workers s). wk_at wk = Returned)"
    using main by blast+
qed

end
