(* ===== verification/DemoHost.thy ===== *)
theory DemoHost
  imports DemoWorkload
begin

text \<open>
  The nodes during a run of the demo, read off the commands it gave to the shell. Until the last phase at
  most two of the five nodes are down at a time, so that the cluster keeps its quorum; the last phase
  stops three different nodes.
\<close>

section \<open>Nodes that are down\<close>

definition command_node :: "DemoConfig \<Rightarrow> string \<Rightarrow> string \<Rightarrow> string option" where
  "command_node cfg verb command =
     (let p = demo_compose_command cfg (verb @ '' '') in if prefix p command then Some (drop (length p) command) else None)"

definition stopped_by :: "DemoConfig \<Rightarrow> string list \<Rightarrow> string \<Rightarrow> string list" where
  "stopped_by cfg down command =
     (case command_node cfg ''stop'' command of
        Some node \<Rightarrow> List.insert node down
      | None \<Rightarrow> (case command_node cfg ''start'' command of Some node \<Rightarrow> removeAll node down | None \<Rightarrow> down))"

definition demo_down :: "DemoConfig \<Rightarrow> string list \<Rightarrow> string list" where
  "demo_down cfg commands = foldl (stopped_by cfg) [] commands"

text \<open>The nodes that run. A \<^verbatim>\<open>stop\<close> that names no service stops them all.\<close>

definition nodes_up :: "DemoConfig \<Rightarrow> string list \<Rightarrow> string list" where
  "nodes_up cfg commands =
     (let down = demo_down cfg commands in
      if [] \<in> set down then [] else filter (\<lambda>n. n \<notin> set down) (dc_node_service_names cfg))"

lemma command_node_compose:
  "command_node cfg verb (demo_compose_command cfg args) = (if prefix (verb @ '' '') args then Some (drop (length verb + 1) args) else None)"
proof -
  obtain base where b: "\<And>args. demo_compose_command cfg args = base @ args"
    by (rule that[of "''cd '' @ shell_quote (dc_project_root cfg) @ '' && docker compose ''"]) (simp add: demo_compose_command_def)
  show ?thesis by (simp add: command_node_def Let_def b)
qed

lemma stopped_by_command:
  "stopped_by cfg down (demo_compose_command cfg (''stop '' @ node)) = List.insert node down"
  "stopped_by cfg down (demo_compose_command cfg (''start '' @ node)) = removeAll node down"
  "stopped_by cfg down (demo_compose_command cfg demo_up_args) = down"
  "stopped_by cfg down (demo_compose_command cfg ''down'') = down"
  by (simp_all add: stopped_by_def command_node_compose demo_up_args_def)

lemma demo_down_snoc: "demo_down cfg (commands @ [command]) = stopped_by cfg (demo_down cfg commands) command"
  by (simp add: demo_down_def)

text \<open>At every time so far at most two nodes were down, all of them nodes of the cluster; now at most \<open>n\<close> are.\<close>

definition few_down :: "DemoConfig \<Rightarrow> nat \<Rightarrow> string list \<Rightarrow> bool" where
  "few_down cfg n commands \<longleftrightarrow>
     (\<forall>k. length (demo_down cfg (take k commands)) \<le> 2 \<and> set (demo_down cfg (take k commands)) \<subseteq> set (dc_node_service_names cfg))
     \<and> length (demo_down cfg commands) \<le> n"

lemma few_down_now: "few_down cfg n commands \<Longrightarrow> length (demo_down cfg commands) \<le> n \<and> set (demo_down cfg commands) \<subseteq> set (dc_node_service_names cfg)"
  unfolding few_down_def by (metis take_all order_refl)

lemma few_down_mono: "few_down cfg m commands \<Longrightarrow> m \<le> n \<Longrightarrow> few_down cfg n commands"
  by (auto simp: few_down_def)

lemma few_down_later [simp]:
  "few_down cfg 0 commands \<Longrightarrow> few_down cfg (Suc 0) commands" "few_down cfg (Suc 0) commands \<Longrightarrow> few_down cfg 2 commands"
  "few_down cfg 0 commands \<Longrightarrow> few_down cfg 2 commands"
  by (auto elim: few_down_mono)

lemma few_down_snoc:
  assumes "few_down cfg m commands" "length (stopped_by cfg (demo_down cfg commands) command) \<le> n" "n \<le> 2"
    and "set (stopped_by cfg (demo_down cfg commands) command) \<subseteq> set (dc_node_service_names cfg)"
  shows "few_down cfg n (commands @ [command])"
  using assms by (auto simp: few_down_def demo_down_snoc take_Cons' not_le split: if_splits)

lemma few_down_stop:
  assumes "few_down cfg n commands" "Suc n \<le> 2" "node \<in> set (dc_node_service_names cfg)"
  shows "few_down cfg (Suc n) (commands @ [demo_compose_command cfg (''stop '' @ node)])"
proof (rule few_down_snoc[OF assms(1) _ assms(2)], unfold stopped_by_command)
  show "length (List.insert node (demo_down cfg commands)) \<le> Suc n" using few_down_now[OF assms(1)] by (simp add: List.insert_def)
  show "set (List.insert node (demo_down cfg commands)) \<subseteq> set (dc_node_service_names cfg)"
    using few_down_now[OF assms(1)] assms(3) by auto
qed

lemma few_down_start:
  assumes "few_down cfg n commands" "n \<le> 2"
  shows "few_down cfg n (commands @ [demo_compose_command cfg (''start '' @ node)])"
proof (rule few_down_snoc[OF assms(1) _ assms(2)], unfold stopped_by_command)
  show "length (removeAll node (demo_down cfg commands)) \<le> n" 
    by (rule order_trans[OF length_removeAll_less_eq]) (simp add: few_down_now[OF assms(1)])
  show "set (removeAll node (demo_down cfg commands)) \<subseteq> set (dc_node_service_names cfg)" using few_down_now[OF assms(1)] by auto
qed

lemma few_down_other:
  assumes "few_down cfg n commands" "n \<le> 2" "stopped_by cfg (demo_down cfg commands) command = demo_down cfg commands"
  shows "few_down cfg n (commands @ [command])"
  by (rule few_down_snoc[OF assms(1) _ assms(2)]) (simp_all add: assms(3) few_down_now[OF assms(1)])

text \<open>The commands of a run up to its last phase, and of that phase.\<close>

definition stop_commands :: "DemoConfig \<Rightarrow> string list \<Rightarrow> string list" where
  "stop_commands cfg services = map (\<lambda>s. demo_compose_command cfg (''stop '' @ s)) services"

definition collapse_shape :: "DemoConfig \<Rightarrow> nat \<Rightarrow> string list \<Rightarrow> bool" where
  "collapse_shape cfg n commands \<longleftrightarrow>
     (\<exists>before fs. commands = before @ stop_commands cfg fs \<and> few_down cfg 2 before \<and> length fs = n
        \<and> distinct fs \<and> set fs \<subseteq> set (dc_node_service_names cfg))"

lemma demo_down_stops: "set (demo_down cfg (commands @ stop_commands cfg fs)) = set fs \<union> set (demo_down cfg commands)"
proof (induction fs rule: rev_induct)
  case (snoc f fs)
  then show ?case unfolding stop_commands_def map_append append_assoc[symmetric] list.map
    by (simp only: demo_down_snoc stopped_by_command) auto
qed (simp add: stop_commands_def)

section \<open>Steps and commands\<close>

definition commands_of :: "('w \<times> demo_record) demo_state \<Rightarrow> string list" where
  "commands_of s = fst (snd (dm_world s))"

interpretation commands_kept: demo_marks "demo_recording ops" "\<lambda>s. commands_of s = cs"
proof unfold_locales
  fix s :: "('a \<times> demo_record) demo_state" assume c: "commands_of s = cs"
  show "commands_of (other_threads (demo_recording ops) s) = cs"
    by (rule others_keep[of "\<lambda>s. commands_of s = cs"]) (simp_all add: commands_of_def recording_keeps(10) step_commands c[unfolded commands_of_def])
qed (auto simp: commands_of_def recording_keeps(4-8) dest: recording_keeps(1-3))

text \<open>A step that issues no command, and triples on the commands issued.\<close>

definition silent :: "(('w \<times> demo_record) demo_state, 'a) io \<Rightarrow> bool" where
  "silent m \<longleftrightarrow> (\<forall>cs. preserves (\<lambda>s. commands_of s = cs) m)"

definition ctriple :: "(string list \<Rightarrow> bool) \<Rightarrow> (('w \<times> demo_record) demo_state, 'a) io \<Rightarrow> (string list \<Rightarrow> bool) \<Rightarrow> (string list \<Rightarrow> bool) \<Rightarrow> bool" where
  "ctriple P m Q E \<longleftrightarrow> triple (\<lambda>s. P (commands_of s)) m (\<lambda>_ s. Q (commands_of s)) (\<lambda>s. E (commands_of s))"

definition yields :: "('s, 'a) io \<Rightarrow> ('a \<Rightarrow> bool) \<Rightarrow> bool" where
  "yields m \<phi> \<longleftrightarrow> (\<forall>s s' x. m s = Some (s', Inr x) \<longrightarrow> \<phi> x)"

lemma silentD: "silent m \<Longrightarrow> m s = Some (s', r) \<Longrightarrow> commands_of s' = commands_of s"
  unfolding silent_def by (blast dest: preservesD)

lemma ctriple_silent: "silent m \<Longrightarrow> (\<And>cs. P cs \<Longrightarrow> Q cs \<and> E cs) \<Longrightarrow> ctriple P m Q E"
  unfolding ctriple_def triple_def by (auto split: sum.splits dest: silentD)

lemma ctriple_then:
  assumes "silent m" "yields m \<phi>" "\<And>x. \<phi> x \<Longrightarrow> ctriple P (f x) Q E" "\<And>cs. P cs \<Longrightarrow> E cs"
  shows "ctriple P (io_bind m f) Q E"
  unfolding ctriple_def
proof (rule triple_bind)
  show "triple (\<lambda>s. P (commands_of s)) m (\<lambda>x s. \<phi> x \<and> P (commands_of s)) (\<lambda>s. E (commands_of s))"
    using assms(1,2,4) unfolding triple_def yields_def by (auto split: sum.splits dest: silentD)
  show "triple (\<lambda>s. \<phi> x \<and> P (commands_of s)) (f x) (\<lambda>_ s. Q (commands_of s)) (\<lambda>s. E (commands_of s))" for x
    using assms(3)[of x] unfolding ctriple_def triple_def by blast
qed

lemma ctriple_seq: "silent m \<Longrightarrow> (\<And>x. ctriple P (f x) Q E) \<Longrightarrow> (\<And>cs. P cs \<Longrightarrow> E cs) \<Longrightarrow> ctriple P (io_bind m f) Q E"
  by (rule ctriple_then[of m "\<lambda>_. True"]) (simp_all add: yields_def)

lemma ctriple_bind: "ctriple P m R E \<Longrightarrow> (\<And>x. ctriple R (f x) Q E) \<Longrightarrow> ctriple P (io_bind m f) Q E"
  unfolding ctriple_def by (rule triple_bind)

lemma ctriple_weaken: "ctriple P' m Q' E' \<Longrightarrow> (\<And>cs. P cs \<Longrightarrow> P' cs) \<Longrightarrow> (\<And>cs. Q' cs \<Longrightarrow> Q cs) \<Longrightarrow> (\<And>cs. E' cs \<Longrightarrow> E cs) \<Longrightarrow> ctriple P m Q E"
  unfolding ctriple_def by (erule triple_weaken) auto

lemma ctriple_shell:
  assumes "\<And>cs. P cs \<Longrightarrow> Q (cs @ [cmd])"
  shows "ctriple P (demo_run_shell (demo_recording ops) cmd) Q Q"
  unfolding ctriple_def triple_def
proof (intro allI impI)
  fix s s' r assume P: "P (commands_of s)" and run: "demo_run_shell (demo_recording ops) cmd s = Some (s', r)"
  have "commands_of (other_threads (demo_recording ops) s) = commands_of s" by (rule commands_kept.turns) simp
  with run have "commands_of s' = commands_of s @ [cmd]"
    by (auto simp: demo_run_shell_def demo_call_def demo_world_def Let_def commands_of_def dest!: recording_keeps(11))
  with assms[OF P] show "case r of Inl e \<Rightarrow> Q (commands_of s') | Inr x \<Rightarrow> Q (commands_of s')" by (simp split: sum.splits)
qed

lemma ctriple_command:
  assumes "\<And>cs. P cs \<Longrightarrow> Q (cs @ [demo_compose_command cfg args])"
  shows "ctriple P (compose_cmd (demo_recording ops) cfg args) Q Q"
  unfolding compose_cmd_def
  by (rule ctriple_bind[OF ctriple_shell], erule assms) (auto simp: ctriple_def triple_def io_lift_def split: sum.splits)

lemmas silent_intros = commands_kept.put_keeps commands_kept.puts_keeps commands_kept.log_keeps commands_kept.summary_keeps
  commands_kept.sleep_keeps commands_kept.now_keeps commands_kept.leader_wait_keeps commands_kept.status_keeps commands_kept.poll_keeps
  commands_kept.qdrant_keeps commands_kept.waits_keep commands_kept.templates_keep commands_kept.infos_keep commands_kept.watch_keeps
  commands_kept.idle_keeps commands_kept.steady_keeps commands_kept.joins_keep commands_kept.http_keeps preserves_lift

lemma silentI: "(\<And>cs. preserves (\<lambda>s. commands_of s = cs) m) \<Longrightarrow> silent m"
  by (simp add: silent_def)

section \<open>The phases\<close>

text \<open>What a node of the cluster answers when it knows a leader: the leader's id is that of a node.\<close>

definition leaders_named :: "'w demo_ops \<Rightarrow> bool" where
  "leaders_named ops \<longleftrightarrow> (\<forall>target w w' st l. bw_get_leader (mo_bench ops) target w = Some (w', st, l) \<longrightarrow> status_ok st \<longrightarrow>
     li_is_leader l \<or> li_leader_address l \<noteq> [] \<longrightarrow> service_for_node_id (li_leader_id l) \<in> set demo_node_services)"

lemma leaders_named_recording: "leaders_named ops \<Longrightarrow> leaders_named (demo_recording ops)"
  unfolding leaders_named_def by (fastforce simp: demo_recording_def Let_def rec_step_def)

lemma discover_named:
  "leaders_named ops \<Longrightarrow> demo_discover ops targets s = Some (s', Inr (Some l)) \<Longrightarrow> dl_service_name l \<in> set demo_node_services"
proof (induction targets arbitrary: s)
  case (Cons target targets)
  show ?case
  proof (cases "demo_get_leader ops target s")
    case (Some p)
    obtain s1 answer where p: "p = (s1, Inr answer)"
      using Some by (cases p) (auto simp: demo_get_leader_def demo_call_def demo_world_def Let_def)
    obtain st resp where a: "answer = (st, resp)" by (cases answer)
    have "bw_get_leader (mo_bench ops) target (dm_world (other_threads ops s)) = Some (dm_world s1, st, resp)"
      using Some p a by (auto simp: demo_get_leader_def demo_call_def demo_world_def Let_def)
    with Cons.prems(1) have "status_ok st \<Longrightarrow> li_is_leader resp \<or> li_leader_address resp \<noteq> []
        \<Longrightarrow> service_for_node_id (li_leader_id resp) \<in> set demo_node_services"
      unfolding leaders_named_def by blast
    then show ?thesis using Cons Some p a by (auto simp: io_bind_def io_lift_def demo_leader_def split: if_splits)
  qed (use Cons.prems in \<open>simp add: io_bind_def\<close>)
qed (simp add: io_lift_def)

lemma until_yields:
  assumes "demo_until ops deadline timeout_error attempt s = Some out"
  shows "yields attempt (\<lambda>found. \<forall>x. found = Some x \<longrightarrow> \<phi> x) \<Longrightarrow> snd out = Inr x \<Longrightarrow> \<phi> x"
proof (induction rule: demo_until.raw_induct[OF _ assms, consumes 0, case_names step])
  case (step loop ops deadline timeout_error attempt s out)
  have found: "\<phi> x" if "demo_attempt ops deadline timeout_error attempt s = Some (s1, Inr (Some x))" for s1 x
    using that step.prems(1) by (auto simp: demo_attempt_def yields_def io_bind_def io_lift_def split: option.splits sum.splits if_splits)
  show ?case
  proof (cases "demo_attempt ops deadline timeout_error attempt s")
    case (Some p)
    then show ?thesis using step.hyps step.IH[OF _ step.prems(1)] step.prems(2) found
      by (auto split: sum.splits option.splits prod.splits)
  qed (use step.hyps in simp)
qed

lemma wait_named:
  assumes "leaders_named ops"
  shows "yields (demo_wait_for_leader (demo_recording ops) cfg timeout other) (\<lambda>l. dl_service_name l \<in> set demo_node_services)"
proof -
  have "yields (io_bind (demo_discover (demo_recording ops) targets) (\<lambda>obs. io_lift (Inr (leader_accepted other obs))))
      (\<lambda>found. \<forall>l. found = Some l \<longrightarrow> dl_service_name l \<in> set demo_node_services)" for targets
    unfolding yields_def using discover_named[OF leaders_named_recording[OF assms]]
    by (auto simp: io_bind_def io_lift_def leader_accepted_def split: option.splits sum.splits if_splits)
  from until_yields[OF _ this] show ?thesis
    unfolding yields_def demo_wait_for_leader_def by (fastforce simp: io_bind_def split: option.splits sum.splits)
qed

lemma poll_names: "yields (poll_nodes ops nodes) (\<lambda>healths. map nh_service_name healths = map snd nodes)"
proof (induction nodes)
  case (Cons node nodes)
  then show ?case unfolding yields_def
    by (cases node) (auto simp: io_bind_def io_lift_def node_health_def split: option.splits sum.splits prod.splits)
qed (simp add: yields_def io_lift_def)

lemma cluster_names: "length (dc_node_targets cfg) = length (dc_node_service_names cfg)
    \<Longrightarrow> yields (poll_cluster ops cfg) (\<lambda>healths. map nh_service_name healths = dc_node_service_names cfg)"
  using poll_names[of ops "zip (dc_node_targets cfg) (dc_node_service_names cfg)"] by (simp add: poll_cluster_def)

lemma kill_commands:
  assumes "leaders_named ops" "dc_node_service_names cfg = demo_node_services"
  shows "ctriple (few_down cfg 0) (phase_leader_kill (demo_recording ops) cfg) (few_down cfg 1) (few_down cfg 1)"
  unfolding phase_leader_kill_def
proof (rule ctriple_seq[OF silentI[OF commands_kept.log_keeps(8)]],
    rule ctriple_then[OF silentI[OF commands_kept.leader_wait_keeps(1)] wait_named[OF assms(1)]])
  fix leader :: DemoLeader assume "dl_service_name leader \<in> set demo_node_services"
  then have "few_down cfg 0 cs \<Longrightarrow> few_down cfg 1 (cs @ [demo_compose_command cfg (''stop '' @ dl_service_name leader)])" for cs
    using few_down_stop[of cfg 0] assms(2) by simp
  then have "ctriple (few_down cfg 0) (compose_cmd (demo_recording ops) cfg (''stop '' @ dl_service_name leader)) (few_down cfg 1) (few_down cfg 1)"
    by (rule ctriple_command)
  then show "ctriple (few_down cfg 0)
     (io_bind (chaos (demo_recording ops) (leader_text ''Killing current leader: '' leader)) (\<lambda>_.
      io_bind (print_cluster_status (demo_recording ops) cfg) (\<lambda>_.
      io_bind (compose_cmd (demo_recording ops) cfg (''stop '' @ dl_service_name leader)) (\<lambda>_.
      io_bind (chaos (demo_recording ops) (dl_service_name leader @ '' stopped. Workload continues against proxy...'')) (\<lambda>_.
      io_bind (print_cluster_status (demo_recording ops) cfg) (\<lambda>_.
      io_bind (phase_log (demo_recording ops) ''Waiting for new leader election...'') (\<lambda>_.
      io_bind (demo_wait_for_leader (demo_recording ops) cfg 15 (dl_address leader)) (\<lambda>new_leader.
      io_bind (recover (demo_recording ops) (leader_text ''New leader elected: '' new_leader)) (\<lambda>_.
      io_bind (print_cluster_status (demo_recording ops) cfg) (\<lambda>_. print_summary (demo_recording ops) ''Post-Failover'')))))))))) (few_down cfg 1) (few_down cfg 1)"
    by (intro ctriple_seq[OF silentI[OF commands_kept.log_keeps(5)]] ctriple_seq[OF silentI[OF commands_kept.status_keeps]])
      (rule ctriple_bind, assumption, rule ctriple_silent, (intro silentI preserves_bind silent_intros | simp)+)
qed simp_all

lemma choose_commands:
  fixes ops :: "'w demo_ops"
  assumes "dc_node_service_names cfg = demo_node_services"
  shows "ctriple (few_down cfg 1) (choose_down (demo_recording ops) cfg nodes) (few_down cfg 2) (few_down cfg 2)"
proof -
  have "few_down cfg 1 cs \<Longrightarrow> few_down cfg 2 (cs @ [demo_compose_command cfg (''stop '' @ ''dscc-node-5'')])" for cs
    using few_down_stop[of cfg 1 cs "''dscc-node-5''"] by (simp add: assms demo_node_services_def numeral_2_eq_2)
  then have stop: "ctriple (few_down cfg 1) (compose_cmd (demo_recording ops) cfg (''stop '' @ ''dscc-node-5'')) (few_down cfg 2) (few_down cfg 2)"
    by (rule ctriple_command)
  have "ctriple (few_down cfg 1) (io_bind (phase_log (demo_recording ops) ''All nodes already up; restarting node-5 for demonstration.'') (\<lambda>_.
      io_bind (compose_cmd (demo_recording ops) cfg (''stop '' @ ''dscc-node-5'')) (\<lambda>_.
      io_bind (demo_sleep (demo_recording ops) 2000) (\<lambda>_. io_lift (Inr (''dscc-node-5'', ''127.0.0.1:50055'')))))) (few_down cfg 2) (few_down cfg 2)"
    by (rule ctriple_seq[OF silentI[OF commands_kept.log_keeps(4)]], rule ctriple_bind[OF stop], rule ctriple_silent)
      (intro silentI preserves_bind silent_intros | simp)+
  moreover have "ctriple (few_down cfg 1) (io_lift (Inr x) :: (('w \<times> demo_record) demo_state, _) io) (few_down cfg 2) (few_down cfg 2)"
    for x :: "string \<times> string"
    by (rule ctriple_silent) (auto intro!: silentI preserves_lift simp: few_down_mono)
  ultimately show ?thesis unfolding choose_down_def Let_def case_prod_beta
    by (cases "List.find (\<lambda>n. \<not> nh_reachable n) nodes") simp_all
qed

lemma rejoin_commands:
  assumes "dc_node_service_names cfg = demo_node_services"
  shows "ctriple (few_down cfg 1) (phase_old_leader_rejoin (demo_recording ops) cfg) (few_down cfg 2) (few_down cfg 2)"
proof -
  have start: "ctriple (few_down cfg 2) (compose_cmd (demo_recording ops) cfg (''start '' @ node)) (few_down cfg 2) (few_down cfg 2)" for node
    by (rule ctriple_command) (rule few_down_start, simp_all)
  show ?thesis unfolding phase_old_leader_rejoin_def case_prod_beta
    by (rule ctriple_seq[OF silentI[OF commands_kept.log_keeps(8)]], rule ctriple_seq[OF silentI[OF commands_kept.poll_keeps]],
        rule ctriple_bind[OF choose_commands[OF assms]], rule ctriple_seq[OF silentI[OF commands_kept.log_keeps(6)]],
        rule ctriple_bind[OF start], rule ctriple_silent)
      (intro silentI preserves_bind silent_intros | simp)+
qed

text \<open>The last phase.\<close>

definition collapsing :: "DemoConfig \<Rightarrow> string list \<Rightarrow> string list \<Rightarrow> bool" where
  "collapsing cfg fs commands \<longleftrightarrow> (\<exists>before. commands = before @ stop_commands cfg fs \<and> few_down cfg 2 before)"

definition collapsed :: "DemoConfig \<Rightarrow> string list \<Rightarrow> bool" where
  "collapsed cfg commands \<longleftrightarrow> (\<exists>n\<le>3. collapse_shape cfg n commands)"

lemma few_collapsed: "few_down cfg n commands \<Longrightarrow> n \<le> 2 \<Longrightarrow> collapsed cfg commands"
  using few_down_mono[of cfg n commands 2] unfolding collapsed_def collapse_shape_def
  by (intro exI[of _ 0]) (auto simp: stop_commands_def)

lemma collapsing_collapsed:
  "collapsing cfg fs commands \<Longrightarrow> length fs \<le> 3 \<Longrightarrow> distinct fs \<Longrightarrow> set fs \<subseteq> set (dc_node_service_names cfg) \<Longrightarrow> collapsed cfg commands"
  unfolding collapsed_def collapse_shape_def collapsing_def by blast

lemma collapsing_stop: "ctriple (collapsing cfg fs) (stop_follower (demo_recording ops) cfg number left f)
    (collapsing cfg (fs @ [f])) (\<lambda>cs. collapsing cfg fs cs \<or> collapsing cfg (fs @ [f]) cs)"
proof -
  have "collapsing cfg fs cs \<Longrightarrow> collapsing cfg (fs @ [f]) (cs @ [demo_compose_command cfg (''stop '' @ f)])" for cs
    by (auto simp: collapsing_def stop_commands_def)
  then have "ctriple (collapsing cfg fs) (compose_cmd (demo_recording ops) cfg (''stop '' @ f)) (collapsing cfg (fs @ [f])) (collapsing cfg (fs @ [f]))"
    by (rule ctriple_command)
  then have "ctriple (collapsing cfg fs) (compose_cmd (demo_recording ops) cfg (''stop '' @ f)) (collapsing cfg (fs @ [f]))
      (\<lambda>cs. collapsing cfg fs cs \<or> collapsing cfg (fs @ [f]) cs)"
    by (rule ctriple_weaken) auto
  then show ?thesis unfolding stop_follower_def by (rule ctriple_seq[OF silentI[OF commands_kept.log_keeps(5)]]) auto
qed

lemma collapse_commands:
  assumes "distinct [a, b, c]" "{a, b, c} \<subseteq> set (dc_node_service_names cfg)"
  shows "ctriple (few_down cfg 2) (collapse_quorum (demo_recording ops) cfg leader a b c) (collapsed cfg) (collapsed cfg)"
proof -
  have e: "collapsing cfg [] cs \<Longrightarrow> collapsed cfg cs" "collapsing cfg [a] cs \<Longrightarrow> collapsed cfg cs" "collapsing cfg [a, b] cs \<Longrightarrow> collapsed cfg cs"
    "collapsing cfg [a, b, c] cs \<Longrightarrow> collapsed cfg cs" for cs
    using assms by (auto intro: collapsing_collapsed)
  have stop: "ctriple (collapsing cfg fs) (stop_follower (demo_recording ops) cfg number left f) (collapsing cfg (fs @ [f])) (collapsed cfg)"
    if "\<And>cs. collapsing cfg fs cs \<Longrightarrow> collapsed cfg cs" "\<And>cs. collapsing cfg (fs @ [f]) cs \<Longrightarrow> collapsed cfg cs" for fs f number left
    by (rule ctriple_weaken[OF collapsing_stop]) (use that in auto)
  note stops = stop[of "[]" a, simplified, OF e(1,2)] stop[of "[a]" b, simplified, OF e(2,3)] stop[of "[a, b]" c, simplified, OF e(3,4)]
  have "ctriple (collapsing cfg []) (collapse_quorum (demo_recording ops) cfg leader a b c) (collapsed cfg) (collapsed cfg)"
    unfolding collapse_quorum_def
    by (rule ctriple_bind[OF stops(1)] ctriple_bind[OF stops(2)] ctriple_bind[OF stops(3)]
        ctriple_seq[OF silentI[OF commands_kept.log_keeps(4)]] ctriple_seq[OF silentI[OF commands_kept.status_keeps]]
        ctriple_seq[OF silentI[OF commands_kept.sleep_keeps]] ctriple_seq[OF silentI[OF commands_kept.watch_keeps]]
        ctriple_seq[OF silentI[OF commands_kept.summary_keeps]] ctriple_silent[OF silentI[OF commands_kept.log_keeps(4)]] | erule e | simp add: e)+
  then show ?thesis by (rule ctriple_weaken) (auto simp: collapsing_def stop_commands_def)
qed

lemma follower_names:
  assumes "map nh_service_name nodes = demo_node_services"
  shows "distinct (reachable_followers nodes)" "set (reachable_followers nodes) \<subseteq> set demo_node_services"
proof -
  have "distinct (map nh_service_name nodes)" unfolding assms by (simp add: demo_node_services_def)
  then show "distinct (reachable_followers nodes)" by (simp add: reachable_followers_def distinct_map_filter)
  show "set (reachable_followers nodes) \<subseteq> set demo_node_services" unfolding assms[symmetric] by (auto simp: reachable_followers_def)
qed

lemma quorum_commands:
  assumes "dc_node_service_names cfg = demo_node_services" "dc_node_targets cfg = demo_node_targets"
  shows "ctriple (few_down cfg 2) (phase_quorum_degradation (demo_recording ops) cfg) (collapsed cfg) (collapsed cfg)"
  unfolding phase_quorum_degradation_def
proof (rule ctriple_seq[OF silentI[OF commands_kept.log_keeps(8)]], rule ctriple_seq[OF silentI[OF commands_kept.leader_wait_keeps(1)]],
    rule ctriple_then[OF silentI[OF commands_kept.poll_keeps] cluster_names])
  fix leader :: DemoLeader and nodes :: "NodeHealth list"
  assume names: "map nh_service_name nodes = dc_node_service_names cfg"
  note n = follower_names[OF names[unfolded assms(1)]]
  have few: "ctriple (few_down cfg 2) (demo_fail (demo_recording ops) message) (collapsed cfg) (collapsed cfg)" for message
    by (rule ctriple_silent[OF silentI[OF commands_kept.log_keeps(3)]]) (simp add: few_collapsed)
  show "ctriple (few_down cfg 2) (case reachable_followers nodes of
      first # second # third # others \<Rightarrow> collapse_quorum (demo_recording ops) cfg leader first second third
    | followers \<Rightarrow> demo_fail (demo_recording ops) (''Need at least 3 reachable followers for this scenario; have '' @ nat_to_string (length followers)
        @ ''. Aborting phase.'')) (collapsed cfg) (collapsed cfg)"
    using n collapse_commands[of _ _ _ cfg ops leader] few by (auto simp: assms(1) split: list.split)
qed (simp_all add: assms demo_node_services_def demo_node_targets_def few_collapsed)

section \<open>The run\<close>

text \<open>What is known of the commands when \<open>k\<close> phases are over.\<close>

definition after_phases :: "DemoConfig \<Rightarrow> nat \<Rightarrow> string list \<Rightarrow> bool" where
  "after_phases cfg k = (if k \<le> 1 then few_down cfg 0 else if k = 2 then few_down cfg 1 else if k = 3 then few_down cfg 2 else collapsed cfg)"

lemma after_collapsed: "after_phases cfg k cs \<Longrightarrow> collapsed cfg cs"
  by (auto simp: after_phases_def few_collapsed split: if_splits)

lemma ctriple_attempt: "ctriple P m Q Q \<Longrightarrow> ctriple P (attempt_error m) Q Q"
  unfolding ctriple_def triple_def attempt_error_def by (auto split: option.splits sum.splits if_splits)

lemma phase_commands:
  assumes "leaders_named ops" "dc_node_service_names cfg = demo_node_services" "dc_node_targets cfg = demo_node_targets" "k < 4"
  shows "ctriple (after_phases cfg k) (run_phase lib_what (demo_recording ops) cfg (demo_phases ! k)) (after_phases cfg (Suc k)) (after_phases cfg (Suc k))"
proof -
  have "ctriple (few_down cfg 0) (phase_steady_state (demo_recording ops) cfg) (few_down cfg 0) (few_down cfg 0)"
    by (rule ctriple_silent[OF silentI[OF commands_kept.steady_keeps]]) simp
  then have a: "ctriple (after_phases cfg k) (run_action (demo_recording ops) cfg (ph_action (demo_phases ! k))) (after_phases cfg (Suc k)) (after_phases cfg (Suc k))"
    using assms(4) kill_commands[OF assms(1,2)] rejoin_commands[OF assms(2)] quorum_commands[OF assms(2,3)]
    by (auto simp: after_phases_def demo_phases_def less_Suc_eq numeral_eq_Suc)
  show ?thesis unfolding run_phase_def
  proof (rule ctriple_bind[OF ctriple_attempt[OF a]])
    fix r :: "unit outcome"
    show "ctriple (after_phases cfg (Suc k)) (case r of Inr u \<Rightarrow> io_lift (Inr ())
      | Inl e \<Rightarrow> demo_fail (demo_recording ops) (''Phase '' @ [squote] @ ph_name (demo_phases ! k) @ [squote] @ '' error: '' @ what_text lib_what e))
      (after_phases cfg (Suc k)) (after_phases cfg (Suc k))"
      by (cases r) (auto intro!: ctriple_silent silentI preserves_lift commands_kept.log_keeps)
  qed
qed

text \<open>The phases to come and the commands so far, as one round of the loop leaves them.\<close>

definition on_course :: "DemoConfig \<Rightarrow> Phase list \<Rightarrow> ('w \<times> demo_record) demo_state \<Rightarrow> bool" where
  "on_course cfg phases s \<longleftrightarrow> (\<exists>k\<le>4. phases = drop k demo_phases \<and> after_phases cfg k (commands_of s))"

lemma on_course_collapsed: "on_course cfg phases s \<Longrightarrow> collapsed cfg (commands_of s)"
  unfolding on_course_def by (blast dest: after_collapsed)

lemma silent_course: "silent m \<Longrightarrow> m s = Some (s', r) \<Longrightarrow> on_course cfg phases s' = on_course cfg phases s"
  unfolding on_course_def by (simp add: silentD)

lemma idle_course:
  "triple (on_course cfg phases) (round_idle (demo_recording ops) cfg elapsed phases next_health)
     (\<lambda>r s. case r of None \<Rightarrow> collapsed cfg (commands_of s) | Some (phases', next_health') \<Rightarrow> on_course cfg phases' s)
     (\<lambda>s. collapsed cfg (commands_of s))"
proof -
  have silent: "silent (round_idle (demo_recording ops) cfg elapsed phases next_health)" by (rule silentI) (rule commands_kept.idle_keeps)
  have "yields (round_idle (demo_recording ops) cfg elapsed phases next_health) (\<lambda>r. \<exists>nh. r = Some (phases, nh))"
    by (auto simp: yields_def round_idle_def io_bind_def io_lift_def split: option.splits sum.splits)
  then have out: "\<exists>nh. x = Some (phases, nh)"
    if "round_idle (demo_recording ops) cfg elapsed phases next_health s = Some (s', Inr x)" for s s' x
    using that unfolding yields_def by blast
  show ?thesis unfolding triple_def
  proof (intro allI impI)
    fix s s' r assume s: "on_course cfg phases s" and run: "round_idle (demo_recording ops) cfg elapsed phases next_health s = Some (s', r)"
    then have "on_course cfg phases s'" using silent_course[OF silent run] by simp
    then show "case r of Inl e \<Rightarrow> collapsed cfg (commands_of s')
      | Inr x \<Rightarrow> (case x of None \<Rightarrow> collapsed cfg (commands_of s') | Some (phases', next_health') \<Rightarrow> on_course cfg phases' s')"
      using run out by (cases r) (auto simp: on_course_collapsed dest!: out)
  qed
qed

lemma round_course:
  assumes "leaders_named ops" "dc_node_service_names cfg = demo_node_services" "dc_node_targets cfg = demo_node_targets"
  shows "triple (on_course cfg phases) (demo_round lib_what (demo_recording ops) cfg demo_start phases next_health)
     (\<lambda>r s. case r of None \<Rightarrow> collapsed cfg (commands_of s) | Some (phases', next_health') \<Rightarrow> on_course cfg phases' s)
     (\<lambda>s. collapsed cfg (commands_of s))"
proof -
  let ?Q = "\<lambda>r s. case r of None \<Rightarrow> collapsed cfg (commands_of s) | Some (phases', next_health') \<Rightarrow> on_course cfg phases' s"
  have now: "triple (on_course cfg phases) (demo_now (demo_recording ops)) (\<lambda>_. on_course cfg phases) (\<lambda>s. collapsed cfg (commands_of s))"
  proof (rule triple_weaken[of "on_course cfg phases" _ "\<lambda>_. on_course cfg phases" "on_course cfg phases"])
    have "silent (demo_now (demo_recording ops))" by (rule silentI) (rule commands_kept.now_keeps)
    then show "triple (on_course cfg phases) (demo_now (demo_recording ops)) (\<lambda>_. on_course cfg phases) (on_course cfg phases)"
      by (auto simp: triple_def silent_course split: sum.splits)
  qed (simp_all add: on_course_collapsed)
  have run: "triple (on_course cfg phases) (io_bind (run_phase lib_what (demo_recording ops) cfg p) (\<lambda>_. io_lift (Inr (if rest = [] then None else Some (rest, nh))))) ?Q
      (\<lambda>s. collapsed cfg (commands_of s))" if p: "phases = p # rest" for p rest nh
  proof (rule triple_bind[of _ _ "\<lambda>_. on_course cfg rest"])
    show "triple (on_course cfg phases) (run_phase lib_what (demo_recording ops) cfg p) (\<lambda>_. on_course cfg rest) (\<lambda>s. collapsed cfg (commands_of s))"
      unfolding triple_def
    proof (intro allI impI)
      fix s s' r assume "on_course cfg phases s" and r: "run_phase lib_what (demo_recording ops) cfg p s = Some (s', r)"
      then obtain k where k: "k \<le> 4" "phases = drop k demo_phases" "after_phases cfg k (commands_of s)" unfolding on_course_def by blast
      have l: "length demo_phases = 4" by (simp add: demo_phases_def)
      have k4: "k < 4" using k(1,2) p l by (cases "k = 4") auto
      then have "demo_phases ! k # drop (Suc k) demo_phases = p # rest" using k(2) p l Cons_nth_drop_Suc[of k demo_phases] by simp
      then have d: "p = demo_phases ! k" "rest = drop (Suc k) demo_phases" by simp_all
      from phase_commands[OF assms k4, of lib_what] k(3) r have "after_phases cfg (Suc k) (commands_of s')"
        unfolding ctriple_def triple_def d by (fastforce split: sum.splits)
      then show "case r of Inl e \<Rightarrow> collapsed cfg (commands_of s') | Inr x \<Rightarrow> on_course cfg rest s'"
        using k4 d(2) unfolding on_course_def by (auto split: sum.splits dest: after_collapsed intro!: exI[of _ "Suc k"])
    qed
  qed (rule triple_lift, auto simp: on_course_collapsed)
  show ?thesis unfolding demo_round_def
  proof (rule triple_bind[OF now])
    fix now
    show "triple (on_course cfg phases) (let elapsed = elapsed_seconds demo_start now in
       if elapsed \<ge> dc_duration_sec cfg then io_lift (Inr None)
       else case phases of
         [] \<Rightarrow> round_idle (demo_recording ops) cfg elapsed [] next_health
       | p # rest \<Rightarrow>
           if elapsed \<ge> ph_start_sec p
           then io_bind (run_phase lib_what (demo_recording ops) cfg p) (\<lambda>_. io_lift (Inr (if rest = [] then None else Some (rest, elapsed + 15))))
           else round_idle (demo_recording ops) cfg elapsed phases next_health) ?Q (\<lambda>s. collapsed cfg (commands_of s))"
      using run idle_course[of cfg phases] by (auto simp: Let_def on_course_collapsed intro!: triple_lift split: list.split)
  qed
qed

lemma loop_collapsed:
  assumes "phase_loop lib_what ops' cfg demo_start phases next_health s = Some out"
  shows "(\<And>phases next_health. triple (on_course cfg phases) (demo_round lib_what ops' cfg demo_start phases next_health)
     (\<lambda>r s. case r of None \<Rightarrow> collapsed cfg (commands_of s) | Some (phases', next_health') \<Rightarrow> on_course cfg phases' s)
     (\<lambda>s. collapsed cfg (commands_of s))) \<Longrightarrow> on_course cfg phases s \<Longrightarrow> collapsed cfg (commands_of (fst out))"
proof (induction rule: phase_loop.raw_induct[OF _ assms, consumes 0, case_names step])
  case (step loop lib_what ops' cfg demo_start phases next_health s out)
  show ?case
  proof (cases "demo_round lib_what ops' cfg demo_start phases next_health s")
    case (Some p)
    obtain s1 r where p: "p = (s1, r)" by (cases p)
    note post = step.prems(1)[unfolded triple_def, rule_format, OF step.prems(2) Some[unfolded p]]
    have again: "loop lib_what ops' cfg demo_start ph nh s1 = Some out' \<Longrightarrow> on_course cfg ph s1 \<Longrightarrow> collapsed cfg (commands_of (fst out'))" for ph nh out'
      using step.IH[OF _ step.prems(1)] by blast
    show ?thesis using step.hyps post Some p by (auto split: sum.splits option.splits intro: again)
  qed (use step.hyps in simp)
qed

lemma prepare_commands:
  "ctriple (\<lambda>cs. cs = []) (demo_prepare F (demo_recording ops) cfg) (few_down cfg 0) (few_down cfg 0)"
proof -
  have empty: "few_down cfg 0 []" by (simp add: few_down_def demo_down_def)
  have up: "ctriple (few_down cfg 0) (compose_cmd (demo_recording ops) cfg demo_up_args) (few_down cfg 0) (few_down cfg 0)"
    by (rule ctriple_command) (rule few_down_other, simp_all add: stopped_by_command)
  have start: "ctriple (few_down cfg 0) (start_stack (demo_recording ops) cfg) (few_down cfg 0) (few_down cfg 0)"
    unfolding start_stack_def
    by (rule ctriple_seq[OF silentI[OF commands_kept.get_keeps] up]) (simp_all add: commands_kept.environment_keeps)
  have mark: "preserves (\<lambda>s. commands_of s = cs) (demo_update (demo_recording ops) (\<lambda>s. s\<lparr>dm_stack_started := True\<rparr>))" for cs
    by (rule commands_kept.update_keeps) (simp add: commands_of_def)
  have "ctriple (few_down cfg 0) (demo_startup (demo_recording ops) cfg) (few_down cfg 0) (few_down cfg 0)"
    unfolding demo_startup_def
    by (rule ctriple_seq[OF silentI[OF commands_kept.log_keeps(8)]] ctriple_seq[OF silentI[OF commands_kept.infos_keep]]
        ctriple_seq[OF silentI[OF commands_kept.put_keeps]] ctriple_seq[OF silentI[OF commands_kept.log_keeps(1)]]
        ctriple_bind[OF start] ctriple_silent[OF silentI] | (intro preserves_bind silent_intros mark) | simp)+
  then have "ctriple (few_down cfg 0) (demo_prepare F (demo_recording ops) cfg) (few_down cfg 0) (few_down cfg 0)"
    unfolding demo_prepare_def
    by (rule ctriple_bind) (rule ctriple_silent[OF silentI], intro preserves_bind silent_intros, simp)
  then show ?thesis by (rule ctriple_weaken) (simp_all add: empty)
qed

lemma launch_silent: "silent (launch_workers (demo_recording ops) cfg templates)"
proof (rule silentI)
  fix cs
  have add: "preserves (\<lambda>s. commands_of s = cs) (demo_update (demo_recording ops) (\<lambda>s. s\<lparr>dm_workers := dm_workers s @ [wk]\<rparr>))" for wk
    by (rule commands_kept.update_keeps) (simp add: commands_of_def)
  show "preserves (\<lambda>s. commands_of s = cs) (launch_workers (demo_recording ops) cfg templates)"
    by (induction templates) (auto intro!: preserves_bind preserves_lift commands_kept.sleep_keeps add)
qed

lemma traffic_commands:
  assumes "leaders_named ops" "dc_node_service_names cfg = demo_node_services" "dc_node_targets cfg = demo_node_targets"
  shows "ctriple (few_down cfg 0) (demo_traffic lib_what (demo_recording ops) cfg templates) (collapsed cfg) (collapsed cfg)"
proof -
  have loop: "ctriple (few_down cfg 0) (phase_loop lib_what (demo_recording ops) cfg demo_start demo_phases 15) (collapsed cfg) (collapsed cfg)" for demo_start
    unfolding ctriple_def triple_def
  proof (intro allI impI)
    fix s s' r assume f: "few_down cfg 0 (commands_of s)"
      and run: "phase_loop lib_what (demo_recording ops) cfg demo_start demo_phases 15 s = Some (s', r)"
    have "on_course cfg demo_phases s" using f unfolding on_course_def by (intro exI[of _ 0]) (simp add: after_phases_def)
    with loop_collapsed[OF run round_course[OF assms]] show "case r of Inl e \<Rightarrow> collapsed cfg (commands_of s') | Inr x \<Rightarrow> collapsed cfg (commands_of s')"
      by (simp split: sum.split)
  qed
  have start: "preserves (\<lambda>s. commands_of s = cs) (demo_update (demo_recording ops) (\<lambda>s. s\<lparr>dm_start := t\<rparr>))" for cs t
    by (rule commands_kept.update_keeps) (simp add: commands_of_def)
  have stop: "preserves (\<lambda>s. commands_of s = cs) (demo_update (demo_recording ops) (\<lambda>s. s\<lparr>dm_stop := True\<rparr>))" for cs
    by (rule commands_kept.update_keeps) (simp add: commands_of_def)
  show ?thesis unfolding demo_traffic_def
    by (rule ctriple_seq[OF silentI[OF commands_kept.now_keeps]] ctriple_seq[OF silentI[OF start]] ctriple_seq[OF launch_silent]
        ctriple_bind[OF loop] ctriple_silent[OF silentI] | (intro preserves_bind silent_intros stop) | simp add: few_collapsed)+
qed

text \<open>At the end the stack may have been taken down.\<close>

definition wound_up :: "DemoConfig \<Rightarrow> string list \<Rightarrow> bool" where
  "wound_up cfg commands \<longleftrightarrow> (\<exists>body. collapsed cfg body \<and> (commands = body \<or> commands = body @ [demo_compose_command cfg ''down'']))"

lemma wound_up_same: "collapsed cfg cs \<Longrightarrow> wound_up cfg cs"
  by (auto simp: wound_up_def)

lemma stop_stack_commands: "ctriple (collapsed cfg) (demo_stop_stack (demo_recording ops) cfg) (wound_up cfg) (wound_up cfg)"
  unfolding demo_stop_stack_def
  by (rule ctriple_bind[OF ctriple_shell[where Q = "wound_up cfg"]])
    (auto simp: wound_up_def intro!: ctriple_silent silentI preserves_lift)

lemma ctriple_sure: "sure m \<Longrightarrow> ctriple P m Q E' \<Longrightarrow> ctriple P m Q E"
  unfolding ctriple_def triple_def sure_def by (fastforce split: sum.splits)

lemma sure_log: "sure (demo_info ops line)" "sure (demo_ok ops line)" "sure (demo_fail ops line)"
proof -
  have "sure (\<lambda>s. demo_put ops (g s) s)" for g
    by (simp add: sure_def demo_put_def demo_update_def io_modify_def)
  then have "sure (demo_log ops color tag line)" for color tag
    unfolding demo_log_def by (intro sure_bind sure_get)
  then show "sure (demo_info ops line)" "sure (demo_ok ops line)" "sure (demo_fail ops line)"
    by (simp_all add: demo_info_def demo_ok_def demo_fail_def)
qed

lemma sure_stop: "sure (demo_stop_stack ops cfg)"
  unfolding demo_stop_stack_def
  by (rule sure_bind) (auto simp: sure_def demo_run_shell_def demo_call_def demo_world_def io_lift_def Let_def)

lemma finish_commands: "ctriple (collapsed cfg) (demo_finish (demo_recording ops) cfg) (wound_up cfg) (collapsed cfg)"
proof -
  have "sure (io_bind (if dc_teardown_on_exit cfg then io_bind (demo_info (demo_recording ops) a) (\<lambda>_. demo_stop_stack (demo_recording ops) cfg)
      else demo_info (demo_recording ops) b) (\<lambda>_. demo_ok (demo_recording ops) c))" for a b c
    by (auto intro!: sure_bind sure_log sure_stop)
  moreover have "ctriple (collapsed cfg) (io_bind (if dc_teardown_on_exit cfg then io_bind (demo_info (demo_recording ops) a) (\<lambda>_. demo_stop_stack (demo_recording ops) cfg)
      else demo_info (demo_recording ops) b) (\<lambda>_. demo_ok (demo_recording ops) c)) (wound_up cfg) (wound_up cfg)" for a b c
  proof (rule ctriple_bind)
    have "ctriple (collapsed cfg) (io_bind (demo_info (demo_recording ops) a) (\<lambda>_. demo_stop_stack (demo_recording ops) cfg)) (wound_up cfg) (wound_up cfg)"
      by (rule ctriple_seq[OF silentI[OF commands_kept.log_keeps(1)] stop_stack_commands wound_up_same])
    moreover have "ctriple (collapsed cfg) (demo_info (demo_recording ops) b) (wound_up cfg) (wound_up cfg)"
      by (rule ctriple_silent[OF silentI[OF commands_kept.log_keeps(1)]]) (simp add: wound_up_same)
    ultimately show "ctriple (collapsed cfg) (if dc_teardown_on_exit cfg then io_bind (demo_info (demo_recording ops) a)
        (\<lambda>_. demo_stop_stack (demo_recording ops) cfg) else demo_info (demo_recording ops) b) (wound_up cfg) (wound_up cfg)" by simp
    show "ctriple (wound_up cfg) (demo_ok (demo_recording ops) c) (wound_up cfg) (wound_up cfg)"
      by (rule ctriple_silent[OF silentI[OF commands_kept.log_keeps(2)]]) simp
  qed
  ultimately have end_part: "ctriple (collapsed cfg) (io_bind (if dc_teardown_on_exit cfg then io_bind (demo_info (demo_recording ops) a)
      (\<lambda>_. demo_stop_stack (demo_recording ops) cfg) else demo_info (demo_recording ops) b) (\<lambda>_. demo_ok (demo_recording ops) c))
      (wound_up cfg) (collapsed cfg)" for a b c
    by (rule ctriple_sure)
  have report: "preserves (\<lambda>s. commands_of s = cs) (if n \<ge> 0 then demo_ok (demo_recording ops) line else io_lift (Inr ()))" for cs line and n :: int
    by (intro preserves_if commands_kept.log_keeps preserves_lift)
  show ?thesis unfolding demo_finish_def
    by (rule ctriple_seq[OF silentI[OF commands_kept.summary_keeps]], rule ctriple_seq[OF silentI[OF commands_kept.status_keeps]],
        rule ctriple_seq[OF silentI[OF commands_kept.qdrant_keeps(1)]], rule ctriple_seq[OF silentI[OF report] end_part]) simp_all
qed

lemma caught_commands:
  assumes "demo_caught lib_what (demo_recording ops) cfg e s = Some (s', ending)" "collapsed cfg (commands_of s)"
  shows "wound_up cfg (commands_of s')"
proof (cases "is_exception e")
  case True
  then obtain r where h: "demo_handler lib_what (demo_recording ops) cfg e s = Some (s', r)" using assms(1) by (auto simp: demo_caught_def)
  then obtain s1 where f: "\<exists>r1. demo_fail (demo_recording ops) (''Fatal: '' @ what_text lib_what e) s = Some (s1, r1)"
    and rest: "s' = s1 \<or> (\<exists>r2. demo_stop_stack (demo_recording ops) cfg s1 = Some (s', r2))"
    by (auto simp: demo_handler_def io_bind_def io_lift_def split: option.splits sum.splits if_splits)
  have "silent (demo_fail (demo_recording ops) (''Fatal: '' @ what_text lib_what e))" by (rule silentI) (rule commands_kept.log_keeps)
  then have c: "collapsed cfg (commands_of s1)" using f assms(2) by (auto dest: silentD)
  from rest show ?thesis
  proof
    assume "\<exists>r2. demo_stop_stack (demo_recording ops) cfg s1 = Some (s', r2)"
    with c show ?thesis using stop_stack_commands[of cfg ops] unfolding ctriple_def triple_def by (auto split: sum.splits)
  qed (use c wound_up_same in simp)
qed (use assms wound_up_same in \<open>simp add: demo_caught_def\<close>)

lemma caught_not_terminated: "demo_caught lib_what ops cfg e s = Some (s', ending) \<Longrightarrow> ending \<noteq> Terminated"
proof -
  have h: "sure (demo_handler lib_what ops cfg e)"
    unfolding demo_handler_def by (rule sure_bind[OF sure_log(3)]) (use sure_stop[of ops cfg] in \<open>simp add: sure_def io_lift_def\<close>)
  assume "demo_caught lib_what ops cfg e s = Some (s', ending)"
  with h show "ending \<noteq> Terminated"
    by (cases "demo_handler lib_what ops cfg e s"; cases "snd (the (demo_handler lib_what ops cfg e s))")
      (auto simp: demo_caught_def sure_def split: if_splits)
qed

lemma main_commands:
  assumes "demo_main F lib_what (demo_recording ops) proot env (w, [], calls) = Some (s, ending)" "leaders_named ops"
  shows "wound_up (demo_load_config F proot env) (commands_of s) \<and> (ending = Terminated \<longrightarrow> collapsed (demo_load_config F proot env) (commands_of s))"
proof -
  let ?cfg = "demo_load_config F proot env" and ?R = "demo_recording ops"
  let ?s0 = "new_demo_state (fst (bw_now (mo_bench ?R) (w, [], calls))) (snd (bw_now (mo_bench ?R) (w, [], calls)))"
  have nodes: "dc_node_service_names ?cfg = demo_node_services" "dc_node_targets ?cfg = demo_node_targets"
    by (simp_all add: demo_load_config_def default_DemoConfig_def Let_def)
  obtain s1 r1 where p: "demo_prepare F ?R ?cfg ?s0 = Some (s1, r1)"
    using assms(1) by (cases "demo_prepare F ?R ?cfg ?s0") (auto simp: demo_main_def case_prod_beta Let_def)
  have "commands_of ?s0 = []" using recording_keeps(4)[of ops "(w, [], calls)"] by (simp add: commands_of_def new_demo_state_def)
  then have f1: "few_down ?cfg 0 (commands_of s1)"
    using prepare_commands[of F ops ?cfg, unfolded ctriple_def triple_def, rule_format, OF _ p] by (simp split: sum.splits)
  show ?thesis
  proof (cases r1)
    case (Inl e)
    then have c: "demo_caught lib_what ?R ?cfg e s1 = Some (s, ending)" using assms(1) p by (simp add: demo_main_def case_prod_beta Let_def)
    show ?thesis using caught_commands[OF c few_collapsed[OF f1]] caught_not_terminated[OF c] by simp
  next
    case (Inr ts)
    obtain s2 r2 where t: "demo_traffic lib_what ?R ?cfg ts s1 = Some (s2, r2)"
      using assms(1) p Inr by (cases "demo_traffic lib_what ?R ?cfg ts s1") (auto simp: demo_main_def case_prod_beta Let_def)
    have c2: "collapsed ?cfg (commands_of s2)"
      using traffic_commands[OF assms(2) nodes, of lib_what ts, unfolded ctriple_def triple_def, rule_format, OF f1 t] by (simp split: sum.splits)
    show ?thesis
    proof (cases r2)
      case (Inl e)
      then show ?thesis using assms(1) p t \<open>r1 = Inr ts\<close> c2 by (simp add: demo_main_def case_prod_beta Let_def wound_up_same)
    next
      case (Inr u)
      obtain s3 r3 where f: "demo_finish ?R ?cfg s2 = Some (s3, r3)"
        using assms(1) p t \<open>r1 = Inr ts\<close> Inr by (cases "demo_finish ?R ?cfg s2") (auto simp: demo_main_def case_prod_beta Let_def)
      note post = finish_commands[of ?cfg ops, unfolded ctriple_def triple_def, rule_format, OF c2 f]
      have ended: "(case r3 of Inl e \<Rightarrow> demo_caught lib_what ?R ?cfg e s3 | Inr u \<Rightarrow> Some (s3, Exit 0)) = Some (s, ending)"
        using assms(1) p t f \<open>r1 = Inr ts\<close> Inr by (simp add: demo_main_def case_prod_beta Let_def)
      show ?thesis
      proof (cases r3)
        case (Inl e)
        then have c: "demo_caught lib_what ?R ?cfg e s3 = Some (s, ending)" using ended by simp
        show ?thesis using caught_commands[OF c] caught_not_terminated[OF c] post Inl by simp
      qed (use ended post in auto)
    qed
  qed
qed

section \<open>The quorum\<close>

lemma up_bounds:
  assumes "dc_node_service_names cfg = demo_node_services" "set (demo_down cfg cs) \<subseteq> set demo_node_services"
  shows "length (nodes_up cfg cs) = 5 - card (set (demo_down cfg cs))"
proof -
  let ?down = "set (demo_down cfg cs)"
  have n: "[] \<notin> ?down" using assms(2) by (auto simp: demo_node_services_def)
  have d: "distinct demo_node_services" and c: "card (set demo_node_services) = 5" by (simp_all add: demo_node_services_def)
  have "length (nodes_up cfg cs) = card (set (nodes_up cfg cs))" 
    using n distinct_card[OF distinct_filter[OF d], of "\<lambda>n. n \<notin> ?down"] by (simp add: nodes_up_def Let_def assms(1))
  also have "set (nodes_up cfg cs) = set demo_node_services - ?down" using n by (auto simp: nodes_up_def Let_def assms(1))
  also have "card \<dots> = 5 - card ?down" using assms(2) c by (simp add: card_Diff_subset)
  finally show ?thesis .
qed

end
