(* ===== verification/DemoClock.thy ===== *)
theory DemoClock
  imports DemoWorkload BenchClock
begin

text \<open>
  The demo ends. \<open>demo_clock\<close> extends the machine of \<open>BenchClock\<close>: time passes whenever the other threads get
  their turns, and among these turns is one of every agent's thread. Over it the waits reach their
  deadlines, the loop of the phases ends, and every thread returns once the flag is set. The interface is
  interpreted on any machine whose calls get a deadline and whose turns are completed to fair rounds.
\<close>

locale demo_clock = bench_clock "mo_run ops" clock for ops :: "'w demo_ops" and clock :: "'w \<Rightarrow> int" +
  assumes system: "ends clock w (mo_system ops cmd w)"
    and call: "clock w \<le> clock (mo_call ops i rq w)"
    and turns: "clock w < clock (fst (mo_turns ops w))"
    and fair: "i < 5 \<Longrightarrow> i \<in> fst ` set (snd (mo_turns ops w))"

definition demo_time :: "('w \<Rightarrow> int) \<Rightarrow> 'w demo_state \<Rightarrow> int" where
  "demo_time clock s = clock (dm_world s)"

lemma demo_time_simps [simp]:
  "demo_time clock (s\<lparr>dm_world := w\<rparr>) = clock w" "demo_time clock (s\<lparr>dm_log := l\<rparr>) = demo_time clock s"
  "demo_time clock (s\<lparr>dm_held := b\<rparr>) = demo_time clock s" "demo_time clock (s\<lparr>dm_stop := b\<rparr>) = demo_time clock s"
  "demo_time clock (s\<lparr>dm_start := t\<rparr>) = demo_time clock s" "demo_time clock (s\<lparr>dm_stack_started := b\<rparr>) = demo_time clock s"
  "demo_time clock (s\<lparr>dm_workers := ws\<rparr>) = demo_time clock s" "demo_time clock (s\<lparr>dm_stats := st\<rparr>) = demo_time clock s"
  "demo_time clock (set_worker i wk s) = demo_time clock s"
  by (simp_all add: demo_time_def set_worker_def)

text \<open>How many of its turns a thread needs at most until it has returned, once the flag is set.\<close>

definition turns_left :: "worker \<Rightarrow> int \<Rightarrow> nat" where
  "turns_left wk now =
     (case wk_at wk of
        Returned \<Rightarrow> 0 | AtLoop \<Rightarrow> 1 | Asleep wake \<Rightarrow> 2 + nat (wake - now)
      | AtWrite line \<Rightarrow> 3 + nat (wk_interval_ms wk) | AtLog st r rpc_ms \<Rightarrow> 4 + nat (wk_interval_ms wk)
      | AtRecord st r rpc_ms \<Rightarrow> 5 + nat (wk_interval_ms wk) | InCall t0 \<Rightarrow> 6 + nat (wk_interval_ms wk)
      | AtRequest \<Rightarrow> 7 + nat (wk_interval_ms wk))"

lemma turns_left_later: "now \<le> now' \<Longrightarrow> turns_left wk now' \<le> turns_left wk now"
  by (auto simp: turns_left_def split: worker_at.split)

lemma takes_lift: "takes d clock m \<Longrightarrow> takes d clock (io_bind m (\<lambda>_. io_lift (Inr x)))"
  unfolding takes_def
proof
  fix w assume "\<forall>w. \<exists>w' r. m w = Some (w', r) \<and> clock w \<le> clock w' \<and> (\<forall>x. r = Inr x \<longrightarrow> clock w + d \<le> clock w')"
  then obtain w' r where "m w = Some (w', r)" "clock w \<le> clock w'" "\<forall>x. r = Inr x \<longrightarrow> clock w + d \<le> clock w'" by blast
  then show "\<exists>w' r. io_bind m (\<lambda>_. io_lift (Inr x)) w = Some (w', r) \<and> clock w \<le> clock w' \<and> (\<forall>x. r = Inr x \<longrightarrow> clock w + d \<le> clock w')"
    by (cases r) (auto simp: io_bind_def io_lift_def)
qed

text \<open>The main thread holds the mutex of the statistics only while it prints them.\<close>

interpretation released: demo_steps ops "\<lambda>s. \<not> dm_held s"
proof unfold_locales
  fix s :: "'a demo_state" assume "\<not> dm_held s"
  then show "\<not> dm_held (other_threads ops s)"
    by (intro others_keep[of "\<lambda>s. \<not> dm_held s"])
      (auto simp: worker_step_def set_worker_def Let_def split: worker_at.splits prod.splits)
qed simp_all

lemma sure_puts: "sure (demo_puts ops lines)"
  by (induction lines) (auto intro!: sure_bind sure_update simp: demo_put_def, simp add: sure_def io_lift_def)

interpretation released: demo_keeps ops "\<lambda>s. \<not> dm_held s"
proof unfold_locales
  fix label show "preserves (\<lambda>s. \<not> dm_held s) (print_summary ops label)"
  proof (rule preservesI)
    fix s s' r assume "print_summary ops label s = Some (s', r)"
    then show "\<not> dm_held s'" using sure_puts[of ops, unfolded sure_def]
      by (auto simp: print_summary_def io_bind_def demo_update_def io_modify_def split: option.splits sum.splits)
  qed
qed

interpretation released: demo_keeps_all ops "\<lambda>s. \<not> dm_held s"
  by unfold_locales simp_all

context demo_clock
begin

abbreviation time :: "'w demo_state \<Rightarrow> int" where
  "time \<equiv> demo_time clock"

lemma now_pair: "bw_now (mo_bench ops) w = (w1, t) \<Longrightarrow> t = clock w \<and> clock w \<le> clock w1"
  using now[of w] by simp

lemma step_time: "time s \<le> time (worker_step ops i status resp s)"
proof -
  obtain w1 t where t1: "bw_now (mo_bench ops) (dm_world s) = (w1, t)" by fastforce
  obtain w2 ms where t2: "ro_unix_ms (mo_run ops) (dm_world s) = (w2, ms)" by fastforce
  obtain w3 t0 where t3: "bw_now (mo_bench ops) w2 = (w3, t0)" by fastforce
  have w1: "time s \<le> clock w1" and w3: "time s \<le> clock w3"
    using now_pair[OF t1] now_pair[OF t3] others(1)[of "dm_world s"] t2 by (simp_all add: demo_time_def)
  have "time s \<le> clock (mo_call ops i rq w3)" for rq by (rule order_trans[OF w3 call])
  with w1 show ?thesis by (cases "wk_at (dm_workers s ! i)") (simp_all add: worker_step_def t1 t2 t3 Let_def)
qed

lemma fold_time: "time s \<le> time (fold (worker_turn ops) ts s)"
proof (induction ts arbitrary: s)
  case (Cons p ts)
  have "time s \<le> time (worker_turn ops p s)" by (simp add: worker_turn_def step_time split: prod.splits)
  then show ?case using Cons[of "worker_turn ops p s"] by simp
qed simp

lemma others_time: "time s < time (other_threads ops s)"
proof -
  let ?s1 = "s\<lparr>dm_world := fst (mo_turns ops (dm_world s))\<rparr>"
  have "time s < time ?s1" using turns[of "dm_world s"] by (simp add: demo_time_def)
  also have "\<dots> \<le> time (fold (worker_turn ops) (snd (mo_turns ops (dm_world s))) ?s1)" by (rule fold_time)
  finally show ?thesis by (simp add: other_threads_def case_prod_beta)
qed

section \<open>Threads return\<close>

text \<open>The threads run down: the flag is set and the main thread does not hold the mutex.\<close>

definition stopping :: "nat \<Rightarrow> 'w demo_state \<Rightarrow> bool" where
  "stopping i s \<longleftrightarrow> dm_stop s \<and> \<not> dm_held s \<and> i < length (dm_workers s)"

definition left_of :: "nat \<Rightarrow> 'w demo_state \<Rightarrow> nat" where
  "left_of i s = turns_left (dm_workers s ! i) (time s)"

lemma step_stopping: "stopping i s \<Longrightarrow> j < length (dm_workers s) \<Longrightarrow> stopping i (worker_step ops j status resp s)"
  by (auto simp: stopping_def worker_step_def set_worker_def Let_def split: worker_at.splits prod.splits)

lemma step_other: "j \<noteq> i \<Longrightarrow> dm_workers (worker_step ops j status resp s) ! i = dm_workers s ! i"
  by (auto simp: worker_step_def set_worker_def Let_def split: worker_at.splits prod.splits)

lemma step_left:
  assumes "stopping i s"
  shows "left_of i (worker_step ops i status resp s) < left_of i s \<or> wk_at (dm_workers s ! i) = Returned
    \<or> (\<exists>wake. wk_at (dm_workers s ! i) = Asleep wake \<and> time s < wake)"
proof -
  obtain w1 t where t1: "bw_now (mo_bench ops) (dm_world s) = (w1, t)" by fastforce
  obtain w2 ms where t2: "ro_unix_ms (mo_run ops) (dm_world s) = (w2, ms)" by fastforce
  obtain w3 t0 where t3: "bw_now (mo_bench ops) w2 = (w3, t0)" by fastforce
  have t: "t = time s" "time s \<le> clock w1" using now_pair[OF t1] by (simp_all add: demo_time_def)
  show ?thesis using assms t
    by (cases "wk_at (dm_workers s ! i)")
      (auto simp: stopping_def left_of_def worker_step_def set_worker_def turns_left_def Let_def t1 t2 t3)
qed

lemma turn_stopping: "stopping i s \<Longrightarrow> stopping i (worker_turn ops p s)"
  by (auto simp: worker_turn_def step_stopping split: prod.split)

lemma turn_left:
  assumes "stopping i s"
  shows "left_of i (worker_turn ops p s) \<le> left_of i s"
    and "fst p = i \<Longrightarrow> left_of i (worker_turn ops p s) < left_of i s \<or> wk_at (dm_workers s ! i) = Returned
      \<or> (\<exists>wake. wk_at (dm_workers s ! i) = Asleep wake \<and> time s < wake)"
proof -
  obtain j status resp where p: "p = (j, status, resp)" by (cases p)
  show strict: "fst p = i \<Longrightarrow> left_of i (worker_turn ops p s) < left_of i s \<or> wk_at (dm_workers s ! i) = Returned
      \<or> (\<exists>wake. wk_at (dm_workers s ! i) = Asleep wake \<and> time s < wake)"
    using step_left[OF assms, of status resp] assms p by (simp add: worker_turn_def stopping_def)
  have later: "dm_workers s' ! i = dm_workers s ! i \<Longrightarrow> time s \<le> time s' \<Longrightarrow> left_of i s' \<le> left_of i s" for s'
    by (simp add: left_of_def turns_left_later)
  have stay: "dm_workers (worker_step ops i status resp s) ! i = dm_workers s ! i"
    if "wk_at (dm_workers s ! i) = Returned \<or> (\<exists>wake. wk_at (dm_workers s ! i) = Asleep wake \<and> time s < wake)"
  proof -
    obtain w1 t where t1: "bw_now (mo_bench ops) (dm_world s) = (w1, t)" by fastforce
    have "t = time s" using now_pair[OF t1] by (simp add: demo_time_def)
    with that t1 show ?thesis by (auto simp: worker_step_def)
  qed
  show "left_of i (worker_turn ops p s) \<le> left_of i s"
  proof (cases "j = i")
    case True
    then show ?thesis using strict later[OF stay step_time[of s i status resp]] p assms
      by (auto simp: worker_turn_def stopping_def)
  next
    case False
    then show ?thesis using later[OF step_other[OF False] step_time] p by (simp add: worker_turn_def)
  qed
qed

lemma turn_other: "fst p \<noteq> i \<Longrightarrow> dm_workers (worker_turn ops p s) ! i = dm_workers s ! i"
  by (auto simp: worker_turn_def step_other split: prod.splits)

lemma turn_time: "time s \<le> time (worker_turn ops p s)"
  by (simp add: worker_turn_def step_time split: prod.splits)

lemma fold_left:
  "stopping i s \<Longrightarrow> stopping i (fold (worker_turn ops) ts s) \<and> left_of i (fold (worker_turn ops) ts s) \<le> left_of i s
    \<and> (i \<in> fst ` set ts \<longrightarrow> left_of i (fold (worker_turn ops) ts s) < left_of i s \<or> wk_at (dm_workers s ! i) = Returned
      \<or> (\<exists>wake. wk_at (dm_workers s ! i) = Asleep wake \<and> time s < wake))"
proof (induction ts arbitrary: s)
  case (Cons p ts)
  let ?s1 = "worker_turn ops p s"
  note first = turn_left[OF Cons.prems, of p] and rest = Cons.IH[OF turn_stopping[OF Cons.prems, of p]]
  have "left_of i (fold (worker_turn ops) ts ?s1) < left_of i s \<or> wk_at (dm_workers s ! i) = Returned
      \<or> (\<exists>wake. wk_at (dm_workers s ! i) = Asleep wake \<and> time s < wake)" if "i \<in> fst ` set (p # ts)"
  proof (cases "fst p = i")
    case True
    then show ?thesis using rest first(2) by fastforce
  next
    case False
    then have "i \<in> fst ` set ts" using that by auto
    then show ?thesis using rest first(1) turn_time[of s p] turn_other[OF False, of s] by fastforce
  qed
  then show ?case using rest first(1) by simp
qed simp

lemma round_left:
  assumes "stopping i s" "i < 5"
  shows "stopping i (other_threads ops s)"
    and "left_of i (other_threads ops s) < left_of i s \<or> wk_at (dm_workers s ! i) = Returned"
proof -
  let ?s1 = "s\<lparr>dm_world := fst (mo_turns ops (dm_world s))\<rparr>" and ?ts = "snd (mo_turns ops (dm_world s))"
  have o: "other_threads ops s = fold (worker_turn ops) ?ts ?s1" by (simp add: other_threads_def case_prod_beta)
  have s1: "stopping i ?s1" using assms(1) by (simp add: stopping_def)
  have t: "time s < time ?s1" using turns[of "dm_world s"] by (simp add: demo_time_def)
  have le: "left_of i ?s1 \<le> left_of i s" using t by (simp add: left_of_def turns_left_later)
  have asleep: "left_of i ?s1 < left_of i s" if "wk_at (dm_workers s ! i) = Asleep wake" "time ?s1 < wake" for wake
    using that t by (simp add: left_of_def turns_left_def)
  show "stopping i (other_threads ops s)" unfolding o using fold_left[OF s1] by blast
  show "left_of i (other_threads ops s) < left_of i s \<or> wk_at (dm_workers s ! i) = Returned"
    using fold_left[OF s1, of ?ts] fair[OF assms(2), of "dm_world s"] le asleep unfolding o by fastforce
qed

text \<open>A \<^verbatim>\<open>join\<close> ends, and the other threads run down beside it.\<close>

lemma join_ends: "stopping i s \<Longrightarrow> i < 5 \<Longrightarrow> \<exists>s'. join_worker ops i s = Some (s', Inr ()) \<and> time s \<le> time s'
    \<and> (\<forall>j. j < 5 \<longrightarrow> stopping j s \<longrightarrow> stopping j s')"
proof (induction "left_of i s" arbitrary: s rule: less_induct)
  case less
  show ?case
  proof (cases "wk_at (dm_workers s ! i) = Returned")
    case True
    then show ?thesis using less.prems by (subst join_worker.simps) (auto simp: stopping_def)
  next
    case False
    let ?s1 = "other_threads ops s"
    have "left_of i ?s1 < left_of i s" using round_left(2)[OF less.prems] False by simp
    from less.hyps[OF this round_left(1)[OF less.prems] less.prems(2)]
    obtain s' where s': "join_worker ops i ?s1 = Some (s', Inr ())" "time ?s1 \<le> time s'" "\<forall>j. j < 5 \<longrightarrow> stopping j ?s1 \<longrightarrow> stopping j s'"
      by blast
    have "join_worker ops i s = join_worker ops i ?s1" using False by (subst join_worker.simps) simp
    with s' show ?thesis using others_time[of s] round_left(1) by (intro exI[of _ s']) fastforce
  qed
qed

lemma joins_end: "(\<forall>i\<in>set is. i < 5 \<and> stopping i s) \<Longrightarrow> \<exists>s'. join_workers ops is s = Some (s', Inr ()) \<and> time s \<le> time s'"
proof (induction "is" arbitrary: s)
  case (Cons i "is")
  then obtain s1 where s1: "join_worker ops i s = Some (s1, Inr ())" "time s \<le> time s1" "\<forall>j. j < 5 \<longrightarrow> stopping j s \<longrightarrow> stopping j s1"
    using join_ends[of i s] by auto
  moreover have "\<forall>j\<in>set is. j < 5 \<and> stopping j s1" using Cons.prems s1(3) by auto
  ultimately show ?case using Cons.IH[of s1] by (auto simp: io_bind_def)
qed (simp add: io_lift_def)

section \<open>The main thread\<close>

lemma demo_update_onward: "(\<And>s. time (f s) = time s) \<Longrightarrow> onward (demo_time clock) (demo_update ops f)"
  unfolding demo_update_def by (rule onward_modify) (simp add: less_imp_le[OF others_time])

lemma demo_world_onward: "(\<And>w. ends clock w (m w)) \<Longrightarrow> onward (demo_time clock) (demo_world ops m)"
  unfolding onward_def
proof
  fix s assume m: "\<And>w. ends clock w (m w)"
  obtain w r where "m (dm_world (other_threads ops s)) = Some (w, r)" "clock (dm_world (other_threads ops s)) \<le> clock w"
    using m[of "dm_world (other_threads ops s)"] unfolding ends_def by blast
  then show "ends (demo_time clock) s (demo_world ops m s)" using others_time[of s]
    by (simp add: demo_world_def Let_def demo_time_def)
qed

lemma demo_get_onward: "(\<And>w. clock w \<le> clock (fst (f w))) \<Longrightarrow> onward (demo_time clock) (demo_get ops f)"
  unfolding demo_get_def by (rule demo_world_onward) (simp add: case_prod_beta Let_def ends_fst)

lemma demo_call_onward: "(\<And>w. ends clock w (f w)) \<Longrightarrow> onward (demo_time clock) (demo_call ops f)"
  unfolding demo_call_def by (rule demo_world_onward) (fastforce simp: ends_def)

lemma demo_now_onward: "onward (demo_time clock) (demo_now ops)"
  unfolding demo_now_def by (rule demo_get_onward) (rule now)

lemma demo_sleep_onward: "0 \<le> ms \<Longrightarrow> onward (demo_time clock) (demo_sleep ops ms)"
  unfolding demo_sleep_def by (rule demo_get_onward) (simp add: sleep_onward)

lemma put_onward: "onward (demo_time clock) (demo_put ops line)" "onward (demo_time clock) (demo_puts ops lines)"
proof -
  show p: "onward (demo_time clock) (demo_put ops line)" for line
    unfolding demo_put_def by (rule demo_update_onward) simp
  show "onward (demo_time clock) (demo_puts ops lines)" by (induction lines) (auto intro!: onward_rules p)
qed

lemma put_of_onward: "onward (demo_time clock) (\<lambda>s. demo_put ops (f s) s)" "onward (demo_time clock) (\<lambda>s. demo_puts ops (g s) s)"
  using put_onward by (simp_all add: onward_def)

lemma demo_log_onward: "onward (demo_time clock) (demo_log ops color tag message)"
  unfolding demo_log_def by (rule onward_bind[OF demo_now_onward put_of_onward(1)])

lemma logs_onward:
  "onward (demo_time clock) (demo_info ops message)" "onward (demo_time clock) (demo_ok ops message)" "onward (demo_time clock) (demo_fail ops message)"
  "onward (demo_time clock) (phase_log ops message)" "onward (demo_time clock) (chaos ops message)" "onward (demo_time clock) (recover ops message)"
  "onward (demo_time clock) (raft_log ops message)" "onward (demo_time clock) (banner ops message)" "onward (demo_time clock) (print_summary ops message)"
  by (simp_all add: demo_info_def demo_ok_def demo_fail_def phase_log_def chaos_def recover_def raft_log_def banner_def demo_log_onward put_onward)
    (unfold print_summary_def, intro onward_bind demo_update_onward put_of_onward(2), simp_all)

lemma demo_http_onward: "onward (demo_time clock) (demo_http ops host port verb target body)"
  unfolding demo_http_def by (rule demo_world_onward) (rule calls)

lemma demo_get_leader_onward: "onward (demo_time clock) (demo_get_leader ops target)"
  unfolding demo_get_leader_def by (rule demo_call_onward) (rule calls)

lemma tried_onward: "onward (demo_time clock) m \<Longrightarrow> onward (demo_time clock) (attempt_of m)"
  "onward (demo_time clock) m' \<Longrightarrow> onward (demo_time clock) (attempt_error m')"
  unfolding onward_def ends_def attempt_of_def attempt_error_def by (fastforce split: option.splits sum.splits)+

lemma compose_onward: "onward (demo_time clock) (demo_run_shell ops cmd)" "onward (demo_time clock) (compose_cmd ops cfg args)"
  unfolding compose_cmd_def demo_run_shell_def by (intro onward_rules demo_call_onward system)+

lemmas demo_onward = onward_rules demo_now_onward put_onward logs_onward demo_http_onward demo_get_leader_onward tried_onward compose_onward

text \<open>A wait with a deadline: a round without result sleeps.\<close>

lemma sleep_takes: "0 \<le> ms \<Longrightarrow> takes ms (demo_time clock) (demo_sleep ops ms)"
  unfolding takes_def
proof
  fix s assume ms: "0 \<le> ms"
  let ?s1 = "other_threads ops s"
  have "time s \<le> time ?s1" using others_time[of s] by simp
  moreover have "time ?s1 + ms \<le> clock (bw_sleep (mo_bench ops) ms (dm_world ?s1))" using sleep[OF ms] by (simp add: demo_time_def)
  moreover have "demo_sleep ops ms s = Some (?s1\<lparr>dm_world := bw_sleep (mo_bench ops) ms (dm_world ?s1)\<rparr>, Inr ())"
    by (simp add: demo_sleep_def demo_get_def demo_world_def Let_def)
  ultimately show "\<exists>s' r. demo_sleep ops ms s = Some (s', r) \<and> time s \<le> time s' \<and> (\<forall>x. r = Inr x \<longrightarrow> time s + ms \<le> time s')"
    using ms by simp
qed

lemma now_reads: "\<exists>s'. demo_now ops s = Some (s', Inr (time (other_threads ops s))) \<and> time (other_threads ops s) \<le> time s'"
  using now[of "dm_world (other_threads ops s)"]
  by (auto simp: demo_now_def demo_get_def demo_world_def Let_def demo_time_def split: prod.split)

lemma attempt_onward_time:
  assumes "onward (demo_time clock) attempt"
  shows "\<exists>s' r. demo_attempt ops deadline e attempt s = Some (s', r) \<and> time s \<le> time s'
    \<and> (r = Inr None \<longrightarrow> time s < deadline \<and> time s < time s')"
proof -
  obtain s1 t where n: "demo_now ops s = Some (s1, Inr t)" "time s < t" "t \<le> time s1"
    using now_reads[of s] others_time[of s] by blast
  show ?thesis
  proof (cases "t < deadline")
    case True
    obtain s2 r where a: "attempt s1 = Some (s2, r)" "time s1 \<le> time s2" using onwardD[OF assms, of s1] unfolding ends_def by blast
    obtain s3 where "demo_sleep ops 200 s2 = Some (s3, Inr ())" "time s2 + 200 \<le> time s3"
      using sleep_takes[of 200] unfolding takes_def by (fastforce simp: demo_sleep_def demo_get_def demo_world_def Let_def)
    then show ?thesis using n a True
      by (cases r) (auto simp: demo_attempt_def io_bind_def io_lift_def split: option.split)
  qed (use n in \<open>simp add: demo_attempt_def io_bind_def io_lift_def\<close>)
qed

lemma until_ends:
  assumes "onward (demo_time clock) attempt"
  shows "ends (demo_time clock) s (demo_until ops deadline e attempt s)"
proof (induction "nat (deadline - time s)" arbitrary: s rule: less_induct)
  case less
  obtain s1 r where a: "demo_attempt ops deadline e attempt s = Some (s1, r)" "time s \<le> time s1"
    and later: "r = Inr None \<Longrightarrow> time s < deadline \<and> time s < time s1"
    using attempt_onward_time[OF assms, of deadline e s] by blast
  have "ends (demo_time clock) s (demo_until ops deadline e attempt s1)" if "r = Inr None"
    using later[OF that] by (intro ends_later[OF less] a(2)) auto
  then show ?case unfolding demo_until.simps[of _ _ _ _ s] using a by (auto split: sum.split option.split)
qed

lemma until_onward: "onward (demo_time clock) attempt \<Longrightarrow> onward (demo_time clock) (demo_until ops deadline e attempt)"
  by (simp add: onward_def until_ends)

lemma leader_waits_onward: "onward (demo_time clock) (demo_wait_for_leader ops cfg timeout other)" "onward (demo_time clock) (wait_for_node_ready ops target timeout)"
proof -
  have d: "onward (demo_time clock) (demo_discover ops targets)" for targets
    by (induction targets) (auto simp: case_prod_beta intro!: demo_onward)
  show "onward (demo_time clock) (demo_wait_for_leader ops cfg timeout other)"
    unfolding demo_wait_for_leader_def by (intro demo_onward until_onward d)
  show "onward (demo_time clock) (wait_for_node_ready ops target timeout)"
    unfolding wait_for_node_ready_def case_prod_beta by (intro demo_onward until_onward)
qed

lemma cluster_onward: "onward (demo_time clock) (poll_cluster ops cfg)" "onward (demo_time clock) (print_cluster_status ops cfg)"
proof -
  have "onward (demo_time clock) (poll_nodes ops nodes)" for nodes
    by (induction nodes) (auto intro!: demo_onward)
  then show p: "onward (demo_time clock) (poll_cluster ops cfg)" by (simp add: poll_cluster_def)
  show "onward (demo_time clock) (print_cluster_status ops cfg)"
    unfolding print_cluster_status_def by (intro demo_onward p demo_log_onward)
qed

lemma demo_qdrant_onward: "onward (demo_time clock) (demo_point_count ops cfg)" "onward (demo_time clock) (demo_reset_collection ops cfg n)"
  unfolding demo_point_count_def demo_reset_collection_def by (intro demo_onward)+

lemma demo_waits_onward:
  "onward (demo_time clock) (wait_for_qdrant ops cfg n)" "onward (demo_time clock) (wait_for_embedding ops cfg n)"
  "onward (demo_time clock) (ensure_model ops cfg)" "onward (demo_time clock) (wait_for_proxy ops cfg n)"
proof -
  have e: "onward (demo_time clock) (try_endpoints ops cfg endpoints)" for endpoints
    by (induction endpoints) (auto intro!: demo_onward)
  show "onward (demo_time clock) (wait_for_qdrant ops cfg n)" by (induction n) (auto intro!: demo_onward demo_sleep_onward)
  show "onward (demo_time clock) (wait_for_embedding ops cfg n)"
    by (induction n) (auto intro!: demo_onward e demo_sleep_onward simp del: try_endpoints.simps)
  show "onward (demo_time clock) (ensure_model ops cfg)" unfolding ensure_model_def by (intro demo_onward)
  show "onward (demo_time clock) (wait_for_proxy ops cfg n)"
    by (induction n) (auto intro!: demo_onward demo_call_onward calls demo_sleep_onward)
qed

lemma demo_prepare_onward: "onward (demo_time clock) (demo_prepare F ops cfg)"
proof -
  have templates: "onward (demo_time clock) (load_templates_of F ops cfg labels)" for labels
    by (induction labels)
      (auto simp: demo_load_template_def demo_request_embedding_def Let_def intro!: demo_onward demo_get_onward others)
  have infos: "onward (demo_time clock) (demo_infos ops lines)" for lines by (induction lines) (auto intro!: demo_onward)
  have env: "clock w \<le> clock (fold (\<lambda>(key, v). ro_setenv (mo_run ops) key v) settings w)" for settings w
    by (induction settings arbitrary: w) (auto intro: order_trans[OF others(6)])
  have start: "onward (demo_time clock) (start_stack ops cfg)"
    unfolding start_stack_def
    by (intro demo_onward demo_get_onward) (simp add: demo_environment_def env del: fold.simps fold_simps)
  have "onward (demo_time clock) (demo_startup ops cfg)"
    unfolding demo_startup_def by (intro demo_onward infos start demo_update_onward demo_waits_onward leader_waits_onward cluster_onward) simp
  then show ?thesis unfolding demo_prepare_def by (intro demo_onward templates demo_qdrant_onward)
qed

lemma demo_action_onward: "onward (demo_time clock) (run_action ops cfg action)"
proof -
  have kill: "onward (demo_time clock) (phase_leader_kill ops cfg)"
    unfolding phase_leader_kill_def by (intro demo_onward leader_waits_onward cluster_onward)
  have choose: "onward (demo_time clock) (choose_down ops cfg nodes)" for nodes
    unfolding choose_down_def Let_def case_prod_beta by (intro demo_onward demo_sleep_onward) simp
  have rejoin: "onward (demo_time clock) (phase_old_leader_rejoin ops cfg)"
    unfolding phase_old_leader_rejoin_def case_prod_beta
    by (intro demo_onward cluster_onward choose leader_waits_onward demo_sleep_onward) simp
  have watch: "onward (demo_time clock) (watch_halted ops cfg n)" for n
    by (induction n) (auto intro!: demo_onward demo_sleep_onward cluster_onward)
  have collapse: "onward (demo_time clock) (collapse_quorum ops cfg leader a b c)" for leader a b c
    unfolding collapse_quorum_def stop_follower_def by (intro demo_onward cluster_onward watch demo_sleep_onward) simp_all
  have "onward (demo_time clock) (phase_quorum_degradation ops cfg)"
    unfolding phase_quorum_degradation_def
    by (intro demo_onward leader_waits_onward cluster_onward) (auto intro!: collapse demo_onward split: list.splits)
  moreover have "onward (demo_time clock) (phase_steady_state ops cfg)"
    unfolding phase_steady_state_def by (intro demo_onward cluster_onward)
  ultimately show ?thesis using kill rejoin by (cases action) simp_all
qed

section \<open>The loop of the phases\<close>

lemma idle_onward: "takes 1000 (demo_time clock) (round_idle ops cfg elapsed phases next_health)"
proof -
  have h: "onward (demo_time clock) (health_check ops cfg)"
    unfolding health_check_def by (intro demo_onward cluster_onward demo_qdrant_onward)
  show ?thesis unfolding round_idle_def by (intro takes_after onward_rules h takes_lift sleep_takes) simp
qed

lemma run_phase_onward: "onward (demo_time clock) (run_phase lib_what ops cfg p)"
  unfolding run_phase_def by (intro demo_onward demo_action_onward) (auto intro: demo_onward split: sum.splits)

text \<open>A round that goes on has run a phase or slept, and the time of the demo is not up.\<close>

lemma round_ends:
  assumes "start \<le> time s"
  shows "\<exists>s' r. demo_round lib_what ops cfg start phases next_health s = Some (s', r) \<and> time s \<le> time s'
    \<and> (\<forall>ph nh. r = Inr (Some (ph, nh)) \<longrightarrow>
         length ph < length phases \<or> ph = phases \<and> time s < start + 1000 * dc_duration_sec cfg \<and> time s < time s')"
proof -
  obtain s1 t where n: "demo_now ops s = Some (s1, Inr t)" "time s < t" "t \<le> time s1"
    using now_reads[of s] others_time[of s] by blast
  let ?elapsed = "elapsed_seconds start t"
  have e: "?elapsed = (t - start) div 1000" using assms n(2) by (simp add: elapsed_seconds_def signed_divide_int_def)
  have up: "?elapsed < dc_duration_sec cfg \<Longrightarrow> time s < start + 1000 * dc_duration_sec cfg"
    unfolding e using n(2) by (auto simp: div_less_iff_less_mult)
  have idle: "\<exists>s' r. round_idle ops cfg ?elapsed phases next_health s1 = Some (s', r) \<and> time s1 \<le> time s'
      \<and> (\<forall>ph nh. r = Inr (Some (ph, nh)) \<longrightarrow> ph = phases \<and> time s1 < time s')"
  proof -
    obtain s' r where r: "round_idle ops cfg ?elapsed phases next_health s1 = Some (s', r)" "time s1 \<le> time s'"
      "\<forall>x. r = Inr x \<longrightarrow> time s1 + 1000 \<le> time s'"
      using idle_onward unfolding takes_def by blast
    moreover have "ph = phases" if "r = Inr (Some (ph, nh))" for ph nh
      using r(1) that by (auto simp: round_idle_def io_bind_def io_lift_def split: option.splits sum.splits)
    ultimately show ?thesis by fastforce
  qed
  have phase: "\<exists>s' r. io_bind (run_phase lib_what ops cfg p) (\<lambda>_. io_lift (Inr (if rest = [] then None else Some (rest, nh)))) s1 = Some (s', r)
      \<and> time s1 \<le> time s' \<and> (\<forall>ph nh. r = Inr (Some (ph, nh)) \<longrightarrow> ph = rest)" for p rest nh
  proof -
    obtain s' r where "run_phase lib_what ops cfg p s1 = Some (s', r)" "time s1 \<le> time s'"
      using onwardD[OF run_phase_onward, of s1] unfolding ends_def by blast
    then show ?thesis by (cases r) (auto simp: io_bind_def io_lift_def)
  qed
  show ?thesis
  proof (cases "dc_duration_sec cfg \<le> ?elapsed")
    case True
    then show ?thesis using n by (simp add: demo_round_def io_bind_def io_lift_def)
  next
    case False
    show ?thesis
    proof (cases "phases \<noteq> [] \<and> ?elapsed \<ge> ph_start_sec (hd phases)")
      case True
      then obtain p rest where p: "phases = p # rest" "?elapsed \<ge> ph_start_sec p" by (cases phases) auto
      then show ?thesis using phase[of p rest "?elapsed + 15"] n False
        by (auto simp: demo_round_def io_bind_def[of "demo_now ops"] Let_def)
    next
      case no: False
      then have "demo_round lib_what ops cfg start phases next_health s = round_idle ops cfg ?elapsed phases next_health s1"
        using n False by (auto simp: demo_round_def io_bind_def[of "demo_now ops"] Let_def split: list.split)
      then show ?thesis using idle n up False by fastforce
    qed
  qed
qed

lemma loop_ends: "start \<le> time s \<Longrightarrow> ends (demo_time clock) s (phase_loop lib_what ops cfg start phases next_health s)"
proof (induction "length phases + nat (start + 1000 * dc_duration_sec cfg - time s)" arbitrary: phases next_health s rule: less_induct)
  case less
  obtain s1 r where r: "demo_round lib_what ops cfg start phases next_health s = Some (s1, r)" "time s \<le> time s1"
    and on: "\<forall>ph nh. r = Inr (Some (ph, nh)) \<longrightarrow>
         length ph < length phases \<or> ph = phases \<and> time s < start + 1000 * dc_duration_sec cfg \<and> time s < time s1"
    using round_ends[OF less.prems, of lib_what cfg phases next_health] by blast
  have "ends (demo_time clock) s (phase_loop lib_what ops cfg start ph nh s1)" if "r = Inr (Some (ph, nh))" for ph nh
  proof (rule ends_later[OF less.hyps r(2)])
    show "length ph + nat (start + 1000 * dc_duration_sec cfg - time s1) < length phases + nat (start + 1000 * dc_duration_sec cfg - time s)"
      using on that r(2) by fastforce
    show "start \<le> time s1" using less.prems r(2) by simp
  qed
  then show ?case unfolding phase_loop.simps[of _ _ _ _ _ _ s] using r by (auto split: sum.split option.split)
qed

section \<open>The run\<close>

text \<open>Total triples: from \<open>P\<close> the step ends, and with \<open>Q\<close> when it returns a value.\<close>

definition lasts :: "('w demo_state \<Rightarrow> bool) \<Rightarrow> ('w demo_state, 'a) io \<Rightarrow> ('a \<Rightarrow> 'w demo_state \<Rightarrow> bool) \<Rightarrow> bool" where
  "lasts P m Q \<longleftrightarrow> (\<forall>s. P s \<longrightarrow> (\<exists>s' r. m s = Some (s', r) \<and> (\<forall>x. r = Inr x \<longrightarrow> Q x s')))"

lemma lasts_bind: "lasts P m R \<Longrightarrow> (\<And>x. lasts (R x) (f x) Q) \<Longrightarrow> lasts P (io_bind m f) Q"
  unfolding lasts_def
proof (intro allI impI)
  fix s assume m: "\<forall>s. P s \<longrightarrow> (\<exists>s' r. m s = Some (s', r) \<and> (\<forall>x. r = Inr x \<longrightarrow> R x s'))"
    and f: "\<And>x. \<forall>s. R x s \<longrightarrow> (\<exists>s' r. f x s = Some (s', r) \<and> (\<forall>x. r = Inr x \<longrightarrow> Q x s'))" and "P s"
  then obtain s' r where "m s = Some (s', r)" "\<forall>x. r = Inr x \<longrightarrow> R x s'" by blast
  with f show "\<exists>s' r. io_bind m f s = Some (s', r) \<and> (\<forall>x. r = Inr x \<longrightarrow> Q x s')" by (cases r) (auto simp: io_bind_def)
qed

definition running :: "AgentTemplate list \<Rightarrow> int \<Rightarrow> 'w demo_state \<Rightarrow> bool" where
  "running ts start s \<longleftrightarrow> templates_are ts s \<and> \<not> dm_held s \<and> start \<le> time s"

lemma running_kept:
  assumes "onward (demo_time clock) m" "preserves (templates_are ts) m" "preserves (\<lambda>s. \<not> dm_held s) m"
  shows "lasts (running ts start) m (\<lambda>_. running ts start)"
  unfolding lasts_def
proof (intro allI impI)
  fix s assume s: "running ts start s"
  obtain s' r where m: "m s = Some (s', r)" "time s \<le> time s'" using onwardD[OF assms(1), of s] unfolding ends_def by blast
  have "running ts start s'" using s m preservesD[OF assms(2) _ m(1)] preservesD[OF assms(3) _ m(1)] by (auto simp: running_def)
  with m show "\<exists>s' r. m s = Some (s', r) \<and> (\<forall>x. r = Inr x \<longrightarrow> running ts start s')" by blast
qed

lemma now_lasts: "lasts (running ts start) (demo_now ops) (running ts)"
  unfolding lasts_def
proof (intro allI impI)
  fix s assume s: "running ts start s"
  obtain s' where n: "demo_now ops s = Some (s', Inr (time (other_threads ops s)))" "time (other_threads ops s) \<le> time s'"
    using now_reads[of s] by blast
  have "running ts (time (other_threads ops s)) s'"
    using s n(2) preservesD[OF templates_kept.now_keeps _ n(1)] preservesD[OF released.now_keeps _ n(1)] by (auto simp: running_def)
  with n(1) show "\<exists>s' r. demo_now ops s = Some (s', r) \<and> (\<forall>x. r = Inr x \<longrightarrow> running ts x s')" by blast
qed

lemma launch_lasts: "lasts (running [] start) (launch_workers ops cfg ts) (\<lambda>_. running ts start)"
  unfolding lasts_def
proof (intro allI impI)
  fix s assume s: "running [] start s"
  have on: "onward (demo_time clock) (launch_workers ops cfg ts)"
    by (induction ts) (auto intro!: demo_onward demo_update_onward demo_sleep_onward)
  obtain s' r where m: "launch_workers ops cfg ts s = Some (s', r)" "time s \<le> time s'" using onwardD[OF on, of s] unfolding ends_def by blast
  have "templates_are ts s'" if "r = Inr x" for x
    using launch_templates[of "[]" ops cfg ts "\<lambda>_. True", unfolded triple_def, rule_format, OF _ m(1)] s that by (simp add: running_def)
  moreover have "\<not> dm_held s'" using preservesD[OF released.launch_keeps _ m(1)] s by (simp add: running_def)
  ultimately show "\<exists>s' r. launch_workers ops cfg ts s = Some (s', r) \<and> (\<forall>x. r = Inr x \<longrightarrow> running ts start s')"
    using m s by (auto simp: running_def)
qed

lemma loop_lasts: "lasts (running ts start) (phase_loop lib_what ops cfg start phases next_health) (\<lambda>_. running ts start)"
  unfolding lasts_def
proof (intro allI impI)
  fix s assume s: "running ts start s"
  then obtain s' r where m: "phase_loop lib_what ops cfg start phases next_health s = Some (s', r)" "time s \<le> time s'"
    using loop_ends[of start s lib_what cfg phases next_health] unfolding ends_def running_def by blast
  have "running ts start s'" using s m preservesD[OF templates_kept.loop_keeps _ m(1)] preservesD[OF released.loop_keeps _ m(1)]
    by (auto simp: running_def)
  with m show "\<exists>s' r. phase_loop lib_what ops cfg start phases next_health s = Some (s', r) \<and> (\<forall>x. r = Inr x \<longrightarrow> running ts start s')" by blast
qed

lemma traffic_ends:
  assumes "length ts \<le> 5" "templates_are [] s" "\<not> dm_held s"
  shows "\<exists>s' r. demo_traffic lib_what ops cfg ts s = Some (s', r)"
proof -
  have joins: "lasts (\<lambda>s. running ts start s \<and> dm_stop s) (join_workers ops [0..<length ts]) (\<lambda>_ _. True)" for start
    unfolding lasts_def
  proof (intro allI impI)
    fix s assume s: "running ts start s \<and> dm_stop s"
    then have "length (dm_workers s) = length ts" by (auto simp: running_def templates_are_def)
    then have "\<forall>i\<in>set [0..<length ts]. i < 5 \<and> stopping i s" using s assms(1) by (auto simp: stopping_def running_def)
    from joins_end[OF this] show "\<exists>s' r. join_workers ops [0..<length ts] s = Some (s', r) \<and> (\<forall>x. r = Inr x \<longrightarrow> True)" by blast
  qed
  have stop: "lasts (running ts start) (demo_update ops (\<lambda>s. s\<lparr>dm_stop := True\<rparr>)) (\<lambda>_ s. running ts start s \<and> dm_stop s)" for start
    unfolding lasts_def demo_update_def io_modify_def using templates_kept.turns[of ts] released.turns[where ops = ops] others_time
    by (auto simp: running_def templates_are_def) (metis less_imp_le order_trans)
  have start: "lasts (running [] t) (demo_update ops (\<lambda>s. s\<lparr>dm_start := x\<rparr>)) (\<lambda>_. running [] t)" for t x
    by (intro running_kept demo_update_onward templates_kept.shutdown_keeps released.shutdown_keeps) simp
  have "lasts (running [] (time s)) (demo_traffic lib_what ops cfg ts) (\<lambda>_ _. True)"
    unfolding demo_traffic_def
    by (rule lasts_bind[OF now_lasts] lasts_bind[OF start] lasts_bind[OF launch_lasts] lasts_bind[OF loop_lasts]
        lasts_bind[OF running_kept[OF logs_onward(8) templates_kept.log_keeps(8) released.log_keeps(8)]]
        lasts_bind[OF running_kept[OF logs_onward(1) templates_kept.log_keeps(1) released.log_keeps(1)]]
        lasts_bind[OF stop] joins)+
  then show ?thesis using assms unfolding lasts_def running_def by blast
qed

lemma demo_finish_onward: "onward (demo_time clock) (demo_finish ops cfg)"
  unfolding demo_finish_def demo_stop_stack_def by (intro demo_onward cluster_onward demo_qdrant_onward)

lemma caught_ends: "\<exists>s' ending. demo_caught lib_what ops cfg e s = Some (s', ending)"
proof -
  have "onward (demo_time clock) (demo_stop_stack ops cfg)" unfolding demo_stop_stack_def by (intro demo_onward)
  then have "onward (demo_time clock) (\<lambda>s. (if dm_stack_started s \<and> dc_teardown_on_exit cfg then demo_stop_stack ops cfg else io_lift (Inr ())) s)"
    by (simp add: onward_def io_lift_def)
  then have "onward (demo_time clock) (demo_handler lib_what ops cfg e)"
    unfolding demo_handler_def by (intro onward_bind logs_onward(3))
  from onwardD[OF this, of s] obtain s' r where "demo_handler lib_what ops cfg e s = Some (s', r)" unfolding ends_def by blast
  then show ?thesis by (simp add: demo_caught_def)
qed

lemma demo_ends: "\<exists>s ending. demo_main F lib_what ops proot env w = Some (s, ending)"
proof -
  let ?cfg = "demo_load_config F proot env" and ?s0 = "new_demo_state (fst (bw_now (mo_bench ops) w)) (snd (bw_now (mo_bench ops) w))"
  obtain s1 r1 where p: "demo_prepare F ops ?cfg ?s0 = Some (s1, r1)"
    using onwardD[OF demo_prepare_onward, of ?s0 F ?cfg] unfolding ends_def by blast
  have "templates_are [] s1" "\<not> dm_held s1"
    using preservesD[OF templates_kept.prepare_keeps _ p, of "[]"] preservesD[OF released.prepare_keeps _ p]
    by (simp_all add: templates_are_def new_demo_state_def)
  note t = traffic_ends[OF _ this]
  show ?thesis
  proof (cases r1)
    case (Inl e)
    then show ?thesis using p caught_ends[of lib_what ?cfg e s1] by (simp add: demo_main_def case_prod_beta Let_def)
  next
    case (Inr ts)
    then have "map at_label ts = ''ABCDE''" using prepare_labels[unfolded triple_def, rule_format, OF TrueI p] by simp
    then have "length ts \<le> 5" by (metis length_map eq_refl list.size(3,4) One_nat_def numeral_eq_Suc pred_numeral_simps add_Suc add_0 Suc_eq_plus1 BitM.simps)
    from t[OF this, of lib_what ?cfg] obtain s2 r2 where t: "demo_traffic lib_what ops ?cfg ts s1 = Some (s2, r2)" by blast
    show ?thesis
    proof (cases r2)
      case (Inr u)
      obtain s3 r3 where "demo_finish ops ?cfg s2 = Some (s3, r3)"
        using onwardD[OF demo_finish_onward, of s2 ?cfg] unfolding ends_def by blast
      then show ?thesis using p t \<open>r1 = Inr ts\<close> Inr caught_ends[of lib_what ?cfg _ s3]
        by (cases r3) (simp_all add: demo_main_def case_prod_beta Let_def)
    qed (use p t \<open>r1 = Inr ts\<close> in \<open>simp add: demo_main_def case_prod_beta Let_def\<close>)
  qed
qed

end

section \<open>Machines with a clock\<close>

text \<open>Calls get a deadline, and every round of turns ends with one of each thread, whose call is over by then.\<close>

definition demo_with_deadlines :: "'w demo_ops \<Rightarrow> ('w \<times> int) demo_ops" where
  "demo_with_deadlines ops =
     \<lparr>mo_run = with_deadlines (mo_run ops), mo_system = (\<lambda>cmd. timed (- 1) (mo_system ops cmd)),
      mo_call = (\<lambda>i rq (w, t). (mo_call ops i rq w, t)),
      mo_turns = (\<lambda>(w, t). let (w', turns) = mo_turns ops w in
        ((w', t + 1), turns @ map (\<lambda>i. (i, deadline_status, default_AcquireResponse)) [0..<5]))\<rparr>"

interpretation timed_demo: demo_clock "demo_with_deadlines ops" snd
proof unfold_locales
  fix i :: nat and w assume "i < 5"
  then show "i \<in> fst ` set (snd (mo_turns (demo_with_deadlines ops) w))"
    by (force simp: demo_with_deadlines_def image_iff split: prod.split)
qed (auto simp: demo_with_deadlines_def timed_host.calls timed_host.now timed_host.sleep timed_host.others timed_ends split: prod.splits)

text \<open>Such a machine stays one when its commands and calls are recorded.\<close>

abbreviation recorded_time :: "('w \<times> int) \<times> demo_record \<Rightarrow> int" where
  "recorded_time w \<equiv> snd (fst w)"

lemma ends_rec: "ends snd (fst w) (m (fst w)) \<Longrightarrow> ends recorded_time w (rec_step m w)"
  by (auto simp: ends_def rec_step_def)

lemma reads_rec: "snd (fst w) \<le> snd (fst (m (fst w))) \<Longrightarrow> recorded_time w \<le> recorded_time (fst (rec_read m w))"
  by (simp add: rec_read_def case_prod_beta Let_def)

interpretation recorded_demo: demo_clock "demo_recording (demo_with_deadlines ops)" recorded_time
proof unfold_locales
  fix i :: nat and w :: "('a \<times> int) \<times> demo_record" assume "i < 5"
  from timed_demo.fair[OF this, of ops "fst w"] show "i \<in> fst ` set (snd (mo_turns (demo_recording (demo_with_deadlines ops)) w))"
    by (simp add: demo_recording_def Let_def rec_read_def case_prod_beta)
next
  fix w :: "('a \<times> int) \<times> demo_record" and cmd
  show "ends recorded_time w (mo_system (demo_recording (demo_with_deadlines ops)) cmd w)"
    using ends_rec[of "(fst w, fst (snd w) @ [cmd], snd (snd w))" "mo_system (demo_with_deadlines ops) cmd"] timed_demo.system[of "fst w" ops cmd]
    by (simp add: demo_recording_def Let_def case_prod_beta ends_def)
next
  fix w :: "('a \<times> int) \<times> demo_record"
  show "recorded_time w < recorded_time (fst (mo_turns (demo_recording (demo_with_deadlines ops)) w))"
    using timed_demo.turns[of "fst w" ops] by (simp add: demo_recording_def Let_def rec_read_def case_prod_beta)
next
  fix w :: "('a \<times> int) \<times> demo_record"
  show "snd (bw_now (mo_bench (demo_recording (demo_with_deadlines ops))) w) = recorded_time w"
    using timed_demo.now(1)[of ops "fst w"] by (simp add: demo_recording_def Let_def rec_read_def case_prod_beta)
next
  fix w :: "('a \<times> int) \<times> demo_record" and ms :: int assume "0 \<le> ms"
  from timed_demo.sleep[OF this, of "fst w" ops]
  show "recorded_time w + ms \<le> recorded_time (bw_sleep (mo_bench (demo_recording (demo_with_deadlines ops))) ms w)"
    by (simp add: demo_recording_def Let_def case_prod_beta)
qed (simp_all add: demo_recording_def Let_def ends_rec reads_rec case_prod_beta timed_demo.calls timed_demo.now timed_demo.others timed_demo.call)

end
