(* ===== verification/DemoExample.thy ===== *)
theory DemoExample
  imports DemoHost DemoClock
begin

text \<open>
  A run of the demo to its regular end: every service works, node 1 leads until it is stopped and node 2
  after that, so that the phases stop and start node 1 and then stop nodes 1, 3 and 4. The threads take
  turns all the time and their calls are granted; a sleep of the main thread takes 200 times as long, so
  that every phase is due as soon as the one before it is over.
\<close>

section \<open>The machine\<close>

text \<open>The time and the number of commands so far.\<close>

type_synonym ex_stage = "int \<times> nat"

definition ex_demo_body :: "string \<Rightarrow> string" where
  "ex_demo_body target =
     (if target = ''/v1/embeddings'' then quoted ''embedding'' @ '':[1]''
      else if target = ''/collections/dscc_memory_demo/points/count'' then quoted ''count'' @ '':1'' else [])"

text \<open>What a node answers; node 1 is down between its stop and its start.\<close>

definition ex_demo_leader :: "string \<Rightarrow> nat \<Rightarrow> Status \<times> LeaderInfo" where
  "ex_demo_leader target n =
     (if n \<le> 1 then (Status_OK, \<lparr>li_leader_id = ''node-1'', li_leader_address = ''dscc-node-1:50051'', li_current_term = 1,
        li_is_leader = (target = ''127.0.0.1:50051'')\<rparr>)
      else ((if n = 2 \<and> target = ''127.0.0.1:50051'' then deadline_status else Status_OK),
        \<lparr>li_leader_id = ''node-2'', li_leader_address = ''dscc-node-2:50051'', li_current_term = 2, li_is_leader = (target = ''127.0.0.1:50052'')\<rparr>))"

definition ex_demo_file :: string where
  "ex_demo_file = quoted ''payload'' @ '':'' @ quoted ''green''"

definition ex_demo :: "ex_stage demo_ops" where
  "ex_demo =
     \<lparr>mo_run = \<lparr>ro_bench = \<lparr>bw_http = (\<lambda>host port verb target body w. Some (w, Inr \<lparr>http_status_code = 200, http_body = ex_demo_body target\<rparr>)),
          bw_ping = (\<lambda>target from_node w. Some (w, Status_OK)),
          bw_get_leader = (\<lambda>target w. Some (w, ex_demo_leader target (snd w))),
          bw_now = (\<lambda>w. (w, fst w)), bw_sleep = (\<lambda>ms (t, n). (t + 200 * max 0 ms, n)), bw_exists = (\<lambda>path w. (w, True)),
          bw_read = (\<lambda>path w. (w, Some ex_demo_file))\<rparr>,
        ro_popen = (\<lambda>command w. Some (w, Some (0, []))), ro_setenv = (\<lambda>key v w. w), ro_unix_ms = (\<lambda>w. (w, fst w)),
        ro_clients = (\<lambda>calls w. None), ro_open = (\<lambda>path w. (w, Inr True)), ro_csv_contents = (\<lambda>path w. (w, None))\<rparr>,
      mo_system = (\<lambda>command (t, n). Some ((t, n + 1), 0)), mo_call = (\<lambda>i rq w. w),
      mo_turns = (\<lambda>w. (w, map (\<lambda>i. (i, Status_OK, default_AcquireResponse\<lparr>rs_granted := True\<rparr>)) [0..<5]))\<rparr>"

abbreviation ex_ops :: "(ex_stage \<times> demo_record) demo_ops" where
  "ex_ops \<equiv> demo_recording ex_demo"

lemma ex_demo_named: "leaders_named ex_demo"
  by (auto simp: leaders_named_def ex_demo_def ex_demo_leader_def service_for_node_id_def demo_node_services_def split: if_splits)

lemma ex_demo_fields [simp]:
  "bw_http (mo_bench ex_ops) host port verb target body w = Some (w, Inr \<lparr>http_status_code = 200, http_body = ex_demo_body target\<rparr>)"
  "bw_ping (mo_bench ex_ops) target' from_node w = Some (w, Status_OK)"
  "bw_get_leader (mo_bench ex_ops) target' w = Some (w, ex_demo_leader target' (snd (fst w)))"
  "bw_now (mo_bench ex_ops) w = (w, fst (fst w))" "bw_sleep (mo_bench ex_ops) ms w = ((fst (fst w) + 200 * max 0 ms, snd (fst w)), snd w)"
  "bw_exists (mo_bench ex_ops) path w = (w, True)" "bw_read (mo_bench ex_ops) path w = (w, Some ex_demo_file)"
  "ro_setenv (mo_run ex_ops) key v w = w" "ro_unix_ms (mo_run ex_ops) w = (w, fst (fst w))"
  "mo_system ex_ops command w = Some (((fst (fst w), snd (fst w) + 1), fst (snd w) @ [command], snd (snd w)), 0)"
  "mo_call ex_ops i rq w = (fst w, fst (snd w), snd (snd w) @ [(i, rq)])"
  "mo_turns ex_ops w = (w, map (\<lambda>i. (i, Status_OK, default_AcquireResponse\<lparr>rs_granted := True\<rparr>)) [0..<5])"
  by (cases w; simp add: demo_recording_def ex_demo_def rec_step_def rec_read_def Let_def del: upt_rec_numeral split: prod.splits)+

section \<open>Stages\<close>

text \<open>A step that, started at one stage with some commands given, returns a value and leads to another.\<close>

definition ex_look :: "(ex_stage \<times> demo_record) demo_state \<Rightarrow> ex_stage \<times> string list" where
  "ex_look s = (fst (dm_world s), fst (snd (dm_world s)))"

definition brings :: "((ex_stage \<times> demo_record) demo_state, 'a) io \<Rightarrow> ex_stage \<times> string list \<Rightarrow> ex_stage \<times> string list \<Rightarrow> 'a \<Rightarrow> bool" where
  "brings m c c' x \<longleftrightarrow> (\<forall>s. ex_look s = c \<longrightarrow> (\<exists>s'. m s = Some (s', Inr x) \<and> ex_look s' = c'))"

lemma ex_turns: "ex_look (other_threads ex_ops s) = ex_look s"
proof (rule others_keep[of "\<lambda>s'. ex_look s' = ex_look s"])
  fix s' i status resp assume "ex_look s' = ex_look s"
  then show "ex_look (worker_step ex_ops i status resp s') = ex_look s"
    by (auto simp: ex_look_def worker_step_def set_worker_def Let_def split: worker_at.split)
qed (simp add: ex_look_def)

lemma brings_bind: "brings m c c1 x \<Longrightarrow> brings (f x) c1 c' y \<Longrightarrow> brings (io_bind m f) c c' y"
  unfolding brings_def io_bind_def by fastforce

lemma brings_seq: "brings m c c x \<Longrightarrow> brings (f x) c c' y \<Longrightarrow> brings (io_bind m f) c c' y"
  by (rule brings_bind)

lemma brings_lift: "brings (io_lift (Inr x)) c c x"
  by (simp add: brings_def io_lift_def)

lemma brings_update: "(\<And>s. ex_look (f s) = ex_look s) \<Longrightarrow> brings (demo_update ex_ops f) c c ()"
  by (simp add: brings_def demo_update_def io_modify_def ex_turns)

lemma brings_world:
  "(\<And>w. (fst w, fst (snd w)) = c \<Longrightarrow> \<exists>w'. m w = Some (w', Inr x) \<and> (fst w', fst (snd w')) = c') \<Longrightarrow> brings (demo_world ex_ops m) c c' x"
  unfolding brings_def demo_world_def Let_def
proof (intro allI impI)
  fix s assume m: "\<And>w. (fst w, fst (snd w)) = c \<Longrightarrow> \<exists>w'. m w = Some (w', Inr x) \<and> (fst w', fst (snd w')) = c'" and "ex_look s = c"
  then have "(fst (dm_world (other_threads ex_ops s)), fst (snd (dm_world (other_threads ex_ops s)))) = c"
    using ex_turns[of s] by (simp add: ex_look_def)
  from m[OF this] show "\<exists>s'. map_option (\<lambda>(w, r). (other_threads ex_ops s\<lparr>dm_world := w\<rparr>, r)) (m (dm_world (other_threads ex_ops s))) = Some (s', Inr x)
      \<and> ex_look s' = c'"
    by (auto simp: ex_look_def)
qed

lemma brings_calls:
  "brings (demo_now ex_ops) ((t, n), cs) ((t, n), cs) t"
  "brings (demo_sleep ex_ops ms) ((t, n), cs) ((t + 200 * max 0 ms, n), cs) ()"
  "brings (demo_http ex_ops host port verb target body) c c \<lparr>http_status_code = 200, http_body = ex_demo_body target\<rparr>"
  "brings (demo_get_leader ex_ops target) ((t, n), cs) ((t, n), cs) (ex_demo_leader target n)"
  "brings (demo_call ex_ops (bw_ping (mo_bench ex_ops) target from_node)) c c Status_OK"
  "brings (demo_get ex_ops (bw_exists (mo_bench ex_ops) path)) c c True"
  "brings (demo_get ex_ops (bw_read (mo_bench ex_ops) path)) c c (Some ex_demo_file)"
  "brings (demo_run_shell ex_ops command) ((t, n), cs) ((t, n + 1), cs @ [command]) 0"
  unfolding demo_now_def demo_sleep_def demo_get_def demo_http_def demo_get_leader_def demo_call_def demo_run_shell_def
  by (auto intro!: brings_world)

lemma brings_put: "brings (demo_put ex_ops line) c c ()" "brings (demo_puts ex_ops lines) c c ()"
proof -
  show p: "brings (demo_put ex_ops line) c c ()" for line
    unfolding demo_put_def by (rule brings_update) (simp add: ex_look_def)
  show "brings (demo_puts ex_ops lines) c c ()" by (induction lines) (auto intro: brings_bind brings_lift p)
qed

lemma brings_put_of: "brings (\<lambda>s. demo_put ex_ops (f s) s) c c ()" "brings (\<lambda>s. demo_puts ex_ops (g s) s) c c ()"
  using brings_put unfolding brings_def by blast+

lemma brings_logs:
  "brings (demo_log ex_ops color tag message) c c ()" "brings (demo_info ex_ops message) c c ()" "brings (demo_ok ex_ops message) c c ()"
  "brings (demo_fail ex_ops message) c c ()" "brings (phase_log ex_ops message) c c ()" "brings (chaos ex_ops message) c c ()"
  "brings (recover ex_ops message) c c ()" "brings (raft_log ex_ops message) c c ()" "brings (banner ex_ops message) c c ()"
  "brings (print_summary ex_ops message) c c ()"
proof -
  have "brings (demo_log ex_ops color tag message) c c ()" for color tag message
    by (cases c; cases "fst c") (auto simp: demo_log_def intro!: brings_bind[OF brings_calls(1) brings_put_of(1)])
  then show "brings (demo_log ex_ops color tag message) c c ()" "brings (demo_info ex_ops message) c c ()" "brings (demo_ok ex_ops message) c c ()"
    "brings (demo_fail ex_ops message) c c ()" "brings (phase_log ex_ops message) c c ()" "brings (chaos ex_ops message) c c ()"
    "brings (recover ex_ops message) c c ()" "brings (raft_log ex_ops message) c c ()"
    by (simp_all add: demo_info_def demo_ok_def demo_fail_def phase_log_def chaos_def recover_def raft_log_def)
  show "brings (banner ex_ops message) c c ()" by (simp add: banner_def brings_put)
  show "brings (print_summary ex_ops message) c c ()"
    unfolding print_summary_def
    by (rule brings_seq[OF brings_update brings_seq[OF brings_put_of(2) brings_update]]) (simp_all add: ex_look_def)
qed

lemma brings_command: "brings (compose_cmd ex_ops cfg args) ((t, n), cs) ((t, n + 1), cs @ [demo_compose_command cfg args]) ()"
  unfolding compose_cmd_def by (rule brings_bind[OF brings_calls(8)]) (simp add: brings_lift)

section \<open>Services\<close>

definition ex_demo_env :: environ where
  "ex_demo_env = [''DEMO_OP_INTERVAL_MS'' \<mapsto> ''0'', ''DEMO_DURATION_SEC'' \<mapsto> ''100000'']"

definition ex_demo_cfg :: DemoConfig where
  "ex_demo_cfg = demo_load_config exact_fpu ''/dslm'' ex_demo_env"

lemma ex_demo_numbers: "atoi ''0'' = 0" "atoi ''100000'' = 100000"
  by (simp_all add: atoi_def strtol_def isspace_def read_sign_def isdigit_def digit_of_def saturate_def Let_def)

lemma ex_demo_getenv:
  "ex_demo_env ''QDRANT_COLLECTION'' = None" "ex_demo_env ''E2E_TEARDOWN'' = None" "ex_demo_env ''DEMO_OP_INTERVAL_MS'' = Some ''0''"
  "ex_demo_env ''DEMO_DURATION_SEC'' = Some ''100000''"
  by code_simp+

lemma ex_demo_cfg_fields [simp]:
  "dc_node_targets ex_demo_cfg = demo_node_targets" "dc_node_service_names ex_demo_cfg = demo_node_services"
  "dc_collection ex_demo_cfg = ''dscc_memory_demo''" "dc_op_interval_ms ex_demo_cfg = 0" "dc_duration_sec ex_demo_cfg = 100000"
  "dc_teardown_on_exit ex_demo_cfg = False"
  by (simp_all only: ex_demo_cfg_def demo_load_config_def default_DemoConfig_def ex_demo_getenv getenv_value_def ex_demo_numbers Let_def
      DemoConfig.simps option.simps id_apply)

lemma ex_demo_tried: "brings m c c' x \<Longrightarrow> brings (attempt_of m) c c' (Some x)" "brings m' c c' y \<Longrightarrow> brings (attempt_error m') c c' (Inr y)"
  unfolding brings_def attempt_of_def attempt_error_def by fastforce+

lemma ex_demo_waits:
  "brings (wait_for_qdrant ex_ops cfg (Suc k)) c c ()" "brings (wait_for_embedding ex_ops cfg (Suc k)) c c ()"
  "brings (ensure_model ex_ops cfg) c c ()" "brings (wait_for_proxy ex_ops cfg (Suc k)) c c ()"
proof -
  show "brings (wait_for_qdrant ex_ops cfg (Suc k)) c c ()"
    unfolding wait_for_qdrant.simps by (rule brings_seq[OF ex_demo_tried(1)[OF brings_calls(3)]]) (simp add: brings_logs)
  have "brings (try_endpoints ex_ops cfg (ep # eps)) c c True" for ep eps
    unfolding try_endpoints.simps
    by (rule brings_seq[OF ex_demo_tried(1)[OF brings_calls(3)]]) (simp, rule brings_seq[OF brings_logs(2) brings_lift])
  then show "brings (wait_for_embedding ex_ops cfg (Suc k)) c c ()"
    unfolding wait_for_embedding.simps by (rule brings_seq) (simp add: brings_lift)
  show "brings (ensure_model ex_ops cfg) c c ()"
    unfolding ensure_model_def by (rule brings_seq[OF brings_logs(2) brings_seq[OF brings_calls(3)]]) (simp add: brings_logs)
  show "brings (wait_for_proxy ex_ops cfg (Suc k)) c c ()"
    unfolding wait_for_proxy.simps by (rule brings_seq[OF brings_calls(5)]) (simp add: Status_OK_def status_ok_def brings_logs)
qed

definition ex_demo_lead :: "nat \<Rightarrow> DemoLeader" where
  "ex_demo_lead n =
     (if n \<le> 1 then \<lparr>dl_address = ''dscc-node-1:50051'', dl_node_id = ''node-1'', dl_service_name = ''dscc-node-1'', dl_term = 1\<rparr>
      else \<lparr>dl_address = ''dscc-node-2:50051'', dl_node_id = ''node-2'', dl_service_name = ''dscc-node-2'', dl_term = 2\<rparr>)"

lemma ex_demo_discover: "brings (demo_discover ex_ops demo_node_targets) ((t, n), cs) ((t, n), cs) (Some (ex_demo_lead n))"
proof (cases "n = 2")
  case True
  show ?thesis unfolding True demo_node_targets_def demo_discover.simps
    by (rule brings_seq[OF brings_calls(4)], simp add: ex_demo_leader_def deadline_status_def status_ok_def Status_OK_def demo_leader_def,
        rule brings_seq[OF brings_calls(4)])
      (simp add: ex_demo_leader_def Status_OK_def status_ok_def demo_leader_def ex_demo_lead_def service_for_node_id_def brings_lift)
next
  case False
  then show ?thesis unfolding demo_node_targets_def demo_discover.simps
    by (intro brings_seq[OF brings_calls(4)])
      (auto simp: ex_demo_leader_def Status_OK_def status_ok_def demo_leader_def ex_demo_lead_def service_for_node_id_def brings_lift)
qed

lemma ex_demo_until:
  assumes "brings attempt ((t, n), cs) ((t, n), cs) (Some x)" "t < deadline"
  shows "brings (demo_until ex_ops deadline e attempt) ((t, n), cs) ((t, n), cs) x"
proof -
  have "brings (demo_attempt ex_ops deadline e attempt) ((t, n), cs) ((t, n), cs) (Some x)"
    unfolding demo_attempt_def
    by (rule brings_seq[OF brings_calls(1)]) (simp add: assms(2), rule brings_seq[OF assms(1)], simp add: brings_lift)
  then show ?thesis unfolding brings_def by (subst demo_until.simps) fastforce
qed

lemma ex_demo_leaders:
  assumes "0 < timeout" "other = [] \<or> other \<noteq> dl_address (ex_demo_lead n)"
  shows "brings (demo_wait_for_leader ex_ops ex_demo_cfg timeout other) ((t, n), cs) ((t, n), cs) (ex_demo_lead n)"
proof -
  have "leader_accepted other (Some (ex_demo_lead n)) = Some (ex_demo_lead n)"
    using assms(2) by (auto simp: leader_accepted_def ex_demo_lead_def)
  then have "brings (io_bind (demo_discover ex_ops demo_node_targets) (\<lambda>obs. io_lift (Inr (leader_accepted other obs)))) ((t, n), cs) ((t, n), cs)
      (Some (ex_demo_lead n))"
    by (intro brings_seq[OF ex_demo_discover]) (simp add: brings_lift)
  then show ?thesis unfolding demo_wait_for_leader_def
    by (intro brings_seq[OF brings_calls(1)]) (simp add: ex_demo_until assms(1))
qed

lemma ex_demo_ready:
  assumes "n \<noteq> 2" "0 < timeout"
  shows "brings (wait_for_node_ready ex_ops target timeout) ((t, n), cs) ((t, n), cs) ()"
proof -
  have "brings (io_bind (demo_get_leader ex_ops target) (\<lambda>(st, resp). io_lift (Inr (if status_ok st then Some () else None)))) ((t, n), cs) ((t, n), cs) (Some ())"
    by (rule brings_seq[OF brings_calls(4)])
      (use assms(1) in \<open>auto simp: ex_demo_leader_def Status_OK_def status_ok_def brings_lift\<close>)
  then show ?thesis unfolding wait_for_node_ready_def
    by (intro brings_seq[OF brings_calls(1)]) (simp add: ex_demo_until assms(2))
qed

definition ex_demo_health :: "nat \<Rightarrow> NodeHealth list" where
  "ex_demo_health n = map (\<lambda>(target, service). node_health target service (ex_demo_leader target n)) (zip demo_node_targets demo_node_services)"

lemma ex_demo_cluster:
  "brings (poll_cluster ex_ops ex_demo_cfg) ((t, n), cs) ((t, n), cs) (ex_demo_health n)"
  "brings (print_cluster_status ex_ops ex_demo_cfg) ((t, n), cs) ((t, n), cs) ()"
proof -
  have "brings (poll_nodes ex_ops nodes) ((t, n), cs) ((t, n), cs) (map (\<lambda>(target, service). node_health target service (ex_demo_leader target n)) nodes)" for nodes
  proof (induction nodes)
    case (Cons node nodes)
    show ?case by (cases node) (simp, rule brings_seq[OF brings_calls(4) brings_seq[OF Cons brings_lift]])
  qed (simp add: brings_lift)
  then show p: "brings (poll_cluster ex_ops ex_demo_cfg) ((t, n), cs) ((t, n), cs) (ex_demo_health n)"
    by (simp add: poll_cluster_def ex_demo_health_def)
  show "brings (print_cluster_status ex_ops ex_demo_cfg) ((t, n), cs) ((t, n), cs) ()"
    unfolding print_cluster_status_def by (rule brings_seq[OF p brings_logs(1)])
qed

lemma ex_demo_count: "demo_qdrant_count (quoted ''count'' @ '':1'') = Inr 1"
  by (simp add: demo_qdrant_count_def after_colon_def quoted_def dq_def str_find_def find_at_def isspace_def isdigit_def stoi_def strtol_def
      read_sign_def digit_of_def saturate_def Let_def)

lemma ex_demo_qdrant:
  "brings (demo_point_count ex_ops ex_demo_cfg) c c 1" "brings (demo_reset_collection ex_ops ex_demo_cfg k) c c ()"
proof -
  show "brings (demo_point_count ex_ops ex_demo_cfg) c c 1"
    unfolding demo_point_count_def
    by (rule brings_seq[OF brings_calls(3)]) (simp add: ex_demo_body_def ex_demo_count[simplified] ex_demo_count brings_lift)
  show "brings (demo_reset_collection ex_ops ex_demo_cfg k) c c ()"
    unfolding demo_reset_collection_def by (rule brings_seq[OF brings_calls(3) brings_seq[OF brings_calls(3)]]) (simp add: brings_lift)
qed

section \<open>Preparation\<close>

lemma ex_demo_startup:
  "brings (demo_startup ex_ops ex_demo_cfg) ((t, 0), cs) ((t, 1), cs @ [demo_compose_command ex_demo_cfg demo_up_args]) ()"
proof -
  have env: "brings (demo_get ex_ops (\<lambda>w. (demo_environment ex_ops cfg w, ()))) c c ()" for cfg c
    unfolding demo_get_def by (rule brings_world) (simp add: demo_environment_def)
  have start: "brings (start_stack ex_ops ex_demo_cfg) ((t, 0), cs) ((t, 1), cs @ [demo_compose_command ex_demo_cfg demo_up_args]) ()"
    unfolding start_stack_def using brings_seq[OF env brings_command[of ex_demo_cfg demo_up_args t 0 cs]] by simp
  have infos: "brings (demo_infos ex_ops lines) c c ()" for lines c
    by (induction lines) (auto intro: brings_seq brings_logs brings_lift)
  have mark: "brings (demo_update ex_ops (\<lambda>s. s\<lparr>dm_stack_started := True\<rparr>)) c c ()" for c
    by (rule brings_update) (simp add: ex_look_def)
  have n: "(120::nat) = Suc 119" "(180::nat) = Suc 179" "(60::nat) = Suc 59" by simp_all
  show ?thesis unfolding demo_startup_def n
    by (rule brings_seq[OF brings_logs(9)] brings_seq[OF infos] brings_seq[OF brings_put(1)] brings_seq[OF brings_logs(2)]
        brings_bind[OF start] brings_seq[OF mark] brings_seq[OF ex_demo_waits(1)] brings_seq[OF ex_demo_waits(2)]
        brings_seq[OF ex_demo_waits(3)] brings_seq[OF ex_demo_waits(4)] brings_seq[OF ex_demo_leaders] brings_seq[OF brings_logs(8)]
        ex_demo_cluster(2) | simp)+
qed

definition ex_demo_template :: "char \<Rightarrow> AgentTemplate" where
  "ex_demo_template label = \<lparr>at_label = label, at_source_file = label # ''.json'', at_text = ''green'', at_embedding = [Fin 1], at_is_write = True\<rparr>"

lemma ex_demo_vector: "demo_embedding_array exact_fpu (quoted ''embedding'' @ '':[1]'') = Inr [Fin 1]"
  by (simp add: demo_embedding_array_def quoted_def dq_def str_find_def find_at_def demo_float_token_def
      strtof_def isspace_def read_sign_def has_prefix_ci_def lower_def tolower_def read_decimal_def read_mantissa_def
      digit_of_def read_exponent_def power_int_real_def exact_fpu_def Let_def)

lemma ex_demo_parsed: "demo_parse_template label path (Some ex_demo_file) = Inr ((ex_demo_template label)\<lparr>at_embedding := []\<rparr>)"
  by (simp add: demo_parse_template_def demo_read_file_def ex_demo_file_def demo_schedule_entry_def quoted_def dq_def str_find_def find_at_def
      demo_template_fields_def demo_json_string_def demo_json_string_opt_def after_colon_def ex_demo_template_def)

lemma ex_demo_templates:
  "brings (load_templates_of exact_fpu ex_ops ex_demo_cfg labels) c c (map ex_demo_template labels)"
proof (induction labels)
  case (Cons l labels)
  have load: "brings (demo_load_template ex_ops ex_demo_cfg l) c c ((ex_demo_template l)\<lparr>at_embedding := []\<rparr>)"
    unfolding demo_load_template_def Let_def
    by (rule brings_seq[OF brings_calls(6)], rule brings_seq, simp, rule brings_lift, rule brings_seq[OF brings_calls(7)])
      (simp add: ex_demo_parsed brings_lift)
  have embed: "brings (demo_request_embedding exact_fpu ex_ops ex_demo_cfg x) c c [Fin 1]" for x
    unfolding demo_request_embedding_def
    by (rule brings_seq[OF brings_calls(3)]) (simp add: ex_demo_body_def ex_demo_vector[simplified] ex_demo_vector brings_lift)
  show ?case unfolding load_templates_of.simps
    by (rule brings_seq[OF load] brings_seq[OF brings_logs(2)] brings_seq[OF embed] brings_seq[OF Cons])+
      (simp add: ex_demo_template_def brings_lift)
qed (simp add: brings_lift)

lemma ex_demo_prepare:
  "brings (demo_prepare exact_fpu ex_ops ex_demo_cfg) ((t, 0), cs) ((t, 1), cs @ [demo_compose_command ex_demo_cfg demo_up_args])
     (map ex_demo_template ''ABCDE'')"
proof -
  have front: "brings (io_lift (elem_at (map ex_demo_template ''ABCDE'') 0)) c c (ex_demo_template (CHR ''A''))" for c
    by (simp add: elem_at_def brings_lift)
  show ?thesis unfolding demo_prepare_def
    by (rule brings_bind[OF ex_demo_startup] brings_seq[OF brings_logs(9)] brings_seq[OF ex_demo_templates]
        brings_seq[OF brings_put(2)] brings_seq[OF front] brings_seq[OF ex_demo_qdrant(2)] brings_seq[OF brings_logs(3)]
        brings_seq[OF brings_logs(2)] brings_lift)+
qed

section \<open>The phases\<close>

definition ex_demo_stop :: "string \<Rightarrow> string" where
  "ex_demo_stop service = demo_compose_command ex_demo_cfg (''stop '' @ service)"

lemmas brings_said = brings_seq[OF brings_logs(5)] brings_seq[OF brings_logs(6)] brings_seq[OF brings_logs(7)] brings_seq[OF brings_logs(9)]
  brings_seq[OF brings_logs(10)] brings_seq[OF ex_demo_cluster(2)]

lemma ex_demo_steady: "brings (phase_steady_state ex_ops ex_demo_cfg) ((t, n), cs) ((t, n), cs) ()"
  unfolding phase_steady_state_def by (rule brings_said ex_demo_cluster(2))+

lemma ex_demo_kill: "brings (phase_leader_kill ex_ops ex_demo_cfg) ((t, 1), cs) ((t, 2), cs @ [ex_demo_stop ''dscc-node-1'']) ()"
proof -
  have first: "brings (demo_wait_for_leader ex_ops ex_demo_cfg 8 []) ((t, 1), cs) ((t, 1), cs) (ex_demo_lead 1)" for cs
    by (rule ex_demo_leaders) simp_all
  have stop: "brings (compose_cmd ex_ops ex_demo_cfg (''stop '' @ dl_service_name (ex_demo_lead 1))) ((t, 1), cs) ((t, 2), cs @ [ex_demo_stop ''dscc-node-1'']) ()"
    using brings_command[of ex_demo_cfg "''stop '' @ dl_service_name (ex_demo_lead 1)" t 1 cs]
    by (simp add: ex_demo_lead_def ex_demo_stop_def numeral_2_eq_2)
  have new: "brings (demo_wait_for_leader ex_ops ex_demo_cfg 15 (dl_address (ex_demo_lead 1))) ((t, 2), cs) ((t, 2), cs) (ex_demo_lead 2)" for cs
    by (rule ex_demo_leaders) (simp_all add: ex_demo_lead_def)
  show ?thesis unfolding phase_leader_kill_def
    by (rule brings_seq[OF first] brings_bind[OF stop] brings_seq[OF new] brings_logs(10) brings_said)+
qed

lemma ex_demo_rejoin:
  "brings (phase_old_leader_rejoin ex_ops ex_demo_cfg) ((t, 2), cs)
     ((t + 600000, 3), cs @ [demo_compose_command ex_demo_cfg ''start dscc-node-1'']) ()"
proof -
  have choose: "brings (choose_down ex_ops ex_demo_cfg (ex_demo_health 2)) c c (''dscc-node-1'', ''127.0.0.1:50051'')" for c
    by (simp add: choose_down_def ex_demo_health_def demo_node_targets_def demo_node_services_def node_health_def ex_demo_leader_def
        deadline_status_def Status_OK_def status_ok_def brings_lift)
  have start: "brings (compose_cmd ex_ops ex_demo_cfg ''start dscc-node-1'') ((t, 2), cs)
      ((t, 3), cs @ [demo_compose_command ex_demo_cfg ''start dscc-node-1'']) ()"
    using brings_command[of ex_demo_cfg "''start dscc-node-1''" t 2 cs] by simp
  have pause: "brings (demo_sleep ex_ops 3000) ((t, 3), cs) ((t + 600000, 3), cs) ()" for cs
    using brings_calls(2)[of 3000 t 3 cs] by simp
  have ready: "brings (wait_for_node_ready ex_ops ''127.0.0.1:50051'' 15) ((t, 3), cs) ((t, 3), cs) ()" for cs
    by (rule ex_demo_ready) simp_all
  show ?thesis unfolding phase_old_leader_rejoin_def
    by (rule brings_seq[OF brings_logs(9)], rule brings_seq[OF ex_demo_cluster(1)], rule brings_seq[OF choose], unfold prod.case)
      (rule brings_seq[OF brings_logs(7)], unfold append.simps, (rule brings_bind[OF start] brings_seq[OF ready] brings_bind[OF pause] brings_logs(10)
        brings_said)+)
qed

lemma ex_demo_collapse:
  "brings (phase_quorum_degradation ex_ops ex_demo_cfg) ((t, 3), cs)
     ((t + 7200000, 6), cs @ [ex_demo_stop ''dscc-node-1'', ex_demo_stop ''dscc-node-3'', ex_demo_stop ''dscc-node-4'']) ()"
proof -
  have lead: "brings (demo_wait_for_leader ex_ops ex_demo_cfg 10 []) ((t, 3), cs) ((t, 3), cs) (ex_demo_lead 3)"
    by (rule ex_demo_leaders) simp_all
  have followers: "reachable_followers (ex_demo_health 3) = [''dscc-node-1'', ''dscc-node-3'', ''dscc-node-4'', ''dscc-node-5'']"
    by (simp add: reachable_followers_def ex_demo_health_def demo_node_targets_def demo_node_services_def node_health_def ex_demo_leader_def
        Status_OK_def status_ok_def)
  have stop: "brings (stop_follower ex_ops ex_demo_cfg number left service) ((t, n), cs) ((t, n + 1), cs @ [ex_demo_stop service]) ()"
    for number left service t n cs
    unfolding stop_follower_def ex_demo_stop_def by (rule brings_seq[OF brings_logs(6) brings_command])
  have watch: "brings (watch_halted ex_ops ex_demo_cfg k) ((t, n), cs) ((t + 1000000 * int k, n), cs) ()" for k t n cs
  proof (induction k arbitrary: t)
    case (Suc k)
    have "t + 200 * max 0 5000 + 1000000 * int k = t + 1000000 * int (Suc k)" by simp
    with Suc[of "t + 200 * max 0 5000"] show ?case unfolding watch_halted.simps
      by (intro brings_bind[OF brings_calls(2) brings_seq[OF ex_demo_cluster(2)]]) (simp add: add.assoc)
  qed (simp add: brings_lift)
  have c: "brings (collapse_quorum ex_ops ex_demo_cfg leader f1 f2 f3) ((t, 3), cs)
      ((t + 200 * max 0 3000 + 200 * max 0 3000 + 1000000 * int 6, 3 + 1 + 1 + 1), ((cs @ [ex_demo_stop f1]) @ [ex_demo_stop f2]) @ [ex_demo_stop f3]) ()"
    for leader f1 f2 f3
    unfolding collapse_quorum_def
    by (rule brings_bind[OF stop] brings_bind[OF brings_calls(2)] brings_bind[OF watch] brings_said brings_logs(5))+
  have c': "brings (collapse_quorum ex_ops ex_demo_cfg leader f1 f2 f3) ((t, 3), cs)
      ((t + 7200000, 6), cs @ [ex_demo_stop f1, ex_demo_stop f2, ex_demo_stop f3]) ()" for leader f1 f2 f3
    using c[of leader f1 f2 f3] by (simp add: add.commute)
  show ?thesis unfolding phase_quorum_degradation_def
    by (rule brings_seq[OF brings_logs(9)], rule brings_seq[OF lead], rule brings_seq[OF ex_demo_cluster(1)])
      (simp only: followers list.case, rule c')
qed

section \<open>The loop of the phases\<close>

lemma ex_demo_round:
  assumes "brings (run_action ex_ops ex_demo_cfg (ph_action p)) ((t, n), cs) c' ()"
    and "elapsed_seconds 0 t < 100000" "ph_start_sec p \<le> elapsed_seconds 0 t"
  shows "brings (demo_round lib_what ex_ops ex_demo_cfg 0 (p # rest) nh) ((t, n), cs) c'
     (if rest = [] then None else Some (rest, elapsed_seconds 0 t + 15))"
proof -
  have "brings (run_phase lib_what ex_ops ex_demo_cfg p) ((t, n), cs) c' ()"
    unfolding run_phase_def by (rule brings_bind[OF ex_demo_tried(2)[OF assms(1)]]) (simp add: brings_lift)
  then show ?thesis unfolding demo_round_def
    by (intro brings_seq[OF brings_calls(1)]) (use assms(2,3) in \<open>simp add: Let_def brings_bind brings_lift\<close>)
qed

lemma ex_demo_loop_phase:
  assumes "brings (run_action ex_ops ex_demo_cfg (ph_action p)) ((t, n), cs) c1 ()"
    and "elapsed_seconds 0 t < 100000" "ph_start_sec p \<le> elapsed_seconds 0 t"
  shows "rest \<noteq> [] \<Longrightarrow> brings (phase_loop lib_what ex_ops ex_demo_cfg 0 rest (elapsed_seconds 0 t + 15)) c1 c' ()
      \<Longrightarrow> brings (phase_loop lib_what ex_ops ex_demo_cfg 0 (p # rest) nh) ((t, n), cs) c' ()"
    and "brings (phase_loop lib_what ex_ops ex_demo_cfg 0 [p] nh) ((t, n), cs) c1 ()"
proof -
  note r = ex_demo_round[OF assms, of lib_what]
  show "rest \<noteq> [] \<Longrightarrow> brings (phase_loop lib_what ex_ops ex_demo_cfg 0 rest (elapsed_seconds 0 t + 15)) c1 c' ()
      \<Longrightarrow> brings (phase_loop lib_what ex_ops ex_demo_cfg 0 (p # rest) nh) ((t, n), cs) c' ()"
    using r[of rest nh] unfolding brings_def by (subst phase_loop.simps) fastforce
  show "brings (phase_loop lib_what ex_ops ex_demo_cfg 0 [p] nh) ((t, n), cs) c1 ()"
    using r[of "[]" nh] unfolding brings_def by (subst phase_loop.simps) fastforce
qed

definition ex_demo_last :: "string list" where
  "ex_demo_last = [''dscc-node-1'', ''dscc-node-3'', ''dscc-node-4'']"

lemma ex_demo_loop:
  "brings (phase_loop lib_what ex_ops ex_demo_cfg 0 demo_phases 15) ((200000, 1), cs) ((8000000, 6),
     cs @ [ex_demo_stop ''dscc-node-1'', demo_compose_command ex_demo_cfg ''start dscc-node-1'']
     @ stop_commands ex_demo_cfg ex_demo_last) ()"
proof -
  have e: "elapsed_seconds 0 200000 = 200" "elapsed_seconds 0 800000 = 800" by (simp_all add: elapsed_seconds_def)
  let ?cs1 = "cs @ [ex_demo_stop ''dscc-node-1'']" and ?start = "demo_compose_command ex_demo_cfg ''start dscc-node-1''"
  have steady: "brings (run_action ex_ops ex_demo_cfg SteadyState) ((200000, 1), cs) ((200000, 1), cs) ()" by (simp add: ex_demo_steady)
  have kill: "brings (run_action ex_ops ex_demo_cfg LeaderKill) ((200000, 1), cs) ((200000, 2), ?cs1) ()" using ex_demo_kill by simp
  have rejoin: "brings (run_action ex_ops ex_demo_cfg OldLeaderRejoin) ((200000, 2), ?cs1) ((800000, 3), ?cs1 @ [?start]) ()"
    using ex_demo_rejoin[of 200000 ?cs1] by simp
  have collapse: "brings (run_action ex_ops ex_demo_cfg QuorumDegradation) ((800000, 3), ?cs1 @ [?start])
      ((8000000, 6), cs @ [ex_demo_stop ''dscc-node-1'', ?start] @ stop_commands ex_demo_cfg ex_demo_last) ()"
    using ex_demo_collapse[of 800000 "?cs1 @ [?start]"] by (simp add: stop_commands_def ex_demo_last_def ex_demo_stop_def)
  show ?thesis unfolding demo_phases_def
    by (rule ex_demo_loop_phase(1)[OF _ _ _ _ ex_demo_loop_phase(1)[OF _ _ _ _ ex_demo_loop_phase(1)[OF _ _ _ _ ex_demo_loop_phase(2)]]])
      ((simp only: Phase.simps, rule steady kill rejoin collapse) | simp add: e)+
qed

section \<open>The threads\<close>

text \<open>No thread waits: the pause between two calls is 0, and a pause that has begun is over.\<close>

definition calm :: "(ex_stage \<times> demo_record) demo_state \<Rightarrow> bool" where
  "calm s \<longleftrightarrow> (\<forall>wk\<in>set (dm_workers s). wk_interval_ms wk = 0 \<and> (\<forall>wake. wk_at wk = Asleep wake \<longrightarrow> wake \<le> fst (fst (dm_world s))))"

lemma calm_world: "calm s \<Longrightarrow> fst (fst (dm_world s)) \<le> fst (fst w) \<Longrightarrow> calm (s\<lparr>dm_world := w\<rparr>)"
  by (fastforce simp: calm_def)

lemma calm_step: "calm s \<Longrightarrow> i < length (dm_workers s) \<Longrightarrow> calm (worker_step ex_ops i status resp s)"
  by (auto simp: calm_def worker_step_def set_worker_def Let_def split: worker_at.split dest!: set_update_subset_insert[THEN subsetD])

interpretation calm_kept: demo_marks ex_ops calm
proof unfold_locales
  fix s :: "(ex_stage \<times> demo_record) demo_state" assume "calm s"
  then show "calm (other_threads ex_ops s)" by (intro others_keep[of calm] calm_step) (simp_all add: calm_world)
qed (auto intro: calm_world, simp_all add: calm_def)

interpretation calm_kept: demo_keeps_commands ex_ops calm
  by unfold_locales (auto intro: calm_world, simp_all add: calm_def)

text \<open>How many turns a thread needs at most until it has returned, once the flag is set.\<close>

definition turns_needed :: "worker \<Rightarrow> nat" where
  "turns_needed wk = (case wk_at wk of Returned \<Rightarrow> 0 | AtLoop \<Rightarrow> 1 | Asleep wake \<Rightarrow> 2 | AtWrite line \<Rightarrow> 3 | AtLog st r rpc_ms \<Rightarrow> 4
     | AtRecord st r rpc_ms \<Rightarrow> 5 | InCall t0 \<Rightarrow> 6 | AtRequest \<Rightarrow> 7)"

definition winding_up :: "(ex_stage \<times> demo_record) demo_state \<Rightarrow> bool" where
  "winding_up s \<longleftrightarrow> calm s \<and> \<not> dm_held s \<and> dm_stop s \<and> length (dm_workers s) = 5"

lemma winding_step:
  assumes "winding_up s" "i < 5"
  shows "winding_up (worker_step ex_ops i status resp s)"
    and "turns_needed (dm_workers (worker_step ex_ops i status resp s) ! i) < turns_needed (dm_workers s ! i) \<or> turns_needed (dm_workers s ! i) = 0"
    and "j \<noteq> i \<Longrightarrow> dm_workers (worker_step ex_ops i status resp s) ! j = dm_workers s ! j"
    and "turns_needed (dm_workers (worker_step ex_ops i status resp s) ! i) \<le> turns_needed (dm_workers s ! i)"
proof -
  have i: "i < length (dm_workers s)" and c: "calm s" using assms by (simp_all add: winding_up_def)
  show "winding_up (worker_step ex_ops i status resp s)"
    using assms calm_step[OF c i] by (auto simp: winding_up_def worker_step_def set_worker_def Let_def split: worker_at.splits)
  have "dm_workers s ! i \<in> set (dm_workers s)" using i by simp
  then have wake: "wk_at (dm_workers s ! i) = Asleep wake \<Longrightarrow> wake \<le> fst (fst (dm_world s))" for wake using c by (auto simp: calm_def)
  show "turns_needed (dm_workers (worker_step ex_ops i status resp s) ! i) < turns_needed (dm_workers s ! i) \<or> turns_needed (dm_workers s ! i) = 0"
    using assms i wake by (cases "wk_at (dm_workers s ! i)") (auto simp: winding_up_def worker_step_def set_worker_def turns_needed_def Let_def)
  then show "turns_needed (dm_workers (worker_step ex_ops i status resp s) ! i) \<le> turns_needed (dm_workers s ! i)"
    by (cases "turns_needed (dm_workers s ! i) = 0") (auto simp: worker_step_def turns_needed_def split: worker_at.splits)
  show "j \<noteq> i \<Longrightarrow> dm_workers (worker_step ex_ops i status resp s) ! j = dm_workers s ! j"
    by (auto simp: worker_step_def set_worker_def Let_def split: worker_at.split)
qed

lemma winding_turns:
  "winding_up s \<Longrightarrow> (\<forall>p\<in>set ts. fst p < 5) \<Longrightarrow> winding_up (fold (worker_turn ex_ops) ts s)
    \<and> turns_needed (dm_workers (fold (worker_turn ex_ops) ts s) ! i) \<le> turns_needed (dm_workers s ! i)
    \<and> (i \<in> fst ` set ts \<longrightarrow> turns_needed (dm_workers (fold (worker_turn ex_ops) ts s) ! i) < turns_needed (dm_workers s ! i)
        \<or> turns_needed (dm_workers s ! i) = 0)"
proof (induction ts arbitrary: s)
  case (Cons p ts)
  obtain j status resp where p: "p = (j, status, resp)" by (cases p)
  let ?s1 = "worker_step ex_ops j status resp s"
  have j: "j < 5" using Cons.prems(2) p by simp
  have turn: "worker_turn ex_ops p s = ?s1" using Cons.prems(1) j p by (simp add: worker_turn_def winding_up_def)
  note step = winding_step[OF Cons.prems(1) j, where status = status and resp = resp]
  show ?case using Cons.IH[OF step(1)] Cons.prems(2) step(2,4) step(3)[where j = i] turn p by (cases "j = i") fastforce+
qed simp

lemma winding_round:
  assumes "winding_up s" "i < 5"
  shows "winding_up (other_threads ex_ops s)"
    "turns_needed (dm_workers (other_threads ex_ops s) ! i) < turns_needed (dm_workers s ! i) \<or> turns_needed (dm_workers s ! i) = 0"
proof -
  let ?ts = "snd (mo_turns ex_ops (dm_world s))"
  have o: "other_threads ex_ops s = fold (worker_turn ex_ops) ?ts s" by (simp add: other_threads_def)
  have "fst ` set ?ts = {..<5}" by force
  then have ts: "\<forall>p\<in>set ?ts. fst p < 5" "i \<in> fst ` set ?ts" using assms(2) by auto
  note w = winding_turns[OF assms(1) ts(1), of i]
  show "winding_up (other_threads ex_ops s)" unfolding o using w by blast
  show "turns_needed (dm_workers (other_threads ex_ops s) ! i) < turns_needed (dm_workers s ! i) \<or> turns_needed (dm_workers s ! i) = 0"
    unfolding o by (rule mp[OF conjunct2[OF conjunct2[OF w]] ts(2)])
qed

lemma ex_demo_join:
  "winding_up s \<Longrightarrow> i < 5 \<Longrightarrow> \<exists>s'. join_worker ex_ops i s = Some (s', Inr ()) \<and> winding_up s' \<and> ex_look s' = ex_look s"
proof (induction "turns_needed (dm_workers s ! i)" arbitrary: s rule: less_induct)
  case less
  have i: "i < length (dm_workers s)" using less.prems by (simp add: winding_up_def)
  show ?case
  proof (cases "wk_at (dm_workers s ! i) = Returned")
    case True
    then show ?thesis using less.prems i by (subst join_worker.simps) simp
  next
    case False
    then have "turns_needed (dm_workers s ! i) \<noteq> 0" by (auto simp: turns_needed_def split: worker_at.split)
    with winding_round[OF less.prems] less.hyps[of "other_threads ex_ops s"] less.prems(2)
    obtain s' where "join_worker ex_ops i (other_threads ex_ops s) = Some (s', Inr ())" "winding_up s'" "ex_look s' = ex_look s"
      using ex_turns[of s] by auto
    then show ?thesis using False i by (subst join_worker.simps) simp
  qed
qed

lemma ex_demo_joins:
  "winding_up s \<Longrightarrow> (\<forall>i\<in>set is. i < 5) \<Longrightarrow> \<exists>s'. join_workers ex_ops is s = Some (s', Inr ()) \<and> ex_look s' = ex_look s"
proof (induction "is" arbitrary: s)
  case (Cons i "is")
  then obtain s1 where "join_worker ex_ops i s = Some (s1, Inr ())" "winding_up s1" "ex_look s1 = ex_look s"
    using ex_demo_join[of s i] by auto
  then show ?case using Cons.IH[of s1] Cons.prems(2) by (auto simp: io_bind_def)
qed (simp add: io_lift_def)

section \<open>The run\<close>

definition leads :: "('s \<Rightarrow> bool) \<Rightarrow> ('s, 'a) io \<Rightarrow> ('s \<Rightarrow> bool) \<Rightarrow> 'a \<Rightarrow> bool" where
  "leads P m Q x \<longleftrightarrow> (\<forall>s. P s \<longrightarrow> (\<exists>s'. m s = Some (s', Inr x) \<and> Q s'))"

lemma leads_bind: "leads P m R x \<Longrightarrow> leads R (f x) Q y \<Longrightarrow> leads P (io_bind m f) Q y"
  unfolding leads_def io_bind_def by fastforce

definition ex_at :: "ex_stage \<times> string list \<Rightarrow> AgentTemplate list \<Rightarrow> (ex_stage \<times> demo_record) demo_state \<Rightarrow> bool" where
  "ex_at c ts s \<longleftrightarrow> ex_look s = c \<and> calm s \<and> \<not> dm_held s \<and> templates_are ts s"

lemma leads_kept:
  assumes "brings m c c' x" "preserves calm m" "preserves (\<lambda>s. \<not> dm_held s) m" "preserves (templates_are ts) m"
  shows "leads (ex_at c ts) m (ex_at c' ts) x"
  unfolding leads_def
proof (intro allI impI)
  fix s assume s: "ex_at c ts s"
  then obtain s' where m: "m s = Some (s', Inr x)" "ex_look s' = c'" using assms(1) unfolding brings_def ex_at_def by blast
  with s preservesD[OF assms(2) _ m(1)] preservesD[OF assms(3) _ m(1)] preservesD[OF assms(4) _ m(1)]
  show "\<exists>s'. m s = Some (s', Inr x) \<and> ex_at c' ts s'" unfolding ex_at_def by blast
qed

lemma ex_demo_launch:
  "leads (ex_at ((t, n), cs) []) (launch_workers ex_ops ex_demo_cfg ts) (ex_at ((t + 40000 * int (length ts), n), cs) ts) ()"
proof -
  have add: "brings (demo_update ex_ops (\<lambda>s. s\<lparr>dm_workers := f s\<rparr>)) c c ()" for f c
    by (rule brings_update) (simp add: ex_look_def)
  have b: "brings (launch_workers ex_ops ex_demo_cfg ts) ((t, n), cs) ((t + 40000 * int (length ts), n), cs) ()" for t
  proof (induction ts arbitrary: t)
    case (Cons x ts)
    have "brings (demo_sleep ex_ops 200) ((t, n), cs) ((t + 40000, n), cs) ()" using brings_calls(2)[of 200 t n cs] by simp
    from brings_seq[OF add brings_bind[OF this Cons[of "t + 40000"]]] show ?case by (simp add: algebra_simps)
  qed (simp add: brings_lift)
  have added: "calm s \<Longrightarrow> calm (s\<lparr>dm_workers := dm_workers s @ [\<lparr>wk_template = x, wk_interval_ms = 0, wk_seq = 0, wk_at = AtLoop\<rparr>]\<rparr>)" for s x
    by (auto simp: calm_def)
  have c: "preserves calm (launch_workers ex_ops ex_demo_cfg ts)"
    by (induction ts) (auto intro!: preserves_bind preserves_lift calm_kept.sleep_keeps calm_kept.update_keeps added)
  show ?thesis unfolding leads_def
  proof (intro allI impI)
    fix s assume s: "ex_at ((t, n), cs) [] s"
    then obtain s' where m: "launch_workers ex_ops ex_demo_cfg ts s = Some (s', Inr ())" "ex_look s' = ((t + 40000 * int (length ts), n), cs)"
      using b[of t] unfolding brings_def ex_at_def by blast
    have "templates_are ts s'"
      using launch_templates[of "[]" ex_ops ex_demo_cfg ts "\<lambda>_. True", unfolded triple_def, rule_format, OF _ m(1)] s by (simp add: ex_at_def)
    with s m preservesD[OF c _ m(1)] preservesD[OF released.launch_keeps _ m(1)]
    show "\<exists>s'. launch_workers ex_ops ex_demo_cfg ts s = Some (s', Inr ()) \<and> ex_at ((t + 40000 * int (length ts), n), cs) ts s'"
      unfolding ex_at_def by blast
  qed
qed

definition ex_demo_commands :: "string list" where
  "ex_demo_commands = [demo_compose_command ex_demo_cfg demo_up_args, ex_demo_stop ''dscc-node-1'', demo_compose_command ex_demo_cfg ''start dscc-node-1'']
     @ stop_commands ex_demo_cfg ex_demo_last"

lemma ex_demo_traffic:
  assumes "length ts = 5"
  shows "leads (ex_at ((0, 1), [demo_compose_command ex_demo_cfg demo_up_args]) []) (demo_traffic lib_what ex_ops ex_demo_cfg ts)
     (\<lambda>s. ex_look s = ((8000000, 6), ex_demo_commands)) ()"
proof -
  let ?cs = "[demo_compose_command ex_demo_cfg demo_up_args]" and ?last = "((8000000, 6), ex_demo_commands)"
  have now: "leads (ex_at ((0, 1), ?cs) []) (demo_now ex_ops) (ex_at ((0, 1), ?cs) []) 0"
    by (rule leads_kept[OF brings_calls(1) calm_kept.now_keeps released.now_keeps templates_kept.now_keeps])
  have start: "leads (ex_at ((0, 1), ?cs) []) (demo_update ex_ops (\<lambda>s. s\<lparr>dm_start := 0\<rparr>)) (ex_at ((0, 1), ?cs) []) ()"
    by (rule leads_kept[OF brings_update calm_kept.shutdown_keeps(2) released.shutdown_keeps(2) templates_kept.shutdown_keeps(2)])
      (simp add: ex_look_def)
  have launch: "leads (ex_at ((0, 1), ?cs) []) (launch_workers ex_ops ex_demo_cfg ts) (ex_at ((200000, 1), ?cs) ts) ()"
    using ex_demo_launch[of 0 1 ?cs ts] assms by simp
  have loop: "leads (ex_at ((200000, 1), ?cs) ts) (phase_loop lib_what ex_ops ex_demo_cfg 0 demo_phases 15) (ex_at ?last ts) ()"
    by (rule leads_kept[OF _ calm_kept.loop_keeps released.loop_keeps templates_kept.loop_keeps])
      (use ex_demo_loop[of lib_what ?cs] in \<open>simp add: ex_demo_commands_def\<close>)
  have logs: "leads (ex_at ?last ts) (banner ex_ops title) (ex_at ?last ts) ()" "leads (ex_at ?last ts) (demo_info ex_ops line) (ex_at ?last ts) ()" for title line
    by (rule leads_kept[OF brings_logs(9) calm_kept.log_keeps(8) released.log_keeps(8) templates_kept.log_keeps(8)],
        rule leads_kept[OF brings_logs(2) calm_kept.log_keeps(1) released.log_keeps(1) templates_kept.log_keeps(1)])
  have stop: "leads (ex_at ?last ts) (demo_update ex_ops (\<lambda>s. s\<lparr>dm_stop := True\<rparr>)) (\<lambda>s. ex_look s = ?last \<and> winding_up s) ()"
    unfolding leads_def
  proof (intro allI impI)
    fix s assume s: "ex_at ?last ts s"
    let ?s1 = "other_threads ex_ops s"
    have k: "ex_look ?s1 = ?last" "calm ?s1" "\<not> dm_held ?s1" "templates_are ts ?s1"
      using s ex_turns[of s] calm_kept.turns[of s] released.turns[of s ex_ops] templates_kept.turns[of ts s ex_ops] by (simp_all add: ex_at_def)
    then have "ex_look (?s1\<lparr>dm_stop := True\<rparr>) = ?last \<and> winding_up (?s1\<lparr>dm_stop := True\<rparr>)"
      using assms by (auto simp: ex_look_def winding_up_def calm_def templates_are_def)
    then show "\<exists>s'. demo_update ex_ops (\<lambda>s. s\<lparr>dm_stop := True\<rparr>) s = Some (s', Inr ()) \<and> ex_look s' = ?last \<and> winding_up s'"
      by (simp add: demo_update_def io_modify_def)
  qed
  have joins: "leads (\<lambda>s. ex_look s = ?last \<and> winding_up s) (join_workers ex_ops [0..<length ts]) (\<lambda>s. ex_look s = ?last) ()"
    unfolding leads_def assms using ex_demo_joins[of _ "[0..<5]"] by fastforce
  show ?thesis unfolding demo_traffic_def
    by (rule leads_bind[OF now], rule leads_bind[OF start], rule leads_bind[OF now], rule leads_bind[OF launch], rule leads_bind[OF loop],
        rule leads_bind[OF logs(1)], rule leads_bind[OF logs(2)], rule leads_bind[OF stop joins])
qed

lemma ex_demo_finish: "brings (demo_finish ex_ops ex_demo_cfg) ((t, n), cs) ((t, n), cs) ()"
  unfolding demo_finish_def
  by (rule brings_seq[OF brings_logs(10)], rule brings_seq[OF ex_demo_cluster(2)], rule brings_seq[OF ex_demo_qdrant(1)])
    (simp, (rule brings_seq[OF brings_logs(3)] brings_seq[OF brings_logs(2)] brings_logs(3))+)

lemma ex_demo_main:
  "\<exists>s. demo_main exact_fpu lib_what ex_ops ''/dslm'' ex_demo_env ((0, 0), [], []) = Some (s, Exit 0) \<and> commands_of s = ex_demo_commands"
proof -
  let ?s0 = "new_demo_state ((0, 0), [], []) 0 :: (ex_stage \<times> demo_record) demo_state" and ?ts = "map ex_demo_template ''ABCDE''"
  have "ex_look ?s0 = ((0, 0), [])" "calm ?s0" "\<not> dm_held ?s0" "templates_are [] ?s0"
    by (simp_all add: ex_look_def calm_def templates_are_def new_demo_state_def)
  then have "ex_at ((0, 0), []) [] ?s0" by (simp add: ex_at_def)
  then obtain s1 where p: "demo_prepare exact_fpu ex_ops ex_demo_cfg ?s0 = Some (s1, Inr ?ts)"
    "ex_at ((0, 1), [demo_compose_command ex_demo_cfg demo_up_args]) [] s1"
    using leads_kept[OF ex_demo_prepare calm_kept.prepare_keeps released.prepare_keeps templates_kept.prepare_keeps, of 0 "[]" "[]"]
    unfolding leads_def by auto
  then obtain s2 where t: "demo_traffic lib_what ex_ops ex_demo_cfg ?ts s1 = Some (s2, Inr ())" "ex_look s2 = ((8000000, 6), ex_demo_commands)"
    using ex_demo_traffic[of ?ts lib_what] unfolding leads_def by auto
  then obtain s3 where f: "demo_finish ex_ops ex_demo_cfg s2 = Some (s3, Inr ())" "ex_look s3 = ((8000000, 6), ex_demo_commands)"
    using ex_demo_finish[of 8000000 6 ex_demo_commands] unfolding brings_def by blast
  have "demo_main exact_fpu lib_what ex_ops ''/dslm'' ex_demo_env ((0, 0), [], []) = Some (s3, Exit 0)"
    by (simp only: demo_main_def ex_demo_cfg_def[symmetric] ex_demo_fields Let_def fst_conv prod.case p(1) t(1) f(1) option.case sum.case)
  then show ?thesis using f(2) by (auto simp: ex_look_def commands_of_def)
qed

end
