(* ===== verification/DemoProps.thy ===== *)
theory DemoProps
  imports DemoExample RaftNode
begin

text \<open>Properties of the choreographed demo: the quorum, the accounts of its threads, and that it ends.\<close>

section \<open>The quorum\<close>

lemma ups_bound:
  assumes "few_down cfg 2 before" "dc_node_service_names cfg = demo_node_services"
  shows "3 \<le> length (nodes_up cfg (take k before))"
proof -
  have d: "length (demo_down cfg (take k before)) \<le> 2" "set (demo_down cfg (take k before)) \<subseteq> set demo_node_services"
    using assms by (auto simp: few_down_def)
  have "card (set (demo_down cfg (take k before))) \<le> 2" using card_length[of "demo_down cfg (take k before)"] d(1) by linarith
  then show ?thesis using up_bounds[OF assms(2) d(2)] by simp
qed

lemma stops_below:
  assumes "dc_node_service_names cfg = demo_node_services" "few_down cfg 2 before" "distinct fs" "set fs \<subseteq> set demo_node_services" "length fs = 3"
  shows "length (nodes_up cfg (before @ stop_commands cfg fs)) < 3"
proof -
  have s: "set (demo_down cfg (before @ stop_commands cfg fs)) \<subseteq> set demo_node_services"
    using assms(1,4) few_down_now[OF assms(2)] by (auto simp: demo_down_stops)
  have "card (set fs) \<le> card (set (demo_down cfg (before @ stop_commands cfg fs)))"
    by (rule card_mono) (auto simp: demo_down_stops)
  then show ?thesis using up_bounds[OF assms(1) s] distinct_card[OF assms(3)] assms(5) by simp
qed

text \<open>C36: the demo keeps the quorum until it collapses it. On any machine whose commands are recorded and whose
  nodes name a node when they know a leader, however the run ends, its commands are some \<open>before\<close>, the
  stops of at most three different nodes in the last phase, and possibly the teardown. At no time of
  \<open>before\<close> are fewer nodes up than the quorum of a Raft node with four peers; when the last phase has
  stopped three, fewer are. A process that is terminated leaves the stack as it is.\<close>

theorem demo_keeps_quorum:
  assumes "demo_main F lib_what (demo_recording ops) proot env (w, [], calls) = Some (s, ending)" "leaders_named ops"
    and "length (rn_peer_addresses n) = 4"
  shows "\<exists>before fs post. commands_of s = before @ stop_commands (demo_load_config F proot env) fs @ post
    \<and> (\<forall>k. QuorumSize n \<le> length (nodes_up (demo_load_config F proot env) (take k before)))
    \<and> length fs \<le> 3 \<and> distinct fs \<and> set fs \<subseteq> set demo_node_services
    \<and> (length fs = 3 \<longrightarrow> length (nodes_up (demo_load_config F proot env) (before @ stop_commands (demo_load_config F proot env) fs)) < QuorumSize n)
    \<and> (post = [] \<or> post = [demo_compose_command (demo_load_config F proot env) ''down''] \<and> ending \<noteq> Terminated)"
proof -
  let ?cfg = "demo_load_config F proot env"
  have names: "dc_node_service_names ?cfg = demo_node_services" by (simp add: demo_load_config_def default_DemoConfig_def Let_def)
  have q: "QuorumSize n = 3" using assms(3) by (simp add: QuorumSize_def)
  obtain body post where b: "collapsed ?cfg body" "commands_of s = body @ post"
    "post = [] \<or> post = [demo_compose_command ?cfg ''down''] \<and> ending \<noteq> Terminated"
    using main_commands[OF assms(1,2)] unfolding wound_up_def by auto
  obtain before fs where shape: "body = before @ stop_commands ?cfg fs" "few_down ?cfg 2 before" "length fs \<le> 3" "distinct fs"
    "set fs \<subseteq> set demo_node_services"
    using b(1) names unfolding collapsed_def collapse_shape_def by auto
  show ?thesis unfolding q
    using b(2,3) shape ups_bound[OF shape(2) names] stops_below[OF names shape(2,4,5)]
    by (intro exI[of _ before] exI[of _ fs] exI[of _ post]) (simp only: append_assoc simp_thms, blast)
qed

theorem demo_keeps_quorum_witness:
  "let n = new_RaftNode ''node-1'' ''a'' [''b'', ''c'', ''d'', ''e''] default_RaftConfig in
   \<exists>s. demo_main exact_fpu (\<lambda>_. []) ex_ops ''/dslm'' ex_demo_env ((0, 0), [], []) = Some (s, Exit 0)
     \<and> commands_of s = ex_demo_commands
     \<and> (\<exists>before fs post. ex_demo_commands = before @ stop_commands ex_demo_cfg fs @ post
          \<and> (\<forall>k. QuorumSize n \<le> length (nodes_up ex_demo_cfg (take k before)))
          \<and> (length fs = 3 \<longrightarrow> length (nodes_up ex_demo_cfg (before @ stop_commands ex_demo_cfg fs)) < QuorumSize n))"
proof -
  let ?n = "new_RaftNode ''node-1'' ''a'' [''b'', ''c'', ''d'', ''e''] default_RaftConfig"
  have n: "length (rn_peer_addresses ?n) = 4" by (simp add: new_RaftNode_def)
  obtain s where run: "demo_main exact_fpu (\<lambda>_. []) ex_ops ''/dslm'' ex_demo_env ((0, 0), [], []) = Some (s, Exit 0)" "commands_of s = ex_demo_commands"
    using ex_demo_main by blast
  from demo_keeps_quorum[OF run(1) ex_demo_named n] run show ?thesis unfolding ex_demo_cfg_def[symmetric] Let_def by metis
qed

section \<open>Accounts\<close>

lemma calls_open_bounds: "0 \<le> calls_open workers" "calls_open workers \<le> int (length workers)"
  by (induction workers) (auto simp: calls_open_def in_flight_def split: worker_at.split)

lemma agents_length: "agents_are labels s \<Longrightarrow> length (dm_workers s) = length labels"
  by (auto simp: agents_are_def)

lemma ids_distinct:
  assumes "numbered workers calls" "distinct (map (\<lambda>wk. at_label (wk_template wk)) workers)"
  shows "distinct (map (\<lambda>c. rq_agent_id (snd c)) calls)"
proof -
  let ?label = "\<lambda>i. at_label (wk_template (workers ! i))"
  have given: "i < length workers \<and> (\<exists>k\<ge>0. id = worker_id (?label i) k)" if "(i, id) \<in> set (call_ids calls)" for i id
    using assms(1) that unfolding numbered_def by fastforce
  have "inj_on snd (set (call_ids calls))"
  proof (rule inj_onI, clarsimp simp del: set_map)
    fix i id j assume i: "(i, id) \<in> set (call_ids calls)" and j: "(j, id) \<in> set (call_ids calls)"
    have "i < length workers" "j < length workers" "?label i = ?label j" using given[OF i] given[OF j] by (auto simp: worker_id_inj)
    with assms(2) show "i = j" by (auto simp: distinct_conv_nth)
  qed
  then have "distinct (map snd (call_ids calls))" using assms(1) by (simp add: distinct_map numbered_def)
  then show ?thesis by (simp add: call_ids_def comp_def)
qed

text \<open>C37: the statistics of the demo account for its calls. On any machine whose calls are recorded, however the
  threads take turns and however the run ends: the numbers of successful and of failed operations add up to the
  total, the blocked ones and the waits are within their bounds, every recorded operation is a call of a
  thread and at most five calls are not recorded yet; no two calls have the same id. At a regular end every
  call has been recorded and the five threads have returned.\<close>

theorem demo_accounts:
  assumes "demo_main F lib_what (demo_recording ops) proot env (w, commands, []) = Some (s, ending)"
  shows "let st = dm_stats s; calls = snd (snd (dm_world s)) in
      ws_successful_ops st + ws_failed_ops st = ws_total_ops st \<and> 0 \<le> ws_blocked_ops st \<and> ws_blocked_ops st \<le> ws_total_ops st
      \<and> ws_total_wait_ms st \<le> ws_total_ops st * ws_max_wait_ms st
      \<and> ws_total_ops st \<le> int (length calls) \<and> int (length calls) \<le> ws_total_ops st + 5
      \<and> distinct (map (\<lambda>c. rq_agent_id (snd c)) calls)
      \<and> (ending = Exit 0 \<longrightarrow> ws_total_ops st = int (length calls) \<and> map wk_at (dm_workers s) = replicate 5 Returned)"
proof -
  let ?calls = "snd (snd (dm_world s))" and ?s0 = "new_demo_state (fst (bw_now (mo_bench (demo_recording ops)) (w, commands, [])))
      (snd (bw_now (mo_bench (demo_recording ops)) (w, commands, [])))"
  have "ids_kept ?s0"
    using recording_keeps(4)[of ops "(w, commands, [])"]
    by (simp add: ids_kept_def accounts_def stats_sound_new new_demo_state_def calls_open_def calls_started_def numbered_def call_ids_def
        new_WorkloadStats_def[THEN arg_cong[where f = ws_total_ops]])
  from ids_recorded.main_keeps[OF assms this] have kept: "accounts s" "numbered (dm_workers s) ?calls" by (simp_all add: ids_kept_def)
  have agents: "distinct (map (\<lambda>wk. at_label (wk_template wk)) (dm_workers s))" "length (dm_workers s) \<le> 5"
    using main_threads(1)[OF assms] agents_length[of _ s] by (auto simp: agents_are_def)
  have count: "int (length ?calls) = ws_total_ops (dm_stats s) + calls_open (dm_workers s)"
    using kept by (simp add: accounts_def numbered_def)
  have "calls_open (dm_workers s) = 0 \<and> map wk_at (dm_workers s) = replicate 5 Returned" if "ending = Exit 0"
  proof -
    note fin = main_threads(2)[OF assms that]
    have "map wk_at (dm_workers s) = map (\<lambda>_. Returned) (dm_workers s)" using fin by simp
    then have "map wk_at (dm_workers s) = replicate 5 Returned"
      using agents_length[of "''ABCDE''" s] fin by (simp add: map_replicate_const eval_nat_numeral)
    moreover have "map in_flight (dm_workers s) = map (\<lambda>_. 0) (dm_workers s)" using fin by (simp add: in_flight_def)
    ultimately show ?thesis by (simp only: calls_open_def map_replicate_const sum_list_replicate) simp
  qed
  then show ?thesis
    using kept(1) ids_distinct[OF kept(2) agents(1)] count calls_open_bounds[of "dm_workers s"] agents(2)
    by (auto simp: accounts_def stats_sound_def Let_def)
qed

theorem demo_accounts_witness:
  "\<exists>s. demo_main exact_fpu (\<lambda>_. []) ex_ops ''/dslm'' ex_demo_env ((0, 0), [], []) = Some (s, Exit 0)
    \<and> ws_total_ops (dm_stats s) = int (length (snd (snd (dm_world s)))) \<and> map wk_at (dm_workers s) = replicate 5 Returned
    \<and> distinct (map (\<lambda>c. rq_agent_id (snd c)) (snd (snd (dm_world s))))"
proof -
  obtain s where run: "demo_main exact_fpu (\<lambda>_. []) ex_ops ''/dslm'' ex_demo_env ((0, 0), [], []) = Some (s, Exit 0)"
    using ex_demo_main by blast
  with demo_accounts[OF run] show ?thesis unfolding Let_def by blast
qed

section \<open>Termination\<close>


end
