(* ===== verification/Testbench.thy ===== *)
theory Testbench
  imports AdmissionProtocol BenchReport "HOL-Library.Product_Lexorder" "HOL-Library.List_Lexorder"
begin

text \<open>
  \<^verbatim>\<open>testbench.cpp\<close>: concurrency tests of the lock table in one process. A case starts a thread per plan;
  when all are there, each waits for its start time, asks for admission, applies the ACQUIRE, holds the
  lock and releases it, stamping the times. \<open>bench_step\<close> is one step of one thread: a critical section
  of the table, an access to an atomic, the reading of the clock, or the end of a wait. Any
  interleaving of these steps is a run of the case, and \<open>tick\<close> lets time pass in between.

  The clock is in nanoseconds since the start of the case and never goes back, so that the truncation of
  \<^verbatim>\<open>duration_cast\<close> is \<open>div\<close>. The lines that the threads log are not modelled.
\<close>

section \<open>Plans and results\<close>

record AgentPlan =
  pl_agent_id :: string
  pl_embedding :: "fl list"
  pl_start_delay_ms :: int
  pl_hold_ms :: int

record AgentInterval =
  iv_agent_id :: string
  iv_acquire_start_us :: int
  iv_acquire_success_us :: int
  iv_release_call_us :: int
  iv_release_us :: int

record AgentResult =
  ar_interval :: AgentInterval
  ar_trace :: AcquireTrace

record CaseExecution =
  ce_results :: "AgentResult list"
  ce_max_active :: nat
  ce_has_overlap :: bool

definition new_AgentResult :: AgentResult where
  "new_AgentResult = \<lparr>ar_interval = \<lparr>iv_agent_id = [], iv_acquire_start_us = 0, iv_acquire_success_us = 0,
     iv_release_call_us = 0, iv_release_us = 0\<rparr>, ar_trace = new_AcquireTrace\<rparr>"

definition us_to_ms :: "fpu \<Rightarrow> int \<Rightarrow> fl" where
  "us_to_ms F micros = fl_div F (rnd_double F (of_int micros)) (Fin 1000)"

definition tb_intervals_overlap :: "AgentInterval \<Rightarrow> AgentInterval \<Rightarrow> bool" where
  "tb_intervals_overlap a b \<longleftrightarrow> iv_acquire_success_us a < iv_release_call_us b
     \<and> iv_acquire_success_us b < iv_release_call_us a"

fun any_overlap :: "AgentResult list \<Rightarrow> bool" where
  "any_overlap [] = False"
| "any_overlap (r # results) = (list_ex (\<lambda>q. tb_intervals_overlap (ar_interval r) (ar_interval q)) results
     \<or> any_overlap results)"

text \<open>The order of \<^verbatim>\<open>std::pair\<close>: by time, then by agent id.\<close>

definition acquisition_order :: "AgentResult list \<Rightarrow> string list" where
  "acquisition_order results =
     map snd (sort (map (\<lambda>r. (iv_acquire_success_us (ar_interval r), iv_agent_id (ar_interval r))) results))"

definition find_agent :: "AgentResult list \<Rightarrow> string \<Rightarrow> AgentResult option" where
  "find_agent results agent_id = find (\<lambda>r. iv_agent_id (ar_interval r) = agent_id) results"

section \<open>What a case prints\<close>

fun comma_floats :: "fl list \<Rightarrow> string" where
  "comma_floats [] = []"
| "comma_floats [v] = fixed_text 2 v"
| "comma_floats (v # vs) = fixed_text 2 v @ '', '' @ comma_floats vs"

definition format_embedding :: "fl list \<Rightarrow> string" where
  "format_embedding embedding = ''['' @ comma_floats embedding @ '']''"

definition plan_line :: "AgentPlan \<Rightarrow> string" where
  "plan_line plan = ''  '' @ pl_agent_id plan @ '' start_delay='' @ to_string (pl_start_delay_ms plan) @ ''ms hold=''
     @ to_string (pl_hold_ms plan) @ ''ms embedding='' @ format_embedding (pl_embedding plan)"

definition case_header_lines :: "string \<Rightarrow> string \<Rightarrow> string \<Rightarrow> AgentPlan list \<Rightarrow> fl \<Rightarrow> string list" where
  "case_header_lines case_id title behavior_expectation plans threshold =
     [replicate 60 (CHR ''-''), case_id @ '' - '' @ title, ''Expectation: '' @ behavior_expectation,
      ''Theta threshold: '' @ fixed_text 2 threshold, ''Agent plans:'']
     @ map plan_line plans @ [''Event stream:'']"

definition true_false :: "bool \<Rightarrow> string" where
  "true_false b = (if b then ''true'' else ''false'')"

definition timeline_line :: "fpu \<Rightarrow> AgentResult \<Rightarrow> string" where
  "timeline_line F result =
     (let interval = ar_interval result; trace = ar_trace result;
          hold_ms = us_to_ms F (iv_release_us interval - iv_acquire_success_us interval)
      in ''  '' @ iv_agent_id interval
         @ '' start='' @ fixed_text 3 (us_to_ms F (iv_acquire_start_us interval))
         @ '', granted='' @ fixed_text 3 (us_to_ms F (iv_acquire_success_us interval))
         @ '', release-call='' @ fixed_text 3 (us_to_ms F (iv_release_call_us interval))
         @ '', released='' @ fixed_text 3 (us_to_ms F (iv_release_us interval))
         @ '', hold='' @ fixed_text 3 hold_ms
         @ '', waited='' @ true_false (tr_waited trace)
         @ '', wait-position='' @ nat_to_string (tr_wait_position trace)
         @ '', wake-count='' @ nat_to_string (tr_wake_count trace)
         @ '', queue-hops='' @ nat_to_string (tr_queue_hops trace))"

definition case_timeline_lines :: "fpu \<Rightarrow> string \<Rightarrow> AgentResult list \<Rightarrow> string list" where
  "case_timeline_lines F case_id results =
     (case_id @ '' timeline (milliseconds):'') # map (timeline_line F) results"

section \<open>The threads of a case\<close>

text \<open>
  Where an agent's thread stands. \<open>Blocked w trace\<close> is parked on wait-queue entry \<open>w\<close>; from \<open>Cleared\<close> (admitted)
  to \<open>Releasing\<close> it holds its slot; \<open>Sized v\<close> and \<open>Updating v observed\<close> are inside \<^verbatim>\<open>update_max_active\<close>;
  \<open>Holding t\<close> sleeps until \<open>t\<close>.
\<close>

datatype agent_pc = Spawned | Gathered | Delayed | Calling | Blocked nat AcquireTrace | Cleared | Applied | Granted
  | Sized nat | Updating nat nat | Updated | Holding int | Releasing | Vacated | Finished

record case_state =
  bt_table :: ActiveLockTable
  bt_pcs :: "agent_pc list"
  bt_results :: "AgentResult list"
  bt_ready :: nat
  bt_go :: bool
  bt_release_time :: int
  bt_max_active :: nat
  bt_now :: int
  bt_execution :: "CaseExecution option"

definition initial_bench :: "AgentPlan list \<Rightarrow> case_state \<Rightarrow> bool" where
  "initial_bench plans s \<longleftrightarrow> s = \<lparr>bt_table = new_ActiveLockTable, bt_pcs = [],
     bt_results = replicate (length plans) new_AgentResult, bt_ready = 0, bt_go = False, bt_release_time = 0,
     bt_max_active = 0, bt_now = 0, bt_execution = None\<rparr>"

definition now_us :: "case_state \<Rightarrow> int" where
  "now_us s = bt_now s div 1000"

definition ms_to_ns :: "int \<Rightarrow> int" where
  "ms_to_ns ms = ms * 1000000"

definition at_pc :: "case_state \<Rightarrow> nat \<Rightarrow> agent_pc \<Rightarrow> bool" where
  "at_pc s i pc \<longleftrightarrow> i < length (bt_pcs s) \<and> bt_pcs s ! i = pc"

text \<open>Thread \<open>i\<close> goes to \<open>pc\<close> and writes its result.\<close>

definition advance :: "nat \<Rightarrow> agent_pc \<Rightarrow> (AgentResult \<Rightarrow> AgentResult) \<Rightarrow> case_state \<Rightarrow> case_state" where
  "advance i pc f s = s\<lparr>bt_pcs := (bt_pcs s)[i := pc], bt_results := (bt_results s)[i := f (bt_results s ! i)]\<rparr>"

definition stamp_start :: "AgentPlan \<Rightarrow> int \<Rightarrow> AgentResult \<Rightarrow> AgentResult" where
  "stamp_start plan t r = r\<lparr>ar_interval := (ar_interval r)\<lparr>iv_agent_id := pl_agent_id plan, iv_acquire_start_us := t\<rparr>\<rparr>"

definition stamp_success :: "int \<Rightarrow> AgentResult \<Rightarrow> AgentResult" where
  "stamp_success t r = r\<lparr>ar_interval := (ar_interval r)\<lparr>iv_acquire_success_us := t\<rparr>\<rparr>"

definition stamp_release_call :: "int \<Rightarrow> AgentResult \<Rightarrow> AgentResult" where
  "stamp_release_call t r = r\<lparr>ar_interval := (ar_interval r)\<lparr>iv_release_call_us := t\<rparr>\<rparr>"

definition stamp_release :: "int \<Rightarrow> AgentResult \<Rightarrow> AgentResult" where
  "stamp_release t r = r\<lparr>ar_interval := (ar_interval r)\<lparr>iv_release_us := t\<rparr>\<rparr>"

definition set_trace :: "AcquireTrace \<Rightarrow> AgentResult \<Rightarrow> AgentResult" where
  "set_trace tr r = r\<lparr>ar_trace := tr\<rparr>"

text \<open>
  A pass of \<^verbatim>\<open>wait_for_admission\<close> ends with the call's return, when its trace is stored, or parked.
\<close>

fun after_pass :: "nat \<Rightarrow> wait_result \<Rightarrow> AcquireTrace \<Rightarrow> case_state \<Rightarrow> case_state" where
  "after_pass i Admitted tr s = advance i Cleared (set_trace tr) s"
| "after_pass i (Parked w) tr s = advance i (Blocked w tr) id s"

definition case_execution :: "case_state \<Rightarrow> CaseExecution" where
  "case_execution s = \<lparr>ce_results = bt_results s, ce_max_active = bt_max_active s,
     ce_has_overlap = any_overlap (bt_results s)\<rparr>"

inductive bench_step :: "fpu \<Rightarrow> fl \<Rightarrow> AgentPlan list \<Rightarrow> case_state \<Rightarrow> case_state \<Rightarrow> bool" for F threshold plans where
  tick: "bt_now s \<le> t \<Longrightarrow> bench_step F threshold plans s (s\<lparr>bt_now := t\<rparr>)"
| spawn: "length (bt_pcs s) < length plans \<Longrightarrow> bench_step F threshold plans s (s\<lparr>bt_pcs := bt_pcs s @ [Spawned]\<rparr>)"
| gather: "at_pc s i Spawned \<Longrightarrow>
     bench_step F threshold plans s (advance i Gathered id (s\<lparr>bt_ready := Suc (bt_ready s)\<rparr>))"
| go: "length (bt_pcs s) = length plans \<Longrightarrow> \<not> bt_go s \<Longrightarrow> bt_ready s = length plans \<Longrightarrow>
     bench_step F threshold plans s (s\<lparr>bt_go := True, bt_release_time := bt_now s\<rparr>)"
| pass: "at_pc s i Gathered \<Longrightarrow> bt_go s \<Longrightarrow> bench_step F threshold plans s (advance i Delayed id s)"
| start: "at_pc s i Delayed \<Longrightarrow> bt_release_time s + ms_to_ns (pl_start_delay_ms (plans ! i)) \<le> bt_now s \<Longrightarrow>
     bench_step F threshold plans s (advance i Calling (stamp_start (plans ! i) (now_us s)) s)"
| call: "at_pc s i Calling \<Longrightarrow> \<not> sweep_in_progress (bt_table s) \<Longrightarrow>
     admission_iteration F h (pl_agent_id (plans ! i)) (pl_embedding (plans ! i)) threshold (bt_table s) new_AcquireTrace
       = (t', tr', r) \<Longrightarrow>
     bench_step F threshold plans s (after_pass i r tr' (s\<lparr>bt_table := t'\<rparr>))"
| wake_granted: "at_pc s i (Blocked w tr) \<Longrightarrow> wq_ready (waiter_heap (bt_table s) ! w) \<Longrightarrow>
     after_wake w (bt_table s) tr = (t', tr', True) \<Longrightarrow>
     bench_step F threshold plans s (advance i Cleared (set_trace tr') (s\<lparr>bt_table := t'\<rparr>))"
| wake_retry: "at_pc s i (Blocked w tr) \<Longrightarrow> wq_ready (waiter_heap (bt_table s) ! w) \<Longrightarrow>
     after_wake w (bt_table s) tr = (t1, tr1, False) \<Longrightarrow>
     admission_iteration F h (pl_agent_id (plans ! i)) (pl_embedding (plans ! i)) threshold t1 tr1 = (t', tr', r) \<Longrightarrow>
     bench_step F threshold plans s (after_pass i r tr' (s\<lparr>bt_table := t'\<rparr>))"
| commit: "at_pc s i Cleared \<Longrightarrow>
     bench_step F threshold plans s (advance i Applied id
       (s\<lparr>bt_table := apply_acquire h (pl_agent_id (plans ! i)) (pl_embedding (plans ! i)) threshold (bt_table s)\<rparr>))"
| grant: "at_pc s i Applied \<Longrightarrow> bench_step F threshold plans s (advance i Granted (stamp_success (now_us s)) s)"
| count_active: "at_pc s i Granted \<Longrightarrow> bench_step F threshold plans s (advance i (Sized (table_size (bt_table s))) id s)"
| observe: "at_pc s i (Sized v) \<Longrightarrow> bench_step F threshold plans s (advance i (Updating v (bt_max_active s)) id s)"
| keep_max: "at_pc s i (Updating v observed) \<Longrightarrow> \<not> observed < v \<Longrightarrow>
     bench_step F threshold plans s (advance i Updated id s)"
| swap: "at_pc s i (Updating v observed) \<Longrightarrow> observed < v \<Longrightarrow> bt_max_active s = observed \<Longrightarrow>
     bench_step F threshold plans s (advance i Updated id (s\<lparr>bt_max_active := v\<rparr>))"
| swap_fails: "at_pc s i (Updating v observed) \<Longrightarrow> observed < v \<Longrightarrow>
     bench_step F threshold plans s (advance i (Updating v (bt_max_active s)) id s)"
| hold: "at_pc s i Updated \<Longrightarrow>
     bench_step F threshold plans s (advance i (Holding (bt_now s + ms_to_ns (pl_hold_ms (plans ! i)))) id s)"
| call_release: "at_pc s i (Holding t) \<Longrightarrow> t \<le> bt_now s \<Longrightarrow>
     bench_step F threshold plans s (advance i Releasing (stamp_release_call (now_us s)) s)"
| vacate: "at_pc s i Releasing \<Longrightarrow>
     bench_step F threshold plans s (advance i Vacated id
       (s\<lparr>bt_table := fst (apply_release F h (pl_agent_id (plans ! i)) (bt_table s))\<rparr>))"
| finish: "at_pc s i Vacated \<Longrightarrow> bench_step F threshold plans s (advance i Finished (stamp_release (now_us s)) s)"
| join: "length (bt_pcs s) = length plans \<Longrightarrow> \<forall>pc\<in>set (bt_pcs s). pc = Finished \<Longrightarrow> bt_go s \<Longrightarrow> bt_execution s = None \<Longrightarrow>
     bench_step F threshold plans s (s\<lparr>bt_execution := Some (case_execution s)\<rparr>)"

text \<open>\<^verbatim>\<open>run_case\<close>: the executions that some interleaving returns.\<close>

definition case_returns :: "fpu \<Rightarrow> fl \<Rightarrow> AgentPlan list \<Rightarrow> CaseExecution \<Rightarrow> bool" where
  "case_returns F threshold plans execution \<longleftrightarrow> (\<exists>s s'. initial_bench plans s
     \<and> (bench_step F threshold plans)\<^sup>*\<^sup>* s s' \<and> bt_execution s' = Some execution)"

section \<open>The five scenarios\<close>

definition kTheta :: "fpu \<Rightarrow> fl" where "kTheta F = rnd_float F (85 / 100)"

definition unit_vector :: "nat \<Rightarrow> fl list" where
  "unit_vector k = (replicate 8 (Fin 0))[k := Fin 1]"

definition hot :: "fl list" where "hot = unit_vector 0"
definition hot_variant :: "fpu \<Rightarrow> fl list" where "hot_variant F = hot[1 := rnd_float F (1 / 100)]"
definition hot_variant_two :: "fpu \<Rightarrow> fl list" where "hot_variant_two F = hot[2 := rnd_float F (2 / 100)]"
definition cold :: "fl list" where "cold = unit_vector 1"
definition cold_variant :: "fpu \<Rightarrow> fl list" where "cold_variant F = cold[2 := rnd_float F (1 / 100)]"

definition agent_plan :: "string \<Rightarrow> fl list \<Rightarrow> int \<Rightarrow> int \<Rightarrow> AgentPlan" where
  "agent_plan agent_id embedding start_delay_ms hold_ms = \<lparr>pl_agent_id = agent_id, pl_embedding = embedding,
     pl_start_delay_ms = start_delay_ms, pl_hold_ms = hold_ms\<rparr>"

definition no_conflict_plans :: "AgentPlan list" where
  "no_conflict_plans = map (\<lambda>i. agent_plan (''independent-agent-'' @ nat_to_string (i + 1)) (unit_vector i) 0 200) [0..<5]"

text \<open>The value of \<^verbatim>\<open>0.001f * static_cast<float>(i + 1)\<close>.\<close>

definition conflict_plans :: "fpu \<Rightarrow> AgentPlan list" where
  "conflict_plans F = map (\<lambda>i. agent_plan (''serialized-agent-'' @ nat_to_string (i + 1))
     (hot[i mod 3 + 1 := to_float F (fl_mul F (rnd_float F (1 / 1000)) (Fin (of_nat (i + 1))))]) 0 150) [0..<5]"

definition fifo_plans :: "fpu \<Rightarrow> AgentPlan list" where
  "fifo_plans F = [agent_plan ''fifo-agent-1'' hot 0 140, agent_plan ''fifo-agent-2'' (hot_variant F) 15 90,
     agent_plan ''fifo-agent-3'' (hot_variant_two F) 30 90]"

definition hot_region_plans :: "fpu \<Rightarrow> AgentPlan list" where
  "hot_region_plans F = [agent_plan ''hot-holder'' hot 0 220, agent_plan ''hot-waiter-1'' (hot_variant F) 20 90,
     agent_plan ''hot-waiter-2'' (hot_variant_two F) 40 90, agent_plan ''cold-writer'' cold 60 80]"

definition isolated_wakes_plans :: "fpu \<Rightarrow> AgentPlan list" where
  "isolated_wakes_plans F = [agent_plan ''alpha-holder'' hot 0 180, agent_plan ''beta-holder'' cold 0 320,
     agent_plan ''alpha-waiter'' (hot_variant F) 20 60, agent_plan ''beta-waiter'' (cold_variant F) 20 60]"

section \<open>The checks of main\<close>

definition agent_check :: "(AgentResult \<Rightarrow> bool) \<Rightarrow> AgentResult option \<Rightarrow> bool" where
  "agent_check P result = (case result of None \<Rightarrow> False | Some r \<Rightarrow> P r)"

definition agents_check :: "(AgentResult \<Rightarrow> AgentResult \<Rightarrow> bool) \<Rightarrow> AgentResult option \<Rightarrow> AgentResult option \<Rightarrow> bool" where
  "agents_check P r1 r2 = agent_check (\<lambda>a. agent_check (P a) r2) r1"

definition success_us :: "AgentResult \<Rightarrow> int" where
  "success_us r = iv_acquire_success_us (ar_interval r)"

definition fifo_checks :: "CaseExecution \<Rightarrow> (string \<times> bool) list" where
  "fifo_checks fifo =
     (let two = find_agent (ce_results fifo) ''fifo-agent-2''; three = find_agent (ce_results fifo) ''fifo-agent-3'' in
      [(''Scenario-3 FIFO order'',
          acquisition_order (ce_results fifo) = [''fifo-agent-1'', ''fifo-agent-2'', ''fifo-agent-3'']),
       (''Scenario-3 waiter 2 queued first'', agent_check (\<lambda>r. tr_wait_position (ar_trace r) = 1) two),
       (''Scenario-3 waiter 3 queued second'', agent_check (\<lambda>r. tr_wait_position (ar_trace r) = 2) three)])"

definition hot_region_checks :: "CaseExecution \<Rightarrow> (string \<times> bool) list" where
  "hot_region_checks hot_region =
     (let agent = find_agent (ce_results hot_region) in
      [(''Scenario-4 cold writer not blocked'', agent_check (\<lambda>r. \<not> tr_waited (ar_trace r)) (agent ''cold-writer'')),
       (''Scenario-4 cold writer completes before hot holder releases'',
          agents_check (\<lambda>holder writer. success_us writer < iv_release_call_us (ar_interval holder))
            (agent ''hot-holder'') (agent ''cold-writer'')),
       (''Scenario-4 hot queue still serialized'',
          agents_check (\<lambda>one two. success_us one \<le> success_us two) (agent ''hot-waiter-1'') (agent ''hot-waiter-2''))])"

definition isolated_wakes_checks :: "CaseExecution \<Rightarrow> (string \<times> bool) list" where
  "isolated_wakes_checks isolated_wakes =
     (let agent = find_agent (ce_results isolated_wakes) in
      [(''Scenario-5 alpha waiter woke once'', agent_check (\<lambda>r. tr_wake_count (ar_trace r) = 1) (agent ''alpha-waiter'')),
       (''Scenario-5 beta waiter woke once'', agent_check (\<lambda>r. tr_wake_count (ar_trace r) = 1) (agent ''beta-waiter'')),
       (''Scenario-5 alpha waiter progresses before beta waiter'',
          agents_check (\<lambda>alpha beta. success_us alpha < success_us beta) (agent ''alpha-waiter'') (agent ''beta-waiter''))])"

definition testbench_checks ::
  "CaseExecution \<Rightarrow> CaseExecution \<Rightarrow> CaseExecution \<Rightarrow> CaseExecution \<Rightarrow> CaseExecution \<Rightarrow> (string \<times> bool) list" where
  "testbench_checks distinct_case conflict fifo hot_region isolated_wakes =
     [(''Scenario-1 overlap'', ce_has_overlap distinct_case),
      (''Scenario-1 peak active > 1'', ce_max_active distinct_case > 1),
      (''Scenario-2 serialized'', \<not> ce_has_overlap conflict),
      (''Scenario-2 peak active <= 1'', ce_max_active conflict \<le> 1)]
     @ fifo_checks fifo @ hot_region_checks hot_region @ isolated_wakes_checks isolated_wakes"

definition expect_true :: "string \<times> bool \<Rightarrow> string" where
  "expect_true check = fst check @ (if snd check then '': PASS'' else '': FAIL'')"

definition overall_pass :: "(string \<times> bool) list \<Rightarrow> bool" where
  "overall_pass checks = list_all snd checks"

definition testbench_lines :: "(string \<times> bool) list \<Rightarrow> string list" where
  "testbench_lines checks = map expect_true checks
     @ [''Final summary: '' @ (if overall_pass checks then ''PASS'' else ''FAIL'')]"

definition testbench_exit :: "(string \<times> bool) list \<Rightarrow> int" where
  "testbench_exit checks = (if overall_pass checks then 0 else 1)"

end
