(* ===== verification/TestbenchLaws.thy ===== *)
theory TestbenchLaws
  imports Testbench
begin

text \<open>
  Invariants of a case of the testbench. Its threads are callers of the lock table, so that every step is a
  step of \<open>lock_step\<close> or leaves the table and the calls as they are (\<open>bench_simulates\<close>). Beyond the
  invariant this gives, the slots of the table belong to the threads that are between admission and
  release, or that were granted a slot while they wait (\<open>slot_inv\<close>).
\<close>

section \<open>The threads as callers of the table\<close>

fun stage :: "agent_pc \<Rightarrow> nat" where
  "stage Spawned = 0"
| "stage Gathered = 1"
| "stage Delayed = 2"
| "stage Calling = 3"
| "stage (Blocked w tr) = 4"
| "stage Cleared = 5"
| "stage Applied = 6"
| "stage Granted = 7"
| "stage (Sized v) = 8"
| "stage (Updating v observed) = 9"
| "stage Updated = 10"
| "stage (Holding t) = 11"
| "stage Releasing = 12"
| "stage Vacated = 13"
| "stage Finished = 14"

definition abs_pc :: "agent_pc \<Rightarrow> call_pc" where
  "abs_pc pc = (case pc of Blocked w tr \<Rightarrow> call_pc.Waiting w
     | _ \<Rightarrow> if stage pc < 4 then call_pc.Entering else call_pc.Returned)"

definition abs_trace :: "agent_pc \<Rightarrow> AgentResult \<Rightarrow> AcquireTrace" where
  "abs_trace pc r = (case pc of Blocked w tr \<Rightarrow> tr | _ \<Rightarrow> if stage pc < 4 then new_AcquireTrace else ar_trace r)"

definition abs_call :: "AgentPlan \<Rightarrow> agent_pc \<Rightarrow> AgentResult \<Rightarrow> lock_call" where
  "abs_call plan pc r = \<lparr>lc_agent = pl_agent_id plan, lc_embedding = pl_embedding plan, lc_legacy = False,
     lc_pc = abs_pc pc, lc_trace = abs_trace pc r\<rparr>"

definition abs_system :: "AgentPlan list \<Rightarrow> case_state \<Rightarrow> lock_system" where
  "abs_system plans s = \<lparr>ls_table = bt_table s,
     ls_calls = map (\<lambda>i. abs_call (plans ! i) (bt_pcs s ! i) (bt_results s ! i)) [0..<length (bt_pcs s)]\<rparr>"

definition shape_inv :: "AgentPlan list \<Rightarrow> case_state \<Rightarrow> bool" where
  "shape_inv plans s \<longleftrightarrow> length (bt_pcs s) \<le> length plans \<and> length (bt_results s) = length plans"

lemma advance_sel [simp]:
  "bt_table (advance i pc f s) = bt_table s" "bt_pcs (advance i pc f s) = (bt_pcs s)[i := pc]"
  "bt_results (advance i pc f s) = (bt_results s)[i := f (bt_results s ! i)]" "bt_ready (advance i pc f s) = bt_ready s"
  "bt_go (advance i pc f s) = bt_go s" "bt_release_time (advance i pc f s) = bt_release_time s"
  "bt_max_active (advance i pc f s) = bt_max_active s" "bt_now (advance i pc f s) = bt_now s"
  "bt_execution (advance i pc f s) = bt_execution s"
  by (simp_all add: advance_def)

lemma at_pcD: "at_pc s i pc \<Longrightarrow> i < length (bt_pcs s)" "at_pc s i pc \<Longrightarrow> bt_pcs s ! i = pc"
  by (simp_all add: at_pc_def)

lemma after_pass_advance:
  "after_pass i r tr s = advance i (case r of Admitted \<Rightarrow> Cleared | Parked w \<Rightarrow> Blocked w tr)
     (case r of Admitted \<Rightarrow> set_trace tr | Parked w \<Rightarrow> id) s"
  by (cases r) simp_all

lemma shape_step: "bench_step F th plans s s' \<Longrightarrow> shape_inv plans s \<Longrightarrow> shape_inv plans s'"
  by (cases rule: bench_step.cases) (auto simp: shape_inv_def after_pass_advance)

lemma abs_sel [simp]:
  "ls_table (abs_system plans s) = bt_table s" "length (ls_calls (abs_system plans s)) = length (bt_pcs s)"
  "i < length (bt_pcs s) \<Longrightarrow> ls_calls (abs_system plans s) ! i = abs_call (plans ! i) (bt_pcs s ! i) (bt_results s ! i)"
  by (simp_all add: abs_system_def)

lemma abs_other [simp]:
  "abs_system plans (s\<lparr>bt_now := t\<rparr>) = abs_system plans s"
  "abs_system plans (s\<lparr>bt_go := g, bt_release_time := t\<rparr>) = abs_system plans s"
  "abs_system plans (s\<lparr>bt_execution := e\<rparr>) = abs_system plans s"
  "(abs_system plans s)\<lparr>ls_table := bt_table s\<rparr> = abs_system plans s"
  by (simp_all add: abs_system_def)

lemma abs_advance:
  assumes "i < length (bt_pcs s)" "shape_inv plans s"
  shows "abs_system plans (advance i pc f s)
    = \<lparr>ls_table = bt_table s, ls_calls = (ls_calls (abs_system plans s))[i := abs_call (plans ! i) pc (f (bt_results s ! i))]\<rparr>"
  using assms by (auto simp: abs_system_def shape_inv_def nth_list_update intro!: nth_equalityI)

text \<open>A step of a thread that its call does not see.\<close>

lemma abs_stutter:
  assumes "at_pc s i pc" "shape_inv plans s" "abs_pc pc' = abs_pc pc"
    and "abs_trace pc' (f (bt_results s ! i)) = abs_trace pc (bt_results s ! i)"
    and "bt_pcs s0 = bt_pcs s" "bt_results s0 = bt_results s"
  shows "abs_system plans (advance i pc' f s0) = (abs_system plans s)\<lparr>ls_table := bt_table s0\<rparr>"
proof -
  have i: "i < length (bt_pcs s)" and shape0: "shape_inv plans s0" and i0: "i < length (bt_pcs s0)"
    using assms by (simp_all add: at_pc_def shape_inv_def)
  have calls: "ls_calls (abs_system plans s0) = ls_calls (abs_system plans s)"
    using assms(5,6) by (simp add: abs_system_def)
  have "abs_call (plans ! i) pc' (f (bt_results s0 ! i)) = ls_calls (abs_system plans s) ! i"
    using assms by (simp add: at_pc_def abs_call_def)
  then have "(ls_calls (abs_system plans s0))[i := abs_call (plans ! i) pc' (f (bt_results s0 ! i))] = ls_calls (abs_system plans s)"
    unfolding calls by simp
  with abs_advance[OF i0 shape0, of pc' f] show ?thesis by simp
qed

lemma abs_spawn:
  "abs_system plans (s\<lparr>bt_pcs := bt_pcs s @ [Spawned]\<rparr>) = (abs_system plans s)\<lparr>ls_calls := ls_calls (abs_system plans s)
     @ [\<lparr>lc_agent = pl_agent_id (plans ! length (bt_pcs s)), lc_embedding = pl_embedding (plans ! length (bt_pcs s)),
         lc_legacy = False, lc_pc = Entering, lc_trace = new_AcquireTrace\<rparr>]\<rparr>"
proof -
  have "map (\<lambda>i. abs_call (plans ! i) ((bt_pcs s @ [Spawned]) ! i) (bt_results s ! i)) [0..<length (bt_pcs s)]
      = map (\<lambda>i. abs_call (plans ! i) (bt_pcs s ! i) (bt_results s ! i)) [0..<length (bt_pcs s)]"
    by (rule map_cong) (simp_all add: nth_append)
  then show ?thesis by (simp add: abs_system_def abs_call_def abs_pc_def abs_trace_def)
qed

lemma stamp_trace [simp]:
  "ar_trace (stamp_start plan t r) = ar_trace r" "ar_trace (stamp_success t r) = ar_trace r"
  "ar_trace (stamp_release_call t r) = ar_trace r" "ar_trace (stamp_release t r) = ar_trace r"
  "ar_trace (set_trace tr r) = tr"
  by (simp_all add: stamp_start_def stamp_success_def stamp_release_call_def stamp_release_def set_trace_def)

lemma abs_fields:
  "lc_agent (abs_call plan pc r) = pl_agent_id plan" "lc_embedding (abs_call plan pc r) = pl_embedding plan"
  "\<not> lc_legacy (abs_call plan pc r)" "lc_pc (abs_call plan pc r) = abs_pc pc" "lc_trace (abs_call plan pc r) = abs_trace pc r"
  by (simp_all add: abs_call_def)

text \<open>A step of a call: what it leaves is \<open>update_call\<close> of the abstraction.\<close>

lemma abs_update:
  assumes "at_pc s i pc" "shape_inv plans s" "abs_pc pc' = p" "abs_trace pc' (f (bt_results s ! i)) = tr"
  shows "abs_system plans (advance i pc' f (s\<lparr>bt_table := t'\<rparr>)) = update_call i p tr t' (abs_system plans s)"
proof -
  have "abs_system plans (s\<lparr>bt_table := t'\<rparr>) = (abs_system plans s)\<lparr>ls_table := t'\<rparr>" by (simp add: abs_system_def)
  then show ?thesis
    using assms abs_advance[of i "s\<lparr>bt_table := t'\<rparr>" plans pc' f]
    by (simp add: at_pc_def update_call_def shape_inv_def abs_call_def)
qed

lemma abs_pass:
  assumes "at_pc s i pc" "shape_inv plans s"
  shows "abs_system plans (after_pass i r tr (s\<lparr>bt_table := t'\<rparr>)) = update_call i (pc_of r) tr t' (abs_system plans s)"
  using assms by (cases r) (auto intro!: abs_update simp: abs_pc_def abs_trace_def)

text \<open>The slot of a thread that is to apply its ACQUIRE is the premise of \<open>promote\<close>.\<close>

lemmas abs_defs = abs_pc_def abs_trace_def

lemma bench_simulates:
  assumes step: "bench_step F th plans s s'" and shape: "shape_inv plans s"
    and slot: "\<And>i. at_pc s i Cleared \<Longrightarrow> regions (bt_table s) (pl_agent_id (plans ! i)) = Some (pl_embedding (plans ! i))"
  shows "abs_system plans s' = abs_system plans s \<or> lock_step F th (abs_system plans s) (abs_system plans s')"
proof -
  let ?a = "abs_system plans s" and ?ok = "\<lambda>a'. a' = abs_system plans s \<or> lock_step F th (abs_system plans s) a'"
  have quiet: "?ok (abs_system plans (advance i pc' f s0))"
    if "at_pc s i pc" "abs_pc pc' = abs_pc pc" "abs_trace pc' (f (bt_results s ! i)) = abs_trace pc (bt_results s ! i)"
      "bt_pcs s0 = bt_pcs s" "bt_results s0 = bt_results s" "?ok (?a\<lparr>ls_table := bt_table s0\<rparr>)" for i pc pc' f s0
    using abs_stutter[of s i pc plans pc' f s0] that shape by simp
  have silent: "abs_system plans (advance i pc' f s0) = ?a"
    if "at_pc s i pc" "abs_pc pc' = abs_pc pc" "abs_trace pc' (f (bt_results s ! i)) = abs_trace pc (bt_results s ! i)"
      "bt_pcs s0 = bt_pcs s" "bt_results s0 = bt_results s" "bt_table s0 = bt_table s" for i pc pc' f s0
    using abs_stutter[of s i pc plans pc' f s0] that shape by simp
  show ?thesis using step
  proof (cases rule: bench_step.cases)
    case spawn
    then show ?thesis using lock_step.new_call[of F th ?a _ _ False] by (simp add: abs_spawn)
  next
    case (call i h t' tr' r)
    have "lock_step F th ?a (update_call i (pc_of r) tr' t' ?a)"
      using call(2-4) at_pcD[OF call(2)]
      by (intro lock_step.enter[where h = h]) (auto simp: abs_fields abs_defs call_iteration_def)
    then show ?thesis unfolding call(1) abs_pass[OF call(2) shape] by simp
  next
    case (wake_granted i w tr t' tr')
    have "lock_step F th ?a (update_call i call_pc.Returned tr' t' ?a)"
      using wake_granted(3,4) at_pcD[OF wake_granted(2)]
      by (intro lock_step.wake_granted[where w = w]) (auto simp: abs_fields abs_defs)
    moreover have "abs_system plans s' = update_call i call_pc.Returned tr' t' ?a"
      unfolding wake_granted(1) by (rule abs_update[OF wake_granted(2) shape]) (simp_all add: abs_defs)
    ultimately show ?thesis by simp
  next
    case (wake_retry i w tr t1 tr1 h t' tr' r)
    have "lock_step F th ?a (update_call i (pc_of r) tr' t' ?a)"
      using wake_retry(3-5) at_pcD[OF wake_retry(2)]
      by (intro lock_step.wake_retry[where w = w and h = h]) (auto simp: abs_fields abs_defs call_iteration_def)
    then show ?thesis unfolding wake_retry(1) abs_pass[OF wake_retry(2) shape] by simp
  next
    case (commit i h)
    show ?thesis unfolding commit(1)
      by (rule quiet[OF commit(2)]) (use lock_step.promote[of ?a _ _ F th h] slot[OF commit(2)] in \<open>auto simp: abs_defs\<close>)
  next
    case (vacate i h)
    show ?thesis unfolding vacate(1)
      by (rule quiet[OF vacate(2)]) (use lock_step.release_lock[of F th ?a h] in \<open>auto simp: abs_defs apply_release_def\<close>)
  qed (auto simp: abs_defs intro!: silent)
qed

section \<open>Who owns the slots\<close>

definition owns :: "ActiveLockTable \<Rightarrow> agent_pc \<Rightarrow> bool" where
  "owns t pc \<longleftrightarrow> (case pc of Blocked w tr \<Rightarrow> woken t w | _ \<Rightarrow> 5 \<le> stage pc \<and> stage pc \<le> 12)"

definition slot_inv :: "AgentPlan list \<Rightarrow> case_state \<Rightarrow> bool" where
  "slot_inv plans s \<longleftrightarrow>
     (\<forall>a e. regions (bt_table s) a = Some e \<longleftrightarrow> (\<exists>i<length (bt_pcs s).
        pl_agent_id (plans ! i) = a \<and> pl_embedding (plans ! i) = e \<and> owns (bt_table s) (bt_pcs s ! i)))
     \<and> (\<forall>w\<in>set (queued (bt_table s)). \<exists>i<length (bt_pcs s). \<exists>tr. bt_pcs s ! i = Blocked w tr)"

definition base_inv :: "fpu \<Rightarrow> fl \<Rightarrow> AgentPlan list \<Rightarrow> case_state \<Rightarrow> bool" where
  "base_inv F th plans s \<longleftrightarrow> shape_inv plans s \<and> system_inv F th (abs_system plans s) \<and> slot_inv plans s"

lemma base_invD:
  assumes "base_inv F th plans s"
  shows "shape_inv plans s" "system_inv F th (abs_system plans s)" "slot_inv plans s" "table_inv F th (bt_table s)"
    "table_wf (bt_table s)" "um_wf (active (bt_table s))" "exclusive F th (bt_table s)" "length (bt_pcs s) \<le> length plans"
  using assms by (auto simp: base_inv_def system_inv_def table_inv_def table_wf_def keyed_def shape_inv_def)

lemma agent_inj:
  assumes "distinct (map pl_agent_id plans)" "i < length plans" "j < length plans" "pl_agent_id (plans ! i) = pl_agent_id (plans ! j)"
  shows "i = j"
  using assms by (metis distinct_conv_nth length_map nth_map)

lemma blocked_call:
  assumes inv: "base_inv F th plans s" and i: "i < length (bt_pcs s)" "bt_pcs s ! i = Blocked w tr"
  shows "w < length (waiter_heap (bt_table s))" "w \<in> set (queued (bt_table s)) \<or> woken (bt_table s) w"
    "entry_data (bt_table s) w = (pl_agent_id (plans ! i), pl_embedding (plans ! i), th)"
    "j < length (bt_pcs s) \<Longrightarrow> bt_pcs s ! j = Blocked w tr' \<Longrightarrow> j = i"
proof -
  let ?a = "abs_system plans s"
  have c: "lc_pc (ls_calls ?a ! i) = call_pc.Waiting w" "lc_agent (ls_calls ?a ! i) = pl_agent_id (plans ! i)"
    "lc_embedding (ls_calls ?a ! i) = pl_embedding (plans ! i)"
    using i by (simp_all add: abs_fields abs_pc_def)
  have sys: "system_inv F th ?a" using inv by (rule base_invD)
  then have "call_ok th (bt_table s) (ls_calls ?a ! i)" using i(1) unfolding system_inv_def by (metis abs_sel(1,2) nth_mem)
  with c show "w < length (waiter_heap (bt_table s))" "w \<in> set (queued (bt_table s)) \<or> woken (bt_table s) w"
    "entry_data (bt_table s) w = (pl_agent_id (plans ! i), pl_embedding (plans ! i), th)"
    by (simp_all add: call_ok_def)
  assume j: "j < length (bt_pcs s)" "bt_pcs s ! j = Blocked w tr'"
  then have "lc_pc (ls_calls ?a ! j) = call_pc.Waiting w" by (simp add: abs_fields abs_pc_def)
  then show "j = i" using sys c(1) i(1) j(1) unfolding system_inv_def separate_def by (metis abs_sel(2))
qed

lemma queued_not_woken: "table_wf t \<Longrightarrow> w \<in> set (queued t) \<Longrightarrow> \<not> woken t w"
  by (auto simp: table_wf_def waits_def woken_def)

lemma owns_same_heap: "waiter_heap t' = waiter_heap t \<Longrightarrow> owns t' pc = owns t pc"
  by (simp add: owns_def woken_def split: agent_pc.splits)

lemma own_slot:
  assumes "base_inv F th plans s" "distinct (map pl_agent_id plans)" "i < length (bt_pcs s)"
  shows "regions (bt_table s) (pl_agent_id (plans ! i))
    = (if owns (bt_table s) (bt_pcs s ! i) then Some (pl_embedding (plans ! i)) else None)"
proof -
  note inv = base_invD(3,8)[OF assms(1)]
  have "j = i" if "j < length (bt_pcs s)" "pl_agent_id (plans ! j) = pl_agent_id (plans ! i)" for j
    using agent_inj[OF assms(2)] that inv(2) assms(3) by simp
  then have "regions (bt_table s) (pl_agent_id (plans ! i)) = Some e
      \<longleftrightarrow> pl_embedding (plans ! i) = e \<and> owns (bt_table s) (bt_pcs s ! i)" for e
    using inv(1) assms(3) unfolding slot_inv_def by metis
  then show ?thesis by (cases "regions (bt_table s) (pl_agent_id (plans ! i))") auto
qed

text \<open>A step that changes at most the slot of its own agent.\<close>

lemma slot_change:
  assumes inv: "base_inv F th plans s" and dist: "distinct (map pl_agent_id plans)" and i: "i < length (bt_pcs s)"
    and own: "regions t' (pl_agent_id (plans ! i)) = (if owns t' pc' then Some (pl_embedding (plans ! i)) else None)"
    and others: "\<And>b. b \<noteq> pl_agent_id (plans ! i) \<Longrightarrow> regions t' b = regions (bt_table s) b"
    and owners: "\<And>j. j < length (bt_pcs s) \<Longrightarrow> j \<noteq> i \<Longrightarrow> owns t' (bt_pcs s ! j) = owns (bt_table s) (bt_pcs s ! j)"
    and waiting: "\<And>w. w \<in> set (queued t') \<Longrightarrow> (\<exists>tr. pc' = Blocked w tr)
        \<or> w \<in> set (queued (bt_table s)) \<and> (\<forall>tr. bt_pcs s ! i \<noteq> Blocked w tr)"
    and s0: "bt_pcs s0 = bt_pcs s" "bt_table s0 = t'"
  shows "slot_inv plans (advance i pc' f s0)"
proof -
  note slots = base_invD(3)[OF inv]
  have apart: "j = i" if "j < length (bt_pcs s)" "pl_agent_id (plans ! j) = pl_agent_id (plans ! i)" for j
    using agent_inj[OF dist] that base_invD(8)[OF inv] i by simp
  have "regions t' a = Some e \<longleftrightarrow> (\<exists>j<length (bt_pcs s). pl_agent_id (plans ! j) = a \<and> pl_embedding (plans ! j) = e
      \<and> owns t' ((bt_pcs s)[i := pc'] ! j))" for a e
  proof (cases "a = pl_agent_id (plans ! i)")
    case True
    have "(\<exists>j<length (bt_pcs s). pl_agent_id (plans ! j) = a \<and> pl_embedding (plans ! j) = e \<and> owns t' ((bt_pcs s)[i := pc'] ! j))
        \<longleftrightarrow> pl_embedding (plans ! i) = e \<and> owns t' pc'"
      using apart i True by (auto simp: nth_list_update)
    with own True show ?thesis by auto
  next
    case False
    then have "(\<exists>j<length (bt_pcs s). pl_agent_id (plans ! j) = a \<and> pl_embedding (plans ! j) = e \<and> owns t' ((bt_pcs s)[i := pc'] ! j))
        \<longleftrightarrow> (\<exists>j<length (bt_pcs s). pl_agent_id (plans ! j) = a \<and> pl_embedding (plans ! j) = e \<and> owns (bt_table s) (bt_pcs s ! j))"
      using owners by (metis nth_list_update_neq)
    with slots others[OF False] show ?thesis unfolding slot_inv_def by simp
  qed
  moreover have "\<exists>j<length (bt_pcs s). \<exists>tr. (bt_pcs s)[i := pc'] ! j = Blocked w tr" if "w \<in> set (queued t')" for w
    using waiting[OF that]
  proof
    assume "\<exists>tr. pc' = Blocked w tr" then show ?thesis using i by (metis nth_list_update_eq)
  next
    assume w: "w \<in> set (queued (bt_table s)) \<and> (\<forall>tr. bt_pcs s ! i \<noteq> Blocked w tr)"
    then obtain j tr where "j < length (bt_pcs s)" "bt_pcs s ! j = Blocked w tr" using slots by (auto simp: slot_inv_def)
    with w show ?thesis by (metis nth_list_update_neq)
  qed
  ultimately show ?thesis using s0 by (simp add: slot_inv_def)
qed

text \<open>After a release each granted entry has the slot of its request.\<close>

definition place :: "ActiveLockTable \<Rightarrow> nat \<Rightarrow> (string \<rightharpoonup> fl list) \<Rightarrow> (string \<rightharpoonup> fl list)" where
  "place t w m = m(fst (entry_data t w) \<mapsto> fst (snd (entry_data t w)))"

lemma release_places:
  assumes wf: "table_wf t" and run: "release F h a t = (t', g)"
  shows "regions t' = fold (place t) g ((regions t)(a := None))"
proof (cases "map_of (active t) a")
  case (Some l)
  let ?base = "(regions t)(a := None)" and ?t = "t\<lparr>active := um_erase a (active t)\<rparr>"
  from Some run have rb: "rebalance_waiters_locked F h (sl_waiters l) ?t [] = (t', g)" by (simp add: release_cases)
  let ?P = "\<lambda>(ws::nat list) t1 g1. um_wf (active t1) \<and> (\<forall>v. entry_data t1 v = entry_data t v)
    \<and> regions t1 = fold (place t) g1 ?base"
  have "?P [] t' g"
  proof (rule rebalance_rule[where P = ?P, OF _ _ _ rb])
    fix w ws t1 g1 k assume P: "?P (w # ws) t1 g1"
    have "regions (requeue_waiter k w t1) = regions t1"
      by (rule trans[OF regions_cong[OF active_requeue] regions_push])
    with P show "?P ws (requeue_waiter k w t1) g1" by simp
  next
    fix w ws t1 g1 assume P: "?P (w # ws) t1 g1"
    let ?e = "waiter_heap t1 ! w"
    have "regions (grant_waiter h w t1) = regions (insert_pending_locked h (wq_waiting_agent_id ?e) (wq_embedding ?e) (wq_theta ?e) t1)"
      by (rule regions_cong) simp
    also have "\<dots> = place t w (regions t1)"
      using P by (metis (no_types, lifting) entry_data_def fst_conv place_def regions_insert_pending snd_conv)
    finally show "?P ws (grant_waiter h w t1) (g1 @ [w])" using P by simp
  qed (use wf Some in \<open>auto simp: regions_erase table_wf_def keyedD entry_data_def\<close>)
  then show ?thesis by simp
qed (use run in \<open>auto simp: release_cases regions_def fun_eq_iff\<close>)

lemma fold_place:
  assumes "inj_on (\<lambda>w. fst (entry_data t w)) (set g)"
  shows "fold (place t) g m b = Some e \<longleftrightarrow> (\<exists>w\<in>set g. fst (entry_data t w) = b \<and> fst (snd (entry_data t w)) = e)
    \<or> m b = Some e \<and> b \<notin> (\<lambda>w. fst (entry_data t w)) ` set g"
  using assms
proof (induction g arbitrary: m)
  case (Cons w g)
  then show ?case
    by (cases "b = fst (entry_data t w)"; cases "w \<in> set g") (auto simp: place_def inj_on_def)
qed simp

lemma release_waiters:
  assumes wf: "table_wf t" and run: "release F h a t = (t', g)"
  shows "set (queued t') \<subseteq> set (queued t)" "set g \<subseteq> set (queued t)"
    "w \<in> set (queued t) \<Longrightarrow> woken t' w = (w \<in> set g)" "w \<notin> set (queued t) \<Longrightarrow> woken t' w = woken t w"
proof -
  have m: "mset (queued t') + mset g = mset (queued t)" by (rule release_conserves[OF wf run])
  then have q: "set (queued t') \<union> set g = set (queued t)" by (metis set_mset_mset set_mset_union)
  then show "set (queued t') \<subseteq> set (queued t)" "set g \<subseteq> set (queued t)" by auto
  have "pool_ok [] t' g" by (rule release_pool_ok[OF wf run])
  then show "woken t' w = (w \<in> set g)" if "w \<in> set (queued t)"
    using that q queued_not_woken[of t' w] by (auto simp: pool_ok_empty)
  show "woken t' w = woken t w" if "w \<notin> set (queued t)"
    using release_heap(1,2)[OF run] that by (simp add: woken_def)
qed

lemma waiter_owner:
  assumes inv: "base_inv F th plans s" and w: "w \<in> set (queued (bt_table s))"
  obtains j tr where "j < length (bt_pcs s)" "bt_pcs s ! j = Blocked w tr"
    "entry_data (bt_table s) w = (pl_agent_id (plans ! j), pl_embedding (plans ! j), th)"
proof -
  obtain j tr where "j < length (bt_pcs s)" "bt_pcs s ! j = Blocked w tr"
    using base_invD(3)[OF inv] w by (auto simp: slot_inv_def)
  then show thesis using that blocked_call(3)[OF inv] by blast
qed

lemma same_thread:
  assumes "base_inv F th plans s" "distinct (map pl_agent_id plans)" "i < length (bt_pcs s)" "j < length (bt_pcs s)"
    and "pl_agent_id (plans ! i) = pl_agent_id (plans ! j)"
  shows "i = j"
  using agent_inj[OF assms(2) _ _ assms(5)] base_invD(8)[OF assms(1)] assms(3,4) by simp

lemma waiting_agents:
  assumes inv: "base_inv F th plans s" and dist: "distinct (map pl_agent_id plans)"
  shows "inj_on (\<lambda>w. fst (entry_data (bt_table s) w)) (set (queued (bt_table s)))"
    and "j < length (bt_pcs s) \<Longrightarrow> pl_agent_id (plans ! j) \<in> (\<lambda>w. fst (entry_data (bt_table s) w)) ` set (queued (bt_table s))
      \<Longrightarrow> \<exists>w tr. bt_pcs s ! j = Blocked w tr \<and> w \<in> set (queued (bt_table s))"
proof (rule inj_onI)
  fix v w assume vw: "v \<in> set (queued (bt_table s))" "w \<in> set (queued (bt_table s))"
    "fst (entry_data (bt_table s) v) = fst (entry_data (bt_table s) w)"
  obtain j tr where j: "j < length (bt_pcs s)" "bt_pcs s ! j = Blocked v tr"
    "entry_data (bt_table s) v = (pl_agent_id (plans ! j), pl_embedding (plans ! j), th)" by (rule waiter_owner[OF inv vw(1)])
  obtain k tr' where k: "k < length (bt_pcs s)" "bt_pcs s ! k = Blocked w tr'"
    "entry_data (bt_table s) w = (pl_agent_id (plans ! k), pl_embedding (plans ! k), th)" by (rule waiter_owner[OF inv vw(2)])
  have "j = k" using same_thread[OF inv dist j(1) k(1)] vw(3) j(3) k(3) by simp
  with j(2) k(2) show "v = w" by simp
next
  assume j: "j < length (bt_pcs s)" and "pl_agent_id (plans ! j) \<in> (\<lambda>w. fst (entry_data (bt_table s) w)) ` set (queued (bt_table s))"
  then obtain w where w: "w \<in> set (queued (bt_table s))" "fst (entry_data (bt_table s) w) = pl_agent_id (plans ! j)" by auto
  obtain k tr where k: "k < length (bt_pcs s)" "bt_pcs s ! k = Blocked w tr"
    "entry_data (bt_table s) w = (pl_agent_id (plans ! k), pl_embedding (plans ! k), th)" by (rule waiter_owner[OF inv w(1)])
  have "j = k" using same_thread[OF inv dist j k(1)] w(2) k(3) by simp
  with k(2) w(1) show "\<exists>w tr. bt_pcs s ! j = Blocked w tr \<and> w \<in> set (queued (bt_table s))" by blast
qed

lemma vacate_slots:
  assumes inv: "base_inv F th plans s" and dist: "distinct (map pl_agent_id plans)"
    and i: "i < length (bt_pcs s)"
    and run: "release F h (pl_agent_id (plans ! i)) (bt_table s) = (t', g)"
  shows "regions t' b = Some e \<longleftrightarrow> (\<exists>j<length (bt_pcs s). pl_agent_id (plans ! j) = b \<and> pl_embedding (plans ! j) = e
    \<and> (j \<noteq> i \<and> owns (bt_table s) (bt_pcs s ! j) \<or> (\<exists>w\<in>set g. \<exists>tr. bt_pcs s ! j = Blocked w tr)))"
proof -
  let ?t = "bt_table s" and ?pcs = "bt_pcs s"
  note wf = base_invD(5)[OF inv] and slots = base_invD(3)[OF inv]
  note q = release_waiters(2)[OF wf run]
  have inj: "inj_on (\<lambda>w. fst (entry_data ?t w)) (set g)" by (rule inj_on_subset[OF waiting_agents(1)[OF inv dist] q])
  have granted: "(\<exists>w\<in>set g. fst (entry_data ?t w) = b \<and> fst (snd (entry_data ?t w)) = e)
      \<longleftrightarrow> (\<exists>j<length ?pcs. pl_agent_id (plans ! j) = b \<and> pl_embedding (plans ! j) = e \<and> (\<exists>w\<in>set g. \<exists>tr. ?pcs ! j = Blocked w tr))"
    (is "?L \<longleftrightarrow> ?R")
  proof
    assume ?L
    then obtain w where w: "w \<in> set g" "fst (entry_data ?t w) = b" "fst (snd (entry_data ?t w)) = e" by blast
    have "w \<in> set (queued ?t)" using w(1) q by blast
    from waiter_owner[OF inv this] w show ?R by (metis fst_conv snd_conv)
  next
    assume ?R
    then obtain j w tr where j: "j < length ?pcs" "pl_agent_id (plans ! j) = b" "pl_embedding (plans ! j) = e"
      "w \<in> set g" "?pcs ! j = Blocked w tr" by blast
    from blocked_call(3)[OF inv j(1,5)] j show ?L by (intro bexI[of _ w]) simp_all
  qed
  have kept: "((regions ?t)(pl_agent_id (plans ! i) := None)) b = Some e \<and> b \<notin> (\<lambda>w. fst (entry_data ?t w)) ` set g
      \<longleftrightarrow> (\<exists>j<length ?pcs. pl_agent_id (plans ! j) = b \<and> pl_embedding (plans ! j) = e \<and> j \<noteq> i \<and> owns ?t (?pcs ! j))"
  proof -
    have "pl_agent_id (plans ! j) \<notin> (\<lambda>w. fst (entry_data ?t w)) ` set g" if j: "j < length ?pcs" "owns ?t (?pcs ! j)" for j
    proof
      assume "pl_agent_id (plans ! j) \<in> (\<lambda>w. fst (entry_data ?t w)) ` set g"
      then have "pl_agent_id (plans ! j) \<in> (\<lambda>w. fst (entry_data ?t w)) ` set (queued ?t)" using q by blast
      from waiting_agents(2)[OF inv dist j(1) this] j(2) show False
        using queued_not_woken[OF wf] by (auto simp: owns_def)
    qed
    moreover have "regions ?t b = Some e \<longleftrightarrow> (\<exists>j<length ?pcs. pl_agent_id (plans ! j) = b \<and> pl_embedding (plans ! j) = e \<and> owns ?t (?pcs ! j))"
      using slots by (simp add: slot_inv_def)
    moreover have "pl_agent_id (plans ! j) = pl_agent_id (plans ! i) \<longleftrightarrow> j = i" if "j < length ?pcs" for j
      using same_thread[OF inv dist that i] by blast
    ultimately show ?thesis by (cases "b = pl_agent_id (plans ! i)") (simp, blast, simp, blast)
  qed
  show ?thesis unfolding release_places[OF wf run] fold_place[OF inj] granted kept by blast
qed

lemma slot_vacate:
  assumes inv: "base_inv F th plans s" and dist: "distinct (map pl_agent_id plans)"
    and i: "i < length (bt_pcs s)" "bt_pcs s ! i = Releasing"
    and run: "release F h (pl_agent_id (plans ! i)) (bt_table s) = (t', g)"
  shows "slot_inv plans (advance i Vacated id (s\<lparr>bt_table := t'\<rparr>))"
proof -
  note wf = base_invD(5)[OF inv]
  note rw = release_waiters[OF wf run]
  have "owns t' ((bt_pcs s)[i := Vacated] ! j) \<longleftrightarrow> j \<noteq> i \<and> owns (bt_table s) (bt_pcs s ! j)
      \<or> (\<exists>w\<in>set g. \<exists>tr. bt_pcs s ! j = Blocked w tr)" if "j < length (bt_pcs s)" for j
    using that i rw(2) rw(3,4) queued_not_woken[OF wf]
    by (cases "j = i"; cases "bt_pcs s ! j"; auto simp: owns_def; metis subsetD)
  then have "regions t' b = Some e \<longleftrightarrow> (\<exists>j<length (bt_pcs s). pl_agent_id (plans ! j) = b \<and> pl_embedding (plans ! j) = e
      \<and> owns t' ((bt_pcs s)[i := Vacated] ! j))" for b e
    unfolding vacate_slots[OF inv dist i(1) run] by (auto cong: conj_cong)
  moreover have "\<exists>j<length (bt_pcs s). \<exists>tr. (bt_pcs s)[i := Vacated] ! j = Blocked w tr" if "w \<in> set (queued t')" for w
  proof -
    have "w \<in> set (queued (bt_table s))" using rw(1) that by blast
    from waiter_owner[OF inv this] i(2) show ?thesis by (metis agent_pc.distinct nth_list_update_neq)
  qed
  ultimately show ?thesis by (simp add: slot_inv_def)
qed

section \<open>Every step keeps the ownership\<close>

lemma slot_silent:
  assumes inv: "base_inv F th plans s" and dist: "distinct (map pl_agent_id plans)" and pc: "at_pc s i pc"
    and "owns (bt_table s) pc' = owns (bt_table s) pc" "\<And>w tr. pc \<noteq> Blocked w tr"
    and s0: "bt_pcs s0 = bt_pcs s" "bt_table s0 = bt_table s"
  shows "slot_inv plans (advance i pc' f s0)"
  by (rule slot_change[OF inv dist _ _ _ _ _ s0]) (use own_slot[OF inv dist] assms(4,5) at_pcD[OF pc] in auto)

lemma slot_cong:
  "slot_inv plans s \<Longrightarrow> bt_pcs s' = bt_pcs s \<Longrightarrow> bt_table s' = bt_table s \<Longrightarrow> slot_inv plans s'"
  by (simp add: slot_inv_def)

lemma slot_spawn:
  assumes "slot_inv plans s" shows "slot_inv plans (s\<lparr>bt_pcs := bt_pcs s @ [Spawned]\<rparr>)"
proof -
  have "(\<exists>i<Suc (length (bt_pcs s)). P i ((bt_pcs s @ [Spawned]) ! i)) \<longleftrightarrow> (\<exists>i<length (bt_pcs s). P i (bt_pcs s ! i))"
    if "\<And>i. \<not> P i Spawned" for P
    using that by (auto simp: less_Suc_eq nth_append)
  from this[of "\<lambda>i pc. pl_agent_id (plans ! i) = a \<and> pl_embedding (plans ! i) = e \<and> owns (bt_table s) pc" for a e]
    this[of "\<lambda>i pc. \<exists>tr. pc = Blocked w tr" for w] assms
  show ?thesis by (simp add: slot_inv_def owns_def)
qed

lemma slot_call:
  assumes inv: "base_inv F th plans s" and dist: "distinct (map pl_agent_id plans)" and pc: "at_pc s i Calling"
    and run: "admission_iteration F h (pl_agent_id (plans ! i)) (pl_embedding (plans ! i)) th (bt_table s) new_AcquireTrace = (t', tr', r)"
  shows "slot_inv plans (after_pass i r tr' (s\<lparr>bt_table := t'\<rparr>))"
proof -
  let ?a = "pl_agent_id (plans ! i)" and ?e = "pl_embedding (plans ! i)"
  note i = at_pcD[OF pc] and wf = base_invD(5)[OF inv] and u = base_invD(6)[OF inv]
  from wait_iteration_cases[OF run[unfolded admission_iteration_def]] show ?thesis
  proof (elim disjE conjE exE)
    assume t': "t' = insert_pending_locked h ?a ?e th (bt_table s)" and r: "r = Admitted"
    have heap: "waiter_heap t' = waiter_heap (bt_table s)" by (simp add: t')
    show ?thesis unfolding r after_pass.simps
      by (rule slot_change[OF inv dist i(1)])
        (use i(2) owns_same_heap[OF heap] u in \<open>auto simp: t' regions_insert_pending owns_def\<close>)
  next
    fix k assume c: "ct_lock (find_conflict_locked F ?e th (bt_table s)) = Some k"
      and t': "t' = park k ?a ?e th (bt_table s)" and r: "r = Parked (length (waiter_heap (bt_table s)))"
    have k: "map_of (active (bt_table s)) k \<noteq> None" using c u by (auto simp: in_set_map_of elim: find_conflict_SomeD)
    have reg: "regions t' = regions (bt_table s)"
      unfolding t' park_def by (simp add: table_simps regions_def fun_eq_iff)
    have q: "set (queued t') = insert (length (waiter_heap (bt_table s))) (set (queued (bt_table s)))"
      unfolding t' by (rule park_set_queued[OF wf k])
    have same: "woken t' w = woken (bt_table s) w" if "w < length (waiter_heap (bt_table s))" for w
      unfolding t' using that by (rule park_waits)
    have new: "\<not> woken t' (length (waiter_heap (bt_table s)))"
      using park_waits(3)[of k ?a ?e th "bt_table s"] by (simp add: t' waits_def woken_def)
    show ?thesis unfolding r after_pass.simps
    proof (rule slot_change[OF inv dist i(1)])
      show "regions t' ?a = (if owns t' (Blocked (length (waiter_heap (bt_table s))) tr') then Some ?e else None)"
        using own_slot[OF inv dist i(1)] i(2) new by (simp add: reg owns_def)
      show "owns t' (bt_pcs s ! j) = owns (bt_table s) (bt_pcs s ! j)" if "j < length (bt_pcs s)" for j
        using blocked_call(1)[OF inv that] same by (auto simp: owns_def split: agent_pc.splits)
    qed (use i(2) in \<open>auto simp: reg q\<close>)
  qed
qed

lemma ready_entry:
  assumes inv: "base_inv F th plans s" and pc: "at_pc s i (Blocked w tr)" and ready: "wq_ready (waiter_heap (bt_table s) ! w)"
  shows "woken (bt_table s) w" "w \<notin> set (queued (bt_table s))" "wq_granted (waiter_heap (bt_table s) ! w)"
  using blocked_call(2)[OF inv at_pcD[OF pc]] ready base_invD(5)[OF inv] by (auto simp: table_wf_def waits_def woken_def)

lemma slot_wake:
  assumes inv: "base_inv F th plans s" and dist: "distinct (map pl_agent_id plans)" and pc: "at_pc s i (Blocked w tr)"
    and ready: "wq_ready (waiter_heap (bt_table s) ! w)" and run: "after_wake w (bt_table s) tr = (t', tr', True)"
  shows "slot_inv plans (advance i Cleared f (s\<lparr>bt_table := t'\<rparr>))"
proof -
  note i = at_pcD[OF pc] and re = ready_entry[OF inv pc ready] and aw = after_wake_table[OF run]
  have reg: "regions t' = regions (bt_table s)" and q: "queued t' = queued (bt_table s)"
    using aw(1) by (rule regions_cong, rule queued_cong)
  show ?thesis
  proof (rule slot_change[OF inv dist i(1)])
    show "regions t' (pl_agent_id (plans ! i)) = (if owns t' Cleared then Some (pl_embedding (plans ! i)) else None)"
      using own_slot[OF inv dist i(1)] i(2) re(1) by (simp add: reg owns_def)
    show "owns t' (bt_pcs s ! j) = owns (bt_table s) (bt_pcs s ! j)" if "j < length (bt_pcs s)" "j \<noteq> i" for j
    proof -
      have "v \<noteq> w" if "bt_pcs s ! j = Blocked v tr0" for v tr0
        using blocked_call(4)[OF inv i \<open>j < length (bt_pcs s)\<close>] that \<open>j \<noteq> i\<close> by auto
      then show ?thesis using aw(2,4) by (auto simp: owns_def woken_def split: agent_pc.splits)
    qed
    show "(\<exists>tr. Cleared = Blocked v tr) \<or> v \<in> set (queued (bt_table s)) \<and> (\<forall>tr. bt_pcs s ! i \<noteq> Blocked v tr)"
      if "v \<in> set (queued t')" for v
      using that re(2) i(2) by (auto simp: q)
  qed (simp_all add: reg)
qed

lemma slot_step:
  assumes step: "bench_step F th plans s s'" and inv: "base_inv F th plans s" and dist: "distinct (map pl_agent_id plans)"
  shows "slot_inv plans s'"
  using step
proof (cases rule: bench_step.cases)
  case spawn
  then show ?thesis using slot_spawn base_invD(3)[OF inv] by simp
next
  case (call i h t' tr' r)
  show ?thesis unfolding call(1) by (rule slot_call[OF inv dist call(2,4)])
next
  case (wake_granted i w tr t' tr')
  show ?thesis unfolding wake_granted(1) by (rule slot_wake[OF inv dist wake_granted(2-4)])
next
  case (wake_retry i w tr t1 tr1 h t' tr' r)
  then show ?thesis using ready_entry(3)[OF inv wake_retry(2,3)] after_wake_table(5)[OF wake_retry(4)] by simp
next
  case (commit i h)
  let ?t = "apply_acquire h (pl_agent_id (plans ! i)) (pl_embedding (plans ! i)) th (bt_table s)"
  note i = at_pcD[OF commit(2)]
  have heap: "waiter_heap ?t = waiter_heap (bt_table s)" by (simp add: apply_acquire_def)
  show ?thesis unfolding commit(1)
    by (rule slot_change[OF inv dist i(1)])
      (use i(2) owns_same_heap[OF heap] base_invD(6)[OF inv] in \<open>auto simp: apply_acquire_def regions_apply_acquire owns_def\<close>)
next
  case (vacate i h)
  show ?thesis unfolding vacate(1) apply_release_def
    using slot_vacate[OF inv dist at_pcD[OF vacate(2)], of h] by (metis prod.collapse)
qed (use base_invD(3)[OF inv] in \<open>auto intro: slot_cong intro!: slot_silent[OF inv dist] simp: owns_def\<close>)

lemma base_step:
  assumes step: "bench_step F th plans s s'" and inv: "base_inv F th plans s" and dist: "distinct (map pl_agent_id plans)"
  shows "base_inv F th plans s'"
proof -
  have "regions (bt_table s) (pl_agent_id (plans ! i)) = Some (pl_embedding (plans ! i))" if "at_pc s i Cleared" for i
    using own_slot[OF inv dist at_pcD(1)[OF that]] at_pcD(2)[OF that] by (simp add: owns_def)
  then have "abs_system plans s' = abs_system plans s \<or> lock_step F th (abs_system plans s) (abs_system plans s')"
    by (rule bench_simulates[OF step base_invD(1)[OF inv]])
  then have "system_inv F th (abs_system plans s')" using base_invD(2)[OF inv] lock_step_inv by auto
  then show ?thesis
    using shape_step[OF step base_invD(1)[OF inv]] slot_step[OF step inv dist] by (simp add: base_inv_def)
qed

lemma base_start:
  assumes "initial_bench plans s" shows "base_inv F th plans s"
proof -
  have "abs_system plans s = \<lparr>ls_table = new_ActiveLockTable, ls_calls = []\<rparr>"
    using assms by (simp add: initial_bench_def abs_system_def)
  then have "system_inv F th (abs_system plans s)" using lock_sys.start_invar by (simp add: initial_system_def)
  then show ?thesis
    using assms by (auto simp: base_inv_def shape_inv_def slot_inv_def initial_bench_def new_ActiveLockTable_def regions_def queued_def)
qed

end
