(* ===== verification/TestbenchTimes.thy ===== *)
theory TestbenchTimes
  imports TestbenchLaws
begin

text \<open>
  What the threads of a case record: the order of the time stamps of each thread, the intervals of threads
  with similar embeddings, the largest number of active locks, and the traces. \<open>case_inv\<close> is the
  invariant that the properties rest on.
\<close>

section \<open>Facts about single threads\<close>

definition threads :: "(nat \<Rightarrow> case_state \<Rightarrow> agent_pc \<Rightarrow> AgentResult \<Rightarrow> bool) \<Rightarrow> case_state \<Rightarrow> bool" where
  "threads Q s \<longleftrightarrow> (\<forall>i<length (bt_pcs s). Q i s (bt_pcs s ! i) (bt_results s ! i))"

lemma threadsD: "threads Q s \<Longrightarrow> at_pc s i pc \<Longrightarrow> Q i s pc (bt_results s ! i)"
  by (auto simp: threads_def at_pc_def)

lemma threads_advance:
  assumes "threads Q s" "at_pc s i pc" "shape_inv plans s" "bt_pcs s0 = bt_pcs s" "bt_results s0 = bt_results s"
    and "\<And>j pc r. Q j s pc r \<Longrightarrow> Q j (advance i pc' f s0) pc r"
    and "Q i s pc (bt_results s ! i) \<Longrightarrow> Q i (advance i pc' f s0) pc' (f (bt_results s ! i))"
  shows "threads Q (advance i pc' f s0)"
  using assms unfolding threads_def at_pc_def shape_inv_def by (auto simp: nth_list_update)

lemma threads_spawn:
  assumes "threads Q s" "\<And>j pc r. Q j s pc r \<Longrightarrow> Q j (s\<lparr>bt_pcs := bt_pcs s @ [Spawned]\<rparr>) pc r"
    and "\<And>j r. Q j (s\<lparr>bt_pcs := bt_pcs s @ [Spawned]\<rparr>) Spawned r"
  shows "threads Q (s\<lparr>bt_pcs := bt_pcs s @ [Spawned]\<rparr>)"
  using assms by (auto simp: threads_def less_Suc_eq nth_append)

lemma threads_same:
  assumes "threads Q s" "bt_pcs s' = bt_pcs s" "bt_results s' = bt_results s"
    and "\<And>j pc r. j < length (bt_pcs s) \<Longrightarrow> pc = bt_pcs s ! j \<Longrightarrow> Q j s pc r \<Longrightarrow> Q j s' pc r"
  shows "threads Q s'"
  using assms by (auto simp: threads_def)

text \<open>The start: threads wait until the last one has come.\<close>

definition gate_inv :: "case_state \<Rightarrow> bool" where
  "gate_inv s \<longleftrightarrow> bt_ready s = card {i. i < length (bt_pcs s) \<and> bt_pcs s ! i \<noteq> Spawned}
     \<and> (\<not> bt_go s \<longrightarrow> (\<forall>pc\<in>set (bt_pcs s). stage pc \<le> 1))"

definition timed :: "AgentPlan list \<Rightarrow> nat \<Rightarrow> case_state \<Rightarrow> agent_pc \<Rightarrow> AgentResult \<Rightarrow> bool" where
  "timed plans i s pc r \<longleftrightarrow> (let plan = plans ! i; iv = ar_interval r in
     (3 \<le> stage pc \<longrightarrow> iv_agent_id iv = pl_agent_id plan \<and> iv_acquire_start_us iv \<le> now_us s
        \<and> (bt_release_time s + ms_to_ns (pl_start_delay_ms plan)) div 1000 \<le> iv_acquire_start_us iv)
   \<and> (7 \<le> stage pc \<longrightarrow> iv_acquire_start_us iv \<le> iv_acquire_success_us iv \<and> iv_acquire_success_us iv \<le> now_us s)
   \<and> (\<forall>t. pc = Holding t \<longrightarrow> iv_acquire_success_us iv * 1000 + ms_to_ns (pl_hold_ms plan) \<le> t)
   \<and> (12 \<le> stage pc \<longrightarrow> iv_acquire_success_us iv \<le> iv_release_call_us iv
        \<and> iv_acquire_success_us iv + pl_hold_ms plan * 1000 \<le> iv_release_call_us iv \<and> iv_release_call_us iv \<le> now_us s)
   \<and> (14 \<le> stage pc \<longrightarrow> iv_release_call_us iv \<le> iv_release_us iv))"

definition traced :: "nat \<Rightarrow> case_state \<Rightarrow> agent_pc \<Rightarrow> AgentResult \<Rightarrow> bool" where
  "traced i s pc r \<longleftrightarrow> (\<forall>w tr. pc = Blocked w tr \<longrightarrow> tr_waited tr \<and> tr_wake_count tr = 0)
     \<and> (5 \<le> stage pc \<longrightarrow> tr_wake_count (ar_trace r) = (if tr_waited (ar_trace r) then 1 else 0))"

definition counted :: "nat \<Rightarrow> nat \<Rightarrow> case_state \<Rightarrow> agent_pc \<Rightarrow> AgentResult \<Rightarrow> bool" where
  "counted bound i s pc r \<longleftrightarrow> (\<forall>v. pc = Sized v \<longrightarrow> v \<le> bound)
     \<and> (\<forall>v observed. pc = Updating v observed \<longrightarrow> v \<le> bound \<and> observed \<le> bt_max_active s)"

definition returned_inv :: "AgentPlan list \<Rightarrow> case_state \<Rightarrow> bool" where
  "returned_inv plans s \<longleftrightarrow> (\<forall>execution. bt_execution s = Some execution \<longrightarrow> execution = case_execution s
     \<and> length (bt_pcs s) = length plans \<and> (\<forall>pc\<in>set (bt_pcs s). pc = Finished) \<and> bt_go s)"

lemma gate_step:
  assumes step: "bench_step F th plans s s'" and g: "gate_inv s"
  shows "gate_inv s'"
proof -
  have moved: "{j. j < length (bt_pcs s) \<and> (bt_pcs s)[i := pc'] ! j \<noteq> Spawned} = {j. j < length (bt_pcs s) \<and> bt_pcs s ! j \<noteq> Spawned}"
    if "at_pc s i pc" "pc \<noteq> Spawned" "pc' \<noteq> Spawned" for i pc pc'
    using that by (auto simp: at_pc_def nth_list_update)
  have adv: "gate_inv (advance i pc' f s0)"
    if "at_pc s i pc" "pc \<noteq> Spawned" "pc' \<noteq> Spawned" "2 \<le> stage pc" "bt_pcs s0 = bt_pcs s" "bt_go s0 = bt_go s" "bt_ready s0 = bt_ready s" for i pc pc' f s0
  proof -
    have "stage (bt_pcs s ! i) \<le> 1" if "\<not> bt_go s" using g that \<open>at_pc s i pc\<close> by (auto simp: gate_inv_def at_pc_def)
    with that g show ?thesis using moved[OF that(1-3)] by (auto simp: gate_inv_def at_pc_def)
  qed
  show ?thesis using step
  proof (cases rule: bench_step.cases)
    case spawn
    have "{i. i < Suc (length (bt_pcs s)) \<and> (bt_pcs s @ [Spawned]) ! i \<noteq> Spawned} = {i. i < length (bt_pcs s) \<and> bt_pcs s ! i \<noteq> Spawned}"
      by (auto simp: nth_append less_Suc_eq)
    with g show ?thesis unfolding spawn(1) gate_inv_def by simp
  next
    case (gather i)
    note i = at_pcD[OF gather(2)]
    have "{j. j < length (bt_pcs s) \<and> (bt_pcs s)[i := Gathered] ! j \<noteq> Spawned}
        = insert i {j. j < length (bt_pcs s) \<and> bt_pcs s ! j \<noteq> Spawned}" using i by (auto simp: nth_list_update)
    moreover have "stage pc \<le> 1" if "pc \<in> set ((bt_pcs s)[i := Gathered])" "\<not> bt_go s" for pc
      using that g set_update_subset_insert[of "bt_pcs s" i Gathered] by (auto simp: gate_inv_def)
    ultimately show ?thesis using g i unfolding gather(1) by (simp add: gate_inv_def)
  next
    case (pass i)
    then show ?thesis using g moved[OF pass(2), of Delayed] by (simp add: gate_inv_def)
  qed (use g in \<open>auto intro!: adv simp: after_pass_advance split: wait_result.splits, auto simp: gate_inv_def\<close>)
qed

section \<open>Steps keep the facts of each thread\<close>

lemma now_us_advance [simp]: "now_us (advance i pc f s) = now_us s"
  by (simp add: now_us_def)

lemma interval_simps [simp]:
  "ar_interval (set_trace tr r) = ar_interval r"
  "iv_agent_id (ar_interval (stamp_start plan t r)) = pl_agent_id plan" "iv_acquire_start_us (ar_interval (stamp_start plan t r)) = t"
  "iv_agent_id (ar_interval (stamp_success t r)) = iv_agent_id (ar_interval r)"
  "iv_acquire_start_us (ar_interval (stamp_success t r)) = iv_acquire_start_us (ar_interval r)"
  "iv_acquire_success_us (ar_interval (stamp_success t r)) = t"
  "iv_agent_id (ar_interval (stamp_release_call t r)) = iv_agent_id (ar_interval r)"
  "iv_acquire_start_us (ar_interval (stamp_release_call t r)) = iv_acquire_start_us (ar_interval r)"
  "iv_acquire_success_us (ar_interval (stamp_release_call t r)) = iv_acquire_success_us (ar_interval r)"
  "iv_release_call_us (ar_interval (stamp_release_call t r)) = t"
  "iv_agent_id (ar_interval (stamp_release t r)) = iv_agent_id (ar_interval r)"
  "iv_acquire_start_us (ar_interval (stamp_release t r)) = iv_acquire_start_us (ar_interval r)"
  "iv_acquire_success_us (ar_interval (stamp_release t r)) = iv_acquire_success_us (ar_interval r)"
  "iv_release_call_us (ar_interval (stamp_release t r)) = iv_release_call_us (ar_interval r)"
  "iv_release_us (ar_interval (stamp_release t r)) = t"
  by (simp_all add: set_trace_def stamp_start_def stamp_success_def stamp_release_call_def stamp_release_def)

lemma timed_later:
  "timed plans i s pc r \<Longrightarrow> bt_now s \<le> bt_now s' \<Longrightarrow> bt_release_time s' = bt_release_time s \<Longrightarrow> timed plans i s' pc r"
  using zdiv_mono1[of "bt_now s" "bt_now s'" 1000] by (auto simp: timed_def Let_def now_us_def)

lemma hold_time:
  fixes t :: int
  assumes "u * 1000 + ms_to_ns d \<le> t" "t \<le> now"
  shows "u + d * 1000 \<le> now div 1000"
proof -
  have "(u + d * 1000) * 1000 \<le> now" using assms by (simp add: ms_to_ns_def)
  from zdiv_mono1[OF this, of 1000] show ?thesis by simp
qed

lemma timed_step:
  assumes step: "bench_step F th plans s s'" and shape: "shape_inv plans s" and gate: "gate_inv s"
    and t: "threads (timed plans) s"
  shows "threads (timed plans) s'"
proof -
  have adv: "threads (timed plans) (advance i pc' f s0)"
    if "at_pc s i pc" "timed plans i s pc (bt_results s ! i) \<Longrightarrow> timed plans i s pc' (f (bt_results s ! i))"
      "bt_pcs s0 = bt_pcs s" "bt_results s0 = bt_results s" "bt_now s0 = bt_now s" "bt_release_time s0 = bt_release_time s" for i pc pc' f s0
  proof -
    have "timed plans j (advance i pc' f s0) pc r = timed plans j s pc r" for j pc r
      using that by (simp add: timed_def now_us_def)
    then show ?thesis using threads_advance[OF t that(1) shape that(3,4)] that(2) by simp
  qed
  show ?thesis using step
  proof (cases rule: bench_step.cases)
    case (tick u)
    show ?thesis unfolding tick(1) by (rule threads_same[OF t]) (use tick(2) in \<open>auto intro: timed_later\<close>)
  next
    case spawn
    show ?thesis unfolding spawn(1) by (rule threads_spawn[OF t]) (simp_all add: timed_def now_us_def)
  next
    case go
    have "stage pc \<le> 1" if "j < length (bt_pcs s)" "pc = bt_pcs s ! j" for j pc
      using gate go(3) that by (auto simp: gate_inv_def)
    then show ?thesis unfolding go(1) by (intro threads_same[OF t]) (fastforce simp: timed_def Let_def)+
  next
    case (start i)
    show ?thesis unfolding start(1)
      by (rule adv[OF start(2)]) (use start(3) zdiv_mono1[OF start(3), of 1000] in \<open>auto simp: timed_def Let_def now_us_def\<close>)
  next
    case (hold i)
    show ?thesis unfolding hold(1) by (rule adv[OF hold(2)]) (auto simp: timed_def Let_def now_us_def)
  next
    case (call_release i u)
    show ?thesis unfolding call_release(1)
      by (rule adv[OF call_release(2)]) (use hold_time[OF _ call_release(3)] in \<open>auto simp: timed_def Let_def now_us_def\<close>)
  next
    case join
    show ?thesis unfolding join(1) by (rule threads_same[OF t]) (auto intro: timed_later)
  qed (auto intro!: adv simp: timed_def Let_def after_pass_advance split: wait_result.splits)
qed

lemma after_wake_trace:
  assumes "after_wake w t tr = (t', tr', b)" shows "tr_waited tr' = tr_waited tr"
  using assms by (auto simp: after_wake_def Let_def)

lemma parked_trace:
  assumes "wait_iteration take_slot F a e th t tr = (t', tr', Parked w)" shows "tr_waited tr'"
  using assms by (auto simp: wait_iteration_def Let_def split: option.splits)

lemma traced_state: "traced i s' pc r = traced i s pc r"
  by (simp add: traced_def)

lemma traced_step:
  assumes step: "bench_step F th plans s s'" and inv: "base_inv F th plans s" and t: "threads traced s"
  shows "threads traced s'"
proof -
  note shape = base_invD(1)[OF inv]
  have adv: "threads traced (advance i pc' f s0)"
    if "at_pc s i pc" "traced i s pc (bt_results s ! i) \<Longrightarrow> traced i s pc' (f (bt_results s ! i))"
      "bt_pcs s0 = bt_pcs s" "bt_results s0 = bt_results s" for i pc pc' f s0
    by (rule threads_advance[OF t that(1) shape that(3,4)]) (metis traced_state, metis traced_state that(2))
  have same: "threads traced (s\<lparr>bt_now := u\<rparr>)" "threads traced (s\<lparr>bt_go := b, bt_release_time := u\<rparr>)"
    "threads traced (s\<lparr>bt_execution := e\<rparr>)" "threads traced (s\<lparr>bt_pcs := bt_pcs s @ [Spawned]\<rparr>)" for u b e
    using threads_same[OF t, of "s\<lparr>bt_now := u\<rparr>"] threads_same[OF t, of "s\<lparr>bt_go := b, bt_release_time := u\<rparr>"]
      threads_same[OF t, of "s\<lparr>bt_execution := e\<rparr>"] threads_spawn[OF t] by (simp_all add: traced_def)
  show ?thesis using step
  proof (cases rule: bench_step.cases)
    case (call i h t' tr' r)
    note it = wait_iteration_cases[OF call(4)[unfolded admission_iteration_def]]
    show ?thesis
    proof (cases r)
      case Admitted
      with it have "tr' = new_AcquireTrace" by auto
      then show ?thesis unfolding call(1) Admitted after_pass.simps
        by (intro adv[OF call(2)]) (auto simp: traced_def new_AcquireTrace_def)
    next
      case (Parked w)
      with it have "tr_wake_count tr' = 0" by (auto simp: new_AcquireTrace_def)
      then show ?thesis unfolding call(1) Parked after_pass.simps
        using parked_trace[OF call(4)[unfolded admission_iteration_def Parked]]
        by (intro adv[OF call(2)]) (auto simp: traced_def)
    qed
  next
    case (wake_granted i w tr t' tr')
    show ?thesis unfolding wake_granted(1)
      by (rule adv[OF wake_granted(2)])
        (use after_wake_trace[OF wake_granted(4)] after_wake_table(6)[OF wake_granted(4)] in \<open>auto simp: traced_def\<close>)
  next
    case (wake_retry i w tr t1 tr1 h t' tr' r)
    then show ?thesis using ready_entry(3)[OF inv wake_retry(2,3)] after_wake_table(5)[OF wake_retry(4)] by simp
  qed (auto intro!: adv same simp: traced_def)
qed

section \<open>The number of active locks\<close>

lemma table_size_card:
  assumes "um_wf (active t)"
  shows "table_size t = card (dom (regions t))"
proof -
  have "dom (regions t) = set (map fst (active t))" by (auto simp: regions_def dom_map_of_conv_image_fst simp flip: dom_map_of_conv_image_fst)
  then show ?thesis using assms by (metis active_count_def distinct_card length_map table_size_def um_wf_def)
qed

definition peak_inv :: "nat \<Rightarrow> case_state \<Rightarrow> bool" where
  "peak_inv bound s \<longleftrightarrow> bt_max_active s \<le> bound \<and> threads (counted bound) s"

lemma peak_step:
  assumes step: "bench_step F th plans s s'" and shape: "shape_inv plans s"
    and size: "table_size (bt_table s) \<le> bound" and p: "peak_inv bound s"
  shows "peak_inv bound s'"
proof -
  have t: "threads (counted bound) s" and m: "bt_max_active s \<le> bound" using p by (simp_all add: peak_inv_def)
  have adv: "peak_inv bound (advance i pc' f s0)"
    if "at_pc s i pc" "counted bound i s pc (bt_results s ! i) \<Longrightarrow> counted bound i s0 pc' (f (bt_results s ! i))"
      "bt_pcs s0 = bt_pcs s" "bt_results s0 = bt_results s" "bt_max_active s \<le> bt_max_active s0" "bt_max_active s0 \<le> bound" for i pc pc' f s0
  proof -
    have "threads (counted bound) (advance i pc' f s0)"
    proof (rule threads_advance[OF t that(1) shape that(3,4)])
      show "counted bound j (advance i pc' f s0) q r" if "counted bound j s q r" for j q r
        using that \<open>bt_max_active s \<le> bt_max_active s0\<close> by (fastforce simp: counted_def)
    qed (use that(2) in \<open>simp add: counted_def\<close>)
    with that show ?thesis by (simp add: peak_inv_def)
  qed
  have globals: "peak_inv bound s0" if "bt_pcs s0 = bt_pcs s" "bt_results s0 = bt_results s" "bt_max_active s0 = bt_max_active s" for s0
    using threads_same[OF t that(1,2)] that(3) m by (simp add: peak_inv_def counted_def)
  have same: "peak_inv bound (s\<lparr>bt_now := u\<rparr>)" "peak_inv bound (s\<lparr>bt_go := b, bt_release_time := u\<rparr>)"
    "peak_inv bound (s\<lparr>bt_execution := e\<rparr>)" for u b e
    by (rule globals; simp)+
  show ?thesis using step
  proof (cases rule: bench_step.cases)
    case spawn
    show ?thesis unfolding spawn(1) peak_inv_def using m threads_spawn[OF t] by (simp add: counted_def)
  next
    case (count_active i)
    show ?thesis unfolding count_active(1) by (rule adv[OF count_active(2)]) (use size m in \<open>simp_all add: counted_def\<close>)
  next
    case (observe i v)
    show ?thesis unfolding observe(1) by (rule adv[OF observe(2)]) (use m in \<open>simp_all add: counted_def\<close>)
  next
    case (swap i v observed)
    have "v \<le> bound" using threadsD[OF t swap(2)] by (simp add: counted_def)
    then show ?thesis unfolding swap(1) using swap(3,4) by (intro adv[OF swap(2)]) (simp_all add: counted_def)
  next
    case (swap_fails i v observed)
    show ?thesis unfolding swap_fails(1) by (rule adv[OF swap_fails(2)]) (use m in \<open>simp_all add: counted_def\<close>)
  qed (use m in \<open>auto intro!: adv same simp: after_pass_advance counted_def split: wait_result.splits\<close>)
qed

lemma region_owner:
  assumes "base_inv F th plans s" "regions (bt_table s) a = Some e"
  obtains i where "i < length (bt_pcs s)" "pl_agent_id (plans ! i) = a" "pl_embedding (plans ! i) = e" "owns (bt_table s) (bt_pcs s ! i)"
  using base_invD(3)[OF assms(1)] assms(2) that unfolding slot_inv_def by blast

lemma size_bound:
  assumes inv: "base_inv F th plans s"
  shows "table_size (bt_table s) \<le> length plans"
proof -
  have "dom (regions (bt_table s)) \<subseteq> pl_agent_id ` set plans"
    using base_invD(3,8)[OF inv] by (force simp: slot_inv_def)
  then have "card (dom (regions (bt_table s))) \<le> card (pl_agent_id ` set plans)" by (rule card_mono[rotated]) simp
  also have "\<dots> \<le> length plans" using card_image_le[of "set plans"] card_length[of plans] by (meson finite_set le_trans)
  finally show ?thesis using table_size_card[OF base_invD(6)[OF inv]] by simp
qed

definition similar :: "fpu \<Rightarrow> fl \<Rightarrow> AgentPlan list \<Rightarrow> nat \<Rightarrow> nat \<Rightarrow> bool" where
  "similar F th plans i j \<longleftrightarrow> fl_le th (cosine_similarity F (pl_embedding (plans ! i)) (pl_embedding (plans ! j)))"

definition all_similar :: "fpu \<Rightarrow> fl \<Rightarrow> AgentPlan list \<Rightarrow> bool" where
  "all_similar F th plans \<longleftrightarrow> (\<forall>i<length plans. \<forall>j<length plans. i \<noteq> j \<longrightarrow> similar F th plans i j)"

lemma similar_sym: "similar F th plans i j = similar F th plans j i"
  unfolding similar_def by (simp add: cosine_similarity_sym)

text \<open>Of two threads with similar embeddings only one owns a slot.\<close>

lemma one_owner:
  assumes inv: "base_inv F th plans s" and dist: "distinct (map pl_agent_id plans)" and "similar F th plans i j" "i \<noteq> j"
    and i: "i < length (bt_pcs s)" "owns (bt_table s) (bt_pcs s ! i)" and j: "j < length (bt_pcs s)"
  shows "\<not> owns (bt_table s) (bt_pcs s ! j)"
proof
  assume "owns (bt_table s) (bt_pcs s ! j)"
  then have "regions (bt_table s) (pl_agent_id (plans ! j)) = Some (pl_embedding (plans ! j))"
    "regions (bt_table s) (pl_agent_id (plans ! i)) = Some (pl_embedding (plans ! i))"
    using own_slot[OF inv dist] i j by simp_all
  moreover have "pl_agent_id (plans ! i) \<noteq> pl_agent_id (plans ! j)" using same_thread[OF inv dist i(1) j] assms(4) by blast
  ultimately show False
    using base_invD(7)[OF inv] assms(3) by (auto simp: exclusive_def pairwise_apart_def similar_def)
qed

lemma size_one:
  assumes inv: "base_inv F th plans s" and dist: "distinct (map pl_agent_id plans)" and sim: "all_similar F th plans"
  shows "table_size (bt_table s) \<le> 1"
proof -
  have "a = b" if "a \<in> dom (regions (bt_table s))" "b \<in> dom (regions (bt_table s))" for a b
  proof -
    from that obtain x y where "regions (bt_table s) a = Some x" "regions (bt_table s) b = Some y" by (auto simp: dom_def)
    then obtain i j where ij: "i < length (bt_pcs s)" "pl_agent_id (plans ! i) = a" "owns (bt_table s) (bt_pcs s ! i)"
        "j < length (bt_pcs s)" "pl_agent_id (plans ! j) = b" "owns (bt_table s) (bt_pcs s ! j)"
      by (metis region_owner[OF inv])
    then show ?thesis using one_owner[OF inv dist, of i j] sim base_invD(8)[OF inv] by (cases "i = j") (auto simp: all_similar_def)
  qed
  then have "card (dom (regions (bt_table s))) \<le> 1" by (metis One_nat_def card.infinite card_le_Suc0_iff_eq zero_le)
  then show ?thesis using table_size_card[OF base_invD(6)[OF inv]] by simp
qed

section \<open>Intervals of similar threads\<close>

definition success_at :: "case_state \<Rightarrow> nat \<Rightarrow> int" where
  "success_at s i = iv_acquire_success_us (ar_interval (bt_results s ! i))"

definition release_call_at :: "case_state \<Rightarrow> nat \<Rightarrow> int" where
  "release_call_at s i = iv_release_call_us (ar_interval (bt_results s ! i))"

definition before :: "case_state \<Rightarrow> nat \<Rightarrow> nat \<Rightarrow> bool" where
  "before s i j \<longleftrightarrow> 13 \<le> stage (bt_pcs s ! i) \<and> release_call_at s i \<le> success_at s j"

definition order_inv :: "fpu \<Rightarrow> fl \<Rightarrow> AgentPlan list \<Rightarrow> case_state \<Rightarrow> bool" where
  "order_inv F th plans s \<longleftrightarrow> (\<forall>i<length (bt_pcs s). \<forall>j<length (bt_pcs s). i \<noteq> j \<longrightarrow> similar F th plans i j \<longrightarrow>
     7 \<le> stage (bt_pcs s ! i) \<longrightarrow> 7 \<le> stage (bt_pcs s ! j) \<longrightarrow> before s i j \<or> before s j i)"

lemma order_same:
  "order_inv F th plans s \<Longrightarrow> bt_pcs s' = bt_pcs s \<Longrightarrow> bt_results s' = bt_results s \<Longrightarrow> order_inv F th plans s'"
  by (simp add: order_inv_def before_def success_at_def release_call_at_def)

lemma order_spawn:
  assumes "order_inv F th plans s" shows "order_inv F th plans (s\<lparr>bt_pcs := bt_pcs s @ [Spawned]\<rparr>)"
  using assms by (auto simp: order_inv_def before_def success_at_def release_call_at_def nth_append less_Suc_eq)

text \<open>A thread that moves without touching the stamps that count.\<close>

lemma order_advance:
  assumes o: "order_inv F th plans s" and pc: "at_pc s i pc" and shape: "shape_inv plans s"
    and s0: "bt_pcs s0 = bt_pcs s" "bt_results s0 = bt_results s"
    and stamps: "7 \<le> stage pc' \<Longrightarrow> 7 \<le> stage pc
      \<and> iv_acquire_success_us (ar_interval (f (bt_results s ! i))) = iv_acquire_success_us (ar_interval (bt_results s ! i))
      \<and> (13 \<le> stage pc \<longrightarrow> 13 \<le> stage pc'
           \<and> iv_release_call_us (ar_interval (f (bt_results s ! i))) = iv_release_call_us (ar_interval (bt_results s ! i)))"
  shows "order_inv F th plans (advance i pc' f s0)"
proof -
  let ?s = "advance i pc' f s0"
  have i: "i < length (bt_pcs s)" "i < length (bt_results s)" "bt_pcs s ! i = pc"
    using pc shape by (auto simp: at_pc_def shape_inv_def)
  have late: "7 \<le> stage (bt_pcs s ! k) \<and> success_at ?s k = success_at s k
      \<and> (13 \<le> stage (bt_pcs s ! k) \<longrightarrow> 13 \<le> stage (bt_pcs ?s ! k) \<and> release_call_at ?s k = release_call_at s k)"
    if "k < length (bt_pcs s)" "7 \<le> stage (bt_pcs ?s ! k)" for k
    using that i stamps s0 by (cases "k = i") (auto simp: success_at_def release_call_at_def)
  have "before ?s j k" if "before s j k" "j < length (bt_pcs s)" "k < length (bt_pcs s)"
    "7 \<le> stage (bt_pcs ?s ! j)" "7 \<le> stage (bt_pcs ?s ! k)" for j k
    using that(1) late[OF that(2,4)] late[OF that(3,5)] by (auto simp: before_def)
  moreover have "before s j k \<or> before s k j" if "j < length (bt_pcs s)" "k < length (bt_pcs s)" "j \<noteq> k" "similar F th plans j k"
    "7 \<le> stage (bt_pcs ?s ! j)" "7 \<le> stage (bt_pcs ?s ! k)" for j k
    using o late[OF that(1,5)] late[OF that(2,6)] that(1-4) by (simp add: order_inv_def)
  ultimately show ?thesis unfolding order_inv_def advance_sel s0 length_list_update by blast
qed

text \<open>When a thread is granted its slot, every similar thread that had one has called its release.\<close>

lemma order_grant:
  assumes inv: "base_inv F th plans s" and dist: "distinct (map pl_agent_id plans)" and pc: "at_pc s i Applied"
    and times: "threads (timed plans) s" and o: "order_inv F th plans s"
  shows "order_inv F th plans (advance i Granted (stamp_success (now_us s)) s)" (is "order_inv F th plans ?s")
proof -
  have i: "i < length (bt_pcs s)" "i < length (bt_results s)" "bt_pcs s ! i = Applied"
    using pc base_invD(1)[OF inv] by (auto simp: at_pc_def shape_inv_def)
  have past: "before ?s j i" if j: "j < length (bt_pcs s)" "j \<noteq> i" "similar F th plans i j" "7 \<le> stage (bt_pcs s ! j)" for j
  proof -
    have "\<not> owns (bt_table s) (bt_pcs s ! j)"
      using one_owner[OF inv dist j(3) j(2)[symmetric] i(1) _ j(1)] i(3) by (simp add: owns_def)
    then have st: "13 \<le> stage (bt_pcs s ! j)" using j(4) by (cases "bt_pcs s ! j") (simp_all add: owns_def)
    have "timed plans j s (bt_pcs s ! j) (bt_results s ! j)" using times j(1) by (simp add: threads_def)
    with st have "release_call_at s j \<le> now_us s" by (simp add: timed_def Let_def release_call_at_def)
    with st j(2) i show ?thesis by (simp add: before_def success_at_def release_call_at_def)
  qed
  have other: "before ?s j k" if "before s j k" "j \<noteq> i" "k \<noteq> i" for j k
    using that by (simp add: before_def success_at_def release_call_at_def)
  have "before ?s j k \<or> before ?s k j"
    if jk: "j < length (bt_pcs s)" "k < length (bt_pcs s)" "j \<noteq> k" "similar F th plans j k"
      "7 \<le> stage (bt_pcs ?s ! j)" "7 \<le> stage (bt_pcs ?s ! k)" for j k
  proof (cases "j = i \<or> k = i")
    case True
    then show ?thesis using past[of k] past[of j] jk similar_sym[of F th plans j k] by auto
  next
    case False
    then have "before s j k \<or> before s k j" using o jk by (simp add: order_inv_def)
    with False show ?thesis using other by blast
  qed
  then show ?thesis by (simp add: order_inv_def)
qed

lemma order_step:
  assumes step: "bench_step F th plans s s'" and inv: "base_inv F th plans s" and dist: "distinct (map pl_agent_id plans)"
    and times: "threads (timed plans) s" and o: "order_inv F th plans s"
  shows "order_inv F th plans s'"
proof -
  note adv = order_advance[OF o _ base_invD(1)[OF inv]]
  show ?thesis using step
  proof (cases rule: bench_step.cases)
    case spawn then show ?thesis using order_spawn[OF o] by simp
  next
    case (grant i) show ?thesis unfolding grant(1) by (rule order_grant[OF inv dist grant(2) times o])
  next
    case (tick u) show ?thesis unfolding tick(1) by (rule order_same[OF o]) simp_all
  next
    case go show ?thesis unfolding go(1) by (rule order_same[OF o]) simp_all
  next
    case join show ?thesis unfolding join(1) by (rule order_same[OF o]) simp_all
  qed (auto intro!: adv simp: after_pass_advance split: wait_result.splits)
qed

lemma returned_step:
  assumes step: "bench_step F th plans s s'" and r: "returned_inv plans s"
  shows "returned_inv plans s'"
proof (cases "bt_execution s")
  case None
  from step None show ?thesis
    by (cases rule: bench_step.cases) (auto simp: returned_inv_def after_pass_advance case_execution_def)
next
  case (Some execution)
  then have fin: "pc = Finished" if "at_pc s i pc" for i pc
    using r that by (auto simp: returned_inv_def at_pc_def)
  from step r Some show ?thesis
    by (cases rule: bench_step.cases) (auto simp: returned_inv_def case_execution_def dest: fin)
qed

section \<open>Agents that conflict with nobody\<close>

definition unrelated :: "fpu \<Rightarrow> fl \<Rightarrow> AgentPlan list \<Rightarrow> nat \<Rightarrow> bool" where
  "unrelated F th plans i \<longleftrightarrow> (\<forall>j<length plans. j \<noteq> i \<longrightarrow> \<not> similar F th plans i j)"

definition unblocked :: "fpu \<Rightarrow> fl \<Rightarrow> AgentPlan list \<Rightarrow> nat \<Rightarrow> case_state \<Rightarrow> agent_pc \<Rightarrow> AgentResult \<Rightarrow> bool" where
  "unblocked F th plans i s pc r \<longleftrightarrow> (unrelated F th plans i \<longrightarrow>
     (\<forall>w tr. pc \<noteq> Blocked w tr) \<and> (5 \<le> stage pc \<longrightarrow> \<not> tr_waited (ar_trace r)))"

lemma unrelated_admitted:
  assumes inv: "base_inv F th plans s" and dist: "distinct (map pl_agent_id plans)" and pc: "at_pc s i Calling"
    and free: "unrelated F th plans i"
    and run: "admission_iteration F h (pl_agent_id (plans ! i)) (pl_embedding (plans ! i)) th (bt_table s) tr = (t', tr', r)"
  shows "r = Admitted \<and> tr' = tr"
proof -
  note i = at_pcD[OF pc]
  have "\<not> fl_le th (cosine_similarity F (pl_embedding (plans ! i)) e)" if reg: "regions (bt_table s) a = Some e" for a e
  proof -
    obtain j where j: "j < length (bt_pcs s)" "pl_embedding (plans ! j) = e" "owns (bt_table s) (bt_pcs s ! j)"
      using region_owner[OF inv reg] by blast
    have "j \<noteq> i" using j(3) i(2) by (auto simp: owns_def)
    then show ?thesis using free j(1,2) base_invD(8)[OF inv] by (auto simp: unrelated_def similar_def)
  qed
  then have "no_conflict F (bt_table s) (pl_embedding (plans ! i)) th" by (simp add: no_conflict_def)
  then have "ct_lock (find_conflict_locked F (pl_embedding (plans ! i)) th (bt_table s)) = None"
    by (rule iffD1[OF find_conflict_no_conflict[OF base_invD(6)[OF inv]]])
  then show ?thesis using wait_iteration_cases[OF run[unfolded admission_iteration_def]] by auto
qed

lemma unblocked_step:
  assumes step: "bench_step F th plans s s'" and inv: "base_inv F th plans s" and dist: "distinct (map pl_agent_id plans)"
    and u: "threads (unblocked F th plans) s"
  shows "threads (unblocked F th plans) s'"
proof -
  let ?Q = "unblocked F th plans"
  have state: "?Q i s1 pc r = ?Q i s2 pc r" for i s1 s2 pc r by (simp add: unblocked_def)
  have adv: "threads ?Q (advance i pc' f s0)"
    if "at_pc s i pc" "?Q i s pc (bt_results s ! i) \<Longrightarrow> ?Q i s pc' (f (bt_results s ! i))"
      "bt_pcs s0 = bt_pcs s" "bt_results s0 = bt_results s" for i pc pc' f s0
    by (rule threads_advance[OF u that(1) base_invD(1)[OF inv] that(3,4)]) (metis state, metis state that(2))
  have globals: "threads ?Q s0" if "bt_pcs s0 = bt_pcs s" "bt_results s0 = bt_results s" for s0
    by (rule threads_same[OF u that]) (metis state)
  have same: "threads ?Q (s\<lparr>bt_now := v\<rparr>)" "threads ?Q (s\<lparr>bt_go := b, bt_release_time := v\<rparr>)" "threads ?Q (s\<lparr>bt_execution := e\<rparr>)" for v b e
    by (rule globals; simp)+
  have new: "threads ?Q (s\<lparr>bt_pcs := bt_pcs s @ [Spawned]\<rparr>)"
    by (rule threads_spawn[OF u]) (metis state, simp add: unblocked_def)
  show ?thesis using step
  proof (cases rule: bench_step.cases)
    case (call i h t' tr' r)
    have "unrelated F th plans i \<Longrightarrow> r = Admitted \<and> tr' = new_AcquireTrace"
      by (rule unrelated_admitted[OF inv dist call(2) _ call(4)])
    then show ?thesis unfolding call(1) after_pass_advance
      by (intro adv[OF call(2)]) (auto simp: unblocked_def new_AcquireTrace_def)
  next
    case (wake_retry i w tr t1 tr1 h t' tr' r)
    then show ?thesis using ready_entry(3)[OF inv wake_retry(2,3)] after_wake_table(5)[OF wake_retry(4)] by simp
  qed (auto intro!: adv same new simp: unblocked_def)
qed

section \<open>The invariant of a case\<close>

text \<open>No sweep ever closes the gate of the table.\<close>

lemma sweep_step:
  assumes step: "bench_step F th plans s s'" and gate: "\<not> sweep_in_progress (bt_table s)"
  shows "\<not> sweep_in_progress (bt_table s')"
proof -
  have pass: "sweep_in_progress t' = sweep_in_progress t"
    if "admission_iteration F h a e th t tr = (t', tr', r)" for h a e t tr t' tr' r
    using wait_iteration_cases[OF that[unfolded admission_iteration_def]] by (auto simp: park_def)
  have wake: "sweep_in_progress t' = sweep_in_progress t" if "after_wake w t tr = (t', tr', b)" for w t tr t' tr' b
    using that by (auto simp: after_wake_def Let_def)
  have rel: "sweep_in_progress (fst (release F h a t)) = sweep_in_progress t" for h a t
  proof (cases "map_of (active t) a")
    case (Some l)
    obtain t' g where "rebalance_waiters_locked F h (sl_waiters l) (t\<lparr>active := um_erase a (active t)\<rparr>) [] = (t', g)" by fastforce
    from rebalance_sweep[OF this] this Some show ?thesis by (simp add: release_cases)
  qed (simp add: release_cases)
  from step gate show ?thesis
    by (cases rule: bench_step.cases) (auto simp: after_pass_advance apply_acquire_def apply_release_def rel dest: pass wake)
qed

definition case_inv :: "fpu \<Rightarrow> fl \<Rightarrow> AgentPlan list \<Rightarrow> case_state \<Rightarrow> bool" where
  "case_inv F th plans s \<longleftrightarrow> distinct (map pl_agent_id plans) \<and> base_inv F th plans s \<and> gate_inv s
     \<and> threads (timed plans) s \<and> threads traced s \<and> threads (unblocked F th plans) s
     \<and> peak_inv (length plans) s \<and> (all_similar F th plans \<longrightarrow> peak_inv 1 s)
     \<and> order_inv F th plans s \<and> returned_inv plans s \<and> \<not> sweep_in_progress (bt_table s)"

lemma case_step:
  assumes inv: "case_inv F th plans s" and step: "bench_step F th plans s s'"
  shows "case_inv F th plans s'"
proof -
  have dist: "distinct (map pl_agent_id plans)" and base: "base_inv F th plans s" using inv by (simp_all add: case_inv_def)
  note shape = base_invD(1)[OF base]
  show ?thesis
    using inv base_step[OF step base dist] gate_step[OF step] timed_step[OF step shape] traced_step[OF step base]
      unblocked_step[OF step base dist] peak_step[OF step shape size_bound[OF base]] peak_step[OF step shape size_one[OF base dist]]
      order_step[OF step base dist] returned_step[OF step] sweep_step[OF step]
    unfolding case_inv_def by blast
qed

lemma case_start:
  assumes "distinct (map pl_agent_id plans)" "initial_bench plans s"
  shows "case_inv F th plans s"
  using base_start[OF assms(2)] assms
  by (simp add: case_inv_def initial_bench_def gate_inv_def threads_def peak_inv_def order_inv_def returned_inv_def
      new_ActiveLockTable_def)

interpretation bench_case: inductive_invariant "\<lambda>s. distinct (map pl_agent_id plans) \<and> initial_bench plans s"
  "bench_step F th plans" "case_inv F th plans" for F th plans
  by unfold_locales (blast intro: case_start case_step)+

end
