(* ===== verification/TestbenchProgress.thy ===== *)
theory TestbenchProgress
  imports TestbenchTimes
begin

text \<open>
  A case of the testbench ends. Each step but the passing of time brings the threads nearer to their end or
  changes nothing (a spurious failure of \<^verbatim>\<open>compare_exchange_weak\<close>), and as long as the case has not returned
  some thread, or the main thread, can take a step that does, at the latest after a sleep is over.
\<close>

section \<open>Progress\<close>

text \<open>
  A system whose invariant lets it come nearer to its goal can reach the goal from everywhere.
\<close>

locale progress = inductive_invariant start step invar
  for start :: "'s \<Rightarrow> bool" and step :: "'s \<Rightarrow> 's \<Rightarrow> bool" and invar :: "'s \<Rightarrow> bool" +
  fixes goal :: "'s \<Rightarrow> bool" and variant :: "'s \<Rightarrow> nat"
  assumes nearer: "invar s \<Longrightarrow> \<not> goal s \<Longrightarrow> \<exists>s'. step\<^sup>*\<^sup>* s s' \<and> variant s' < variant s"
begin

lemma reaches_goal: "invar s \<Longrightarrow> \<exists>s'. step\<^sup>*\<^sup>* s s' \<and> goal s'"
proof (induction "variant s" arbitrary: s rule: less_induct)
  case less
  show ?case
  proof (cases "goal s")
    case False
    then obtain s1 where s1: "step\<^sup>*\<^sup>* s s1" "variant s1 < variant s" using nearer less.prems by blast
    have "invar s1" by (rule steps_invar[OF less.prems s1(1)])
    from less.hyps[OF s1(2) this] s1(1) show ?thesis by (meson rtranclp_trans)
  qed blast
qed

end

section \<open>How far a case is from its end\<close>

fun rank :: "nat \<Rightarrow> agent_pc \<Rightarrow> nat" where
  "rank n Spawned = n + 14"
| "rank n Gathered = n + 13"
| "rank n Delayed = n + 12"
| "rank n Calling = n + 11"
| "rank n (Blocked w tr) = n + 10"
| "rank n Cleared = n + 9"
| "rank n Applied = n + 8"
| "rank n Granted = n + 7"
| "rank n (Sized v) = v + 6"
| "rank n (Updating v observed) = v - observed + 5"
| "rank n Updated = 4"
| "rank n (Holding t) = 3"
| "rank n Releasing = 2"
| "rank n Vacated = 1"
| "rank n Finished = 0"

definition distance :: "AgentPlan list \<Rightarrow> case_state \<Rightarrow> nat" where
  "distance plans s = (let n = length plans in
     sum_list (map (rank n) (bt_pcs s)) + (n + 15) * (n - length (bt_pcs s))
     + (if bt_go s then 0 else 1) + (if bt_execution s = None then 1 else 0))"

lemma sum_list_update_less:
  fixes f :: "'a \<Rightarrow> nat"
  assumes "i < length xs" "f y < f (xs ! i)"
  shows "sum_list (map f (xs[i := y])) < sum_list (map f xs)"
  using assms by (induction xs arbitrary: i) (auto split: nat.splits)

lemma distance_advance:
  assumes "at_pc s i pc" "rank (length plans) pc' < rank (length plans) pc"
    and "bt_pcs s0 = bt_pcs s" "bt_go s0 = bt_go s" "bt_execution s0 = bt_execution s"
  shows "distance plans (advance i pc' f s0) < distance plans s"
  using assms sum_list_update_less[of i "bt_pcs s" "rank (length plans)" pc']
  by (simp add: distance_def at_pc_def Let_def)

lemma distance_spawn:
  assumes "length (bt_pcs s) < length plans"
  shows "distance plans (s\<lparr>bt_pcs := bt_pcs s @ [Spawned]\<rparr>) < distance plans s"
proof -
  have "length plans - length (bt_pcs s) = Suc (length plans - Suc (length (bt_pcs s)))" using assms by simp
  then show ?thesis unfolding distance_def Let_def by simp
qed

lemma step_distance:
  assumes step: "bench_step F th plans s s'" and inv: "case_inv F th plans s"
  shows "distance plans s' < distance plans s \<or> s' = s \<or> (\<exists>t. s' = s\<lparr>bt_now := t\<rparr>)"
proof -
  have base: "base_inv F th plans s" and peak: "peak_inv (length plans) s" using inv by (simp_all add: case_inv_def)
  have down: "distance plans s' < distance plans s \<or> s' = s \<or> (\<exists>t. s' = s\<lparr>bt_now := t\<rparr>)"
    if "s' = advance i pc' f s0" "at_pc s i pc" "rank (length plans) pc' < rank (length plans) pc"
      "bt_pcs s0 = bt_pcs s" "bt_go s0 = bt_go s" "bt_execution s0 = bt_execution s" for i pc pc' f s0
    unfolding that(1) by (rule disjI1[OF distance_advance[OF that(2-6)]])
  show ?thesis using step
  proof (cases rule: bench_step.cases)
    case (tick t)
    then show ?thesis by blast
  next
    case spawn
    then show ?thesis using distance_spawn by simp
  next
    case (wake_retry i w tr t1 tr1 h t' tr' r)
    then show ?thesis using ready_entry(3)[OF base wake_retry(2,3)] after_wake_table(5)[OF wake_retry(4)] by simp
  next
    case (count_active i)
    have "distance plans s' < distance plans s" unfolding count_active(1)
      by (rule distance_advance[OF count_active(2)]) (use size_bound[OF base] in simp_all)
    then show ?thesis by simp
  next
    case (swap_fails i v observed)
    note i = at_pcD[OF swap_fails(2)]
    have le: "observed \<le> bt_max_active s"
      using peak threadsD[of "counted (length plans)", OF _ swap_fails(2)] by (simp add: peak_inv_def counted_def)
    show ?thesis
    proof (cases "bt_max_active s = observed")
      case True
      have "s' = s" unfolding swap_fails(1) advance_def using i True by (simp add: list_update_same_conv)
      then show ?thesis by simp
    next
      case False
      then have "distance plans s' < distance plans s" unfolding swap_fails(1)
        using le swap_fails(3) by (intro distance_advance[OF swap_fails(2)]) simp_all
      then show ?thesis by simp
    qed
  next
    case go
    then show ?thesis by (simp add: distance_def)
  next
    case join
    then show ?thesis by (simp add: distance_def)
  next
    case (call i h t' tr' r)
    show ?thesis by (rule down[OF call(1)[unfolded after_pass_advance] call(2)]) (cases r; simp)+
  qed (erule down, assumption, simp, simp, simp, simp)+
qed

section \<open>Some step is always possible\<close>

definition comes_nearer :: "fpu \<Rightarrow> fl \<Rightarrow> AgentPlan list \<Rightarrow> case_state \<Rightarrow> bool" where
  "comes_nearer F th plans s \<longleftrightarrow> (\<exists>s'. (bench_step F th plans)\<^sup>*\<^sup>* s s' \<and> distance plans s' < distance plans s)"

lemma nearer_advance:
  assumes "at_pc s i pc" "bench_step F th plans s (advance i pc' f s0)" "rank (length plans) pc' < rank (length plans) pc"
    and "bt_pcs s0 = bt_pcs s" "bt_go s0 = bt_go s" "bt_execution s0 = bt_execution s"
  shows "comes_nearer F th plans s"
  using distance_advance[OF assms(1,3-6)] assms(2) unfolding comes_nearer_def by blast

text \<open>A sleeping thread goes on when the clock is at the end of its sleep.\<close>

lemma nearer_later:
  assumes "comes_nearer F th plans (s\<lparr>bt_now := max (bt_now s) t\<rparr>)" shows "comes_nearer F th plans s"
proof -
  have "bench_step F th plans s (s\<lparr>bt_now := max (bt_now s) t\<rparr>)" by (rule bench_step.tick) simp
  moreover have "distance plans (s\<lparr>bt_now := u\<rparr>) = distance plans s" for u by (simp add: distance_def)
  ultimately show ?thesis using assms unfolding comes_nearer_def by (metis converse_rtranclp_into_rtranclp)
qed

definition runnable :: "case_state \<Rightarrow> agent_pc \<Rightarrow> bool" where
  "runnable s pc \<longleftrightarrow> pc \<noteq> Finished \<and> (pc = Gathered \<longrightarrow> bt_go s)
     \<and> (\<forall>w tr. pc = Blocked w tr \<longrightarrow> wq_ready (waiter_heap (bt_table s) ! w))"

lemma thread_nearer:
  assumes inv: "case_inv F th plans s" and pc: "at_pc s i pc" and run: "runnable s pc"
  shows "comes_nearer F th plans s"
proof -
  have base: "base_inv F th plans s" and sweep: "\<not> sweep_in_progress (bt_table s)" using inv by (simp_all add: case_inv_def)
  note near = nearer_advance[OF pc]
  show ?thesis
  proof (cases pc)
    case Spawned
    with pc show ?thesis by (intro near[OF bench_step.gather]) simp_all
  next
    case Gathered
    with pc run show ?thesis by (intro near[OF bench_step.pass]) (simp_all add: runnable_def)
  next
    case Delayed
    let ?t = "bt_release_time s + ms_to_ns (pl_start_delay_ms (plans ! i))"
    let ?s = "s\<lparr>bt_now := max (bt_now s) ?t\<rparr>"
    have at: "at_pc ?s i Delayed" using pc Delayed by (simp add: at_pc_def)
    show ?thesis by (rule nearer_later, rule nearer_advance[OF at bench_step.start[OF at]]) simp_all
  next
    case Calling
    obtain t' tr' r where it: "admission_iteration F undefined (pl_agent_id (plans ! i)) (pl_embedding (plans ! i)) th (bt_table s)
        new_AcquireTrace = (t', tr', r)" by (metis surj_pair)
    have at: "at_pc s i Calling" using pc Calling by simp
    show ?thesis
      by (rule nearer_advance[OF at bench_step.call[OF at sweep it, unfolded after_pass_advance]]) (cases r; simp)+
  next
    case (Blocked w tr)
    have at: "at_pc s i (Blocked w tr)" using pc Blocked by simp
    have ready: "wq_ready (waiter_heap (bt_table s) ! w)" using run Blocked by (simp add: runnable_def)
    obtain t' tr' where "after_wake w (bt_table s) tr = (t', tr', True)"
      using ready_entry(3)[OF base at ready] by (simp add: after_wake_def Let_def)
    from nearer_advance[OF at bench_step.wake_granted[OF at ready this]] show ?thesis by simp
  next
    case Cleared
    with pc show ?thesis by (intro near[OF bench_step.commit]) simp_all
  next
    case Applied
    with pc show ?thesis by (intro near[OF bench_step.grant]) simp_all
  next
    case Granted
    with pc show ?thesis using size_bound[OF base] by (intro near[OF bench_step.count_active]) simp_all
  next
    case (Sized v)
    with pc show ?thesis by (intro near[OF bench_step.observe]) (simp_all, arith)
  next
    case (Updating v observed)
    have at: "at_pc s i (Updating v observed)" using pc Updating by simp
    have le: "observed \<le> bt_max_active s"
      using inv threadsD[of "counted (length plans)", OF _ at] by (simp add: case_inv_def peak_inv_def counted_def)
    consider "\<not> observed < v" | "observed < v" "bt_max_active s = observed" | "observed < v" "observed < bt_max_active s"
      using le by linarith
    then show ?thesis
    proof cases
      case 1 then show ?thesis by (intro nearer_advance[OF at bench_step.keep_max[OF at]]) simp_all
    next
      case 2 then show ?thesis by (intro nearer_advance[OF at bench_step.swap[OF at]]) simp_all
    next
      case 3 then show ?thesis by (intro nearer_advance[OF at bench_step.swap_fails[OF at]]) simp_all
    qed
  next
    case Updated
    with pc show ?thesis by (intro near[OF bench_step.hold]) simp_all
  next
    case (Holding t)
    let ?s = "s\<lparr>bt_now := max (bt_now s) t\<rparr>"
    have at: "at_pc ?s i (Holding t)" using pc Holding by (simp add: at_pc_def)
    show ?thesis by (rule nearer_later, rule nearer_advance[OF at bench_step.call_release[OF at]]) simp_all
  next
    case Releasing
    with pc show ?thesis by (intro near[OF bench_step.vacate]) simp_all
  next
    case Vacated
    with pc show ?thesis by (intro near[OF bench_step.finish]) simp_all
  qed (use run in \<open>simp add: runnable_def\<close>)
qed

text \<open>A parked thread that is not ready waits for a lock whose owner can run.\<close>

lemma queued_lock:
  assumes "w \<in> set (queued t)" "um_wf (active t)"
  obtains k e where "regions t k = Some e"
proof -
  obtain k l where "(k, l) \<in> set (active t)" using assms(1) by (auto simp: queued_def)
  then have "regions t k = Some (sl_centroid l)" using assms(2) by (simp add: in_set_map_of regions_def)
  then show thesis by (rule that)
qed

lemma someone_runs:
  assumes inv: "case_inv F th plans s" and go: "bt_go s" and i: "i < length (bt_pcs s)" "bt_pcs s ! i \<noteq> Finished"
  shows "\<exists>j pc. at_pc s j pc \<and> runnable s pc"
proof (cases "runnable s (bt_pcs s ! i)")
  case True
  with i(1) show ?thesis by (auto simp: at_pc_def)
next
  case False
  have base: "base_inv F th plans s" using inv by (simp add: case_inv_def)
  obtain w tr where b: "bt_pcs s ! i = Blocked w tr" "\<not> wq_ready (waiter_heap (bt_table s) ! w)"
    using False go i(2) by (auto simp: runnable_def)
  then have "w \<in> set (queued (bt_table s))" using blocked_call(2)[OF base i(1) b(1)] by (auto simp: woken_def)
  then obtain k e where "regions (bt_table s) k = Some e" using queued_lock base_invD(6)[OF base] by blast
  then obtain j where "j < length (bt_pcs s)" "owns (bt_table s) (bt_pcs s ! j)" using region_owner[OF base] by blast
  then show ?thesis by (intro exI[of _ j] exI[of _ "bt_pcs s ! j"]) (auto simp: at_pc_def runnable_def owns_def woken_def)
qed

lemma case_nearer:
  assumes inv: "case_inv F th plans s" and "bt_execution s = None"
  shows "comes_nearer F th plans s"
proof -
  have shape: "length (bt_pcs s) \<le> length plans" and gate: "gate_inv s"
    using inv base_invD(8) by (auto simp: case_inv_def)
  consider (spawn) "length (bt_pcs s) < length plans" | (runs) "\<exists>j pc. at_pc s j pc \<and> runnable s pc"
    | (gathered) "length (bt_pcs s) = length plans" "\<not> bt_go s" "\<not> (\<exists>j pc. at_pc s j pc \<and> runnable s pc)"
    | (finished) "length (bt_pcs s) = length plans" "bt_go s" "\<forall>i<length (bt_pcs s). bt_pcs s ! i = Finished"
    using shape someone_runs[OF inv] by (metis le_neq_implies_less)
  then show ?thesis
  proof cases
    case spawn
    from bench_step.spawn[OF this] distance_spawn[OF this] show ?thesis unfolding comes_nearer_def by blast
  next
    case runs
    then show ?thesis using thread_nearer[OF inv] by blast
  next
    case gathered
    have "bt_pcs s ! i \<noteq> Spawned" if "i < length (bt_pcs s)" for i
      using gathered(3) that by (auto simp: at_pc_def runnable_def)
    then have "{i. i < length (bt_pcs s) \<and> bt_pcs s ! i \<noteq> Spawned} = {..<length (bt_pcs s)}" by auto
    then have "bt_ready s = length plans" using gate gathered(1) by (simp add: gate_inv_def)
    with gathered have "bench_step F th plans s (s\<lparr>bt_go := True, bt_release_time := bt_now s\<rparr>)" by (intro bench_step.go)
    moreover have "distance plans (s\<lparr>bt_go := True, bt_release_time := bt_now s\<rparr>) < distance plans s"
      using gathered(2) by (simp add: distance_def Let_def)
    ultimately show ?thesis unfolding comes_nearer_def by blast
  next
    case finished
    then have "bench_step F th plans s (s\<lparr>bt_execution := Some (case_execution s)\<rparr>)"
      using assms(2) by (intro bench_step.join) (auto simp: in_set_conv_nth)
    moreover have "distance plans (s\<lparr>bt_execution := Some (case_execution s)\<rparr>) < distance plans s"
      using assms(2) by (simp add: distance_def Let_def)
    ultimately show ?thesis unfolding comes_nearer_def by blast
  qed
qed

interpretation case_progress: progress "\<lambda>s. distinct (map pl_agent_id plans) \<and> initial_bench plans s"
  "bench_step F th plans" "case_inv F th plans" "\<lambda>s. bt_execution s \<noteq> None" "distance plans" for F th plans
  using case_nearer by unfold_locales (auto simp: comes_nearer_def)

end
