(* ===== verification/TestbenchProps.thy ===== *)
theory TestbenchProps
  imports TestbenchProgress BenchWorkloadLaws
begin

text \<open>
  The properties of the testbench's cases, with the plans of its scenarios as examples (under rounding-free
  arithmetic).
\<close>

section \<open>Embeddings of the scenarios\<close>

fun dot :: "real list \<Rightarrow> real list \<Rightarrow> real" where
  "dot (x # xs) (y # ys) = x * y + dot xs ys"
| "dot _ _ = 0"

lemma exact_loop:
  "length xs = length ys \<Longrightarrow> cosine_loop exact_fpu (map Fin xs) (map Fin ys) (Fin d) (Fin a) (Fin b)
    = (Fin (d + dot xs ys), Fin (a + dot xs xs), Fin (b + dot ys ys))"
  by (induction xs ys arbitrary: d a b rule: list_induct2) (simp_all add: exact_fpu_def fl_mul_def algebra_simps)

lemma exact_clamp: "to_float exact_fpu (fl_max (Fin (- 1)) (fl_min (Fin 1) (Fin q))) = Fin (max (- 1) (min 1 q))"
  by (auto simp: exact_fpu_def fl_max_def fl_min_def)

lemma exact_cosine:
  assumes "length xs = length ys" "xs \<noteq> []" "0 < dot xs xs" "0 < dot ys ys"
  shows "cosine_similarity exact_fpu (map Fin xs) (map Fin ys)
    = Fin (max (- 1) (min 1 (dot xs ys / (sqrt (dot xs xs) * sqrt (dot ys ys)))))"
proof -
  have "fl_div exact_fpu (Fin (dot xs ys)) (fl_mul exact_fpu (fl_sqrt exact_fpu (Fin (dot xs xs))) (fl_sqrt exact_fpu (Fin (dot ys ys))))
      = Fin (dot xs ys / (sqrt (dot xs xs) * sqrt (dot ys ys)))"
    using assms(3,4) by (simp add: exact_fpu_def fl_mul_def fl_div_def)
  moreover have "ys \<noteq> []" using assms(1,2) by auto
  ultimately show ?thesis
    using assms exact_loop[OF assms(1), of 0 0 0] unfolding cosine_similarity_def exact_clamp[symmetric] by (simp add: Let_def)
qed

lemma theta_clamp: "fl_le (kTheta exact_fpu) (Fin (max (- 1) (min 1 q))) \<longleftrightarrow> 85 / 100 \<le> q"
  by (auto simp: kTheta_def exact_fpu_def max_def min_def)

lemma exact_similar:
  assumes "length xs = length ys" "xs \<noteq> []" "1 \<le> dot xs xs" "1 \<le> dot ys ys"
  shows "fl_le (kTheta exact_fpu) (cosine_similarity exact_fpu (map Fin xs) (map Fin ys))
    \<longleftrightarrow> 85 / 100 \<le> dot xs ys / (sqrt (dot xs xs) * sqrt (dot ys ys))"
proof -
  have "0 < dot xs xs" "0 < dot ys ys" using assms(3,4) by linarith+
  from exact_cosine[OF assms(1,2) this] show ?thesis by (simp only: theta_clamp)
qed

text \<open>Vectors that are almost the same, and vectors that are almost orthogonal.\<close>

lemma close_vectors:
  assumes "length xs = length ys" "xs \<noteq> []" "1 \<le> dot xs ys"
    and "1 \<le> dot xs xs" "dot xs xs \<le> 11 / 10" "1 \<le> dot ys ys" "dot ys ys \<le> 11 / 10"
  shows "fl_le (kTheta exact_fpu) (cosine_similarity exact_fpu (map Fin xs) (map Fin ys))"
proof -
  let ?n = "sqrt (dot xs xs) * sqrt (dot ys ys)"
  have "dot xs xs * dot ys ys \<le> 11 / 10 * (11 / 10)" using assms(4-7) by (intro mult_mono) auto
  then have "?n \<le> sqrt ((11 / 10)\<^sup>2)" unfolding real_sqrt_mult[symmetric] by (simp add: power2_eq_square)
  then have n: "?n \<le> 11 / 10" by simp
  have pos: "0 < ?n" using assms(4,6) by simp
  then have "85 / 100 * ?n \<le> dot xs ys" using n assms(3) by linarith
  then have "85 / 100 \<le> dot xs ys / ?n" using pos by (simp only: pos_le_divide_eq)
  then show ?thesis by (simp only: exact_similar[OF assms(1,2,4,6)])
qed

lemma far_vectors:
  assumes "length xs = length ys" "xs \<noteq> []" "dot xs ys \<le> 1 / 10" "1 \<le> dot xs xs" "1 \<le> dot ys ys"
  shows "\<not> fl_le (kTheta exact_fpu) (cosine_similarity exact_fpu (map Fin xs) (map Fin ys))"
proof -
  let ?n = "sqrt (dot xs xs) * sqrt (dot ys ys)"
  have n: "1 \<le> ?n" using assms(4,5) by (simp add: mult_le_cancel_left1 order_trans[OF _ mult_mono[of 1 _ 1]])
  have "\<not> 85 / 100 * ?n \<le> dot xs ys" using n assms(3) by linarith
  moreover have "0 < ?n" using n by linarith
  ultimately have "\<not> 85 / 100 \<le> dot xs ys / ?n" by (simp only: pos_le_divide_eq not_False_eq_True)
  then show ?thesis by (simp only: exact_similar[OF assms(1,2,4,5)] not_False_eq_True)
qed

text \<open>The plans of the scenarios: the second conflicts throughout, the cold writer of the fourth with nobody.\<close>

lemma exact_vectors:
  "unit_vector k = map Fin ((replicate 8 0)[k := 1])"
  "hot = map Fin [1, 0, 0, 0, 0, 0, 0, 0]" "cold = map Fin [0, 1, 0, 0, 0, 0, 0, 0]"
  "hot_variant exact_fpu = map Fin [1, 1 / 100, 0, 0, 0, 0, 0, 0]"
  "hot_variant_two exact_fpu = map Fin [1, 0, 2 / 100, 0, 0, 0, 0, 0]"
proof -
  show "unit_vector k = map Fin ((replicate 8 0)[k := 1])" by (simp add: unit_vector_def map_update)
qed (simp_all add: hot_def cold_def hot_variant_def hot_variant_two_def unit_vector_def exact_fpu_def eval_nat_numeral)

lemma upt_5: "[0..<5] = [0, 1, 2, 3, 4 :: nat]"
  by (simp add: upt_rec)

lemma conflict_embeddings:
  assumes "i < 5"
  obtains k where "k \<in> {1, 2, 3}" "pl_embedding (conflict_plans exact_fpu ! i) = map Fin ([1, 0, 0, 0, 0, 0, 0, 0][k := real (i + 1) / 1000])"
proof -
  have "pl_embedding (conflict_plans exact_fpu ! i) = hot[i mod 3 + 1 := Fin (real (i + 1) / 1000)]"
    using assms by (simp add: conflict_plans_def agent_plan_def exact_fpu_def fl_mul_def)
  then have "pl_embedding (conflict_plans exact_fpu ! i) = map Fin ([1, 0, 0, 0, 0, 0, 0, 0][i mod 3 + 1 := real (i + 1) / 1000])"
    unfolding exact_vectors map_update .
  moreover have "i mod 3 + 1 \<in> {1, 2, 3}" using mod_less_divisor[of 3 i] by auto
  ultimately show thesis by (rule that[rotated])
qed

lemma small_product: "0 \<le> x \<Longrightarrow> x \<le> 1 / 100 \<Longrightarrow> 0 \<le> y \<Longrightarrow> y \<le> 1 / 100 \<Longrightarrow> 0 \<le> x * y \<and> x * y \<le> 1 / (10 :: real)"
  using mult_mono[of x "1 / 100" y "1 / 100"] by simp

lemma conflict_plans_similar: "all_similar exact_fpu (kTheta exact_fpu) (conflict_plans exact_fpu)"
  unfolding all_similar_def similar_def
proof (intro allI impI)
  fix i j assume "i < length (conflict_plans exact_fpu)" "j < length (conflict_plans exact_fpu)"
  then have i: "i < 5" and j: "j < 5" by (simp_all add: conflict_plans_def)
  obtain k where k: "k \<in> {1, 2, 3}" "pl_embedding (conflict_plans exact_fpu ! i) = map Fin ([1, 0, 0, 0, 0, 0, 0, 0][k := real (i + 1) / 1000])"
    by (rule conflict_embeddings[OF i])
  obtain l where l: "l \<in> {1, 2, 3}" "pl_embedding (conflict_plans exact_fpu ! j) = map Fin ([1, 0, 0, 0, 0, 0, 0, 0][l := real (j + 1) / 1000])"
    by (rule conflict_embeddings[OF j])
  have x: "0 \<le> real (i + 1) / 1000" "real (i + 1) / 1000 \<le> 1 / 100" and y: "0 \<le> real (j + 1) / 1000" "real (j + 1) / 1000 \<le> 1 / 100"
    using i j by simp_all
  show "fl_le (kTheta exact_fpu) (cosine_similarity exact_fpu (pl_embedding (conflict_plans exact_fpu ! i)) (pl_embedding (conflict_plans exact_fpu ! j)))"
    unfolding k(2) l(2)
    by (rule close_vectors) (use k(1) l(1) small_product[OF x y] small_product[OF x x] small_product[OF y y] in auto)
qed

lemma cold_writer_unrelated: "unrelated exact_fpu (kTheta exact_fpu) (hot_region_plans exact_fpu) 3"
proof -
  have e: "pl_embedding (hot_region_plans exact_fpu ! 0) = map Fin [1, 0, 0, 0, 0, 0, 0, 0]"
    "pl_embedding (hot_region_plans exact_fpu ! 1) = map Fin [1, 1 / 100, 0, 0, 0, 0, 0, 0]"
    "pl_embedding (hot_region_plans exact_fpu ! 2) = map Fin [1, 0, 2 / 100, 0, 0, 0, 0, 0]"
    "pl_embedding (hot_region_plans exact_fpu ! 3) = map Fin [0, 1, 0, 0, 0, 0, 0, 0]"
    by (simp_all only: exact_vectors[symmetric]) (simp_all add: hot_region_plans_def agent_plan_def)
  have "\<not> similar exact_fpu (kTheta exact_fpu) (hot_region_plans exact_fpu) 3 j" if "j = 0 \<or> j = 1 \<or> j = 2" for j
    unfolding similar_def e(4) using that
    by (elim disjE; simp only: e; intro far_vectors; simp)
  moreover have "j = 0 \<or> j = 1 \<or> j = 2" if "j < length (hot_region_plans exact_fpu)" "j \<noteq> 3" for j
    using that by (simp add: hot_region_plans_def) linarith
  ultimately show ?thesis by (auto simp: unrelated_def)
qed

section \<open>What an execution records\<close>

lemma returned_case:
  assumes "distinct (map pl_agent_id plans)" "case_returns F th plans execution"
  obtains s where "case_inv F th plans s" "execution = case_execution s" "length (bt_pcs s) = length plans"
    "\<And>i. i < length plans \<Longrightarrow> bt_pcs s ! i = Finished"
proof -
  obtain s0 s where s: "initial_bench plans s0" "(bench_step F th plans)\<^sup>*\<^sup>* s0 s" "bt_execution s = Some execution"
    using assms(2) by (auto simp: case_returns_def)
  then have inv: "case_inv F th plans s" using bench_case.reachable_invar assms(1) by blast
  then have "returned_inv plans s" by (simp add: case_inv_def)
  with s(3) have "execution = case_execution s" "length (bt_pcs s) = length plans" "\<forall>pc\<in>set (bt_pcs s). pc = Finished"
    by (simp_all add: returned_inv_def)
  then show thesis by (intro that[OF inv]) (auto dest: nth_mem)
qed

lemma any_overlap_pair:
  assumes "any_overlap results"
  obtains i j where "i < j" "j < length results" "tb_intervals_overlap (ar_interval (results ! i)) (ar_interval (results ! j))"
proof -
  have "\<exists>j<length results. \<exists>i<j. tb_intervals_overlap (ar_interval (results ! i)) (ar_interval (results ! j))"
    using assms
  proof (induction results)
    case (Cons r results)
    show ?case
    proof (cases "any_overlap results")
      case True
      then obtain i j where "j < length results" "i < j" "tb_intervals_overlap (ar_interval (results ! i)) (ar_interval (results ! j))"
        using Cons.IH by blast
      then show ?thesis by (intro exI[of _ "Suc j"] conjI exI[of _ "Suc i"]) simp_all
    next
      case False
      then obtain k where "k < length results" "tb_intervals_overlap (ar_interval r) (ar_interval (results ! k))"
        using Cons.prems by (auto simp: list_ex_iff in_set_conv_nth)
      then show ?thesis by (intro exI[of _ "Suc k"] conjI exI[of _ 0]) simp_all
    qed
  qed simp
  then show thesis using that by blast
qed

lemma case_exists:
  assumes "distinct (map pl_agent_id plans)" shows "\<exists>execution. case_returns F th plans execution"
proof -
  obtain s where s: "initial_bench plans s" by (simp add: initial_bench_def)
  have "case_inv F th plans s" by (rule case_start[OF assms s])
  from case_progress.reaches_goal[OF this] s show ?thesis by (auto simp: case_returns_def)
qed

lemma execution_facts:
  assumes dist: "distinct (map pl_agent_id plans)" and ret: "case_returns F th plans execution"
  shows "length (ce_results execution) = length plans"
    and "i < length plans \<Longrightarrow> iv_agent_id (ar_interval (ce_results execution ! i)) = pl_agent_id (plans ! i)"
    and "i < length plans \<Longrightarrow> tr_wake_count (ar_trace (ce_results execution ! i)) = (if tr_waited (ar_trace (ce_results execution ! i)) then 1 else 0)"
    and "i < length plans \<Longrightarrow> unrelated F th plans i \<Longrightarrow> \<not> tr_waited (ar_trace (ce_results execution ! i))"
    and "i < length plans \<Longrightarrow> find_agent (ce_results execution) (pl_agent_id (plans ! i)) = Some (ce_results execution ! i)"
proof -
  obtain s where inv: "case_inv F th plans s" and e: "execution = case_execution s" and n: "length (bt_pcs s) = length plans"
    and fin: "\<And>i. i < length plans \<Longrightarrow> bt_pcs s ! i = Finished" using returned_case[OF dist ret] by blast
  have res: "ce_results execution = bt_results s" by (simp add: e case_execution_def)
  show len: "length (ce_results execution) = length plans" using inv base_invD(1) by (auto simp: case_inv_def shape_inv_def res)
  have t: "timed plans i s Finished (bt_results s ! i) \<and> traced i s Finished (bt_results s ! i) \<and> unblocked F th plans i s Finished (bt_results s ! i)"
    if "i < length plans" for i
    using inv fin[OF that] that n by (auto simp: case_inv_def threads_def)
  show id: "iv_agent_id (ar_interval (ce_results execution ! i)) = pl_agent_id (plans ! i)" if "i < length plans" for i
    using t[OF that] by (simp add: timed_def Let_def res)
  show "tr_wake_count (ar_trace (ce_results execution ! i)) = (if tr_waited (ar_trace (ce_results execution ! i)) then 1 else 0)" if "i < length plans"
    using t[OF that] by (simp add: traced_def res)
  show "\<not> tr_waited (ar_trace (ce_results execution ! i))" if "i < length plans" "unrelated F th plans i"
    using t[OF that(1)] that(2) by (simp add: unblocked_def res)
  show "find_agent (ce_results execution) (pl_agent_id (plans ! i)) = Some (ce_results execution ! i)" if i: "i < length plans"
  proof -
    have "iv_agent_id (ar_interval (ce_results execution ! j)) \<noteq> pl_agent_id (plans ! i)" if "j < i" for j
      using id[of j] that i agent_inj[OF dist, of j i] by auto
    then show ?thesis unfolding find_agent_def find_Some_iff using i id[OF i] len by (intro exI[of _ i]) simp
  qed
qed

lemma serial_pair:
  assumes dist: "distinct (map pl_agent_id plans)" and ret: "case_returns F th plans execution"
    and ij: "i < length plans" "j < length plans" "i \<noteq> j" "similar F th plans i j"
  shows "\<not> tb_intervals_overlap (ar_interval (ce_results execution ! i)) (ar_interval (ce_results execution ! j))"
proof -
  obtain s where s: "case_inv F th plans s" "execution = case_execution s" "length (bt_pcs s) = length plans"
    "\<And>i. i < length plans \<Longrightarrow> bt_pcs s ! i = Finished" using returned_case[OF dist ret] by blast
  have "before s i j \<or> before s j i" using s ij by (simp add: case_inv_def order_inv_def)
  then show ?thesis by (auto simp: before_def tb_intervals_overlap_def s(2) case_execution_def release_call_at_def success_at_def)
qed

lemma serial_case:
  assumes dist: "distinct (map pl_agent_id plans)" and ret: "case_returns F th plans execution"
    and sim: "all_similar F th plans"
  shows "\<not> ce_has_overlap execution" "ce_max_active execution \<le> 1"
proof -
  obtain s where s: "case_inv F th plans s" "execution = case_execution s" using returned_case[OF dist ret] by blast
  then show "ce_max_active execution \<le> 1" using sim by (simp add: case_execution_def case_inv_def peak_inv_def)
  have "\<not> any_overlap (ce_results execution)"
  proof
    assume "any_overlap (ce_results execution)"
    then obtain i j where "i < j" "j < length plans"
        "tb_intervals_overlap (ar_interval (ce_results execution ! i)) (ar_interval (ce_results execution ! j))"
      using any_overlap_pair execution_facts(1)[OF dist ret] by metis
    then show False using serial_pair[OF dist ret, of i j] sim by (simp add: all_similar_def)
  qed
  then show "\<not> ce_has_overlap execution" using s(2) by (simp add: case_execution_def)
qed

section \<open>Properties\<close>

text \<open>C5: threads that conflict hold their locks one after the other. When a case of the testbench returns, under
  any interleaving of its threads, each result is the one of its plan, its stamps are in order and it
  held its lock for at least the planned time; the intervals of two agents with similar embeddings do
  not overlap; and if all embeddings of the case are similar no overlap is reported and never more than
  one lock was counted as active.\<close>

theorem testbench_serialises:
  assumes "distinct (map pl_agent_id plans)" "case_returns F th plans execution"
  shows "length (ce_results execution) = length plans
    \<and> (\<forall>i<length plans. let plan = plans ! i; iv = ar_interval (ce_results execution ! i) in
        iv_agent_id iv = pl_agent_id plan \<and> iv_acquire_start_us iv \<le> iv_acquire_success_us iv
        \<and> iv_acquire_success_us iv + pl_hold_ms plan * 1000 \<le> iv_release_call_us iv
        \<and> iv_acquire_success_us iv \<le> iv_release_call_us iv \<and> iv_release_call_us iv \<le> iv_release_us iv)
    \<and> (\<forall>i<length plans. \<forall>j<length plans. i \<noteq> j \<longrightarrow> similar F th plans i j \<longrightarrow>
        \<not> tb_intervals_overlap (ar_interval (ce_results execution ! i)) (ar_interval (ce_results execution ! j)))
    \<and> ce_max_active execution \<le> length plans
    \<and> (all_similar F th plans \<longrightarrow> \<not> ce_has_overlap execution \<and> ce_max_active execution \<le> 1)"
proof -
  obtain s where inv: "case_inv F th plans s" and e: "execution = case_execution s" and n: "length (bt_pcs s) = length plans"
    and fin: "\<And>i. i < length plans \<Longrightarrow> bt_pcs s ! i = Finished" using returned_case[OF assms] by blast
  have res: "ce_results execution = bt_results s" by (simp add: e case_execution_def)
  note len = execution_facts(1)[OF assms]
  have t: "timed plans i s Finished (bt_results s ! i)" if "i < length plans" for i
    using inv fin[OF that] that n by (auto simp: case_inv_def threads_def)
  have "ce_max_active execution \<le> length plans" using inv by (simp add: e case_execution_def case_inv_def peak_inv_def)
  then show ?thesis using len t serial_pair[OF assms] serial_case[OF assms] by (auto simp: res timed_def Let_def)
qed

theorem testbench_serialises_witness:
  "\<exists>execution. case_returns exact_fpu (kTheta exact_fpu) (conflict_plans exact_fpu) execution
     \<and> \<not> ce_has_overlap execution \<and> ce_max_active execution \<le> 1"
proof -
  have d: "distinct (map pl_agent_id (conflict_plans exact_fpu))"
    by (simp add: conflict_plans_def agent_plan_def upt_5)
  obtain execution where "case_returns exact_fpu (kTheta exact_fpu) (conflict_plans exact_fpu) execution"
    using case_exists[OF d] by blast
  with testbench_serialises[OF d this] conflict_plans_similar show ?thesis by blast
qed

text \<open>C6: a case of the testbench ends. From every state that its threads can reach the case can return, and it
  cannot run forever: each step brings it nearer to the end, unless it is the passing of time or a
  spurious failure of \<^verbatim>\<open>compare_exchange_weak\<close>, which change nothing else. As long as the case has not
  returned, steps that bring it nearer are possible, so no thread waits for a wake-up that never comes.\<close>

theorem testbench_case_ends:
  assumes "distinct (map pl_agent_id plans)" "initial_bench plans s0" "(bench_step F th plans)\<^sup>*\<^sup>* s0 s"
  shows "(\<exists>s'. (bench_step F th plans)\<^sup>*\<^sup>* s s' \<and> bt_execution s' \<noteq> None)
    \<and> (\<forall>s'. bench_step F th plans s s' \<longrightarrow> distance plans s' < distance plans s \<or> s' = s \<or> (\<exists>t. s' = s\<lparr>bt_now := t\<rparr>))
    \<and> (bt_execution s = None \<longrightarrow> (\<exists>s'. (bench_step F th plans)\<^sup>*\<^sup>* s s' \<and> distance plans s' < distance plans s))"
proof -
  have inv: "case_inv F th plans s" using bench_case.reachable_invar assms by blast
  show ?thesis using case_progress.reaches_goal[OF inv] step_distance[OF _ inv] case_nearer[OF inv]
    unfolding comes_nearer_def by blast
qed

theorem testbench_case_ends_witness:
  "\<exists>s. bt_execution s \<noteq> None \<and> (\<exists>s0. initial_bench [agent_plan ''A'' hot 0 0] s0
     \<and> (bench_step exact_fpu (kTheta exact_fpu) [agent_plan ''A'' hot 0 0])\<^sup>*\<^sup>* s0 s)"
proof -
  let ?plans = "[agent_plan ''A'' hot 0 0]"
  have d: "distinct (map pl_agent_id ?plans)" by simp
  obtain s0 where s0: "initial_bench ?plans s0" by (simp add: initial_bench_def)
  from testbench_case_ends[OF d s0 rtranclp.rtrancl_refl] s0 show ?thesis by blast
qed

lemma case_scenario_agents [simp]:
  "distinct (map pl_agent_id (conflict_plans F))" "distinct (map pl_agent_id (hot_region_plans F))"
  "distinct (map pl_agent_id (isolated_wakes_plans F))"
  by (simp_all add: conflict_plans_def hot_region_plans_def isolated_wakes_plans_def agent_plan_def upt_5)

text \<open>What the checks of the last two scenarios come to.\<close>

lemma hot_region_verdict:
  assumes ret: "case_returns F th (hot_region_plans F) e" and free: "unrelated F th (hot_region_plans F) 3"
  shows "list_all snd (hot_region_checks e) \<longleftrightarrow>
    success_us (ce_results e ! 3) < iv_release_call_us (ar_interval (ce_results e ! 0))
    \<and> success_us (ce_results e ! 1) \<le> success_us (ce_results e ! 2)"
proof -
  have n: "length (hot_region_plans F) = 4" by (simp add: hot_region_plans_def)
  note f = execution_facts(5)[OF _ ret, simplified case_scenario_agents simp_thms n]
  have "find_agent (ce_results e) ''hot-holder'' = Some (ce_results e ! 0)" "find_agent (ce_results e) ''hot-waiter-1'' = Some (ce_results e ! 1)"
    "find_agent (ce_results e) ''hot-waiter-2'' = Some (ce_results e ! 2)" "find_agent (ce_results e) ''cold-writer'' = Some (ce_results e ! 3)"
    using f[of 0] f[of 1] f[of 2] f[of 3] by (simp_all add: hot_region_plans_def agent_plan_def)
  moreover have "\<not> tr_waited (ar_trace (ce_results e ! 3))"
    by (rule execution_facts(4)[OF _ ret _ free]) (simp_all add: n)
  ultimately show ?thesis by (simp add: hot_region_checks_def Let_def agent_check_def agents_check_def)
qed

lemma isolated_wakes_verdict:
  assumes ret: "case_returns F th (isolated_wakes_plans F) e"
  shows "list_all snd (isolated_wakes_checks e) \<longleftrightarrow> tr_waited (ar_trace (ce_results e ! 2)) \<and> tr_waited (ar_trace (ce_results e ! 3))
    \<and> success_us (ce_results e ! 2) < success_us (ce_results e ! 3)"
proof -
  have n: "length (isolated_wakes_plans F) = 4" by (simp add: isolated_wakes_plans_def)
  note f = execution_facts(5)[OF _ ret, simplified case_scenario_agents simp_thms n]
  note w = execution_facts(3)[OF _ ret, simplified case_scenario_agents simp_thms n]
  have "find_agent (ce_results e) ''alpha-waiter'' = Some (ce_results e ! 2)" "find_agent (ce_results e) ''beta-waiter'' = Some (ce_results e ! 3)"
    using f[of 2] f[of 3] by (simp_all add: isolated_wakes_plans_def agent_plan_def)
  then show ?thesis
    using w[of 2] w[of 3] by (simp add: isolated_wakes_checks_def Let_def agent_check_def agents_check_def)
qed

text \<open>What exit code 0 of the testbench depends on. If the embeddings of the second scenario are similar and those
  of the cold writer in the fourth are not, then under every interleaving its checks that the second
  scenario is serialized and that the cold writer is not blocked hold. The checks that a waiter of the
  fifth woke once only tell that it had to wait: a thread that waits is woken exactly once. The exit code
  is 0 just when the remaining checks hold, which compare times and counts of one run.\<close>

theorem testbench_verdict:
  assumes "case_returns F (kTheta F) (conflict_plans F) conflict" "all_similar F (kTheta F) (conflict_plans F)"
    and "case_returns F (kTheta F) (hot_region_plans F) hot_region" "unrelated F (kTheta F) (hot_region_plans F) 3"
    and "case_returns F (kTheta F) (isolated_wakes_plans F) isolated"
  shows "testbench_exit (testbench_checks free conflict fifo hot_region isolated) = 0 \<longleftrightarrow>
    ce_has_overlap free \<and> ce_max_active free > 1 \<and> list_all snd (fifo_checks fifo)
    \<and> success_us (ce_results hot_region ! 3) < iv_release_call_us (ar_interval (ce_results hot_region ! 0))
    \<and> success_us (ce_results hot_region ! 1) \<le> success_us (ce_results hot_region ! 2)
    \<and> tr_waited (ar_trace (ce_results isolated ! 2)) \<and> tr_waited (ar_trace (ce_results isolated ! 3))
    \<and> success_us (ce_results isolated ! 2) < success_us (ce_results isolated ! 3)"
proof -
  have "\<not> ce_has_overlap conflict" "ce_max_active conflict \<le> 1"
    using serial_case[OF _ assms(1,2)] by simp_all
  then show ?thesis
    using hot_region_verdict[OF assms(3,4)] isolated_wakes_verdict[OF assms(5)]
    by (simp add: testbench_exit_def overall_pass_def testbench_checks_def)
qed

text \<open>With rounding-free arithmetic the embeddings are as assumed, and executions exist.\<close>

theorem testbench_verdict_witness:
  "\<exists>conflict hot_region isolated. case_returns exact_fpu (kTheta exact_fpu) (isolated_wakes_plans exact_fpu) isolated
    \<and> (\<forall>free fifo. (testbench_exit (testbench_checks free conflict fifo hot_region isolated) = 0) =
      (ce_has_overlap free \<and> ce_max_active free > 1 \<and> list_all snd (fifo_checks fifo)
      \<and> success_us (ce_results hot_region ! 3) < iv_release_call_us (ar_interval (ce_results hot_region ! 0))
      \<and> success_us (ce_results hot_region ! 1) \<le> success_us (ce_results hot_region ! 2)
      \<and> tr_waited (ar_trace (ce_results isolated ! 2)) \<and> tr_waited (ar_trace (ce_results isolated ! 3))
      \<and> success_us (ce_results isolated ! 2) < success_us (ce_results isolated ! 3)))"
proof -
  obtain e1 e2 e3 where "case_returns exact_fpu (kTheta exact_fpu) (conflict_plans exact_fpu) e1"
    "case_returns exact_fpu (kTheta exact_fpu) (hot_region_plans exact_fpu) e2"
    "case_returns exact_fpu (kTheta exact_fpu) (isolated_wakes_plans exact_fpu) e3"
    using case_exists case_scenario_agents by metis
  from testbench_verdict[OF this(1) conflict_plans_similar this(2) cold_writer_unrelated this(3)] this(3)
  show ?thesis by blast
qed

end
